(* ===== verification/Go_Base.thy ===== *)
theory Go_Base
  imports Main "HOL-Library.List_Lexorder" "HOL-Library.Char_ord" "HOL-Library.Multiset" "HOL-Library.AList"
begin

text \<open>
  The prelude of the development: the fragment of Go and of its standard library that the
  wrapper's packages use, and the lemmas the component theories share.

  \<^item> Go's \<open>string\<close> is a sequence of bytes, here \<^typ>\<open>string\<close> (a list of 8-bit
    characters). \<open>strings.ToLower\<close>, \<open>strings.ToUpper\<close> and \<open>strings.EqualFold\<close> are given
    by their ASCII behaviour; host names, dialect codes, SQL keywords and status values are
    ASCII.
  \<^item> Go's \<open>int\<close> is a 64-bit signed integer, here \<^typ>\<open>int\<close> with the wrap-around
    \<open>wrap64\<close> written at the additions that can overflow.
  \<^item> A function with results \<open>(T, error)\<close> returns \<open>go_error + 'a\<close>: \<open>Inl\<close> is a non-nil
    error. A run-time panic is the error \<open>Panic\<close>.
  \<^item> A pointer that may be nil, and a map that may be nil, is an \<open>option\<close>.
  \<^item> \<open>time.Time\<close> and \<open>time.Duration\<close> are nanosecond counts (\<^typ>\<open>int\<close>); every
    operation that calls \<open>time.Now()\<close> takes the clock reading as an argument.
\<close>

type_synonym time = int
type_synonym duration = int

section \<open>Errors\<close>

text \<open>\<open>awssql/error_util/errors.go\<close>. The message of an error is identified by its key in
  \<open>awssql/resources/en.json\<close>.\<close>

datatype AwsWrapperErrorType =
    GenericAwsWrapperErrorType
  | UnsupportedStrategyErrorType
  | UnsupportedMethodErrorType
  | IllegalArgumentErrorType
  | LoginErrorType
  | InternalQueryTimeoutErrorType
  | UnavailableHostErrorType
  | DsnParsingErrorType
  | TimeoutErrorType
  | FailoverSuccessErrorType
  | FailoverFailedErrorType
  | TransactionResolutionUnknownErrorType

fun errorTypeCode :: "AwsWrapperErrorType \<Rightarrow> int" where
  "errorTypeCode GenericAwsWrapperErrorType = 0"
| "errorTypeCode UnsupportedStrategyErrorType = 1"
| "errorTypeCode UnsupportedMethodErrorType = 2"
| "errorTypeCode IllegalArgumentErrorType = 3"
| "errorTypeCode LoginErrorType = 4"
| "errorTypeCode InternalQueryTimeoutErrorType = 5"
| "errorTypeCode UnavailableHostErrorType = 6"
| "errorTypeCode DsnParsingErrorType = 7"
| "errorTypeCode TimeoutErrorType = 8"
| "errorTypeCode FailoverSuccessErrorType = 300"
| "errorTypeCode FailoverFailedErrorType = 301"
| "errorTypeCode TransactionResolutionUnknownErrorType = 302"

text \<open>An \<open>error\<close> value: the wrapper's own \<open>AwsWrapperError\<close>, an error made by
  \<open>errors.New\<close>, an error that a driver or another outside component returned, or a run-time
  panic.\<close>

datatype go_error =
    AwsWrapperError string AwsWrapperErrorType
  | ErrorsNew string
  | ExternalError string
  | Panic string

definition IsType :: "go_error \<Rightarrow> AwsWrapperErrorType \<Rightarrow> bool" where
  "IsType err errorType = (case err of AwsWrapperError _ t \<Rightarrow> t = errorType | _ \<Rightarrow> False)"

definition IsFailoverErrorType :: "AwsWrapperErrorType \<Rightarrow> bool" where
  "IsFailoverErrorType t = (errorTypeCode t \<ge> 300)"

definition NewGenericAwsWrapperError :: "string \<Rightarrow> go_error" where
  "NewGenericAwsWrapperError message = AwsWrapperError message GenericAwsWrapperErrorType"

definition NewUnsupportedStrategyError :: "string \<Rightarrow> go_error" where
  "NewUnsupportedStrategyError message = AwsWrapperError message UnsupportedStrategyErrorType"

definition NewIllegalArgumentError :: "string \<Rightarrow> go_error" where
  "NewIllegalArgumentError message = AwsWrapperError message IllegalArgumentErrorType"

definition NewFailoverFailedError :: "string \<Rightarrow> go_error" where
  "NewFailoverFailedError message = AwsWrapperError message FailoverFailedErrorType"

definition NewDsnParsingError :: "string \<Rightarrow> go_error" where
  "NewDsnParsingError message = AwsWrapperError message DsnParsingErrorType"

definition ShouldNotBeCalledError :: go_error where
  "ShouldNotBeCalledError = AwsWrapperError ''Shouldn't be called.'' GenericAwsWrapperErrorType"

definition FailoverSuccessError :: go_error where
  "FailoverSuccessError = AwsWrapperError ''Failover.connectionChangedError'' FailoverSuccessErrorType"

definition TransactionResolutionUnknownError :: go_error where
  "TransactionResolutionUnknownError =
     AwsWrapperError ''Failover.transactionResolutionUnknownError'' TransactionResolutionUnknownErrorType"

lemma IsFailoverErrorType_iff:
  "IsFailoverErrorType t \<longleftrightarrow>
     t \<in> {FailoverSuccessErrorType, FailoverFailedErrorType, TransactionResolutionUnknownErrorType}"
  by (cases t) (simp_all add: IsFailoverErrorType_def)

lemma errorTypeCode_inj: "errorTypeCode a = errorTypeCode b \<Longrightarrow> a = b"
  by (cases a; cases b) simp_all

text \<open>Sequencing of fallible steps: the early return on \<open>err != nil\<close>.\<close>

fun bindR :: "'e + 'a \<Rightarrow> ('a \<Rightarrow> 'e + 'b) \<Rightarrow> 'e + 'b" where
  "bindR (Inl e) f = Inl e"
| "bindR (Inr a) f = f a"

lemma bindR_Inr_iff: "bindR m f = Inr b \<longleftrightarrow> (\<exists>a. m = Inr a \<and> f a = Inr b)"
  by (cases m) simp_all

lemma bindR_Inl_iff: "bindR m f = Inl e \<longleftrightarrow> m = Inl e \<or> (\<exists>a. m = Inr a \<and> f a = Inl e)"
  by (cases m) simp_all

lemma bindR_assoc: "bindR (bindR m f) g = bindR m (\<lambda>a. bindR (f a) g)"
  by (cases m) simp_all

section \<open>Machine integers\<close>

definition MaxInt64 :: int where "MaxInt64 = 2 ^ 63 - 1"
definition MinInt64 :: int where "MinInt64 = - (2 ^ 63)"

definition in_int64 :: "int \<Rightarrow> bool" where
  "in_int64 n \<longleftrightarrow> MinInt64 \<le> n \<and> n \<le> MaxInt64"

text \<open>The value a Go \<open>int\<close> expression has when its mathematical value is \<open>n\<close>.\<close>

definition wrap64 :: "int \<Rightarrow> int" where
  "wrap64 n = (n + 2 ^ 63) mod 2 ^ 64 - 2 ^ 63"

lemma wrap64_range: "in_int64 (wrap64 n)"
proof -
  have "0 \<le> (n + 2 ^ 63) mod (2 ^ 64 :: int)" "(n + 2 ^ 63) mod (2 ^ 64 :: int) < 2 ^ 64"
    by simp_all
  then show ?thesis
    by (simp add: in_int64_def wrap64_def MinInt64_def MaxInt64_def)
qed

lemma wrap64_id: "in_int64 n \<Longrightarrow> wrap64 n = n"
  by (simp add: in_int64_def wrap64_def MinInt64_def MaxInt64_def)

lemma wrap64_id_iff: "wrap64 n = n \<longleftrightarrow> in_int64 n"
  using wrap64_range [of n] wrap64_id by metis

section \<open>Strings\<close>

definition is_upper :: "char \<Rightarrow> bool" where
  "is_upper c \<longleftrightarrow> 65 \<le> (of_char c :: nat) \<and> (of_char c :: nat) \<le> 90"

definition is_lower :: "char \<Rightarrow> bool" where
  "is_lower c \<longleftrightarrow> 97 \<le> (of_char c :: nat) \<and> (of_char c :: nat) \<le> 122"

definition is_digit :: "char \<Rightarrow> bool" where
  "is_digit c \<longleftrightarrow> 48 \<le> (of_char c :: nat) \<and> (of_char c :: nat) \<le> 57"

text \<open>The ASCII white space of \<open>strings.TrimSpace\<close>: tab, newline, vertical tab, form feed,
  carriage return and space.\<close>

definition is_space :: "char \<Rightarrow> bool" where
  "is_space c \<longleftrightarrow> (of_char c :: nat) \<in> {9, 10, 11, 12, 13, 32}"

definition lower_char :: "char \<Rightarrow> char" where
  "lower_char c = (if is_upper c then char_of ((of_char c :: nat) + 32) else c)"

definition upper_char :: "char \<Rightarrow> char" where
  "upper_char c = (if is_lower c then char_of ((of_char c :: nat) - 32) else c)"

definition ToLower :: "string \<Rightarrow> string" where
  "ToLower = map lower_char"

definition ToUpper :: "string \<Rightarrow> string" where
  "ToUpper = map upper_char"

definition EqualFold :: "string \<Rightarrow> string \<Rightarrow> bool" where
  "EqualFold a b \<longleftrightarrow> ToLower a = ToLower b"

fun HasPrefix :: "string \<Rightarrow> string \<Rightarrow> bool" where
  "HasPrefix s [] = True"
| "HasPrefix [] (p # ps) = False"
| "HasPrefix (c # s) (p # ps) = (c = p \<and> HasPrefix s ps)"

definition HasSuffix :: "string \<Rightarrow> string \<Rightarrow> bool" where
  "HasSuffix s suf = HasPrefix (rev s) (rev suf)"

text \<open>\<open>strings.Index\<close>: the first position of the substring, \<open>None\<close> for Go's \<open>-1\<close>.\<close>

fun Index :: "string \<Rightarrow> string \<Rightarrow> nat option" where
  "Index [] sub = (if sub = [] then Some 0 else None)"
| "Index (c # s) sub = (if HasPrefix (c # s) sub then Some 0 else map_option Suc (Index s sub))"

definition Contains :: "string \<Rightarrow> string \<Rightarrow> bool" where
  "Contains s sub \<longleftrightarrow> Index s sub \<noteq> None"

text \<open>\<open>strings.Split\<close> with a one-byte separator: always at least one field.\<close>

fun Split :: "string \<Rightarrow> char \<Rightarrow> string list" where
  "Split [] sep = [[]]"
| "Split (c # s) sep =
     (if c = sep then [] # Split s sep
      else (case Split s sep of [] \<Rightarrow> [[c]] | w # ws \<Rightarrow> (c # w) # ws))"

definition TrimLeftSpace :: "string \<Rightarrow> string" where
  "TrimLeftSpace = dropWhile is_space"

definition TrimSpace :: "string \<Rightarrow> string" where
  "TrimSpace s = rev (dropWhile is_space (rev (dropWhile is_space s)))"

text \<open>\<open>strings.Join\<close> with a separator.\<close>

fun Join :: "string list \<Rightarrow> string \<Rightarrow> string" where
  "Join [] sep = []"
| "Join [w] sep = w"
| "Join (w # ws) sep = w @ sep @ Join ws sep"

text \<open>\<open>strings.Replace(s, old, new, 1)\<close> for a non-empty \<open>old\<close>.\<close>

definition ReplaceFirst :: "string \<Rightarrow> string \<Rightarrow> string \<Rightarrow> string" where
  "ReplaceFirst s old new =
     (case Index s old of None \<Rightarrow> s | Some i \<Rightarrow> take i s @ new @ drop (i + length old) s)"

lemma HasPrefix_append: "HasPrefix s p \<longleftrightarrow> (\<exists>t. s = p @ t)"
  by (induction s p rule: HasPrefix.induct) auto

lemma HasPrefix_self [simp]: "HasPrefix (p @ t) p"
  by (auto simp: HasPrefix_append)

lemma Split_nonempty [simp]: "Split s sep \<noteq> []"
  by (induction s) (auto split: list.splits)

text \<open>Joining the fields of a split with the separator gives the string back, and no field
  holds the separator.\<close>

lemma Join_Cons: "ws \<noteq> [] \<Longrightarrow> Join (w # ws) sep = w @ sep @ Join ws sep"
  by (cases ws) simp_all

lemma Join_Split: "Join (Split s sep) [sep] = s"
proof (induction s)
  case Nil
  then show ?case by simp
next
  case (Cons c s)
  obtain w ws where w: "Split s sep = w # ws"
    by (cases "Split s sep") auto
  with Cons show ?case
    by (cases ws) (auto simp: Join_Cons)
qed

lemma Split_no_sep: "w \<in> set (Split s sep) \<Longrightarrow> sep \<notin> set w"
proof (induction s arbitrary: w)
  case Nil
  then show ?case by simp
next
  case (Cons c s)
  obtain v vs where v: "Split s sep = v # vs"
    by (cases "Split s sep") auto
  with Cons show ?case
    by (auto split: if_splits)
qed

lemma Split_no_occurrence: "sep \<notin> set s \<Longrightarrow> Split s sep = [s]"
  by (induction s) auto

lemma Split_append: "sep \<notin> set w \<Longrightarrow> Split (w @ sep # s) sep = w # Split s sep"
  by (induction w) auto

lemma Split_Join:
  "ws \<noteq> [] \<Longrightarrow> \<forall>w \<in> set ws. sep \<notin> set w \<Longrightarrow> Split (Join ws [sep]) sep = ws"
proof (induction ws)
  case Nil
  then show ?case by simp
next
  case (Cons w ws)
  then show ?case
    by (cases ws) (simp_all add: Split_no_occurrence Split_append Join_Cons)
qed

section \<open>Decimal numerals: \<open>strconv.Itoa\<close> and \<open>strconv.Atoi\<close>\<close>

definition digit_char :: "nat \<Rightarrow> char" where
  "digit_char d = char_of (48 + d)"

definition digit_val :: "char \<Rightarrow> nat" where
  "digit_val c = of_char c - 48"

fun dec_digits :: "nat \<Rightarrow> string" where
  "dec_digits n = (if n < 10 then [digit_char n] else dec_digits (n div 10) @ [digit_char (n mod 10)])"

declare dec_digits.simps [simp del]

definition Itoa :: "int \<Rightarrow> string" where
  "Itoa n = (if n < 0 then CHR ''-'' # dec_digits (nat (- n)) else dec_digits (nat n))"

definition dec_val :: "string \<Rightarrow> nat" where
  "dec_val s = foldl (\<lambda>acc c. 10 * acc + digit_val c) 0 s"

text \<open>\<open>strconv.Atoi\<close>: an optional sign, then one or more digits, and a value that fits in 64
  bits; \<open>None\<close> for a non-nil error.\<close>

definition Atoi :: "string \<Rightarrow> int option" where
  "Atoi s =
     (let neg = (case s of c # _ \<Rightarrow> c = CHR ''-'' | [] \<Rightarrow> False);
          digits = (case s of c # r \<Rightarrow> if c = CHR ''-'' \<or> c = CHR ''+'' then r else s | [] \<Rightarrow> []);
          n = (if neg then - int (dec_val digits) else int (dec_val digits))
      in if digits \<noteq> [] \<and> list_all is_digit digits \<and> in_int64 n then Some n else None)"

text \<open>\<open>strconv.ParseBool\<close>.\<close>

definition ParseBool :: "string \<Rightarrow> bool option" where
  "ParseBool s =
     (if s \<in> {''1'', ''t'', ''T'', ''TRUE'', ''true'', ''True''} then Some True
      else if s \<in> {''0'', ''f'', ''F'', ''FALSE'', ''false'', ''False''} then Some False
      else None)"

lemma of_char_digit_char: "d < 10 \<Longrightarrow> (of_char (digit_char d) :: nat) = 48 + d"
  by (simp add: digit_char_def)

lemma is_digit_digit_char: "d < 10 \<Longrightarrow> is_digit (digit_char d)"
  by (simp add: is_digit_def of_char_digit_char)

lemma digit_val_digit_char [simp]: "d < 10 \<Longrightarrow> digit_val (digit_char d) = d"
  by (simp add: digit_val_def of_char_digit_char)

lemma dec_val_snoc: "dec_val (s @ [c]) = 10 * dec_val s + digit_val c"
  by (simp add: dec_val_def)

lemma dec_digits_props: "dec_digits n \<noteq> [] \<and> list_all is_digit (dec_digits n) \<and> dec_val (dec_digits n) = n"
proof (induction n rule: dec_digits.induct)
  case (1 n)
  show ?case
  proof (cases "n < 10")
    case True
    then show ?thesis
      by (subst (1 2 3) dec_digits.simps) (simp add: is_digit_digit_char dec_val_def)
  next
    case False
    with "1.IH" have IH: "list_all is_digit (dec_digits (n div 10))" "dec_val (dec_digits (n div 10)) = n div 10"
      by simp_all
    with False show ?thesis
      by (subst (1 2 3) dec_digits.simps) (simp add: is_digit_digit_char dec_val_snoc)
  qed
qed

lemma dec_digits_hd: "\<exists>c r. dec_digits n = c # r \<and> is_digit c"
  using dec_digits_props [of n] by (cases "dec_digits n") auto

lemma not_digit_sign: "\<not> is_digit (CHR ''-'')" "\<not> is_digit (CHR ''+'')"
  by (simp_all add: is_digit_def)

lemma Atoi_Itoa: "in_int64 n \<Longrightarrow> Atoi (Itoa n) = Some n"
proof -
  assume n: "in_int64 n"
  obtain c r where c: "dec_digits (nat n) = c # r" "is_digit c"
    using dec_digits_hd by blast
  then have "c \<noteq> CHR ''-''" "c \<noteq> CHR ''+''"
    using not_digit_sign by auto
  then show ?thesis
    using n c dec_digits_props [of "nat n"] dec_digits_props [of "nat (- n)"]
    by (auto simp: Atoi_def Itoa_def Let_def)
qed

lemma Itoa_inj: "in_int64 m \<Longrightarrow> in_int64 n \<Longrightarrow> Itoa m = Itoa n \<Longrightarrow> m = n"
  using Atoi_Itoa by (metis option.inject)

section \<open>Slices and maps\<close>

text \<open>\<open>FilterSlice\<close> and its companions of \<open>awssql/utils/utils.go\<close>; a \<open>[]T\<close> is a list.\<close>

definition FilterSlice :: "'a list \<Rightarrow> ('a \<Rightarrow> bool) \<Rightarrow> 'a list" where
  "FilterSlice slice f = filter f slice"

text \<open>The zero value that \<open>FilterSliceFindFirst\<close> returns when nothing matches is \<open>None\<close>.\<close>

definition FilterSliceFindFirst :: "'a list \<Rightarrow> ('a \<Rightarrow> bool) \<Rightarrow> 'a option" where
  "FilterSliceFindFirst slice f = find f slice"

definition SliceAndMapHaveCommonElement :: "'a list \<Rightarrow> ('a \<rightharpoonup> 'b) \<Rightarrow> bool" where
  "SliceAndMapHaveCommonElement slice m = list_ex (\<lambda>x. m x \<noteq> None) slice"

fun IndexOf :: "'a list \<Rightarrow> 'a \<Rightarrow> ('a \<Rightarrow> 'a \<Rightarrow> bool) \<Rightarrow> nat option" where
  "IndexOf [] item eq = None"
| "IndexOf (v # vs) item eq = (if eq v item then Some 0 else map_option Suc (IndexOf vs item eq))"

definition RemoveFromSlice :: "'a list \<Rightarrow> 'a \<Rightarrow> ('a \<Rightarrow> 'a \<Rightarrow> bool) \<Rightarrow> 'a list" where
  "RemoveFromSlice slice item eq =
     (case IndexOf slice item eq of None \<Rightarrow> slice | Some i \<Rightarrow> take i slice @ drop (Suc i) slice)"

definition CombineMaps :: "('k \<rightharpoonup> 'v) \<Rightarrow> ('k \<rightharpoonup> 'v) \<Rightarrow> ('k \<rightharpoonup> 'v)" where
  "CombineMaps mapToCopy mapToAdd = mapToCopy ++ mapToAdd"

definition GetHostNameFromEndpoint :: "string \<Rightarrow> string" where
  "GetHostNameFromEndpoint endpoint = hd (Split endpoint (CHR ''.''))"

lemma IndexOf_Some:
  "IndexOf xs item eq = Some i \<Longrightarrow> i < length xs \<and> eq (xs ! i) item \<and> (\<forall>j<i. \<not> eq (xs ! j) item)"
proof (induction xs arbitrary: i)
  case Nil
  then show ?case by simp
next
  case (Cons v vs)
  show ?case
  proof (cases "eq v item")
    case True
    with Cons.prems show ?thesis by simp
  next
    case False
    with Cons.prems obtain k where "IndexOf vs item eq = Some k" "i = Suc k" by auto
    with Cons.IH [of k] False show ?thesis by (auto simp: nth_Cons split: nat.splits)
  qed
qed

lemma IndexOf_None: "IndexOf xs item eq = None \<longleftrightarrow> (\<forall>x \<in> set xs. \<not> eq x item)"
  by (induction xs) auto

text \<open>
  A Go map is an association list with distinct keys. Its order stands for the order in which
  \<open>range\<close> visits the entries, which Go leaves open: no theorem depends on it other than through
  sets and multisets. A lookup is \<open>map_of\<close>, an assignment \<open>mput\<close>, \<open>delete\<close> is \<open>mdel\<close>,
  \<open>len\<close> is \<open>length\<close>.
\<close>

type_synonym ('k, 'v) gomap = "('k \<times> 'v) list"

definition wf_map :: "('k, 'v) gomap \<Rightarrow> bool" where
  "wf_map m \<longleftrightarrow> distinct (map fst m)"

definition mput :: "'k \<Rightarrow> 'v \<Rightarrow> ('k, 'v) gomap \<Rightarrow> ('k, 'v) gomap" where
  "mput k v m = AList.update k v m"

definition mdel :: "'k \<Rightarrow> ('k, 'v) gomap \<Rightarrow> ('k, 'v) gomap" where
  "mdel k m = AList.delete k m"

lemma wf_map_Nil [simp]: "wf_map []"
  by (simp add: wf_map_def)

lemma wf_mput [simp]: "wf_map m \<Longrightarrow> wf_map (mput k v m)"
  by (simp add: wf_map_def mput_def distinct_update)

lemma wf_mdel [simp]: "wf_map m \<Longrightarrow> wf_map (mdel k m)"
  by (simp add: wf_map_def mdel_def distinct_delete)

lemma wf_filter [simp]: "wf_map m \<Longrightarrow> wf_map (filter p m)"
  by (induction m) (auto simp: wf_map_def)

lemma map_of_mput [simp]: "map_of (mput k v m) = (map_of m)(k \<mapsto> v)"
  by (simp add: mput_def update_conv')

lemma map_of_mdel [simp]: "map_of (mdel k m) = (map_of m)(k := None)"
  by (simp add: mdel_def delete_conv')

lemma map_of_filter_wf:
  "wf_map m \<Longrightarrow>
   map_of (filter p m) k = (case map_of m k of None \<Rightarrow> None | Some v \<Rightarrow> if p (k, v) then Some v else None)"
proof (induction m)
  case Nil
  then show ?case by simp
next
  case (Cons a m)
  then have "fst a \<notin> fst ` set m" and wf: "wf_map m" by (auto simp: wf_map_def)
  then have "map_of m (fst a) = None" by (simp add: map_of_eq_None_iff)
  with Cons.IH [OF wf] show ?case
    by (cases a) (auto split: option.splits)
qed

lemma map_of_rev_wf: "wf_map m \<Longrightarrow> map_of (rev m) = map_of m"
  by (intro map_of_inject_set [THEN iffD2]) (simp_all add: wf_map_def rev_map [symmetric])

lemma mset_mdel:
  assumes "wf_map m" "map_of m k = Some v"
  shows "mset m = add_mset (k, v) (mset (mdel k m))"
  using assms
proof (induction m)
  case Nil
  then show ?case by simp
next
  case (Cons a m)
  then show ?case
    by (cases a) (auto simp: wf_map_def mdel_def delete_id split: if_splits)
qed

lemma mdel_absent: "map_of m k = None \<Longrightarrow> mdel k m = m"
  by (simp add: mdel_def delete_id map_of_eq_None_iff)

lemma mput_absent: "map_of m k = None \<Longrightarrow> mset (mput k v m) = add_mset (k, v) (mset m)"
  by (induction m) (auto simp: mput_def split: if_splits)

lemma mput_present:
  "wf_map m \<Longrightarrow> map_of m k = Some w \<Longrightarrow> mset (mput k v m) = add_mset (k, v) (mset (mdel k m))"
proof (induction m)
  case Nil
  then show ?case by simp
next
  case (Cons a m)
  then show ?case
    by (cases a) (auto simp: wf_map_def mput_def mdel_def delete_id split: if_splits)
qed

text \<open>The multiset of the values a map holds.\<close>

definition values_of :: "('k, 'v) gomap \<Rightarrow> 'v multiset" where
  "values_of m = mset (map snd m)"

lemma values_of_mdel:
  "wf_map m \<Longrightarrow> map_of m k = Some v \<Longrightarrow> values_of m = add_mset v (values_of (mdel k m))"
  using mset_mdel [of m k v] by (simp add: values_of_def)

lemma values_of_mput_absent:
  "map_of m k = None \<Longrightarrow> values_of (mput k v m) = add_mset v (values_of m)"
  using mput_absent [of m k v] by (simp add: values_of_def)

lemma values_of_mput_present:
  "wf_map m \<Longrightarrow> map_of m k = Some w \<Longrightarrow> add_mset w (values_of (mput k v m)) = add_mset v (values_of m)"
  using mput_present [of m k w v] values_of_mdel [of m k w] by (simp add: values_of_def)

lemma values_of_filter:
  "values_of (filter p m) + values_of (filter (\<lambda>e. \<not> p e) m) = values_of m"
  by (induction m) (auto simp: values_of_def)

lemma mput_length_le: "length (mput k v m) \<le> Suc (length m)"
  by (induction m) (auto simp: mput_def)

text \<open>Composition of two balance equations (kept plus dropped is held plus stored).\<close>

lemma balance_trans:
  fixes a b c :: "'a multiset"
  assumes "b + d1 = a + i1" "c + d2 = b + i2"
  shows "c + (d1 + d2) = a + (i1 + i2)"
proof -
  have "c + (d1 + d2) = (c + d2) + d1" by (simp add: ac_simps)
  also have "\<dots> = (b + d1) + i2" using assms(2) by (simp add: ac_simps)
  also have "\<dots> = a + (i1 + i2)" using assms(1) by (simp add: ac_simps)
  finally show ?thesis .
qed

lemmas gomap_simps = values_of_mdel values_of_mput_absent values_of_mput_present mdel_absent

text \<open>Two sorted lists with the same elements are equal when their keys are distinct: what a
  sort by key returns does not then depend on how the sort treats equal keys.\<close>

lemma sort_key_unique:
  assumes "mset ys = mset xs" "sorted (map f ys)" "distinct (map f xs)"
  shows "ys = sort_key f xs"
proof -
  have inj: "inj_on f (set xs)" using assms(3) by (simp add: distinct_map)
  then show ?thesis
    using sort_key_inj_key_eq [OF assms(1) [symmetric] _ assms(2)] by simp
qed

end
