(* ===== verification/Host_Info.thy ===== *)
theory Host_Info
  imports Go_Base
begin

text \<open>
  Hosts and host lists: \<open>awssql/host_info_util/host_info.go\<close> and
  \<open>awssql/host_info_util/host_info_util.go\<close>. A \<open>*HostInfo\<close> that may be nil is a
  \<open>HostInfo option\<close>; dereferencing nil and writing to a nil map are panics. The alias maps
  \<open>map[string]bool\<close> only ever hold \<open>true\<close> and are sets, \<open>None\<close> being the nil map.
\<close>

datatype HostAvailability = AVAILABLE | UNAVAILABLE

text \<open>\<open>AnyRole\<close> is the empty string, which the host selectors take as "no role requested".\<close>

datatype HostRole = READER | WRITER | UNKNOWN | AnyRole

definition HOST_NO_PORT :: int where "HOST_NO_PORT = - 1"
definition HOST_DEFAULT_WEIGHT :: int where "HOST_DEFAULT_WEIGHT = 100"

record HostInfo =
  Host :: string
  HostId :: string
  Port :: int
  Availability :: HostAvailability
  Role :: HostRole
  Aliases :: "string set option"
  AllAliases :: "string set option"
  Weight :: int
  LastUpdateTime :: time

section \<open>Methods of HostInfo\<close>

definition IsPortSpecified :: "HostInfo option \<Rightarrow> bool" where
  "IsPortSpecified h = (case h of None \<Rightarrow> False | Some i \<Rightarrow> Port i \<noteq> HOST_NO_PORT)"

definition GetHost :: "HostInfo option \<Rightarrow> string" where
  "GetHost h = (case h of None \<Rightarrow> '''' | Some i \<Rightarrow> Host i)"

definition GetHostAndPort :: "HostInfo option \<Rightarrow> string" where
  "GetHostAndPort h =
     (case h of None \<Rightarrow> ''''
      | Some i \<Rightarrow> if IsPortSpecified h then Host i @ '':'' @ Itoa (Port i) else Host i)"

definition GetUrl :: "HostInfo option \<Rightarrow> string" where
  "GetUrl h = GetHostAndPort h @ ''/''"

text \<open>\<open>AddAlias\<close> does nothing on an empty alias or a nil receiver; a write to a nil map panics.\<close>

definition AddAlias :: "HostInfo option \<Rightarrow> string \<Rightarrow> go_error + HostInfo option" where
  "AddAlias h alias =
     (case h of None \<Rightarrow> Inr None
      | Some i \<Rightarrow>
          if alias = '''' then Inr h
          else (case (Aliases i, AllAliases i) of
                  (Some as, Some aas) \<Rightarrow>
                     Inr (Some (i\<lparr>Aliases := Some (insert alias as), AllAliases := Some (insert alias aas)\<rparr>))
                | _ \<Rightarrow> Inl (Panic ''assignment to entry in nil map'')))"

definition ResetAliases :: "HostInfo \<Rightarrow> HostInfo" where
  "ResetAliases i = i\<lparr>Aliases := Some {}, AllAliases := Some {GetHostAndPort (Some i)}\<rparr>"

definition GetAliases :: "HostInfo option \<Rightarrow> string set option" where
  "GetAliases h = Option.bind h Aliases"

definition GetAllAliases :: "HostInfo option \<Rightarrow> string set option" where
  "GetAllAliases h = Option.bind h AllAliases"

definition Equals :: "HostInfo \<Rightarrow> HostInfo \<Rightarrow> bool" where
  "Equals a b \<longleftrightarrow> Host a = Host b \<and> Port a = Port b \<and> Availability a = Availability b \<and>
                 Role a = Role b \<and> Weight a = Weight b"

text \<open>The zero \<open>time.Time\<close> is the instant 0 of the model's clock.\<close>

definition IsNil :: "HostInfo option \<Rightarrow> bool" where
  "IsNil h =
     (case h of None \<Rightarrow> True
      | Some i \<Rightarrow> Host i = '''' \<and> Port i = 0 \<and> Aliases i = None \<and> AllAliases i = None \<and>
                  HostId i = '''' \<and> Weight i = 0 \<and> LastUpdateTime i = 0)"

definition MakeCopyWithRole :: "HostInfo \<Rightarrow> HostRole \<Rightarrow> HostInfo" where
  "MakeCopyWithRole i role = i\<lparr>Role := role\<rparr>"

section \<open>HostInfoBuilder\<close>

record HostInfoBuilder =
  b_host :: string
  b_hostId :: string
  b_port :: int
  b_availability :: HostAvailability
  b_role :: HostRole
  b_weight :: int
  b_lastUpdateTime :: time

definition NewHostInfoBuilder :: HostInfoBuilder where
  "NewHostInfoBuilder =
     \<lparr>b_host = '''', b_hostId = '''', b_port = HOST_NO_PORT, b_availability = AVAILABLE, b_role = WRITER,
      b_weight = HOST_DEFAULT_WEIGHT, b_lastUpdateTime = 0\<rparr>"

definition SetHost :: "string \<Rightarrow> HostInfoBuilder \<Rightarrow> HostInfoBuilder" where
  "SetHost h b = b\<lparr>b_host := h\<rparr>"

definition SetPort :: "int \<Rightarrow> HostInfoBuilder \<Rightarrow> HostInfoBuilder" where
  "SetPort p b = b\<lparr>b_port := p\<rparr>"

definition SetAvailability :: "HostAvailability \<Rightarrow> HostInfoBuilder \<Rightarrow> HostInfoBuilder" where
  "SetAvailability a b = b\<lparr>b_availability := a\<rparr>"

definition SetRole :: "HostRole \<Rightarrow> HostInfoBuilder \<Rightarrow> HostInfoBuilder" where
  "SetRole r b = b\<lparr>b_role := r\<rparr>"

definition SetWeight :: "int \<Rightarrow> HostInfoBuilder \<Rightarrow> HostInfoBuilder" where
  "SetWeight w b = b\<lparr>b_weight := w\<rparr>"

definition SetHostId :: "string \<Rightarrow> HostInfoBuilder \<Rightarrow> HostInfoBuilder" where
  "SetHostId i b = b\<lparr>b_hostId := i\<rparr>"

definition SetLastUpdateTime :: "time \<Rightarrow> HostInfoBuilder \<Rightarrow> HostInfoBuilder" where
  "SetLastUpdateTime t b = b\<lparr>b_lastUpdateTime := t\<rparr>"

definition CopyFrom :: "HostInfo option \<Rightarrow> HostInfoBuilder \<Rightarrow> HostInfoBuilder" where
  "CopyFrom h b =
     (case h of None \<Rightarrow> b
      | Some i \<Rightarrow> \<lparr>b_host = Host i, b_hostId = HostId i, b_port = Port i, b_availability = Availability i,
                   b_role = Role i, b_weight = Weight i, b_lastUpdateTime = LastUpdateTime i\<rparr>)"

definition checkHostIsSet :: "HostInfoBuilder \<Rightarrow> go_error + unit" where
  "checkHostIsSet b =
     (if b_host b = '''' then Inl (NewIllegalArgumentError ''HostInfoBuilder.InvalidEmptyHost'') else Inr ())"

definition Build :: "HostInfoBuilder \<Rightarrow> go_error + HostInfo" where
  "Build b =
     bindR (checkHostIsSet b) (\<lambda>_.
       let i = \<lparr>Host = b_host b, HostId = b_hostId b, Port = b_port b, Availability = b_availability b,
                Role = b_role b, Aliases = Some {}, AllAliases = Some {}, Weight = b_weight b,
                LastUpdateTime = b_lastUpdateTime b\<rparr>
       in Inr (i\<lparr>AllAliases := Some {GetHostAndPort (Some i)}\<rparr>))"

section \<open>Host lists\<close>

text \<open>\<open>s1[i].Equals(s2[i])\<close> dereferences both pointers; the loop stops at the first difference.\<close>

fun hostsEqualLoop :: "HostInfo option list \<Rightarrow> HostInfo option list \<Rightarrow> go_error + bool" where
  "hostsEqualLoop (a # as) (b # bs) =
     (case (a, b) of
        (Some x, Some y) \<Rightarrow> if \<not> Equals x y then Inr False else hostsEqualLoop as bs
      | _ \<Rightarrow> Inl (Panic ''nil pointer dereference''))"
| "hostsEqualLoop _ _ = Inr True"

definition AreHostListsEqual :: "HostInfo option list \<Rightarrow> HostInfo option list \<Rightarrow> go_error + bool" where
  "AreHostListsEqual s1 s2 = (if length s1 \<noteq> length s2 then Inr False else hostsEqualLoop s1 s2)"

fun GetWriter :: "HostInfo option list \<Rightarrow> HostInfo option" where
  "GetWriter [] = None"
| "GetWriter (h # hs) =
     (case h of Some i \<Rightarrow> if Role i = WRITER then h else GetWriter hs | None \<Rightarrow> GetWriter hs)"

text \<open>\<open>slices.SortFunc\<close> by host name. The Go sort does not promise an order for equal names;
  \<open>sort_key_unique\<close> shows that for distinct names every sort gives this result.\<close>

definition GetReaders :: "HostInfo option list \<Rightarrow> HostInfo list" where
  "GetReaders hosts =
     sort_key Host (map the (filter (\<lambda>h. h \<noteq> None \<and> Role (the h) = READER) hosts))"

text \<open>The package function \<open>GetHostAndPort(host, port)\<close>.\<close>

definition GetHostAndPortOf :: "string \<Rightarrow> int \<Rightarrow> string" where
  "GetHostAndPortOf host port = (if port > 0 \<and> host \<noteq> '''' then host @ '':'' @ Itoa port else host)"

fun noneIn :: "HostInfo list \<Rightarrow> (string \<rightharpoonup> int) \<Rightarrow> bool" where
  "noneIn [] m = True"
| "noneIn (h # hs) m = (if m (Host h) \<noteq> None then False else noneIn hs m)"

definition HaveNoHostsInCommon :: "HostInfo list \<Rightarrow> HostInfo list \<Rightarrow> bool" where
  "HaveNoHostsInCommon hosts1 hosts2 =
     (let (mapSlice, checkSlice) =
            (if length hosts1 \<le> length hosts2 then (hosts1, hosts2) else (hosts2, hosts1));
          checkMap = foldl (\<lambda>m h. m(Host h \<mapsto> 0)) Map.empty mapSlice
      in noneIn checkSlice checkMap)"

definition IsHostInList :: "HostInfo option \<Rightarrow> HostInfo list \<Rightarrow> bool" where
  "IsHostInList host hosts =
     (case host of None \<Rightarrow> False
      | Some i \<Rightarrow> if length hosts < 1 then False else list_ex (\<lambda>h. Equals h i) hosts)"

definition CopyHostList :: "'a list option \<Rightarrow> 'a list option" where
  "CopyHostList hosts = hosts"

section \<open>Lemmas\<close>

lemmas host_method_defs =
  IsPortSpecified_def GetHost_def GetHostAndPort_def GetUrl_def AddAlias_def ResetAliases_def
  GetAliases_def GetAllAliases_def IsNil_def MakeCopyWithRole_def

lemmas builder_defs =
  NewHostInfoBuilder_def SetHost_def SetPort_def SetAvailability_def SetRole_def SetWeight_def
  SetHostId_def SetLastUpdateTime_def CopyFrom_def checkHostIsSet_def Build_def

text \<open>The well-formedness of a built host: both alias sets exist, every alias is among all
  aliases, and the host's own address is one of them.\<close>

definition wf_host :: "HostInfo \<Rightarrow> bool" where
  "wf_host i \<longleftrightarrow> Host i \<noteq> '''' \<and>
     (\<exists>as aas. Aliases i = Some as \<and> AllAliases i = Some aas \<and> as \<subseteq> aas \<and> GetHostAndPort (Some i) \<in> aas)"

lemma GetHostAndPort_frame [simp]:
  "GetHostAndPort (Some (i\<lparr>Aliases := x\<rparr>)) = GetHostAndPort (Some i)"
  "GetHostAndPort (Some (i\<lparr>AllAliases := y\<rparr>)) = GetHostAndPort (Some i)"
  "GetHostAndPort (Some (i\<lparr>Role := r\<rparr>)) = GetHostAndPort (Some i)"
  by (simp_all add: GetHostAndPort_def IsPortSpecified_def)

lemma Equals_refl [simp]: "Equals a a"
  by (simp add: Equals_def)

lemma Equals_sym: "Equals a b \<Longrightarrow> Equals b a"
  by (simp add: Equals_def)

lemma Equals_trans: "Equals a b \<Longrightarrow> Equals b c \<Longrightarrow> Equals a c"
  by (simp add: Equals_def)

lemma Build_wf: "Build b = Inr i \<Longrightarrow> wf_host i"
  by (auto simp: builder_defs wf_host_def host_method_defs Let_def split: if_splits)

lemma Build_Inl_iff: "(\<exists>e. Build b = Inl e) \<longleftrightarrow> b_host b = ''''"
  by (simp add: builder_defs Let_def)

lemma AddAlias_wf: "wf_host i \<Longrightarrow> \<exists>j. AddAlias (Some i) alias = Inr (Some j) \<and> wf_host j"
  by (cases "alias = ''''") (auto simp: wf_host_def AddAlias_def)

lemma ResetAliases_wf: "wf_host i \<Longrightarrow> wf_host (ResetAliases i)"
  by (auto simp: wf_host_def host_method_defs)

lemma MakeCopyWithRole_wf: "wf_host i \<Longrightarrow> wf_host (MakeCopyWithRole i r)"
  by (auto simp: wf_host_def host_method_defs)

lemma CopyFrom_Build:
  "Host i \<noteq> '''' \<Longrightarrow>
   Build (CopyFrom (Some i) b) = Inr (ResetAliases i)"
  by (cases i) (simp add: builder_defs host_method_defs Let_def)

lemma hostsEqualLoop_Some:
  "length as = length bs \<Longrightarrow>
   hostsEqualLoop (map Some as) (map Some bs) = Inr (list_all2 Equals as bs)"
  by (induction as bs rule: list_induct2) auto

lemma AreHostListsEqual_iff:
  "AreHostListsEqual (map Some as) (map Some bs) = Inr (list_all2 Equals as bs)"
  by (auto simp: AreHostListsEqual_def hostsEqualLoop_Some dest: list_all2_lengthD)

lemma GetWriter_find: "GetWriter hosts = Option.bind (find (\<lambda>h. h \<noteq> None \<and> Role (the h) = WRITER) hosts) id"
  by (induction hosts) (auto split: option.splits)

text \<open>\<open>GetWriter\<close> returns the first writer of the list.\<close>

lemma GetWriter_first:
  assumes "GetWriter hosts = Some w"
  shows "\<exists>n < length hosts. hosts ! n = Some w \<and> Role w = WRITER \<and>
           (\<forall>m < n. hosts ! m = None \<or> Role (the (hosts ! m)) \<noteq> WRITER)"
proof -
  from assms have "find (\<lambda>h. h \<noteq> None \<and> Role (the h) = WRITER) hosts = Some (Some w)"
    by (auto simp: GetWriter_find bind_eq_Some_conv)
  then show ?thesis by (force simp: find_Some_iff)
qed

lemma GetWriter_in: "GetWriter hosts = Some w \<Longrightarrow> Some w \<in> set hosts \<and> Role w = WRITER"
  using GetWriter_first [of hosts w] by (auto simp: in_set_conv_nth)

lemma GetWriter_None_iff: "GetWriter hosts = None \<longleftrightarrow> (\<forall>i. Some i \<in> set hosts \<longrightarrow> Role i \<noteq> WRITER)"
  by (induction hosts) (auto split: option.splits)

lemma GetReaders_set: "set (GetReaders hosts) = {i. Some i \<in> set hosts \<and> Role i = READER}"
  by (force simp: GetReaders_def)

lemma GetReaders_sorted: "sorted (map Host (GetReaders hosts))"
  by (simp add: GetReaders_def)

lemma hostMap_dom: "dom (foldl (\<lambda>m h. m(Host h \<mapsto> (0::int))) m hs) = dom m \<union> Host ` set hs"
  by (induction hs arbitrary: m) auto

lemma noneIn_iff: "noneIn hs m \<longleftrightarrow> Host ` set hs \<inter> dom m = {}"
  by (induction hs) auto

lemma HaveNoHostsInCommon_iff:
  "HaveNoHostsInCommon hosts1 hosts2 \<longleftrightarrow> Host ` set hosts1 \<inter> Host ` set hosts2 = {}"
  by (auto simp: HaveNoHostsInCommon_def Let_def noneIn_iff hostMap_dom)

lemma IsHostInList_iff: "IsHostInList (Some i) hosts \<longleftrightarrow> (\<exists>h \<in> set hosts. Equals h i)"
  by (auto simp: IsHostInList_def list_ex_iff)

end
