(* ===== verification/Expiring_Caches.thy ===== *)
theory Expiring_Caches
  imports Go_Base
begin

text \<open>
  The three caches of \<open>awssql/utils\<close>: \<open>CacheMap\<close> (\<open>cache_map.go\<close>), \<open>ExpirationCache\<close>
  (\<open>expiration_cache.go\<close>) and \<open>SlidingExpirationCache\<close> (\<open>sliding_expiration_cache.go\<close>).
  Every operation holds the cache's lock while it touches the map, so it is one step on the cache
  record; it takes one reading \<open>now\<close> of the clock. A disposal function is called for its effect
  only: an operation returns the list of the items it disposes of.

  The contract the first two caches share is the locale \<open>expiring_store\<close>: what a lookup returns
  after a put, a removal or a clean-up. The theorems about runs of operations are proved once from
  the contract.
\<close>

section \<open>Definitions\<close>

record 'v cacheValue =
  item :: 'v
  expirationTime :: time

definition isExpired :: "time \<Rightarrow> ('v, 'z) cacheValue_scheme \<Rightarrow> bool" where
  "isExpired now e \<longleftrightarrow> now > expirationTime e"

definition CleanupIntervalNanos :: duration where
  "CleanupIntervalNanos = 600000000000"

subsection \<open>CacheMap\<close>

record 'v CacheMap =
  cm_cache :: "(string, 'v cacheValue) gomap"
  cm_cleanupTimeNanos :: time
  cm_defaultExpiration :: duration

definition NewCacheWithDefaultExpiration :: "time \<Rightarrow> duration \<Rightarrow> 'v CacheMap" where
  "NewCacheWithDefaultExpiration now d =
     \<lparr>cm_cache = [], cm_cleanupTimeNanos = now + CleanupIntervalNanos, cm_defaultExpiration = d\<rparr>"

definition NewCache :: "time \<Rightarrow> 'v CacheMap" where
  "NewCache now = NewCacheWithDefaultExpiration now 0"

definition CacheMap_CleanUp :: "time \<Rightarrow> 'v CacheMap \<Rightarrow> 'v CacheMap" where
  "CacheMap_CleanUp now c =
     (if now > cm_cleanupTimeNanos c
      then c\<lparr>cm_cache := filter (\<lambda>(k, e). \<not> isExpired now e) (cm_cache c),
             cm_cleanupTimeNanos := now + CleanupIntervalNanos\<rparr>
      else c)"

definition CacheMap_Put :: "time \<Rightarrow> string \<Rightarrow> 'v \<Rightarrow> duration \<Rightarrow> 'v CacheMap \<Rightarrow> 'v CacheMap" where
  "CacheMap_Put now key v expiration c =
     CacheMap_CleanUp now
       (c\<lparr>cm_cache := mput key \<lparr>item = v, expirationTime = now + expiration\<rparr> (cm_cache c)\<rparr>)"

definition CacheMap_PutWithDefaultExpiration :: "time \<Rightarrow> string \<Rightarrow> 'v \<Rightarrow> 'v CacheMap \<Rightarrow> 'v CacheMap" where
  "CacheMap_PutWithDefaultExpiration now key v c = CacheMap_Put now key v (cm_defaultExpiration c) c"

definition CacheMap_Get :: "time \<Rightarrow> 'v CacheMap \<Rightarrow> string \<Rightarrow> 'v option" where
  "CacheMap_Get now c key =
     (case map_of (cm_cache c) key of
        None \<Rightarrow> None
      | Some e \<Rightarrow> if isExpired now e then None else Some (item e))"

definition CacheMap_ComputeIfAbsent ::
  "time \<Rightarrow> string \<Rightarrow> (unit \<Rightarrow> 'v) \<Rightarrow> duration \<Rightarrow> 'v CacheMap \<Rightarrow> 'v CacheMap \<times> 'v" where
  "CacheMap_ComputeIfAbsent now key computeFunc itemExpiration c =
     (case map_of (cm_cache c) key of
        Some e \<Rightarrow> (c, item e)
      | None \<Rightarrow>
          (let v = computeFunc ()
           in (c\<lparr>cm_cache := mput key \<lparr>item = v, expirationTime = now + itemExpiration\<rparr> (cm_cache c)\<rparr>, v)))"

definition CacheMap_PutIfAbsent :: "time \<Rightarrow> string \<Rightarrow> 'v \<Rightarrow> duration \<Rightarrow> 'v CacheMap \<Rightarrow> 'v CacheMap" where
  "CacheMap_PutIfAbsent now key v expiration c =
     CacheMap_CleanUp now
       (if map_of (cm_cache c) key = None then CacheMap_Put now key v expiration c else c)"

definition CacheMap_Remove :: "time \<Rightarrow> string \<Rightarrow> 'v CacheMap \<Rightarrow> 'v CacheMap" where
  "CacheMap_Remove now key c = CacheMap_CleanUp now (c\<lparr>cm_cache := mdel key (cm_cache c)\<rparr>)"

definition CacheMap_Clear :: "time \<Rightarrow> 'v CacheMap \<Rightarrow> 'v CacheMap" where
  "CacheMap_Clear now c = c\<lparr>cm_cache := [], cm_cleanupTimeNanos := now + CleanupIntervalNanos\<rparr>"

definition CacheMap_GetAllEntries :: "'v CacheMap \<Rightarrow> (string, 'v) gomap" where
  "CacheMap_GetAllEntries c = map (\<lambda>(k, e). (k, item e)) (cm_cache c)"

definition CacheMap_Size :: "'v CacheMap \<Rightarrow> nat" where
  "CacheMap_Size c = length (cm_cache c)"

subsection \<open>ExpirationCache\<close>

record 'v expirationItem = "'v cacheValue" +
  ei_shouldDispose :: "('v \<Rightarrow> bool) option"

record ('k, 'v) ExpirationCache =
  ec_cache :: "('k, 'v expirationItem) gomap"
  ec_ttl :: duration
  ec_renewOnAccess :: bool
  ec_shouldDispose :: "('v \<Rightarrow> bool) option"
  ec_hasItemDisposalFunc :: bool

definition ec_shouldCleanup :: "time \<Rightarrow> 'v expirationItem \<Rightarrow> bool" where
  "ec_shouldCleanup now e =
     (if \<not> isExpired now e then False
      else case ei_shouldDispose e of Some f \<Rightarrow> f (item e) | None \<Rightarrow> True)"

definition extendExpiration :: "time \<Rightarrow> duration \<Rightarrow> ('v, 'z) cacheValue_scheme \<Rightarrow> ('v, 'z) cacheValue_scheme" where
  "extendExpiration now ttl e = e\<lparr>expirationTime := now + ttl\<rparr>"

definition NewExpirationCache ::
  "duration \<Rightarrow> bool \<Rightarrow> ('v \<Rightarrow> bool) option \<Rightarrow> bool \<Rightarrow> ('k, 'v) ExpirationCache" where
  "NewExpirationCache ttl renewOnAccess shouldDispose hasDisposal =
     \<lparr>ec_cache = [], ec_ttl = (if ttl = 0 then 300000000000 else ttl), ec_renewOnAccess = renewOnAccess,
      ec_shouldDispose = shouldDispose, ec_hasItemDisposalFunc = hasDisposal\<rparr>"

definition ec_newItem :: "time \<Rightarrow> ('k, 'v) ExpirationCache \<Rightarrow> 'v \<Rightarrow> 'v expirationItem" where
  "ec_newItem now c v = \<lparr>item = v, expirationTime = now + ec_ttl c, ei_shouldDispose = ec_shouldDispose c\<rparr>"

definition disposing :: "bool \<Rightarrow> 'v list \<Rightarrow> 'v list" where
  "disposing hasFunc vs = (if hasFunc then vs else [])"

text \<open>Result: the cache, the previous value (a \<open>*V\<close>) and the disposed items.\<close>

definition ExpirationCache_Put ::
  "time \<Rightarrow> 'k \<Rightarrow> 'v \<Rightarrow> ('k, 'v) ExpirationCache \<Rightarrow> ('k, 'v) ExpirationCache \<times> 'v option \<times> 'v list" where
  "ExpirationCache_Put now key v c =
     (let prev = map_of (ec_cache c) key;
          c' = c\<lparr>ec_cache := mput key (ec_newItem now c v) (ec_cache c)\<rparr>
      in (case prev of
            Some p \<Rightarrow> if ec_hasItemDisposalFunc c then (c', Some (item p), [item p]) else (c', Some (item p), [])
          | None \<Rightarrow> (c', None, [])))"

definition ExpirationCache_Get ::
  "time \<Rightarrow> 'k \<Rightarrow> ('k, 'v) ExpirationCache \<Rightarrow> ('k, 'v) ExpirationCache \<times> 'v option" where
  "ExpirationCache_Get now key c =
     (if ec_renewOnAccess c
      then (case map_of (ec_cache c) key of
              None \<Rightarrow> (c, None)
            | Some e \<Rightarrow> (c\<lparr>ec_cache := mput key (extendExpiration now (ec_ttl c) e) (ec_cache c)\<rparr>, Some (item e)))
      else (case map_of (ec_cache c) key of
              None \<Rightarrow> (c, None)
            | Some e \<Rightarrow> if isExpired now e then (c, None) else (c, Some (item e))))"

definition ExpirationCache_ComputeIfAbsent ::
  "time \<Rightarrow> 'k \<Rightarrow> (unit \<Rightarrow> 'v) \<Rightarrow> ('k, 'v) ExpirationCache \<Rightarrow> ('k, 'v) ExpirationCache \<times> 'v \<times> 'v list" where
  "ExpirationCache_ComputeIfAbsent now key computeFunc c =
     (let compute = (\<lambda>d. let v = computeFunc ()
                         in (c\<lparr>ec_cache := mput key (ec_newItem now c v) (ec_cache c)\<rparr>, v, d))
      in (case map_of (ec_cache c) key of
            Some e \<Rightarrow>
              if ec_renewOnAccess c
              then (c\<lparr>ec_cache := mput key (extendExpiration now (ec_ttl c) e) (ec_cache c)\<rparr>, item e, [])
              else if \<not> isExpired now e then (c, item e, [])
              else compute (disposing (ec_hasItemDisposalFunc c) [item e])
          | None \<Rightarrow> compute []))"

definition ExpirationCache_Exists :: "time \<Rightarrow> 'k \<Rightarrow> ('k, 'v) ExpirationCache \<Rightarrow> bool" where
  "ExpirationCache_Exists now key c =
     (case map_of (ec_cache c) key of None \<Rightarrow> False | Some e \<Rightarrow> \<not> ec_shouldCleanup now e)"

definition ExpirationCache_Remove ::
  "'k \<Rightarrow> ('k, 'v) ExpirationCache \<Rightarrow> ('k, 'v) ExpirationCache \<times> 'v option \<times> 'v list" where
  "ExpirationCache_Remove key c =
     (let c' = c\<lparr>ec_cache := mdel key (ec_cache c)\<rparr>
      in (case map_of (ec_cache c) key of
            None \<Rightarrow> (c', None, [])
          | Some e \<Rightarrow> (c', Some (item e), disposing (ec_hasItemDisposalFunc c) [item e])))"

definition ExpirationCache_RemoveExpiredEntries ::
  "time \<Rightarrow> ('k, 'v) ExpirationCache \<Rightarrow> ('k, 'v) ExpirationCache \<times> 'v list" where
  "ExpirationCache_RemoveExpiredEntries now c =
     (c\<lparr>ec_cache := filter (\<lambda>(k, e). \<not> ec_shouldCleanup now e) (ec_cache c)\<rparr>,
      disposing (ec_hasItemDisposalFunc c)
        (map (item \<circ> snd) (filter (\<lambda>(k, e). ec_shouldCleanup now e) (ec_cache c))))"

definition ExpirationCache_Clear ::
  "('k, 'v) ExpirationCache \<Rightarrow> ('k, 'v) ExpirationCache \<times> 'v list" where
  "ExpirationCache_Clear c =
     (c\<lparr>ec_cache := []\<rparr>, disposing (ec_hasItemDisposalFunc c) (map (item \<circ> snd) (ec_cache c)))"

definition ExpirationCache_GetEntries :: "('k, 'v) ExpirationCache \<Rightarrow> ('k, 'v) gomap" where
  "ExpirationCache_GetEntries c = map (\<lambda>(k, e). (k, item e)) (ec_cache c)"

definition ExpirationCache_Size :: "('k, 'v) ExpirationCache \<Rightarrow> nat" where
  "ExpirationCache_Size c = length (ec_cache c)"

subsection \<open>SlidingExpirationCache\<close>

text \<open>\<open>sc_running\<close> is whether the clean-up goroutine's context is still open.\<close>

record 'v SlidingExpirationCache =
  sc_cache :: "(string, 'v cacheValue) gomap"
  sc_cleanupIntervalNanos :: duration
  sc_cleanupTimeNanos :: time
  sc_hasItemDisposalFunc :: bool
  sc_shouldDisposeFunc :: "('v \<Rightarrow> bool) option"
  sc_running :: bool

text \<open>The variadic \<open>funcs\<close>: the disposal function first, then the one that decides on disposal.\<close>

definition NewSlidingExpirationCache :: "time \<Rightarrow> ('v \<Rightarrow> bool) option list \<Rightarrow> 'v SlidingExpirationCache" where
  "NewSlidingExpirationCache now funcs =
     \<lparr>sc_cache = [], sc_cleanupIntervalNanos = CleanupIntervalNanos,
      sc_cleanupTimeNanos = now + CleanupIntervalNanos,
      sc_hasItemDisposalFunc = (length funcs > 0 \<and> funcs ! 0 \<noteq> None),
      sc_shouldDisposeFunc = (if length funcs > 1 then funcs ! 1 else None), sc_running = True\<rparr>"

definition sc_shouldCleanup :: "time \<Rightarrow> ('v \<Rightarrow> bool) option \<Rightarrow> 'v cacheValue \<Rightarrow> bool" where
  "sc_shouldCleanup now f e =
     (case f of Some g \<Rightarrow> isExpired now e \<and> g (item e) | None \<Rightarrow> isExpired now e)"

definition Sliding_Remove ::
  "string \<Rightarrow> 'v SlidingExpirationCache \<Rightarrow> 'v SlidingExpirationCache \<times> 'v list" where
  "Sliding_Remove key c =
     (c\<lparr>sc_cache := mdel key (sc_cache c)\<rparr>,
      (case map_of (sc_cache c) key of
         Some e \<Rightarrow> disposing (sc_hasItemDisposalFunc c) [item e]
       | None \<Rightarrow> []))"

definition cleanupIfExpired ::
  "time \<Rightarrow> string \<Rightarrow> 'v SlidingExpirationCache \<Rightarrow> 'v SlidingExpirationCache \<times> 'v list" where
  "cleanupIfExpired now key c =
     (case map_of (sc_cache c) key of
        Some e \<Rightarrow>
          if sc_shouldCleanup now (sc_shouldDisposeFunc c) e
          then (c\<lparr>sc_cache := mdel key (sc_cache c)\<rparr>, disposing (sc_hasItemDisposalFunc c) [item e])
          else (c, [])
      | None \<Rightarrow> (c, []))"

text \<open>The locked store at the end of \<open>Put\<close> and of the \<open>ComputeIfAbsent\<close> operations.\<close>

definition sc_store :: "time \<Rightarrow> string \<Rightarrow> 'v \<Rightarrow> duration \<Rightarrow> 'v SlidingExpirationCache \<Rightarrow> 'v SlidingExpirationCache" where
  "sc_store now key v itemExpiration c =
     c\<lparr>sc_cache := mput key \<lparr>item = v, expirationTime = now + itemExpiration\<rparr> (sc_cache c)\<rparr>"

definition Sliding_Put ::
  "time \<Rightarrow> string \<Rightarrow> 'v \<Rightarrow> duration \<Rightarrow> 'v SlidingExpirationCache \<Rightarrow> 'v SlidingExpirationCache \<times> 'v list" where
  "Sliding_Put now key v itemExpiration c =
     (let (c1, d) = Sliding_Remove key c in (sc_store now key v itemExpiration c1, d))"

definition Sliding_Get ::
  "time \<Rightarrow> string \<Rightarrow> duration \<Rightarrow> 'v SlidingExpirationCache \<Rightarrow> 'v SlidingExpirationCache \<times> 'v option \<times> 'v list" where
  "Sliding_Get now key itemExpiration c =
     (let (c1, d) = cleanupIfExpired now key c
      in (case map_of (sc_cache c1) key of
            None \<Rightarrow> (c1, None, d)
          | Some e \<Rightarrow> (c1\<lparr>sc_cache := mput key (extendExpiration now itemExpiration e) (sc_cache c1)\<rparr>,
                       Some (item e), d)))"

definition Sliding_ComputeIfAbsent ::
  "time \<Rightarrow> string \<Rightarrow> (unit \<Rightarrow> 'v) \<Rightarrow> duration \<Rightarrow> 'v SlidingExpirationCache
     \<Rightarrow> 'v SlidingExpirationCache \<times> 'v \<times> 'v list" where
  "Sliding_ComputeIfAbsent now key computeFunc itemExpiration c =
     (case Sliding_Get now key itemExpiration c of
        (c1, Some v, d) \<Rightarrow> (c1, v, d)
      | (c1, None, d) \<Rightarrow> (let v = computeFunc () in (sc_store now key v itemExpiration c1, v, d)))"

definition Sliding_ComputeIfAbsentWithError ::
  "time \<Rightarrow> string \<Rightarrow> (unit \<Rightarrow> go_error + 'v) \<Rightarrow> duration \<Rightarrow> 'v SlidingExpirationCache
     \<Rightarrow> 'v SlidingExpirationCache \<times> (go_error + 'v) \<times> 'v list" where
  "Sliding_ComputeIfAbsentWithError now key computeFunc itemExpiration c =
     (case Sliding_Get now key itemExpiration c of
        (c1, Some v, d) \<Rightarrow> (c1, Inr v, d)
      | (c1, None, d) \<Rightarrow>
          (case computeFunc () of
             Inl err \<Rightarrow> (c1, Inl err, d)
           | Inr v \<Rightarrow> (sc_store now key v itemExpiration c1, Inr v, d)))"

definition Sliding_PutIfAbsent ::
  "time \<Rightarrow> string \<Rightarrow> 'v \<Rightarrow> duration \<Rightarrow> 'v SlidingExpirationCache \<Rightarrow> 'v SlidingExpirationCache \<times> 'v list" where
  "Sliding_PutIfAbsent now key v expiration c =
     (let (c1, d) = cleanupIfExpired now key c
      in (if map_of (sc_cache c1) key = None
          then (let (c2, d2) = Sliding_Put now key v expiration c1 in (c2, d @ d2))
          else (c1, d)))"

definition Sliding_GetAllEntries :: "'v SlidingExpirationCache \<Rightarrow> (string, 'v) gomap" where
  "Sliding_GetAllEntries c = map (\<lambda>(k, e). (k, item e)) (sc_cache c)"

definition Sliding_Clear :: "time \<Rightarrow> 'v SlidingExpirationCache \<Rightarrow> 'v SlidingExpirationCache \<times> 'v list" where
  "Sliding_Clear now c =
     (c\<lparr>sc_cache := [], sc_cleanupTimeNanos := now + CleanupIntervalNanos\<rparr>,
      disposing (sc_hasItemDisposalFunc c) (map snd (Sliding_GetAllEntries c)))"

definition Sliding_CleanUp :: "time \<Rightarrow> 'v SlidingExpirationCache \<Rightarrow> 'v SlidingExpirationCache \<times> 'v list" where
  "Sliding_CleanUp now c = (let (c1, d) = Sliding_Clear now c in (c1\<lparr>sc_running := False\<rparr>, d))"

definition Sliding_Size :: "'v SlidingExpirationCache option \<Rightarrow> nat" where
  "Sliding_Size c = (case c of None \<Rightarrow> 0 | Some c \<Rightarrow> length (sc_cache c))"

definition SetCleanupIntervalNanos :: "time \<Rightarrow> duration \<Rightarrow> 'v SlidingExpirationCache \<Rightarrow> 'v SlidingExpirationCache" where
  "SetCleanupIntervalNanos now d c = c\<lparr>sc_cleanupIntervalNanos := d, sc_cleanupTimeNanos := now + d\<rparr>"

text \<open>One turn of the loop of the clean-up goroutine, after its sleep; it stops once the context
  is cancelled.\<close>

definition cleanupExpiredItems_turn ::
  "time \<Rightarrow> 'v SlidingExpirationCache \<Rightarrow> 'v SlidingExpirationCache \<times> 'v list" where
  "cleanupExpiredItems_turn now c =
     (if \<not> sc_running c then (c, [])
      else (c\<lparr>sc_cache := filter (\<lambda>(k, e). \<not> sc_shouldCleanup now (sc_shouldDisposeFunc c) e) (sc_cache c)\<rparr>,
            disposing (sc_hasItemDisposalFunc c)
              (map (item \<circ> snd)
                 (filter (\<lambda>(k, e). sc_shouldCleanup now (sc_shouldDisposeFunc c) e) (sc_cache c)))))"

section \<open>The contract of a store whose entries expire\<close>

datatype ('k, 'v) cache_op = OpPut 'k 'v | OpRemove 'k | OpCleanup

fun op_key :: "('k, 'v) cache_op \<Rightarrow> 'k option" where
  "op_key (OpPut k v) = Some k"
| "op_key (OpRemove k) = Some k"
| "op_key OpCleanup = None"

text \<open>A run of timed operations, the earliest first.\<close>

fun run_cache ::
  "(time \<Rightarrow> 'k \<Rightarrow> 'v \<Rightarrow> 'c \<Rightarrow> 'c) \<Rightarrow> (time \<Rightarrow> 'k \<Rightarrow> 'c \<Rightarrow> 'c) \<Rightarrow> (time \<Rightarrow> 'c \<Rightarrow> 'c)
    \<Rightarrow> (time \<times> ('k, 'v) cache_op) list \<Rightarrow> 'c \<Rightarrow> 'c" where
  "run_cache put rm cl [] c = c"
| "run_cache put rm cl ((t, OpPut k v) # ops) c = run_cache put rm cl ops (put t k v c)"
| "run_cache put rm cl ((t, OpRemove k) # ops) c = run_cache put rm cl ops (rm t k c)"
| "run_cache put rm cl ((t, OpCleanup) # ops) c = run_cache put rm cl ops (cl t c)"

lemma isExpired_mono: "isExpired t e \<Longrightarrow> t \<le> t' \<Longrightarrow> isExpired t' e"
  by (simp add: isExpired_def)

locale expiring_store =
  fixes get :: "time \<Rightarrow> 'c \<Rightarrow> 'k \<Rightarrow> 'v option"
    and put :: "time \<Rightarrow> 'k \<Rightarrow> 'v \<Rightarrow> 'c \<Rightarrow> 'c"
    and remove :: "time \<Rightarrow> 'k \<Rightarrow> 'c \<Rightarrow> 'c"
    and cleanup :: "time \<Rightarrow> 'c \<Rightarrow> 'c"
    and life :: "'c \<Rightarrow> duration"
    and inv :: "'c \<Rightarrow> bool"
  assumes get_put: "inv c \<Longrightarrow> t \<le> t' \<Longrightarrow>
      get t' (put t k v c) k' =
        (if k' = k then (if t' \<le> t + life c then Some v else None) else get t' c k')"
    and get_remove: "inv c \<Longrightarrow> t \<le> t' \<Longrightarrow> get t' (remove t k c) k' = (if k' = k then None else get t' c k')"
    and get_cleanup: "inv c \<Longrightarrow> t \<le> t' \<Longrightarrow> get t' (cleanup t c) k' = get t' c k'"
    and get_antimono: "inv c \<Longrightarrow> t \<le> t' \<Longrightarrow> get t' c k = Some v \<Longrightarrow> get t c k = Some v"
    and inv_put: "inv c \<Longrightarrow> inv (put t k v c)"
    and inv_remove: "inv c \<Longrightarrow> inv (remove t k c)"
    and inv_cleanup: "inv c \<Longrightarrow> inv (cleanup t c)"
begin

lemmas inv_ops = inv_put inv_remove inv_cleanup

lemma run_inv: "inv c \<Longrightarrow> inv (run_cache put remove cleanup ops c)"
proof (induction ops arbitrary: c)
  case (Cons so ops)
  then show ?case by (cases so; cases "snd so") (auto intro: inv_ops)
qed simp

text \<open>Operations on other keys do not change what a later lookup returns.\<close>

lemma run_other_keys:
  assumes "inv c" "\<forall>(s, opn) \<in> set ops. s \<le> t \<and> op_key opn \<noteq> Some k"
  shows "get t (run_cache put remove cleanup ops c) k = get t c k"
  using assms
proof (induction ops arbitrary: c)
  case Nil
  then show ?case by simp
next
  case (Cons so ops)
  obtain s opn where so: "so = (s, opn)" by (cases so)
  show ?case
    using Cons.prems Cons.IH so
    by (cases opn) (auto simp: get_put get_remove get_cleanup inv_ops)
qed

text \<open>A stored value is returned until its lifetime is over, and never after.\<close>

lemma put_then_run:
  assumes "inv c" "\<forall>(s, opn) \<in> set ops. s \<le> t' \<and> op_key opn \<noteq> Some k" "t \<le> t'"
  shows "get t' (run_cache put remove cleanup ops (put t k v c)) k =
           (if t' \<le> t + life c then Some v else None)"
  using assms run_other_keys [OF inv_put [OF assms(1)] assms(2)] by (simp add: get_put)

lemma removed_stays_removed:
  assumes "inv c" "\<forall>(s, opn) \<in> set ops. s \<le> t' \<and> op_key opn \<noteq> Some k" "t \<le> t'"
  shows "get t' (run_cache put remove cleanup ops (remove t k c)) k = None"
  using assms run_other_keys [OF inv_remove [OF assms(1)] assms(2)] by (simp add: get_remove)

end

section \<open>CacheMap keeps the contract\<close>

definition cm_inv :: "'v CacheMap \<Rightarrow> bool" where
  "cm_inv c \<longleftrightarrow> wf_map (cm_cache c)"

lemmas CacheMap_defs =
  CacheMap_CleanUp_def CacheMap_Put_def CacheMap_Get_def CacheMap_Remove_def CacheMap_PutIfAbsent_def
  CacheMap_ComputeIfAbsent_def CacheMap_Clear_def CacheMap_PutWithDefaultExpiration_def cm_inv_def

lemma CacheMap_Get_CleanUp:
  "cm_inv c \<Longrightarrow> t \<le> t' \<Longrightarrow> CacheMap_Get t' (CacheMap_CleanUp t c) k = CacheMap_Get t' c k"
  by (auto simp: CacheMap_defs map_of_filter_wf split: option.splits dest: isExpired_mono)

lemma cm_inv_CleanUp: "cm_inv c \<Longrightarrow> cm_inv (CacheMap_CleanUp t c)"
  by (simp add: cm_inv_def CacheMap_CleanUp_def)

lemma cm_inv_ops:
  "cm_inv (NewCacheWithDefaultExpiration t d)"
  "cm_inv c \<Longrightarrow> cm_inv (CacheMap_Put t k v d c)"
  "cm_inv c \<Longrightarrow> cm_inv (CacheMap_PutIfAbsent t k v d c)"
  "cm_inv c \<Longrightarrow> cm_inv (CacheMap_Remove t k c)"
  "cm_inv c \<Longrightarrow> cm_inv (CacheMap_Clear t c)"
  "cm_inv c \<Longrightarrow> cm_inv (fst (CacheMap_ComputeIfAbsent t k f d c))"
  by (auto simp: CacheMap_defs NewCacheWithDefaultExpiration_def Let_def split: option.splits)

lemma CacheMap_Get_Put:
  assumes "cm_inv c" "t \<le> t'"
  shows "CacheMap_Get t' (CacheMap_Put t k v d c) k' =
           (if k' = k then (if t' \<le> t + d then Some v else None) else CacheMap_Get t' c k')"
proof -
  let ?c = "c\<lparr>cm_cache := mput k \<lparr>item = v, expirationTime = t + d\<rparr> (cm_cache c)\<rparr>"
  have "cm_inv ?c" using assms(1) by (simp add: cm_inv_def)
  then have "CacheMap_Get t' (CacheMap_Put t k v d c) k' = CacheMap_Get t' ?c k'"
    using assms(2) by (simp add: CacheMap_Put_def CacheMap_Get_CleanUp)
  then show ?thesis by (simp add: CacheMap_Get_def isExpired_def)
qed

lemma CacheMap_Get_Remove:
  assumes "cm_inv c" "t \<le> t'"
  shows "CacheMap_Get t' (CacheMap_Remove t k c) k' = (if k' = k then None else CacheMap_Get t' c k')"
proof -
  have "cm_inv (c\<lparr>cm_cache := mdel k (cm_cache c)\<rparr>)" using assms(1) by (simp add: cm_inv_def)
  then show ?thesis
    using assms(2) by (simp add: CacheMap_Remove_def CacheMap_Get_CleanUp) (simp add: CacheMap_Get_def)
qed

lemma CacheMap_Get_antimono:
  "t \<le> t' \<Longrightarrow> CacheMap_Get t' c k = Some v \<Longrightarrow> CacheMap_Get t c k = Some v"
  by (auto simp: CacheMap_Get_def isExpired_def split: option.splits if_splits)

interpretation cachemap: expiring_store CacheMap_Get "\<lambda>t k v. CacheMap_Put t k v d" CacheMap_Remove
    CacheMap_CleanUp "\<lambda>_. d" cm_inv for d
  by unfold_locales
    (auto simp: CacheMap_Get_Put CacheMap_Get_Remove CacheMap_Get_CleanUp cm_inv_ops cm_inv_CleanUp
          intro: CacheMap_Get_antimono)

section \<open>ExpirationCache keeps the contract and disposes of what it drops\<close>

definition ec_inv :: "('k, 'v) ExpirationCache \<Rightarrow> bool" where
  "ec_inv c \<longleftrightarrow> wf_map (ec_cache c)"

definition ec_inv_fixed :: "('k, 'v) ExpirationCache \<Rightarrow> bool" where
  "ec_inv_fixed c \<longleftrightarrow> ec_inv c \<and> \<not> ec_renewOnAccess c"

lemmas ExpirationCache_defs =
  ExpirationCache_Put_def ExpirationCache_Get_def ExpirationCache_ComputeIfAbsent_def
  ExpirationCache_Exists_def ExpirationCache_Remove_def ExpirationCache_RemoveExpiredEntries_def
  ExpirationCache_Clear_def ec_newItem_def disposing_def Let_def

lemma ec_inv_ops:
  "ec_inv (NewExpirationCache ttl r s h)"
  "ec_inv c \<Longrightarrow> ec_inv (fst (ExpirationCache_Put t k v c))"
  "ec_inv c \<Longrightarrow> ec_inv (fst (ExpirationCache_Get t k c))"
  "ec_inv c \<Longrightarrow> ec_inv (fst (ExpirationCache_ComputeIfAbsent t k f c))"
  "ec_inv c \<Longrightarrow> ec_inv (fst (ExpirationCache_Remove k c))"
  "ec_inv c \<Longrightarrow> ec_inv (fst (ExpirationCache_RemoveExpiredEntries t c))"
  "ec_inv c \<Longrightarrow> ec_inv (fst (ExpirationCache_Clear c))"
  by (auto simp: ec_inv_def NewExpirationCache_def ExpirationCache_defs split: option.splits)

lemma ec_config_ops:
  "ec_renewOnAccess (fst (ExpirationCache_Put t k v c)) = ec_renewOnAccess c"
  "ec_renewOnAccess (fst (ExpirationCache_Remove k c)) = ec_renewOnAccess c"
  "ec_renewOnAccess (fst (ExpirationCache_RemoveExpiredEntries t c)) = ec_renewOnAccess c"
  by (auto simp: ExpirationCache_defs split: option.splits)

lemma ec_cache_ops:
  "ec_cache (fst (ExpirationCache_Put t k v c)) = mput k (ec_newItem t c v) (ec_cache c)"
  "ec_cache (fst (ExpirationCache_Remove k c)) = mdel k (ec_cache c)"
  "ec_cache (fst (ExpirationCache_RemoveExpiredEntries t c)) =
     filter (\<lambda>(k, e). \<not> ec_shouldCleanup t e) (ec_cache c)"
  by (auto simp: ExpirationCache_defs split: option.splits)

lemma ec_Get_fixed:
  "\<not> ec_renewOnAccess c \<Longrightarrow>
   snd (ExpirationCache_Get t k c) =
     (case map_of (ec_cache c) k of None \<Rightarrow> None | Some e \<Rightarrow> if isExpired t e then None else Some (item e))"
  by (auto simp: ExpirationCache_Get_def split: option.splits)

interpretation expcache: expiring_store "\<lambda>t c k. snd (ExpirationCache_Get t k c)"
    "\<lambda>t k v c. fst (ExpirationCache_Put t k v c)" "\<lambda>t k c. fst (ExpirationCache_Remove k c)"
    "\<lambda>t c. fst (ExpirationCache_RemoveExpiredEntries t c)" ec_ttl ec_inv_fixed
proof unfold_locales
  fix c :: "('a, 'b) ExpirationCache" and t t' :: time and k k' :: 'a and v :: 'b
  assume inv: "ec_inv_fixed c" and le: "t \<le> t'"
  show "snd (ExpirationCache_Get t' k' (fst (ExpirationCache_Put t k v c))) =
          (if k' = k then if t' \<le> t + ec_ttl c then Some v else None else snd (ExpirationCache_Get t' k' c))"
    using inv by (auto simp: ec_inv_fixed_def ec_Get_fixed ec_config_ops ec_cache_ops ec_newItem_def isExpired_def)
  show "snd (ExpirationCache_Get t' k' (fst (ExpirationCache_Remove k c))) =
          (if k' = k then None else snd (ExpirationCache_Get t' k' c))"
    using inv by (auto simp: ec_inv_fixed_def ec_Get_fixed ec_config_ops ec_cache_ops)
  show "snd (ExpirationCache_Get t' k' (fst (ExpirationCache_RemoveExpiredEntries t c))) =
          snd (ExpirationCache_Get t' k' c)"
    using inv le isExpired_mono [of t]
    by (auto simp: ec_inv_fixed_def ec_inv_def ec_Get_fixed ec_config_ops ec_cache_ops map_of_filter_wf
        ec_shouldCleanup_def split: option.splits if_splits)
  show "snd (ExpirationCache_Get t' k c) = Some v \<Longrightarrow> snd (ExpirationCache_Get t k c) = Some v"
    using inv le by (auto simp: ec_inv_fixed_def ec_Get_fixed isExpired_def split: option.splits if_splits)
qed (simp_all add: ec_inv_fixed_def ec_inv_ops ec_config_ops)

text \<open>Every item that leaves a cache with a disposal function is disposed of exactly once:
  what the cache holds after an operation, with what the operation disposed of, is what it held
  before, with what was stored.\<close>

definition ec_values :: "('k, 'v) ExpirationCache \<Rightarrow> 'v multiset" where
  "ec_values c = image_mset item (values_of (ec_cache c))"

lemma item_extendExpiration [simp]: "item (extendExpiration t d e) = item e"
  by (simp add: extendExpiration_def)

lemma image_values_mput_present:
  "wf_map m \<Longrightarrow> map_of m k = Some e \<Longrightarrow>
   add_mset (f e) (image_mset f (values_of (mput k e' m))) = add_mset (f e') (image_mset f (values_of m))"
  using values_of_mput_present [of m k e e'] by (metis image_mset_add_mset)

lemma image_values_extend:
  "wf_map m \<Longrightarrow> map_of m k = Some e \<Longrightarrow>
   image_mset item (values_of (mput k (extendExpiration t d e) m)) = image_mset item (values_of m)"
  using image_values_mput_present [of m k e item "extendExpiration t d e"] by simp

lemma image_values_filter:
  "image_mset f (values_of (filter (\<lambda>(k, e). \<not> p e) m)) + mset (map (f \<circ> snd) (filter (\<lambda>(k, e). p e) m)) =
   image_mset f (values_of m)"
  by (induction m) (auto simp: values_of_def)

lemmas conservation_simps =
  image_values_mput_present image_values_extend image_values_filter values_of_mput_absent values_of_mdel

lemma ExpirationCache_Put_conservation:
  assumes "ec_inv c" "ec_hasItemDisposalFunc c" "ExpirationCache_Put t k v c = (c1, r, d)"
  shows "ec_values c1 + mset d = add_mset v (ec_values c)"
proof (cases "map_of (ec_cache c) k")
  case None
  with assms show ?thesis
    by (auto simp: ExpirationCache_defs ec_values_def values_of_mput_absent)
next
  case (Some e)
  with assms have "c1 = c\<lparr>ec_cache := mput k (ec_newItem t c v) (ec_cache c)\<rparr>" "d = [item e]"
    by (auto simp: ExpirationCache_defs)
  with assms(1) Some show ?thesis
    using image_values_mput_present [of "ec_cache c" k e item "ec_newItem t c v"]
    by (simp add: ec_values_def ec_inv_def ec_newItem_def)
qed

lemma ExpirationCache_Remove_conservation:
  assumes "ec_inv c" "ec_hasItemDisposalFunc c" "ExpirationCache_Remove k c = (c1, r, d)"
  shows "ec_values c1 + mset d = ec_values c"
  using assms
  by (auto simp: ExpirationCache_defs ec_values_def ec_inv_def values_of_mdel mdel_absent split: option.splits)

lemma ExpirationCache_RemoveExpired_conservation:
  assumes "ec_hasItemDisposalFunc c" "ExpirationCache_RemoveExpiredEntries t c = (c1, d)"
  shows "ec_values c1 + mset d = ec_values c"
  using assms image_values_filter [of item "ec_shouldCleanup t" "ec_cache c"]
  by (auto simp: ExpirationCache_defs ec_values_def)

lemma ExpirationCache_Clear_conservation:
  assumes "ec_hasItemDisposalFunc c" "ExpirationCache_Clear c = (c1, d)"
  shows "ec_values c1 + mset d = ec_values c"
  using assms by (auto simp: ExpirationCache_defs ec_values_def values_of_def multiset.map_comp)

section \<open>SlidingExpirationCache\<close>

definition sc_inv :: "'v SlidingExpirationCache \<Rightarrow> bool" where
  "sc_inv c \<longleftrightarrow> wf_map (sc_cache c)"

definition sc_values :: "'v SlidingExpirationCache \<Rightarrow> 'v multiset" where
  "sc_values c = image_mset item (values_of (sc_cache c))"

lemmas Sliding_defs =
  Sliding_Remove_def cleanupIfExpired_def sc_store_def Sliding_Put_def Sliding_Get_def
  Sliding_ComputeIfAbsent_def Sliding_ComputeIfAbsentWithError_def Sliding_PutIfAbsent_def
  Sliding_GetAllEntries_def Sliding_Clear_def Sliding_CleanUp_def cleanupExpiredItems_turn_def
  SetCleanupIntervalNanos_def disposing_def Let_def

text \<open>The operations as steps of one machine. \<open>SCompute k v d\<close> is a \<open>ComputeIfAbsent\<close> whose function
  returns \<open>v\<close>, \<open>STurn\<close> a turn of the clean-up goroutine. A step returns the items stored and the
  items disposed of.\<close>

datatype 'v sliding_op =
    SPut string 'v duration
  | SGet string duration
  | SCompute string 'v duration
  | SComputeErr string "go_error + 'v" duration
  | SPutIfAbsent string 'v duration
  | SRemove string
  | SClear
  | SCleanUp
  | STurn

fun sliding_step ::
  "time \<Rightarrow> 'v sliding_op \<Rightarrow> 'v SlidingExpirationCache \<Rightarrow> 'v SlidingExpirationCache \<times> 'v list \<times> 'v list" where
  "sliding_step t (SPut k v d) c = (let (c', dis) = Sliding_Put t k v d c in (c', [v], dis))"
| "sliding_step t (SGet k d) c = (let (c', r, dis) = Sliding_Get t k d c in (c', [], dis))"
| "sliding_step t (SCompute k v d) c =
     (let (c', r, dis) = Sliding_ComputeIfAbsent t k (\<lambda>_. v) d c
      in (c', (if fst (snd (Sliding_Get t k d c)) = None then [v] else []), dis))"
| "sliding_step t (SComputeErr k r d) c =
     (let (c', _, dis) = Sliding_ComputeIfAbsentWithError t k (\<lambda>_. r) d c
      in (c', (case (fst (snd (Sliding_Get t k d c)), r) of (None, Inr v) \<Rightarrow> [v] | _ \<Rightarrow> []), dis))"
| "sliding_step t (SPutIfAbsent k v d) c =
     (let (c', dis) = Sliding_PutIfAbsent t k v d c
      in (c', (if map_of (sc_cache (fst (cleanupIfExpired t k c))) k = None then [v] else []), dis))"
| "sliding_step t (SRemove k) c = (let (c', dis) = Sliding_Remove k c in (c', [], dis))"
| "sliding_step t SClear c = (let (c', dis) = Sliding_Clear t c in (c', [], dis))"
| "sliding_step t SCleanUp c = (let (c', dis) = Sliding_CleanUp t c in (c', [], dis))"
| "sliding_step t STurn c = (let (c', dis) = cleanupExpiredItems_turn t c in (c', [], dis))"

fun sliding_run ::
  "(time \<times> 'v sliding_op) list \<Rightarrow> 'v SlidingExpirationCache
     \<Rightarrow> 'v SlidingExpirationCache \<times> 'v list \<times> 'v list" where
  "sliding_run [] c = (c, [], [])"
| "sliding_run ((t, opn) # ops) c =
     (let (c1, ins1, dis1) = sliding_step t opn c;
          (c2, ins2, dis2) = sliding_run ops c1
      in (c2, ins1 @ ins2, dis1 @ dis2))"

lemma cleanupIfExpired_props:
  assumes "sc_inv c" "cleanupIfExpired t k c = (c1, d)"
  shows "sc_inv c1" "sc_hasItemDisposalFunc c1 = sc_hasItemDisposalFunc c"
    and "sc_hasItemDisposalFunc c \<Longrightarrow> sc_values c1 + mset d = sc_values c"
  using assms
  by (auto simp: Sliding_defs sc_inv_def sc_values_def conservation_simps split: option.splits if_splits)

lemma Sliding_Get_props:
  assumes "sc_inv c" "Sliding_Get t k d c = (c1, r, dis)"
  shows "sc_inv c1" "sc_hasItemDisposalFunc c1 = sc_hasItemDisposalFunc c"
    and "sc_hasItemDisposalFunc c \<Longrightarrow> sc_values c1 + mset dis = sc_values c"
    and "r = None \<longleftrightarrow> map_of (sc_cache c1) k = None"
proof -
  obtain c0 d0 where c0: "cleanupIfExpired t k c = (c0, d0)" by fastforce
  note props = cleanupIfExpired_props [OF assms(1) c0]
  show "sc_inv c1" "sc_hasItemDisposalFunc c1 = sc_hasItemDisposalFunc c"
    "r = None \<longleftrightarrow> map_of (sc_cache c1) k = None"
    using assms(2) c0 props(1,2) by (auto simp: Sliding_Get_def sc_inv_def split: option.splits)
  show "sc_values c1 + mset dis = sc_values c" if "sc_hasItemDisposalFunc c"
    using assms(2) c0 props(1) props(3) [OF that]
    by (auto simp: Sliding_Get_def sc_inv_def sc_values_def image_values_extend split: option.splits)
qed

lemma sc_store_props:
  assumes "sc_inv c"
  shows "sc_inv (sc_store t k v d c)" "sc_hasItemDisposalFunc (sc_store t k v d c) = sc_hasItemDisposalFunc c"
    and "map_of (sc_cache c) k = None \<Longrightarrow> sc_values (sc_store t k v d c) = add_mset v (sc_values c)"
  using assms by (simp_all add: sc_inv_def sc_store_def sc_values_def values_of_mput_absent)

lemma Sliding_Remove_props:
  assumes "sc_inv c" "Sliding_Remove k c = (c1, d)"
  shows "sc_inv c1" "sc_hasItemDisposalFunc c1 = sc_hasItemDisposalFunc c" "map_of (sc_cache c1) k = None"
    and "sc_hasItemDisposalFunc c \<Longrightarrow> sc_values c1 + mset d = sc_values c"
  using assms
  by (auto simp: Sliding_defs sc_inv_def sc_values_def conservation_simps mdel_absent split: option.splits)

lemma Sliding_Put_props:
  assumes "sc_inv c" "Sliding_Put t k v e c = (c1, d)"
  shows "sc_inv c1" "sc_hasItemDisposalFunc c1 = sc_hasItemDisposalFunc c"
    and "sc_hasItemDisposalFunc c \<Longrightarrow> sc_values c1 + mset d = add_mset v (sc_values c)"
proof -
  obtain c0 where c0: "Sliding_Remove k c = (c0, d)" "c1 = sc_store t k v e c0"
    using assms(2) by (auto simp: Sliding_Put_def split: prod.splits)
  note props = Sliding_Remove_props [OF assms(1) c0(1)]
  show "sc_inv c1" "sc_hasItemDisposalFunc c1 = sc_hasItemDisposalFunc c"
    using props(1,2) c0(2) by (simp_all add: sc_store_props)
  show "sc_values c1 + mset d = add_mset v (sc_values c)" if "sc_hasItemDisposalFunc c"
    using props(4) [OF that] c0(2) sc_store_props(3) [OF props(1,3)] by simp
qed

lemma sliding_step_props:
  assumes "sc_inv c" "sliding_step t opn c = (c1, ins, dis)"
  shows "sc_inv c1 \<and> sc_hasItemDisposalFunc c1 = sc_hasItemDisposalFunc c \<and>
         (sc_hasItemDisposalFunc c \<longrightarrow> sc_values c1 + mset dis = sc_values c + mset ins)"
proof (cases opn)
  case (SPut k v d)
  with assms Sliding_Put_props [OF assms(1)] show ?thesis by (auto split: prod.splits)
next
  case (SGet k d)
  with assms Sliding_Get_props [OF assms(1)] show ?thesis by (auto split: prod.splits)
next
  case (SCompute k v d)
  obtain c0 r d0 where g: "Sliding_Get t k d c = (c0, r, d0)" by (metis prod_cases3)
  with assms SCompute Sliding_Get_props [OF assms(1) g] show ?thesis
    by (auto simp: Sliding_ComputeIfAbsent_def Let_def sc_store_props split: option.splits)
next
  case (SComputeErr k r' d)
  obtain c0 r d0 where g: "Sliding_Get t k d c = (c0, r, d0)" by (metis prod_cases3)
  with assms SComputeErr Sliding_Get_props [OF assms(1) g] show ?thesis
    by (auto simp: Sliding_ComputeIfAbsentWithError_def Let_def sc_store_props split: option.splits sum.splits)
next
  case (SPutIfAbsent k v d)
  obtain c0 d0 where g: "cleanupIfExpired t k c = (c0, d0)" by fastforce
  note p = cleanupIfExpired_props [OF assms(1) g]
  obtain c2 d2 where h: "Sliding_Put t k v d c0 = (c2, d2)" by fastforce
  with assms SPutIfAbsent g p Sliding_Put_props [OF p(1) h] show ?thesis
    using balance_trans [of "sc_values c0" "mset d0" "sc_values c" "{#}" "sc_values c2" "mset d2" "{#v#}"]
    by (auto simp: Sliding_PutIfAbsent_def split: if_splits)
next
  case (SRemove k)
  with assms Sliding_Remove_props [OF assms(1)] show ?thesis by (auto split: prod.splits)
next
  case SClear
  with assms show ?thesis
    by (auto simp: Sliding_defs sc_inv_def sc_values_def values_of_def multiset.map_comp o_def split_def)
next
  case SCleanUp
  with assms show ?thesis
    by (auto simp: Sliding_defs sc_inv_def sc_values_def values_of_def multiset.map_comp o_def split_def)
next
  case STurn
  with assms show ?thesis
    using image_values_filter [of item "sc_shouldCleanup t (sc_shouldDisposeFunc c)" "sc_cache c"]
    by (auto simp: Sliding_defs sc_inv_def sc_values_def split: if_splits)
qed

lemma sliding_run_props:
  assumes "sc_inv c" "sliding_run ops c = (c1, ins, dis)"
  shows "sc_inv c1 \<and> (sc_hasItemDisposalFunc c \<longrightarrow> sc_values c1 + mset dis = sc_values c + mset ins)"
  using assms
proof (induction ops arbitrary: c c1 ins dis)
  case Nil
  then show ?case by simp
next
  case (Cons o1 ops)
  obtain t opn where o1: "o1 = (t, opn)" by (cases o1)
  obtain c0 i0 d0 where s: "sliding_step t opn c = (c0, i0, d0)" by (metis prod_cases3)
  obtain c2 i2 d2 where r: "sliding_run ops c0 = (c2, i2, d2)" by (metis prod_cases3)
  note p = sliding_step_props [OF Cons.prems(1) s]
  with Cons.IH [OF _ r] Cons.prems(2) o1 s r show ?case
    using balance_trans [of "sc_values c0" "mset d0" "sc_values c" "mset i0" "sc_values c2" "mset d2" "mset i2"]
    by auto
qed

section \<open>Interleaved calls of ComputeIfAbsent\<close>

text \<open>
  \<open>SlidingExpirationCache.ComputeIfAbsent\<close> releases the lock between its \<open>Get\<close> and its store. The
  relation lets any number of goroutines run one call each on the same key, where goroutine \<open>i\<close>
  would compute \<open>val i\<close>: a hit returns at once, a miss stores and returns in a later step.
\<close>

datatype 'v compute_pc = CallStart | CallMissed | CallReturned 'v

record 'v compute_state =
  cs_cache :: "'v SlidingExpirationCache"
  cs_pc :: "nat \<Rightarrow> 'v compute_pc"
  cs_disposed :: "'v list"

inductive compute_step ::
  "string \<Rightarrow> duration \<Rightarrow> (nat \<Rightarrow> 'v) \<Rightarrow> 'v compute_state \<Rightarrow> 'v compute_state \<Rightarrow> bool"
  for key d val where
  hit: "cs_pc s i = CallStart \<Longrightarrow> Sliding_Get t key d (cs_cache s) = (c', Some v, dis) \<Longrightarrow>
     compute_step key d val s
       (s\<lparr>cs_cache := c', cs_pc := (cs_pc s)(i := CallReturned v), cs_disposed := cs_disposed s @ dis\<rparr>)"
| miss: "cs_pc s i = CallStart \<Longrightarrow> Sliding_Get t key d (cs_cache s) = (c', None, dis) \<Longrightarrow>
     compute_step key d val s
       (s\<lparr>cs_cache := c', cs_pc := (cs_pc s)(i := CallMissed), cs_disposed := cs_disposed s @ dis\<rparr>)"
| store: "cs_pc s i = CallMissed \<Longrightarrow>
     compute_step key d val s
       (s\<lparr>cs_cache := sc_store t key (val i) d (cs_cache s), cs_pc := (cs_pc s)(i := CallReturned (val i))\<rparr>)"

lemmas compute_steps = compute_step.hit compute_step.miss compute_step.store

definition compute_init :: "'v SlidingExpirationCache \<Rightarrow> 'v compute_state" where
  "compute_init c = \<lparr>cs_cache = c, cs_pc = (\<lambda>_. CallStart), cs_disposed = []\<rparr>"

lemma Sliding_Get_absent:
  "map_of (sc_cache c) key = None \<Longrightarrow> Sliding_Get t key d c = (c, None, [])"
  by (simp add: Sliding_Get_def cleanupIfExpired_def)

section \<open>Properties\<close>

text \<open>The operations that change a \<open>CacheMap\<close>, each with its own expiration, and those that leave the entry of \<open>key\<close> alone that
  lives until \<open>u\<close>: operations on other keys, clean-ups, and the two that store only what is absent.\<close>

datatype 'v map_op =
    MapPut string 'v duration | MapPutDefault string 'v | MapPutIfAbsent string 'v duration | MapCompute string 'v duration
  | MapRemove string | MapCleanUp | MapClear

fun run_map_op :: "time \<times> 'v map_op \<Rightarrow> 'v CacheMap \<Rightarrow> 'v CacheMap" where
  "run_map_op (s, MapPut j v d) c = CacheMap_Put s j v d c"
| "run_map_op (s, MapPutDefault j v) c = CacheMap_PutWithDefaultExpiration s j v c"
| "run_map_op (s, MapPutIfAbsent j v d) c = CacheMap_PutIfAbsent s j v d c"
| "run_map_op (s, MapCompute j v d) c = fst (CacheMap_ComputeIfAbsent s j (\<lambda>_. v) d c)"
| "run_map_op (s, MapRemove j) c = CacheMap_Remove s j c"
| "run_map_op (s, MapCleanUp) c = CacheMap_CleanUp s c"
| "run_map_op (s, MapClear) c = CacheMap_Clear s c"

fun spares :: "time \<Rightarrow> string \<Rightarrow> time \<times> 'v map_op \<Rightarrow> bool" where
  "spares u key (s, MapPut j _ _) \<longleftrightarrow> j \<noteq> key"
| "spares u key (s, MapPutDefault j _) \<longleftrightarrow> j \<noteq> key"
| "spares u key (s, MapPutIfAbsent j _ _) \<longleftrightarrow> j \<noteq> key \<or> s \<le> u"
| "spares u key (s, MapCompute j _ _) \<longleftrightarrow> j \<noteq> key \<or> s \<le> u"
| "spares u key (s, MapRemove j) \<longleftrightarrow> j \<noteq> key"
| "spares u key (s, MapCleanUp) \<longleftrightarrow> True"
| "spares u key (s, MapClear) \<longleftrightarrow> False"

text \<open>The entry is there, or it has expired and was cleaned up.\<close>

definition entry_lives :: "string \<Rightarrow> 'v cacheValue \<Rightarrow> time \<Rightarrow> 'v CacheMap \<Rightarrow> bool" where
  "entry_lives key e s c \<longleftrightarrow> cm_inv c \<and> (map_of (cm_cache c) key = Some e \<or> map_of (cm_cache c) key = None \<and> isExpired s e)"

lemma entry_lives_CleanUp: "entry_lives key e s c \<Longrightarrow> entry_lives key e s (CacheMap_CleanUp s c)"
  by (auto simp: entry_lives_def cm_inv_def CacheMap_CleanUp_def map_of_filter_wf split: option.splits)

lemma entry_lives_step:
  assumes "entry_lives key e s0 c" "s0 \<le> s" "spares (expirationTime e) key (s, opn)"
  shows "entry_lives key e s (run_map_op (s, opn) c)"
proof -
  have l: "entry_lives key e s c" using assms(1,2) isExpired_mono by (auto simp: entry_lives_def)
  have upd: "entry_lives key e s (c\<lparr>cm_cache := mput j x (cm_cache c)\<rparr>)" "entry_lives key e s (c\<lparr>cm_cache := mdel j (cm_cache c)\<rparr>)" if "j \<noteq> key" for j x
    using l that by (auto simp: entry_lives_def cm_inv_def)
  have absent: "map_of (cm_cache c) key \<noteq> None" if "s \<le> expirationTime e" using l that by (auto simp: entry_lives_def isExpired_def)
  note put = entry_lives_CleanUp [OF upd(1)] and del = entry_lives_CleanUp [OF upd(2)] and clean = entry_lives_CleanUp [OF l]
  show ?thesis
  proof (cases opn)
    case (MapPutIfAbsent j v d)
    then show ?thesis
      using assms(3) l put absent clean by (cases "j = key") (auto simp: CacheMap_PutIfAbsent_def CacheMap_Put_def intro: entry_lives_CleanUp)
  next
    case (MapCompute j v d)
    then show ?thesis
      using assms(3) l upd(1) absent by (cases "j = key") (auto simp: CacheMap_ComputeIfAbsent_def Let_def split: option.splits)
  qed (use assms(3) put del clean in \<open>auto simp: CacheMap_Put_def CacheMap_PutWithDefaultExpiration_def CacheMap_Remove_def\<close>)
qed

lemma entry_lives_run:
  "entry_lives key e s c \<Longrightarrow> list_all (spares (expirationTime e) key) ops \<Longrightarrow> sorted (s # map fst ops @ [t]) \<Longrightarrow>
     entry_lives key e t (fold run_map_op ops c)"
proof (induction ops arbitrary: s c)
  case Nil
  then show ?case using isExpired_mono by (auto simp: entry_lives_def)
next
  case (Cons so ops)
  obtain s' opn where so: "so = (s', opn)" by (cases so)
  show ?case using Cons.IH [OF entry_lives_step [OF Cons.prems(1)]] Cons.prems so by simp
qed

text \<open>C18: A value put into a \<open>CacheMap\<close> with expiration \<open>d\<close> is what \<open>Get\<close> returns up to and including the instant \<open>t + d\<close>, and is
  not found after it, whatever happens in between to other keys: puts and default puts with expirations of their own,
  \<open>PutIfAbsent\<close>, \<open>ComputeIfAbsent\<close>, removals and clean-ups. \<open>PutIfAbsent\<close> and \<open>ComputeIfAbsent\<close> for the key itself do not
  touch it either as long as it has not expired.\<close>

theorem CacheMap_lifetime:
  assumes "cm_inv c" and "list_all (spares (t + d) k) ops" and "sorted (t # map fst ops @ [t'])"
  shows "CacheMap_Get t' (fold run_map_op ops (CacheMap_Put t k v d c)) k = (if t' \<le> t + d then Some v else None)"
proof -
  let ?e = "\<lparr>item = v, expirationTime = t + d\<rparr>"
  have "entry_lives k ?e t (c\<lparr>cm_cache := mput k ?e (cm_cache c)\<rparr>)" using assms(1) by (simp add: entry_lives_def cm_inv_def)
  from entry_lives_run [OF entry_lives_CleanUp [OF this] _ assms(3)] assms(2)
  have "entry_lives k ?e t' (fold run_map_op ops (CacheMap_Put t k v d c))" by (simp add: CacheMap_Put_def)
  then show ?thesis by (auto simp: entry_lives_def CacheMap_Get_def isExpired_def)
qed

theorem CacheMap_lifetime_witness:
  "CacheMap_Get 1500
     (fold run_map_op [(700, MapPut ''other'' (2::int) 5), (750, MapPutIfAbsent ''host'' 3 9), (800, MapCleanUp), (900, MapRemove ''other'')]
        (CacheMap_Put 600 ''host'' 1 1000 (NewCache 0))) ''host'' = Some 1"
proof -
  have "cm_inv (NewCache 0 :: int CacheMap)"
    by (simp add: NewCache_def cm_inv_ops)
  from CacheMap_lifetime [OF this, of 600 1000 "''host''"
      "[(700, MapPut ''other'' (2::int) 5), (750, MapPutIfAbsent ''host'' 3 9), (800, MapCleanUp), (900, MapRemove ''other'')]" 1500 1]
  show ?thesis by simp
qed

text \<open>The same for an \<open>ExpirationCache\<close> whose entries are not renewed on access: a put value is
  returned exactly until its time-to-live is over, under any puts and removals of other keys and
  any runs of \<open>RemoveExpiredEntries\<close>, also when \<open>ShouldDispose\<close> keeps expired entries.\<close>

theorem ExpirationCache_lifetime:
  assumes "ec_inv c" and "\<not> ec_renewOnAccess c"
    and "\<forall>(s, opn) \<in> set ops. s \<le> t' \<and> op_key opn \<noteq> Some k" and "t \<le> t'"
  shows "snd (ExpirationCache_Get t' k
           (run_cache (\<lambda>t k v c. fst (ExpirationCache_Put t k v c)) (\<lambda>t k c. fst (ExpirationCache_Remove k c))
              (\<lambda>t c. fst (ExpirationCache_RemoveExpiredEntries t c)) ops
              (fst (ExpirationCache_Put t k v c)))) = (if t' \<le> t + ec_ttl c then Some v else None)"
  using expcache.put_then_run [of c ops t' k t v] assms by (simp add: ec_inv_fixed_def)

theorem ExpirationCache_lifetime_witness:
  "snd (ExpirationCache_Get 1001 ''k''
     (run_cache (\<lambda>t k v c. fst (ExpirationCache_Put t k v c)) (\<lambda>t k c. fst (ExpirationCache_Remove k c))
        (\<lambda>t c. fst (ExpirationCache_RemoveExpiredEntries t c)) [(900, OpCleanup)]
        (fst (ExpirationCache_Put 0 ''k'' (7::int) (NewExpirationCache 1000 False (Some (\<lambda>_. False)) True))))) = None"
  using ExpirationCache_lifetime
    [of "NewExpirationCache 1000 False (Some (\<lambda>_. False)) True" "[(900, OpCleanup)]" 1001 "''k''" 0 "7::int"]
  by (simp add: ec_inv_ops) (simp add: NewExpirationCache_def)

text \<open>C16: Nothing a \<open>SlidingExpirationCache\<close> with a disposal function ever held is lost or disposed
  of twice: over any sequence of its operations and clean-up turns, the items it holds at the end
  together with the items disposed of are the items it held at the start together with the items
  stored.\<close>

theorem SlidingExpirationCache_conservation:
  assumes "sc_inv c" and "sc_hasItemDisposalFunc c" and "sliding_run ops c = (c', stored, disposed)"
  shows "sc_values c' + mset disposed = sc_values c + mset stored"
  using sliding_run_props [OF assms(1,3)] assms(2) by simp

theorem SlidingExpirationCache_conservation_witness:
  "sc_values (fst (sliding_run [(0, SPut ''a'' (1::int) 10), (5, SCompute ''b'' 2 10), (40, STurn)]
      (NewSlidingExpirationCache 0 [Some (\<lambda>_. True)]))) + {#1, 2#} = {#1, 2#}"
proof -
  let ?c = "NewSlidingExpirationCache 0 [Some (\<lambda>_. True)] :: int SlidingExpirationCache"
  let ?ops = "[(0, SPut ''a'' (1::int) 10), (5, SCompute ''b'' 2 10), (40, STurn)]"
  have run: "sliding_run ?ops ?c = (fst (sliding_run ?ops ?c), [1, 2], [1, 2])"
    by (simp add: NewSlidingExpirationCache_def Sliding_defs sc_shouldCleanup_def isExpired_def mput_def mdel_def)
  have "sc_inv ?c" "sc_hasItemDisposalFunc ?c" "sc_values ?c = {#}"
    by (simp_all add: NewSlidingExpirationCache_def sc_inv_def sc_values_def values_of_def)
  with SlidingExpirationCache_conservation [OF _ _ run] show ?thesis by simp
qed

text \<open>Two goroutines that call \<open>ComputeIfAbsent\<close> for the same absent key of a
  \<open>SlidingExpirationCache\<close> can both compute: one schedule leaves them with different values, the
  value of the first no longer in the cache and never disposed of.\<close>

theorem Sliding_ComputeIfAbsent_race:
  assumes "sc_inv c" and "map_of (sc_cache c) key = None"
  shows "\<exists>s. (compute_step key d val)\<^sup>*\<^sup>* (compute_init c) s \<and>
           cs_pc s 0 = CallReturned (val 0) \<and> cs_pc s 1 = CallReturned (val 1) \<and>
           sc_values (cs_cache s) = add_mset (val 1) (sc_values c) \<and> cs_disposed s = []"
proof -
  let ?s0 = "compute_init c"
  let ?s1 = "?s0\<lparr>cs_pc := (cs_pc ?s0)(0 := CallMissed)\<rparr>"
  let ?s2 = "?s1\<lparr>cs_pc := (cs_pc ?s1)(1 := CallMissed)\<rparr>"
  let ?c3 = "sc_store 0 key (val 0) d c"
  let ?s3 = "?s2\<lparr>cs_cache := ?c3, cs_pc := (cs_pc ?s2)(0 := CallReturned (val 0))\<rparr>"
  let ?s4 = "?s3\<lparr>cs_cache := sc_store 0 key (val 1) d ?c3, cs_pc := (cs_pc ?s3)(1 := CallReturned (val 1))\<rparr>"
  have "compute_step key d val ?s0 ?s1"
    using compute_step.miss [of ?s0 0 0 key d c "[]" val] Sliding_Get_absent [OF assms(2)]
    by (simp add: compute_init_def)
  moreover have "compute_step key d val ?s1 ?s2"
    using compute_step.miss [of ?s1 1 0 key d c "[]" val] Sliding_Get_absent [OF assms(2)]
    by (simp add: compute_init_def)
  moreover have "compute_step key d val ?s2 ?s3"
    using compute_step.store [of ?s2 0 key d val 0] by (simp add: compute_init_def)
  moreover have "compute_step key d val ?s3 ?s4"
    using compute_step.store [of ?s3 1 key d val 0] by simp
  ultimately have steps: "(compute_step key d val)\<^sup>*\<^sup>* ?s0 ?s4" by (meson r_into_rtranclp rtranclp_trans)
  have "add_mset (val 0) (sc_values (cs_cache ?s4)) = add_mset (val 1) (sc_values ?c3)"
    using assms(1) image_values_mput_present
      [of "sc_cache ?c3" key "\<lparr>item = val 0, expirationTime = 0 + d\<rparr>" item "\<lparr>item = val 1, expirationTime = 0 + d\<rparr>"]
    by (simp add: sc_store_def sc_values_def sc_inv_def)
  then have "sc_values (cs_cache ?s4) = add_mset (val 1) (sc_values c)"
    using sc_store_props(3) [OF assms] by simp
  with steps show ?thesis by (intro exI [of _ ?s4]) (simp add: compute_init_def)
qed

theorem Sliding_ComputeIfAbsent_race_witness:
  "\<exists>s. (compute_step ''pool'' 10 (\<lambda>i. int i))\<^sup>*\<^sup>* (compute_init (NewSlidingExpirationCache 0 [Some (\<lambda>_. True)])) s \<and>
       cs_pc s 0 = CallReturned 0 \<and> cs_pc s 1 = CallReturned 1 \<and>
       sc_values (cs_cache s) = {#1#} \<and> cs_disposed s = []"
proof -
  let ?c = "NewSlidingExpirationCache 0 [Some (\<lambda>_. True)] :: int SlidingExpirationCache"
  have "sc_inv ?c" "map_of (sc_cache ?c) ''pool'' = None" "sc_values ?c = {#}"
    by (simp_all add: NewSlidingExpirationCache_def sc_inv_def sc_values_def values_of_def)
  with Sliding_ComputeIfAbsent_race [of ?c "''pool''" 10 "\<lambda>i. int i"] show ?thesis by simp
qed

text \<open>\<open>Exists\<close> and \<open>Get\<close> of an \<open>ExpirationCache\<close> without renewal differ exactly on the expired
  entries that \<open>ShouldDispose\<close> wants to keep: those exist, and are not found.\<close>

theorem ExpirationCache_Exists_vs_Get:
  assumes "\<not> ec_renewOnAccess c"
  shows "ExpirationCache_Exists t k c \<longleftrightarrow>
           snd (ExpirationCache_Get t k c) \<noteq> None \<or>
           (\<exists>e f. map_of (ec_cache c) k = Some e \<and> isExpired t e \<and> ei_shouldDispose e = Some f \<and> \<not> f (item e))"
  using assms
  by (auto simp: ExpirationCache_Exists_def ec_Get_fixed ec_shouldCleanup_def split: option.splits)

theorem ExpirationCache_Exists_vs_Get_witness:
  "ExpirationCache_Exists 11 ''k'' (fst (ExpirationCache_Put 0 ''k'' (7::int) (NewExpirationCache 10 False (Some (\<lambda>_. False)) True)))"
proof -
  let ?b = "NewExpirationCache 10 False (Some (\<lambda>_. False)) True :: (string, int) ExpirationCache"
  let ?c = "fst (ExpirationCache_Put 0 ''k'' (7::int) ?b)"
  have "\<not> ec_renewOnAccess ?c"
    by (simp add: ec_config_ops NewExpirationCache_def)
  moreover have "map_of (ec_cache ?c) ''k'' = Some (ec_newItem 0 ?b 7)"
    by (simp add: ec_cache_ops)
  ultimately show ?thesis
    using ExpirationCache_Exists_vs_Get [of ?c 11 "''k''"]
    by (simp add: ec_newItem_def NewExpirationCache_def isExpired_def)
qed

end
