(* ===== verification/Collections.thy ===== *)
theory Collections
  imports Go_Base
begin

text \<open>
  The locked containers of \<open>awssql/utils\<close>: \<open>RWMap\<close> (\<open>rw_map.go\<close>), \<open>RWQueue\<close>
  (\<open>rw_queue.go\<close>) and \<open>Pair\<close> (\<open>pair.go\<close>). Each operation holds the lock from its first to its
  last access, so it is one step. A disposal function is called for its effect only: operations
  return the list of the values they dispose of.
\<close>

section \<open>RWMap\<close>

record ('k, 'v) RWMap =
  rw_cache :: "('k, 'v) gomap"
  rw_hasDisposalFunc :: bool

definition NewRWMap :: "('k, 'v) RWMap" where
  "NewRWMap = \<lparr>rw_cache = [], rw_hasDisposalFunc = False\<rparr>"

definition NewRWMapWithDisposalFunc :: "('k, 'v) RWMap" where
  "NewRWMapWithDisposalFunc = \<lparr>rw_cache = [], rw_hasDisposalFunc = True\<rparr>"

definition NewRWMapFromMap :: "('k, 'v) gomap \<Rightarrow> ('k, 'v) RWMap" where
  "NewRWMapFromMap m = \<lparr>rw_cache = m, rw_hasDisposalFunc = False\<rparr>"

definition RWMap_GetAllEntries :: "('k, 'v) RWMap \<Rightarrow> ('k, 'v) gomap" where
  "RWMap_GetAllEntries c = foldl (\<lambda>m (k, v). mput k v m) [] (rw_cache c)"

definition NewRWMapFromCopy :: "('k, 'v) RWMap option \<Rightarrow> ('k, 'v) RWMap" where
  "NewRWMapFromCopy c = (case c of None \<Rightarrow> NewRWMap | Some c \<Rightarrow> NewRWMapFromMap (RWMap_GetAllEntries c))"

definition rw_disposing :: "('k, 'v) RWMap \<Rightarrow> 'v list \<Rightarrow> 'v list" where
  "rw_disposing c vs = (if rw_hasDisposalFunc c then vs else [])"

definition RWMap_Put :: "'k \<Rightarrow> 'v \<Rightarrow> ('k, 'v) RWMap \<Rightarrow> ('k, 'v) RWMap \<times> 'v list" where
  "RWMap_Put key value c =
     (c\<lparr>rw_cache := mput key value (rw_cache c)\<rparr>,
      (case map_of (rw_cache c) key of Some old \<Rightarrow> rw_disposing c [old] | None \<Rightarrow> []))"

definition RWMap_Get :: "'k \<Rightarrow> ('k, 'v) RWMap \<Rightarrow> 'v option" where
  "RWMap_Get key c = map_of (rw_cache c) key"

definition RWMap_ComputeIfAbsent :: "'k \<Rightarrow> (unit \<Rightarrow> 'v) \<Rightarrow> ('k, 'v) RWMap \<Rightarrow> ('k, 'v) RWMap \<times> 'v" where
  "RWMap_ComputeIfAbsent key computeFunc c =
     (case map_of (rw_cache c) key of
        Some v \<Rightarrow> (c, v)
      | None \<Rightarrow> (let v = computeFunc () in (c\<lparr>rw_cache := mput key v (rw_cache c)\<rparr>, v)))"

definition RWMap_PutIfAbsent :: "'k \<Rightarrow> 'v \<Rightarrow> ('k, 'v) RWMap \<Rightarrow> ('k, 'v) RWMap" where
  "RWMap_PutIfAbsent key value c =
     (if map_of (rw_cache c) key = None then c\<lparr>rw_cache := mput key value (rw_cache c)\<rparr> else c)"

definition RWMap_Remove :: "'k \<Rightarrow> ('k, 'v) RWMap \<Rightarrow> ('k, 'v) RWMap \<times> 'v list" where
  "RWMap_Remove key c =
     (case map_of (rw_cache c) key of
        Some v \<Rightarrow> (c\<lparr>rw_cache := mdel key (rw_cache c)\<rparr>, rw_disposing c [v])
      | None \<Rightarrow> (c, []))"

definition clearWithDisposalFunc :: "('k, 'v) RWMap \<Rightarrow> ('k, 'v) RWMap \<times> 'v list" where
  "clearWithDisposalFunc c = (c\<lparr>rw_cache := []\<rparr>, map snd (rw_cache c))"

definition RWMap_Clear :: "('k, 'v) RWMap \<Rightarrow> ('k, 'v) RWMap \<times> 'v list" where
  "RWMap_Clear c = (if rw_hasDisposalFunc c then clearWithDisposalFunc c else (c\<lparr>rw_cache := []\<rparr>, []))"

definition ReplaceCacheWithMap :: "('k, 'v) gomap \<Rightarrow> ('k, 'v) RWMap \<Rightarrow> ('k, 'v) RWMap \<times> 'v list" where
  "ReplaceCacheWithMap entryMap c =
     (c\<lparr>rw_cache := entryMap\<rparr>, rw_disposing c (map snd (rw_cache c)))"

definition ReplaceCacheWithCopy :: "('k, 'v) RWMap \<Rightarrow> ('k, 'v) RWMap \<Rightarrow> ('k, 'v) RWMap \<times> 'v list" where
  "ReplaceCacheWithCopy mapToCopy c = ReplaceCacheWithMap (RWMap_GetAllEntries mapToCopy) c"

definition RWMap_Size :: "('k, 'v) RWMap option \<Rightarrow> nat" where
  "RWMap_Size c = (case c of None \<Rightarrow> 0 | Some c \<Rightarrow> length (rw_cache c))"

text \<open>\<open>RemoveIf\<close> returns the removed entries beside the values it disposes of.\<close>

definition RWMap_RemoveIf ::
  "('k \<Rightarrow> 'v \<Rightarrow> bool) \<Rightarrow> ('k, 'v) RWMap \<Rightarrow> ('k, 'v) RWMap \<times> ('k \<times> 'v) list \<times> 'v list" where
  "RWMap_RemoveIf predicate c =
     (let removed = filter (\<lambda>(k, v). predicate k v) (rw_cache c)
      in (c\<lparr>rw_cache := filter (\<lambda>(k, v). \<not> predicate k v) (rw_cache c)\<rparr>, removed,
          rw_disposing c (map snd removed)))"

text \<open>The entries that \<open>ProcessAndRemoveIf\<close> passes to its processor, in order.\<close>

definition ProcessAndRemoveIf ::
  "('k \<Rightarrow> bool) \<Rightarrow> ('k, 'v) RWMap \<Rightarrow> ('k, 'v) RWMap \<times> ('k \<times> 'v) list \<times> 'v list" where
  "ProcessAndRemoveIf condition c = RWMap_RemoveIf (\<lambda>k _. condition k) c"

definition RWMap_Filter :: "('k \<Rightarrow> 'v \<Rightarrow> bool) \<Rightarrow> ('k, 'v) RWMap \<Rightarrow> ('k, 'v) RWMap \<times> 'v list" where
  "RWMap_Filter condition c =
     (c\<lparr>rw_cache := filter (\<lambda>(k, v). condition k v) (rw_cache c)\<rparr>,
      rw_disposing c (map snd (filter (\<lambda>(k, v). \<not> condition k v) (rw_cache c))))"

text \<open>The calls \<open>ForEach\<close> makes.\<close>

definition RWMap_ForEach :: "('k, 'v) RWMap \<Rightarrow> ('k \<times> 'v) list" where
  "RWMap_ForEach c = rw_cache c"

definition CombineRWMaps :: "('k, 'v) RWMap option \<Rightarrow> ('k, 'v) RWMap \<Rightarrow> ('k, 'v) RWMap" where
  "CombineRWMaps mapToCopy mapToAdd =
     foldl (\<lambda>c (k, v). fst (RWMap_Put k v c)) (NewRWMapFromCopy mapToCopy) (RWMap_GetAllEntries mapToAdd)"

section \<open>RWQueue\<close>

record 'a RWQueue =
  q_items :: "'a list"

definition NewRWQueue :: "'a RWQueue" where
  "NewRWQueue = \<lparr>q_items = []\<rparr>"

definition Enqueue :: "'a \<Rightarrow> 'a RWQueue \<Rightarrow> 'a RWQueue" where
  "Enqueue x q = q\<lparr>q_items := q_items q @ [x]\<rparr>"

definition Dequeue :: "'a RWQueue \<Rightarrow> 'a RWQueue \<times> 'a option" where
  "Dequeue q = (case q_items q of [] \<Rightarrow> (q, None) | x # xs \<Rightarrow> (q\<lparr>q_items := xs\<rparr>, Some x))"

definition RWQueue_Size :: "'a RWQueue \<Rightarrow> nat" where
  "RWQueue_Size q = length (q_items q)"

definition RWQueue_IsEmpty :: "'a RWQueue \<Rightarrow> bool" where
  "RWQueue_IsEmpty q \<longleftrightarrow> length (q_items q) = 0"

definition RWQueue_ForEach :: "'a RWQueue \<Rightarrow> 'a list" where
  "RWQueue_ForEach q = q_items q"

definition RWQueue_RemoveIf :: "('a \<Rightarrow> bool) \<Rightarrow> 'a RWQueue \<Rightarrow> 'a RWQueue" where
  "RWQueue_RemoveIf condition q = q\<lparr>q_items := filter (\<lambda>x. \<not> condition x) (q_items q)\<rparr>"

section \<open>Pair\<close>

text \<open>The accessors of a nil pair return the zero value of their type, here \<open>zero\<close>.\<close>

definition GetLeft :: "'a \<Rightarrow> ('a \<times> 'b) option \<Rightarrow> 'a" where
  "GetLeft zero p = (case p of None \<Rightarrow> zero | Some (l, r) \<Rightarrow> l)"

definition GetRight :: "'b \<Rightarrow> ('a \<times> 'b) option \<Rightarrow> 'b" where
  "GetRight zero p = (case p of None \<Rightarrow> zero | Some (l, r) \<Rightarrow> r)"

section \<open>The contract of a keyed store\<close>

text \<open>What the clients of \<open>RWMap\<close> rely on: the operations act on the lookup function as on a
  mathematical map.\<close>

datatype ('k, 'v) map_op = MPut 'k 'v | MPutIfAbsent 'k 'v | MRemove 'k | MFilter "'k \<Rightarrow> 'v \<Rightarrow> bool"

fun map_spec :: "('k, 'v) map_op \<Rightarrow> ('k \<rightharpoonup> 'v) \<Rightarrow> ('k \<rightharpoonup> 'v)" where
  "map_spec (MPut k v) m = m(k \<mapsto> v)"
| "map_spec (MPutIfAbsent k v) m = (if m k = None then m(k \<mapsto> v) else m)"
| "map_spec (MRemove k) m = m(k := None)"
| "map_spec (MFilter p) m = (\<lambda>k. case m k of None \<Rightarrow> None | Some v \<Rightarrow> if p k v then Some v else None)"

fun map_step ::
  "('k \<Rightarrow> 'v \<Rightarrow> 'c \<Rightarrow> 'c) \<Rightarrow> ('k \<Rightarrow> 'v \<Rightarrow> 'c \<Rightarrow> 'c) \<Rightarrow> ('k \<Rightarrow> 'c \<Rightarrow> 'c) \<Rightarrow> (('k \<Rightarrow> 'v \<Rightarrow> bool) \<Rightarrow> 'c \<Rightarrow> 'c)
     \<Rightarrow> ('k, 'v) map_op \<Rightarrow> 'c \<Rightarrow> 'c" where
  "map_step put pia rm fl (MPut k v) c = put k v c"
| "map_step put pia rm fl (MPutIfAbsent k v) c = pia k v c"
| "map_step put pia rm fl (MRemove k) c = rm k c"
| "map_step put pia rm fl (MFilter p) c = fl p c"

locale keyed_store =
  fixes lookup :: "'c \<Rightarrow> 'k \<Rightarrow> 'v option"
    and put :: "'k \<Rightarrow> 'v \<Rightarrow> 'c \<Rightarrow> 'c"
    and put_if_absent :: "'k \<Rightarrow> 'v \<Rightarrow> 'c \<Rightarrow> 'c"
    and remove :: "'k \<Rightarrow> 'c \<Rightarrow> 'c"
    and keep :: "('k \<Rightarrow> 'v \<Rightarrow> bool) \<Rightarrow> 'c \<Rightarrow> 'c"
    and inv :: "'c \<Rightarrow> bool"
  assumes lookup_put: "inv c \<Longrightarrow> lookup (put k v c) = map_spec (MPut k v) (lookup c)"
    and lookup_put_if_absent: "inv c \<Longrightarrow> lookup (put_if_absent k v c) = map_spec (MPutIfAbsent k v) (lookup c)"
    and lookup_remove: "inv c \<Longrightarrow> lookup (remove k c) = map_spec (MRemove k) (lookup c)"
    and lookup_keep: "inv c \<Longrightarrow> lookup (keep p c) = map_spec (MFilter p) (lookup c)"
    and inv_put: "inv c \<Longrightarrow> inv (put k v c)"
    and inv_put_if_absent: "inv c \<Longrightarrow> inv (put_if_absent k v c)"
    and inv_remove: "inv c \<Longrightarrow> inv (remove k c)"
    and inv_keep: "inv c \<Longrightarrow> inv (keep p c)"
begin

lemmas lookup_ops = lookup_put lookup_put_if_absent lookup_remove lookup_keep
lemmas inv_ops = inv_put inv_put_if_absent inv_remove inv_keep

lemma step_refines:
  "inv c \<Longrightarrow> lookup (map_step put put_if_absent remove keep opn c) = map_spec opn (lookup c)"
  by (cases opn) (simp_all add: lookup_ops)

lemma step_inv: "inv c \<Longrightarrow> inv (map_step put put_if_absent remove keep opn c)"
  by (cases opn) (simp_all add: inv_ops)

lemma run_refines:
  "inv c \<Longrightarrow>
   lookup (fold (map_step put put_if_absent remove keep) ops c) = fold map_spec ops (lookup c) \<and>
   inv (fold (map_step put put_if_absent remove keep) ops c)"
  by (induction ops arbitrary: c) (auto simp: step_refines step_inv)

end

definition rw_inv :: "('k, 'v) RWMap \<Rightarrow> bool" where
  "rw_inv c \<longleftrightarrow> wf_map (rw_cache c)"

lemmas RWMap_defs =
  RWMap_Put_def RWMap_Get_def RWMap_ComputeIfAbsent_def RWMap_PutIfAbsent_def RWMap_Remove_def
  RWMap_Clear_def clearWithDisposalFunc_def RWMap_RemoveIf_def RWMap_Filter_def ReplaceCacheWithMap_def
  rw_disposing_def Let_def

lemma rw_inv_New [simp]: "rw_inv NewRWMap" "rw_inv NewRWMapWithDisposalFunc"
  by (simp_all add: rw_inv_def NewRWMap_def NewRWMapWithDisposalFunc_def)

lemma rw_inv_ComputeIfAbsent: "rw_inv c \<Longrightarrow> rw_inv (fst (RWMap_ComputeIfAbsent k f c))"
  by (auto simp: rw_inv_def RWMap_defs split: option.splits)

interpretation rwmap: keyed_store "\<lambda>c k. RWMap_Get k c" "\<lambda>k v c. fst (RWMap_Put k v c)" RWMap_PutIfAbsent
    "\<lambda>k c. fst (RWMap_Remove k c)" "\<lambda>p c. fst (RWMap_Filter p c)" rw_inv
  by unfold_locales
    (auto simp: RWMap_defs rw_inv_def map_of_filter_wf fun_eq_iff split: option.splits)

lemma RWMap_RemoveIf_Filter:
  "fst (RWMap_RemoveIf p c) = fst (RWMap_Filter (\<lambda>k v. \<not> p k v) c)"
  by (simp add: RWMap_defs)

lemma RWMap_GetAllEntries_map_of:
  assumes "rw_inv c"
  shows "map_of (RWMap_GetAllEntries c) = map_of (rw_cache c) \<and> wf_map (RWMap_GetAllEntries c)"
proof -
  have "map_of (foldl (\<lambda>m (k, v). mput k v m) m0 kvs) = map_of m0 ++ map_of kvs \<and>
        wf_map (foldl (\<lambda>m (k, v). mput k v m) m0 kvs)"
    if "wf_map m0" "wf_map kvs" for m0 kvs :: "('a, 'b) gomap"
    using that
  proof (induction kvs arbitrary: m0)
    case Nil
    then show ?case by simp
  next
    case (Cons a kvs)
    obtain k v where a: "a = (k, v)" by (cases a)
    with Cons.prems have "map_of kvs k = None" "wf_map kvs"
      by (auto simp: wf_map_def map_of_eq_None_iff)
    with Cons.IH [of "mput k v m0"] Cons.prems a show ?case
      by (auto simp: map_add_def fun_eq_iff split: option.splits)
  qed
  from this [of "[]" "rw_cache c"] assms show ?thesis
    by (simp add: RWMap_GetAllEntries_def rw_inv_def)
qed

lemma NewRWMapFromCopy_lookup:
  assumes "rw_inv c"
  shows "RWMap_Get k (NewRWMapFromCopy (Some c)) = RWMap_Get k c" "rw_inv (NewRWMapFromCopy (Some c))"
  using assms RWMap_GetAllEntries_map_of [of c]
  by (simp_all add: NewRWMapFromCopy_def NewRWMapFromMap_def RWMap_Get_def rw_inv_def)

lemma CombineRWMaps_lookup:
  assumes "rw_inv a" "rw_inv b"
  shows "(\<lambda>k. RWMap_Get k (CombineRWMaps (Some a) b)) = (\<lambda>k. RWMap_Get k a) ++ (\<lambda>k. RWMap_Get k b)"
proof -
  have fold: "map_of (rw_cache (foldl (\<lambda>c (k, v). fst (RWMap_Put k v c)) c kvs)) = map_of (rw_cache c) ++ map_of (rev kvs)"
    for c :: "('a, 'b) RWMap" and kvs
  proof (induction kvs arbitrary: c)
    case Nil
    then show ?case by simp
  next
    case (Cons a kvs)
    then show ?case by (cases a) (auto simp: RWMap_Put_def map_add_def fun_eq_iff split: option.splits)
  qed
  have "map_of (rev (RWMap_GetAllEntries b)) = map_of (rw_cache b)"
    using RWMap_GetAllEntries_map_of [OF assms(2)] map_of_rev_wf by metis
  then show ?thesis
    using NewRWMapFromCopy_lookup(1) [OF assms(1)]
    by (auto simp: CombineRWMaps_def fold RWMap_Get_def fun_eq_iff map_add_def split: option.splits)
qed

text \<open>Disposal: a map with a disposal function disposes of every value it drops, once.\<close>

lemma RWMap_conservation:
  assumes "rw_inv c" "rw_hasDisposalFunc c"
  shows "values_of (rw_cache (fst (RWMap_Put k v c))) + mset (snd (RWMap_Put k v c)) = add_mset v (values_of (rw_cache c))"
    and "values_of (rw_cache (fst (RWMap_Remove k c))) + mset (snd (RWMap_Remove k c)) = values_of (rw_cache c)"
    and "values_of (rw_cache (fst (RWMap_Clear c))) + mset (snd (RWMap_Clear c)) = values_of (rw_cache c)"
    and "values_of (rw_cache (fst (RWMap_Filter p c))) + mset (snd (RWMap_Filter p c)) = values_of (rw_cache c)"
  subgoal
    using assms
    by (auto simp: RWMap_defs rw_inv_def values_of_mput_absent values_of_mput_present split: option.splits)
  subgoal
    using assms by (auto simp: RWMap_defs rw_inv_def values_of_mdel split: option.splits)
  subgoal
    using assms by (simp add: RWMap_defs values_of_def)
  subgoal
    using assms values_of_filter [of "\<lambda>(k, v). p k v" "rw_cache c"]
    by (simp add: RWMap_defs values_of_def split_def)
  done

section \<open>The contract of a queue\<close>

locale fifo_queue =
  fixes enq :: "'a \<Rightarrow> 'q \<Rightarrow> 'q"
    and deq :: "'q \<Rightarrow> 'q \<times> 'a option"
    and contents :: "'q \<Rightarrow> 'a list"
  assumes contents_enq: "contents (enq x q) = contents q @ [x]"
    and deq_empty: "contents q = [] \<Longrightarrow> deq q = (q, None)"
    and deq_Cons: "contents q = x # xs \<Longrightarrow> \<exists>q'. deq q = (q', Some x) \<and> contents q' = xs"
begin

lemma enqueued_in_order: "contents (fold enq xs q) = contents q @ xs"
  by (induction xs arbitrary: q) (simp_all add: contents_enq)

end

fun drain :: "('q \<Rightarrow> 'q \<times> 'a option) \<Rightarrow> nat \<Rightarrow> 'q \<Rightarrow> 'a list" where
  "drain dq 0 q = []"
| "drain dq (Suc n) q = (case dq q of (q', Some x) \<Rightarrow> x # drain dq n q' | (q', None) \<Rightarrow> [])"

context fifo_queue
begin

lemma drain_contents: "length (contents q) \<le> n \<Longrightarrow> drain deq n q = contents q"
proof (induction n arbitrary: q)
  case 0
  then show ?case by simp
next
  case (Suc n)
  show ?case
  proof (cases "contents q")
    case Nil
    then show ?thesis by (simp add: deq_empty)
  next
    case (Cons x xs)
    with deq_Cons obtain q' where "deq q = (q', Some x)" "contents q' = xs" by blast
    with Cons Suc.prems Suc.IH [of q'] show ?thesis by simp
  qed
qed

lemma fifo_order: "contents q = [] \<Longrightarrow> drain deq (length xs) (fold enq xs q) = xs"
  using drain_contents [of "fold enq xs q" "length xs"] by (simp add: enqueued_in_order)

end

interpretation rwqueue: fifo_queue Enqueue Dequeue q_items
  by unfold_locales (auto simp: Enqueue_def Dequeue_def)

section \<open>Properties\<close>

text \<open>Every caller of \<open>RWMap.ComputeIfAbsent\<close> for a key gets the value of the first caller,
  whatever their functions compute: the lock is held over look-up and store.\<close>

theorem RWMap_ComputeIfAbsent_agree:
  "RWMap_ComputeIfAbsent k f c = (c1, v) \<Longrightarrow>
     snd (RWMap_ComputeIfAbsent k g (fold (\<lambda>h c. fst (RWMap_ComputeIfAbsent k h c)) hs c1)) = v"
proof -
  assume first: "RWMap_ComputeIfAbsent k f c = (c1, v)"
  have "map_of (rw_cache c1) k = Some v"
    using first by (auto simp: RWMap_defs split: option.splits)
  then have "map_of (rw_cache (fold (\<lambda>h c. fst (RWMap_ComputeIfAbsent k h c)) hs c1)) k = Some v"
    by (induction hs arbitrary: c1) (simp_all add: RWMap_ComputeIfAbsent_def)
  then show ?thesis by (simp add: RWMap_ComputeIfAbsent_def)
qed

theorem RWMap_ComputeIfAbsent_agree_witness:
  "snd (RWMap_ComputeIfAbsent ''k'' (\<lambda>_. 2::int)
     (fold (\<lambda>h c. fst (RWMap_ComputeIfAbsent ''k'' h c)) [\<lambda>_. 5]
       (fst (RWMap_ComputeIfAbsent ''k'' (\<lambda>_. 1) NewRWMap)))) = 1"
  using RWMap_ComputeIfAbsent_agree [of "''k''" "\<lambda>_. 1::int" NewRWMap
      "fst (RWMap_ComputeIfAbsent ''k'' (\<lambda>_. 1) NewRWMap)" 1 "\<lambda>_. 2" "[\<lambda>_. 5]"]
  by (simp add: RWMap_ComputeIfAbsent_def NewRWMap_def)

text \<open>\<open>RWQueue\<close> is first in, first out: the items enqueued into an empty queue come out of
  \<open>Dequeue\<close> in the order they went in, and then the queue is empty.\<close>

theorem RWQueue_fifo:
  "drain Dequeue (length xs) (fold Enqueue xs NewRWQueue) = xs"
  by (rule rwqueue.fifo_order) (simp add: NewRWQueue_def)

end
