(* ===== verification/Services.thy ===== *)
theory Services
  imports Collections Expiring_Caches
begin

text \<open>
  The shared services of \<open>awssql/services\<close>: the expiring storage (\<open>storage.go\<close>, with the type
  descriptors of \<open>driver_infrastructure/storage_type_descriptor.go\<close>), the batching event publisher
  (\<open>events.go\<close>) and the monitor manager (\<open>monitor.go\<close>).

  Events a component publishes, deliveries to subscribers and the starting and stopping of monitors
  are returned as lists, in the order the code performs them.
\<close>

section \<open>Events\<close>

record EventType =
  Name :: string

definition DataAccessEventType :: EventType where
  "DataAccessEventType = \<lparr>Name = ''DataAccess''\<rparr>"

definition MonitorStopEventType :: EventType where
  "MonitorStopEventType = \<lparr>Name = ''MonitorStop''\<rparr>"

definition MonitorResetEventType :: EventType where
  "MonitorResetEventType = \<lparr>Name = ''MonitorReset''\<rparr>"

text \<open>\<open>'k\<close> is the type of storage and monitor keys (\<open>any\<close>). A monitor type is its name.\<close>

datatype 'k Event =
    DataAccessEvent string 'k
  | MonitorStopEvent string 'k
  | MonitorResetEvent string "string set"

fun GetEventType :: "'k Event \<Rightarrow> EventType" where
  "GetEventType (DataAccessEvent _ _) = DataAccessEventType"
| "GetEventType (MonitorStopEvent _ _) = MonitorStopEventType"
| "GetEventType (MonitorResetEvent _ _) = MonitorResetEventType"

fun IsImmediateDelivery :: "'k Event \<Rightarrow> bool" where
  "IsImmediateDelivery (DataAccessEvent _ _) = False"
| "IsImmediateDelivery (MonitorStopEvent _ _) = True"
| "IsImmediateDelivery (MonitorResetEvent _ _) = True"

text \<open>A subscriber set is a map with no values; \<open>'s\<close> identifies subscribers.\<close>

type_synonym 's subscriberSet = "('s, unit) gomap"

definition subscriberSet_add :: "'s \<Rightarrow> 's subscriberSet \<Rightarrow> 's subscriberSet" where
  "subscriberSet_add sub s = mput sub () s"

definition subscriberSet_remove :: "'s \<Rightarrow> 's subscriberSet \<Rightarrow> 's subscriberSet" where
  "subscriberSet_remove sub s = mdel sub s"

definition subscriberSet_isEmpty :: "'s subscriberSet \<Rightarrow> bool" where
  "subscriberSet_isEmpty s \<longleftrightarrow> length s = 0"

definition subscriberSet_forEach :: "'s subscriberSet \<Rightarrow> 's list" where
  "subscriberSet_forEach s = map fst s"

record ('s, 'k) BatchingEventPublisher =
  subscribers :: "(string, 's subscriberSet) RWMap"
  pendingEvents :: "(string, 'k Event) RWMap"
  p_running :: bool

definition NewBatchingEventPublisher :: "('s, 'k) BatchingEventPublisher" where
  "NewBatchingEventPublisher = \<lparr>subscribers = NewRWMap, pendingEvents = NewRWMap, p_running = True\<rparr>"

text \<open>The subscriber sets are shared pointers; adding to the set found under a name changes the
  set stored there.\<close>

definition Subscribe1 :: "'s \<Rightarrow> EventType \<Rightarrow> ('s, 'k) BatchingEventPublisher \<Rightarrow> ('s, 'k) BatchingEventPublisher" where
  "Subscribe1 subscriber eventType p =
     (let (subs, st) = RWMap_ComputeIfAbsent (Name eventType) (\<lambda>_. []) (subscribers p)
      in p\<lparr>subscribers := fst (RWMap_Put (Name eventType) (subscriberSet_add subscriber st) subs)\<rparr>)"

definition Subscribe ::
  "'s \<Rightarrow> EventType list \<Rightarrow> ('s, 'k) BatchingEventPublisher \<Rightarrow> ('s, 'k) BatchingEventPublisher" where
  "Subscribe subscriber eventTypes p = fold (Subscribe1 subscriber) eventTypes p"

definition Unsubscribe1 :: "'s \<Rightarrow> EventType \<Rightarrow> ('s, 'k) BatchingEventPublisher \<Rightarrow> ('s, 'k) BatchingEventPublisher" where
  "Unsubscribe1 subscriber eventType p =
     (case RWMap_Get (Name eventType) (subscribers p) of
        None \<Rightarrow> p
      | Some st \<Rightarrow>
          (let st' = subscriberSet_remove subscriber st
           in if subscriberSet_isEmpty st'
              then p\<lparr>subscribers := fst (RWMap_Remove (Name eventType) (subscribers p))\<rparr>
              else p\<lparr>subscribers := fst (RWMap_Put (Name eventType) st' (subscribers p))\<rparr>))"

definition Unsubscribe ::
  "'s \<Rightarrow> EventType list \<Rightarrow> ('s, 'k) BatchingEventPublisher \<Rightarrow> ('s, 'k) BatchingEventPublisher" where
  "Unsubscribe subscriber eventTypes p = fold (Unsubscribe1 subscriber) eventTypes p"

text \<open>The calls \<open>subscriber.ProcessEvent(event)\<close>.\<close>

definition deliverEvent :: "'k Event \<Rightarrow> ('s, 'k) BatchingEventPublisher \<Rightarrow> ('s \<times> 'k Event) list" where
  "deliverEvent event p =
     (case RWMap_Get (Name (GetEventType event)) (subscribers p) of
        None \<Rightarrow> []
      | Some st \<Rightarrow> map (\<lambda>sub. (sub, event)) (subscriberSet_forEach st))"

definition Publish ::
  "'k Event \<Rightarrow> ('s, 'k) BatchingEventPublisher \<Rightarrow> ('s, 'k) BatchingEventPublisher \<times> ('s \<times> 'k Event) list" where
  "Publish event p =
     (if IsImmediateDelivery event then (p, deliverEvent event p)
      else (p\<lparr>pendingEvents := fst (RWMap_Put (Name (GetEventType event)) event (pendingEvents p))\<rparr>, []))"

definition sendPendingEvents ::
  "('s, 'k) BatchingEventPublisher \<Rightarrow> ('s, 'k) BatchingEventPublisher \<times> ('s \<times> 'k Event) list" where
  "sendPendingEvents p =
     (let events = RWMap_GetAllEntries (pendingEvents p);
          p' = p\<lparr>pendingEvents := fst (RWMap_Clear (pendingEvents p))\<rparr>
      in (p', concat (map (\<lambda>(n, e). deliverEvent e p') events)))"

text \<open>One tick of \<open>publishingLoop\<close>.\<close>

definition publishingLoop_tick ::
  "('s, 'k) BatchingEventPublisher \<Rightarrow> ('s, 'k) BatchingEventPublisher \<times> ('s \<times> 'k Event) list" where
  "publishingLoop_tick p = (if p_running p then sendPendingEvents p else (p, []))"

definition publisher_Stop :: "('s, 'k) BatchingEventPublisher \<Rightarrow> ('s, 'k) BatchingEventPublisher" where
  "publisher_Stop p = p\<lparr>p_running := False\<rparr>"

section \<open>Storage\<close>

record ('k, 'v) ExpiringStorage =
  caches :: "(string, ('k, 'v) ExpirationCache) gomap"
  hasPublisher :: bool

definition NewExpiringStorage :: "bool \<Rightarrow> ('k, 'v) ExpiringStorage" where
  "NewExpiringStorage pub = \<lparr>caches = [], hasPublisher = pub\<rparr>"

definition Storage_Register ::
  "string \<Rightarrow> duration \<Rightarrow> bool \<Rightarrow> ('v \<Rightarrow> bool) option \<Rightarrow> bool \<Rightarrow> ('k, 'v) ExpiringStorage \<Rightarrow> ('k, 'v) ExpiringStorage" where
  "Storage_Register typeKey ttl renewOnAccess shouldDispose hasOnDispose s =
     (let cache = NewExpirationCache ttl renewOnAccess shouldDispose hasOnDispose
      in if map_of (caches s) typeKey = None then s\<lparr>caches := mput typeKey cache (caches s)\<rparr> else s)"

text \<open>Results: the storage, what the call returns, and the disposed items or published events.\<close>

definition Storage_Set ::
  "time \<Rightarrow> string \<Rightarrow> 'k \<Rightarrow> 'v \<Rightarrow> ('k, 'v) ExpiringStorage \<Rightarrow> ('k, 'v) ExpiringStorage \<times> 'v list" where
  "Storage_Set now typeKey key value s =
     (case map_of (caches s) typeKey of
        None \<Rightarrow> (s, [])
      | Some c \<Rightarrow> (let (c', _, d) = ExpirationCache_Put now key value c
                   in (s\<lparr>caches := mput typeKey c' (caches s)\<rparr>, d)))"

definition Storage_Get ::
  "time \<Rightarrow> string \<Rightarrow> 'k \<Rightarrow> ('k, 'v) ExpiringStorage \<Rightarrow> ('k, 'v) ExpiringStorage \<times> 'v option \<times> 'k Event list" where
  "Storage_Get now typeKey key s =
     (case map_of (caches s) typeKey of
        None \<Rightarrow> (s, None, [])
      | Some c \<Rightarrow>
          (let (c', r) = ExpirationCache_Get now key c;
               s' = s\<lparr>caches := mput typeKey c' (caches s)\<rparr>
           in (case r of
                 None \<Rightarrow> (s', None, [])
               | Some v \<Rightarrow> (s', Some v, if hasPublisher s then [DataAccessEvent typeKey key] else []))))"

definition Storage_Exists :: "time \<Rightarrow> string \<Rightarrow> 'k \<Rightarrow> ('k, 'v) ExpiringStorage \<Rightarrow> bool" where
  "Storage_Exists now typeKey key s =
     (case map_of (caches s) typeKey of None \<Rightarrow> False | Some c \<Rightarrow> ExpirationCache_Exists now key c)"

definition Storage_Remove ::
  "string \<Rightarrow> 'k \<Rightarrow> ('k, 'v) ExpiringStorage \<Rightarrow> ('k, 'v) ExpiringStorage \<times> 'v list" where
  "Storage_Remove typeKey key s =
     (case map_of (caches s) typeKey of
        None \<Rightarrow> (s, [])
      | Some c \<Rightarrow> (let (c', _, d) = ExpirationCache_Remove key c
                   in (s\<lparr>caches := mput typeKey c' (caches s)\<rparr>, d)))"

definition Storage_Clear :: "string \<Rightarrow> ('k, 'v) ExpiringStorage \<Rightarrow> ('k, 'v) ExpiringStorage \<times> 'v list" where
  "Storage_Clear typeKey s =
     (case map_of (caches s) typeKey of
        None \<Rightarrow> (s, [])
      | Some c \<Rightarrow> (let (c', d) = ExpirationCache_Clear c in (s\<lparr>caches := mput typeKey c' (caches s)\<rparr>, d)))"

text \<open>\<open>ClearAll\<close> and \<open>removeExpiredItems\<close> run one operation on every cache.\<close>

definition Storage_ClearAll :: "('k, 'v) ExpiringStorage \<Rightarrow> ('k, 'v) ExpiringStorage \<times> 'v list" where
  "Storage_ClearAll s =
     (s\<lparr>caches := map (\<lambda>(k, c). (k, fst (ExpirationCache_Clear c))) (caches s)\<rparr>,
      concat (map (\<lambda>(k, c). snd (ExpirationCache_Clear c)) (caches s)))"

definition removeExpiredItems :: "time \<Rightarrow> ('k, 'v) ExpiringStorage \<Rightarrow> ('k, 'v) ExpiringStorage \<times> 'v list" where
  "removeExpiredItems now s =
     (s\<lparr>caches := map (\<lambda>(k, c). (k, fst (ExpirationCache_RemoveExpiredEntries now c))) (caches s)\<rparr>,
      concat (map (\<lambda>(k, c). snd (ExpirationCache_RemoveExpiredEntries now c)) (caches s)))"

definition Storage_Size :: "string \<Rightarrow> ('k, 'v) ExpiringStorage \<Rightarrow> nat" where
  "Storage_Size typeKey s =
     (case map_of (caches s) typeKey of None \<Rightarrow> 0 | Some c \<Rightarrow> ExpirationCache_Size c)"

text \<open>Type descriptors. \<open>'v\<close> is the universal type \<open>any\<close> of stored values; \<open>d_cast\<close> is the type
  assertion \<open>v.(T)\<close> to the descriptor's type and \<open>d_wrap\<close> its inverse.\<close>

record ('t, 'v) StorageTypeDescriptor =
  TypeKey :: string
  TTL :: duration
  RenewOnAccess :: bool
  ShouldDispose :: "('t \<Rightarrow> bool) option"
  HasOnDispose :: bool
  d_cast :: "'v \<Rightarrow> 't option"
  d_wrap :: "'t \<Rightarrow> 'v"

text \<open>The type assertion of the wrapped \<open>ShouldDispose\<close> panics on another type, which \<open>Set\<close> keeps
  out of the storage; the model answers \<open>False\<close> there.\<close>

definition Descriptor_Register ::
  "('t, 'v) StorageTypeDescriptor \<Rightarrow> ('k, 'v) ExpiringStorage \<Rightarrow> ('k, 'v) ExpiringStorage" where
  "Descriptor_Register d s =
     Storage_Register (TypeKey d) (TTL d) (RenewOnAccess d)
       (map_option (\<lambda>f v. case d_cast d v of Some t \<Rightarrow> f t | None \<Rightarrow> False) (ShouldDispose d)) (HasOnDispose d) s"

definition Descriptor_Get ::
  "time \<Rightarrow> ('t, 'v) StorageTypeDescriptor \<Rightarrow> 'k \<Rightarrow> ('k, 'v) ExpiringStorage
     \<Rightarrow> ('k, 'v) ExpiringStorage \<times> 't option \<times> 'k Event list" where
  "Descriptor_Get now d key s =
     (let (s', r, ev) = Storage_Get now (TypeKey d) key s
      in (s', Option.bind r (d_cast d), ev))"

definition Descriptor_Set ::
  "time \<Rightarrow> ('t, 'v) StorageTypeDescriptor \<Rightarrow> 'k \<Rightarrow> 't \<Rightarrow> ('k, 'v) ExpiringStorage
     \<Rightarrow> ('k, 'v) ExpiringStorage \<times> 'v list" where
  "Descriptor_Set now d key value s = Storage_Set now (TypeKey d) key (d_wrap d value) s"

definition Descriptor_Exists :: "time \<Rightarrow> ('t, 'v) StorageTypeDescriptor \<Rightarrow> 'k \<Rightarrow> ('k, 'v) ExpiringStorage \<Rightarrow> bool" where
  "Descriptor_Exists now d key s = Storage_Exists now (TypeKey d) key s"

definition Descriptor_Remove ::
  "('t, 'v) StorageTypeDescriptor \<Rightarrow> 'k \<Rightarrow> ('k, 'v) ExpiringStorage \<Rightarrow> ('k, 'v) ExpiringStorage \<times> 'v list" where
  "Descriptor_Remove d key s = Storage_Remove (TypeKey d) key s"

definition Descriptor_Clear ::
  "('t, 'v) StorageTypeDescriptor \<Rightarrow> ('k, 'v) ExpiringStorage \<Rightarrow> ('k, 'v) ExpiringStorage \<times> 'v list" where
  "Descriptor_Clear d s = Storage_Clear (TypeKey d) s"

definition Descriptor_Size :: "('t, 'v) StorageTypeDescriptor \<Rightarrow> ('k, 'v) ExpiringStorage \<Rightarrow> nat" where
  "Descriptor_Size d s = Storage_Size (TypeKey d) s"

section \<open>Monitors\<close>

datatype MonitorState = MonitorStateRunning | MonitorStateStopped | MonitorStateError

datatype MonitorErrorResponse = MonitorErrorRecreate | MonitorErrorLog | MonitorErrorRemove

record MonitorSettings =
  ExpirationTimeout :: duration
  InactiveTimeout :: duration
  ErrorResponses :: "MonitorErrorResponse list"

definition DefaultMonitorSettings :: MonitorSettings where
  "DefaultMonitorSettings =
     \<lparr>ExpirationTimeout = 900000000000, InactiveTimeout = 180000000000, ErrorResponses = [MonitorErrorRecreate]\<rparr>"

text \<open>\<open>'m\<close> identifies monitor objects and \<open>'f\<close> monitor suppliers; a supplier's result is a
  parameter of the operations that call it. What the manager observes of a monitor
  (\<open>GetState\<close>, \<open>CanDispose\<close>, \<open>GetLastActivityTimestampNanos\<close>) is the parameter \<open>obs\<close>.\<close>

record ('m, 'f) monitorItem =
  mi_monitor :: 'm
  mi_supplier :: 'f
  expiresAt :: time

record ('k, 'm, 'f) cacheContainer =
  cc_settings :: MonitorSettings
  cc_cache :: "('k, ('m, 'f) monitorItem) RWMap"
  producedDataType :: string

record 'm observed =
  obs_state :: "'m \<Rightarrow> MonitorState"
  obs_canDispose :: "'m \<Rightarrow> bool"
  obs_lastActivity :: "'m \<Rightarrow> time"

datatype 'm monitor_effect = StartMonitor 'm | StopMonitor 'm

type_synonym ('k, 'm, 'f) MonitorManager = "(string, ('k, 'm, 'f) cacheContainer) RWMap"

definition RegisterMonitorType ::
  "string \<Rightarrow> MonitorSettings \<Rightarrow> string \<Rightarrow> ('k, 'm, 'f) MonitorManager \<Rightarrow> ('k, 'm, 'f) MonitorManager" where
  "RegisterMonitorType monitorType settings produced m =
     RWMap_PutIfAbsent monitorType \<lparr>cc_settings = settings, cc_cache = NewRWMap, producedDataType = produced\<rparr> m"

text \<open>Store a container that the code mutates through its pointer.\<close>

definition set_container ::
  "string \<Rightarrow> ('k, 'm, 'f) cacheContainer \<Rightarrow> ('k, 'm, 'f) MonitorManager \<Rightarrow> ('k, 'm, 'f) MonitorManager" where
  "set_container monitorType cc m = fst (RWMap_Put monitorType cc m)"

definition ensure_registered ::
  "string \<Rightarrow> ('k, 'm, 'f) MonitorManager \<Rightarrow> ('k, 'm, 'f) MonitorManager" where
  "ensure_registered monitorType m =
     (case RWMap_Get monitorType m of
        Some _ \<Rightarrow> m
      | None \<Rightarrow> RegisterMonitorType monitorType DefaultMonitorSettings '''' m)"

definition RunIfAbsent ::
  "time \<Rightarrow> string \<Rightarrow> 'k \<Rightarrow> 'f \<Rightarrow> go_error + 'm \<Rightarrow> ('k, 'm, 'f) MonitorManager
     \<Rightarrow> ('k, 'm, 'f) MonitorManager \<times> (go_error + 'm) \<times> 'm monitor_effect list" where
  "RunIfAbsent now monitorType key supplier created m0 =
     (let m = ensure_registered monitorType m0
      in (case RWMap_Get monitorType m of
            None \<Rightarrow> (m, Inl (Panic ''nil pointer dereference''), [])
          | Some cc \<Rightarrow>
              (case RWMap_Get key (cc_cache cc) of
                 Some it \<Rightarrow>
                   (set_container monitorType
                      (cc\<lparr>cc_cache := fst (RWMap_Put key (it\<lparr>expiresAt := now + ExpirationTimeout (cc_settings cc)\<rparr>) (cc_cache cc))\<rparr>) m,
                    Inr (mi_monitor it), [])
               | None \<Rightarrow>
                   (case created of
                      Inl err \<Rightarrow> (m, Inl err, [])
                    | Inr mon \<Rightarrow>
                        (let it = \<lparr>mi_monitor = mon, mi_supplier = supplier,
                                   expiresAt = now + ExpirationTimeout (cc_settings cc)\<rparr>
                         in (set_container monitorType (cc\<lparr>cc_cache := RWMap_PutIfAbsent key it (cc_cache cc)\<rparr>) m,
                             Inr mon, [StartMonitor mon]))))))"

definition Monitor_Get :: "string \<Rightarrow> 'k \<Rightarrow> ('k, 'm, 'f) MonitorManager \<Rightarrow> 'm option" where
  "Monitor_Get monitorType key m =
     Option.bind (RWMap_Get monitorType m) (\<lambda>cc. map_option mi_monitor (RWMap_Get key (cc_cache cc)))"

definition Monitor_Remove ::
  "string \<Rightarrow> 'k \<Rightarrow> ('k, 'm, 'f) MonitorManager \<Rightarrow> ('k, 'm, 'f) MonitorManager \<times> 'm option" where
  "Monitor_Remove monitorType key m =
     (case RWMap_Get monitorType m of
        None \<Rightarrow> (m, None)
      | Some cc \<Rightarrow>
          (case RWMap_Get key (cc_cache cc) of
             None \<Rightarrow> (m, None)
           | Some it \<Rightarrow> (set_container monitorType (cc\<lparr>cc_cache := fst (RWMap_Remove key (cc_cache cc))\<rparr>) m,
                         Some (mi_monitor it))))"

definition StopAndRemove ::
  "string \<Rightarrow> 'k \<Rightarrow> ('k, 'm, 'f) MonitorManager \<Rightarrow> ('k, 'm, 'f) MonitorManager \<times> 'm monitor_effect list" where
  "StopAndRemove monitorType key m =
     (case RWMap_Get monitorType m of
        None \<Rightarrow> (m, [])
      | Some cc \<Rightarrow>
          (case RWMap_Get key (cc_cache cc) of
             None \<Rightarrow> (m, [])
           | Some it \<Rightarrow> (set_container monitorType (cc\<lparr>cc_cache := fst (RWMap_Remove key (cc_cache cc))\<rparr>) m,
                         [StopMonitor (mi_monitor it)])))"

definition stop_container ::
  "('k, 'm, 'f) cacheContainer \<Rightarrow> ('k, 'm, 'f) cacheContainer \<times> 'm monitor_effect list" where
  "stop_container cc =
     (let (c', removed, _) = RWMap_RemoveIf (\<lambda>_ _. True) (cc_cache cc)
      in (cc\<lparr>cc_cache := c'\<rparr>, map (\<lambda>(k, it). StopMonitor (mi_monitor it)) removed))"

definition StopAndRemoveByType ::
  "string \<Rightarrow> ('k, 'm, 'f) MonitorManager \<Rightarrow> ('k, 'm, 'f) MonitorManager \<times> 'm monitor_effect list" where
  "StopAndRemoveByType monitorType m =
     (case RWMap_Get monitorType m of
        None \<Rightarrow> (m, [])
      | Some cc \<Rightarrow> (let (cc', eff) = stop_container cc in (set_container monitorType cc' m, eff)))"

text \<open>\<open>ForEach\<close> over the containers, each container being changed in place.\<close>

definition each_container ::
  "(('k, 'm, 'f) cacheContainer \<Rightarrow> ('k, 'm, 'f) cacheContainer \<times> 'm monitor_effect list)
     \<Rightarrow> ('k, 'm, 'f) MonitorManager \<Rightarrow> ('k, 'm, 'f) MonitorManager \<times> 'm monitor_effect list" where
  "each_container f m =
     (m\<lparr>rw_cache := map (\<lambda>(n, cc). (n, fst (f cc))) (rw_cache m)\<rparr>,
      concat (map (\<lambda>(n, cc). snd (f cc)) (rw_cache m)))"

definition StopAndRemoveAll ::
  "('k, 'm, 'f) MonitorManager \<Rightarrow> ('k, 'm, 'f) MonitorManager \<times> 'm monitor_effect list" where
  "StopAndRemoveAll m = each_container stop_container m"

definition handleMonitorError ::
  "time \<Rightarrow> ('f \<Rightarrow> go_error + 'm) \<Rightarrow> 'k \<Rightarrow> ('m, 'f) monitorItem
     \<Rightarrow> ('k, 'm, 'f) cacheContainer \<times> 'm monitor_effect list \<Rightarrow> ('k, 'm, 'f) cacheContainer \<times> 'm monitor_effect list" where
  "handleMonitorError now supply key errorItem st =
     (let (cc, eff) = st; eff1 = eff @ [StopMonitor (mi_monitor errorItem)]
      in if MonitorErrorRecreate \<in> set (ErrorResponses (cc_settings cc))
         then (case supply (mi_supplier errorItem) of
                 Inl err \<Rightarrow> (cc, eff1)
               | Inr mon \<Rightarrow>
                   (let it = \<lparr>mi_monitor = mon, mi_supplier = mi_supplier errorItem,
                              expiresAt = now + ExpirationTimeout (cc_settings cc)\<rparr>
                    in (cc\<lparr>cc_cache := RWMap_PutIfAbsent key it (cc_cache cc)\<rparr>, eff1 @ [StartMonitor mon])))
         else (cc, eff1))"

definition isStoppedOrExpired :: "time \<Rightarrow> 'm observed \<Rightarrow> ('m, 'f) monitorItem \<Rightarrow> bool" where
  "isStoppedOrExpired now obs it =
     (if obs_state obs (mi_monitor it) = MonitorStateStopped then True
      else now > expiresAt it \<and> obs_canDispose obs (mi_monitor it))"

definition isErroredOrStuck :: "time \<Rightarrow> 'm observed \<Rightarrow> MonitorSettings \<Rightarrow> ('m, 'f) monitorItem \<Rightarrow> bool" where
  "isErroredOrStuck now obs settings it =
     (if obs_state obs (mi_monitor it) = MonitorStateError then True
      else now - obs_lastActivity obs (mi_monitor it) > InactiveTimeout settings)"

definition check_container ::
  "time \<Rightarrow> 'm observed \<Rightarrow> ('f \<Rightarrow> go_error + 'm) \<Rightarrow> ('k, 'm, 'f) cacheContainer
     \<Rightarrow> ('k, 'm, 'f) cacheContainer \<times> 'm monitor_effect list" where
  "check_container now obs supply cc =
     (let (c1, stopped, _) = RWMap_RemoveIf (\<lambda>_ it. isStoppedOrExpired now obs it) (cc_cache cc);
          (c2, errored, _) = RWMap_RemoveIf (\<lambda>_ it. isErroredOrStuck now obs (cc_settings cc) it) c1
      in foldl (\<lambda>st (k, it). handleMonitorError now supply k it st)
           (cc\<lparr>cc_cache := c2\<rparr>, map (\<lambda>(k, it). StopMonitor (mi_monitor it)) stopped) errored)"

definition checkMonitors ::
  "time \<Rightarrow> 'm observed \<Rightarrow> ('f \<Rightarrow> go_error + 'm) \<Rightarrow> ('k, 'm, 'f) MonitorManager
     \<Rightarrow> ('k, 'm, 'f) MonitorManager \<times> 'm monitor_effect list" where
  "checkMonitors now obs supply m = each_container (check_container now obs supply) m"

definition touch_container ::
  "time \<Rightarrow> string \<Rightarrow> 'k \<Rightarrow> ('k, 'm, 'f) cacheContainer \<Rightarrow> ('k, 'm, 'f) cacheContainer \<times> 'm monitor_effect list" where
  "touch_container now typeKey key cc =
     (if producedDataType cc = '''' \<or> producedDataType cc \<noteq> typeKey then (cc, [])
      else (case RWMap_Get key (cc_cache cc) of
              None \<Rightarrow> (cc, [])
            | Some it \<Rightarrow>
                (cc\<lparr>cc_cache := fst (RWMap_Put key (it\<lparr>expiresAt := now + ExpirationTimeout (cc_settings cc)\<rparr>) (cc_cache cc))\<rparr>, [])))"

fun Manager_ProcessEvent ::
  "time \<Rightarrow> 'k Event \<Rightarrow> ('k, 'm, 'f) MonitorManager \<Rightarrow> ('k, 'm, 'f) MonitorManager \<times> 'm monitor_effect list" where
  "Manager_ProcessEvent now (DataAccessEvent typeKey key) m = each_container (touch_container now typeKey key) m"
| "Manager_ProcessEvent now (MonitorStopEvent monitorType key) m = StopAndRemove monitorType key m"
| "Manager_ProcessEvent now (MonitorResetEvent _ _) m = (m, [])"

section \<open>Storage keeps the contract of an expiring store, per type\<close>

definition type_cache :: "string \<Rightarrow> ('k, 'v) ExpiringStorage \<Rightarrow> ('k, 'v) ExpirationCache option" where
  "type_cache tk s = map_of (caches s) tk"

definition st_inv :: "('k, 'v) ExpiringStorage \<Rightarrow> bool" where
  "st_inv s \<longleftrightarrow> wf_map (caches s) \<and> (\<forall>tk c. type_cache tk s = Some c \<longrightarrow> ec_inv c)"

lemmas Storage_defs =
  Storage_Set_def Storage_Get_def Storage_Remove_def Storage_Clear_def removeExpiredItems_def
  Storage_ClearAll_def Storage_Register_def type_cache_def Let_def

lemma map_of_map_snd: "map_of (map (\<lambda>(k, c). (k, f c)) m) k = map_option f (map_of m k)"
  by (induction m) auto

lemma wf_map_map_snd: "wf_map (map (\<lambda>(k, c). (k, f c)) m) = wf_map m"
  by (simp add: wf_map_def split_def comp_def)

lemma type_cache_ops:
  "type_cache tk (Storage_Register tk' ttl r f h s) =
     (if tk = tk' \<and> type_cache tk s = None then Some (NewExpirationCache ttl r f h) else type_cache tk s)"
  "type_cache tk (fst (Storage_Set t tk' k v s)) =
     (if tk = tk' then map_option (\<lambda>c. fst (ExpirationCache_Put t k v c)) (type_cache tk s) else type_cache tk s)"
  "type_cache tk (fst (Storage_Remove tk' k s)) =
     (if tk = tk' then map_option (\<lambda>c. fst (ExpirationCache_Remove k c)) (type_cache tk s) else type_cache tk s)"
  "type_cache tk (fst (Storage_Clear tk' s)) =
     (if tk = tk' then map_option (\<lambda>c. fst (ExpirationCache_Clear c)) (type_cache tk s) else type_cache tk s)"
  "type_cache tk (fst (Storage_Get t tk' k s)) =
     (if tk = tk' then map_option (\<lambda>c. fst (ExpirationCache_Get t k c)) (type_cache tk s) else type_cache tk s)"
  "type_cache tk (fst (removeExpiredItems t s)) =
     map_option (\<lambda>c. fst (ExpirationCache_RemoveExpiredEntries t c)) (type_cache tk s)"
  "type_cache tk (fst (Storage_ClearAll s)) = map_option (\<lambda>c. fst (ExpirationCache_Clear c)) (type_cache tk s)"
  by (auto simp: Storage_defs map_of_map_snd split: option.splits prod.splits)

lemma wf_caches_ops:
  assumes "wf_map (caches s)"
  shows "wf_map (caches (Storage_Register tk' ttl r f h s))"
    "wf_map (caches (fst (Storage_Set t tk' k v s)))"
    "wf_map (caches (fst (Storage_Remove tk' k s)))"
    "wf_map (caches (fst (Storage_Clear tk' s)))"
    "wf_map (caches (fst (Storage_Get t tk' k s)))"
    "wf_map (caches (fst (removeExpiredItems t s)))"
    "wf_map (caches (fst (Storage_ClearAll s)))"
  using assms by (auto simp: Storage_defs wf_map_map_snd split: option.splits prod.splits)

lemma st_inv_ops:
  "st_inv (NewExpiringStorage b)"
  "st_inv s \<Longrightarrow> st_inv (Storage_Register tk ttl r f h s)"
  "st_inv s \<Longrightarrow> st_inv (fst (Storage_Set t tk k v s))"
  "st_inv s \<Longrightarrow> st_inv (fst (Storage_Get t tk k s))"
  "st_inv s \<Longrightarrow> st_inv (fst (Storage_Remove tk k s))"
  "st_inv s \<Longrightarrow> st_inv (fst (Storage_Clear tk s))"
  "st_inv s \<Longrightarrow> st_inv (fst (removeExpiredItems t s))"
  "st_inv s \<Longrightarrow> st_inv (fst (Storage_ClearAll s))"
  by (simp add: st_inv_def NewExpiringStorage_def type_cache_def)
    (auto simp: st_inv_def type_cache_ops wf_caches_ops ec_inv_ops split: if_splits)

lemma Storage_Get_result:
  "fst (snd (Storage_Get t tk k s)) = Option.bind (type_cache tk s) (\<lambda>c. snd (ExpirationCache_Get t k c))"
  by (auto simp: Storage_defs split: option.splits prod.splits)

text \<open>A storage in which the type \<open>tk\<close> is registered with a time-to-live \<open>ttl\<close> and no renewal.\<close>

definition st_inv_for :: "string \<Rightarrow> duration \<Rightarrow> ('k, 'v) ExpiringStorage \<Rightarrow> bool" where
  "st_inv_for tk ttl s \<longleftrightarrow> st_inv s \<and> (\<exists>c. type_cache tk s = Some c \<and> \<not> ec_renewOnAccess c \<and> ec_ttl c = ttl)"

lemma ec_ttl_ops:
  "ec_ttl (fst (ExpirationCache_Put t k v c)) = ec_ttl c"
  "ec_ttl (fst (ExpirationCache_Remove k c)) = ec_ttl c"
  "ec_ttl (fst (ExpirationCache_RemoveExpiredEntries t c)) = ec_ttl c"
  by (auto simp: ExpirationCache_defs split: option.splits)

lemma st_inv_for_ops:
  assumes "st_inv_for tk ttl s"
  shows "st_inv_for tk ttl (fst (Storage_Set t tk k v s))"
    "st_inv_for tk ttl (fst (Storage_Remove tk k s))"
    "st_inv_for tk ttl (fst (removeExpiredItems t s))"
  using assms by (auto simp: st_inv_for_def st_inv_ops type_cache_ops ec_config_ops ec_ttl_ops)

interpretation storage: expiring_store "\<lambda>t s k. fst (snd (Storage_Get t tk k s))"
    "\<lambda>t k v s. fst (Storage_Set t tk k v s)" "\<lambda>t k s. fst (Storage_Remove tk k s)"
    "\<lambda>t s. fst (removeExpiredItems t s)" "\<lambda>_. ttl" "st_inv_for tk ttl" for tk ttl
proof unfold_locales
  fix s :: "('a, 'b) ExpiringStorage" and t t' :: time and k k' :: 'a and v :: 'b
  assume inv: "st_inv_for tk ttl s" and le: "t \<le> t'"
  then obtain c where c: "type_cache tk s = Some c" "ec_inv_fixed c" "ec_ttl c = ttl"
    by (auto simp: st_inv_for_def st_inv_def ec_inv_fixed_def)
  show "fst (snd (Storage_Get t' tk k' (fst (Storage_Set t tk k v s)))) =
          (if k' = k then if t' \<le> t + ttl then Some v else None else fst (snd (Storage_Get t' tk k' s)))"
    using c expcache.get_put [OF c(2) le, of k' k v] by (simp add: Storage_Get_result type_cache_ops)
  show "fst (snd (Storage_Get t' tk k' (fst (Storage_Remove tk k s)))) =
          (if k' = k then None else fst (snd (Storage_Get t' tk k' s)))"
    using c expcache.get_remove [OF c(2) le, of k' k] by (simp add: Storage_Get_result type_cache_ops)
  show "fst (snd (Storage_Get t' tk k' (fst (removeExpiredItems t s)))) = fst (snd (Storage_Get t' tk k' s))"
    using c expcache.get_cleanup [OF c(2) le, of k'] by (simp add: Storage_Get_result type_cache_ops)
  show "fst (snd (Storage_Get t' tk k s)) = Some v \<Longrightarrow> fst (snd (Storage_Get t tk k s)) = Some v"
    using c expcache.get_antimono [OF c(2) le, of k v] by (simp add: Storage_Get_result)
qed (simp_all add: st_inv_for_ops)

section \<open>Every monitor started is managed or stopped\<close>

definition cc_monitors :: "('k, 'm, 'f) cacheContainer \<Rightarrow> 'm multiset" where
  "cc_monitors cc = image_mset mi_monitor (values_of (rw_cache (cc_cache cc)))"

definition mm_monitors :: "('k, 'm, 'f) MonitorManager \<Rightarrow> 'm multiset" where
  "mm_monitors m = sum_list (map (cc_monitors \<circ> snd) (rw_cache m))"

definition started :: "'m monitor_effect list \<Rightarrow> 'm list" where
  "started eff = concat (map (\<lambda>e. case e of StartMonitor m \<Rightarrow> [m] | StopMonitor m \<Rightarrow> []) eff)"

definition stopped :: "'m monitor_effect list \<Rightarrow> 'm list" where
  "stopped eff = concat (map (\<lambda>e. case e of StartMonitor m \<Rightarrow> [] | StopMonitor m \<Rightarrow> [m]) eff)"

lemma effects_simps [simp]:
  "started [] = []" "stopped [] = []"
  "started (a @ b) = started a @ started b" "stopped (a @ b) = stopped a @ stopped b"
  "started (StartMonitor m # es) = m # started es" "started (StopMonitor m # es) = started es"
  "stopped (StartMonitor m # es) = stopped es" "stopped (StopMonitor m # es) = m # stopped es"
  by (simp_all add: started_def stopped_def)

definition cc_inv :: "('k, 'm, 'f) cacheContainer \<Rightarrow> bool" where
  "cc_inv cc \<longleftrightarrow> rw_inv (cc_cache cc)"

definition mm_inv :: "('k, 'm, 'f) MonitorManager \<Rightarrow> bool" where
  "mm_inv m \<longleftrightarrow> rw_inv m \<and> (\<forall>cc \<in> snd ` set (rw_cache m). cc_inv cc)"

text \<open>The balance that an operation keeps.\<close>

definition balanced :: "'m multiset \<Rightarrow> 'm monitor_effect list \<Rightarrow> 'm multiset \<Rightarrow> bool" where
  "balanced before eff after \<longleftrightarrow> after + mset (stopped eff) = before + mset (started eff)"

lemma balanced_Nil [simp]: "balanced a [] b \<longleftrightarrow> a = b"
  by (auto simp: balanced_def)

lemma balanced_trans: "balanced a e1 b \<Longrightarrow> balanced b e2 c \<Longrightarrow> balanced a (e1 @ e2) c"
  unfolding balanced_def using balance_trans [of b "mset (stopped e1)" a "mset (started e1)" c] by simp

lemma balanced_add: "balanced a e b \<Longrightarrow> balanced (x + a) e (x + b)"
  by (simp add: balanced_def add.assoc)

lemma each_container_props:
  assumes f: "\<And>cc. cc_inv cc \<Longrightarrow> cc_inv (fst (f cc)) \<and> balanced (cc_monitors cc) (snd (f cc)) (cc_monitors (fst (f cc)))"
    and inv: "mm_inv m" and run: "each_container f m = (m', eff)"
  shows "mm_inv m'" "balanced (mm_monitors m) eff (mm_monitors m')"
proof -
  show "mm_inv m'"
    using inv run f by (fastforce simp: mm_inv_def each_container_def rw_inv_def wf_map_map_snd)
  have "balanced (sum_list (map (cc_monitors \<circ> snd) ccs)) (concat (map (\<lambda>(n, cc). snd (f cc)) ccs))
          (sum_list (map (cc_monitors \<circ> snd) (map (\<lambda>(n, cc). (n, fst (f cc))) ccs)))"
    if "\<forall>cc \<in> snd ` set ccs. cc_inv cc" for ccs :: "(string, ('a, 'b, 'c) cacheContainer) gomap"
    using that
  proof (induction ccs)
    case Nil
    then show ?case by simp
  next
    case (Cons a ccs)
    obtain n cc where a: "a = (n, cc)" by (cases a)
    let ?S = "sum_list (map (cc_monitors \<circ> snd) ccs)"
    have "balanced (cc_monitors cc + ?S) (snd (f cc)) (cc_monitors (fst (f cc)) + ?S)"
      using balanced_add [of "cc_monitors cc" _ _ ?S] f [of cc] Cons.prems a by (simp add: add.commute)
    from balanced_trans [OF this balanced_add [OF Cons.IH]] Cons.prems a show ?case by (simp add: comp_def)
  qed
  then show "balanced (mm_monitors m) eff (mm_monitors m')"
    using inv run by (auto simp: mm_monitors_def each_container_def mm_inv_def)
qed

lemma mm_monitors_sum_mset: "mm_monitors m = \<Sum>\<^sub># (image_mset cc_monitors (values_of (rw_cache m)))"
  by (simp add: mm_monitors_def values_of_def sum_mset_sum_list [symmetric] multiset.map_comp)

lemma mm_inv_container: "mm_inv m \<Longrightarrow> RWMap_Get n m = Some cc \<Longrightarrow> cc_inv cc"
  by (force simp: mm_inv_def RWMap_Get_def dest: map_of_SomeD)

lemma set_mput_cases: "x \<in> set (mput k v m) \<Longrightarrow> snd x = v \<or> x \<in> set m"
  by (induction m) (auto simp: mput_def split: if_splits)

lemma mm_inv_put: "mm_inv m \<Longrightarrow> cc_inv cc \<Longrightarrow> mm_inv (m\<lparr>rw_cache := mput n cc (rw_cache m)\<rparr>)"
  by (auto simp: mm_inv_def rw_inv_def dest!: set_mput_cases)

lemma balanced_exchange: "balanced a e a' \<Longrightarrow> a + m' = a' + m \<Longrightarrow> balanced m e m'"
proof -
  assume "balanced a e a'" "a + m' = a' + m"
  then have "a + (m' + mset (stopped e)) = a + (m + mset (started e))"
    unfolding balanced_def by (metis add.assoc add.commute)
  then show "balanced m e m'" by (simp add: balanced_def)
qed

lemma set_container_props:
  assumes "mm_inv m" "RWMap_Get n m = Some cc" "cc_inv cc'" "balanced (cc_monitors cc) eff (cc_monitors cc')"
  shows "mm_inv (set_container n cc' m)" "balanced (mm_monitors m) eff (mm_monitors (set_container n cc' m))"
proof -
  show "mm_inv (set_container n cc' m)"
    using mm_inv_put [OF assms(1,3)] by (simp add: set_container_def RWMap_defs)
  have "cc_monitors cc + mm_monitors (set_container n cc' m) = cc_monitors cc' + mm_monitors m"
    using assms image_values_mput_present [of "rw_cache m" n cc cc_monitors cc']
    by (simp add: mm_monitors_sum_mset set_container_def RWMap_defs mm_inv_def rw_inv_def)
      (metis sum_mset.add_mset)
  from assms(4) this show "balanced (mm_monitors m) eff (mm_monitors (set_container n cc' m))"
    by (rule balanced_exchange)
qed

lemma empty_container:
  "cc_inv \<lparr>cc_settings = st, cc_cache = NewRWMap, producedDataType = pd\<rparr>"
  "cc_monitors \<lparr>cc_settings = st, cc_cache = NewRWMap, producedDataType = pd\<rparr> = {#}"
  by (simp_all add: cc_inv_def rw_inv_def NewRWMap_def cc_monitors_def values_of_def wf_map_def)

lemma RegisterMonitorType_props:
  assumes "mm_inv m"
  shows "mm_inv (RegisterMonitorType n st pd m)" "mm_monitors (RegisterMonitorType n st pd m) = mm_monitors m"
    "RWMap_Get n (RegisterMonitorType n st pd m) \<noteq> None"
proof -
  show "mm_inv (RegisterMonitorType n st pd m)"
    using assms mm_inv_put [OF assms empty_container(1)] by (simp add: RegisterMonitorType_def RWMap_defs)
  show "mm_monitors (RegisterMonitorType n st pd m) = mm_monitors m"
    using assms
    by (simp add: empty_container RegisterMonitorType_def RWMap_defs mm_monitors_sum_mset values_of_mput_absent mm_inv_def rw_inv_def)
  show "RWMap_Get n (RegisterMonitorType n st pd m) \<noteq> None"
    by (simp add: RegisterMonitorType_def RWMap_defs)
qed

lemma ensure_registered_props:
  assumes "mm_inv m"
  shows "mm_inv (ensure_registered n m)" "mm_monitors (ensure_registered n m) = mm_monitors m"
    "RWMap_Get n (ensure_registered n m) \<noteq> None"
  using assms RegisterMonitorType_props by (auto simp: ensure_registered_def split: option.splits)

lemma cc_put_touch:
  assumes "cc_inv cc" "RWMap_Get k (cc_cache cc) = Some it" "mi_monitor it' = mi_monitor it"
  shows "cc_inv (cc\<lparr>cc_cache := fst (RWMap_Put k it' (cc_cache cc))\<rparr>)"
    "cc_monitors (cc\<lparr>cc_cache := fst (RWMap_Put k it' (cc_cache cc))\<rparr>) = cc_monitors cc"
  using assms image_values_mput_present [of "rw_cache (cc_cache cc)" k it mi_monitor it']
  by (simp_all add: cc_inv_def cc_monitors_def RWMap_defs rw_inv_def)

lemma cc_put_new:
  assumes "cc_inv cc" "RWMap_Get k (cc_cache cc) = None"
  shows "cc_inv (cc\<lparr>cc_cache := RWMap_PutIfAbsent k it (cc_cache cc)\<rparr>)"
    "cc_monitors (cc\<lparr>cc_cache := RWMap_PutIfAbsent k it (cc_cache cc)\<rparr>) = add_mset (mi_monitor it) (cc_monitors cc)"
  using assms by (simp_all add: cc_inv_def cc_monitors_def RWMap_defs rw_inv_def values_of_mput_absent)

lemma cc_remove:
  assumes "cc_inv cc" "RWMap_Get k (cc_cache cc) = Some it"
  shows "cc_inv (cc\<lparr>cc_cache := fst (RWMap_Remove k (cc_cache cc))\<rparr>)"
    "balanced (cc_monitors cc) [StopMonitor (mi_monitor it)]
       (cc_monitors (cc\<lparr>cc_cache := fst (RWMap_Remove k (cc_cache cc))\<rparr>))"
  using assms by (simp_all add: cc_inv_def cc_monitors_def balanced_def RWMap_defs rw_inv_def values_of_mdel)

lemma RunIfAbsent_props:
  assumes "mm_inv m" "RunIfAbsent now n k f created m = (m', r, eff)"
  shows "mm_inv m' \<and> balanced (mm_monitors m) eff (mm_monitors m')"
proof -
  let ?m = "ensure_registered n m"
  note reg = ensure_registered_props [OF assms(1), of n]
  then obtain cc where cc: "RWMap_Get n ?m = Some cc" by auto
  note inv = mm_inv_container [OF reg(1) cc]
  show ?thesis
  proof (cases "RWMap_Get k (cc_cache cc)")
    case (Some it)
    let ?it = "it\<lparr>expiresAt := now + ExpirationTimeout (cc_settings cc)\<rparr>"
    have "balanced (cc_monitors cc) [] (cc_monitors (cc\<lparr>cc_cache := fst (RWMap_Put k ?it (cc_cache cc))\<rparr>))"
      using cc_put_touch [OF inv Some, of ?it] by simp
    with set_container_props [OF reg(1) cc _ this] cc_put_touch [OF inv Some, of ?it] reg(2) show ?thesis
      using assms(2) cc Some by (auto simp: RunIfAbsent_def Let_def)
  next
    case None
    show ?thesis
    proof (cases created)
      case (Inl e)
      then show ?thesis using assms(2) cc None reg by (auto simp: RunIfAbsent_def Let_def)
    next
      case (Inr mon)
      let ?it = "\<lparr>mi_monitor = mon, mi_supplier = f, expiresAt = now + ExpirationTimeout (cc_settings cc)\<rparr>"
      have "balanced (cc_monitors cc) [StartMonitor mon]
              (cc_monitors (cc\<lparr>cc_cache := RWMap_PutIfAbsent k ?it (cc_cache cc)\<rparr>))"
        using cc_put_new [OF inv None, of ?it] by (simp add: balanced_def)
      with set_container_props [OF reg(1) cc _ this] cc_put_new [OF inv None, of ?it] reg(2) show ?thesis
        using assms(2) cc None Inr by (auto simp: RunIfAbsent_def Let_def)
    qed
  qed
qed

lemma StopAndRemove_props:
  assumes "mm_inv m" "StopAndRemove n k m = (m', eff)"
  shows "mm_inv m' \<and> balanced (mm_monitors m) eff (mm_monitors m')"
proof (cases "Option.bind (RWMap_Get n m) (\<lambda>cc. RWMap_Get k (cc_cache cc))")
  case None
  with assms show ?thesis by (auto simp: StopAndRemove_def split: option.splits)
next
  case (Some it)
  then obtain cc where cc: "RWMap_Get n m = Some cc" "RWMap_Get k (cc_cache cc) = Some it"
    by (auto simp: bind_eq_Some_conv)
  note rm = cc_remove [OF mm_inv_container [OF assms(1) cc(1)] cc(2)]
  from set_container_props [OF assms(1) cc(1) rm] assms(2) cc show ?thesis
    by (auto simp: StopAndRemove_def)
qed

lemma stop_list: "stopped (map (\<lambda>(k, it). StopMonitor (mi_monitor it)) es) = map (mi_monitor \<circ> snd) es"
  "started (map (\<lambda>(k, it). StopMonitor (mi_monitor it)) es) = []"
  by (induction es) auto

lemma stop_container_props:
  "cc_inv cc \<Longrightarrow> cc_inv (fst (stop_container cc)) \<and>
     balanced (cc_monitors cc) (snd (stop_container cc)) (cc_monitors (fst (stop_container cc)))"
  by (simp add: stop_container_def RWMap_defs cc_inv_def rw_inv_def balanced_def cc_monitors_def values_of_def
      stop_list multiset.map_comp)

lemma StopAndRemoveByType_props:
  assumes "mm_inv m" "StopAndRemoveByType n m = (m', eff)"
  shows "mm_inv m' \<and> balanced (mm_monitors m) eff (mm_monitors m')"
proof (cases "RWMap_Get n m")
  case None
  with assms show ?thesis by (auto simp: StopAndRemoveByType_def)
next
  case (Some cc)
  obtain cc' e where sc: "stop_container cc = (cc', e)" by fastforce
  with stop_container_props [OF mm_inv_container [OF assms(1) Some]]
  have "cc_inv cc'" "balanced (cc_monitors cc) e (cc_monitors cc')" by auto
  from set_container_props [OF assms(1) Some this] assms(2) Some sc show ?thesis
    by (auto simp: StopAndRemoveByType_def)
qed

lemma touch_container_props:
  "cc_inv cc \<Longrightarrow> cc_inv (fst (touch_container now tk k cc)) \<and>
     balanced (cc_monitors cc) (snd (touch_container now tk k cc)) (cc_monitors (fst (touch_container now tk k cc)))"
  using cc_put_touch [of cc k] by (auto simp: touch_container_def split: option.splits)

lemma handleMonitorError_props:
  assumes "cc_inv cc" "RWMap_Get k (cc_cache cc) = None"
    and "handleMonitorError now supply k it (cc, eff0) = (cc', eff1)"
  shows "cc_inv cc'" "\<exists>eff. eff1 = eff0 @ eff \<and> balanced (add_mset (mi_monitor it) (cc_monitors cc)) eff (cc_monitors cc')"
    and "\<forall>k'. k' \<noteq> k \<longrightarrow> RWMap_Get k' (cc_cache cc') = RWMap_Get k' (cc_cache cc)"
  using assms cc_put_new [OF assms(1,2)]
  by (auto simp: handleMonitorError_def Let_def balanced_def RWMap_PutIfAbsent_def RWMap_Get_def
      split: if_splits sum.splits)

lemma handle_all_errors:
  assumes "cc_inv cc" "wf_map errs" "\<forall>k \<in> fst ` set errs. RWMap_Get k (cc_cache cc) = None"
    and "foldl (\<lambda>st (k, it). handleMonitorError now supply k it st) (cc, eff0) errs = (cc', eff1)"
  shows "cc_inv cc' \<and>
    (\<exists>eff. eff1 = eff0 @ eff \<and> balanced (image_mset mi_monitor (values_of errs) + cc_monitors cc) eff (cc_monitors cc'))"
  using assms
proof (induction errs arbitrary: cc eff0)
  case Nil
  then show ?case by (simp add: values_of_def)
next
  case (Cons a errs)
  obtain k it where a: "a = (k, it)" by (cases a)
  obtain cc1 eff where h: "handleMonitorError now supply k it (cc, eff0) = (cc1, eff)" by fastforce
  have none: "RWMap_Get k (cc_cache cc) = None" and wf: "wf_map errs" and "k \<notin> fst ` set errs"
    using Cons.prems a by (auto simp: wf_map_def)
  note hp = handleMonitorError_props [OF Cons.prems(1) none h]
  have absent: "\<forall>k \<in> fst ` set errs. RWMap_Get k (cc_cache cc1) = None"
    using hp(3) Cons.prems(3) \<open>k \<notin> fst ` set errs\<close> a by force
  from hp(2) obtain e1 where e1: "eff = eff0 @ e1" "balanced (add_mset (mi_monitor it) (cc_monitors cc)) e1 (cc_monitors cc1)"
    by blast
  from Cons.IH [OF hp(1) wf absent, of eff] Cons.prems(4) a h obtain e2 where
    e2: "cc_inv cc'" "eff1 = eff @ e2"
      "balanced (image_mset mi_monitor (values_of errs) + cc_monitors cc1) e2 (cc_monitors cc')" by auto
  have "balanced (image_mset mi_monitor (values_of (a # errs)) + cc_monitors cc) e1
          (image_mset mi_monitor (values_of errs) + cc_monitors cc1)"
    using balanced_add [OF e1(2), of "image_mset mi_monitor (values_of errs)"] a by (simp add: values_of_def)
  from balanced_trans [OF this e2(3)] e1 e2 show ?case by auto
qed

lemma RemoveIf_container:
  assumes "cc_inv cc" "RWMap_RemoveIf p (cc_cache cc) = (c1, removed, d)"
  shows "cc_inv (cc\<lparr>cc_cache := c1\<rparr>)" "wf_map removed"
    "cc_monitors (cc\<lparr>cc_cache := c1\<rparr>) + image_mset mi_monitor (values_of removed) = cc_monitors cc"
    "\<forall>k \<in> fst ` set removed. RWMap_Get k c1 = None"
proof -
  let ?p = "\<lambda>(k, v). p k v"
  have c1: "c1 = (cc_cache cc)\<lparr>rw_cache := filter (\<lambda>e. \<not> ?p e) (rw_cache (cc_cache cc))\<rparr>"
    and rm: "removed = filter ?p (rw_cache (cc_cache cc))" and wf: "wf_map (rw_cache (cc_cache cc))"
    using assms by (auto simp: RWMap_defs cc_inv_def rw_inv_def split_def)
  show "cc_inv (cc\<lparr>cc_cache := c1\<rparr>)" "wf_map removed"
    using wf by (simp_all add: c1 rm cc_inv_def rw_inv_def)
  show "cc_monitors (cc\<lparr>cc_cache := c1\<rparr>) + image_mset mi_monitor (values_of removed) = cc_monitors cc"
    using values_of_filter [of ?p "rw_cache (cc_cache cc)"]
    by (simp add: c1 rm cc_monitors_def add.commute flip: image_mset_union)
  show "\<forall>k \<in> fst ` set removed. RWMap_Get k c1 = None"
    using wf by (auto simp: c1 rm RWMap_Get_def map_of_filter_wf wf_map_def dest: map_of_SomeD eq_key_imp_eq_value split: option.splits)
qed

lemma check_container_props:
  assumes inv: "cc_inv cc"
  shows "cc_inv (fst (check_container now obs supply cc)) \<and>
     balanced (cc_monitors cc) (snd (check_container now obs supply cc)) (cc_monitors (fst (check_container now obs supply cc)))"
proof -
  obtain c1 st d1 where r1: "RWMap_RemoveIf (\<lambda>_ it. isStoppedOrExpired now obs it) (cc_cache cc) = (c1, st, d1)"
    by (metis prod_cases3)
  obtain c2 er d2 where r2: "RWMap_RemoveIf (\<lambda>_ it. isErroredOrStuck now obs (cc_settings cc) it) c1 = (c2, er, d2)"
    by (metis prod_cases3)
  note R1 = RemoveIf_container [OF inv r1]
  note R2 = RemoveIf_container [OF R1(1), simplified, OF r2]
  let ?stop = "map (\<lambda>(k, it). StopMonitor (mi_monitor it)) st"
  obtain cc' eff where run: "foldl (\<lambda>st (k, it). handleMonitorError now supply k it st) (cc\<lparr>cc_cache := c2\<rparr>, ?stop) er = (cc', eff)"
    by fastforce
  from handle_all_errors [OF R2(1,2) _ run] R2(4) obtain e where
    e: "cc_inv cc'" "eff = ?stop @ e"
      "balanced (image_mset mi_monitor (values_of er) + cc_monitors (cc\<lparr>cc_cache := c2\<rparr>)) e (cc_monitors cc')" by auto
  have "balanced (cc_monitors cc) ?stop (cc_monitors (cc\<lparr>cc_cache := c1\<rparr>))"
    using R1(3) by (simp add: balanced_def stop_list values_of_def multiset.map_comp)
  from balanced_trans [OF this [folded R2(3), unfolded add.commute [of "cc_monitors _"]] e(3)] e show ?thesis
    by (simp add: check_container_def r1 r2 run)
qed

section \<open>Sequences of manager operations\<close>

datatype ('k, 'm, 'f) mm_op =
    OpRegister string MonitorSettings string
  | OpRun time string 'k 'f "go_error + 'm"
  | OpRemove string 'k
  | OpStop string 'k
  | OpStopType string
  | OpStopAll
  | OpCheck time "'m observed" "'f \<Rightarrow> go_error + 'm"
  | OpEvent time "'k Event"

text \<open>One operation: the manager, the monitors started and stopped, and those given back by \<open>Remove\<close>.\<close>

fun mm_step ::
  "('k, 'm, 'f) mm_op \<Rightarrow> ('k, 'm, 'f) MonitorManager \<Rightarrow> ('k, 'm, 'f) MonitorManager \<times> 'm monitor_effect list \<times> 'm list" where
  "mm_step (OpRegister n st pd) m = (RegisterMonitorType n st pd m, [], [])"
| "mm_step (OpRun t n k f cr) m = (let (m', _, eff) = RunIfAbsent t n k f cr m in (m', eff, []))"
| "mm_step (OpRemove n k) m =
     (let (m', r) = Monitor_Remove n k m in (m', [], case r of None \<Rightarrow> [] | Some mon \<Rightarrow> [mon]))"
| "mm_step (OpStop n k) m = (let (m', eff) = StopAndRemove n k m in (m', eff, []))"
| "mm_step (OpStopType n) m = (let (m', eff) = StopAndRemoveByType n m in (m', eff, []))"
| "mm_step OpStopAll m = (let (m', eff) = StopAndRemoveAll m in (m', eff, []))"
| "mm_step (OpCheck t obs supply) m = (let (m', eff) = checkMonitors t obs supply m in (m', eff, []))"
| "mm_step (OpEvent t ev) m = (let (m', eff) = Manager_ProcessEvent t ev m in (m', eff, []))"

fun mm_run ::
  "('k, 'm, 'f) mm_op list \<Rightarrow> ('k, 'm, 'f) MonitorManager \<Rightarrow> ('k, 'm, 'f) MonitorManager \<times> 'm monitor_effect list \<times> 'm list" where
  "mm_run [] m = (m, [], [])"
| "mm_run (op # ops) m =
     (let (m1, eff1, h1) = mm_step op m; (m2, eff2, h2) = mm_run ops m1 in (m2, eff1 @ eff2, h1 @ h2))"

text \<open>\<open>RunIfAbsent\<close> is not atomic: it looks the key up, creates a monitor outside any lock and then
  stores it with \<open>PutIfAbsent\<close> and starts it. The second half, run by a goroutine whose lookup missed:\<close>

definition RunIfAbsent_commit ::
  "time \<Rightarrow> string \<Rightarrow> 'k \<Rightarrow> 'f \<Rightarrow> 'm \<Rightarrow> ('k, 'm, 'f) MonitorManager
     \<Rightarrow> ('k, 'm, 'f) MonitorManager \<times> 'm \<times> 'm monitor_effect list" where
  "RunIfAbsent_commit now monitorType key supplier mon m =
     (case RWMap_Get monitorType m of
        None \<Rightarrow> (m, mon, [])
      | Some cc \<Rightarrow>
          (let it = \<lparr>mi_monitor = mon, mi_supplier = supplier, expiresAt = now + ExpirationTimeout (cc_settings cc)\<rparr>
           in (set_container monitorType (cc\<lparr>cc_cache := RWMap_PutIfAbsent key it (cc_cache cc)\<rparr>) m,
               mon, [StartMonitor mon])))"

lemma Monitor_Remove_StopAndRemove:
  "Monitor_Remove n k m = (fst (StopAndRemove n k m),
     case stopped (snd (StopAndRemove n k m)) of [] \<Rightarrow> None | mon # _ \<Rightarrow> Some mon)"
  "started (snd (StopAndRemove n k m)) = []"
  "length (stopped (snd (StopAndRemove n k m))) \<le> 1"
  by (auto simp: Monitor_Remove_def StopAndRemove_def split: option.splits)

lemma Manager_ProcessEvent_props:
  assumes "mm_inv m" "Manager_ProcessEvent t ev m = (m', eff)"
  shows "mm_inv m' \<and> balanced (mm_monitors m) eff (mm_monitors m')"
proof (cases ev)
  case (DataAccessEvent tk k)
  with assms show ?thesis
    using each_container_props [of "touch_container t tk k" m m' eff, OF touch_container_props] by simp
qed (use assms StopAndRemove_props in \<open>simp_all\<close>)

lemma StopAndRemoveAll_props:
  assumes "mm_inv m" "StopAndRemoveAll m = (m', eff)"
  shows "mm_inv m' \<and> balanced (mm_monitors m) eff (mm_monitors m')"
  using assms each_container_props [of stop_container m m' eff, OF stop_container_props]
  by (simp add: StopAndRemoveAll_def)

lemma checkMonitors_props:
  assumes "mm_inv m" "checkMonitors t obs supply m = (m', eff)"
  shows "mm_inv m' \<and> balanced (mm_monitors m) eff (mm_monitors m')"
  using assms each_container_props [of "check_container t obs supply" m m' eff, OF check_container_props]
  by (simp add: checkMonitors_def)

lemma mm_step_props:
  assumes inv: "mm_inv m" and step: "mm_step op m = (m', eff, h)"
  shows "mm_inv m' \<and> mm_monitors m' + mset (stopped eff) + mset h = mm_monitors m + mset (started eff)"
proof (cases op)
  case (OpRemove n k)
  obtain m1 e where s: "StopAndRemove n k m = (m1, e)" by fastforce
  then have "stopped e = [] \<or> (\<exists>a. stopped e = [a])"
    using Monitor_Remove_StopAndRemove(3) [of n k m] by (cases "stopped e") auto
  with StopAndRemove_props [OF inv s] s Monitor_Remove_StopAndRemove [of n k m] step OpRemove show ?thesis
    by (elim disjE exE) (clarsimp simp: balanced_def; metis mset_single_iff mset.simps add_mset_add_single)+
qed (use step in \<open>auto simp: balanced_def RegisterMonitorType_props [OF inv] simp del: Manager_ProcessEvent.simps
       dest!: RunIfAbsent_props [OF inv] StopAndRemove_props [OF inv] StopAndRemoveByType_props [OF inv]
         StopAndRemoveAll_props [OF inv] checkMonitors_props [OF inv] Manager_ProcessEvent_props [OF inv]
       split: prod.splits\<close>)

lemma mm_run_props:
  assumes "mm_inv m" "mm_run ops m = (m', eff, h)"
  shows "mm_inv m' \<and> mm_monitors m' + mset (stopped eff) + mset h = mm_monitors m + mset (started eff)"
  using assms
proof (induction ops arbitrary: m m' eff h)
  case Nil
  then show ?case by simp
next
  case (Cons op ops)
  obtain m1 e1 h1 where s: "mm_step op m = (m1, e1, h1)" by (metis prod_cases3)
  obtain m2 e2 h2 where r: "mm_run ops m1 = (m2, e2, h2)" by (metis prod_cases3)
  from mm_step_props [OF Cons.prems(1) s] Cons.IH [OF _ r] s r Cons.prems(2) show ?case
    using balance_trans [of "mm_monitors m1" "mset (stopped e1) + mset h1" "mm_monitors m" "mset (started e1)"
        "mm_monitors m'" "mset (stopped e2) + mset h2" "mset (started e2)"]
    by (auto simp: ac_simps)
qed

lemma mm_inv_New: "mm_inv NewRWMap" "mm_monitors NewRWMap = {#}"
  by (simp_all add: mm_inv_def rw_inv_def NewRWMap_def mm_monitors_def)

lemma StopAndRemoveAll_empties:
  assumes "mm_inv m"
  shows "mm_monitors (fst (StopAndRemoveAll m)) = {#}"
  by (auto simp: StopAndRemoveAll_def each_container_def mm_monitors_def stop_container_def RWMap_defs
      cc_monitors_def values_of_def comp_def split_def intro!: sum_list_0)

lemma Monitor_Get_set_container:
  "Monitor_Get n' k (set_container n cc m) =
     (if n' = n then map_option mi_monitor (RWMap_Get k (cc_cache cc)) else Monitor_Get n' k m)"
  by (simp add: Monitor_Get_def set_container_def RWMap_defs)

lemma commit_existing:
  assumes "mm_inv m" "RWMap_Get n m = Some cc" "RWMap_Get k (cc_cache cc) = Some it"
  shows "mm_monitors (fst (RunIfAbsent_commit now n k f mon m)) = mm_monitors m"
    "Monitor_Get n k (fst (RunIfAbsent_commit now n k f mon m)) = Some (mi_monitor it)"
    "mm_inv (fst (RunIfAbsent_commit now n k f mon m))"
proof -
  have eq: "fst (RunIfAbsent_commit now n k f mon m) = set_container n cc m"
    using assms(2,3) by (simp add: RunIfAbsent_commit_def RWMap_PutIfAbsent_def RWMap_Get_def Let_def)
  from set_container_props [OF assms(1,2) mm_inv_container [OF assms(1,2)], of "[]"]
  show "mm_monitors (fst (RunIfAbsent_commit now n k f mon m)) = mm_monitors m"
    "mm_inv (fst (RunIfAbsent_commit now n k f mon m))"
    "Monitor_Get n k (fst (RunIfAbsent_commit now n k f mon m)) = Some (mi_monitor it)"
    using assms(3) by (simp_all add: eq Monitor_Get_set_container)
qed

lemma commit_absent:
  assumes "mm_inv m" "RWMap_Get n m = Some cc" "RWMap_Get k (cc_cache cc) = None"
  shows "mm_monitors (fst (RunIfAbsent_commit now n k f mon m)) = add_mset mon (mm_monitors m)"
    "mm_inv (fst (RunIfAbsent_commit now n k f mon m))"
    "\<exists>cc' it. RWMap_Get n (fst (RunIfAbsent_commit now n k f mon m)) = Some cc' \<and>
       RWMap_Get k (cc_cache cc') = Some it \<and> mi_monitor it = mon"
proof -
  let ?it = "\<lparr>mi_monitor = mon, mi_supplier = f, expiresAt = now + ExpirationTimeout (cc_settings cc)\<rparr>"
  let ?cc = "cc\<lparr>cc_cache := RWMap_PutIfAbsent k ?it (cc_cache cc)\<rparr>"
  have eq: "fst (RunIfAbsent_commit now n k f mon m) = set_container n ?cc m"
    using assms(2) by (simp add: RunIfAbsent_commit_def Let_def)
  note new = cc_put_new [OF mm_inv_container [OF assms(1,2)] assms(3), of ?it]
  from set_container_props [OF assms(1,2) new(1), of "[StartMonitor mon]"] new(2)
  show "mm_monitors (fst (RunIfAbsent_commit now n k f mon m)) = add_mset mon (mm_monitors m)"
    "mm_inv (fst (RunIfAbsent_commit now n k f mon m))"
    by (simp_all add: eq balanced_def)
  show "\<exists>cc' it. RWMap_Get n (fst (RunIfAbsent_commit now n k f mon m)) = Some cc' \<and>
       RWMap_Get k (cc_cache cc') = Some it \<and> mi_monitor it = mon"
    using assms(3) by (simp add: eq set_container_def RWMap_defs)
qed

lemma RunIfAbsent_miss:
  assumes "RWMap_Get n m = Some cc" "RWMap_Get k (cc_cache cc) = None"
  shows "RunIfAbsent now n k f (Inr mon) m =
    (let (m', r, eff) = RunIfAbsent_commit now n k f mon m in (m', Inr r, eff))"
  using assms by (simp add: RunIfAbsent_def RunIfAbsent_commit_def ensure_registered_def Let_def)

section \<open>What keeps a monitor alive\<close>







section \<open>Properties\<close>

text \<open>C15: Over every sequence of operations of a monitor manager that starts empty, every monitor ever
  started is exactly one of: still managed, stopped, or handed back by \<open>Remove\<close>; and once
  \<open>StopAndRemoveAll\<close> has run, nothing is managed, so all of them were stopped or handed back.\<close>
theorem MonitorManager_conservation:
  assumes "mm_run ops NewRWMap = (m, eff, h)"
  shows "mset (started eff) = mm_monitors m + mset (stopped eff) + mset h \<and>
    (let (m', eff') = StopAndRemoveAll m
     in mm_monitors m' = {#} \<and> mset (started (eff @ eff')) = mset (stopped (eff @ eff')) + mset h)"
proof -
  note run = mm_run_props [OF mm_inv_New(1) assms]
  obtain m' eff' where all: "StopAndRemoveAll m = (m', eff')" by fastforce
  with run StopAndRemoveAll_props [of m m' eff'] StopAndRemoveAll_empties [of m] have
    "mm_monitors m' = {#}" "balanced (mm_monitors m) eff' (mm_monitors m')" by auto
  with run all show ?thesis by (simp add: mm_inv_New balanced_def ac_simps)
qed

lemma MonitorManager_conservation_witness:
  "\<exists>m eff h.
     mm_run [OpRun 0 ''A'' 7 () (Inr ''m1''), OpRun 5 ''A'' 8 () (Inr ''m2''), OpStop ''A'' 7,
             OpRemove ''A'' 8, OpRun 9 ''B'' 7 () (Inr ''m3'')]
       (NewRWMap :: (nat, string, unit) MonitorManager) = (m, eff, h) \<and>
     started eff = [''m1'', ''m2'', ''m3''] \<and> stopped eff = [''m1''] \<and> h = [''m2''] \<and> mm_monitors m = {#''m3''#} \<and>
     mset (started eff) = mm_monitors m + mset (stopped eff) + mset h"
proof -
  let ?ops = "[OpRun 0 ''A'' 7 () (Inr ''m1''), OpRun 5 ''A'' 8 () (Inr ''m2''), OpStop ''A'' 7,
             OpRemove ''A'' 8, OpRun 9 ''B'' 7 () (Inr ''m3'')] :: (nat, string, unit) mm_op list"
  obtain m eff h where r: "mm_run ?ops NewRWMap = (m, eff, h)" by (metis prod_cases3)
  then have v: "started eff = [''m1'', ''m2'', ''m3'']" "stopped eff = [''m1'']" "h = [''m2'']"
    by (auto simp: RunIfAbsent_def ensure_registered_def RegisterMonitorType_def RWMap_defs NewRWMap_def
        set_container_def StopAndRemove_def Monitor_Remove_def mput_def mdel_def)
  from MonitorManager_conservation [OF r] v
  have "mm_monitors m = {#''m3''#}" "mset (started eff) = mm_monitors m + mset (stopped eff) + mset h" by simp_all
  with r v show ?thesis by blast
qed

text \<open>Two goroutines that both miss the lookup of \<open>RunIfAbsent\<close> for the same key each start their
  monitor, but \<open>PutIfAbsent\<close> keeps only the first. The second one runs without being managed: neither
  \<open>Get\<close> finds it nor does \<open>StopAndRemoveAll\<close> stop it. In the sequential order the second call
  returns the first monitor and starts nothing.\<close>
theorem RunIfAbsent_race:
  assumes inv: "mm_inv m" and cc: "RWMap_Get n m = Some cc" and miss: "RWMap_Get k (cc_cache cc) = None"
    and fresh: "mon2 \<noteq> mon1" "mon2 \<notin># mm_monitors m"
    and first: "RunIfAbsent_commit t1 n k f1 mon1 m = (m1, r1, eff1)"
    and second: "RunIfAbsent_commit t2 n k f2 mon2 m1 = (m2, r2, eff2)"
  shows "started (eff1 @ eff2) = [mon1, mon2] \<and> r2 = mon2 \<and> Monitor_Get n k m2 = Some mon1 \<and>
    mon2 \<notin> set (stopped (snd (StopAndRemoveAll m2))) \<and>
    fst (snd (RunIfAbsent t2 n k f2 (Inr mon2) m1)) = Inr mon1 \<and> snd (snd (RunIfAbsent t2 n k f2 (Inr mon2) m1)) = []"
proof -
  note c1 = commit_absent [OF inv cc miss, of t1 f1 mon1, unfolded first fst_conv]
  from c1(3) obtain cc' it where cc': "RWMap_Get n m1 = Some cc'" "RWMap_Get k (cc_cache cc') = Some it" "mi_monitor it = mon1"
    by blast
  note c2 = commit_existing [OF c1(2) cc'(1,2), of t2 f2 mon2, unfolded second fst_conv]
  obtain m3 eff3 where all: "StopAndRemoveAll m2 = (m3, eff3)" by fastforce
  have "mset (stopped eff3) = add_mset mon1 (mm_monitors m) + mset (started eff3)" "started eff3 = []"
    using StopAndRemoveAll_props [OF c2(3) all] StopAndRemoveAll_empties [OF c2(3)] all c2(1) c1(1)
    by (auto simp: balanced_def StopAndRemoveAll_def each_container_def stop_container_def RWMap_defs stop_list
        split_def started_def)
  then have "mon2 \<notin> set (stopped eff3)" using fresh by (metis add_mset_add_single empty_iff set_mset_mset
        insert_iff mset.simps(1) set_mset_add_mset_insert add.right_neutral)
  with first second all cc cc' c2(2) show ?thesis
    by (auto simp: RunIfAbsent_commit_def RunIfAbsent_def ensure_registered_def Let_def)
qed

lemma RunIfAbsent_race_witness:
  "let m = RegisterMonitorType ''A'' DefaultMonitorSettings '''' (NewRWMap :: (nat, string, unit) MonitorManager);
       (m1, _, eff1) = RunIfAbsent_commit 0 ''A'' 7 () ''m1'' m;
       (m2, _, eff2) = RunIfAbsent_commit 1 ''A'' 7 () ''m2'' m1
   in started (eff1 @ eff2) = [''m1'', ''m2''] \<and> Monitor_Get ''A'' 7 m2 = Some ''m1'' \<and>
      ''m2'' \<notin> set (stopped (snd (StopAndRemoveAll m2)))"
proof -
  let ?m = "RegisterMonitorType ''A'' DefaultMonitorSettings '''' (NewRWMap :: (nat, string, unit) MonitorManager)"
  let ?cc = "\<lparr>cc_settings = DefaultMonitorSettings, cc_cache = NewRWMap, producedDataType = ''''\<rparr>
     :: (nat, string, unit) cacheContainer"
  obtain m1 r1 eff1 where 1: "RunIfAbsent_commit 0 ''A'' 7 () ''m1'' ?m = (m1, r1, eff1)" by (metis prod_cases3)
  obtain m2 r2 eff2 where 2: "RunIfAbsent_commit 1 ''A'' 7 () ''m2'' m1 = (m2, r2, eff2)" by (metis prod_cases3)
  have "RWMap_Get ''A'' ?m = Some ?cc" "RWMap_Get 7 (cc_cache ?cc) = None"
    by (simp_all add: RegisterMonitorType_def RWMap_defs NewRWMap_def mput_def)
  moreover have "mm_inv ?m" "mm_monitors ?m = {#}"
    by (simp_all add: RegisterMonitorType_props [OF mm_inv_New(1)] mm_inv_New(2))
  ultimately show ?thesis using RunIfAbsent_race [of ?m "''A''" ?cc 7 "''m2''" "''m1''", OF _ _ _ _ _ 1 2] 1 2 by simp
qed







section \<open>Batched delivery\<close>

definition is_subscribed :: "'s \<Rightarrow> string \<Rightarrow> ('s, 'k) BatchingEventPublisher \<Rightarrow> bool" where
  "is_subscribed sub n p \<longleftrightarrow>
     (case RWMap_Get n (subscribers p) of None \<Rightarrow> False | Some st \<Rightarrow> sub \<in> fst ` set st)"

definition pub_inv :: "('s, 'k) BatchingEventPublisher \<Rightarrow> bool" where
  "pub_inv p \<longleftrightarrow> (\<forall>n st. RWMap_Get n (subscribers p) = Some st \<longrightarrow> wf_map st)"

fun publish_all ::
  "'k Event list \<Rightarrow> ('s, 'k) BatchingEventPublisher \<Rightarrow> ('s, 'k) BatchingEventPublisher \<times> ('s \<times> 'k Event) list" where
  "publish_all [] p = (p, [])"
| "publish_all (e # es) p = (let (p1, d1) = Publish e p; (p2, d2) = publish_all es p1 in (p2, d1 @ d2))"

lemma fst_set_mput: "fst ` set (mput k v m) = insert k (fst ` set m)"
  by (simp add: mput_def dom_update image_image [symmetric])

lemma fst_set_mdel: "fst ` set (mdel k m) = fst ` set m - {k}"
  by (induction m) (auto simp: mdel_def)

lemma Subscribe1_props:
  "is_subscribed s' n (Subscribe1 s et p) \<longleftrightarrow> is_subscribed s' n p \<or> s' = s \<and> n = Name et"
  "pub_inv p \<Longrightarrow> pub_inv (Subscribe1 s et p)"
  by (auto simp: is_subscribed_def pub_inv_def Subscribe1_def subscriberSet_add_def RWMap_defs fst_set_mput
      split: option.splits if_splits)

lemma Unsubscribe1_props:
  "is_subscribed s' n (Unsubscribe1 s et p) \<longleftrightarrow> is_subscribed s' n p \<and> \<not> (s' = s \<and> n = Name et)"
  "pub_inv p \<Longrightarrow> pub_inv (Unsubscribe1 s et p)"
proof -
  have empty: "mdel s st = [] \<longleftrightarrow> fst ` set st - {s} = {}" for st :: "'a subscriberSet"
    by (simp flip: fst_set_mdel)
  show "is_subscribed s' n (Unsubscribe1 s et p) \<longleftrightarrow> is_subscribed s' n p \<and> \<not> (s' = s \<and> n = Name et)"
  proof (cases "RWMap_Get (Name et) (subscribers p)")
    case (Some st)
    then show ?thesis
      by (simp add: is_subscribed_def Unsubscribe1_def subscriberSet_remove_def
        subscriberSet_isEmpty_def RWMap_defs empty fst_set_mdel) blast
  qed (auto simp: is_subscribed_def Unsubscribe1_def)
  show "pub_inv p \<Longrightarrow> pub_inv (Unsubscribe1 s et p)"
    by (auto simp: pub_inv_def Unsubscribe1_def subscriberSet_remove_def subscriberSet_isEmpty_def
      RWMap_defs split: option.splits if_splits)
qed

lemma Subscribe_props:
  "is_subscribed s' n (Subscribe s ets p) \<longleftrightarrow> is_subscribed s' n p \<or> s' = s \<and> n \<in> Name ` set ets"
  "pub_inv p \<Longrightarrow> pub_inv (Subscribe s ets p)"
  "is_subscribed s' n (Unsubscribe s ets p) \<longleftrightarrow> is_subscribed s' n p \<and> \<not> (s' = s \<and> n \<in> Name ` set ets)"
  "pub_inv p \<Longrightarrow> pub_inv (Unsubscribe s ets p)"
  unfolding Subscribe_def Unsubscribe_def
  by (induction ets arbitrary: p) (auto simp: Subscribe1_props Unsubscribe1_props)

lemma deliverEvent_set:
  "set (deliverEvent e p) = {(sub, e') | sub e'. e' = e \<and> is_subscribed sub (Name (GetEventType e)) p}"
  by (cases "RWMap_Get (Name (GetEventType e)) (subscribers p)")
    (auto simp: deliverEvent_def is_subscribed_def subscriberSet_forEach_def)

lemma deliverEvent_distinct: "pub_inv p \<Longrightarrow> distinct (deliverEvent e p)"
  by (auto simp: deliverEvent_def pub_inv_def subscriberSet_forEach_def wf_map_def distinct_map inj_on_def
      split: option.splits)

lemma batched_type: "\<not> IsImmediateDelivery e \<Longrightarrow> GetEventType e = DataAccessEventType"
  by (cases e) auto

definition with_pending :: "('s, 'k) BatchingEventPublisher \<Rightarrow> (string, 'k Event) gomap \<Rightarrow> ('s, 'k) BatchingEventPublisher" where
  "with_pending p es = p\<lparr>pendingEvents := (pendingEvents p)\<lparr>rw_cache := es\<rparr>\<rparr>"

lemma Publish_batched:
  "\<not> IsImmediateDelivery e \<Longrightarrow> Publish e (with_pending p []) = (with_pending p [(''DataAccess'', e)], [])"
  "\<not> IsImmediateDelivery e \<Longrightarrow>
    Publish e (with_pending p [(''DataAccess'', e')]) = (with_pending p [(''DataAccess'', e)], [])"
  by (simp_all add: Publish_def with_pending_def RWMap_defs batched_type DataAccessEventType_def mput_def)

lemma publish_more_batched:
  "\<forall>e \<in> set es. \<not> IsImmediateDelivery e \<Longrightarrow>
   publish_all es (with_pending p [(''DataAccess'', e)]) = (with_pending p [(''DataAccess'', last (e # es))], [])"
  by (induction es arbitrary: e) (simp_all add: Publish_batched)

lemma publish_all_batched:
  "\<forall>e \<in> set es. \<not> IsImmediateDelivery e \<Longrightarrow> es \<noteq> [] \<Longrightarrow>
   publish_all es (with_pending p []) = (with_pending p [(''DataAccess'', last es)], [])"
  by (cases es) (simp_all add: Publish_batched publish_more_batched)

lemma with_pending_subs [simp]:
  "is_subscribed sub n (with_pending p es) = is_subscribed sub n p" "pub_inv (with_pending p es) = pub_inv p"
  "p_running (with_pending p es) = p_running p"
  by (simp_all add: with_pending_def is_subscribed_def pub_inv_def)

lemma tick_pending:
  assumes "p_running p"
  shows "publishingLoop_tick (with_pending p []) = (with_pending p [], [])"
    "publishingLoop_tick (with_pending p [(n, e)]) = (with_pending p [], deliverEvent e (with_pending p []))"
  using assms
  by (simp_all add: publishingLoop_tick_def sendPendingEvents_def with_pending_def RWMap_GetAllEntries_def RWMap_defs mput_def)

text \<open>Events that are not immediate are batched: publishing any number of them delivers nothing,
  the next tick delivers the last of them, exactly once, to each subscriber of its type and to no one
  else, and the tick after that delivers nothing.\<close>
theorem publisher_batching:
  assumes "\<forall>e \<in> set es. \<not> IsImmediateDelivery e" "es \<noteq> []" "pub_inv p" "p_running p"
    and "publish_all es (with_pending p []) = (p1, out1)" "publishingLoop_tick p1 = (p2, out2)"
  shows "out1 = [] \<and> distinct out2 \<and>
    set out2 = {(sub, e). e = last es \<and> is_subscribed sub ''DataAccess'' p} \<and> publishingLoop_tick p2 = (p2, [])"
proof -
  have p1: "p1 = with_pending p [(''DataAccess'', last es)]" "out1 = []"
    using assms publish_all_batched [OF assms(1,2), of p] by auto
  have p2: "p2 = with_pending p []" "out2 = deliverEvent (last es) (with_pending p [])"
    using assms(6) tick_pending [OF assms(4)] by (auto simp: p1)
  have "Name (GetEventType (last es)) = ''DataAccess''"
    using assms(1,2) by (simp add: batched_type DataAccessEventType_def)
  then show ?thesis
    using assms(3,4) by (auto simp: p1 p2 tick_pending deliverEvent_set deliverEvent_distinct)
qed

lemma publisher_batching_witness:
  "let p = Subscribe ''manager'' [DataAccessEventType, MonitorStopEventType] NewBatchingEventPublisher;
       (p1, out1) = publish_all [DataAccessEvent ''topology'' (1::nat), DataAccessEvent ''status'' 2] p;
       (p2, out2) = publishingLoop_tick p1
   in out1 = [] \<and> set out2 = {(''manager'', DataAccessEvent ''status'' 2)}"
proof -
  let ?p = "Subscribe ''manager'' [DataAccessEventType, MonitorStopEventType]
    (NewBatchingEventPublisher :: (string, nat) BatchingEventPublisher)"
  let ?es = "[DataAccessEvent ''topology'' (1::nat), DataAccessEvent ''status'' 2]"
  have new: "?p = with_pending ?p []" "p_running ?p"
    by (simp_all add: with_pending_def Subscribe_def Subscribe1_def NewBatchingEventPublisher_def NewRWMap_def RWMap_defs
        split: prod.splits)
  obtain p1 out1 where 1: "publish_all ?es (with_pending ?p []) = (p1, out1)" by (metis surj_pair)
  obtain p2 out2 where 2: "publishingLoop_tick p1 = (p2, out2)" by (metis surj_pair)
  have "pub_inv (NewBatchingEventPublisher :: (string, nat) BatchingEventPublisher)"
    by (simp add: pub_inv_def NewBatchingEventPublisher_def NewRWMap_def RWMap_Get_def)
  then have "pub_inv ?p" by (rule Subscribe_props(2))
  have sub: "is_subscribed s ''DataAccess'' ?p \<longleftrightarrow> s = ''manager''" for s
    by (simp add: Subscribe_props) (simp add: is_subscribed_def NewBatchingEventPublisher_def NewRWMap_def RWMap_Get_def
        DataAccessEventType_def)
  have "out1 = [] \<and> set out2 = {(''manager'', DataAccessEvent ''status'' 2)}"
    using publisher_batching [OF _ _ \<open>pub_inv ?p\<close> new(2) 1 2] by (auto simp: sub)
  then show ?thesis using 1 2 by (simp add: new(1) [symmetric])
qed

section \<open>Typed storage\<close>

lemma Storage_Get_events:
  "snd (snd (Storage_Get t tk k s)) =
     (if fst (snd (Storage_Get t tk k s)) \<noteq> None \<and> hasPublisher s then [DataAccessEvent tk k] else [])"
  by (auto simp: Storage_defs split: option.splits prod.splits)

lemma hasPublisher_Set [simp]: "hasPublisher (fst (Storage_Set t tk k v s)) = hasPublisher s"
  by (auto simp: Storage_defs split: option.splits prod.splits)

lemma Descriptor_Get_result:
  "fst (snd (Descriptor_Get t d k s)) = Option.bind (fst (snd (Storage_Get t (TypeKey d) k s))) (d_cast d)"
  "snd (snd (Descriptor_Get t d k s)) = snd (snd (Storage_Get t (TypeKey d) k s))"
  by (simp_all add: Descriptor_Get_def split: prod.splits)

text \<open>A value set through a type descriptor of a registered type without renewal is read back
  through the same descriptor, with a data access event when there is a publisher, until its
  time-to-live has passed, and not after; other keys of the type and every other type are unaffected.\<close>
theorem Descriptor_roundtrip:
  assumes cast: "\<And>x. d_cast d (d_wrap d x) = Some x" and inv: "st_inv_for (TypeKey d) ttl s" and le: "t \<le> t'"
    and set: "Descriptor_Set t d k v s = (s', disposed)"
  shows "fst (snd (Descriptor_Get t' d k s')) = (if t' \<le> t + ttl then Some v else None) \<and>
    snd (snd (Descriptor_Get t' d k s')) = (if t' \<le> t + ttl \<and> hasPublisher s then [DataAccessEvent (TypeKey d) k] else []) \<and>
    (\<forall>k'. k' \<noteq> k \<longrightarrow> fst (snd (Descriptor_Get t' d k' s')) = fst (snd (Descriptor_Get t' d k' s))) \<and>
    (\<forall>d' :: ('u, 'v) StorageTypeDescriptor. TypeKey d' \<noteq> TypeKey d \<longrightarrow>
       (\<forall>k'. fst (snd (Descriptor_Get t' d' k' s')) = fst (snd (Descriptor_Get t' d' k' s))))"
proof -
  have s': "s' = fst (Storage_Set t (TypeKey d) k (d_wrap d v) s)" using set by (simp add: Descriptor_Set_def)
  note get = storage.get_put [OF inv le]
  show ?thesis
    by (simp add: s' Descriptor_Get_result Storage_Get_events get cast) (simp add: Storage_Get_result type_cache_ops)
qed

lemma Descriptor_roundtrip_witness:
  "let d = \<lparr>TypeKey = ''topology'', TTL = 100, RenewOnAccess = False, ShouldDispose = None, HasOnDispose = False,
            d_cast = (\<lambda>v. case v of Inl n \<Rightarrow> Some n | Inr b \<Rightarrow> None), d_wrap = Inl\<rparr>;
       s = fst (Descriptor_Set 0 d ''k'' (5::nat) (Descriptor_Register d (NewExpiringStorage True :: (string, nat + bool) ExpiringStorage)))
   in fst (snd (Descriptor_Get 100 d ''k'' s)) = Some 5 \<and> fst (snd (Descriptor_Get 101 d ''k'' s)) = None"
proof -
  let ?d = "\<lparr>TypeKey = ''topology'', TTL = 100, RenewOnAccess = False, ShouldDispose = None, HasOnDispose = False,
            d_cast = (\<lambda>v. case v of Inl n \<Rightarrow> Some n | Inr b \<Rightarrow> None), d_wrap = Inl\<rparr> :: (nat, nat + bool) StorageTypeDescriptor"
  let ?s = "Descriptor_Register ?d (NewExpiringStorage True :: (string, nat + bool) ExpiringStorage)"
  have "st_inv ?s" by (simp add: Descriptor_Register_def st_inv_ops)
  then have inv: "st_inv_for (TypeKey ?d) 100 ?s"
    by (simp add: st_inv_for_def Descriptor_Register_def type_cache_ops NewExpirationCache_def)
      (simp add: type_cache_def NewExpiringStorage_def)
  obtain s' ds where set: "Descriptor_Set 0 ?d ''k'' 5 ?s = (s', ds)" by (metis surj_pair)
  show ?thesis
    using Descriptor_roundtrip [of ?d, OF _ inv _ set, of 100, THEN conjunct1]
      Descriptor_roundtrip [of ?d, OF _ inv _ set, of 101, THEN conjunct1]
    by (simp add: set Let_def)
qed

end
