(* ===== verification/Go_Regexp.thy ===== *)
theory Go_Regexp
  imports Go_Base
begin

text \<open>
  The part of Go's \<open>regexp\<close> package the driver uses: matching with the leftmost-first rule of the
  package documentation (of the matches that begin earliest, the one a backtracking engine finds
  first), capture groups and \<open>ReplaceAllString\<close>.

  A group is identified by its name; an unnamed group is given its index as its name. A character is
  one byte. The iterations of a repetition consume at least one character each, which is also how the
  patterns of the driver are built.
\<close>

datatype regexp =
    RSet "char \<Rightarrow> bool"
  | REmpty
  | RSeq regexp regexp
  | RAlt regexp regexp
  | RStar bool regexp
  | RGroup string regexp
  | RBegin
  | REnd

record rstate =
  rpos :: nat
  rrest :: string
  rcaps :: "(string \<times> string) list"

text \<open>Repetition: all results in order of preference, the longer ones first when greedy. The number
  bounds the iterations; the remaining length is always enough since every iteration consumes.\<close>

fun star_iter :: "(rstate \<Rightarrow> rstate list) \<Rightarrow> nat \<Rightarrow> bool \<Rightarrow> rstate \<Rightarrow> rstate list" where
  "star_iter f 0 greedy st = [st]"
| "star_iter f (Suc n) greedy st =
     (let more = concat (map (star_iter f n greedy) (filter (\<lambda>st'. length (rrest st') < length (rrest st)) (f st)))
      in if greedy then more @ [st] else st # more)"

definition capture :: "string \<Rightarrow> rstate \<Rightarrow> rstate \<Rightarrow> rstate" where
  "capture g st st' = st'\<lparr>rcaps := (g, take (length (rrest st) - length (rrest st')) (rrest st)) # rcaps st'\<rparr>"

fun rmatch :: "regexp \<Rightarrow> rstate \<Rightarrow> rstate list" where
  "rmatch (RSet p) st =
     (case rrest st of [] \<Rightarrow> [] | c # cs \<Rightarrow> if p c then [st\<lparr>rpos := Suc (rpos st), rrest := cs\<rparr>] else [])"
| "rmatch REmpty st = [st]"
| "rmatch (RSeq a b) st = concat (map (rmatch b) (rmatch a st))"
| "rmatch (RAlt a b) st = rmatch a st @ rmatch b st"
| "rmatch (RStar greedy a) st = star_iter (rmatch a) (length (rrest st)) greedy st"
| "rmatch (RGroup g a) st = map (capture g st) (rmatch a st)"
| "rmatch RBegin st = (if rpos st = 0 then [st] else [])"
| "rmatch REnd st = (if rrest st = [] then [st] else [])"

text \<open>The search from left to right. The result is the start, the matched text, the text after it and
  the captures.\<close>

fun find_from :: "regexp \<Rightarrow> nat \<Rightarrow> string \<Rightarrow> (nat \<times> string \<times> string \<times> (string \<times> string) list) option" where
  "find_from re p s =
     (case rmatch re \<lparr>rpos = p, rrest = s, rcaps = []\<rparr> of
        st # _ \<Rightarrow> Some (p, take (length s - length (rrest st)) s, rrest st, rcaps st)
      | [] \<Rightarrow> (case s of [] \<Rightarrow> None | _ # cs \<Rightarrow> find_from re (Suc p) cs))"

declare find_from.simps [simp del]

definition MatchString :: "regexp \<Rightarrow> string \<Rightarrow> bool" where
  "MatchString re s \<longleftrightarrow> find_from re 0 s \<noteq> None"

definition FindStringSubmatch :: "regexp \<Rightarrow> string \<Rightarrow> (string \<rightharpoonup> string) option" where
  "FindStringSubmatch re s = map_option (\<lambda>(_, _, _, caps). map_of caps) (find_from re 0 s)"

text \<open>The value of a group in a match: a group that did not take part has the empty string.\<close>

definition group_val :: "(string \<rightharpoonup> string) \<Rightarrow> string \<Rightarrow> string" where
  "group_val m g = (case m g of None \<Rightarrow> '''' | Some v \<Rightarrow> v)"

fun groups :: "regexp \<Rightarrow> string list" where
  "groups (RSeq a b) = groups a @ groups b"
| "groups (RAlt a b) = groups a @ groups b"
| "groups (RStar _ a) = groups a"
| "groups (RGroup g a) = g # groups a"
| "groups _ = []"

text \<open>\<open>matches[re.SubexpIndex(name)]\<close>: there is no index for a name the pattern does not have, and the
  matches of a failed search are nil; both make the indexing panic.\<close>

definition submatch_at :: "regexp \<Rightarrow> string \<Rightarrow> string \<Rightarrow> go_error + string" where
  "submatch_at re g s =
     (if g \<notin> set (groups re) then Inl (Panic ''index out of range'')
      else (case FindStringSubmatch re s of
              None \<Rightarrow> Inl (Panic ''index out of range'')
            | Some m \<Rightarrow> Inr (group_val m g)))"

text \<open>\<open>ReplaceAllString\<close> with a literal replacement, for patterns that do not match the empty string.
  The number is fuel; each match consumes, so the length of the text is enough.\<close>

fun replace_all :: "regexp \<Rightarrow> string \<Rightarrow> nat \<Rightarrow> nat \<Rightarrow> string \<Rightarrow> string" where
  "replace_all re repl 0 p s = s"
| "replace_all re repl (Suc n) p s =
     (case find_from re p s of
        None \<Rightarrow> s
      | Some (q, m, after, _) \<Rightarrow>
          if m = [] then s else take (q - p) s @ repl @ replace_all re repl n (q + length m) after)"

definition ReplaceAllString :: "regexp \<Rightarrow> string \<Rightarrow> string \<Rightarrow> string" where
  "ReplaceAllString re s repl = replace_all re repl (Suc (length s)) 0 s"

section \<open>Building patterns\<close>

definition RPlus :: "regexp \<Rightarrow> regexp" where
  "RPlus r = RSeq r (RStar True r)"

definition ROpt :: "regexp \<Rightarrow> regexp" where
  "ROpt r = RAlt r REmpty"

fun RSeqs :: "regexp list \<Rightarrow> regexp" where
  "RSeqs [] = REmpty"
| "RSeqs [r] = r"
| "RSeqs (r # rs) = RSeq r (RSeqs rs)"

fun RAlts :: "regexp list \<Rightarrow> regexp" where
  "RAlts [] = RSet (\<lambda>_. False)"
| "RAlts [r] = r"
| "RAlts (r # rs) = RAlt r (RAlts rs)"

fun RRepeat :: "nat \<Rightarrow> regexp \<Rightarrow> regexp" where
  "RRepeat 0 r = REmpty"
| "RRepeat (Suc n) r = RSeq r (RRepeat n r)"

text \<open>At least \<open>m\<close> and at most \<open>m + n\<close> times, as many as possible.\<close>

fun RRange :: "nat \<Rightarrow> nat \<Rightarrow> regexp \<Rightarrow> regexp" where
  "RRange (Suc m) n r = RSeq r (RRange m n r)"
| "RRange 0 0 r = REmpty"
| "RRange 0 (Suc n) r = ROpt (RSeq r (RRange 0 n r))"

definition RChr :: "char \<Rightarrow> regexp" where
  "RChr c = RSet (\<lambda>d. d = c)"

text \<open>A character under \<open>(?i)\<close>.\<close>

definition RChrI :: "char \<Rightarrow> regexp" where
  "RChrI c = RSet (\<lambda>d. lower_char d = lower_char c)"

definition RStr :: "string \<Rightarrow> regexp" where
  "RStr s = RSeqs (map RChr s)"

definition RStrI :: "string \<Rightarrow> regexp" where
  "RStrI s = RSeqs (map RChrI s)"

definition RAny :: regexp where
  "RAny = RSet (\<lambda>c. c \<noteq> CHR 0x0A)"

definition is_alnum :: "char \<Rightarrow> bool" where
  "is_alnum c \<longleftrightarrow> is_lower c \<or> is_upper c \<or> is_digit c"

definition is_word :: "char \<Rightarrow> bool" where
  "is_word c \<longleftrightarrow> is_alnum c \<or> c = CHR ''_''"

text \<open>Go's \<open>\s\<close> is \<open>[\t\n\f\r ]\<close>.\<close>

definition is_re_space :: "char \<Rightarrow> bool" where
  "is_re_space c \<longleftrightarrow> c \<in> {CHR 0x09, CHR 0x0A, CHR 0x0C, CHR 0x0D, CHR '' ''}"

section \<open>What a match is\<close>

text \<open>A result of a match splits the text, and its captures are pieces of the text.\<close>

definition extends :: "rstate \<Rightarrow> rstate \<Rightarrow> bool" where
  "extends st st' \<longleftrightarrow> (\<exists>w. rrest st = w @ rrest st' \<and> rpos st' = rpos st + length w)"

lemma extends_refl [simp]: "extends st st"
  by (simp add: extends_def)

lemma extends_trans: "extends a b \<Longrightarrow> extends b c \<Longrightarrow> extends a c"
  by (force simp: extends_def)

lemma star_iter_extends:
  assumes "\<And>st st'. st' \<in> set (f st) \<Longrightarrow> extends st st'"
  shows "st' \<in> set (star_iter f n g st) \<Longrightarrow> extends st st'"
proof (induction n arbitrary: st)
  case (Suc n)
  then show ?case using assms extends_trans by (fastforce simp: Let_def split: if_splits)
qed simp

lemma rmatch_extends: "st' \<in> set (rmatch re st) \<Longrightarrow> extends st st'"
proof (induction re arbitrary: st st')
  case (RSet p)
  then show ?case by (cases "rrest st") (auto simp: extends_def split: if_splits intro: exI [of _ "[_]"])
next
  case (RSeq a b)
  then show ?case using extends_trans by fastforce
next
  case (RStar g a)
  then show ?case using star_iter_extends [of "rmatch a"] by auto
next
  case (RGroup g a)
  then show ?case by (fastforce simp: extends_def capture_def)
qed (auto split: if_splits)

lemma find_from_split:
  "find_from re p s = Some (q, m, after, caps) \<Longrightarrow> p \<le> q \<and> s = take (q - p) s @ m @ after \<and> length (take (q - p) s) = q - p"
proof (induction s arbitrary: p)
  case Nil
  then show ?case
    using rmatch_extends [of _ re "\<lparr>rpos = p, rrest = [], rcaps = []\<rparr>"]
    by (subst (asm) find_from.simps) (fastforce simp: extends_def split: list.splits)
next
  case (Cons c cs)
  show ?case
  proof (cases "rmatch re \<lparr>rpos = p, rrest = c # cs, rcaps = []\<rparr>")
    case Nil
    with Cons.prems have "find_from re (Suc p) cs = Some (q, m, after, caps)"
      by (subst (asm) find_from.simps) simp
    from Cons.IH [OF this] show ?thesis by (auto simp: Suc_diff_le Suc_le_eq take_Cons' split: if_splits)
  next
    case (Cons st sts)
    with Cons.prems have "q = p" "m = take (length (c # cs) - length (rrest st)) (c # cs)" "after = rrest st"
      by (subst (asm) find_from.simps, simp)+
    moreover have "extends \<lparr>rpos = p, rrest = c # cs, rcaps = []\<rparr> st" using Cons by (intro rmatch_extends [of _ re]) simp
    then obtain w where w: "c # cs = w @ rrest st" by (auto simp: extends_def)
    then have "length (c # cs) - length (rrest st) = length w" by (metis add_diff_cancel_right' length_append)
    ultimately show ?thesis using w by simp
  qed
qed

section \<open>The preferred match\<close>

text \<open>\<open>st'\<close> is the first result of matching \<open>re\<close> at \<open>st\<close>. The rules follow the pattern.\<close>

definition prefers :: "regexp \<Rightarrow> rstate \<Rightarrow> rstate \<Rightarrow> bool" where
  "prefers re st st' \<longleftrightarrow> (\<exists>sts. rmatch re st = st' # sts)"

lemma prefers_Seq: "prefers a st x \<Longrightarrow> prefers b x y \<Longrightarrow> prefers (RSeq a b) st y"
  by (auto simp: prefers_def)

lemma prefers_Alt1: "prefers a st x \<Longrightarrow> prefers (RAlt a b) st x"
  by (auto simp: prefers_def)

lemma prefers_Alt2: "rmatch a st = [] \<Longrightarrow> prefers b st x \<Longrightarrow> prefers (RAlt a b) st x"
  by (auto simp: prefers_def)

lemma prefers_Empty: "prefers REmpty st st"
  by (simp add: prefers_def)

lemma prefers_Opt_none: "rmatch a st = [] \<Longrightarrow> prefers (ROpt a) st st"
  by (simp add: prefers_def ROpt_def)

lemma prefers_Opt_some: "prefers a st x \<Longrightarrow> prefers (ROpt a) st x"
  by (auto simp: prefers_def ROpt_def)

lemma prefers_Group: "prefers a st x \<Longrightarrow> prefers (RGroup g a) st (capture g st x)"
  by (auto simp: prefers_def)

lemma prefers_Begin: "prefers RBegin \<lparr>rpos = 0, rrest = s, rcaps = caps\<rparr> \<lparr>rpos = 0, rrest = s, rcaps = caps\<rparr>"
  by (simp add: prefers_def)

lemma prefers_End: "prefers REnd \<lparr>rpos = p, rrest = [], rcaps = caps\<rparr> \<lparr>rpos = p, rrest = [], rcaps = caps\<rparr>"
  by (simp add: prefers_def)

definition adv :: "rstate \<Rightarrow> nat \<Rightarrow> rstate" where
  "adv st i = st\<lparr>rpos := rpos st + i, rrest := drop i (rrest st)\<rparr>"

lemma adv_0 [simp]: "adv st 0 = st"
  by (simp add: adv_def)

lemma adv_adv: "adv (adv st i) j = adv st (i + j)"
  by (simp add: adv_def add.commute add.left_commute)

lemma rmatch_RSet: "rmatch (RSet p) st = (if rrest st \<noteq> [] \<and> p (hd (rrest st)) then [adv st 1] else [])"
  by (cases "rrest st") (auto simp: adv_def)

lemma star_iter_RSet:
  "length (takeWhile p (rrest st)) \<le> n \<Longrightarrow>
   star_iter (rmatch (RSet p)) n True st = map (adv st) (rev [0..<Suc (length (takeWhile p (rrest st)))])"
proof (induction n arbitrary: st)
  case 0
  then show ?case by simp
next
  case (Suc n)
  show ?case
  proof (cases "rrest st")
    case Nil
    then show ?thesis by simp
  next
    case (Cons c cs)
    then have adv1: "rrest (adv st 1) = cs" by (simp add: adv_def)
    show ?thesis
    proof (cases "p c")
      case True
      let ?k = "length (takeWhile p cs)"
      have "star_iter (rmatch (RSet p)) n True (adv st 1) = map (adv st) (map Suc (rev [0..<Suc ?k]))"
        using Suc.IH [of "adv st 1"] Suc.prems True Cons adv1
        by (simp add: adv_adv comp_def del: upt_Suc rmatch.simps)
      moreover have "map Suc (rev [0..<Suc ?k]) @ [0] = rev [0..<Suc (Suc ?k)]"
        by (simp add: rev_map [symmetric] map_Suc_upt upt_conv_Cons del: upt_Suc)
      ultimately have rest: "star_iter (rmatch (RSet p)) n True (adv st 1) @ [adv st 0] = map (adv st) (rev [0..<Suc (Suc ?k)])"
        by (metis map_append list.map)
      have step: "star_iter (rmatch (RSet p)) (Suc n) True st = star_iter (rmatch (RSet p)) n True (adv st 1) @ [adv st 0]"
        using True Cons adv1 by (simp add: rmatch_RSet del: rmatch.simps)
      show ?thesis using True Cons by (simp only: step rest) simp
    next
      case False
      then show ?thesis using Cons by simp
    qed
  qed
qed

lemma rmatch_star_set:
  "rmatch (RStar True (RSet p)) st = map (adv st) (rev [0..<Suc (length (takeWhile p (rrest st)))])"
  using star_iter_RSet [of p st "length (rrest st)", OF length_takeWhile_le] by simp

lemma prefers_star_set: "prefers (RStar True (RSet p)) st (adv st (length (takeWhile p (rrest st))))"
  by (simp add: prefers_def rmatch_star_set del: rmatch.simps)

lemma prefers_plus_set:
  "rrest st \<noteq> [] \<Longrightarrow> p (hd (rrest st)) \<Longrightarrow> prefers (RPlus (RSet p)) st (adv st (length (takeWhile p (rrest st))))"
  using prefers_Seq [of "RSet p" st "adv st 1", OF _ prefers_star_set [of p]]
  by (cases "rrest st") (auto simp: RPlus_def prefers_def adv_def)

lemma prefers_plus_span:
  assumes "w \<noteq> []" "list_all q w" "v = [] \<or> \<not> q (hd v)"
  shows "prefers (RPlus (RSet q)) \<lparr>rpos = p, rrest = w @ v, rcaps = caps\<rparr>
    \<lparr>rpos = p + length w, rrest = v, rcaps = caps\<rparr>"
proof -
  have "takeWhile q w = w" using assms(2) by (simp add: takeWhile_eq_all_conv list_all_iff)
  moreover have "takeWhile q v = []" using assms(3) by (cases v) auto
  ultimately have "takeWhile q (w @ v) = w" using assms(2) by (simp add: takeWhile_append list_all_iff)
  then show ?thesis
    using prefers_plus_set [of "\<lparr>rpos = p, rrest = w @ v, rcaps = caps\<rparr>" q] assms(1,2)
    by (simp add: adv_def list_all_iff)
qed

lemmas prefers_plus_all = prefers_plus_span [where v = "[]", simplified]

lemma find_from_prefers:
  assumes "prefers re \<lparr>rpos = p, rrest = s, rcaps = []\<rparr> st"
  shows "find_from re p s = Some (p, take (length s - length (rrest st)) s, rrest st, rcaps st)"
  using assms by (auto simp: prefers_def find_from.simps)

lemma FindStringSubmatch_prefers:
  assumes "prefers re \<lparr>rpos = 0, rrest = s, rcaps = []\<rparr> st"
  shows "FindStringSubmatch re s = Some (map_of (rcaps st))"
  using find_from_prefers [OF assms] by (simp add: FindStringSubmatch_def)

lemmas RStr_simps = RStr_def RStrI_def RChr_def RChrI_def

section \<open>The results of a pattern\<close>

text \<open>Membership in the list of results, one equation per constructor that the patterns of the driver use:
  the text that is consumed and the captures that are added.\<close>

definition consumes :: "rstate \<Rightarrow> string \<Rightarrow> rstate \<Rightarrow> bool" where
  "consumes st w st' \<longleftrightarrow> rrest st = w @ rrest st' \<and> rpos st' = rpos st + length w \<and> rcaps st' = rcaps st"

lemma mem_RSeq: "st' \<in> set (rmatch (RSeq a b) st) \<longleftrightarrow> (\<exists>x. x \<in> set (rmatch a st) \<and> st' \<in> set (rmatch b x))"
  by auto

lemma mem_RAlt: "st' \<in> set (rmatch (RAlt a b) st) \<longleftrightarrow> st' \<in> set (rmatch a st) \<or> st' \<in> set (rmatch b st)"
  by auto

lemma mem_ROpt: "st' \<in> set (rmatch (ROpt a) st) \<longleftrightarrow> st' \<in> set (rmatch a st) \<or> st' = st"
  by (auto simp: ROpt_def)

lemma mem_RGroup:
  "st' \<in> set (rmatch (RGroup g a) st) \<longleftrightarrow>
     (\<exists>x w. x \<in> set (rmatch a st) \<and> rrest st = w @ rrest x \<and> st' = x\<lparr>rcaps := (g, w) # rcaps x\<rparr>)"
proof
  assume "st' \<in> set (rmatch (RGroup g a) st)"
  then obtain x where x: "x \<in> set (rmatch a st)" "st' = capture g st x" by auto
  then obtain w where "rrest st = w @ rrest x" using rmatch_extends [OF x(1)] by (auto simp: extends_def)
  with x show "\<exists>x w. x \<in> set (rmatch a st) \<and> rrest st = w @ rrest x \<and> st' = x\<lparr>rcaps := (g, w) # rcaps x\<rparr>"
    by (auto simp: capture_def)
next
  assume "\<exists>x w. x \<in> set (rmatch a st) \<and> rrest st = w @ rrest x \<and> st' = x\<lparr>rcaps := (g, w) # rcaps x\<rparr>"
  then show "st' \<in> set (rmatch (RGroup g a) st)" by (force simp: capture_def)
qed

lemma consumes_adv: "i \<le> length (rrest st) \<Longrightarrow> consumes st (take i (rrest st)) (adv st i)"
  by (simp add: consumes_def adv_def)

lemma consumes_is_adv: "consumes st w st' \<Longrightarrow> st' = adv st (length w)"
  by (cases st; cases st') (auto simp: consumes_def adv_def)

lemma mem_RSet: "st' \<in> set (rmatch (RSet q) st) \<longleftrightarrow> (\<exists>c. q c \<and> consumes st [c] st')"
  by (cases "rrest st"; cases st; cases st') (auto simp: consumes_def)

lemma mem_RPlus_RSet:
  "st' \<in> set (rmatch (RPlus (RSet q)) st) \<longleftrightarrow> (\<exists>w. w \<noteq> [] \<and> list_all q w \<and> consumes st w st')"
proof
  assume "st' \<in> set (rmatch (RPlus (RSet q)) st)"
  then obtain c x where c: "q c" "consumes st [c] x" and st': "st' \<in> set (rmatch (RStar True (RSet q)) x)"
    unfolding RPlus_def mem_RSeq mem_RSet by auto
  then obtain i where i: "st' = adv x i" "i \<le> length (takeWhile q (rrest x))"
    by (auto simp: rmatch_star_set simp del: rmatch.simps)
  have "list_all q (take i (rrest x))"
  proof -
    have "take i (rrest x) = take i (takeWhile q (rrest x))" using i(2) by (metis takeWhile_dropWhile_id take_append diff_is_0_eq take0 append_Nil2)
    then show ?thesis by (metis list_all_iff in_set_takeD set_takeWhileD)
  qed
  moreover have "consumes st (c # take i (rrest x)) st'"
    using c(2) i length_takeWhile_le [of q "rrest x"] by (auto simp: consumes_def adv_def min_def)
  ultimately show "\<exists>w. w \<noteq> [] \<and> list_all q w \<and> consumes st w st'" using c(1) by force
next
  assume "\<exists>w. w \<noteq> [] \<and> list_all q w \<and> consumes st w st'"
  then obtain c w where w: "q c" "list_all q w" "consumes st (c # w) st'" by (metis list.pred_inject(2) neq_Nil_conv)
  then have rr: "rrest st = c # w @ rrest st'" by (simp add: consumes_def)
  have "consumes st [c] (adv st 1)" "st' = adv (adv st 1) (length w)" "rrest (adv st 1) = w @ rrest st'"
    using consumes_is_adv [OF w(3)] adv_adv [of st 1 "length w"] by (simp_all add: consumes_def adv_def rr)
  moreover have "length w \<le> length (takeWhile q (w @ rrest st'))" using w(2) by (simp add: takeWhile_append list_all_iff)
  ultimately show "st' \<in> set (rmatch (RPlus (RSet q)) st)"
    unfolding RPlus_def mem_RSeq mem_RSet using w(1)
    by (intro exI [of _ "adv st 1"]) (auto simp: rmatch_star_set simp del: rmatch.simps upt_Suc)
qed

lemma mem_RStrI: "st' \<in> set (rmatch (RStrI s) st) \<longleftrightarrow> (\<exists>w. ToLower w = ToLower s \<and> consumes st w st')"
proof (induction s arbitrary: st)
  case Nil
  then show ?case by (cases st; cases st') (auto simp: RStrI_def ToLower_def consumes_def)
next
  case (Cons c s)
  have "st' \<in> set (rmatch (RStrI (c # s)) st) \<longleftrightarrow> (\<exists>x. x \<in> set (rmatch (RChrI c) st) \<and> st' \<in> set (rmatch (RStrI s) x))"
    by (cases s) (auto simp: RStrI_def)
  also have "\<dots> \<longleftrightarrow> (\<exists>x d. lower_char d = lower_char c \<and> consumes st [d] x \<and> (\<exists>w. ToLower w = ToLower s \<and> consumes x w st'))"
    unfolding Cons RChrI_def mem_RSet by blast
  also have "\<dots> \<longleftrightarrow> (\<exists>w. ToLower w = ToLower (c # s) \<and> consumes st w st')"
  proof
    assume "\<exists>x d. lower_char d = lower_char c \<and> consumes st [d] x \<and> (\<exists>w. ToLower w = ToLower s \<and> consumes x w st')"
    then obtain x d w where "lower_char d = lower_char c" "consumes st [d] x" "ToLower w = ToLower s" "consumes x w st'" by blast
    then show "\<exists>w. ToLower w = ToLower (c # s) \<and> consumes st w st'"
      by (intro exI [of _ "d # w"]) (auto simp: consumes_def ToLower_def)
  next
    assume "\<exists>w. ToLower w = ToLower (c # s) \<and> consumes st w st'"
    then obtain d w where "lower_char d = lower_char c" "ToLower w = ToLower s" "consumes st (d # w) st'"
      by (auto simp: ToLower_def map_eq_Cons_conv)
    then show "\<exists>x d. lower_char d = lower_char c \<and> consumes st [d] x \<and> (\<exists>w. ToLower w = ToLower s \<and> consumes x w st')"
      by (intro exI [of _ "adv st 1"] exI [of _ d]) (auto simp: consumes_def adv_def)
  qed
  finally show ?case .
qed

lemma mem_anchors:
  "st' \<in> set (rmatch RBegin st) \<longleftrightarrow> rpos st = 0 \<and> st' = st"
  "st' \<in> set (rmatch REnd st) \<longleftrightarrow> rrest st = [] \<and> st' = st"
  by auto

lemma MatchString_iff_at_begin:
  assumes "\<And>p s. p > 0 \<Longrightarrow> rmatch re \<lparr>rpos = p, rrest = s, rcaps = []\<rparr> = []"
  shows "find_from re 0 s =
    (case rmatch re \<lparr>rpos = 0, rrest = s, rcaps = []\<rparr> of
       [] \<Rightarrow> None
     | st # _ \<Rightarrow> Some (0, take (length s - length (rrest st)) s, rrest st, rcaps st))"
proof -
  have later: "p > 0 \<Longrightarrow> find_from re p s = None" for p s
    by (induction s arbitrary: p) (simp_all add: find_from.simps [of re] assms)
  show ?thesis by (subst find_from.simps) (auto simp: later split: list.splits)
qed

end
