(* ===== verification/Sql_Dialects.thy ===== *)
theory Sql_Dialects
  imports Go_Regexp
begin

text \<open>
  The SQL the driver reads and writes: the splitting of a query into statements and the recognition of
  transaction boundaries (\<open>utils/sql_method_utils.go\<close>), the database dialects
  (\<open>driver_infrastructure/mysql_database_dialects.go\<close>, \<open>pg_database_dialects.go\<close>) with the queries
  that set a piece of session state and the functions that recognise such a statement, and the
  probing queries by which a dialect recognises a database.
\<close>

section \<open>Statements of a query\<close>

text \<open>An argument of a driver method; only strings and slices are looked at.\<close>

datatype go_any = AString string | ASlice "go_any list" | AOther

definition CONN_BEGIN :: string where "CONN_BEGIN = ''Conn.Begin''"
definition CONN_BEGIN_TX :: string where "CONN_BEGIN_TX = ''Conn.BeginTx''"
definition TX_COMMIT :: string where "TX_COMMIT = ''Tx.Commit''"
definition TX_ROLLBACK :: string where "TX_ROLLBACK = ''Tx.Rollback''"

definition SET_AUTOCOMMIT_0 :: string where "SET_AUTOCOMMIT_0 = ''set autocommit = 0''"

text \<open>The patterns \<open>\s+\<close> and \<open>\s*/\*(.*?)\*/\s*\<close>.\<close>

definition spaces_re :: regexp where
  "spaces_re = RPlus (RSet is_re_space)"

definition comment_re :: regexp where
  "comment_re = RSeqs [RStar True (RSet is_re_space), RStr ''/*'', RGroup ''1'' (RStar False RAny),
                       RStr ''*/'', RStar True (RSet is_re_space)]"

definition parseMultiStatementQueries :: "string \<Rightarrow> string list" where
  "parseMultiStatementQueries query =
     (if query = '''' then []
      else let q = TrimSpace (ReplaceAllString spaces_re query '' '')
           in if q = '''' then [] else Split q (CHR '';''))"

definition clean_statement :: "string \<Rightarrow> string" where
  "clean_statement statement = TrimSpace (ReplaceAllString comment_re statement '' '')"

definition GetSeparateSqlStatements :: "string \<Rightarrow> string list" where
  "GetSeparateSqlStatements query =
     filter (\<lambda>stmt. stmt \<noteq> '''') (map clean_statement (parseMultiStatementQueries query))"

fun DoesSetReadOnly_loop :: "string list \<Rightarrow> (string \<Rightarrow> bool \<times> bool) \<Rightarrow> bool \<times> bool" where
  "DoesSetReadOnly_loop [] dialectFunc = (False, False)"
| "DoesSetReadOnly_loop (statement # statements) dialectFunc =
     (let cleanStmt = clean_statement statement
      in if cleanStmt = '''' then DoesSetReadOnly_loop statements dialectFunc
         else let (readOnly, found) = dialectFunc cleanStmt
              in if found then (readOnly, True) else DoesSetReadOnly_loop statements dialectFunc)"

definition DoesSetReadOnly :: "string \<Rightarrow> (string \<Rightarrow> bool \<times> bool) \<Rightarrow> bool \<times> bool" where
  "DoesSetReadOnly query dialectFunc = DoesSetReadOnly_loop (parseMultiStatementQueries query) dialectFunc"

definition doesStatementStartTransaction :: "string list \<Rightarrow> bool" where
  "doesStatementStartTransaction statements \<longleftrightarrow>
     (\<exists>statement \<in> set statements.
        let l = ToLower statement
        in HasPrefix l ''begin'' \<or> HasPrefix l ''start transaction'' \<or> l = SET_AUTOCOMMIT_0)"

definition doesStatementCloseTransaction :: "string list \<Rightarrow> bool" where
  "doesStatementCloseTransaction statements \<longleftrightarrow>
     (\<exists>statement \<in> set statements.
        let l = ToLower statement
        in HasPrefix l ''commit'' \<or> HasPrefix l ''rollback'' \<or> HasPrefix l ''end'' \<or> HasPrefix l ''abort'')"

definition DoesOpenTransaction :: "string \<Rightarrow> go_any list \<Rightarrow> bool" where
  "DoesOpenTransaction methodName methodArgs =
     (if methodName = CONN_BEGIN_TX \<or> methodName = CONN_BEGIN then True
      else (case methodArgs of
              AString query # _ \<Rightarrow>
                query \<noteq> '''' \<and> doesStatementStartTransaction (GetSeparateSqlStatements query)
            | _ \<Rightarrow> False))"

definition DoesCloseTransaction :: "string \<Rightarrow> go_any list \<Rightarrow> bool" where
  "DoesCloseTransaction methodName methodArgs =
     (if methodName = TX_ROLLBACK \<or> methodName = TX_COMMIT then True
      else (case methodArgs of
              AString query # _ \<Rightarrow> doesStatementCloseTransaction (GetSeparateSqlStatements query)
            | _ \<Rightarrow> False))"

definition GetQueryFromSqlOrMethodArgs :: "string \<Rightarrow> go_any list \<Rightarrow> string" where
  "GetQueryFromSqlOrMethodArgs sql methodArgs =
     (if sql = ''''
      then (case methodArgs of
              [] \<Rightarrow> sql
            | AString str # _ \<Rightarrow> str
            | ASlice (AString str # _) # _ \<Rightarrow> str
            | _ \<Rightarrow> sql)
      else sql)"

section \<open>Dialects\<close>

datatype DatabaseDialect =
    MySQLDatabaseDialect
  | RdsMySQLDatabaseDialect
  | AuroraMySQLDatabaseDialect
  | GlobalAuroraMySQLDatabaseDialect
  | RdsMultiAzClusterMySQLDatabaseDialect
  | PgDatabaseDialect
  | RdsPgDatabaseDialect
  | AuroraPgDatabaseDialect
  | GlobalAuroraPgDatabaseDialect
  | RdsMultiAzClusterPgDatabaseDialect

datatype DatabaseEngine = MYSQL | PG

text \<open>The base type whose methods a dialect inherits.\<close>

fun engine :: "DatabaseDialect \<Rightarrow> DatabaseEngine" where
  "engine MySQLDatabaseDialect = MYSQL"
| "engine RdsMySQLDatabaseDialect = MYSQL"
| "engine AuroraMySQLDatabaseDialect = MYSQL"
| "engine GlobalAuroraMySQLDatabaseDialect = MYSQL"
| "engine RdsMultiAzClusterMySQLDatabaseDialect = MYSQL"
| "engine PgDatabaseDialect = PG"
| "engine RdsPgDatabaseDialect = PG"
| "engine AuroraPgDatabaseDialect = PG"
| "engine GlobalAuroraPgDatabaseDialect = PG"
| "engine RdsMultiAzClusterPgDatabaseDialect = PG"

text \<open>The codes of \<open>fixed_value_types.go\<close> and \<open>KnownDialectsByCode\<close>.\<close>

definition KnownDialectsByCode :: "(string, DatabaseDialect) gomap" where
  "KnownDialectsByCode =
     [(''mysql'', MySQLDatabaseDialect), (''pg'', PgDatabaseDialect),
      (''rds-mysql'', RdsMySQLDatabaseDialect), (''rds-pg'', RdsPgDatabaseDialect),
      (''aurora-mysql'', AuroraMySQLDatabaseDialect), (''global-aurora-mysql'', GlobalAuroraMySQLDatabaseDialect),
      (''aurora-pg'', AuroraPgDatabaseDialect), (''global-aurora-pg'', GlobalAuroraPgDatabaseDialect),
      (''rds-multi-az-mysql-cluster'', RdsMultiAzClusterMySQLDatabaseDialect),
      (''rds-multi-az-pg-cluster'', RdsMultiAzClusterPgDatabaseDialect)]"

text \<open>Each dialect has its own methods or inherits those of its base; the functions over
  \<open>DatabaseDialect\<close> are the calls through the interface.\<close>

definition MySQL_GetDialectUpdateCandidates :: "string list" where
  "MySQL_GetDialectUpdateCandidates = [''global-aurora-mysql'', ''aurora-mysql'', ''rds-multi-az-mysql-cluster'', ''rds-mysql'']"

definition RdsMySQL_GetDialectUpdateCandidates :: "string list" where
  "RdsMySQL_GetDialectUpdateCandidates = [''rds-multi-az-mysql-cluster'', ''global-aurora-mysql'', ''aurora-mysql'']"

definition AuroraMySQL_GetDialectUpdateCandidates :: "string list" where
  "AuroraMySQL_GetDialectUpdateCandidates = [''global-aurora-mysql'', ''rds-multi-az-mysql-cluster'']"

definition GlobalAuroraMySQL_GetDialectUpdateCandidates :: "string list" where
  "GlobalAuroraMySQL_GetDialectUpdateCandidates = []"

definition RdsMultiAzClusterMySQL_GetDialectUpdateCandidates :: "string list" where
  "RdsMultiAzClusterMySQL_GetDialectUpdateCandidates = []"

definition Pg_GetDialectUpdateCandidates :: "string list" where
  "Pg_GetDialectUpdateCandidates = [''global-aurora-pg'', ''aurora-pg'', ''rds-multi-az-pg-cluster'', ''rds-pg'']"

definition RdsPg_GetDialectUpdateCandidates :: "string list" where
  "RdsPg_GetDialectUpdateCandidates = [''rds-multi-az-pg-cluster'', ''global-aurora-pg'', ''aurora-pg'']"

definition AuroraPg_GetDialectUpdateCandidates :: "string list" where
  "AuroraPg_GetDialectUpdateCandidates = [''global-aurora-pg'', ''rds-multi-az-pg-cluster'']"

definition GlobalAuroraPg_GetDialectUpdateCandidates :: "string list" where
  "GlobalAuroraPg_GetDialectUpdateCandidates = []"

definition RdsMultiAzClusterPg_GetDialectUpdateCandidates :: "string list" where
  "RdsMultiAzClusterPg_GetDialectUpdateCandidates = []"

fun GetDialectUpdateCandidates :: "DatabaseDialect \<Rightarrow> string list" where
  "GetDialectUpdateCandidates MySQLDatabaseDialect = MySQL_GetDialectUpdateCandidates"
| "GetDialectUpdateCandidates RdsMySQLDatabaseDialect = RdsMySQL_GetDialectUpdateCandidates"
| "GetDialectUpdateCandidates AuroraMySQLDatabaseDialect = AuroraMySQL_GetDialectUpdateCandidates"
| "GetDialectUpdateCandidates GlobalAuroraMySQLDatabaseDialect = GlobalAuroraMySQL_GetDialectUpdateCandidates"
| "GetDialectUpdateCandidates RdsMultiAzClusterMySQLDatabaseDialect = RdsMultiAzClusterMySQL_GetDialectUpdateCandidates"
| "GetDialectUpdateCandidates PgDatabaseDialect = Pg_GetDialectUpdateCandidates"
| "GetDialectUpdateCandidates RdsPgDatabaseDialect = RdsPg_GetDialectUpdateCandidates"
| "GetDialectUpdateCandidates AuroraPgDatabaseDialect = AuroraPg_GetDialectUpdateCandidates"
| "GetDialectUpdateCandidates GlobalAuroraPgDatabaseDialect = GlobalAuroraPg_GetDialectUpdateCandidates"
| "GetDialectUpdateCandidates RdsMultiAzClusterPgDatabaseDialect = RdsMultiAzClusterPg_GetDialectUpdateCandidates"

definition MySQL_GetDefaultPort :: "int" where
  "MySQL_GetDefaultPort =
     3306"

definition Pg_GetDefaultPort :: "int" where
  "Pg_GetDefaultPort =
     5432"

definition GetDefaultPort :: "DatabaseDialect \<Rightarrow> int" where
  "GetDefaultPort d = (case engine d of MYSQL \<Rightarrow> MySQL_GetDefaultPort | PG \<Rightarrow> Pg_GetDefaultPort)"

definition MySQL_GetHostAliasQuery :: "string" where
  "MySQL_GetHostAliasQuery =
     ''SELECT CONCAT(@@hostname, ':', @@port)''"

definition Pg_GetHostAliasQuery :: "string" where
  "Pg_GetHostAliasQuery =
     ''SELECT pg_catalog.CONCAT(pg_catalog.inet_server_addr(), ':', pg_catalog.inet_server_port())''"

definition GetHostAliasQuery :: "DatabaseDialect \<Rightarrow> string" where
  "GetHostAliasQuery d = (case engine d of MYSQL \<Rightarrow> MySQL_GetHostAliasQuery | PG \<Rightarrow> Pg_GetHostAliasQuery)"

definition MySQL_GetServerVersionQuery :: "string" where
  "MySQL_GetServerVersionQuery =
     ''SHOW VARIABLES LIKE 'version_comment'' @ [CHR 0x27]"

definition Pg_GetServerVersionQuery :: "string" where
  "Pg_GetServerVersionQuery =
     ''SELECT 'version', pg_catalog.VERSION()''"

definition GetServerVersionQuery :: "DatabaseDialect \<Rightarrow> string" where
  "GetServerVersionQuery d = (case engine d of MYSQL \<Rightarrow> MySQL_GetServerVersionQuery | PG \<Rightarrow> Pg_GetServerVersionQuery)"

definition MySQL_GetIsReaderQuery :: string where
  "MySQL_GetIsReaderQuery = ''SELECT @@innodb_read_only''"

definition RdsMultiAzClusterMySQL_GetIsReaderQuery :: string where
  "RdsMultiAzClusterMySQL_GetIsReaderQuery = ''SELECT @@read_only''"

definition Pg_GetIsReaderQuery :: string where
  "Pg_GetIsReaderQuery = ''SELECT pg_catalog.pg_is_in_recovery()''"

fun GetIsReaderQuery :: "DatabaseDialect \<Rightarrow> string" where
  "GetIsReaderQuery RdsMultiAzClusterMySQLDatabaseDialect = RdsMultiAzClusterMySQL_GetIsReaderQuery"
| "GetIsReaderQuery d = (case engine d of MYSQL \<Rightarrow> MySQL_GetIsReaderQuery | PG \<Rightarrow> Pg_GetIsReaderQuery)"

section \<open>Statements that set session state\<close>

type_synonym TransactionIsolationLevel = int

definition TRANSACTION_READ_UNCOMMITTED :: TransactionIsolationLevel where "TRANSACTION_READ_UNCOMMITTED = 0"
definition TRANSACTION_READ_COMMITTED :: TransactionIsolationLevel where "TRANSACTION_READ_COMMITTED = 1"
definition TRANSACTION_REPEATABLE_READ :: TransactionIsolationLevel where "TRANSACTION_REPEATABLE_READ = 2"
definition TRANSACTION_SERIALIZABLE :: TransactionIsolationLevel where "TRANSACTION_SERIALIZABLE = 3"

lemmas isolation_levels =
  TRANSACTION_READ_UNCOMMITTED_def TRANSACTION_READ_COMMITTED_def TRANSACTION_REPEATABLE_READ_def TRANSACTION_SERIALIZABLE_def

text \<open>\<open>%v\<close> of a boolean.\<close>

definition show_bool :: "bool \<Rightarrow> string" where
  "show_bool b = (if b then ''true'' else ''false'')"

definition MySQL_GetSetAutoCommitQuery :: "bool \<Rightarrow> go_error + string" where
  "MySQL_GetSetAutoCommitQuery autoCommit =
     Inr (''set autocommit='' @ show_bool autoCommit)"

definition Pg_GetSetAutoCommitQuery :: "bool \<Rightarrow> go_error + string" where
  "Pg_GetSetAutoCommitQuery autoCommit =
     Inl (NewGenericAwsWrapperError ''AwsWrapper.unsupportedMethodError'')"

definition GetSetAutoCommitQuery :: "DatabaseDialect \<Rightarrow> bool \<Rightarrow> go_error + string" where
  "GetSetAutoCommitQuery d autoCommit = (case engine d of MYSQL \<Rightarrow> MySQL_GetSetAutoCommitQuery autoCommit | PG \<Rightarrow> Pg_GetSetAutoCommitQuery autoCommit)"

definition MySQL_GetSetReadOnlyQuery :: "bool \<Rightarrow> go_error + string" where
  "MySQL_GetSetReadOnlyQuery readOnly =
     (let readOnlyStr = if readOnly then ''only'' else ''write''
      in Inr (''set session transaction read '' @ readOnlyStr))"

definition Pg_GetSetReadOnlyQuery :: "bool \<Rightarrow> go_error + string" where
  "Pg_GetSetReadOnlyQuery readOnly =
     (let readOnlyStr = if readOnly then ''only'' else ''write''
      in Inr (''set session characteristics as transaction read '' @ readOnlyStr))"

definition GetSetReadOnlyQuery :: "DatabaseDialect \<Rightarrow> bool \<Rightarrow> go_error + string" where
  "GetSetReadOnlyQuery d readOnly = (case engine d of MYSQL \<Rightarrow> MySQL_GetSetReadOnlyQuery readOnly | PG \<Rightarrow> Pg_GetSetReadOnlyQuery readOnly)"

definition MySQL_GetSetCatalogQuery :: "string \<Rightarrow> go_error + string" where
  "MySQL_GetSetCatalogQuery catalog =
     Inr (''use '' @ catalog)"

definition Pg_GetSetCatalogQuery :: "string \<Rightarrow> go_error + string" where
  "Pg_GetSetCatalogQuery catalog =
     Inl (NewGenericAwsWrapperError ''AwsWrapper.unsupportedMethodError'')"

definition GetSetCatalogQuery :: "DatabaseDialect \<Rightarrow> string \<Rightarrow> go_error + string" where
  "GetSetCatalogQuery d catalog = (case engine d of MYSQL \<Rightarrow> MySQL_GetSetCatalogQuery catalog | PG \<Rightarrow> Pg_GetSetCatalogQuery catalog)"

definition MySQL_GetSetSchemaQuery :: "string \<Rightarrow> go_error + string" where
  "MySQL_GetSetSchemaQuery schema =
     Inl (NewGenericAwsWrapperError ''AwsWrapper.unsupportedMethodError'')"

definition Pg_GetSetSchemaQuery :: "string \<Rightarrow> go_error + string" where
  "Pg_GetSetSchemaQuery schema =
     (if Contains schema '' '' \<and> \<not> HasPrefix schema [CHR 0x22] \<and> \<not> HasSuffix schema [CHR 0x22]
      then Inr (''set search_path to '' @ [CHR 0x22] @ schema @ [CHR 0x22])
      else Inr (''set search_path to '' @ schema))"

definition GetSetSchemaQuery :: "DatabaseDialect \<Rightarrow> string \<Rightarrow> go_error + string" where
  "GetSetSchemaQuery d schema = (case engine d of MYSQL \<Rightarrow> MySQL_GetSetSchemaQuery schema | PG \<Rightarrow> Pg_GetSetSchemaQuery schema)"

definition isolation_name :: "TransactionIsolationLevel \<Rightarrow> go_error + string" where
  "isolation_name level =
     (if level = TRANSACTION_READ_UNCOMMITTED then Inr ''READ UNCOMMITTED''
      else if level = TRANSACTION_READ_COMMITTED then Inr ''READ COMMITTED''
      else if level = TRANSACTION_REPEATABLE_READ then Inr ''REPEATABLE READ''
      else if level = TRANSACTION_SERIALIZABLE then Inr ''SERIALIZABLE''
      else Inl (NewGenericAwsWrapperError ''DatabaseDialect.invalidTransactionIsolationLevel''))"

definition MySQL_GetSetTransactionIsolationQuery :: "TransactionIsolationLevel \<Rightarrow> go_error + string" where
  "MySQL_GetSetTransactionIsolationQuery level =
     bindR (isolation_name level) (\<lambda>levelStr.
       Inr (''set session transaction isolation level '' @ levelStr))"

definition Pg_GetSetTransactionIsolationQuery :: "TransactionIsolationLevel \<Rightarrow> go_error + string" where
  "Pg_GetSetTransactionIsolationQuery level =
     bindR (isolation_name level) (\<lambda>levelStr.
       Inr (''set session characteristics as transaction isolation level '' @ levelStr))"

definition GetSetTransactionIsolationQuery :: "DatabaseDialect \<Rightarrow> TransactionIsolationLevel \<Rightarrow> go_error + string" where
  "GetSetTransactionIsolationQuery d level = (case engine d of MYSQL \<Rightarrow> MySQL_GetSetTransactionIsolationQuery level | PG \<Rightarrow> Pg_GetSetTransactionIsolationQuery level)"

text \<open>The recognising functions return a value and whether the statement sets it.\<close>

definition MySQL_DoesStatementSetAutoCommit :: "string \<Rightarrow> bool \<times> bool" where
  "MySQL_DoesStatementSetAutoCommit statement =
     (let lowercaseStatement = ToLower statement
      in if HasPrefix lowercaseStatement ''set autocommit''
         then let sections = Split lowercaseStatement (CHR ''='')
              in if length sections < 2 then (False, False)
                 else (case ParseBool (TrimSpace (sections ! 1)) of
                         None \<Rightarrow> (False, False)
                       | Some result \<Rightarrow> (result, True))
         else (False, False))"

definition Pg_DoesStatementSetAutoCommit :: "string \<Rightarrow> bool \<times> bool" where
  "Pg_DoesStatementSetAutoCommit statement =
     (False, False)"

definition DoesStatementSetAutoCommit :: "DatabaseDialect \<Rightarrow> string \<Rightarrow> bool \<times> bool" where
  "DoesStatementSetAutoCommit d statement = (case engine d of MYSQL \<Rightarrow> MySQL_DoesStatementSetAutoCommit statement | PG \<Rightarrow> Pg_DoesStatementSetAutoCommit statement)"

definition MySQL_DoesStatementSetReadOnly :: "string \<Rightarrow> bool \<times> bool" where
  "MySQL_DoesStatementSetReadOnly statement =
     (let l = ToLower statement
      in if HasPrefix l ''set session transaction read only'' then (True, True)
         else if HasPrefix l ''set session transaction read write'' then (False, True)
         else (False, False))"

definition Pg_DoesStatementSetReadOnly :: "string \<Rightarrow> bool \<times> bool" where
  "Pg_DoesStatementSetReadOnly statement =
     (let l = ToLower statement
      in if HasPrefix l ''set session characteristics as transaction read only'' then (True, True)
         else if HasPrefix l ''set session characteristics as transaction read write'' then (False, True)
         else (False, False))"

definition DoesStatementSetReadOnly :: "DatabaseDialect \<Rightarrow> string \<Rightarrow> bool \<times> bool" where
  "DoesStatementSetReadOnly d statement = (case engine d of MYSQL \<Rightarrow> MySQL_DoesStatementSetReadOnly statement | PG \<Rightarrow> Pg_DoesStatementSetReadOnly statement)"

text \<open>\<open>^(?i)use\s+(\w+)\<close>\<close>

definition use_re :: regexp where
  "use_re = RSeqs [RBegin, RStrI ''use'', RPlus (RSet is_re_space), RGroup ''1'' (RPlus (RSet is_word))]"

definition MySQL_DoesStatementSetCatalog :: "string \<Rightarrow> string \<times> bool" where
  "MySQL_DoesStatementSetCatalog statement =
     (case FindStringSubmatch use_re statement of
        None \<Rightarrow> ('''', False)
      | Some matches \<Rightarrow> (group_val matches ''1'', True))"

definition Pg_DoesStatementSetCatalog :: "string \<Rightarrow> string \<times> bool" where
  "Pg_DoesStatementSetCatalog statement =
     ('''', False)"

definition DoesStatementSetCatalog :: "DatabaseDialect \<Rightarrow> string \<Rightarrow> string \<times> bool" where
  "DoesStatementSetCatalog d statement = (case engine d of MYSQL \<Rightarrow> MySQL_DoesStatementSetCatalog statement | PG \<Rightarrow> Pg_DoesStatementSetCatalog statement)"

text \<open>\<open>(?i)set search_path( to |\s?=\s?)("?.+"?)\<close>\<close>

definition search_path_re :: regexp where
  "search_path_re =
     RSeqs [RStrI ''set search_path'',
            RGroup ''1'' (RAlt (RStrI '' to '') (RSeqs [ROpt (RSet is_re_space), RChr (CHR ''=''), ROpt (RSet is_re_space)])),
            RGroup ''2'' (RSeqs [ROpt (RChr (CHR 0x22)), RPlus RAny, ROpt (RChr (CHR 0x22))])]"

text \<open>The indexing and slicing of the trimmed schema panic when it is too short.\<close>

definition unquote :: "string \<Rightarrow> go_error + string" where
  "unquote schema =
     (if schema = [] then Inl (Panic ''index out of range'')
      else if hd schema = CHR 0x22 \<and> last schema = CHR 0x22
      then (if length schema < 2 then Inl (Panic ''slice bounds out of range'') else Inr (butlast (tl schema)))
      else Inr schema)"

definition MySQL_DoesStatementSetSchema :: "string \<Rightarrow> go_error + string \<times> bool" where
  "MySQL_DoesStatementSetSchema statement =
     Inr ('''', False)"

definition Pg_DoesStatementSetSchema :: "string \<Rightarrow> go_error + string \<times> bool" where
  "Pg_DoesStatementSetSchema statement =
     (case FindStringSubmatch search_path_re statement of
        None \<Rightarrow> Inr ('''', False)
      | Some matches \<Rightarrow> bindR (unquote (TrimSpace (group_val matches ''2''))) (\<lambda>schema. Inr (schema, True)))"

definition DoesStatementSetSchema :: "DatabaseDialect \<Rightarrow> string \<Rightarrow> go_error + string \<times> bool" where
  "DoesStatementSetSchema d statement = (case engine d of MYSQL \<Rightarrow> MySQL_DoesStatementSetSchema statement | PG \<Rightarrow> Pg_DoesStatementSetSchema statement)"

definition MySQL_DoesStatementSetTransactionIsolation :: "string \<Rightarrow> TransactionIsolationLevel \<times> bool" where
  "MySQL_DoesStatementSetTransactionIsolation statement =
     (let l = ToLower statement
      in if Contains l ''set session transaction isolation level read uncommitted'' then (TRANSACTION_READ_UNCOMMITTED, True)
         else if Contains l ''set session transaction isolation level read committed'' then (TRANSACTION_READ_COMMITTED, True)
         else if Contains l ''set session transaction isolation level repeatable read'' then (TRANSACTION_REPEATABLE_READ, True)
         else if Contains l ''set session transaction isolation level serializable'' then (TRANSACTION_SERIALIZABLE, True)
         else (TRANSACTION_READ_UNCOMMITTED, False))"

definition Pg_DoesStatementSetTransactionIsolation :: "string \<Rightarrow> TransactionIsolationLevel \<times> bool" where
  "Pg_DoesStatementSetTransactionIsolation statement =
     (let l = ToLower statement
      in if Contains l ''set session characteristics as transaction isolation level read uncommitted'' then (TRANSACTION_READ_UNCOMMITTED, True)
         else if Contains l ''set session characteristics as transaction isolation level read committed'' then (TRANSACTION_READ_COMMITTED, True)
         else if Contains l ''set session characteristics as transaction isolation level repeatable read'' then (TRANSACTION_REPEATABLE_READ, True)
         else if Contains l ''set session characteristics as transaction isolation level serializable'' then (TRANSACTION_SERIALIZABLE, True)
         else (TRANSACTION_READ_UNCOMMITTED, False))"

definition DoesStatementSetTransactionIsolation :: "DatabaseDialect \<Rightarrow> string \<Rightarrow> TransactionIsolationLevel \<times> bool" where
  "DoesStatementSetTransactionIsolation d statement = (case engine d of MYSQL \<Rightarrow> MySQL_DoesStatementSetTransactionIsolation statement | PG \<Rightarrow> Pg_DoesStatementSetTransactionIsolation statement)"

section \<open>Recognising a database\<close>

text \<open>A value of \<open>driver.Value\<close> and a connection, which is what its queries return: nothing when it is
  not a \<open>QueryerContext\<close>, an error, or the rows.\<close>

datatype driver_value = VNil | VBool bool | VInt64 int | VUint64 nat | VBytes string | VString string | VOther

type_synonym db_conn = "string \<Rightarrow> (go_error + driver_value list list) option"

definition GetFirstRowFromQuery :: "db_conn \<Rightarrow> string \<Rightarrow> driver_value list option" where
  "GetFirstRowFromQuery conn query =
     (case conn query of Some (Inr (row # _)) \<Rightarrow> Some row | _ \<Rightarrow> None)"

fun value_as_string :: "driver_value \<Rightarrow> string" where
  "value_as_string (VBytes s) = s"
| "value_as_string (VUint64 n) = Itoa (int n)"
| "value_as_string (VString s) = s"
| "value_as_string _ = ''''"

definition GetFirstRowFromQueryAsString :: "db_conn \<Rightarrow> string \<Rightarrow> string list option" where
  "GetFirstRowFromQueryAsString conn query = map_option (map value_as_string) (GetFirstRowFromQuery conn query)"

fun ConvertDriverValueToString :: "driver_value \<Rightarrow> string option" where
  "ConvertDriverValueToString (VString s) = Some s"
| "ConvertDriverValueToString (VBytes s) = Some s"
| "ConvertDriverValueToString _ = None"

definition CheckExistenceQueries :: "db_conn \<Rightarrow> string list \<Rightarrow> bool" where
  "CheckExistenceQueries conn queries \<longleftrightarrow>
     list_all (\<lambda>query. case conn query of Some (Inr (_ # _)) \<Rightarrow> True | _ \<Rightarrow> False) queries"

definition row_has :: "driver_value list option \<Rightarrow> nat \<Rightarrow> driver_value \<Rightarrow> bool" where
  "row_has row i v \<longleftrightarrow> (case row of None \<Rightarrow> False | Some vs \<Rightarrow> i < length vs \<and> vs ! i = v)"

definition second_contains :: "string list option \<Rightarrow> string \<Rightarrow> bool" where
  "second_contains row w \<longleftrightarrow> (case row of None \<Rightarrow> False | Some vs \<Rightarrow> length vs > 1 \<and> Contains (vs ! 1) w)"

definition region_count_gt_1 :: "driver_value list option \<Rightarrow> bool" where
  "region_count_gt_1 row \<longleftrightarrow> (case row of Some (VInt64 n # _) \<Rightarrow> n > 1 | _ \<Rightarrow> False)"

definition pg_base_query :: string where
  "pg_base_query = ''SELECT 1 FROM pg_catalog.pg_proc LIMIT 1''"

definition pg_aurora_extension_query :: string where
  "pg_aurora_extension_query =
     ''SELECT (setting LIKE '%aurora_stat_utils%') AS aurora_stat_utils FROM pg_catalog.pg_settings WHERE name OPERATOR(pg_catalog.=) 'rds.extensions'' @ [CHR 0x27]"

definition pg_rds_extension_query :: string where
  "pg_rds_extension_query =
     ''SELECT (setting LIKE '%rds_tools%') AS rds_tools, (setting LIKE '%aurora_stat_utils%') AS aurora_stat_utils FROM pg_catalog.pg_settings '' @
     ''WHERE name OPERATOR(pg_catalog.=) 'rds.extensions'' @ [CHR 0x27]"

definition mysql_topology_table_query :: string where
  "mysql_topology_table_query =
     ''SELECT 1 AS tmp FROM information_schema.tables WHERE table_schema = 'mysql' AND table_name = 'rds_topology'' @ [CHR 0x27]"

definition mysql_global_table_query :: "string \<Rightarrow> string" where
  "mysql_global_table_query table =
     ''SELECT 1 AS tmp FROM information_schema.tables WHERE'' @
     '' upper(table_schema) = 'INFORMATION_SCHEMA' AND upper(table_name) = '' @ [CHR 0x27] @ table @ [CHR 0x27]"

definition Pg_IsDialect :: "db_conn \<Rightarrow> bool" where
  "Pg_IsDialect conn =
     CheckExistenceQueries conn [pg_base_query]"

definition MySQL_IsDialect :: "db_conn \<Rightarrow> bool" where
  "MySQL_IsDialect conn =
     second_contains (GetFirstRowFromQueryAsString conn (MySQL_GetServerVersionQuery)) ''MySQL''"

definition RdsMySQL_IsDialect :: "db_conn \<Rightarrow> bool" where
  "RdsMySQL_IsDialect conn =
     second_contains (GetFirstRowFromQueryAsString conn (MySQL_GetServerVersionQuery)) ''Source distribution''"

definition AuroraMySQL_IsDialect :: "db_conn \<Rightarrow> bool" where
  "AuroraMySQL_IsDialect conn =
     (GetFirstRowFromQueryAsString conn (''SHOW VARIABLES LIKE 'aurora_version'' @ [CHR 0x27]) \<noteq> None)"

definition GlobalAuroraMySQL_IsDialect :: "db_conn \<Rightarrow> bool" where
  "GlobalAuroraMySQL_IsDialect conn =
     (CheckExistenceQueries conn
        [mysql_global_table_query ''AURORA_GLOBAL_DB_STATUS'', mysql_global_table_query ''AURORA_GLOBAL_DB_INSTANCE_STATUS''] \<and>
      region_count_gt_1 (GetFirstRowFromQuery conn ''SELECT count(1) FROM information_schema.aurora_global_db_status''))"

definition RdsMultiAzClusterMySQL_IsDialect :: "db_conn \<Rightarrow> bool" where
  "RdsMultiAzClusterMySQL_IsDialect conn =
     (if GetFirstRowFromQueryAsString conn mysql_topology_table_query = None then False
      else if GetFirstRowFromQueryAsString conn ''SELECT id, endpoint, port FROM mysql.rds_topology'' = None then False
      else (case GetFirstRowFromQueryAsString conn (''SHOW VARIABLES LIKE 'report_host'' @ [CHR 0x27]) of
              None \<Rightarrow> False
            | Some row \<Rightarrow> length row > 1 \<and> row ! 1 \<noteq> ''''))"

definition RdsPg_IsDialect :: "db_conn \<Rightarrow> bool" where
  "RdsPg_IsDialect conn =
     (Pg_IsDialect conn \<and>
      (let hasExtensions = GetFirstRowFromQuery conn pg_rds_extension_query
       in row_has hasExtensions 0 (VBool True) \<and> row_has hasExtensions 1 (VBool False)))"

definition AuroraPg_IsDialect :: "db_conn \<Rightarrow> bool" where
  "AuroraPg_IsDialect conn =
     (Pg_IsDialect conn \<and>
      row_has (GetFirstRowFromQuery conn pg_aurora_extension_query) 0 (VBool True) \<and>
      GetFirstRowFromQuery conn ''SELECT 1 FROM pg_catalog.aurora_replica_status() LIMIT 1'' \<noteq> None)"

definition GlobalAuroraPg_IsDialect :: "db_conn \<Rightarrow> bool" where
  "GlobalAuroraPg_IsDialect conn =
     (Pg_IsDialect conn \<and>
      row_has (GetFirstRowFromQuery conn pg_aurora_extension_query) 0 (VBool True) \<and>
      CheckExistenceQueries conn
        [''SELECT 'aurora_global_db_status'::regproc'', ''SELECT 'aurora_global_db_instance_status'::regproc''] \<and>
      region_count_gt_1 (GetFirstRowFromQuery conn ''SELECT count(1) FROM aurora_global_db_status()''))"

definition RdsMultiAzClusterPg_IsDialect :: "db_conn \<Rightarrow> bool" where
  "RdsMultiAzClusterPg_IsDialect conn =
     (if GetFirstRowFromQueryAsString conn
           (''SELECT 1 AS tmp FROM information_schema.routines WHERE routine_schema OPERATOR(pg_catalog.=) 'rds_tools' '' @
            ''AND routine_name OPERATOR(pg_catalog.=) 'multi_az_db_cluster_source_dbi_resource_id'' @ [CHR 0x27]) = None then False
      else (case GetFirstRowFromQuery conn
                   ''SELECT multi_az_db_cluster_source_dbi_resource_id FROM rds_tools.multi_az_db_cluster_source_dbi_resource_id()'' of
              None \<Rightarrow> False
            | Some row \<Rightarrow> length row \<noteq> 0 \<and> row ! 0 \<noteq> VNil))"

fun IsDialect :: "DatabaseDialect \<Rightarrow> db_conn \<Rightarrow> bool" where
  "IsDialect MySQLDatabaseDialect = MySQL_IsDialect"
| "IsDialect RdsMySQLDatabaseDialect = RdsMySQL_IsDialect"
| "IsDialect AuroraMySQLDatabaseDialect = AuroraMySQL_IsDialect"
| "IsDialect GlobalAuroraMySQLDatabaseDialect = GlobalAuroraMySQL_IsDialect"
| "IsDialect RdsMultiAzClusterMySQLDatabaseDialect = RdsMultiAzClusterMySQL_IsDialect"
| "IsDialect PgDatabaseDialect = Pg_IsDialect"
| "IsDialect RdsPgDatabaseDialect = RdsPg_IsDialect"
| "IsDialect AuroraPgDatabaseDialect = AuroraPg_IsDialect"
| "IsDialect GlobalAuroraPgDatabaseDialect = GlobalAuroraPg_IsDialect"
| "IsDialect RdsMultiAzClusterPgDatabaseDialect = RdsMultiAzClusterPg_IsDialect"

lemmas engine_defs =
  MySQL_GetSetAutoCommitQuery_def Pg_GetSetAutoCommitQuery_def
  MySQL_GetSetReadOnlyQuery_def Pg_GetSetReadOnlyQuery_def
  MySQL_GetSetCatalogQuery_def Pg_GetSetCatalogQuery_def
  MySQL_GetSetSchemaQuery_def Pg_GetSetSchemaQuery_def
  MySQL_GetSetTransactionIsolationQuery_def Pg_GetSetTransactionIsolationQuery_def
  MySQL_DoesStatementSetCatalog_def Pg_DoesStatementSetCatalog_def
  MySQL_DoesStatementSetSchema_def Pg_DoesStatementSetSchema_def

lemma eval_autocommit:
  "DoesStatementSetAutoCommit MySQLDatabaseDialect ''set autocommit=true'' = (True, True)"
  "DoesStatementSetAutoCommit MySQLDatabaseDialect ''set autocommit=false'' = (False, True)"
  by code_simp+

lemma engine_MYSQL:
  assumes "engine d = MYSQL"
  shows "DoesStatementSetAutoCommit d = DoesStatementSetAutoCommit MySQLDatabaseDialect"
    "DoesStatementSetReadOnly d = DoesStatementSetReadOnly MySQLDatabaseDialect"
    "DoesStatementSetTransactionIsolation d = DoesStatementSetTransactionIsolation MySQLDatabaseDialect"
  by (rule ext, simp only: DoesStatementSetAutoCommit_def DoesStatementSetReadOnly_def
      DoesStatementSetTransactionIsolation_def assms engine.simps)+

lemma engine_PG:
  assumes "engine d = PG"
  shows "DoesStatementSetAutoCommit d = DoesStatementSetAutoCommit PgDatabaseDialect"
    "DoesStatementSetReadOnly d = DoesStatementSetReadOnly PgDatabaseDialect"
    "DoesStatementSetTransactionIsolation d = DoesStatementSetTransactionIsolation PgDatabaseDialect"
  by (rule ext, simp only: DoesStatementSetAutoCommit_def DoesStatementSetReadOnly_def
      DoesStatementSetTransactionIsolation_def assms engine.simps)+

lemma autocommit_roundtrip:
  "GetSetAutoCommitQuery d b = Inr q \<Longrightarrow> DoesStatementSetAutoCommit d q = (b, True)"
  by (cases "engine d"; cases b) (auto simp: GetSetAutoCommitQuery_def engine_defs engine_MYSQL [of d] engine_PG [of d] Let_def eval_autocommit show_bool_def)

lemma eval_readonly:
  "DoesStatementSetReadOnly MySQLDatabaseDialect ''set session transaction read only'' = (True, True)"
  "DoesStatementSetReadOnly MySQLDatabaseDialect ''set session transaction read write'' = (False, True)"
  "DoesStatementSetReadOnly PgDatabaseDialect ''set session characteristics as transaction read only'' = (True, True)"
  "DoesStatementSetReadOnly PgDatabaseDialect ''set session characteristics as transaction read write'' = (False, True)"
  by code_simp+

lemma readonly_roundtrip:
  "GetSetReadOnlyQuery d b = Inr q \<Longrightarrow> DoesStatementSetReadOnly d q = (b, True)"
  by (cases "engine d"; cases b) (auto simp: GetSetReadOnlyQuery_def engine_defs engine_MYSQL [of d] engine_PG [of d] Let_def eval_readonly)

lemma eval_isolation:
  "DoesStatementSetTransactionIsolation MySQLDatabaseDialect ''set session transaction isolation level READ UNCOMMITTED'' = (0, True)"
  "DoesStatementSetTransactionIsolation MySQLDatabaseDialect ''set session transaction isolation level READ COMMITTED'' = (1, True)"
  "DoesStatementSetTransactionIsolation MySQLDatabaseDialect ''set session transaction isolation level REPEATABLE READ'' = (2, True)"
  "DoesStatementSetTransactionIsolation MySQLDatabaseDialect ''set session transaction isolation level SERIALIZABLE'' = (3, True)"
  "DoesStatementSetTransactionIsolation PgDatabaseDialect ''set session characteristics as transaction isolation level READ UNCOMMITTED'' = (0, True)"
  "DoesStatementSetTransactionIsolation PgDatabaseDialect ''set session characteristics as transaction isolation level READ COMMITTED'' = (1, True)"
  "DoesStatementSetTransactionIsolation PgDatabaseDialect ''set session characteristics as transaction isolation level REPEATABLE READ'' = (2, True)"
  "DoesStatementSetTransactionIsolation PgDatabaseDialect ''set session characteristics as transaction isolation level SERIALIZABLE'' = (3, True)"
  by code_simp+

lemma isolation_roundtrip:
  "GetSetTransactionIsolationQuery d level = Inr q \<Longrightarrow> DoesStatementSetTransactionIsolation d q = (level, True)"
  by (cases "engine d") (auto simp: GetSetTransactionIsolationQuery_def engine_defs isolation_name_def isolation_levels engine_MYSQL [of d] engine_PG [of d] Let_def eval_isolation
      split: if_splits)

lemma use_match:
  assumes "catalog \<noteq> []" "list_all is_word catalog"
  shows "prefers use_re \<lparr>rpos = 0, rrest = ''use '' @ catalog, rcaps = []\<rparr>
    \<lparr>rpos = 4 + length catalog, rrest = [], rcaps = [(''1'', catalog)]\<rparr>"
proof -
  obtain c cs where c: "catalog = c # cs" "is_word c" using assms by (cases catalog) auto
  have nosp: "\<not> is_re_space c" using c(2) by (auto simp: is_re_space_def is_word_def is_alnum_def is_lower_def is_upper_def is_digit_def)
  let ?s0 = "\<lparr>rpos = 0, rrest = ''use '' @ catalog, rcaps = []\<rparr>"
  let ?s3 = "\<lparr>rpos = 3, rrest = CHR '' '' # catalog, rcaps = []\<rparr>"
  let ?s4 = "\<lparr>rpos = 4, rrest = catalog, rcaps = []\<rparr>"
  have "prefers (RStrI ''use'') ?s0 ?s3"
    by (simp add: prefers_def RStr_simps lower_char_def is_upper_def)
  moreover have "prefers (RPlus (RSet is_re_space)) ?s3 ?s4"
    using prefers_plus_span [of "'' ''" is_re_space catalog 3] c nosp by (simp add: is_re_space_def)
  moreover have "prefers (RGroup ''1'' (RPlus (RSet is_word))) ?s4
      \<lparr>rpos = 4 + length catalog, rrest = [], rcaps = [(''1'', catalog)]\<rparr>"
    using prefers_Group [OF prefers_plus_all [OF assms], of "''1''" 4 "[]"] by (simp add: capture_def)
  ultimately show ?thesis
    unfolding use_re_def by (auto intro!: prefers_Seq prefers_Begin)
qed

lemma catalog_roundtrip:
  assumes "catalog \<noteq> []" "list_all is_word catalog" "GetSetCatalogQuery d catalog = Inr q"
  shows "DoesStatementSetCatalog d q = (catalog, True)"
  using assms FindStringSubmatch_prefers [OF use_match [OF assms(1,2)]]
  by (auto simp: GetSetCatalogQuery_def engine_defs DoesStatementSetCatalog_def group_val_def split: DatabaseEngine.splits)

lemma search_path_match:
  assumes "body \<noteq> []" "CHR 0x0A \<notin> set body" "hd body = CHR 0x22 \<longrightarrow> length body > 1"
  shows "prefers search_path_re \<lparr>rpos = 0, rrest = ''set search_path to '' @ body, rcaps = []\<rparr>
    \<lparr>rpos = 19 + length body, rrest = [], rcaps = [(''2'', body), (''1'', '' to '')]\<rparr>"
proof -
  let ?s0 = "\<lparr>rpos = 0, rrest = ''set search_path to '' @ body, rcaps = []\<rparr>"
  let ?s1 = "\<lparr>rpos = 15, rrest = '' to '' @ body, rcaps = []\<rparr>"
  let ?s2 = "\<lparr>rpos = 19, rrest = body, rcaps = [(''1'', '' to '')]\<rparr>"
  let ?s4 = "\<lparr>rpos = 19 + length body, rrest = [], rcaps = [(''1'', '' to '')]\<rparr>"
  have 1: "prefers (RStrI ''set search_path'') ?s0 ?s1"
    by (simp add: prefers_def RStr_simps lower_char_def is_upper_def)
  have "prefers (RStrI '' to '') ?s1 \<lparr>rpos = 19, rrest = body, rcaps = []\<rparr>"
    by (simp add: prefers_def RStr_simps lower_char_def is_upper_def)
  from prefers_Group [OF prefers_Alt1 [OF this], of "''1''"]
  have 2: "prefers (RGroup ''1'' (RAlt (RStrI '' to '') b)) ?s1 ?s2" for b by (simp add: capture_def)
  have rest: "prefers (RPlus RAny) \<lparr>rpos = p, rrest = w, rcaps = caps\<rparr> \<lparr>rpos = p + length w, rrest = [], rcaps = caps\<rparr>"
    if "w \<noteq> []" "CHR 0x0A \<notin> set w" for p w caps
    unfolding RAny_def using that by (intro prefers_plus_all) (auto simp: list_all_iff)
  have 3: "prefers (RSeqs [ROpt (RChr (CHR 0x22)), RPlus RAny, ROpt (RChr (CHR 0x22))]) ?s2 ?s4"
  proof (cases "hd body = CHR 0x22")
    case True
    then obtain w where w: "body = CHR 0x22 # w" "w \<noteq> []" using assms by (cases body) auto
    have "prefers (ROpt (RChr (CHR 0x22))) ?s2 \<lparr>rpos = 20, rrest = w, rcaps = [(''1'', '' to '')]\<rparr>"
      using w by (simp add: prefers_def ROpt_def RChr_def)
    moreover have "prefers (RPlus RAny) \<lparr>rpos = 20, rrest = w, rcaps = [(''1'', '' to '')]\<rparr> ?s4"
      using rest [of w 20] w assms(2) by simp
    ultimately show ?thesis by (auto intro!: prefers_Seq prefers_Opt_none simp: RChr_def)
  next
    case False
    then have "prefers (ROpt (RChr (CHR 0x22))) ?s2 ?s2"
      using assms(1) by (intro prefers_Opt_none) (cases body, auto simp: RChr_def)
    then show ?thesis using rest [OF assms(1,2)] by (auto intro!: prefers_Seq prefers_Opt_none simp: RChr_def)
  qed
  from prefers_Group [OF this, of "''2''"] 1 2 show ?thesis
    unfolding search_path_re_def by (auto intro!: prefers_Seq simp: capture_def)
qed

definition plain_schema :: "string \<Rightarrow> bool" where
  "plain_schema s \<longleftrightarrow> s \<noteq> [] \<and> CHR 0x0A \<notin> set s \<and> CHR 0x22 \<notin> set s \<and> TrimSpace s = s"

lemma TrimSpace_quoted: "TrimSpace (CHR 0x22 # s @ [CHR 0x22]) = CHR 0x22 # s @ [CHR 0x22]"
  by (simp add: TrimSpace_def TrimLeftSpace_def is_space_def)

lemma search_path_recognised:
  assumes "engine d = PG" "body \<noteq> []" "CHR 0x0A \<notin> set body" "hd body = CHR 0x22 \<longrightarrow> length body > 1"
  shows "DoesStatementSetSchema d (''set search_path to '' @ body) = bindR (unquote (TrimSpace body)) (\<lambda>schema. Inr (schema, True))"
  using FindStringSubmatch_prefers [OF search_path_match [OF assms(2-4)]] assms(1)
  by (simp add: DoesStatementSetSchema_def engine_defs group_val_def)

lemma schema_roundtrip:
  assumes "plain_schema schema" "GetSetSchemaQuery d schema = Inr q"
  shows "DoesStatementSetSchema d q = Inr (schema, True)"
proof -
  have pg: "engine d = PG" using assms(2) by (cases "engine d") (auto simp: GetSetSchemaQuery_def engine_defs)
  have plain: "schema \<noteq> []" "CHR 0x0A \<notin> set schema" "CHR 0x22 \<notin> set schema" "TrimSpace schema = schema"
    using assms(1) by (auto simp: plain_schema_def)
  then have hd: "hd schema \<noteq> CHR 0x22" by (metis hd_in_set)
  let ?quoted = "CHR 0x22 # schema @ [CHR 0x22]"
  have "q = ''set search_path to '' @ ?quoted \<or> q = ''set search_path to '' @ schema"
    using assms(2) pg by (simp add: GetSetSchemaQuery_def engine_defs split: if_splits)
  moreover have "DoesStatementSetSchema d (''set search_path to '' @ ?quoted) = Inr (schema, True)"
    using search_path_recognised [OF pg, of ?quoted] plain by (simp add: TrimSpace_quoted unquote_def butlast_append)
  moreover have "DoesStatementSetSchema d (''set search_path to '' @ schema) = Inr (schema, True)"
    using search_path_recognised [OF pg plain(1,2)] plain hd by (simp add: unquote_def)
  ultimately show ?thesis by auto
qed

section \<open>The contract of a session setting\<close>

text \<open>A session setting has a query that sets it and a function that recognises a statement that does.
  What the transfer of session state relies on: the query it writes is recognised with the same value.\<close>

locale session_setting =
  fixes set_query :: "'v \<Rightarrow> go_error + string" and recognise :: "string \<Rightarrow> go_error + 'v \<times> bool" and ok :: "'v \<Rightarrow> bool"
  assumes recognise_query: "ok v \<Longrightarrow> set_query v = Inr q \<Longrightarrow> recognise q = Inr (v, True)"
begin

lemma query_inj: "ok v \<Longrightarrow> ok w \<Longrightarrow> set_query v = Inr q \<Longrightarrow> set_query w = Inr q \<Longrightarrow> v = w"
  using recognise_query by (metis prod.inject sum.inject(2))

end

interpretation autocommit: session_setting "GetSetAutoCommitQuery d" "\<lambda>s. Inr (DoesStatementSetAutoCommit d s)" "\<lambda>_. True" for d
  by unfold_locales (simp add: autocommit_roundtrip)

interpretation readonly: session_setting "GetSetReadOnlyQuery d" "\<lambda>s. Inr (DoesStatementSetReadOnly d s)" "\<lambda>_. True" for d
  by unfold_locales (simp add: readonly_roundtrip)

interpretation catalog: session_setting "GetSetCatalogQuery d" "\<lambda>s. Inr (DoesStatementSetCatalog d s)"
    "\<lambda>c. c \<noteq> [] \<and> list_all is_word c" for d
  by unfold_locales (simp add: catalog_roundtrip)

interpretation schema: session_setting "GetSetSchemaQuery d" "DoesStatementSetSchema d" plain_schema for d
  by unfold_locales (simp add: schema_roundtrip)

interpretation isolation: session_setting "GetSetTransactionIsolationQuery d"
    "\<lambda>s. Inr (DoesStatementSetTransactionIsolation d s)" "\<lambda>_. True" for d
  by unfold_locales (simp add: isolation_roundtrip)

section \<open>Properties\<close>

text \<open>C20: In every dialect, the statement that sets autocommit, read-only, the catalog, the schema or the
  isolation level is recognised by the same dialect as setting it to that value; for a catalog of letters, digits and
  underscores only (of any other, what is recognised ends where the word does, see \<open>catalog_cut_short\<close>), and for a
  schema without line feeds, double quotes and surrounding spaces.\<close>
theorem dialect_setting_roundtrip:
  "(GetSetAutoCommitQuery d b = Inr q1 \<longrightarrow> DoesStatementSetAutoCommit d q1 = (b, True)) \<and>
   (GetSetReadOnlyQuery d b = Inr q2 \<longrightarrow> DoesStatementSetReadOnly d q2 = (b, True)) \<and>
   (cat \<noteq> [] \<and> list_all is_word cat \<and> GetSetCatalogQuery d cat = Inr q3 \<longrightarrow> DoesStatementSetCatalog d q3 = (cat, True)) \<and>
   (plain_schema sch \<and> GetSetSchemaQuery d sch = Inr q4 \<longrightarrow> DoesStatementSetSchema d q4 = Inr (sch, True)) \<and>
   (GetSetTransactionIsolationQuery d level = Inr q5 \<longrightarrow> DoesStatementSetTransactionIsolation d q5 = (level, True))"
  using autocommit.recognise_query readonly.recognise_query catalog.recognise_query schema.recognise_query
    isolation.recognise_query by (metis sum.inject(2))

lemma catalog_cut_short:
  "GetSetCatalogQuery RdsMySQLDatabaseDialect ''my-db'' = Inr ''use my-db'' \<and>
   DoesStatementSetCatalog RdsMySQLDatabaseDialect ''use my-db'' = (''my'', True)"
  by code_simp

lemma dialect_setting_roundtrip_witness:
  "GetSetSchemaQuery AuroraPgDatabaseDialect ''my schema'' = Inr (''set search_path to '' @ [CHR 0x22] @ ''my schema'' @ [CHR 0x22]) \<and>
   DoesStatementSetSchema AuroraPgDatabaseDialect (''set search_path to '' @ [CHR 0x22] @ ''my schema'' @ [CHR 0x22]) = Inr (''my schema'', True) \<and>
   DoesStatementSetCatalog RdsMySQLDatabaseDialect ''use orders_2024'' = (''orders_2024'', True) \<and>
   DoesStatementSetTransactionIsolation PgDatabaseDialect
     ''set session characteristics as transaction isolation level SERIALIZABLE'' = (3, True)"
proof -
  have 1: "GetSetSchemaQuery AuroraPgDatabaseDialect ''my schema'' = Inr (''set search_path to '' @ [CHR 0x22] @ ''my schema'' @ [CHR 0x22])"
    by code_simp
  have 2: "plain_schema ''my schema''" by code_simp
  have 3: "GetSetCatalogQuery RdsMySQLDatabaseDialect ''orders_2024'' = Inr ''use orders_2024''" by code_simp
  have 4: "''orders_2024'' \<noteq> [] \<and> list_all is_word ''orders_2024''" by code_simp
  have 5: "GetSetTransactionIsolationQuery PgDatabaseDialect 3 =
    Inr ''set session characteristics as transaction isolation level SERIALIZABLE''" by code_simp
  note 6 = dialect_setting_roundtrip [THEN conjunct2, THEN conjunct2, THEN conjunct2]
  show ?thesis
    using 1 6 [THEN conjunct1, THEN mp, OF conjI [OF 2 1]] 6 [THEN conjunct2, THEN mp, OF 5]
      dialect_setting_roundtrip [THEN conjunct2, THEN conjunct2, THEN conjunct1, THEN mp, OF conjI [OF _ conjI, OF _ _ 3]] 4
    by blast
qed

text \<open>Recognising a PostgreSQL \<open>set search_path\<close> statement panics exactly when what follows is blank
  or a single double quote; \<open>set search_path to "\<close> is such a statement.\<close>
theorem DoesStatementSetSchema_panics:
  "(\<exists>e. DoesStatementSetSchema d s = Inl e) \<longleftrightarrow>
     engine d = PG \<and> (\<exists>m. FindStringSubmatch search_path_re s = Some m \<and> TrimSpace (group_val m ''2'') \<in> {[], [CHR 0x22]})"
proof -
  have unq: "(\<exists>e. unquote w = Inl e) \<longleftrightarrow> w \<in> {[], [CHR 0x22]}" for w
    by (cases w; cases "tl w") (auto simp: unquote_def)
  show ?thesis
    by (simp add: DoesStatementSetSchema_def engine_defs bindR_Inl_iff unq split: DatabaseEngine.splits option.splits)
qed

lemma search_path_panic_example:
  "DoesStatementSetSchema PgDatabaseDialect (''set search_path to '' @ [CHR 0x22]) = Inl (Panic ''slice bounds out of range'')"
  by code_simp

end
