(* ===== verification/Session_State.thy ===== *)
theory Session_State
  imports Sql_Dialects
begin

text \<open>
  The session state the driver keeps to carry it over to a new connection:
  \<open>driver_infrastructure/session_state.go\<close> (a field with its current and its pristine value),
  \<open>session_state_service.go\<close> (the service) and \<open>session_state_transfer_handling.go\<close> (the functions a
  user can install). Executing a query on the connection is the parameter \<open>exec\<close>, which gives the error
  of \<open>ExecQueryDirectly\<close>; the queries executed are returned in order.
\<close>

section \<open>Fields\<close>

record 'a SessionStateField =
  ssf_value :: "'a option"
  pristineValue :: "'a option"

definition empty_field :: "'a SessionStateField" where
  "empty_field = \<lparr>ssf_value = None, pristineValue = None\<rparr>"

definition SetValue :: "'a \<Rightarrow> 'a SessionStateField \<Rightarrow> 'a SessionStateField" where
  "SetValue v f = f\<lparr>ssf_value := Some v\<rparr>"

definition ResetValue :: "'a SessionStateField \<Rightarrow> 'a SessionStateField" where
  "ResetValue f = f\<lparr>ssf_value := None\<rparr>"

definition SetPristineValue :: "'a \<Rightarrow> 'a SessionStateField \<Rightarrow> 'a SessionStateField" where
  "SetPristineValue v f = f\<lparr>pristineValue := Some v\<rparr>"

definition ResetPristineValue :: "'a SessionStateField \<Rightarrow> 'a SessionStateField" where
  "ResetPristineValue f = f\<lparr>pristineValue := None\<rparr>"

definition Field_Reset :: "'a SessionStateField \<Rightarrow> 'a SessionStateField" where
  "Field_Reset f = ResetPristineValue (ResetValue f)"

definition CanRestorePristine :: "'a SessionStateField \<Rightarrow> bool" where
  "CanRestorePristine f =
     (case pristineValue f of
        None \<Rightarrow> False
      | Some p \<Rightarrow> (case ssf_value f of Some v \<Rightarrow> v \<noteq> p | None \<Rightarrow> True))"

record SessionState =
  AutoCommit :: "bool SessionStateField"
  ReadOnly :: "bool SessionStateField"
  Catalog :: "string SessionStateField"
  Schema :: "string SessionStateField"
  TransactionIsolation :: "TransactionIsolationLevel SessionStateField"

definition empty_state :: SessionState where
  "empty_state = \<lparr>AutoCommit = empty_field, ReadOnly = empty_field, Catalog = empty_field,
                  Schema = empty_field, TransactionIsolation = empty_field\<rparr>"

definition copy_value :: "'a SessionStateField \<Rightarrow> 'a SessionStateField" where
  "copy_value f = (case ssf_value f of None \<Rightarrow> empty_field | Some v \<Rightarrow> SetValue v empty_field)"

definition SessionState_Copy :: "SessionState \<Rightarrow> SessionState" where
  "SessionState_Copy s =
     \<lparr>AutoCommit = copy_value (AutoCommit s), ReadOnly = copy_value (ReadOnly s), Catalog = copy_value (Catalog s),
      Schema = copy_value (Schema s), TransactionIsolation = copy_value (TransactionIsolation s)\<rparr>"

section \<open>The service\<close>

text \<open>The two properties are read from \<open>props\<close> on each call; they do not change during a connection. The
  user's functions decide whether they handled a transfer or a reset.\<close>

record SessionStateService =
  session :: SessionState
  copySessionState :: "SessionState option"
  transferEnabled :: bool
  resetEnabled :: bool

definition NewSessionStateServiceImpl :: "bool \<Rightarrow> bool \<Rightarrow> SessionStateService" where
  "NewSessionStateServiceImpl transfer reset =
     \<lparr>session = empty_state, copySessionState = None, transferEnabled = transfer, resetEnabled = reset\<rparr>"

text \<open>The setters of the five fields have the same body, over the field they change.\<close>

definition set_field ::
  "(('a SessionStateField \<Rightarrow> 'a SessionStateField) \<Rightarrow> SessionState \<Rightarrow> SessionState)
     \<Rightarrow> 'a \<Rightarrow> SessionStateService \<Rightarrow> SessionStateService" where
  "set_field upd val sss =
     (if transferEnabled sss then sss\<lparr>session := upd (SetValue val) (session sss)\<rparr> else sss)"

definition SetAutoCommit :: "bool \<Rightarrow> SessionStateService \<Rightarrow> SessionStateService" where
  "SetAutoCommit = set_field AutoCommit_update"

definition SetReadOnly :: "bool \<Rightarrow> SessionStateService \<Rightarrow> SessionStateService" where
  "SetReadOnly = set_field ReadOnly_update"

definition SetCatalog :: "string \<Rightarrow> SessionStateService \<Rightarrow> SessionStateService" where
  "SetCatalog = set_field Catalog_update"

definition SetSchema :: "string \<Rightarrow> SessionStateService \<Rightarrow> SessionStateService" where
  "SetSchema = set_field Schema_update"

definition SetTransactionIsolation :: "TransactionIsolationLevel \<Rightarrow> SessionStateService \<Rightarrow> SessionStateService" where
  "SetTransactionIsolation = set_field TransactionIsolation_update"

definition setup_pristine :: "'a SessionStateField \<Rightarrow> 'a SessionStateField" where
  "setup_pristine f =
     (if pristineValue f \<noteq> None then f
      else (case ssf_value f of None \<Rightarrow> ResetPristineValue f | Some v \<Rightarrow> SetPristineValue v f))"

definition setup_pristine_with :: "'a \<Rightarrow> 'a SessionStateField \<Rightarrow> 'a SessionStateField" where
  "setup_pristine_with val f = (if pristineValue f \<noteq> None then f else SetPristineValue val f)"

definition when_transfer :: "(SessionState \<Rightarrow> SessionState) \<Rightarrow> SessionStateService \<Rightarrow> SessionStateService" where
  "when_transfer g sss = (if transferEnabled sss then sss\<lparr>session := g (session sss)\<rparr> else sss)"

definition SetupPristineAutoCommit :: "SessionStateService \<Rightarrow> SessionStateService" where
  "SetupPristineAutoCommit = when_transfer (AutoCommit_update setup_pristine)"

definition SetupPristineAutoCommitWithVal :: "bool \<Rightarrow> SessionStateService \<Rightarrow> SessionStateService" where
  "SetupPristineAutoCommitWithVal val = when_transfer (AutoCommit_update (setup_pristine_with val))"

definition SetupPristineReadOnly :: "SessionStateService \<Rightarrow> SessionStateService" where
  "SetupPristineReadOnly = when_transfer (ReadOnly_update setup_pristine)"

definition SetupPristineReadOnlyWithVal :: "bool \<Rightarrow> SessionStateService \<Rightarrow> SessionStateService" where
  "SetupPristineReadOnlyWithVal val = when_transfer (ReadOnly_update (setup_pristine_with val))"

definition SetupPristineCatalog :: "SessionStateService \<Rightarrow> SessionStateService" where
  "SetupPristineCatalog = when_transfer (Catalog_update setup_pristine)"

definition SetupPristineCatalogWithVal :: "string \<Rightarrow> SessionStateService \<Rightarrow> SessionStateService" where
  "SetupPristineCatalogWithVal val = when_transfer (Catalog_update (setup_pristine_with val))"

definition SetupPristineSchema :: "SessionStateService \<Rightarrow> SessionStateService" where
  "SetupPristineSchema = when_transfer (Schema_update setup_pristine)"

definition SetupPristineSchemaWithVal :: "string \<Rightarrow> SessionStateService \<Rightarrow> SessionStateService" where
  "SetupPristineSchemaWithVal val = when_transfer (Schema_update (setup_pristine_with val))"

definition SetupPristineTransactionIsolation :: "SessionStateService \<Rightarrow> SessionStateService" where
  "SetupPristineTransactionIsolation = when_transfer (TransactionIsolation_update setup_pristine)"

definition SetupPristineTransactionIsolationWithVal ::
  "TransactionIsolationLevel \<Rightarrow> SessionStateService \<Rightarrow> SessionStateService" where
  "SetupPristineTransactionIsolationWithVal val = when_transfer (TransactionIsolation_update (setup_pristine_with val))"

section \<open>Applying the state to a connection\<close>

text \<open>A step writes a query and executes it; the queries executed so far are kept when it fails.\<close>

type_synonym exec = "string \<Rightarrow> go_error option"

definition exec_query :: "exec \<Rightarrow> go_error + string \<Rightarrow> string list \<times> go_error option" where
  "exec_query exec query =
     (case query of
        Inl err \<Rightarrow> ([], Some err)
      | Inr q \<Rightarrow> ([q], exec q))"

text \<open>One field of \<open>ApplyCurrentSessionState\<close>: its pristine value is set up anew from its value and the
  value is written to the connection.\<close>

definition apply_field ::
  "exec \<Rightarrow> ('a \<Rightarrow> go_error + string) \<Rightarrow> 'a SessionStateField \<Rightarrow> 'a SessionStateField \<times> string list \<times> go_error option" where
  "apply_field exec getQuery f =
     (case ssf_value f of
        None \<Rightarrow> (f, [], None)
      | Some v \<Rightarrow> (setup_pristine (ResetPristineValue f), exec_query exec (getQuery v)))"

definition ApplyCurrentSessionState ::
  "DatabaseDialect \<Rightarrow> (SessionState \<Rightarrow> bool) option \<Rightarrow> exec \<Rightarrow> SessionStateService
     \<Rightarrow> SessionStateService \<times> string list \<times> go_error option" where
  "ApplyCurrentSessionState d transferFunc exec sss =
     (if \<not> transferEnabled sss then (sss, [], None)
      else if (case transferFunc of None \<Rightarrow> False | Some handles \<Rightarrow> handles (session sss)) then (sss, [], None)
      else
       (let s0 = session sss;
            (f1, q1, e1) = apply_field exec (GetSetAutoCommitQuery d) (AutoCommit s0);
            s1 = s0\<lparr>AutoCommit := f1\<rparr>
        in if e1 \<noteq> None then (sss\<lparr>session := s1\<rparr>, q1, e1) else
       (let (f2, q2, e2) = apply_field exec (GetSetReadOnlyQuery d) (ReadOnly s1);
            s2 = s1\<lparr>ReadOnly := f2\<rparr>
        in if e2 \<noteq> None then (sss\<lparr>session := s2\<rparr>, q1 @ q2, e2) else
       (let (f3, q3, e3) = apply_field exec (GetSetCatalogQuery d) (Catalog s2);
            s3 = s2\<lparr>Catalog := f3\<rparr>
        in if e3 \<noteq> None then (sss\<lparr>session := s3\<rparr>, q1 @ q2 @ q3, e3) else
       (let (f4, q4, e4) = apply_field exec (GetSetSchemaQuery d) (Schema s3);
            s4 = s3\<lparr>Schema := f4\<rparr>
        in if e4 \<noteq> None then (sss\<lparr>session := s4\<rparr>, q1 @ q2 @ q3 @ q4, e4) else
       (let (f5, q5, e5) = apply_field exec (GetSetTransactionIsolationQuery d) (TransactionIsolation s4);
            s5 = s4\<lparr>TransactionIsolation := f5\<rparr>
        in (sss\<lparr>session := s5\<rparr>, q1 @ q2 @ q3 @ q4 @ q5, e5)))))))"

text \<open>One field of \<open>ApplyPristineSessionState\<close>.\<close>

definition restore_field :: "exec \<Rightarrow> ('a \<Rightarrow> go_error + string) \<Rightarrow> 'a SessionStateField \<Rightarrow> string list \<times> go_error option" where
  "restore_field exec getQuery f =
     (if CanRestorePristine f
      then (case pristineValue f of None \<Rightarrow> ([], None) | Some p \<Rightarrow> exec_query exec (getQuery p))
      else ([], None))"

fun run_until_error :: "(string list \<times> go_error option) list \<Rightarrow> string list \<times> go_error option" where
  "run_until_error [] = ([], None)"
| "run_until_error ((qs, e) # rest) =
     (if e \<noteq> None then (qs, e) else (let (qs', e') = run_until_error rest in (qs @ qs', e')))"

definition ApplyPristineSessionState ::
  "DatabaseDialect \<Rightarrow> (SessionState \<Rightarrow> bool) option \<Rightarrow> exec \<Rightarrow> SessionStateService \<Rightarrow> string list \<times> go_error option" where
  "ApplyPristineSessionState d resetFunc exec sss =
     (if \<not> resetEnabled sss then ([], None)
      else if (case resetFunc of None \<Rightarrow> False | Some handles \<Rightarrow> handles (session sss)) then ([], None)
      else (case copySessionState sss of
              None \<Rightarrow> ([], None)
            | Some c \<Rightarrow>
                run_until_error
                  [restore_field exec (GetSetAutoCommitQuery d) (AutoCommit c),
                   restore_field exec (GetSetReadOnlyQuery d) (ReadOnly c),
                   restore_field exec (GetSetCatalogQuery d) (Catalog c),
                   restore_field exec (GetSetSchemaQuery d) (Schema c),
                   restore_field exec (GetSetTransactionIsolationQuery d) (TransactionIsolation c)]))"

definition SessionState_Begin :: "SessionStateService \<Rightarrow> SessionStateService \<times> go_error option" where
  "SessionState_Begin sss =
     (if \<not> transferEnabled sss \<and> \<not> resetEnabled sss then (sss, None)
      else if copySessionState sss \<noteq> None
      then (sss, Some (NewGenericAwsWrapperError ''SessionStateService.transferIncomplete''))
      else (sss\<lparr>copySessionState := Some (SessionState_Copy (session sss))\<rparr>, None))"

definition SessionState_Complete :: "SessionStateService \<Rightarrow> SessionStateService" where
  "SessionState_Complete sss = sss\<lparr>copySessionState := None\<rparr>"

definition SessionState_Reset :: "SessionStateService \<Rightarrow> SessionStateService" where
  "SessionState_Reset sss =
     sss\<lparr>session :=
        \<lparr>AutoCommit = Field_Reset (AutoCommit (session sss)), ReadOnly = Field_Reset (ReadOnly (session sss)),
         Catalog = Field_Reset (Catalog (session sss)), Schema = Field_Reset (Schema (session sss)),
         TransactionIsolation = Field_Reset (TransactionIsolation (session sss))\<rparr>\<rparr>"

section \<open>What a transfer executes\<close>

text \<open>The queries a session state stands for, in the order of its fields, and their execution up to the
  first error.\<close>

definition field_query :: "('a \<Rightarrow> go_error + string) \<Rightarrow> 'a SessionStateField \<Rightarrow> (go_error + string) list" where
  "field_query getQuery f = (case ssf_value f of None \<Rightarrow> [] | Some v \<Rightarrow> [getQuery v])"

definition state_queries :: "DatabaseDialect \<Rightarrow> SessionState \<Rightarrow> (go_error + string) list" where
  "state_queries d s =
     field_query (GetSetAutoCommitQuery d) (AutoCommit s) @ field_query (GetSetReadOnlyQuery d) (ReadOnly s) @
     field_query (GetSetCatalogQuery d) (Catalog s) @ field_query (GetSetSchemaQuery d) (Schema s) @
     field_query (GetSetTransactionIsolationQuery d) (TransactionIsolation s)"

fun run_queries :: "exec \<Rightarrow> (go_error + string) list \<Rightarrow> string list \<times> go_error option" where
  "run_queries exec [] = ([], None)"
| "run_queries exec (q # qs) =
     (let (done, e) = exec_query exec q
      in if e \<noteq> None then (done, e) else (let (done', e') = run_queries exec qs in (done @ done', e')))"

lemma run_queries_append:
  "run_queries exec (a @ b) =
     (let (q, e) = run_queries exec a in if e \<noteq> None then (q, e) else (let (q', e') = run_queries exec b in (q @ q', e')))"
  by (induction a) (auto split: prod.splits)

lemma apply_field_run:
  "apply_field exec g f = (f', q, e) \<Longrightarrow> run_queries exec (field_query g f) = (q, e)"
  by (auto simp: apply_field_def field_query_def split: option.splits prod.splits)

text \<open>The field after it was applied: the value is kept and is the new pristine value.\<close>

definition applied :: "'a SessionStateField \<Rightarrow> 'a SessionStateField" where
  "applied f = (case ssf_value f of None \<Rightarrow> f | Some v \<Rightarrow> \<lparr>ssf_value = Some v, pristineValue = Some v\<rparr>)"

lemma apply_field_applied: "fst (apply_field exec g f) = applied f"
  by (auto simp: apply_field_def applied_def setup_pristine_def ResetPristineValue_def SetPristineValue_def
      split: option.splits)

lemma applied_value [simp]: "ssf_value (applied f) = ssf_value f"
  by (simp add: applied_def split: option.splits)

definition same_values :: "SessionState \<Rightarrow> SessionState \<Rightarrow> bool" where
  "same_values s t \<longleftrightarrow>
     ssf_value (AutoCommit s) = ssf_value (AutoCommit t) \<and> ssf_value (ReadOnly s) = ssf_value (ReadOnly t) \<and>
     ssf_value (Catalog s) = ssf_value (Catalog t) \<and> ssf_value (Schema s) = ssf_value (Schema t) \<and>
     ssf_value (TransactionIsolation s) = ssf_value (TransactionIsolation t)"

lemma ApplyCurrent_cases:
  assumes "transferEnabled sss" "transferFunc = None"
  shows "\<exists>s'. ApplyCurrentSessionState d transferFunc exec sss = (sss\<lparr>session := s'\<rparr>, run_queries exec (state_queries d (session sss))) \<and>
    same_values s' (session sss)"
proof -
  let ?s = "session sss"
  obtain f1 q1 e1 where 1: "apply_field exec (GetSetAutoCommitQuery d) (AutoCommit ?s) = (f1, q1, e1)" by (metis prod_cases3)
  obtain f2 q2 e2 where 2: "apply_field exec (GetSetReadOnlyQuery d) (ReadOnly ?s) = (f2, q2, e2)" by (metis prod_cases3)
  obtain f3 q3 e3 where 3: "apply_field exec (GetSetCatalogQuery d) (Catalog ?s) = (f3, q3, e3)" by (metis prod_cases3)
  obtain f4 q4 e4 where 4: "apply_field exec (GetSetSchemaQuery d) (Schema ?s) = (f4, q4, e4)" by (metis prod_cases3)
  obtain f5 q5 e5 where 5: "apply_field exec (GetSetTransactionIsolationQuery d) (TransactionIsolation ?s) = (f5, q5, e5)"
    by (metis prod_cases3)
  note runs = apply_field_run [OF 1] apply_field_run [OF 2] apply_field_run [OF 3] apply_field_run [OF 4] apply_field_run [OF 5]
  have fs: "f1 = applied (AutoCommit ?s)" "f2 = applied (ReadOnly ?s)" "f3 = applied (Catalog ?s)" "f4 = applied (Schema ?s)"
    "f5 = applied (TransactionIsolation ?s)"
    using apply_field_applied 1 2 3 4 5 by (metis fst_conv)+
  have run: "run_queries exec (state_queries d ?s) =
      (if e1 \<noteq> None then (q1, e1) else if e2 \<noteq> None then (q1 @ q2, e2) else if e3 \<noteq> None then (q1 @ q2 @ q3, e3)
       else if e4 \<noteq> None then (q1 @ q2 @ q3 @ q4, e4) else (q1 @ q2 @ q3 @ q4 @ q5, e5))"
    by (simp add: state_queries_def run_queries_append runs)
  show ?thesis
    using assms by (auto simp: ApplyCurrentSessionState_def 1 2 3 4 5 run same_values_def fs Let_def)
qed

lemma copy_not_restorable: "restore_field exec g (copy_value f) = ([], None)"
  by (simp add: restore_field_def CanRestorePristine_def copy_value_def empty_field_def SetValue_def split: option.splits)

lemma ApplyPristine_copy:
  assumes "copySessionState sss = Some (SessionState_Copy s)"
  shows "ApplyPristineSessionState d resetFunc exec sss = ([], None)"
  using assms by (simp add: ApplyPristineSessionState_def SessionState_Copy_def copy_not_restorable)

section \<open>Properties\<close>

text \<open>C17: Applying the session state to a new connection executes exactly the queries of the fields that
  have a value, in the order autocommit, read-only, catalog, schema, isolation level, up to the first error
  (a query that fails or that the dialect does not support), and keeps every value.\<close>
theorem ApplyCurrentSessionState_replays:
  assumes "transferEnabled sss" and run: "ApplyCurrentSessionState d None exec sss = (sss', qs, e)"
  shows "(qs, e) = run_queries exec (state_queries d (session sss)) \<and> same_values (session sss') (session sss) \<and>
    copySessionState sss' = copySessionState sss"
  using ApplyCurrent_cases [OF assms(1) refl, of d exec] run by auto

lemma ApplyCurrentSessionState_replays_witness:
  "ApplyCurrentSessionState MySQLDatabaseDialect None (\<lambda>_. None)
     (SetReadOnly True (SetAutoCommit False (NewSessionStateServiceImpl True True))) =
   (let f = (\<lambda>v. \<lparr>ssf_value = Some v, pristineValue = Some v\<rparr>)
    in (NewSessionStateServiceImpl True True)\<lparr>session := empty_state\<lparr>AutoCommit := f False, ReadOnly := f True\<rparr>\<rparr>,
    [''set autocommit=false'', ''set session transaction read only''], None) \<and>
   (let sss = SetReadOnly True (SetAutoCommit False (NewSessionStateServiceImpl True True))
    in same_values (session (fst (ApplyCurrentSessionState MySQLDatabaseDialect None (\<lambda>_. None) sss))) (session sss))"
proof -
  let ?sss = "SetReadOnly True (SetAutoCommit False (NewSessionStateServiceImpl True True))"
  obtain sss' qs e where r: "ApplyCurrentSessionState MySQLDatabaseDialect None (\<lambda>_. None) ?sss = (sss', qs, e)"
    by (metis prod_cases3)
  have "transferEnabled ?sss" by (simp add: SetReadOnly_def SetAutoCommit_def set_field_def NewSessionStateServiceImpl_def)
  note ApplyCurrentSessionState_replays [OF this r]
  then have "same_values (session (fst (ApplyCurrentSessionState MySQLDatabaseDialect None (\<lambda>_. None) ?sss))) (session ?sss)"
    using r by simp
  moreover have "ApplyCurrentSessionState MySQLDatabaseDialect None (\<lambda>_. None) ?sss =
     (let f = (\<lambda>v. \<lparr>ssf_value = Some v, pristineValue = Some v\<rparr>)
      in (NewSessionStateServiceImpl True True)\<lparr>session := empty_state\<lparr>AutoCommit := f False, ReadOnly := f True\<rparr>\<rparr>,
      [''set autocommit=false'', ''set session transaction read only''], None)"
    by (simp add: ApplyCurrentSessionState_def SetReadOnly_def SetAutoCommit_def set_field_def NewSessionStateServiceImpl_def
        apply_field_def empty_state_def empty_field_def SetValue_def setup_pristine_def ResetPristineValue_def
        SetPristineValue_def exec_query_def GetSetAutoCommitQuery_def GetSetReadOnlyQuery_def engine_defs show_bool_def)
  ultimately show ?thesis by (simp add: Let_def)
qed

text \<open>The copy that \<open>Begin\<close> makes has no pristine values, so once a transfer has begun
  \<open>ApplyPristineSessionState\<close> executes no query whatever the state was and whatever was applied in
  between: the settings of the old connection are never restored before it is closed or goes back to a
  pool, although \<open>resetSessionStateOnClose\<close> is on.\<close>
theorem pristine_state_never_restored:
  assumes "SessionState_Begin sss = (sss1, None)"
    and "transferEnabled sss \<or> resetEnabled sss"
    and "ApplyCurrentSessionState d transferFunc exec1 sss1 = (sss2, qs, e)"
  shows "ApplyPristineSessionState d resetFunc exec2 sss2 = ([], None)"
proof -
  have c1: "copySessionState sss1 = Some (SessionState_Copy (session sss))"
    using assms(1,2) by (auto simp: SessionState_Begin_def split: if_splits)
  have "copySessionState sss2 = copySessionState sss1"
    using assms(3) by (auto simp: ApplyCurrentSessionState_def Let_def split: if_splits prod.splits)
  with c1 show ?thesis using ApplyPristine_copy by metis
qed

lemma pristine_state_never_restored_witness:
  "let sss = SetReadOnly True (SetupPristineReadOnlyWithVal False (NewSessionStateServiceImpl True True));
       (sss1, e1) = SessionState_Begin sss;
       (sss2, qs, e2) = ApplyCurrentSessionState PgDatabaseDialect None (\<lambda>_. None) sss1
   in CanRestorePristine (ReadOnly (session sss)) \<and> e1 = None \<and> e2 = None \<and>
      ApplyPristineSessionState PgDatabaseDialect None (\<lambda>_. None) sss2 = ([], None)"
proof -
  let ?sss = "SetReadOnly True (SetupPristineReadOnlyWithVal False (NewSessionStateServiceImpl True True))"
  obtain sss1 e1 where b: "SessionState_Begin ?sss = (sss1, e1)" by (metis surj_pair)
  have e1: "e1 = None" and c: "CanRestorePristine (ReadOnly (session ?sss))" and t: "transferEnabled ?sss"
    using b by (auto simp: SessionState_Begin_def SetReadOnly_def set_field_def SetupPristineReadOnlyWithVal_def when_transfer_def
      NewSessionStateServiceImpl_def CanRestorePristine_def setup_pristine_with_def empty_state_def empty_field_def
      SetValue_def SetPristineValue_def)
  obtain sss2 qs e2 where a: "ApplyCurrentSessionState PgDatabaseDialect None (\<lambda>_. None) sss1 = (sss2, qs, e2)"
    by (metis prod_cases3)
  have e2: "e2 = None"
    using a b by (auto simp: SessionState_Begin_def SetReadOnly_def set_field_def SetupPristineReadOnlyWithVal_def when_transfer_def
      NewSessionStateServiceImpl_def setup_pristine_with_def empty_state_def empty_field_def ApplyCurrentSessionState_def
      SetValue_def SetPristineValue_def apply_field_def exec_query_def GetSetReadOnlyQuery_def engine_defs Let_def)
  from pristine_state_never_restored [OF _ _ a, of ?sss] b e1 e2 c t a show ?thesis by (simp add: Let_def)
qed

end
