(* ===== verification/Rds_Utils.thy ===== *)
theory Rds_Utils
  imports Go_Regexp
begin

text \<open>
  Classification of endpoints: \<open>utils/rds_utils.go\<close> and \<open>utils/rds_url_type.go\<close>. The patterns are
  the ones of the source, written with the constructors of \<open>Go_Regexp\<close>. The two \<open>sync.Map\<close> caches and
  the function installed by \<open>SetPreparedHostFunc\<close> are the package's state.
\<close>

section \<open>Patterns\<close>

definition dot_re :: regexp where
  "dot_re = RChr (CHR ''.'')"

definition alnum_re :: regexp where
  "alnum_re = RPlus (RSet is_alnum)"

definition region_re :: regexp where
  "region_re = RGroup ''region'' (RPlus (RSet (\<lambda>c. is_alnum c \<or> c = CHR ''-'')))"

definition instance_re :: regexp where
  "instance_re = RGroup ''instance'' (RPlus RAny)"

definition dns_re :: regexp where
  "dns_re = ROpt (RGroup ''dns'' (RAlts
     [RStrI ''proxy-'', RStrI ''cluster-'', RStrI ''cluster-ro-'', RStrI ''cluster-custom-'', RStrI ''shardgrp-'']))"

definition rds_re :: "string \<Rightarrow> regexp" where
  "rds_re g = RGroup g (RAlts [RStrI ''rds'', RStrI ''rds-fips''])"

definition tld_re :: regexp where
  "tld_re = RGroup ''6'' (RAlts [RStrI ''com'', RStrI ''au'', RStrI ''eu'', RStrI ''uk''])"

definition AURORA_DNS_PATTERN :: regexp where
  "AURORA_DNS_PATTERN =
     RSeqs [RBegin, instance_re, dot_re, dns_re,
            RGroup ''domain'' (RSeqs [alnum_re, dot_re, region_re, dot_re, rds_re ''5'', RStrI ''.amazonaws.'',
              tld_re, ROpt dot_re]),
            REnd]"

definition AURORA_CHINA_DNS_PATTERN :: regexp where
  "AURORA_CHINA_DNS_PATTERN =
     RSeqs [RBegin, instance_re, dot_re, dns_re,
            RGroup ''domain'' (RSeqs [alnum_re, dot_re, rds_re ''4'', dot_re, region_re,
              RStrI ''.amazonaws.com.cn'', ROpt dot_re]),
            REnd]"

definition AURORA_OLD_CHINA_DNS_PATTERN :: regexp where
  "AURORA_OLD_CHINA_DNS_PATTERN =
     RSeqs [RBegin, instance_re, dot_re, dns_re,
            RGroup ''domain'' (RSeqs [alnum_re, dot_re, region_re, dot_re, rds_re ''5'',
              RStrI ''.amazonaws.com.cn'', ROpt dot_re]),
            REnd]"

definition AURORA_GOV_DNS_PATTERN :: regexp where
  "AURORA_GOV_DNS_PATTERN =
     RSeqs [RBegin, instance_re, dot_re, dns_re,
            RGroup ''domain'' (RSeqs [alnum_re, dot_re, rds_re ''4'', dot_re, region_re, dot_re,
              RGroup ''6'' (RAlts [RSeq (RStrI ''amazonaws.com'') (ROpt dot_re), RSeq (RStrI ''c2s.ic.gov'') (ROpt dot_re),
                                   RSeq (RStrI ''sc2s.sgov.gov'') (ROpt dot_re)])]),
            REnd]"

definition AURORA_GLOBAL_WRITER_DNS_PATTERN :: regexp where
  "AURORA_GLOBAL_WRITER_DNS_PATTERN =
     RSeqs [RBegin, instance_re, dot_re, ROpt (RGroup ''dns'' (RStrI ''global-'')),
            RGroup ''domain'' (RSeqs [alnum_re, RStrI ''.global.rds.amazonaws.com'', ROpt dot_re]),
            REnd]"

definition digit_range :: "char \<Rightarrow> char \<Rightarrow> regexp" where
  "digit_range a b = RSet (\<lambda>c. (of_char a :: nat) \<le> of_char c \<and> (of_char c :: nat) \<le> of_char b)"

text \<open>The octets: the first one does not start at 0.\<close>

definition octet_re :: "bool \<Rightarrow> regexp" where
  "octet_re first =
     RAlts [digit_range (if first then CHR ''1'' else CHR ''0'') (CHR ''9''),
            RSeq (digit_range (CHR ''1'') (CHR ''9'')) (digit_range (CHR ''0'') (CHR ''9'')),
            RSeq (RChr (CHR ''1'')) (RRepeat 2 (digit_range (CHR ''0'') (CHR ''9''))),
            RSeqs [RChr (CHR ''2''), digit_range (CHR ''0'') (CHR ''4''), digit_range (CHR ''0'') (CHR ''9'')],
            RSeq (RStr ''25'') (digit_range (CHR ''0'') (CHR ''5''))]"

definition IP_V4_REGEXP :: regexp where
  "IP_V4_REGEXP =
     RSeqs [RBegin, RGroup ''1'' (RSeq (RGroup ''2'' (octet_re True)) dot_re),
            RRepeat 2 (RGroup ''3'' (RSeq (RGroup ''4'' (octet_re False)) dot_re)),
            RGroup ''5'' (octet_re False), REnd]"

definition is_hex :: "char \<Rightarrow> bool" where
  "is_hex c \<longleftrightarrow> is_digit c \<or> c \<in> set ''abcdefABCDEF''"

definition hex_re :: regexp where
  "hex_re = RRange 1 3 (RSet is_hex)"

definition IP_V6_REGEXP :: regexp where
  "IP_V6_REGEXP = RSeqs [RBegin, hex_re, RRepeat 7 (RGroup ''1'' (RSeq (RChr (CHR '':'')) hex_re)), REnd]"

definition ipv6_part :: "string \<Rightarrow> string \<Rightarrow> string \<Rightarrow> regexp" where
  "ipv6_part g1 g2 g3 =
     RGroup g1 (ROpt (RGroup g2 (RSeq hex_re (RRange 0 5 (RGroup g3 (RSeq (RChr (CHR '':'')) hex_re))))))"

definition IP_V6_COMPRESSED_REGEXP :: regexp where
  "IP_V6_COMPRESSED_REGEXP = RSeqs [RBegin, ipv6_part ''1'' ''2'' ''3'', RStr ''::'', ipv6_part ''4'' ''5'' ''6'', REnd]"

definition is_green_hash :: "char \<Rightarrow> bool" where
  "is_green_hash c \<longleftrightarrow> is_alnum c"

definition BG_OLD_HOST_PATTERN :: regexp where
  "BG_OLD_HOST_PATTERN = RSeqs [RStar True RAny, RGroup ''prefix'' (RStrI ''-old1.''), RAny, RStar True RAny]"

definition BG_GREEN_HOSTID_PATTERN :: regexp where
  "BG_GREEN_HOSTID_PATTERN = RSeqs [RGroup ''1'' (RStar True RAny), RStrI ''-green-'', RRepeat 6 (RSet is_green_hash)]"

definition BG_GREEN_HOST_PATTERN :: regexp where
  "BG_GREEN_HOST_PATTERN =
     RSeqs [RStar True RAny, RGroup ''prefix'' (RSeq (RStrI ''-green-'') (RRepeat 6 (RSet is_green_hash))), RAny, RStar True RAny]"

datatype dns_pattern = P_AURORA | P_CHINA | P_OLD_CHINA | P_GOV | P_GLOBAL_WRITER

fun re_of :: "dns_pattern \<Rightarrow> regexp" where
  "re_of P_AURORA = AURORA_DNS_PATTERN"
| "re_of P_CHINA = AURORA_CHINA_DNS_PATTERN"
| "re_of P_OLD_CHINA = AURORA_OLD_CHINA_DNS_PATTERN"
| "re_of P_GOV = AURORA_GOV_DNS_PATTERN"
| "re_of P_GLOBAL_WRITER = AURORA_GLOBAL_WRITER_DNS_PATTERN"

definition dnsRegexpArray :: "dns_pattern list" where
  "dnsRegexpArray = [P_AURORA, P_CHINA, P_OLD_CHINA, P_GOV, P_GLOBAL_WRITER]"

record RdsUrlType =
  ut_id :: int
  IsRds :: bool
  IsRdsCluster :: bool
  HasRegion :: bool

definition OTHER :: RdsUrlType where "OTHER = \<lparr>ut_id = 0, IsRds = False, IsRdsCluster = False, HasRegion = False\<rparr>"
definition RDS_WRITER_CLUSTER :: RdsUrlType where "RDS_WRITER_CLUSTER = \<lparr>ut_id = 1, IsRds = True, IsRdsCluster = True, HasRegion = True\<rparr>"
definition RDS_READER_CLUSTER :: RdsUrlType where "RDS_READER_CLUSTER = \<lparr>ut_id = 2, IsRds = True, IsRdsCluster = True, HasRegion = True\<rparr>"
definition RDS_CUSTOM_CLUSTER :: RdsUrlType where "RDS_CUSTOM_CLUSTER = \<lparr>ut_id = 3, IsRds = True, IsRdsCluster = True, HasRegion = True\<rparr>"
definition RDS_PROXY :: RdsUrlType where "RDS_PROXY = \<lparr>ut_id = 4, IsRds = True, IsRdsCluster = False, HasRegion = True\<rparr>"
definition RDS_INSTANCE :: RdsUrlType where "RDS_INSTANCE = \<lparr>ut_id = 5, IsRds = True, IsRdsCluster = False, HasRegion = True\<rparr>"
definition RDS_AURORA_LIMITLESS_DB_SHARD_GROUP :: RdsUrlType where
  "RDS_AURORA_LIMITLESS_DB_SHARD_GROUP = \<lparr>ut_id = 6, IsRds = True, IsRdsCluster = False, HasRegion = True\<rparr>"
definition RDS_GLOBAL_WRITER_CLUSTER :: RdsUrlType where
  "RDS_GLOBAL_WRITER_CLUSTER = \<lparr>ut_id = 7, IsRds = True, IsRdsCluster = True, HasRegion = False\<rparr>"
definition IP_ADDRESS :: RdsUrlType where "IP_ADDRESS = \<lparr>ut_id = 8, IsRds = False, IsRdsCluster = False, HasRegion = False\<rparr>"

section \<open>State\<close>

record rds_state =
  cachedDnsRegexp :: "(string, dns_pattern) gomap"
  cachedDnsPatterns :: "(string, string) gomap"
  prepareHostFunc :: "(string \<Rightarrow> string) option"

type_synonym 'a rds = "rds_state \<Rightarrow> (go_error + 'a) \<times> rds_state"

definition ret :: "'a \<Rightarrow> 'a rds" where
  "ret a s = (Inr a, s)"

definition bindS :: "'a rds \<Rightarrow> ('a \<Rightarrow> 'b rds) \<Rightarrow> 'b rds" where
  "bindS m f s = (case m s of (Inl e, s') \<Rightarrow> (Inl e, s') | (Inr a, s') \<Rightarrow> f a s')"

definition lift :: "go_error + 'a \<Rightarrow> 'a rds" where
  "lift r s = (r, s)"

text \<open>\<open>LoadOrStore\<close> of a \<open>sync.Map\<close>: the value already stored, or the one given.\<close>

definition LoadOrStore :: "'k \<Rightarrow> 'v \<Rightarrow> ('k, 'v) gomap \<Rightarrow> ('k, 'v) gomap \<times> 'v" where
  "LoadOrStore k v m = (case map_of m k of Some w \<Rightarrow> (m, w) | None \<Rightarrow> (mput k v m, v))"

definition GetPreparedHost :: "string \<Rightarrow> string rds" where
  "GetPreparedHost host s =
     (case prepareHostFunc s of
        None \<Rightarrow> (Inr host, s)
      | Some f \<Rightarrow> (Inr (if f host = '''' then host else f host), s))"

definition SetPreparedHostFunc :: "(string \<Rightarrow> string) \<Rightarrow> rds_state \<Rightarrow> rds_state" where
  "SetPreparedHostFunc f s = s\<lparr>prepareHostFunc := Some f\<rparr>"

definition ResetPreparedHostFunc :: "rds_state \<Rightarrow> rds_state" where
  "ResetPreparedHostFunc s = s\<lparr>prepareHostFunc := None\<rparr>"

definition findAndCacheRegexp :: "string \<Rightarrow> dns_pattern option rds" where
  "findAndCacheRegexp host s =
     (case map_of (cachedDnsRegexp s) host of
        Some p \<Rightarrow> (Inr (Some p), s)
      | None \<Rightarrow>
          (case find (\<lambda>p. MatchString (re_of p) host) dnsRegexpArray of
             None \<Rightarrow> (Inr None, s)
           | Some p \<Rightarrow> (let (m, p') = LoadOrStore host p (cachedDnsRegexp s)
                        in (Inr (Some p'), s\<lparr>cachedDnsRegexp := m\<rparr>))))"

definition getDnsGroup :: "string \<Rightarrow> string rds" where
  "getDnsGroup host =
     (if host = '''' then ret ''''
      else (\<lambda>s. case map_of (cachedDnsPatterns s) host of
              Some g \<Rightarrow> (Inr g, s)
            | None \<Rightarrow>
                bindS (findAndCacheRegexp host) (\<lambda>r.
                  (case r of
                     None \<Rightarrow> ret ''''
                   | Some p \<Rightarrow> bindS (lift (submatch_at (re_of p) ''dns'' host)) (\<lambda>g s.
                       let (m, g') = LoadOrStore host g (cachedDnsPatterns s)
                       in (Inr g', s\<lparr>cachedDnsPatterns := m\<rparr>)))) s))"

definition getDomainGroup :: "string \<Rightarrow> string rds" where
  "getDomainGroup host =
     (if host = '''' then ret ''''
      else bindS (findAndCacheRegexp host) (\<lambda>r.
             (case r of None \<Rightarrow> ret '''' | Some p \<Rightarrow> lift (submatch_at (re_of p) ''domain'' host))))"

section \<open>Queries\<close>

definition IsIPv4 :: "string \<Rightarrow> bool" where
  "IsIPv4 host \<longleftrightarrow> host \<noteq> '''' \<and> MatchString IP_V4_REGEXP host"

definition IsIPV6 :: "string \<Rightarrow> bool" where
  "IsIPV6 host \<longleftrightarrow> host \<noteq> '''' \<and> (MatchString IP_V6_REGEXP host \<or> MatchString IP_V6_COMPRESSED_REGEXP host)"

definition IsIP :: "string \<Rightarrow> bool" where
  "IsIP host \<longleftrightarrow> IsIPv4 host \<or> IsIPV6 host"

text \<open>The predicates on the DNS group of a host.\<close>

definition dns_test :: "(string \<Rightarrow> bool) \<Rightarrow> string \<Rightarrow> bool rds" where
  "dns_test p host = bindS (GetPreparedHost host) (\<lambda>h. bindS (getDnsGroup h) (\<lambda>g. ret (p g)))"

definition IsRdsClusterDns :: "string \<Rightarrow> bool rds" where
  "IsRdsClusterDns = dns_test (\<lambda>g. EqualFold g ''cluster-'' \<or> EqualFold g ''cluster-ro-'')"

definition IsWriterClusterDns :: "string \<Rightarrow> bool rds" where
  "IsWriterClusterDns = dns_test (\<lambda>g. EqualFold g ''cluster-'')"

definition IsReaderClusterDns :: "string \<Rightarrow> bool rds" where
  "IsReaderClusterDns = dns_test (\<lambda>g. EqualFold g ''cluster-ro-'')"

definition IsRdsCustomClusterDns :: "string \<Rightarrow> bool rds" where
  "IsRdsCustomClusterDns = dns_test (\<lambda>g. EqualFold g ''cluster-custom-'')"

definition IsLimitlessDbShardGroupDns :: "string \<Rightarrow> bool rds" where
  "IsLimitlessDbShardGroupDns = dns_test (\<lambda>g. EqualFold g ''shardgrp-'')"

definition IsRdsProxyDns :: "string \<Rightarrow> bool rds" where
  "IsRdsProxyDns = dns_test (\<lambda>g. HasPrefix g ''proxy-'')"

definition IsGlobalDbWriterClusterDns :: "string \<Rightarrow> bool rds" where
  "IsGlobalDbWriterClusterDns host =
     bindS (GetPreparedHost host) (\<lambda>h. ret (h \<noteq> '''' \<and> MatchString AURORA_GLOBAL_WRITER_DNS_PATTERN h))"

definition IsRdsDns :: "string \<Rightarrow> bool rds" where
  "IsRdsDns host =
     (if host = '''' then ret False
      else bindS (GetPreparedHost host) (\<lambda>h.
             bindS (findAndCacheRegexp h) (\<lambda>r.
               (case r of
                  None \<Rightarrow> ret False
                | Some p \<Rightarrow> bindS (lift (submatch_at (re_of p) ''dns'' h)) (\<lambda>g s.
                    (Inr True, if g \<noteq> '''' then s\<lparr>cachedDnsPatterns := mput h g (cachedDnsPatterns s)\<rparr> else s))))))"

definition IsRdsInstance :: "string \<Rightarrow> bool rds" where
  "IsRdsInstance host =
     bindS (GetPreparedHost host) (\<lambda>h. bindS (getDnsGroup h) (\<lambda>g. if g = '''' then IsRdsDns h else ret False))"

fun first_type :: "((string \<Rightarrow> bool rds) \<times> RdsUrlType) list \<Rightarrow> string \<Rightarrow> RdsUrlType rds" where
  "first_type [] host = ret OTHER"
| "first_type ((test, t) # rest) host = bindS (test host) (\<lambda>b. if b then ret t else first_type rest host)"

definition IdentifyRdsUrlType :: "string \<Rightarrow> RdsUrlType rds" where
  "IdentifyRdsUrlType host =
     (if host = '''' then ret OTHER
      else if IsIPv4 host \<or> IsIPV6 host then ret IP_ADDRESS
      else first_type
             [(IsGlobalDbWriterClusterDns, RDS_GLOBAL_WRITER_CLUSTER), (IsWriterClusterDns, RDS_WRITER_CLUSTER),
              (IsReaderClusterDns, RDS_READER_CLUSTER), (IsRdsCustomClusterDns, RDS_CUSTOM_CLUSTER),
              (IsLimitlessDbShardGroupDns, RDS_AURORA_LIMITLESS_DB_SHARD_GROUP), (IsRdsProxyDns, RDS_PROXY),
              (IsRdsDns, RDS_INSTANCE)] host)"

definition IsGreenInstance :: "string \<Rightarrow> bool rds" where
  "IsGreenInstance host = bindS (GetPreparedHost host) (\<lambda>h. ret (h \<noteq> '''' \<and> MatchString BG_GREEN_HOST_PATTERN h))"

definition IsNotOldInstance :: "string \<Rightarrow> bool rds" where
  "IsNotOldInstance host = bindS (GetPreparedHost host) (\<lambda>h. ret (h = '''' \<or> \<not> MatchString BG_OLD_HOST_PATTERN h))"

definition IsNotGreenAndNotOldInstance :: "string \<Rightarrow> bool rds" where
  "IsNotGreenAndNotOldInstance host =
     bindS (GetPreparedHost host) (\<lambda>h.
       ret (h \<noteq> '''' \<and> \<not> MatchString BG_GREEN_HOST_PATTERN h \<and> \<not> MatchString BG_OLD_HOST_PATTERN h))"

definition RemoveGreenInstancePrefix :: "string \<Rightarrow> string rds" where
  "RemoveGreenInstancePrefix host =
     bindS (GetPreparedHost host) (\<lambda>h. ret
       (if h = '''' then host
        else (case FindStringSubmatch BG_GREEN_HOST_PATTERN h of
                Some m \<Rightarrow>
                  (let prefix = group_val m ''prefix''
                   in if prefix \<noteq> '''' then ReplaceFirst host (prefix @ ''.'') ''.'' else host)
              | None \<Rightarrow>
                  (case FindStringSubmatch BG_GREEN_HOSTID_PATTERN h of
                     Some m \<Rightarrow> group_val m ''1''
                   | None \<Rightarrow> host))))"

definition GetRdsRegion :: "string \<Rightarrow> string rds" where
  "GetRdsRegion host =
     bindS (GetPreparedHost host) (\<lambda>h.
       if h = '''' then ret ''''
       else bindS (findAndCacheRegexp h) (\<lambda>r.
              (case r of
                 None \<Rightarrow> ret ''''
               | Some p \<Rightarrow>
                   (case FindStringSubmatch (re_of p) h of
                      None \<Rightarrow> ret ''''
                    | Some m \<Rightarrow> ret (if ''region'' \<in> set (groups (re_of p)) then group_val m ''region'' else '''')))))"

definition GetRdsClusterId :: "string \<Rightarrow> string rds" where
  "GetRdsClusterId host =
     bindS (GetPreparedHost host) (\<lambda>h.
       if h = '''' then ret ''''
       else bindS (findAndCacheRegexp h) (\<lambda>r.
              (case r of
                 None \<Rightarrow> ret ''''
               | Some p \<Rightarrow>
                   bindS (lift (submatch_at (re_of p) ''region'' host)) (\<lambda>region.
                     if region \<noteq> '''' then lift (submatch_at (re_of p) ''instance'' host) else ret ''''))))"

definition GetRdsInstanceHostPattern :: "string \<Rightarrow> string rds" where
  "GetRdsInstanceHostPattern host =
     bindS (GetPreparedHost host) (\<lambda>h. bindS (getDomainGroup h) (\<lambda>group.
       ret (if group = '''' then ''?'' else ''?.'' @ group)))"

text \<open>The four patterns are tried in turn; each has the groups it is asked for.\<close>

fun cluster_url :: "dns_pattern list \<Rightarrow> string \<Rightarrow> string" where
  "cluster_url [] h = ''''"
| "cluster_url (p # ps) h =
     (case FindStringSubmatch (re_of p) h of
        Some m \<Rightarrow> group_val m ''instance'' @ ''.cluster-'' @ group_val m ''domain''
      | None \<Rightarrow> cluster_url ps h)"

definition GetRdsClusterHostUrl :: "string \<Rightarrow> string rds" where
  "GetRdsClusterHostUrl host =
     bindS (GetPreparedHost host) (\<lambda>h.
       ret (if h = '''' then '''' else cluster_url [P_AURORA, P_CHINA, P_OLD_CHINA, P_GOV] h))"

definition RemovePort :: "string \<Rightarrow> string" where
  "RemovePort hostAndPort =
     (if hostAndPort = '''' then ''''
      else (case Index hostAndPort '':'' of None \<Rightarrow> hostAndPort | Some i \<Rightarrow> take i hostAndPort))"

section \<open>The caches do not change answers\<close>

definition dns_pattern_of :: "string \<Rightarrow> dns_pattern option" where
  "dns_pattern_of host = find (\<lambda>p. MatchString (re_of p) host) dnsRegexpArray"

definition dns_group_of :: "string \<Rightarrow> string" where
  "dns_group_of host =
     (case dns_pattern_of host of
        None \<Rightarrow> ''''
      | Some p \<Rightarrow> (case FindStringSubmatch (re_of p) host of None \<Rightarrow> '''' | Some m \<Rightarrow> group_val m ''dns''))"

definition prepared :: "(string \<Rightarrow> string) option \<Rightarrow> string \<Rightarrow> string" where
  "prepared f host = (case f of None \<Rightarrow> host | Some g \<Rightarrow> if g host = '''' then host else g host)"

text \<open>What \<open>IdentifyRdsUrlType\<close> computes, without caches.\<close>

definition url_type_spec :: "(string \<Rightarrow> string) option \<Rightarrow> string \<Rightarrow> RdsUrlType" where
  "url_type_spec f host =
     (let h = prepared f host; g = dns_group_of h
      in if host = '''' then OTHER
         else if IsIP host then IP_ADDRESS
         else if MatchString AURORA_GLOBAL_WRITER_DNS_PATTERN h then RDS_GLOBAL_WRITER_CLUSTER
         else if EqualFold g ''cluster-'' then RDS_WRITER_CLUSTER
         else if EqualFold g ''cluster-ro-'' then RDS_READER_CLUSTER
         else if EqualFold g ''cluster-custom-'' then RDS_CUSTOM_CLUSTER
         else if EqualFold g ''shardgrp-'' then RDS_AURORA_LIMITLESS_DB_SHARD_GROUP
         else if HasPrefix g ''proxy-'' then RDS_PROXY
         else if dns_pattern_of h \<noteq> None then RDS_INSTANCE
         else OTHER)"

definition coherent :: "rds_state \<Rightarrow> bool" where
  "coherent s \<longleftrightarrow>
     (\<forall>h p. map_of (cachedDnsRegexp s) h = Some p \<longrightarrow> dns_pattern_of h = Some p) \<and>
     (\<forall>h g. map_of (cachedDnsPatterns s) h = Some g \<longrightarrow> dns_group_of h = g)"

text \<open>From coherent caches and a given host function, an operation returns \<open>v\<close> and keeps both.\<close>

definition computes :: "(string \<Rightarrow> string) option \<Rightarrow> 'a rds \<Rightarrow> 'a \<Rightarrow> bool" where
  "computes f m v \<longleftrightarrow>
     (\<forall>s. coherent s \<longrightarrow> prepareHostFunc s = f \<longrightarrow>
        (\<exists>s'. m s = (Inr v, s') \<and> coherent s' \<and> prepareHostFunc s' = f))"

lemma computes_ret: "computes f (ret v) v"
  by (simp add: computes_def ret_def)

lemma computes_bind: "computes f m a \<Longrightarrow> computes f (k a) b \<Longrightarrow> computes f (bindS m k) b"
  unfolding computes_def bindS_def by (metis (no_types, lifting) case_prod_conv sum.case(2))

lemma computes_lift: "r = Inr v \<Longrightarrow> computes f (lift r) v"
  by (simp add: computes_def lift_def)

lemma computes_prepared: "computes f (GetPreparedHost host) (prepared f host)"
  by (auto simp: computes_def GetPreparedHost_def prepared_def split: option.splits)

lemma computes_find: "computes f (findAndCacheRegexp h) (dns_pattern_of h)"
  by (auto simp: computes_def findAndCacheRegexp_def coherent_def LoadOrStore_def dns_pattern_of_def [symmetric]
      split: option.splits)

lemma dns_pattern_matches: "dns_pattern_of h = Some p \<Longrightarrow> \<exists>m. FindStringSubmatch (re_of p) h = Some m"
  by (auto simp: dns_pattern_of_def find_Some_iff MatchString_def FindStringSubmatch_def)

lemma dns_in_groups: "''dns'' \<in> set (groups (re_of p))"
  by (cases p) (simp_all add: AURORA_DNS_PATTERN_def AURORA_CHINA_DNS_PATTERN_def AURORA_OLD_CHINA_DNS_PATTERN_def
      AURORA_GOV_DNS_PATTERN_def AURORA_GLOBAL_WRITER_DNS_PATTERN_def dns_re_def ROpt_def)

lemma submatch_dns: "dns_pattern_of h = Some p \<Longrightarrow> submatch_at (re_of p) ''dns'' h = Inr (dns_group_of h)"
  using dns_pattern_matches [of h p] dns_in_groups [of p] by (auto simp: submatch_at_def dns_group_of_def)

lemma computes_store:
  "computes f (\<lambda>s. let (m, g') = LoadOrStore h (dns_group_of h) (cachedDnsPatterns s) in (Inr g', s\<lparr>cachedDnsPatterns := m\<rparr>))
     (dns_group_of h)"
  by (auto simp: computes_def LoadOrStore_def coherent_def split: option.splits)

lemma computes_dns_miss:
  "computes f (bindS (findAndCacheRegexp h) (\<lambda>r.
     (case r of
        None \<Rightarrow> ret ''''
      | Some p \<Rightarrow> bindS (lift (submatch_at (re_of p) ''dns'' h)) (\<lambda>g s.
          let (m, g') = LoadOrStore h g (cachedDnsPatterns s) in (Inr g', s\<lparr>cachedDnsPatterns := m\<rparr>))))) (dns_group_of h)"
proof (rule computes_bind [OF computes_find])
  show "computes f (case dns_pattern_of h of
        None \<Rightarrow> ret ''''
      | Some p \<Rightarrow> bindS (lift (submatch_at (re_of p) ''dns'' h)) (\<lambda>g s.
          let (m, g') = LoadOrStore h g (cachedDnsPatterns s) in (Inr g', s\<lparr>cachedDnsPatterns := m\<rparr>))) (dns_group_of h)"
  proof (cases "dns_pattern_of h")
    case None
    then show ?thesis using computes_ret [of f "''''"] by (simp add: dns_group_of_def)
  next
    case (Some p)
    show ?thesis
      unfolding Some option.case
      by (rule computes_bind [where a = "dns_group_of h"]) (rule computes_lift [OF submatch_dns [OF Some]], rule computes_store)
  qed
qed

lemma computes_getDnsGroup: "h \<noteq> '''' \<Longrightarrow> computes f (getDnsGroup h) (dns_group_of h)"
  using computes_dns_miss [of f h]
  by (auto simp: getDnsGroup_def computes_def coherent_def split: option.splits)

lemma prepared_nonempty: "host \<noteq> '''' \<Longrightarrow> prepared f host \<noteq> ''''"
  by (simp add: prepared_def split: option.splits)

lemma computes_dns_test: "host \<noteq> '''' \<Longrightarrow> computes f (dns_test p host) (p (dns_group_of (prepared f host)))"
  unfolding dns_test_def
  by (intro computes_bind [OF computes_prepared] computes_bind [OF computes_getDnsGroup] computes_ret prepared_nonempty)

lemma computes_IsRdsDns: "host \<noteq> '''' \<Longrightarrow> computes f (IsRdsDns host) (dns_pattern_of (prepared f host) \<noteq> None)"
proof -
  let ?h = "prepared f host"
  assume "host \<noteq> ''''"
  have "computes f (\<lambda>s. (Inr True, if g \<noteq> '''' then s\<lparr>cachedDnsPatterns := mput ?h g (cachedDnsPatterns s)\<rparr> else s)) True"
    if "g = dns_group_of ?h" for g
    using that by (auto simp: computes_def coherent_def)
  from this [OF refl] have "computes f (case dns_pattern_of ?h of
      None \<Rightarrow> ret False
    | Some p \<Rightarrow> bindS (lift (submatch_at (re_of p) ''dns'' ?h)) (\<lambda>g s.
        (Inr True, if g \<noteq> '''' then s\<lparr>cachedDnsPatterns := mput ?h g (cachedDnsPatterns s)\<rparr> else s)))
      (dns_pattern_of ?h \<noteq> None)"
    by (cases "dns_pattern_of ?h")
      (auto intro: computes_ret computes_bind [where a = "dns_group_of ?h"] computes_lift submatch_dns)
  with \<open>host \<noteq> ''''\<close> show ?thesis
    unfolding IsRdsDns_def
    by (auto intro: computes_bind [where a = ?h] computes_prepared computes_bind [where a = "dns_pattern_of ?h"] computes_find)
qed

lemma computes_global: "host \<noteq> '''' \<Longrightarrow>
  computes f (IsGlobalDbWriterClusterDns host) (MatchString AURORA_GLOBAL_WRITER_DNS_PATTERN (prepared f host))"
  unfolding IsGlobalDbWriterClusterDns_def
  by (rule computes_bind [OF computes_prepared]) (simp add: prepared_nonempty computes_ret)

lemma computes_first_type:
  "computes f (test host) b \<Longrightarrow> computes f (first_type rest host) t' \<Longrightarrow>
   computes f (first_type ((test, t) # rest) host) (if b then t else t')"
  unfolding first_type.simps by (rule computes_bind [where a = b]) (auto intro: computes_ret)

lemma computes_Identify: "computes f (IdentifyRdsUrlType host) (url_type_spec f host)"
proof (cases "host = '''' \<or> IsIP host")
  case True
  then show ?thesis
    by (auto simp: IdentifyRdsUrlType_def url_type_spec_def IsIP_def intro!: computes_ret)
next
  case False
  then have ne: "host \<noteq> ''''" and ip: "(IsIPv4 host \<or> IsIPV6 host) = False" by (auto simp: IsIP_def)
  have "computes f (first_type [] host) OTHER" by (simp add: computes_ret)
  with ne show ?thesis
    unfolding IdentifyRdsUrlType_def url_type_spec_def IsWriterClusterDns_def IsReaderClusterDns_def
      IsRdsCustomClusterDns_def IsLimitlessDbShardGroupDns_def IsRdsProxyDns_def IsIP_def Let_def
    by (simp only: ip if_False) (intro computes_first_type computes_global computes_dns_test computes_IsRdsDns)
qed

section \<open>Properties\<close>

text \<open>The package state at start, with a host function installed or not, and after classifying some hosts.\<close>

definition fresh_state :: "(string \<Rightarrow> string) option \<Rightarrow> rds_state" where
  "fresh_state f = \<lparr>cachedDnsRegexp = [], cachedDnsPatterns = [], prepareHostFunc = f\<rparr>"

definition classify_all :: "string list \<Rightarrow> rds_state \<Rightarrow> rds_state" where
  "classify_all hosts s = fold (\<lambda>h s. snd (IdentifyRdsUrlType h s)) hosts s"

lemma computes_elim:
  "computes f m v \<Longrightarrow> coherent s \<Longrightarrow> prepareHostFunc s = f \<Longrightarrow>
   fst (m s) = Inr v \<and> coherent (snd (m s)) \<and> prepareHostFunc (snd (m s)) = f"
  by (force simp: computes_def)

lemma classify_all_coherent:
  "coherent s \<Longrightarrow> prepareHostFunc s = f \<Longrightarrow>
   coherent (classify_all hosts s) \<and> prepareHostFunc (classify_all hosts s) = f"
  unfolding classify_all_def
  by (induction hosts arbitrary: s) (use computes_elim [OF computes_Identify] in auto)

lemma fresh_coherent: "coherent (fresh_state f)" "prepareHostFunc (fresh_state f) = f"
  by (simp_all add: fresh_state_def coherent_def)

text \<open>C21: The caches of DNS patterns and DNS groups are transparent: whatever hosts were classified before,
  \<open>IdentifyRdsUrlType\<close> returns, without panicking, the type that the patterns alone give the host.\<close>
theorem IdentifyRdsUrlType_cached:
  "fst (IdentifyRdsUrlType host (classify_all hosts (fresh_state f))) = Inr (url_type_spec f host)"
  using computes_elim [OF computes_Identify] classify_all_coherent [OF fresh_coherent] by blast

text \<open>\<open>GetRdsClusterId\<close> panics on every host whose pattern is the one of global writer endpoints: that
  pattern has no region group to index.\<close>
theorem GetRdsClusterId_global_panics:
  assumes "host \<noteq> ''''" "dns_pattern_of host = Some P_GLOBAL_WRITER"
  shows "fst (GetRdsClusterId host (classify_all hosts (fresh_state None))) = Inl (Panic ''index out of range'')"
proof -
  let ?s = "classify_all hosts (fresh_state None)"
  have s: "coherent ?s" "prepareHostFunc ?s = None" using classify_all_coherent [OF fresh_coherent] by blast+
  from computes_elim [OF computes_find this, of host] assms(2)
  have "fst (findAndCacheRegexp host ?s) = Inr (Some P_GLOBAL_WRITER)" by simp
  moreover have "submatch_at AURORA_GLOBAL_WRITER_DNS_PATTERN ''region'' host = Inl (Panic ''index out of range'')"
    by (simp add: submatch_at_def AURORA_GLOBAL_WRITER_DNS_PATTERN_def instance_re_def dot_re_def alnum_re_def
        ROpt_def RPlus_def RChr_def RAny_def RStr_simps)
  ultimately show ?thesis
    using assms(1) s(2) by (auto simp: GetRdsClusterId_def bindS_def GetPreparedHost_def lift_def split: prod.splits)
qed

lemma global_endpoint_not_aurora: "\<not> MatchString AURORA_DNS_PATTERN ''d.global-a.global.rds.amazonaws.com''"
  by code_simp

lemma global_endpoint_not_china: "\<not> MatchString AURORA_CHINA_DNS_PATTERN ''d.global-a.global.rds.amazonaws.com''"
  by code_simp

lemma global_endpoint_not_old_china: "\<not> MatchString AURORA_OLD_CHINA_DNS_PATTERN ''d.global-a.global.rds.amazonaws.com''"
  by code_simp

lemma global_endpoint_not_gov: "\<not> MatchString AURORA_GOV_DNS_PATTERN ''d.global-a.global.rds.amazonaws.com''"
  by code_simp

lemma global_endpoint_is_global: "MatchString AURORA_GLOBAL_WRITER_DNS_PATTERN ''d.global-a.global.rds.amazonaws.com''"
  by code_simp

lemmas global_endpoint_patterns =
  global_endpoint_not_aurora global_endpoint_not_china global_endpoint_not_old_china global_endpoint_not_gov global_endpoint_is_global

lemma GetRdsClusterId_global_panics_witness:
  "fst (GetRdsClusterId ''d.global-a.global.rds.amazonaws.com'' (classify_all [] (fresh_state None))) =
     Inl (Panic ''index out of range'')"
proof -
  have "dns_pattern_of ''d.global-a.global.rds.amazonaws.com'' = Some P_GLOBAL_WRITER"
    unfolding dns_pattern_of_def dnsRegexpArray_def by (simp only: find.simps re_of.simps global_endpoint_patterns if_False if_True)
  then show ?thesis using GetRdsClusterId_global_panics [of "''d.global-a.global.rds.amazonaws.com''" "[]"] by simp
qed

section \<open>Standard endpoints\<close>

definition dns_prefixes :: "string set" where
  "dns_prefixes = {''proxy-'', ''cluster-'', ''cluster-ro-'', ''cluster-custom-'', ''shardgrp-''}"

definition is_region_char :: "char \<Rightarrow> bool" where
  "is_region_char c \<longleftrightarrow> is_alnum c \<or> c = CHR ''-''"

lemma mem_RGroup_words:
  assumes "\<And>x. x \<in> set (rmatch a st) \<Longrightarrow> \<exists>w. P w \<and> consumes st w x" "st' \<in> set (rmatch (RGroup g a) st)"
  shows "\<exists>w x. P w \<and> consumes st w x \<and> st' = x\<lparr>rcaps := (g, w) # rcaps x\<rparr>"
proof -
  from assms(2) obtain x w where x: "x \<in> set (rmatch a st)" "rrest st = w @ rrest x" "st' = x\<lparr>rcaps := (g, w) # rcaps x\<rparr>"
    unfolding mem_RGroup by blast
  from assms(1) [OF x(1)] obtain w' where "P w'" "consumes st w' x" by blast
  with x have "w' = w" by (simp add: consumes_def)
  with x \<open>P w'\<close> \<open>consumes st w' x\<close> show ?thesis by blast
qed

lemma mem_RAlts_words:
  "x \<in> set (rmatch (RAlts (map RStrI ws)) st) \<Longrightarrow> \<exists>w. ToLower w \<in> ToLower ` set ws \<and> consumes st w x"
proof (induction ws)
  case (Cons v ws)
  then show ?case by (cases ws) (auto simp: mem_RStrI simp del: rmatch.simps(3))
qed simp

lemma lower_words:
  "ToLower ` set [''proxy-'', ''cluster-'', ''cluster-ro-'', ''cluster-custom-'', ''shardgrp-''] = dns_prefixes"
  "ToLower ` set [''rds'', ''rds-fips''] = {''rds'', ''rds-fips''}"
  "ToLower ` set [''com'', ''au'', ''eu'', ''uk''] = {''com'', ''au'', ''eu'', ''uk''}"
  "ToLower ''.amazonaws.'' = ''.amazonaws.''"
  by (simp_all add: ToLower_def lower_char_def is_upper_def dns_prefixes_def)

lemma mem_word_group:
  assumes "st' \<in> set (rmatch (RGroup g (RAlts (map RStrI ws))) st)"
  shows "\<exists>w x. ToLower w \<in> ToLower ` set ws \<and> consumes st w x \<and> st' = x\<lparr>rcaps := (g, w) # rcaps x\<rparr>"
  using assms by (rule mem_RGroup_words [rotated]) (rule mem_RAlts_words)

lemma mem_dns_re:
  assumes "st' \<in> set (rmatch dns_re st)"
  shows "st' = st \<or> (\<exists>w x. ToLower w \<in> dns_prefixes \<and> consumes st w x \<and> st' = x\<lparr>rcaps := (''dns'', w) # rcaps x\<rparr>)"
  using assms mem_word_group [of st' "''dns''" "[''proxy-'', ''cluster-'', ''cluster-ro-'', ''cluster-custom-'', ''shardgrp-'']" st]
  unfolding dns_re_def mem_ROpt lower_words(1) list.map by blast

lemma mem_rds_re:
  assumes "st' \<in> set (rmatch (rds_re g) st)"
  shows "\<exists>w x. ToLower w \<in> {''rds'', ''rds-fips''} \<and> consumes st w x \<and> st' = x\<lparr>rcaps := (g, w) # rcaps x\<rparr>"
  using assms mem_word_group [of st' g "[''rds'', ''rds-fips'']" st] unfolding rds_re_def lower_words(2) list.map by blast

lemma mem_tld_re:
  assumes "st' \<in> set (rmatch tld_re st)"
  shows "\<exists>w x. ToLower w \<in> {''com'', ''au'', ''eu'', ''uk''} \<and> consumes st w x \<and> st' = x\<lparr>rcaps := (''6'', w) # rcaps x\<rparr>"
  using assms mem_word_group [of st' "''6''" "[''com'', ''au'', ''eu'', ''uk'']" st]
  unfolding tld_re_def lower_words(3) list.map by blast

lemma mem_region_re:
  assumes "st' \<in> set (rmatch region_re st)"
  shows "\<exists>w x. (w \<noteq> [] \<and> list_all is_region_char w) \<and> consumes st w x \<and> st' = x\<lparr>rcaps := (''region'', w) # rcaps x\<rparr>"
  using assms unfolding region_re_def is_region_char_def [abs_def]
  by (rule mem_RGroup_words [rotated]) (auto simp only: mem_RPlus_RSet)

lemma mem_instance_re:
  assumes "st' \<in> set (rmatch instance_re st)"
  shows "\<exists>w x. w \<noteq> [] \<and> consumes st w x \<and> st' = x\<lparr>rcaps := (''instance'', w) # rcaps x\<rparr>"
  using assms unfolding instance_re_def RAny_def
  by (rule mem_RGroup_words [rotated]) (auto simp only: mem_RPlus_RSet)

lemma mem_dot_re: "st' \<in> set (rmatch dot_re st) \<longleftrightarrow> consumes st ''.'' st'"
  unfolding dot_re_def RChr_def mem_RSet by auto

lemma mem_alnum_re: "st' \<in> set (rmatch alnum_re st) \<longleftrightarrow> (\<exists>w. w \<noteq> [] \<and> list_all is_alnum w \<and> consumes st w st')"
  unfolding alnum_re_def mem_RPlus_RSet ..

text \<open>The parts of a host that matches the first pattern, and the captures.\<close>

definition aurora_parts :: "string \<Rightarrow> string \<Rightarrow> string \<Rightarrow> string \<Rightarrow> string \<Rightarrow> (string \<Rightarrow> string option) \<Rightarrow> bool" where
  "aurora_parts h i pre d r caps \<longleftrightarrow>
     (\<exists>R A T e. h = i @ ''.'' @ pre @ d @ ''.'' @ r @ ''.'' @ R @ A @ T @ e \<and>
        ToLower R \<in> {''rds'', ''rds-fips''} \<and> ToLower A = ''.amazonaws.'' \<and> ToLower T \<in> {''com'', ''au'', ''eu'', ''uk''} \<and>
        (e = '''' \<or> e = ''.'')) \<and>
     i \<noteq> [] \<and> (pre = [] \<or> ToLower pre \<in> dns_prefixes) \<and> d \<noteq> [] \<and> list_all is_alnum d \<and> r \<noteq> [] \<and> list_all is_region_char r \<and>
     caps ''instance'' = Some i \<and> group_val caps ''dns'' = pre \<and> caps ''region'' = Some r"

lemma aurora_match_parts:
  assumes "st' \<in> set (rmatch AURORA_DNS_PATTERN \<lparr>rpos = 0, rrest = h, rcaps = []\<rparr>)"
  shows "\<exists>i pre d r. aurora_parts h i pre d r (map_of (rcaps st'))"
proof -
  let ?s0 = "\<lparr>rpos = 0, rrest = h, rcaps = []\<rparr>"
  from assms obtain s1 s2 s3 s4 s5 s6 s7 s8 s9 s10 s11 dom where
    1: "s1 \<in> set (rmatch instance_re ?s0)" and 2: "s2 \<in> set (rmatch dot_re s1)" and 3: "s3 \<in> set (rmatch dns_re s2)" and
    4: "s4 \<in> set (rmatch alnum_re s3)" and 5: "s5 \<in> set (rmatch dot_re s4)" and 6: "s6 \<in> set (rmatch region_re s5)" and
    7: "s7 \<in> set (rmatch dot_re s6)" and 8: "s8 \<in> set (rmatch (rds_re ''5'') s7)" and
    9: "s9 \<in> set (rmatch (RStrI ''.amazonaws.'') s8)" and
    10: "s10 \<in> set (rmatch tld_re s9)" and 11: "s11 \<in> set (rmatch (ROpt dot_re) s10)" and
    12: "st' = s11\<lparr>rcaps := (''domain'', dom) # rcaps s11\<rparr>" and fin: "rrest st' = []"
    unfolding AURORA_DNS_PATTERN_def RSeqs.simps
    by (simp only: mem_RSeq mem_RGroup [of _ "''domain''"] mem_anchors) blast
  from mem_instance_re [OF 1] obtain i x1 where i: "i \<noteq> []" "consumes ?s0 i x1" "s1 = x1\<lparr>rcaps := (''instance'', i) # rcaps x1\<rparr>"
    by blast
  from 4 obtain d where d: "d \<noteq> []" "list_all is_alnum d" "consumes s3 d s4" by (auto simp: mem_alnum_re)
  from mem_region_re [OF 6] obtain r x6 where r: "r \<noteq> []" "list_all is_region_char r" "consumes s5 r x6"
    "s6 = x6\<lparr>rcaps := (''region'', r) # rcaps x6\<rparr>" by blast
  from mem_rds_re [OF 8] obtain R x8 where R: "ToLower R \<in> {''rds'', ''rds-fips''}" "consumes s7 R x8"
    "s8 = x8\<lparr>rcaps := (''5'', R) # rcaps x8\<rparr>" by blast
  from 9 obtain A where A: "ToLower A = ToLower ''.amazonaws.''" "consumes s8 A s9" by (auto simp only: mem_RStrI)
  from mem_tld_re [OF 10] obtain T x10 where T: "ToLower T \<in> {''com'', ''au'', ''eu'', ''uk''}" "consumes s9 T x10"
    "s10 = x10\<lparr>rcaps := (''6'', T) # rcaps x10\<rparr>" by blast
  from 11 obtain e where e: "e = '''' \<or> e = ''.''" "consumes s10 e s11" by (auto simp: mem_ROpt mem_dot_re consumes_def)
  have A': "ToLower A = ''.amazonaws.''" using A(1) lower_words(4) by simp
  from mem_dns_re [OF 3] obtain pre where pre: "pre = [] \<or> ToLower pre \<in> dns_prefixes" "rrest s2 = pre @ rrest s3"
    "rcaps s3 = (if pre = [] then rcaps s2 else (''dns'', pre) # rcaps s2)"
  proof (elim disjE exE conjE)
    fix w x assume w: "ToLower w \<in> dns_prefixes" "consumes s2 w x" "s3 = x\<lparr>rcaps := (''dns'', w) # rcaps x\<rparr>"
    then have "w \<noteq> []" by (auto simp: dns_prefixes_def ToLower_def)
    with w show thesis using that [of w] by (simp add: consumes_def)
  qed auto
  have caps: "rcaps st' = [(''domain'', dom), (''6'', T), (''5'', R), (''region'', r)] @
      (if pre = [] then [] else [(''dns'', pre)]) @ [(''instance'', i)]"
    using 12 fin e(2) T(2,3) A(2) R(2,3) 7 r(3,4) 5 d(3) pre(3) 2 i(2,3) by (auto simp: consumes_def mem_dot_re)
  have "h = i @ ''.'' @ pre @ d @ ''.'' @ r @ ''.'' @ R @ A @ T @ e"
    using 12 fin e(2) T(2,3) A(2) R(2,3) 7 r(3,4) 5 d(3) pre(2) 2 i(2,3) by (simp add: consumes_def mem_dot_re)
  moreover have "map_of (rcaps st') ''instance'' = Some i" "group_val (map_of (rcaps st')) ''dns'' = pre"
    "map_of (rcaps st') ''region'' = Some r" by (auto simp: caps group_val_def)
  ultimately show ?thesis unfolding aurora_parts_def using i(1) pre(1) d(1,2) r(1,2) R(1) A' T(1) e(1) by blast
qed

text \<open>A pattern can consume a word, whatever follows it.\<close>

definition can :: "regexp \<Rightarrow> string \<Rightarrow> bool" where
  "can re w \<longleftrightarrow> (\<forall>p s caps. \<exists>caps'. \<lparr>rpos = p + length w, rrest = s, rcaps = caps'\<rparr> \<in> set (rmatch re \<lparr>rpos = p, rrest = w @ s, rcaps = caps\<rparr>))"

lemma can_Seq: "can a v \<Longrightarrow> can b w \<Longrightarrow> can (RSeq a b) (v @ w)"
  unfolding can_def mem_RSeq by (simp add: add.assoc [symmetric]) metis

lemma can_Alt1: "can a w \<Longrightarrow> can (RAlt a b) w"
  unfolding can_def mem_RAlt by metis

lemma can_Alt2: "can b w \<Longrightarrow> can (RAlt a b) w"
  unfolding can_def mem_RAlt by metis

lemma can_Opt_none: "can (ROpt a) []"
  unfolding can_def mem_ROpt by auto

lemma can_Opt_some: "can a w \<Longrightarrow> can (ROpt a) w"
  unfolding can_def mem_ROpt by metis

lemma can_Group: "can a w \<Longrightarrow> can (RGroup g a) w"
  unfolding can_def
proof (intro allI)
  fix p s caps
  assume "\<forall>p s caps. \<exists>caps'. \<lparr>rpos = p + length w, rrest = s, rcaps = caps'\<rparr> \<in> set (rmatch a \<lparr>rpos = p, rrest = w @ s, rcaps = caps\<rparr>)"
  then obtain caps' where "\<lparr>rpos = p + length w, rrest = s, rcaps = caps'\<rparr> \<in> set (rmatch a \<lparr>rpos = p, rrest = w @ s, rcaps = caps\<rparr>)"
    by blast
  from imageI [OF this, of "capture g \<lparr>rpos = p, rrest = w @ s, rcaps = caps\<rparr>"]
  show "\<exists>caps'. \<lparr>rpos = p + length w, rrest = s, rcaps = caps'\<rparr> \<in> set (rmatch (RGroup g a) \<lparr>rpos = p, rrest = w @ s, rcaps = caps\<rparr>)"
    by (auto simp: capture_def)
qed

lemma can_Plus: "w \<noteq> [] \<Longrightarrow> list_all q w \<Longrightarrow> can (RPlus (RSet q)) w"
  unfolding can_def mem_RPlus_RSet consumes_def by fastforce

lemma can_StrI: "ToLower v = ToLower w \<Longrightarrow> can (RStrI w) v"
  unfolding can_def mem_RStrI consumes_def by fastforce

lemma can_StrI_self: "can (RStrI w) w"
  by (simp add: can_StrI)

lemma can_dot: "can dot_re ''.''"
  unfolding can_def mem_dot_re consumes_def by fastforce

lemma can_RAlts: "w \<in> set ws \<Longrightarrow> can (RAlts (map RStrI ws)) w"
proof (induction ws)
  case (Cons v ws)
  then show ?case by (cases ws) (auto intro: can_StrI_self can_Alt1 can_Alt2)
qed simp

lemma can_dns: "pre = [] \<or> pre \<in> dns_prefixes \<Longrightarrow> can dns_re pre"
proof (elim disjE)
  assume "pre \<in> dns_prefixes"
  then have "pre \<in> set [''proxy-'', ''cluster-'', ''cluster-ro-'', ''cluster-custom-'', ''shardgrp-'']"
    by (simp add: dns_prefixes_def)
  from can_Opt_some [OF can_Group [OF can_RAlts [OF this], of "''dns''"]] show ?thesis unfolding dns_re_def list.map .
qed (simp add: dns_re_def can_Opt_none del: RAlts.simps)

text \<open>Splitting a host at its dots.\<close>

lemma split_last_dots:
  assumes "a @ CHR ''.'' # x = a' @ CHR ''.'' # x'" "count_list x (CHR ''.'') = count_list x' (CHR ''.'')"
  shows "a = a' \<and> x = x'"
  using assms(1) unfolding append_eq_append_conv2
proof (elim exE disjE conjE)
  fix us assume "a @ us = a'" "CHR ''.'' # x = us @ CHR ''.'' # x'"
  then show ?thesis using assms(2) by (cases us) (auto simp: count_list_append)
next
  fix us assume "a = a' @ us" "us @ CHR ''.'' # x = CHR ''.'' # x'"
  then show ?thesis using assms(2) by (cases us) (auto simp: count_list_append)
qed

lemma split_first_dot:
  assumes "a @ CHR ''.'' # x = a' @ CHR ''.'' # x'" "CHR ''.'' \<notin> set a" "CHR ''.'' \<notin> set a'"
  shows "a = a' \<and> x = x'"
  using assms(1) unfolding append_eq_append_conv2
proof (elim exE disjE conjE)
  fix us assume "a @ us = a'" "CHR ''.'' # x = us @ CHR ''.'' # x'"
  then show ?thesis using assms(2,3) by (cases us) auto
next
  fix us assume "a = a' @ us" "us @ CHR ''.'' # x = CHR ''.'' # x'"
  then show ?thesis using assms(2,3) by (cases us) auto
qed

lemma split_last_dash:
  assumes "v @ d = v' @ d'" "CHR ''-'' \<notin> set d" "CHR ''-'' \<notin> set d'"
    "v = [] \<or> last v = CHR ''-''" "v' = [] \<or> last v' = CHR ''-''"
  shows "v = v'"
  using assms(1) unfolding append_eq_append_conv2
proof (elim exE disjE conjE)
  fix us assume "v @ us = v'" "d = us @ d'"
  then show ?thesis using assms(2,5) by (cases us rule: rev_cases) auto
next
  fix us assume "v = v' @ us" "us @ d = d'"
  then show ?thesis using assms(3,4) by (cases us rule: rev_cases) auto
qed

lemma lower_char_punct: "lower_char c = CHR ''.'' \<longleftrightarrow> c = CHR ''.''" "lower_char c = CHR ''-'' \<longleftrightarrow> c = CHR ''-''"
proof -
  have "is_upper c \<Longrightarrow> (of_char (char_of (of_char c + 32 :: nat)) :: nat) = of_char c + 32"
    by (simp add: is_upper_def)
  then show "lower_char c = CHR ''.'' \<longleftrightarrow> c = CHR ''.''" "lower_char c = CHR ''-'' \<longleftrightarrow> c = CHR ''-''"
    by (auto simp: lower_char_def is_upper_def dest!: arg_cong [where f = "of_char :: char \<Rightarrow> nat"])
qed

lemma count_dots_lower: "count_list (ToLower w) (CHR ''.'') = count_list w (CHR ''.'')"
  by (induction w) (auto simp: ToLower_def lower_char_punct)

lemma dns_prefix_last: "ToLower pre \<in> dns_prefixes \<Longrightarrow> pre \<noteq> [] \<and> last pre = CHR ''-''"
proof -
  assume a: "ToLower pre \<in> dns_prefixes"
  then have "pre \<noteq> []" "lower_char (last pre) = CHR ''-''"
    by (auto simp: dns_prefixes_def ToLower_def last_map [symmetric] simp del: last_map)
  then show ?thesis by (simp add: lower_char_punct)
qed

text \<open>The endpoints of the standard partition.\<close>

definition standard_endpoint :: "string \<Rightarrow> string \<Rightarrow> string \<Rightarrow> string \<Rightarrow> string" where
  "standard_endpoint inst pre dns region = inst @ ''.'' @ pre @ dns @ ''.'' @ region @ ''.rds.amazonaws.com''"

definition endpoint_ok :: "string \<Rightarrow> string \<Rightarrow> string \<Rightarrow> string \<Rightarrow> bool" where
  "endpoint_ok inst pre dns region \<longleftrightarrow>
     inst \<noteq> [] \<and> CHR 0x0A \<notin> set inst \<and> (pre = [] \<or> pre \<in> dns_prefixes) \<and> dns \<noteq> [] \<and> list_all is_alnum dns \<and>
     region \<noteq> [] \<and> list_all is_region_char region"

lemma class_punct:
  "is_alnum c \<Longrightarrow> c \<noteq> CHR ''.'' \<and> c \<noteq> CHR ''-''" "is_region_char c \<Longrightarrow> c \<noteq> CHR ''.''"
  by (auto simp: is_alnum_def is_region_char_def is_lower_def is_upper_def is_digit_def)

lemma no_punct:
  "list_all is_alnum d \<Longrightarrow> CHR ''.'' \<notin> set d \<and> CHR ''-'' \<notin> set d" "list_all is_region_char r \<Longrightarrow> CHR ''.'' \<notin> set r"
  using class_punct by (auto simp: list_all_iff)

lemma prefix_no_dot: "pre = [] \<or> ToLower pre \<in> dns_prefixes \<Longrightarrow> CHR ''.'' \<notin> set pre"
proof -
  assume "pre = [] \<or> ToLower pre \<in> dns_prefixes"
  then have "count_list (ToLower pre) (CHR ''.'') = 0" by (auto simp: dns_prefixes_def ToLower_def)
  then show ?thesis by (simp add: count_dots_lower count_list_0_iff)
qed

lemma ToLower_prefix: "pre \<in> dns_prefixes \<Longrightarrow> ToLower pre = pre"
  by (auto simp: dns_prefixes_def ToLower_def lower_char_def is_upper_def)

lemma endpoint_parts_unique:
  assumes ok: "endpoint_ok inst pre dns region" and parts: "aurora_parts (standard_endpoint inst pre dns region) i pre' d r caps"
  shows "i = inst \<and> pre' = pre \<and> r = region"
proof -
  from parts obtain R A T e where h: "standard_endpoint inst pre dns region = i @ ''.'' @ pre' @ d @ ''.'' @ r @ ''.'' @ R @ A @ T @ e"
    and R: "ToLower R \<in> {''rds'', ''rds-fips''}" and A: "ToLower A = ''.amazonaws.''"
    and T: "ToLower T \<in> {''com'', ''au'', ''eu'', ''uk''}" and e: "e = '''' \<or> e = ''.''"
    and p: "pre' = [] \<or> ToLower pre' \<in> dns_prefixes" "list_all is_alnum d" "list_all is_region_char r"
    by (auto simp: aurora_parts_def)
  have e0: "e = []"
  proof (rule ccontr)
    assume "e \<noteq> []"
    with e h have "last (standard_endpoint inst pre dns region) = CHR ''.''" by simp
    then show False by (simp add: standard_endpoint_def)
  qed
  have o: "pre = [] \<or> ToLower pre \<in> dns_prefixes" using ok ToLower_prefix by (auto simp: endpoint_ok_def)
  have ok': "list_all is_alnum dns" "list_all is_region_char region" using ok by (auto simp: endpoint_ok_def)
  have zero: "count_list w (CHR ''.'') = 0" if "CHR ''.'' \<notin> set w" for w using that by (simp add: count_list_0_iff)
  have cR: "count_list R (CHR ''.'') = 0" "count_list A (CHR ''.'') = 2" "count_list T (CHR ''.'') = 0"
    using R A T count_dots_lower [of R] count_dots_lower [of A] count_dots_lower [of T] by auto
  let ?x = "pre @ dns @ ''.'' @ region @ ''.rds.amazonaws.com''" and ?x' = "pre' @ d @ ''.'' @ r @ ''.'' @ R @ A @ T"
  have c: "count_list ?x (CHR ''.'') = 4" "count_list ?x' (CHR ''.'') = 4"
    using prefix_no_dot [OF o] prefix_no_dot [OF p(1)] no_punct ok' p cR by (simp_all add: count_list_append zero)
  have "inst @ CHR ''.'' # ?x = i @ CHR ''.'' # ?x'" using h e0 by (simp add: standard_endpoint_def)
  from split_last_dots [OF this] c have 1: "inst = i" "?x = ?x'" by auto
  then have "(pre @ dns) @ CHR ''.'' # (region @ ''.rds.amazonaws.com'') = (pre' @ d) @ CHR ''.'' # (r @ ''.'' @ R @ A @ T)" by simp
  from split_first_dot [OF this] have 2: "pre @ dns = pre' @ d" "region @ ''.rds.amazonaws.com'' = r @ ''.'' @ R @ A @ T"
    using prefix_no_dot [OF o] prefix_no_dot [OF p(1)] no_punct(1) ok' p by auto
  have "pre = pre'"
    using split_last_dash [OF 2(1)] no_punct(1) ok' p dns_prefix_last o by metis
  moreover have "region = r" using split_first_dot [of region "''rds.amazonaws.com''" r "R @ A @ T"] 2(2) no_punct(2) ok' p by simp
  ultimately show ?thesis using 1 by simp
qed

lemma aurora_at_begin: "p > 0 \<Longrightarrow> rmatch AURORA_DNS_PATTERN \<lparr>rpos = p, rrest = s, rcaps = []\<rparr> = []"
  by (simp add: AURORA_DNS_PATTERN_def)

lemma endpoint_matches:
  assumes "endpoint_ok inst pre dns region"
  shows "\<exists>st'. st' \<in> set (rmatch AURORA_DNS_PATTERN \<lparr>rpos = 0, rrest = standard_endpoint inst pre dns region, rcaps = []\<rparr>)"
proof -
  have inst: "can instance_re inst" using assms
    by (auto simp: instance_re_def RAny_def endpoint_ok_def list_all_iff intro!: can_Group can_Plus)
  have dns: "can alnum_re dns" using assms by (auto simp: alnum_re_def endpoint_ok_def intro!: can_Plus)
  have region: "can region_re region" using assms
    by (auto simp: region_re_def endpoint_ok_def is_region_char_def [abs_def] intro!: can_Group can_Plus)
  have rds: "can (rds_re ''5'') ''rds''" unfolding rds_re_def RAlts.simps by (intro can_Group can_Alt1 can_StrI_self)
  have tld: "can tld_re ''com''" unfolding tld_re_def RAlts.simps by (intro can_Group can_Alt1 can_StrI_self)
  let ?dom = "RSeqs [alnum_re, dot_re, region_re, dot_re, rds_re ''5'', RStrI ''.amazonaws.'', tld_re, ROpt dot_re]"
  have "can ?dom (dns @ ''.'' @ region @ ''.'' @ ''rds'' @ ''.amazonaws.'' @ ''com'' @ [])"
    unfolding RSeqs.simps by (intro can_Seq dns can_dot region rds can_StrI_self tld can_Opt_none)
  from can_Seq [OF inst can_Seq [OF can_dot can_Seq [OF can_dns can_Group [OF this, of "''domain''"]]]] assms
  have "can (RSeq instance_re (RSeq dot_re (RSeq dns_re (RGroup ''domain'' ?dom)))) (standard_endpoint inst pre dns region)"
    by (simp add: endpoint_ok_def standard_endpoint_def)
  then obtain caps where "\<lparr>rpos = length (standard_endpoint inst pre dns region), rrest = [], rcaps = caps\<rparr> \<in>
      set (rmatch (RSeq instance_re (RSeq dot_re (RSeq dns_re (RGroup ''domain'' ?dom))))
        \<lparr>rpos = 0, rrest = standard_endpoint inst pre dns region, rcaps = []\<rparr>)"
    unfolding can_def by (metis add_0 append_Nil2)
  then show ?thesis
    unfolding AURORA_DNS_PATTERN_def RSeqs.simps(2,3) mem_RSeq mem_anchors by (metis rstate.select_convs(1,2))
qed

lemma endpoint_submatch:
  assumes "endpoint_ok inst pre dns region"
  shows "\<exists>m. FindStringSubmatch AURORA_DNS_PATTERN (standard_endpoint inst pre dns region) = Some m \<and>
    m ''instance'' = Some inst \<and> group_val m ''dns'' = pre \<and> m ''region'' = Some region"
proof -
  let ?h = "standard_endpoint inst pre dns region"
  from endpoint_matches [OF assms] obtain st sts where
    st: "rmatch AURORA_DNS_PATTERN \<lparr>rpos = 0, rrest = ?h, rcaps = []\<rparr> = st # sts" by (metis list.set_cases)
  then have "st \<in> set (rmatch AURORA_DNS_PATTERN \<lparr>rpos = 0, rrest = ?h, rcaps = []\<rparr>)" by simp
  from aurora_match_parts [OF this] obtain i p d r where parts: "aurora_parts ?h i p d r (map_of (rcaps st))" by blast
  from endpoint_parts_unique [OF assms this] parts have
    "map_of (rcaps st) ''instance'' = Some inst" "group_val (map_of (rcaps st)) ''dns'' = pre" "map_of (rcaps st) ''region'' = Some region"
    by (auto simp: aurora_parts_def)
  moreover have "FindStringSubmatch AURORA_DNS_PATTERN ?h = Some (map_of (rcaps st))"
    by (rule FindStringSubmatch_prefers) (simp add: prefers_def st)
  ultimately show ?thesis by blast
qed

lemma endpoint_pattern:
  assumes "endpoint_ok inst pre dns region"
  shows "dns_pattern_of (standard_endpoint inst pre dns region) = Some P_AURORA"
    "dns_group_of (standard_endpoint inst pre dns region) = pre"
proof -
  obtain m where m: "FindStringSubmatch AURORA_DNS_PATTERN (standard_endpoint inst pre dns region) = Some m" "group_val m ''dns'' = pre"
    using endpoint_submatch [OF assms] by blast
  then have "MatchString AURORA_DNS_PATTERN (standard_endpoint inst pre dns region)"
    by (auto simp: MatchString_def FindStringSubmatch_def)
  then show pat: "dns_pattern_of (standard_endpoint inst pre dns region) = Some P_AURORA"
    by (simp add: dns_pattern_of_def dnsRegexpArray_def)
  show "dns_group_of (standard_endpoint inst pre dns region) = pre"
    using m by (simp add: dns_group_of_def pat)
qed

text \<open>C22: For an endpoint \<open>inst.[prefix]dns.region.rds.amazonaws.com\<close>, \<open>GetRdsRegion\<close> returns the region and
  \<open>GetRdsClusterId\<close> the leading name, whatever was classified before. The prefix is empty or one of
  \<open>proxy-\<close>, \<open>cluster-\<close>, \<open>cluster-ro-\<close>, \<open>cluster-custom-\<close>, \<open>shardgrp-\<close>; the leading name may contain dots.\<close>
theorem standard_endpoint_groups:
  assumes "endpoint_ok inst pre dns region"
  shows "fst (GetRdsRegion (standard_endpoint inst pre dns region) (classify_all hosts (fresh_state None))) = Inr region \<and>
    fst (GetRdsClusterId (standard_endpoint inst pre dns region) (classify_all hosts (fresh_state None))) = Inr inst \<and>
    fst (getDnsGroup (standard_endpoint inst pre dns region) (classify_all hosts (fresh_state None))) = Inr pre"
proof -
  let ?h = "standard_endpoint inst pre dns region" and ?s = "classify_all hosts (fresh_state None)"
  have s: "coherent ?s" "prepareHostFunc ?s = None" using classify_all_coherent [OF fresh_coherent] by blast+
  have ne: "?h \<noteq> ''''" by (simp add: standard_endpoint_def)
  obtain m where m: "FindStringSubmatch AURORA_DNS_PATTERN ?h = Some m" "m ''instance'' = Some inst" "m ''region'' = Some region"
    using endpoint_submatch [OF assms] by blast
  have region: "region \<noteq> []" using assms by (simp add: endpoint_ok_def)
  have groups: "''region'' \<in> set (groups AURORA_DNS_PATTERN)" "''instance'' \<in> set (groups AURORA_DNS_PATTERN)"
    by (simp_all add: AURORA_DNS_PATTERN_def region_re_def instance_re_def)
  have "fst (findAndCacheRegexp ?h ?s) = Inr (Some P_AURORA)"
    using computes_elim [OF computes_find s, of ?h] endpoint_pattern(1) [OF assms] by simp
  then obtain s' where f: "findAndCacheRegexp ?h ?s = (Inr (Some P_AURORA), s')" by (metis prod.collapse)
  have "fst (getDnsGroup ?h ?s) = Inr pre"
    using computes_elim [OF computes_getDnsGroup [OF ne] s] endpoint_pattern(2) [OF assms] by simp
  moreover have "fst (GetRdsRegion ?h ?s) = Inr region" "fst (GetRdsClusterId ?h ?s) = Inr inst"
    using ne s(2) f m groups region
    by (simp_all add: GetRdsRegion_def GetRdsClusterId_def bindS_def GetPreparedHost_def ret_def lift_def submatch_at_def group_val_def)
  ultimately show ?thesis by blast
qed

lemma standard_endpoint_groups_witness:
  "fst (GetRdsRegion ''db.one.cluster-ro-abc1.us-east-1.rds.amazonaws.com'' (classify_all [] (fresh_state None))) = Inr ''us-east-1'' \<and>
   fst (getDnsGroup ''db.one.cluster-ro-abc1.us-east-1.rds.amazonaws.com'' (classify_all [] (fresh_state None))) = Inr ''cluster-ro-''"
proof -
  have ok: "endpoint_ok ''db.one'' ''cluster-ro-'' ''abc1'' ''us-east-1''" by code_simp
  have h: "standard_endpoint ''db.one'' ''cluster-ro-'' ''abc1'' ''us-east-1'' = ''db.one.cluster-ro-abc1.us-east-1.rds.amazonaws.com''"
    by (simp add: standard_endpoint_def)
  show ?thesis using standard_endpoint_groups [OF ok, of "[]"] unfolding h by blast
qed

end
