(* ===== verification/Plugin_Manager.thy ===== *)
theory Plugin_Manager
  imports Host_Info Collections
begin

text \<open>
  The plugin pipeline: \<open>awssql/plugin_helpers/plugin_manager.go\<close>. A plugin is a record of its methods,
  each a function on the state \<open>'s\<close> of the program: the plugin service, the plugins and the server. A
  method that gets the rest of the pipeline as a Go function gets it as a state transformer, which it may
  call any number of times. The manager's telemetry context is the first field of that state; what
  \<open>OpenTelemetryContext\<close> makes of a name and a parent context is the parameter \<open>open_ctx\<close>.
\<close>

datatype HostChangeOptions =
    HOSTNAME | PROMOTED_TO_WRITER | PROMOTED_TO_READER | WENT_UP | WENT_DOWN
  | CONNECTION_OBJECT_CHANGED | INITIAL_CONNECTION | HOST_ADDED | HOST_CHANGED | HOST_DELETED

datatype OldConnectionSuggestedAction = NO_OPINION | DISPOSE | PRESERVE

definition ALL_METHODS :: string where "ALL_METHODS = ''*''"
definition CONNECT_METHOD :: string where "CONNECT_METHOD = ''Conn.Connect''"
definition FORCE_CONNECT_METHOD :: string where "FORCE_CONNECT_METHOD = ''Conn.ForceConnect''"
definition ACCEPTS_STRATEGY_METHOD :: string where "ACCEPTS_STRATEGY_METHOD = ''acceptsStrategy''"
definition GET_HOST_INFO_BY_STRATEGY_METHOD :: string where "GET_HOST_INFO_BY_STRATEGY_METHOD = ''getHostInfoByStrategy''"
definition GET_HOST_SELECT_STRATEGY_METHOD :: string where "GET_HOST_SELECT_STRATEGY_METHOD = ''getHostSelectorStrategy''"
definition INIT_HOST_PROVIDER_METHOD :: string where "INIT_HOST_PROVIDER_METHOD = ''initHostProvider''"
definition NOTIFY_CONNECTION_CHANGED_METHOD :: string where "NOTIFY_CONNECTION_CHANGED_METHOD = ''notifyConnectionChanged''"
definition NOTIFY_HOST_LIST_CHANGED_METHOD :: string where "NOTIFY_HOST_LIST_CHANGED_METHOD = ''notifyHostListChanged''"

definition CLOSING_METHODS :: "string list" where
  "CLOSING_METHODS = [''Conn.Close'', ''Conn.IsValid'', ''Stmt.Close'', ''Rows.Close'']"

section \<open>Plugins\<close>

text \<open>The four results of a wrapped driver call, and the two of a connection attempt.\<close>

type_synonym 'v exec_result = "'v option \<times> 'v option \<times> bool \<times> go_error option"
type_synonym 'c connect_result = "'c option \<times> go_error option"
type_synonym ('s, 'a) action = "'s \<Rightarrow> 's \<times> 'a"
type_synonym props = "(string, string) RWMap"

record 't Telemetry =
  telemetryCtx :: 't

record ('s, 'c, 'v, 'sel) ConnectionPlugin =
  pluginId :: nat
  structName :: string
  GetPluginCode :: string
  GetSubscribedMethods :: "string list"
  plugin_Execute :: "'c option \<Rightarrow> string \<Rightarrow> ('s, 'v exec_result) action \<Rightarrow> ('s, 'v exec_result) action"
  plugin_Connect :: "HostInfo option \<Rightarrow> props \<Rightarrow> bool \<Rightarrow> (props \<Rightarrow> ('s, 'c connect_result) action) \<Rightarrow> ('s, 'c connect_result) action"
  plugin_ForceConnect :: "HostInfo option \<Rightarrow> props \<Rightarrow> bool \<Rightarrow> (props \<Rightarrow> ('s, 'c connect_result) action) \<Rightarrow> ('s, 'c connect_result) action"
  plugin_InitHostProvider :: "props \<Rightarrow> ('s, go_error option) action \<Rightarrow> ('s, go_error option) action"
  plugin_AcceptsStrategy :: "string \<Rightarrow> bool"
  plugin_GetHostInfoByStrategy :: "HostRole \<Rightarrow> string \<Rightarrow> HostInfo list \<Rightarrow> ('s, HostInfo option \<times> go_error option) action"
  plugin_GetHostSelectorStrategy :: "string \<Rightarrow> 'sel option \<times> go_error option"
  plugin_NotifyConnectionChanged :: "HostChangeOptions set \<Rightarrow> ('s, OldConnectionSuggestedAction) action"
  plugin_NotifyHostListChanged :: "(string, HostChangeOptions set) gomap \<Rightarrow> 's \<Rightarrow> 's"
  plugin_ReleaseResources :: "('s \<Rightarrow> 's) option"

text \<open>Plugins are compared by identity; a nil plugin to skip is \<open>None\<close>.\<close>

definition is_plugin :: "('s, 'c, 'v, 'sel) ConnectionPlugin \<Rightarrow> nat option \<Rightarrow> bool" where
  "is_plugin p skip \<longleftrightarrow> skip = Some (pluginId p)"

definition subscribed :: "string \<Rightarrow> ('s, 'c, 'v, 'sel) ConnectionPlugin \<Rightarrow> bool" where
  "subscribed name p \<longleftrightarrow> ALL_METHODS \<in> set (GetSubscribedMethods p) \<or> name \<in> set (GetSubscribedMethods p)"

section \<open>Plugin chains\<close>

type_synonym ('p, 's, 'v) exec_pipeline =
  "('p \<Rightarrow> ('s, 'v exec_result) action \<Rightarrow> ('s, 'v exec_result) action) \<Rightarrow> ('s, 'v exec_result) action \<Rightarrow> ('s, 'v exec_result) action"

type_synonym ('p, 's, 'c) connect_pipeline =
  "('p \<Rightarrow> props \<Rightarrow> (props \<Rightarrow> ('s, 'c connect_result) action) \<Rightarrow> ('s, 'c connect_result) action) \<Rightarrow>
     props \<Rightarrow> (props \<Rightarrow> ('s, 'c connect_result) action) \<Rightarrow> ('s, 'c connect_result) action"

record ('p, 's, 'c, 'v) PluginChain =
  execChain :: "('p, 's, 'v) exec_pipeline option"
  connectChain :: "('p, 's, 'c) connect_pipeline option"

definition ExecAddToHead :: "'p \<Rightarrow> ('p, 's, 'c, 'v) PluginChain \<Rightarrow> ('p, 's, 'c, 'v) PluginChain" where
  "ExecAddToHead plugin chain =
     (case execChain chain of
        None \<Rightarrow> chain\<lparr>execChain := Some (\<lambda>pluginFunc execFunc. pluginFunc plugin execFunc)\<rparr>
      | Some pipelineSoFar \<Rightarrow>
          chain\<lparr>execChain := Some (\<lambda>pluginFunc execFunc. pluginFunc plugin (pipelineSoFar pluginFunc execFunc))\<rparr>)"

definition ConnectAddToHead :: "'p \<Rightarrow> ('p, 's, 'c, 'v) PluginChain \<Rightarrow> ('p, 's, 'c, 'v) PluginChain" where
  "ConnectAddToHead plugin chain =
     (case connectChain chain of
        None \<Rightarrow> chain\<lparr>connectChain := Some (\<lambda>pluginFunc props connectFunc. pluginFunc plugin props connectFunc)\<rparr>
      | Some pipelineSoFar \<Rightarrow>
          chain\<lparr>connectChain := Some (\<lambda>pluginFunc props connectFunc.
            pluginFunc plugin props (\<lambda>props. pipelineSoFar pluginFunc props connectFunc))\<rparr>)"

definition pipelineNone :: go_error where
  "pipelineNone = NewGenericAwsWrapperError ''PluginManager.pipelineNone''"

definition Chain_Execute ::
  "('p, 's, 'c, 'v) PluginChain \<Rightarrow> ('p \<Rightarrow> ('s, 'v exec_result) action \<Rightarrow> ('s, 'v exec_result) action)
     \<Rightarrow> ('s, 'v exec_result) action \<Rightarrow> ('s, 'v exec_result) action" where
  "Chain_Execute chain pluginFunc execFunc =
     (case execChain chain of
        None \<Rightarrow> (\<lambda>s. (s, None, None, False, Some pipelineNone))
      | Some pipeline \<Rightarrow> pipeline pluginFunc execFunc)"

definition Chain_Connect ::
  "('p, 's, 'c, 'v) PluginChain
     \<Rightarrow> ('p \<Rightarrow> props \<Rightarrow> (props \<Rightarrow> ('s, 'c connect_result) action) \<Rightarrow> ('s, 'c connect_result) action)
     \<Rightarrow> props \<Rightarrow> (props \<Rightarrow> ('s, 'c connect_result) action) \<Rightarrow> ('s, 'c connect_result) action" where
  "Chain_Connect chain pluginFunc props connectFunc =
     (case connectChain chain of
        None \<Rightarrow> (\<lambda>s. (s, None, Some pipelineNone))
      | Some pipeline \<Rightarrow> pipeline pluginFunc props connectFunc)"

section \<open>The manager\<close>

text \<open>The manager and the state the plugins act on; \<open>current_conn\<close> is
  \<open>PluginService.GetCurrentConnection\<close>. \<open>pluginFuncMap\<close> keeps the chains made so far, by method name.\<close>

type_synonym ('s, 'c, 'v, 'sel) plugin = "('s, 'c, 'v, 'sel) ConnectionPlugin"

record ('s, 'c, 'v, 'sel) PluginManager =
  plugins :: "('s, 'c, 'v, 'sel) plugin list"
  pluginFuncMap :: "(string, (('s, 'c, 'v, 'sel) plugin, 's, 'c, 'v) PluginChain) RWMap"

definition NewPluginManagerImpl :: "('s, 'c, 'v, 'sel) PluginManager" where
  "NewPluginManagerImpl = \<lparr>plugins = [], pluginFuncMap = NewRWMap\<rparr>"

definition Manager_Init :: "('s, 'c, 'v, 'sel) plugin list \<Rightarrow> ('s, 'c, 'v, 'sel) PluginManager \<Rightarrow> ('s, 'c, 'v, 'sel) PluginManager" where
  "Manager_Init ps m = m\<lparr>plugins := ps\<rparr>"

text \<open>The loop of \<open>makePluginChain\<close> runs over the plugins from the last to the first.\<close>

definition makePluginChain ::
  "string \<Rightarrow> bool \<Rightarrow> nat option \<Rightarrow> ('s, 'c, 'v, 'sel) PluginManager
     \<Rightarrow> (('s, 'c, 'v, 'sel) plugin, 's, 'c, 'v) PluginChain" where
  "makePluginChain name creatingExecChain pluginToSkip m =
     fold (\<lambda>currentPlugin chain.
             if \<not> is_plugin currentPlugin pluginToSkip \<and> subscribed name currentPlugin
             then (if creatingExecChain then ExecAddToHead currentPlugin chain else ConnectAddToHead currentPlugin chain)
             else chain)
       (rev (plugins m)) \<lparr>execChain = None, connectChain = None\<rparr>"

definition executeWithSubscribedPlugins ::
  "string \<Rightarrow> (('s, 'c, 'v, 'sel) plugin \<Rightarrow> ('s, 'v exec_result) action \<Rightarrow> ('s, 'v exec_result) action)
     \<Rightarrow> ('s, 'v exec_result) action \<Rightarrow> ('s, 'c, 'v, 'sel) PluginManager
     \<Rightarrow> ('s, 'c, 'v, 'sel) PluginManager \<times> ('s, 'v exec_result) action" where
  "executeWithSubscribedPlugins methodName pluginFunc targetFunc m =
     (let (fm, chain) = RWMap_ComputeIfAbsent methodName (\<lambda>_. makePluginChain methodName True None m) (pluginFuncMap m)
      in (m\<lparr>pluginFuncMap := fm\<rparr>, Chain_Execute chain pluginFunc targetFunc))"

definition connectWithSubscribedPlugins ::
  "string \<Rightarrow> (('s, 'c, 'v, 'sel) plugin \<Rightarrow> props \<Rightarrow> (props \<Rightarrow> ('s, 'c connect_result) action) \<Rightarrow> ('s, 'c connect_result) action)
     \<Rightarrow> (props \<Rightarrow> ('s, 'c connect_result) action) \<Rightarrow> props \<Rightarrow> nat option \<Rightarrow> ('s, 'c, 'v, 'sel) PluginManager
     \<Rightarrow> ('s, 'c, 'v, 'sel) PluginManager \<times> ('s, 'c connect_result) action" where
  "connectWithSubscribedPlugins methodName pluginFunc targetFunc props pluginToSkip m =
     (case pluginToSkip of
        None \<Rightarrow>
          (let (fm, chain) = RWMap_ComputeIfAbsent methodName (\<lambda>_. makePluginChain methodName False None m) (pluginFuncMap m)
           in (m\<lparr>pluginFuncMap := fm\<rparr>, Chain_Connect chain pluginFunc props targetFunc))
      | Some _ \<Rightarrow> (m, Chain_Connect (makePluginChain methodName False pluginToSkip m) pluginFunc props targetFunc))"

text \<open>A call inside a telemetry context of its own; the deferred function restores the parent context.\<close>

definition with_ctx ::
  "(string \<Rightarrow> 't \<Rightarrow> 't) \<Rightarrow> string \<Rightarrow> (('t, 'x) Telemetry_scheme, 'a) action \<Rightarrow> (('t, 'x) Telemetry_scheme, 'a) action" where
  "with_ctx open_ctx name act s =
     (let parentCtx = telemetryCtx s; (s', r) = act (s\<lparr>telemetryCtx := open_ctx name parentCtx\<rparr>)
      in (s'\<lparr>telemetryCtx := parentCtx\<rparr>, r))"

definition Manager_InitHostProvider ::
  "(string \<Rightarrow> 't \<Rightarrow> 't) \<Rightarrow> props \<Rightarrow> (('t, 'x) Telemetry_scheme, 'c, 'v, 'sel) PluginManager
     \<Rightarrow> (('t, 'x) Telemetry_scheme, 'c, 'v, 'sel) PluginManager \<times> (('t, 'x) Telemetry_scheme, go_error option) action" where
  "Manager_InitHostProvider open_ctx props m =
     (let pluginFunc = (\<lambda>plugin targetFunc. with_ctx open_ctx (structName plugin)
            (\<lambda>s. let (s', err) = plugin_InitHostProvider plugin props (\<lambda>s. let (s', _, _, _, err) = targetFunc s in (s', err)) s
                 in (s', None, None, err = None, err)));
          targetFunc = (\<lambda>s. (s, None, None, False, Some ShouldNotBeCalledError));
          (m', run) = executeWithSubscribedPlugins INIT_HOST_PROVIDER_METHOD pluginFunc targetFunc m
      in (m', with_ctx open_ctx ''initHostProvider'' (\<lambda>s. let (s', _, _, _, err) = run s in (s', err))))"

definition Manager_Connect ::
  "(string \<Rightarrow> 't \<Rightarrow> 't) \<Rightarrow> HostInfo option \<Rightarrow> props \<Rightarrow> bool \<Rightarrow> nat option
     \<Rightarrow> (('t, 'x) Telemetry_scheme, 'c, 'v, 'sel) PluginManager
     \<Rightarrow> (('t, 'x) Telemetry_scheme, 'c, 'v, 'sel) PluginManager \<times> (('t, 'x) Telemetry_scheme, 'c connect_result) action" where
  "Manager_Connect open_ctx hostInfo props isInitialConnection pluginToSkip m =
     (let pluginFunc = (\<lambda>plugin props targetFunc. with_ctx open_ctx (structName plugin)
            (plugin_Connect plugin hostInfo props isInitialConnection targetFunc));
          targetFunc = (\<lambda>props s. (s, None, Some ShouldNotBeCalledError));
          (m', run) = connectWithSubscribedPlugins CONNECT_METHOD pluginFunc targetFunc props pluginToSkip m
      in (m', with_ctx open_ctx ''connect'' run))"

definition Manager_ForceConnect ::
  "HostInfo option \<Rightarrow> props \<Rightarrow> bool \<Rightarrow> ('s, 'c, 'v, 'sel) PluginManager
     \<Rightarrow> ('s, 'c, 'v, 'sel) PluginManager \<times> ('s, 'c connect_result) action" where
  "Manager_ForceConnect hostInfo props isInitialConnection m =
     connectWithSubscribedPlugins FORCE_CONNECT_METHOD
       (\<lambda>plugin props targetFunc. plugin_ForceConnect plugin hostInfo props isInitialConnection targetFunc)
       (\<lambda>props s. (s, None, Some ShouldNotBeCalledError)) props None m"

text \<open>\<open>current_conn\<close> is the connection of the plugin service when the call is made.\<close>

definition Manager_Execute ::
  "(string \<Rightarrow> 't \<Rightarrow> 't) \<Rightarrow> 'c option \<Rightarrow> 'c option \<Rightarrow> string \<Rightarrow> (('t, 'x) Telemetry_scheme, 'v exec_result) action
     \<Rightarrow> (('t, 'x) Telemetry_scheme, 'c, 'v, 'sel) PluginManager
     \<Rightarrow> (('t, 'x) Telemetry_scheme, 'c, 'v, 'sel) PluginManager \<times> (('t, 'x) Telemetry_scheme, 'v exec_result) action" where
  "Manager_Execute open_ctx current_conn connInvokedOn methodName executeFunc m =
     (if connInvokedOn \<noteq> None \<and> connInvokedOn \<noteq> current_conn \<and> methodName \<notin> set CLOSING_METHODS
      then (m, \<lambda>s. (s, None, None, False, Some (NewGenericAwsWrapperError ''PluginManagerImpl.invokedAgainstOldConnection'')))
      else executeWithSubscribedPlugins methodName
             (\<lambda>plugin targetFunc. with_ctx open_ctx (structName plugin) (plugin_Execute plugin connInvokedOn methodName targetFunc))
             (with_ctx open_ctx methodName executeFunc) m)"

text \<open>\<open>AcceptsStrategy\<close> looks the strategy itself up among the subscribed methods.\<close>

definition Manager_AcceptsStrategy :: "string \<Rightarrow> ('s, 'c, 'v, 'sel) PluginManager \<Rightarrow> bool" where
  "Manager_AcceptsStrategy strategy m = list_ex (\<lambda>p. subscribed strategy p \<and> plugin_AcceptsStrategy p strategy) (plugins m)"

text \<open>\<open>pluginFunc\<close> acts on the state together with what the closure has collected.\<close>

fun notify_loop ::
  "string \<Rightarrow> (('s, 'c, 'v, 'sel) plugin \<Rightarrow> ('z, go_error option) action) \<Rightarrow> nat option \<Rightarrow> ('s, 'c, 'v, 'sel) plugin list
     \<Rightarrow> ('z, go_error option) action" where
  "notify_loop methodName pluginFunc skip [] s = (s, None)"
| "notify_loop methodName pluginFunc skip (p # ps) s =
     (if is_plugin p skip then notify_loop methodName pluginFunc skip ps s
      else if subscribed methodName p
      then (let (s', err) = pluginFunc p s
            in if err \<noteq> None then (s', err) else notify_loop methodName pluginFunc skip ps s')
      else notify_loop methodName pluginFunc skip ps s)"

definition NotifySubscribedPlugins ::
  "string \<Rightarrow> (('s, 'c, 'v, 'sel) plugin \<Rightarrow> ('z, go_error option) action) \<Rightarrow> nat option \<Rightarrow> ('s, 'c, 'v, 'sel) PluginManager
     \<Rightarrow> ('z, go_error option) action" where
  "NotifySubscribedPlugins methodName pluginFunc skip m = notify_loop methodName pluginFunc skip (plugins m)"

definition NotifyHostListChanged ::
  "(string, HostChangeOptions set) gomap \<Rightarrow> ('s, 'c, 'v, 'sel) PluginManager \<Rightarrow> 's \<Rightarrow> 's" where
  "NotifyHostListChanged changes m s =
     fst (NotifySubscribedPlugins NOTIFY_HOST_LIST_CHANGED_METHOD
            (\<lambda>p s. (plugin_NotifyHostListChanged p changes s, None)) None m s)"

definition NotifyConnectionChanged ::
  "HostChangeOptions set \<Rightarrow> nat option \<Rightarrow> ('s, 'c, 'v, 'sel) PluginManager
     \<Rightarrow> ('s, OldConnectionSuggestedAction set) action" where
  "NotifyConnectionChanged changes skip m s =
     fst (NotifySubscribedPlugins NOTIFY_CONNECTION_CHANGED_METHOD
            (\<lambda>p (s, result). let (s', pluginOptions) = plugin_NotifyConnectionChanged p changes s
                             in ((s', insert pluginOptions result), None)) skip m (s, {}))"

text \<open>\<open>GetHostInfoByStrategy\<close> and \<open>GetHostSelectorStrategy\<close> return the first answer without error; the
  named results keep the last answer when there is none.\<close>

fun first_answer ::
  "string \<Rightarrow> (('s, 'c, 'v, 'sel) plugin \<Rightarrow> ('z, 'a option \<times> go_error option) action) \<Rightarrow> ('s, 'c, 'v, 'sel) plugin list
     \<Rightarrow> 'a option \<times> go_error option \<Rightarrow> ('z, 'a option \<times> go_error option) action" where
  "first_answer name ask [] (answer, err) s =
     (s, answer, if err = None then Some (NewUnsupportedStrategyError ''PluginManagerImpl.unsupportedHostSelectionStrategy'') else err)"
| "first_answer name ask (p # ps) (answer, err) s =
     (if subscribed name p
      then (let (s', answer', err') = ask p s
            in if err' = None then (s', answer', None) else first_answer name ask ps (answer', err') s')
      else first_answer name ask ps (answer, err) s)"

definition Manager_GetHostInfoByStrategy ::
  "HostRole \<Rightarrow> string \<Rightarrow> HostInfo list \<Rightarrow> ('s, 'c, 'v, 'sel) PluginManager \<Rightarrow> ('s, HostInfo option \<times> go_error option) action" where
  "Manager_GetHostInfoByStrategy role strategy hosts m =
     first_answer GET_HOST_INFO_BY_STRATEGY_METHOD (\<lambda>p. plugin_GetHostInfoByStrategy p role strategy hosts) (plugins m) (None, None)"

definition Manager_GetHostSelectorStrategy :: "string \<Rightarrow> ('s, 'c, 'v, 'sel) PluginManager \<Rightarrow> 'sel option \<times> go_error option" where
  "Manager_GetHostSelectorStrategy strategy m =
     snd (first_answer GET_HOST_SELECT_STRATEGY_METHOD (\<lambda>p s. (s, plugin_GetHostSelectorStrategy p strategy)) (plugins m) (None, None) ())"

text \<open>The plugins' last tasks, then the plugin service's.\<close>

definition Manager_ReleaseResources :: "('s \<Rightarrow> 's) \<Rightarrow> ('s, 'c, 'v, 'sel) PluginManager \<Rightarrow> 's \<Rightarrow> 's" where
  "Manager_ReleaseResources serviceRelease m s =
     serviceRelease (fold (\<lambda>p. case plugin_ReleaseResources p of None \<Rightarrow> id | Some release \<Rightarrow> release) (plugins m) s)"

definition UnwrapPlugin :: "string \<Rightarrow> ('s, 'c, 'v, 'sel) PluginManager \<Rightarrow> ('s, 'c, 'v, 'sel) plugin option" where
  "UnwrapPlugin pluginCode m = find (\<lambda>p. GetPluginCode p = pluginCode) (plugins m)"

definition IsPluginInUse :: "string \<Rightarrow> ('s, 'c, 'v, 'sel) PluginManager \<Rightarrow> bool" where
  "IsPluginInUse pluginCode m = list_ex (\<lambda>p. GetPluginCode p = pluginCode) (plugins m)"

section \<open>What a chain runs\<close>

text \<open>The specification: the plugins one inside the other, the first outermost, around the target.\<close>

definition nest_exec ::
  "('p \<Rightarrow> ('s, 'v exec_result) action \<Rightarrow> ('s, 'v exec_result) action) \<Rightarrow> 'p list \<Rightarrow> ('s, 'v exec_result) action
     \<Rightarrow> ('s, 'v exec_result) action" where
  "nest_exec pluginFunc ps target = (if ps = [] then (\<lambda>s. (s, None, None, False, Some pipelineNone)) else foldr pluginFunc ps target)"

definition nest_connect ::
  "('p \<Rightarrow> props \<Rightarrow> (props \<Rightarrow> ('s, 'c connect_result) action) \<Rightarrow> ('s, 'c connect_result) action) \<Rightarrow> 'p list
     \<Rightarrow> (props \<Rightarrow> ('s, 'c connect_result) action) \<Rightarrow> props \<Rightarrow> ('s, 'c connect_result) action" where
  "nest_connect pluginFunc ps target =
     (if ps = [] then (\<lambda>_ s. (s, None, Some pipelineNone)) else foldr (\<lambda>p rest props. pluginFunc p props rest) ps target)"

definition in_chain :: "string \<Rightarrow> nat option \<Rightarrow> ('s, 'c, 'v, 'sel) plugin \<Rightarrow> bool" where
  "in_chain name skip p \<longleftrightarrow> \<not> is_plugin p skip \<and> subscribed name p"

lemma in_chain_None [simp]: "in_chain name None = subscribed name"
  by (simp add: fun_eq_iff in_chain_def is_plugin_def)

lemma makePluginChain_foldr:
  "makePluginChain name b skip m =
     foldr (if b then ExecAddToHead else ConnectAddToHead) (filter (in_chain name skip) (plugins m)) \<lparr>execChain = None, connectChain = None\<rparr>"
proof -
  have "foldr (\<lambda>p chain. if \<not> is_plugin p skip \<and> subscribed name p
             then (if b then ExecAddToHead p chain else ConnectAddToHead p chain) else chain) ps c =
        foldr (if b then ExecAddToHead else ConnectAddToHead) (filter (in_chain name skip) ps) c" for ps c
    by (induction ps) (auto simp: in_chain_def)
  then show ?thesis
    unfolding makePluginChain_def foldr_conv_fold [symmetric] by blast
qed

lemma foldr_ExecAddToHead:
  "ps \<noteq> [] \<Longrightarrow> execChain (foldr ExecAddToHead ps \<lparr>execChain = None, connectChain = None\<rparr>) = Some (\<lambda>f target. foldr f ps target)"
proof (induction ps)
  case (Cons p ps)
  then show ?case by (cases "ps = []") (simp_all add: ExecAddToHead_def)
qed simp

lemma foldr_ConnectAddToHead:
  "ps \<noteq> [] \<Longrightarrow> connectChain (foldr ConnectAddToHead ps \<lparr>execChain = None, connectChain = None\<rparr>) =
     Some (\<lambda>f props target. foldr (\<lambda>p rest props. f p props rest) ps target props)"
proof (induction ps)
  case (Cons p ps)
  then show ?case by (cases "ps = []") (simp_all add: ConnectAddToHead_def)
qed simp

lemma Chain_Execute_nest:
  "Chain_Execute (makePluginChain name True skip m) f target = nest_exec f (filter (in_chain name skip) (plugins m)) target"
proof (cases "filter (in_chain name skip) (plugins m) = []")
  case True
  then show ?thesis by (simp add: Chain_Execute_def makePluginChain_foldr nest_exec_def)
next
  case False
  then show ?thesis by (simp add: Chain_Execute_def makePluginChain_foldr nest_exec_def foldr_ExecAddToHead)
qed

lemma Chain_Connect_nest:
  "Chain_Connect (makePluginChain name False skip m) f props target =
     nest_connect f (filter (in_chain name skip) (plugins m)) target props"
proof (cases "filter (in_chain name skip) (plugins m) = []")
  case True
  then show ?thesis by (simp add: Chain_Connect_def makePluginChain_foldr nest_connect_def)
next
  case False
  then show ?thesis by (simp add: Chain_Connect_def makePluginChain_foldr nest_connect_def foldr_ConnectAddToHead)
qed

section \<open>Managers as they are used\<close>

text \<open>A manager is initialised once with its plugins and then serves calls, each of which may add a
  chain to \<open>pluginFuncMap\<close>. The methods of the pipeline for connections are not executed as driver calls.\<close>

inductive managed :: "('s, 'c, 'v, 'sel) plugin list \<Rightarrow> ('s, 'c, 'v, 'sel) PluginManager \<Rightarrow> bool" for ps where
  m_init: "managed ps (Manager_Init ps NewPluginManagerImpl)"
| m_execute: "managed ps m \<Longrightarrow> name \<notin> {CONNECT_METHOD, FORCE_CONNECT_METHOD} \<Longrightarrow>
    managed ps (fst (executeWithSubscribedPlugins name f target m))"
| m_connect: "managed ps m \<Longrightarrow> name \<in> {CONNECT_METHOD, FORCE_CONNECT_METHOD} \<Longrightarrow>
    managed ps (fst (connectWithSubscribedPlugins name g ctarget props skip m))"

definition chains_ok :: "('s, 'c, 'v, 'sel) PluginManager \<Rightarrow> bool" where
  "chains_ok m \<longleftrightarrow> (\<forall>name chain. RWMap_Get name (pluginFuncMap m) = Some chain \<longrightarrow>
     chain = makePluginChain name (name \<notin> {CONNECT_METHOD, FORCE_CONNECT_METHOD}) None m)"

lemma makePluginChain_cong: "plugins m = plugins m' \<Longrightarrow> makePluginChain n b k m = makePluginChain n b k m'"
  by (simp add: makePluginChain_def)

lemma chain_lookup:
  assumes "chains_ok m" "b = (name \<notin> {CONNECT_METHOD, FORCE_CONNECT_METHOD})"
    "RWMap_ComputeIfAbsent name (\<lambda>_. makePluginChain name b None m) (pluginFuncMap m) = (fm, chain)"
  shows "chain = makePluginChain name b None m \<and> chains_ok (m\<lparr>pluginFuncMap := fm\<rparr>)"
proof (cases "RWMap_Get name (pluginFuncMap m)")
  case None
  with assms have "chain = makePluginChain name b None m" "RWMap_Get n fm = (if n = name then Some chain else RWMap_Get n (pluginFuncMap m))" for n
    by (auto simp: RWMap_ComputeIfAbsent_def RWMap_Get_def Let_def)
  with assms show ?thesis
    by (auto simp: chains_ok_def makePluginChain_cong [of "m\<lparr>pluginFuncMap := fm\<rparr>" m])
next
  case (Some c)
  with assms have "fm = pluginFuncMap m \<and> chain = c" by (simp add: RWMap_ComputeIfAbsent_def RWMap_Get_def)
  with assms Some show ?thesis unfolding chains_ok_def by simp
qed

lemma executeWithSubscribedPlugins_ok:
  assumes "chains_ok m" "name \<notin> {CONNECT_METHOD, FORCE_CONNECT_METHOD}"
  shows "plugins (fst (executeWithSubscribedPlugins name f target m)) = plugins m"
    "chains_ok (fst (executeWithSubscribedPlugins name f target m))"
    "snd (executeWithSubscribedPlugins name f target m) = nest_exec f (filter (subscribed name) (plugins m)) target"
proof -
  obtain fm chain where e: "RWMap_ComputeIfAbsent name (\<lambda>_. makePluginChain name True None m) (pluginFuncMap m) = (fm, chain)"
    by fastforce
  with assms have "chain = makePluginChain name True None m" "chains_ok (m\<lparr>pluginFuncMap := fm\<rparr>)"
    using chain_lookup [of m True name fm chain] by auto
  then show "plugins (fst (executeWithSubscribedPlugins name f target m)) = plugins m"
    "chains_ok (fst (executeWithSubscribedPlugins name f target m))"
    "snd (executeWithSubscribedPlugins name f target m) = nest_exec f (filter (subscribed name) (plugins m)) target"
    by (simp_all add: executeWithSubscribedPlugins_def e Chain_Execute_nest)
qed

lemma connectWithSubscribedPlugins_ok:
  assumes "chains_ok m" "name \<in> {CONNECT_METHOD, FORCE_CONNECT_METHOD}"
  shows "plugins (fst (connectWithSubscribedPlugins name f target props skip m)) = plugins m"
    "chains_ok (fst (connectWithSubscribedPlugins name f target props skip m))"
    "snd (connectWithSubscribedPlugins name f target props skip m) =
       nest_connect f (filter (in_chain name skip) (plugins m)) target props"
proof -
  obtain fm chain where e: "RWMap_ComputeIfAbsent name (\<lambda>_. makePluginChain name False None m) (pluginFuncMap m) = (fm, chain)"
    by fastforce
  with assms have "chain = makePluginChain name False None m" "chains_ok (m\<lparr>pluginFuncMap := fm\<rparr>)"
    using chain_lookup [of m False name fm chain] by auto
  with assms(1) show "plugins (fst (connectWithSubscribedPlugins name f target props skip m)) = plugins m"
    "chains_ok (fst (connectWithSubscribedPlugins name f target props skip m))"
    "snd (connectWithSubscribedPlugins name f target props skip m) =
       nest_connect f (filter (in_chain name skip) (plugins m)) target props"
    by (simp_all add: connectWithSubscribedPlugins_def e Chain_Connect_nest split: option.splits)
qed

lemma managed_ok: "managed ps m \<Longrightarrow> plugins m = ps \<and> chains_ok m"
  by (induction rule: managed.induct)
    (auto simp: executeWithSubscribedPlugins_ok connectWithSubscribedPlugins_ok Manager_Init_def NewPluginManagerImpl_def
      chains_ok_def [of "_\<lparr>plugins := _\<rparr>"] NewRWMap_def RWMap_Get_def chains_ok_def [of "\<lparr>plugins = _, pluginFuncMap = _\<rparr>"])

lemma with_ctx_restores: "with_ctx oc n act s = (s', r) \<Longrightarrow> telemetryCtx s' = telemetryCtx s"
  by (auto simp: with_ctx_def Let_def split: prod.splits)

lemma nest_exec_restores:
  assumes "\<And>p act s s' r. f p act s = (s', r) \<Longrightarrow> telemetryCtx s' = telemetryCtx s"
  shows "telemetryCtx (fst (nest_exec f ps target s)) = telemetryCtx s"
proof (cases ps)
  case (Cons p qs)
  obtain s' r where "f p (foldr f qs target) s = (s', r)" by (metis surj_pair)
  with assms Cons show ?thesis by (fastforce simp: nest_exec_def)
qed (simp add: nest_exec_def)

lemma notify_loop_fold:
  assumes "\<And>p s. snd (f p s) = None"
  shows "notify_loop name f skip ps s = (fold (\<lambda>p s. fst (f p s)) (filter (in_chain name skip) ps) s, None)"
proof (induction ps arbitrary: s)
  case (Cons p ps)
  then show ?case
    using assms [of p s] by (auto simp: in_chain_def split: prod.splits)
qed simp

text \<open>A plugin that notes each call it sees, for examples. The log is the rest of the state.\<close>

definition logging_plugin :: "nat \<Rightarrow> string list \<Rightarrow> ((nat, nat list) Telemetry_scheme, nat, nat, nat) plugin" where
  "logging_plugin n methods =
     \<lparr>pluginId = n, structName = ''logging'', GetPluginCode = ''logging'', GetSubscribedMethods = methods,
      plugin_Execute = (\<lambda>c name rest s. rest (\<lparr>telemetryCtx = telemetryCtx s, \<dots> = Telemetry.more s @ [n]\<rparr>)),
      plugin_Connect = (\<lambda>h props i rest s. if n = 0 then (s, Some 9, None)
                                           else rest props (\<lparr>telemetryCtx = telemetryCtx s, \<dots> = Telemetry.more s @ [n]\<rparr>)),
      plugin_ForceConnect = (\<lambda>h props i rest. rest props), plugin_InitHostProvider = (\<lambda>props rest. rest),
      plugin_AcceptsStrategy = (\<lambda>_. True), plugin_GetHostInfoByStrategy = (\<lambda>r s hs st. (st, None, None)),
      plugin_GetHostSelectorStrategy = (\<lambda>_. (None, None)),
      plugin_NotifyConnectionChanged = (\<lambda>_ s. (s, NO_OPINION)), plugin_NotifyHostListChanged = (\<lambda>_ s. s),
      plugin_ReleaseResources = None\<rparr>"

section \<open>Properties\<close>

text \<open>C4: Whatever calls a manager has served before, a driver call on the current connection (or a closing
  call, or one without a connection) runs the plugins subscribed to its method one inside the other in the
  order of the plugin list, around the call itself, and ends with the telemetry context it started with; a
  call on another connection is refused and changes nothing. The caching of chains makes no difference.\<close>
theorem Execute_pipeline:
  assumes "managed ps m" "methodName \<notin> {CONNECT_METHOD, FORCE_CONNECT_METHOD}"
  shows "(if connInvokedOn \<in> {None, current} \<or> methodName \<in> set CLOSING_METHODS
          then snd (Manager_Execute open_ctx current connInvokedOn methodName executeFunc m) =
               nest_exec (\<lambda>p rest. with_ctx open_ctx (structName p) (plugin_Execute p connInvokedOn methodName rest))
                 (filter (subscribed methodName) ps) (with_ctx open_ctx methodName executeFunc)
          else snd (Manager_Execute open_ctx current connInvokedOn methodName executeFunc m) s =
               (s, None, None, False, Some (NewGenericAwsWrapperError ''PluginManagerImpl.invokedAgainstOldConnection''))) \<and>
         managed ps (fst (Manager_Execute open_ctx current connInvokedOn methodName executeFunc m)) \<and>
         telemetryCtx (fst (snd (Manager_Execute open_ctx current connInvokedOn methodName executeFunc m) s)) = telemetryCtx s"
proof (cases "connInvokedOn \<in> {None, current} \<or> methodName \<in> set CLOSING_METHODS")
  case True
  then have e: "Manager_Execute open_ctx current connInvokedOn methodName executeFunc m =
    executeWithSubscribedPlugins methodName
      (\<lambda>p rest. with_ctx open_ctx (structName p) (plugin_Execute p connInvokedOn methodName rest))
      (with_ctx open_ctx methodName executeFunc) m"
    by (auto simp: Manager_Execute_def)
  show ?thesis
    unfolding e using True managed_ok [OF assms(1)] assms
    by (auto simp: executeWithSubscribedPlugins_ok m_execute intro!: nest_exec_restores dest: with_ctx_restores)
next
  case False
  with assms(1) show ?thesis by (auto simp: Manager_Execute_def)
qed

lemma Execute_pipeline_witness:
  "let m = Manager_Init [logging_plugin 1 [ALL_METHODS], logging_plugin 2 [''Conn.Begin''], logging_plugin 3 [''Conn.ExecContext'']] NewPluginManagerImpl;
       (m', run) = Manager_Execute (\<lambda>_ n. Suc n) (Some 7) (Some 7) ''Conn.ExecContext'' (\<lambda>s. (s, Some 5, None, True, None)) m
   in managed (plugins m) m \<and> fst (run \<lparr>telemetryCtx = 0, \<dots> = []\<rparr>) = \<lparr>telemetryCtx = 0, \<dots> = [1, 3]\<rparr>"
proof -
  define m where "m = Manager_Init [logging_plugin 1 [ALL_METHODS], logging_plugin 2 [''Conn.Begin''],
    logging_plugin 3 [''Conn.ExecContext'']] NewPluginManagerImpl"
  have m: "managed (plugins m) m" unfolding m_def by (simp add: Manager_Init_def [of _ "NewPluginManagerImpl"] m_init [unfolded Manager_Init_def])
  have name: "''Conn.ExecContext'' \<notin> {CONNECT_METHOD, FORCE_CONNECT_METHOD}"
    by (simp add: CONNECT_METHOD_def FORCE_CONNECT_METHOD_def)
  have ps: "filter (subscribed ''Conn.ExecContext'') (plugins m) = [logging_plugin 1 [ALL_METHODS], logging_plugin 3 [''Conn.ExecContext'']]"
    by (simp add: m_def Manager_Init_def subscribed_def logging_plugin_def ALL_METHODS_def)
  have run: "snd (Manager_Execute (\<lambda>_ n. Suc n) (Some 7) (Some 7) ''Conn.ExecContext'' (\<lambda>s. (s, Some 5, None, True, None)) m)
      \<lparr>telemetryCtx = 0, \<dots> = []\<rparr> = (\<lparr>telemetryCtx = 0, \<dots> = [1, 3]\<rparr>, Some 5, None, True, None)"
    using Execute_pipeline [OF m name, of "Some 7" "Some 7" "\<lambda>_ n. Suc n" "\<lambda>s. (s, Some 5, None, True, None)"]
    by (simp add: ps nest_exec_def with_ctx_def logging_plugin_def)
  show ?thesis unfolding m_def [symmetric] Let_def using m run by (auto split: prod.splits)
qed

text \<open>C23: Whatever calls the manager has served before, connecting runs the plugins subscribed to the method, except the one
  to skip, one inside the other in the order of the plugin list; behind the last one is an error, so a connection comes
  from a plugin. The chains it keeps stay those of its plugins.\<close>
theorem Connect_pipeline:
  assumes "managed ps m"
  shows "snd (Manager_Connect open_ctx hostInfo props isInitial skip m) =
           with_ctx open_ctx ''connect''
             (nest_connect (\<lambda>p props rest. with_ctx open_ctx (structName p) (plugin_Connect p hostInfo props isInitial rest))
               (filter (in_chain CONNECT_METHOD skip) ps) (\<lambda>props s. (s, None, Some ShouldNotBeCalledError)) props) \<and>
         snd (Manager_ForceConnect hostInfo props isInitial m) =
           nest_connect (\<lambda>p props rest. plugin_ForceConnect p hostInfo props isInitial rest)
             (filter (subscribed FORCE_CONNECT_METHOD) ps) (\<lambda>props s. (s, None, Some ShouldNotBeCalledError)) props \<and>
         managed ps (fst (Manager_Connect open_ctx hostInfo props isInitial skip m)) \<and>
         managed ps (fst (Manager_ForceConnect hostInfo props isInitial m))"
proof -
  have 1: "fst (Manager_Connect open_ctx hostInfo props isInitial skip m) =
      fst (connectWithSubscribedPlugins CONNECT_METHOD
        (\<lambda>p props rest. with_ctx open_ctx (structName p) (plugin_Connect p hostInfo props isInitial rest))
        (\<lambda>props s. (s, None, Some ShouldNotBeCalledError)) props skip m)"
    "snd (Manager_Connect open_ctx hostInfo props isInitial skip m) = with_ctx open_ctx ''connect''
      (snd (connectWithSubscribedPlugins CONNECT_METHOD
        (\<lambda>p props rest. with_ctx open_ctx (structName p) (plugin_Connect p hostInfo props isInitial rest))
        (\<lambda>props s. (s, None, Some ShouldNotBeCalledError)) props skip m))"
    by (simp_all add: Manager_Connect_def Let_def split: prod.splits)
  show ?thesis
    using managed_ok [OF assms] unfolding 1 Manager_ForceConnect_def
    by (simp add: connectWithSubscribedPlugins_ok m_connect assms)
qed

lemma Connect_pipeline_witness:
  "let m = Manager_Init [logging_plugin 4 [ALL_METHODS], logging_plugin 2 [CONNECT_METHOD], logging_plugin 0 [CONNECT_METHOD]] NewPluginManagerImpl
   in managed (plugins m) m \<and>
      snd (Manager_Connect (\<lambda>_ n. Suc n) None NewRWMap True (Some 4) m) \<lparr>telemetryCtx = 0, \<dots> = []\<rparr> =
        (\<lparr>telemetryCtx = 0, \<dots> = [2]\<rparr>, Some 9, None)"
proof -
  define m where "m = Manager_Init [logging_plugin 4 [ALL_METHODS], logging_plugin 2 [CONNECT_METHOD],
    logging_plugin 0 [CONNECT_METHOD]] NewPluginManagerImpl"
  have m: "managed (plugins m) m" unfolding m_def by (simp add: Manager_Init_def [of _ "NewPluginManagerImpl"] m_init [unfolded Manager_Init_def])
  have ps: "filter (in_chain CONNECT_METHOD (Some 4)) (plugins m) = [logging_plugin 2 [CONNECT_METHOD], logging_plugin 0 [CONNECT_METHOD]]"
    by (simp add: m_def Manager_Init_def in_chain_def is_plugin_def subscribed_def logging_plugin_def ALL_METHODS_def)
  show ?thesis unfolding m_def [symmetric] Let_def
    using m Connect_pipeline [OF m, of "\<lambda>_ n. Suc n" None NewRWMap True "Some 4"]
    by (simp add: ps nest_connect_def with_ctx_def logging_plugin_def)
qed

text \<open>A connection change is told once to every subscribed plugin except the one to skip, in order, and
  the opinions are those they return.\<close>
theorem NotifyConnectionChanged_all:
  "NotifyConnectionChanged changes skip m s =
     fold (\<lambda>p (s, opinions). let (s', opinion) = plugin_NotifyConnectionChanged p changes s in (s', insert opinion opinions))
       (filter (in_chain NOTIFY_CONNECTION_CHANGED_METHOD skip) (plugins m)) (s, {})"
  unfolding NotifyConnectionChanged_def NotifySubscribedPlugins_def
  by (subst notify_loop_fold) (auto simp: Let_def fun_eq_iff split: prod.splits intro!: fold_cong)

lemma NotifyHostListChanged_all:
  "NotifyHostListChanged changes m s =
     fold (\<lambda>p. plugin_NotifyHostListChanged p changes) (filter (subscribed NOTIFY_HOST_LIST_CHANGED_METHOD) (plugins m)) s"
  by (simp add: NotifyHostListChanged_def NotifySubscribedPlugins_def notify_loop_fold)

text \<open>A plugin that subscribes to \<open>acceptsStrategy\<close> only is never asked.\<close>

lemma AcceptsStrategy_subscription:
  "set (GetSubscribedMethods p) = {ACCEPTS_STRATEGY_METHOD} \<Longrightarrow> strategy \<noteq> ACCEPTS_STRATEGY_METHOD \<Longrightarrow>
     Manager_AcceptsStrategy strategy (Manager_Init [p] m) = False"
  by (auto simp: Manager_AcceptsStrategy_def Manager_Init_def subscribed_def ACCEPTS_STRATEGY_METHOD_def ALL_METHODS_def)

end
