(* ===== verification/Wrapper_Properties.thy ===== *)
theory Wrapper_Properties
  imports Collections
begin

text \<open>
  The driver's own connection properties, \<open>awssql/property_util/aws_wrapper_property.go\<close>: how a value
  is looked up and converted to the type its property declares, the table of all properties, and which
  keys are internal. The description texts are documentation and are left out of the record. What the
  code logs is left out; it does not change the values returned.
\<close>

section \<open>Properties and their values\<close>

definition DEFAULT_PLUGINS :: string where "DEFAULT_PLUGINS = ''auroraConnectionTracker,failover,efm''"
definition MONITORING_PROPERTY_PREFIX :: string where "MONITORING_PROPERTY_PREFIX = ''monitoring-''"
definition LIMITLESS_PROPERTY_PREFIX :: string where "LIMITLESS_PROPERTY_PREFIX = ''limitless''"
definition INTERNAL_CONNECT_PROPERTY_NAME :: string where
  "INTERNAL_CONNECT_PROPERTY_NAME = ''76c06979-49c4-4c86-9600-a63605b83f50''"
definition BG_PROPERTY_PREFIX :: string where "BG_PROPERTY_PREFIX = ''blue-green-monitoring-''"

definition INTERNAL_PROPS_PREFIXES :: "string list" where
  "INTERNAL_PROPS_PREFIXES =
     [MONITORING_PROPERTY_PREFIX, INTERNAL_CONNECT_PROPERTY_NAME, LIMITLESS_PROPERTY_PREFIX, BG_PROPERTY_PREFIX]"

text \<open>\<open>WRAPPER_TYPE_UNSET\<close> is the zero value of a property that does not name its type.\<close>

datatype WrapperPropertyType = WRAPPER_TYPE_UNSET | WRAPPER_TYPE_INT | WRAPPER_TYPE_STRING | WRAPPER_TYPE_BOOL

record AwsWrapperProperty =
  propName :: string
  defaultValue :: string
  wrapperPropertyType :: WrapperPropertyType

text \<open>A nil \<open>*RWMap\<close> is \<open>None\<close>.\<close>

definition Property_Get :: "AwsWrapperProperty \<Rightarrow> (string, string) RWMap option \<Rightarrow> string" where
  "Property_Get prop props =
     (case props of
        None \<Rightarrow> defaultValue prop
      | Some m \<Rightarrow> (case RWMap_Get (propName prop) m of None \<Rightarrow> defaultValue prop | Some result \<Rightarrow> result))"

definition Property_GetFromMap :: "AwsWrapperProperty \<Rightarrow> (string, string) gomap \<Rightarrow> string" where
  "Property_GetFromMap prop props = (case map_of props (propName prop) of None \<Rightarrow> defaultValue prop | Some result \<Rightarrow> result)"

definition Property_Set :: "AwsWrapperProperty \<Rightarrow> string \<Rightarrow> (string, string) RWMap \<Rightarrow> (string, string) RWMap" where
  "Property_Set prop val props = fst (RWMap_Put (propName prop) val props)"

text \<open>The parsed value has the type of the property; the final type assertion to the requested type
  gives the zero value when they differ. \<open>strconv.Atoi\<close> and \<open>strconv.ParseBool\<close> return the zero value
  with a syntax error, which is the only error a default of the table can have.\<close>

datatype prop_value = IntV int | StringV string | BoolV bool

definition convertValue :: "string \<Rightarrow> AwsWrapperProperty \<Rightarrow> prop_value" where
  "convertValue propValue prop =
     (case wrapperPropertyType prop of
        WRAPPER_TYPE_INT \<Rightarrow>
          (case Atoi propValue of
             Some n \<Rightarrow> IntV n
           | None \<Rightarrow> (case Atoi (defaultValue prop) of Some n \<Rightarrow> IntV n | None \<Rightarrow> IntV 0))
      | WRAPPER_TYPE_BOOL \<Rightarrow>
          (case ParseBool propValue of
             Some b \<Rightarrow> BoolV b
           | None \<Rightarrow> (case ParseBool (defaultValue prop) of Some b \<Rightarrow> BoolV b | None \<Rightarrow> BoolV False))
      | _ \<Rightarrow> StringV propValue)"

fun as_int :: "prop_value \<Rightarrow> int" where
  "as_int (IntV n) = n"
| "as_int _ = 0"

fun as_bool :: "prop_value \<Rightarrow> bool" where
  "as_bool (BoolV b) = b"
| "as_bool _ = False"

fun as_string :: "prop_value \<Rightarrow> string" where
  "as_string (StringV s) = s"
| "as_string _ = ''''"

definition GetVerifiedWrapperPropertyValue :: "(string, string) RWMap option \<Rightarrow> AwsWrapperProperty \<Rightarrow> prop_value" where
  "GetVerifiedWrapperPropertyValue props prop = convertValue (Property_Get prop props) prop"

definition GetVerifiedWrapperPropertyValueFromMap :: "(string, string) gomap \<Rightarrow> AwsWrapperProperty \<Rightarrow> prop_value" where
  "GetVerifiedWrapperPropertyValueFromMap props prop = convertValue (Property_GetFromMap prop props) prop"

definition GetPositiveIntProperty :: "(string, string) RWMap option \<Rightarrow> AwsWrapperProperty \<Rightarrow> go_error + int" where
  "GetPositiveIntProperty props prop =
     (let val = as_int (GetVerifiedWrapperPropertyValue props prop)
      in if val < 0 then Inl (NewGenericAwsWrapperError ''AwsWrapperProperty.requiresNonNegativeIntValue'') else Inr val)"

section \<open>The table\<close>

definition USER :: AwsWrapperProperty where
  "USER = \<lparr>propName = ''user'', defaultValue = '''', wrapperPropertyType = WRAPPER_TYPE_STRING\<rparr>"

definition PASSWORD :: AwsWrapperProperty where
  "PASSWORD = \<lparr>propName = ''password'', defaultValue = '''', wrapperPropertyType = WRAPPER_TYPE_STRING\<rparr>"

definition HOST :: AwsWrapperProperty where
  "HOST = \<lparr>propName = ''host'', defaultValue = '''', wrapperPropertyType = WRAPPER_TYPE_STRING\<rparr>"

definition PORT :: AwsWrapperProperty where
  "PORT = \<lparr>propName = ''port'', defaultValue = '''', wrapperPropertyType = WRAPPER_TYPE_INT\<rparr>"

definition DATABASE :: AwsWrapperProperty where
  "DATABASE = \<lparr>propName = ''database'', defaultValue = '''', wrapperPropertyType = WRAPPER_TYPE_STRING\<rparr>"

definition DRIVER_PROTOCOL :: AwsWrapperProperty where
  "DRIVER_PROTOCOL = \<lparr>propName = ''protocol'', defaultValue = '''', wrapperPropertyType = WRAPPER_TYPE_STRING\<rparr>"

definition NET :: AwsWrapperProperty where
  "NET = \<lparr>propName = ''net'', defaultValue = '''', wrapperPropertyType = WRAPPER_TYPE_STRING\<rparr>"

definition SINGLE_WRITER_DSN :: AwsWrapperProperty where
  "SINGLE_WRITER_DSN = \<lparr>propName = ''singleWriterDsn'', defaultValue = ''false'', wrapperPropertyType = WRAPPER_TYPE_BOOL\<rparr>"

definition PLUGINS :: AwsWrapperProperty where
  "PLUGINS = \<lparr>propName = ''plugins'', defaultValue = DEFAULT_PLUGINS, wrapperPropertyType = WRAPPER_TYPE_STRING\<rparr>"

definition AUTO_SORT_PLUGIN_ORDER :: AwsWrapperProperty where
  "AUTO_SORT_PLUGIN_ORDER = \<lparr>propName = ''autoSortPluginOrder'', defaultValue = ''true'', wrapperPropertyType = WRAPPER_TYPE_BOOL\<rparr>"

definition DIALECT :: AwsWrapperProperty where
  "DIALECT = \<lparr>propName = ''databaseDialect'', defaultValue = '''', wrapperPropertyType = WRAPPER_TYPE_STRING\<rparr>"

definition TARGET_DRIVER_DIALECT :: AwsWrapperProperty where
  "TARGET_DRIVER_DIALECT = \<lparr>propName = ''targetDriverDialect'', defaultValue = '''', wrapperPropertyType = WRAPPER_TYPE_STRING\<rparr>"

definition TARGET_DRIVER_AUTO_REGISTER :: AwsWrapperProperty where
  "TARGET_DRIVER_AUTO_REGISTER = \<lparr>propName = ''targetDriverAutoRegister'', defaultValue = ''true'', wrapperPropertyType = WRAPPER_TYPE_BOOL\<rparr>"

definition CLUSTER_TOPOLOGY_REFRESH_RATE_MS :: AwsWrapperProperty where
  "CLUSTER_TOPOLOGY_REFRESH_RATE_MS = \<lparr>propName = ''clusterTopologyRefreshRateMs'', defaultValue = ''30000'', wrapperPropertyType = WRAPPER_TYPE_INT\<rparr>"

definition CLUSTER_ID :: AwsWrapperProperty where
  "CLUSTER_ID = \<lparr>propName = ''clusterId'', defaultValue = ''1'', wrapperPropertyType = WRAPPER_TYPE_STRING\<rparr>"

definition CLUSTER_INSTANCE_HOST_PATTERN :: AwsWrapperProperty where
  "CLUSTER_INSTANCE_HOST_PATTERN = \<lparr>propName = ''clusterInstanceHostPattern'', defaultValue = '''', wrapperPropertyType = WRAPPER_TYPE_STRING\<rparr>"

definition GLOBAL_CLUSTER_INSTANCE_HOST_PATTERNS :: AwsWrapperProperty where
  "GLOBAL_CLUSTER_INSTANCE_HOST_PATTERNS = \<lparr>propName = ''globalClusterInstanceHostPatterns'', defaultValue = '''', wrapperPropertyType = WRAPPER_TYPE_STRING\<rparr>"

definition FAILURE_DETECTION_TIME_MS :: AwsWrapperProperty where
  "FAILURE_DETECTION_TIME_MS = \<lparr>propName = ''failureDetectionTimeMs'', defaultValue = ''30000'', wrapperPropertyType = WRAPPER_TYPE_INT\<rparr>"

definition FAILURE_DETECTION_INTERVAL_MS :: AwsWrapperProperty where
  "FAILURE_DETECTION_INTERVAL_MS = \<lparr>propName = ''failureDetectionIntervalMs'', defaultValue = ''5000'', wrapperPropertyType = WRAPPER_TYPE_INT\<rparr>"

definition FAILURE_DETECTION_COUNT :: AwsWrapperProperty where
  "FAILURE_DETECTION_COUNT = \<lparr>propName = ''failureDetectionCount'', defaultValue = ''3'', wrapperPropertyType = WRAPPER_TYPE_INT\<rparr>"

definition MONITOR_DISPOSAL_TIME_MS :: AwsWrapperProperty where
  "MONITOR_DISPOSAL_TIME_MS = \<lparr>propName = ''monitorDisposalTimeMs'', defaultValue = ''600000'', wrapperPropertyType = WRAPPER_TYPE_INT\<rparr>"

definition AWS_PROFILE :: AwsWrapperProperty where
  "AWS_PROFILE = \<lparr>propName = ''awsProfile'', defaultValue = '''', wrapperPropertyType = WRAPPER_TYPE_STRING\<rparr>"

definition IAM_HOST :: AwsWrapperProperty where
  "IAM_HOST = \<lparr>propName = ''iamHost'', defaultValue = '''', wrapperPropertyType = WRAPPER_TYPE_STRING\<rparr>"

definition IAM_DEFAULT_PORT :: AwsWrapperProperty where
  "IAM_DEFAULT_PORT = \<lparr>propName = ''iamDefaultPort'', defaultValue = ''-1'', wrapperPropertyType = WRAPPER_TYPE_INT\<rparr>"

definition IAM_REGION :: AwsWrapperProperty where
  "IAM_REGION = \<lparr>propName = ''iamRegion'', defaultValue = '''', wrapperPropertyType = WRAPPER_TYPE_STRING\<rparr>"

definition IAM_EXPIRATION_SEC :: AwsWrapperProperty where
  "IAM_EXPIRATION_SEC = \<lparr>propName = ''iamExpirationSec'', defaultValue = ''870'', wrapperPropertyType = WRAPPER_TYPE_INT\<rparr>"

definition FAILOVER_TIMEOUT_MS :: AwsWrapperProperty where
  "FAILOVER_TIMEOUT_MS = \<lparr>propName = ''failoverTimeoutMs'', defaultValue = ''300000'', wrapperPropertyType = WRAPPER_TYPE_INT\<rparr>"

definition FAILOVER_MODE :: AwsWrapperProperty where
  "FAILOVER_MODE = \<lparr>propName = ''failoverMode'', defaultValue = '''', wrapperPropertyType = WRAPPER_TYPE_STRING\<rparr>"

definition FAILOVER_READER_HOST_SELECTOR_STRATEGY :: AwsWrapperProperty where
  "FAILOVER_READER_HOST_SELECTOR_STRATEGY = \<lparr>propName = ''failoverReaderHostSelectorStrategy'', defaultValue = ''random'', wrapperPropertyType = WRAPPER_TYPE_STRING\<rparr>"

definition GDB_FAILOVER_ACTIVE_HOME_MODE :: AwsWrapperProperty where
  "GDB_FAILOVER_ACTIVE_HOME_MODE = \<lparr>propName = ''activeHomeFailoverMode'', defaultValue = '''', wrapperPropertyType = WRAPPER_TYPE_STRING\<rparr>"

definition GDB_FAILOVER_INACTIVE_HOME_MODE :: AwsWrapperProperty where
  "GDB_FAILOVER_INACTIVE_HOME_MODE = \<lparr>propName = ''inactiveHomeFailoverMode'', defaultValue = '''', wrapperPropertyType = WRAPPER_TYPE_STRING\<rparr>"

definition GDB_FAILOVER_HOME_REGION :: AwsWrapperProperty where
  "GDB_FAILOVER_HOME_REGION = \<lparr>propName = ''failoverHomeRegion'', defaultValue = '''', wrapperPropertyType = WRAPPER_TYPE_STRING\<rparr>"

definition ENABLE_CONNECT_FAILOVER :: AwsWrapperProperty where
  "ENABLE_CONNECT_FAILOVER = \<lparr>propName = ''enableConnectFailover'', defaultValue = ''true'', wrapperPropertyType = WRAPPER_TYPE_BOOL\<rparr>"

definition CLUSTER_TOPOLOGY_HIGH_REFRESH_RATE_MS :: AwsWrapperProperty where
  "CLUSTER_TOPOLOGY_HIGH_REFRESH_RATE_MS = \<lparr>propName = ''clusterTopologyHighRefreshRateMs'', defaultValue = ''100'', wrapperPropertyType = WRAPPER_TYPE_INT\<rparr>"

definition CLUSTER_TOPOLOGY_CONNECT_TIMEOUT_MS :: AwsWrapperProperty where
  "CLUSTER_TOPOLOGY_CONNECT_TIMEOUT_MS = \<lparr>propName = ''clusterTopologyConnectTimeoutMs'', defaultValue = ''5000'', wrapperPropertyType = WRAPPER_TYPE_INT\<rparr>"

definition CLUSTER_TOPOLOGY_SOCKET_TIMEOUT_MS :: AwsWrapperProperty where
  "CLUSTER_TOPOLOGY_SOCKET_TIMEOUT_MS = \<lparr>propName = ''clusterTopologySocketTimeoutMs'', defaultValue = ''5000'', wrapperPropertyType = WRAPPER_TYPE_INT\<rparr>"

definition SECRETS_MANAGER_SECRET_ID :: AwsWrapperProperty where
  "SECRETS_MANAGER_SECRET_ID = \<lparr>propName = ''secretsManagerSecretId'', defaultValue = '''', wrapperPropertyType = WRAPPER_TYPE_STRING\<rparr>"

definition SECRETS_MANAGER_REGION :: AwsWrapperProperty where
  "SECRETS_MANAGER_REGION = \<lparr>propName = ''secretsManagerRegion'', defaultValue = ''us-east-1'', wrapperPropertyType = WRAPPER_TYPE_STRING\<rparr>"

definition SECRETS_MANAGER_ENDPOINT :: AwsWrapperProperty where
  "SECRETS_MANAGER_ENDPOINT = \<lparr>propName = ''secretsManagerEndpoint'', defaultValue = '''', wrapperPropertyType = WRAPPER_TYPE_STRING\<rparr>"

definition SECRETS_MANAGER_EXPIRATION_SEC :: AwsWrapperProperty where
  "SECRETS_MANAGER_EXPIRATION_SEC = \<lparr>propName = ''secretsManagerExpirationSec'', defaultValue = ''870'', wrapperPropertyType = WRAPPER_TYPE_INT\<rparr>"

definition SECRETS_MANAGER_SECRET_USERNAME_PROPERTY :: AwsWrapperProperty where
  "SECRETS_MANAGER_SECRET_USERNAME_PROPERTY = \<lparr>propName = ''secretsManagerSecretUsernameProperty'', defaultValue = ''username'', wrapperPropertyType = WRAPPER_TYPE_STRING\<rparr>"

definition SECRETS_MANAGER_SECRET_PASSWORD_PROPERTY :: AwsWrapperProperty where
  "SECRETS_MANAGER_SECRET_PASSWORD_PROPERTY = \<lparr>propName = ''secretsManagerSecretPasswordProperty'', defaultValue = ''password'', wrapperPropertyType = WRAPPER_TYPE_STRING\<rparr>"

definition WEIGHTED_RANDOM_HOST_WEIGHT_PAIRS :: AwsWrapperProperty where
  "WEIGHTED_RANDOM_HOST_WEIGHT_PAIRS = \<lparr>propName = ''weightedRandomHostWeightPairs'', defaultValue = '''', wrapperPropertyType = WRAPPER_TYPE_STRING\<rparr>"

definition IAM_TOKEN_EXPIRATION_SEC :: AwsWrapperProperty where
  "IAM_TOKEN_EXPIRATION_SEC = \<lparr>propName = ''iamTokenExpirationSec'', defaultValue = ''870'', wrapperPropertyType = WRAPPER_TYPE_INT\<rparr>"

definition IDP_USERNAME :: AwsWrapperProperty where
  "IDP_USERNAME = \<lparr>propName = ''idpUsername'', defaultValue = '''', wrapperPropertyType = WRAPPER_TYPE_STRING\<rparr>"

definition IDP_PASSWORD :: AwsWrapperProperty where
  "IDP_PASSWORD = \<lparr>propName = ''idpPassword'', defaultValue = '''', wrapperPropertyType = WRAPPER_TYPE_STRING\<rparr>"

definition IDP_PORT :: AwsWrapperProperty where
  "IDP_PORT = \<lparr>propName = ''idpPort'', defaultValue = ''443'', wrapperPropertyType = WRAPPER_TYPE_STRING\<rparr>"

definition IAM_ROLE_ARN :: AwsWrapperProperty where
  "IAM_ROLE_ARN = \<lparr>propName = ''iamRoleArn'', defaultValue = '''', wrapperPropertyType = WRAPPER_TYPE_STRING\<rparr>"

definition IAM_IDP_ARN :: AwsWrapperProperty where
  "IAM_IDP_ARN = \<lparr>propName = ''iamIdpArn'', defaultValue = '''', wrapperPropertyType = WRAPPER_TYPE_STRING\<rparr>"

definition IDP_ENDPOINT :: AwsWrapperProperty where
  "IDP_ENDPOINT = \<lparr>propName = ''idpEndpoint'', defaultValue = '''', wrapperPropertyType = WRAPPER_TYPE_STRING\<rparr>"

definition RELAYING_PARTY_ID :: AwsWrapperProperty where
  "RELAYING_PARTY_ID = \<lparr>propName = ''rpIdentifier'', defaultValue = ''urn:amazon:webservices'', wrapperPropertyType = WRAPPER_TYPE_STRING\<rparr>"

definition DB_USER :: AwsWrapperProperty where
  "DB_USER = \<lparr>propName = ''dbUser'', defaultValue = '''', wrapperPropertyType = WRAPPER_TYPE_STRING\<rparr>"

definition APP_ID :: AwsWrapperProperty where
  "APP_ID = \<lparr>propName = ''appId'', defaultValue = '''', wrapperPropertyType = WRAPPER_TYPE_STRING\<rparr>"

definition HTTP_TIMEOUT_MS :: AwsWrapperProperty where
  "HTTP_TIMEOUT_MS = \<lparr>propName = ''httpTimeoutMs'', defaultValue = ''60000'', wrapperPropertyType = WRAPPER_TYPE_INT\<rparr>"

definition SSL_INSECURE :: AwsWrapperProperty where
  "SSL_INSECURE = \<lparr>propName = ''sslInsecure'', defaultValue = ''false'', wrapperPropertyType = WRAPPER_TYPE_BOOL\<rparr>"

definition ENABLE_TELEMETRY :: AwsWrapperProperty where
  "ENABLE_TELEMETRY = \<lparr>propName = ''enableTelemetry'', defaultValue = ''false'', wrapperPropertyType = WRAPPER_TYPE_BOOL\<rparr>"

definition TELEMETRY_SUBMIT_TOP_LEVEL :: AwsWrapperProperty where
  "TELEMETRY_SUBMIT_TOP_LEVEL = \<lparr>propName = ''telemetrySubmitToplevel'', defaultValue = ''false'', wrapperPropertyType = WRAPPER_TYPE_BOOL\<rparr>"

definition TELEMETRY_TRACES_BACKEND :: AwsWrapperProperty where
  "TELEMETRY_TRACES_BACKEND = \<lparr>propName = ''telemetryTracesBackend'', defaultValue = '''', wrapperPropertyType = WRAPPER_TYPE_STRING\<rparr>"

definition TELEMETRY_METRICS_BACKEND :: AwsWrapperProperty where
  "TELEMETRY_METRICS_BACKEND = \<lparr>propName = ''telemetryMetricsBackend'', defaultValue = '''', wrapperPropertyType = WRAPPER_TYPE_STRING\<rparr>"

definition TELEMETRY_FAILOVER_ADDITIONAL_TOP_TRACE :: AwsWrapperProperty where
  "TELEMETRY_FAILOVER_ADDITIONAL_TOP_TRACE = \<lparr>propName = ''telemetryFailoverAdditionalTopTrace'', defaultValue = ''false'', wrapperPropertyType = WRAPPER_TYPE_BOOL\<rparr>"

definition LIMITLESS_MONITORING_INTERVAL_MS :: AwsWrapperProperty where
  "LIMITLESS_MONITORING_INTERVAL_MS = \<lparr>propName = ''limitlessMonitoringIntervalMs'', defaultValue = ''7500'', wrapperPropertyType = WRAPPER_TYPE_INT\<rparr>"

definition LIMITLESS_MONITORING_DISPOSAL_TIME_MS :: AwsWrapperProperty where
  "LIMITLESS_MONITORING_DISPOSAL_TIME_MS = \<lparr>propName = ''limitlessTransactionRouterMonitorDisposalTimeMs'', defaultValue = ''600000'', wrapperPropertyType = WRAPPER_TYPE_INT\<rparr>"

definition LIMITLESS_ROUTER_CACHE_EXPIRATION_TIME_MS :: AwsWrapperProperty where
  "LIMITLESS_ROUTER_CACHE_EXPIRATION_TIME_MS = \<lparr>propName = ''limitlessTransactionRouterCacheExpirationTimeMs'', defaultValue = ''600000'', wrapperPropertyType = WRAPPER_TYPE_INT\<rparr>"

definition LIMITLESS_WAIT_FOR_ROUTER_INFO :: AwsWrapperProperty where
  "LIMITLESS_WAIT_FOR_ROUTER_INFO = \<lparr>propName = ''limitlessWaitForTransactionRouterInfo'', defaultValue = ''true'', wrapperPropertyType = WRAPPER_TYPE_BOOL\<rparr>"

definition LIMITLESS_GET_ROUTER_MAX_RETRIES :: AwsWrapperProperty where
  "LIMITLESS_GET_ROUTER_MAX_RETRIES = \<lparr>propName = ''limitlessGetTransactionRouterInfoMaxRetries'', defaultValue = ''5'', wrapperPropertyType = WRAPPER_TYPE_INT\<rparr>"

definition LIMITLESS_GET_ROUTER_RETRY_INTERVAL_MS :: AwsWrapperProperty where
  "LIMITLESS_GET_ROUTER_RETRY_INTERVAL_MS = \<lparr>propName = ''limitlessGetTransactionRouterInfoRetryIntervalMs'', defaultValue = ''500'', wrapperPropertyType = WRAPPER_TYPE_INT\<rparr>"

definition LIMITLESS_MAX_CONN_RETRIES :: AwsWrapperProperty where
  "LIMITLESS_MAX_CONN_RETRIES = \<lparr>propName = ''limitlessConnectMaxRetries'', defaultValue = ''5'', wrapperPropertyType = WRAPPER_TYPE_INT\<rparr>"

definition LIMITLESS_ROUTER_QUERY_TIMEOUT_MS :: AwsWrapperProperty where
  "LIMITLESS_ROUTER_QUERY_TIMEOUT_MS = \<lparr>propName = ''limitlessTransactionRouterFetchTimeoutMs'', defaultValue = ''5000'', wrapperPropertyType = WRAPPER_TYPE_INT\<rparr>"

definition LIMITLESS_USE_SHARD_GROUP_URL :: AwsWrapperProperty where
  "LIMITLESS_USE_SHARD_GROUP_URL = \<lparr>propName = ''limitlessUseShardGroupUrl'', defaultValue = ''true'', wrapperPropertyType = WRAPPER_TYPE_BOOL\<rparr>"

definition TRANSFER_SESSION_STATE_ON_SWITCH :: AwsWrapperProperty where
  "TRANSFER_SESSION_STATE_ON_SWITCH = \<lparr>propName = ''transferSessionStateOnSwitch'', defaultValue = ''true'', wrapperPropertyType = WRAPPER_TYPE_BOOL\<rparr>"

definition RESET_SESSION_STATE_ON_CLOSE :: AwsWrapperProperty where
  "RESET_SESSION_STATE_ON_CLOSE = \<lparr>propName = ''resetSessionStateOnClose'', defaultValue = ''true'', wrapperPropertyType = WRAPPER_TYPE_BOOL\<rparr>"

definition ROLLBACK_ON_SWITCH :: AwsWrapperProperty where
  "ROLLBACK_ON_SWITCH = \<lparr>propName = ''rollbackOnSwitch'', defaultValue = ''true'', wrapperPropertyType = WRAPPER_TYPE_BOOL\<rparr>"

definition READER_HOST_SELECTOR_STRATEGY :: AwsWrapperProperty where
  "READER_HOST_SELECTOR_STRATEGY = \<lparr>propName = ''readerHostSelectorStrategy'', defaultValue = ''random'', wrapperPropertyType = WRAPPER_TYPE_STRING\<rparr>"

definition GDB_RW_HOME_REGION :: AwsWrapperProperty where
  "GDB_RW_HOME_REGION = \<lparr>propName = ''gdbRwHomeRegion'', defaultValue = '''', wrapperPropertyType = WRAPPER_TYPE_STRING\<rparr>"

definition GDB_RW_RESTRICT_WRITER_TO_HOME_REGION :: AwsWrapperProperty where
  "GDB_RW_RESTRICT_WRITER_TO_HOME_REGION = \<lparr>propName = ''gdbRwRestrictWriterToHomeRegion'', defaultValue = ''true'', wrapperPropertyType = WRAPPER_TYPE_BOOL\<rparr>"

definition GDB_RW_RESTRICT_READER_TO_HOME_REGION :: AwsWrapperProperty where
  "GDB_RW_RESTRICT_READER_TO_HOME_REGION = \<lparr>propName = ''gdbRwRestrictReaderToHomeRegion'', defaultValue = ''true'', wrapperPropertyType = WRAPPER_TYPE_BOOL\<rparr>"

definition BG_CONNECT_TIMEOUT_MS :: AwsWrapperProperty where
  "BG_CONNECT_TIMEOUT_MS = \<lparr>propName = ''bgConnectTimeoutMs'', defaultValue = ''30000'', wrapperPropertyType = WRAPPER_TYPE_INT\<rparr>"

definition BGD_ID :: AwsWrapperProperty where
  "BGD_ID = \<lparr>propName = ''bgdId'', defaultValue = ''1'', wrapperPropertyType = WRAPPER_TYPE_STRING\<rparr>"

definition BG_INTERVAL_BASELINE_MS :: AwsWrapperProperty where
  "BG_INTERVAL_BASELINE_MS = \<lparr>propName = ''bgBaselineMs'', defaultValue = ''60000'', wrapperPropertyType = WRAPPER_TYPE_INT\<rparr>"

definition BG_INTERVAL_INCREASED_MS :: AwsWrapperProperty where
  "BG_INTERVAL_INCREASED_MS = \<lparr>propName = ''bgIncreasedMs'', defaultValue = ''1000'', wrapperPropertyType = WRAPPER_TYPE_INT\<rparr>"

definition BG_INTERVAL_HIGH_MS :: AwsWrapperProperty where
  "BG_INTERVAL_HIGH_MS = \<lparr>propName = ''bgHighMs'', defaultValue = ''100'', wrapperPropertyType = WRAPPER_TYPE_INT\<rparr>"

definition BG_SWITCHOVER_TIMEOUT_MS :: AwsWrapperProperty where
  "BG_SWITCHOVER_TIMEOUT_MS = \<lparr>propName = ''bgSwitchoverTimeoutMs'', defaultValue = ''180000'', wrapperPropertyType = WRAPPER_TYPE_INT\<rparr>"

definition BG_SUSPEND_NEW_BLUE_CONNECTIONS :: AwsWrapperProperty where
  "BG_SUSPEND_NEW_BLUE_CONNECTIONS = \<lparr>propName = ''bgSuspendNewBlueConnections'', defaultValue = ''false'', wrapperPropertyType = WRAPPER_TYPE_BOOL\<rparr>"

definition ROUND_ROBIN_HOST_WEIGHT_PAIRS :: AwsWrapperProperty where
  "ROUND_ROBIN_HOST_WEIGHT_PAIRS = \<lparr>propName = ''roundRobinHostWeightPairs'', defaultValue = '''', wrapperPropertyType = WRAPPER_TYPE_UNSET\<rparr>"

definition ROUND_ROBIN_DEFAULT_WEIGHT :: AwsWrapperProperty where
  "ROUND_ROBIN_DEFAULT_WEIGHT = \<lparr>propName = ''roundRobinDefaultWeight'', defaultValue = ''1'', wrapperPropertyType = WRAPPER_TYPE_INT\<rparr>"

definition CUSTOM_ENDPOINT_INFO_REFRESH_RATE_MS :: AwsWrapperProperty where
  "CUSTOM_ENDPOINT_INFO_REFRESH_RATE_MS = \<lparr>propName = ''customEndpointInfoRefreshRateMs'', defaultValue = ''30000'', wrapperPropertyType = WRAPPER_TYPE_INT\<rparr>"

definition WAIT_FOR_CUSTOM_ENDPOINT_INFO :: AwsWrapperProperty where
  "WAIT_FOR_CUSTOM_ENDPOINT_INFO = \<lparr>propName = ''waitForCustomEndpointInfo'', defaultValue = ''true'', wrapperPropertyType = WRAPPER_TYPE_BOOL\<rparr>"

definition WAIT_FOR_CUSTOM_ENDPOINT_INFO_TIMEOUT_MS :: AwsWrapperProperty where
  "WAIT_FOR_CUSTOM_ENDPOINT_INFO_TIMEOUT_MS = \<lparr>propName = ''waitForCustomEndpointInfoTimeoutMs'', defaultValue = ''5000'', wrapperPropertyType = WRAPPER_TYPE_INT\<rparr>"

definition CUSTOM_ENDPOINT_MONITOR_IDLE_EXPIRATION_MS :: AwsWrapperProperty where
  "CUSTOM_ENDPOINT_MONITOR_IDLE_EXPIRATION_MS = \<lparr>propName = ''customEndpointMonitorExpirationMs'', defaultValue = ''900000'', wrapperPropertyType = WRAPPER_TYPE_INT\<rparr>"

definition CUSTOM_ENDPOINT_REGION_PROPERTY :: AwsWrapperProperty where
  "CUSTOM_ENDPOINT_REGION_PROPERTY = \<lparr>propName = ''customEndpointRegion'', defaultValue = '''', wrapperPropertyType = WRAPPER_TYPE_STRING\<rparr>"

definition READER_INITIAL_CONN_HOST_SELECTOR_STRATEGY :: AwsWrapperProperty where
  "READER_INITIAL_CONN_HOST_SELECTOR_STRATEGY = \<lparr>propName = ''readerInitialConnectionHostSelectorStrategy'', defaultValue = ''random'', wrapperPropertyType = WRAPPER_TYPE_STRING\<rparr>"

definition INITIAL_CONNECTION_RETRY_TIMEOUT_MS :: AwsWrapperProperty where
  "INITIAL_CONNECTION_RETRY_TIMEOUT_MS = \<lparr>propName = ''initialConnectionRetryTimeoutMs'', defaultValue = ''30000'', wrapperPropertyType = WRAPPER_TYPE_INT\<rparr>"

definition INITIAL_CONNECTION_RETRY_INTERVAL_MS :: AwsWrapperProperty where
  "INITIAL_CONNECTION_RETRY_INTERVAL_MS = \<lparr>propName = ''initialConnectionRetryIntervalMs'', defaultValue = ''1000'', wrapperPropertyType = WRAPPER_TYPE_INT\<rparr>"

definition VERIFY_INITIAL_CONNECTION_TYPE :: AwsWrapperProperty where
  "VERIFY_INITIAL_CONNECTION_TYPE = \<lparr>propName = ''verifyInitialConnectionType'', defaultValue = '''', wrapperPropertyType = WRAPPER_TYPE_STRING\<rparr>"

text \<open>Every property the file declares, in its order.\<close>

definition all_properties :: "AwsWrapperProperty list" where
  "all_properties =
     [USER, PASSWORD, HOST, PORT, DATABASE, DRIVER_PROTOCOL, NET, SINGLE_WRITER_DSN, PLUGINS,
      AUTO_SORT_PLUGIN_ORDER, DIALECT, TARGET_DRIVER_DIALECT, TARGET_DRIVER_AUTO_REGISTER,
      CLUSTER_TOPOLOGY_REFRESH_RATE_MS, CLUSTER_ID, CLUSTER_INSTANCE_HOST_PATTERN,
      GLOBAL_CLUSTER_INSTANCE_HOST_PATTERNS, FAILURE_DETECTION_TIME_MS, FAILURE_DETECTION_INTERVAL_MS,
      FAILURE_DETECTION_COUNT, MONITOR_DISPOSAL_TIME_MS, AWS_PROFILE, IAM_HOST, IAM_DEFAULT_PORT, IAM_REGION,
      IAM_EXPIRATION_SEC, FAILOVER_TIMEOUT_MS, FAILOVER_MODE, FAILOVER_READER_HOST_SELECTOR_STRATEGY,
      GDB_FAILOVER_ACTIVE_HOME_MODE, GDB_FAILOVER_INACTIVE_HOME_MODE, GDB_FAILOVER_HOME_REGION,
      ENABLE_CONNECT_FAILOVER, CLUSTER_TOPOLOGY_HIGH_REFRESH_RATE_MS, CLUSTER_TOPOLOGY_CONNECT_TIMEOUT_MS,
      CLUSTER_TOPOLOGY_SOCKET_TIMEOUT_MS, SECRETS_MANAGER_SECRET_ID, SECRETS_MANAGER_REGION,
      SECRETS_MANAGER_ENDPOINT, SECRETS_MANAGER_EXPIRATION_SEC, SECRETS_MANAGER_SECRET_USERNAME_PROPERTY,
      SECRETS_MANAGER_SECRET_PASSWORD_PROPERTY, WEIGHTED_RANDOM_HOST_WEIGHT_PAIRS, IAM_TOKEN_EXPIRATION_SEC,
      IDP_USERNAME, IDP_PASSWORD, IDP_PORT, IAM_ROLE_ARN, IAM_IDP_ARN, IDP_ENDPOINT, RELAYING_PARTY_ID, DB_USER,
      APP_ID, HTTP_TIMEOUT_MS, SSL_INSECURE, ENABLE_TELEMETRY, TELEMETRY_SUBMIT_TOP_LEVEL,
      TELEMETRY_TRACES_BACKEND, TELEMETRY_METRICS_BACKEND, TELEMETRY_FAILOVER_ADDITIONAL_TOP_TRACE,
      LIMITLESS_MONITORING_INTERVAL_MS, LIMITLESS_MONITORING_DISPOSAL_TIME_MS,
      LIMITLESS_ROUTER_CACHE_EXPIRATION_TIME_MS, LIMITLESS_WAIT_FOR_ROUTER_INFO, LIMITLESS_GET_ROUTER_MAX_RETRIES,
      LIMITLESS_GET_ROUTER_RETRY_INTERVAL_MS, LIMITLESS_MAX_CONN_RETRIES, LIMITLESS_ROUTER_QUERY_TIMEOUT_MS,
      LIMITLESS_USE_SHARD_GROUP_URL, TRANSFER_SESSION_STATE_ON_SWITCH, RESET_SESSION_STATE_ON_CLOSE,
      ROLLBACK_ON_SWITCH, READER_HOST_SELECTOR_STRATEGY, GDB_RW_HOME_REGION, GDB_RW_RESTRICT_WRITER_TO_HOME_REGION,
      GDB_RW_RESTRICT_READER_TO_HOME_REGION, BG_CONNECT_TIMEOUT_MS, BGD_ID, BG_INTERVAL_BASELINE_MS,
      BG_INTERVAL_INCREASED_MS, BG_INTERVAL_HIGH_MS, BG_SWITCHOVER_TIMEOUT_MS, BG_SUSPEND_NEW_BLUE_CONNECTIONS,
      ROUND_ROBIN_HOST_WEIGHT_PAIRS, ROUND_ROBIN_DEFAULT_WEIGHT, CUSTOM_ENDPOINT_INFO_REFRESH_RATE_MS,
      WAIT_FOR_CUSTOM_ENDPOINT_INFO, WAIT_FOR_CUSTOM_ENDPOINT_INFO_TIMEOUT_MS,
      CUSTOM_ENDPOINT_MONITOR_IDLE_EXPIRATION_MS, CUSTOM_ENDPOINT_REGION_PROPERTY,
      READER_INITIAL_CONN_HOST_SELECTOR_STRATEGY, INITIAL_CONNECTION_RETRY_TIMEOUT_MS,
      INITIAL_CONNECTION_RETRY_INTERVAL_MS, VERIFY_INITIAL_CONNECTION_TYPE]"

text \<open>The table of property names the driver keeps for itself.\<close>

definition kept_properties :: "AwsWrapperProperty list" where
  "kept_properties =
     [USER, PASSWORD, HOST, PORT, DATABASE, DRIVER_PROTOCOL, NET, SINGLE_WRITER_DSN, PLUGINS,
      AUTO_SORT_PLUGIN_ORDER, DIALECT, TARGET_DRIVER_DIALECT, TARGET_DRIVER_AUTO_REGISTER,
      CLUSTER_TOPOLOGY_REFRESH_RATE_MS, CLUSTER_ID, CLUSTER_INSTANCE_HOST_PATTERN,
      GLOBAL_CLUSTER_INSTANCE_HOST_PATTERNS, AWS_PROFILE, IAM_HOST, IAM_EXPIRATION_SEC, IAM_REGION,
      IAM_DEFAULT_PORT, SECRETS_MANAGER_SECRET_ID, SECRETS_MANAGER_REGION, SECRETS_MANAGER_ENDPOINT,
      SECRETS_MANAGER_EXPIRATION_SEC, SECRETS_MANAGER_SECRET_USERNAME_PROPERTY,
      SECRETS_MANAGER_SECRET_PASSWORD_PROPERTY, FAILURE_DETECTION_TIME_MS, FAILURE_DETECTION_INTERVAL_MS,
      FAILURE_DETECTION_COUNT, MONITOR_DISPOSAL_TIME_MS, FAILOVER_TIMEOUT_MS, FAILOVER_MODE,
      FAILOVER_READER_HOST_SELECTOR_STRATEGY, GDB_FAILOVER_ACTIVE_HOME_MODE, GDB_FAILOVER_INACTIVE_HOME_MODE,
      GDB_FAILOVER_HOME_REGION, ENABLE_CONNECT_FAILOVER, CLUSTER_TOPOLOGY_HIGH_REFRESH_RATE_MS,
      CLUSTER_TOPOLOGY_CONNECT_TIMEOUT_MS, CLUSTER_TOPOLOGY_SOCKET_TIMEOUT_MS, WEIGHTED_RANDOM_HOST_WEIGHT_PAIRS,
      IAM_TOKEN_EXPIRATION_SEC, IDP_USERNAME, IDP_PASSWORD, IDP_PORT, IAM_ROLE_ARN, IAM_IDP_ARN, IDP_ENDPOINT,
      RELAYING_PARTY_ID, DB_USER, APP_ID, HTTP_TIMEOUT_MS, SSL_INSECURE, ENABLE_TELEMETRY,
      TELEMETRY_SUBMIT_TOP_LEVEL, TELEMETRY_TRACES_BACKEND, TELEMETRY_METRICS_BACKEND,
      TELEMETRY_FAILOVER_ADDITIONAL_TOP_TRACE, LIMITLESS_MONITORING_INTERVAL_MS,
      LIMITLESS_MONITORING_DISPOSAL_TIME_MS, LIMITLESS_ROUTER_CACHE_EXPIRATION_TIME_MS,
      LIMITLESS_WAIT_FOR_ROUTER_INFO, LIMITLESS_GET_ROUTER_MAX_RETRIES, LIMITLESS_GET_ROUTER_RETRY_INTERVAL_MS,
      LIMITLESS_MAX_CONN_RETRIES, LIMITLESS_ROUTER_QUERY_TIMEOUT_MS, TRANSFER_SESSION_STATE_ON_SWITCH,
      RESET_SESSION_STATE_ON_CLOSE, ROLLBACK_ON_SWITCH, READER_HOST_SELECTOR_STRATEGY, GDB_RW_HOME_REGION,
      GDB_RW_RESTRICT_WRITER_TO_HOME_REGION, GDB_RW_RESTRICT_READER_TO_HOME_REGION, BG_CONNECT_TIMEOUT_MS, BGD_ID,
      BG_INTERVAL_BASELINE_MS, BG_INTERVAL_INCREASED_MS, BG_INTERVAL_HIGH_MS, BG_SWITCHOVER_TIMEOUT_MS,
      BG_SUSPEND_NEW_BLUE_CONNECTIONS, CUSTOM_ENDPOINT_INFO_REFRESH_RATE_MS, WAIT_FOR_CUSTOM_ENDPOINT_INFO,
      WAIT_FOR_CUSTOM_ENDPOINT_INFO_TIMEOUT_MS, CUSTOM_ENDPOINT_MONITOR_IDLE_EXPIRATION_MS,
      CUSTOM_ENDPOINT_REGION_PROPERTY, READER_INITIAL_CONN_HOST_SELECTOR_STRATEGY,
      INITIAL_CONNECTION_RETRY_TIMEOUT_MS, INITIAL_CONNECTION_RETRY_INTERVAL_MS, VERIFY_INITIAL_CONNECTION_TYPE]"

definition ALL_WRAPPER_PROPERTIES :: "string list" where
  "ALL_WRAPPER_PROPERTIES = map propName kept_properties"

definition GetHttpTimeoutValue :: "(string, string) RWMap option \<Rightarrow> int" where
  "GetHttpTimeoutValue props = as_int (GetVerifiedWrapperPropertyValue props HTTP_TIMEOUT_MS)"

definition GetExpirationValue :: "(string, string) RWMap option \<Rightarrow> AwsWrapperProperty \<Rightarrow> int" where
  "GetExpirationValue props prop = as_int (GetVerifiedWrapperPropertyValue props prop)"

definition GetRefreshRateValue :: "(string, string) RWMap option \<Rightarrow> AwsWrapperProperty \<Rightarrow> int" where
  "GetRefreshRateValue props prop = as_int (GetVerifiedWrapperPropertyValue props prop)"

section \<open>Internal properties\<close>

definition startsWithPrefix :: "string \<Rightarrow> bool" where
  "startsWithPrefix key = list_ex (HasPrefix key) INTERNAL_PROPS_PREFIXES"

definition RemoveInternalAwsWrapperProperties :: "(string, string) gomap \<Rightarrow> (string, string) gomap" where
  "RemoveInternalAwsWrapperProperties props = filter (\<lambda>(key, _). \<not> startsWithPrefix key) props"

section \<open>The table is well declared\<close>

lemma dec_val_bound: "list_all is_digit s \<Longrightarrow> dec_val s < 10 ^ length s"
proof (induction s rule: rev_induct)
  case (snoc c s)
  then have "dec_val s < 10 ^ length s" "digit_val c < 10" by (auto simp: digit_val_def is_digit_def)
  then show ?case by (simp add: dec_val_snoc)
qed (simp add: dec_val_def)

lemma Atoi_short:
  assumes "s \<noteq> []" "list_all is_digit s" "length s \<le> 18"
  shows "Atoi s = Some (int (dec_val s))"
proof -
  obtain c r where s: "s = c # r" using assms(1) by (cases s) auto
  then have "c \<noteq> CHR ''-''" "c \<noteq> CHR ''+''" using assms(2) not_digit_sign by auto
  moreover have "int (dec_val s) < 10 ^ 18"
  proof -
    have "dec_val s < 10 ^ length s" using dec_val_bound assms(2) .
    also have "(10::nat) ^ length s \<le> 10 ^ 18" using assms(3) by (intro power_increasing) auto
    finally show ?thesis by simp
  qed
  ultimately show ?thesis
    using assms s by (simp add: Atoi_def Let_def in_int64_def MaxInt64_def MinInt64_def)
qed

lemma property_names_distinct: "distinct (map propName all_properties)"
  by code_simp

definition plain_number :: "string \<Rightarrow> bool" where
  "plain_number s \<longleftrightarrow> s \<noteq> [] \<and> list_all is_digit s \<and> length s \<le> 18 \<or> s = ''-1''"

definition well_declared :: "AwsWrapperProperty \<Rightarrow> bool" where
  "well_declared p =
     (case wrapperPropertyType p of
        WRAPPER_TYPE_INT \<Rightarrow> plain_number (defaultValue p)
      | WRAPPER_TYPE_BOOL \<Rightarrow> ParseBool (defaultValue p) \<noteq> None
      | _ \<Rightarrow> True)"

lemma all_well_declared: "list_all (\<lambda>p. well_declared p \<or> p = PORT) all_properties"
  by code_simp

lemma missing_properties:
  assumes "p \<in> set all_properties"
  shows "propName p \<in> set ALL_WRAPPER_PROPERTIES \<or>
    p \<in> {LIMITLESS_USE_SHARD_GROUP_URL, ROUND_ROBIN_HOST_WEIGHT_PAIRS, ROUND_ROBIN_DEFAULT_WEIGHT}"
proof -
  have "set all_properties \<subseteq> set kept_properties \<union> {LIMITLESS_USE_SHARD_GROUP_URL, ROUND_ROBIN_HOST_WEIGHT_PAIRS, ROUND_ROBIN_DEFAULT_WEIGHT}"
    unfolding all_properties_def kept_properties_def by simp
  with assms show ?thesis by (auto simp: ALL_WRAPPER_PROPERTIES_def)
qed

lemma not_kept:
  "propName ROUND_ROBIN_HOST_WEIGHT_PAIRS \<notin> set ALL_WRAPPER_PROPERTIES"
  "propName ROUND_ROBIN_DEFAULT_WEIGHT \<notin> set ALL_WRAPPER_PROPERTIES"
  by code_simp+

lemma default_parses:
  assumes "p \<in> set all_properties"
  shows "(case wrapperPropertyType p of
            WRAPPER_TYPE_INT \<Rightarrow> \<exists>n. Atoi (defaultValue p) = Some n \<or> p = PORT
          | WRAPPER_TYPE_BOOL \<Rightarrow> \<exists>b. ParseBool (defaultValue p) = Some b
          | _ \<Rightarrow> True)"
proof -
  have "Atoi ''-1'' = Some (- 1)" by code_simp
  moreover have "well_declared p \<or> p = PORT" using all_well_declared assms by (auto simp: list_all_iff)
  ultimately show ?thesis
    using Atoi_short by (auto simp: well_declared_def plain_number_def PORT_def split: WrapperPropertyType.splits)
qed

lemma Atoi_range: "Atoi s = Some n \<Longrightarrow> in_int64 n"
  by (auto simp: Atoi_def Let_def split: if_splits)

lemma property_eq_iff: "p \<in> set all_properties \<Longrightarrow> q \<in> set all_properties \<Longrightarrow> propName p = propName q \<longleftrightarrow> p = q"
  using property_names_distinct by (auto simp: distinct_map inj_on_def)

lemma RemoveInternal_lookup:
  "map_of (RemoveInternalAwsWrapperProperties props) k = (if startsWithPrefix k then None else map_of props k)"
  by (induction props) (auto simp: RemoveInternalAwsWrapperProperties_def)

section \<open>Properties\<close>

text \<open>Reading a property of the table gives a value of the type it declares, within 64 bits for a
  number: the configured value if it has that type and otherwise the default, which parses for every property but
  the port, which has none and reads as 0. Setting a property changes what reading it gives and no other one.\<close>
theorem GetVerifiedWrapperPropertyValue_typed:
  assumes "p \<in> set all_properties" "q \<in> set all_properties"
  shows "(wrapperPropertyType p = WRAPPER_TYPE_INT \<longrightarrow>
            (\<exists>n. GetVerifiedWrapperPropertyValue props p = IntV n \<and> in_int64 n \<and>
               Some n = (case Atoi (Property_Get p props) of
                           Some k \<Rightarrow> Some k | None \<Rightarrow> if p = PORT then Some 0 else Atoi (defaultValue p)))) \<and>
         (wrapperPropertyType p = WRAPPER_TYPE_BOOL \<longrightarrow>
            (\<exists>b. GetVerifiedWrapperPropertyValue props p = BoolV b \<and>
               Some b = (case ParseBool (Property_Get p props) of Some c \<Rightarrow> Some c | None \<Rightarrow> ParseBool (defaultValue p)))) \<and>
         (wrapperPropertyType p \<in> {WRAPPER_TYPE_STRING, WRAPPER_TYPE_UNSET} \<longrightarrow>
            GetVerifiedWrapperPropertyValue props p = StringV (Property_Get p props)) \<and>
         Property_Get p (Some (Property_Set q v m)) = (if p = q then v else Property_Get p (Some m))"
proof -
  have "Atoi '''' = None" by code_simp
  moreover have "in_int64 0" by code_simp
  moreover have "Property_Get p (Some (Property_Set q v m)) = (if p = q then v else Property_Get p (Some m))"
    using property_eq_iff [OF assms] by (auto simp: Property_Get_def Property_Set_def RWMap_Put_def RWMap_Get_def)
  ultimately show ?thesis
    using default_parses [OF assms(1)]
    by (cases "wrapperPropertyType p")
      (auto simp: GetVerifiedWrapperPropertyValue_def convertValue_def PORT_def Atoi_range split: option.splits)
qed

lemma GetVerifiedWrapperPropertyValue_typed_witness:
  "as_bool (GetVerifiedWrapperPropertyValue (Some (Property_Set ROLLBACK_ON_SWITCH ''no'' NewRWMap)) ROLLBACK_ON_SWITCH) = True \<and>
   Property_Get PLUGINS (Some (Property_Set ROLLBACK_ON_SWITCH ''no'' NewRWMap)) = DEFAULT_PLUGINS"
proof -
  have p: "ROLLBACK_ON_SWITCH \<in> set all_properties" "PLUGINS \<in> set all_properties" by (simp_all add: all_properties_def)
  have t: "wrapperPropertyType ROLLBACK_ON_SWITCH = WRAPPER_TYPE_BOOL" by (simp add: ROLLBACK_ON_SWITCH_def)
  have b: "ParseBool ''no'' = None" "ParseBool (defaultValue ROLLBACK_ON_SWITCH) = Some True" by code_simp+
  have "Property_Get ROLLBACK_ON_SWITCH (Some (Property_Set ROLLBACK_ON_SWITCH ''no'' NewRWMap)) = ''no''"
    using GetVerifiedWrapperPropertyValue_typed [OF p(1) p(1)] by simp
  with t b have "as_bool (GetVerifiedWrapperPropertyValue (Some (Property_Set ROLLBACK_ON_SWITCH ''no'' NewRWMap)) ROLLBACK_ON_SWITCH) = True"
    using GetVerifiedWrapperPropertyValue_typed [OF p(1) p(1), of "Some (Property_Set ROLLBACK_ON_SWITCH ''no'' NewRWMap)" "''no''" NewRWMap] by auto
  moreover have "PLUGINS \<noteq> ROLLBACK_ON_SWITCH" by (simp add: PLUGINS_def ROLLBACK_ON_SWITCH_def)
  then have "Property_Get PLUGINS (Some (Property_Set ROLLBACK_ON_SWITCH ''no'' NewRWMap)) = Property_Get PLUGINS (Some NewRWMap)"
    using GetVerifiedWrapperPropertyValue_typed [OF p(2) p(1)] by simp
  moreover have "Property_Get PLUGINS (Some NewRWMap) = DEFAULT_PLUGINS" by code_simp
  ultimately show ?thesis by simp
qed

end
