(* ===== verification/Dsn_Parser.thy ===== *)
theory Dsn_Parser
  imports Wrapper_Properties Rds_Utils Host_Info
begin

text \<open>
  Data source names: \<open>awssql/property_util/dsn_parser.go\<close>. A DSN is a pgx URL, a pgx list of keywords and
  values, or a go-sql-driver DSN. Splitting a URL into its parts is \<open>url.Parse\<close>, whose result is the
  argument \<open>urlParse\<close>; splitting a host and port (\<open>net.SplitHostPort\<close>) and recognising an IP address
  (\<open>net.ParseIP\<close>) are arguments too. Everything done with the parts, and the two other forms, are
  modelled in full. Text is ASCII.
\<close>

section \<open>Library functions on strings\<close>

text \<open>\<open>strings.ReplaceAll\<close> for a non-empty \<open>old\<close>.\<close>

fun ReplaceAll :: "string \<Rightarrow> string \<Rightarrow> string \<Rightarrow> string" where
  "ReplaceAll [] old new = []"
| "ReplaceAll (c # cs) old new =
     (if HasPrefix (c # cs) old then new @ ReplaceAll (drop (length old - 1) cs) old new else c # ReplaceAll cs old new)"

text \<open>\<open>strings.Cut\<close> at a one-byte separator.\<close>

definition Cut :: "string \<Rightarrow> char \<Rightarrow> string \<times> string \<times> bool" where
  "Cut s sep =
     (if sep \<in> set s then (takeWhile (\<lambda>c. c \<noteq> sep) s, tl (dropWhile (\<lambda>c. c \<noteq> sep) s), True) else (s, '''', False))"

text \<open>\<open>strings.Trim(s, "[]")\<close> and \<open>strings.TrimLeft(s, "/")\<close>.\<close>

definition TrimChars :: "(char \<Rightarrow> bool) \<Rightarrow> string \<Rightarrow> string" where
  "TrimChars p s = rev (dropWhile p (rev (dropWhile p s)))"

definition hex_val :: "char \<Rightarrow> nat option" where
  "hex_val c =
     (let n = of_char c
      in if 48 \<le> n \<and> n \<le> 57 then Some (n - 48)
         else if 97 \<le> n \<and> n \<le> 102 then Some (n - 87)
         else if 65 \<le> n \<and> n \<le> 70 then Some (n - 55)
         else None)"

text \<open>\<open>url.QueryUnescape\<close> (\<open>query\<close>) and \<open>url.PathUnescape\<close>.\<close>

fun unescape :: "bool \<Rightarrow> string \<Rightarrow> go_error + string" where
  "unescape query [] = Inr []"
| "unescape query (c # cs) =
     (if c = CHR ''%''
      then (case cs of
              a # b # rest \<Rightarrow>
                (case (hex_val a, hex_val b) of
                   (Some x, Some y) \<Rightarrow> bindR (unescape query rest) (\<lambda>r. Inr (char_of (16 * x + y) # r))
                 | _ \<Rightarrow> Inl (ExternalError ''invalid URL escape''))
            | _ \<Rightarrow> Inl (ExternalError ''invalid URL escape''))
      else if query \<and> c = CHR ''+'' then bindR (unescape query cs) (\<lambda>r. Inr (CHR '' '' # r))
      else bindR (unescape query cs) (\<lambda>r. Inr (c # r)))"

definition QueryUnescape :: "string \<Rightarrow> go_error + string" where
  "QueryUnescape = unescape True"

definition PathUnescape :: "string \<Rightarrow> go_error + string" where
  "PathUnescape = unescape False"

section \<open>Recognising the form\<close>

definition PGX_DRIVER_PROTOCOL :: string where "PGX_DRIVER_PROTOCOL = ''postgresql''"
definition MYSQL_DRIVER_PROTOCOL :: string where "MYSQL_DRIVER_PROTOCOL = ''mysql''"
definition NET_PROP_KEY :: string where "NET_PROP_KEY = ''net''"

definition is_pgx_value_char :: "char \<Rightarrow> bool" where
  "is_pgx_value_char c \<longleftrightarrow> is_alnum c \<or> c \<in> set (''-+&@#/%?=~_!:,.'' @ [CHR 0x27])"

definition pgxKeyValueDsnPattern :: regexp where
  "pgxKeyValueDsnPattern =
     RPlus (RGroup ''1'' (RSeqs [RPlus (RSet is_alnum), RChr (CHR ''=''), RPlus (RSet is_pgx_value_char), RStar True (RChr (CHR '' ''))]))"

definition mySqlDsnPattern :: regexp where
  "mySqlDsnPattern =
     RSeqs
      [RBegin,
       ROpt (RSeqs [RGroup ''user'' (RPlus (RSet (\<lambda>c. c \<notin> set '':@/''))),
                    ROpt (RSeq (RChr (CHR '':'')) (RGroup ''passwd'' (RStar True (RSet (\<lambda>c. c \<noteq> CHR ''@''))))),
                    RChr (CHR ''@'')]),
       ROpt (RSeq (ROpt (RGroup ''net'' (RPlus (RSet (\<lambda>c. c \<notin> set ''()/:?'')))))
                  (ROpt (RSeqs [RChr (CHR ''(''), RGroup ''addr'' (RStar True (RSet (\<lambda>c. c \<noteq> CHR '')''))), RChr (CHR '')'')]))),
       ROpt (RSeq (RChr (CHR ''/'')) (RGroup ''dbname'' (RStar True (RSet (\<lambda>c. c \<noteq> CHR ''?''))))),
       ROpt (RSeq (RChr (CHR ''?'')) (RGroup ''params'' (RStar True RAny))),
       REnd]"

definition spaceBetweenWordsPattern :: regexp where
  "spaceBetweenWordsPattern =
     RSeqs [RBegin, RStar True (RSet is_re_space), RPlus (RSet (\<lambda>c. \<not> is_re_space c)), RPlus (RSet is_re_space),
            RSet (\<lambda>c. \<not> is_re_space c), RStar True RAny, REnd]"

definition isDsnPgxUrl :: "string \<Rightarrow> bool" where
  "isDsnPgxUrl dsn \<longleftrightarrow> HasPrefix dsn ''postgres://'' \<or> HasPrefix dsn ''postgresql://''"

definition isDsnPgxKeyValueString :: "string \<Rightarrow> bool" where
  "isDsnPgxKeyValueString dsn = MatchString pgxKeyValueDsnPattern dsn"

definition isDsnMySql :: "string \<Rightarrow> bool" where
  "isDsnMySql dsn \<longleftrightarrow> \<not> MatchString spaceBetweenWordsPattern dsn \<and> MatchString mySqlDsnPattern dsn"

definition GetProtocol :: "string \<Rightarrow> go_error + string" where
  "GetProtocol dsn =
     (if isDsnPgxUrl dsn then Inr PGX_DRIVER_PROTOCOL
      else if isDsnMySql dsn then Inr MYSQL_DRIVER_PROTOCOL
      else if isDsnPgxKeyValueString dsn then Inr PGX_DRIVER_PROTOCOL
      else Inl (NewDsnParsingError ''DsnParser.unableToDetermineProtocol''))"

section \<open>Keywords and values\<close>

definition put_prop :: "string \<Rightarrow> string \<Rightarrow> (string, string) RWMap \<Rightarrow> (string, string) RWMap" where
  "put_prop k v m = fst (RWMap_Put k v m)"

definition rename_key :: "string \<Rightarrow> string" where
  "rename_key key = (if key = ''dbname'' then ''database'' else key)"

text \<open>The value of \<open>end\<close> after the scan of an unquoted and of a quoted value. A backslash skips the
  character after it; in the quoted scan a backslash at the very end moves \<open>end\<close> past the length.\<close>

fun unquoted_end :: "string \<Rightarrow> go_error + nat" where
  "unquoted_end [] = Inr 0"
| "unquoted_end (c # cs) =
     (if is_space c then Inr 0
      else if c = CHR 0x5C
      then (case cs of
              [] \<Rightarrow> Inl (NewDsnParsingError ''DsnParser.invalidBackslash'')
            | _ # rest \<Rightarrow> bindR (unquoted_end rest) (\<lambda>n. Inr (n + 2)))
      else bindR (unquoted_end cs) (\<lambda>n. Inr (n + 1)))"

fun quoted_end :: "string \<Rightarrow> nat" where
  "quoted_end [] = 0"
| "quoted_end (c # cs) =
     (if c = CHR 0x27 then 0
      else if c = CHR 0x5C then (case cs of [] \<Rightarrow> 2 | _ # rest \<Rightarrow> quoted_end rest + 2)
      else quoted_end cs + 1)"

definition unescape_value :: "string \<Rightarrow> string" where
  "unescape_value s = ReplaceAll (ReplaceAll s [CHR 0x5C, CHR 0x5C] [CHR 0x5C]) [CHR 0x5C, CHR 0x27] [CHR 0x27]"

text \<open>A value at the start of the text, and what is left after it.\<close>

definition rest_after :: "nat \<Rightarrow> string \<Rightarrow> string" where
  "rest_after stop dsn = (if stop = length dsn then '''' else TrimLeftSpace (drop (stop + 1) dsn))"

definition parse_value :: "string \<Rightarrow> go_error + string \<times> string" where
  "parse_value dsn =
     (case dsn of
        [] \<Rightarrow> Inr ('''', '''')
      | c # cs \<Rightarrow>
          if c \<noteq> CHR 0x27
          then bindR (unquoted_end dsn) (\<lambda>stop. Inr (unescape_value (take stop dsn), rest_after stop dsn))
          else (let stop = quoted_end cs
                in if stop = length cs then Inl (NewDsnParsingError ''DsnParser.unterminatedQuotedString'')
                   else if stop > length cs then Inl (Panic ''slice bounds out of range'')
                   else Inr (unescape_value (take stop cs), rest_after stop cs)))"

lemma unquoted_end_le: "unquoted_end s = Inr n \<Longrightarrow> n \<le> length s"
proof (induction s arbitrary: n rule: unquoted_end.induct)
  case (2 c cs)
  then show ?case by (fastforce simp: bindR_Inr_iff split: if_splits list.splits)
qed simp

lemma TrimLeftSpace_le: "length (TrimLeftSpace s) \<le> length s"
  by (simp add: TrimLeftSpace_def length_dropWhile_le)

lemma rest_after_le: "length (rest_after n s) \<le> length s"
  using TrimLeftSpace_le [of "drop (n + 1) s"] by (auto simp: rest_after_def)

lemma parse_value_le: "parse_value s = Inr (v, rest) \<Longrightarrow> length rest \<le> length s"
  by (cases s) (auto simp: parse_value_def bindR_Inr_iff Let_def split: if_splits intro: le_SucI rest_after_le
      intro!: rest_after_le [of _ "_ # _", simplified])

lemma Cut_length: "Cut s c = (k, v, True) \<Longrightarrow> length v < length s"
proof -
  assume "Cut s c = (k, v, True)"
  then have "c \<in> set s" "v = tl (dropWhile (\<lambda>d. d \<noteq> c) s)" by (auto simp: Cut_def split: if_splits)
  then have "length v < length (dropWhile (\<lambda>d. d \<noteq> c) s)" by (cases "dropWhile (\<lambda>d. d \<noteq> c) s") (auto simp: dropWhile_eq_Nil_conv)
  then show ?thesis using length_dropWhile_le order_less_le_trans by blast
qed

text \<open>The loop over the pairs. Every turn takes at least the \<open>=\<close> off the text, so it ends.\<close>

function keyword_loop :: "string \<Rightarrow> (string, string) RWMap \<Rightarrow> go_error + (string, string) RWMap" where
  "keyword_loop dsn properties =
     (if dsn = '''' then Inr properties
      else (case Cut dsn (CHR ''='') of
              (before, after, found) \<Rightarrow>
                if \<not> found then Inl (NewDsnParsingError ''DsnParser.invalidKeyValue'')
                else (case parse_value (TrimLeftSpace after) of
                        Inl err \<Rightarrow> Inl err
                      | Inr (val, rest) \<Rightarrow>
                          (let key = rename_key (TrimSpace before)
                           in if key = '''' then Inl (NewDsnParsingError ''DsnParser.invalidKeyValue'')
                              else keyword_loop rest (put_prop key val properties)))))"
  by pat_completeness auto
termination
proof (relation "measure (\<lambda>(dsn, _). length dsn)", goal_cases)
  case (2 dsn properties before y after found val' val rest key)
  then have "length rest \<le> length (TrimLeftSpace after)" using parse_value_le by (metis (full_types))
  also have "length (TrimLeftSpace after) \<le> length after" by (rule TrimLeftSpace_le)
  also have "length after < length dsn" using 2 Cut_length by (metis (full_types))
  finally show ?case by simp
qed simp

declare keyword_loop.simps [simp del]

definition parsePgxKeywordValueSettings :: "string \<Rightarrow> go_error + (string, string) RWMap" where
  "parsePgxKeywordValueSettings dsn =
     bindR (keyword_loop dsn NewRWMap) (\<lambda>properties. Inr (put_prop (propName DRIVER_PROTOCOL) PGX_DRIVER_PROTOCOL properties))"

section \<open>go-sql-driver names\<close>

definition put_nonempty :: "string \<Rightarrow> string \<Rightarrow> (string, string) RWMap \<Rightarrow> (string, string) RWMap" where
  "put_nonempty k v m = (if v \<noteq> '''' then put_prop k v m else m)"

definition put_addr :: "string \<Rightarrow> (string, string) RWMap \<Rightarrow> (string, string) RWMap" where
  "put_addr addr m =
     (if addr \<noteq> ''''
      then (let hostPortPair = Split addr (CHR '':''); m' = put_prop (propName HOST) (hd hostPortPair) m
            in if length hostPortPair > 1 then put_prop (propName PORT) (hostPortPair ! 1) m' else m')
      else m)"

fun params_loop :: "string list \<Rightarrow> (string, string) RWMap \<Rightarrow> go_error + (string, string) RWMap" where
  "params_loop [] m = Inr m"
| "params_loop (v # vs) m =
     (let (key, value, ok) = Cut v (CHR ''='')
      in if \<not> ok then params_loop vs m
         else bindR (QueryUnescape value) (\<lambda>propVal. params_loop vs (put_prop key propVal m)))"

definition parseDSNParams :: "string \<Rightarrow> (string, string) RWMap \<Rightarrow> go_error + (string, string) RWMap" where
  "parseDSNParams params m = params_loop (Split params (CHR ''&'')) m"

definition parseMySqlDsn :: "string \<Rightarrow> go_error + (string, string) RWMap" where
  "parseMySqlDsn dsn0 =
     (case FindStringSubmatch mySqlDsnPattern (TrimSpace dsn0) of
        None \<Rightarrow> Inl (NewDsnParsingError ''DsnParser.invalidDsn'')
      | Some matches \<Rightarrow>
          (let m1 = put_nonempty (propName USER) (group_val matches ''user'') NewRWMap;
               m2 = put_nonempty (propName PASSWORD) (group_val matches ''passwd'') m1;
               m3 = put_nonempty NET_PROP_KEY (group_val matches ''net'') m2;
               m4 = put_addr (group_val matches ''addr'') m3;
               dbname = group_val matches ''dbname''; params = group_val matches ''params''
           in bindR (if dbname \<noteq> '''' then bindR (PathUnescape dbname) (\<lambda>db. Inr (put_prop (propName DATABASE) db m4)) else Inr m4) (\<lambda>m5.
              bindR (if params \<noteq> '''' then parseDSNParams params m5 else Inr m5) (\<lambda>m6.
              Inr (put_prop (propName DRIVER_PROTOCOL) MYSQL_DRIVER_PROTOCOL m6)))))"

section \<open>URLs\<close>

text \<open>The parts of a parsed URL the driver uses. The query is a map from a key to its values, of which
  there is at least one.\<close>

record parsed_url =
  u_user :: "(string \<times> string option) option"
  u_host :: string
  u_path :: string
  u_query :: "(string \<times> string list) list"

record net_lib =
  urlParse :: "string \<Rightarrow> go_error + parsed_url"
  ParseIP :: "string \<Rightarrow> bool"
  SplitHostPort :: "string \<Rightarrow> go_error + string \<times> string"

definition isIPOnly :: "net_lib \<Rightarrow> string \<Rightarrow> bool" where
  "isIPOnly lib host \<longleftrightarrow> ParseIP lib (TrimChars (\<lambda>c. c \<in> set ''[]'') host) \<or> \<not> Contains host '':''"

fun hosts_loop :: "net_lib \<Rightarrow> string list \<Rightarrow> string list \<times> string list \<Rightarrow> go_error + string list \<times> string list" where
  "hosts_loop lib [] acc = Inr acc"
| "hosts_loop lib (host # rest) (hosts, ports) =
     (if host = '''' then hosts_loop lib rest (hosts, ports)
      else if isIPOnly lib host then hosts_loop lib rest (hosts @ [TrimChars (\<lambda>c. c \<in> set ''[]'') host], ports)
      else (case SplitHostPort lib host of
              Inl err \<Rightarrow> Inl (NewDsnParsingError ''DsnParser.failedToSplitHostPort'')
            | Inr (h, p) \<Rightarrow>
                hosts_loop lib rest (if h \<noteq> '''' then hosts @ [h] else hosts, if p \<noteq> '''' then ports @ [p] else ports)))"

definition parsePgxURLSettings :: "net_lib \<Rightarrow> string \<Rightarrow> go_error + (string, string) RWMap" where
  "parsePgxURLSettings lib connString =
     bindR (urlParse lib (TrimSpace connString)) (\<lambda>u.
       let m1 = (case u_user u of
                   None \<Rightarrow> NewRWMap
                 | Some (name, pw) \<Rightarrow>
                     (let m = put_prop (propName USER) name NewRWMap
                      in case pw of None \<Rightarrow> m | Some password \<Rightarrow> put_prop (propName PASSWORD) password m))
       in bindR (hosts_loop lib (Split (u_host u) (CHR '','')) ([], [])) (\<lambda>(hosts, ports).
            let m2 = (if hosts \<noteq> [] then put_prop (propName HOST) (Join hosts '','') m1 else m1);
                m3 = (if ports \<noteq> [] then put_prop (propName PORT) (Join ports '','') m2 else m2);
                database = dropWhile (\<lambda>c. c = CHR ''/'') (u_path u);
                m4 = (if database \<noteq> '''' then put_prop (propName DATABASE) database m3 else m3);
                m5 = fold (\<lambda>(k, v). put_prop (rename_key k) (hd v)) (u_query u) m4
            in Inr (put_prop (propName DRIVER_PROTOCOL) PGX_DRIVER_PROTOCOL m5)))"

text \<open>A name of no known form gives an empty set of properties and no error.\<close>

definition ParseDsn :: "net_lib \<Rightarrow> string \<Rightarrow> go_error + (string, string) RWMap" where
  "ParseDsn lib dsn =
     (if isDsnPgxUrl dsn then parsePgxURLSettings lib dsn
      else if isDsnMySql dsn then parseMySqlDsn dsn
      else if isDsnPgxKeyValueString dsn then parsePgxKeywordValueSettings dsn
      else Inr NewRWMap)"

definition ParseDatabaseFromDsn :: "net_lib \<Rightarrow> string \<Rightarrow> go_error + string" where
  "ParseDatabaseFromDsn lib dsn = bindR (ParseDsn lib dsn) (\<lambda>props. Inr (Property_Get DATABASE (Some props)))"

definition ParseUserFromDsn :: "net_lib \<Rightarrow> string \<Rightarrow> go_error + string" where
  "ParseUserFromDsn lib dsn = bindR (ParseDsn lib dsn) (\<lambda>props. Inr (Property_Get USER (Some props)))"

definition ParsePasswordFromDsn :: "net_lib \<Rightarrow> string \<Rightarrow> go_error + string" where
  "ParsePasswordFromDsn lib dsn = bindR (ParseDsn lib dsn) (\<lambda>props. Inr (Property_Get PASSWORD (Some props)))"

section \<open>Hosts\<close>

text \<open>The results are the hosts and the error, which the last return gives together: a port that is not a
  number is replaced, but its error is still returned. Classifying a host may fill the DNS caches.\<close>

definition props_value :: "string \<Rightarrow> (string, string) RWMap \<Rightarrow> string" where
  "props_value k m = (case RWMap_Get k m of None \<Rightarrow> '''' | Some v \<Rightarrow> v)"

definition host_role :: "bool \<Rightarrow> nat \<Rightarrow> string \<Rightarrow> HostRole rds" where
  "host_role isSingleWriterDsn i hostString =
     (if isSingleWriterDsn then ret (if i = 0 then WRITER else READER)
      else bindS (IdentifyRdsUrlType hostString) (\<lambda>urlType. ret (if urlType = RDS_READER_CLUSTER then READER else WRITER)))"

fun build_hosts ::
  "bool \<Rightarrow> int \<Rightarrow> go_error option \<Rightarrow> nat \<Rightarrow> string list \<Rightarrow> HostInfo list \<Rightarrow> (HostInfo list \<times> go_error option) rds" where
  "build_hosts single port err i [] hosts = ret (hosts, err)"
| "build_hosts single port err i (h # hs) hosts =
     bindS (host_role single i h) (\<lambda>role.
       case Build (SetRole role (SetPort port (SetHost h NewHostInfoBuilder))) of
         Inl e \<Rightarrow> ret (hosts, Some e)
       | Inr info \<Rightarrow> build_hosts single port err (Suc i) hs (hosts @ [info]))"

definition GetHostsFromProps :: "(string, string) RWMap \<Rightarrow> bool \<Rightarrow> (HostInfo list \<times> go_error option) rds" where
  "GetHostsFromProps properties isSingleWriterDsn =
     (let hostStringList = Split (props_value (propName HOST) properties) (CHR '','');
          portStringList = Split (props_value (propName PORT) properties) (CHR '','')
      in if length portStringList > 1
         then ret ([], Some (NewDsnParsingError ''DsnParser.unableToMatchPortsToHosts''))
         else (let (port, err) =
                 (if hd portStringList = '''' then (HOST_NO_PORT, None)
                  else (case Atoi (hd portStringList) of
                          Some p \<Rightarrow> (p, None)
                        | None \<Rightarrow> (HOST_NO_PORT, Some (ExternalError ''strconv.Atoi''))))
               in build_hosts isSingleWriterDsn port err 0 hostStringList []))"

definition GetHostsFromDsn :: "net_lib \<Rightarrow> string \<Rightarrow> bool \<Rightarrow> (HostInfo list \<times> go_error option) rds" where
  "GetHostsFromDsn lib dsn isSingleWriterDsn =
     (case ParseDsn lib dsn of
        Inl err \<Rightarrow> ret ([], Some err)
      | Inr properties \<Rightarrow> GetHostsFromProps properties isSingleWriterDsn)"

definition ParseHostPortPair :: "string \<Rightarrow> int \<Rightarrow> HostInfo rds" where
  "ParseHostPortPair instanceClusterTemplate defaultPort =
     (let hostPortPair = Split instanceClusterTemplate (CHR '':''); host = hd hostPortPair
      in bindS (IdentifyRdsUrlType host) (\<lambda>urlType.
           bindS (lift (if length hostPortPair \<ge> 2
                        then (case Atoi (hostPortPair ! 1) of Some p \<Rightarrow> Inr p | None \<Rightarrow> Inl (ExternalError ''strconv.Atoi''))
                        else Inr defaultPort)) (\<lambda>port.
             lift (Build (SetRole (if urlType = RDS_READER_CLUSTER then READER else WRITER)
                           (SetPort port (SetHost host NewHostInfoBuilder)))))))"

section \<open>Escapes\<close>

lemma is_space_eq_sign [simp]: "\<not> is_space (CHR ''='')" "\<not> is_space (CHR 0x27)" "\<not> is_space (CHR 0x5C)"
  by (simp_all add: is_space_def)

lemma quoted_end_plain:
  "CHR 0x27 \<notin> set t \<Longrightarrow> CHR 0x5C \<notin> set t \<Longrightarrow> quoted_end (t @ s) = length t + quoted_end s"
  by (induction t) auto

text \<open>A word that can be written as a key or as an unquoted value and read back.\<close>

definition plain :: "string \<Rightarrow> bool" where
  "plain s \<longleftrightarrow> list_all (\<lambda>c. \<not> is_space c \<and> c \<noteq> CHR 0x27 \<and> c \<noteq> CHR 0x5C) s"

lemma ReplaceAll_absent: "c \<notin> set s \<Longrightarrow> ReplaceAll s (c # old) new = s"
  by (induction s) auto

lemma unescape_value_plain: "plain s \<Longrightarrow> unescape_value s = s"
proof -
  assume "plain s"
  then have "CHR 0x5C \<notin> set s" by (auto simp: plain_def list_all_iff)
  then show ?thesis by (simp add: unescape_value_def ReplaceAll_absent)
qed

lemma unquoted_end_plain: "plain s \<Longrightarrow> unquoted_end (s @ t) = bindR (unquoted_end t) (\<lambda>n. Inr (n + length s))"
proof (induction s)
  case Nil
  then show ?case by (cases "unquoted_end t") simp_all
next
  case (Cons c s)
  then have "plain s" "\<not> is_space c" "c \<noteq> CHR 0x5C" by (simp_all add: plain_def)
  with Cons.IH show ?case by (cases "unquoted_end t") simp_all
qed

lemma dropWhile_space_plain: "plain s \<Longrightarrow> s \<noteq> [] \<Longrightarrow> dropWhile is_space (s @ t) = s @ t"
  by (cases s) (auto simp: plain_def)

lemma TrimSpace_plain: "plain s \<Longrightarrow> TrimSpace s = s"
proof -
  assume p: "plain s"
  then have "plain (rev s)" by (simp add: plain_def list_all_iff)
  then show ?thesis
    using p dropWhile_space_plain [of s "[]"] dropWhile_space_plain [of "rev s" "[]"]
    by (cases "s = []") (simp_all add: TrimSpace_def)
qed

lemma Cut_eq: "CHR ''='' \<notin> set k \<Longrightarrow> Cut (k @ CHR ''='' # v) (CHR ''='') = (k, v, True)"
proof -
  assume k: "CHR ''='' \<notin> set k"
  then have "takeWhile (\<lambda>c. c \<noteq> CHR ''='') (k @ CHR ''='' # v) = k"
    by (subst takeWhile_append2) auto
  moreover have "dropWhile (\<lambda>c. c \<noteq> CHR ''='') (k @ CHR ''='' # v) = CHR ''='' # v"
    using k by (subst dropWhile_append2) auto
  ultimately show ?thesis by (simp add: Cut_def)
qed

lemma parse_value_plain:
  assumes "plain v" "v \<noteq> []"
  shows "parse_value v = Inr (v, '''')" "parse_value (v @ CHR '' '' # rest) = Inr (v, TrimLeftSpace rest)"
proof -
  obtain c cs where v: "v = c # cs" using assms(2) by (cases v) auto
  then have c: "c \<noteq> CHR 0x27" using assms(1) by (simp add: plain_def)
  have "is_space (CHR '' '')" by (simp add: is_space_def)
  then show "parse_value v = Inr (v, '''')" "parse_value (v @ CHR '' '' # rest) = Inr (v, TrimLeftSpace rest)"
    using c unquoted_end_plain [OF assms(1), of "[]"] unquoted_end_plain [OF assms(1), of "CHR '' '' # rest"]
      unescape_value_plain [OF assms(1)]
    by (simp_all add: v parse_value_def rest_after_def)
qed

lemma keyword_loop_pair:
  assumes "plain k" "CHR ''='' \<notin> set k" "k \<noteq> []" "parse_value (TrimLeftSpace after) = Inr (v, rest)"
  shows "keyword_loop (k @ CHR ''='' # after) m = keyword_loop rest (put_prop (rename_key k) v m)"
  using assms by (subst keyword_loop.simps) (auto simp: Cut_eq TrimSpace_plain rename_key_def)

text \<open>A text of pairs \<open>key=value\<close> separated by single spaces, as the pgx dialect writes it.\<close>

definition plain_pair :: "string \<times> string \<Rightarrow> bool" where
  "plain_pair kv \<longleftrightarrow> plain (fst kv) \<and> fst kv \<noteq> [] \<and> CHR ''='' \<notin> set (fst kv) \<and> plain (snd kv) \<and> snd kv \<noteq> []"

definition write_pair :: "string \<times> string \<Rightarrow> string" where
  "write_pair kv = fst kv @ ''='' @ snd kv"

lemma keyword_loop_roundtrip:
  "list_all plain_pair kvs \<Longrightarrow>
     keyword_loop (Join (map write_pair kvs) '' '') m = Inr (fold (\<lambda>(k, v). put_prop (rename_key k) v) kvs m)"
proof (induction kvs arbitrary: m)
  case Nil
  then show ?case by (simp add: keyword_loop.simps)
next
  case (Cons kv kvs)
  obtain k v where kv: "kv = (k, v)" by fastforce
  with Cons.prems have p: "plain k" "CHR ''='' \<notin> set k" "k \<noteq> []" "plain v" "v \<noteq> []" "list_all plain_pair kvs"
    by (auto simp: plain_pair_def [of "(k, v)"])
  show ?case
  proof (cases kvs)
    case Nil
    have "parse_value (TrimLeftSpace v) = Inr (v, '''')"
      using parse_value_plain(1) [OF p(4,5)] dropWhile_space_plain [OF p(4,5), of "[]"] by (simp add: TrimLeftSpace_def)
    then show ?thesis
      using keyword_loop_pair [OF p(1-3)] by (simp add: Nil kv write_pair_def keyword_loop.simps [of "''''"])
  next
    case (Cons kv' kvs')
    let ?rest = "Join (map write_pair kvs) '' ''"
    have "plain (fst kv')" "fst kv' \<noteq> []" using p(6) Cons by (auto simp: plain_pair_def)
    then have r: "TrimLeftSpace ?rest = ?rest"
      using dropWhile_space_plain by (cases kvs') (simp_all add: Cons TrimLeftSpace_def write_pair_def)
    have "TrimLeftSpace (v @ CHR '' '' # ?rest) = v @ CHR '' '' # ?rest"
      using dropWhile_space_plain [OF p(4,5)] by (simp add: TrimLeftSpace_def)
    then have "parse_value (TrimLeftSpace (v @ CHR '' '' # ?rest)) = Inr (v, ?rest)"
      using parse_value_plain(2) [OF p(4,5), of ?rest] r by simp
    moreover have "Join (map write_pair (kv # kvs)) '' '' = k @ CHR ''='' # v @ CHR '' '' # ?rest"
      by (simp add: Cons kv write_pair_def)
    ultimately show ?thesis
      using keyword_loop_pair [OF p(1-3)] Cons.IH [OF p(6)] by (simp add: kv)
  qed
qed

section \<open>Hosts of a name\<close>

definition dsn_role :: "(string \<Rightarrow> string) option \<Rightarrow> bool \<Rightarrow> nat \<Rightarrow> string \<Rightarrow> HostRole" where
  "dsn_role f single i h =
     (if single then (if i = 0 then WRITER else READER)
      else if url_type_spec f h = RDS_READER_CLUSTER then READER else WRITER)"

definition dsn_host :: "(string \<Rightarrow> string) option \<Rightarrow> bool \<Rightarrow> int \<Rightarrow> nat \<Rightarrow> string \<Rightarrow> HostInfo" where
  "dsn_host f single port i h =
     \<lparr>Host = h, HostId = '''', Port = port, Availability = AVAILABLE, Role = dsn_role f single i h,
      Aliases = Some {}, AllAliases = Some {if port \<noteq> HOST_NO_PORT then h @ '':'' @ Itoa port else h},
      Weight = HOST_DEFAULT_WEIGHT, LastUpdateTime = 0\<rparr>"

lemma Build_dsn_host:
  "h \<noteq> '''' \<Longrightarrow> Build (SetRole (dsn_role f single i h) (SetPort port (SetHost h NewHostInfoBuilder))) = Inr (dsn_host f single port i h)"
  by (simp add: Build_def checkHostIsSet_def SetRole_def SetPort_def SetHost_def NewHostInfoBuilder_def dsn_host_def
      GetHostAndPort_def IsPortSpecified_def)

lemma computes_host_role: "computes f (host_role single i h) (dsn_role f single i h)"
proof -
  have "computes f (bindS (IdentifyRdsUrlType h) (\<lambda>u. ret (if u = RDS_READER_CLUSTER then READER else WRITER)))
    (if url_type_spec f h = RDS_READER_CLUSTER then READER else WRITER)"
    by (rule computes_bind [OF computes_Identify computes_ret])
  then show ?thesis by (simp add: host_role_def dsn_role_def computes_ret)
qed

lemma computes_build_hosts:
  "list_all (\<lambda>h. h \<noteq> '''') hs \<Longrightarrow>
   computes f (build_hosts single port err i hs acc) (acc @ map (\<lambda>(j, h). dsn_host f single port j h) (enumerate i hs), err)"
proof (induction hs arbitrary: i acc)
  case Nil
  then show ?case by (simp add: computes_ret)
next
  case (Cons h hs)
  then show ?case
    unfolding build_hosts.simps
    by (intro computes_bind [OF computes_host_role]) (simp add: Build_dsn_host Cons.IH [of "Suc i" "acc @ [_]", simplified])
qed

definition dsn_port :: "string \<Rightarrow> int \<times> go_error option" where
  "dsn_port t =
     (if t = '''' then (HOST_NO_PORT, None)
      else (case Atoi t of Some p \<Rightarrow> (p, None) | None \<Rightarrow> (HOST_NO_PORT, Some (ExternalError ''strconv.Atoi''))))"

lemma computes_GetHostsFromProps:
  assumes "hs \<noteq> []" "list_all (\<lambda>h. h \<noteq> '''' \<and> CHR '','' \<notin> set h) hs" "props_value (propName HOST) m = Join hs '',''"
    "CHR '','' \<notin> set (props_value (propName PORT) m)"
  shows "computes f (GetHostsFromProps m single)
    (map (\<lambda>(j, h). dsn_host f single (fst (dsn_port (props_value (propName PORT) m))) j h) (enumerate 0 hs),
     snd (dsn_port (props_value (propName PORT) m)))"
proof -
  have h: "Split (Join hs '','') (CHR '','') = hs" using assms(1,2) by (intro Split_Join) (auto simp: list_all_iff)
  have p: "Split (props_value (propName PORT) m) (CHR '','') = [props_value (propName PORT) m]"
    using assms(4) by (rule Split_no_occurrence)
  have ne: "list_all (\<lambda>h. h \<noteq> '''') hs" using assms(2) by (auto simp: list_all_iff)
  have g: "GetHostsFromProps m single = build_hosts single (fst (dsn_port (props_value (propName PORT) m)))
      (snd (dsn_port (props_value (propName PORT) m))) 0 hs []"
    by (simp add: GetHostsFromProps_def assms(3) h p dsn_port_def split: option.splits)
  show ?thesis unfolding g using computes_build_hosts [OF ne, of f single _ _ 0 "[]"] by simp
qed

section \<open>Properties\<close>

text \<open>The hosts of a DSN whose host property lists \<open>hs\<close> are \<open>hs\<close>, in order and with the given port: the
  first one the writer and the others readers when the DSN has a single writer, and otherwise readers
  exactly for the reader cluster endpoints. A port that is not a number leaves the hosts without a port,
  and yet the error of parsing it is returned with them.\<close>
theorem GetHostsFromProps_hosts:
  assumes "hs \<noteq> []" "list_all (\<lambda>h. h \<noteq> '''' \<and> CHR '','' \<notin> set h) hs"
    "props_value (propName HOST) m = Join hs '',''" "props_value (propName PORT) m = port" "CHR '','' \<notin> set port"
  shows "fst (GetHostsFromProps m single (classify_all earlier (fresh_state f))) =
     Inr (map (\<lambda>i. dsn_host f single (case Atoi port of Some p \<Rightarrow> p | None \<Rightarrow> HOST_NO_PORT) i (hs ! i)) [0..<length hs],
          if port \<noteq> '''' \<and> Atoi port = None then Some (ExternalError ''strconv.Atoi'') else None)"
proof -
  have s: "coherent (classify_all earlier (fresh_state f))" "prepareHostFunc (classify_all earlier (fresh_state f)) = f"
    using classify_all_coherent [OF fresh_coherent] by blast+
  have "Atoi '''' = None" by code_simp
  then have p: "fst (dsn_port port) = (case Atoi port of Some p \<Rightarrow> p | None \<Rightarrow> HOST_NO_PORT)"
    "snd (dsn_port port) = (if port \<noteq> '''' \<and> Atoi port = None then Some (ExternalError ''strconv.Atoi'') else None)"
    by (auto simp: dsn_port_def split: option.splits)
  have e: "map (\<lambda>(j, h). g j h) (enumerate 0 hs) = map (\<lambda>i. g i (hs ! i)) [0..<length hs]" for g :: "nat \<Rightarrow> string \<Rightarrow> HostInfo"
    by (rule nth_equalityI) (simp_all add: nth_enumerate_eq)
  show ?thesis
    using computes_elim [OF computes_GetHostsFromProps [OF assms(1-3)] s, of single] assms(4,5) p e by simp
qed

lemma GetHostsFromProps_hosts_witness:
  "fst (GetHostsFromProps (NewRWMapFromMap [(''host'', ''a,b''), (''port'', ''x'')]) True (fresh_state None)) =
     Inr ([dsn_host None True HOST_NO_PORT 0 ''a'', dsn_host None True HOST_NO_PORT 1 ''b''], Some (ExternalError ''strconv.Atoi''))"
proof -
  let ?m = "NewRWMapFromMap [(''host'', ''a,b''), (''port'', ''x'')]"
  have a: "props_value (propName HOST) ?m = Join [''a'', ''b''] '',''" "props_value (propName PORT) ?m = ''x''"
    "Atoi ''x'' = None" by code_simp+
  show ?thesis
    using GetHostsFromProps_hosts [of "[''a'', ''b'']" ?m "''x''" True "[]" None] a
    by (simp add: classify_all_def upt_rec)
qed

text \<open>Parsing keywords and values panics, instead of reporting an unterminated string, on every name that
  ends inside a quoted value with a backslash.\<close>
theorem keyword_value_panics:
  assumes "list_all plain_pair kvs" "plain k" "k \<noteq> []" "CHR ''='' \<notin> set k" "CHR 0x27 \<notin> set t" "CHR 0x5C \<notin> set t"
  shows "parsePgxKeywordValueSettings (Join (map write_pair kvs @ [k @ ''='' @ [CHR 0x27] @ t @ [CHR 0x5C]]) '' '') =
     Inl (Panic ''slice bounds out of range'')"
proof -
  let ?last = "k @ CHR ''='' # CHR 0x27 # t @ [CHR 0x5C]"
  have "keyword_loop (Join (map write_pair kvs @ [?last]) '' '') m = Inl (Panic ''slice bounds out of range'')" for m
    using assms(1)
  proof (induction kvs arbitrary: m)
    case Nil
    have "parse_value (CHR 0x27 # t @ [CHR 0x5C]) = Inl (Panic ''slice bounds out of range'')"
      using quoted_end_plain [OF assms(5,6), of "[CHR 0x5C]"] by (simp add: parse_value_def)
    then show ?case using assms(4) by (subst keyword_loop.simps) (simp add: Cut_eq TrimLeftSpace_def)
  next
    case (Cons kv kvs)
    obtain k' v where kv: "kv = (k', v)" by fastforce
    with Cons.prems have p: "plain k'" "CHR ''='' \<notin> set k'" "k' \<noteq> []" "plain v" "v \<noteq> []" "list_all plain_pair kvs"
      by (auto simp: plain_pair_def [of "(k', v)"])
    let ?rest = "Join (map write_pair kvs @ [?last]) '' ''"
    have "TrimLeftSpace ?rest = ?rest"
    proof (cases kvs)
      case Nil
      then show ?thesis using dropWhile_space_plain [OF assms(2,3)] by (simp add: TrimLeftSpace_def)
    next
      case (Cons kv' kvs')
      then have "plain (fst kv')" "fst kv' \<noteq> []" using p(6) by (auto simp: plain_pair_def)
      then show ?thesis
        using dropWhile_space_plain by (cases kvs') (simp_all add: Cons TrimLeftSpace_def write_pair_def)
    qed
    moreover have "TrimLeftSpace (v @ CHR '' '' # ?rest) = v @ CHR '' '' # ?rest"
      using dropWhile_space_plain [OF p(4,5)] by (simp add: TrimLeftSpace_def)
    ultimately have "parse_value (TrimLeftSpace (v @ CHR '' '' # ?rest)) = Inr (v, ?rest)"
      using parse_value_plain(2) [OF p(4,5), of ?rest] by simp
    moreover have "Join (map write_pair (kv # kvs) @ [?last]) '' '' = k' @ CHR ''='' # v @ CHR '' '' # ?rest"
      by (cases kvs) (simp_all add: kv write_pair_def)
    ultimately show ?case
      using keyword_loop_pair [OF p(1-3)] Cons.IH [OF p(6)] by simp
  qed
  then show ?thesis by (simp add: parsePgxKeywordValueSettings_def)
qed

lemma keyword_value_panics_witness:
  "\<forall>lib. ParseDsn lib (''u=a p='' @ [CHR 0x27, CHR 0x5C]) = Inl (Panic ''slice bounds out of range'')"
proof -
  have "isDsnPgxUrl (''u=a p='' @ [CHR 0x27, CHR 0x5C]) = False" "isDsnMySql (''u=a p='' @ [CHR 0x27, CHR 0x5C]) = False"
    "isDsnPgxKeyValueString (''u=a p='' @ [CHR 0x27, CHR 0x5C])" by code_simp+
  moreover have "list_all plain_pair [(''u'', ''a'')]" "plain ''p''" by code_simp+
  ultimately show ?thesis
    using keyword_value_panics [of "[(''u'', ''a'')]" "''p''" "''''"] by (simp add: ParseDsn_def write_pair_def)
qed

end
