(* ===== verification/Driver_Dialects.thy ===== *)
theory Driver_Dialects
  imports Dsn_Parser Sql_Dialects
begin

text \<open>
  What depends on the target driver: the two packages \<open>pgx-driver\<close> and \<open>mysql-driver\<close>, each with a
  driver dialect, an error handler, a property resolver and a row parser. The properties are a Go map,
  whose order of iteration is the order of the list. Registering the drivers with \<open>database/sql\<close> and
  testing their Go types by reflection are not modelled, nor are the floating-point numbers and time
  stamps of the row parsers.
\<close>

section \<open>Names for the target driver\<close>

definition pgxPersistingProperties :: "string list" where
  "pgxPersistingProperties = map propName [USER, PASSWORD, HOST, DATABASE, PORT]"

definition pgx_kept :: "string \<Rightarrow> bool" where
  "pgx_kept k \<longleftrightarrow> k \<in> set pgxPersistingProperties \<or> k \<notin> set ALL_WRAPPER_PROPERTIES"

definition pgx_value :: "HostInfo option \<Rightarrow> string \<Rightarrow> string \<Rightarrow> string" where
  "pgx_value hostInfo k v =
     (let v1 = (if k = propName PORT \<and> \<not> IsNil hostInfo \<and> Port (the hostInfo) \<noteq> HOST_NO_PORT
                then Itoa (Port (the hostInfo)) else v)
      in if k = propName HOST \<and> \<not> IsNil hostInfo then Host (the hostInfo) else v1)"

definition Pgx_PrepareDsn :: "(string, string) gomap \<Rightarrow> HostInfo option \<Rightarrow> string" where
  "Pgx_PrepareDsn properties hostInfo =
     Join (map (\<lambda>(k, v). k @ ''='' @ pgx_value hostInfo k v)
             (filter (\<lambda>(k, _). pgx_kept k) (RemoveInternalAwsWrapperProperties properties))) '' ''"

text \<open>\<open>url.PathEscape\<close>.\<close>

definition path_safe :: "char \<Rightarrow> bool" where
  "path_safe c \<longleftrightarrow> is_alnum c \<or> c \<in> set ''-_.~$&+:=@''"

definition hex_digit :: "nat \<Rightarrow> char" where
  "hex_digit n = char_of (if n < 10 then 48 + n else 55 + n)"

fun PathEscape :: "string \<Rightarrow> string" where
  "PathEscape [] = []"
| "PathEscape (c # cs) =
     (if path_safe c then [c] else [CHR ''%'', hex_digit (of_char c div 16), hex_digit (of_char c mod 16)]) @ PathEscape cs"

definition prop_or_empty :: "(string, string) gomap \<Rightarrow> AwsWrapperProperty \<Rightarrow> string" where
  "prop_or_empty properties p = (case map_of properties (propName p) of None \<Rightarrow> '''' | Some v \<Rightarrow> v)"

definition mysql_params :: "(string, string) gomap \<Rightarrow> string" where
  "mysql_params properties =
     Join (map (\<lambda>(k, v). k @ ''='' @ v)
             (filter (\<lambda>(k, _). k \<notin> set ALL_WRAPPER_PROPERTIES) (RemoveInternalAwsWrapperProperties properties))) ''&''"

definition MySQL_PrepareDsn :: "(string, string) gomap \<Rightarrow> HostInfo option \<Rightarrow> string" where
  "MySQL_PrepareDsn properties hostInfo =
     (let username = prop_or_empty properties USER; password = prop_or_empty properties PASSWORD;
          address = prop_or_empty properties HOST; database = prop_or_empty properties DATABASE;
          net = prop_or_empty properties NET; port = prop_or_empty properties PORT;
          password' = (if password \<noteq> '''' then '':'' @ password else password);
          port' = (if \<not> IsNil hostInfo \<and> Port (the hostInfo) \<noteq> HOST_NO_PORT then '':'' @ Itoa (Port (the hostInfo))
                   else if port \<noteq> '''' then '':'' @ port else port);
          address' = (if \<not> IsNil hostInfo then Host (the hostInfo) else address);
          params = mysql_params properties
      in (if username \<noteq> '''' then username @ password' @ ''@'' else '''') @ net @
         (if address \<noteq> '''' then ''('' @ address' @ port' @ '')'' else '''') @ ''/'' @
         (if database \<noteq> '''' then PathEscape database else '''') @
         (if params \<noteq> '''' then ''?'' @ params else ''''))"

section \<open>Error handlers\<close>

text \<open>An error as the handlers see it: the SQL state of the driver's own error, found by \<open>errors.As\<close>, and
  its text. A MySQL state has five bytes.\<close>

record driver_error =
  sqlState :: "string option"
  errText :: string

definition AccessErrors :: "string list" where "AccessErrors = [''28P01'', ''28000'']"

definition NetworkErrors :: "string list" where
  "NetworkErrors = [''53'', ''57P01'', ''57P02'', ''57P03'', ''58'', ''08'', ''99'', ''F0'']"

definition PgNetworkErrorMessages :: "string list" where
  "PgNetworkErrorMessages =
     [''unexpected EOF'', ''use of closed network connection'', ''broken pipe'', ''bad connection'', ''context deadline exceeded'']"

definition getSQLStateFromError :: "driver_error \<Rightarrow> string" where
  "getSQLStateFromError err = (case sqlState err of None \<Rightarrow> '''' | Some st \<Rightarrow> st)"

definition Pgx_IsNetworkError :: "driver_error \<Rightarrow> bool" where
  "Pgx_IsNetworkError err \<longleftrightarrow>
     getSQLStateFromError err \<noteq> '''' \<and> getSQLStateFromError err \<in> set NetworkErrors \<or>
     list_ex (Contains (errText err)) PgNetworkErrorMessages"

definition Pgx_IsLoginError :: "driver_error \<Rightarrow> bool" where
  "Pgx_IsLoginError err \<longleftrightarrow>
     getSQLStateFromError err \<noteq> '''' \<and> getSQLStateFromError err \<in> set AccessErrors \<or>
     list_ex (Contains (errText err)) AccessErrors"

definition SqlStateAccessError :: string where "SqlStateAccessError = ''28000''"

definition MySqlNetworkErrorMessages :: "string list" where
  "MySqlNetworkErrorMessages = [''invalid connection'', ''bad connection'', ''broken pipe'', ''context deadline exceeded'']"

definition MySQL_IsNetworkError :: "driver_error \<Rightarrow> bool" where
  "MySQL_IsNetworkError err \<longleftrightarrow>
     getSQLStateFromError err \<noteq> '''' \<and> take 2 (getSQLStateFromError err) = ''08'' \<or>
     list_ex (Contains (errText err)) MySqlNetworkErrorMessages"

definition MySQL_IsLoginError :: "driver_error \<Rightarrow> bool" where
  "MySQL_IsLoginError err \<longleftrightarrow> getSQLStateFromError err = SqlStateAccessError"

section \<open>Property resolvers\<close>

datatype DriverPropertyKey = ConnectTimeout | SocketTimeout | OtherKey

text \<open>Go's integer division rounds toward zero.\<close>

definition quot :: "int \<Rightarrow> int \<Rightarrow> int" where
  "quot a b = sgn a * sgn b * (\<bar>a\<bar> div \<bar>b\<bar>)"

definition rem :: "int \<Rightarrow> int \<Rightarrow> int" where
  "rem a b = a - b * quot a b"

fun Pgx_GetPropertyName :: "DriverPropertyKey \<Rightarrow> string" where
  "Pgx_GetPropertyName ConnectTimeout = ''connect_timeout''"
| "Pgx_GetPropertyName SocketTimeout = ''''"
| "Pgx_GetPropertyName _ = ''''"

definition pgx_seconds :: "int \<Rightarrow> int" where
  "pgx_seconds valueMs = (let seconds = quot valueMs 1000 in if seconds < 1 \<and> valueMs > 0 then 1 else seconds)"

definition Pgx_FormatValue :: "DriverPropertyKey \<Rightarrow> int \<Rightarrow> string" where
  "Pgx_FormatValue key valueMs = Itoa (pgx_seconds valueMs)"

fun MySQL_GetPropertyName :: "DriverPropertyKey \<Rightarrow> string" where
  "MySQL_GetPropertyName ConnectTimeout = ''timeout''"
| "MySQL_GetPropertyName SocketTimeout = ''readTimeout''"
| "MySQL_GetPropertyName _ = ''''"

definition MySQL_FormatValue :: "DriverPropertyKey \<Rightarrow> int \<Rightarrow> string" where
  "MySQL_FormatValue key valueMs =
     (if rem valueMs 1000 = 0 then Itoa (quot valueMs 1000) @ ''s'' else Itoa valueMs @ ''ms'')"

definition create_props ::
  "(DriverPropertyKey \<Rightarrow> string) \<Rightarrow> (DriverPropertyKey \<Rightarrow> int \<Rightarrow> string) \<Rightarrow> (DriverPropertyKey \<times> int) list \<Rightarrow> (string, string) gomap" where
  "create_props name format opts =
     fold (\<lambda>(key, value) props. if name key \<noteq> '''' then mput (name key) (format key value) props else props) opts []"

definition Pgx_CreateProps :: "(DriverPropertyKey \<times> int) list \<Rightarrow> (string, string) gomap" where
  "Pgx_CreateProps = create_props Pgx_GetPropertyName Pgx_FormatValue"

definition MySQL_CreateProps :: "(DriverPropertyKey \<times> int) list \<Rightarrow> (string, string) gomap" where
  "MySQL_CreateProps = create_props MySQL_GetPropertyName MySQL_FormatValue"

section \<open>Row parsers\<close>

definition Pgx_ParseString :: "driver_value \<Rightarrow> string \<times> bool" where
  "Pgx_ParseString val = (case val of VString s \<Rightarrow> (s, True) | _ \<Rightarrow> ('''', False))"

definition Pgx_ParseBool :: "driver_value \<Rightarrow> bool \<times> bool" where
  "Pgx_ParseBool val = (case val of VBool b \<Rightarrow> (b, True) | _ \<Rightarrow> (False, False))"

definition Pgx_ParseInt64 :: "driver_value \<Rightarrow> int \<times> bool" where
  "Pgx_ParseInt64 val = (case val of VInt64 i \<Rightarrow> (i, True) | _ \<Rightarrow> (0, False))"

definition MySQL_ParseString :: "driver_value \<Rightarrow> string \<times> bool" where
  "MySQL_ParseString val =
     (case val of
        VNil \<Rightarrow> ('''', True)
      | VString s \<Rightarrow> (s, True)
      | VBytes s \<Rightarrow> (s, True)
      | VInt64 i \<Rightarrow> (Itoa i, True)
      | _ \<Rightarrow> ('''', False))"

definition MySQL_ParseBool :: "driver_value \<Rightarrow> bool \<times> bool" where
  "MySQL_ParseBool val =
     (case val of VNil \<Rightarrow> (False, True) | VBool b \<Rightarrow> (b, True) | VInt64 i \<Rightarrow> (i = 1, True) | _ \<Rightarrow> (False, False))"

definition MySQL_ParseInt64 :: "driver_value \<Rightarrow> int \<times> bool" where
  "MySQL_ParseInt64 val = (case val of VNil \<Rightarrow> (0, True) | VInt64 i \<Rightarrow> (i, True) | _ \<Rightarrow> (0, False))"

section \<open>Escaping a database name\<close>

lemma hex_val_digit: "n < 16 \<Longrightarrow> hex_val (hex_digit n) = Some n"
  by (auto simp: hex_val_def hex_digit_def Let_def)

lemma path_safe_percent: "\<not> path_safe (CHR ''%'')"
  by code_simp

lemma PathUnescape_PathEscape: "PathUnescape (PathEscape s) = Inr s"
proof (induction s)
  case (Cons c s)
  have "(of_char c :: nat) < 256" by simp
  then have "(of_char c :: nat) div 16 < 16" by (simp add: less_mult_imp_div_less)
  then have "hex_val (hex_digit (of_char c div 16)) = Some (of_char c div 16)"
    "hex_val (hex_digit (of_char c mod 16)) = Some (of_char c mod 16)" by (simp_all add: hex_val_digit)
  moreover have "char_of (16 * (of_char c div 16) + of_char c mod 16 :: nat) = c" by simp
  ultimately show ?case using Cons path_safe_percent by (auto simp: PathUnescape_def)
qed (simp add: PathUnescape_def)

section \<open>Reading back a prepared name\<close>

lemma RWMap_Get_put_prop [simp]: "RWMap_Get k (put_prop k' v m) = (if k = k' then Some v else RWMap_Get k m)"
  by (simp add: put_prop_def RWMap_Put_def RWMap_Get_def)

lemma fold_put_prop:
  assumes "''dbname'' \<notin> fst ` set kvs"
  shows "RWMap_Get k (fold (\<lambda>(k, v). put_prop (rename_key k) v) kvs m) =
     (case map_of (rev kvs) k of Some v \<Rightarrow> Some v | None \<Rightarrow> RWMap_Get k m)"
  using assms
proof (induction kvs arbitrary: m)
  case (Cons kv kvs)
  then show ?case by (cases kv) (auto simp: rename_key_def map_add_def split: option.splits)
qed simp

definition pgx_written :: "(string, string) gomap \<Rightarrow> HostInfo option \<Rightarrow> (string \<times> string) list" where
  "pgx_written properties hostInfo =
     map (\<lambda>(k, v). (k, pgx_value hostInfo k v)) (filter (\<lambda>(k, _). pgx_kept k) (RemoveInternalAwsWrapperProperties properties))"

lemma Pgx_PrepareDsn_written: "Pgx_PrepareDsn properties hostInfo = Join (map write_pair (pgx_written properties hostInfo)) '' ''"
  by (simp add: Pgx_PrepareDsn_def pgx_written_def write_pair_def case_prod_unfold comp_def)

lemma map_of_pgx_written:
  "map_of (pgx_written properties hostInfo) k =
     (if startsWithPrefix k \<or> \<not> pgx_kept k then None else map_option (pgx_value hostInfo k) (map_of properties k))"
  by (induction properties) (auto simp: pgx_written_def RemoveInternalAwsWrapperProperties_def)

lemma wf_pgx_written: "wf_map properties \<Longrightarrow> wf_map (pgx_written properties hostInfo)"
  by (auto simp: wf_map_def pgx_written_def RemoveInternalAwsWrapperProperties_def distinct_map
      inj_on_def comp_def case_prod_unfold)

section \<open>Properties\<close>

text \<open>C24: The name the pgx dialect prepares for a host is read back, by the wrapper's parser of such names, as the
  properties it was prepared from, less the internal ones and the wrapper's own; the values of the host and port keys,
  where there are such keys, are those of the host. This needs every key and value that is written to be a plain word
  (values are not quoted, so one with a space would not be read back) and no key \<open>dbname\<close>, which the parser renames.\<close>
theorem Pgx_PrepareDsn_roundtrip:
  assumes "wf_map properties" "list_all plain_pair (pgx_written properties hostInfo)" "map_of properties ''dbname'' = None"
  shows "\<exists>m. parsePgxKeywordValueSettings (Pgx_PrepareDsn properties hostInfo) = Inr m \<and>
     (\<forall>k. RWMap_Get k m =
        (if k = propName DRIVER_PROTOCOL then Some PGX_DRIVER_PROTOCOL
         else if startsWithPrefix k \<or> \<not> pgx_kept k then None
         else map_option (pgx_value hostInfo k) (map_of properties k)))"
proof -
  let ?kvs = "pgx_written properties hostInfo"
  have "map_of ?kvs ''dbname'' = None" using assms(3) by (simp add: map_of_pgx_written)
  then have "''dbname'' \<notin> fst ` set ?kvs" by (simp add: map_of_eq_None_iff)
  moreover have "map_of (rev ?kvs) = map_of ?kvs" using wf_pgx_written [OF assms(1)] by (rule map_of_rev_wf)
  moreover have "RWMap_Get k (NewRWMap :: (string, string) RWMap) = None" for k by (simp add: NewRWMap_def RWMap_Get_def)
  ultimately have "RWMap_Get k (fold (\<lambda>(k, v). put_prop (rename_key k) v) ?kvs NewRWMap) = map_of ?kvs k" for k
    by (simp add: fold_put_prop split: option.splits)
  then show ?thesis
    using keyword_loop_roundtrip [OF assms(2), of NewRWMap]
    by (simp add: parsePgxKeywordValueSettings_def Pgx_PrepareDsn_written map_of_pgx_written)
qed

lemma Pgx_PrepareDsn_roundtrip_witness:
  "\<exists>m. parsePgxKeywordValueSettings
       (Pgx_PrepareDsn [(''user'', ''u''), (''host'', ''c''), (''plugins'', ''efm''), (''roundRobinDefaultWeight'', ''2''), (''sslmode'', ''require'')]
         (Some (dsn_host None True 5 0 ''i''))) = Inr m \<and>
     RWMap_Get ''host'' m = Some ''i'' \<and> RWMap_Get ''plugins'' m = None \<and> RWMap_Get ''sslmode'' m = Some ''require'' \<and>
     RWMap_Get ''roundRobinDefaultWeight'' m = Some ''2''"
proof -
  let ?p = "[(''user'', ''u''), (''host'', ''c''), (''plugins'', ''efm''), (''roundRobinDefaultWeight'', ''2''), (''sslmode'', ''require'')]"
  let ?h = "Some (dsn_host None True 5 0 ''i'')"
  have 1: "wf_map ?p" by (simp add: wf_map_def)
  have 2: "list_all plain_pair (pgx_written ?p ?h)" by code_simp
  have 3: "startsWithPrefix ''host'' = False" "pgx_kept ''host''" "pgx_kept ''plugins'' = False" "startsWithPrefix ''sslmode'' = False"
    "pgx_kept ''sslmode''" "startsWithPrefix ''roundRobinDefaultWeight'' = False" "pgx_kept ''roundRobinDefaultWeight''"
    "pgx_value ?h ''host'' ''c'' = ''i''" "pgx_value ?h ''sslmode'' ''require'' = ''require''"
    "pgx_value ?h ''roundRobinDefaultWeight'' ''2'' = ''2''" "propName DRIVER_PROTOCOL = ''protocol''" by code_simp+
  show ?thesis using Pgx_PrepareDsn_roundtrip [OF 1 2] 3 by auto
qed

text \<open>The pgx dialect writes values without quotes: a password with a space in it, which can be given in
  quotes and is then read as meant, makes a name that cannot be read.\<close>
theorem Pgx_PrepareDsn_unquoted:
  assumes "plain p" "p \<noteq> []" "plain q" "q \<noteq> []" "CHR ''='' \<notin> set p" "CHR ''='' \<notin> set q"
  shows "\<exists>m. parsePgxKeywordValueSettings (''password='' @ [CHR 0x27] @ p @ '' '' @ q @ [CHR 0x27]) = Inr m \<and>
             RWMap_Get (propName PASSWORD) m = Some (p @ '' '' @ q) \<and>
             parsePgxKeywordValueSettings (Pgx_PrepareDsn (RWMap_GetAllEntries m) hostInfo) =
               Inl (NewDsnParsingError ''DsnParser.invalidKeyValue'')"
proof -
  have names: "propName PASSWORD = ''password''" "propName DRIVER_PROTOCOL = ''protocol''" "plain ''password''"
    by code_simp+
  have esc: "CHR 0x27 \<notin> set (p @ '' '' @ q)" "CHR 0x5C \<notin> set (p @ '' '' @ q)"
    using assms(1,3) by (auto simp: plain_def list_all_iff)
  then have "quoted_end ((p @ '' '' @ q) @ [CHR 0x27]) = length (p @ '' '' @ q) + quoted_end [CHR 0x27]"
    by (rule quoted_end_plain)
  then have v: "parse_value (CHR 0x27 # p @ '' '' @ q @ [CHR 0x27]) = Inr (p @ '' '' @ q, '''')"
    using ReplaceAll_absent [OF esc(2)] by (simp add: parse_value_def rest_after_def unescape_value_def TrimLeftSpace_def)
  let ?m = "put_prop ''protocol'' PGX_DRIVER_PROTOCOL (put_prop ''password'' (p @ '' '' @ q) NewRWMap)"
  have 1: "parsePgxKeywordValueSettings (''password='' @ [CHR 0x27] @ p @ '' '' @ q @ [CHR 0x27]) = Inr ?m"
    using keyword_loop_pair [OF names(3), of "CHR 0x27 # p @ '' '' @ q @ [CHR 0x27]"] v
    by (simp add: parsePgxKeywordValueSettings_def names(2) TrimLeftSpace_def rename_key_def keyword_loop.simps [of "''''"])
  have k: "startsWithPrefix ''password'' = False" "pgx_kept ''password''" "pgx_kept ''protocol'' = False"
    "propName PORT \<noteq> ''password''" "propName HOST \<noteq> ''password''" by code_simp+
  have "RWMap_GetAllEntries ?m = [(''password'', p @ '' '' @ q), (''protocol'', PGX_DRIVER_PROTOCOL)]"
    by (simp add: RWMap_GetAllEntries_def put_prop_def RWMap_Put_def mput_def NewRWMap_def)
  then have d: "Pgx_PrepareDsn (RWMap_GetAllEntries ?m) hostInfo = ''password='' @ p @ '' '' @ q"
    using k by (simp add: Pgx_PrepareDsn_def RemoveInternalAwsWrapperProperties_def pgx_value_def)
  have "TrimLeftSpace (p @ '' '' @ q) = p @ '' '' @ q" "TrimLeftSpace q = q"
    using dropWhile_space_plain [OF assms(1,2)] dropWhile_space_plain [OF assms(3,4), of "[]"] by (simp_all add: TrimLeftSpace_def)
  then have "keyword_loop (''password='' @ p @ '' '' @ q) NewRWMap = keyword_loop q (put_prop ''password'' p NewRWMap)"
    using keyword_loop_pair [OF names(3), of "p @ '' '' @ q"] parse_value_plain(2) [OF assms(1,2), of q] by (simp add: rename_key_def)
  also have "\<dots> = Inl (NewDsnParsingError ''DsnParser.invalidKeyValue'')"
    using assms(4,6) by (subst keyword_loop.simps) (simp add: Cut_def)
  finally have 2: "parsePgxKeywordValueSettings (Pgx_PrepareDsn (RWMap_GetAllEntries ?m) hostInfo) =
      Inl (NewDsnParsingError ''DsnParser.invalidKeyValue'')"
    unfolding d parsePgxKeywordValueSettings_def by simp
  show ?thesis using 1 2 names(1) by (intro exI [of _ ?m]) simp
qed

lemma Pgx_PrepareDsn_unquoted_witness:
  "\<exists>m. parsePgxKeywordValueSettings (''password='' @ [CHR 0x27] @ ''my pass'' @ [CHR 0x27]) = Inr m \<and>
       parsePgxKeywordValueSettings (Pgx_PrepareDsn (RWMap_GetAllEntries m) None) =
         Inl (NewDsnParsingError ''DsnParser.invalidKeyValue'')"
proof -
  have "plain ''my''" "plain ''pass''" by code_simp+
  then show ?thesis using Pgx_PrepareDsn_unquoted [of "''my''" "''pass''" None] by auto
qed

text \<open>The network error classes of the pgx error handler never match: an error with an SQL state, which has
  five characters, is a network error by its state only for 57P01, 57P02 and 57P03, and a connection
  exception (class 08) whose text has none of the listed phrases is not taken for one, while the MySQL
  handler takes the whole class.\<close>
theorem Pgx_network_classes:
  assumes "sqlState err = Some st" "length st = 5"
  shows "(Pgx_IsNetworkError err \<longleftrightarrow> st \<in> {''57P01'', ''57P02'', ''57P03''} \<or> list_ex (Contains (errText err)) PgNetworkErrorMessages) \<and>
    (take 2 st = ''08'' \<longrightarrow> MySQL_IsNetworkError err)"
proof -
  have "st \<noteq> ''''" using assms(2) by auto
  moreover have "st \<in> set NetworkErrors \<longleftrightarrow> st \<in> {''57P01'', ''57P02'', ''57P03''}"
  proof -
    have "\<forall>e \<in> {''53'', ''58'', ''08'', ''99'', ''F0''}. length e = 2" by simp
    with assms(2) have "st \<notin> {''53'', ''58'', ''08'', ''99'', ''F0''}" by fastforce
    then show ?thesis by (simp add: NetworkErrors_def)
  qed
  ultimately show ?thesis
    using assms(1) by (simp add: Pgx_IsNetworkError_def MySQL_IsNetworkError_def getSQLStateFromError_def)
qed

lemma Pgx_network_classes_witness:
  "Pgx_IsNetworkError \<lparr>sqlState = Some ''08006'', errText = ''connection failure''\<rparr> = False \<and>
   MySQL_IsNetworkError \<lparr>sqlState = Some ''08006'', errText = ''connection failure''\<rparr>"
proof -
  let ?e = "\<lparr>sqlState = Some ''08006'', errText = ''connection failure''\<rparr>"
  have "list_ex (Contains (errText ?e)) PgNetworkErrorMessages = False" by code_simp
  then show ?thesis using Pgx_network_classes [of ?e "''08006''"] by simp
qed

text \<open>A timeout in milliseconds is given to pgx in whole seconds, rounded down but never from a positive
  timeout to 0, which would mean no timeout; it is given to MySQL without rounding.\<close>
theorem timeout_formats:
  assumes "0 < ms"
  shows "1 \<le> pgx_seconds ms \<and> (1000 \<le> ms \<longrightarrow> pgx_seconds ms * 1000 \<le> ms \<and> ms < (pgx_seconds ms + 1) * 1000) \<and>
    Pgx_FormatValue ConnectTimeout ms = Itoa (pgx_seconds ms) \<and>
    (\<exists>n unit. MySQL_FormatValue ConnectTimeout ms = Itoa n @ unit \<and> (unit, ms) \<in> {(''s'', n * 1000), (''ms'', n)})"
proof -
  have q: "quot ms 1000 = ms div 1000" using assms by (simp add: quot_def sgn_if)
  then have r: "rem ms 1000 = ms mod 1000" by (simp add: rem_def minus_mult_div_eq_mod)
  have d: "ms div 1000 * 1000 \<le> ms" "ms < (ms div 1000 + 1) * 1000" by simp_all
  have "1 \<le> pgx_seconds ms \<and> (1000 \<le> ms \<longrightarrow> pgx_seconds ms * 1000 \<le> ms \<and> ms < (pgx_seconds ms + 1) * 1000)"
    using assms d by (auto simp: pgx_seconds_def q Let_def)
  moreover have "ms mod 1000 = 0 \<Longrightarrow> ms = ms div 1000 * 1000" using div_mult_mod_eq [of ms 1000] by simp
  then have "\<exists>n unit. MySQL_FormatValue ConnectTimeout ms = Itoa n @ unit \<and> (unit, ms) \<in> {(''s'', n * 1000), (''ms'', n)}"
    by (cases "ms mod 1000 = 0")
      (intro exI [of _ "ms div 1000"] exI [of _ "''s''"], simp add: MySQL_FormatValue_def q r,
       intro exI [of _ ms] exI [of _ "''ms''"], simp add: MySQL_FormatValue_def q r)
  ultimately show ?thesis by (simp add: Pgx_FormatValue_def)
qed

lemma timeout_formats_witness:
  "1 \<le> pgx_seconds 200 \<and> Pgx_FormatValue ConnectTimeout 200 = Itoa 1 \<and> pgx_seconds 2500 * 1000 \<le> 2500"
proof -
  have "pgx_seconds 200 = 1" by code_simp
  then show ?thesis using timeout_formats [of 200] timeout_formats [of 2500] by simp
qed

text \<open>MySQL parameters are unescaped when a name is read and written as they are: an escaped plus sign
  reaches the target driver as a space.\<close>

lemma MySQL_params_not_escaped:
  "map_option (RWMap_Get ''z'') (case parseDSNParams ''z=%2B1'' NewRWMap of Inr m \<Rightarrow> Some m | _ \<Rightarrow> None) = Some (Some ''+1'') \<and>
   MySQL_PrepareDsn [(''z'', ''+1'')] None = ''/?z=+1'' \<and>
   map_option (RWMap_Get ''z'') (case parseDSNParams ''z=+1'' NewRWMap of Inr m \<Rightarrow> Some m | _ \<Rightarrow> None) = Some (Some '' 1'')"
  by code_simp

end
