(* ===== verification/Dialect_Manager.thy ===== *)
theory Dialect_Manager
  imports Sql_Dialects Dsn_Parser Expiring_Caches
begin

text \<open>
  The choice of a database dialect: \<open>awssql/driver_infrastructure/dialect_manager.go\<close>. A manager belongs
  to one connection; the cache of the dialects known for an endpoint is shared by all and is passed along.
  Probing a connection for a dialect is \<open>IsDialect\<close> of the dialects; logging is left out.
\<close>

record DialectManager =
  canUpdate :: bool
  dm_dialect :: "DatabaseDialect option"
  dialectCode :: string

type_synonym dialect_cache = "string CacheMap"

definition NewDialectManager :: DialectManager where
  "NewDialectManager = \<lparr>canUpdate = False, dm_dialect = None, dialectCode = ''''\<rparr>"

definition ENDPOINT_CACHE_EXPIRATION :: duration where
  "ENDPOINT_CACHE_EXPIRATION = 24 * 3600 * 1000000000"

definition knownEndpointDialectsCache :: "time \<Rightarrow> dialect_cache" where
  "knownEndpointDialectsCache now = NewCacheWithDefaultExpiration now ENDPOINT_CACHE_EXPIRATION"

text \<open>The three assignments the branches of \<open>GetDialect\<close> make.\<close>

definition set_dialect :: "bool \<Rightarrow> string \<Rightarrow> DialectManager \<Rightarrow> DialectManager" where
  "set_dialect upd code d = d\<lparr>canUpdate := upd, dialectCode := code, dm_dialect := map_of KnownDialectsByCode code\<rparr>"

text \<open>The branches for one engine, given the codes of its global, cluster, RDS and plain dialects.\<close>

definition dialect_by_url ::
  "time \<Rightarrow> string \<Rightarrow> string \<times> string \<times> string \<times> string \<Rightarrow> RdsUrlType \<Rightarrow> DialectManager \<times> dialect_cache \<Rightarrow> DialectManager \<times> dialect_cache" where
  "dialect_by_url now dsn codes rdsUrlType st =
     (case (codes, st) of ((global, cluster, rds, base), (d, cache)) \<Rightarrow>
        if rdsUrlType = RDS_GLOBAL_WRITER_CLUSTER
        then (set_dialect False global d, CacheMap_PutWithDefaultExpiration now dsn global cache)
        else if IsRdsCluster rdsUrlType
        then (set_dialect True cluster d, CacheMap_PutWithDefaultExpiration now dsn cluster cache)
        else if IsRds rdsUrlType then (set_dialect True rds d, cache)
        else (set_dialect True base d, cache))"

definition mysql_codes :: "string \<times> string \<times> string \<times> string" where
  "mysql_codes = (''global-aurora-mysql'', ''aurora-mysql'', ''rds-mysql'', ''mysql'')"

definition pg_codes :: "string \<times> string \<times> string \<times> string" where
  "pg_codes = (''global-aurora-pg'', ''aurora-pg'', ''rds-pg'', ''pg'')"

definition dialect_from_url ::
  "time \<Rightarrow> net_lib \<Rightarrow> string \<Rightarrow> (string, string) RWMap option \<Rightarrow> DialectManager \<times> dialect_cache
     \<Rightarrow> ((go_error + DatabaseDialect) \<times> DialectManager \<times> dialect_cache) rds" where
  "dialect_from_url now lib dsn props st =
     (let driverProtocol = Property_Get DRIVER_PROTOCOL props
      in bindS (GetHostsFromDsn lib dsn True) (\<lambda>(hostInfoList, err).
           let hostString = (if err = None \<and> hostInfoList \<noteq> [] then Host (hd hostInfoList) else dsn)
           in bindS (IdentifyRdsUrlType hostString) (\<lambda>rdsUrlType.
                let answer = (\<lambda>st'. case dm_dialect (fst st') of
                        Some dialect \<Rightarrow> (Inr dialect, st') | None \<Rightarrow> (Inl (Panic ''nil dialect''), st'))
                in ret (if Contains driverProtocol ''mysql'' then answer (dialect_by_url now dsn mysql_codes rdsUrlType st)
                        else if Contains driverProtocol ''postgres'' then answer (dialect_by_url now dsn pg_codes rdsUrlType st)
                        else (Inl (NewGenericAwsWrapperError ''DatabaseDialectManager.getDialectError''), st)))))"

definition GetDialect ::
  "time \<Rightarrow> net_lib \<Rightarrow> string \<Rightarrow> (string, string) RWMap option \<Rightarrow> DialectManager \<times> dialect_cache
     \<Rightarrow> ((go_error + DatabaseDialect) \<times> DialectManager \<times> dialect_cache) rds" where
  "GetDialect now lib dsn props st =
     (let (d, cache) = st; configured = Property_Get DIALECT props;
          code = (if configured = '''' then CacheMap_Get now cache dsn else Some configured)
      in (case code of
            Some c \<Rightarrow>
              if c \<noteq> ''''
              then ret (case map_of KnownDialectsByCode c of
                          Some userDialect \<Rightarrow> (Inr userDialect, d\<lparr>dialectCode := c, dm_dialect := Some userDialect\<rparr>, cache)
                        | None \<Rightarrow> (Inl (NewGenericAwsWrapperError ''DatabaseDialectManager.unknownDialectCode''), d, cache))
              else dialect_from_url now lib dsn props st
          | None \<Rightarrow> dialect_from_url now lib dsn props st))"

text \<open>\<open>GetDialectForUpdate\<close> probes the candidates in order. It is called after \<open>GetDialect\<close>, which sets
  the dialect when it sets \<open>canUpdate\<close>.\<close>

definition remember :: "time \<Rightarrow> string \<Rightarrow> string \<Rightarrow> string \<Rightarrow> dialect_cache \<Rightarrow> dialect_cache" where
  "remember now originalHost newHost code cache =
     CacheMap_PutWithDefaultExpiration now newHost code (CacheMap_PutWithDefaultExpiration now originalHost code cache)"

definition is_candidate :: "db_conn \<Rightarrow> string \<Rightarrow> bool" where
  "is_candidate conn code = (case map_of KnownDialectsByCode code of None \<Rightarrow> False | Some cand \<Rightarrow> IsDialect cand conn)"

definition GetDialectForUpdate ::
  "time \<Rightarrow> db_conn \<Rightarrow> string \<Rightarrow> string \<Rightarrow> DialectManager \<times> dialect_cache
     \<Rightarrow> DatabaseDialect option \<times> DialectManager \<times> dialect_cache" where
  "GetDialectForUpdate now conn originalHost newHost st =
     (let (d, cache) = st
      in if \<not> canUpdate d then (dm_dialect d, d, cache)
         else (case dm_dialect d of
                 None \<Rightarrow> (None, d, cache)
               | Some dialect \<Rightarrow>
                   (let d' = (case find (is_candidate conn) (GetDialectUpdateCandidates dialect) of
                                Some code \<Rightarrow> set_dialect False code d
                              | None \<Rightarrow> d\<lparr>canUpdate := False\<rparr>)
                    in (dm_dialect d', d', remember now originalHost newHost (dialectCode d') cache))))"

section \<open>The dialect of an endpoint\<close>

definition settled :: "DialectManager \<Rightarrow> DatabaseDialect \<Rightarrow> bool" where
  "settled d dialect \<longleftrightarrow> dm_dialect d = Some dialect \<and> map_of KnownDialectsByCode (dialectCode d) = Some dialect"

definition day_cache :: "dialect_cache \<Rightarrow> bool" where
  "day_cache c \<longleftrightarrow> cm_inv c \<and> cm_defaultExpiration c = ENDPOINT_CACHE_EXPIRATION"

lemma day_cache_Put: "day_cache c \<Longrightarrow> day_cache (CacheMap_PutWithDefaultExpiration t k v c)"
  by (simp add: day_cache_def CacheMap_PutWithDefaultExpiration_def cm_inv_ops)
    (simp add: CacheMap_Put_def CacheMap_CleanUp_def)

lemma Get_PutWithDefaultExpiration:
  "day_cache c \<Longrightarrow> t \<le> t' \<Longrightarrow> t' \<le> t + ENDPOINT_CACHE_EXPIRATION \<Longrightarrow>
   CacheMap_Get t' (CacheMap_PutWithDefaultExpiration t k v c) k' = (if k' = k then Some v else CacheMap_Get t' c k')"
  by (simp add: CacheMap_PutWithDefaultExpiration_def day_cache_def CacheMap_Get_Put)

lemma codes_nonempty: "map_of KnownDialectsByCode code = Some x \<Longrightarrow> code \<noteq> ''''"
  by (auto simp: KnownDialectsByCode_def)

lemma GetDialect_cached:
  assumes "Property_Get DIALECT props = ''''" "CacheMap_Get now cache dsn = Some code" "map_of KnownDialectsByCode code = Some dialect"
  shows "GetDialect now lib dsn props (NewDialectManager, cache) s =
    (Inr (Inr dialect, \<lparr>canUpdate = False, dm_dialect = Some dialect, dialectCode = code\<rparr>, cache), s)"
  using assms codes_nonempty [OF assms(3)] by (simp add: GetDialect_def ret_def NewDialectManager_def)

lemma GetDialectForUpdate_cases:
  assumes "settled d old" "canUpdate d" "GetDialectForUpdate now conn dsn host (d, cache) = (r, d', cache')"
  shows "\<exists>dialect. r = Some dialect \<and> settled d' dialect \<and> \<not> canUpdate d' \<and>
      Some dialect = (case find (is_candidate conn) (GetDialectUpdateCandidates old) of
                        Some code \<Rightarrow> map_of KnownDialectsByCode code | None \<Rightarrow> Some old) \<and>
      cache' = remember now dsn host (dialectCode d') cache"
proof (cases "find (is_candidate conn) (GetDialectUpdateCandidates old)")
  case None
  with assms show ?thesis by (intro exI [of _ old]) (auto simp: GetDialectForUpdate_def settled_def)
next
  case (Some code)
  then have "is_candidate conn code" by (auto simp: find_Some_iff)
  then obtain cand where "map_of KnownDialectsByCode code = Some cand" by (auto simp: is_candidate_def split: option.splits)
  with assms Some show ?thesis by (intro exI [of _ cand]) (auto simp: GetDialectForUpdate_def settled_def set_dialect_def)
qed

lemma dialect_from_url_cases:
  "dialect_from_url now lib dsn props st s = (Inr (Inr guess, st1), s1) \<Longrightarrow>
   \<exists>urlType. (st1 = dialect_by_url now dsn mysql_codes urlType st \<or> st1 = dialect_by_url now dsn pg_codes urlType st) \<and>
     dm_dialect (fst st1) = Some guess"
  by (auto simp: dialect_from_url_def bindS_def ret_def Let_def split: prod.splits sum.splits if_splits option.splits)

text \<open>A cluster guess comes from the branch that caches its code.\<close>

lemma known_codes:
  "map_of KnownDialectsByCode ''aurora-mysql'' = Some AuroraMySQLDatabaseDialect"
  "map_of KnownDialectsByCode ''aurora-pg'' = Some AuroraPgDatabaseDialect"
  "map_of KnownDialectsByCode ''global-aurora-mysql'' = Some GlobalAuroraMySQLDatabaseDialect"
  "map_of KnownDialectsByCode ''global-aurora-pg'' = Some GlobalAuroraPgDatabaseDialect"
  "map_of KnownDialectsByCode ''rds-mysql'' = Some RdsMySQLDatabaseDialect"
  "map_of KnownDialectsByCode ''rds-pg'' = Some RdsPgDatabaseDialect"
  "map_of KnownDialectsByCode ''mysql'' = Some MySQLDatabaseDialect"
  "map_of KnownDialectsByCode ''pg'' = Some PgDatabaseDialect"
  by (simp_all add: KnownDialectsByCode_def)

lemma dialect_by_url_cluster:
  assumes r: "(d1, cache1) = dialect_by_url now dsn (g, c, r, b) urlType (d, cache)"
    and codes: "(g, c, r, b) = mysql_codes \<or> (g, c, r, b) = pg_codes"
    and guess: "dm_dialect d1 = Some guess" "guess \<in> {AuroraMySQLDatabaseDialect, AuroraPgDatabaseDialect}"
  shows "d1 = set_dialect True c d \<and> cache1 = CacheMap_PutWithDefaultExpiration now dsn c cache \<and>
      map_of KnownDialectsByCode c = Some guess"
proof -
  have "map_of KnownDialectsByCode x \<noteq> Some guess" if "x \<in> {g, r, b}" for x
    using codes guess(2) that unfolding mysql_codes_def pg_codes_def by (elim disjE) (auto simp: known_codes)
  then show ?thesis using r guess(1)
    by (auto simp: dialect_by_url_def set_dialect_def split: if_splits)
qed

lemma dialect_from_url_cluster:
  assumes "dialect_from_url now lib dsn props (d, cache) s = (Inr (Inr guess, d1, cache1), s1)"
    and guess: "guess \<in> {AuroraMySQLDatabaseDialect, AuroraPgDatabaseDialect}"
  shows "\<exists>code. d1 = set_dialect True code d \<and> cache1 = CacheMap_PutWithDefaultExpiration now dsn code cache \<and>
      map_of KnownDialectsByCode code = Some guess"
proof -
  obtain urlType where u: "(d1, cache1) = dialect_by_url now dsn mysql_codes urlType (d, cache) \<or>
      (d1, cache1) = dialect_by_url now dsn pg_codes urlType (d, cache)" and d: "dm_dialect d1 = Some guess"
    using dialect_from_url_cases [OF assms(1)] by auto
  from u show ?thesis
  proof
    assume r: "(d1, cache1) = dialect_by_url now dsn mysql_codes urlType (d, cache)"
    from dialect_by_url_cluster [OF r [unfolded mysql_codes_def] disjI1 d guess] show ?thesis unfolding mysql_codes_def by blast
  next
    assume r: "(d1, cache1) = dialect_by_url now dsn pg_codes urlType (d, cache)"
    from dialect_by_url_cluster [OF r [unfolded pg_codes_def] disjI2 d guess] show ?thesis unfolding pg_codes_def by blast
  qed
qed

section \<open>Properties\<close>

text \<open>The update chooses the first candidate the server confirms, or keeps the dialect; it is made once; and
  for a day every new connection with the same DSN and no configured dialect gets the dialect chosen.\<close>
theorem GetDialectForUpdate_remembered:
  assumes "settled d old" "canUpdate d" "day_cache cache" "Property_Get DIALECT props = ''''"
    and "GetDialectForUpdate now conn dsn host (d, cache) = (r, d', cache')"
    and "now \<le> later" "later \<le> now + ENDPOINT_CACHE_EXPIRATION"
  shows "\<exists>dialect.
     Some dialect = (case find (is_candidate conn) (GetDialectUpdateCandidates old) of
                       Some code \<Rightarrow> map_of KnownDialectsByCode code | None \<Rightarrow> Some old) \<and>
     r = Some dialect \<and> GetDialectForUpdate later conn2 dsn2 host2 (d', cache') = (Some dialect, d', cache') \<and>
     fst (GetDialect later lib dsn props (NewDialectManager, cache') s) =
       Inr (Inr dialect, d', cache')"
proof -
  from GetDialectForUpdate_cases [OF assms(1,2,5)] obtain dialect where
    1: "r = Some dialect" "settled d' dialect" "\<not> canUpdate d'"
      "Some dialect = (case find (is_candidate conn) (GetDialectUpdateCandidates old) of
                        Some code \<Rightarrow> map_of KnownDialectsByCode code | None \<Rightarrow> Some old)"
      "cache' = remember now dsn host (dialectCode d') cache" by blast
  have "CacheMap_Get later cache' dsn = Some (dialectCode d')"
    using assms(3,6,7) by (simp add: 1(5) remember_def Get_PutWithDefaultExpiration day_cache_Put)
  then have "fst (GetDialect later lib dsn props (NewDialectManager, cache') s) = Inr (Inr dialect, d', cache')"
    using GetDialect_cached [OF assms(4)] 1(2,3) by (simp add: settled_def)
  then show ?thesis using 1 by (auto simp: GetDialectForUpdate_def settled_def)
qed

lemma GetDialectForUpdate_remembered_witness:
  "\<exists>dialect d' cache'. GetDialectForUpdate 5 (\<lambda>_. None) ''dsn'' ''h''
       (\<lparr>canUpdate = True, dm_dialect = Some PgDatabaseDialect, dialectCode = ''pg''\<rparr>, knownEndpointDialectsCache 0) = (Some dialect, d', cache') \<and>
     (\<forall>lib s. fst (GetDialect 9 lib ''dsn'' None (NewDialectManager, cache') s) = Inr (Inr dialect, d', cache'))"
proof -
  let ?d = "\<lparr>canUpdate = True, dm_dialect = Some PgDatabaseDialect, dialectCode = ''pg''\<rparr>"
  have "settled ?d PgDatabaseDialect" "canUpdate ?d" by (simp_all add: settled_def KnownDialectsByCode_def)
  moreover have "day_cache (knownEndpointDialectsCache 0)"
    by (simp add: day_cache_def knownEndpointDialectsCache_def cm_inv_ops) (simp add: NewCacheWithDefaultExpiration_def)
  moreover have "Property_Get DIALECT None = ''''" by code_simp
  moreover obtain r d' c' where g: "GetDialectForUpdate 5 (\<lambda>_. None) ''dsn'' ''h'' (?d, knownEndpointDialectsCache 0) = (r, d', c')"
    by (metis prod_cases3)
  moreover have "(5::int) \<le> 9" "(9::int) \<le> 5 + ENDPOINT_CACHE_EXPIRATION" by (simp_all add: ENDPOINT_CACHE_EXPIRATION_def)
  ultimately have 1: "\<exists>dialect. r = Some dialect \<and> fst (GetDialect 9 lib ''dsn'' None (NewDialectManager, c') s) = Inr (Inr dialect, d', c')" for lib s
    using GetDialectForUpdate_remembered [of ?d PgDatabaseDialect "knownEndpointDialectsCache 0" None 5 "\<lambda>_. None" "''dsn''" "''h''"
        r d' c' 9 "\<lambda>_. None" "[]" "[]" lib s]
    by blast
  then obtain dialect where r: "r = Some dialect" by blast
  have "fst (GetDialect 9 lib ''dsn'' None (NewDialectManager, c') s) = Inr (Inr dialect, d', c')" for lib s
    using 1 [of lib s] unfolding r by simp
  with g r show ?thesis by blast
qed

text \<open>The dialect guessed from a cluster endpoint is cached before any server has confirmed it. Until the
  first connection updates it, and for a day if that connection is never made, every other connection with
  the DSN gets the guess as its final dialect: it cannot be updated, whatever the server would answer.\<close>
theorem provisional_dialect_final:
  assumes "Property_Get DIALECT props = ''''" "day_cache cache" "CacheMap_Get now cache dsn = None"
    and "GetDialect now lib dsn props (NewDialectManager, cache) s = (Inr (Inr guess, d1, cache1), s1)"
    and "guess \<in> {AuroraMySQLDatabaseDialect, AuroraPgDatabaseDialect}"
    and "now \<le> later" "later \<le> now + ENDPOINT_CACHE_EXPIRATION"
  shows "canUpdate d1 \<and>
     (\<exists>d2. GetDialect later lib dsn props (NewDialectManager, cache1) s1 = (Inr (Inr guess, d2, cache1), s1) \<and> \<not> canUpdate d2 \<and>
           GetDialectForUpdate time conn dsn2 host2 (d2, cache2) = (Some guess, d2, cache2))"
proof -
  have g: "GetDialect now lib dsn props (NewDialectManager, cache) s = dialect_from_url now lib dsn props (NewDialectManager, cache) s"
    using assms(1,3) by (simp add: GetDialect_def)
  then have "dialect_from_url now lib dsn props (NewDialectManager, cache) s = (Inr (Inr guess, d1, cache1), s1)" using assms(4) by simp
  from dialect_from_url_cluster [OF this assms(5)]
  obtain code where c: "d1 = set_dialect True code NewDialectManager"
    "cache1 = CacheMap_PutWithDefaultExpiration now dsn code cache" "map_of KnownDialectsByCode code = Some guess" by blast
  have "CacheMap_Get later cache1 dsn = Some code"
    using assms(2,6,7) by (simp add: c(2) Get_PutWithDefaultExpiration)
  from GetDialect_cached [OF assms(1) this c(3), of lib s1] show ?thesis
    using c(1) by (simp add: set_dialect_def GetDialectForUpdate_def)
qed

definition no_lib :: net_lib where
  "no_lib = \<lparr>urlParse = (\<lambda>_. Inl (ExternalError ''url'')), ParseIP = (\<lambda>_. False), SplitHostPort = (\<lambda>h. Inr (h, ''''))\<rparr>"

definition pg_props :: "(string, string) RWMap option" where
  "pg_props = Some (NewRWMapFromMap [(''protocol'', ''postgresql'')])"

text \<open>A host preparer that answers a cluster endpoint.\<close>

definition to_cluster :: "string \<Rightarrow> string" where
  "to_cluster _ = ''a.cluster-b.c.rds.amazonaws.com''"

lemma to_cluster_type: "url_type_spec (Some to_cluster) ''postgres://'' = RDS_WRITER_CLUSTER"
proof -
  have ok: "endpoint_ok ''a'' ''cluster-'' ''b'' ''c''" by code_simp
  have e: "''a.cluster-b.c.rds.amazonaws.com'' = standard_endpoint ''a'' ''cluster-'' ''b'' ''c''" by (simp add: standard_endpoint_def)
  have "IsIP ''postgres://'' = False" by code_simp
  moreover have "MatchString AURORA_GLOBAL_WRITER_DNS_PATTERN ''a.cluster-b.c.rds.amazonaws.com'' = False" by code_simp
  moreover have "EqualFold ''cluster-'' ''cluster-''" by code_simp
  moreover have "dns_group_of ''a.cluster-b.c.rds.amazonaws.com'' = ''cluster-''" using endpoint_pattern(2) [OF ok] by (simp add: e)
  ultimately show ?thesis by (simp add: url_type_spec_def prepared_def to_cluster_def)
qed

lemma provisional_dialect_final_witness:
  "\<exists>d1 d2 cache1 s1.
     GetDialect 5 no_lib ''postgres://'' pg_props (NewDialectManager, knownEndpointDialectsCache 0) (fresh_state (Some to_cluster)) =
       (Inr (Inr AuroraPgDatabaseDialect, d1, cache1), s1) \<and> canUpdate d1 \<and>
     GetDialect 9 no_lib ''postgres://'' pg_props (NewDialectManager, cache1) s1 = (Inr (Inr AuroraPgDatabaseDialect, d2, cache1), s1) \<and>
     \<not> canUpdate d2"
proof -
  let ?c = "knownEndpointDialectsCache 0" and ?dsn = "''postgres://''"
  obtain s1 where id: "IdentifyRdsUrlType ?dsn (fresh_state (Some to_cluster)) = (Inr RDS_WRITER_CLUSTER, s1)"
    using computes_elim [OF computes_Identify fresh_coherent, of ?dsn "Some to_cluster"] to_cluster_type by (metis prod.collapse)
  have "isDsnPgxUrl ?dsn" by code_simp
  then have hosts: "GetHostsFromDsn no_lib ?dsn True = ret ([], Some (ExternalError ''url''))"
    by (simp add: GetHostsFromDsn_def ParseDsn_def parsePgxURLSettings_def no_lib_def)
  have p: "Property_Get DIALECT pg_props = ''''" "Property_Get DRIVER_PROTOCOL pg_props = ''postgresql''"
    "Contains ''postgresql'' ''mysql'' = False" "Contains ''postgresql'' ''postgres''" by code_simp+
  have miss: "CacheMap_Get 5 ?c ?dsn = None"
    by (simp add: knownEndpointDialectsCache_def NewCacheWithDefaultExpiration_def CacheMap_Get_def)
  have day: "day_cache ?c"
    by (simp add: day_cache_def knownEndpointDialectsCache_def cm_inv_ops) (simp add: NewCacheWithDefaultExpiration_def)
  obtain d1 c1 where g: "GetDialect 5 no_lib ?dsn pg_props (NewDialectManager, ?c) (fresh_state (Some to_cluster)) =
      (Inr (Inr AuroraPgDatabaseDialect, d1, c1), s1)"
    using p miss
    by (simp add: GetDialect_def dialect_from_url_def hosts bindS_def ret_def id dialect_by_url_def pg_codes_def
        RDS_WRITER_CLUSTER_def RDS_GLOBAL_WRITER_CLUSTER_def set_dialect_def known_codes)
  have t: "(5::int) \<le> 9" "(9::int) \<le> 5 + ENDPOINT_CACHE_EXPIRATION" by (simp_all add: ENDPOINT_CACHE_EXPIRATION_def)
  from provisional_dialect_final [OF p(1) day miss g insertI2 [OF singletonI] t, of 0 "\<lambda>_. None" "[]" "[]" c1] g
  show ?thesis by blast
qed

end
