(* ===== verification/Topology.thy ===== *)
theory Topology
  imports Host_Info Services "HOL-Library.Word" "HOL-Library.Char_ord" "HOL-Library.List_Lexorder"
begin

text \<open>
  What the storage service holds for the cluster: the topology (\<open>awssql/driver_infrastructure/topology.go\<close>)
  and the hosts a custom endpoint allows or blocks (\<open>allowed_and_blocked_hosts.go\<close>). A \<open>*Topology\<close> may be
  nil. \<open>hash/fnv\<close> is written out on 64-bit words. \<open>sort.Slice\<close> is not stable, so \<open>Key\<close> takes the function
  that sorts as a parameter: any one that answers a sorted permutation.
\<close>

unbundle bit_operations_syntax

section \<open>Topology\<close>

record Topology =
  t_hosts :: "HostInfo option list"

definition NewTopology :: "HostInfo option list \<Rightarrow> Topology option" where
  "NewTopology hosts = Some \<lparr>t_hosts = hosts\<rparr>"

definition Topology_GetHosts :: "Topology option \<Rightarrow> HostInfo option list" where
  "Topology_GetHosts t = (case t of None \<Rightarrow> [] | Some t \<Rightarrow> t_hosts t)"

fun role_string :: "HostRole \<Rightarrow> string" where
  "role_string READER = ''reader''"
| "role_string WRITER = ''writer''"
| "role_string UNKNOWN = ''unknown''"
| "role_string AnyRole = ''''"

fun availability_string :: "HostAvailability \<Rightarrow> string" where
  "availability_string AVAILABLE = ''available''"
| "availability_string UNAVAILABLE = ''unavailable''"

text \<open>FNV-1a: \<open>New64a\<close> is the offset basis, \<open>Write\<close> takes each byte into the hash, \<open>Sum64\<close> reads it.\<close>

definition fnv_New64a :: "64 word" where "fnv_New64a = 14695981039346656037"

definition fnv_Write :: "string \<Rightarrow> 64 word \<Rightarrow> 64 word" where
  "fnv_Write bytes h = fold (\<lambda>c h. (h XOR word_of_nat (of_char c)) * 1099511628211) bytes h"

definition hash_host :: "HostInfo option \<Rightarrow> 64 word \<Rightarrow> 64 word" where
  "hash_host host h =
     (case host of
        None \<Rightarrow> h
      | Some i \<Rightarrow> fnv_Write (availability_string (Availability i))
                   (fnv_Write (role_string (Role i)) (fnv_Write (GetHostAndPort (Some i)) h)))"

definition HashCode :: "Topology option \<Rightarrow> 64 word" where
  "HashCode t = (if Topology_GetHosts t = [] then 0 else fold hash_host (Topology_GetHosts t) fnv_New64a)"

text \<open>The loop of \<open>Equals\<close>; the lengths are equal when it runs. Equal pointers are equal values.\<close>

fun topology_loop :: "HostInfo option list \<Rightarrow> HostInfo option list \<Rightarrow> bool" where
  "topology_loop (host # hosts) (otherHost # others) =
     (case (host, otherHost) of
        (None, None) \<Rightarrow> topology_loop hosts others
      | (Some a, Some b) \<Rightarrow> if \<not> Equals a b then False else topology_loop hosts others
      | _ \<Rightarrow> False)"
| "topology_loop _ _ = True"

definition Topology_Equals :: "Topology option \<Rightarrow> Topology option \<Rightarrow> bool" where
  "Topology_Equals t other =
     (case (t, other) of
        (None, None) \<Rightarrow> True
      | (Some a, Some b) \<Rightarrow> length (t_hosts a) = length (t_hosts b) \<and> topology_loop (t_hosts a) (t_hosts b)
      | _ \<Rightarrow> False)"

definition key_field :: "HostInfo \<Rightarrow> string" where
  "key_field h = Host h @ '':'' @ Itoa (Port h) @ '':'' @ availability_string (Availability h) @ '':'' @ role_string (Role h)"

text \<open>A nil host has no \<open>Host\<close>: reading it panics. With a single nil host nothing is compared, and
  writing its fields panics.\<close>

definition Topology_Key :: "(HostInfo list \<Rightarrow> HostInfo list) \<Rightarrow> Topology option \<Rightarrow> go_error + string" where
  "Topology_Key sortSlice t =
     (let hosts = Topology_GetHosts t
      in if None \<in> set hosts then Inl (Panic ''nil pointer dereference'')
         else Inr (concat (map (\<lambda>h. key_field h @ ''|'') (sortSlice (map the hosts)))))"

definition is_sort :: "(HostInfo list \<Rightarrow> HostInfo list) \<Rightarrow> bool" where
  "is_sort sortSlice \<longleftrightarrow> (\<forall>hs. mset (sortSlice hs) = mset hs \<and> sorted (map Host (sortSlice hs)))"

section \<open>Allowed and blocked hosts\<close>

text \<open>A \<open>map[string]bool\<close>, \<open>None\<close> being nil.\<close>

record AllowedAndBlockedHosts =
  allowedHostIds :: "(string, bool) gomap option"
  blockedHostIds :: "(string, bool) gomap option"

definition NewAllowedAndBlockedHosts :: "(string, bool) gomap \<Rightarrow> (string, bool) gomap \<Rightarrow> AllowedAndBlockedHosts" where
  "NewAllowedAndBlockedHosts allowed blocked =
     \<lparr>allowedHostIds = (if length allowed > 0 then Some allowed else None),
      blockedHostIds = (if length blocked > 0 then Some blocked else None)\<rparr>"

section \<open>Storage types\<close>

text \<open>The storage is keyed by values of any type: strings and, in one place, pointers to hosts. Other
  types of stored values are \<open>'b\<close>.\<close>

datatype storage_key = StringKey string | HostInfoKey "HostInfo option"

datatype 'b storage_value = TopologyValue Topology | PermissionsValue AllowedAndBlockedHosts | OtherValue 'b

type_synonym 'b cluster_storage = "(storage_key, 'b storage_value) ExpiringStorage"

definition TopologyStorageType :: "(Topology, 'b storage_value) StorageTypeDescriptor" where
  "TopologyStorageType =
     \<lparr>TypeKey = ''Topology'', TTL = 5 * 60 * 1000000000, RenewOnAccess = False, ShouldDispose = None, HasOnDispose = False,
      d_cast = (\<lambda>v. case v of TopologyValue t \<Rightarrow> Some t | _ \<Rightarrow> None), d_wrap = TopologyValue\<rparr>"

definition AllowedAndBlockedHostsStorageType :: "(AllowedAndBlockedHosts, 'b storage_value) StorageTypeDescriptor" where
  "AllowedAndBlockedHostsStorageType =
     \<lparr>TypeKey = ''AllowedAndBlockedHosts'', TTL = 5 * 60 * 1000000000, RenewOnAccess = False, ShouldDispose = None, HasOnDispose = False,
      d_cast = (\<lambda>v. case v of PermissionsValue p \<Rightarrow> Some p | _ \<Rightarrow> None), d_wrap = PermissionsValue\<rparr>"

section \<open>Keys of topologies\<close>

lemma Itoa_chars: "c \<in> set (Itoa n) \<Longrightarrow> is_digit c \<or> c = CHR ''-''"
  using dec_digits_props [of "nat n"] dec_digits_props [of "nat (- n)"]
  by (auto simp: Itoa_def list_all_iff split: if_splits)

lemma Itoa_inject: "Itoa m = Itoa n \<longleftrightarrow> m = n"
proof
  assume e: "Itoa m = Itoa n"
  have d: "dec_digits k \<noteq> CHR ''-'' # r" for k r
    using dec_digits_hd [of k] not_digit_sign by auto
  have v: "dec_digits k = dec_digits l \<Longrightarrow> k = l" for k l
    using dec_digits_props by metis
  show "m = n"
  proof (cases "m < 0"; cases "n < 0")
    assume "m < 0" "n < 0"
    then show ?thesis using e v [of "nat (- m)" "nat (- n)"] by (simp add: Itoa_def del: dec_digits.simps)
  next
    assume "\<not> m < 0" "\<not> n < 0"
    then show ?thesis using e v [of "nat m" "nat n"] by (simp add: Itoa_def del: dec_digits.simps)
  qed (use e d d [symmetric] in \<open>auto simp: Itoa_def simp del: dec_digits.simps\<close>)
qed simp

lemma word_chars:
  "CHR '':'' \<notin> set (role_string r)" "CHR ''|'' \<notin> set (role_string r)"
  "CHR '':'' \<notin> set (availability_string a)" "CHR ''|'' \<notin> set (availability_string a)"
  "CHR '':'' \<notin> set (Itoa n)" "CHR ''|'' \<notin> set (Itoa n)"
proof -
  show "CHR '':'' \<notin> set (role_string r)" "CHR ''|'' \<notin> set (role_string r)" by (cases r; simp)+
  show "CHR '':'' \<notin> set (availability_string a)" "CHR ''|'' \<notin> set (availability_string a)" by (cases a; simp)+
  show "CHR '':'' \<notin> set (Itoa n)" "CHR ''|'' \<notin> set (Itoa n)"
    using Itoa_chars [of "CHR '':''" n] Itoa_chars [of "CHR ''|''" n] by (auto simp: is_digit_def)
qed

lemma string_injects:
  "role_string r = role_string r' \<longleftrightarrow> r = r'" "availability_string a = availability_string a' \<longleftrightarrow> a = a'"
  by (cases r; cases r'; simp) (cases a; cases a'; simp)

text \<open>What a key says of a host; host names have neither of the two separators.\<close>

definition key_view :: "HostInfo \<Rightarrow> string \<times> int \<times> HostAvailability \<times> HostRole" where
  "key_view h = (Host h, Port h, Availability h, Role h)"

definition plain_name :: "HostInfo \<Rightarrow> bool" where
  "plain_name h \<longleftrightarrow> CHR '':'' \<notin> set (Host h) \<and> CHR ''|'' \<notin> set (Host h)"

lemma key_field_inject:
  assumes "plain_name h" "plain_name h'"
  shows "key_field h = key_field h' \<longleftrightarrow> key_view h = key_view h'"
proof
  have fields: "Split (key_field i) (CHR '':'') = [Host i, Itoa (Port i), availability_string (Availability i), role_string (Role i)]"
    if "plain_name i" for i
    using that word_chars by (simp add: key_field_def plain_name_def Split_append Split_no_occurrence)
  assume "key_field h = key_field h'"
  with fields [OF assms(1)] fields [OF assms(2)] show "key_view h = key_view h'"
    by (simp add: key_view_def Itoa_inject string_injects)
qed (simp add: key_view_def key_field_def)

lemma map_key_field_inject:
  assumes "\<forall>h \<in> set xs \<union> set ys. plain_name h"
  shows "map key_field xs = map key_field ys \<longleftrightarrow> map key_view xs = map key_view ys"
  using assms
proof (induction xs arbitrary: ys)
  case (Cons x xs)
  show ?case
  proof (cases ys)
    case (Cons y zs)
    with Cons.IH [of zs] Cons.prems show ?thesis by (simp add: key_field_inject)
  qed simp
qed simp

lemma concat_bars_inject:
  fixes c :: char
  assumes "\<forall>v \<in> set vs. c \<notin> set v" "\<forall>v \<in> set ws. c \<notin> set v" "concat (map (\<lambda>v. v @ [c]) vs) = concat (map (\<lambda>v. v @ [c]) ws)"
  shows "vs = ws"
proof -
  have "Split (concat (map (\<lambda>v. v @ [c]) us)) c = us @ [[]]" if "\<forall>v \<in> set us. c \<notin> set v" for us
    using that by (induction us) (simp_all add: Split_append)
  with assms show ?thesis by (metis butlast_snoc)
qed

text \<open>Two sorted permutations of lists without two hosts of one name show the same views.\<close>

lemma sorted_views:
  assumes "sorted (map Host xs)" "sorted (map Host ys)" "distinct (map Host xs)"
    and m: "mset (map key_view xs) = mset (map key_view ys)"
  shows "map key_view xs = map key_view ys"
proof (rule map_sorted_distinct_set_unique [of fst])
  have fst: "map fst (map key_view zs) = map Host zs" for zs by (simp add: key_view_def)
  have sets: "set (map key_view xs) = set (map key_view ys)" using m by (metis set_mset_mset)
  have "mset (map Host xs) = mset (map Host ys)" using arg_cong [OF m, of "image_mset fst"] by (simp add: multiset.map_comp comp_def key_view_def)
  then have "distinct (map Host ys)" using assms(3) by (metis mset_eq_imp_distinct_iff)
  then show "sorted (map fst (map key_view xs))" "sorted (map fst (map key_view ys))"
    "distinct (map fst (map key_view xs))" "distinct (map fst (map key_view ys))"
    using assms(1-3) unfolding fst by simp_all
  then show "inj_on fst (set (map key_view xs) \<union> set (map key_view ys))"
    unfolding sets Un_absorb by (metis distinct_map)
  show "set (map key_view xs) = set (map key_view ys)" by (rule sets)
qed

lemma hash_host_Equals:
  "Equals a b \<Longrightarrow> hash_host (Some a) = hash_host (Some b)"
  by (auto simp: fun_eq_iff hash_host_def Equals_def GetHostAndPort_def IsPortSpecified_def)

section \<open>Properties\<close>

text \<open>C25: The key of a topology does not depend on the order of its hosts, nor on how the sort breaks
  ties, and says exactly their names, ports, availabilities and roles: it is the key two reader
  topologies are compared by. This needs distinct host names, without the separators of the key.\<close>
theorem Topology_Key_iff:
  assumes "is_sort f" "is_sort g" "distinct (map Host hs)" "\<forall>h \<in> set hs \<union> set hs'. plain_name h"
  shows "Topology_Key f (NewTopology (map Some hs)) = Topology_Key g (NewTopology (map Some hs')) \<longleftrightarrow>
         mset (map key_view hs) = mset (map key_view hs')"
proof -
  have sets: "set (f hs) = set hs" "set (g hs') = set hs'"
    using assms(1,2) by (metis is_sort_def set_mset_mset)+
  have key: "Topology_Key s (NewTopology (map Some xs)) = Inr (concat (map (\<lambda>v. v @ ''|'') (map key_field (s xs))))" for s xs
    by (auto simp: Topology_Key_def NewTopology_def Topology_GetHosts_def comp_def)
  have bars: "\<forall>v \<in> set (map key_field (f hs)). CHR ''|'' \<notin> set v" "\<forall>v \<in> set (map key_field (g hs')). CHR ''|'' \<notin> set v"
    using assms(4) word_chars by (auto simp: sets key_field_def plain_name_def)
  have "map key_field (f hs) = map key_field (g hs') \<longleftrightarrow> map key_view (f hs) = map key_view (g hs')"
    by (rule map_key_field_inject) (use assms(4) in \<open>simp add: sets\<close>)
  moreover have "map key_view (f hs) = map key_view (g hs') \<longleftrightarrow> mset (map key_view (f hs)) = mset (map key_view (g hs'))"
  proof
    have "distinct (map Host (f hs))"
      using assms(1,3) mset_eq_imp_distinct_iff [of "map Host (f hs)" "map Host hs"] by (simp add: is_sort_def)
    then show "mset (map key_view (f hs)) = mset (map key_view (g hs')) \<Longrightarrow> map key_view (f hs) = map key_view (g hs')"
      using sorted_views [of "f hs" "g hs'"] assms(1,2) by (simp add: is_sort_def)
  qed simp
  moreover have "mset (map key_view (f hs)) = mset (map key_view hs)" "mset (map key_view (g hs')) = mset (map key_view hs')"
    using assms(1,2) by (simp_all add: is_sort_def)
  ultimately show ?thesis
    unfolding key sum.inject using concat_bars_inject [OF bars] by metis
qed

definition small_host :: "string \<Rightarrow> int \<Rightarrow> HostRole \<Rightarrow> HostInfo" where
  "small_host name port role =
     \<lparr>Host = name, HostId = name, Port = port, Availability = AVAILABLE, Role = role, Aliases = Some {},
      AllAliases = Some {}, Weight = 100, LastUpdateTime = 0\<rparr>"

lemma is_sort_sort_key: "is_sort (sort_key Host)"
  by (simp add: is_sort_def)

lemma Topology_Key_iff_witness:
  "Topology_Key (sort_key Host) (NewTopology [Some (small_host ''b'' 5 READER), Some (small_host ''a'' 5 WRITER)]) =
     Topology_Key (sort_key Host) (NewTopology [Some (small_host ''a'' 5 WRITER), Some (small_host ''b'' 5 READER)]) \<and>
   Topology_Key (sort_key Host) (NewTopology [Some (small_host ''a'' 5 WRITER)]) \<noteq>
     Topology_Key (sort_key Host) (NewTopology [Some (small_host ''a'' 5 READER)])"
  using Topology_Key_iff [OF is_sort_sort_key is_sort_sort_key, of "[small_host ''b'' 5 READER, small_host ''a'' 5 WRITER]"
      "[small_host ''a'' 5 WRITER, small_host ''b'' 5 READER]"]
    Topology_Key_iff [OF is_sort_sort_key is_sort_sort_key, of "[small_host ''a'' 5 WRITER]" "[small_host ''a'' 5 READER]"]
  by (simp add: plain_name_def small_host_def key_view_def)

text \<open>Equal topologies have equal hash codes.\<close>
theorem Topology_Equals_HashCode:
  assumes "Topology_Equals t other"
  shows "HashCode t = HashCode other"
proof -
  have loop: "length xs = length ys \<Longrightarrow> topology_loop xs ys \<Longrightarrow> fold hash_host xs h = fold hash_host ys h" for xs ys h
    by (induction xs ys arbitrary: h rule: topology_loop.induct)
      (auto simp: hash_host_Equals split: option.splits if_splits)
  with assms show ?thesis
    by (auto simp: Topology_Equals_def HashCode_def Topology_GetHosts_def split: option.splits)
qed

lemma Topology_Equals_HashCode_witness:
  "HashCode (NewTopology [None, Some (small_host ''a'' 5 WRITER)]) = HashCode (NewTopology [None, Some ((small_host ''a'' 5 WRITER)\<lparr>HostId := ''b''\<rparr>)])"
  by (rule Topology_Equals_HashCode) (simp add: Topology_Equals_def NewTopology_def Equals_def small_host_def)

end
