(* ===== verification/Plugin_Service.thy ===== *)
theory Plugin_Service
  imports Plugin_Manager Session_State Dialect_Manager Topology
begin

text \<open>
  The plugin service: \<open>awssql/plugin_helpers/plugin_service.go\<close> and \<open>partial_plugin_service.go\<close>. It keeps
  the current connection and host, the known hosts and the session state of one wrapped connection. The
  record extends the telemetry context of the plugin manager, so a plugin of \<open>Plugin_Manager\<close> acts on a
  plugin service; plugins keep their own state in the extension. The service also holds the process-wide
  caches it uses and the history of what it did to connections.

  Host infos are values: a host whose availability is changed in the host list is not changed where
  another holder has the pointer. A service runs its operations one at a time; the lock on the host list
  is left out.
\<close>

section \<open>State and surroundings\<close>

datatype ('c, 'tx) conn_effect = Executed 'c string | RolledBack 'tx | Closed 'c

text \<open>\<open>'h\<close> are host list providers, \<open>'b\<close> the stored values of other types.\<close>

record ('t, 'c, 'tx, 'h, 'b) PluginService = "'t Telemetry" +
  ps_props :: props
  currentConnection :: "'c option"
  hostListProvider :: "'h option"
  currentHostInfo :: "HostInfo option"
  dialect :: DatabaseDialect
  dialectProvider :: DialectManager
  isDialectConfirmed :: bool
  originalDsn :: string
  AllHosts :: "HostInfo list"
  initialHostInfo :: "HostInfo option"
  isInTransaction :: bool
  currentTx :: "'tx option"
  sessionStateService :: SessionStateService
  hostAvailabilityCache :: "HostAvailability CacheMap"
  dialectCache :: dialect_cache
  storage :: "'b cluster_storage"
  published :: "storage_key Event list"
  effects :: "('c, 'tx) conn_effect list"

text \<open>The clock, the connections of the target driver, the functions a user installs for the session
  state and the host list providers; \<open>createProvider\<close> is the supplier of a dialect.\<close>

record ('c, 'h, 's) surroundings =
  now :: time
  conn_db :: "'c \<Rightarrow> db_conn"
  conn_exec :: "'c \<Rightarrow> exec"
  is_execer :: "'c \<Rightarrow> bool"
  IsClosed :: "'c \<Rightarrow> bool"
  transferFunc :: "(SessionState \<Rightarrow> bool) option"
  resetFunc :: "(SessionState \<Rightarrow> bool) option"
  createProvider :: "DatabaseDialect \<Rightarrow> props \<Rightarrow> string \<Rightarrow> ('s, go_error + 'h) action"
  hlp_Refresh :: "'h \<Rightarrow> ('s, HostInfo list \<times> go_error option) action"
  hlp_ForceRefresh :: "'h \<Rightarrow> ('s, HostInfo list \<times> go_error option) action"
  hlp_ForceRefreshWithTimeout :: "'h \<Rightarrow> bool \<Rightarrow> int \<Rightarrow> ('s, HostInfo list \<times> go_error option) action"
  hlp_IdentifyConnection :: "'h \<Rightarrow> 'c \<Rightarrow> ('s, HostInfo option \<times> go_error option) action"
  hlp_ReleaseResources :: "'h \<Rightarrow> ('s \<Rightarrow> 's) option"

type_synonym ('t, 'c, 'tx, 'h, 'b, 'x) service = "('t, 'c, 'tx, 'h, 'b, 'x) PluginService_scheme"
type_synonym ('t, 'c, 'tx, 'h, 'b, 'x) world = "('c, 'h, ('t, 'c, 'tx, 'h, 'b, 'x) PluginService_scheme) surroundings"
type_synonym ('t, 'c, 'tx, 'h, 'b, 'x, 'v, 'sel) manager = "(('t, 'c, 'tx, 'h, 'b, 'x) PluginService_scheme, 'c, 'v, 'sel) PluginManager"

definition DEFAULT_HOST_AVAILABILITY_CACHE_EXPIRE_NANO :: duration where
  "DEFAULT_HOST_AVAILABILITY_CACHE_EXPIRE_NANO = 5 * 60 * 1000000000"

definition nil_dereference :: go_error where
  "nil_dereference = Panic ''nil pointer dereference''"

text \<open>The service of a new connection, with the caches of the process.\<close>

definition NewPluginServiceImpl ::
  "time \<Rightarrow> net_lib \<Rightarrow> 't \<Rightarrow> props \<Rightarrow> string \<Rightarrow> HostAvailability CacheMap \<Rightarrow> dialect_cache \<Rightarrow> 'b cluster_storage
     \<Rightarrow> (go_error + ('t, 'c, 'tx, 'h, 'b) PluginService) rds" where
  "NewPluginServiceImpl time lib ctx props dsn availabilities dialects store =
     bindS (GetDialect time lib dsn (Some props) (NewDialectManager, dialects)) (\<lambda>(res, d, dialects').
       ret (case res of
              Inl err \<Rightarrow> Inl err
            | Inr dia \<Rightarrow>
                Inr \<lparr>telemetryCtx = ctx, ps_props = props, currentConnection = None, hostListProvider = None, currentHostInfo = None,
                     dialect = dia, dialectProvider = d, isDialectConfirmed = False, originalDsn = dsn, AllHosts = [],
                     initialHostInfo = None, isInTransaction = False, currentTx = None,
                     sessionStateService = NewSessionStateServiceImpl
                       (as_bool (GetVerifiedWrapperPropertyValue (Some props) TRANSFER_SESSION_STATE_ON_SWITCH))
                       (as_bool (GetVerifiedWrapperPropertyValue (Some props) RESET_SESSION_STATE_ON_CLOSE)),
                     hostAvailabilityCache = availabilities, dialectCache = dialects', storage = store, published = [], effects = []\<rparr>))"

section \<open>Changing the connection\<close>

definition compareHostInfos :: "HostInfo \<Rightarrow> HostInfo \<Rightarrow> HostChangeOptions set" where
  "compareHostInfos a b =
     (let changes =
            (if Host a \<noteq> Host b \<or> Port a \<noteq> Port b then {HOSTNAME} else {}) \<union>
            (if Role a \<noteq> Role b
             then (case Role b of WRITER \<Rightarrow> {PROMOTED_TO_WRITER} | READER \<Rightarrow> {PROMOTED_TO_READER} | _ \<Rightarrow> {}) else {}) \<union>
            (if Availability a \<noteq> Availability b
             then (case Availability b of AVAILABLE \<Rightarrow> {WENT_UP} | UNAVAILABLE \<Rightarrow> {WENT_DOWN}) else {})
      in if changes \<noteq> {} then insert HOST_CHANGED changes else changes)"

definition compare_connections :: "'c \<Rightarrow> HostInfo \<Rightarrow> 'c \<Rightarrow> HostInfo \<Rightarrow> HostChangeOptions set" where
  "compare_connections connA a connB b =
     compareHostInfos a b \<union> (if connA \<noteq> connB then {CONNECTION_OBJECT_CHANGED} else {})"

text \<open>\<open>utils.Rollback\<close>; its errors are only logged.\<close>

definition Rollback :: "('t, 'c, 'tx, 'h, 'b, 'x) world \<Rightarrow> 'c \<Rightarrow> 'tx option \<Rightarrow> ('c, 'tx) conn_effect list" where
  "Rollback w conn tx =
     (case tx of
        Some t \<Rightarrow> [RolledBack t]
      | None \<Rightarrow> if is_execer w conn then [Executed conn ''rollback''] else [])"

definition execute_all :: "'c \<Rightarrow> string list \<Rightarrow> ('t, 'c, 'tx, 'h, 'b, 'x) service \<Rightarrow> ('t, 'c, 'tx, 'h, 'b, 'x) service" where
  "execute_all conn queries s = s\<lparr>effects := effects s @ map (Executed conn) queries\<rparr>"

text \<open>The end of \<open>SetCurrentConnection\<close>: the plugins are told, and the old connection is restored and
  closed unless one of them wants it preserved.\<close>

definition notify_and_close ::
  "('t, 'c, 'tx, 'h, 'b, 'x) world \<Rightarrow> ('t, 'c, 'tx, 'h, 'b, 'x, 'v, 'sel) manager \<Rightarrow> HostChangeOptions set \<Rightarrow> nat option \<Rightarrow> 'c
     \<Rightarrow> ('t, 'c, 'tx, 'h, 'b, 'x) service \<Rightarrow> ('t, 'c, 'tx, 'h, 'b, 'x) service" where
  "notify_and_close w m changes skip oldConnection s =
     (let (s', pluginOpinions) = NotifyConnectionChanged changes skip m s
      in if CONNECTION_OBJECT_CHANGED \<in> changes \<and> \<not> IsClosed w oldConnection \<and> PRESERVE \<notin> pluginOpinions
         then (let (qs, _) = ApplyPristineSessionState (dialect s') (resetFunc w) (conn_exec w oldConnection) (sessionStateService s');
                   s'' = execute_all oldConnection qs s'
               in s''\<lparr>effects := effects s'' @ [Closed oldConnection]\<rparr>)
         else s')"

text \<open>The branch for a changed connection; the deferred \<open>Complete\<close> runs on every return.\<close>

definition switch_connection ::
  "('t, 'c, 'tx, 'h, 'b, 'x) world \<Rightarrow> ('t, 'c, 'tx, 'h, 'b, 'x, 'v, 'sel) manager \<Rightarrow> HostChangeOptions set \<Rightarrow> nat option
     \<Rightarrow> 'c \<Rightarrow> 'c \<Rightarrow> HostInfo \<Rightarrow> (('t, 'c, 'tx, 'h, 'b, 'x) service, go_error option) action" where
  "switch_connection w m changes skip oldConnection conn hostInfo s =
     (let complete = (\<lambda>s. s\<lparr>sessionStateService := SessionState_Complete (sessionStateService s)\<rparr>);
          (sss, err) = SessionState_Begin (sessionStateService s);
          s1 = s\<lparr>sessionStateService := sss\<rparr>
      in if err \<noteq> None then (complete s1, err)
         else
          (let s2 = s1\<lparr>currentConnection := Some conn, currentHostInfo := Some hostInfo\<rparr>;
               (sss2, qs, err) = ApplyCurrentSessionState (dialect s2) (transferFunc w) (conn_exec w conn) (sessionStateService s2);
               s3 = execute_all conn qs (s2\<lparr>sessionStateService := sss2\<rparr>)
           in if err \<noteq> None then (complete s3, err)
              else
               (let s4 = s3\<lparr>isInTransaction := False\<rparr>;
                    s5 = (if isInTransaction s1 \<and> as_bool (GetVerifiedWrapperPropertyValue (Some (ps_props s4)) ROLLBACK_ON_SWITCH)
                          then s4\<lparr>effects := effects s4 @ Rollback w oldConnection (currentTx s4)\<rparr> else s4)
                in (complete (notify_and_close w m changes skip oldConnection s5), None))))"

definition SetCurrentConnection ::
  "('t, 'c, 'tx, 'h, 'b, 'x) world \<Rightarrow> ('t, 'c, 'tx, 'h, 'b, 'x, 'v, 'sel) manager \<Rightarrow> 'c option \<Rightarrow> HostInfo option \<Rightarrow> nat option
     \<Rightarrow> (('t, 'c, 'tx, 'h, 'b, 'x) service, go_error option) action" where
  "SetCurrentConnection w m conn hostInfo skip s =
     (case (conn, hostInfo) of
        (None, _) \<Rightarrow> (s, Some (NewGenericAwsWrapperError ''PluginServiceImpl.nilConn''))
      | (Some _, None) \<Rightarrow> (s, Some (NewGenericAwsWrapperError ''PluginServiceImpl.nilHost''))
      | (Some c, Some host) \<Rightarrow>
          if IsNil (Some host) then (s, Some (NewGenericAwsWrapperError ''PluginServiceImpl.nilHost''))
          else (case currentConnection s of
                  None \<Rightarrow>
                    (let s1 = s\<lparr>currentConnection := Some c, currentHostInfo := Some host,
                               sessionStateService := SessionState_Reset (sessionStateService s),
                               initialHostInfo := (if initialHostInfo s = None then Some host else initialHostInfo s)\<rparr>
                     in (fst (NotifyConnectionChanged {INITIAL_CONNECTION} skip m s1), None))
                | Some oldConnection \<Rightarrow>
                    (case currentHostInfo s of
                       None \<Rightarrow> (s, Some nil_dereference)
                     | Some current \<Rightarrow>
                         (let changes = compare_connections oldConnection current c host
                          in if changes = {} then (s, None)
                             else switch_connection w m changes skip oldConnection c host s))))"

definition ReleaseResources :: "('t, 'c, 'tx, 'h, 'b, 'x) world \<Rightarrow> ('t, 'c, 'tx, 'h, 'b, 'x) service \<Rightarrow> ('t, 'c, 'tx, 'h, 'b, 'x) service" where
  "ReleaseResources w s =
     (let s1 = (case currentConnection s of
                  None \<Rightarrow> s
                | Some conn \<Rightarrow> s\<lparr>effects := effects s @ [Closed conn], currentConnection := None\<rparr>)
      in (case Option.bind (hostListProvider s1) (hlp_ReleaseResources w) of None \<Rightarrow> s1 | Some release \<Rightarrow> release s1))"

section \<open>Hosts\<close>

text \<open>The hosts a custom endpoint lets through, given the permissions found.\<close>

definition permitted :: "AllowedAndBlockedHosts \<Rightarrow> HostInfo list \<Rightarrow> HostInfo list" where
  "permitted p hosts =
     (let hosts1 = (case allowedHostIds p of
                      None \<Rightarrow> hosts
                    | Some allowed \<Rightarrow> if length allowed > 0 then FilterSlice hosts (\<lambda>item. map_of allowed (HostId item) = Some True) else hosts)
      in (case blockedHostIds p of
            None \<Rightarrow> hosts1
          | Some blocked \<Rightarrow> if length blocked > 0 then FilterSlice hosts1 (\<lambda>item. map_of blocked (HostId item) \<noteq> Some True) else hosts1))"

definition hosts_for :: "time \<Rightarrow> storage_key \<Rightarrow> 'b cluster_storage \<Rightarrow> HostInfo list \<Rightarrow> 'b cluster_storage \<times> storage_key Event list \<times> HostInfo list" where
  "hosts_for t key store hosts =
     (let (store', found, events) = Descriptor_Get t AllowedAndBlockedHostsStorageType key store
      in (store', events, case found of None \<Rightarrow> hosts | Some permissions \<Rightarrow> permitted permissions hosts))"

definition GetHosts :: "('t, 'c, 'tx, 'h, 'b, 'x) world \<Rightarrow> (('t, 'c, 'tx, 'h, 'b, 'x) service, HostInfo list) action" where
  "GetHosts w s =
     (let (store', events, hosts) = hosts_for (now w) (StringKey (GetUrl (initialHostInfo s))) (storage s) (AllHosts s)
      in (s\<lparr>storage := store', published := published s @ events\<rparr>, hosts))"

definition GetCurrentHostInfo :: "('t, 'c, 'tx, 'h, 'b, 'x) world \<Rightarrow> (('t, 'c, 'tx, 'h, 'b, 'x) service, HostInfo option \<times> go_error option) action" where
  "GetCurrentHostInfo w s =
     (if \<not> IsNil (currentHostInfo s) then (s, currentHostInfo s, None)
      else
       (let s1 = s\<lparr>currentHostInfo := initialHostInfo s\<rparr>
        in if \<not> IsNil (currentHostInfo s1) then (s1, currentHostInfo s1, None)
           else if AllHosts s1 = [] then (s1, None, Some (NewGenericAwsWrapperError ''PluginServiceImpl.hostListEmpty''))
           else
            (let s2 = s1\<lparr>currentHostInfo := GetWriter (map Some (AllHosts s1))\<rparr>;
                 (s3, allowedHosts) = GetHosts w s2
             in if currentHostInfo s3 \<noteq> None \<and> \<not> IsHostInList (currentHostInfo s3) allowedHosts
                then (s3, None, Some (NewGenericAwsWrapperError ''PluginServiceImpl.currentHostNotAllowed''))
                else
                 (let s4 = (if IsNil (currentHostInfo s3) then s3\<lparr>currentHostInfo := Some (hd (AllHosts s3))\<rparr> else s3)
                  in if IsNil (currentHostInfo s4)
                     then (s4, None, Some (NewGenericAwsWrapperError ''PluginServiceImpl.nilHost''))
                     else (s4, currentHostInfo s4, None)))))"

text \<open>\<open>SetAvailability\<close>: the loop over the hosts with the availability cache and the changes collected.\<close>

definition alias_matches :: "string list \<Rightarrow> HostInfo \<Rightarrow> bool" where
  "alias_matches hostAliases host \<longleftrightarrow>
     GetHostAndPort (Some host) \<in> set hostAliases \<or>
     SliceAndMapHaveCommonElement hostAliases (\<lambda>a. case AllAliases host of None \<Rightarrow> None | Some as \<Rightarrow> if a \<in> as then Some True else None)"

fun availability_loop ::
  "time \<Rightarrow> string list \<Rightarrow> HostAvailability \<Rightarrow> HostInfo list \<Rightarrow> HostAvailability CacheMap \<Rightarrow> (string, HostChangeOptions set) gomap
     \<Rightarrow> HostInfo list \<times> HostAvailability CacheMap \<times> (string, HostChangeOptions set) gomap" where
  "availability_loop t hostAliases availability [] cache changes = ([], cache, changes)"
| "availability_loop t hostAliases availability (host # hosts) cache changes =
     (if alias_matches hostAliases host
      then
       (let cache1 = CacheMap_Put t (GetHostAndPort (Some host)) availability DEFAULT_HOST_AVAILABILITY_CACHE_EXPIRE_NANO cache;
            changes1 = (if Availability host \<noteq> availability
                        then mput (GetHostAndPort (Some host)) {HOST_CHANGED, if availability = AVAILABLE then WENT_UP else WENT_DOWN} changes
                        else changes);
            (hosts', cache', changes') = availability_loop t hostAliases availability hosts cache1 changes1
        in (host\<lparr>Availability := availability\<rparr> # hosts', cache', changes'))
      else
       (let (hosts', cache', changes') = availability_loop t hostAliases availability hosts cache changes
        in (host # hosts', cache', changes')))"

definition notify_hosts ::
  "('t, 'c, 'tx, 'h, 'b, 'x, 'v, 'sel) manager \<Rightarrow> (string, HostChangeOptions set) gomap \<Rightarrow> ('t, 'c, 'tx, 'h, 'b, 'x) service
     \<Rightarrow> ('t, 'c, 'tx, 'h, 'b, 'x) service" where
  "notify_hosts m changes s = (if length changes > 0 then NotifyHostListChanged changes m s else s)"

definition Service_SetAvailability ::
  "('t, 'c, 'tx, 'h, 'b, 'x) world \<Rightarrow> ('t, 'c, 'tx, 'h, 'b, 'x, 'v, 'sel) manager \<Rightarrow> string list \<Rightarrow> HostAvailability
     \<Rightarrow> ('t, 'c, 'tx, 'h, 'b, 'x) service \<Rightarrow> ('t, 'c, 'tx, 'h, 'b, 'x) service" where
  "Service_SetAvailability w m hostAliases availability s =
     (if hostAliases = [] then s
      else (let (hosts, cache, changes) = availability_loop (now w) hostAliases availability (AllHosts s) (hostAvailabilityCache s) []
            in notify_hosts m changes (s\<lparr>AllHosts := hosts, hostAvailabilityCache := cache\<rparr>)))"

definition updateHostAvailability :: "time \<Rightarrow> HostAvailability CacheMap \<Rightarrow> HostInfo list \<Rightarrow> HostInfo list" where
  "updateHostAvailability t cache hosts =
     map (\<lambda>host. case CacheMap_Get t cache (GetHostAndPort (Some host)) of
                    Some availability \<Rightarrow> if availability \<noteq> Availability host then host\<lparr>Availability := availability\<rparr> else host
                  | None \<Rightarrow> host) hosts"

definition host_map :: "HostInfo list \<Rightarrow> (string, HostInfo) gomap" where
  "host_map hosts = fold (\<lambda>host m. mput (GetHostAndPort (Some host)) host m) hosts []"

definition host_list_changes :: "HostInfo list \<Rightarrow> HostInfo list \<Rightarrow> (string, HostChangeOptions set) gomap" where
  "host_list_changes oldHosts newHosts =
     (let oldHostMap = host_map oldHosts; newHostMap = host_map newHosts;
          changes = fold (\<lambda>(hostKey, hostInfo) changes.
                       case map_of newHostMap hostKey of
                         None \<Rightarrow> mput hostKey {HOST_DELETED} changes
                       | Some new \<Rightarrow>
                           if IsNil (Some new) then mput hostKey {HOST_DELETED} changes
                           else if compareHostInfos hostInfo new \<noteq> {} then mput hostKey (compareHostInfos hostInfo new) changes
                           else changes) oldHostMap []
      in fold (\<lambda>(hostKey, _) changes. if map_of oldHostMap hostKey = None then mput hostKey {HOST_ADDED} changes else changes)
           newHostMap changes)"

definition setHostList ::
  "('t, 'c, 'tx, 'h, 'b, 'x, 'v, 'sel) manager \<Rightarrow> HostInfo list \<Rightarrow> ('t, 'c, 'tx, 'h, 'b, 'x) service \<Rightarrow> ('t, 'c, 'tx, 'h, 'b, 'x) service" where
  "setHostList m newHosts s =
     (let changes = host_list_changes (AllHosts s) newHosts
      in if length changes > 0 then NotifyHostListChanged changes m (s\<lparr>AllHosts := newHosts\<rparr>) else s)"

text \<open>What \<open>updateHostAvailability\<close> answers is dropped here.\<close>

definition updateHostListIfNeeded ::
  "('t, 'c, 'tx, 'h, 'b, 'x, 'v, 'sel) manager \<Rightarrow> HostInfo list \<Rightarrow> (('t, 'c, 'tx, 'h, 'b, 'x) service, go_error option) action" where
  "updateHostListIfNeeded m updatedHostList s =
     (if updatedHostList = [] then (s, Some (NewGenericAwsWrapperError ''PluginServiceImpl.hostListEmpty''))
      else (case AreHostListsEqual (map Some (AllHosts s)) (map Some updatedHostList) of
              Inl panic \<Rightarrow> (s, Some panic)
            | Inr True \<Rightarrow> (s, None)
            | Inr False \<Rightarrow> (setHostList m updatedHostList s, None)))"

text \<open>A refresh asks the host list provider; calling a nil provider panics.\<close>

definition refresh_with ::
  "('h \<Rightarrow> (('t, 'c, 'tx, 'h, 'b, 'x) service, HostInfo list \<times> go_error option) action) \<Rightarrow> ('t, 'c, 'tx, 'h, 'b, 'x, 'v, 'sel) manager
     \<Rightarrow> (('t, 'c, 'tx, 'h, 'b, 'x) service, go_error option) action" where
  "refresh_with ask m s =
     (case hostListProvider s of
        None \<Rightarrow> (s, Some nil_dereference)
      | Some provider \<Rightarrow>
          (let (s', updatedHostList, err) = ask provider s
           in if err \<noteq> None then (s', err) else updateHostListIfNeeded m updatedHostList s'))"

definition RefreshHostList ::
  "('t, 'c, 'tx, 'h, 'b, 'x) world \<Rightarrow> ('t, 'c, 'tx, 'h, 'b, 'x, 'v, 'sel) manager \<Rightarrow> (('t, 'c, 'tx, 'h, 'b, 'x) service, go_error option) action" where
  "RefreshHostList w m = refresh_with (hlp_Refresh w) m"

definition ForceRefreshHostList ::
  "('t, 'c, 'tx, 'h, 'b, 'x) world \<Rightarrow> ('t, 'c, 'tx, 'h, 'b, 'x, 'v, 'sel) manager \<Rightarrow> (('t, 'c, 'tx, 'h, 'b, 'x) service, go_error option) action" where
  "ForceRefreshHostList w m = refresh_with (hlp_ForceRefresh w) m"

definition ForceRefreshHostListWithTimeout ::
  "('t, 'c, 'tx, 'h, 'b, 'x) world \<Rightarrow> ('t, 'c, 'tx, 'h, 'b, 'x, 'v, 'sel) manager \<Rightarrow> bool \<Rightarrow> int
     \<Rightarrow> (('t, 'c, 'tx, 'h, 'b, 'x) service, bool \<times> go_error option) action" where
  "ForceRefreshHostListWithTimeout w m shouldVerifyWriter timeoutMs s =
     (case hostListProvider s of
        None \<Rightarrow> (s, False, Some nil_dereference)
      | Some provider \<Rightarrow>
          (let (s', updatedHostList, err) = hlp_ForceRefreshWithTimeout w provider shouldVerifyWriter timeoutMs s
           in if err \<noteq> None then (s', False, err)
              else if updatedHostList \<noteq> []
              then (setHostList m (updateHostAvailability (now w) (hostAvailabilityCache s') updatedHostList) s', True, None)
              else (s', False, None)))"

section \<open>Dialect and aliases\<close>

text \<open>The dialect manager answers no nil dialect after \<open>GetDialect\<close> has set one.\<close>

definition UpdateDialect ::
  "('t, 'c, 'tx, 'h, 'b, 'x) world \<Rightarrow> ('t, 'c, 'tx, 'h, 'b, 'x, 'v, 'sel) manager \<Rightarrow> 'c
     \<Rightarrow> (('t, 'c, 'tx, 'h, 'b, 'x) service, go_error option) action" where
  "UpdateDialect w m conn s =
     (let (res, d, cache) = GetDialectForUpdate (now w) (conn_db w conn) (originalDsn s) (GetHost (initialHostInfo s))
                              (dialectProvider s, dialectCache s)
      in (case res of
            None \<Rightarrow> (s, Some nil_dereference)
          | Some new \<Rightarrow>
              (let s1 = s\<lparr>dialect := new, dialectProvider := d, dialectCache := cache, isDialectConfirmed := True\<rparr>
               in if dialect s = new then (s1, None)
                  else (let (s2, hlp) = createProvider w new (ps_props s1) (originalDsn s1) s1
                        in (case hlp of
                              Inl _ \<Rightarrow> (s2, None)
                            | Inr provider \<Rightarrow>
                                (let (s3, err) = RefreshHostList w m (s2\<lparr>hostListProvider := Some provider\<rparr>)
                                 in (s3, case err of Some (Panic msg) \<Rightarrow> err | _ \<Rightarrow> None)))))))"

definition add_aliases :: "string list \<Rightarrow> HostInfo \<Rightarrow> go_error + HostInfo" where
  "add_aliases aliases host =
     foldl (\<lambda>r alias. bindR r (\<lambda>h. bindR (AddAlias (Some h) alias) (\<lambda>h'. Inr (the h')))) (Inr host) aliases"

text \<open>The first column of the rows of the alias query; other than one row of no column, rows have columns.\<close>

definition alias_values :: "driver_value list list \<Rightarrow> string list" where
  "alias_values rows = concat (map (\<lambda>row. case row of [] \<Rightarrow> [] | v # _ \<Rightarrow> (case ConvertDriverValueToString v of Some a \<Rightarrow> [a] | None \<Rightarrow> [])) rows)"

definition FillAliases ::
  "('t, 'c, 'tx, 'h, 'b, 'x) world \<Rightarrow> 'c \<Rightarrow> HostInfo option \<Rightarrow> (('t, 'c, 'tx, 'h, 'b, 'x) service, go_error + HostInfo option) action" where
  "FillAliases w conn hostInfo s =
     (case hostInfo of
        None \<Rightarrow> (s, Inr hostInfo)
      | Some host \<Rightarrow>
          if IsNil hostInfo then (s, Inr hostInfo)
          else if Aliases host \<noteq> None \<and> Aliases host \<noteq> Some {} then (s, Inr hostInfo)
          else
           (case AddAlias hostInfo (GetHostAndPort hostInfo) of
              Inl panic \<Rightarrow> (s, Inl panic)
            | Inr host1 \<Rightarrow>
                (case conn_db w conn (GetHostAliasQuery (dialect s)) of
                   None \<Rightarrow> (s, Inr host1)
                 | Some res \<Rightarrow>
                     (case add_aliases (case res of Inl _ \<Rightarrow> [] | Inr rows \<Rightarrow> alias_values rows) (the host1) of
                        Inl panic \<Rightarrow> (s, Inl panic)
                      | Inr host2 \<Rightarrow>
                          (case hostListProvider s of
                             None \<Rightarrow> (s, Inl nil_dereference)
                           | Some provider \<Rightarrow>
                               (let (s', identified, err) = hlp_IdentifyConnection w provider conn s
                                in if err = None \<and> \<not> IsNil identified
                                   then (case (AllAliases (the identified), AllAliases host2) of
                                           (None, _) \<Rightarrow> (s', Inr (Some host2))
                                         | (Some extra, Some old) \<Rightarrow> (s', Inr (Some (host2\<lparr>AllAliases := Some (old \<union> extra)\<rparr>)))
                                         | (Some extra, None) \<Rightarrow>
                                             (s', if extra = {} then Inr (Some host2) else Inl (Panic ''assignment to entry in nil map'')))
                                   else (s', Inr (Some host2))))))))"

section \<open>Session state of executed statements\<close>

text \<open>What a statement sets: a value and whether it was set, for each of the five fields.\<close>

record statement_settings =
  set_autoCommit :: "bool \<times> bool"
  set_readOnly :: "bool \<times> bool"
  set_schema :: "string \<times> bool"
  set_catalog :: "string \<times> bool"
  set_isolation :: "TransactionIsolationLevel \<times> bool"

definition nothing_set :: statement_settings where
  "nothing_set = \<lparr>set_autoCommit = (False, False), set_readOnly = (False, False), set_schema = ('''', False), set_catalog = ('''', False),
                  set_isolation = (TRANSACTION_READ_UNCOMMITTED, False)\<rparr>"

definition anything_set :: "statement_settings \<Rightarrow> bool" where
  "anything_set u \<longleftrightarrow> snd (set_autoCommit u) \<or> snd (set_readOnly u) \<or> snd (set_schema u) \<or> snd (set_catalog u) \<or> snd (set_isolation u)"

definition read_settings :: "DatabaseDialect \<Rightarrow> string \<Rightarrow> go_error + statement_settings" where
  "read_settings d statement =
     bindR (DoesStatementSetSchema d statement) (\<lambda>schema.
       Inr \<lparr>set_autoCommit = DoesStatementSetAutoCommit d statement, set_readOnly = DoesStatementSetReadOnly d statement,
            set_schema = schema, set_catalog = DoesStatementSetCatalog d statement,
            set_isolation = DoesStatementSetTransactionIsolation d statement\<rparr>)"

text \<open>The loop runs from the last statement to the first and stops as soon as one sets anything.\<close>

fun settings_loop :: "DatabaseDialect \<Rightarrow> string list \<Rightarrow> statement_settings \<Rightarrow> go_error + statement_settings" where
  "settings_loop d [] u = Inr u"
| "settings_loop d (statement # statements) u =
     (if anything_set u then Inr u else bindR (read_settings d statement) (settings_loop d statements))"

definition setIfOk :: "('a \<Rightarrow> 's \<Rightarrow> 's) \<Rightarrow> 'a \<times> bool \<Rightarrow> 's \<Rightarrow> 's" where
  "setIfOk setter v s = (if snd v then setter (fst v) s else s)"

definition apply_settings :: "statement_settings \<Rightarrow> SessionStateService \<Rightarrow> SessionStateService" where
  "apply_settings u sss =
     setIfOk (\<lambda>v. SetTransactionIsolation v \<circ> SetupPristineTransactionIsolation) (set_isolation u)
      (setIfOk (\<lambda>v. SetCatalog v \<circ> SetupPristineCatalog) (set_catalog u)
        (setIfOk (\<lambda>v. SetSchema v \<circ> SetupPristineSchema) (set_schema u)
          (setIfOk (\<lambda>v. SetReadOnly v \<circ> SetupPristineReadOnly) (set_readOnly u)
            (setIfOk (\<lambda>v. SetAutoCommit v \<circ> SetupPristineAutoCommit) (set_autoCommit u) sss))))"

definition UpdateState :: "string \<Rightarrow> go_any list \<Rightarrow> (('t, 'c, 'tx, 'h, 'b, 'x) service, go_error option) action" where
  "UpdateState sql methodArgs s =
     (let statements = GetSeparateSqlStatements (GetQueryFromSqlOrMethodArgs sql methodArgs)
      in (case settings_loop (dialect s) (rev statements) nothing_set of
            Inl panic \<Rightarrow> (s, Some panic)
          | Inr u \<Rightarrow> (s\<lparr>sessionStateService := apply_settings u (sessionStateService s)\<rparr>, None)))"

definition ResetSession :: "('t, 'c, 'tx, 'h, 'b, 'x) service \<Rightarrow> ('t, 'c, 'tx, 'h, 'b, 'x) service" where
  "ResetSession s = s\<lparr>sessionStateService := SessionState_Reset (sessionStateService s)\<rparr>"

section \<open>Connecting\<close>

definition Service_Connect ::
  "(string \<Rightarrow> 't \<Rightarrow> 't) \<Rightarrow> ('t, 'c, 'tx, 'h, 'b, 'x, 'v, 'sel) manager \<Rightarrow> HostInfo option \<Rightarrow> props \<Rightarrow> nat option
     \<Rightarrow> (('t, 'c, 'tx, 'h, 'b, 'x) service, 'c connect_result) action" where
  "Service_Connect open_ctx m hostInfo props pluginToSkip s =
     snd (Manager_Connect open_ctx hostInfo props (currentConnection s = None) pluginToSkip m) s"

definition Service_ForceConnect ::
  "('t, 'c, 'tx, 'h, 'b, 'x, 'v, 'sel) manager \<Rightarrow> HostInfo option \<Rightarrow> props \<Rightarrow> (('t, 'c, 'tx, 'h, 'b, 'x) service, 'c connect_result) action" where
  "Service_ForceConnect m hostInfo props s = snd (Manager_ForceConnect hostInfo props (currentConnection s = None) m) s"

section \<open>The partial service\<close>

text \<open>The service monitors use; it shares the host list and the storage. Its constructor gets the initial
  host and does not keep it.\<close>

record PartialPluginService =
  partial_props :: props
  partial_originalDsn :: string
  partial_dialect :: DatabaseDialect
  partial_AllHosts :: "HostInfo list"
  partial_initialHostInfo :: "HostInfo option"

definition NewPartialPluginService ::
  "props \<Rightarrow> string \<Rightarrow> DatabaseDialect \<Rightarrow> HostInfo list \<Rightarrow> HostInfo option \<Rightarrow> PartialPluginService" where
  "NewPartialPluginService props dsn d hosts host =
     \<lparr>partial_props = props, partial_originalDsn = dsn, partial_dialect = d, partial_AllHosts = hosts, partial_initialHostInfo = None\<rparr>"

definition CreatePartialPluginService :: "('t, 'c, 'tx, 'h, 'b, 'x) service \<Rightarrow> PartialPluginService" where
  "CreatePartialPluginService s = NewPartialPluginService (ps_props s) (originalDsn s) (dialect s) (AllHosts s) (initialHostInfo s)"

definition Partial_GetHosts ::
  "time \<Rightarrow> 'b cluster_storage \<Rightarrow> PartialPluginService \<Rightarrow> 'b cluster_storage \<times> storage_key Event list \<times> HostInfo list" where
  "Partial_GetHosts t store p = hosts_for t (HostInfoKey (partial_initialHostInfo p)) store (partial_AllHosts p)"

definition Partial_SetAvailability ::
  "time \<Rightarrow> string list \<Rightarrow> HostAvailability \<Rightarrow> HostAvailability CacheMap \<Rightarrow> PartialPluginService
     \<Rightarrow> PartialPluginService \<times> HostAvailability CacheMap \<times> (string, HostChangeOptions set) gomap" where
  "Partial_SetAvailability t hostAliases availability cache p =
     (if hostAliases = [] then (p, cache, [])
      else (let (hosts, cache', changes) = availability_loop t hostAliases availability (partial_AllHosts p) cache []
            in (p\<lparr>partial_AllHosts := hosts\<rparr>, cache', changes)))"

section \<open>Lemmas\<close>

text \<open>Plugins that answer notifications with an opinion and change nothing but their own state.\<close>

definition quiet :: "('t, 'c, 'tx, 'h, 'b, 'x, 'v, 'sel) manager \<Rightarrow> (nat \<Rightarrow> HostChangeOptions set \<Rightarrow> OldConnectionSuggestedAction) \<Rightarrow> bool" where
  "quiet m opinion \<longleftrightarrow>
     (\<forall>p \<in> set (plugins m). \<forall>changes s. \<exists>x.
        plugin_NotifyConnectionChanged p changes s = (PluginService.more_update (\<lambda>_. x) s, opinion (pluginId p) changes))"

definition quiet_hosts :: "('t, 'c, 'tx, 'h, 'b, 'x, 'v, 'sel) manager \<Rightarrow> bool" where
  "quiet_hosts m \<longleftrightarrow> (\<forall>p \<in> set (plugins m). \<forall>changes s. \<exists>x. plugin_NotifyHostListChanged p changes s = PluginService.more_update (\<lambda>_. x) s)"

definition notified :: "nat option \<Rightarrow> ('t, 'c, 'tx, 'h, 'b, 'x, 'v, 'sel) manager \<Rightarrow> nat set" where
  "notified skip m = pluginId ` set (filter (in_chain NOTIFY_CONNECTION_CHANGED_METHOD skip) (plugins m))"

lemma more_update_twice: "PluginService.more_update (\<lambda>_. y) (PluginService.more_update (\<lambda>_. x) s) = PluginService.more_update (\<lambda>_. y) s"
  by (cases s) simp

lemma quiet_notify:
  assumes "quiet m opinion"
  shows "\<exists>x. NotifyConnectionChanged changes skip m s = (PluginService.more_update (\<lambda>_. x) s, (\<lambda>i. opinion i changes) ` notified skip m)"
proof -
  have "\<exists>x. fst (notify_loop NOTIFY_CONNECTION_CHANGED_METHOD
            (\<lambda>p (s, result). let (s', pluginOptions) = plugin_NotifyConnectionChanged p changes s
                             in ((s', insert pluginOptions result), None)) skip ps (s, A)) =
        (PluginService.more_update (\<lambda>_. x) s, A \<union> (\<lambda>i. opinion i changes) ` pluginId ` set (filter (in_chain NOTIFY_CONNECTION_CHANGED_METHOD skip) ps))"
    if "set ps \<subseteq> set (plugins m)" for ps A
    using that
  proof (induction ps arbitrary: s A)
    case Nil
    show ?case by (intro exI [of _ "PluginService.more s"]) (cases s, simp)
  next
    case (Cons p ps)
    obtain x where x: "plugin_NotifyConnectionChanged p changes s = (PluginService.more_update (\<lambda>_. x) s, opinion (pluginId p) changes)"
      using assms Cons.prems unfolding quiet_def by (meson list.set_intros(1) subsetD)
    have sub: "set ps \<subseteq> set (plugins m)" using Cons.prems by simp
    show ?case
    proof (cases "in_chain NOTIFY_CONNECTION_CHANGED_METHOD skip p")
      case True
      with Cons.IH [OF sub, of "PluginService.more_update (\<lambda>_. x) s" "insert (opinion (pluginId p) changes) A"] show ?thesis
        by (auto simp: in_chain_def x more_update_twice)
    next
      case False
      with Cons.IH [OF sub, of s A] show ?thesis by (auto simp: in_chain_def)
    qed
  qed
  from this [of "plugins m" "{}"] show ?thesis
    by (simp add: NotifyConnectionChanged_def NotifySubscribedPlugins_def notified_def image_image)
qed

text \<open>What the transfer of the session state executes on the new connection.\<close>

definition transfer_run :: "DatabaseDialect \<Rightarrow> exec \<Rightarrow> SessionStateService \<Rightarrow> string list \<times> go_error option" where
  "transfer_run d exec sss = (if transferEnabled sss then run_queries exec (state_queries d (session sss)) else ([], None))"

lemma transfer_ApplyCurrent:
  assumes "SessionState_Begin sss = (sss1, None)"
  shows "\<exists>sss2. ApplyCurrentSessionState d None exec sss1 = (sss2, transfer_run d exec sss) \<and>
     (\<forall>d' reset exec2. ApplyPristineSessionState d' reset exec2 sss2 = ([], None)) \<and> copySessionState sss2 = copySessionState sss1"
proof -
  have s1: "session sss1 = session sss" "transferEnabled sss1 = transferEnabled sss" "resetEnabled sss1 = resetEnabled sss"
    using assms by (auto simp: SessionState_Begin_def split: if_splits)
  obtain sss2 qs e where a: "ApplyCurrentSessionState d None exec sss1 = (sss2, qs, e)" by (metis prod_cases3)
  have c: "copySessionState sss2 = copySessionState sss1" and r: "resetEnabled sss2 = resetEnabled sss1"
    using a by (auto simp: ApplyCurrentSessionState_def Let_def split: if_splits prod.splits)
  have "(qs, e) = transfer_run d exec sss"
  proof (cases "transferEnabled sss")
    case True
    with a s1 ApplyCurrent_cases [of sss1 _ d exec, OF _ refl] show ?thesis by (auto simp: transfer_run_def)
  next
    case False
    with a s1 show ?thesis by (simp add: transfer_run_def ApplyCurrentSessionState_def)
  qed
  moreover have "ApplyPristineSessionState d' reset exec2 sss2 = ([], None)" for d' reset exec2
  proof (cases "resetEnabled sss")
    case True
    with assms c have "copySessionState sss2 = Some (SessionState_Copy (session sss))"
      by (auto simp: SessionState_Begin_def split: if_splits)
    then show ?thesis by (rule ApplyPristine_copy)
  next
    case False
    with r s1 show ?thesis by (simp add: ApplyPristineSessionState_def)
  qed
  ultimately show ?thesis using a c by auto
qed

lemma notify_and_close_quiet:
  assumes "quiet m opinion" "\<And>d exec. ApplyPristineSessionState d (resetFunc w) exec (sessionStateService s) = ([], None)"
  shows "\<exists>x. notify_and_close w m changes skip old s =
     PluginService.more_update (\<lambda>_. x) (s\<lparr>effects := effects s @
       (if CONNECTION_OBJECT_CHANGED \<in> changes \<and> \<not> IsClosed w old \<and> (\<forall>i \<in> notified skip m. opinion i changes \<noteq> PRESERVE)
        then [Closed old] else [])\<rparr>)"
proof -
  obtain x where x: "NotifyConnectionChanged changes skip m s = (PluginService.more_update (\<lambda>_. x) s, (\<lambda>i. opinion i changes) ` notified skip m)"
    using quiet_notify [OF assms(1)] by blast
  show ?thesis
    by (intro exI [of _ x], cases "CONNECTION_OBJECT_CHANGED \<in> changes \<and> \<not> IsClosed w old \<and> (\<forall>i \<in> notified skip m. opinion i changes \<noteq> PRESERVE)")
      (auto simp: notify_and_close_def x execute_all_def assms(2) image_iff)
qed

section \<open>Properties\<close>

text \<open>C8: Switching the connection, exactly: the new connection gets the queries of the session state; when
  one fails the switch stops there, with the new connection installed, the transaction flag unchanged and the
  old connection neither rolled back nor closed; otherwise the flag is cleared, an open transaction is rolled
  back if so configured, and the old connection is closed unless it is closed already or a notified plugin
  wants it preserved. Plugins may change their own state when notified.\<close>
theorem SetCurrentConnection_switch:
  assumes "currentConnection s = Some old" "currentHostInfo s = Some current" "conn \<noteq> old" "\<not> IsNil (Some host)"
    and "copySessionState (sessionStateService s) = None" "transferFunc w = None" "quiet m opinion"
  shows "\<exists>s'. SetCurrentConnection w m (Some conn) (Some host) skip s =
       (s', snd (transfer_run (dialect s) (conn_exec w conn) (sessionStateService s))) \<and>
     currentConnection s' = Some conn \<and> currentHostInfo s' = Some host \<and>
     copySessionState (sessionStateService s') = None \<and>
     (case transfer_run (dialect s) (conn_exec w conn) (sessionStateService s) of
        (qs, Some err) \<Rightarrow> effects s' = effects s @ map (Executed conn) qs \<and> isInTransaction s' = isInTransaction s
      | (qs, None) \<Rightarrow>
          effects s' = effects s @ map (Executed conn) qs @
            (if isInTransaction s \<and> as_bool (GetVerifiedWrapperPropertyValue (Some (ps_props s)) ROLLBACK_ON_SWITCH)
             then Rollback w old (currentTx s) else []) @
            (if \<not> IsClosed w old \<and> (\<forall>i \<in> notified skip m. opinion i (compare_connections old current conn host) \<noteq> PRESERVE)
             then [Closed old] else []) \<and>
          \<not> isInTransaction s')"
proof -
  let ?ch = "compare_connections old current conn host"
  have ch: "CONNECTION_OBJECT_CHANGED \<in> ?ch" using assms(3) by (simp add: compare_connections_def)
  have ne: "(?ch = {}) = False" using ch by auto
  have set: "SetCurrentConnection w m (Some conn) (Some host) skip s = switch_connection w m ?ch skip old conn host s"
    using assms(1,2,4) by (simp add: SetCurrentConnection_def ne Let_def)
  obtain sss1 where b: "SessionState_Begin (sessionStateService s) = (sss1, None)"
    using assms(5) unfolding SessionState_Begin_def by (cases "\<not> transferEnabled (sessionStateService s) \<and> \<not> resetEnabled (sessionStateService s)") auto
  obtain qs e where r: "transfer_run (dialect s) (conn_exec w conn) (sessionStateService s) = (qs, e)" by (metis surj_pair)
  obtain sss2 where a: "ApplyCurrentSessionState (dialect s) None (conn_exec w conn) sss1 = (sss2, qs, e)"
    and p: "\<And>d exec. ApplyPristineSessionState d (resetFunc w) exec sss2 = ([], None)"
    using transfer_ApplyCurrent [OF b, of "dialect s" "conn_exec w conn"] unfolding r by blast
  show ?thesis
  proof (cases e)
    case (Some err)
    then show ?thesis unfolding set r
      by (simp add: switch_connection_def b assms(6) a execute_all_def SessionState_Complete_def)
  next
    case None
    define s4 where "s4 = (execute_all conn qs (s\<lparr>sessionStateService := sss1, currentConnection := Some conn, currentHostInfo := Some host, sessionStateService := sss2\<rparr>))\<lparr>isInTransaction := False\<rparr>"
    define s5 where "s5 = (if isInTransaction s \<and> as_bool (GetVerifiedWrapperPropertyValue (Some (ps_props s)) ROLLBACK_ON_SWITCH)
                          then s4\<lparr>effects := effects s4 @ Rollback w old (currentTx s)\<rparr> else s4)"
    have s5: "sessionStateService s5 = sss2" by (simp add: s5_def s4_def execute_all_def)
    obtain x where x: "notify_and_close w m ?ch skip old s5 = PluginService.more_update (\<lambda>_. x) (s5\<lparr>effects := effects s5 @
       (if CONNECTION_OBJECT_CHANGED \<in> ?ch \<and> \<not> IsClosed w old \<and> (\<forall>i \<in> notified skip m. opinion i ?ch \<noteq> PRESERVE)
        then [Closed old] else [])\<rparr>)"
      using notify_and_close_quiet [OF assms(7), of w s5 ?ch skip old] p unfolding s5 by blast
    have sw: "switch_connection w m ?ch skip old conn host s =
        ((notify_and_close w m ?ch skip old s5)\<lparr>sessionStateService := SessionState_Complete (sessionStateService (notify_and_close w m ?ch skip old s5))\<rparr>, None)"
      unfolding s5_def s4_def using None by (simp add: switch_connection_def b assms(6) a execute_all_def Let_def)
    show ?thesis unfolding set sw r x
      using None ch by (simp add: s5_def s4_def execute_all_def SessionState_Complete_def)
  qed
qed

text \<open>A service and its surroundings with connections that are numbers, for examples.\<close>

definition sample_world :: "('t, nat, nat, nat, unit, unit) world" where
  "sample_world = \<lparr>now = 50, conn_db = (\<lambda>_ _. None), conn_exec = (\<lambda>_ _. None), is_execer = (\<lambda>_. True), IsClosed = (\<lambda>_. False),
     transferFunc = None, resetFunc = None, createProvider = (\<lambda>_ _ _ s. (s, Inr 0)), hlp_Refresh = (\<lambda>_ s. (s, [], None)),
     hlp_ForceRefresh = (\<lambda>_ s. (s, [], None)), hlp_ForceRefreshWithTimeout = (\<lambda>_ _ _ s. (s, [], None)),
     hlp_IdentifyConnection = (\<lambda>_ _ s. (s, None, None)), hlp_ReleaseResources = (\<lambda>_. None)\<rparr>"

definition sample_service :: "HostInfo list \<Rightarrow> (nat, nat, nat, nat, unit) PluginService" where
  "sample_service hosts =
     \<lparr>telemetryCtx = 0, ps_props = NewRWMap, currentConnection = Some 7, hostListProvider = Some 0, currentHostInfo = None,
      dialect = PgDatabaseDialect, dialectProvider = NewDialectManager, isDialectConfirmed = False, originalDsn = '''',
      AllHosts = hosts, initialHostInfo = None, isInTransaction = True, currentTx = None,
      sessionStateService = NewSessionStateServiceImpl True True,
      hostAvailabilityCache = NewCacheWithDefaultExpiration 0 1, dialectCache = knownEndpointDialectsCache 0,
      storage = NewExpiringStorage False, published = [], effects = []\<rparr>"

definition no_plugins :: "(nat, nat, nat, nat, unit, unit, nat, nat) manager" where
  "no_plugins = NewPluginManagerImpl"

lemma no_plugins_quiet: "quiet no_plugins opinion" "quiet_hosts no_plugins" "notified skip no_plugins = {}"
  by (simp_all add: quiet_def quiet_hosts_def notified_def no_plugins_def NewPluginManagerImpl_def)

lemma SetCurrentConnection_switch_witness:
  "let s = (sample_service [])\<lparr>currentHostInfo := Some (small_host ''a'' 5 WRITER),
             sessionStateService := SetReadOnly True (NewSessionStateServiceImpl True True)\<rparr>;
       (s', err) = SetCurrentConnection sample_world no_plugins (Some 9) (Some (small_host ''b'' 5 WRITER)) None s
   in err = None \<and> currentConnection s' = Some 9 \<and>
      effects s' = [Executed 9 ''set session characteristics as transaction read only'', Executed 7 ''rollback'', Closed 7]"
proof -
  let ?s = "(sample_service [])\<lparr>currentHostInfo := Some (small_host ''a'' 5 WRITER),
             sessionStateService := SetReadOnly True (NewSessionStateServiceImpl True True)\<rparr>"
  have run: "transfer_run PgDatabaseDialect (\<lambda>_. None) (SetReadOnly True (NewSessionStateServiceImpl True True)) =
      ([''set session characteristics as transaction read only''], None)"
    by (simp add: transfer_run_def SetReadOnly_def set_field_def NewSessionStateServiceImpl_def state_queries_def field_query_def
        empty_state_def empty_field_def SetValue_def exec_query_def GetSetReadOnlyQuery_def engine_defs)
  have rb: "as_bool (GetVerifiedWrapperPropertyValue (Some NewRWMap) ROLLBACK_ON_SWITCH)" by code_simp
  have c: "copySessionState (SetReadOnly True (NewSessionStateServiceImpl True True)) = None"
    by (simp add: SetReadOnly_def set_field_def NewSessionStateServiceImpl_def)
  have n: "\<not> IsNil (Some (small_host ''b'' 5 WRITER))" by (simp add: IsNil_def small_host_def)
  show ?thesis
    using SetCurrentConnection_switch [of ?s 7 "small_host ''a'' 5 WRITER" 9 "small_host ''b'' 5 WRITER" sample_world no_plugins
        "\<lambda>_ _. NO_OPINION" None] n c rb
    by (auto simp: sample_service_def sample_world_def run no_plugins_quiet Rollback_def)
qed

text \<open>C26: \<open>GetCurrentHostInfo\<close> falls back to the writer of the host list and refuses one that is not among the
  allowed hosts, but it has set the current host by then: the next call answers the refused host.\<close>
theorem GetCurrentHostInfo_refused_once:
  assumes "GetCurrentHostInfo w s = (s1, None, Some (NewGenericAwsWrapperError ''PluginServiceImpl.currentHostNotAllowed''))"
    and "\<forall>h \<in> set (AllHosts s). \<not> IsNil (Some h)"
  shows "\<exists>h \<in> set (AllHosts s). Role h = WRITER \<and> h \<notin> set (snd (GetHosts w s)) \<and>
    GetCurrentHostInfo w s1 = (s1, Some h, None)"
proof -
  have keep: "currentHostInfo (fst (GetHosts w x)) = currentHostInfo x" "snd (GetHosts w (x\<lparr>currentHostInfo := y\<rparr>)) = snd (GetHosts w x)" for x y
    by (simp_all add: GetHosts_def split: prod.splits)
  have writer: "GetWriter (map Some hosts) = Some h \<Longrightarrow> h \<in> set hosts \<and> Role h = WRITER" for hosts h
    by (induction hosts) (auto split: if_splits)
  let ?h = "GetWriter (map Some (AllHosts s))"
  obtain s3 allowed where g: "GetHosts w (s\<lparr>currentHostInfo := ?h\<rparr>) = (s3, allowed)" by (metis surj_pair)
  have k: "currentHostInfo s3 = ?h" "allowed = snd (GetHosts w s)"
    using keep(1) [of "s\<lparr>currentHostInfo := ?h\<rparr>"] keep(2) [where x = s and y = ?h] g by simp_all
  have "?h \<noteq> None \<and> \<not> IsHostInList ?h allowed \<and> s1 = s3"
    using assms(1) g k(1) by (simp add: GetCurrentHostInfo_def Let_def NewGenericAwsWrapperError_def split: if_splits)
  then obtain h where h: "?h = Some h" "currentHostInfo s1 = Some h" "\<not> IsHostInList (Some h) (snd (GetHosts w s))" using k by auto
  have "h \<notin> set (snd (GetHosts w s))"
    using h(3) by (auto simp: IsHostInList_def list_ex_iff Equals_def split: if_splits)
  moreover have "GetCurrentHostInfo w s1 = (s1, Some h, None)"
    using h(2) assms(2) writer [OF h(1)] by (simp add: GetCurrentHostInfo_def)
  ultimately show ?thesis using writer [OF h(1)] by blast
qed

definition restricted_storage :: "unit cluster_storage" where
  "restricted_storage =
     fst (Descriptor_Set 40 AllowedAndBlockedHostsStorageType (StringKey ''/'') (NewAllowedAndBlockedHosts [] [(''a'', True)])
       (Descriptor_Register AllowedAndBlockedHostsStorageType (NewExpiringStorage False)))"

lemma GetCurrentHostInfo_refused_once_witness:
  "let s = (sample_service [small_host ''a'' 5 WRITER, small_host ''b'' 5 READER])\<lparr>storage := restricted_storage\<rparr>;
       (s1, h1, err1) = GetCurrentHostInfo sample_world s
   in h1 = None \<and> err1 = Some (NewGenericAwsWrapperError ''PluginServiceImpl.currentHostNotAllowed'') \<and>
      GetCurrentHostInfo sample_world s1 = (s1, Some (small_host ''a'' 5 WRITER), None)"
proof -
  let ?s = "(sample_service [small_host ''a'' 5 WRITER, small_host ''b'' 5 READER])\<lparr>storage := restricted_storage\<rparr>"
  obtain s1 where g: "GetCurrentHostInfo sample_world ?s = (s1, None, Some (NewGenericAwsWrapperError ''PluginServiceImpl.currentHostNotAllowed''))"
    by (simp add: GetCurrentHostInfo_def sample_service_def sample_world_def GetHosts_def hosts_for_def restricted_storage_def
        Descriptor_Get_def Descriptor_Set_def Descriptor_Register_def Storage_Get_def Storage_Set_def Storage_Register_def
        AllowedAndBlockedHostsStorageType_def NewExpiringStorage_def NewAllowedAndBlockedHosts_def ExpirationCache_defs NewExpirationCache_def isExpired_def
        permitted_def FilterSlice_def small_host_def IsNil_def GetUrl_def GetHostAndPort_def IsHostInList_def Equals_def mput_def)
  have "\<forall>h \<in> set (AllHosts ?s). \<not> IsNil (Some h)" by (simp add: sample_service_def IsNil_def small_host_def)
  from GetCurrentHostInfo_refused_once [OF g this] g show ?thesis
    by (auto simp: sample_service_def small_host_def)
qed

lemma permitted_filter:
  "permitted (NewAllowedAndBlockedHosts allowed blocked) hosts =
     filter (\<lambda>h. (allowed = [] \<or> map_of allowed (HostId h) = Some True) \<and> map_of blocked (HostId h) \<noteq> Some True) hosts"
  by (simp add: permitted_def NewAllowedAndBlockedHosts_def FilterSlice_def conj_commute)

text \<open>C27: The hosts a custom endpoint allows or blocks, stored under the address of the initial host, restrict
  the hosts of the service for five minutes and no longer. They do not restrict the hosts of the partial service the
  monitors use, which looks them up under a pointer, and a nil one.\<close>
theorem host_permissions:
  fixes store :: "'b cluster_storage"
  assumes "st_inv_for ''AllowedAndBlockedHosts'' (TTL (AllowedAndBlockedHostsStorageType :: (AllowedAndBlockedHosts, 'b storage_value) StorageTypeDescriptor)) store"
    and "storage s = fst (Descriptor_Set t AllowedAndBlockedHostsStorageType (StringKey (GetUrl (initialHostInfo s)))
           (NewAllowedAndBlockedHosts allowed blocked) store)"
    and "fst (snd (Storage_Get (now w) ''AllowedAndBlockedHosts'' (HostInfoKey None) store)) = None"
    and "t \<le> now w"
  shows "snd (GetHosts w s) =
           (if now w \<le> t + 5 * 60 * 1000000000
            then filter (\<lambda>h. (allowed = [] \<or> map_of allowed (HostId h) = Some True) \<and> map_of blocked (HostId h) \<noteq> Some True) (AllHosts s)
            else AllHosts s) \<and>
         snd (snd (Partial_GetHosts (now w) (storage s) (CreatePartialPluginService s))) = AllHosts s"
proof -
  let ?tk = "''AllowedAndBlockedHosts''"
  have cast: "Option.bind r (d_cast AllowedAndBlockedHostsStorageType) = Option.bind r (\<lambda>v. case v of PermissionsValue p \<Rightarrow> Some p | _ \<Rightarrow> None)" for r
    by (simp add: AllowedAndBlockedHostsStorageType_def)
  have ttl: "TTL (AllowedAndBlockedHostsStorageType :: (AllowedAndBlockedHosts, 'b storage_value) StorageTypeDescriptor) = 300000000000"
    by (simp add: AllowedAndBlockedHostsStorageType_def)
  have get: "fst (snd (Descriptor_Get (now w) AllowedAndBlockedHostsStorageType key (storage s))) =
      (if key = StringKey (GetUrl (initialHostInfo s)) then (if now w \<le> t + 300000000000 then Some (NewAllowedAndBlockedHosts allowed blocked) else None)
       else Option.bind (fst (snd (Storage_Get (now w) ?tk key store))) (\<lambda>v. case v of PermissionsValue p \<Rightarrow> Some p | _ \<Rightarrow> None))" for key
    using storage.get_put [OF assms(1,4), of key "StringKey (GetUrl (initialHostInfo s))" "PermissionsValue (NewAllowedAndBlockedHosts allowed blocked)"]
    unfolding ttl
    by (cases "key = StringKey (GetUrl (initialHostInfo s))")
      (simp_all add: Descriptor_Get_result cast, simp_all add: assms(2) Descriptor_Set_def AllowedAndBlockedHostsStorageType_def)
  have hosts: "snd (snd (hosts_for (now w) key (storage s) hs)) =
      (case fst (snd (Descriptor_Get (now w) AllowedAndBlockedHostsStorageType key (storage s))) of None \<Rightarrow> hs | Some p \<Rightarrow> permitted p hs)" for key hs
    by (simp add: hosts_for_def split: prod.splits)
  have "snd (GetHosts w s) = (if now w \<le> t + 300000000000 then permitted (NewAllowedAndBlockedHosts allowed blocked) (AllHosts s) else AllHosts s)"
    using hosts [of "StringKey (GetUrl (initialHostInfo s))" "AllHosts s"] by (auto simp: GetHosts_def get split: prod.splits)
  moreover have "snd (snd (Partial_GetHosts (now w) (storage s) (CreatePartialPluginService s))) = AllHosts s"
    by (simp add: Partial_GetHosts_def CreatePartialPluginService_def NewPartialPluginService_def hosts get assms(3))
  ultimately show ?thesis by (simp add: permitted_filter)
qed

definition permission_storage :: "unit cluster_storage" where
  "permission_storage = Descriptor_Register AllowedAndBlockedHostsStorageType (NewExpiringStorage False)"

lemma permission_storage_ok:
  "st_inv_for ''AllowedAndBlockedHosts'' (TTL (AllowedAndBlockedHostsStorageType :: (AllowedAndBlockedHosts, unit storage_value) StorageTypeDescriptor)) permission_storage"
  "fst (snd (Storage_Get t ''AllowedAndBlockedHosts'' k permission_storage)) = None"
  by (simp_all add: st_inv_for_def st_inv_def type_cache_def permission_storage_def Descriptor_Register_def Storage_Register_def
      AllowedAndBlockedHostsStorageType_def NewExpiringStorage_def NewExpirationCache_def mput_def wf_map_def ec_inv_def Storage_Get_def
      ExpirationCache_defs)

lemma host_permissions_witness:
  "let hosts = [small_host ''a'' 5 WRITER, small_host ''b'' 5 READER];
       s = (sample_service hosts)\<lparr>storage := fst (Descriptor_Set 40 AllowedAndBlockedHostsStorageType (StringKey ''/'')
              (NewAllowedAndBlockedHosts [] [(''a'', True)]) permission_storage)\<rparr>
   in snd (GetHosts sample_world s) = [small_host ''b'' 5 READER] \<and>
      snd (snd (Partial_GetHosts 50 (storage s) (CreatePartialPluginService s))) = hosts"
proof -
  let ?s = "(sample_service [small_host ''a'' 5 WRITER, small_host ''b'' 5 READER])\<lparr>storage := fst (Descriptor_Set 40
      AllowedAndBlockedHostsStorageType (StringKey ''/'') (NewAllowedAndBlockedHosts [] [(''a'', True)]) permission_storage)\<rparr>"
  have k: "GetUrl (initialHostInfo ?s) = ''/''" by (simp add: sample_service_def GetUrl_def GetHostAndPort_def)
  show ?thesis
    using host_permissions [OF permission_storage_ok(1), of ?s 40 "[]" "[(''a'', True)]" sample_world, unfolded k] permission_storage_ok(2)
    by (simp add: sample_world_def sample_service_def small_host_def)
qed

lemma map_of_fold_put:
  assumes "wf_map m"
  shows "map_of (fold (\<lambda>(k, v) acc. case f k v of None \<Rightarrow> acc | Some x \<Rightarrow> mput k x acc) m acc) key =
     (case Option.bind (map_of m key) (f key) of None \<Rightarrow> map_of acc key | Some x \<Rightarrow> Some x)"
  using assms
proof (induction m arbitrary: acc)
  case (Cons a m)
  then have "map_of m (fst a) = None" and wf: "wf_map m"
    by (auto simp: wf_map_def map_of_eq_None_iff)
  with Cons.IH [OF wf] show ?case by (cases a) (auto split: option.splits)
qed simp

lemma host_map_props:
  "wf_map (host_map hosts)"
  "distinct (map (\<lambda>h. GetHostAndPort (Some h)) hosts) \<Longrightarrow>
     map_of (host_map hosts) k = Some h \<longleftrightarrow> h \<in> set hosts \<and> GetHostAndPort (Some h) = k"
proof -
  have wf: "wf_map acc \<Longrightarrow> wf_map (fold (\<lambda>host m. mput (GetHostAndPort (Some host)) host m) hosts acc)" for acc
    by (induction hosts arbitrary: acc) simp_all
  then show "wf_map (host_map hosts)" by (simp add: host_map_def)
  have "distinct (map (\<lambda>h. GetHostAndPort (Some h)) hosts) \<Longrightarrow>
     map_of (fold (\<lambda>host m. mput (GetHostAndPort (Some host)) host m) hosts acc) k = Some h \<longleftrightarrow>
       h \<in> set hosts \<and> GetHostAndPort (Some h) = k \<or> k \<notin> (\<lambda>h. GetHostAndPort (Some h)) ` set hosts \<and> map_of acc k = Some h" for acc
    by (induction hosts arbitrary: acc) auto
  then show "distinct (map (\<lambda>h. GetHostAndPort (Some h)) hosts) \<Longrightarrow>
     map_of (host_map hosts) k = Some h \<longleftrightarrow> h \<in> set hosts \<and> GetHostAndPort (Some h) = k"
    by (simp add: host_map_def)
qed

text \<open>The changes of a new host list, by address.\<close>

lemma host_list_changes_lookup:
  "map_of (host_list_changes old new) k =
     (case (map_of (host_map old) k, map_of (host_map new) k) of
        (None, None) \<Rightarrow> None
      | (None, Some b) \<Rightarrow> Some {HOST_ADDED}
      | (Some a, None) \<Rightarrow> Some {HOST_DELETED}
      | (Some a, Some b) \<Rightarrow>
          if IsNil (Some b) then Some {HOST_DELETED} else if compareHostInfos a b = {} then None else Some (compareHostInfos a b))"
proof -
  define f where "f k a = (case map_of (host_map new) k of
        None \<Rightarrow> Some {HOST_DELETED}
      | Some b \<Rightarrow> if IsNil (Some b) then Some {HOST_DELETED} else if compareHostInfos a b \<noteq> {} then Some (compareHostInfos a b) else None)" for k a
  define g where "g k (b :: HostInfo) = (if map_of (host_map old) k = None then Some {HOST_ADDED} else None)" for k b
  have 1: "(\<lambda>(hostKey, hostInfo) changes.
                       case map_of (host_map new) hostKey of
                         None \<Rightarrow> mput hostKey {HOST_DELETED} changes
                       | Some new \<Rightarrow>
                           if IsNil (Some new) then mput hostKey {HOST_DELETED} changes
                           else if compareHostInfos hostInfo new \<noteq> {} then mput hostKey (compareHostInfos hostInfo new) changes
                           else changes) = (\<lambda>(k, v) acc. case f k v of None \<Rightarrow> acc | Some x \<Rightarrow> mput k x acc)"
    by (auto simp: fun_eq_iff f_def split: option.splits)
  have 2: "(\<lambda>(hostKey, _ :: HostInfo) changes. if map_of (host_map old) hostKey = None then mput hostKey {HOST_ADDED} changes else changes) =
      (\<lambda>(k, v) acc. case g k v of None \<Rightarrow> acc | Some x \<Rightarrow> mput k x acc)"
    by (auto simp: fun_eq_iff g_def split: option.splits)
  show ?thesis
    unfolding host_list_changes_def Let_def 1 2 map_of_fold_put [OF host_map_props(1)]
    by (auto simp: f_def g_def split: option.splits)
qed

lemma map_of_all_None: "(\<forall>k. map_of m k = None) \<longleftrightarrow> m = []"
  by (simp add: map_of_eq_None_iff all_not_in_conv)

lemma map_eq_list_all2: "map f as = map g bs \<longleftrightarrow> list_all2 (\<lambda>a b. f a = g b) as bs"
  by (auto simp: list_all2_conv_all_nth list_eq_iff_nth_eq)

definition host_keys :: "HostInfo list \<Rightarrow> string list" where
  "host_keys hosts = map (\<lambda>h. GetHostAndPort (Some h)) hosts"

text \<open>Two host lists that \<open>setHostList\<close> takes for the same: the same addresses, and no change it looks at.\<close>

definition unchanged :: "HostInfo list \<Rightarrow> HostInfo list \<Rightarrow> bool" where
  "unchanged old new \<longleftrightarrow> set (host_keys old) = set (host_keys new) \<and>
     (\<forall>a \<in> set old. \<forall>b \<in> set new. GetHostAndPort (Some a) = GetHostAndPort (Some b) \<longrightarrow> compareHostInfos a b = {})"

lemma not_host_key: "k \<notin> set (host_keys hs) \<Longrightarrow> a \<in> set hs \<Longrightarrow> GetHostAndPort (Some a) \<noteq> k"
  unfolding host_keys_def by force

lemma host_list_changes_empty:
  assumes "distinct (host_keys old)" "distinct (host_keys new)" "\<forall>h \<in> set new. \<not> IsNil (Some h)"
  shows "host_list_changes old new = [] \<longleftrightarrow> unchanged old new"
proof -
  note m1 = host_map_props(2) [OF assms(1) [unfolded host_keys_def]] and m2 = host_map_props(2) [OF assms(2) [unfolded host_keys_def]]
  have none: "map_of (host_map hs) k = None \<longleftrightarrow> k \<notin> set (host_keys hs)" if "distinct (host_keys hs)" for hs k
  proof
    show "map_of (host_map hs) k = None \<Longrightarrow> k \<notin> set (host_keys hs)"
      using host_map_props(2) [OF that [unfolded host_keys_def], of k] unfolding host_keys_def by fastforce
    show "k \<notin> set (host_keys hs) \<Longrightarrow> map_of (host_map hs) k = None"
      using host_map_props(2) [OF that [unfolded host_keys_def], of k] not_host_key by (metis not_None_eq)
  qed
  have "map_of (host_list_changes old new) k = None \<longleftrightarrow>
      (k \<in> set (host_keys old) \<longleftrightarrow> k \<in> set (host_keys new)) \<and>
      (\<forall>a \<in> set old. \<forall>b \<in> set new. GetHostAndPort (Some a) = k \<longrightarrow> GetHostAndPort (Some b) = k \<longrightarrow> compareHostInfos a b = {})" for k
  proof (cases "k \<in> set (host_keys old) \<and> k \<in> set (host_keys new)")
    case True
    then obtain a b where ab: "map_of (host_map old) k = Some a" "map_of (host_map new) k = Some b"
      using none [OF assms(1)] none [OF assms(2)] by blast
    have ua: "a' = a" if "a' \<in> set old" "GetHostAndPort (Some a') = k" for a' using that ab(1) m1 [of k a'] by simp
    have ub: "b' = b" if "b' \<in> set new" "GetHostAndPort (Some b') = k" for b' using that ab(2) m2 [of k b'] by simp
    have "a \<in> set old" "GetHostAndPort (Some a) = k" "b \<in> set new" "GetHostAndPort (Some b) = k"
      using ab m1 [of k a] m2 [of k b] by simp_all
    then have "(\<forall>a \<in> set old. \<forall>b \<in> set new. GetHostAndPort (Some a) = k \<longrightarrow> GetHostAndPort (Some b) = k \<longrightarrow> compareHostInfos a b = {}) \<longleftrightarrow>
        compareHostInfos a b = {}" using ua ub by blast
    with True \<open>b \<in> set new\<close> assms(3) show ?thesis by (simp add: host_list_changes_lookup ab)
  next
    case False
    have "map_of (host_list_changes old new) k = None \<longleftrightarrow> (k \<in> set (host_keys old) \<longleftrightarrow> k \<in> set (host_keys new))"
      using False none [OF assms(1), of k] none [OF assms(2), of k] by (auto simp: host_list_changes_lookup split: option.splits)
    with False not_host_key show ?thesis by blast
  qed
  then show ?thesis unfolding map_of_all_None [symmetric] unchanged_def by blast
qed

lemma quiet_hosts_notify: "quiet_hosts m \<Longrightarrow> \<exists>x. NotifyHostListChanged changes m s = PluginService.more_update (\<lambda>_. x) s"
proof -
  assume q: "quiet_hosts m"
  have "\<exists>x. fold (\<lambda>p. plugin_NotifyHostListChanged p changes) ps s = PluginService.more_update (\<lambda>_. x) s" if "set ps \<subseteq> set (plugins m)" for ps
    using that
  proof (induction ps arbitrary: s)
    case Nil
    show ?case by (intro exI [of _ "PluginService.more s"]) (cases s, simp)
  next
    case (Cons p ps)
    then obtain x where "plugin_NotifyHostListChanged p changes s = PluginService.more_update (\<lambda>_. x) s"
      using q unfolding quiet_hosts_def by (meson list.set_intros(1) subsetD)
    with Cons.IH [of "PluginService.more_update (\<lambda>_. x) s"] Cons.prems show ?case by (auto simp: more_update_twice)
  qed
  then show ?thesis by (simp add: NotifyHostListChanged_all)
qed

lemma Equals_compare: "Equals a b \<Longrightarrow> compareHostInfos a b = {} \<and> GetHostAndPort (Some a) = GetHostAndPort (Some b)"
  by (auto simp: Equals_def compareHostInfos_def GetHostAndPort_def IsPortSpecified_def)

lemma AreHostListsEqual_values:
  "\<exists>b. AreHostListsEqual (map Some as) (map Some bs) = Inr b \<and> (b \<longleftrightarrow> list_all2 Equals as bs)"
proof (cases "length as = length bs")
  case True
  then have "\<exists>b. hostsEqualLoop (map Some as) (map Some bs) = Inr b \<and> (b \<longleftrightarrow> list_all2 Equals as bs)"
    by (induction as bs rule: list_induct2) auto
  with True show ?thesis by (simp add: AreHostListsEqual_def)
qed (auto simp: AreHostListsEqual_def dest: list_all2_lengthD)

text \<open>Lists that agree host by host are unchanged.\<close>

lemma pairwise_unchanged:
  assumes "list_all2 (\<lambda>a b. compareHostInfos a b = {} \<and> GetHostAndPort (Some a) = GetHostAndPort (Some b)) as bs" "distinct (host_keys bs)"
  shows "unchanged as bs"
proof -
  have keys: "host_keys as = host_keys bs"
    unfolding host_keys_def map_eq_list_all2 by (rule list_all2_mono [OF assms(1)]) (rule conjunct2)
  have "compareHostInfos a b = {}" if ab: "a \<in> set as" "b \<in> set bs" "GetHostAndPort (Some a) = GetHostAndPort (Some b)" for a b
  proof -
    obtain i where i: "i < length as" "as ! i = a" using ab(1) unfolding in_set_conv_nth by blast
    obtain j where j: "j < length bs" "bs ! j = b" using ab(2) unfolding in_set_conv_nth by blast
    have ib: "i < length bs" "compareHostInfos a (bs ! i) = {}" "GetHostAndPort (Some a) = GetHostAndPort (Some (bs ! i))"
      using list_all2_nthD [OF assms(1) i(1)] list_all2_lengthD [OF assms(1)] i by metis+
    have "host_keys bs ! i = GetHostAndPort (Some (bs ! i))" "host_keys bs ! j = GetHostAndPort (Some b)"
      using ib(1) j by (simp_all add: host_keys_def)
    then have "host_keys bs ! i = host_keys bs ! j" using ab(3) ib(3) by metis
    then have "i = j" using nth_eq_iff_index_eq [OF assms(2), of i j] ib(1) j(1) by (simp add: host_keys_def)
    with ib j show ?thesis by simp
  qed
  with keys show ?thesis by (simp add: unchanged_def)
qed

text \<open>A refresh takes over the host list the provider answers, unless nothing the service compares has
  changed; weights are not compared, so a list that only brings new weights is dropped, although it was
  found to differ.\<close>
theorem RefreshHostList_hosts:
  assumes "hostListProvider s = Some h" "hlp_Refresh w h s = (s1, new, None)" "new \<noteq> []" "\<forall>x \<in> set new. \<not> IsNil (Some x)"
    and "distinct (host_keys (AllHosts s1))" "distinct (host_keys new)" "quiet_hosts m"
  shows "\<exists>s'. RefreshHostList w m s = (s', None) \<and>
     AllHosts s' = (if unchanged (AllHosts s1) new then AllHosts s1 else new) \<and>
     (map (Weight_update (\<lambda>_. 0)) new = map (Weight_update (\<lambda>_. 0)) (AllHosts s1) \<longrightarrow> AllHosts s' = AllHosts s1)"
proof -
  have run: "RefreshHostList w m s = updateHostListIfNeeded m new s1"
    using assms(1,2) by (simp add: RefreshHostList_def refresh_with_def)
  obtain b where b: "AreHostListsEqual (map Some (AllHosts s1)) (map Some new) = Inr b" "b \<longleftrightarrow> list_all2 Equals (AllHosts s1) new"
    using AreHostListsEqual_values by blast
  have "AllHosts (setHostList m new s1) = (if unchanged (AllHosts s1) new then AllHosts s1 else new)"
    using host_list_changes_empty [OF assms(5,6,4)] quiet_hosts_notify [OF assms(7), of "host_list_changes (AllHosts s1) new" "s1\<lparr>AllHosts := new\<rparr>"]
    by (auto simp: setHostList_def)
  moreover have "b \<Longrightarrow> unchanged (AllHosts s1) new"
    using b(2) pairwise_unchanged [OF _ assms(6)] Equals_compare by (metis (mono_tags, lifting) list_all2_mono)
  moreover have "unchanged (AllHosts s1) new" if w: "map (Weight_update (\<lambda>_. 0)) new = map (Weight_update (\<lambda>_. 0)) (AllHosts s1)"
  proof (rule pairwise_unchanged [OF _ assms(6)])
    have eq: "compareHostInfos x y = {} \<and> GetHostAndPort (Some x) = GetHostAndPort (Some y)" if "x\<lparr>Weight := 0\<rparr> = y\<lparr>Weight := 0\<rparr>" for x y
      using that by (cases x, cases y) (simp add: compareHostInfos_def GetHostAndPort_def IsPortSpecified_def)
    show "list_all2 (\<lambda>a b. compareHostInfos a b = {} \<and> GetHostAndPort (Some a) = GetHostAndPort (Some b)) (AllHosts s1) new"
      using w [symmetric, unfolded map_eq_list_all2] by (rule list_all2_mono) (rule eq)
  qed
  ultimately show ?thesis
    unfolding run using assms(3) b(1) by (cases b) (auto simp: updateHostListIfNeeded_def)
qed

definition weight_world :: "(nat, nat, nat, nat, unit, unit) world" where
  "weight_world = sample_world\<lparr>hlp_Refresh := (\<lambda>_ s. (s, [(small_host ''a'' 5 WRITER)\<lparr>Weight := 7\<rparr>], None))\<rparr>"

lemma RefreshHostList_hosts_witness:
  "\<exists>s'. RefreshHostList weight_world no_plugins (sample_service [small_host ''a'' 5 WRITER]) = (s', None) \<and>
     AllHosts s' = [small_host ''a'' 5 WRITER]"
  using RefreshHostList_hosts [of "sample_service [small_host ''a'' 5 WRITER]" 0 weight_world "sample_service [small_host ''a'' 5 WRITER]"
      "[(small_host ''a'' 5 WRITER)\<lparr>Weight := 7\<rparr>]" no_plugins] no_plugins_quiet(2)
  by (auto simp: sample_service_def weight_world_def sample_world_def IsNil_def host_keys_def small_host_def)

text \<open>Of several statements executed together, only the last one that sets anything is recorded in the
  session state; what the ones before it set is lost on the next switch.\<close>
theorem UpdateState_last_setting:
  assumes "GetSeparateSqlStatements (GetQueryFromSqlOrMethodArgs sql args) = before @ statement # after"
    and "read_settings (dialect s) statement = Inr u" "anything_set u"
    and "\<forall>x \<in> set after. \<exists>v. read_settings (dialect s) x = Inr v \<and> \<not> anything_set v"
  shows "UpdateState sql args s = (s\<lparr>sessionStateService := apply_settings u (sessionStateService s)\<rparr>, None)"
proof -
  have stop: "anything_set v \<Longrightarrow> settings_loop d xs v = Inr v" for d xs v by (cases xs) simp_all
  have "\<not> anything_set v \<Longrightarrow> (\<forall>x \<in> set xs. \<exists>v. read_settings d x = Inr v \<and> \<not> anything_set v) \<Longrightarrow> read_settings d statement = Inr u \<Longrightarrow>
      settings_loop d (xs @ statement # ys) v = Inr u" for d xs ys v
    using assms(3) by (induction xs arbitrary: v) (auto simp: stop)
  from this [of nothing_set "rev after" "dialect s" "rev before"] assms show ?thesis
    by (simp add: UpdateState_def anything_set_def nothing_set_def)
qed

lemma UpdateState_last_setting_witness:
  "UpdateState ''set autocommit=0; use db; select 1'' [] ((sample_service [])\<lparr>dialect := MySQLDatabaseDialect\<rparr>) =
     ((sample_service [])\<lparr>dialect := MySQLDatabaseDialect,
        sessionStateService := SetCatalog ''db'' (SetupPristineCatalog (NewSessionStateServiceImpl True True))\<rparr>, None)"
proof -
  have st: "GetSeparateSqlStatements (GetQueryFromSqlOrMethodArgs ''set autocommit=0; use db; select 1'' []) =
      [''set autocommit=0''] @ ''use db'' # [''select 1'']" by code_simp
  have u: "read_settings MySQLDatabaseDialect ''use db'' = Inr (nothing_set\<lparr>set_catalog := (''db'', True)\<rparr>)" by code_simp
  have v: "read_settings MySQLDatabaseDialect ''select 1'' = Inr nothing_set" by code_simp
  have a: "anything_set (nothing_set\<lparr>set_catalog := (''db'', True)\<rparr>)" "\<not> anything_set nothing_set"
    by (simp_all add: anything_set_def nothing_set_def)
  let ?s = "(sample_service [])\<lparr>dialect := MySQLDatabaseDialect\<rparr>"
  have "UpdateState ''set autocommit=0; use db; select 1'' [] ?s =
      (?s\<lparr>sessionStateService := apply_settings (nothing_set\<lparr>set_catalog := (''db'', True)\<rparr>) (sessionStateService ?s)\<rparr>, None)"
    by (rule UpdateState_last_setting [OF st]) (use u v a in \<open>simp_all add: sample_service_def\<close>)
  then show ?thesis by (simp add: apply_settings_def setIfOk_def nothing_set_def sample_service_def)
qed

end
