(* ===== verification/Host_Selectors.thy ===== *)
theory Host_Selectors
  imports Host_Info Expiring_Caches Go_Regexp Wrapper_Properties
begin

text \<open>
  The selection of a host: \<open>awssql/driver_infrastructure/host_selector.go\<close>, \<open>random_host_selector.go\<close>,
  \<open>highest_weight_host_selector.go\<close>, \<open>weighted_random_host_selector.go\<close> and
  \<open>round_robin_host_selector.go\<close>. Random numbers are a parameter: the function called with a bound
  answers a number below it. The round-robin selector keeps one object per cluster, which the cache
  entries of all its hosts point to; the model has the objects in a store, by address.
\<close>

definition SELECTOR_HIGHEST_WEIGHT :: string where "SELECTOR_HIGHEST_WEIGHT = ''highestWeight''"
definition SELECTOR_RANDOM :: string where "SELECTOR_RANDOM = ''random''"
definition SELECTOR_WEIGHTED_RANDOM :: string where "SELECTOR_WEIGHTED_RANDOM = ''weightedRandom''"
definition SELECTOR_ROUND_ROBIN :: string where "SELECTOR_ROUND_ROBIN = ''roundRobin''"

definition HOST_WEIGHT_PAIR_PATTERN :: regexp where
  "HOST_WEIGHT_PAIR_PATTERN =
     RSeqs [RBegin, RGroup ''host'' (RPlus (RSet (\<lambda>c. c \<noteq> CHR '':''))), RChr (CHR '':''),
            RGroup ''weight'' (RPlus (RSet is_digit)), REnd]"

definition invalidHostWeightPairs :: go_error where
  "invalidHostWeightPairs = ExternalError ''HostSelector.invalidHostWeightPairs''"

text \<open>One pair: the host and its weight, which has to be positive.\<close>

definition parse_weight_pair :: "string \<Rightarrow> go_error + string \<times> int" where
  "parse_weight_pair hostWeightPair =
     (case FindStringSubmatch HOST_WEIGHT_PAIR_PATTERN hostWeightPair of
        None \<Rightarrow> Inl invalidHostWeightPairs
      | Some matches \<Rightarrow>
          (let hostName = group_val matches ''host''; hostWeightString = group_val matches ''weight''
           in if hostName = '''' \<or> hostWeightString = '''' then Inl invalidHostWeightPairs
              else (case Atoi hostWeightString of
                      None \<Rightarrow> Inl invalidHostWeightPairs
                    | Some hostWeight \<Rightarrow> if hostWeight \<le> 0 then Inl invalidHostWeightPairs else Inr (hostName, hostWeight))))"

fun weight_pairs_loop :: "string list \<Rightarrow> (string, int) gomap \<Rightarrow> go_error + (string, int) gomap" where
  "weight_pairs_loop [] m = Inr m"
| "weight_pairs_loop (pair # pairs) m =
     bindR (parse_weight_pair (TrimSpace pair)) (\<lambda>(hostName, hostWeight). weight_pairs_loop pairs (mput hostName hostWeight m))"

definition GetHostWeightMapFromString :: "string \<Rightarrow> go_error + (string, int) gomap" where
  "GetHostWeightMapFromString hostWeightMapString =
     (if TrimSpace hostWeightMapString = '''' then Inr []
      else weight_pairs_loop (Split hostWeightMapString (CHR '','')) [])"

definition is_eligible :: "HostRole \<Rightarrow> HostInfo \<Rightarrow> bool" where
  "is_eligible role hostInfo \<longleftrightarrow> (role = AnyRole \<or> role = Role hostInfo) \<and> Availability hostInfo = AVAILABLE"

definition eligible_hosts :: "HostInfo list \<Rightarrow> HostRole \<Rightarrow> HostInfo list" where
  "eligible_hosts hosts role = FilterSlice hosts (is_eligible role)"

section \<open>Random and highest weight\<close>

definition Random_GetHost :: "(nat \<Rightarrow> nat) \<Rightarrow> HostInfo list \<Rightarrow> HostRole \<Rightarrow> go_error + HostInfo" where
  "Random_GetHost Intn hosts role =
     (let eligibleHosts = eligible_hosts hosts role
      in if eligibleHosts = [] then Inl (NewGenericAwsWrapperError ''HostSelector.noHostsMatchingRole'')
         else Inr (eligibleHosts ! Intn (length eligibleHosts)))"

definition HighestWeight_GetHost :: "HostInfo list \<Rightarrow> HostRole \<Rightarrow> go_error + HostInfo" where
  "HighestWeight_GetHost hosts role =
     (let eligibleHosts = eligible_hosts hosts role
      in if eligibleHosts = [] then Inl (ExternalError ''HighestWeightHostSelector.noHostsMatchingRole'')
         else Inr (foldl (\<lambda>curr host. if Weight host > Weight curr then host else curr) (hd eligibleHosts) eligibleHosts))"

section \<open>Weighted random\<close>

text \<open>\<open>None\<close> is the nil map; counts are 64-bit integers.\<close>

record NumberRange =
  Start :: int
  End :: int

definition IsInNumberRange :: "NumberRange \<Rightarrow> int \<Rightarrow> bool" where
  "IsInNumberRange nr n \<longleftrightarrow> Start nr \<le> n \<and> n \<le> End nr"

type_synonym WeightedRandomHostSelector = "(string, int) gomap option"

fun ranges_loop ::
  "(string, int) gomap \<Rightarrow> HostInfo list \<Rightarrow> int \<Rightarrow> (NumberRange, HostInfo) gomap \<Rightarrow> (NumberRange, HostInfo) gomap \<times> int" where
  "ranges_loop weights [] cnt m = (m, cnt)"
| "ranges_loop weights (host # hosts) cnt m =
     (case map_of weights (Host host) of
        Some hostWeight \<Rightarrow>
          if hostWeight > 0
          then ranges_loop weights hosts (wrap64 (cnt + hostWeight))
                 (mput \<lparr>Start = cnt, End = wrap64 (cnt + hostWeight - 1)\<rparr> host m)
          else ranges_loop weights hosts (wrap64 (cnt + 1)) (mput \<lparr>Start = cnt, End = cnt\<rparr> host m)
      | None \<Rightarrow> ranges_loop weights hosts (wrap64 (cnt + 1)) (mput \<lparr>Start = cnt, End = cnt\<rparr> host m))"

definition selector_weights :: "(string, string) gomap \<Rightarrow> WeightedRandomHostSelector \<Rightarrow> go_error + (string, int) gomap" where
  "selector_weights props r =
     (if r = None \<or> r = Some []
      then GetHostWeightMapFromString (as_string (GetVerifiedWrapperPropertyValueFromMap props WEIGHTED_RANDOM_HOST_WEIGHT_PAIRS))
      else Inr (the r))"

text \<open>\<open>rand.IntN\<close> panics on a bound that is not positive.\<close>

definition WeightedRandom_GetHost ::
  "(nat \<Rightarrow> nat) \<Rightarrow> HostInfo list \<Rightarrow> HostRole \<Rightarrow> (string, string) gomap \<Rightarrow> WeightedRandomHostSelector
     \<Rightarrow> WeightedRandomHostSelector \<times> (go_error + HostInfo)" where
  "WeightedRandom_GetHost IntN hosts role props r =
     (case selector_weights props r of
        Inl err \<Rightarrow> (r, Inl err)
      | Inr weights \<Rightarrow>
          (Some weights,
           let eligibleHosts = eligible_hosts hosts role
           in if eligibleHosts = [] then Inl (ExternalError ''WeightedRandomHostSelector.noHostsMatchingRole'')
              else
               (let (rangeMap, cnt) = ranges_loop weights eligibleHosts 1 []; bound = wrap64 (cnt - 1)
                in if bound \<le> 0 then Inl (Panic ''invalid argument to IntN'')
                   else
                    (let randomNumber = int (IntN (nat bound)) + 1
                     in (case find (\<lambda>(hostWeightRange, _). IsInNumberRange hostWeightRange randomNumber) rangeMap of
                           Some (_, host) \<Rightarrow> Inr host
                         | None \<Rightarrow> Inl (ExternalError ''WeightedRandomHostSelector.unableToGetHost''))))))"

definition WeightedRandom_SetHostWeights :: "(string, int) gomap option \<Rightarrow> WeightedRandomHostSelector \<Rightarrow> WeightedRandomHostSelector" where
  "WeightedRandom_SetHostWeights hostWeightMap r = hostWeightMap"

definition WeightedRandom_ClearHostWeights :: "WeightedRandomHostSelector \<Rightarrow> WeightedRandomHostSelector" where
  "WeightedRandom_ClearHostWeights r = None"

section \<open>Round robin\<close>

definition RR_DEFAULT_WEIGHT :: int where "RR_DEFAULT_WEIGHT = 1"

definition ROUND_ROBIN_DEFAULT_CACHE_EXPIRE_NANO :: duration where
  "ROUND_ROBIN_DEFAULT_CACHE_EXPIRE_NANO = 10 * 60 * 1000000000"

record RoundRobinClusterInfo =
  lastHost :: "HostInfo option"
  clusterWeightsMap :: "(string, int) gomap"
  rr_defaultWeight :: int
  weightCounter :: int
  lastClusterHostWeightPairPropertyValue :: string
  lastClusterDefaultWeightPropertyValue :: int

record RoundRobinHostSelector =
  rr_cache :: "nat CacheMap"
  rr_infos :: "nat \<Rightarrow> RoundRobinClusterInfo"
  rr_next :: nat

text \<open>\<open>None\<close> are nil properties.\<close>

type_synonym selector_props = "(string, string) gomap option"

definition pairs_property :: "selector_props \<Rightarrow> string" where
  "pairs_property props = as_string (GetVerifiedWrapperPropertyValueFromMap (case props of None \<Rightarrow> [] | Some p \<Rightarrow> p) ROUND_ROBIN_HOST_WEIGHT_PAIRS)"

definition hasPairsChanged :: "string \<Rightarrow> selector_props \<Rightarrow> bool" where
  "hasPairsChanged lastPropertyValue props \<longleftrightarrow> props \<noteq> None \<and> pairs_property props \<noteq> lastPropertyValue"

definition hasDefaultWeightChanged :: "int \<Rightarrow> selector_props \<Rightarrow> bool" where
  "hasDefaultWeightChanged lastPropertyValue props \<longleftrightarrow>
     (case props of None \<Rightarrow> False
      | Some p \<Rightarrow> as_int (GetVerifiedWrapperPropertyValueFromMap p ROUND_ROBIN_DEFAULT_WEIGHT) \<noteq> lastPropertyValue)"

definition updateCachedDefaultWeight :: "selector_props \<Rightarrow> RoundRobinClusterInfo \<Rightarrow> RoundRobinClusterInfo \<times> go_error option" where
  "updateCachedDefaultWeight props info =
     (case props of
        None \<Rightarrow> (info\<lparr>rr_defaultWeight := RR_DEFAULT_WEIGHT\<rparr>, None)
      | Some p \<Rightarrow>
          (case Atoi (Property_GetFromMap ROUND_ROBIN_DEFAULT_WEIGHT p) of
             None \<Rightarrow> (info, Some (ExternalError ''HostSelector.roundRobinInvalidDefaultWeight''))
           | Some convertedWeight \<Rightarrow>
               if convertedWeight \<le> 0 then (info, Some (ExternalError ''HostSelector.roundRobinInvalidDefaultWeight''))
               else (info\<lparr>lastClusterDefaultWeightPropertyValue := convertedWeight, rr_defaultWeight := convertedWeight\<rparr>, None)))"

text \<open>The loop writes each pair into the cluster's own map as it goes. A pair is trimmed after it is
  matched, so spaces are part of the host name until then.\<close>

definition parse_rr_pair :: "string \<Rightarrow> go_error + string \<times> int" where
  "parse_rr_pair hostWeightPair =
     (case FindStringSubmatch HOST_WEIGHT_PAIR_PATTERN hostWeightPair of
        None \<Rightarrow> Inl invalidHostWeightPairs
      | Some matches \<Rightarrow>
          (let hostName = TrimSpace (group_val matches ''host''); hostWeightString = TrimSpace (group_val matches ''weight'')
           in if hostName = '''' \<or> hostWeightString = '''' then Inl invalidHostWeightPairs
              else (case Atoi hostWeightString of
                      None \<Rightarrow> Inl invalidHostWeightPairs
                    | Some hostWeight \<Rightarrow> if hostWeight < RR_DEFAULT_WEIGHT then Inl invalidHostWeightPairs else Inr (hostName, hostWeight))))"

fun rr_pairs_loop :: "string list \<Rightarrow> RoundRobinClusterInfo \<Rightarrow> RoundRobinClusterInfo \<times> go_error option" where
  "rr_pairs_loop [] info = (info, None)"
| "rr_pairs_loop (pair # pairs) info =
     (case parse_rr_pair pair of
        Inl err \<Rightarrow> (info, Some err)
      | Inr (hostName, hostWeight) \<Rightarrow> rr_pairs_loop pairs (info\<lparr>clusterWeightsMap := mput hostName hostWeight (clusterWeightsMap info)\<rparr>))"

definition updateCachedHostWeightPairs :: "selector_props \<Rightarrow> RoundRobinClusterInfo \<Rightarrow> RoundRobinClusterInfo \<times> go_error option" where
  "updateCachedHostWeightPairs props info =
     (if props = None then (info, None)
      else
       (let hostWeights = pairs_property props; info1 = info\<lparr>lastClusterHostWeightPairPropertyValue := hostWeights\<rparr>
        in if hostWeights = '''' then (info1\<lparr>clusterWeightsMap := []\<rparr>, None)
           else rr_pairs_loop (Split hostWeights (CHR '','')) info1))"

definition updateCacheProperties :: "selector_props \<Rightarrow> RoundRobinClusterInfo \<Rightarrow> RoundRobinClusterInfo \<times> go_error option" where
  "updateCacheProperties props info =
     (case updateCachedDefaultWeight props info of
        (info1, Some err) \<Rightarrow> (info1, Some err)
      | (info1, None) \<Rightarrow> updateCachedHostWeightPairs props info1)"

text \<open>The two refreshes of an existing object; each forgets the position in the cycle.\<close>

definition refresh_info :: "selector_props \<Rightarrow> RoundRobinClusterInfo \<Rightarrow> RoundRobinClusterInfo \<times> go_error option" where
  "refresh_info props info =
     (let (info1, err) = (if hasPairsChanged (lastClusterHostWeightPairPropertyValue info) props
                          then updateCachedHostWeightPairs props (info\<lparr>lastHost := None, weightCounter := 0\<rparr>) else (info, None))
      in if err \<noteq> None then (info1, err)
         else if hasDefaultWeightChanged (lastClusterDefaultWeightPropertyValue info1) props
         then updateCachedDefaultWeight props (info1\<lparr>lastHost := None, weightCounter := 0\<rparr>) else (info1, None))"

definition put_entries :: "time \<Rightarrow> HostInfo list \<Rightarrow> nat \<Rightarrow> nat CacheMap \<Rightarrow> nat CacheMap" where
  "put_entries t hosts addr cache = fold (\<lambda>host. CacheMap_Put t (Host host) addr ROUND_ROBIN_DEFAULT_CACHE_EXPIRE_NANO) hosts cache"

definition new_info :: "selector_props \<Rightarrow> RoundRobinClusterInfo" where
  "new_info props =
     \<lparr>lastHost = None, clusterWeightsMap = [], rr_defaultWeight = RR_DEFAULT_WEIGHT, weightCounter = 0,
      lastClusterHostWeightPairPropertyValue = pairs_property props, lastClusterDefaultWeightPropertyValue = RR_DEFAULT_WEIGHT\<rparr>"

definition createCacheEntryForHosts :: "time \<Rightarrow> HostInfo list \<Rightarrow> selector_props \<Rightarrow> RoundRobinHostSelector \<Rightarrow> RoundRobinHostSelector \<times> go_error option" where
  "createCacheEntryForHosts t hosts props r =
     (case filter (\<lambda>host. CacheMap_Get t (rr_cache r) (Host host) \<noteq> None) hosts of
        host # _ \<Rightarrow>
          (let addr = the (CacheMap_Get t (rr_cache r) (Host host));
               (info, err) = refresh_info props (rr_infos r addr);
               r1 = r\<lparr>rr_infos := (rr_infos r)(addr := info)\<rparr>
           in if err \<noteq> None then (r1, err) else (r1\<lparr>rr_cache := put_entries t hosts addr (rr_cache r1)\<rparr>, None))
      | [] \<Rightarrow>
          (case updateCacheProperties props (new_info props) of
             (info, Some err) \<Rightarrow> (r, Some err)
           | (info, None) \<Rightarrow>
               (r\<lparr>rr_infos := (rr_infos r)(rr_next r := info), rr_next := Suc (rr_next r),
                  rr_cache := put_entries t hosts (rr_next r) (rr_cache r)\<rparr>, None)))"

fun index_of_host :: "HostInfo list \<Rightarrow> string \<Rightarrow> nat option" where
  "index_of_host [] name = None"
| "index_of_host (h # hs) name = (if Host h = name then Some 0 else map_option Suc (index_of_host hs name))"

definition host_weight :: "RoundRobinClusterInfo \<Rightarrow> HostInfo \<Rightarrow> int" where
  "host_weight info host =
     (let weight = (case map_of (clusterWeightsMap info) (HostId host) of None \<Rightarrow> 0 | Some n \<Rightarrow> n)
      in if weight = 0 then rr_defaultWeight info else weight)"

text \<open>The choice: the last host again while its counter is positive, else the one after it.\<close>

definition next_host :: "HostInfo list \<Rightarrow> RoundRobinClusterInfo \<Rightarrow> HostInfo \<times> RoundRobinClusterInfo" where
  "next_host hs info =
     (let lastHostIndex = (case lastHost info of None \<Rightarrow> None | Some h \<Rightarrow> index_of_host hs (Host h));
          (target, cnt) =
            (case lastHostIndex of
               Some i \<Rightarrow>
                 if weightCounter info > 0 then (i, weightCounter info)
                 else let j = (if i \<noteq> length hs - 1 then Suc i else 0) in (j, host_weight info (hs ! j))
             | None \<Rightarrow> (0, host_weight info (hs ! 0)))
      in (hs ! target, info\<lparr>weightCounter := cnt - 1, lastHost := Some (hs ! target)\<rparr>))"

definition RoundRobin_GetHost ::
  "time \<Rightarrow> HostInfo list \<Rightarrow> HostRole \<Rightarrow> selector_props \<Rightarrow> RoundRobinHostSelector \<Rightarrow> RoundRobinHostSelector \<times> (go_error + HostInfo)" where
  "RoundRobin_GetHost t hosts role props r =
     (let hs = sort_key Host (eligible_hosts hosts role)
      in if hs = [] then (r, Inl (NewGenericAwsWrapperError ''HostSelector.noHostsMatchingRole''))
         else (case createCacheEntryForHosts t hs props r of
                 (r1, Some err) \<Rightarrow> (r1, Inl err)
               | (r1, None) \<Rightarrow>
                   (case CacheMap_Get t (rr_cache r1) (Host (hd hs)) of
                      None \<Rightarrow> (r1, Inl (NewGenericAwsWrapperError ''HostSelector.roundRobinMissingClusterInfo''))
                    | Some addr \<Rightarrow>
                        (let (host, info) = next_host hs (rr_infos r1 addr)
                         in (r1\<lparr>rr_infos := (rr_infos r1)(addr := info)\<rparr>, Inr host)))))"

section \<open>The cycle of the round-robin selector\<close>

text \<open>A number of choices from one cluster object.\<close>

fun picks :: "HostInfo list \<Rightarrow> nat \<Rightarrow> RoundRobinClusterInfo \<Rightarrow> HostInfo list \<times> RoundRobinClusterInfo" where
  "picks hs 0 info = ([], info)"
| "picks hs (Suc k) info = (let (h, info1) = next_host hs info; (xs, info2) = picks hs k info1 in (h # xs, info2))"

definition cycle :: "RoundRobinClusterInfo \<Rightarrow> HostInfo list \<Rightarrow> HostInfo list" where
  "cycle info hs = concat (map (\<lambda>h. replicate (nat (host_weight info h)) h) hs)"

lemma picks_add: "picks hs (a + b) info = (let (xs, info1) = picks hs a info; (ys, info2) = picks hs b info1 in (xs @ ys, info2))"
  by (induction a arbitrary: info) (simp_all split: prod.splits)

lemma picks_length: "length (fst (picks hs k info)) = k"
  by (induction k arbitrary: info) (auto split: prod.splits, metis fst_conv)

lemma index_of_host_nth: "distinct (map Host hs) \<Longrightarrow> i < length hs \<Longrightarrow> index_of_host hs (Host (hs ! i)) = Some i"
proof (induction hs arbitrary: i)
  case (Cons h hs)
  show ?case
  proof (cases i)
    case (Suc j)
    then have "hs ! j \<in> set hs" using Cons.prems(2) by simp
    then have "Host h \<noteq> Host (hs ! j)" using Cons.prems(1) by force
    with Cons Suc show ?thesis by simp
  qed simp
qed simp

lemma host_weight_upd [simp]:
  "host_weight (info\<lparr>weightCounter := c\<rparr>) = host_weight info" "host_weight (info\<lparr>lastHost := h\<rparr>) = host_weight info"
  by (simp_all add: fun_eq_iff host_weight_def Let_def)

text \<open>An object whose next choice starts the block of the host at an index.\<close>

definition starts_block :: "HostInfo list \<Rightarrow> nat \<Rightarrow> RoundRobinClusterInfo \<Rightarrow> bool" where
  "starts_block hs i info \<longleftrightarrow> weightCounter info = 0 \<and>
     (case i of 0 \<Rightarrow> lastHost info = None \<or> lastHost info = Some (hs ! (length hs - 1)) | Suc j \<Rightarrow> lastHost info = Some (hs ! j))"

lemma next_host_start:
  assumes "distinct (map Host hs)" "i < length hs" "starts_block hs i info"
  shows "next_host hs info = (hs ! i, info\<lparr>weightCounter := host_weight info (hs ! i) - 1, lastHost := Some (hs ! i)\<rparr>)"
proof (cases i)
  case 0
  with assms show ?thesis
    by (auto simp: next_host_def starts_block_def index_of_host_nth [OF assms(1)] split: option.splits)
next
  case (Suc j)
  with assms index_of_host_nth [OF assms(1), of j] show ?thesis
    by (auto simp: next_host_def starts_block_def)
qed

lemma picks_block_rest:
  assumes "distinct (map Host hs)" "i < length hs"
  shows "lastHost info = Some (hs ! i) \<Longrightarrow> weightCounter info = int k \<Longrightarrow>
    picks hs k info = (replicate k (hs ! i), info\<lparr>weightCounter := 0\<rparr>)"
proof (induction k arbitrary: info)
  case (Suc k)
  have "next_host hs info = (hs ! i, info\<lparr>weightCounter := int k\<rparr>)"
    using Suc.prems index_of_host_nth [OF assms] by (cases info) (simp add: next_host_def)
  with Suc.IH [of "info\<lparr>weightCounter := int k\<rparr>"] Suc.prems show ?case by simp
qed simp

lemma picks_block:
  assumes "distinct (map Host hs)" "i < length hs" "starts_block hs i info" "host_weight info (hs ! i) \<ge> 1"
  shows "picks hs (nat (host_weight info (hs ! i))) info =
    (replicate (nat (host_weight info (hs ! i))) (hs ! i), info\<lparr>weightCounter := 0, lastHost := Some (hs ! i)\<rparr>)"
proof -
  let ?w = "host_weight info (hs ! i)"
  define k where "k = nat (?w - 1)"
  have "nat ?w = Suc k" "?w - 1 = int k" using assms(4) by (simp_all add: k_def)
  then show ?thesis
    using next_host_start [OF assms(1-3)] picks_block_rest [OF assms(1,2), of "info\<lparr>weightCounter := int k, lastHost := Some (hs ! i)\<rparr>" k]
    by simp
qed

lemma picks_cycle:
  assumes "distinct (map Host hs)" "hs \<noteq> []" "starts_block hs 0 info" "\<forall>h \<in> set hs. host_weight info h \<ge> 1"
  shows "picks hs (length (cycle info hs)) info = (cycle info hs, info\<lparr>weightCounter := 0, lastHost := Some (last hs)\<rparr>)"
proof -
  have "i \<le> length hs \<Longrightarrow> \<exists>info'. picks hs (length (cycle info (take i hs))) info = (cycle info (take i hs), info') \<and>
      (if i = 0 then info' = info else info' = info\<lparr>weightCounter := 0, lastHost := Some (hs ! (i - 1))\<rparr>)" for i
  proof (induction i)
    case (Suc i)
    then obtain info' where p: "picks hs (length (cycle info (take i hs))) info = (cycle info (take i hs), info')"
      and i': "if i = 0 then info' = info else info' = info\<lparr>weightCounter := 0, lastHost := Some (hs ! (i - 1))\<rparr>" by auto
    have s: "starts_block hs i info'" "host_weight info' = host_weight info"
      using i' assms(3) by (cases i; simp add: starts_block_def)+
    have c: "cycle info (take (Suc i) hs) = cycle info (take i hs) @ replicate (nat (host_weight info (hs ! i))) (hs ! i)"
      using Suc.prems by (simp add: cycle_def take_Suc_conv_app_nth)
    have "host_weight info' (hs ! i) \<ge> 1" using assms(4) Suc.prems s(2) by simp
    from picks_block [OF assms(1) Suc_le_lessD [OF Suc.prems] s(1) this] Suc.prems s(2) p i' show ?case
      unfolding c length_append picks_add by (cases "i = 0") simp_all
  qed (simp add: cycle_def)
  from this [of "length hs"] assms(2) show ?thesis by (auto simp: last_conv_nth)
qed

lemma picks_rounds:
  assumes "distinct (map Host hs)" "hs \<noteq> []" "starts_block hs 0 info" "\<forall>h \<in> set hs. host_weight info h \<ge> 1"
  shows "fst (picks hs (m * length (cycle info hs)) info) = concat (replicate m (cycle info hs))"
  using assms(3,4)
proof (induction m arbitrary: info)
  case (Suc m)
  let ?info = "info\<lparr>weightCounter := 0, lastHost := Some (last hs)\<rparr>"
  have c: "cycle ?info hs = cycle info hs" by (simp add: cycle_def)
  have "starts_block hs 0 ?info" using assms(2) by (simp add: starts_block_def last_conv_nth)
  with Suc.IH [of ?info] Suc.prems(2) picks_cycle [OF assms(1,2) Suc.prems] show ?case
    by (auto simp: c picks_add split: prod.splits)
qed simp

section \<open>Calls of the selector\<close>

lemma put_entries:
  assumes "cm_inv c"
  shows "cm_inv (put_entries t hosts a c)"
    "h \<in> set hosts \<Longrightarrow> t \<le> t' \<Longrightarrow> t' \<le> t + ROUND_ROBIN_DEFAULT_CACHE_EXPIRE_NANO \<Longrightarrow> CacheMap_Get t' (put_entries t hosts a c) (Host h) = Some a"
proof -
  show "cm_inv (put_entries t hosts a c)"
    using assms by (induction hosts arbitrary: c) (simp_all add: put_entries_def cm_inv_ops)
  have "cm_inv c \<Longrightarrow> t \<le> t' \<Longrightarrow> t' \<le> t + ROUND_ROBIN_DEFAULT_CACHE_EXPIRE_NANO \<Longrightarrow>
      h \<in> set hosts \<or> CacheMap_Get t' c (Host h) = Some a \<Longrightarrow> CacheMap_Get t' (put_entries t hosts a c) (Host h) = Some a" for t'
    by (induction hosts arbitrary: c) (auto simp: put_entries_def cm_inv_ops CacheMap_Get_Put)
  then show "h \<in> set hosts \<Longrightarrow> t \<le> t' \<Longrightarrow> t' \<le> t + ROUND_ROBIN_DEFAULT_CACHE_EXPIRE_NANO \<Longrightarrow> CacheMap_Get t' (put_entries t hosts a c) (Host h) = Some a"
    using assms by blast
qed

definition unchanged_props :: "selector_props \<Rightarrow> RoundRobinClusterInfo \<Rightarrow> bool" where
  "unchanged_props props info \<longleftrightarrow> \<not> hasPairsChanged (lastClusterHostWeightPairPropertyValue info) props \<and>
     \<not> hasDefaultWeightChanged (lastClusterDefaultWeightPropertyValue info) props"

lemma unchanged_next: "unchanged_props props (snd (next_host hs info)) = unchanged_props props info"
  "host_weight (snd (next_host hs info)) = host_weight info"
  by (simp_all add: next_host_def unchanged_props_def Let_def split: option.splits prod.splits)

definition entered :: "HostInfo list \<Rightarrow> nat \<Rightarrow> time \<Rightarrow> RoundRobinHostSelector \<Rightarrow> bool" where
  "entered hs a t r \<longleftrightarrow> cm_inv (rr_cache r) \<and>
     (\<forall>h \<in> set hs. \<forall>t'. t \<le> t' \<longrightarrow> t' \<le> t + ROUND_ROBIN_DEFAULT_CACHE_EXPIRE_NANO \<longrightarrow> CacheMap_Get t' (rr_cache r) (Host h) = Some a)"

lemma entered_call:
  assumes "hs = sort_key Host (eligible_hosts hosts role)" "hs \<noteq> []" "entered hs a t r" "unchanged_props props (rr_infos r a)"
    and "t \<le> t'" "t' \<le> t + ROUND_ROBIN_DEFAULT_CACHE_EXPIRE_NANO"
  shows "\<exists>r'. RoundRobin_GetHost t' hosts role props r = (r', Inr (fst (next_host hs (rr_infos r a)))) \<and>
    entered hs a t' r' \<and> rr_infos r' a = snd (next_host hs (rr_infos r a))"
proof -
  have get: "CacheMap_Get t' (rr_cache r) (Host h) = Some a" if "h \<in> set hs" for h
    using that assms(3,5,6) by (auto simp: entered_def)
  obtain h0 hs' where hs: "hs = h0 # hs'" using assms(2) by (cases hs) auto
  have f: "filter (\<lambda>host. CacheMap_Get t' (rr_cache r) (Host host) \<noteq> None) hs = hs"
    by (rule filter_True) (simp add: get)
  have refresh: "refresh_info props (rr_infos r a) = (rr_infos r a, None)"
    using assms(4) by (simp add: refresh_info_def unchanged_props_def)
  let ?r1 = "r\<lparr>rr_infos := (rr_infos r)(a := rr_infos r a), rr_cache := put_entries t' hs a (rr_cache r)\<rparr>"
  have create: "createCacheEntryForHosts t' hs props r = (?r1, None)"
    unfolding createCacheEntryForHosts_def f using get by (simp add: hs refresh)
  have inv: "cm_inv (rr_cache r)" using assms(3) by (simp add: entered_def)
  have e: "entered hs a t' ?r1" using put_entries [OF inv] by (simp add: entered_def)
  have "CacheMap_Get t' (rr_cache ?r1) (Host (hd hs)) = Some a"
    using put_entries(2) [OF inv, of "hd hs" hs t' t' a] assms(2) by (simp add: ROUND_ROBIN_DEFAULT_CACHE_EXPIRE_NANO_def)
  then show ?thesis
    using assms(2) e unfolding RoundRobin_GetHost_def assms(1) [symmetric] Let_def create
    by (auto simp: entered_def split: prod.splits)
qed

text \<open>A series of calls for the same hosts, role and properties.\<close>

fun rr_run :: "time list \<Rightarrow> HostInfo list \<Rightarrow> HostRole \<Rightarrow> selector_props \<Rightarrow> RoundRobinHostSelector \<Rightarrow> (go_error + HostInfo) list" where
  "rr_run [] hosts role props r = []"
| "rr_run (t # ts) hosts role props r =
     (let (r', res) = RoundRobin_GetHost t hosts role props r in res # rr_run ts hosts role props r')"

definition steady :: "time list \<Rightarrow> bool" where
  "steady ts = successively (\<lambda>t t'. t \<le> t' \<and> t' \<le> t + ROUND_ROBIN_DEFAULT_CACHE_EXPIRE_NANO) ts"

lemma entered_run:
  assumes "hs = sort_key Host (eligible_hosts hosts role)" "hs \<noteq> []"
  shows "entered hs a t r \<Longrightarrow> unchanged_props props (rr_infos r a) \<Longrightarrow> steady (t # ts) \<Longrightarrow>
    rr_run ts hosts role props r = map Inr (fst (picks hs (length ts) (rr_infos r a)))"
proof (induction ts arbitrary: t r)
  case (Cons t' ts)
  then have le: "t \<le> t'" "t' \<le> t + ROUND_ROBIN_DEFAULT_CACHE_EXPIRE_NANO" and st: "steady (t' # ts)" by (simp_all add: steady_def)
  obtain r' where r': "RoundRobin_GetHost t' hosts role props r = (r', Inr (fst (next_host hs (rr_infos r a))))"
    "entered hs a t' r'" "rr_infos r' a = snd (next_host hs (rr_infos r a))"
    using entered_call [OF assms Cons.prems(1,2) le] by blast
  with Cons.IH [OF r'(2) _ st] Cons.prems(2) show ?case by (simp add: unchanged_next split: prod.splits)
qed simp

text \<open>A new cluster object: what its properties were is remembered, and all weights are positive.\<close>

lemma rr_pairs_loop_keeps:
  "rr_pairs_loop pairs info = (info', err) \<Longrightarrow> lastHost info' = lastHost info \<and> weightCounter info' = weightCounter info \<and>
     rr_defaultWeight info' = rr_defaultWeight info \<and>
     lastClusterHostWeightPairPropertyValue info' = lastClusterHostWeightPairPropertyValue info \<and>
     lastClusterDefaultWeightPropertyValue info' = lastClusterDefaultWeightPropertyValue info"
proof (induction pairs arbitrary: info)
  case (Cons pair pairs)
  show ?case
  proof (cases "parse_rr_pair pair")
    case (Inr p)
    obtain k n where p: "p = (k, n)" by (cases p)
    from Cons.IH [of "info\<lparr>clusterWeightsMap := mput k n (clusterWeightsMap info)\<rparr>"] Cons.prems Inr p show ?thesis by simp
  qed (use Cons.prems in simp)
qed simp

lemma rr_pairs_loop_positive:
  "rr_pairs_loop pairs info = (info', err) \<Longrightarrow> (\<forall>k n. map_of (clusterWeightsMap info) k = Some n \<longrightarrow> n \<ge> 1) \<Longrightarrow>
     \<forall>k n. map_of (clusterWeightsMap info') k = Some n \<longrightarrow> n \<ge> 1"
proof (induction pairs arbitrary: info)
  case (Cons pair pairs)
  show ?case
  proof (cases "parse_rr_pair pair")
    case (Inr p)
    obtain k n where p: "p = (k, n)" by (cases p)
    have "n \<ge> 1" using Inr p by (auto simp: parse_rr_pair_def RR_DEFAULT_WEIGHT_def Let_def split: option.splits if_splits)
    then have "\<forall>k' n'. map_of (clusterWeightsMap (info\<lparr>clusterWeightsMap := mput k n (clusterWeightsMap info)\<rparr>)) k' = Some n' \<longrightarrow> n' \<ge> 1"
      using Cons.prems(2) by simp
    moreover have "rr_pairs_loop pairs (info\<lparr>clusterWeightsMap := mput k n (clusterWeightsMap info)\<rparr>) = (info', err)"
      using Cons.prems(1) Inr p by simp
    ultimately show ?thesis using Cons.IH by blast
  qed (use Cons.prems in simp)
qed simp

lemma new_cluster:
  assumes "updateCacheProperties props (new_info props) = (info, None)"
  shows "unchanged_props props info \<and> starts_block hs 0 info \<and> (\<forall>h. host_weight info h \<ge> 1)"
proof -
  obtain info1 where d: "updateCachedDefaultWeight props (new_info props) = (info1, None)"
    and p: "updateCachedHostWeightPairs props info1 = (info, None)"
    using assms by (auto simp: updateCacheProperties_def split: prod.splits option.splits)
  have i1: "lastHost info1 = None" "weightCounter info1 = 0" "rr_defaultWeight info1 \<ge> 1" "clusterWeightsMap info1 = []"
      "lastClusterHostWeightPairPropertyValue info1 = pairs_property props"
      "\<not> hasDefaultWeightChanged (lastClusterDefaultWeightPropertyValue info1) props"
    using d by (auto simp: updateCachedDefaultWeight_def new_info_def RR_DEFAULT_WEIGHT_def hasDefaultWeightChanged_def
        GetVerifiedWrapperPropertyValueFromMap_def convertValue_def ROUND_ROBIN_DEFAULT_WEIGHT_def split: option.splits if_splits)
  have i: "lastHost info = None" "weightCounter info = 0" "rr_defaultWeight info \<ge> 1"
      "lastClusterHostWeightPairPropertyValue info = pairs_property props"
      "lastClusterDefaultWeightPropertyValue info = lastClusterDefaultWeightPropertyValue info1"
      "\<forall>k n. map_of (clusterWeightsMap info) k = Some n \<longrightarrow> n \<ge> 1"
    using p i1 rr_pairs_loop_keeps [of "Split (pairs_property props) (CHR '','')" "info1\<lparr>lastClusterHostWeightPairPropertyValue := pairs_property props\<rparr>" info None]
      rr_pairs_loop_positive [of "Split (pairs_property props) (CHR '','')" "info1\<lparr>lastClusterHostWeightPairPropertyValue := pairs_property props\<rparr>" info None]
    by (auto simp: updateCachedHostWeightPairs_def Let_def split: if_splits)
  have "host_weight info h \<ge> 1" for h
    using i(3,6) by (auto simp: host_weight_def Let_def split: option.splits)
  with i i1 show ?thesis
    by (auto simp: unchanged_props_def starts_block_def hasPairsChanged_def)
qed

lemma first_call:
  assumes "hs = sort_key Host (eligible_hosts hosts role)" "hs \<noteq> []" "cm_inv (rr_cache r)"
    and "\<forall>h \<in> set hs. CacheMap_Get t (rr_cache r) (Host h) = None" "updateCacheProperties props (new_info props) = (info, None)"
  shows "\<exists>r'. RoundRobin_GetHost t hosts role props r = (r', Inr (fst (next_host hs info))) \<and>
    entered hs (rr_next r) t r' \<and> rr_infos r' (rr_next r) = snd (next_host hs info)"
proof -
  let ?r1 = "r\<lparr>rr_infos := (rr_infos r)(rr_next r := info), rr_next := Suc (rr_next r), rr_cache := put_entries t hs (rr_next r) (rr_cache r)\<rparr>"
  have f: "filter (\<lambda>host. CacheMap_Get t (rr_cache r) (Host host) \<noteq> None) hs = []"
    using assms(4) by (simp add: filter_empty_conv)
  have create: "createCacheEntryForHosts t hs props r = (?r1, None)"
    unfolding createCacheEntryForHosts_def f by (simp add: assms(5))
  have e: "entered hs (rr_next r) t ?r1" using put_entries [OF assms(3)] by (simp add: entered_def)
  have "CacheMap_Get t (rr_cache ?r1) (Host (hd hs)) = Some (rr_next r)"
    using put_entries(2) [OF assms(3), of "hd hs" hs t t "rr_next r"] assms(2) by (simp add: ROUND_ROBIN_DEFAULT_CACHE_EXPIRE_NANO_def)
  then show ?thesis
    using assms(2) e unfolding RoundRobin_GetHost_def assms(1) [symmetric] Let_def create
    by (auto simp: entered_def split: prod.splits)
qed

section \<open>Numbers of the weighted random selector\<close>

definition effective_weight :: "(string, int) gomap \<Rightarrow> HostInfo \<Rightarrow> int" where
  "effective_weight weights host = (case map_of weights (Host host) of Some w \<Rightarrow> if w > 0 then w else 1 | None \<Rightarrow> 1)"

text \<open>Every host as often as its weight.\<close>

definition tickets :: "(string, int) gomap \<Rightarrow> HostInfo list \<Rightarrow> HostInfo list" where
  "tickets weights hs = concat (map (\<lambda>h. replicate (nat (effective_weight weights h)) h) hs)"

lemma effective_weight_pos: "effective_weight weights h \<ge> 1"
  by (simp add: effective_weight_def split: option.splits)

lemma ranges_loop_step:
  assumes "in_int64 (cnt + effective_weight weights h)" "cnt \<ge> 1"
  shows "ranges_loop weights (h # hs) cnt m =
     ranges_loop weights hs (cnt + effective_weight weights h) (mput \<lparr>Start = cnt, End = cnt + effective_weight weights h - 1\<rparr> h m)"
proof -
  have "in_int64 (cnt + effective_weight weights h - 1)"
    using assms effective_weight_pos [of weights h] by (simp add: in_int64_def MinInt64_def)
  with assms(1) show ?thesis by (auto simp: effective_weight_def wrap64_id split: option.splits if_splits)
qed

lemma mput_new_range: "\<forall>(k, _) \<in> set m. End k < cnt \<Longrightarrow> cnt \<le> End nr \<Longrightarrow> mput nr h m = m @ [(nr, h)]"
  by (induction m) (auto simp: mput_def)

text \<open>The ranges follow one another, so a number is in the range of the host that holds its ticket.\<close>

lemma ranges_loop_find:
  assumes "cnt \<ge> 1" "cnt + int (length (tickets weights hs)) \<le> MaxInt64" "\<forall>(k, _) \<in> set m. End k < cnt"
  shows "snd (ranges_loop weights hs cnt m) = cnt + int (length (tickets weights hs)) \<and>
     (\<forall>k < length (tickets weights hs). \<exists>nr.
        find (\<lambda>(nr, _). IsInNumberRange nr (cnt + int k)) (fst (ranges_loop weights hs cnt m)) = Some (nr, tickets weights hs ! k)) \<and>
     (\<forall>n < cnt. find (\<lambda>(nr, _). IsInNumberRange nr n) (fst (ranges_loop weights hs cnt m)) = find (\<lambda>(nr, _). IsInNumberRange nr n) m)"
  using assms
proof (induction hs arbitrary: cnt m)
  case (Cons h hs)
  let ?w = "effective_weight weights h"
  define m1 where "m1 = m @ [(\<lparr>Start = cnt, End = cnt + ?w - 1\<rparr>, h)]"
  have w: "?w \<ge> 1" by (rule effective_weight_pos)
  have len: "int (length (tickets weights (h # hs))) = ?w + int (length (tickets weights hs))"
    using w by (simp add: tickets_def)
  have step: "ranges_loop weights (h # hs) cnt m = ranges_loop weights hs (cnt + ?w) m1"
    using Cons.prems len w ranges_loop_step [of cnt weights h hs m] mput_new_range [OF Cons.prems(3), of "\<lparr>Start = cnt, End = cnt + ?w - 1\<rparr>" h]
    by (simp add: m1_def in_int64_def MinInt64_def)
  have ends: "\<forall>(k, _) \<in> set m1. End k < cnt + ?w" using Cons.prems(3) w by (auto simp: m1_def)
  have IH: "snd (ranges_loop weights hs (cnt + ?w) m1) = cnt + ?w + int (length (tickets weights hs))"
    "\<And>k. k < length (tickets weights hs) \<Longrightarrow> \<exists>nr. find (\<lambda>(nr, _). IsInNumberRange nr (cnt + ?w + int k)) (fst (ranges_loop weights hs (cnt + ?w) m1)) =
        Some (nr, tickets weights hs ! k)"
    "\<And>n. n < cnt + ?w \<Longrightarrow> find (\<lambda>(nr, _). IsInNumberRange nr n) (fst (ranges_loop weights hs (cnt + ?w) m1)) = find (\<lambda>(nr, _). IsInNumberRange nr n) m1"
    using Cons.IH [OF _ _ ends] Cons.prems(1,2) w len by auto
  have none: "find (\<lambda>(nr, _). IsInNumberRange nr n) m = None" if "n \<ge> cnt" for n
    using Cons.prems(3) that by (auto simp: find_None_iff IsInNumberRange_def)
  have append: "find P (m @ xs) = (case find P m of None \<Rightarrow> find P xs | Some y \<Rightarrow> Some y)" for P :: "NumberRange \<times> HostInfo \<Rightarrow> bool" and xs
    by (induction m) auto
  have "\<exists>nr. find (\<lambda>(nr, _). IsInNumberRange nr (cnt + int k)) (fst (ranges_loop weights hs (cnt + ?w) m1)) =
      Some (nr, tickets weights (h # hs) ! k)" if k: "k < length (tickets weights (h # hs))" for k
  proof (cases "int k < ?w")
    case True
    then have "tickets weights (h # hs) ! k = h" by (simp add: tickets_def nth_append zless_nat_eq_int_zless)
    moreover have "find (\<lambda>(nr, _). IsInNumberRange nr (cnt + int k)) m1 = Some (\<lparr>Start = cnt, End = cnt + ?w - 1\<rparr>, h)"
      using True none [of "cnt + int k"] by (simp add: m1_def append) (simp add: IsInNumberRange_def)
    ultimately show ?thesis using IH(3) [of "cnt + int k"] True by simp
  next
    case False
    define j where "j = k - nat ?w"
    have kj: "int k = ?w + int j" "j < length (tickets weights hs)" using False k len w by (auto simp: j_def)
    have "tickets weights (h # hs) ! k = tickets weights hs ! j"
      using False by (simp add: tickets_def nth_append j_def zless_nat_eq_int_zless)
    with IH(2) [OF kj(2)] show ?thesis by (simp add: kj(1) add.assoc)
  qed
  moreover have "find (\<lambda>(nr, _). IsInNumberRange nr n) (fst (ranges_loop weights hs (cnt + ?w) m1)) = find (\<lambda>(nr, _). IsInNumberRange nr n) m" if "n < cnt" for n
    using IH(3) [of n] that w by (simp add: m1_def append IsInNumberRange_def split: option.splits)
  ultimately show ?case unfolding step using IH(1) len by simp
qed (simp add: tickets_def)

lemma WeightedRandom_draw:
  assumes "IntN (length (tickets weights (eligible_hosts hosts role))) < length (tickets weights (eligible_hosts hosts role))"
    and "int (length (tickets weights (eligible_hosts hosts role))) < MaxInt64"
    and "selector_weights props r = Inr weights"
  shows "WeightedRandom_GetHost IntN hosts role props r =
    (Some weights, Inr (tickets weights (eligible_hosts hosts role) ! IntN (length (tickets weights (eligible_hosts hosts role)))))"
proof -
  let ?hs = "eligible_hosts hosts role" and ?n = "length (tickets weights (eligible_hosts hosts role))"
  have ne: "?hs \<noteq> []" using assms(1) by (auto simp: tickets_def)
  have f: "snd (ranges_loop weights ?hs 1 []) = 1 + int ?n"
    "\<And>k. k < ?n \<Longrightarrow> \<exists>nr. find (\<lambda>(nr, _). IsInNumberRange nr (1 + int k)) (fst (ranges_loop weights ?hs 1 [])) = Some (nr, tickets weights ?hs ! k)"
    using ranges_loop_find [of 1 weights ?hs "[]"] assms(2) by auto
  obtain m cnt where l: "ranges_loop weights ?hs 1 [] = (m, cnt)" by (metis surj_pair)
  have b: "wrap64 (int ?n) = int ?n" using assms(2) by (intro wrap64_id) (simp add: in_int64_def MinInt64_def)
  obtain nr where "find (\<lambda>(nr, _). IsInNumberRange nr (1 + int (IntN ?n))) m = Some (nr, tickets weights ?hs ! IntN ?n)"
    using f(2) [OF assms(1)] l by auto
  then show ?thesis
    using ne f(1) l b assms(1)
    by (simp add: WeightedRandom_GetHost_def assms(3) Let_def add.commute [of "int (IntN ?n)" 1] del: length_0_conv length_greater_0_conv)
qed

section \<open>What every selector promises\<close>

text \<open>A selector answers an eligible host whenever there is one; \<open>usable\<close> are the parameters it works with.\<close>

locale host_selection =
  fixes select :: "'p \<Rightarrow> HostInfo list \<Rightarrow> HostRole \<Rightarrow> go_error + HostInfo"
    and usable :: "'p \<Rightarrow> HostInfo list \<Rightarrow> HostRole \<Rightarrow> bool"
  assumes answer_eligible: "usable p hosts role \<Longrightarrow> select p hosts role = Inr h \<Longrightarrow> h \<in> set (eligible_hosts hosts role)"
    and answers: "usable p hosts role \<Longrightarrow> eligible_hosts hosts role \<noteq> [] \<Longrightarrow> \<exists>h. select p hosts role = Inr h"
    and refuses: "eligible_hosts hosts role = [] \<Longrightarrow> \<exists>err. select p hosts role = Inl err"
begin

lemma answers_iff: "usable p hosts role \<Longrightarrow> (\<exists>h. select p hosts role = Inr h) \<longleftrightarrow> (\<exists>h \<in> set hosts. is_eligible role h)"
  using answers refuses by (metis Inl_Inr_False eligible_hosts_def FilterSlice_def filter_empty_conv)

lemma answer_sound: "usable p hosts role \<Longrightarrow> select p hosts role = Inr h \<Longrightarrow> h \<in> set hosts \<and> is_eligible role h"
  using answer_eligible by (fastforce simp: eligible_hosts_def FilterSlice_def)

lemma only_choice:
  assumes "usable p hosts role" "eligible_hosts hosts role = [h]"
  shows "select p hosts role = Inr h"
  using answers [OF assms(1)] answer_eligible [OF assms(1)] assms(2) by auto

end

interpretation random: host_selection Random_GetHost "\<lambda>Intn hosts role. \<forall>n > 0. Intn n < n"
  by unfold_locales (auto simp: Random_GetHost_def Let_def split: if_splits)

lemma foldl_highest:
  "foldl (\<lambda>curr host. if Weight host > Weight curr then host else curr) c hs \<in> insert c (set hs) \<and>
   (\<forall>h \<in> insert c (set hs). Weight h \<le> Weight (foldl (\<lambda>curr host. if Weight host > Weight curr then host else curr) c hs))"
proof (induction hs arbitrary: c)
  case (Cons h hs)
  show ?case using Cons [of "if Weight h > Weight c then h else c"] by (auto split: if_splits)
qed simp

interpretation highest: host_selection "\<lambda>_ :: unit. HighestWeight_GetHost" "\<lambda>_ _ _. True"
proof
  fix hosts role h
  assume "HighestWeight_GetHost hosts role = Inr h"
  then show "h \<in> set (eligible_hosts hosts role)"
    using foldl_highest [of "hd (eligible_hosts hosts role)" "eligible_hosts hosts role"]
    by (auto simp: HighestWeight_GetHost_def Let_def split: if_splits)
qed (simp_all add: HighestWeight_GetHost_def Let_def)

lemma set_tickets: "set (tickets weights hs) = set hs"
proof -
  have "nat (effective_weight weights h) \<noteq> 0" for h using effective_weight_pos [of weights h] by linarith
  then show ?thesis by (auto simp: tickets_def)
qed

definition weighted_usable :: "(nat \<Rightarrow> nat) \<times> (string, string) gomap \<times> WeightedRandomHostSelector \<Rightarrow> HostInfo list \<Rightarrow> HostRole \<Rightarrow> bool" where
  "weighted_usable p hosts role =
     (case p of (IntN, props, r) \<Rightarrow>
        (\<forall>n > 0. IntN n < n) \<and>
        (case selector_weights props r of Inl _ \<Rightarrow> False | Inr weights \<Rightarrow> int (length (tickets weights (eligible_hosts hosts role))) < MaxInt64))"

definition weighted_select ::
  "(nat \<Rightarrow> nat) \<times> (string, string) gomap \<times> WeightedRandomHostSelector \<Rightarrow> HostInfo list \<Rightarrow> HostRole \<Rightarrow> go_error + HostInfo" where
  "weighted_select p hosts role = (case p of (IntN, props, r) \<Rightarrow> snd (WeightedRandom_GetHost IntN hosts role props r))"

lemma weighted_usable_draw:
  assumes "weighted_usable p hosts role" "eligible_hosts hosts role \<noteq> []"
  shows "\<exists>h \<in> set (eligible_hosts hosts role). weighted_select p hosts role = Inr h"
proof -
  obtain IntN props r where p: "p = (IntN, props, r)" by (metis prod_cases3)
  obtain weights where w: "selector_weights props r = Inr weights" "int (length (tickets weights (eligible_hosts hosts role))) < MaxInt64"
    "\<forall>n > 0. IntN n < n" using assms(1) by (auto simp: weighted_usable_def p split: sum.splits)
  have "tickets weights (eligible_hosts hosts role) \<noteq> []" using assms(2) set_tickets by (metis set_empty)
  then have n: "IntN (length (tickets weights (eligible_hosts hosts role))) < length (tickets weights (eligible_hosts hosts role))" using w(3) by simp
  from WeightedRandom_draw [of IntN weights hosts role, OF n w(2,1)] nth_mem [OF n] show ?thesis by (simp add: set_tickets weighted_select_def p)
qed

interpretation weighted: host_selection weighted_select weighted_usable
proof
  show refuse: "\<exists>err. weighted_select p hosts role = Inl err" if "eligible_hosts hosts role = []" for p hosts role
    using that by (auto simp: weighted_select_def WeightedRandom_GetHost_def split: prod.splits sum.splits)
  show "h \<in> set (eligible_hosts hosts role)"
    if "weighted_usable p hosts role" "weighted_select p hosts role = Inr h" for p hosts role h
    using weighted_usable_draw [OF that(1)] refuse [of hosts role p] that(2) by (cases "eligible_hosts hosts role = []") auto
  show "\<exists>h. weighted_select p hosts role = Inr h" if "weighted_usable p hosts role" "eligible_hosts hosts role \<noteq> []" for p hosts role
    using weighted_usable_draw [OF that] by blast
qed

definition rr_usable :: "time \<times> selector_props \<times> RoundRobinHostSelector \<Rightarrow> HostInfo list \<Rightarrow> HostRole \<Rightarrow> bool" where
  "rr_usable p hosts role =
     (case p of (t, props, r) \<Rightarrow>
        cm_inv (rr_cache r) \<and> snd (createCacheEntryForHosts t (sort_key Host (eligible_hosts hosts role)) props r) = None)"

lemma index_of_host_less: "index_of_host hs name = Some i \<Longrightarrow> i < length hs"
  by (induction hs arbitrary: i) (auto split: if_splits)

lemma next_host_in: "hs \<noteq> [] \<Longrightarrow> fst (next_host hs info) \<in> set hs"
  by (auto simp: next_host_def Let_def dest!: index_of_host_less split: option.splits)

lemma createCacheEntry_entered:
  assumes "cm_inv (rr_cache r)" "createCacheEntryForHosts t hs props r = (r1, None)" "hs \<noteq> []"
  shows "\<exists>a. CacheMap_Get t (rr_cache r1) (Host (hd hs)) = Some a"
proof -
  obtain a where "rr_cache r1 = put_entries t hs a (rr_cache r)"
    using assms(2) by (auto simp: createCacheEntryForHosts_def Let_def split: list.splits prod.splits option.splits if_splits)
  then show ?thesis
    using put_entries(2) [OF assms(1), of "hd hs" hs t t a] assms(3) by (simp add: ROUND_ROBIN_DEFAULT_CACHE_EXPIRE_NANO_def)
qed

lemma sorted_eligible: "set (sort_key Host (eligible_hosts hosts role)) = set (eligible_hosts hosts role)"
  "sort_key Host (eligible_hosts hosts role) = [] \<longleftrightarrow> eligible_hosts hosts role = []"
  by (simp, metis set_empty set_sort)

definition rr_select :: "time \<times> selector_props \<times> RoundRobinHostSelector \<Rightarrow> HostInfo list \<Rightarrow> HostRole \<Rightarrow> go_error + HostInfo" where
  "rr_select p hosts role = (case p of (t, props, r) \<Rightarrow> snd (RoundRobin_GetHost t hosts role props r))"

lemma rr_usable_answer:
  assumes "rr_usable p hosts role" "eligible_hosts hosts role \<noteq> []"
  shows "\<exists>h \<in> set (eligible_hosts hosts role). rr_select p hosts role = Inr h"
proof -
  let ?hs = "sort_key Host (eligible_hosts hosts role)"
  obtain t props r where p: "p = (t, props, r)" by (metis prod_cases3)
  obtain r1 where r1: "createCacheEntryForHosts t ?hs props r = (r1, None)"
    using assms(1) by (cases "createCacheEntryForHosts t ?hs props r") (simp add: rr_usable_def p)
  have ne: "?hs \<noteq> []" using assms(2) sorted_eligible(2) by blast
  obtain a where a: "CacheMap_Get t (rr_cache r1) (Host (hd ?hs)) = Some a"
    using createCacheEntry_entered [OF _ r1 ne] assms(1) by (auto simp: rr_usable_def p)
  have "fst (next_host ?hs (rr_infos r1 a)) \<in> set (eligible_hosts hosts role)"
    using next_host_in [OF ne] unfolding sorted_eligible(1) by blast
  then show ?thesis using ne by (auto simp: rr_select_def p RoundRobin_GetHost_def Let_def r1 a split: prod.splits)
qed

interpretation round_robin: host_selection rr_select rr_usable
proof
  show refuse: "\<exists>err. rr_select p hosts role = Inl err" if "eligible_hosts hosts role = []" for p hosts role
    using that by (auto simp: rr_select_def RoundRobin_GetHost_def split: prod.splits)
  show "h \<in> set (eligible_hosts hosts role)"
    if "rr_usable p hosts role" "rr_select p hosts role = Inr h" for p hosts role h
    using rr_usable_answer [OF that(1)] refuse [of hosts role p] that(2) by (cases "eligible_hosts hosts role = []") auto
  show "\<exists>h. rr_select p hosts role = Inr h" if "rr_usable p hosts role" "eligible_hosts hosts role \<noteq> []" for p hosts role
    using rr_usable_answer [OF that] by blast
qed

section \<open>Properties\<close>

text \<open>C28: Called for the same hosts and properties, at most ten minutes apart, the round-robin selector
  answers the hosts by name in cycles, each host as often in a row as its weight, which is its configured
  weight or the default and always positive.\<close>
theorem RoundRobin_cycle:
  assumes hs: "hs = sort_key Host (eligible_hosts hosts role)" "hs \<noteq> []" "distinct (map Host hs)"
    and r: "cm_inv (rr_cache r)" "\<forall>h \<in> set hs. CacheMap_Get t (rr_cache r) (Host h) = None"
    and props: "updateCacheProperties props (new_info props) = (info, None)"
    and calls: "steady (t # ts)" "length (t # ts) = rounds * length (cycle info hs)"
  shows "rr_run (t # ts) hosts role props r = map Inr (concat (replicate rounds (cycle info hs))) \<and> (\<forall>h \<in> set hs. h \<in> set (cycle info hs))"
proof -
  have n: "unchanged_props props info" "starts_block hs 0 info" "\<forall>h. host_weight info h \<ge> 1"
    using new_cluster [OF props] by blast+
  obtain r' where r': "RoundRobin_GetHost t hosts role props r = (r', Inr (fst (next_host hs info)))"
    "entered hs (rr_next r) t r'" "rr_infos r' (rr_next r) = snd (next_host hs info)"
    using first_call [OF hs(1,2) r props] by blast
  have "rr_run ts hosts role props r' = map Inr (fst (picks hs (length ts) (snd (next_host hs info))))"
    using entered_run [OF hs(1,2) r'(2) _ calls(1)] n(1) by (simp add: r'(3) unchanged_next)
  then have "rr_run (t # ts) hosts role props r = map Inr (fst (picks hs (length (t # ts)) info))"
    using r'(1) by (simp split: prod.splits)
  then have run: "rr_run (t # ts) hosts role props r = map Inr (concat (replicate rounds (cycle info hs)))"
    unfolding calls(2) using picks_rounds [OF hs(3,2) n(2)] n(3) by simp
  have "h \<in> set (cycle info hs)" if "h \<in> set hs" for h
  proof -
    have "nat (host_weight info h) \<noteq> 0" using n(3) by (metis nat_0_iff not_one_le_zero order_trans)
    with that show ?thesis by (auto simp: cycle_def)
  qed
  with run show ?thesis by blast
qed

text \<open>C29: The weighted random selector answers the host whose ticket is drawn: every eligible host has as many
  tickets as its weight, and one when it has none. It never fails when there is an eligible host, as long as
  the sum of the weights does not overflow.\<close>
theorem WeightedRandom_tickets:
  assumes "IntN (length (tickets weights (eligible_hosts hosts role))) < length (tickets weights (eligible_hosts hosts role))"
    and "int (length (tickets weights (eligible_hosts hosts role))) < MaxInt64"
    and "selector_weights props r = Inr weights"
  shows "WeightedRandom_GetHost IntN hosts role props r =
    (Some weights, Inr (tickets weights (eligible_hosts hosts role) ! IntN (length (tickets weights (eligible_hosts hosts role)))))"
  using assms by (rule WeightedRandom_draw)

text \<open>A new list of weights for the round-robin selector is added to the old one: a host that is no longer
  listed keeps its weight.\<close>
theorem RoundRobin_stale_weights:
  assumes "props \<noteq> None" "pairs_property props \<noteq> ''''"
    and "updateCachedHostWeightPairs props info = (info', None)" "map_of (clusterWeightsMap info) host = Some n"
    and "\<forall>pair \<in> set (Split (pairs_property props) (CHR '','')). \<forall>w. parse_rr_pair pair \<noteq> Inr (host, w)"
  shows "map_of (clusterWeightsMap info') host = Some n"
proof -
  have "rr_pairs_loop pairs i = (i', None) \<Longrightarrow> (\<forall>pair \<in> set pairs. \<forall>w. parse_rr_pair pair \<noteq> Inr (host, w)) \<Longrightarrow>
      map_of (clusterWeightsMap i') host = map_of (clusterWeightsMap i) host" for pairs i i'
  proof (induction pairs arbitrary: i)
    case (Cons pair pairs)
    obtain k w where p: "parse_rr_pair pair = Inr (k, w)" using Cons.prems(1) by (cases "parse_rr_pair pair") auto
    with Cons.prems have "rr_pairs_loop pairs (i\<lparr>clusterWeightsMap := mput k w (clusterWeightsMap i)\<rparr>) = (i', None)" "k \<noteq> host" by auto
    with Cons.IH Cons.prems(2) show ?case by simp
  qed simp
  from this [of "Split (pairs_property props) (CHR '','')"] assms show ?thesis
    by (auto simp: updateCachedHostWeightPairs_def Let_def)
qed

definition reader_host :: "string \<Rightarrow> HostInfo" where
  "reader_host name = \<lparr>Host = name, HostId = name, Port = 5, Availability = AVAILABLE, Role = READER, Aliases = Some {}, AllAliases = Some {},
     Weight = 100, LastUpdateTime = 0\<rparr>"

definition new_selector :: RoundRobinHostSelector where
  "new_selector = \<lparr>rr_cache = NewCache 0, rr_infos = (\<lambda>_. new_info None), rr_next = 0\<rparr>"

lemma RoundRobin_cycle_witness:
  "rr_run [3, 4, 5, 6, 7, 8] [reader_host ''b'', reader_host ''a''] READER (Some [(''roundRobinHostWeightPairs'', ''a:2'')]) new_selector =
     map Inr (map reader_host [''a'', ''a'', ''b'', ''a'', ''a'', ''b''])"
proof -
  let ?p = "Some [(''roundRobinHostWeightPairs'', ''a:2'')]"
  let ?info = "(new_info ?p)\<lparr>clusterWeightsMap := [(''a'', 2)]\<rparr>" and ?hs = "map reader_host [''a'', ''b'']"
  have u: "updateCacheProperties ?p (new_info ?p) = (?info, None)" by code_simp
  have e: "?hs = sort_key Host (eligible_hosts [reader_host ''b'', reader_host ''a''] READER)"
    by (simp add: eligible_hosts_def FilterSlice_def is_eligible_def reader_host_def)
  have c: "cycle ?info ?hs = map reader_host [''a'', ''a'', ''b'']"
    by (simp add: cycle_def host_weight_def reader_host_def new_info_def RR_DEFAULT_WEIGHT_def numeral_2_eq_2)
  have inv: "cm_inv (rr_cache new_selector)" by (simp add: new_selector_def NewCache_def cm_inv_ops)
  have none: "\<forall>h \<in> set ?hs. CacheMap_Get 3 (rr_cache new_selector) (Host h) = None"
    by (simp add: new_selector_def NewCache_def NewCacheWithDefaultExpiration_def CacheMap_Get_def)
  have d: "distinct (map Host ?hs)" "?hs \<noteq> []" by (simp_all add: reader_host_def)
  have s: "steady [3, 4, 5, 6, 7, 8]" by (simp add: steady_def ROUND_ROBIN_DEFAULT_CACHE_EXPIRE_NANO_def)
  from RoundRobin_cycle [OF e d(2,1) inv none u s, of 2, unfolded c] show ?thesis by (simp add: numeral_2_eq_2 del: rr_run.simps)
qed

lemma WeightedRandom_tickets_witness:
  "snd (WeightedRandom_GetHost (\<lambda>n. n - 2) [reader_host ''a'', reader_host ''b''] READER [(''weightedRandomHostWeightPairs'', ''a:2'')] None) =
     Inr (reader_host ''a'')"
proof -
  let ?props = "[(''weightedRandomHostWeightPairs'', ''a:2'')]"
  have w: "selector_weights ?props None = Inr [(''a'', 2)]" by code_simp
  have t: "tickets [(''a'', 2)] (eligible_hosts [reader_host ''a'', reader_host ''b''] READER) = map reader_host [''a'', ''a'', ''b'']"
    by (simp add: tickets_def eligible_hosts_def FilterSlice_def is_eligible_def reader_host_def effective_weight_def numeral_2_eq_2)
  show ?thesis using WeightedRandom_tickets [of "\<lambda>n. n - 2" "[(''a'', 2)]" "[reader_host ''a'', reader_host ''b'']" READER ?props None, unfolded t w]
    by (simp add: MaxInt64_def)
qed

lemma RoundRobin_stale_weights_witness:
  "map_of (clusterWeightsMap (fst (updateCachedHostWeightPairs (Some [(''roundRobinHostWeightPairs'', ''b:2'')])
     ((new_info None)\<lparr>clusterWeightsMap := [(''a'', 3)]\<rparr>)))) ''a'' = Some 3"
proof -
  let ?p = "Some [(''roundRobinHostWeightPairs'', ''b:2'')]" and ?info = "(new_info None)\<lparr>clusterWeightsMap := [(''a'', 3)]\<rparr>"
  obtain info' err where u: "updateCachedHostWeightPairs ?p ?info = (info', err)" by (metis surj_pair)
  have "snd (updateCachedHostWeightPairs ?p ?info) = None" by code_simp
  then have e: "err = None" using u by simp
  have pairs: "pairs_property ?p = ''b:2''" "Split ''b:2'' (CHR '','') = [''b:2'']" "parse_rr_pair ''b:2'' = Inr (''b'', 2)" by code_simp+
  show ?thesis using RoundRobin_stale_weights [of ?p ?info info' "''a''" 3] u e by (simp add: pairs)
qed

end
