(* ===== verification/Connection_Providers.thy ===== *)
theory Connection_Providers
  imports Host_Selectors Dsn_Parser Driver_Dialects Plugin_Manager
begin

text \<open>
  Who opens connections and chooses hosts: \<open>awssql/driver_infrastructure/driver_connection_provider.go\<close>,
  \<open>connection_provider_manager.go\<close>, and the host list provider of a DSN, \<open>dsn_host_list_provider.go\<close>. A
  connection provider is a record of its methods on the state \<open>'s\<close> of the program; the custom provider a
  user installs is any such record.
\<close>

section \<open>The provider of the target driver\<close>

text \<open>The selectors with state; the round-robin selector is shared by all providers. The time is the clock
  and \<open>rand\<close> draws a number below a bound.\<close>

record driver_selectors =
  weighted_selector :: WeightedRandomHostSelector
  shared_round_robin :: RoundRobinHostSelector

definition driver_strategies :: "string list" where
  "driver_strategies = [SELECTOR_HIGHEST_WEIGHT, SELECTOR_RANDOM, SELECTOR_WEIGHTED_RANDOM, SELECTOR_ROUND_ROBIN]"

definition Driver_AcceptsStrategy :: "string \<Rightarrow> bool" where
  "Driver_AcceptsStrategy strategy \<longleftrightarrow> strategy \<in> set driver_strategies"

definition unsupported_strategy :: go_error where
  "unsupported_strategy = NewUnsupportedStrategyError ''ConnectionProvider.unsupportedHostSelectorStrategy''"

definition Driver_GetHostInfoByStrategy ::
  "time \<Rightarrow> (nat \<Rightarrow> nat) \<Rightarrow> HostInfo list \<Rightarrow> HostRole \<Rightarrow> string \<Rightarrow> (string, string) gomap \<Rightarrow> driver_selectors
     \<Rightarrow> driver_selectors \<times> (go_error + HostInfo)" where
  "Driver_GetHostInfoByStrategy t rand hosts role strategy props d =
     (if strategy = SELECTOR_HIGHEST_WEIGHT then (d, HighestWeight_GetHost hosts role)
      else if strategy = SELECTOR_RANDOM then (d, Random_GetHost rand hosts role)
      else if strategy = SELECTOR_WEIGHTED_RANDOM
      then (let (r, res) = WeightedRandom_GetHost rand hosts role props (weighted_selector d) in (d\<lparr>weighted_selector := r\<rparr>, res))
      else if strategy = SELECTOR_ROUND_ROBIN
      then (let (r, res) = RoundRobin_GetHost t hosts role (Some props) (shared_round_robin d) in (d\<lparr>shared_round_robin := r\<rparr>, res))
      else (d, Inl unsupported_strategy))"

definition Driver_GetHostSelectorStrategy :: "string \<Rightarrow> go_error + string" where
  "Driver_GetHostSelectorStrategy strategy = (if strategy \<in> set driver_strategies then Inr strategy else Inl unsupported_strategy)"

text \<open>\<open>Connect\<close> opens the name the driver dialect prepares; \<open>PrepareDsn\<close> and \<open>Open\<close> are those of the driver.\<close>

definition Driver_Connect ::
  "((string, string) gomap \<Rightarrow> HostInfo option \<Rightarrow> string) \<Rightarrow> (string \<Rightarrow> ('s, 'c connect_result) action) \<Rightarrow> HostInfo option \<Rightarrow> (string, string) gomap
     \<Rightarrow> ('s, 'c connect_result) action" where
  "Driver_Connect PrepareDsn Open hostInfo props = Open (PrepareDsn props hostInfo)"

section \<open>The manager of the providers\<close>

record ('s, 'sel) ConnectionProvider =
  AcceptsUrl :: "HostInfo \<Rightarrow> (string, string) gomap \<Rightarrow> bool"
  cp_AcceptsStrategy :: "string \<Rightarrow> bool"
  cp_GetHostInfoByStrategy :: "HostInfo list \<Rightarrow> HostRole \<Rightarrow> string \<Rightarrow> (string, string) gomap \<Rightarrow> ('s, go_error + HostInfo) action"
  cp_GetHostSelectorStrategy :: "string \<Rightarrow> go_error + 'sel"

text \<open>\<open>custom\<close> is the provider of the process, if one is set.\<close>

record ('s, 'sel) ConnectionProviderManager =
  DefaultProvider :: "('s, 'sel) ConnectionProvider"
  EffectiveProvider :: "('s, 'sel) ConnectionProvider option"

definition GetConnectionProvider ::
  "('s, 'sel) ConnectionProvider option \<Rightarrow> HostInfo \<Rightarrow> props \<Rightarrow> ('s, 'sel) ConnectionProviderManager \<Rightarrow> ('s, 'sel) ConnectionProvider" where
  "GetConnectionProvider custom hostInfo rwProps m =
     (let props = RWMap_GetAllEntries rwProps; accepts = (\<lambda>p. AcceptsUrl p hostInfo props)
      in (case (custom, EffectiveProvider m) of
            (Some c, e) \<Rightarrow> if accepts c then c else (case e of Some p \<Rightarrow> if accepts p then p else DefaultProvider m | None \<Rightarrow> DefaultProvider m)
          | (None, Some p) \<Rightarrow> if accepts p then p else DefaultProvider m
          | (None, None) \<Rightarrow> DefaultProvider m))"

definition Providers_AcceptsStrategy ::
  "('s, 'sel) ConnectionProvider option \<Rightarrow> string \<Rightarrow> ('s, 'sel) ConnectionProviderManager \<Rightarrow> bool" where
  "Providers_AcceptsStrategy custom strategy m \<longleftrightarrow>
     (case custom of Some c \<Rightarrow> cp_AcceptsStrategy c strategy | None \<Rightarrow> False) \<or>
     (case EffectiveProvider m of Some p \<Rightarrow> cp_AcceptsStrategy p strategy | None \<Rightarrow> False) \<or>
     cp_AcceptsStrategy (DefaultProvider m) strategy"

text \<open>The providers asked in turn: one that does not accept the strategy or answers an error is passed over,
  except the default one.\<close>

fun ask_providers ::
  "(('s, 'sel) ConnectionProvider \<Rightarrow> bool) \<Rightarrow> (('s, 'sel) ConnectionProvider \<Rightarrow> ('z, go_error + 'a) action)
     \<Rightarrow> ('s, 'sel) ConnectionProvider option list \<Rightarrow> ('s, 'sel) ConnectionProvider \<Rightarrow> ('z, go_error + 'a) action" where
  "ask_providers accepts ask [] def s = ask def s"
| "ask_providers accepts ask (None # ps) def s = ask_providers accepts ask ps def s"
| "ask_providers accepts ask (Some p # ps) def s =
     (if accepts p
      then (case ask p s of (s', Inr x) \<Rightarrow> (s', Inr x) | (s', Inl _) \<Rightarrow> ask_providers accepts ask ps def s')
      else ask_providers accepts ask ps def s)"

definition Providers_GetHostInfoByStrategy ::
  "('s, 'sel) ConnectionProvider option \<Rightarrow> HostInfo list \<Rightarrow> HostRole \<Rightarrow> string \<Rightarrow> props \<Rightarrow> ('s, 'sel) ConnectionProviderManager
     \<Rightarrow> ('s, go_error + HostInfo) action" where
  "Providers_GetHostInfoByStrategy custom hosts role strategy rwProps m =
     ask_providers (\<lambda>p. cp_AcceptsStrategy p strategy)
       (\<lambda>p. cp_GetHostInfoByStrategy p hosts role strategy (RWMap_GetAllEntries rwProps))
       [custom, EffectiveProvider m] (DefaultProvider m)"

definition Providers_GetHostSelectorStrategy ::
  "('s, 'sel) ConnectionProvider option \<Rightarrow> string \<Rightarrow> ('s, 'sel) ConnectionProviderManager \<Rightarrow> go_error + 'sel" where
  "Providers_GetHostSelectorStrategy custom strategy m =
     snd (ask_providers (\<lambda>p. cp_AcceptsStrategy p strategy) (\<lambda>p u. (u, cp_GetHostSelectorStrategy p strategy))
            [custom, EffectiveProvider m] (DefaultProvider m) ())"

text \<open>The process-wide custom provider.\<close>

definition SetCustomConnectionProvider :: "'p \<Rightarrow> 'p option \<Rightarrow> 'p option" where
  "SetCustomConnectionProvider connProvider _ = Some connProvider"

definition ResetCustomConnectionProvider :: "'p option \<Rightarrow> 'p option" where
  "ResetCustomConnectionProvider _ = None"

text \<open>The driver's provider as such a record, over a state that holds the selectors.\<close>

definition driver_provider :: "time \<Rightarrow> (nat \<Rightarrow> nat) \<Rightarrow> (driver_selectors, string) ConnectionProvider" where
  "driver_provider t rand =
     \<lparr>AcceptsUrl = (\<lambda>_ _. True), cp_AcceptsStrategy = Driver_AcceptsStrategy,
      cp_GetHostInfoByStrategy = (\<lambda>hosts role strategy props. Driver_GetHostInfoByStrategy t rand hosts role strategy props),
      cp_GetHostSelectorStrategy = Driver_GetHostSelectorStrategy\<rparr>"

section \<open>Hosts of a DSN\<close>

record DsnHostListProvider =
  isSingleWriterConnectionString :: bool
  dsn_props :: props
  isInitialized :: bool
  hostList :: "HostInfo list"
  initialHost :: string

definition NewDsnHostListProvider :: "props \<Rightarrow> DsnHostListProvider" where
  "NewDsnHostListProvider props =
     \<lparr>isSingleWriterConnectionString = as_bool (GetVerifiedWrapperPropertyValue (Some props) SINGLE_WRITER_DSN), dsn_props = props,
      isInitialized = False, hostList = [], initialHost = as_string (GetVerifiedWrapperPropertyValue (Some props) HOST)\<rparr>"

text \<open>Results: the provider, the host handed to \<open>SetInitialConnectionHostInfo\<close> if any, and the error.\<close>

definition Dsn_init :: "DsnHostListProvider \<Rightarrow> (DsnHostListProvider \<times> HostInfo option \<times> go_error option) rds" where
  "Dsn_init c =
     (if isInitialized c then ret (c, None, None)
      else bindS (GetHostsFromProps (dsn_props c) (isSingleWriterConnectionString c)) (\<lambda>(hosts, err).
        ret (if err \<noteq> None then (c, None, err)
             else (let c1 = c\<lparr>hostList := hostList c @ hosts\<rparr>
                   in if hostList c1 = [] then (c1, None, Some (NewGenericAwsWrapperError ''DsnHostListProvider.parsedListEmpty''))
                      else (c1\<lparr>isInitialized := True\<rparr>, Some (hd (hostList c1)), None)))))"

definition Dsn_Refresh :: "DsnHostListProvider \<Rightarrow> (DsnHostListProvider \<times> HostInfo option \<times> HostInfo list \<times> go_error option) rds" where
  "Dsn_Refresh c = bindS (Dsn_init c) (\<lambda>(c', initial, err). ret (c', initial, hostList c', err))"

definition Dsn_ForceRefresh :: "DsnHostListProvider \<Rightarrow> (DsnHostListProvider \<times> HostInfo option \<times> HostInfo list \<times> go_error option) rds" where
  "Dsn_ForceRefresh c = bindS (Dsn_init c) (\<lambda>(c', initial, err). ret (c', initial, hostList c', err))"

definition Dsn_ForceRefreshHostListWithTimeout ::
  "bool \<Rightarrow> int \<Rightarrow> DsnHostListProvider \<Rightarrow> (DsnHostListProvider \<times> HostInfo option \<times> HostInfo list \<times> go_error option) rds" where
  "Dsn_ForceRefreshHostListWithTimeout shouldVerifyWriter timeoutMs c = Dsn_ForceRefresh c"

section \<open>Lemmas\<close>

text \<open>Once a refresh has succeeded the list is fixed.\<close>

lemma Dsn_Refresh_fixed:
  assumes "Dsn_Refresh c s = (Inr (c', initial, hosts, None), s')"
  shows "Dsn_Refresh c' s2 = (Inr (c', None, hosts, None), s2) \<and> hosts = hostList c'"
  using assms by (auto simp: Dsn_Refresh_def Dsn_init_def bindS_def ret_def Let_def split: if_splits sum.splits prod.splits)

lemma Providers_GetHostInfoByStrategy_default:
  assumes "\<And>p. custom = Some p \<or> EffectiveProvider m = Some p \<Longrightarrow> \<not> cp_AcceptsStrategy p strategy"
  shows "Providers_GetHostInfoByStrategy custom hosts role strategy rwProps m s =
     cp_GetHostInfoByStrategy (DefaultProvider m) hosts role strategy (RWMap_GetAllEntries rwProps) s"
  using assms by (cases custom; cases "EffectiveProvider m") (auto simp: Providers_GetHostInfoByStrategy_def)

definition strategy_usable :: "time \<Rightarrow> (nat \<Rightarrow> nat) \<Rightarrow> HostInfo list \<Rightarrow> HostRole \<Rightarrow> (string, string) gomap \<Rightarrow> driver_selectors \<Rightarrow> bool" where
  "strategy_usable t rand hosts role props d \<longleftrightarrow>
     (\<forall>n > 0. rand n < n) \<and> weighted_usable (rand, props, weighted_selector d) hosts role \<and> rr_usable (t, Some props, shared_round_robin d) hosts role"

section \<open>Properties\<close>

text \<open>Whatever strategy is asked for, the driver's provider answers a host of the list that has the role
  and is available if there is one, and an error otherwise; for other strategies the error is that of an
  unsupported strategy. The weights that are configured have to be well-formed.\<close>
theorem Driver_GetHostInfoByStrategy_eligible:
  assumes "strategy_usable t rand hosts role props d"
  shows "case snd (Driver_GetHostInfoByStrategy t rand hosts role strategy props d) of
      Inr h \<Rightarrow> Driver_AcceptsStrategy strategy \<and> h \<in> set hosts \<and> is_eligible role h
    | Inl err \<Rightarrow> (if Driver_AcceptsStrategy strategy then \<forall>h \<in> set hosts. \<not> is_eligible role h else err = unsupported_strategy)"
proof -
  have u: "\<forall>n > 0. rand n < n" "weighted_usable (rand, props, weighted_selector d) hosts role"
    "rr_usable (t, Some props, shared_round_robin d) hosts role"
    using assms by (auto simp: strategy_usable_def)
  note iffs = random.answers_iff [where p = rand and hosts = hosts and role = role, OF u(1)] highest.answers_iff [where hosts = hosts and role = role, OF TrueI] weighted.answers_iff [OF u(2)] round_robin.answers_iff [OF u(3)]
  note sounds = random.answer_sound [where p = rand and hosts = hosts and role = role, OF u(1)] highest.answer_sound [where hosts = hosts and role = role, OF TrueI] weighted.answer_sound [OF u(2)] round_robin.answer_sound [OF u(3)]
  consider "strategy = SELECTOR_HIGHEST_WEIGHT" | "strategy = SELECTOR_RANDOM" | "strategy = SELECTOR_WEIGHTED_RANDOM" | "strategy = SELECTOR_ROUND_ROBIN"
    | "\<not> Driver_AcceptsStrategy strategy" by (auto simp: Driver_AcceptsStrategy_def driver_strategies_def)
  then show ?thesis
    using iffs sounds
    by cases (fastforce simp: Driver_GetHostInfoByStrategy_def Driver_AcceptsStrategy_def driver_strategies_def weighted_select_def rr_select_def
        SELECTOR_HIGHEST_WEIGHT_def SELECTOR_RANDOM_def SELECTOR_WEIGHTED_RANDOM_def SELECTOR_ROUND_ROBIN_def split: sum.splits prod.splits)+
qed

lemma Driver_GetHostInfoByStrategy_eligible_witness:
  "let d = \<lparr>weighted_selector = None, shared_round_robin = new_selector\<rparr>; hosts = [reader_host ''a'']
   in strategy_usable 3 (\<lambda>_. 0) hosts READER [] d \<and>
      snd (Driver_GetHostInfoByStrategy 3 (\<lambda>_. 0) hosts READER SELECTOR_ROUND_ROBIN [] d) = Inr (reader_host ''a'') \<and>
      snd (Driver_GetHostInfoByStrategy 3 (\<lambda>_. 0) hosts READER ''fastest'' [] d) = Inl unsupported_strategy"
proof -
  let ?d = "\<lparr>weighted_selector = None, shared_round_robin = new_selector\<rparr>" and ?hosts = "[reader_host ''a'']"
  have e: "eligible_hosts ?hosts READER = ?hosts" by (simp add: eligible_hosts_def FilterSlice_def is_eligible_def reader_host_def)
  have w: "selector_weights [] None = Inr []" by code_simp
  have u: "updateCacheProperties (Some []) (new_info (Some [])) = (new_info (Some []), None)" by code_simp
  have c: "snd (createCacheEntryForHosts 3 ?hosts (Some []) new_selector) = None"
    by (simp add: createCacheEntryForHosts_def new_selector_def NewCache_def NewCacheWithDefaultExpiration_def CacheMap_Get_def u)
  have usable: "strategy_usable 3 (\<lambda>_. 0) ?hosts READER [] ?d"
    using c by (simp add: strategy_usable_def weighted_usable_def w rr_usable_def e new_selector_def NewCache_def cm_inv_ops
        tickets_def effective_weight_def MaxInt64_def)
  have a: "Driver_AcceptsStrategy SELECTOR_ROUND_ROBIN" "\<not> Driver_AcceptsStrategy ''fastest''" by code_simp+
  have el: "is_eligible READER (reader_host ''a'')" by (simp add: is_eligible_def reader_host_def)
  show ?thesis
    using Driver_GetHostInfoByStrategy_eligible [OF usable, of SELECTOR_ROUND_ROBIN] Driver_GetHostInfoByStrategy_eligible [OF usable, of "''fastest''"] usable a el
    by (auto simp: Let_def split: sum.splits)
qed

end
