(* ===== verification/Topology_Utils.thy ===== *)
theory Topology_Utils
  imports Driver_Dialects Topology Rds_Utils
begin

text \<open>
  Reading the topology of a cluster from a database: \<open>awssql/driver_infrastructure/topology_utils.go\<close>, with the
  queries of the topology dialects of \<open>mysql_database_dialects.go\<close> and \<open>pg_database_dialects.go\<close>.

  A connection is what its \<open>QueryContext\<close> answers to a query, a timeout and the query's arguments, or nothing when it is
  not a \<open>QueryerContext\<close>; a result set ends at the first \<open>Next\<close> that is not nil. The order in which Go visits a map
  and the order \<open>sort.Slice\<close> leaves among equal keys are parameters, as are the clock and, because the values are
  floating point or driver types, the parsers for times and for rounded numbers.
\<close>

section \<open>Queries of the topology dialects\<close>

definition AWS_ADVANCED_GO_WRAPPER_VERSION :: string where
  "AWS_ADVANCED_GO_WRAPPER_VERSION = ''2.0.0''"

definition AuroraMySQL_GetTopologyQuery :: string where
  "AuroraMySQL_GetTopologyQuery =
     ''SELECT server_id, CASE WHEN SESSION_ID = 'MASTER_SESSION_ID' THEN TRUE ELSE FALSE END as is_writer, '' @
     ''cpu, REPLICA_LAG_IN_MILLISECONDS as 'lag', LAST_UPDATE_TIMESTAMP as last_update_timestamp '' @
     ''FROM information_schema.replica_host_status '' @
     ''WHERE time_to_sec(timediff(now(), LAST_UPDATE_TIMESTAMP)) <= 300 OR SESSION_ID = 'MASTER_SESSION_ID' ''"

definition GlobalAuroraMySQL_GetTopologyQuery :: string where
  "GlobalAuroraMySQL_GetTopologyQuery =
     ''SELECT SERVER_ID, CASE WHEN SESSION_ID = 'MASTER_SESSION_ID' THEN TRUE ELSE FALSE END, '' @
     ''VISIBILITY_LAG_IN_MSEC, AWS_REGION '' @
     ''FROM information_schema.aurora_global_db_instance_status ''"

definition RdsMultiAzClusterMySQL_GetTopologyQuery :: string where
  "RdsMultiAzClusterMySQL_GetTopologyQuery = ''SELECT id, endpoint FROM mysql.rds_topology''"

definition AuroraPg_GetTopologyQuery :: string where
  "AuroraPg_GetTopologyQuery =
     ''SELECT server_id, CASE WHEN SESSION_ID OPERATOR(pg_catalog.=) 'MASTER_SESSION_ID' THEN TRUE ELSE FALSE END AS is_writer, '' @
     ''CPU, COALESCE(REPLICA_LAG_IN_MSEC, 0) AS lag, LAST_UPDATE_TIMESTAMP '' @
     ''FROM pg_catalog.aurora_replica_status() '' @
     ''WHERE EXTRACT(EPOCH FROM(pg_catalog.NOW() OPERATOR(pg_catalog.-) LAST_UPDATE_TIMESTAMP)) OPERATOR(pg_catalog.<=) 300 OR SESSION_ID OPERATOR(pg_catalog.=) '' @
     [CHR 0x27] @ ''MASTER_SESSION_ID' OR LAST_UPDATE_TIMESTAMP IS NULL''"

definition GlobalAuroraPg_GetTopologyQuery :: string where
  "GlobalAuroraPg_GetTopologyQuery =
     ''SELECT SERVER_ID, CASE WHEN SESSION_ID OPERATOR(pg_catalog.=) 'MASTER_SESSION_ID' THEN TRUE ELSE FALSE END, '' @
     ''VISIBILITY_LAG_IN_MSEC, AWS_REGION '' @
     ''FROM aurora_global_db_instance_status()''"

definition RdsMultiAzClusterPg_GetTopologyQuery :: string where
  "RdsMultiAzClusterPg_GetTopologyQuery =
     ''SELECT id, endpoint FROM rds_tools.show_topology('aws-advanced-go-wrapper-'' @ AWS_ADVANCED_GO_WRAPPER_VERSION @ [CHR 0x27] @ '')''"

definition AuroraMySQL_GetInstanceIdQuery :: string where
  "AuroraMySQL_GetInstanceIdQuery = ''SELECT @@aurora_server_id, @@aurora_server_id;''"

definition RdsMultiAzClusterMySQL_GetInstanceIdQuery :: string where
  "RdsMultiAzClusterMySQL_GetInstanceIdQuery =
     ''SELECT id, SUBSTRING_INDEX(endpoint, '.', 1)'' @ '' FROM mysql.rds_topology'' @ '' WHERE id = @@server_id''"

definition AuroraPg_GetInstanceIdQuery :: string where
  "AuroraPg_GetInstanceIdQuery = ''SELECT pg_catalog.aurora_db_instance_identifier()''"

definition RdsMultiAzClusterPg_GetInstanceIdQuery :: string where
  "RdsMultiAzClusterPg_GetInstanceIdQuery =
     ''SELECT id, SUBSTRING(endpoint FROM 0 FOR POSITION('.' IN endpoint))'' @
     '' FROM rds_tools.show_topology()'' @
     '' WHERE id OPERATOR(pg_catalog.=) rds_tools.dbi_resource_id()''"

definition AuroraMySQL_GetWriterIdQuery :: string where
  "AuroraMySQL_GetWriterIdQuery =
     ''SELECT server_id '' @ ''FROM information_schema.replica_host_status '' @
     ''WHERE SESSION_ID = 'MASTER_SESSION_ID' AND SERVER_ID = @@aurora_server_id''"

definition RdsMultiAzClusterMySQL_GetWriterIdQuery :: string where
  "RdsMultiAzClusterMySQL_GetWriterIdQuery = ''SHOW REPLICA STATUS''"

definition AuroraPg_GetWriterIdQuery :: string where
  "AuroraPg_GetWriterIdQuery =
     ''SELECT server_id FROM pg_catalog.aurora_replica_status() WHERE SESSION_ID OPERATOR(pg_catalog.=) 'MASTER_SESSION_ID' AND SERVER_ID OPERATOR(pg_catalog.=)'' @
     '' pg_catalog.aurora_db_instance_identifier()''"

definition RdsMultiAzClusterPg_GetWriterIdQuery :: string where
  "RdsMultiAzClusterPg_GetWriterIdQuery =
     ''SELECT multi_az_db_cluster_source_dbi_resource_id'' @
     '' FROM rds_tools.multi_az_db_cluster_source_dbi_resource_id()'' @
     '' WHERE multi_az_db_cluster_source_dbi_resource_id OPERATOR(pg_catalog.!=)'' @
     '' (SELECT dbi_resource_id FROM rds_tools.dbi_resource_id())''"

definition RdsMultiAzClusterMySQL_GetWriterIdColumnName :: string where
  "RdsMultiAzClusterMySQL_GetWriterIdColumnName = ''Source_Server_Id''"

definition RdsMultiAzClusterPg_GetWriterIdColumnName :: string where
  "RdsMultiAzClusterPg_GetWriterIdColumnName = ''multi_az_db_cluster_source_dbi_resource_id''"

definition GlobalAuroraMySQL_GetRegionByInstanceIdQuery :: string where
  "GlobalAuroraMySQL_GetRegionByInstanceIdQuery =
     ''SELECT AWS_REGION FROM information_schema.aurora_global_db_instance_status WHERE SERVER_ID = ?''"

definition GlobalAuroraPg_GetRegionByInstanceIdQuery :: string where
  "GlobalAuroraPg_GetRegionByInstanceIdQuery =
     ''SELECT AWS_REGION FROM aurora_global_db_instance_status() WHERE SERVER_ID = $1''"

text \<open>The methods of the interfaces \<open>TopologyDialect\<close>, \<open>MultiAzTopologyDialect\<close> and \<open>GlobalAuroraTopologyDialect\<close>:
  the global dialects inherit from the Aurora ones. The other dialects do not have the methods.\<close>

fun GetTopologyQuery :: "DatabaseDialect \<Rightarrow> string option" where
  "GetTopologyQuery AuroraMySQLDatabaseDialect = Some AuroraMySQL_GetTopologyQuery"
| "GetTopologyQuery GlobalAuroraMySQLDatabaseDialect = Some GlobalAuroraMySQL_GetTopologyQuery"
| "GetTopologyQuery RdsMultiAzClusterMySQLDatabaseDialect = Some RdsMultiAzClusterMySQL_GetTopologyQuery"
| "GetTopologyQuery AuroraPgDatabaseDialect = Some AuroraPg_GetTopologyQuery"
| "GetTopologyQuery GlobalAuroraPgDatabaseDialect = Some GlobalAuroraPg_GetTopologyQuery"
| "GetTopologyQuery RdsMultiAzClusterPgDatabaseDialect = Some RdsMultiAzClusterPg_GetTopologyQuery"
| "GetTopologyQuery _ = None"

fun GetInstanceIdQuery :: "DatabaseDialect \<Rightarrow> string option" where
  "GetInstanceIdQuery AuroraMySQLDatabaseDialect = Some AuroraMySQL_GetInstanceIdQuery"
| "GetInstanceIdQuery GlobalAuroraMySQLDatabaseDialect = Some AuroraMySQL_GetInstanceIdQuery"
| "GetInstanceIdQuery RdsMultiAzClusterMySQLDatabaseDialect = Some RdsMultiAzClusterMySQL_GetInstanceIdQuery"
| "GetInstanceIdQuery AuroraPgDatabaseDialect = Some AuroraPg_GetInstanceIdQuery"
| "GetInstanceIdQuery GlobalAuroraPgDatabaseDialect = Some AuroraPg_GetInstanceIdQuery"
| "GetInstanceIdQuery RdsMultiAzClusterPgDatabaseDialect = Some RdsMultiAzClusterPg_GetInstanceIdQuery"
| "GetInstanceIdQuery _ = None"

fun GetWriterIdQuery :: "DatabaseDialect \<Rightarrow> string option" where
  "GetWriterIdQuery AuroraMySQLDatabaseDialect = Some AuroraMySQL_GetWriterIdQuery"
| "GetWriterIdQuery GlobalAuroraMySQLDatabaseDialect = Some AuroraMySQL_GetWriterIdQuery"
| "GetWriterIdQuery RdsMultiAzClusterMySQLDatabaseDialect = Some RdsMultiAzClusterMySQL_GetWriterIdQuery"
| "GetWriterIdQuery AuroraPgDatabaseDialect = Some AuroraPg_GetWriterIdQuery"
| "GetWriterIdQuery GlobalAuroraPgDatabaseDialect = Some AuroraPg_GetWriterIdQuery"
| "GetWriterIdQuery RdsMultiAzClusterPgDatabaseDialect = Some RdsMultiAzClusterPg_GetWriterIdQuery"
| "GetWriterIdQuery _ = None"

fun GetWriterIdColumnName :: "DatabaseDialect \<Rightarrow> string option" where
  "GetWriterIdColumnName RdsMultiAzClusterMySQLDatabaseDialect = Some RdsMultiAzClusterMySQL_GetWriterIdColumnName"
| "GetWriterIdColumnName RdsMultiAzClusterPgDatabaseDialect = Some RdsMultiAzClusterPg_GetWriterIdColumnName"
| "GetWriterIdColumnName _ = None"

fun GetRegionByInstanceIdQuery :: "DatabaseDialect \<Rightarrow> string option" where
  "GetRegionByInstanceIdQuery GlobalAuroraMySQLDatabaseDialect = Some GlobalAuroraMySQL_GetRegionByInstanceIdQuery"
| "GetRegionByInstanceIdQuery GlobalAuroraPgDatabaseDialect = Some GlobalAuroraPg_GetRegionByInstanceIdQuery"
| "GetRegionByInstanceIdQuery _ = None"

section \<open>Running a query\<close>

record result_set =
  Columns :: "string list"
  Rows :: "driver_value list list"

text \<open>\<open>conn.(driver.QueryerContext)\<close>: the query, its timeout if it has one, and its arguments.\<close>

type_synonym query_conn = "(string \<Rightarrow> duration option \<Rightarrow> driver_value list \<Rightarrow> go_error + result_set) option"

record RowParser =
  ParseStringValue :: "driver_value \<Rightarrow> string \<times> bool"
  ParseBoolValue :: "driver_value \<Rightarrow> bool \<times> bool"
  ParseRoundedFloat :: "driver_value \<Rightarrow> int \<times> bool"
  ParseTimeValue :: "driver_value \<Rightarrow> time \<times> bool"

definition not_queryer :: go_error where
  "not_queryer = NewGenericAwsWrapperError ''Conn.doesNotImplementRequiredInterface''"

text \<open>A dialect value that lacks the method cannot be passed in Go; the model's call of it is a panic.\<close>

definition query_of :: "string option \<Rightarrow> go_error + string" where
  "query_of q = (case q of None \<Rightarrow> Inl (Panic ''nil pointer dereference'') | Some s \<Rightarrow> Inr s)"

definition executeQuery :: "query_conn \<Rightarrow> string \<Rightarrow> int \<Rightarrow> go_error + result_set" where
  "executeQuery conn query queryTimeoutMs =
     (case conn of
        None \<Rightarrow> Inl not_queryer
      | Some queryContext \<Rightarrow>
          queryContext query (if queryTimeoutMs > 0 then Some (queryTimeoutMs * 1000000) else None) [])"

text \<open>\<open>rows.Next(row)\<close> into a slice of \<open>n\<close> values.\<close>

definition next_row :: "nat \<Rightarrow> driver_value list \<Rightarrow> driver_value list" where
  "next_row n row = take n (row @ replicate n VNil)"

definition first_row :: "nat \<Rightarrow> result_set \<Rightarrow> driver_value list option" where
  "first_row n rs = (case Rows rs of [] \<Rightarrow> None | row # _ \<Rightarrow> Some (next_row n row))"

section \<open>The writer of a topology\<close>

record topology_env =
  map_order :: "HostInfo list \<Rightarrow> HostInfo list"
  sort_writers :: "HostInfo list \<Rightarrow> HostInfo list"

definition verifyWriter :: "topology_env \<Rightarrow> HostInfo list \<Rightarrow> HostInfo list" where
  "verifyWriter env hosts =
     (let writers = filter (\<lambda>h. Role h = WRITER) hosts;
          readers = filter (\<lambda>h. Role h \<noteq> WRITER) hosts
      in (case (if length writers > 1 then sort_writers env writers else writers) of
            [] \<Rightarrow> []
          | selectedWriter # _ \<Rightarrow> selectedWriter # readers))"

definition CreateHost ::
  "string \<Rightarrow> string \<Rightarrow> bool \<Rightarrow> int \<Rightarrow> time \<Rightarrow> HostInfo option \<Rightarrow> HostInfo option \<Rightarrow> go_error + HostInfo option" where
  "CreateHost instanceId instanceName isWriter weight lastUpdateTime initialHost instanceTemplate =
     (case instanceTemplate of
        None \<Rightarrow> Inl (Panic ''nil pointer dereference'')
      | Some template \<Rightarrow>
          (let name = (if instanceName = '''' then ''?'' else instanceName);
               endpoint = ReplaceFirst (Host template) ''?'' name;
               port = (if Port template = HOST_NO_PORT \<and> IsPortSpecified initialHost then Port (the initialHost) else Port template);
               role = (if isWriter then WRITER else READER)
           in (case Build (SetLastUpdateTime lastUpdateTime (SetWeight weight (SetAvailability AVAILABLE (SetRole role
                     (SetPort port (SetHost endpoint (SetHostId instanceId NewHostInfoBuilder))))))) of
                 Inl _ \<Rightarrow> Inr None
               | Inr hostInfo \<Rightarrow> AddAlias (Some hostInfo) name)))"

definition SupportsSocketTimeoutViaDsn :: "(DriverPropertyKey \<Rightarrow> string) \<Rightarrow> bool" where
  "SupportsSocketTimeoutViaDsn getPropertyName \<longleftrightarrow> getPropertyName SocketTimeout \<noteq> ''''"

definition resolveQueryTimeoutMs :: "(DriverPropertyKey \<Rightarrow> string) \<Rightarrow> (string, string) RWMap option \<Rightarrow> int" where
  "resolveQueryTimeoutMs getPropertyName props =
     (if SupportsSocketTimeoutViaDsn getPropertyName then 0
      else as_int (GetVerifiedWrapperPropertyValue props CLUSTER_TOPOLOGY_SOCKET_TIMEOUT_MS))"

section \<open>Queries shared by the kinds of cluster\<close>

definition queryHostRole :: "query_conn \<Rightarrow> string \<Rightarrow> RowParser \<Rightarrow> int \<Rightarrow> HostRole" where
  "queryHostRole conn query parser queryTimeoutMs =
     (case executeQuery conn query queryTimeoutMs of
        Inl _ \<Rightarrow> UNKNOWN
      | Inr rows \<Rightarrow>
          (case first_row 1 rows of
             Some (v # _) \<Rightarrow>
               (let (isReader, ok) = ParseBoolValue parser v
                in if ok then (if isReader then READER else WRITER) else UNKNOWN)
           | _ \<Rightarrow> UNKNOWN))"

text \<open>A result set without columns would make \<open>row[0]\<close> panic.\<close>

definition queryInstanceId :: "query_conn \<Rightarrow> string \<Rightarrow> RowParser \<Rightarrow> int \<Rightarrow> go_error + string \<times> string" where
  "queryInstanceId conn query parser queryTimeoutMs =
     (case executeQuery conn query queryTimeoutMs of
        Inl _ \<Rightarrow> Inr ('''', '''')
      | Inr rows \<Rightarrow>
          (case first_row (length (Columns rows)) rows of
             None \<Rightarrow> Inr ('''', '''')
           | Some [] \<Rightarrow> Inl (Panic ''index out of range'')
           | Some (v # vs) \<Rightarrow>
               (let (instanceId, ok) = ParseStringValue parser v
                in if \<not> ok then Inr ('''', '''')
                   else (case vs of
                           [] \<Rightarrow> Inr (instanceId, instanceId)
                         | w # _ \<Rightarrow> Inr (instanceId, fst (ParseStringValue parser w))))))"

definition queryIsWriter :: "query_conn \<Rightarrow> string \<Rightarrow> RowParser \<Rightarrow> bool \<Rightarrow> int \<Rightarrow> go_error + bool" where
  "queryIsWriter conn query parser writerWhenEmpty queryTimeoutMs =
     bindR (executeQuery conn query queryTimeoutMs) (\<lambda>rows.
       if writerWhenEmpty then Inr (first_row 1 rows = None)
       else (case first_row 1 rows of
               Some (v # _) \<Rightarrow> (let (serverId, ok) = ParseStringValue parser v in Inr (ok \<and> serverId \<noteq> ''''))
             | _ \<Rightarrow> Inr False))"

section \<open>From rows to hosts\<close>

text \<open>A row that fails is skipped, a panic is not; of two records for one host name the newer is kept.\<close>

definition keep_newer :: "HostInfo \<Rightarrow> (string, HostInfo) gomap \<Rightarrow> (string, HostInfo) gomap" where
  "keep_newer host hostsMap =
     (case map_of hostsMap (Host host) of
        Some existing \<Rightarrow>
          if LastUpdateTime existing < LastUpdateTime host then mput (Host host) host hostsMap else hostsMap
      | None \<Rightarrow> mput (Host host) host hostsMap)"

fun collect_hosts :: "(go_error + HostInfo) list \<Rightarrow> (string, HostInfo) gomap \<Rightarrow> go_error + (string, HostInfo) gomap" where
  "collect_hosts [] hostsMap = Inr hostsMap"
| "collect_hosts (Inl (Panic m) # rs) hostsMap = Inl (Panic m)"
| "collect_hosts (Inl _ # rs) hostsMap = collect_hosts rs hostsMap"
| "collect_hosts (Inr host # rs) hostsMap = collect_hosts rs (keep_newer host hostsMap)"

text \<open>The part the three \<open>QueryForTopology\<close> have in common, over the function that makes a host of a row; \<open>clock\<close>
  is what \<open>time.Now()\<close> reads at each row.\<close>

definition topology_from_rows ::
  "topology_env \<Rightarrow> (nat \<Rightarrow> driver_value list \<Rightarrow> go_error + HostInfo) \<Rightarrow> result_set \<Rightarrow> go_error + HostInfo list" where
  "topology_from_rows env createHostFromRow rows =
     (if Columns rows = [] then Inl (NewGenericAwsWrapperError ''TopologyUtils.unexpectedTopologyQueryColumnCount'')
      else bindR (collect_hosts (map (\<lambda>(i, row). createHostFromRow i (next_row (length (Columns rows)) row))
                                     (enumerate 0 (Rows rows))) [])
             (\<lambda>hostsMap. Inr (verifyWriter env (map_order env (map snd hostsMap)))))"

text \<open>The structs \<open>AuroraTopologyUtils\<close>, \<open>MultiAzTopologyUtils\<close> and \<open>GlobalAuroraTopologyUtils\<close> have the same fields.\<close>

record TopologyUtils =
  tu_dialect :: DatabaseDialect
  parser :: RowParser
  queryTimeoutMs :: int

definition NewTopologyUtils ::
  "DatabaseDialect \<Rightarrow> RowParser \<Rightarrow> (DriverPropertyKey \<Rightarrow> string) \<Rightarrow> (string, string) RWMap option \<Rightarrow> TopologyUtils" where
  "NewTopologyUtils d rowParser getPropertyName props =
     \<lparr>tu_dialect = d, parser = rowParser, queryTimeoutMs = resolveQueryTimeoutMs getPropertyName props\<rparr>"

definition parse_or :: "string \<Rightarrow> 'a \<times> bool \<Rightarrow> go_error + 'a" where
  "parse_or msg r = (if snd r then Inr (fst r) else Inl (NewGenericAwsWrapperError msg))"

definition created :: "go_error + HostInfo option \<Rightarrow> go_error + HostInfo" where
  "created r = bindR r (\<lambda>h. case h of None \<Rightarrow> Inl (NewGenericAwsWrapperError ''failed to create host'') | Some i \<Rightarrow> Inr i)"

definition GetHostRole :: "TopologyUtils \<Rightarrow> query_conn \<Rightarrow> HostRole" where
  "GetHostRole u conn = queryHostRole conn (GetIsReaderQuery (tu_dialect u)) (parser u) (queryTimeoutMs u)"

definition GetInstanceId :: "TopologyUtils \<Rightarrow> query_conn \<Rightarrow> go_error + string \<times> string" where
  "GetInstanceId u conn =
     bindR (query_of (GetInstanceIdQuery (tu_dialect u))) (\<lambda>q. queryInstanceId conn q (parser u) (queryTimeoutMs u))"

definition is_writer_instance :: "bool \<Rightarrow> TopologyUtils \<Rightarrow> query_conn \<Rightarrow> go_error + bool" where
  "is_writer_instance writerWhenEmpty u conn =
     bindR (query_of (GetWriterIdQuery (tu_dialect u))) (\<lambda>q. queryIsWriter conn q (parser u) writerWhenEmpty (queryTimeoutMs u))"

subsection \<open>Aurora\<close>

definition Aurora_createHostFromRow ::
  "TopologyUtils \<Rightarrow> time \<Rightarrow> driver_value list \<Rightarrow> HostInfo option \<Rightarrow> HostInfo option \<Rightarrow> go_error + HostInfo" where
  "Aurora_createHostFromRow a clock row initialHost instanceTemplate =
     (if length row < 4 then Inl (NewGenericAwsWrapperError ''insufficient columns in topology row'')
      else bindR (parse_or ''failed to parse host name'' (ParseStringValue (parser a) (row ! 0))) (\<lambda>hostName.
           bindR (parse_or ''failed to parse is_writer'' (ParseBoolValue (parser a) (row ! 1))) (\<lambda>isWriter.
             let cpu = fst (ParseRoundedFloat (parser a) (row ! 2));
                 lag = fst (ParseRoundedFloat (parser a) (row ! 3));
                 lastUpdateTime =
                   (if length row > 4 \<and> snd (ParseTimeValue (parser a) (row ! 4)) then fst (ParseTimeValue (parser a) (row ! 4))
                    else clock);
                 weight = lag * 100 + cpu
             in created (CreateHost hostName hostName isWriter weight lastUpdateTime initialHost instanceTemplate))))"

definition Aurora_QueryForTopology ::
  "topology_env \<Rightarrow> (nat \<Rightarrow> time) \<Rightarrow> TopologyUtils \<Rightarrow> query_conn \<Rightarrow> HostInfo option \<Rightarrow> HostInfo option \<Rightarrow> go_error + HostInfo list" where
  "Aurora_QueryForTopology env clock a conn initialHost instanceTemplate =
     bindR (query_of (GetTopologyQuery (tu_dialect a))) (\<lambda>q.
     bindR (executeQuery conn q (queryTimeoutMs a)) (\<lambda>rows.
       topology_from_rows env (\<lambda>i row. Aurora_createHostFromRow a (clock i) row initialHost instanceTemplate) rows))"

definition Aurora_IsWriterInstance :: "TopologyUtils \<Rightarrow> query_conn \<Rightarrow> go_error + bool" where
  "Aurora_IsWriterInstance = is_writer_instance False"

subsection \<open>Multi-AZ clusters\<close>

text \<open>The columns named like the writer id, in order; the first that parses to a non-empty string.\<close>

fun writer_id_from :: "RowParser \<Rightarrow> string \<Rightarrow> (string \<times> driver_value) list \<Rightarrow> string" where
  "writer_id_from p columnName [] = ''''"
| "writer_id_from p columnName ((col, v) # cvs) =
     (if col = columnName \<and> snd (ParseStringValue p v) \<and> fst (ParseStringValue p v) \<noteq> '''' then fst (ParseStringValue p v)
      else writer_id_from p columnName cvs)"

definition getWriterId :: "TopologyUtils \<Rightarrow> query_conn \<Rightarrow> go_error + string" where
  "getWriterId m conn =
     bindR (query_of (GetWriterIdQuery (tu_dialect m))) (\<lambda>q.
     bindR (executeQuery conn q (queryTimeoutMs m)) (\<lambda>rows.
     bindR (query_of (GetWriterIdColumnName (tu_dialect m))) (\<lambda>columnName.
       let writerId = (case first_row (length (Columns rows)) rows of
                         None \<Rightarrow> '''' | Some row \<Rightarrow> writer_id_from (parser m) columnName (zip (Columns rows) row))
       in if writerId \<noteq> '''' then Inr writerId else bindR (GetInstanceId m conn) (\<lambda>(instanceId, _). Inr instanceId))))"

definition before_dot :: "string \<Rightarrow> string" where
  "before_dot endpoint = (case Index endpoint ''.'' of Some idx \<Rightarrow> if idx > 0 then take idx endpoint else endpoint | None \<Rightarrow> endpoint)"

definition MultiAz_createHostFromRow ::
  "TopologyUtils \<Rightarrow> time \<Rightarrow> driver_value list \<Rightarrow> HostInfo option \<Rightarrow> HostInfo option \<Rightarrow> string \<Rightarrow> go_error + HostInfo" where
  "MultiAz_createHostFromRow m clock row initialHost instanceTemplate writerId =
     (if length row < 2 then Inl (NewGenericAwsWrapperError ''insufficient columns in topology row'')
      else bindR (parse_or ''failed to parse host id'' (ParseStringValue (parser m) (row ! 0))) (\<lambda>hostId.
           bindR (parse_or ''failed to parse endpoint'' (ParseStringValue (parser m) (row ! 1))) (\<lambda>endpoint.
             created (CreateHost hostId (before_dot endpoint) (hostId = writerId) 0 clock initialHost instanceTemplate))))"

definition MultiAz_QueryForTopology ::
  "topology_env \<Rightarrow> (nat \<Rightarrow> time) \<Rightarrow> TopologyUtils \<Rightarrow> query_conn \<Rightarrow> HostInfo option \<Rightarrow> HostInfo option \<Rightarrow> go_error + HostInfo list" where
  "MultiAz_QueryForTopology env clock m conn initialHost instanceTemplate =
     bindR (getWriterId m conn) (\<lambda>writerId.
     bindR (query_of (GetTopologyQuery (tu_dialect m))) (\<lambda>q.
     bindR (executeQuery conn q (queryTimeoutMs m)) (\<lambda>rows.
       topology_from_rows env (\<lambda>i row. MultiAz_createHostFromRow m (clock i) row initialHost instanceTemplate writerId) rows)))"

definition MultiAz_IsWriterInstance :: "TopologyUtils \<Rightarrow> query_conn \<Rightarrow> go_error + bool" where
  "MultiAz_IsWriterInstance = is_writer_instance True"

subsection \<open>Global databases\<close>

definition Global_createHostFromRow ::
  "TopologyUtils \<Rightarrow> time \<Rightarrow> driver_value list \<Rightarrow> HostInfo option \<Rightarrow> (string, HostInfo option) gomap \<Rightarrow> go_error + HostInfo" where
  "Global_createHostFromRow g clock row initialHost instanceTemplatesByRegion =
     (if length row < 4 then Inl (NewGenericAwsWrapperError ''insufficient columns in global topology row'')
      else bindR (parse_or ''failed to parse host name'' (ParseStringValue (parser g) (row ! 0))) (\<lambda>hostName.
           bindR (parse_or ''failed to parse is_writer'' (ParseBoolValue (parser g) (row ! 1))) (\<lambda>isWriter.
             let nodeLag = fst (ParseRoundedFloat (parser g) (row ! 2));
                 weight = nodeLag * 100
             in bindR (parse_or ''failed to parse aws_region'' (ParseStringValue (parser g) (row ! 3))) (\<lambda>awsRegion.
                  case map_of instanceTemplatesByRegion awsRegion of
                    None \<Rightarrow> Inl (NewGenericAwsWrapperError ''GlobalAuroraTopologyMonitor.cannotFindRegionTemplate'')
                  | Some regionTemplate \<Rightarrow>
                      created (CreateHost hostName hostName isWriter weight clock initialHost regionTemplate)))))"

definition QueryForTopologyByRegion ::
  "topology_env \<Rightarrow> (nat \<Rightarrow> time) \<Rightarrow> TopologyUtils \<Rightarrow> query_conn \<Rightarrow> HostInfo option \<Rightarrow> (string, HostInfo option) gomap
     \<Rightarrow> go_error + HostInfo list" where
  "QueryForTopologyByRegion env clock g conn initialHost instanceTemplatesByRegion =
     bindR (query_of (GetTopologyQuery (tu_dialect g))) (\<lambda>q.
     bindR (executeQuery conn q (queryTimeoutMs g)) (\<lambda>rows.
       topology_from_rows env (\<lambda>i row. Global_createHostFromRow g (clock i) row initialHost instanceTemplatesByRegion) rows))"

definition GetRegion :: "TopologyUtils \<Rightarrow> string \<Rightarrow> query_conn \<Rightarrow> go_error + string" where
  "GetRegion g instanceId conn =
     (case conn of
        None \<Rightarrow> Inl not_queryer
      | Some queryContext \<Rightarrow>
          bindR (query_of (GetRegionByInstanceIdQuery (tu_dialect g))) (\<lambda>q.
          bindR (queryContext q None [VString instanceId]) (\<lambda>rows.
            case first_row 1 rows of
              Some (v # _) \<Rightarrow> (let (region, ok) = ParseStringValue (parser g) v in Inr (if ok \<and> region \<noteq> '''' then region else ''''))
            | _ \<Rightarrow> Inr '''')))"

subsection \<open>Instance templates by region\<close>

definition is_domain_char :: "char \<Rightarrow> bool" where
  "is_domain_char c \<longleftrightarrow> is_alnum c \<or> c \<in> {CHR ''?'', CHR ''.'', CHR ''-''}"

definition urlWithRegionPattern :: regexp where
  "urlWithRegionPattern =
     RSeqs [RBegin,
            ROpt (RSeqs [RChr (CHR ''[''), RGroup ''region'' (RPlus RAny), RChr (CHR '']'')]),
            RGroup ''domain'' (RPlus (RSet is_domain_char)),
            ROpt (RSeq (RChr (CHR '':'')) (RGroup ''port'' (RPlus (RSet is_digit)))),
            REnd]"

text \<open>\<open>fmt.Sscanf(port, "%d", &port)\<close> reads a run of digits and fails when the number does not fit an \<open>int\<close>.\<close>

definition parseHostPortPairWithRegionPrefix :: "string \<Rightarrow> int \<Rightarrow> (string \<times> HostInfo) rds" where
  "parseHostPortPairWithRegionPrefix urlWithRegionPrefix defaultPort =
     (case FindStringSubmatch urlWithRegionPattern urlWithRegionPrefix of
        None \<Rightarrow> lift (Inl (NewGenericAwsWrapperError (''cannot parse URL: '' @ urlWithRegionPrefix)))
      | Some m \<Rightarrow>
          (let host = group_val m ''domain''; portText = group_val m ''port''
           in if host = '''' then lift (Inl (NewGenericAwsWrapperError (''cannot parse host from: '' @ urlWithRegionPrefix)))
              else bindS (if group_val m ''region'' = '''' then GetRdsRegion host else ret (group_val m ''region'')) (\<lambda>awsRegion.
                     if awsRegion = '''' then
                       lift (Inl (NewGenericAwsWrapperError (''cannot parse AWS region from: '' @ urlWithRegionPrefix)))
                     else lift (bindR (if portText = '''' then Inr defaultPort
                                       else (case Atoi portText of
                                               None \<Rightarrow> Inl (ErrorsNew ''integer overflow on token'')
                                             | Some p \<Rightarrow> Inr p))
                            (\<lambda>port. bindR (Build (SetPort port (SetHost host NewHostInfoBuilder)))
                               (\<lambda>hostInfo. Inr (awsRegion, hostInfo)))))))"

fun parse_templates :: "string list \<Rightarrow> int \<Rightarrow> (string, HostInfo option) gomap \<Rightarrow> (string, HostInfo option) gomap rds" where
  "parse_templates [] defaultPort result = ret result"
| "parse_templates (entry # entries) defaultPort result =
     (if TrimSpace entry = '''' then parse_templates entries defaultPort result
      else bindS (parseHostPortPairWithRegionPrefix (TrimSpace entry) defaultPort)
             (\<lambda>(region, hostInfo). parse_templates entries defaultPort (mput region (Some hostInfo) result)))"

definition ParseInstanceTemplates :: "string \<Rightarrow> int \<Rightarrow> (string, HostInfo option) gomap rds" where
  "ParseInstanceTemplates instanceTemplatesString defaultPort =
     (if instanceTemplatesString = '''' then
        lift (Inl (NewGenericAwsWrapperError ''GlobalAuroraTopologyUtils.globalClusterInstanceHostPatternsRequired''))
      else parse_templates (Split instanceTemplatesString (CHR '','')) defaultPort [])"

section \<open>What is kept of the rows\<close>

definition newest :: "HostInfo list \<Rightarrow> HostInfo \<Rightarrow> bool" where
  "newest records h \<longleftrightarrow>
     h \<in> set records \<and> (\<forall>r \<in> set records. Host r = Host h \<longrightarrow> LastUpdateTime r \<le> LastUpdateTime h)"

text \<open>A map that has one newest record for every host name of the records, and nothing else.\<close>

definition holds_newest :: "HostInfo list \<Rightarrow> (string, HostInfo) gomap \<Rightarrow> bool" where
  "holds_newest records m \<longleftrightarrow>
     wf_map m \<and> fst ` set m = Host ` set records \<and> (\<forall>(n, h) \<in> set m. Host h = n \<and> newest records h)"

definition records_of :: "(go_error + HostInfo) list \<Rightarrow> HostInfo list" where
  "records_of rs = concat (map (\<lambda>r. case r of Inr h \<Rightarrow> [h] | Inl _ \<Rightarrow> []) rs)"

lemma records_of_simps [simp]:
  "records_of [] = []" "records_of (Inl e # rs) = records_of rs" "records_of (Inr h # rs) = h # records_of rs"
  by (simp_all add: records_of_def)

lemma set_mput: "wf_map m \<Longrightarrow> set (mput k v m) = insert (k, v) {kv \<in> set m. fst kv \<noteq> k}"
  unfolding wf_map_def mput_def by (induction m) force+

lemma holds_newest_Nil [simp]: "holds_newest [] []"
  by (simp add: holds_newest_def)

lemma newest_old: "newest records h \<Longrightarrow> Host host \<noteq> Host h \<Longrightarrow> newest (records @ [host]) h"
  by (auto simp: newest_def)

lemma keep_newer_holds:
  assumes "holds_newest records m"
  shows "holds_newest (records @ [host]) (keep_newer host m)"
proof -
  have wf: "wf_map m" and dom: "fst ` set m = Host ` set records"
    and new: "\<And>n h. (n, h) \<in> set m \<Longrightarrow> Host h = n \<and> newest records h"
    using assms by (auto simp: holds_newest_def)
  have put: "holds_newest (records @ [host]) (mput (Host host) host m)"
    if "\<forall>r \<in> set records. Host r = Host host \<longrightarrow> LastUpdateTime r \<le> LastUpdateTime host"
  proof -
    have "newest (records @ [host]) host" using that by (auto simp: newest_def)
    moreover have "newest (records @ [host]) h \<and> Host h = n" if "(n, h) \<in> set m" "n \<noteq> Host host" for n h
      using new [OF that(1)] that(2) newest_old by simp
    moreover have "fst ` set (mput (Host host) host m) = insert (Host host) (fst ` set m)" using wf by (auto simp: set_mput image_iff)
    ultimately show ?thesis using wf dom by (auto simp: holds_newest_def set_mput)
  qed
  show ?thesis
  proof (cases "map_of m (Host host)")
    case None
    then have "Host host \<notin> Host ` set records" using dom by (simp add: map_of_eq_None_iff)
    then have "holds_newest (records @ [host]) (mput (Host host) host m)" using put by (metis imageI)
    then show ?thesis using None by (simp add: keep_newer_def)
  next
    case (Some existing)
    then have mem: "(Host host, existing) \<in> set m" by (rule map_of_SomeD)
    then have ex: "Host existing = Host host" "newest records existing" using new by auto
    show ?thesis
    proof (cases "LastUpdateTime existing < LastUpdateTime host")
      case True
      then have "holds_newest (records @ [host]) (mput (Host host) host m)" using put ex by (fastforce simp: newest_def)
      then show ?thesis using Some True by (simp add: keep_newer_def)
    next
      case False
      have "newest (records @ [host]) h \<and> Host h = n" if "(n, h) \<in> set m" for n h
      proof (cases "n = Host host")
        case True
        then have "h = existing" using wf mem that unfolding wf_map_def by (metis eq_key_imp_eq_value)
        then show ?thesis using ex True False by (auto simp: newest_def)
      qed (use new [OF that] newest_old in simp)
      moreover have "Host host \<in> Host ` set records" using mem dom by (metis fst_conv imageI)
      ultimately show ?thesis using wf dom Some False by (auto simp: holds_newest_def keep_newer_def insert_absorb)
    qed
  qed
qed

lemma collect_hosts_holds:
  "collect_hosts rs m = Inr m' \<Longrightarrow> holds_newest records m \<Longrightarrow> holds_newest (records @ records_of rs) m'"
proof (induction rs m arbitrary: records rule: collect_hosts.induct)
  case (4 host rs m)
  then show ?case using keep_newer_holds [of records m host] by fastforce
qed simp_all

section \<open>The topology that results\<close>

definition newest_first :: "(HostInfo list \<Rightarrow> HostInfo list) \<Rightarrow> bool" where
  "newest_first f \<longleftrightarrow>
     (\<forall>ws. mset (f ws) = mset ws \<and> sorted_wrt (\<lambda>a b. LastUpdateTime b \<le> LastUpdateTime a) (f ws))"

definition proper_env :: "topology_env \<Rightarrow> bool" where
  "proper_env env \<longleftrightarrow> newest_first (sort_writers env) \<and> (\<forall>hs. mset (map_order env hs) = mset hs)"

text \<open>Of a set of hosts: nothing when it has no writer, and otherwise a newest writer followed by the others.\<close>

definition led_by_writer :: "HostInfo set \<Rightarrow> HostInfo list \<Rightarrow> bool" where
  "led_by_writer H hosts \<longleftrightarrow>
     (if \<exists>h \<in> H. Role h = WRITER
      then \<exists>w rs. hosts = w # rs \<and> w \<in> H \<and> Role w = WRITER \<and>
             (\<forall>h \<in> H. Role h = WRITER \<longrightarrow> LastUpdateTime h \<le> LastUpdateTime w) \<and> set rs = {h \<in> H. Role h \<noteq> WRITER}
      else hosts = [])"

lemma verifyWriter_led:
  assumes "newest_first (sort_writers env)"
  shows "led_by_writer (set hosts) (verifyWriter env hosts)"
proof -
  define writers where "writers = filter (\<lambda>h. Role h = WRITER) hosts"
  define ws where "ws = (if length writers > 1 then sort_writers env writers else writers)"
  have ms: "mset ws = mset writers" using assms by (auto simp: ws_def newest_first_def)
  then have sw: "set ws = {h \<in> set hosts. Role h = WRITER}" using set_mset_mset [of ws] by (simp add: writers_def)
  have srt: "sorted_wrt (\<lambda>a b. LastUpdateTime b \<le> LastUpdateTime a) ws"
  proof (cases "length writers > 1")
    case False
    then have "writers = [] \<or> (\<exists>w. writers = [w])" by (cases writers) auto
    then show ?thesis using False by (auto simp: ws_def)
  qed (use assms in \<open>auto simp: ws_def newest_first_def\<close>)
  have eq: "verifyWriter env hosts = (case ws of [] \<Rightarrow> [] | w # _ \<Rightarrow> w # filter (\<lambda>h. Role h \<noteq> WRITER) hosts)"
    by (simp add: verifyWriter_def ws_def writers_def Let_def)
  show ?thesis
  proof (cases ws)
    case Nil
    then show ?thesis using sw eq by (auto simp: led_by_writer_def)
  next
    case (Cons w ws')
    then have w: "w \<in> set hosts" "Role w = WRITER" using sw by auto
    have "LastUpdateTime h \<le> LastUpdateTime w" if "h \<in> set hosts" "Role h = WRITER" for h
    proof -
      have "h \<in> set ws" using sw that by simp
      then show ?thesis using srt Cons by auto
    qed
    then show ?thesis using w eq Cons by (auto simp: led_by_writer_def)
  qed
qed

lemma verifyWriter_distinct:
  assumes "newest_first (sort_writers env)" "distinct (map Host hosts)"
  shows "distinct (map Host (verifyWriter env hosts))"
proof -
  have led: "led_by_writer (set hosts) (verifyWriter env hosts)" by (rule verifyWriter_led [OF assms(1)])
  have inj: "inj_on Host (set hosts)" using assms(2) by (simp add: distinct_map)
  have tail: "distinct (map Host (filter (\<lambda>h. Role h \<noteq> WRITER) hosts))" using assms(2) by (rule distinct_map_filter)
  show ?thesis
  proof (cases "verifyWriter env hosts")
    case (Cons w rs)
    then have "rs = filter (\<lambda>h. Role h \<noteq> WRITER) hosts" by (auto simp: verifyWriter_def Let_def split: list.splits if_splits)
    moreover have "w \<in> set hosts" "Role w = WRITER" using led Cons by (auto simp: led_by_writer_def split: if_splits)
    ultimately show ?thesis using tail inj Cons by (auto simp: inj_on_def)
  qed simp
qed

definition topology_of :: "HostInfo list \<Rightarrow> HostInfo list \<Rightarrow> bool" where
  "topology_of records hosts \<longleftrightarrow>
     distinct (map Host hosts) \<and>
     (\<exists>H. led_by_writer H hosts \<and> inj_on Host H \<and> Host ` H = Host ` set records \<and> (\<forall>h \<in> H. newest records h))"

lemma topology_from_rows_of:
  assumes "proper_env env" "topology_from_rows env f rs = Inr hosts"
  shows "topology_of (records_of (map (\<lambda>(i, row). f i (next_row (length (Columns rs)) row)) (enumerate 0 (Rows rs)))) hosts"
proof -
  let ?results = "map (\<lambda>(i, row). f i (next_row (length (Columns rs)) row)) (enumerate 0 (Rows rs))"
  obtain m where m: "collect_hosts ?results [] = Inr m" "hosts = verifyWriter env (map_order env (map snd m))"
    using assms(2) by (auto simp: topology_from_rows_def bindR_Inr_iff split: if_splits)
  have h: "holds_newest (records_of ?results) m" using collect_hosts_holds [OF m(1), of "[]"] by simp
  then have names: "map Host (map snd m) = map fst m" by (auto simp: holds_newest_def)
  have perm: "mset (map_order env (map snd m)) = mset (map snd m)" using assms(1) by (simp add: proper_env_def)
  then have s: "set (map_order env (map snd m)) = snd ` set m" by (metis list.set_map set_mset_mset)
  have "mset (map Host (map_order env (map snd m))) = mset (map fst m)" using perm names by (metis mset_map)
  then have d: "distinct (map Host (map_order env (map snd m)))"
    using h by (metis holds_newest_def wf_map_def mset_eq_imp_distinct_iff)
  have nf: "newest_first (sort_writers env)" using assms(1) by (simp add: proper_env_def)
  have "led_by_writer (snd ` set m) hosts" using verifyWriter_led [OF nf, of "map_order env (map snd m)"] m(2) s by simp
  moreover have "inj_on Host (snd ` set m)" using d s by (metis distinct_map)
  moreover have "Host ` snd ` set m = Host ` set (records_of ?results)" "\<forall>h \<in> snd ` set m. newest (records_of ?results) h"
    using h names by (auto simp: holds_newest_def image_image)
  moreover have "distinct (map Host hosts)" using verifyWriter_distinct [OF nf d] m(2) by simp
  ultimately show ?thesis unfolding topology_of_def by blast
qed

text \<open>The two other kinds of cluster build their topology by the same steps.\<close>

lemma MultiAz_QueryForTopology_of:
  assumes "proper_env env" "MultiAz_QueryForTopology env clock m conn initialHost instanceTemplate = Inr hosts"
  shows "\<exists>writerId q rs. getWriterId m conn = Inr writerId \<and> GetTopologyQuery (tu_dialect m) = Some q \<and>
     executeQuery conn q (queryTimeoutMs m) = Inr rs \<and>
     topology_of (records_of (map (\<lambda>(i, row). MultiAz_createHostFromRow m (clock i) (next_row (length (Columns rs)) row)
       initialHost instanceTemplate writerId) (enumerate 0 (Rows rs)))) hosts"
  using assms topology_from_rows_of [OF assms(1)]
  by (fastforce simp: MultiAz_QueryForTopology_def bindR_Inr_iff query_of_def split: option.splits)

lemma QueryForTopologyByRegion_of:
  assumes "proper_env env" "QueryForTopologyByRegion env clock g conn initialHost templates = Inr hosts"
  shows "\<exists>q rs. GetTopologyQuery (tu_dialect g) = Some q \<and> executeQuery conn q (queryTimeoutMs g) = Inr rs \<and>
     topology_of (records_of (map (\<lambda>(i, row). Global_createHostFromRow g (clock i) (next_row (length (Columns rs)) row)
       initialHost templates) (enumerate 0 (Rows rs)))) hosts"
  using assms topology_from_rows_of [OF assms(1)]
  by (fastforce simp: QueryForTopologyByRegion_def bindR_Inr_iff query_of_def split: option.splits)

text \<open>A created host is well formed, carries its instance's name among its aliases and takes the template's port, or
  that of the initial host when the template has none.\<close>

lemma CreateHost_Some:
  assumes "CreateHost hostId name isWriter weight t initialHost (Some template) = Inr (Some h)"
  shows "wf_host h \<and> Host h = ReplaceFirst (Host template) ''?'' (if name = '''' then ''?'' else name) \<and> HostId h = hostId \<and>
     Role h = (if isWriter then WRITER else READER) \<and> Weight h = weight \<and> LastUpdateTime h = t \<and>
     Port h = (if Port template \<noteq> HOST_NO_PORT then Port template
               else case initialHost of None \<Rightarrow> HOST_NO_PORT | Some i \<Rightarrow> Port i)"
  using assms
  by (auto simp: CreateHost_def Let_def builder_defs bindR_Inr_iff AddAlias_def wf_host_def IsPortSpecified_def GetHostAndPort_def
      split: if_splits option.splits sum.splits)

section \<open>Properties\<close>

text \<open>C14: A topology read from an Aurora database has each host name once. It is empty when no host's newest record is a
  writer's; otherwise its first host is the writer with the newest record, the only writer of the list, and the rest
  are exactly the hosts whose newest record is not a writer's. For every host name it is a newest of the records that
  could be parsed; a row that cannot be parsed is left out.\<close>
theorem Aurora_QueryForTopology_of:
  assumes "proper_env env" "GetTopologyQuery (tu_dialect a) = Some q" "executeQuery conn q (queryTimeoutMs a) = Inr rs"
    "Aurora_QueryForTopology env clock a conn initialHost instanceTemplate = Inr hosts"
  shows "topology_of (records_of (map (\<lambda>(i, row). Aurora_createHostFromRow a (clock i) (next_row (length (Columns rs)) row)
     initialHost instanceTemplate) (enumerate 0 (Rows rs)))) hosts"
  using assms topology_from_rows_of [OF assms(1)]
  by (simp add: Aurora_QueryForTopology_def bindR_Inr_iff query_of_def)

definition stable_env :: topology_env where
  "stable_env = \<lparr>map_order = id, sort_writers = sort_key (\<lambda>h. - LastUpdateTime h)\<rparr>"

lemma stable_env_proper: "proper_env stable_env"
proof -
  have "sorted_wrt (\<lambda>a b. LastUpdateTime b \<le> LastUpdateTime a) (sort_key (\<lambda>h. - LastUpdateTime h) ws)" for ws :: "HostInfo list"
    using sorted_sort_key [of "\<lambda>h. - LastUpdateTime h" ws] by (simp add: sorted_map)
  then show ?thesis by (simp add: proper_env_def newest_first_def stable_env_def)
qed

definition two_writers_conn :: query_conn where
  "two_writers_conn = Some (\<lambda>_ _ _. Inr \<lparr>Columns = [''id'', ''w'', ''c'', ''l'', ''t''],
     Rows = [[VString ''a'', VBool True, VNil, VNil, VInt64 1], [VString ''b'', VBool False, VNil, VNil, VInt64 1],
             [VString ''b'', VBool True, VNil, VNil, VInt64 2], [VString ''c'', VBool False, VNil, VNil, VInt64 1],
             [VNil, VBool False, VNil, VNil, VNil]]\<rparr>)"

definition pg_utils :: TopologyUtils where
  "pg_utils = \<lparr>tu_dialect = AuroraPgDatabaseDialect,
     parser = \<lparr>ParseStringValue = Pgx_ParseString, ParseBoolValue = Pgx_ParseBool, ParseRoundedFloat = Pgx_ParseInt64, ParseTimeValue = Pgx_ParseInt64\<rparr>,
     queryTimeoutMs = 5000\<rparr>"

lemma Aurora_QueryForTopology_of_witness:
  "\<exists>hosts. Aurora_QueryForTopology stable_env (\<lambda>_. 9) pg_utils two_writers_conn None (Some (small_host ''?.x'' 5 WRITER)) = Inr hosts \<and>
     map Host hosts = [''b.x'', ''c.x''] \<and> distinct (map Host hosts)"
proof -
  let ?t = "Some (small_host ''?.x'' 5 WRITER)"
  obtain rs where rs: "executeQuery two_writers_conn AuroraPg_GetTopologyQuery (queryTimeoutMs pg_utils) = Inr rs"
    by (simp add: executeQuery_def two_writers_conn_def)
  obtain hosts where hosts: "Aurora_QueryForTopology stable_env (\<lambda>_. 9) pg_utils two_writers_conn None ?t = Inr hosts"
    "map Host hosts = [''b.x'', ''c.x'']"
  proof -
    have "map_sum id (map Host) (Aurora_QueryForTopology stable_env (\<lambda>_. 9) pg_utils two_writers_conn None ?t) = Inr [''b.x'', ''c.x'']"
      by code_simp
    then show thesis using that by (cases "Aurora_QueryForTopology stable_env (\<lambda>_. 9) pg_utils two_writers_conn None ?t") auto
  qed
  have "GetTopologyQuery (tu_dialect pg_utils) = Some AuroraPg_GetTopologyQuery" by (simp add: pg_utils_def)
  then show ?thesis
    using Aurora_QueryForTopology_of [OF stable_env_proper _ rs hosts(1)] hosts by (auto simp: topology_of_def)
qed

end
