(* ===== verification/Go_Effects.thy ===== *)
theory Go_Effects
  imports Go_Base
begin

text \<open>
  Programs on a state that may return an error: the shape of most methods of the plugins and monitors. A method
  \<open>func (r *T) M(...) (A, error)\<close> is a \<open>('s, A) prog\<close>; what it did to the state before an error stays done.
\<close>

type_synonym ('s, 'a) prog = "'s \<Rightarrow> 's \<times> (go_error + 'a)"

definition returnP :: "'a \<Rightarrow> ('s, 'a) prog" where
  "returnP a s = (s, Inr a)"

definition failP :: "go_error \<Rightarrow> ('s, 'a) prog" where
  "failP e s = (s, Inl e)"

definition bindP :: "('s, 'a) prog \<Rightarrow> ('a \<Rightarrow> ('s, 'b) prog) \<Rightarrow> ('s, 'b) prog" where
  "bindP m f s = (case m s of (s', Inl e) \<Rightarrow> (s', Inl e) | (s', Inr a) \<Rightarrow> f a s')"

text \<open>A call whose error the caller looks at: the error becomes a value. A panic is not caught.\<close>

definition attempt :: "('s, 'a) prog \<Rightarrow> ('s, go_error + 'a) prog" where
  "attempt m s = (case m s of (s', Inl (Panic e)) \<Rightarrow> (s', Inl (Panic e)) | (s', r) \<Rightarrow> (s', Inr r))"

definition liftP :: "go_error + 'a \<Rightarrow> ('s, 'a) prog" where
  "liftP r s = (s, r)"

definition getsP :: "('s \<Rightarrow> 'a) \<Rightarrow> ('s, 'a) prog" where
  "getsP f s = (s, Inr (f s))"

definition modifyP :: "('s \<Rightarrow> 's) \<Rightarrow> ('s, unit) prog" where
  "modifyP f s = (f s, Inr ())"

section \<open>Running a program\<close>

lemma bindP_run:
  "m s = (s', Inr a) \<Longrightarrow> bindP m f s = f a s'"
  "m s = (s', Inl e) \<Longrightarrow> bindP m f s = (s', Inl e)"
  by (simp_all add: bindP_def)

lemma prog_simps [simp]:
  "returnP a s = (s, Inr a)" "failP e s = (s, Inl e)" "liftP r s = (s, r)" "getsP f s = (s, Inr (f s))" "modifyP g s = (g s, Inr ())"
  by (simp_all add: returnP_def failP_def liftP_def getsP_def modifyP_def)

lemma bindP_simps [simp]:
  "bindP (returnP a) f = f a" "bindP (failP e) f = failP e"
  "bindP (getsP g) f s = f (g s) s" "bindP (modifyP h) k s = k () (h s)"
  by (simp_all add: bindP_def fun_eq_iff)

lemma bindP_assoc: "bindP (bindP m f) g = bindP m (\<lambda>a. bindP (f a) g)"
  by (rule ext) (simp add: bindP_def split: prod.splits sum.splits)

lemma bindP_Inr_iff: "bindP m f s = (s', Inr b) \<longleftrightarrow> (\<exists>s1 a. m s = (s1, Inr a) \<and> f a s1 = (s', Inr b))"
  by (auto simp: bindP_def split: prod.splits sum.splits)

lemma bindP_cases:
  obtains (err) s1 e where "m s = (s1, Inl e)" "bindP m f s = (s1, Inl e)"
    | (val) s1 a where "m s = (s1, Inr a)" "bindP m f s = f a s1"
  by (cases "m s", cases "snd (m s)") (auto simp: bindP_def)

lemma attempt_run:
  "m s = (s', Inr a) \<Longrightarrow> attempt m s = (s', Inr (Inr a))"
  "m s = (s', Inl e) \<Longrightarrow> (\<And>p. e \<noteq> Panic p) \<Longrightarrow> attempt m s = (s', Inr (Inl e))"
  by (auto simp: attempt_def split: go_error.splits)

section \<open>What a program keeps\<close>

named_theorems keeps_rules \<open>how what a program keeps follows from its parts\<close>

text \<open>\<open>keeps P m\<close>: whatever \<open>m\<close> returns, it takes states with \<open>P\<close> to states with \<open>P\<close>.\<close>

definition keeps :: "('s \<Rightarrow> bool) \<Rightarrow> ('s, 'a) prog \<Rightarrow> bool" where
  "keeps P m \<longleftrightarrow> (\<forall>s. P s \<longrightarrow> P (fst (m s)))"

lemma keepsI: "(\<And>s. P s \<Longrightarrow> P (fst (m s))) \<Longrightarrow> keeps P m"
  by (simp add: keeps_def)

lemma keepsD: "keeps P m \<Longrightarrow> P s \<Longrightarrow> m s = (s', r) \<Longrightarrow> P s'"
  by (metis fst_conv keeps_def)

lemma keeps_return [simp, intro, keeps_rules]: "keeps P (returnP a)" "keeps P (failP e)" "keeps P (liftP r)" "keeps P (getsP f)"
  by (simp_all add: keeps_def)

lemma keeps_modify [intro]: "(\<And>s. P s \<Longrightarrow> P (f s)) \<Longrightarrow> keeps P (modifyP f)"
  by (simp add: keeps_def)

lemma keeps_bind [intro, keeps_rules]: "keeps P m \<Longrightarrow> (\<And>a. keeps P (f a)) \<Longrightarrow> keeps P (bindP m f)"
  unfolding keeps_def bindP_def by (force split: prod.splits sum.splits)

lemma keeps_attempt [intro, keeps_rules]: "keeps P m \<Longrightarrow> keeps P (attempt m)"
  unfolding keeps_def attempt_def by (force split: prod.splits sum.splits go_error.splits)

lemma keeps_cases [intro, keeps_rules]:
  "(\<And>e. keeps P (f e)) \<Longrightarrow> (\<And>a. keeps P (g a)) \<Longrightarrow> keeps P (case r of Inl e \<Rightarrow> f e | Inr a \<Rightarrow> g a)"
  "keeps P m \<Longrightarrow> (\<And>a. keeps P (h a)) \<Longrightarrow> keeps P (case x of None \<Rightarrow> m | Some a \<Rightarrow> h a)"
  "(\<And>a b. keeps P (k a b)) \<Longrightarrow> keeps P (case y of (a, b) \<Rightarrow> k a b)"
  "(b \<Longrightarrow> keeps P m) \<Longrightarrow> (\<not> b \<Longrightarrow> keeps P n) \<Longrightarrow> keeps P (if b then m else n)"
  by (simp_all split: sum.splits option.splits prod.splits)

section \<open>What a program returns\<close>

text \<open>\<open>ensures P m Q\<close>: run where \<open>P\<close> holds, what \<open>m\<close> returns without an error satisfies \<open>Q\<close> together with the state it
  leaves.\<close>

definition ensures :: "('s \<Rightarrow> bool) \<Rightarrow> ('s, 'a) prog \<Rightarrow> ('a \<Rightarrow> 's \<Rightarrow> bool) \<Rightarrow> bool" where
  "ensures P m Q \<longleftrightarrow> (\<forall>s s' a. P s \<longrightarrow> m s = (s', Inr a) \<longrightarrow> Q a s')"

lemma ensuresI: "(\<And>s s' a. P s \<Longrightarrow> m s = (s', Inr a) \<Longrightarrow> Q a s') \<Longrightarrow> ensures P m Q"
  by (simp add: ensures_def)

lemma ensuresD: "ensures P m Q \<Longrightarrow> P s \<Longrightarrow> m s = (s', Inr a) \<Longrightarrow> Q a s'"
  by (simp add: ensures_def)

lemma ensures_return [intro]: "(\<And>s. P s \<Longrightarrow> Q a s) \<Longrightarrow> ensures P (returnP a) Q"
  by (simp add: ensures_def)

lemma ensures_fail [simp, intro]: "ensures P (failP e) Q"
  by (simp add: ensures_def)

lemma ensures_gets [intro]: "(\<And>s. P s \<Longrightarrow> Q (f s) s) \<Longrightarrow> ensures P (getsP f) Q"
  by (simp add: ensures_def)

lemma ensures_modify [intro]: "(\<And>s. P s \<Longrightarrow> Q () (f s)) \<Longrightarrow> ensures P (modifyP f) Q"
  by (simp add: ensures_def)

lemma ensures_bind: "ensures P m R \<Longrightarrow> (\<And>a. ensures (R a) (f a) Q) \<Longrightarrow> ensures P (bindP m f) Q"
  unfolding ensures_def by (fastforce simp: bindP_Inr_iff)

lemma ensures_keeps: "keeps P m \<Longrightarrow> ensures P m (\<lambda>_. P)"
  unfolding ensures_def keeps_def by (metis fst_conv)

lemma ensures_if [intro]: "(b \<Longrightarrow> ensures P m Q) \<Longrightarrow> (\<not> b \<Longrightarrow> ensures P n Q) \<Longrightarrow> ensures P (if b then m else n) Q"
  by simp

lemma ensures_cases [intro]:
  "(\<And>e. ensures P (f e) Q) \<Longrightarrow> (\<And>a. ensures P (g a) Q) \<Longrightarrow> ensures P (case r of Inl e \<Rightarrow> f e | Inr a \<Rightarrow> g a) Q"
  "ensures P m Q \<Longrightarrow> (\<And>a. ensures P (h a) Q) \<Longrightarrow> ensures P (case x of None \<Rightarrow> m | Some a \<Rightarrow> h a) Q"
  "(\<And>a b. ensures P (k a b) Q) \<Longrightarrow> ensures P (case y of (a, b) \<Rightarrow> k a b) Q"
  by (simp_all split: sum.splits option.splits prod.splits)

text \<open>Programs whose first step says nothing about the state that matters afterwards.\<close>

lemma ensures_bind_keeps: "keeps P m \<Longrightarrow> (\<And>a. ensures P (f a) Q) \<Longrightarrow> ensures P (bindP m f) Q"
  by (rule ensures_bind [OF ensures_keeps])

end
