(* ===== verification/Rds_Host_List.thy ===== *)
theory Rds_Host_List
  imports Go_Effects Topology_Utils Dsn_Parser Plugin_Manager
begin

text \<open>
  The host lists of RDS clusters: \<open>awssql/driver_infrastructure/rds_host_list_provider.go\<close> and
  \<open>global_aurora_host_list_provider.go\<close>. A provider answers from the stored topology of its cluster, from the cluster's
  topology monitor, or from the hosts of the DSN. Its state holds the fields of the struct, the storage and the DNS
  caches it shares, and, in the extension, what the monitors keep. The monitor service and the monitors are reached
  through an interface record; \<open>confirmed\<close> is the plugin service's \<open>IsDialectConfirmed\<close>. The lock of \<open>init\<close> is left out.
\<close>

section \<open>State and interface\<close>

definition TOPOLOGY_CACHE_EXPIRATION_NANO :: duration where
  "TOPOLOGY_CACHE_EXPIRATION_NANO = 5 * 60 * 1000000000"

definition DEFAULT_TOPOLOGY_QUERY_TIMEOUT_MS :: int where
  "DEFAULT_TOPOLOGY_QUERY_TIMEOUT_MS = 5000"

record 'b RdsHostListProvider =
  properties :: props
  provider_isInitialized :: bool
  initialHostList :: "HostInfo list"
  provider_initialHostInfo :: "HostInfo option"
  clusterId :: string
  clusterInstanceTemplate :: "HostInfo option"
  refreshRateNanos :: duration
  instanceTemplatesByRegion :: "(string, HostInfo option) gomap"
  globalInitialized :: bool
  rds_caches :: rds_state
  provider_storage :: "'b cluster_storage"
  provider_events :: "storage_key Event list"
  told_initialHost :: "HostInfo option"

text \<open>The query strategies of the two kinds of provider.\<close>

datatype TopologyQueryStrategy =
    RdsTopologyQueryStrategy "HostInfo option" "HostInfo option"
  | GlobalAuroraTopologyQueryStrategy "HostInfo option" "HostInfo option" "(string, HostInfo option) gomap"

text \<open>What a new topology monitor is made from.\<close>

record monitor_config =
  mc_clusterId :: string
  mc_highRefreshRateNano :: duration
  mc_refreshRateNano :: duration
  mc_topologyCacheExpirationNano :: duration
  mc_monitoringProps :: props
  mc_initialHostInfo :: "HostInfo option"
  mc_clusterInstanceTemplate :: "HostInfo option"
  mc_strategy :: TopologyQueryStrategy

text \<open>\<open>RunIfAbsent\<close> answers the cluster's monitor, made from the configuration if there is none.\<close>

record ('s, 'm) monitor_interface =
  RunIfAbsent :: "monitor_config \<Rightarrow> ('s, 'm) prog"
  Monitor_ForceRefresh :: "'m \<Rightarrow> bool \<Rightarrow> int \<Rightarrow> ('s, HostInfo list) prog"
  StopAndRemove :: "string \<Rightarrow> 's \<Rightarrow> 's"

type_synonym ('b, 'z) provider = "('b, 'z) RdsHostListProvider_scheme"

definition NewRdsHostListProvider :: "props \<Rightarrow> rds_state \<Rightarrow> 'b cluster_storage \<Rightarrow> 'z \<Rightarrow> ('b, 'z) provider" where
  "NewRdsHostListProvider p dns store z =
     \<lparr>properties = p, provider_isInitialized = False, initialHostList = [], provider_initialHostInfo = None, clusterId = '''',
      clusterInstanceTemplate = None, refreshRateNanos = 0, instanceTemplatesByRegion = [], globalInitialized = False,
      rds_caches = dns, provider_storage = store, provider_events = [], told_initialHost = None, \<dots> = z\<rparr>"

definition with_caches :: "'a rds \<Rightarrow> (('b, 'z) provider, 'a) prog" where
  "with_caches m r = (case m (rds_caches r) of (res, dns) \<Rightarrow> (r\<lparr>rds_caches := dns\<rparr>, res))"

section \<open>Initialisation\<close>

text \<open>A pattern of the user that is an RDS proxy, a custom cluster or has no \<open>?\<close>, or cannot be parsed, is replaced
  by the pattern of the initial host.\<close>

definition usable_template :: "HostInfo \<Rightarrow> bool rds" where
  "usable_template template =
     bindS (IdentifyRdsUrlType (Host template)) (\<lambda>rdsUrlType.
       ret (\<not> (rdsUrlType = RDS_PROXY \<or> rdsUrlType = RDS_CUSTOM_CLUSTER \<or> \<not> Contains (Host template) ''?'')))"

text \<open>An error of \<open>ParseHostPortPair\<close> is looked at, so it becomes a value.\<close>

definition catchS :: "'a rds \<Rightarrow> (go_error + 'a) rds" where
  "catchS m s = (case m s of (Inl (Panic p), s') \<Rightarrow> (Inl (Panic p), s') | (r, s') \<Rightarrow> (Inr r, s'))"

definition choose_template :: "string \<Rightarrow> HostInfo \<Rightarrow> HostInfo \<Rightarrow> HostInfo rds" where
  "choose_template clusterInstancePattern initialHost defaultTemplate =
     (if clusterInstancePattern = '''' then ret defaultTemplate
      else bindS (catchS (ParseHostPortPair clusterInstancePattern (Port initialHost))) (\<lambda>res.
             case res of
               Inl _ \<Rightarrow> ret defaultTemplate
             | Inr template \<Rightarrow>
                 if IsNil (Some template) then ret defaultTemplate
                 else bindS (usable_template template) (\<lambda>ok. ret (if ok then template else defaultTemplate))))"

definition default_template :: "HostInfo \<Rightarrow> (go_error + HostInfo) rds" where
  "default_template initialHost =
     bindS (GetRdsInstanceHostPattern (Host initialHost)) (\<lambda>pattern.
       ret (Build (SetHostId (HostId initialHost) (SetPort (Port initialHost) (SetHost pattern NewHostInfoBuilder)))))"

definition Rds_init :: "(('b, 'z) provider, unit) prog" where
  "Rds_init r =
     (if provider_isInitialized r then (r, Inr ())
      else
       (let r1 = r\<lparr>refreshRateNanos := 1000000 * GetRefreshRateValue (Some (properties r)) CLUSTER_TOPOLOGY_REFRESH_RATE_MS\<rparr>
        in bindP (with_caches (GetHostsFromProps (properties r) False)) (\<lambda>(hosts, err).
             if err \<noteq> None \<or> hosts = [] then returnP ()
             else
               bindP (modifyP (\<lambda>r. r\<lparr>initialHostList := hosts, provider_initialHostInfo := Some (hd hosts), told_initialHost := Some (hd hosts)\<rparr>)) (\<lambda>_.
               bindP (with_caches (default_template (hd hosts))) (\<lambda>res.
                 case res of
                   Inl _ \<Rightarrow> returnP ()
                 | Inr defaultTemplate \<Rightarrow>
                     bindP (with_caches (choose_template
                              (as_string (GetVerifiedWrapperPropertyValue (Some (properties r)) CLUSTER_INSTANCE_HOST_PATTERN)) (hd hosts) defaultTemplate)) (\<lambda>template.
                     modifyP (\<lambda>r. r\<lparr>clusterInstanceTemplate := Some template,
                        clusterId := as_string (GetVerifiedWrapperPropertyValue (Some (properties r)) CLUSTER_ID), provider_isInitialized := True\<rparr>))))) r1))"

section \<open>Monitors\<close>

definition getMonitoringProps ::
  "((DriverPropertyKey \<times> int) list \<Rightarrow> (string, string) gomap) \<Rightarrow> props \<Rightarrow> props" where
  "getMonitoringProps CreateProps p =
     (let monitoringProps = NewRWMapFromMap (RWMap_GetAllEntries p);
          connectTimeoutMs = as_int (GetVerifiedWrapperPropertyValue (Some p) CLUSTER_TOPOLOGY_CONNECT_TIMEOUT_MS);
          socketTimeoutMs = as_int (GetVerifiedWrapperPropertyValue (Some p) CLUSTER_TOPOLOGY_SOCKET_TIMEOUT_MS)
      in fold (\<lambda>(k, v) m. fst (RWMap_Put k v m)) (CreateProps [(ConnectTimeout, connectTimeoutMs), (SocketTimeout, socketTimeoutMs)]) monitoringProps)"

definition createClusterTopologyMonitor ::
  "(('b, 'z) provider, 'm) monitor_interface \<Rightarrow> ((DriverPropertyKey \<times> int) list \<Rightarrow> (string, string) gomap) \<Rightarrow> TopologyQueryStrategy
     \<Rightarrow> (('b, 'z) provider, 'm) prog" where
  "createClusterTopologyMonitor mi CreateProps strategy r =
     RunIfAbsent mi
       \<lparr>mc_clusterId = clusterId r,
        mc_highRefreshRateNano = 1000000 * GetRefreshRateValue (Some (properties r)) CLUSTER_TOPOLOGY_HIGH_REFRESH_RATE_MS,
        mc_refreshRateNano = refreshRateNanos r, mc_topologyCacheExpirationNano = TOPOLOGY_CACHE_EXPIRATION_NANO,
        mc_monitoringProps = getMonitoringProps CreateProps (properties r), mc_initialHostInfo = provider_initialHostInfo r,
        mc_clusterInstanceTemplate = clusterInstanceTemplate r, mc_strategy = strategy\<rparr> r"

definition Rds_monitorCreator ::
  "(('b, 'z) provider, 'm) monitor_interface \<Rightarrow> ((DriverPropertyKey \<times> int) list \<Rightarrow> (string, string) gomap) \<Rightarrow> (('b, 'z) provider, 'm) prog" where
  "Rds_monitorCreator mi CreateProps =
     bindP Rds_init (\<lambda>_ r. createClusterTopologyMonitor mi CreateProps
       (RdsTopologyQueryStrategy (provider_initialHostInfo r) (clusterInstanceTemplate r)) r)"

section \<open>The operations of a provider\<close>

text \<open>The methods take the provider's monitor creator, since the global provider brings its own.\<close>

type_synonym ('b, 'z, 'm) creator = "(('b, 'z) provider, 'm) prog"

definition forceRefreshMonitor ::
  "bool \<Rightarrow> (('b, 'z) provider, 'm) monitor_interface \<Rightarrow> ('b, 'z, 'm) creator \<Rightarrow> bool \<Rightarrow> int \<Rightarrow> (('b, 'z) provider, HostInfo list) prog" where
  "forceRefreshMonitor confirmed mi monitorCreator verifyTopology timeoutMs =
     bindP Rds_init (\<lambda>_.
       if \<not> confirmed then getsP initialHostList
       else bindP monitorCreator (\<lambda>monitor. Monitor_ForceRefresh mi monitor verifyTopology timeoutMs))"

definition Rds_ForceRefresh ::
  "bool \<Rightarrow> (('b, 'z) provider, 'm) monitor_interface \<Rightarrow> ('b, 'z, 'm) creator \<Rightarrow> (('b, 'z) provider, HostInfo list) prog" where
  "Rds_ForceRefresh confirmed mi monitorCreator = forceRefreshMonitor confirmed mi monitorCreator False DEFAULT_TOPOLOGY_QUERY_TIMEOUT_MS"

definition GetClusterId :: "(('b, 'z) provider, string) prog" where
  "GetClusterId = bindP Rds_init (\<lambda>_. getsP clusterId)"

text \<open>The hosts of a stored topology are never nil here, since only \<open>NewTopology\<close> of host lists is stored.\<close>

definition getStoredHosts :: "time \<Rightarrow> (('b, 'z) provider, HostInfo list) prog" where
  "getStoredHosts t =
     bindP Rds_init (\<lambda>_ r.
       let (store, found, events) = Descriptor_Get t TopologyStorageType (StringKey (clusterId r)) (provider_storage r)
       in (r\<lparr>provider_storage := store, provider_events := provider_events r @ events\<rparr>,
           Inr (case found of None \<Rightarrow> [] | Some topology \<Rightarrow> map the (filter (\<lambda>h. h \<noteq> None) (Topology_GetHosts (Some topology))))))"

definition unable_to_gather :: go_error where
  "unable_to_gather = NewGenericAwsWrapperError ''RdsHostListProvider.unableToGatherTopology''"

definition getTopology ::
  "time \<Rightarrow> bool \<Rightarrow> (('b, 'z) provider, 'm) monitor_interface \<Rightarrow> ('b, 'z, 'm) creator \<Rightarrow> (('b, 'z) provider, HostInfo list \<times> bool) prog" where
  "getTopology t confirmed mi monitorCreator =
     bindP (getStoredHosts t) (\<lambda>hosts.
       if \<not> confirmed then getsP (\<lambda>r. (initialHostList r, False))
       else if hosts \<noteq> [] then returnP (hosts, True)
       else bindP (attempt (forceRefreshMonitor confirmed mi monitorCreator False DEFAULT_TOPOLOGY_QUERY_TIMEOUT_MS)) (\<lambda>res.
              case res of
                Inr (h # hs) \<Rightarrow> returnP (h # hs, False)
              | _ \<Rightarrow> (\<lambda>r. if initialHostList r \<noteq> [] then (r, Inr (initialHostList r, False)) else (r, Inl unable_to_gather))))"

definition Rds_Refresh ::
  "time \<Rightarrow> bool \<Rightarrow> (('b, 'z) provider, 'm) monitor_interface \<Rightarrow> ('b, 'z, 'm) creator \<Rightarrow> (('b, 'z) provider, HostInfo list) prog" where
  "Rds_Refresh t confirmed mi monitorCreator =
     bindP Rds_init (\<lambda>_. bindP (getTopology t confirmed mi monitorCreator) (\<lambda>(hosts, _). returnP hosts))"

definition Rds_ForceRefreshHostListWithTimeout ::
  "time \<Rightarrow> (('b, 'z) provider, 'm) monitor_interface \<Rightarrow> ('b, 'z, 'm) creator \<Rightarrow> bool \<Rightarrow> int \<Rightarrow> (('b, 'z) provider, HostInfo list) prog" where
  "Rds_ForceRefreshHostListWithTimeout t mi monitorCreator shouldVerifyWriter timeoutMs =
     bindP monitorCreator (\<lambda>monitor.
     bindP (Monitor_ForceRefresh mi monitor shouldVerifyWriter timeoutMs) (\<lambda>updatedHosts r.
       (if updatedHosts \<noteq> []
        then r\<lparr>provider_storage := fst (Descriptor_Set t TopologyStorageType (StringKey (clusterId r))
                 \<lparr>t_hosts = map Some updatedHosts\<rparr> (provider_storage r))\<rparr>
        else r, Inr updatedHosts)))"

fun findHost :: "HostInfo list \<Rightarrow> string \<Rightarrow> string \<Rightarrow> HostInfo option" where
  "findHost [] instanceId instanceName = None"
| "findHost (host # hs) instanceId instanceName =
     (if instanceId = HostId host \<or> instanceName = HostId host \<or> instanceName = Host host then Some host
      else findHost hs instanceId instanceName)"

definition unable_to_get_name :: go_error where
  "unable_to_get_name = NewGenericAwsWrapperError ''RdsHostListProvider.unableToGetHostName''"

definition found_host :: "HostInfo option \<Rightarrow> (('b, 'z) provider, HostInfo) prog" where
  "found_host foundHost = (if IsNil foundHost then failP unable_to_get_name else returnP (the foundHost))"

definition IdentifyConnection ::
  "time \<Rightarrow> bool \<Rightarrow> (('b, 'z) provider, 'm) monitor_interface \<Rightarrow> ('b, 'z, 'm) creator \<Rightarrow> TopologyUtils \<Rightarrow> query_conn
     \<Rightarrow> (('b, 'z) provider, HostInfo) prog" where
  "IdentifyConnection t confirmed mi monitorCreator utils conn =
     bindP Rds_init (\<lambda>_.
     bindP (liftP (GetInstanceId utils conn)) (\<lambda>(instanceId, instanceName).
       if instanceName = '''' then failP unable_to_get_name
       else bindP (Rds_Refresh t confirmed mi monitorCreator) (\<lambda>topology.
         if topology = []
         then bindP (Rds_ForceRefresh confirmed mi monitorCreator) (\<lambda>topology.
                if topology = [] then failP unable_to_gather else found_host (findHost topology instanceId instanceName))
         else if IsNil (findHost topology instanceId instanceName)
         then bindP (Rds_ForceRefresh confirmed mi monitorCreator) (\<lambda>topology. found_host (findHost topology instanceId instanceName))
         else found_host (findHost topology instanceId instanceName))))"

definition StopMonitor :: "(('b, 'z) provider, 'm) monitor_interface \<Rightarrow> ('b, 'z) provider \<Rightarrow> ('b, 'z) provider" where
  "StopMonitor mi r = StopAndRemove mi (clusterId r) r"

section \<open>Query strategies\<close>

definition Strategy_QueryForTopology ::
  "(HostInfo option \<Rightarrow> HostInfo option \<Rightarrow> go_error + HostInfo list) \<Rightarrow> (HostInfo option \<Rightarrow> (string, HostInfo option) gomap \<Rightarrow> go_error + HostInfo list)
     \<Rightarrow> TopologyQueryStrategy \<Rightarrow> go_error + HostInfo list" where
  "Strategy_QueryForTopology query queryByRegion strategy =
     (case strategy of
        RdsTopologyQueryStrategy initial template \<Rightarrow> query initial template
      | GlobalAuroraTopologyQueryStrategy initial template templates \<Rightarrow> queryByRegion initial templates)"

text \<open>No template means that the cluster's own is used.\<close>

definition GetInstanceTemplate :: "TopologyUtils \<Rightarrow> string \<Rightarrow> query_conn \<Rightarrow> TopologyQueryStrategy \<Rightarrow> go_error + HostInfo option" where
  "GetInstanceTemplate utils instanceId conn strategy =
     (case strategy of
        RdsTopologyQueryStrategy _ _ \<Rightarrow> Inr None
      | GlobalAuroraTopologyQueryStrategy _ _ templates \<Rightarrow>
          bindR (GetRegion utils instanceId conn) (\<lambda>region.
            if region = '''' then Inr None
            else (case map_of templates region of
                    None \<Rightarrow> Inl (NewGenericAwsWrapperError ''GlobalAuroraTopologyMonitor.cannotFindRegionTemplate'')
                  | Some template \<Rightarrow> Inr template)))"

section \<open>The provider of a global database\<close>

definition NewGlobalAuroraHostListProvider :: "props \<Rightarrow> rds_state \<Rightarrow> 'b cluster_storage \<Rightarrow> 'z \<Rightarrow> go_error + ('b, 'z) provider" where
  "NewGlobalAuroraHostListProvider p dns store z =
     (if Property_Get GLOBAL_CLUSTER_INSTANCE_HOST_PATTERNS (Some p) = ''''
      then Inl (NewGenericAwsWrapperError ''GlobalAuroraTopologyUtils.globalClusterInstanceHostPatternsRequired'')
      else Inr (NewRdsHostListProvider p dns store z))"

definition initGlobal :: "DatabaseDialect \<Rightarrow> (('b, 'z) provider, unit) prog" where
  "initGlobal d =
     bindP Rds_init (\<lambda>_ r.
       if globalInitialized r then (r, Inr ())
       else bindP (with_caches (ParseInstanceTemplates (Property_Get GLOBAL_CLUSTER_INSTANCE_HOST_PATTERNS (Some (properties r))) (GetDefaultPort d)))
              (\<lambda>templates. modifyP (\<lambda>r. r\<lparr>instanceTemplatesByRegion := templates, globalInitialized := True\<rparr>)) r)"

definition Global_monitorCreator ::
  "DatabaseDialect \<Rightarrow> (('b, 'z) provider, 'm) monitor_interface \<Rightarrow> ((DriverPropertyKey \<times> int) list \<Rightarrow> (string, string) gomap) \<Rightarrow> ('b, 'z, 'm) creator" where
  "Global_monitorCreator d mi CreateProps =
     bindP (initGlobal d) (\<lambda>_ r. createClusterTopologyMonitor mi CreateProps
       (GlobalAuroraTopologyQueryStrategy (provider_initialHostInfo r) (clusterInstanceTemplate r) (instanceTemplatesByRegion r)) r)"

section \<open>An initialised provider\<close>

lemma Rds_init_ready [simp]: "provider_isInitialized r \<Longrightarrow> Rds_init r = (r, Inr ())"
  by (simp add: Rds_init_def)

text \<open>Where the hosts of a refresh come from, in order: before the dialect is confirmed the DSN; then the stored
  topology, without asking the monitor; then the monitor; and the DSN again when the monitor has nothing.\<close>

definition stored_hosts :: "time \<Rightarrow> ('b, 'z) provider \<Rightarrow> HostInfo list" where
  "stored_hosts t r =
     (case fst (snd (Descriptor_Get t TopologyStorageType (StringKey (clusterId r)) (provider_storage r))) of
        None \<Rightarrow> [] | Some topology \<Rightarrow> map the (filter (\<lambda>h. h \<noteq> None) (t_hosts topology)))"

lemma getStoredHosts_ready:
  assumes "provider_isInitialized r" "getStoredHosts t r = (r', res)"
  shows "res = Inr (stored_hosts t r) \<and> initialHostList r' = initialHostList r \<and> clusterId r' = clusterId r \<and> provider_isInitialized r'"
  using assms
  by (auto simp: getStoredHosts_def bindP_def stored_hosts_def Topology_GetHosts_def split: prod.splits option.splits)

lemma Refresh_unconfirmed:
  assumes "provider_isInitialized r"
  shows "snd (Rds_Refresh t False mi creator r) = Inr (initialHostList r)"
proof -
  obtain r' res where g: "getStoredHosts t r = (r', res)" by (cases "getStoredHosts t r")
  then show ?thesis using getStoredHosts_ready [OF assms g] assms
    by (simp add: Rds_Refresh_def getTopology_def bindP_def split: prod.splits)
qed

lemma Refresh_stored:
  assumes "provider_isInitialized r" "stored_hosts t r \<noteq> []"
  shows "snd (Rds_Refresh t True mi creator r) = Inr (stored_hosts t r)"
proof -
  obtain r' res where g: "getStoredHosts t r = (r', res)" by (cases "getStoredHosts t r")
  then show ?thesis using getStoredHosts_ready [OF assms(1) g] assms
    by (simp add: Rds_Refresh_def getTopology_def bindP_def split: prod.splits)
qed

text \<open>An initialised provider refreshes without an error unless it has no hosts at all.\<close>

lemma Refresh_from_monitor:
  assumes "provider_isInitialized r" "stored_hosts t r = []" "getStoredHosts t r = (r1, Inr [])" "creator r1 = (r2, Inr mon)"
    "Monitor_ForceRefresh mi mon False DEFAULT_TOPOLOGY_QUERY_TIMEOUT_MS r2 = (r3, Inr hosts)"
  shows "snd (Rds_Refresh t True mi creator r) =
     (if hosts \<noteq> [] then Inr hosts else if initialHostList r3 \<noteq> [] then Inr (initialHostList r3) else Inl unable_to_gather)"
proof -
  have "provider_isInitialized r1" using getStoredHosts_ready [OF assms(1,3)] by simp
  then have "attempt (forceRefreshMonitor True mi creator False DEFAULT_TOPOLOGY_QUERY_TIMEOUT_MS) r1 = (r3, Inr (Inr hosts))"
    using assms(4,5) by (simp add: attempt_def forceRefreshMonitor_def bindP_def)
  then show ?thesis using assms(1,3)
    by (cases hosts) (simp_all add: Rds_Refresh_def getTopology_def bindP_def)
qed

lemma findHost_Some:
  "findHost hs i n = Some h \<Longrightarrow> h \<in> set hs \<and> (i = HostId h \<or> n = HostId h \<or> n = Host h)"
  by (induction hs) (auto split: if_splits)

section \<open>Properties\<close>

definition topology_registered :: "('b, 'z) provider \<Rightarrow> bool" where
  "topology_registered r \<longleftrightarrow> provider_isInitialized r \<and> st_inv_for ''Topology'' (5 * 60 * 1000000000) (provider_storage r)"

lemma TopologyStorageType_simps [simp]:
  "TypeKey TopologyStorageType = ''Topology''" "d_cast TopologyStorageType (d_wrap TopologyStorageType x) = Some x"
  by (simp_all add: TopologyStorageType_def)

lemma Set_then_stored:
  assumes "topology_registered r" "t \<le> t'"
  shows "stored_hosts t' (r\<lparr>provider_storage := fst (Descriptor_Set t TopologyStorageType (StringKey (clusterId r)) \<lparr>t_hosts = map Some hs\<rparr> (provider_storage r))\<rparr>) =
     (if t' \<le> t + TOPOLOGY_CACHE_EXPIRATION_NANO then hs else [])"
proof -
  have inv: "st_inv_for ''Topology'' (5 * 60 * 1000000000) (provider_storage r)" using assms(1) by (simp add: topology_registered_def)
  have "filter (\<lambda>h. h \<noteq> None) (map Some hs) = map Some hs" by (simp add: filter_True)
  then show ?thesis
    using storage.get_put [OF inv assms(2)]
    by (simp add: stored_hosts_def Descriptor_Get_result Descriptor_Set_def TOPOLOGY_CACHE_EXPIRATION_NANO_def comp_def)
qed

text \<open>The hosts that a forced refresh got from the topology monitor are, for five minutes, what a plain refresh answers,
  without asking the monitor again and whatever it would answer; provided that the monitor keeps the storage's topology
  type registered and the provider initialised, and the dialect is confirmed.\<close>
theorem Refresh_after_ForceRefresh:
  assumes creator: "keeps topology_registered creator" and monitor: "\<And>m v n. keeps topology_registered (Monitor_ForceRefresh mi m v n)"
    and "topology_registered r" "Rds_ForceRefreshHostListWithTimeout t mi creator shouldVerifyWriter timeoutMs r = (r', Inr hosts)"
    "hosts \<noteq> []" "t \<le> t'" "t' \<le> t + TOPOLOGY_CACHE_EXPIRATION_NANO"
  shows "snd (Rds_Refresh t' True mi' creator' r') = Inr hosts"
proof -
  obtain r1 mon where m: "creator r = (r1, Inr mon)"
    and rest: "bindP (Monitor_ForceRefresh mi mon shouldVerifyWriter timeoutMs) (\<lambda>updatedHosts r.
       (if updatedHosts \<noteq> []
        then r\<lparr>provider_storage := fst (Descriptor_Set t TopologyStorageType (StringKey (clusterId r)) \<lparr>t_hosts = map Some updatedHosts\<rparr> (provider_storage r))\<rparr>
        else r, Inr updatedHosts)) r1 = (r', Inr hosts)"
    using assms(4) by (auto simp: Rds_ForceRefreshHostListWithTimeout_def bindP_Inr_iff)
  obtain r2 where f: "Monitor_ForceRefresh mi mon shouldVerifyWriter timeoutMs r1 = (r2, Inr hosts)"
    and r': "r' = r2\<lparr>provider_storage := fst (Descriptor_Set t TopologyStorageType (StringKey (clusterId r2)) \<lparr>t_hosts = map Some hosts\<rparr> (provider_storage r2))\<rparr>"
    using rest assms(5) by (auto simp: bindP_Inr_iff)
  have reg: "topology_registered r2" using keepsD [OF monitor keepsD [OF creator assms(3) m] f] .
  then have "provider_isInitialized r'" by (simp add: r' topology_registered_def)
  moreover have "stored_hosts t' r' = hosts" using Set_then_stored [OF reg assms(6)] assms(7) r' by simp
  ultimately show ?thesis using Refresh_stored [of r' t' mi' creator'] assms(5) by simp
qed

definition ready_provider :: "(unit, unit) provider" where
  "ready_provider = (NewRdsHostListProvider NewRWMap (fresh_state None) (Descriptor_Register TopologyStorageType (NewExpiringStorage False)) ())
     \<lparr>provider_isInitialized := True\<rparr>"

definition answering :: "HostInfo list \<Rightarrow> ((unit, unit) provider, unit) monitor_interface" where
  "answering hs = \<lparr>RunIfAbsent = (\<lambda>_. returnP ()), Monitor_ForceRefresh = (\<lambda>_ _ _. returnP hs), StopAndRemove = (\<lambda>_ r. r)\<rparr>"

lemma ready_provider_registered: "topology_registered ready_provider"
proof -
  let ?s = "Descriptor_Register TopologyStorageType (NewExpiringStorage False) :: unit cluster_storage"
  have "st_inv ?s" by (simp add: Descriptor_Register_def st_inv_ops)
  then have "st_inv_for ''Topology'' (5 * 60 * 1000000000) ?s"
    by (simp add: st_inv_for_def Descriptor_Register_def type_cache_ops NewExpirationCache_def TopologyStorageType_def
        NewExpiringStorage_def type_cache_def Storage_Register_def)
  then show ?thesis by (simp add: topology_registered_def ready_provider_def NewRdsHostListProvider_def)
qed

lemma Refresh_after_ForceRefresh_witness:
  "let r' = fst (Rds_ForceRefreshHostListWithTimeout 0 (answering [small_host ''w'' 1 WRITER]) (returnP ()) True 5000 ready_provider)
   in snd (Rds_Refresh 7 True (answering []) (returnP ()) r') = Inr [small_host ''w'' 1 WRITER]"
proof -
  let ?mi = "answering [small_host ''w'' 1 WRITER]"
  let ?res = "Rds_ForceRefreshHostListWithTimeout 0 ?mi (returnP ()) True 5000 ready_provider"
  have run: "?res = (fst ?res, Inr [small_host ''w'' 1 WRITER])"
    by (simp add: Rds_ForceRefreshHostListWithTimeout_def answering_def)
  have "keeps topology_registered (Monitor_ForceRefresh ?mi m v n)" for m v n by (simp add: answering_def)
  then show ?thesis
    using Refresh_after_ForceRefresh [OF keeps_return(1) _ ready_provider_registered run, of 7 "answering []" "returnP ()"]
    by (simp add: TOPOLOGY_CACHE_EXPIRATION_NANO_def Let_def)
qed

end
