(* ===== verification/Service_Api.thy ===== *)
theory Service_Api
  imports Go_Effects Plugin_Service
begin

text \<open>
  The plugin service as the plugins see it: the methods of the interface \<open>PluginService\<close> of
  \<open>awssql/driver_infrastructure/plugin_helpers.go\<close> that the connection plugins call, over a state \<open>'sv\<close> of the service
  and connections \<open>'c\<close>. A plugin is modelled over any such record, so what is proved of it holds whatever the service
  and the other plugins do; \<open>service_api\<close> is the record of the modelled plugin service.
\<close>

record ('sv, 'c) PluginServiceApi =
  svc_GetHosts :: "'sv \<Rightarrow> 'sv \<times> HostInfo list"
  svc_GetAllHosts :: "'sv \<Rightarrow> HostInfo list"
  svc_Connect :: "HostInfo \<Rightarrow> props \<Rightarrow> ('sv, 'c option) prog"
  svc_ForceConnect :: "HostInfo \<Rightarrow> props \<Rightarrow> ('sv, 'c option) prog"
  svc_AcceptsStrategy :: "string \<Rightarrow> bool"
  svc_GetHostRole :: "'c option \<Rightarrow> 'sv \<Rightarrow> 'sv \<times> HostRole"
  svc_Close :: "'c \<Rightarrow> 'sv \<Rightarrow> 'sv"
  svc_IsClosed :: "'c \<Rightarrow> 'sv \<Rightarrow> bool"
  svc_SetCurrentConnection :: "'c option \<Rightarrow> HostInfo option \<Rightarrow> ('sv, unit) prog"
  svc_GetCurrentConnection :: "'sv \<Rightarrow> 'c option"
  svc_GetCurrentHostInfo :: "('sv, HostInfo) prog"
  svc_GetInitialConnectionHostInfo :: "'sv \<Rightarrow> HostInfo option"
  svc_SetInitialConnectionHostInfo :: "HostInfo \<Rightarrow> 'sv \<Rightarrow> 'sv"
  svc_SetAvailability :: "string set option \<Rightarrow> HostAvailability \<Rightarrow> 'sv \<Rightarrow> 'sv"
  svc_RefreshHostList :: "('sv, unit) prog"
  svc_ForceRefreshHostList :: "('sv, unit) prog"
  svc_ForceRefreshHostListWithTimeout :: "bool \<Rightarrow> int \<Rightarrow> 'sv \<Rightarrow> 'sv \<times> bool \<times> go_error option"
  svc_GetUpdatedHostListWithTimeout :: "bool \<Rightarrow> int \<Rightarrow> ('sv, HostInfo list) prog"
  svc_GetHostInfoByStrategy :: "HostRole \<Rightarrow> string \<Rightarrow> HostInfo list \<Rightarrow> ('sv, HostInfo option) prog"
  svc_IsInTransaction :: "'sv \<Rightarrow> bool"
  svc_SetInTransaction :: "bool \<Rightarrow> 'sv \<Rightarrow> 'sv"
  svc_Rollback :: "'c \<Rightarrow> 'sv \<Rightarrow> 'sv"
  svc_IsNetworkError :: "go_error \<Rightarrow> bool"
  svc_IsLoginError :: "go_error \<Rightarrow> bool"
  svc_FillAliases :: "'c \<Rightarrow> HostInfo \<Rightarrow> ('sv, HostInfo) prog"
  svc_IdentifyConnection :: "'c \<Rightarrow> ('sv, HostInfo option) prog"

definition of_pair :: "'s \<times> go_error option \<Rightarrow> 's \<times> (go_error + unit)" where
  "of_pair r = (fst r, case snd r of None \<Rightarrow> Inr () | Some e \<Rightarrow> Inl e)"

definition of_answer :: "'s \<times> 'a \<times> go_error option \<Rightarrow> 's \<times> (go_error + 'a)" where
  "of_answer r = (fst r, case snd (snd r) of None \<Rightarrow> Inr (fst (snd r)) | Some e \<Rightarrow> Inl e)"

text \<open>A map of aliases is visited in some order; the service only asks for membership, so any list will do.\<close>

definition alias_list :: "string set option \<Rightarrow> string list" where
  "alias_list as = (case as of None \<Rightarrow> [] | Some A \<Rightarrow> sorted_list_of_set A)"

text \<open>The modelled service: \<open>w\<close> are its surroundings, \<open>m\<close> the plugin manager, \<open>self\<close> the plugin that connects and is
  skipped. The role query and the classes of errors are the host list provider's and the driver dialect's.\<close>

definition service_api ::
  "(string \<Rightarrow> 't \<Rightarrow> 't) \<Rightarrow> ('t, 'c, 'tx, 'h, 'b, 'x) world \<Rightarrow> ('t, 'c, 'tx, 'h, 'b, 'x, 'v, 'sel) manager \<Rightarrow> nat \<Rightarrow> ('c option \<Rightarrow> HostRole)
     \<Rightarrow> (go_error \<Rightarrow> bool) \<Rightarrow> (go_error \<Rightarrow> bool) \<Rightarrow> (('t, 'c, 'tx, 'h, 'b, 'x) service, 'c) PluginServiceApi" where
  "service_api open_ctx w m self role_of isNetworkError isLoginError =
     \<lparr>svc_GetHosts = GetHosts w,
      svc_GetAllHosts = AllHosts,
      svc_Connect = (\<lambda>host props s. of_answer (Service_Connect open_ctx m (Some host) props (Some self) s)),
      svc_ForceConnect = (\<lambda>host props s. of_answer (Service_ForceConnect m (Some host) props s)),
      svc_AcceptsStrategy = (\<lambda>strategy. Manager_AcceptsStrategy strategy m),
      svc_GetHostRole = (\<lambda>conn s. (s, role_of conn)),
      svc_Close = (\<lambda>conn s. s\<lparr>effects := effects s @ [Closed conn]\<rparr>),
      svc_IsClosed = (\<lambda>conn s. IsClosed w conn),
      svc_SetCurrentConnection = (\<lambda>conn host s. of_pair (SetCurrentConnection w m conn host None s)),
      svc_GetCurrentConnection = currentConnection,
      svc_GetCurrentHostInfo =
        (\<lambda>s. case GetCurrentHostInfo w s of
               (s', _, Some e) \<Rightarrow> (s', Inl e) | (s', Some h, None) \<Rightarrow> (s', Inr h) | (s', None, None) \<Rightarrow> (s', Inl nil_dereference)),
      svc_GetInitialConnectionHostInfo = initialHostInfo,
      svc_SetInitialConnectionHostInfo = (\<lambda>host s. s\<lparr>initialHostInfo := Some host\<rparr>),
      svc_SetAvailability = (\<lambda>aliases availability s. Service_SetAvailability w m (alias_list aliases) availability s),
      svc_RefreshHostList = (\<lambda>s. of_pair (RefreshHostList w m s)),
      svc_ForceRefreshHostList = (\<lambda>s. of_pair (ForceRefreshHostList w m s)),
      svc_ForceRefreshHostListWithTimeout = ForceRefreshHostListWithTimeout w m,
      svc_GetUpdatedHostListWithTimeout =
        (\<lambda>verify timeoutMs s. case hostListProvider s of
           None \<Rightarrow> (s, Inl nil_dereference) | Some provider \<Rightarrow> of_answer (hlp_ForceRefreshWithTimeout w provider verify timeoutMs s)),
      svc_GetHostInfoByStrategy = (\<lambda>role strategy hosts s. of_answer (Manager_GetHostInfoByStrategy role strategy hosts m s)),
      svc_IsInTransaction = isInTransaction,
      svc_SetInTransaction = (\<lambda>b s. s\<lparr>isInTransaction := b\<rparr>),
      svc_Rollback = (\<lambda>conn s. s\<lparr>effects := effects s @ Rollback w conn (currentTx s)\<rparr>),
      svc_IsNetworkError = isNetworkError,
      svc_IsLoginError = isLoginError,
      svc_FillAliases =
        (\<lambda>conn host s. case FillAliases w conn (Some host) s of
           (s', Inl e) \<Rightarrow> (s', Inl e) | (s', Inr None) \<Rightarrow> (s', Inl nil_dereference) | (s', Inr (Some h)) \<Rightarrow> (s', Inr h)),
      svc_IdentifyConnection =
        (\<lambda>conn s. case hostListProvider s of
           None \<Rightarrow> (s, Inl nil_dereference) | Some provider \<Rightarrow> of_answer (hlp_IdentifyConnection w provider conn s))\<rparr>"

section \<open>Calling the service from a plugin\<close>

text \<open>The state of a plugin beside that of the service.\<close>

record 'sv plugin_frame =
  svc :: 'sv
  clock_reads :: nat
  dns_caches :: rds_state

definition callS :: "('sv, 'a) prog \<Rightarrow> (('sv, 'z) plugin_frame_scheme, 'a) prog" where
  "callS m p = (case m (svc p) of (v, r) \<Rightarrow> (p\<lparr>svc := v\<rparr>, r))"

definition askS :: "('sv \<Rightarrow> 'sv \<times> 'a) \<Rightarrow> (('sv, 'z) plugin_frame_scheme, 'a) prog" where
  "askS m p = (case m (svc p) of (v, a) \<Rightarrow> (p\<lparr>svc := v\<rparr>, Inr a))"

definition readS :: "('sv \<Rightarrow> 'a) \<Rightarrow> (('sv, 'z) plugin_frame_scheme, 'a) prog" where
  "readS f p = (p, Inr (f (svc p)))"

definition updS :: "('sv \<Rightarrow> 'sv) \<Rightarrow> (('sv, 'z) plugin_frame_scheme, unit) prog" where
  "updS f p = (p\<lparr>svc := f (svc p)\<rparr>, Inr ())"

definition dnsS :: "'a rds \<Rightarrow> (('sv, 'z) plugin_frame_scheme, 'a) prog" where
  "dnsS m p = (case m (dns_caches p) of (r, d) \<Rightarrow> (p\<lparr>dns_caches := d\<rparr>, r))"

text \<open>\<open>time.Now()\<close>: the next reading of the clock.\<close>

definition nowS :: "(nat \<Rightarrow> time) \<Rightarrow> (('sv, 'z) plugin_frame_scheme, time) prog" where
  "nowS clock p = (p\<lparr>clock_reads := Suc (clock_reads p)\<rparr>, Inr (clock (clock_reads p)))"

text \<open>Closing a nil connection is a call on a nil interface.\<close>

definition closeS :: "('sv, 'c) PluginServiceApi \<Rightarrow> 'c option \<Rightarrow> (('sv, 'z) plugin_frame_scheme, unit) prog" where
  "closeS api conn = (case conn of None \<Rightarrow> failP nil_dereference | Some c \<Rightarrow> updS (svc_Close api c))"

lemmas service_calls = callS_def askS_def readS_def updS_def dnsS_def nowS_def closeS_def

text \<open>None of the calls turns the clock back.\<close>

lemma clock_reads_calls [simp]:
  "clock_reads (fst (callS m p)) = clock_reads p" "clock_reads (fst (askS a p)) = clock_reads p"
  "clock_reads (fst (readS f p)) = clock_reads p" "clock_reads (fst (updS u p)) = clock_reads p"
  "clock_reads (fst (dnsS d p)) = clock_reads p" "clock_reads (fst (nowS clock p)) = Suc (clock_reads p)"
  "clock_reads (fst (closeS api conn p)) = clock_reads p"
  by (simp_all add: service_calls split: prod.splits option.splits)

text \<open>What does not depend on the service is kept by the calls to it.\<close>

lemma keeps_calls:
  assumes "\<And>p v. P p \<Longrightarrow> P (p\<lparr>svc := v\<rparr>)"
  shows "keeps P (callS m)" "keeps P (askS a)" "keeps P (readS f)" "keeps P (updS u)" "keeps P (closeS api conn)"
  using assms by (auto simp: keeps_def service_calls split: prod.splits option.splits)

lemma keeps_dns: "(\<And>p d. P p \<Longrightarrow> P (p\<lparr>dns_caches := d\<rparr>)) \<Longrightarrow> keeps P (dnsS m)"
  by (auto simp: keeps_def dnsS_def split: prod.splits)

definition is_panic :: "go_error \<Rightarrow> bool" where
  "is_panic e = (case e of Panic _ \<Rightarrow> True | _ \<Rightarrow> False)"

lemma attempt_Inr: "attempt m s = (s', Inr r) \<longleftrightarrow> m s = (s', r) \<and> (\<forall>e. r = Inl e \<longrightarrow> \<not> is_panic e)"
  by (auto simp: attempt_def is_panic_def split: prod.splits sum.splits go_error.splits)

fun error_text :: "go_error \<Rightarrow> string" where
  "error_text (AwsWrapperError msg _) = msg"
| "error_text (ErrorsNew msg) = msg"
| "error_text (ExternalError msg) = msg"
| "error_text (Panic msg) = msg"

end
