(* ===== verification/Failover.thy ===== *)
theory Failover
  imports Service_Api Wrapper_Properties
begin

text \<open>
  Failover: \<open>awssql/plugins/failover_plugin.go\<close> and the stale DNS helper it connects through,
  \<open>awssql/plugins/stale_dns_helper.go\<close>. The plugin acts on the plugin service of \<open>Service_Api\<close>. Every \<open>time.Now()\<close> is
  a reading of a clock given as a sequence, so the loop that tries readers until a deadline is a partial function: that
  it returns when the clock passes the deadline is a theorem. The telemetry counters are a log of their names; the
  telemetry contexts are left out.
\<close>

section \<open>State\<close>

datatype FailoverMode = MODE_STRICT_WRITER | MODE_STRICT_READER | MODE_READER_OR_WRITER | MODE_UNKNOWN

definition failoverModeFromValue :: "string \<Rightarrow> FailoverMode" where
  "failoverModeFromValue mode =
     (if mode = ''strict-writer'' then MODE_STRICT_WRITER
      else if mode = ''strict-reader'' then MODE_STRICT_READER
      else if mode = ''reader-or-writer'' then MODE_READER_OR_WRITER
      else MODE_UNKNOWN)"

text \<open>The fields that never change are the settings; \<open>fo_writerHostInfo\<close> is the stale DNS helper's.\<close>

record failover_settings =
  fo_props :: props
  failoverTimeoutMsSetting :: int
  failoverReaderHostSelectorStrategySetting :: string

record 'sv FailoverPlugin = "'sv plugin_frame" +
  failoverMode :: FailoverMode
  fo_isInTransaction :: bool
  fo_rdsUrlType :: RdsUrlType
  lastErrorDealtWith :: "go_error option"
  fo_writerHostInfo :: "HostInfo option"
  counted :: "string list"

type_synonym ('sv, 'z, 'a) failover_prog = "(('sv, 'z) FailoverPlugin_scheme, 'a) prog"

definition failover_counters :: "string list" where
  "failover_counters =
     [''writerFailover.triggered.count'', ''writerFailover.completed.success.count'', ''writerFailover.completed.failed.count'',
      ''readerFailover.triggered.count'', ''readerFailover.completed.success.count'', ''readerFailover.completed.failed.count'',
      ''staleDNS.stale.detected'']"

text \<open>The counters are created one after the other; \<open>CreateCounter\<close> is the telemetry factory's.\<close>

definition NewFailoverPlugin :: "(string \<Rightarrow> go_error option) \<Rightarrow> props \<Rightarrow> go_error + failover_settings" where
  "NewFailoverPlugin CreateCounter props =
     bindR (GetPositiveIntProperty (Some props) FAILOVER_TIMEOUT_MS) (\<lambda>timeout.
       case find (\<lambda>c. CreateCounter c \<noteq> None) failover_counters of
         Some c \<Rightarrow> Inl (the (CreateCounter c))
       | None \<Rightarrow> Inr \<lparr>fo_props = props, failoverTimeoutMsSetting = timeout,
                      failoverReaderHostSelectorStrategySetting =
                        as_string (GetVerifiedWrapperPropertyValue (Some props) FAILOVER_READER_HOST_SELECTOR_STRATEGY)\<rparr>)"

definition Inc :: "string \<Rightarrow> ('sv, 'z, unit) failover_prog" where
  "Inc counter p = (p\<lparr>counted := counted p @ [counter]\<rparr>, Inr ())"

section \<open>Stale DNS\<close>

text \<open>\<open>connectFunc\<close> answers a connection or an error. The hosts are also asked for to be logged, and a writer that is a
  cluster endpoint makes the source return no connection and no error.\<close>

definition refresh_topology :: "('sv, 'c) PluginServiceApi \<Rightarrow> bool \<Rightarrow> ('sv, 'z, unit) failover_prog" where
  "refresh_topology api isConnectedToReader =
     (if isConnectedToReader then callS (svc_ForceRefreshHostList api) else callS (svc_RefreshHostList api))"

text \<open>What becomes of the connection once the writer is known.\<close>

definition reconnect_to_writer ::
  "('sv, 'c) PluginServiceApi \<Rightarrow> bool \<Rightarrow> bool \<Rightarrow> props \<Rightarrow> 'c option \<Rightarrow> ('sv, 'z, 'c option) failover_prog" where
  "reconnect_to_writer api isConnectedToReader isInitialConnection props conn =
     bindP (getsP fo_writerHostInfo) (\<lambda>writer.
       if IsNil writer then returnP conn
       else if isConnectedToReader
       then bindP (Inc ''staleDNS.stale.detected'') (\<lambda>_.
            bindP (callS (svc_Connect api (the writer) props)) (\<lambda>writerConn.
            bindP (if isInitialConnection then updS (svc_SetInitialConnectionHostInfo api (the writer)) else returnP ()) (\<lambda>_.
              case conn of None \<Rightarrow> returnP conn | Some c \<Rightarrow> bindP (updS (svc_Close api c)) (\<lambda>_. returnP writerConn))))
       else returnP conn)"

text \<open>Remembering the writer; the answer tells whether it is a cluster endpoint, at which the source returns.\<close>

definition find_writer :: "('sv, 'c) PluginServiceApi \<Rightarrow> ('sv, 'z, bool) failover_prog" where
  "find_writer api =
     bindP (getsP fo_writerHostInfo) (\<lambda>writer.
       if \<not> IsNil writer then returnP False
       else bindP (askS (svc_GetHosts api)) (\<lambda>hosts.
            let writerCandidate = GetWriter (map Some hosts)
            in bindP (if IsNil writerCandidate then returnP False else dnsS (IsRdsClusterDns (GetHost writerCandidate))) (\<lambda>isCluster.
                 if isCluster then returnP True
                 else bindP (modifyP (\<lambda>p. p\<lparr>fo_writerHostInfo := writerCandidate\<rparr>)) (\<lambda>_. returnP False))))"

definition GetVerifiedConnection ::
  "('sv, 'c) PluginServiceApi \<Rightarrow> string \<Rightarrow> bool \<Rightarrow> props \<Rightarrow> (props \<Rightarrow> ('sv, 'c option) prog) \<Rightarrow> ('sv, 'z, 'c option) failover_prog" where
  "GetVerifiedConnection api host isInitialConnection props connectFunc =
     bindP (attempt (callS (connectFunc props))) (\<lambda>connected.
     bindP (dnsS (bindS (IsWriterClusterDns host) (\<lambda>writerDns. if writerDns then ret True else IsGlobalDbWriterClusterDns host))) (\<lambda>writerEndpoint.
       case connected of
         Inl err \<Rightarrow> failP err
       | Inr conn \<Rightarrow>
           if \<not> writerEndpoint then returnP conn
           else
             bindP (askS (svc_GetHostRole api conn)) (\<lambda>role.
             bindP (refresh_topology api (role = READER)) (\<lambda>_.
             bindP (askS (svc_GetHosts api)) (\<lambda>_.
             bindP (find_writer api) (\<lambda>isCluster.
               if isCluster then returnP None
               else reconnect_to_writer api (role = READER) isInitialConnection props conn))))))"

section \<open>Failover to the writer\<close>

definition createConnectionForHost :: "('sv, 'c) PluginServiceApi \<Rightarrow> failover_settings \<Rightarrow> HostInfo \<Rightarrow> ('sv, 'z, 'c option) failover_prog" where
  "createConnectionForHost api cfg hostInfo =
     callS (svc_Connect api hostInfo
       (fst (RWMap_Put INTERNAL_CONNECT_PROPERTY_NAME ''true'' (Property_Set HOST (Host hostInfo) (NewRWMapFromCopy (Some (fo_props cfg)))))))"

definition returnFailoverSuccessError :: "('sv, 'c) PluginServiceApi \<Rightarrow> ('sv, 'z, go_error) failover_prog" where
  "returnFailoverSuccessError api =
     bindP (getsP (\<lambda>p. fo_isInTransaction p \<or> svc_IsInTransaction api (svc p))) (\<lambda>inTransaction.
       if inTransaction then bindP (updS (svc_SetInTransaction api False)) (\<lambda>_. returnP TransactionResolutionUnknownError)
       else returnP FailoverSuccessError)"

text \<open>The outcome of the steps of a failover: what they failed with, or the error that reports success; the counters
  record which. A panic leaves the counters as they are.\<close>

definition finish ::
  "('sv, 'c) PluginServiceApi \<Rightarrow> string \<Rightarrow> ('sv, 'z) FailoverPlugin_scheme \<times> (go_error + unit) \<Rightarrow> ('sv, 'z) FailoverPlugin_scheme \<times> go_error" where
  "finish api kind outcome =
     (case outcome of
        (p, Inl err) \<Rightarrow> (if is_panic err then p else fst (Inc (kind @ ''Failover.completed.failed.count'') p), err)
      | (p, Inr _) \<Rightarrow>
          (case returnFailoverSuccessError api p of
             (p', Inl err) \<Rightarrow> (p', err)
           | (p', Inr err) \<Rightarrow> (fst (Inc (kind @ ''Failover.completed.success.count'') p'), err)))"

definition connect_to_writer :: "('sv, 'c) PluginServiceApi \<Rightarrow> failover_settings \<Rightarrow> HostInfo \<Rightarrow> ('sv, 'z, 'c option) failover_prog" where
  "connect_to_writer api cfg writerCandidate =
     bindP (attempt (createConnectionForHost api cfg writerCandidate)) (\<lambda>res.
       case res of
         Inl err \<Rightarrow> failP (NewFailoverFailedError (error_text err))
       | Inr conn \<Rightarrow>
           bindP (askS (svc_GetHostRole api conn)) (\<lambda>role.
             if role \<noteq> WRITER
             then bindP (closeS api conn) (\<lambda>_. failP (NewFailoverFailedError ''Failover.unexpectedReaderRole''))
             else returnP conn))"

definition install_writer :: "('sv, 'c) PluginServiceApi \<Rightarrow> 'c option \<Rightarrow> HostInfo option \<Rightarrow> ('sv, 'z, unit) failover_prog" where
  "install_writer api conn writerCandidate =
     bindP (attempt (callS (svc_SetCurrentConnection api conn writerCandidate))) (\<lambda>res.
       case res of
         Inl err \<Rightarrow> bindP (closeS api conn) (\<lambda>_. failP err)
       | Inr _ \<Rightarrow> bindP (callS (svc_GetCurrentHostInfo api)) (\<lambda>_. returnP ()))"

definition writer_steps :: "('sv, 'c) PluginServiceApi \<Rightarrow> failover_settings \<Rightarrow> ('sv, 'z, unit) failover_prog" where
  "writer_steps api cfg =
     bindP (askS (svc_ForceRefreshHostListWithTimeout api True (failoverTimeoutMsSetting cfg))) (\<lambda>(forceRefreshOk, _).
       if \<not> forceRefreshOk then failP (NewFailoverFailedError ''Failover.unableToRefreshHostList'')
       else bindP (readS (svc_GetAllHosts api)) (\<lambda>updatedHosts.
         let writerCandidate = GetWriter (map Some updatedHosts)
         in if IsNil writerCandidate then failP (NewFailoverFailedError ''Failover.noWriterHost'')
            else bindP (connect_to_writer api cfg (the writerCandidate)) (\<lambda>conn. install_writer api conn writerCandidate)))"

definition FailoverWriter ::
  "('sv, 'c) PluginServiceApi \<Rightarrow> failover_settings \<Rightarrow> ('sv, 'z) FailoverPlugin_scheme \<Rightarrow> ('sv, 'z) FailoverPlugin_scheme \<times> go_error" where
  "FailoverWriter api cfg p = finish api ''writer'' (writer_steps api cfg (fst (Inc ''writerFailover.triggered.count'' p)))"

section \<open>Failover to a reader\<close>

definition FallbackTopologyRefreshTimeoutMs :: int where
  "FallbackTopologyRefreshTimeoutMs = 1100"

definition getReaderFailoverCandidates :: "HostInfo list \<Rightarrow> HostInfo list \<times> HostInfo option" where
  "getReaderFailoverCandidates hosts = (FilterSlice hosts (\<lambda>h. Role h = READER), GetWriter (map Some hosts))"

text \<open>The variables of \<open>getReaderFailoverConnection\<close>.\<close>

record reader_search =
  readerCandidates :: "HostInfo list"
  originalWriter :: "HostInfo option"
  isOriginalWriterStillWriter :: bool

text \<open>How one attempt ends: with the result of the function, with the end of the inner loop, or with what remains.\<close>

datatype 'c attempt_end =
    Found "'c option" HostInfo
  | Fails go_error
  | Leave reader_search
  | Again "HostInfo list" reader_search

definition without_host :: "HostInfo \<Rightarrow> HostInfo list \<Rightarrow> HostInfo list" where
  "without_host h hosts = RemoveFromSlice hosts h Equals"

text \<open>The role decides: a connection is taken when it is a reader's, or when any role will do.\<close>

definition acceptable :: "FailoverMode \<Rightarrow> HostRole \<Rightarrow> bool" where
  "acceptable mode role \<longleftrightarrow> role = READER \<or> mode \<noteq> MODE_STRICT_READER"

definition take_or_close ::
  "('sv, 'c) PluginServiceApi \<Rightarrow> 'c \<Rightarrow> HostInfo \<Rightarrow> (HostRole \<Rightarrow> 'c attempt_end) \<Rightarrow> ('sv, 'z, 'c attempt_end) failover_prog" where
  "take_or_close api conn candidate other =
     bindP (askS (svc_GetHostRole api (Some conn))) (\<lambda>role.
     bindP (getsP failoverMode) (\<lambda>mode.
       if acceptable mode role then returnP (Found (Some conn) (MakeCopyWithRole candidate role))
       else bindP (updS (svc_Close api conn)) (\<lambda>_. returnP (other role))))"

definition try_connection ::
  "('sv, 'c) PluginServiceApi \<Rightarrow> failover_settings \<Rightarrow> HostInfo list \<Rightarrow> reader_search \<Rightarrow> HostInfo \<Rightarrow> ('sv, 'z, 'c attempt_end) failover_prog" where
  "try_connection api cfg remaining vars candidate =
     bindP (attempt (createConnectionForHost api cfg candidate)) (\<lambda>res.
       case res of
         Inr (Some conn) \<Rightarrow>
           take_or_close api conn candidate (\<lambda>role.
             Again (without_host candidate remaining)
               (if role = WRITER
                then vars\<lparr>isOriginalWriterStillWriter := False, readerCandidates := without_host candidate (readerCandidates vars)\<rparr>
                else vars))
       | _ \<Rightarrow> returnP (Again (without_host candidate remaining) vars))"

definition try_reader ::
  "('sv, 'c) PluginServiceApi \<Rightarrow> failover_settings \<Rightarrow> HostInfo list \<Rightarrow> reader_search \<Rightarrow> ('sv, 'z, 'c attempt_end) failover_prog" where
  "try_reader api cfg remaining vars =
     bindP (attempt (callS (svc_GetHostInfoByStrategy api READER (failoverReaderHostSelectorStrategySetting cfg) remaining))) (\<lambda>res.
       case res of
         Inl err \<Rightarrow>
           if IsType err UnsupportedStrategyErrorType then returnP (Fails err)
           else bindP (attempt (callS (svc_GetUpdatedHostListWithTimeout api False FallbackTopologyRefreshTimeoutMs))) (\<lambda>hosts.
                  returnP (Leave (case hosts of
                                    Inl _ \<Rightarrow> vars
                                  | Inr hs \<Rightarrow> vars\<lparr>readerCandidates := fst (getReaderFailoverCandidates hs),
                                                  originalWriter := snd (getReaderFailoverCandidates hs)\<rparr>)))
       | Inr candidate \<Rightarrow>
           if IsNil candidate then returnP (Leave vars) else try_connection api cfg remaining vars (the candidate))"

text \<open>The attempt at the original writer after the readers; it never leaves anything to try again.\<close>

definition try_original_writer ::
  "('sv, 'c) PluginServiceApi \<Rightarrow> failover_settings \<Rightarrow> reader_search \<Rightarrow> ('sv, 'z, 'c attempt_end) failover_prog" where
  "try_original_writer api cfg vars =
     bindP (attempt (createConnectionForHost api cfg (the (originalWriter vars)))) (\<lambda>res.
       case res of
         Inr (Some conn) \<Rightarrow>
           take_or_close api conn (the (originalWriter vars)) (\<lambda>role.
             Leave (if role = WRITER then vars\<lparr>isOriginalWriterStillWriter := True\<rparr> else vars))
       | _ \<Rightarrow> returnP (Leave vars))"

definition writer_round ::
  "(nat \<Rightarrow> time) \<Rightarrow> ('sv, 'c) PluginServiceApi \<Rightarrow> failover_settings \<Rightarrow> time \<Rightarrow> reader_search \<Rightarrow> ('sv, 'z, 'c attempt_end) failover_prog" where
  "writer_round clock api cfg endTime vars =
     (if IsNil (originalWriter vars) then returnP (Leave vars)
      else bindP (nowS clock) (\<lambda>t.
           bindP (getsP failoverMode) (\<lambda>mode.
             if t > endTime then returnP (Leave vars)
             else if mode = MODE_STRICT_READER \<and> isOriginalWriterStillWriter vars then returnP (Leave vars)
             else try_original_writer api cfg vars)))"

text \<open>The inner loop over the remaining readers and the outer loop until the deadline; \<open>None\<close> is a loop that does not
  end. An attempt of the inner loop that leaves something to try again goes on there, so the outer loop never sees it.\<close>

partial_function (option) readers_loop ::
  "(nat \<Rightarrow> time) \<Rightarrow> ('sv, 'c) PluginServiceApi \<Rightarrow> failover_settings \<Rightarrow> time \<Rightarrow> HostInfo list \<Rightarrow> reader_search \<Rightarrow> ('sv, 'z) FailoverPlugin_scheme
     \<Rightarrow> (('sv, 'z) FailoverPlugin_scheme \<times> (go_error + 'c attempt_end)) option" where
  "readers_loop clock api cfg endTime remaining vars p =
     (if remaining = [] then Some (p, Inr (Leave vars))
      else if \<not> clock (clock_reads p) < endTime then Some (fst (nowS clock p), Inr (Leave vars))
      else (case try_reader api cfg remaining vars (fst (nowS clock p)) of
              (p', Inr (Again remaining' vars')) \<Rightarrow> readers_loop clock api cfg endTime remaining' vars' p'
            | (p', r) \<Rightarrow> Some (p', r)))"

partial_function (option) failover_loop ::
  "(nat \<Rightarrow> time) \<Rightarrow> ('sv, 'c) PluginServiceApi \<Rightarrow> failover_settings \<Rightarrow> time \<Rightarrow> reader_search \<Rightarrow> ('sv, 'z) FailoverPlugin_scheme
     \<Rightarrow> (('sv, 'z) FailoverPlugin_scheme \<times> (go_error + 'c option \<times> HostInfo)) option" where
  "failover_loop clock api cfg endTime vars p =
     Option.bind (readers_loop clock api cfg endTime (readerCandidates vars) vars p) (\<lambda>(p1, r).
       case r of
         Inl err \<Rightarrow> Some (p1, Inl err)
       | Inr (Found conn host) \<Rightarrow> Some (p1, Inr (conn, host))
       | Inr (Fails err) \<Rightarrow> Some (p1, Inl err)
       | Inr (Again _ vars1) \<Rightarrow> None
       | Inr (Leave vars1) \<Rightarrow>
           (case writer_round clock api cfg endTime vars1 p1 of
              (p2, Inl err) \<Rightarrow> Some (p2, Inl err)
            | (p2, Inr (Found conn host)) \<Rightarrow> Some (p2, Inr (conn, host))
            | (p2, Inr (Leave vars2)) \<Rightarrow>
                if clock (clock_reads p2) < endTime then failover_loop clock api cfg endTime vars2 (fst (nowS clock p2))
                else Some (fst (nowS clock p2), Inl (NewFailoverFailedError ''Failover.failoverReaderTimeout''))
            | (p2, _) \<Rightarrow> None))"

declare readers_loop.simps [code] failover_loop.simps [code]

definition reader_failed :: go_error where
  "reader_failed = NewFailoverFailedError ''Failover.unableToConnectToReader''"

text \<open>\<open>getReaderFailoverConnection\<close> and the steps of \<open>FailoverReader\<close> around it. A result whose \<open>SetCurrentConnection\<close>
  fails is not closed.\<close>

definition getReaderFailoverConnection ::
  "(nat \<Rightarrow> time) \<Rightarrow> ('sv, 'c) PluginServiceApi \<Rightarrow> failover_settings \<Rightarrow> time \<Rightarrow> ('sv, 'z) FailoverPlugin_scheme
     \<Rightarrow> (('sv, 'z) FailoverPlugin_scheme \<times> (go_error + 'c option \<times> HostInfo)) option" where
  "getReaderFailoverConnection clock api cfg endTime p =
     (let (v, hosts) = svc_GetHosts api (svc p); (candidates, writer) = getReaderFailoverCandidates hosts
      in failover_loop clock api cfg endTime
           \<lparr>readerCandidates = candidates, originalWriter = writer, isOriginalWriterStillWriter = False\<rparr> (p\<lparr>svc := v\<rparr>))"

definition install_reader :: "('sv, 'c) PluginServiceApi \<Rightarrow> 'c option \<Rightarrow> HostInfo \<Rightarrow> ('sv, 'z, unit) failover_prog" where
  "install_reader api conn host =
     bindP (attempt (callS (svc_SetCurrentConnection api conn (Some host)))) (\<lambda>res.
       case res of Inl err \<Rightarrow> failP reader_failed | Inr _ \<Rightarrow> returnP ())"

definition reader_steps ::
  "(nat \<Rightarrow> time) \<Rightarrow> ('sv, 'c) PluginServiceApi \<Rightarrow> failover_settings \<Rightarrow> ('sv, 'z) FailoverPlugin_scheme
     \<Rightarrow> (('sv, 'z) FailoverPlugin_scheme \<times> (go_error + unit)) option" where
  "reader_steps clock api cfg p =
     (let failoverEndTime = clock (clock_reads p) + failoverTimeoutMsSetting cfg * 1000000;
          p1 = fst (Inc ''readerFailover.triggered.count'' (fst (nowS clock p)));
          (v, forceRefreshOk, err) = svc_ForceRefreshHostListWithTimeout api False 0 (svc p1);
          p2 = p1\<lparr>svc := v\<rparr>
      in (case err of
            Some e \<Rightarrow> Some (p2, Inl e)
          | None \<Rightarrow>
              if \<not> forceRefreshOk then Some (p2, Inl (NewFailoverFailedError ''Failover.failoverReaderUnableToRefreshHostList''))
              else Option.bind (getReaderFailoverConnection clock api cfg failoverEndTime p2) (\<lambda>(p3, res).
                     case res of
                       Inl e \<Rightarrow> Some (p3, Inl (if is_panic e then e else reader_failed))
                     | Inr (conn, host) \<Rightarrow> Some (install_reader api conn host p3))))"

definition FailoverReader ::
  "(nat \<Rightarrow> time) \<Rightarrow> ('sv, 'c) PluginServiceApi \<Rightarrow> failover_settings \<Rightarrow> ('sv, 'z) FailoverPlugin_scheme
     \<Rightarrow> (('sv, 'z) FailoverPlugin_scheme \<times> go_error) option" where
  "FailoverReader clock api cfg p = map_option (finish api ''reader'') (reader_steps clock api cfg p)"

section \<open>The handler and the methods of the plugin\<close>

definition initFailoverMode :: "('sv, 'c) PluginServiceApi \<Rightarrow> failover_settings \<Rightarrow> ('sv, 'z, unit) failover_prog" where
  "initFailoverMode api cfg p =
     (if fo_rdsUrlType p \<noteq> OTHER then (p, Inr ())
      else
       (let mode = failoverModeFromValue (ToLower (as_string (GetVerifiedWrapperPropertyValue (Some (fo_props cfg)) FAILOVER_MODE)))
        in (case svc_GetInitialConnectionHostInfo api (svc p) of
              None \<Rightarrow> (p\<lparr>failoverMode := mode\<rparr>, Inl nil_dereference)
            | Some initial \<Rightarrow>
                bindP (dnsS (IdentifyRdsUrlType (Host initial))) (\<lambda>urlType.
                  modifyP (\<lambda>p. p\<lparr>fo_rdsUrlType := urlType,
                    failoverMode := (if mode \<noteq> MODE_UNKNOWN then mode
                                     else if urlType = RDS_READER_CLUSTER then MODE_READER_OR_WRITER else MODE_STRICT_WRITER)\<rparr>))
                  (p\<lparr>failoverMode := mode\<rparr>))))"

definition failover ::
  "(nat \<Rightarrow> time) \<Rightarrow> ('sv, 'c) PluginServiceApi \<Rightarrow> failover_settings \<Rightarrow> ('sv, 'z) FailoverPlugin_scheme
     \<Rightarrow> (('sv, 'z) FailoverPlugin_scheme \<times> go_error) option" where
  "failover clock api cfg p =
     (if failoverMode p = MODE_STRICT_WRITER then Some (FailoverWriter api cfg p) else FailoverReader clock api cfg p)"

definition isFailoverEnabled :: "('sv, 'c) PluginServiceApi \<Rightarrow> ('sv, 'z) FailoverPlugin_scheme \<Rightarrow> bool" where
  "isFailoverEnabled api p \<longleftrightarrow> fo_rdsUrlType p \<noteq> RDS_PROXY \<and> svc_GetAllHosts api (svc p) \<noteq> []"

definition shouldErrorTriggerConnectionSwitch :: "('sv, 'c) PluginServiceApi \<Rightarrow> ('sv, 'z) FailoverPlugin_scheme \<Rightarrow> go_error \<Rightarrow> bool" where
  "shouldErrorTriggerConnectionSwitch api p err \<longleftrightarrow> isFailoverEnabled api p \<and> svc_IsNetworkError api err"

definition InvalidateCurrentConnection :: "('sv, 'c) PluginServiceApi \<Rightarrow> ('sv, 'z) FailoverPlugin_scheme \<Rightarrow> ('sv, 'z) FailoverPlugin_scheme" where
  "InvalidateCurrentConnection api p =
     (case svc_GetCurrentConnection api (svc p) of
        None \<Rightarrow> p
      | Some conn \<Rightarrow>
          (let p1 = (if svc_IsInTransaction api (svc p) then p\<lparr>fo_isInTransaction := True, svc := svc_Rollback api conn (svc p)\<rparr> else p)
           in if svc_IsClosed api conn (svc p1) then p1 else p1\<lparr>svc := svc_Close api conn (svc p1)\<rparr>))"

text \<open>The error of \<open>failover\<close> is returned; \<open>lastErrorDealtWith\<close> would be set after a failover that returns no error.\<close>

definition dealWithError ::
  "(nat \<Rightarrow> time) \<Rightarrow> ('sv, 'c) PluginServiceApi \<Rightarrow> failover_settings \<Rightarrow> go_error \<Rightarrow> ('sv, 'z) FailoverPlugin_scheme
     \<Rightarrow> (('sv, 'z) FailoverPlugin_scheme \<times> go_error) option" where
  "dealWithError clock api cfg err p =
     (if Some err \<noteq> lastErrorDealtWith p \<and> shouldErrorTriggerConnectionSwitch api p err
      then (case callS (svc_GetCurrentHostInfo api) (InvalidateCurrentConnection api p) of
              (p1, Inl e) \<Rightarrow> Some (p1, e)
            | (p1, Inr currentHost) \<Rightarrow> failover clock api cfg (p1\<lparr>svc := svc_SetAvailability api (Aliases currentHost) UNAVAILABLE (svc p1)\<rparr>))
      else Some (p, err))"

definition canDirectExecute :: "string \<Rightarrow> bool" where
  "canDirectExecute methodName \<longleftrightarrow> methodName = ''Conn.Close''"

definition Failover_Execute ::
  "(nat \<Rightarrow> time) \<Rightarrow> ('sv, 'c) PluginServiceApi \<Rightarrow> failover_settings \<Rightarrow> string \<Rightarrow> ('sv \<Rightarrow> 'sv \<times> 'v exec_result) \<Rightarrow> ('sv, 'z) FailoverPlugin_scheme
     \<Rightarrow> (('sv, 'z) FailoverPlugin_scheme \<times> 'v exec_result) option" where
  "Failover_Execute clock api cfg methodName executeFunc p =
     (let (v, r1, r2, ok, wrappedErr) = executeFunc (svc p); p1 = p\<lparr>svc := v\<rparr>
      in if canDirectExecute methodName then Some (p1, r1, r2, ok, wrappedErr)
         else (case wrappedErr of
                 None \<Rightarrow> Some (p1, r1, r2, ok, None)
               | Some e \<Rightarrow> map_option (\<lambda>(p2, err). (p2, None, None, False, Some err)) (dealWithError clock api cfg e p1)))"

text \<open>\<open>Connect\<close>: the failover of a connection attempt leaves the connection with the service.\<close>

definition connect_failover ::
  "(nat \<Rightarrow> time) \<Rightarrow> ('sv, 'c) PluginServiceApi \<Rightarrow> failover_settings \<Rightarrow> ('sv, 'z) FailoverPlugin_scheme
     \<Rightarrow> (('sv, 'z) FailoverPlugin_scheme \<times> (go_error + 'c option)) option" where
  "connect_failover clock api cfg p =
     map_option (\<lambda>(p1, err). if err = FailoverSuccessError then (p1, Inr (svc_GetCurrentConnection api (svc p1))) else (p1, Inl err))
       (failover clock api cfg p)"

definition connected :: "('sv, 'c) PluginServiceApi \<Rightarrow> bool \<Rightarrow> 'c option \<Rightarrow> ('sv, 'z, 'c option) failover_prog" where
  "connected api isInitialConnection conn =
     (case conn of
        None \<Rightarrow> failP (NewGenericAwsWrapperError ''Failover.unableToConnect'')
      | Some _ \<Rightarrow> bindP (if isInitialConnection then callS (svc_RefreshHostList api) else returnP ()) (\<lambda>_. returnP conn))"

definition connect_or_failover ::
  "(nat \<Rightarrow> time) \<Rightarrow> ('sv, 'c) PluginServiceApi \<Rightarrow> failover_settings \<Rightarrow> HostInfo \<Rightarrow> props \<Rightarrow> bool \<Rightarrow> (props \<Rightarrow> ('sv, 'c option) prog)
     \<Rightarrow> ('sv, 'z) FailoverPlugin_scheme \<Rightarrow> (('sv, 'z) FailoverPlugin_scheme \<times> (go_error + 'c option)) option" where
  "connect_or_failover clock api cfg hostInfo props isInitialConnection connectFunc p =
     (let (v, hosts) = svc_GetHosts api (svc p); p1 = p\<lparr>svc := v\<rparr>;
          known = find (\<lambda>item. GetHostAndPort (Some item) = GetHostAndPort (Some hostInfo)) hosts
      in if IsNil known \<or> Availability (the known) \<noteq> UNAVAILABLE
         then (case GetVerifiedConnection api (Host hostInfo) isInitialConnection props connectFunc p1 of
                 (p2, Inr conn) \<Rightarrow> Some (p2, Inr conn)
               | (p2, Inl err) \<Rightarrow>
                   if is_panic err \<or> \<not> shouldErrorTriggerConnectionSwitch api p2 err then Some (p2, Inl err)
                   else connect_failover clock api cfg (p2\<lparr>svc := svc_SetAvailability api (AllAliases hostInfo) UNAVAILABLE (svc p2)\<rparr>))
         else (case callS (svc_RefreshHostList api) p1 of
                 (p2, Inl err) \<Rightarrow> Some (p2, Inl err)
               | (p2, Inr _) \<Rightarrow> connect_failover clock api cfg p2))"

definition Failover_Connect ::
  "(nat \<Rightarrow> time) \<Rightarrow> ('sv, 'c) PluginServiceApi \<Rightarrow> failover_settings \<Rightarrow> HostInfo \<Rightarrow> props \<Rightarrow> bool \<Rightarrow> (props \<Rightarrow> ('sv, 'c option) prog)
     \<Rightarrow> ('sv, 'z) FailoverPlugin_scheme \<Rightarrow> (('sv, 'z) FailoverPlugin_scheme \<times> (go_error + 'c option)) option" where
  "Failover_Connect clock api cfg hostInfo props isInitialConnection connectFunc p =
     (case initFailoverMode api cfg p of
        (p1, Inl err) \<Rightarrow> Some (p1, Inl err)
      | (p1, Inr _) \<Rightarrow>
          if \<not> as_bool (GetVerifiedWrapperPropertyValue (Some props) ENABLE_CONNECT_FAILOVER) \<or>
             RWMap_Get INTERNAL_CONNECT_PROPERTY_NAME props \<noteq> None
          then Some (GetVerifiedConnection api (Host hostInfo) isInitialConnection props connectFunc p1)
          else map_option (\<lambda>(p2, res). case res of Inl err \<Rightarrow> (p2, Inl err) | Inr conn \<Rightarrow> connected api isInitialConnection conn p2)
                 (connect_or_failover clock api cfg hostInfo props isInitialConnection connectFunc p1))"

section \<open>What an attempt leaves alone\<close>

text \<open>An attempt to connect changes nothing but the service, so it keeps every property that does not look at it.\<close>

lemma keeps_attempts:
  assumes "\<And>p v. P p \<Longrightarrow> P ((p :: ('a, 'z) FailoverPlugin_scheme)\<lparr>svc := v\<rparr>)"
  shows "keeps P (createConnectionForHost (api :: ('a, 'b) PluginServiceApi) cfg h)" "keeps P (try_connection api cfg remaining vars h)"
    "keeps P (try_reader api cfg remaining vars)" "keeps P (try_original_writer api cfg vars)"
proof -
  note calls = keeps_calls [where P = P, OF assms]
  show create: "keeps P (createConnectionForHost api cfg h)" for h by (simp add: createConnectionForHost_def calls)
  have take: "keeps P (take_or_close api conn h other)" for conn h and other :: "HostRole \<Rightarrow> 'b attempt_end"
    unfolding take_or_close_def by (intro keeps_rules calls)
  show conn: "keeps P (try_connection api cfg remaining vars h)" for h
    unfolding try_connection_def by (intro keeps_rules create take)
  show "keeps P (try_reader api cfg remaining vars)"
    unfolding try_reader_def by (intro keeps_rules calls conn)
  show "keeps P (try_original_writer api cfg vars)"
    unfolding try_original_writer_def by (intro keeps_rules create take)
qed

lemma clock_reads_attempts [simp]:
  "clock_reads (fst (try_reader api cfg remaining vars p)) = clock_reads p"
  "clock_reads (fst (try_original_writer api cfg vars p)) = clock_reads p"
  using keepsD [OF keeps_attempts(3) [where P = "\<lambda>q. clock_reads q = clock_reads p"], of p]
    keepsD [OF keeps_attempts(4) [where P = "\<lambda>q. clock_reads q = clock_reads p"], of p]
  by (metis (mono_tags, lifting) plugin_frame.select_convs(2) plugin_frame.surjective plugin_frame.update_convs(1) prod.collapse)+

section \<open>The loops return\<close>

lemma try_original_writer_ends:
  assumes "try_original_writer api cfg vars p = (p', Inr r)"
  shows "(\<exists>conn h. r = Found conn h) \<or> (\<exists>vars'. r = Leave vars')"
proof -
  have "ensures (\<lambda>_. True) (try_original_writer api cfg vars) (\<lambda>r _. (\<exists>conn h. r = Found conn h) \<or> (\<exists>vars'. r = Leave vars'))"
    unfolding try_original_writer_def take_or_close_def
    by (intro ensures_bind_keeps ensures_cases ensures_if ensures_return) (simp_all add: keeps_def)
  from ensuresD [OF this _ assms] show ?thesis by simp
qed

lemma writer_round_ends:
  "writer_round clock api cfg endTime vars p = (p', Inr r) \<Longrightarrow> (\<exists>conn h. r = Found conn h) \<or> (\<exists>vars'. r = Leave vars')"
  by (auto simp: writer_round_def bindP_Inr_iff nowS_def split: if_splits dest: try_original_writer_ends)

lemma writer_round_clock: "clock_reads p \<le> clock_reads (fst (writer_round clock api cfg endTime vars p))"
  by (auto simp: writer_round_def bindP_def nowS_def split: if_splits)

lemma readers_loop_returns:
  assumes "\<And>n. N \<le> n \<Longrightarrow> \<not> clock n < endTime"
  shows "\<exists>p' r. readers_loop clock api cfg endTime remaining vars p = Some (p', r) \<and> clock_reads p \<le> clock_reads p' \<and>
     (\<forall>rem v. r \<noteq> Inr (Again rem v))"
proof (induction "N - clock_reads p" arbitrary: remaining vars p rule: less_induct)
  case less
  show ?case
  proof (cases "remaining = [] \<or> \<not> clock (clock_reads p) < endTime")
    case True
    then show ?thesis by (subst readers_loop.simps) (auto simp: nowS_def)
  next
    case False
    then have lt: "clock_reads p < N" using assms by (meson not_le)
    obtain p1 r where t: "try_reader api cfg remaining vars (fst (nowS clock p)) = (p1, r)" by fastforce
    then have c: "clock_reads p1 = Suc (clock_reads p)"
      using clock_reads_attempts(1) [of api cfg remaining vars "fst (nowS clock p)"] by (simp add: nowS_def)
    show ?thesis
    proof (cases "\<exists>rem v. r = Inr (Again rem v)")
      case True
      then obtain rem v where r: "r = Inr (Again rem v)" by blast
      have "N - clock_reads p1 < N - clock_reads p" using lt c by simp
      from less.hyps [OF this, of rem v] obtain p' r' where "readers_loop clock api cfg endTime rem v p1 = Some (p', r')"
        "clock_reads p1 \<le> clock_reads p'" "\<forall>rem v. r' \<noteq> Inr (Again rem v)" by blast
      then show ?thesis using False t r c by (subst readers_loop.simps) simp
    next
      case no: False
      have "readers_loop clock api cfg endTime remaining vars p = Some (p1, r)"
        using False t no by (subst readers_loop.simps) (auto split: sum.splits attempt_end.splits)
      then show ?thesis using c no by simp
    qed
  qed
qed

lemma failover_loop_returns:
  assumes "\<And>n. N \<le> n \<Longrightarrow> \<not> clock n < endTime"
  shows "\<exists>r. failover_loop clock api cfg endTime vars p = Some r"
proof (induction "N - clock_reads p" arbitrary: vars p rule: less_induct)
  case less
  obtain p1 r1 where in_loop: "readers_loop clock api cfg endTime (readerCandidates vars) vars p = Some (p1, r1)"
    and c1: "clock_reads p \<le> clock_reads p1" and no: "\<And>rem v. r1 \<noteq> Inr (Again rem v)"
    using readers_loop_returns [of N clock endTime api cfg "readerCandidates vars" vars p, OF assms] by blast
  show ?case
  proof (cases "\<exists>v. r1 = Inr (Leave v)")
    case True
    then obtain v where r1: "r1 = Inr (Leave v)" by blast
    obtain p2 r2 where w: "writer_round clock api cfg endTime v p1 = (p2, r2)" by fastforce
    have c2: "clock_reads p1 \<le> clock_reads p2" using writer_round_clock [of p1 clock api cfg endTime v] w by simp
    show ?thesis
    proof (cases "(\<exists>v2. r2 = Inr (Leave v2)) \<and> clock (clock_reads p2) < endTime")
      case True
      then obtain v2 where r2: "r2 = Inr (Leave v2)" "clock (clock_reads p2) < endTime" by blast
      have "clock_reads p2 < N" using r2(2) assms by (meson not_le)
      then have "N - clock_reads (fst (nowS clock p2)) < N - clock_reads p" using c1 c2 by simp
      from less.hyps [OF this] show ?thesis using in_loop r1 w r2 by (subst failover_loop.simps) simp
    next
      case False
      then consider (err) e where "r2 = Inl e" | (found) conn h where "r2 = Inr (Found conn h)"
        | (leave) v2 where "r2 = Inr (Leave v2)" "\<not> clock (clock_reads p2) < endTime"
        using writer_round_ends [of clock api cfg endTime v p1 p2] w by (cases r2) auto
      then show ?thesis using in_loop r1 w by cases (simp_all add: failover_loop.simps [of clock api cfg endTime vars p])
    qed
  next
    case False
    then show ?thesis using in_loop no by (subst failover_loop.simps) (cases r1; auto split: attempt_end.splits)
  qed
qed

text \<open>A clock that passes every time, whatever it reads on the way.\<close>

definition advancing :: "(nat \<Rightarrow> time) \<Rightarrow> bool" where
  "advancing clock \<longleftrightarrow> (\<forall>t. \<exists>N. \<forall>n \<ge> N. t \<le> clock n)"

lemma reader_connection_returns:
  assumes "advancing clock"
  shows "\<exists>r. getReaderFailoverConnection clock api cfg endTime p = Some r"
proof -
  obtain N where "\<And>n. N \<le> n \<Longrightarrow> endTime \<le> clock n" using assms unfolding advancing_def by meson
  then have N: "\<And>n. N \<le> n \<Longrightarrow> \<not> clock n < endTime" by (meson not_le)
  show ?thesis
    unfolding getReaderFailoverConnection_def Let_def case_prod_unfold by (rule failover_loop_returns [OF N])
qed

lemma failover_returns:
  assumes "advancing clock"
  shows "\<exists>r. failover clock api cfg p = Some r"
proof -
  have ret: "\<exists>r. (case err of Some e \<Rightarrow> Some (a e) | None \<Rightarrow> if ok then Some b else
      Option.bind m (\<lambda>(q, res). case res of Inl e \<Rightarrow> Some (f q e) | Inr (conn, host) \<Rightarrow> Some (g q conn host))) = Some r"
    if "\<exists>r. m = Some r" for err a ok b m f g
    using that by (auto split: option.splits sum.splits)
  obtain v ok err where f: "svc_ForceRefreshHostListWithTimeout api False 0
      (svc (fst (Inc ''readerFailover.triggered.count'' (fst (nowS clock p))))) = (v, ok, err)" by (metis prod_cases3)
  have "\<exists>r. reader_steps clock api cfg p = Some r"
    unfolding reader_steps_def Let_def f prod.case by (rule ret [OF reader_connection_returns [OF assms]])
  then show ?thesis by (auto simp: failover_def FailoverReader_def)
qed

section \<open>What a failover keeps of the plugin\<close>

text \<open>Properties of the plugin that look neither at the service nor at the clock; \<open>uncounted\<close> ones do not look at the
  counters either.\<close>

definition own :: "(('sv, 'z) FailoverPlugin_scheme \<Rightarrow> bool) \<Rightarrow> bool" where
  "own P \<longleftrightarrow> (\<forall>p v n. P p \<longrightarrow> P (p\<lparr>svc := v\<rparr>) \<and> P (p\<lparr>clock_reads := n\<rparr>))"

definition uncounted :: "(('sv, 'z) FailoverPlugin_scheme \<Rightarrow> bool) \<Rightarrow> bool" where
  "uncounted P \<longleftrightarrow> (\<forall>p c. P p \<longrightarrow> P (p\<lparr>counted := c\<rparr>))"

lemma ownD: "own P \<Longrightarrow> P p \<Longrightarrow> P (p\<lparr>svc := v\<rparr>)" "own P \<Longrightarrow> P p \<Longrightarrow> P (p\<lparr>clock_reads := n\<rparr>)"
  by (auto simp: own_def)

lemma own_fields [simp]:
  "own (\<lambda>p. fo_isInTransaction p = b)" "own (\<lambda>p. failoverMode p = m)" "own (\<lambda>p. lastErrorDealtWith p = e)" "own fo_isInTransaction"
  "own (\<lambda>p. counted p = c)" "uncounted (\<lambda>p. lastErrorDealtWith p = e)" "uncounted fo_isInTransaction"
  by (simp_all add: own_def uncounted_def)

lemma own_now: "own P \<Longrightarrow> P p \<Longrightarrow> P (fst (nowS clock p))"
  by (auto simp: nowS_def ownD)

lemma uncounted_Inc: "uncounted P \<Longrightarrow> P p \<Longrightarrow> P (fst (Inc c p))"
  by (auto simp: Inc_def uncounted_def)

lemma keeps_now: "own P \<Longrightarrow> keeps P (nowS clock)"
  by (auto simp: keeps_def own_now)

lemma keeps_writer_steps: "own P \<Longrightarrow> keeps P (writer_steps api cfg)"
proof -
  assume own: "own P"
  note calls = keeps_calls [where P = P, OF ownD(1) [OF own]] and att = keeps_attempts [where P = P, OF ownD(1) [OF own]]
  have conn: "keeps P (connect_to_writer api cfg h)" for h
    unfolding connect_to_writer_def by (intro keeps_rules att) (auto split: sum.splits intro!: keeps_bind calls)
  have inst: "keeps P (install_writer api conn h)" for conn h
    unfolding install_writer_def by (intro keeps_rules calls) (auto split: sum.splits intro!: keeps_bind calls)
  show ?thesis
    unfolding writer_steps_def Let_def
    by (intro keeps_bind calls) (auto split: prod.splits intro!: keeps_bind [OF calls(3)] keeps_bind [OF conn] inst)
qed

lemma keeps_writer_round: "own P \<Longrightarrow> keeps P (writer_round clock api cfg endTime vars)"
  unfolding writer_round_def
  by (auto intro!: keeps_bind keeps_now keeps_attempts(4) simp: ownD)

lemma finish_own: "own P \<Longrightarrow> uncounted P \<Longrightarrow> P p \<Longrightarrow> P (fst (finish api kind (p, r)))"
  by (auto simp: finish_def returnFailoverSuccessError_def bindP_def Inc_def updS_def ownD uncounted_def split: sum.splits)

text \<open>An invariant of the attempts, and what they say of a connection they find, hold of the loops.\<close>

lemma readers_loop_inv:
  assumes now: "\<And>p. P p \<Longrightarrow> P (fst (nowS clock p))" and step: "\<And>remaining vars p. P p \<Longrightarrow> P (fst (try_reader api cfg remaining vars p))"
    and found: "\<And>remaining vars p p' conn h. P p \<Longrightarrow> try_reader api cfg remaining vars p = (p', Inr (Found conn h)) \<Longrightarrow> Q conn h"
    and run: "readers_loop clock api cfg endTime remaining vars p = Some (p', r)" and "P p"
  shows "P p' \<and> (\<forall>conn h. r = Inr (Found conn h) \<longrightarrow> Q conn h)"
proof -
  have "clock = clock \<and> api = api \<and> cfg = cfg \<longrightarrow> P p \<longrightarrow> P (fst (p', r)) \<and> (\<forall>conn h. snd (p', r) = Inr (Found conn h) \<longrightarrow> Q conn h)"
  proof (rule readers_loop.raw_induct [where P = "\<lambda>clock' api' cfg' _ _ _ p y. clock = clock' \<and> api = api' \<and> cfg = cfg' \<longrightarrow> P p \<longrightarrow>
       P (fst y) \<and> (\<forall>conn h. snd y = Inr (Found conn h) \<longrightarrow> Q conn h)", OF _ run], intro impI, elim conjE)
    fix loop clock' api' cfg' endTime remaining vars p y
    assume IH: "\<And>clock' api' cfg' endTime remaining vars p y. loop clock' api' cfg' endTime remaining vars p = Some y \<Longrightarrow>
        clock = clock' \<and> api = api' \<and> cfg = cfg' \<longrightarrow> P p \<longrightarrow> P (fst y) \<and> (\<forall>conn h. snd y = Inr (Found conn h) \<longrightarrow> Q conn h)"
      and body: "(if remaining = [] then Some (p, Inr (Leave vars))
        else if \<not> clock' (clock_reads p) < endTime then Some (fst (nowS clock' p), Inr (Leave vars))
        else (case try_reader api' cfg' remaining vars (fst (nowS clock' p)) of
                (p', Inr (Again remaining' vars')) \<Rightarrow> loop clock' api' cfg' endTime remaining' vars' p'
              | (p', r) \<Rightarrow> Some (p', r))) = Some y"
      and same: "clock = clock'" "api = api'" "cfg = cfg'" and p: "P p"
    show "P (fst y) \<and> (\<forall>conn h. snd y = Inr (Found conn h) \<longrightarrow> Q conn h)"
    proof (cases "remaining = [] \<or> \<not> clock' (clock_reads p) < endTime")
      case True
      then show ?thesis using body p now same by (auto split: if_splits)
    next
      case False
      obtain p1 r1 where t: "try_reader api' cfg' remaining vars (fst (nowS clock' p)) = (p1, r1)" by fastforce
      have p1: "P p1" using step [OF now [OF p], of remaining vars] t same by simp
      show ?thesis
      proof (cases "\<exists>rem v. r1 = Inr (Again rem v)")
        case True
        then obtain rem v where "r1 = Inr (Again rem v)" by blast
        then have "loop clock' api' cfg' endTime rem v p1 = Some y" using body False t by simp
        from IH [OF this] show ?thesis using p1 same by simp
      next
        case no: False
        then have "y = (p1, r1)" using body False t by (auto split: sum.splits attempt_end.splits)
        then show ?thesis using p1 found [OF now [OF p], of remaining vars p1] t same by auto
      qed
    qed
  qed
  then show ?thesis using assms(5) by simp
qed

lemma failover_loop_inv:
  assumes now: "\<And>p. P p \<Longrightarrow> P (fst (nowS clock p))" and step: "\<And>remaining vars p. P p \<Longrightarrow> P (fst (try_reader api cfg remaining vars p))"
    and found: "\<And>remaining vars p p' conn h. P p \<Longrightarrow> try_reader api cfg remaining vars p = (p', Inr (Found conn h)) \<Longrightarrow> Q conn h"
    and wstep: "\<And>endTime vars p. P p \<Longrightarrow> P (fst (writer_round clock api cfg endTime vars p))"
    and wfound: "\<And>endTime vars p p' conn h. P p \<Longrightarrow> writer_round clock api cfg endTime vars p = (p', Inr (Found conn h)) \<Longrightarrow> Q conn h"
    and run: "failover_loop clock api cfg endTime vars p = Some (p', r)" and "P p"
  shows "P p' \<and> (\<forall>conn h. r = Inr (conn, h) \<longrightarrow> Q conn h)"
proof -
  have "clock = clock \<and> api = api \<and> cfg = cfg \<longrightarrow> P p \<longrightarrow> P (fst (p', r)) \<and> (\<forall>conn h. snd (p', r) = Inr (conn, h) \<longrightarrow> Q conn h)"
  proof (rule failover_loop.raw_induct [where P = "\<lambda>clock' api' cfg' _ _ p y. clock = clock' \<and> api = api' \<and> cfg = cfg' \<longrightarrow> P p \<longrightarrow>
       P (fst y) \<and> (\<forall>conn h. snd y = Inr (conn, h) \<longrightarrow> Q conn h)", OF _ run], intro impI, elim conjE)
    fix loop clock' api' cfg' endTime vars p y
    assume IH: "\<And>clock' api' cfg' endTime vars p y. loop clock' api' cfg' endTime vars p = Some y \<Longrightarrow>
        clock = clock' \<and> api = api' \<and> cfg = cfg' \<longrightarrow> P p \<longrightarrow> P (fst y) \<and> (\<forall>conn h. snd y = Inr (conn, h) \<longrightarrow> Q conn h)"
      and body: "Option.bind (readers_loop clock' api' cfg' endTime (readerCandidates vars) vars p) (\<lambda>(p1, r).
         case r of
           Inl err \<Rightarrow> Some (p1, Inl err)
         | Inr (Found conn host) \<Rightarrow> Some (p1, Inr (conn, host))
         | Inr (Fails err) \<Rightarrow> Some (p1, Inl err)
         | Inr (Again _ vars1) \<Rightarrow> None
         | Inr (Leave vars1) \<Rightarrow>
             (case writer_round clock' api' cfg' endTime vars1 p1 of
                (p2, Inl err) \<Rightarrow> Some (p2, Inl err)
              | (p2, Inr (Found conn host)) \<Rightarrow> Some (p2, Inr (conn, host))
              | (p2, Inr (Leave vars2)) \<Rightarrow>
                  if clock' (clock_reads p2) < endTime then loop clock' api' cfg' endTime vars2 (fst (nowS clock' p2))
                  else Some (fst (nowS clock' p2), Inl (NewFailoverFailedError ''Failover.failoverReaderTimeout''))
              | (p2, _) \<Rightarrow> None)) = Some y"
      and same: "clock = clock'" "api = api'" "cfg = cfg'" and p: "P p"
    obtain p1 r1 where l: "readers_loop clock' api' cfg' endTime (readerCandidates vars) vars p = Some (p1, r1)"
      using body by (auto simp: bind_eq_Some_conv)
    have "P p1 \<and> (\<forall>conn h. r1 = Inr (Found conn h) \<longrightarrow> Q conn h)"
    proof (rule readers_loop_inv [of P clock api cfg Q])
      show "\<And>remaining vars p p' conn h. P p \<Longrightarrow> try_reader api cfg remaining vars p = (p', Inr (Found conn h)) \<Longrightarrow> Q conn h" by (rule found)
      show "readers_loop clock api cfg endTime (readerCandidates vars) vars p = Some (p1, r1)" using l same by simp
    qed (fact now step p)+
    then have p1: "P p1" "\<And>conn h. r1 = Inr (Found conn h) \<Longrightarrow> Q conn h" by blast+
    show "P (fst y) \<and> (\<forall>conn h. snd y = Inr (conn, h) \<longrightarrow> Q conn h)"
    proof (cases "\<exists>v. r1 = Inr (Leave v)")
      case True
      then obtain v where r1: "r1 = Inr (Leave v)" by blast
      obtain p2 r2 where w: "writer_round clock' api' cfg' endTime v p1 = (p2, r2)" by fastforce
      have p2: "P p2" "\<And>conn h. r2 = Inr (Found conn h) \<Longrightarrow> Q conn h"
        using wstep [OF p1(1), of endTime v] wfound [OF p1(1), of endTime v p2] w same by auto
      show ?thesis
      proof (cases "\<exists>v2. r2 = Inr (Leave v2) \<and> clock' (clock_reads p2) < endTime")
        case True
        then obtain v2 where "loop clock' api' cfg' endTime v2 (fst (nowS clock' p2)) = Some y" using body l r1 w by auto
        from IH [OF this] show ?thesis using now [OF p2(1)] same by simp
      next
        case False
        then show ?thesis using body l r1 w p2 now [OF p2(1)] same by (auto split: sum.splits attempt_end.splits if_splits)
      qed
    next
      case False
      then show ?thesis using body l p1 by (auto split: sum.splits attempt_end.splits)
    qed
  qed
  then show ?thesis using assms(7) by simp
qed

section \<open>The roles of the connections found\<close>

definition taken :: "('sv, 'c) PluginServiceApi \<Rightarrow> FailoverMode \<Rightarrow> 'c option \<Rightarrow> HostInfo \<Rightarrow> bool" where
  "taken api mode conn h \<longleftrightarrow> conn \<noteq> None \<and> acceptable mode (Role h) \<and> (\<exists>v. snd (svc_GetHostRole api conn v) = Role h)"

lemma ask_role:
  "ensures (\<lambda>p. failoverMode p = mode) (askS (svc_GetHostRole api conn)) (\<lambda>role p. failoverMode p = mode \<and> (\<exists>v. snd (svc_GetHostRole api conn v) = role))"
  unfolding ensures_def askS_def by (auto split: prod.splits) (metis snd_conv)

lemma take_or_close_taken:
  assumes "\<And>role c h. other role \<noteq> Found c h"
  shows "ensures (\<lambda>p. failoverMode p = mode) (take_or_close api conn h other) (\<lambda>r _. \<forall>conn h. r = Found conn h \<longrightarrow> taken api mode conn h)"
  unfolding take_or_close_def
proof (rule ensures_bind [OF ask_role])
  fix role
  show "ensures (\<lambda>p. failoverMode p = mode \<and> (\<exists>v. snd (svc_GetHostRole api (Some conn) v) = role))
     (bindP (getsP failoverMode) (\<lambda>mode.
        if acceptable mode role then returnP (Found (Some conn) (MakeCopyWithRole h role))
        else bindP (updS (svc_Close api conn)) (\<lambda>_. returnP (other role))))
     (\<lambda>r _. \<forall>conn h. r = Found conn h \<longrightarrow> taken api mode conn h)"
    using assms by (auto simp: ensures_def bindP_def updS_def taken_def MakeCopyWithRole_def split: if_splits)
qed

lemma try_connection_taken:
  "ensures (\<lambda>p. failoverMode p = mode) (try_connection api cfg remaining vars h) (\<lambda>r _. \<forall>conn h. r = Found conn h \<longrightarrow> taken api mode conn h)"
  unfolding try_connection_def
  by (intro ensures_bind_keeps keeps_attempt keeps_attempts(1) ensures_cases ensures_return take_or_close_taken) simp_all

lemma try_reader_taken:
  "ensures (\<lambda>p. failoverMode p = mode) (try_reader api cfg remaining vars) (\<lambda>r _. \<forall>conn h. r = Found conn h \<longrightarrow> taken api mode conn h)"
  unfolding try_reader_def
  by (intro ensures_bind_keeps keeps_attempt keeps_calls ensures_cases ensures_if ensures_return try_connection_taken) simp_all

lemma try_original_writer_taken:
  "ensures (\<lambda>p. failoverMode p = mode) (try_original_writer api cfg vars) (\<lambda>r _. \<forall>conn h. r = Found conn h \<longrightarrow> taken api mode conn h)"
  unfolding try_original_writer_def
  by (intro ensures_bind_keeps keeps_attempt keeps_attempts(1) ensures_cases ensures_return take_or_close_taken) simp_all

lemma writer_round_taken:
  "ensures (\<lambda>p. failoverMode p = mode) (writer_round clock api cfg endTime vars) (\<lambda>r _. \<forall>conn h. r = Found conn h \<longrightarrow> taken api mode conn h)"
  unfolding writer_round_def
  by (auto intro!: ensures_bind_keeps ensures_return keeps_now try_original_writer_taken)

lemma failover_loop_taken:
  assumes "failover_loop clock api cfg endTime vars p = Some (p', r)"
  shows "failoverMode p' = failoverMode p \<and> (\<forall>conn h. r = Inr (conn, h) \<longrightarrow> taken api (failoverMode p) conn h)"
proof (rule failover_loop_inv [of "\<lambda>q. failoverMode q = failoverMode p" clock api cfg "taken api (failoverMode p)"])
  fix q :: "('a, 'b) FailoverPlugin_scheme" and remaining vars endTime
  assume q: "failoverMode q = failoverMode p"
  show "failoverMode (fst (nowS clock q)) = failoverMode p" using q by (simp add: nowS_def)
  have "keeps (\<lambda>q :: ('a, 'b) FailoverPlugin_scheme. failoverMode q = failoverMode p) (try_reader api cfg remaining vars)"
    by (rule keeps_attempts(3)) simp
  then show "failoverMode (fst (try_reader api cfg remaining vars q)) = failoverMode p"
    using q by (simp add: keeps_def)
  have "keeps (\<lambda>q :: ('a, 'b) FailoverPlugin_scheme. failoverMode q = failoverMode p) (writer_round clock api cfg endTime vars)"
    by (rule keeps_writer_round) simp
  then show "failoverMode (fst (writer_round clock api cfg endTime vars q)) = failoverMode p" using q by (simp add: keeps_def)
  show "taken api (failoverMode p) conn h" if "try_reader api cfg remaining vars q = (q', Inr (Found conn h))" for q' conn h
    using ensuresD [OF try_reader_taken q that] by simp
  show "taken api (failoverMode p) conn h" if "writer_round clock api cfg endTime vars q = (q', Inr (Found conn h))" for q' conn h
    using ensuresD [OF writer_round_taken q that] by simp
qed (use assms in simp_all)

section \<open>The whole plugin\<close>

lemma failover_loop_own:
  assumes "own P" "failover_loop clock api cfg endTime vars p = Some (p', r)" "P p"
  shows "P p'"
proof -
  have "P p' \<and> (\<forall>conn h. r = Inr (conn, h) \<longrightarrow> True)"
  proof (rule failover_loop_inv [of P clock api cfg "\<lambda>_ _. True"])
    fix q remaining vars endTime
    assume q: "P q"
    show "P (fst (nowS clock q))" using own_now [OF assms(1) q] .
    have "keeps P (try_reader api cfg remaining vars)" by (rule keeps_attempts(3)) (rule ownD(1) [OF assms(1)])
    then show "P (fst (try_reader api cfg remaining vars q))" using q by (simp add: keeps_def)
    show "P (fst (writer_round clock api cfg endTime vars q))"
      using keeps_writer_round [OF assms(1), of clock api cfg endTime vars] q by (simp add: keeps_def)
  qed (use assms in simp_all)
  then show ?thesis by simp
qed

lemma install_reader_own: "own P \<Longrightarrow> keeps P (install_reader api conn host)"
  unfolding install_reader_def by (intro keeps_rules keeps_calls) (rule ownD(1))

lemma reader_steps_own:
  assumes "own P" "reader_steps clock api cfg p = Some (q, r)" "P (fst (Inc ''readerFailover.triggered.count'' (fst (nowS clock p))))"
  shows "P q"
proof -
  let ?p1 = "fst (Inc ''readerFailover.triggered.count'' (fst (nowS clock p)))"
  obtain v ok err where refresh: "svc_ForceRefreshHostListWithTimeout api False 0 (svc ?p1) = (v, ok, err)" by (metis prod_cases3)
  have p2: "P (?p1\<lparr>svc := v\<rparr>)" by (rule ownD(1) [OF assms(1,3)])
  show ?thesis
  proof (cases "err = None \<and> ok")
    case True
    let ?endTime = "clock (clock_reads p) + failoverTimeoutMsSetting cfg * 1000000"
    obtain p3 res where g: "getReaderFailoverConnection clock api cfg ?endTime (?p1\<lparr>svc := v\<rparr>) = Some (p3, res)"
      using assms(2) True refresh by (auto simp: reader_steps_def Let_def bind_eq_Some_conv)
    have q: "(q, r) = (case res of Inl e \<Rightarrow> (p3, Inl (if is_panic e then e else reader_failed)) | Inr (conn, host) \<Rightarrow> install_reader api conn host p3)"
      using assms(2) True refresh g by (cases res) (auto simp: reader_steps_def Let_def split: prod.splits)
    have "P p3" using g failover_loop_own [OF assms(1)] ownD(1) [OF assms(1) p2]
      unfolding getReaderFailoverConnection_def Let_def case_prod_unfold by blast
    then show ?thesis using q install_reader_own [OF assms(1), of api] by (auto simp: keeps_def split: sum.splits prod.splits) (metis fst_conv)
  next
    case False
    then show ?thesis using assms(2) p2 refresh by (auto simp: reader_steps_def Let_def split: option.splits)
  qed
qed

text \<open>A failover is the reporting of an outcome that its steps reached from the state with the trigger counted; the steps
  keep everything of the plugin's own.\<close>

definition follows :: "('sv, 'z) FailoverPlugin_scheme \<Rightarrow> ('sv, 'z) FailoverPlugin_scheme \<Rightarrow> bool" where
  "follows p q \<longleftrightarrow> (\<forall>P. own P \<longrightarrow> P p \<longrightarrow> P q)"

lemma followsD: "follows p q \<Longrightarrow> own P \<Longrightarrow> P p \<Longrightarrow> P q"
  unfolding follows_def by blast

definition triggered :: "string \<Rightarrow> ('sv, 'z) FailoverPlugin_scheme \<Rightarrow> ('sv, 'z) FailoverPlugin_scheme" where
  "triggered kind p = p\<lparr>counted := counted p @ [kind @ ''Failover.triggered.count'']\<rparr>"

lemma failover_outcome:
  assumes "failover clock api cfg p = Some (p', e)"
  obtains kind q r where "kind = ''writer'' \<or> kind = ''reader''" "(p', e) = finish api kind (q, r)" "follows (triggered kind p) q"
proof (cases "failoverMode p = MODE_STRICT_WRITER")
  case True
  have t: "fst (Inc ''writerFailover.triggered.count'' p) = triggered ''writer'' p" by (simp add: Inc_def triggered_def)
  obtain q r where q: "writer_steps api cfg (triggered ''writer'' p) = (q, r)" by fastforce
  have "follows (triggered ''writer'' p) q"
    unfolding follows_def using q keeps_writer_steps [of _ api cfg] by (metis keepsD)
  moreover have "(p', e) = finish api ''writer'' (q, r)"
    using assms True q by (simp only: failover_def FailoverWriter_def t) simp
  ultimately show ?thesis using that [of "''writer''"] by blast
next
  case False
  then obtain q r where s: "reader_steps clock api cfg p = Some (q, r)" and f: "(p', e) = finish api ''reader'' (q, r)"
    using assms by (auto simp: failover_def FailoverReader_def)
  have t: "fst (Inc ''readerFailover.triggered.count'' (fst (nowS clock p))) = (triggered ''reader'' p)\<lparr>clock_reads := Suc (clock_reads p)\<rparr>"
    by (simp add: Inc_def nowS_def triggered_def)
  have "P q" if "own P" "P (triggered ''reader'' p)" for P
    by (rule reader_steps_own [OF that(1) s]) (simp only: t ownD(2) [OF that])
  then have "follows (triggered ''reader'' p) q" unfolding follows_def by blast
  then show ?thesis using that [of "''reader''"] f by blast
qed

lemma failover_own:
  assumes "own P" "uncounted P" "failover clock api cfg p = Some (p', e)" "P p"
  shows "P p'"
proof -
  obtain kind q r where f: "(p', e) = finish api kind (q, r)" and q: "follows (triggered kind p) q"
    using failover_outcome [OF assms(3)] by metis
  have "P (triggered kind p)" using assms(2,4) by (simp add: uncounted_def triggered_def)
  then have "P q" by (rule followsD [OF q assms(1)])
  then show ?thesis using finish_own [OF assms(1,2), of q api kind r] f by (metis fst_conv)
qed

text \<open>The error last dealt with is never recorded.\<close>

lemma dealWithError_last:
  assumes "dealWithError clock api cfg err p = Some (p', e)"
  shows "lastErrorDealtWith p' = lastErrorDealtWith p"
proof (cases "Some err \<noteq> lastErrorDealtWith p \<and> shouldErrorTriggerConnectionSwitch api p err")
  case True
  have inv: "lastErrorDealtWith (InvalidateCurrentConnection api p) = lastErrorDealtWith p"
    by (auto simp: InvalidateCurrentConnection_def Let_def split: option.splits)
  obtain p1 res where c: "callS (svc_GetCurrentHostInfo api) (InvalidateCurrentConnection api p) = (p1, res)" by fastforce
  then have p1: "lastErrorDealtWith p1 = lastErrorDealtWith p" using inv by (auto simp: callS_def split: prod.splits)
  show ?thesis
  proof (cases res)
    case (Inr host)
    then have "failover clock api cfg (p1\<lparr>svc := svc_SetAvailability api (Aliases host) UNAVAILABLE (svc p1)\<rparr>) = Some (p', e)"
      using assms True c by (simp add: dealWithError_def)
    from failover_own [OF own_fields(3) own_fields(6) this] show ?thesis using p1 by simp
  qed (use assms True c p1 in \<open>simp add: dealWithError_def\<close>)
qed (use assms in \<open>auto simp: dealWithError_def\<close>)

lemma failover_total: "advancing clock \<Longrightarrow> failover clock api cfg p \<noteq> None"
  using failover_returns [of clock api cfg p] by auto

lemma dealWithError_total: "advancing clock \<Longrightarrow> dealWithError clock api cfg err p \<noteq> None"
  by (simp add: failover_total dealWithError_def del: not_None_eq split: prod.splits sum.splits)

lemma connect_total:
  assumes "advancing clock"
  shows "Failover_Connect clock api cfg hostInfo props isInitialConnection connectFunc (p :: ('a, 'b) FailoverPlugin_scheme) \<noteq> None"
proof -
  have c: "connect_failover clock api cfg q \<noteq> None" for q :: "('a, 'b) FailoverPlugin_scheme"
    by (simp add: failover_total [OF assms] connect_failover_def del: not_None_eq)
  have "connect_or_failover clock api cfg hostInfo props isInitialConnection connectFunc q \<noteq> None" for q :: "('a, 'b) FailoverPlugin_scheme"
    by (simp add: c connect_or_failover_def Let_def del: not_None_eq split: prod.splits sum.splits)
  then show ?thesis by (simp add: Failover_Connect_def del: not_None_eq split: prod.splits sum.splits)
qed

section \<open>Properties\<close>

text \<open>C6: Whatever the service and the other plugins answer, executing a method and connecting through the failover plugin
  return, provided that the clock passes every time: the search for a reader ends at the deadline, also when every
  candidate fails at once and there is nobody left to try.\<close>
theorem Failover_returns:
  assumes "advancing clock"
  shows "(\<exists>r. Failover_Execute clock api cfg methodName executeFunc p = Some r) \<and>
    (\<exists>r. Failover_Connect clock api cfg hostInfo props isInitialConnection connectFunc p = Some r)"
proof -
  have "Failover_Execute clock api cfg methodName executeFunc p \<noteq> None"
    by (simp add: dealWithError_total [OF assms] Failover_Execute_def Let_def del: not_None_eq split: prod.splits option.splits)
  then show ?thesis using connect_total [OF assms, of api cfg hostInfo props isInitialConnection connectFunc p] by auto
qed

text \<open>C2: In strict-reader mode the search for a reader only ever answers a connection whose role query answered reader,
  with a host marked as a reader; the roles in the host list are not trusted, and the original writer is only taken
  when it has become a reader.\<close>
theorem getReaderFailoverConnection_strict:
  assumes "failoverMode p = MODE_STRICT_READER" "getReaderFailoverConnection clock api cfg endTime p = Some (p', Inr (conn, host))"
  shows "conn \<noteq> None \<and> Role host = READER \<and> (\<exists>v. snd (svc_GetHostRole api conn v) = READER)"
proof -
  obtain v hosts where v: "svc_GetHosts api (svc p) = (v, hosts)" by fastforce
  obtain vars where "failover_loop clock api cfg endTime vars (p\<lparr>svc := v\<rparr>) = Some (p', Inr (conn, host))"
    using assms(2) v by (auto simp: getReaderFailoverConnection_def Let_def split: prod.splits)
  from failover_loop_taken [OF this] have "taken api MODE_STRICT_READER conn host" using assms(1) by simp
  then show ?thesis by (auto simp: taken_def acceptable_def)
qed

text \<open>A failover with the flag set.\<close>

lemma failover_flagged:
  assumes "fo_isInTransaction p" "failover clock api cfg p = Some (p', e)"
  shows "fo_isInTransaction p' \<and>
    (last (counted p') \<in> {''writerFailover.completed.success.count'', ''readerFailover.completed.success.count''} \<longrightarrow>
       e = TransactionResolutionUnknownError)"
proof -
  obtain kind q r where kind: "kind = ''writer'' \<or> kind = ''reader''" and f: "(p', e) = finish api kind (q, r)"
    and q: "follows (triggered kind p) q"
    using failover_outcome [OF assms(2)] by metis
  have flag: "fo_isInTransaction q" using followsD [OF q own_fields(4)] assms(1) by (simp add: triggered_def)
  have counted: "counted q = counted p @ [kind @ ''Failover.triggered.count'']"
    using followsD [OF q own_fields(5)] by (simp add: triggered_def)
  have "e = TransactionResolutionUnknownError" if "last (counted p') \<in> {''writerFailover.completed.success.count'', ''readerFailover.completed.success.count''}"
  proof (cases r)
    case (Inl err)
    then have "last (counted p') = kind @ ''Failover.triggered.count'' \<or> last (counted p') = kind @ ''Failover.completed.failed.count''"
      using f counted by (auto simp: finish_def Inc_def split: if_splits)
    then show ?thesis using that kind by auto
  next
    case (Inr u)
    then show ?thesis using f flag by (simp add: finish_def returnFailoverSuccessError_def bindP_def updS_def)
  qed
  then show ?thesis using failover_own [OF own_fields(4) own_fields(7) assms(2,1)] by blast
qed

text \<open>An error that starts a failover while the connection is in a transaction.\<close>

definition lost_in_transaction :: "('sv, 'c) PluginServiceApi \<Rightarrow> go_error \<Rightarrow> ('sv, 'z) FailoverPlugin_scheme \<Rightarrow> bool" where
  "lost_in_transaction api err p \<longleftrightarrow>
     Some err \<noteq> lastErrorDealtWith p \<and> shouldErrorTriggerConnectionSwitch api p err \<and>
     svc_GetCurrentConnection api (svc p) \<noteq> None \<and> svc_IsInTransaction api (svc p)"

lemma invalidate_flag: "fo_isInTransaction (InvalidateCurrentConnection api p) \<longleftrightarrow>
    fo_isInTransaction p \<or> svc_GetCurrentConnection api (svc p) \<noteq> None \<and> svc_IsInTransaction api (svc p)"
  by (auto simp: InvalidateCurrentConnection_def Let_def split: option.splits)

lemma invalidate_counted: "counted (InvalidateCurrentConnection api p) = counted p"
  by (auto simp: InvalidateCurrentConnection_def Let_def split: option.splits)

text \<open>C30: When an error makes the plugin fail over while the connection is in a transaction, the plugin remembers the
  transaction. It never forgets it: that failover and every later one, whether an error or a connection
  attempt starts it and whether or not there is a transaction then, reports when it succeeds that the resolution of the
  transaction is unknown.\<close>
theorem failover_transaction_remembered:
  assumes "fo_isInTransaction p \<or> lost_in_transaction api err p" "dealWithError clock api cfg err p = Some (p', e)"
  shows "fo_isInTransaction p' \<and>
    (counted p' \<noteq> counted p \<and> last (counted p') \<in> {''writerFailover.completed.success.count'', ''readerFailover.completed.success.count''} \<longrightarrow>
       e = TransactionResolutionUnknownError) \<and>
    (\<forall>clock' api' cfg' p'' e'. failover clock' api' cfg' p' = Some (p'', e') \<longrightarrow> fo_isInTransaction p'' \<and>
       (last (counted p'') \<in> {''writerFailover.completed.success.count'', ''readerFailover.completed.success.count''} \<longrightarrow>
          e' = TransactionResolutionUnknownError))"
proof -
  have here: "fo_isInTransaction p' \<and>
    (counted p' \<noteq> counted p \<and> last (counted p') \<in> {''writerFailover.completed.success.count'', ''readerFailover.completed.success.count''} \<longrightarrow>
       e = TransactionResolutionUnknownError)"
  proof (cases "Some err \<noteq> lastErrorDealtWith p \<and> shouldErrorTriggerConnectionSwitch api p err")
    case True
    obtain p1 res where c: "callS (svc_GetCurrentHostInfo api) (InvalidateCurrentConnection api p) = (p1, res)" by fastforce
    have p1: "fo_isInTransaction p1" "counted p1 = counted p"
      using c assms(1) invalidate_flag [of api p] invalidate_counted [of api p] by (auto simp: callS_def lost_in_transaction_def split: prod.splits)
    show ?thesis
    proof (cases res)
      case (Inr host)
      then have f: "failover clock api cfg (p1\<lparr>svc := svc_SetAvailability api (Aliases host) UNAVAILABLE (svc p1)\<rparr>) = Some (p', e)"
        using assms(2) True c by (simp add: dealWithError_def)
      show ?thesis using failover_flagged [OF _ f] p1 by auto
    qed (use assms(2) True c p1 in \<open>simp add: dealWithError_def\<close>)
  qed (use assms in \<open>auto simp: dealWithError_def lost_in_transaction_def\<close>)
  with failover_flagged [where p = p'] show ?thesis by blast
qed

section \<open>Failover of the modelled service\<close>

text \<open>When the other plugins change nothing but their own state on a notification, a successful switch leaves the new
  connection with the service.\<close>

lemma notify_and_close_current: "quiet m opinion \<Longrightarrow>
    currentConnection (notify_and_close w m changes skip old s) = currentConnection s \<and>
    currentHostInfo (notify_and_close w m changes skip old s) = currentHostInfo s"
proof -
  assume q: "quiet m opinion"
  obtain x A where "NotifyConnectionChanged changes skip m s = (PluginService.more_update (\<lambda>_. x) s, A)"
    using quiet_notify [OF q] by metis
  then show ?thesis by (simp add: notify_and_close_def Let_def execute_all_def split: prod.splits)
qed

lemma switch_connection_current:
  assumes "quiet m opinion" "switch_connection w m changes skip old conn host s = (s', None)"
  shows "currentConnection s' = Some conn \<and> currentHostInfo s' = Some host"
  using assms(2)
  by (auto simp: switch_connection_def Let_def execute_all_def notify_and_close_current [OF assms(1)] split: prod.splits if_splits)

text \<open>The host is installed with the connection, unless that was the connection already.\<close>

lemma SetCurrentConnection_current:
  assumes "quiet m opinion" "SetCurrentConnection w m conn host skip s = (s', None)"
  shows "currentConnection s' = conn \<and> \<not> IsNil host \<and> (currentConnection s \<noteq> conn \<longrightarrow> currentHostInfo s' = host)"
proof -
  obtain c h where ch: "conn = Some c" "host = Some h" "\<not> IsNil (Some h)"
    using assms(2) by (auto simp: SetCurrentConnection_def split: option.splits if_splits)
  show ?thesis
  proof (cases "currentConnection s")
    case None
    obtain x A where "NotifyConnectionChanged {INITIAL_CONNECTION} skip m (s\<lparr>currentConnection := Some c, currentHostInfo := Some h,
         sessionStateService := SessionState_Reset (sessionStateService s),
         initialHostInfo := (if initialHostInfo s = None then Some h else initialHostInfo s)\<rparr>) =
       (PluginService.more_update (\<lambda>_. x) (s\<lparr>currentConnection := Some c, currentHostInfo := Some h,
         sessionStateService := SessionState_Reset (sessionStateService s),
         initialHostInfo := (if initialHostInfo s = None then Some h else initialHostInfo s)\<rparr>), A)"
      using quiet_notify [OF assms(1)] by metis
    then show ?thesis using assms(2) ch None by (auto simp: SetCurrentConnection_def Let_def)
  next
    case (Some old)
    obtain current where cur: "currentHostInfo s = Some current"
      using assms(2) ch Some by (cases "currentHostInfo s") (auto simp: SetCurrentConnection_def)
    have set: "(if compare_connections old current c h = {} then (s, None)
        else switch_connection w m (compare_connections old current c h) skip old c h s) = (s', None)"
      using assms(2) ch Some cur by (simp add: SetCurrentConnection_def Let_def)
    show ?thesis
    proof (cases "compare_connections old current c h = {}")
      case True
      then show ?thesis using set ch Some by (auto simp: compare_connections_def split: if_splits)
    next
      case False
      then have "switch_connection w m (compare_connections old current c h) skip old c h s = (s', None)" using set by simp
      from switch_connection_current [OF assms(1) this] show ?thesis using ch by simp
    qed
  qed
qed

lemma GetHosts_current: "currentConnection (fst (GetHosts w s)) = currentConnection s"
  by (simp add: GetHosts_def Let_def case_prod_unfold)

lemma GetCurrentHostInfo_current: "currentConnection (fst (GetCurrentHostInfo w s)) = currentConnection s"
  using GetHosts_current [of w "s\<lparr>currentHostInfo := GetWriter (map Some (AllHosts (s\<lparr>currentHostInfo := initialHostInfo s\<rparr>)))\<rparr>"]
  by (simp add: GetCurrentHostInfo_def Let_def case_prod_unfold)

lemma GetCurrentHostInfo_known: "\<not> IsNil (currentHostInfo s) \<Longrightarrow> GetCurrentHostInfo w s = (s, currentHostInfo s, None)"
  by (simp add: GetCurrentHostInfo_def)

lemma connect_to_writer_role:
  assumes "connect_to_writer (service_api octx w m self role_of isNet isLogin) cfg h p = (p', Inr conn)"
  shows "createConnectionForHost (service_api octx w m self role_of isNet isLogin) cfg h p = (p', Inr conn) \<and> role_of conn = WRITER"
  using assms unfolding connect_to_writer_def bindP_Inr_iff [where m = "attempt _"]
  by (elim exE conjE, case_tac a) (auto simp: bindP_Inr_iff askS_def service_api_def attempt_Inr split: if_splits)

lemma install_writer_current:
  assumes "quiet m opinion" "install_writer (service_api octx w m self role_of isNet isLogin) conn h p = (p', Inr u)"
  shows "currentConnection (svc p') = conn \<and> (currentConnection (svc p) \<noteq> conn \<longrightarrow> currentHostInfo (svc p') = h)"
proof -
  let ?api = "service_api octx w m self role_of isNet isLogin"
  obtain s1 e where set: "SetCurrentConnection w m conn h None (svc p) = (s1, e)" by fastforce
  have call: "callS (svc_SetCurrentConnection ?api conn h) p = (p\<lparr>svc := s1\<rparr>, case e of None \<Rightarrow> Inr () | Some x \<Rightarrow> Inl x)"
    by (simp add: callS_def service_api_def set of_pair_def)
  have e: "e = None"
  proof (rule ccontr)
    assume "e \<noteq> None"
    then obtain x where "e = Some x" by blast
    then show False using assms(2) call
      by (auto simp: install_writer_def bindP_Inr_iff attempt_def split: go_error.splits prod.splits sum.splits)
  qed
  note current = SetCurrentConnection_current [OF assms(1) set [unfolded e]]
  obtain a where get: "callS (svc_GetCurrentHostInfo ?api) (p\<lparr>svc := s1\<rparr>) = (p', Inr a)"
    using assms(2) call e by (auto simp: install_writer_def bindP_Inr_iff attempt_def)
  then have c: "currentConnection (svc p') = conn"
    using current GetCurrentHostInfo_current [of w s1] by (auto simp: callS_def service_api_def split: prod.splits option.splits)
  have "currentHostInfo (svc p') = h" if "currentConnection (svc p) \<noteq> conn"
  proof -
    from that current have s1: "currentHostInfo s1 = h" "\<not> IsNil (currentHostInfo s1)" by simp_all
    from GetCurrentHostInfo_known [OF s1(2), of w] get s1(1) show ?thesis
      by (auto simp: callS_def service_api_def split: prod.splits option.splits)
  qed
  with c show ?thesis by blast
qed

lemma writer_steps_connected:
  assumes "quiet m opinion" "writer_steps (service_api octx w m self role_of isNet isLogin) cfg p = (p', Inr u)"
  shows "\<exists>s1 e1 writer p2 conn.
    ForceRefreshHostListWithTimeout w m True (failoverTimeoutMsSetting cfg) (svc p) = (s1, True, e1) \<and>
    GetWriter (map Some (AllHosts s1)) = Some writer \<and>
    createConnectionForHost (service_api octx w m self role_of isNet isLogin) cfg writer (p\<lparr>svc := s1\<rparr>) = (p2, Inr conn) \<and> role_of conn = WRITER \<and>
    currentConnection (svc p') = conn \<and> (currentConnection (svc p2) \<noteq> conn \<longrightarrow> currentHostInfo (svc p') = Some writer)"
proof -
  let ?api = "service_api octx w m self role_of isNet isLogin"
  obtain s1 ok e1 where r: "ForceRefreshHostListWithTimeout w m True (failoverTimeoutMsSetting cfg) (svc p) = (s1, ok, e1)" by (metis prod_cases3)
  have ask: "askS (svc_ForceRefreshHostListWithTimeout ?api True (failoverTimeoutMsSetting cfg)) p = (p\<lparr>svc := s1\<rparr>, Inr (ok, e1))"
    by (simp add: askS_def service_api_def r)
  let ?writer = "GetWriter (map Some (AllHosts s1))"
  have ok: "ok" "\<not> IsNil ?writer"
    and rest: "bindP (connect_to_writer ?api cfg (the ?writer)) (\<lambda>conn. install_writer ?api conn ?writer) (p\<lparr>svc := s1\<rparr>) = (p', Inr u)"
    using assms(2) ask
    by (auto simp: writer_steps_def bindP_Inr_iff [where m = "askS _"] bindP_Inr_iff [where m = "readS _"] readS_def service_api_def Let_def failP_def
        split: if_splits)
  then obtain writer where writer: "?writer = Some writer" by (cases ?writer) (auto simp: IsNil_def)
  from rest obtain p2 conn where "connect_to_writer ?api cfg writer (p\<lparr>svc := s1\<rparr>) = (p2, Inr conn)" "install_writer ?api conn (Some writer) p2 = (p', Inr u)"
    by (auto simp: bindP_Inr_iff writer)
  note c = connect_to_writer_role [OF this(1)] and i = install_writer_current [OF assms(1) this(2)]
  show ?thesis
    by (intro exI [of _ s1] exI [of _ e1] exI [of _ writer] exI [of _ p2] exI [of _ conn]) (use c i r ok writer in simp)
qed

text \<open>C7: A writer failover of the modelled plugin service that counts itself a success has refreshed the hosts with verification, has
  connected to the host that the refreshed topology calls the writer, and leaves the service with that connection, which
  answered the role query as a writer's, and with that host unless the connection was the current one already; provided
  that the other plugins change only their own state when they are notified.\<close>
theorem FailoverWriter_connected:
  assumes "quiet m opinion" "FailoverWriter (service_api octx w m self role_of isNet isLogin) cfg p = (p', e)"
    "last (counted p') = ''writerFailover.completed.success.count''"
  shows "\<exists>s1 e1 writer p2 conn.
    ForceRefreshHostListWithTimeout w m True (failoverTimeoutMsSetting cfg) (svc p) = (s1, True, e1) \<and>
    GetWriter (map Some (AllHosts s1)) = Some writer \<and>
    createConnectionForHost (service_api octx w m self role_of isNet isLogin) cfg writer ((triggered ''writer'' p)\<lparr>svc := s1\<rparr>) = (p2, Inr conn) \<and>
    role_of conn = WRITER \<and> currentConnection (svc p') = conn \<and>
    (currentConnection (svc p2) \<noteq> conn \<longrightarrow> currentHostInfo (svc p') = Some writer)"
proof -
  let ?api = "service_api octx w m self role_of isNet isLogin"
  obtain q r where q: "writer_steps ?api cfg (triggered ''writer'' p) = (q, r)" by fastforce
  have fin: "(p', e) = finish ?api ''writer'' (q, r)" using assms(2) q by (simp add: FailoverWriter_def Inc_def triggered_def)
  have "counted q = counted p @ [''writerFailover.triggered.count'']"
    using keepsD [OF keeps_writer_steps [OF own_fields(5)] _ q] by (simp add: triggered_def)
  then obtain u where r: "r = Inr u" using fin assms(3) by (cases r) (auto simp: finish_def Inc_def split: if_splits)
  have "currentConnection (svc p') = currentConnection (svc q)" "currentHostInfo (svc p') = currentHostInfo (svc q)"
    using fin r by (auto simp: finish_def returnFailoverSuccessError_def bindP_def updS_def Inc_def service_api_def split: if_splits)
  then show ?thesis using writer_steps_connected [OF assms(1) q [unfolded r]] by (simp add: triggered_def)
qed

section \<open>Examples\<close>

definition lab_api :: "(nat, nat) PluginServiceApi" where
  "lab_api =
     \<lparr>svc_GetHosts = (\<lambda>s. (s, [small_host ''a'' 5 WRITER, small_host ''b'' 5 READER])),
      svc_GetAllHosts = (\<lambda>_. [small_host ''a'' 5 WRITER, small_host ''b'' 5 READER]),
      svc_Connect = (\<lambda>host _ s. (s, Inr (Some (if Host host = ''a'' then 1 else 2)))),
      svc_ForceConnect = (\<lambda>host _ s. (s, Inr (Some (if Host host = ''a'' then 1 else 2)))), svc_AcceptsStrategy = (\<lambda>_. True),
      svc_GetHostRole = (\<lambda>conn s. (s, if conn = Some 1 then WRITER else READER)),
      svc_Close = (\<lambda>_ s. s), svc_IsClosed = (\<lambda>_ _. False),
      svc_SetCurrentConnection = (\<lambda>_ _ s. (s, Inr ())), svc_GetCurrentConnection = (\<lambda>s. Some s),
      svc_GetCurrentHostInfo = (\<lambda>s. (s, Inr (small_host ''a'' 5 WRITER))),
      svc_GetInitialConnectionHostInfo = (\<lambda>_. None), svc_SetInitialConnectionHostInfo = (\<lambda>_ s. s),
      svc_SetAvailability = (\<lambda>_ _ s. s), svc_RefreshHostList = (\<lambda>s. (s, Inr ())), svc_ForceRefreshHostList = (\<lambda>s. (s, Inr ())),
      svc_ForceRefreshHostListWithTimeout = (\<lambda>_ _ s. (s, True, None)),
      svc_GetUpdatedHostListWithTimeout = (\<lambda>_ _ s. (s, Inr [])),
      svc_GetHostInfoByStrategy = (\<lambda>_ _ hosts s. (s, Inr (Some (hd hosts)))),
      svc_IsInTransaction = (\<lambda>_. False), svc_SetInTransaction = (\<lambda>_ s. s), svc_Rollback = (\<lambda>_ s. s),
      svc_IsNetworkError = (\<lambda>_. True), svc_IsLoginError = (\<lambda>_. False),
      svc_FillAliases = (\<lambda>_ h s. (s, Inr h)), svc_IdentifyConnection = (\<lambda>_ s. (s, Inr None))\<rparr>"

definition lab_settings :: failover_settings where
  "lab_settings = \<lparr>fo_props = NewRWMap, failoverTimeoutMsSetting = 300000, failoverReaderHostSelectorStrategySetting = ''random''\<rparr>"

definition lab_plugin :: "'sv \<Rightarrow> FailoverMode \<Rightarrow> 'sv FailoverPlugin" where
  "lab_plugin s mode =
     \<lparr>svc = s, clock_reads = 0, dns_caches = fresh_state None, failoverMode = mode, fo_isInTransaction = True, fo_rdsUrlType = OTHER,
      lastErrorDealtWith = None, fo_writerHostInfo = None, counted = []\<rparr>"

lemma advancing_int: "advancing int"
  unfolding advancing_def by (metis int_nat_eq nat_le_iff le_trans of_nat_0_le_iff nle_le)

lemma Failover_returns_witness:
  "advancing int \<and> (\<exists>r. Failover_Execute int lab_api lab_settings ''Conn.QueryContext''
     (\<lambda>s. (s, None :: nat option, None, False, Some (ErrorsNew ''lost''))) (lab_plugin 0 MODE_STRICT_READER) = Some r)"
  by (rule conjI [OF advancing_int Failover_returns [OF advancing_int, THEN conjunct1]])

lemma getReaderFailoverConnection_strict_witness:
  "\<exists>p'. getReaderFailoverConnection int lab_api lab_settings 10 (lab_plugin 0 MODE_STRICT_READER) = Some (p', Inr (Some 2, small_host ''b'' 5 READER)) \<and>
     (\<exists>v. snd (svc_GetHostRole lab_api (Some 2) v) = READER)"
proof -
  have "map_option snd (getReaderFailoverConnection int lab_api lab_settings 10 (lab_plugin 0 MODE_STRICT_READER)) =
     Some (Inr (Some 2, small_host ''b'' 5 READER))" by code_simp
  then obtain p' where run: "getReaderFailoverConnection int lab_api lab_settings 10 (lab_plugin 0 MODE_STRICT_READER) =
     Some (p', Inr (Some 2, small_host ''b'' 5 READER))" by auto
  have "failoverMode (lab_plugin 0 MODE_STRICT_READER) = MODE_STRICT_READER" by (simp add: lab_plugin_def)
  from getReaderFailoverConnection_strict [OF this run] run show ?thesis by blast
qed

text \<open>A network error in a transaction.\<close>

lemma failover_transaction_remembered_witness:
  "\<exists>p'. dealWithError int (lab_api\<lparr>svc_IsInTransaction := \<lambda>_. True\<rparr>) lab_settings (ErrorsNew ''lost'') ((lab_plugin (0 :: nat) MODE_STRICT_WRITER)\<lparr>fo_isInTransaction := False\<rparr>) =
     Some (p', TransactionResolutionUnknownError) \<and> fo_isInTransaction p' \<and>
     counted p' = [''writerFailover.triggered.count'', ''writerFailover.completed.success.count'']"
proof -
  let ?api = "lab_api\<lparr>svc_IsInTransaction := \<lambda>_. True\<rparr>" and ?p = "(lab_plugin (0 :: nat) MODE_STRICT_WRITER)\<lparr>fo_isInTransaction := False\<rparr>"
  have "map_option (counted \<circ> fst) (dealWithError int ?api lab_settings (ErrorsNew ''lost'') ?p) =
     Some [''writerFailover.triggered.count'', ''writerFailover.completed.success.count'']" by code_simp
  then obtain p' e where run: "dealWithError int ?api lab_settings (ErrorsNew ''lost'') ?p = Some (p', e)"
    and c: "counted p' = [''writerFailover.triggered.count'', ''writerFailover.completed.success.count'']" by auto
  have "lost_in_transaction ?api (ErrorsNew ''lost'') ?p" "counted ?p = []" by code_simp+
  moreover from this have "counted p' \<noteq> counted ?p" by (simp add: c)
  ultimately have "fo_isInTransaction p'" "e = TransactionResolutionUnknownError"
    using failover_transaction_remembered [OF disjI2 run] by (auto simp: c)
  then show ?thesis using run c by blast
qed

definition connecting_plugin :: "((nat, nat, nat, nat, unit, unit) service, nat, nat, nat) ConnectionPlugin" where
  "connecting_plugin =
     \<lparr>pluginId = 4, structName = ''DefaultPlugin'', GetPluginCode = ''default'', GetSubscribedMethods = [ALL_METHODS],
      plugin_Execute = (\<lambda>_ _ run. run), plugin_Connect = (\<lambda>_ _ _ _ s. (s, Some 9, None)), plugin_ForceConnect = (\<lambda>_ _ _ _ s. (s, Some 9, None)),
      plugin_InitHostProvider = (\<lambda>_ run. run), plugin_AcceptsStrategy = (\<lambda>_. False),
      plugin_GetHostInfoByStrategy = (\<lambda>_ _ _ s. (s, None, None)), plugin_GetHostSelectorStrategy = (\<lambda>_. (None, None)),
      plugin_NotifyConnectionChanged = (\<lambda>_ s. (s, NO_OPINION)), plugin_NotifyHostListChanged = (\<lambda>_ s. s), plugin_ReleaseResources = None\<rparr>"

definition lab_manager :: "(nat, nat, nat, nat, unit, unit, nat, nat) manager" where
  "lab_manager = Manager_Init [connecting_plugin] NewPluginManagerImpl"

definition lab_world :: "(nat, nat, nat, nat, unit, unit) world" where
  "lab_world = sample_world\<lparr>hlp_ForceRefreshWithTimeout := (\<lambda>_ _ _ s. (s, [small_host ''b'' 5 WRITER], None))\<rparr>"

lemma lab_manager_quiet: "quiet lab_manager (\<lambda>_ _. NO_OPINION)"
  by (auto simp: quiet_def lab_manager_def Manager_Init_def connecting_plugin_def intro: exI [of _ "PluginService.more _"])

lemma FailoverWriter_connected_witness:
  "\<exists>p'. FailoverWriter (service_api (\<lambda>_ t. t) lab_world lab_manager 0 (\<lambda>c. if c = Some 9 then WRITER else READER) (\<lambda>_. True) (\<lambda>_. False))
     lab_settings (lab_plugin ((sample_service [])\<lparr>currentHostInfo := Some (small_host ''a'' 5 WRITER)\<rparr>) MODE_STRICT_WRITER) = (p', TransactionResolutionUnknownError) \<and>
   currentConnection (svc p') = Some 9"
proof -
  let ?run = "FailoverWriter (service_api (\<lambda>_ t. t) lab_world lab_manager 0 (\<lambda>c. if c = Some 9 then WRITER else READER) (\<lambda>_. True) (\<lambda>_. False))
     lab_settings (lab_plugin ((sample_service [])\<lparr>currentHostInfo := Some (small_host ''a'' 5 WRITER)\<rparr>) MODE_STRICT_WRITER)"
  obtain p' e where run: "?run = (p', e)" by fastforce
  have "counted (fst ?run) = [''writerFailover.triggered.count'', ''writerFailover.completed.success.count'']"
    "snd ?run = TransactionResolutionUnknownError" by code_simp+
  then have "last (counted p') = ''writerFailover.completed.success.count''" "e = TransactionResolutionUnknownError" using run by simp_all
  with FailoverWriter_connected [OF lab_manager_quiet run] run show ?thesis by (auto split: if_splits)
qed

end
