(* ===== verification/Go_Loops.thy ===== *)
theory Go_Loops
  imports Go_Effects
begin

text \<open>
  Loops of the plugins and monitors that end at a deadline or at an event: a combinator over the turns of a loop, with
  the rules by which a loop returns and keeps an invariant.
\<close>

text \<open>\<open>loopP body a s\<close>: a loop whose variables are \<open>a\<close> and whose turns are runs of \<open>body\<close>. A turn goes round again with new
  variables or leaves with the value of the loop; \<open>None\<close> is a loop that does not return.\<close>

partial_function (option) loopP :: "('a \<Rightarrow> 's \<Rightarrow> ('s \<times> ('a + 'b)) option) \<Rightarrow> 'a \<Rightarrow> 's \<Rightarrow> ('s \<times> 'b) option" where
  "loopP body a s =
     (case body a s of
        None \<Rightarrow> None
      | Some (s', Inl a') \<Rightarrow> loopP body a' s'
      | Some (s', Inr b) \<Rightarrow> Some (s', b))"

text \<open>The same with conditionals, which evaluation does not enter before they are decided.\<close>

definition next_turn :: "('a \<Rightarrow> 's \<Rightarrow> ('s \<times> ('a + 'b)) option) \<Rightarrow> ('s \<times> ('a + 'b)) option \<Rightarrow> ('s \<times> 'b) option" where
  "next_turn body turn =
     (if Option.is_none turn then None
      else if isl (snd (the turn)) then loopP body (projl (snd (the turn))) (fst (the turn))
      else Some (fst (the turn), projr (snd (the turn))))"

lemma loopP_code [code]: "loopP body a s = next_turn body (body a s)"
  by (simp add: next_turn_def loopP.simps [of body a s] split: option.splits sum.splits)

lemma loopP_turn:
  "body a s = Some (s', Inl a') \<Longrightarrow> loopP body a s = loopP body a' s'"
  "body a s = Some (s', Inr b) \<Longrightarrow> loopP body a s = Some (s', b)"
  by (simp_all add: loopP.simps [of body a s])

lemma loopP_returns:
  fixes measure_of :: "'a \<Rightarrow> 's \<Rightarrow> nat"
  assumes "\<And>a s. I a s \<Longrightarrow> \<exists>s' r. body a s = Some (s', r) \<and> (\<forall>a'. r = Inl a' \<longrightarrow> I a' s' \<and> measure_of a' s' < measure_of a s)"
    and "I a s"
  shows "\<exists>r. loopP body a s = Some r"
  using assms(2)
proof (induction "measure_of a s" arbitrary: a s rule: less_induct)
  case less
  obtain s' r where turn: "body a s = Some (s', r)" and down: "\<And>a'. r = Inl a' \<Longrightarrow> I a' s' \<and> measure_of a' s' < measure_of a s"
    using assms(1) [OF less.prems] by blast
  show ?case
  proof (cases r)
    case (Inl a')
    with down less.hyps have "\<exists>r. loopP body a' s' = Some r" by blast
    then show ?thesis using loopP_turn(1) [of body a s s' a'] turn Inl by simp
  next
    case (Inr b)
    then show ?thesis using loopP_turn(2) [of body a s s' b] turn by simp
  qed
qed

lemma loopP_inv:
  assumes again: "\<And>a s s' a'. I a s \<Longrightarrow> body a s = Some (s', Inl a') \<Longrightarrow> I a' s'"
    and leave: "\<And>a s s' b. I a s \<Longrightarrow> body a s = Some (s', Inr b) \<Longrightarrow> Q b s'"
    and run: "loopP body a s = Some (s', b)" and start: "I a s"
  shows "Q b s'"
proof -
  have "body = body \<longrightarrow> I a s \<longrightarrow> Q (snd (s', b)) (fst (s', b))"
  proof (rule loopP.raw_induct [where P = "\<lambda>body' a s y. body' = body \<longrightarrow> I a s \<longrightarrow> Q (snd y) (fst y)", OF _ run], intro impI)
    fix loop body' a s y
    assume IH: "\<And>body' a s y. loop body' a s = Some y \<Longrightarrow> body' = body \<longrightarrow> I a s \<longrightarrow> Q (snd y) (fst y)"
      and turn: "(case body' a s of None \<Rightarrow> None | Some (s', Inl a') \<Rightarrow> loop body' a' s' | Some (s', Inr b) \<Rightarrow> Some (s', b)) = Some y"
      and same: "body' = body" and I: "I a s"
    obtain s1 r where b: "body a s = Some (s1, r)" using turn same by (cases "body a s") auto
    show "Q (snd y) (fst y)"
    proof (cases r)
      case (Inl a')
      then have "loop body a' s1 = Some y" using turn same b by simp
      from IH [OF this] show ?thesis using again [OF I] b Inl by blast
    next
      case (Inr v)
      then show ?thesis using turn same b leave [OF I] by auto
    qed
  qed
  then show ?thesis using start by simp
qed

end
