(* ===== verification/Gdb_Failover.thy ===== *)
theory Gdb_Failover
  imports Failover Go_Loops
begin

text \<open>
  Failover of Aurora global databases: the handler \<open>globalDbFailoverHandler\<close> of \<open>awssql/plugins/gdb_failover_plugin.go\<close>,
  which replaces the handler of \<open>Failover\<close> in the same plugin. Its fields extend those of the plugin. The delays between
  attempts only show in the readings of the clock.
\<close>

section \<open>Modes\<close>

datatype GlobalDbFailoverMode =
    GDB_MODE_STRICT_WRITER | GDB_MODE_STRICT_HOME_READER | GDB_MODE_STRICT_OUT_OF_HOME_READER | GDB_MODE_STRICT_ANY_READER
  | GDB_MODE_HOME_READER_OR_WRITER | GDB_MODE_OUT_OF_HOME_READER_OR_WRITER | GDB_MODE_ANY_READER_OR_WRITER | GDB_MODE_UNKNOWN

definition gdbFailoverModeFromValue :: "string \<Rightarrow> go_error + GlobalDbFailoverMode" where
  "gdbFailoverModeFromValue mode =
     (if mode = '''' then Inr GDB_MODE_UNKNOWN
      else if ToLower mode = ''strict-writer'' then Inr GDB_MODE_STRICT_WRITER
      else if ToLower mode = ''strict-home-reader'' then Inr GDB_MODE_STRICT_HOME_READER
      else if ToLower mode = ''strict-out-of-home-reader'' then Inr GDB_MODE_STRICT_OUT_OF_HOME_READER
      else if ToLower mode = ''strict-any-reader'' then Inr GDB_MODE_STRICT_ANY_READER
      else if ToLower mode = ''home-reader-or-writer'' then Inr GDB_MODE_HOME_READER_OR_WRITER
      else if ToLower mode = ''out-of-home-reader-or-writer'' then Inr GDB_MODE_OUT_OF_HOME_READER_OR_WRITER
      else if ToLower mode = ''any-reader-or-writer'' then Inr GDB_MODE_ANY_READER_OR_WRITER
      else Inl (ErrorsNew (''invalid GlobalDbFailoverMode value: '' @ mode)))"

record 'sv globalDbFailoverHandler = "'sv FailoverPlugin" +
  activeHomeFailoverMode :: GlobalDbFailoverMode
  inactiveHomeFailoverMode :: GlobalDbFailoverMode
  homeRegion :: string
  gdb_rdsUrlType :: RdsUrlType
  failoverModeInitialized :: bool

type_synonym ('sv, 'z, 'a) gdb_prog = "(('sv, 'z) globalDbFailoverHandler_scheme, 'a) prog"

definition missing_home_region :: go_error where
  "missing_home_region = ErrorsNew ''GlobalDbFailoverConnectionPlugin.missingHomeRegion''"

text \<open>The region of the property, or that of the endpoint.\<close>

definition init_home_region :: "failover_settings \<Rightarrow> string \<Rightarrow> ('sv, 'z, unit) gdb_prog" where
  "init_home_region cfg host =
     bindP (modifyP (\<lambda>p. p\<lparr>homeRegion := as_string (GetVerifiedWrapperPropertyValue (Some (fo_props cfg)) GDB_FAILOVER_HOME_REGION)\<rparr>)) (\<lambda>_.
     bindP (getsP (\<lambda>p. (homeRegion p, HasRegion (gdb_rdsUrlType p)))) (\<lambda>(home, hasRegion).
       if home \<noteq> '''' then returnP ()
       else if \<not> hasRegion then failP missing_home_region
       else bindP (dnsS (GetRdsRegion host)) (\<lambda>region.
            bindP (modifyP (\<lambda>p. p\<lparr>homeRegion := region\<rparr>)) (\<lambda>_.
              if region = '''' then failP missing_home_region else returnP ()))))"

text \<open>A mode left open is strict for the writer endpoints.\<close>

definition mode_or_default :: "RdsUrlType \<Rightarrow> GlobalDbFailoverMode \<Rightarrow> GlobalDbFailoverMode" where
  "mode_or_default urlType mode =
     (if mode \<noteq> GDB_MODE_UNKNOWN then mode
      else if urlType = RDS_WRITER_CLUSTER \<or> urlType = RDS_GLOBAL_WRITER_CLUSTER then GDB_MODE_STRICT_WRITER
      else GDB_MODE_HOME_READER_OR_WRITER)"

text \<open>Go assigns the mode also when it returns the error.\<close>

definition init_modes :: "failover_settings \<Rightarrow> ('sv, 'z, unit) gdb_prog" where
  "init_modes cfg =
     (let read = (\<lambda>prop set. case gdbFailoverModeFromValue (as_string (GetVerifiedWrapperPropertyValue (Some (fo_props cfg)) prop)) of
                    Inl err \<Rightarrow> bindP (modifyP (set GDB_MODE_UNKNOWN)) (\<lambda>_. failP err)
                  | Inr mode \<Rightarrow> modifyP (set mode))
      in bindP (read GDB_FAILOVER_ACTIVE_HOME_MODE (\<lambda>mode p. p\<lparr>activeHomeFailoverMode := mode\<rparr>)) (\<lambda>_.
         bindP (read GDB_FAILOVER_INACTIVE_HOME_MODE (\<lambda>mode p. p\<lparr>inactiveHomeFailoverMode := mode\<rparr>)) (\<lambda>_.
         bindP (modifyP (\<lambda>p. p\<lparr>activeHomeFailoverMode := mode_or_default (gdb_rdsUrlType p) (activeHomeFailoverMode p)\<rparr>)) (\<lambda>_.
         bindP (modifyP (\<lambda>p. p\<lparr>inactiveHomeFailoverMode := mode_or_default (gdb_rdsUrlType p) (inactiveHomeFailoverMode p)\<rparr>)) (\<lambda>_.
           modifyP (\<lambda>p. p\<lparr>failoverModeInitialized := True\<rparr>))))))"

definition gdb_initFailoverMode :: "('sv, 'c) PluginServiceApi \<Rightarrow> failover_settings \<Rightarrow> ('sv, 'z, unit) gdb_prog" where
  "gdb_initFailoverMode api cfg =
     bindP (getsP failoverModeInitialized) (\<lambda>initialized.
       if initialized then returnP ()
       else bindP (readS (svc_GetInitialConnectionHostInfo api)) (\<lambda>initial.
         case initial of
           None \<Rightarrow> failP nil_dereference
         | Some host \<Rightarrow>
             bindP (dnsS (IdentifyRdsUrlType (Host host))) (\<lambda>urlType.
             bindP (modifyP (\<lambda>p. p\<lparr>gdb_rdsUrlType := urlType\<rparr>)) (\<lambda>_.
             bindP (init_home_region cfg (Host host)) (\<lambda>_. init_modes cfg)))))"

section \<open>Allowed hosts\<close>

definition in_home_region :: "HostInfo \<Rightarrow> ('sv, 'z, bool) gdb_prog" where
  "in_home_region hi = bindP (dnsS (GetRdsRegion (Host hi))) (\<lambda>region. getsP (\<lambda>p. EqualFold region (homeRegion p)))"

text \<open>The host filters of the modes, in the order of evaluation of the source.\<close>

definition allowed :: "GlobalDbFailoverMode \<Rightarrow> HostInfo \<Rightarrow> ('sv, 'z, bool) gdb_prog" where
  "allowed mode hi =
     (case mode of
        GDB_MODE_STRICT_HOME_READER \<Rightarrow> if Role hi = READER then in_home_region hi else returnP False
      | GDB_MODE_STRICT_OUT_OF_HOME_READER \<Rightarrow>
          if Role hi = READER then bindP (in_home_region hi) (\<lambda>home. returnP (\<not> home)) else returnP False
      | GDB_MODE_STRICT_ANY_READER \<Rightarrow> returnP (Role hi = READER)
      | GDB_MODE_HOME_READER_OR_WRITER \<Rightarrow>
          if Role hi = WRITER then returnP True else if Role hi = READER then in_home_region hi else returnP False
      | GDB_MODE_OUT_OF_HOME_READER_OR_WRITER \<Rightarrow>
          if Role hi = WRITER then returnP True
          else if Role hi = READER then bindP (in_home_region hi) (\<lambda>home. returnP (\<not> home)) else returnP False
      | _ \<Rightarrow> returnP True)"

definition verify_role :: "GlobalDbFailoverMode \<Rightarrow> HostRole" where
  "verify_role mode =
     (if mode \<in> {GDB_MODE_STRICT_HOME_READER, GDB_MODE_STRICT_OUT_OF_HOME_READER, GDB_MODE_STRICT_ANY_READER} then READER else AnyRole)"

primrec filterP :: "('a \<Rightarrow> ('s, bool) prog) \<Rightarrow> 'a list \<Rightarrow> ('s, 'a list) prog" where
  "filterP f [] = returnP []"
| "filterP f (x # xs) = bindP (f x) (\<lambda>b. bindP (filterP f xs) (\<lambda>ys. returnP (if b then x # ys else ys)))"

definition allowedHosts :: "('sv, 'c) PluginServiceApi \<Rightarrow> GlobalDbFailoverMode \<Rightarrow> ('sv, 'z, HostInfo list) gdb_prog" where
  "allowedHosts api mode = bindP (askS (svc_GetHosts api)) (\<lambda>hosts. filterP (allowed mode) hosts)"

section \<open>Attempts\<close>

definition made_available :: "HostInfo list \<Rightarrow> HostInfo list" where
  "made_available hosts =
     concat (map (\<lambda>hi. case Build (SetAvailability AVAILABLE (CopyFrom (Some hi) NewHostInfoBuilder)) of
                         Inl _ \<Rightarrow> [] | Inr copied \<Rightarrow> [copied]) hosts)"

definition without_address :: "HostInfo \<Rightarrow> HostInfo list \<Rightarrow> HostInfo list" where
  "without_address h hosts = RemoveFromSlice hosts h (\<lambda>a b. GetHostAndPort (Some a) = GetHostAndPort (Some b))"

text \<open>One candidate: the hosts that remain to be tried, or the end of the inner loop with a result or without.\<close>

definition try_chosen ::
  "('sv, 'c) PluginServiceApi \<Rightarrow> failover_settings \<Rightarrow> HostRole \<Rightarrow> HostInfo list \<Rightarrow> HostInfo
     \<Rightarrow> ('sv, 'z, HostInfo list + ('c option \<times> HostInfo) option) gdb_prog" where
  "try_chosen api cfg verifyRole remaining chosen =
     bindP (attempt (createConnectionForHost api cfg chosen)) (\<lambda>made.
       case made of
         Inl _ \<Rightarrow> returnP (Inl (without_address chosen remaining))
       | Inr None \<Rightarrow> returnP (Inl (without_address chosen remaining))
       | Inr (Some conn) \<Rightarrow>
           if verifyRole = AnyRole then returnP (Inr (Some (Some conn, chosen)))
           else bindP (askS (svc_GetHostRole api (Some conn))) (\<lambda>role.
             if role = verifyRole then returnP (Inr (Some (Some conn, MakeCopyWithRole chosen role)))
             else bindP (updS (svc_Close api conn)) (\<lambda>_. returnP (Inl (without_address chosen remaining)))))"

definition try_candidate ::
  "('sv, 'c) PluginServiceApi \<Rightarrow> failover_settings \<Rightarrow> HostRole \<Rightarrow> HostInfo list
     \<Rightarrow> ('sv, 'z, HostInfo list + ('c option \<times> HostInfo) option) gdb_prog" where
  "try_candidate api cfg verifyRole remaining =
     bindP (attempt (callS (svc_GetHostInfoByStrategy api verifyRole (failoverReaderHostSelectorStrategySetting cfg) remaining))) (\<lambda>res.
       case res of
         Inl _ \<Rightarrow> returnP (Inr None)
       | Inr candidateHost \<Rightarrow>
           if IsNil candidateHost then returnP (Inr None) else try_chosen api cfg verifyRole remaining (the candidateHost))"

text \<open>The inner loop; an error that reaches the end of a turn is a panic.\<close>

definition candidates_turn ::
  "(nat \<Rightarrow> time) \<Rightarrow> ('sv, 'c) PluginServiceApi \<Rightarrow> failover_settings \<Rightarrow> HostRole \<Rightarrow> time \<Rightarrow> HostInfo list \<Rightarrow> ('sv, 'z) globalDbFailoverHandler_scheme
     \<Rightarrow> (('sv, 'z) globalDbFailoverHandler_scheme \<times> (HostInfo list + (go_error + ('c option \<times> HostInfo) option))) option" where
  "candidates_turn clock api cfg verifyRole failoverEnd remaining p =
     Some (if remaining = [] then (p, Inr (Inr None))
           else if \<not> clock (clock_reads p) < failoverEnd then (fst (nowS clock p), Inr (Inr None))
           else (case try_candidate api cfg verifyRole remaining (fst (nowS clock p)) of
                   (p', Inl err) \<Rightarrow> (p', Inr (Inl err))
                 | (p', Inr (Inl remaining')) \<Rightarrow> (p', Inl remaining')
                 | (p', Inr (Inr found)) \<Rightarrow> (p', Inr (Inr found))))"

text \<open>The condition of the outer loop, which \<open>continue\<close> reaches too.\<close>

definition until_deadline ::
  "(nat \<Rightarrow> time) \<Rightarrow> time \<Rightarrow> ('sv, 'z) globalDbFailoverHandler_scheme
     \<Rightarrow> (('sv, 'z) globalDbFailoverHandler_scheme \<times> (bool + (go_error + 'c option \<times> HostInfo))) option" where
  "until_deadline clock failoverEnd p =
     Some (fst (nowS clock p),
       if clock (clock_reads p) < failoverEnd then Inl True else Inr (Inl (NewFailoverFailedError ''Failover.failoverReaderTimeout'')))"

definition allowed_turn ::
  "(nat \<Rightarrow> time) \<Rightarrow> ('sv, 'c) PluginServiceApi \<Rightarrow> failover_settings \<Rightarrow> GlobalDbFailoverMode \<Rightarrow> time \<Rightarrow> bool \<Rightarrow> ('sv, 'z) globalDbFailoverHandler_scheme
     \<Rightarrow> (('sv, 'z) globalDbFailoverHandler_scheme \<times> (bool + (go_error + 'c option \<times> HostInfo))) option" where
  "allowed_turn clock api cfg mode failoverEnd _ p =
     (case bindP (attempt (callS (svc_RefreshHostList api))) (\<lambda>_. allowedHosts api mode) p of
        (p1, Inl err) \<Rightarrow> Some (p1, Inr (Inl err))
      | (p1, Inr hosts) \<Rightarrow>
          if hosts = [] then until_deadline clock failoverEnd p1
          else Option.bind (loopP (candidates_turn clock api cfg (verify_role mode) failoverEnd) (made_available hosts) p1) (\<lambda>(p2, r).
                 case r of
                   Inl err \<Rightarrow> Some (p2, Inr (Inl err))
                 | Inr (Some result) \<Rightarrow> Some (p2, Inr (Inr result))
                 | Inr None \<Rightarrow> until_deadline clock failoverEnd p2))"

definition getAllowedFailoverConnection ::
  "(nat \<Rightarrow> time) \<Rightarrow> ('sv, 'c) PluginServiceApi \<Rightarrow> failover_settings \<Rightarrow> GlobalDbFailoverMode \<Rightarrow> time \<Rightarrow> ('sv, 'z) globalDbFailoverHandler_scheme
     \<Rightarrow> (('sv, 'z) globalDbFailoverHandler_scheme \<times> (go_error + 'c option \<times> HostInfo)) option" where
  "getAllowedFailoverConnection clock api cfg mode failoverEnd = loopP (allowed_turn clock api cfg mode failoverEnd) True"

section \<open>Failover\<close>

text \<open>Counting how the steps of a failover ended. A panic leaves the counters as they are.\<close>

definition counting :: "string \<Rightarrow> ('sv, 'z) globalDbFailoverHandler_scheme \<times> (go_error + unit) \<Rightarrow> ('sv, 'z) globalDbFailoverHandler_scheme \<times> (go_error + unit)" where
  "counting kind outcome =
     (case outcome of
        (p, Inl err) \<Rightarrow> (if is_panic err then p else fst (Inc (kind @ ''Failover.completed.failed.count'') p), Inl err)
      | (p, Inr _) \<Rightarrow> (fst (Inc (kind @ ''Failover.completed.success.count'') p), Inr ()))"

definition install_allowed_writer :: "('sv, 'c) PluginServiceApi \<Rightarrow> failover_settings \<Rightarrow> HostInfo \<Rightarrow> ('sv, 'z, unit) gdb_prog" where
  "install_allowed_writer api cfg writerCandidate =
     bindP (askS (svc_GetHosts api)) (\<lambda>hosts.
       if \<not> list_ex (\<lambda>hi. GetHostAndPort (Some hi) = GetHostAndPort (Some writerCandidate)) hosts
       then failP (NewFailoverFailedError ''Failover.newWriterNotAllowed'')
       else bindP (connect_to_writer api cfg writerCandidate) (\<lambda>conn.
            bindP (attempt (callS (svc_SetCurrentConnection api conn (Some writerCandidate)))) (\<lambda>res.
              case res of Inl err \<Rightarrow> bindP (closeS api conn) (\<lambda>_. failP err) | Inr _ \<Rightarrow> returnP ())))"

definition failoverToWriter :: "('sv, 'c) PluginServiceApi \<Rightarrow> failover_settings \<Rightarrow> HostInfo \<Rightarrow> ('sv, 'z, unit) gdb_prog" where
  "failoverToWriter api cfg writerCandidate p =
     counting ''writer'' (install_allowed_writer api cfg writerCandidate (fst (Inc ''writerFailover.triggered.count'' p)))"

text \<open>The connection is not closed when it cannot be set.\<close>

definition failoverToAllowedHost ::
  "(nat \<Rightarrow> time) \<Rightarrow> ('sv, 'c) PluginServiceApi \<Rightarrow> failover_settings \<Rightarrow> GlobalDbFailoverMode \<Rightarrow> time \<Rightarrow> ('sv, 'z) globalDbFailoverHandler_scheme
     \<Rightarrow> (('sv, 'z) globalDbFailoverHandler_scheme \<times> (go_error + unit)) option" where
  "failoverToAllowedHost clock api cfg mode failoverEnd p =
     map_option (\<lambda>(p1, res). counting ''reader''
         (case res of
            Inl err \<Rightarrow> (p1, Inl (if is_panic err then err else reader_failed))
          | Inr (conn, host) \<Rightarrow> callS (svc_SetCurrentConnection api conn (Some host)) p1))
       (getAllowedFailoverConnection clock api cfg mode failoverEnd (fst (Inc ''readerFailover.triggered.count'' p)))"

definition current_mode :: "HostInfo \<Rightarrow> ('sv, 'z, GlobalDbFailoverMode) gdb_prog" where
  "current_mode writer =
     bindP (dnsS (GetRdsRegion (Host writer))) (\<lambda>writerRegion.
       getsP (\<lambda>p. if EqualFold (homeRegion p) writerRegion then activeHomeFailoverMode p else inactiveHomeFailoverMode p))"

definition failover_by_mode ::
  "(nat \<Rightarrow> time) \<Rightarrow> ('sv, 'c) PluginServiceApi \<Rightarrow> failover_settings \<Rightarrow> time \<Rightarrow> HostInfo \<Rightarrow> GlobalDbFailoverMode \<Rightarrow> ('sv, 'z) globalDbFailoverHandler_scheme
     \<Rightarrow> (('sv, 'z) globalDbFailoverHandler_scheme \<times> (go_error + unit)) option" where
  "failover_by_mode clock api cfg failoverEnd writer mode p =
     (case mode of
        GDB_MODE_STRICT_WRITER \<Rightarrow> Some (failoverToWriter api cfg writer p)
      | GDB_MODE_UNKNOWN \<Rightarrow> Some (p, Inl (NewGenericAwsWrapperError ''unsupported failover mode: ''))
      | _ \<Rightarrow> failoverToAllowedHost clock api cfg mode failoverEnd p)"

definition unable_to_fail_over :: "string \<Rightarrow> ('sv, 'z, 'a) gdb_prog" where
  "unable_to_fail_over message =
     bindP (Inc ''writerFailover.triggered.count'') (\<lambda>_. bindP (Inc ''writerFailover.completed.failed.count'') (\<lambda>_.
       failP (NewFailoverFailedError message)))"

text \<open>The writer to go by, after a refresh of the host list that verifies it.\<close>

definition new_writer :: "('sv, 'c) PluginServiceApi \<Rightarrow> failover_settings \<Rightarrow> ('sv, 'z, HostInfo) gdb_prog" where
  "new_writer api cfg =
     bindP (askS (svc_ForceRefreshHostListWithTimeout api True (failoverTimeoutMsSetting cfg))) (\<lambda>(forceRefreshOk, _).
       if \<not> forceRefreshOk then unable_to_fail_over ''Failover.unableToRefreshHostList''
       else bindP (readS (svc_GetAllHosts api)) (\<lambda>updatedHosts.
         let writerCandidate = GetWriter (map Some updatedHosts)
         in if IsNil writerCandidate then unable_to_fail_over ''Failover.noWriterHost'' else returnP (the writerCandidate)))"

definition gdb_failover ::
  "(nat \<Rightarrow> time) \<Rightarrow> ('sv, 'c) PluginServiceApi \<Rightarrow> failover_settings \<Rightarrow> ('sv, 'z) globalDbFailoverHandler_scheme
     \<Rightarrow> (('sv, 'z) globalDbFailoverHandler_scheme \<times> go_error) option" where
  "gdb_failover clock api cfg p =
     (let failoverEnd = clock (clock_reads p) + failoverTimeoutMsSetting cfg * 1000000
      in (case bindP (new_writer api cfg) (\<lambda>writer. bindP (current_mode writer) (\<lambda>mode. returnP (writer, mode))) (fst (nowS clock p)) of
            (p1, Inl err) \<Rightarrow> Some (p1, err)
          | (p1, Inr (writer, mode)) \<Rightarrow>
              map_option (\<lambda>(p2, res).
                  case bindP (liftP res) (\<lambda>_. bindP (callS (svc_GetCurrentHostInfo api)) (\<lambda>_. returnFailoverSuccessError api)) p2 of
                    (p3, Inl err) \<Rightarrow> (p3, err) | (p3, Inr err) \<Rightarrow> (p3, err))
                (failover_by_mode clock api cfg failoverEnd writer mode p1)))"

definition gdb_dealWithError ::
  "(nat \<Rightarrow> time) \<Rightarrow> ('sv, 'c) PluginServiceApi \<Rightarrow> failover_settings \<Rightarrow> go_error \<Rightarrow> ('sv, 'z) globalDbFailoverHandler_scheme
     \<Rightarrow> (('sv, 'z) globalDbFailoverHandler_scheme \<times> go_error) option" where
  "gdb_dealWithError clock api cfg err p =
     (if Some err \<noteq> lastErrorDealtWith p \<and> shouldErrorTriggerConnectionSwitch api p err
      then (case callS (svc_GetCurrentHostInfo api) (InvalidateCurrentConnection api p) of
              (p1, Inl e) \<Rightarrow> Some (p1, e)
            | (p1, Inr currentHost) \<Rightarrow> gdb_failover clock api cfg (p1\<lparr>svc := svc_SetAvailability api (Aliases currentHost) UNAVAILABLE (svc p1)\<rparr>))
      else Some (p, err))"

section \<open>Regions without the caches\<close>

definition region_spec :: "(string \<Rightarrow> string) option \<Rightarrow> string \<Rightarrow> string" where
  "region_spec f host =
     (let h = prepared f host
      in if h = '''' then ''''
         else (case dns_pattern_of h of
                 None \<Rightarrow> ''''
               | Some p \<Rightarrow> if ''region'' \<in> set (groups (re_of p)) then group_val (the (FindStringSubmatch (re_of p) h)) ''region'' else ''''))"

lemma computes_region: "computes f (GetRdsRegion host) (region_spec f host)"
proof (cases "prepared f host = ''''")
  case True
  then show ?thesis
    unfolding GetRdsRegion_def by (intro computes_bind [OF computes_prepared]) (simp add: region_spec_def computes_ret)
next
  case False
  have "computes f (case dns_pattern_of (prepared f host) of None \<Rightarrow> ret ''''
      | Some p \<Rightarrow> (case FindStringSubmatch (re_of p) (prepared f host) of None \<Rightarrow> ret ''''
          | Some m \<Rightarrow> ret (if ''region'' \<in> set (groups (re_of p)) then group_val m ''region'' else ''''))) (region_spec f host)"
  proof (cases "dns_pattern_of (prepared f host)")
    case None
    then show ?thesis using False by (simp add: region_spec_def computes_ret)
  next
    case (Some p)
    then obtain m where "FindStringSubmatch (re_of p) (prepared f host) = Some m" using dns_pattern_matches by blast
    then show ?thesis using False Some by (simp add: region_spec_def Let_def computes_ret)
  qed
  then show ?thesis
    unfolding GetRdsRegion_def using False
    by (intro computes_bind [OF computes_prepared]) (simp add: computes_bind [OF computes_find])
qed

text \<open>A program that answers \<open>v\<close> wherever an invariant holds, and keeps it.\<close>

definition answers :: "('s \<Rightarrow> bool) \<Rightarrow> ('s, 'a) prog \<Rightarrow> 'a \<Rightarrow> bool" where
  "answers I m v \<longleftrightarrow> (\<forall>s. I s \<longrightarrow> (\<exists>s'. m s = (s', Inr v) \<and> I s'))"

lemma answers_return: "answers I (returnP v) v"
  by (simp add: answers_def)

lemma answers_bind: "answers I m a \<Longrightarrow> answers I (k a) b \<Longrightarrow> answers I (bindP m k) b"
  unfolding answers_def bindP_def by fastforce

lemma answers_filter: "(\<And>x. answers I (f x) (g x)) \<Longrightarrow> answers I (filterP f xs) (filter g xs)"
  by (induction xs) (auto intro!: answers_return answers_bind [where a = "g _"] answers_bind [where a = "filter g _"] split: if_splits)

lemma answers_ensures: "answers I m v \<Longrightarrow> ensures I m (\<lambda>a s. a = v \<and> I s)"
  unfolding answers_def ensures_def by (metis Pair_inject sum.inject(2))

lemma answers_keeps: "answers I m v \<Longrightarrow> keeps I m"
  unfolding answers_def keeps_def by (metis fst_conv)

definition dns_ok :: "(string \<Rightarrow> string) option \<Rightarrow> string \<Rightarrow> ('sv, 'z) globalDbFailoverHandler_scheme \<Rightarrow> bool" where
  "dns_ok f home p \<longleftrightarrow> coherent (dns_caches p) \<and> prepareHostFunc (dns_caches p) = f \<and> homeRegion p = home"

lemma dns_ok_svc [simp]: "dns_ok f home (p\<lparr>svc := v\<rparr>) = dns_ok f home p" "dns_ok f home (p\<lparr>clock_reads := n\<rparr>) = dns_ok f home p"
  "dns_ok f home (p\<lparr>counted := c\<rparr>) = dns_ok f home p"
  by (simp_all add: dns_ok_def)

lemma answers_home: "answers (dns_ok f home) (in_home_region hi) (EqualFold (region_spec f (Host hi)) home)"
  unfolding answers_def
proof (intro allI impI)
  fix p :: "('sv, 'z) globalDbFailoverHandler_scheme"
  assume ok: "dns_ok f home p"
  then obtain d where d: "GetRdsRegion (Host hi) (dns_caches p) = (Inr (region_spec f (Host hi)), d)" "coherent d" "prepareHostFunc d = f"
    using computes_region [of f "Host hi"] unfolding computes_def dns_ok_def by blast
  then show "\<exists>p'. in_home_region hi p = (p', Inr (EqualFold (region_spec f (Host hi)) home)) \<and> dns_ok f home p'"
    using ok by (simp add: in_home_region_def bindP_def dnsS_def dns_ok_def)
qed

text \<open>What the filters of the modes let through.\<close>

definition allowed_spec :: "(string \<Rightarrow> string) option \<Rightarrow> string \<Rightarrow> GlobalDbFailoverMode \<Rightarrow> HostInfo \<Rightarrow> bool" where
  "allowed_spec f home mode hi \<longleftrightarrow>
     (let at_home = EqualFold (region_spec f (Host hi)) home
      in case mode of
           GDB_MODE_STRICT_HOME_READER \<Rightarrow> Role hi = READER \<and> at_home
         | GDB_MODE_STRICT_OUT_OF_HOME_READER \<Rightarrow> Role hi = READER \<and> \<not> at_home
         | GDB_MODE_STRICT_ANY_READER \<Rightarrow> Role hi = READER
         | GDB_MODE_HOME_READER_OR_WRITER \<Rightarrow> Role hi = WRITER \<or> (Role hi = READER \<and> at_home)
         | GDB_MODE_OUT_OF_HOME_READER_OR_WRITER \<Rightarrow> Role hi = WRITER \<or> (Role hi = READER \<and> \<not> at_home)
         | _ \<Rightarrow> True)"

lemma answers_away: "answers (dns_ok f home) (bindP (in_home_region hi) (\<lambda>home. returnP (\<not> home))) (\<not> EqualFold (region_spec f (Host hi)) home)"
  by (rule answers_bind [OF answers_home answers_return])

lemma answers_allowed: "answers (dns_ok f home) (allowed mode hi) (allowed_spec f home mode hi)"
  by (cases mode) (auto simp: allowed_def allowed_spec_def Let_def intro: answers_return answers_home answers_away)

lemma made_available_role: "h \<in> set (made_available hosts) \<Longrightarrow> \<exists>hi \<in> set hosts. Host h = Host hi \<and> Role h = Role hi"
  by (auto simp: made_available_def Build_def bindR_Inr_iff eq_commute [of "Inr h" "bindR _ _"] CopyFrom_def SetAvailability_def Let_def split: sum.splits)

lemma made_available_allowed:
  assumes "h \<in> set (made_available (filter (allowed_spec f home mode) hosts))"
  shows "allowed_spec f home mode h"
proof -
  obtain hi where "allowed_spec f home mode hi" "Host h = Host hi" "Role h = Role hi"
    using made_available_role [OF assms] by auto
  then show ?thesis by (cases mode) (simp_all add: allowed_spec_def)
qed

lemma without_address_subset: "set (without_address h hosts) \<subseteq> set hosts"
  by (auto simp: without_address_def RemoveFromSlice_def dest: in_set_takeD in_set_dropD split: option.splits)

section \<open>What is found\<close>

text \<open>The selection strategies answer hosts of the list they are given.\<close>

definition strategy_selects :: "('sv, 'c) PluginServiceApi \<Rightarrow> bool" where
  "strategy_selects api \<longleftrightarrow>
     (\<forall>role strategy hosts v v' h. svc_GetHostInfoByStrategy api role strategy hosts v = (v', Inr (Some h)) \<longrightarrow> h \<in> set hosts)"

text \<open>A connection that may be returned: its host was allowed, and answered the role query as the mode demands.\<close>

definition good_result ::
  "('sv, 'c) PluginServiceApi \<Rightarrow> (HostInfo \<Rightarrow> bool) \<Rightarrow> HostRole \<Rightarrow> 'c option \<Rightarrow> HostInfo \<Rightarrow> bool" where
  "good_result api ok verifyRole conn host \<longleftrightarrow>
     (\<exists>h. ok h \<and> (if verifyRole = AnyRole then host = h
                   else host = MakeCopyWithRole h verifyRole \<and> (\<exists>v. snd (svc_GetHostRole api conn v) = verifyRole)))"

lemma keeps_dns_ok_calls:
  "keeps (dns_ok f home) (callS m)" "keeps (dns_ok f home) (askS a)" "keeps (dns_ok f home) (readS r)" "keeps (dns_ok f home) (updS u)"
  "keeps (dns_ok f home) (createConnectionForHost api cfg h)"
  by (simp_all add: keeps_calls createConnectionForHost_def)

lemma keeps_try_candidate: "keeps (dns_ok f home) (try_candidate api cfg verifyRole remaining)"
  unfolding try_candidate_def try_chosen_def by (intro keeps_rules keeps_dns_ok_calls)

lemma strategy_candidate:
  assumes "strategy_selects api"
  shows "ensures (\<lambda>_. True) (attempt (callS (svc_GetHostInfoByStrategy api role strategy hosts))) (\<lambda>r _. \<forall>h. r = Inr (Some h) \<longrightarrow> h \<in> set hosts)"
  using assms by (auto simp: ensures_def attempt_def callS_def strategy_selects_def split: prod.splits sum.splits go_error.splits)

definition good_end ::
  "('sv, 'c) PluginServiceApi \<Rightarrow> (HostInfo \<Rightarrow> bool) \<Rightarrow> HostRole \<Rightarrow> HostInfo list \<Rightarrow> HostInfo list + ('c option \<times> HostInfo) option \<Rightarrow> bool" where
  "good_end api ok verifyRole remaining r \<longleftrightarrow>
     (case r of Inl rem \<Rightarrow> set rem \<subseteq> set remaining | Inr None \<Rightarrow> True | Inr (Some (conn, host)) \<Rightarrow> good_result api ok verifyRole conn host)"

lemma try_chosen_good:
  assumes "ok h"
  shows "ensures (\<lambda>_. True) (try_chosen api cfg verifyRole remaining h) (\<lambda>r _. good_end api ok verifyRole remaining r)"
proof -
  have role: "ensures (\<lambda>_. True) (bindP (askS (svc_GetHostRole api (Some conn))) (\<lambda>role.
             if role = verifyRole then returnP (Inr (Some (Some conn, MakeCopyWithRole h role)))
             else bindP (updS (svc_Close api conn)) (\<lambda>_. returnP (Inl (without_address h remaining)))))
       (\<lambda>r _. good_end api ok verifyRole remaining r)" if "verifyRole \<noteq> AnyRole" for conn
    using assms without_address_subset [of h remaining] that
    by (auto simp: ensures_def good_end_def bindP_Inr_iff good_result_def askS_def updS_def split: if_splits prod.splits) (metis snd_conv)
  show ?thesis
    unfolding try_chosen_def
    by (intro ensures_bind_keeps ensures_cases ensures_if ensures_return role)
      (use assms without_address_subset [of h remaining] in \<open>auto simp: keeps_def good_end_def good_result_def\<close>)
qed

lemma try_candidate_good:
  assumes "strategy_selects api" "\<And>h. h \<in> set remaining \<Longrightarrow> ok h" "try_candidate api cfg verifyRole remaining p = (p', Inr r)"
  shows "good_end api ok verifyRole remaining r"
proof -
  obtain p1 res where s: "attempt (callS (svc_GetHostInfoByStrategy api verifyRole (failoverReaderHostSelectorStrategySetting cfg) remaining)) p = (p1, Inr res)"
    and rest: "(case res of Inl _ \<Rightarrow> returnP (Inr None)
       | Inr c \<Rightarrow> if IsNil c then returnP (Inr None) else try_chosen api cfg verifyRole remaining (the c)) p1 = (p', Inr r)"
    using assms(3) unfolding try_candidate_def by (auto simp: bindP_Inr_iff)
  show ?thesis
  proof (cases "\<exists>h. res = Inr (Some h) \<and> \<not> IsNil (Some h)")
    case True
    then obtain h where h: "res = Inr (Some h)" "\<not> IsNil (Some h)" by blast
    then have "ok h" using ensuresD [OF strategy_candidate [OF assms(1)] TrueI s] assms(2) by blast
    from ensuresD [OF try_chosen_good [where ok = ok, OF this] TrueI] show ?thesis using rest h by simp
  next
    case False
    then have "r = Inr None" using rest by (cases res) (auto simp: IsNil_def split: if_splits option.splits)
    then show ?thesis by (simp add: good_end_def)
  qed
qed

section \<open>The loops\<close>

lemma clock_try_candidate [simp]: "clock_reads (fst (try_candidate api cfg verifyRole remaining p)) = clock_reads p"
proof -
  have "keeps (\<lambda>q. clock_reads q = clock_reads p) (try_candidate api cfg verifyRole remaining)"
    unfolding try_candidate_def try_chosen_def createConnectionForHost_def
    by (intro keeps_rules keeps_calls) simp_all
  then show ?thesis unfolding keeps_def by blast
qed

lemma clock_try_candidate_run: "try_candidate api cfg verifyRole remaining (fst (nowS clock p)) = (p', r) \<Longrightarrow> clock_reads p' = Suc (clock_reads p)"
  by (metis clock_try_candidate clock_reads_calls(6) fst_conv)

lemma clock_allowed [simp]:
  fixes p :: "('sv, 'z) globalDbFailoverHandler_scheme"
  shows "clock_reads (fst (allowedHosts api mode p)) = clock_reads p"
proof -
  let ?P = "\<lambda>q :: ('sv, 'z) globalDbFailoverHandler_scheme. clock_reads q = clock_reads p"
  have home: "keeps ?P (in_home_region hi)" for hi
    unfolding in_home_region_def by (intro keeps_rules keeps_dns) simp
  have one: "keeps ?P (allowed mode hi)" for hi
    by (cases mode) (auto simp: allowed_def intro!: home keeps_bind)
  have "keeps ?P (filterP (allowed mode) hosts)" for hosts
    by (induction hosts) (simp_all only: filterP.simps, (intro keeps_rules one; assumption)+)
  then have "keeps ?P (allowedHosts api mode)"
    unfolding allowedHosts_def by (intro keeps_bind keeps_calls) simp_all
  then show ?thesis unfolding keeps_def by blast
qed

text \<open>Every turn of the inner loop reads the clock, and so does every turn of the outer one.\<close>

lemma candidates_turn_clock: "candidates_turn clock api cfg verifyRole failoverEnd rem q = Some (q', x) \<Longrightarrow> clock_reads q \<le> clock_reads q'"
  by (auto simp: candidates_turn_def split: prod.splits sum.splits if_splits dest!: clock_try_candidate_run)

lemma candidates_loop_returns:
  fixes p :: "('sv, 'z) globalDbFailoverHandler_scheme"
  assumes "\<And>n. N \<le> n \<Longrightarrow> \<not> clock n < failoverEnd"
  shows "\<exists>p' r. loopP (candidates_turn clock api cfg verifyRole failoverEnd) remaining p = Some (p', r) \<and> clock_reads p \<le> clock_reads p'"
proof -
  let ?body = "candidates_turn clock api cfg verifyRole failoverEnd"
  have "\<exists>r. loopP ?body remaining p = Some r"
  proof (rule loopP_returns [where I = "\<lambda>_ _. True" and measure_of = "\<lambda>_ p. N - clock_reads p"])
    fix remaining' and p :: "('sv, 'z) globalDbFailoverHandler_scheme"
    have lt: "clock (clock_reads p) < failoverEnd \<longrightarrow> clock_reads p < N" using assms by (meson not_le)
    show "\<exists>p' r. ?body remaining' p = Some (p', r) \<and> (\<forall>a'. r = Inl a' \<longrightarrow> True \<and> N - clock_reads p' < N - clock_reads p)"
      using lt
      by (cases "remaining' = [] \<or> \<not> clock (clock_reads p) < failoverEnd")
        (auto simp: candidates_turn_def not_le dest!: clock_try_candidate_run split: prod.splits sum.splits)
  qed simp
  then obtain p' r where run: "loopP ?body remaining p = Some (p', r)" by auto
  moreover have "clock_reads p \<le> clock_reads p'"
  proof (rule loopP_inv [where I = "\<lambda>_ q. clock_reads p \<le> clock_reads q" and Q = "\<lambda>_ q. clock_reads p \<le> clock_reads q", OF _ _ run])
    fix rem q q' r'
    assume "clock_reads p \<le> clock_reads q" "?body rem q = Some (q', Inl r')"
    then show "clock_reads p \<le> clock_reads q'" using candidates_turn_clock [of clock api cfg verifyRole failoverEnd rem q q'] by fastforce
  next
    fix rem q q' b
    assume "clock_reads p \<le> clock_reads q" "?body rem q = Some (q', Inr b)"
    then show "clock_reads p \<le> clock_reads q'" using candidates_turn_clock [of clock api cfg verifyRole failoverEnd rem q q'] by fastforce
  qed simp
  ultimately show ?thesis by blast
qed

lemma allowed_loop_returns:
  fixes p :: "('sv, 'z) globalDbFailoverHandler_scheme"
  assumes "\<And>n. N \<le> n \<Longrightarrow> \<not> clock n < failoverEnd"
  shows "\<exists>r. getAllowedFailoverConnection clock api cfg mode failoverEnd p = Some r"
  unfolding getAllowedFailoverConnection_def
proof (rule loopP_returns [where I = "\<lambda>_ _. True" and measure_of = "\<lambda>_ p. N - clock_reads p"])
  fix u and p :: "('sv, 'z) globalDbFailoverHandler_scheme"
  have again: "\<exists>p'' r. until_deadline clock failoverEnd p' = Some (p'', r) \<and> (\<forall>a'. r = Inl a' \<longrightarrow> True \<and> N - clock_reads p'' < N - clock_reads p)"
    if "clock_reads p \<le> clock_reads p'" for p' :: "('sv, 'z) globalDbFailoverHandler_scheme"
  proof -
    have "clock (clock_reads p') < failoverEnd \<longrightarrow> clock_reads p' < N" using assms by (meson not_le)
    then show ?thesis using that by (auto simp: until_deadline_def)
  qed
  obtain p1 r1 where b: "bindP (attempt (callS (svc_RefreshHostList api))) (\<lambda>_. allowedHosts api mode) p = (p1, r1)" by fastforce
  have k: "keeps (\<lambda>q. clock_reads q = clock_reads p) (bindP (attempt (callS (svc_RefreshHostList api))) (\<lambda>_. allowedHosts api mode))"
    by (intro keeps_rules keeps_calls) (auto simp: keeps_def)
  have c1: "clock_reads p1 = clock_reads p" by (rule keepsD [OF k refl b])
  show "\<exists>p' r. allowed_turn clock api cfg mode failoverEnd u p = Some (p', r) \<and> (\<forall>a'. r = Inl a' \<longrightarrow> True \<and> N - clock_reads p' < N - clock_reads p)"
  proof (cases "\<exists>hosts. r1 = Inr hosts \<and> hosts \<noteq> []")
    case True
    then obtain hosts where r1: "r1 = Inr hosts" "hosts \<noteq> []" by blast
    obtain p2 r2 where l: "loopP (candidates_turn clock api cfg (verify_role mode) failoverEnd) (made_available hosts) p1 = Some (p2, r2)"
      and c2: "clock_reads p1 \<le> clock_reads p2" using candidates_loop_returns [of N clock failoverEnd api cfg "verify_role mode" "made_available hosts" p1, OF assms] by blast
    show ?thesis
    proof (cases "r2 = Inr None")
      case True
      then show ?thesis using again [of p2] b r1 l c1 c2 by (simp add: allowed_turn_def)
    next
      case False
      then show ?thesis using b r1 l by (cases r2) (auto simp: allowed_turn_def)
    qed
  next
    case False
    then show ?thesis using again [of p1] b c1 by (cases r1) (auto simp: allowed_turn_def)
  qed
qed simp

lemma failover_by_mode_returns:
  assumes "advancing clock"
  shows "failover_by_mode clock api cfg failoverEnd writer mode q \<noteq> None"
proof -
  obtain N where "\<And>n. N \<le> n \<Longrightarrow> failoverEnd \<le> clock n" using assms unfolding advancing_def by meson
  then have N: "\<And>n. N \<le> n \<Longrightarrow> \<not> clock n < failoverEnd" by (meson not_le)
  show ?thesis using allowed_loop_returns [OF N, where api = api and cfg = cfg and mode = mode and p = "fst (Inc ''readerFailover.triggered.count'' q)"]
    by (cases mode) (auto simp: failover_by_mode_def failoverToAllowedHost_def)
qed

lemma gdb_failover_returns: "advancing clock \<Longrightarrow> gdb_failover clock api cfg p \<noteq> None"
  by (simp add: gdb_failover_def failover_by_mode_returns Let_def del: not_None_eq split: prod.splits sum.splits)

text \<open>An error is dealt with in finite time when the clock passes every time.\<close>

lemma gdb_dealWithError_returns: "advancing clock \<Longrightarrow> gdb_dealWithError clock api cfg err p \<noteq> None"
  by (simp add: gdb_dealWithError_def gdb_failover_returns del: not_None_eq split: prod.splits sum.splits)

text \<open>Once the modes are initialised they are never open, so no failover ends at the unsupported mode.\<close>

lemma init_modes_known:
  "ensures (\<lambda>_. True) (init_modes cfg) (\<lambda>_ p. activeHomeFailoverMode p \<noteq> GDB_MODE_UNKNOWN \<and> inactiveHomeFailoverMode p \<noteq> GDB_MODE_UNKNOWN)"
  unfolding init_modes_def Let_def
  by (rule ensures_bind_keeps, simp add: keeps_def, rule ensures_bind_keeps, simp add: keeps_def,
      auto simp: ensures_def mode_or_default_def)

section \<open>Properties\<close>

lemma candidates_loop_good:
  assumes "strategy_selects api" "\<And>h. h \<in> set remaining \<Longrightarrow> ok h" "dns_ok f home p"
    "loopP (candidates_turn clock api cfg verifyRole failoverEnd) remaining p = Some (p', r)"
  shows "dns_ok f home p' \<and> (\<forall>conn host. r = Inr (Some (conn, host)) \<longrightarrow> good_result api ok verifyRole conn host)"
proof (rule loopP_inv [where I = "\<lambda>rem q. dns_ok f home q \<and> set rem \<subseteq> set remaining"
      and Q = "\<lambda>r q. dns_ok f home q \<and> (\<forall>conn host. r = Inr (Some (conn, host)) \<longrightarrow> good_result api ok verifyRole conn host)", OF _ _ assms(4)])
  fix rem q q' x
  assume I: "dns_ok f home q \<and> set rem \<subseteq> set remaining" and "candidates_turn clock api cfg verifyRole failoverEnd rem q = Some (q', Inl x)"
  then have t: "try_candidate api cfg verifyRole rem (fst (nowS clock q)) = (q', Inr (Inl x))"
    by (auto simp: candidates_turn_def split: if_splits prod.splits sum.splits)
  have "good_end api ok verifyRole rem (Inl x)" by (rule try_candidate_good [OF assms(1) _ t]) (use I assms(2) in blast)
  moreover have "dns_ok f home q'" by (rule keepsD [OF keeps_try_candidate _ t]) (use I in \<open>simp add: nowS_def\<close>)
  ultimately show "dns_ok f home q' \<and> set x \<subseteq> set remaining" using I by (auto simp: good_end_def)
next
  fix rem q q' y
  assume I: "dns_ok f home q \<and> set rem \<subseteq> set remaining" and turn: "candidates_turn clock api cfg verifyRole failoverEnd rem q = Some (q', Inr y)"
  show "dns_ok f home q' \<and> (\<forall>conn host. y = Inr (Some (conn, host)) \<longrightarrow> good_result api ok verifyRole conn host)"
  proof (cases "rem = [] \<or> \<not> clock (clock_reads q) < failoverEnd")
    case True
    then show ?thesis using I turn by (auto simp: candidates_turn_def nowS_def split: if_splits)
  next
    case False
    obtain q1 r1 where t: "try_candidate api cfg verifyRole rem (fst (nowS clock q)) = (q1, r1)" by fastforce
    have "dns_ok f home q1" by (rule keepsD [OF keeps_try_candidate _ t]) (use I in \<open>simp add: nowS_def\<close>)
    moreover have "good_end api ok verifyRole rem e" if "r1 = Inr e" for e
      by (rule try_candidate_good [OF assms(1) _ t [unfolded that]]) (use I assms(2) in blast)
    ultimately show ?thesis using turn False t by (auto simp: candidates_turn_def good_end_def split: sum.splits)
  qed
qed (use assms(3) in simp)

definition found_ok :: "('sv, 'c) PluginServiceApi \<Rightarrow> (string \<Rightarrow> string) option \<Rightarrow> string \<Rightarrow> GlobalDbFailoverMode \<Rightarrow> go_error + 'c option \<times> HostInfo \<Rightarrow> bool" where
  "found_ok api f home mode r \<longleftrightarrow>
     (case r of
        Inl _ \<Rightarrow> True
      | Inr (conn, host) \<Rightarrow> allowed_spec f home mode host \<and> (verify_role mode = READER \<longrightarrow> (\<exists>v. snd (svc_GetHostRole api conn v) = READER)))"

lemma good_result_found_ok: "good_result api (allowed_spec f home mode) (verify_role mode) conn host \<Longrightarrow> found_ok api f home mode (Inr (conn, host))"
  by (cases mode) (auto simp: found_ok_def good_result_def verify_role_def allowed_spec_def MakeCopyWithRole_def Let_def)

lemma allowed_hosts_ok:
  assumes "dns_ok f home p" "bindP (attempt (callS (svc_RefreshHostList api))) (\<lambda>_. allowedHosts api mode) p = (p', r)"
  shows "dns_ok f home p' \<and> (\<forall>hosts. r = Inr hosts \<longrightarrow> (\<exists>all. hosts = filter (allowed_spec f home mode) all))"
proof -
  have hosts: "keeps (dns_ok f home) (allowedHosts api mode)" 
    unfolding allowedHosts_def
    by (intro keeps_bind keeps_dns_ok_calls answers_keeps [OF answers_filter [OF answers_allowed]])
  have k: "keeps (dns_ok f home) (bindP (attempt (callS (svc_RefreshHostList api))) (\<lambda>_. allowedHosts api mode))"
    by (intro keeps_rules keeps_dns_ok_calls hosts)
  have "ensures (dns_ok f home) (bindP (attempt (callS (svc_RefreshHostList api))) (\<lambda>_. allowedHosts api mode))
      (\<lambda>hosts _. \<exists>all. hosts = filter (allowed_spec f home mode) all)"
    unfolding allowedHosts_def
  proof (intro ensures_bind_keeps keeps_attempt keeps_dns_ok_calls)
    fix all
    show "ensures (dns_ok f home) (filterP (allowed mode) all) (\<lambda>hosts _. \<exists>all. hosts = filter (allowed_spec f home mode) all)"
      using answers_ensures [OF answers_filter [OF answers_allowed]] by (fastforce simp: ensures_def)
  qed
  then show ?thesis using keepsD [OF k assms] assms unfolding ensures_def by blast
qed

lemma allowed_turn_ok:
  assumes "strategy_selects api" "dns_ok f home p" "allowed_turn clock api cfg mode failoverEnd u p = Some (p', r)"
  shows "dns_ok f home p' \<and> (\<forall>y. r = Inr y \<longrightarrow> found_ok api f home mode y)"
proof -
  have until: "dns_ok f home q'' \<and> (\<forall>y. r = Inr y \<longrightarrow> found_ok api f home mode y)"
    if "until_deadline clock failoverEnd q' = Some (q'', r)" "dns_ok f home q'" for q' q'' :: "('a, 'd) globalDbFailoverHandler_scheme"
    using that by (auto simp: until_deadline_def nowS_def found_ok_def split: if_splits)
  obtain p1 r1 where b: "bindP (attempt (callS (svc_RefreshHostList api))) (\<lambda>_. allowedHosts api mode) p = (p1, r1)" by fastforce
  note ok = allowed_hosts_ok [OF assms(2) b]
  show ?thesis
  proof (cases "\<exists>hosts. r1 = Inr hosts \<and> hosts \<noteq> []")
    case True
    then obtain hosts all where r1: "r1 = Inr hosts" "hosts \<noteq> []" "hosts = filter (allowed_spec f home mode) all" using ok by blast
    obtain p2 r2 where l: "loopP (candidates_turn clock api cfg (verify_role mode) failoverEnd) (made_available hosts) p1 = Some (p2, r2)"
      using assms(3) b r1 by (auto simp: allowed_turn_def bind_eq_Some_conv)
    have "dns_ok f home p2 \<and> (\<forall>conn host. r2 = Inr (Some (conn, host)) \<longrightarrow> good_result api (allowed_spec f home mode) (verify_role mode) conn host)"
      by (rule candidates_loop_good [OF assms(1) _ _ l]) (use ok made_available_allowed r1(3) in auto)
    then show ?thesis using assms(3) b r1 l until [of p2 p'] good_result_found_ok [of api f home mode]
      by (cases r2; cases "projr r2") (auto simp: allowed_turn_def found_ok_def)
  next
    case False
    then show ?thesis using assms(3) b ok until [of p1 p'] by (cases r1) (auto simp: allowed_turn_def found_ok_def)
  qed
qed

text \<open>C5: A reader failover of a global database only answers a connection to a host that the mode allows: a reader, in or
  out of the home region as the mode says, or the writer where the mode has it. In the strict modes the instance has
  answered the role query as a reader. The strategies are taken to answer hosts of the list they are given.\<close>
theorem getAllowedFailoverConnection_allowed:
  assumes "strategy_selects api" "dns_ok f home p"
    "getAllowedFailoverConnection clock api cfg mode failoverEnd p = Some (p', Inr (conn, host))"
  shows "allowed_spec f home mode host \<and> (verify_role mode = READER \<longrightarrow> (\<exists>v. snd (svc_GetHostRole api conn v) = READER))"
proof -
  have "found_ok api f home mode (Inr (conn, host))"
    by (rule loopP_inv [where I = "\<lambda>_. dns_ok f home" and Q = "\<lambda>r _. found_ok api f home mode r",
          OF _ _ assms(3) [unfolded getAllowedFailoverConnection_def] assms(2)])
      (use allowed_turn_ok [OF assms(1)] in blast)+
  then show ?thesis by (simp add: found_ok_def)
qed

definition gdb_api :: "(nat, nat) PluginServiceApi" where
  "gdb_api = lab_api\<lparr>svc_GetHostInfoByStrategy := (\<lambda>_ _ hosts s. (s, Inr (case hosts of [] \<Rightarrow> None | h # _ \<Rightarrow> Some h)))\<rparr>"

definition gdb_plugin :: "nat globalDbFailoverHandler" where
  "gdb_plugin = FailoverPlugin.extend (lab_plugin 0 MODE_UNKNOWN)
     \<lparr>activeHomeFailoverMode = GDB_MODE_STRICT_ANY_READER, inactiveHomeFailoverMode = GDB_MODE_STRICT_WRITER, homeRegion = ''us-east-1'',
      gdb_rdsUrlType = OTHER, failoverModeInitialized = True\<rparr>"

lemma getAllowedFailoverConnection_allowed_witness:
  "\<exists>p' host. getAllowedFailoverConnection int gdb_api lab_settings GDB_MODE_STRICT_ANY_READER 10 gdb_plugin = Some (p', Inr (Some 2, host)) \<and>
     Host host = ''b'' \<and> allowed_spec None ''us-east-1'' GDB_MODE_STRICT_ANY_READER host \<and> (\<exists>v. snd (svc_GetHostRole gdb_api (Some 2) v) = READER)"
proof -
  have "map_option snd (getAllowedFailoverConnection int gdb_api lab_settings GDB_MODE_STRICT_ANY_READER 10 gdb_plugin) =
     Some (Inr (Some 2, (small_host ''b'' 5 READER)\<lparr>AllAliases := Some {''b:5''}\<rparr>))" by code_simp
  then obtain p' where run: "getAllowedFailoverConnection int gdb_api lab_settings GDB_MODE_STRICT_ANY_READER 10 gdb_plugin =
     Some (p', Inr (Some 2, (small_host ''b'' 5 READER)\<lparr>AllAliases := Some {''b:5''}\<rparr>))" by auto
  have "strategy_selects gdb_api" by (auto simp: strategy_selects_def gdb_api_def split: list.splits)
  moreover have "dns_ok None ''us-east-1'' gdb_plugin"
    using fresh_coherent [of None] by (simp add: dns_ok_def gdb_plugin_def lab_plugin_def FailoverPlugin.extend_def)
  ultimately show ?thesis using getAllowedFailoverConnection_allowed [OF _ _ run] run
    by (simp add: small_host_def verify_role_def)
qed
end
