(* ===== verification/Regions.thy ===== *)
theory Regions
  imports Rds_Utils Wrapper_Properties Plugin_Manager
begin

text \<open>
  AWS regions: \<open>awssql/region_util\<close>. A region is its name; the empty name stands for none.
\<close>

type_synonym Region = string

definition AP_SOUTH_2 :: Region where "AP_SOUTH_2 = ''ap-south-2''"
definition AP_SOUTH_1 :: Region where "AP_SOUTH_1 = ''ap-south-1''"
definition EU_SOUTH_1 :: Region where "EU_SOUTH_1 = ''eu-south-1''"
definition EU_SOUTH_2 :: Region where "EU_SOUTH_2 = ''eu-south-2''"
definition US_GOV_EAST_1 :: Region where "US_GOV_EAST_1 = ''us-gov-east-1''"
definition ME_CENTRAL_1 :: Region where "ME_CENTRAL_1 = ''me-central-1''"
definition IL_CENTRAL_1 :: Region where "IL_CENTRAL_1 = ''il-central-1''"
definition US_ISOF_SOUTH_1 :: Region where "US_ISOF_SOUTH_1 = ''us-isof-south-1''"
definition CA_CENTRAL_1 :: Region where "CA_CENTRAL_1 = ''ca-central-1''"
definition MX_CENTRAL_1 :: Region where "MX_CENTRAL_1 = ''mx-central-1''"
definition EU_CENTRAL_1 :: Region where "EU_CENTRAL_1 = ''eu-central-1''"
definition US_ISO_WEST_1 :: Region where "US_ISO_WEST_1 = ''us-iso-west-1''"
definition EU_CENTRAL_2 :: Region where "EU_CENTRAL_2 = ''eu-central-2''"
definition EU_ISOE_WEST_1 :: Region where "EU_ISOE_WEST_1 = ''eu-isoe-west-1''"
definition US_WEST_1 :: Region where "US_WEST_1 = ''us-west-1''"
definition US_WEST_2 :: Region where "US_WEST_2 = ''us-west-2''"
definition AF_SOUTH_1 :: Region where "AF_SOUTH_1 = ''af-south-1''"
definition EU_NORTH_1 :: Region where "EU_NORTH_1 = ''eu-north-1''"
definition EU_WEST_3 :: Region where "EU_WEST_3 = ''eu-west-3''"
definition EU_WEST_2 :: Region where "EU_WEST_2 = ''eu-west-2''"
definition EU_WEST_1 :: Region where "EU_WEST_1 = ''eu-west-1''"
definition AP_NORTHEAST_3 :: Region where "AP_NORTHEAST_3 = ''ap-northeast-3''"
definition AP_NORTHEAST_2 :: Region where "AP_NORTHEAST_2 = ''ap-northeast-2''"
definition AP_NORTHEAST_1 :: Region where "AP_NORTHEAST_1 = ''ap-northeast-1''"
definition ME_SOUTH_1 :: Region where "ME_SOUTH_1 = ''me-south-1''"
definition SA_EAST_1 :: Region where "SA_EAST_1 = ''sa-east-1''"
definition AP_EAST_1 :: Region where "AP_EAST_1 = ''ap-east-1''"
definition CN_NORTH_1 :: Region where "CN_NORTH_1 = ''cn-north-1''"
definition CA_WEST_1 :: Region where "CA_WEST_1 = ''ca-west-1''"
definition US_GOV_WEST_1 :: Region where "US_GOV_WEST_1 = ''us-gov-west-1''"
definition AP_SOUTHEAST_1 :: Region where "AP_SOUTHEAST_1 = ''ap-southeast-1''"
definition AP_SOUTHEAST_2 :: Region where "AP_SOUTHEAST_2 = ''ap-southeast-2''"
definition US_ISO_EAST_1 :: Region where "US_ISO_EAST_1 = ''us-iso-east-1''"
definition AP_SOUTHEAST_3 :: Region where "AP_SOUTHEAST_3 = ''ap-southeast-3''"
definition AP_SOUTHEAST_4 :: Region where "AP_SOUTHEAST_4 = ''ap-southeast-4''"
definition AP_SOUTHEAST_5 :: Region where "AP_SOUTHEAST_5 = ''ap-southeast-5''"
definition US_EAST_1 :: Region where "US_EAST_1 = ''us-east-1''"
definition US_EAST_2 :: Region where "US_EAST_2 = ''us-east-2''"
definition AP_SOUTHEAST_7 :: Region where "AP_SOUTHEAST_7 = ''ap-southeast-7''"
definition CN_NORTHWEST_1 :: Region where "CN_NORTHWEST_1 = ''cn-northwest-1''"
definition US_ISOB_EAST_1 :: Region where "US_ISOB_EAST_1 = ''us-isob-east-1''"
definition US_ISOF_EAST_1 :: Region where "US_ISOF_EAST_1 = ''us-isof-east-1''"

text \<open>The map of the regions; every value in it is true.\<close>

definition ALL_REGIONS :: "Region list" where
  "ALL_REGIONS =
     [AP_SOUTH_2, AP_SOUTH_1, EU_SOUTH_1, EU_SOUTH_2, US_GOV_EAST_1, ME_CENTRAL_1, IL_CENTRAL_1, US_ISOF_SOUTH_1,
      CA_CENTRAL_1, MX_CENTRAL_1, EU_CENTRAL_1, US_ISO_WEST_1, EU_CENTRAL_2, EU_ISOE_WEST_1, US_WEST_1, US_WEST_2,
      AF_SOUTH_1, EU_NORTH_1, EU_WEST_3, EU_WEST_2, EU_WEST_1, AP_NORTHEAST_3, AP_NORTHEAST_2, AP_NORTHEAST_1,
      ME_SOUTH_1, SA_EAST_1, AP_EAST_1, CN_NORTH_1, CA_WEST_1, US_GOV_WEST_1, AP_SOUTHEAST_1, AP_SOUTHEAST_2,
      US_ISO_EAST_1, AP_SOUTHEAST_3, AP_SOUTHEAST_4, AP_SOUTHEAST_5, US_EAST_1, US_EAST_2, AP_SOUTHEAST_7,
      CN_NORTHWEST_1, US_ISOB_EAST_1, US_ISOF_EAST_1]"

definition GetRegionFromRegionString :: "string \<Rightarrow> Region" where
  "GetRegionFromRegionString regionString =
     (if regionString = '''' then '''' else if ToLower regionString \<in> set ALL_REGIONS then ToLower regionString else '''')"

definition GetRegionFromHost :: "string \<Rightarrow> Region rds" where
  "GetRegionFromHost host =
     bindS (GetRdsRegion host) (\<lambda>regionString. ret (if regionString = '''' then '''' else GetRegionFromRegionString regionString))"

definition GetRegionFromProps :: "props \<Rightarrow> AwsWrapperProperty \<Rightarrow> Region" where
  "GetRegionFromProps props prop =
     (let regionString = as_string (GetVerifiedWrapperPropertyValue (Some props) prop)
      in if regionString = '''' then '''' else GetRegionFromRegionString regionString)"

definition GetRegion_of :: "string \<Rightarrow> props \<Rightarrow> AwsWrapperProperty \<Rightarrow> Region rds" where
  "GetRegion_of host props prop =
     (let region = GetRegionFromProps props prop in if region \<noteq> '''' then ret region else GetRegionFromHost host)"

text \<open>The regions are in lower case, so the lookup does not depend on the case of the name given.\<close>

lemma ALL_REGIONS_lower: "r \<in> set ALL_REGIONS \<Longrightarrow> ToLower r = r"
proof -
  have "\<forall>r \<in> set ALL_REGIONS. ToLower r = r" by code_simp
  then show "r \<in> set ALL_REGIONS \<Longrightarrow> ToLower r = r" by blast
qed

lemma GetRegionFromRegionString_cases:
  "GetRegionFromRegionString s = '''' \<or> (GetRegionFromRegionString s \<in> set ALL_REGIONS \<and> EqualFold (GetRegionFromRegionString s) s)"
  by (simp add: GetRegionFromRegionString_def EqualFold_def ALL_REGIONS_lower)

end
