(* ===== verification/Rw_Splitting.thy ===== *)
theory Rw_Splitting
  imports Failover Regions
begin

text \<open>
  Read/write splitting: \<open>awssql/plugins/read_write_splitting\<close>. The plugin is called back by the service while it changes
  the current connection, so its fields are kept in the state of the service itself, and its methods act on that
  state through the interface \<open>PluginServiceApi\<close>; \<open>rw_plugin\<close> is the plugin as the plugin manager sees it. The strategies
  for RDS clusters and for global databases are records of their methods. Messages of the log are left out.
\<close>

section \<open>State\<close>

text \<open>\<open>rw_dns\<close>, \<open>rw_homeRegion\<close> and \<open>rw_isInit\<close> are the state of the global database strategy.\<close>

record ('t, 'c, 'tx, 'h, 'b) rw_service = "('t, 'c, 'tx, 'h, 'b) PluginService" +
  inReadWriteSplit :: bool
  writerConnection :: "'c option"
  readerConnection :: "'c option"
  rw_writerHostInfo :: "HostInfo option"
  readerHostInfo :: "HostInfo option"
  rw_dns :: rds_state
  rw_homeRegion :: Region
  rw_isInit :: bool

type_synonym ('t, 'c, 'tx, 'h, 'b, 'y, 'a) rw_prog = "(('t, 'c, 'tx, 'h, 'b, 'y) rw_service_scheme, 'a) prog"
type_synonym ('t, 'c, 'tx, 'h, 'b, 'y) rw_api = "(('t, 'c, 'tx, 'h, 'b, 'y) rw_service_scheme, 'c) PluginServiceApi"

record ('s, 'c) ReadWriteSplittingStrategy =
  OnConnect :: "HostInfo \<Rightarrow> props \<Rightarrow> ('s, unit) prog"
  GetReaderConnection :: "props \<Rightarrow> HostInfo list \<Rightarrow> string \<Rightarrow> ('s, 'c option \<times> HostInfo option) prog"
  GetWriterConnection :: "props \<Rightarrow> HostInfo list \<Rightarrow> ('s, 'c option \<times> HostInfo option) prog"

record ('s, 'c) ReadWriteSplittingPlugin =
  rw_props :: props
  readerSelectorStrategy :: string
  rw_strategy :: "('s, 'c) ReadWriteSplittingStrategy"

definition NewReadWriteSplittingPlugin :: "props \<Rightarrow> ('s, 'c) ReadWriteSplittingStrategy \<Rightarrow> ('s, 'c) ReadWriteSplittingPlugin" where
  "NewReadWriteSplittingPlugin props strategy =
     \<lparr>rw_props = props,
      readerSelectorStrategy = as_string (GetVerifiedWrapperPropertyValue (Some props) READER_HOST_SELECTOR_STRATEGY),
      rw_strategy = strategy\<rparr>"

definition SET_READ_ONLY_METHOD :: string where "SET_READ_ONLY_METHOD = ''setReadOnly''"

definition rw_subscribed :: "string list" where
  "rw_subscribed = [CONNECT_METHOD, INIT_HOST_PROVIDER_METHOD, NOTIFY_CONNECTION_CHANGED_METHOD, SET_READ_ONLY_METHOD,
     ''Conn.QueryContext'', ''Conn.ExecContext'']"

text \<open>A method of the service that returns no error.\<close>

definition askP :: "('s \<Rightarrow> 's \<times> 'a) \<Rightarrow> ('s, 'a) prog" where
  "askP m s = (case m s of (s', a) \<Rightarrow> (s', Inr a))"

section \<open>Cached connections\<close>

definition isConnectionUsable :: "('t, 'c, 'tx, 'h, 'b, 'y) rw_api \<Rightarrow> 'c option \<Rightarrow> ('t, 'c, 'tx, 'h, 'b, 'y) rw_service_scheme \<Rightarrow> bool" where
  "isConnectionUsable api conn s \<longleftrightarrow> (case conn of None \<Rightarrow> False | Some c \<Rightarrow> \<not> svc_IsClosed api c s)"

definition isWriter :: "HostInfo option \<Rightarrow> bool" where
  "isWriter host \<longleftrightarrow> (case host of None \<Rightarrow> False | Some h \<Rightarrow> Role h = WRITER)"

definition isReader :: "HostInfo option \<Rightarrow> bool" where
  "isReader host \<longleftrightarrow> (case host of None \<Rightarrow> False | Some h \<Rightarrow> Role h = READER)"

definition setWriterConnection ::
  "'c option \<Rightarrow> HostInfo option \<Rightarrow> ('t, 'c, 'tx, 'h, 'b, 'y) rw_service_scheme \<Rightarrow> ('t, 'c, 'tx, 'h, 'b, 'y) rw_service_scheme" where
  "setWriterConnection conn host s = s\<lparr>writerConnection := conn, rw_writerHostInfo := host\<rparr>"

definition setReaderConnection ::
  "'c option \<Rightarrow> HostInfo option \<Rightarrow> ('t, 'c, 'tx, 'h, 'b, 'y) rw_service_scheme \<Rightarrow> ('t, 'c, 'tx, 'h, 'b, 'y) rw_service_scheme" where
  "setReaderConnection conn host s = s\<lparr>readerConnection := conn, readerHostInfo := host\<rparr>"

text \<open>The connection to close is an argument: it is read before the first of two closes.\<close>

definition closeConnectionIfIdle ::
  "('t, 'c, 'tx, 'h, 'b, 'y) rw_api \<Rightarrow> 'c option \<Rightarrow> ('t, 'c, 'tx, 'h, 'b, 'y) rw_service_scheme \<Rightarrow> ('t, 'c, 'tx, 'h, 'b, 'y) rw_service_scheme" where
  "closeConnectionIfIdle api conn s =
     (case conn of
        None \<Rightarrow> s
      | Some c \<Rightarrow>
          if svc_GetCurrentConnection api s = Some c then s
          else (let s1 = (if svc_IsClosed api c s then s else svc_Close api c s)
                in if readerConnection s1 = Some c then setReaderConnection None None s1
                   else if writerConnection s1 = Some c then setWriterConnection None None s1
                   else s1))"

definition closeIdleConnections :: "('t, 'c, 'tx, 'h, 'b, 'y) rw_api \<Rightarrow> ('t, 'c, 'tx, 'h, 'b, 'y) rw_service_scheme \<Rightarrow> ('t, 'c, 'tx, 'h, 'b, 'y) rw_service_scheme" where
  "closeIdleConnections api s =
     (let s1 = closeConnectionIfIdle api (readerConnection s) s in closeConnectionIfIdle api (writerConnection s1) s1)"

definition updateInternalConnectionInfo :: "('t, 'c, 'tx, 'h, 'b, 'y) rw_api \<Rightarrow> ('t, 'c, 'tx, 'h, 'b, 'y, unit) rw_prog" where
  "updateInternalConnectionInfo api =
     bindP (getsP (svc_GetCurrentConnection api)) (\<lambda>currentConn.
     bindP (svc_GetCurrentHostInfo api) (\<lambda>currentHost.
       if currentConn = None then returnP ()
       else if Role currentHost = WRITER then modifyP (setWriterConnection currentConn (Some currentHost))
       else modifyP (setReaderConnection currentConn (Some currentHost))))"

definition rw_NotifyConnectionChanged ::
  "('t, 'c, 'tx, 'h, 'b, 'y) rw_api \<Rightarrow> HostChangeOptions set \<Rightarrow> ('t, 'c, 'tx, 'h, 'b, 'y) rw_service_scheme
     \<Rightarrow> ('t, 'c, 'tx, 'h, 'b, 'y) rw_service_scheme \<times> OldConnectionSuggestedAction" where
  "rw_NotifyConnectionChanged api changes s =
     (let s1 = fst (updateInternalConnectionInfo api s);
          isCachedConnection = (svc_GetCurrentConnection api s1 = writerConnection s1 \<or> svc_GetCurrentConnection api s1 = readerConnection s1);
          s2 = (if CONNECTION_OBJECT_CHANGED \<in> changes \<and> \<not> isCachedConnection then closeIdleConnections api s1 else s1)
      in (s2, if inReadWriteSplit s2 then PRESERVE else NO_OPINION))"

section \<open>Switching\<close>

definition switchCurrentConnectionTo :: "('t, 'c, 'tx, 'h, 'b, 'y) rw_api \<Rightarrow> 'c option \<Rightarrow> HostInfo option \<Rightarrow> ('t, 'c, 'tx, 'h, 'b, 'y, unit) rw_prog" where
  "switchCurrentConnectionTo api newConn newConnHost =
     bindP (getsP (svc_GetCurrentConnection api)) (\<lambda>currentConn.
       if currentConn = newConn then returnP () else svc_SetCurrentConnection api newConn newConnHost)"

definition getNewWriterConnection ::
  "('t, 'c, 'tx, 'h, 'b, 'y) rw_api \<Rightarrow> (('t, 'c, 'tx, 'h, 'b, 'y) rw_service_scheme, 'c) ReadWriteSplittingPlugin \<Rightarrow> HostInfo list
     \<Rightarrow> ('t, 'c, 'tx, 'h, 'b, 'y, unit) rw_prog" where
  "getNewWriterConnection api r hosts =
     bindP (GetWriterConnection (rw_strategy r) (rw_props r) hosts) (\<lambda>(conn, host).
     bindP (modifyP (setWriterConnection conn host)) (\<lambda>_.
     bindP (getsP (\<lambda>s. (writerConnection s, rw_writerHostInfo s))) (\<lambda>(conn, host). switchCurrentConnectionTo api conn host)))"

definition getNewReaderConnection ::
  "('t, 'c, 'tx, 'h, 'b, 'y) rw_api \<Rightarrow> (('t, 'c, 'tx, 'h, 'b, 'y) rw_service_scheme, 'c) ReadWriteSplittingPlugin \<Rightarrow> HostInfo list
     \<Rightarrow> ('t, 'c, 'tx, 'h, 'b, 'y, unit) rw_prog" where
  "getNewReaderConnection api r hosts =
     bindP (GetReaderConnection (rw_strategy r) (rw_props r) hosts (readerSelectorStrategy r)) (\<lambda>(conn, host).
     bindP (modifyP (setReaderConnection conn host)) (\<lambda>_.
     bindP (getsP (\<lambda>s. (readerConnection s, readerHostInfo s))) (\<lambda>(conn, host). switchCurrentConnectionTo api conn host)))"

definition rw_error :: "string \<Rightarrow> go_error" where
  "rw_error message = NewGenericAwsWrapperError (''ReadWriteSplittingPlugin.'' @ message)"

definition initializeReaderConnection ::
  "('t, 'c, 'tx, 'h, 'b, 'y) rw_api \<Rightarrow> (('t, 'c, 'tx, 'h, 'b, 'y) rw_service_scheme, 'c) ReadWriteSplittingPlugin \<Rightarrow> HostInfo list
     \<Rightarrow> ('t, 'c, 'tx, 'h, 'b, 'y, unit) rw_prog" where
  "initializeReaderConnection api r hosts =
     (if length hosts = 1
      then if GetWriter (map Some hosts) = None then failP (rw_error ''noWriterFound'')
           else bindP (getsP (\<lambda>s. isConnectionUsable api (writerConnection s) s)) (\<lambda>usable.
             if usable then returnP () else getNewWriterConnection api r hosts)
      else getNewReaderConnection api r hosts)"

definition switchToReaderConnection ::
  "('t, 'c, 'tx, 'h, 'b, 'y) rw_api \<Rightarrow> (('t, 'c, 'tx, 'h, 'b, 'y) rw_service_scheme, 'c) ReadWriteSplittingPlugin \<Rightarrow> HostInfo list
     \<Rightarrow> ('t, 'c, 'tx, 'h, 'b, 'y, unit) rw_prog" where
  "switchToReaderConnection api r hosts =
     bindP (getsP (svc_GetCurrentConnection api)) (\<lambda>currentConn.
     bindP (svc_GetCurrentHostInfo api) (\<lambda>currentHost.
     bindP (getsP (isConnectionUsable api currentConn)) (\<lambda>usable.
       if isReader (Some currentHost) \<and> usable then returnP ()
       else
         bindP (modifyP (\<lambda>s. if readerHostInfo s \<noteq> None \<and> \<not> IsHostInList (readerHostInfo s) hosts
                             then closeConnectionIfIdle api (readerConnection s) s else s)) (\<lambda>_.
         bindP (modifyP (\<lambda>s. s\<lparr>inReadWriteSplit := True\<rparr>)) (\<lambda>_.
         bindP (getsP (\<lambda>s. (readerConnection s, readerHostInfo s, isConnectionUsable api (readerConnection s) s))) (\<lambda>(conn, host, usable).
           if \<not> usable then initializeReaderConnection api r hosts
           else bindP (attempt (switchCurrentConnectionTo api conn host)) (\<lambda>res.
             case res of
               Inr _ \<Rightarrow> returnP ()
             | Inl _ \<Rightarrow>
                 bindP (getsP readerConnection) (\<lambda>reader.
                   case reader of
                     None \<Rightarrow> failP nil_dereference
                   | Some c \<Rightarrow> bindP (modifyP (\<lambda>s. setReaderConnection None None (svc_Close api c s))) (\<lambda>_.
                               initializeReaderConnection api r hosts)))))))))"

definition switchToWriterConnection ::
  "('t, 'c, 'tx, 'h, 'b, 'y) rw_api \<Rightarrow> (('t, 'c, 'tx, 'h, 'b, 'y) rw_service_scheme, 'c) ReadWriteSplittingPlugin \<Rightarrow> HostInfo list
     \<Rightarrow> ('t, 'c, 'tx, 'h, 'b, 'y, unit) rw_prog" where
  "switchToWriterConnection api r hosts =
     bindP (getsP (svc_GetCurrentConnection api)) (\<lambda>currentConn.
     bindP (svc_GetCurrentHostInfo api) (\<lambda>currentHost.
     bindP (getsP (isConnectionUsable api currentConn)) (\<lambda>usable.
       if isWriter (Some currentHost) \<and> usable then returnP ()
       else
         bindP (modifyP (\<lambda>s. s\<lparr>inReadWriteSplit := True\<rparr>)) (\<lambda>_.
         bindP (getsP (\<lambda>s. (writerConnection s, rw_writerHostInfo s, isConnectionUsable api (writerConnection s) s))) (\<lambda>(conn, host, usable).
           if usable then switchCurrentConnectionTo api conn host else getNewWriterConnection api r hosts)))))"

text \<open>The two directions of \<open>switchConnectionIfRequired\<close>.\<close>

definition switch_to_read_only ::
  "('t, 'c, 'tx, 'h, 'b, 'y) rw_api \<Rightarrow> (('t, 'c, 'tx, 'h, 'b, 'y) rw_service_scheme, 'c) ReadWriteSplittingPlugin \<Rightarrow> HostInfo list
     \<Rightarrow> 'c option \<Rightarrow> HostInfo \<Rightarrow> ('t, 'c, 'tx, 'h, 'b, 'y, unit) rw_prog" where
  "switch_to_read_only api r hosts currentConn currentHost =
     bindP (getsP (svc_IsInTransaction api)) (\<lambda>inTransaction.
       if inTransaction \<or> isReader (Some currentHost) then returnP ()
       else bindP (attempt (switchToReaderConnection api r hosts)) (\<lambda>res.
         case res of
           Inr _ \<Rightarrow> returnP ()
         | Inl _ \<Rightarrow>
             bindP (getsP (isConnectionUsable api currentConn)) (\<lambda>usable.
               if usable then returnP () else failP (rw_error ''errorSwitchingToReader''))))"

definition switch_to_read_write ::
  "('t, 'c, 'tx, 'h, 'b, 'y) rw_api \<Rightarrow> (('t, 'c, 'tx, 'h, 'b, 'y) rw_service_scheme, 'c) ReadWriteSplittingPlugin \<Rightarrow> HostInfo list
     \<Rightarrow> HostInfo \<Rightarrow> ('t, 'c, 'tx, 'h, 'b, 'y, unit) rw_prog" where
  "switch_to_read_write api r hosts currentHost =
     bindP (getsP (svc_IsInTransaction api)) (\<lambda>inTransaction.
       if isWriter (Some currentHost) then returnP ()
       else if inTransaction then failP (rw_error ''setReadOnlyFalseInTransaction'')
       else bindP (attempt (switchToWriterConnection api r hosts)) (\<lambda>res.
         case res of Inl _ \<Rightarrow> failP (rw_error ''errorSwitchingToWriter'') | Inr _ \<Rightarrow> returnP ()))"

definition switchConnectionIfRequired ::
  "('t, 'c, 'tx, 'h, 'b, 'y) rw_api \<Rightarrow> (('t, 'c, 'tx, 'h, 'b, 'y) rw_service_scheme, 'c) ReadWriteSplittingPlugin \<Rightarrow> bool
     \<Rightarrow> ('t, 'c, 'tx, 'h, 'b, 'y, unit) rw_prog" where
  "switchConnectionIfRequired api r readOnly =
     bindP (getsP (svc_GetCurrentConnection api)) (\<lambda>currentConn.
     bindP (getsP (isConnectionUsable api currentConn)) (\<lambda>usable.
       if currentConn \<noteq> None \<and> \<not> usable then failP (rw_error ''setReadOnlyOnClosedConnection'')
       else
         bindP (if usable then bindP (attempt (svc_RefreshHostList api)) (\<lambda>_. returnP ()) else returnP ()) (\<lambda>_.
         bindP (askP (svc_GetHosts api)) (\<lambda>hosts.
           if hosts = [] then failP (rw_error ''emptyHostList'')
           else bindP (svc_GetCurrentHostInfo api) (\<lambda>currentHost.
             if readOnly then switch_to_read_only api r hosts currentConn currentHost
             else switch_to_read_write api r hosts currentHost)))))"

section \<open>The methods of the plugin\<close>

text \<open>\<open>firstArg\<close> is the first method argument when it is a boolean.\<close>

definition rw_Execute ::
  "('t, 'c, 'tx, 'h, 'b, 'y) rw_api \<Rightarrow> (('t, 'c, 'tx, 'h, 'b, 'y) rw_service_scheme, 'c) ReadWriteSplittingPlugin \<Rightarrow> string \<Rightarrow> bool option
     \<Rightarrow> (('t, 'c, 'tx, 'h, 'b, 'y) rw_service_scheme, 'v exec_result) action \<Rightarrow> (('t, 'c, 'tx, 'h, 'b, 'y) rw_service_scheme, 'v exec_result) action" where
  "rw_Execute api r methodName firstArg executeFunc s =
     (case if methodName = SET_READ_ONLY_METHOD then firstArg else None of
        Some readOnly \<Rightarrow>
          (case switchConnectionIfRequired api r readOnly s of
             (s1, Inl err) \<Rightarrow> (if is_panic err then s1 else closeIdleConnections api s1, None, None, False, Some err)
           | (s1, Inr _) \<Rightarrow> executeFunc s1)
      | None \<Rightarrow>
          (let (s1, r1, r2, ok, wrappedErr) = executeFunc s
           in (case wrappedErr of
                 Some (AwsWrapperError msg t) \<Rightarrow> (if IsFailoverErrorType t then closeIdleConnections api s1 else s1, r1, r2, ok, wrappedErr)
               | _ \<Rightarrow> (s1, r1, r2, ok, wrappedErr))))"

text \<open>\<open>static\<close> is \<open>IsStaticHostListProvider()\<close> of the host list provider service.\<close>

definition rw_Connect ::
  "('t, 'c, 'tx, 'h, 'b, 'y) rw_api \<Rightarrow> (('t, 'c, 'tx, 'h, 'b, 'y) rw_service_scheme, 'c) ReadWriteSplittingPlugin \<Rightarrow> bool \<Rightarrow> HostInfo \<Rightarrow> props \<Rightarrow> bool
     \<Rightarrow> (props \<Rightarrow> ('t, 'c, 'tx, 'h, 'b, 'y, 'c option) rw_prog) \<Rightarrow> ('t, 'c, 'tx, 'h, 'b, 'y, 'c option) rw_prog" where
  "rw_Connect api r static hostInfo props isInitialConnection connectFunc =
     bindP (OnConnect (rw_strategy r) hostInfo props) (\<lambda>_.
       if \<not> svc_AcceptsStrategy api (readerSelectorStrategy r) then failP (rw_error ''unsupportedHostSelectorStrategy'')
       else bindP (connectFunc props) (\<lambda>result.
         if \<not> isInitialConnection \<or> static then returnP result
         else bindP (askP (svc_GetHostRole api result)) (\<lambda>currentRole.
           if currentRole = UNKNOWN then failP (rw_error ''errorVerifyingInitialHostRole'')
           else bindP (getsP (svc_GetInitialConnectionHostInfo api)) (\<lambda>currentHost.
             case currentHost of
               None \<Rightarrow> returnP result
             | Some host \<Rightarrow>
                 if currentRole = Role host then returnP result
                 else bindP (modifyP (svc_SetInitialConnectionHostInfo api (MakeCopyWithRole host currentRole))) (\<lambda>_. returnP result)))))"

section \<open>The strategies\<close>

definition Rds_GetWriterConnection ::
  "('t, 'c, 'tx, 'h, 'b, 'y) rw_api \<Rightarrow> props \<Rightarrow> HostInfo list \<Rightarrow> ('t, 'c, 'tx, 'h, 'b, 'y, 'c option \<times> HostInfo option) rw_prog" where
  "Rds_GetWriterConnection api props hosts =
     (case GetWriter (map Some hosts) of
        None \<Rightarrow> failP (rw_error ''noWriterFound'')
      | Some writerHost \<Rightarrow> bindP (svc_Connect api writerHost props) (\<lambda>conn. returnP (conn, Some writerHost)))"

text \<open>The attempts of \<open>GetReaderConnection\<close>, twice as many as there are hosts. A strategy that answers no host and no
  error makes \<open>Connect\<close> dereference nil.\<close>

primrec reader_attempts ::
  "('t, 'c, 'tx, 'h, 'b, 'y) rw_api \<Rightarrow> props \<Rightarrow> HostInfo list \<Rightarrow> string \<Rightarrow> nat \<Rightarrow> ('t, 'c, 'tx, 'h, 'b, 'y, 'c option \<times> HostInfo option) rw_prog" where
  "reader_attempts api props hosts strategy 0 = failP (rw_error ''noReadersAvailable'')"
| "reader_attempts api props hosts strategy (Suc n) =
     bindP (attempt (svc_GetHostInfoByStrategy api READER strategy hosts)) (\<lambda>selected.
       case selected of
         Inl _ \<Rightarrow> reader_attempts api props hosts strategy n
       | Inr None \<Rightarrow> failP nil_dereference
       | Inr (Some hostInfo) \<Rightarrow>
           bindP (attempt (svc_Connect api hostInfo props)) (\<lambda>connected.
             case connected of
               Inr conn \<Rightarrow> returnP (conn, Some hostInfo)
             | Inl _ \<Rightarrow> reader_attempts api props hosts strategy n))"

definition Rds_GetReaderConnection ::
  "('t, 'c, 'tx, 'h, 'b, 'y) rw_api \<Rightarrow> props \<Rightarrow> HostInfo list \<Rightarrow> string \<Rightarrow> ('t, 'c, 'tx, 'h, 'b, 'y, 'c option \<times> HostInfo option) rw_prog" where
  "Rds_GetReaderConnection api props hosts strategy = reader_attempts api props hosts strategy (length hosts * 2)"

definition RdsReadWriteSplittingStrategy ::
  "('t, 'c, 'tx, 'h, 'b, 'y) rw_api \<Rightarrow> (('t, 'c, 'tx, 'h, 'b, 'y) rw_service_scheme, 'c) ReadWriteSplittingStrategy" where
  "RdsReadWriteSplittingStrategy api =
     \<lparr>OnConnect = (\<lambda>_ _. returnP ()), GetReaderConnection = Rds_GetReaderConnection api, GetWriterConnection = Rds_GetWriterConnection api\<rparr>"

text \<open>The strategy of global databases; \<open>cfg\<close> holds the settings read when it is created.\<close>

record gdb_rw_settings =
  restrictWriterToHome :: bool
  restrictReaderToHome :: bool

definition NewGdbReadWriteSplittingStrategy :: "props \<Rightarrow> gdb_rw_settings" where
  "NewGdbReadWriteSplittingStrategy props =
     \<lparr>restrictWriterToHome = as_bool (GetVerifiedWrapperPropertyValue (Some props) GDB_RW_RESTRICT_WRITER_TO_HOME_REGION),
      restrictReaderToHome = as_bool (GetVerifiedWrapperPropertyValue (Some props) GDB_RW_RESTRICT_READER_TO_HOME_REGION)\<rparr>"

definition rw_rds :: "'a rds \<Rightarrow> ('t, 'c, 'tx, 'h, 'b, 'y, 'a) rw_prog" where
  "rw_rds m s = (case m (rw_dns s) of (r, d) \<Rightarrow> (s\<lparr>rw_dns := d\<rparr>, r))"

definition Gdb_OnConnect :: "HostInfo \<Rightarrow> props \<Rightarrow> ('t, 'c, 'tx, 'h, 'b, 'y, unit) rw_prog" where
  "Gdb_OnConnect hostInfo props =
     bindP (getsP rw_isInit) (\<lambda>isInit.
       if isInit then returnP ()
       else bindP (rw_rds (GetRegion_of (Host hostInfo) props GDB_RW_HOME_REGION)) (\<lambda>region.
            bindP (modifyP (\<lambda>s. s\<lparr>rw_homeRegion := region\<rparr>)) (\<lambda>_.
              if region = '''' then failP (NewGenericAwsWrapperError ''GdbReadWriteSplittingPlugin.missingHomeRegion'')
              else modifyP (\<lambda>s. s\<lparr>rw_isInit := True\<rparr>))))"

definition host_at_home :: "HostInfo \<Rightarrow> ('t, 'c, 'tx, 'h, 'b, 'y, bool) rw_prog" where
  "host_at_home h = bindP (rw_rds (GetRegionFromHost (Host h))) (\<lambda>hostRegion. getsP (\<lambda>s. EqualFold hostRegion (rw_homeRegion s)))"

definition Gdb_GetWriterConnection ::
  "('t, 'c, 'tx, 'h, 'b, 'y) rw_api \<Rightarrow> gdb_rw_settings \<Rightarrow> props \<Rightarrow> HostInfo list \<Rightarrow> ('t, 'c, 'tx, 'h, 'b, 'y, 'c option \<times> HostInfo option) rw_prog" where
  "Gdb_GetWriterConnection api cfg props hosts =
     (case GetWriter (map Some hosts) of
        None \<Rightarrow> failP (rw_error ''noWriterFound'')
      | Some writerHost \<Rightarrow>
          bindP (if restrictWriterToHome cfg then host_at_home writerHost else returnP True) (\<lambda>mayConnect.
            if \<not> mayConnect then failP (NewGenericAwsWrapperError ''GdbReadWriteSplittingPlugin.writerNotInHomeRegion'')
            else bindP (svc_Connect api writerHost props) (\<lambda>conn. returnP (conn, Some writerHost))))"

primrec hosts_at_home :: "HostInfo list \<Rightarrow> ('t, 'c, 'tx, 'h, 'b, 'y, HostInfo list) rw_prog" where
  "hosts_at_home [] = returnP []"
| "hosts_at_home (h # hs) = bindP (host_at_home h) (\<lambda>home. bindP (hosts_at_home hs) (\<lambda>filtered. returnP (if home then h # filtered else filtered)))"

definition Gdb_GetReaderConnection ::
  "('t, 'c, 'tx, 'h, 'b, 'y) rw_api \<Rightarrow> gdb_rw_settings \<Rightarrow> props \<Rightarrow> HostInfo list \<Rightarrow> string \<Rightarrow> ('t, 'c, 'tx, 'h, 'b, 'y, 'c option \<times> HostInfo option) rw_prog" where
  "Gdb_GetReaderConnection api cfg props hosts strategy =
     (if \<not> restrictReaderToHome cfg then Rds_GetReaderConnection api props hosts strategy
      else bindP (hosts_at_home hosts) (\<lambda>filtered.
        if filtered = [] then failP (NewGenericAwsWrapperError ''GdbReadWriteSplittingPlugin.noReadersInHomeRegion'')
        else Rds_GetReaderConnection api props filtered strategy))"

definition GdbReadWriteSplittingStrategy ::
  "('t, 'c, 'tx, 'h, 'b, 'y) rw_api \<Rightarrow> gdb_rw_settings \<Rightarrow> (('t, 'c, 'tx, 'h, 'b, 'y) rw_service_scheme, 'c) ReadWriteSplittingStrategy" where
  "GdbReadWriteSplittingStrategy api cfg =
     \<lparr>OnConnect = Gdb_OnConnect, GetReaderConnection = Gdb_GetReaderConnection api cfg, GetWriterConnection = Gdb_GetWriterConnection api cfg\<rparr>"

section \<open>The plugin as the manager sees it\<close>

text \<open>Being told of a change the plugin looks at the current connection and host only.\<close>

definition rw_plugin ::
  "('t, 'c, 'tx, 'h, 'b, 'y) rw_api \<Rightarrow> nat \<Rightarrow> (('t, 'c, 'tx, 'h, 'b, 'y) rw_service_scheme, 'c, 'v, 'sel) ConnectionPlugin" where
  "rw_plugin api self =
     \<lparr>pluginId = self, structName = ''ReadWriteSplittingPlugin'', GetPluginCode = ''readWriteSplitting'', GetSubscribedMethods = rw_subscribed,
      plugin_Execute = (\<lambda>_ _ run. run), plugin_Connect = (\<lambda>_ props _ connectFunc. connectFunc props),
      plugin_ForceConnect = (\<lambda>_ props _ connectFunc. connectFunc props), plugin_InitHostProvider = (\<lambda>_ run. run),
      plugin_AcceptsStrategy = (\<lambda>_. False), plugin_GetHostInfoByStrategy = (\<lambda>_ _ _ s. (s, None, None)),
      plugin_GetHostSelectorStrategy = (\<lambda>_. (None, None)), plugin_NotifyConnectionChanged = rw_NotifyConnectionChanged api,
      plugin_NotifyHostListChanged = (\<lambda>_ s. s), plugin_ReleaseResources = Some (closeIdleConnections api)\<rparr>"

lemma service_api_current:
  "svc_GetCurrentConnection (service_api octx w m self role_of isNet isLogin) s = currentConnection s"
  "svc_GetCurrentHostInfo (service_api octx w m self role_of isNet isLogin) s =
     (case GetCurrentHostInfo w s of (s', _, Some e) \<Rightarrow> (s', Inl e) | (s', Some h, None) \<Rightarrow> (s', Inr h) | (s', None, None) \<Rightarrow> (s', Inl nil_dereference))"
  by (simp_all add: service_api_def)

text \<open>A change of a connection with a host reaches the cache, so the connections in it are never closed by the notification.\<close>

lemma rw_notify_eq:
  assumes "currentConnection s = Some c" "currentHostInfo s = Some h" "\<not> IsNil (Some h)"
  shows "rw_NotifyConnectionChanged (service_api octx w m self role_of isNet isLogin) changes s =
    (if Role h = WRITER then setWriterConnection (Some c) (Some h) s else setReaderConnection (Some c) (Some h) s,
     if inReadWriteSplit s then PRESERVE else NO_OPINION)"
  using assms
  by (simp add: rw_NotifyConnectionChanged_def updateInternalConnectionInfo_def bindP_def service_api_current GetCurrentHostInfo_def
      setWriterConnection_def setReaderConnection_def Let_def)

text \<open>Plugins that leave the current connection and host alone, and the cached writer too unless they cache the current connection.\<close>

definition writer_kept :: "('t, 'c, 'tx, 'h, 'b, 'y) rw_service_scheme \<Rightarrow> ('t, 'c, 'tx, 'h, 'b, 'y) rw_service_scheme \<Rightarrow> bool" where
  "writer_kept s s' \<longleftrightarrow> currentConnection s' = currentConnection s \<and> currentHostInfo s' = currentHostInfo s \<and>
     (writerConnection s' = writerConnection s \<or> writerConnection s' = currentConnection s)"

definition respectful :: "(HostChangeOptions set \<Rightarrow> (('t, 'c, 'tx, 'h, 'b, 'y) rw_service_scheme, OldConnectionSuggestedAction) action) \<Rightarrow> bool" where
  "respectful f \<longleftrightarrow> (\<forall>changes s. currentConnection s \<noteq> None \<longrightarrow> \<not> IsNil (currentHostInfo s) \<longrightarrow> writer_kept s (fst (f changes s)))"

lemma writer_kept_trans: "writer_kept s1 s2 \<Longrightarrow> writer_kept s2 s3 \<Longrightarrow> writer_kept s1 s3"
  by (auto simp: writer_kept_def)

lemma writer_kept_refl [simp]: "writer_kept s s"
  by (simp add: writer_kept_def)

lemma rw_plugin_respectful: "respectful (rw_NotifyConnectionChanged (service_api octx w m self role_of isNet isLogin))"
  unfolding respectful_def
proof (intro allI impI)
  fix changes s
  show "currentConnection s \<noteq> None \<Longrightarrow> \<not> IsNil (currentHostInfo s) \<Longrightarrow>
      writer_kept s (fst (rw_NotifyConnectionChanged (service_api octx w m self role_of isNet isLogin) changes s))"
    by (cases "currentConnection s"; cases "currentHostInfo s")
      (auto simp: rw_notify_eq writer_kept_def setWriterConnection_def setReaderConnection_def IsNil_def)
qed

lemma respectful_notify:
  assumes "\<forall>p \<in> set (plugins m). respectful (plugin_NotifyConnectionChanged p)" "currentConnection s \<noteq> None" "\<not> IsNil (currentHostInfo s)"
  shows "writer_kept s (fst (NotifyConnectionChanged changes skip m s))"
proof -
  have "writer_kept s (fst (fst (notify_loop NOTIFY_CONNECTION_CHANGED_METHOD
            (\<lambda>p (s, result). let (s', pluginOptions) = plugin_NotifyConnectionChanged p changes s
                             in ((s', insert pluginOptions result), None)) skip ps (s1, A))))"
    if "set ps \<subseteq> set (plugins m)" "writer_kept s s1" for ps s1 A
    using that
  proof (induction ps arbitrary: s1 A)
    case (Cons p ps)
    have s1: "currentConnection s1 \<noteq> None" "\<not> IsNil (currentHostInfo s1)" using Cons.prems(2) assms(2,3) by (auto simp: writer_kept_def)
    obtain s2 opinion where p: "plugin_NotifyConnectionChanged p changes s1 = (s2, opinion)" by fastforce
    have "respectful (plugin_NotifyConnectionChanged p)" using assms(1) Cons.prems(1) by simp
    then have "writer_kept s1 (fst (plugin_NotifyConnectionChanged p changes s1))" using s1 unfolding respectful_def by blast
    then have "writer_kept s s2" using writer_kept_trans [OF Cons.prems(2)] p by simp
    then show ?case using Cons.IH [of s2 "insert opinion A"] Cons.IH [of s1 A] Cons.prems p by auto
  qed simp
  from this [of "plugins m" s "{}"] show ?thesis by (simp add: NotifyConnectionChanged_def NotifySubscribedPlugins_def)
qed

text \<open>So a connection that could be set is the current one afterwards.\<close>

lemma writer_kept_fields:
  "writer_kept s s1 \<Longrightarrow> writer_kept s (s1\<lparr>effects := e\<rparr>)" "writer_kept s s1 \<Longrightarrow> writer_kept s (s1\<lparr>sessionStateService := ss\<rparr>)"
  by (simp_all add: writer_kept_def)

lemma respectful_close:
  assumes "\<forall>p \<in> set (plugins m). respectful (plugin_NotifyConnectionChanged p)" "currentConnection s \<noteq> None" "\<not> IsNil (currentHostInfo s)"
  shows "writer_kept s (notify_and_close w m changes skip old s)"
  using respectful_notify [OF assms, of changes skip]
  by (auto simp: notify_and_close_def execute_all_def Let_def writer_kept_fields split: prod.splits)

lemma switch_connection_writer:
  assumes "\<forall>p \<in> set (plugins m). respectful (plugin_NotifyConnectionChanged p)"
    "switch_connection w m changes skip old c h s = (s', None)" "\<not> IsNil (Some h)"
  shows "currentConnection s' = Some c \<and> (writerConnection s' = writerConnection s \<or> writerConnection s' = Some c)"
proof -
  have close: "currentConnection (notify_and_close w m changes skip old s5) = Some c \<and>
      (writerConnection (notify_and_close w m changes skip old s5) = writerConnection s \<or> writerConnection (notify_and_close w m changes skip old s5) = Some c)"
    if "currentConnection s5 = Some c" "currentHostInfo s5 = Some h" "writerConnection s5 = writerConnection s" for s5
    using respectful_close [OF assms(1), of s5 w changes skip old] that assms(3) by (auto simp: writer_kept_def)
  then have writer: "writerConnection (notify_and_close w m changes skip old s5) = writerConnection s"
    if "writerConnection (notify_and_close w m changes skip old s5) \<noteq> Some c" "currentConnection s5 = Some c" "currentHostInfo s5 = Some h"
      "writerConnection s5 = writerConnection s" for s5
    using that by blast
  show ?thesis
    using assms(2) by (auto simp: switch_connection_def Let_def execute_all_def close intro!: writer split: prod.splits if_splits)
qed

lemma SetCurrentConnection_writer:
  assumes "\<forall>p \<in> set (plugins m). respectful (plugin_NotifyConnectionChanged p)" "SetCurrentConnection w m conn host skip s = (s', None)"
  shows "currentConnection s' = conn \<and> (writerConnection s' = writerConnection s \<or> writerConnection s' = conn)"
proof -
  obtain c h where ch: "conn = Some c" "host = Some h" "\<not> IsNil (Some h)"
    using assms(2) by (auto simp: SetCurrentConnection_def split: option.splits if_splits)
  show ?thesis
  proof (cases "currentConnection s")
    case None
    let ?s = "s\<lparr>currentConnection := Some c, currentHostInfo := Some h, sessionStateService := SessionState_Reset (sessionStateService s),
         initialHostInfo := (if initialHostInfo s = None then Some h else initialHostInfo s)\<rparr>"
    have "writer_kept ?s (fst (NotifyConnectionChanged {INITIAL_CONNECTION} skip m ?s))"
      by (rule respectful_notify [OF assms(1)]) (use ch in auto)
    then show ?thesis using assms(2) ch None by (auto simp: SetCurrentConnection_def Let_def writer_kept_def)
  next
    case (Some old)
    obtain current where cur: "currentHostInfo s = Some current"
      using assms(2) ch Some by (cases "currentHostInfo s") (auto simp: SetCurrentConnection_def)
    have set: "(if compare_connections old current c h = {} then (s, None)
        else switch_connection w m (compare_connections old current c h) skip old c h s) = (s', None)"
      using assms(2) ch Some cur by (simp add: SetCurrentConnection_def Let_def)
    show ?thesis
    proof (cases "compare_connections old current c h = {}")
      case True
      then show ?thesis using set ch Some by (auto simp: compare_connections_def split: if_splits)
    next
      case False
      then have "switch_connection w m (compare_connections old current c h) skip old c h s = (s', None)" using set by simp
      from switch_connection_writer [OF assms(1) this ch(3)] show ?thesis using ch by simp
    qed
  qed
qed

section \<open>The interface the plugin needs\<close>

text \<open>What a successful change of the connection does, as far as the plugin relies on it.\<close>

definition at_writer :: "('t, 'c, 'tx, 'h, 'b, 'y) rw_api \<Rightarrow> ('t, 'c, 'tx, 'h, 'b, 'y) rw_service_scheme \<Rightarrow> bool" where
  "at_writer api s \<longleftrightarrow> svc_GetCurrentConnection api s = writerConnection s"

locale switching_service =
  fixes api :: "('t, 'c, 'tx, 'h, 'b, 'y) rw_api"
  assumes set_current: "svc_SetCurrentConnection api conn host s = (s', Inr u) \<Longrightarrow>
      svc_GetCurrentConnection api s' = conn \<and> (writerConnection s' = writerConnection s \<or> writerConnection s' = conn)"
    and set_writer: "svc_GetCurrentConnection api (setWriterConnection conn host s) = svc_GetCurrentConnection api s"
begin

lemma switch_current: "switchCurrentConnectionTo api (writerConnection s) host s = (s', Inr u) \<Longrightarrow> at_writer api s'"
  by (auto simp: switchCurrentConnectionTo_def at_writer_def split: if_splits dest!: set_current)

lemma new_writer: "getNewWriterConnection api r hosts s = (s', Inr u) \<Longrightarrow> at_writer api s'"
  by (auto simp: getNewWriterConnection_def bindP_Inr_iff dest!: switch_current split: prod.splits)

end

lemma switching_service_api:
  assumes "\<forall>p \<in> set (plugins m). respectful (plugin_NotifyConnectionChanged p)"
  shows "switching_service (service_api octx w m self role_of isNet isLogin)"
proof
  fix conn host s s' u
  assume "svc_SetCurrentConnection (service_api octx w m self role_of isNet isLogin) conn host s = (s', Inr u)"
  then have "SetCurrentConnection w m conn host None s = (s', None)"
    by (cases "SetCurrentConnection w m conn host None s") (auto simp: service_api_def of_pair_def split: option.splits)
  from SetCurrentConnection_writer [OF assms this]
  show "svc_GetCurrentConnection (service_api octx w m self role_of isNet isLogin) s' = conn \<and>
      (writerConnection s' = writerConnection s \<or> writerConnection s' = conn)" by (simp add: service_api_def)
qed (simp add: service_api_def setWriterConnection_def)

text \<open>The manager with this plugin alone is one of those.\<close>

definition rw_manager :: "('t, 'c, 'tx, 'h, 'b, 'y) rw_api \<Rightarrow> nat \<Rightarrow> ('t, 'c, 'tx, 'h, 'b, ('c, 'y) rw_service_ext, unit, unit) manager" where
  "rw_manager api self = Manager_Init [rw_plugin api self] NewPluginManagerImpl"

lemma rw_manager_respectful:
  "\<forall>p \<in> set (plugins (rw_manager (service_api octx w m self role_of isNet isLogin) self)). respectful (plugin_NotifyConnectionChanged p)"
  using rw_plugin_respectful [of octx w m self role_of isNet isLogin] by (simp add: rw_manager_def Manager_Init_def rw_plugin_def)

interpretation rw_service: switching_service
  "service_api octx w (rw_manager (service_api octx w m self role_of isNet isLogin) self) self role_of isNet isLogin"
  for octx w m self role_of isNet isLogin
  by (rule switching_service_api [OF rw_manager_respectful])

section \<open>Properties\<close>

lemma notify_rw_manager:
  assumes "currentConnection s = Some c" "currentHostInfo s = Some h" "\<not> IsNil (Some h)" "inReadWriteSplit s"
  shows "notify_and_close w (rw_manager (service_api octx w m self role_of isNet isLogin) self) changes None old s =
    (if Role h = WRITER then setWriterConnection (Some c) (Some h) s else setReaderConnection (Some c) (Some h) s)"
proof -
  have "NotifyConnectionChanged changes None (rw_manager (service_api octx w m self role_of isNet isLogin) self) s =
      (if Role h = WRITER then setWriterConnection (Some c) (Some h) s else setReaderConnection (Some c) (Some h) s, {PRESERVE})"
    using assms by (simp add: NotifyConnectionChanged_def NotifySubscribedPlugins_def rw_manager_def Manager_Init_def rw_plugin_def
        is_plugin_def subscribed_def rw_subscribed_def rw_notify_eq)
  then show ?thesis by (simp add: notify_and_close_def)
qed

text \<open>What \<open>SetReadOnly(false)\<close> comes down to at a host that is not a writer, once the hosts have been refreshed.\<close>

lemma read_write_run:
  assumes "isConnectionUsable api (svc_GetCurrentConnection api s) s" "svc_GetHosts api (fst (svc_RefreshHostList api s)) = (s1, hosts)"
    "svc_GetCurrentHostInfo api s1 = (s1, Inr h)" "Role h \<noteq> WRITER" "switchConnectionIfRequired api r False s = (s', Inr u)"
  shows "(let split = s1\<lparr>inReadWriteSplit := True\<rparr>
     in if isConnectionUsable api (writerConnection split) split then switchCurrentConnectionTo api (writerConnection split) (rw_writerHostInfo split) split
        else getNewWriterConnection api r hosts split) = (s', Inr u)"
proof -
  obtain sr res where refresh: "svc_RefreshHostList api s = (sr, res)" by fastforce
  then have hosts: "askP (svc_GetHosts api) sr = (s1, Inr hosts)" using assms(2) by (simp add: askP_def)
  have "attempt (svc_RefreshHostList api) s = (sr, Inr res)"
    using assms(1,5) refresh
    by (auto simp: switchConnectionIfRequired_def bindP_def attempt_def isConnectionUsable_def split: sum.splits go_error.splits if_splits)
  then have "bindP (svc_GetCurrentHostInfo api) (switch_to_read_write api r hosts) s1 = (s', Inr u)"
    using assms(1,5) hosts by (simp add: switchConnectionIfRequired_def bindP_def isConnectionUsable_def split: if_splits option.splits)
  then have "switch_to_read_write api r hosts h s1 = (s', Inr u)"
    by (simp add: bindP_run(1) [where m = "svc_GetCurrentHostInfo api", OF assms(3)])
  then have "switchToWriterConnection api r hosts s1 = (s', Inr u)"
    using assms(4) by (cases "switchToWriterConnection api r hosts s1"; cases "snd (switchToWriterConnection api r hosts s1)")
      (auto simp: switch_to_read_write_def isWriter_def bindP_def attempt_def split: if_splits go_error.splits)
  then show ?thesis
    using assms(4) by (simp add: switchToWriterConnection_def bindP_run(1) [where m = "svc_GetCurrentHostInfo api", OF assms(3)] isWriter_def Let_def split: if_splits)
qed

text \<open>The end of a change of the connection while the plugin splits: nothing is closed.\<close>

lemma split_switch_closes_nothing:
  assumes "SetCurrentConnection w (rw_manager (service_api octx w m self role_of isNet isLogin) self) (Some c) (Some host) None s = (s', None)"
    "currentConnection s = Some old" "old \<noteq> c" "inReadWriteSplit s" "Role host = WRITER"
  shows "currentHostInfo s' = Some host \<and> readerConnection s' = readerConnection s \<and> (\<exists>es. effects s' = effects s @ es \<and> (\<forall>x. Closed x \<notin> set es))"
proof -
  let ?m = "rw_manager (service_api octx w m self role_of isNet isLogin) self"
  obtain cur where cur: "currentHostInfo s = Some cur" and nil: "\<not> IsNil (Some host)"
    using assms(1,2) by (auto simp: SetCurrentConnection_def split: option.splits if_splits)
  have "compare_connections old cur c host \<noteq> {}" using assms(3) by (simp add: compare_connections_def)
  then have sw: "switch_connection w ?m (compare_connections old cur c host) None old c host s = (s', None)"
    using assms(1,2) cur nil by (simp add: SetCurrentConnection_def)
  have rb: "Closed x \<notin> set (Rollback w old tx)" for x tx by (simp add: Rollback_def split: option.splits)
  show ?thesis
    using sw assms(4,5) nil rb
    by (auto simp: switch_connection_def Let_def execute_all_def notify_rw_manager setWriterConnection_def split: prod.splits if_splits)
qed

text \<open>C31: \<open>SetReadOnly(false)\<close> at a host that is not a writer, when it succeeds (with this plugin alone in the manager). If
  the plugin caches a usable connection to a writer, that connection becomes the current one: all that runs is
  \<open>SetCurrentConnection\<close> with it and its host, so no connection is opened, and none is closed: the connection it
  replaces stays open, and the cached reader connection stays what it was. Otherwise the strategy opens a new connection
  to a writer, which becomes the current one and is cached. In the statement \<open>s1\<close> is the state once the hosts have been
  refreshed.\<close>
theorem switch_to_read_write_writer:
  assumes "api = service_api octx w (rw_manager (service_api octx w m self role_of isNet isLogin) self) self role_of isNet isLogin"
    "isConnectionUsable api (currentConnection s) s" "svc_GetHosts api (fst (svc_RefreshHostList api s)) = (s1, hosts)"
    "currentConnection s1 = Some old" "currentHostInfo s1 = Some h" "\<not> IsNil (Some h)" "Role h \<noteq> WRITER"
    "\<forall>wh. rw_writerHostInfo s1 = Some wh \<longrightarrow> Role wh = WRITER"
    "switchConnectionIfRequired api r False s = (s', Inr u)"
  shows "currentConnection s' = writerConnection s' \<and>
    (if isConnectionUsable api (writerConnection s1) s1
     then currentConnection s' = writerConnection s1 \<and> readerConnection s' = readerConnection s1 \<and>
       (writerConnection s1 \<noteq> Some old \<longrightarrow>
          svc_SetCurrentConnection api (writerConnection s1) (rw_writerHostInfo s1) (s1\<lparr>inReadWriteSplit := True\<rparr>) = (s', Inr ()) \<and>
          currentHostInfo s' = rw_writerHostInfo s1) \<and>
       (\<exists>es. effects s' = effects s1 @ es \<and> (\<forall>x. Closed x \<notin> set es))
     else \<exists>s2 conn host. GetWriterConnection (rw_strategy r) (rw_props r) hosts (s1\<lparr>inReadWriteSplit := True\<rparr>) = (s2, Inr (conn, host)) \<and>
       currentConnection s' = conn)"
proof -
  let ?s = "s1\<lparr>inReadWriteSplit := True\<rparr>"
  have api: "svc_GetCurrentConnection api = currentConnection" by (simp add: assms(1) service_api_def)
  have closed: "svc_IsClosed api x s = IsClosed w x" for x s by (simp add: assms(1) service_api_def)
  have usable: "isConnectionUsable api x ?s = isConnectionUsable api x s1" for x by (simp add: isConnectionUsable_def closed split: option.splits)
  have cur: "svc_GetCurrentHostInfo api s1 = (s1, Inr h)" using assms(1,5,6) by (simp add: service_api_current GetCurrentHostInfo_def)
  have run: "(if isConnectionUsable api (writerConnection s1) s1 then switchCurrentConnectionTo api (writerConnection s1) (rw_writerHostInfo s1) ?s
      else getNewWriterConnection api r hosts ?s) = (s', Inr u)"
    using read_write_run [OF _ assms(3) cur assms(7,9)] assms(2) by (simp add: api usable Let_def split: if_splits)
  have there: "currentConnection s' = writerConnection s'"
  proof -
    have "at_writer api s'"
      using run rw_service.switch_current [of octx w m self role_of isNet isLogin ?s] rw_service.new_writer [of octx w m self role_of isNet isLogin r hosts ?s]
      by (auto simp: assms(1) split: if_splits)
    then show ?thesis by (simp add: at_writer_def api)
  qed
  show ?thesis
  proof (cases "isConnectionUsable api (writerConnection s1) s1")
    case False
    then have "getNewWriterConnection api r hosts ?s = (s', Inr u)" using run by simp
    then obtain s2 conn host where "GetWriterConnection (rw_strategy r) (rw_props r) hosts ?s = (s2, Inr (conn, host))"
      "switchCurrentConnectionTo api conn host (setWriterConnection conn host s2) = (s', Inr u)"
      by (auto simp: getNewWriterConnection_def bindP_Inr_iff setWriterConnection_def)
    moreover from this(2) have "currentConnection s' = conn"
      using rw_service.set_current [of octx w m self role_of isNet isLogin conn host "setWriterConnection conn host s2" s']
      by (auto simp: switchCurrentConnectionTo_def assms(1) service_api_def split: if_splits)
    ultimately show ?thesis using False there by auto
  next
    case True
    then obtain c where c: "writerConnection s1 = Some c" by (auto simp: isConnectionUsable_def split: option.splits)
    have sw: "switchCurrentConnectionTo api (Some c) (rw_writerHostInfo s1) ?s = (s', Inr u)" using run True c by simp
    show ?thesis
    proof (cases "c = old")
      case True
      then have "s' = ?s" using sw assms(4) by (simp add: switchCurrentConnectionTo_def api)
      then show ?thesis using True \<open>isConnectionUsable api (writerConnection s1) s1\<close> c assms(4) by simp
    next
      case False
      then have set: "svc_SetCurrentConnection api (Some c) (rw_writerHostInfo s1) ?s = (s', Inr ())"
        using sw assms(4) by (simp add: switchCurrentConnectionTo_def api)
      then obtain wh where wh: "rw_writerHostInfo s1 = Some wh" and run: "SetCurrentConnection w (rw_manager (service_api octx w m self role_of isNet isLogin) self) (Some c) (Some wh) None ?s = (s', None)"
        by (cases "rw_writerHostInfo s1"; cases "SetCurrentConnection w (rw_manager (service_api octx w m self role_of isNet isLogin) self) (Some c) (rw_writerHostInfo s1) None ?s")
          (auto simp: assms(1) service_api_def of_pair_def SetCurrentConnection_def split: option.splits)
      have "currentConnection s' = Some c" using rw_service.set_current [OF set [unfolded assms(1)]] by (simp add: service_api_def)
      moreover have "currentHostInfo s' = Some wh \<and> readerConnection s' = readerConnection ?s \<and> (\<exists>es. effects s' = effects ?s @ es \<and> (\<forall>x. Closed x \<notin> set es))"
        by (rule split_switch_closes_nothing [OF run]) (use assms(4,8) False wh in auto)
      ultimately show ?thesis using True there set wh c by simp
    qed
  qed
qed

text \<open>While the plugin splits, the service keeps a connection that is replaced open for it, but the plugin only
  remembers the current one: a writer connection replaced by another is neither closed nor kept by anyone.\<close>
theorem replaced_writer_lost:
  assumes "currentConnection s = Some old" "readerConnection s \<noteq> Some old" "inReadWriteSplit s" "Role host = WRITER" "old \<noteq> new"
    "SetCurrentConnection w (rw_manager (service_api octx w m self role_of isNet isLogin) self) (Some new) (Some host) None s = (s', None)"
  shows "(\<exists>es. effects s' = effects s @ es \<and> Closed old \<notin> set es) \<and> writerConnection s' = Some new \<and> readerConnection s' \<noteq> Some old"
proof -
  let ?m = "rw_manager (service_api octx w m self role_of isNet isLogin) self"
  obtain cur where cur: "currentHostInfo s = Some cur" and nil: "\<not> IsNil (Some host)"
    using assms(1,6) by (auto simp: SetCurrentConnection_def split: option.splits if_splits)
  have "compare_connections old cur new host \<noteq> {}" using assms(5) by (simp add: compare_connections_def)
  then have sw: "switch_connection w ?m (compare_connections old cur new host) None old new host s = (s', None)"
    using assms(1,6) cur nil by (simp add: SetCurrentConnection_def)
  have rb: "Closed old \<notin> set (Rollback w old tx)" for tx by (simp add: Rollback_def split: option.splits)
  show ?thesis
    using sw assms(2-4) nil rb
    by (auto simp: switch_connection_def Let_def execute_all_def notify_rw_manager setWriterConnection_def split: prod.splits if_splits)
qed

section \<open>Examples\<close>

definition rw_world :: "(nat, nat, nat, nat, unit, (nat, unit) rw_service_ext) world" where
  "rw_world = \<lparr>now = 50, conn_db = (\<lambda>_ _. None), conn_exec = (\<lambda>_ _. None), is_execer = (\<lambda>_. True), IsClosed = (\<lambda>_. False),
     transferFunc = None, resetFunc = None, createProvider = (\<lambda>_ _ _ s. (s, Inr 0)),
     hlp_Refresh = (\<lambda>_ s. (s, [small_host ''a'' 5 WRITER, small_host ''b'' 5 READER], None)),
     hlp_ForceRefresh = (\<lambda>_ s. (s, [], None)), hlp_ForceRefreshWithTimeout = (\<lambda>_ _ _ s. (s, [], None)),
     hlp_IdentifyConnection = (\<lambda>_ _ s. (s, None, None)), hlp_ReleaseResources = (\<lambda>_. None)\<rparr>"

definition rw_example :: "HostInfo \<Rightarrow> (nat, nat, nat, nat, unit) rw_service" where
  "rw_example host = PluginService.extend ((sample_service [small_host ''a'' 5 WRITER, small_host ''b'' 5 READER])\<lparr>currentHostInfo := Some host, isInTransaction := False\<rparr>)
     \<lparr>inReadWriteSplit = True, writerConnection = Some (if Role host = WRITER then 7 else 9), readerConnection = None,
      rw_writerHostInfo = Some (small_host ''a'' 5 WRITER), readerHostInfo = None, rw_dns = fresh_state None, rw_homeRegion = '''', rw_isInit = False\<rparr>"

definition rw_example_api :: "(nat, nat, nat, nat, unit, unit) rw_api" where
  "rw_example_api = service_api (\<lambda>_ t. t) rw_world
     (NewPluginManagerImpl :: (nat, nat, nat, nat, unit, (nat, unit) rw_service_ext, unit, unit) manager) 1 (\<lambda>_. WRITER) (\<lambda>_. False) (\<lambda>_. False)"

lemma switch_to_read_write_writer_witness:
  "\<exists>s'. switchConnectionIfRequired
      (service_api (\<lambda>_ t. t) rw_world (rw_manager rw_example_api 1) 1 (\<lambda>_. WRITER) (\<lambda>_. False) (\<lambda>_. False))
      (NewReadWriteSplittingPlugin NewRWMap (RdsReadWriteSplittingStrategy rw_example_api)) False (rw_example (small_host ''b'' 5 READER)) = (s', Inr ()) \<and>
    currentConnection s' = Some 9 \<and> currentHostInfo s' = Some (small_host ''a'' 5 WRITER) \<and> (\<forall>x. Closed x \<notin> set (effects s'))"
proof -
  let ?api = "service_api (\<lambda>_ t. t) rw_world (rw_manager rw_example_api 1) 1 (\<lambda>_. WRITER) (\<lambda>_. False) (\<lambda>_. False)"
  let ?s = "rw_example (small_host ''b'' 5 READER)"
  let ?run = "switchConnectionIfRequired ?api (NewReadWriteSplittingPlugin NewRWMap (RdsReadWriteSplittingStrategy rw_example_api)) False ?s"
  let ?r = "svc_GetHosts ?api (fst (svc_RefreshHostList ?api ?s))"
  obtain s1 hosts where r: "?r = (s1, hosts)" by (cases ?r)
  then have s1: "s1 = fst ?r" by simp
  have "snd ?run = Inr ()" by code_simp
  then obtain s' where run: "?run = (s', Inr ())" by (cases ?run) simp
  have u: "isConnectionUsable ?api (currentConnection ?s) ?s" "isConnectionUsable ?api (writerConnection s1) s1" unfolding s1 by code_simp+
  have c: "currentConnection s1 = Some 7" "currentHostInfo s1 = Some (small_host ''b'' 5 READER)" "\<not> IsNil (Some (small_host ''b'' 5 READER))"
    "Role (small_host ''b'' 5 READER) \<noteq> WRITER" unfolding s1 by code_simp+
  have w: "rw_writerHostInfo s1 = Some (small_host ''a'' 5 WRITER)" "writerConnection s1 = Some 9" "effects s1 = []" unfolding s1 by code_simp+
  have role: "\<forall>wh. rw_writerHostInfo s1 = Some wh \<longrightarrow> Role wh = WRITER" by (simp add: w small_host_def)
  have api: "?api = service_api (\<lambda>_ t. t) rw_world (rw_manager (service_api (\<lambda>_ t. t) rw_world
     (NewPluginManagerImpl :: (nat, nat, nat, nat, unit, (nat, unit) rw_service_ext, unit, unit) manager) 1 (\<lambda>_. WRITER) (\<lambda>_. False) (\<lambda>_. False)) 1)
     1 (\<lambda>_. WRITER) (\<lambda>_. False) (\<lambda>_. False)" by (simp add: rw_example_api_def)
  from switch_to_read_write_writer [OF api u(1) r c role run] u(2) run w show ?thesis by auto
qed

lemma replaced_writer_lost_witness:
  "\<exists>s'. SetCurrentConnection rw_world (rw_manager rw_example_api 1) (Some 8) (Some (small_host ''c'' 5 WRITER)) None (rw_example (small_host ''a'' 5 WRITER)) = (s', None) \<and>
     (\<exists>es. effects s' = es \<and> Closed 7 \<notin> set es) \<and> writerConnection s' = Some 8 \<and> readerConnection s' \<noteq> Some 7"
proof -
  let ?run = "SetCurrentConnection rw_world (rw_manager rw_example_api 1) (Some 8) (Some (small_host ''c'' 5 WRITER)) None (rw_example (small_host ''a'' 5 WRITER))"
  have "snd ?run = None" by code_simp
  then obtain s' where run: "?run = (s', None)" by (cases ?run) simp
  have "currentConnection (rw_example (small_host ''a'' 5 WRITER)) = Some 7" "readerConnection (rw_example (small_host ''a'' 5 WRITER)) \<noteq> Some 7"
    "inReadWriteSplit (rw_example (small_host ''a'' 5 WRITER))" "Role (small_host ''c'' 5 WRITER) = WRITER" "effects (rw_example (small_host ''a'' 5 WRITER)) = []"
    by (simp_all add: rw_example_def PluginService.extend_def sample_service_def small_host_def)
  from replaced_writer_lost [OF this(1-4) _ run [unfolded rw_example_api_def]] run this(5) show ?thesis by simp
qed

end
