(* ===== verification/Host_Monitoring.thy ===== *)
theory Host_Monitoring
  imports Service_Api Services Wrapper_Properties
begin

text \<open>
  Enhanced failure monitoring: \<open>awssql/plugins/efm\<close>. The monitor of a host probes it while connections to it are in use
  and aborts them when the host stays unreachable. Its two goroutines are functions of their turns over a shared state,
  and a machine of the steps in which they and the clients interleave. The objects behind weak pointers are a map from
  references: what the garbage collector has taken is not in it. A zero start time is \<open>None\<close>; sleeping is the duration
  a turn answers; telemetry contexts are left out.
\<close>

section \<open>State\<close>

definition EFM_ROUTINE_SLEEP_DURATION :: duration where "EFM_ROUTINE_SLEEP_DURATION = 100000000"

record 'c MonitorConnectionState =
  hostUnhealthy :: bool
  connToAbortRef :: "'c option"

definition NewMonitorConnectionState :: "'c \<Rightarrow> 'c MonitorConnectionState" where
  "NewMonitorConnectionState connToAbort = \<lparr>hostUnhealthy = False, connToAbortRef = Some connToAbort\<rparr>"

definition SetHostUnhealthy :: "bool \<Rightarrow> 'c MonitorConnectionState \<Rightarrow> 'c MonitorConnectionState" where
  "SetHostUnhealthy b st = st\<lparr>hostUnhealthy := b\<rparr>"

definition SetInactive :: "'c MonitorConnectionState \<Rightarrow> 'c MonitorConnectionState" where
  "SetInactive st = st\<lparr>connToAbortRef := None\<rparr>"

definition ShouldAbort :: "'c MonitorConnectionState \<Rightarrow> bool" where
  "ShouldAbort st \<longleftrightarrow> hostUnhealthy st \<and> connToAbortRef st \<noteq> None"

definition IsActive :: "'c MonitorConnectionState \<Rightarrow> bool" where
  "IsActive st \<longleftrightarrow> connToAbortRef st \<noteq> None"

record monitor_settings =
  hm_hostInfo :: HostInfo
  hm_monitoringProps :: props
  failureDetectionTimeNanos :: duration
  failureDetectionIntervalNanos :: duration
  failureDetectionCount :: int

record ('sv, 'c) HostMonitor = "'sv plugin_frame" +
  MonitoringConn :: "'c option"
  FailureCount :: int
  InvalidHostStartTime :: "time option"
  ActiveStates :: "nat RWQueue"
  NewStates :: "(time, nat list) RWMap"
  hm_Stopped :: bool
  HostUnhealthy :: bool
  hm_state :: MonitorState
  lastActivityTimestampNano :: time
  conn_states :: "(nat, 'c MonitorConnectionState) gomap"
  abortedConnections :: nat

type_synonym ('sv, 'c, 'z) monitor = "('sv, 'c, 'z) HostMonitor_scheme"

text \<open>The properties under the monitoring prefix replace those without it.\<close>

definition monitoring_props :: "props \<Rightarrow> props" where
  "monitoring_props props =
     foldl (\<lambda>m (k, v). if HasPrefix k MONITORING_PROPERTY_PREFIX
                       then fst (RWMap_Remove k (fst (RWMap_Put (drop (length MONITORING_PROPERTY_PREFIX) k) v m))) else m)
       (NewRWMapFromMap (RWMap_GetAllEntries props)) (RWMap_GetAllEntries props)"

definition NewHostMonitorImpl :: "HostInfo \<Rightarrow> props \<Rightarrow> int \<Rightarrow> int \<Rightarrow> int \<Rightarrow> monitor_settings" where
  "NewHostMonitorImpl hostInfo props timeMillis intervalMillis failures =
     \<lparr>hm_hostInfo = hostInfo, hm_monitoringProps = monitoring_props props, failureDetectionTimeNanos = timeMillis * 1000000,
      failureDetectionIntervalNanos = intervalMillis * 1000000, failureDetectionCount = failures\<rparr>"

definition CanDispose :: "('sv, 'c, 'z) monitor \<Rightarrow> bool" where
  "CanDispose m \<longleftrightarrow> RWQueue_IsEmpty (ActiveStates m) \<and> RWMap_Size (Some (NewStates m)) = 0"

definition Monitor_Start :: "time \<Rightarrow> ('sv, 'c, 'z) monitor \<Rightarrow> ('sv, 'c, 'z) monitor" where
  "Monitor_Start t m = m\<lparr>hm_state := MonitorStateRunning, lastActivityTimestampNano := t\<rparr>"

definition close_monitoring :: "('sv, 'c) PluginServiceApi \<Rightarrow> ('sv, 'c, 'z) monitor \<Rightarrow> ('sv, 'c, 'z) monitor" where
  "close_monitoring api m = (case MonitoringConn m of None \<Rightarrow> m | Some c \<Rightarrow> m\<lparr>svc := svc_Close api c (svc m)\<rparr>)"

text \<open>Stopping waits for the goroutines, so it is not part of a turn.\<close>

definition Monitor_Stop :: "('sv, 'c) PluginServiceApi \<Rightarrow> ('sv, 'c, 'z) monitor \<Rightarrow> ('sv, 'c, 'z) monitor" where
  "Monitor_Stop api m = (close_monitoring api (m\<lparr>hm_Stopped := True\<rparr>))\<lparr>hm_state := MonitorStateStopped\<rparr>"

section \<open>Connections to watch\<close>

definition StartMonitoring :: "monitor_settings \<Rightarrow> time \<Rightarrow> nat \<Rightarrow> ('sv, 'c, 'z) monitor \<Rightarrow> ('sv, 'c, 'z) monitor" where
  "StartMonitoring cfg t i m = m\<lparr>NewStates := fst (RWMap_Put (t + failureDetectionTimeNanos cfg) [i] (NewStates m))\<rparr>"

definition state_active :: "('sv, 'c, 'z) monitor \<Rightarrow> nat \<Rightarrow> bool" where
  "state_active m i \<longleftrightarrow> (case map_of (conn_states m) i of None \<Rightarrow> False | Some st \<Rightarrow> IsActive st)"

text \<open>A turn of \<open>newStateRun\<close>: the states whose time has come are watched from now on.\<close>

definition newState_turn :: "time \<Rightarrow> ('sv, 'c, 'z) monitor \<Rightarrow> ('sv, 'c, 'z) monitor" where
  "newState_turn currentTime m =
     (let (remaining, due, _) = ProcessAndRemoveIf (\<lambda>startTime. startTime < currentTime) (NewStates m)
      in m\<lparr>NewStates := remaining,
           ActiveStates := foldl (\<lambda>q i. if state_active m i then Enqueue i q else q) (ActiveStates m) (concat (map snd due))\<rparr>)"

section \<open>Probing the host\<close>

text \<open>\<open>reachable\<close> is \<open>utils.IsReachable\<close> within a timeout.\<close>

definition probe_timeout :: "monitor_settings \<Rightarrow> duration" where
  "probe_timeout cfg =
     (let timeout = failureDetectionIntervalNanos cfg - EFM_ROUTINE_SLEEP_DURATION
      in if timeout < EFM_ROUTINE_SLEEP_DURATION then EFM_ROUTINE_SLEEP_DURATION else timeout)"

definition CheckConnectionStatus ::
  "('sv, 'c) PluginServiceApi \<Rightarrow> ('c \<Rightarrow> duration \<Rightarrow> 'sv \<Rightarrow> bool) \<Rightarrow> monitor_settings \<Rightarrow> ('sv, 'c, 'z) monitor \<Rightarrow> ('sv, 'c, 'z) monitor \<times> bool" where
  "CheckConnectionStatus api reachable cfg m =
     (case if (case MonitoringConn m of None \<Rightarrow> True | Some c \<Rightarrow> svc_IsClosed api c (svc m)) then None else MonitoringConn m of
        None \<Rightarrow>
          (case svc_ForceConnect api (hm_hostInfo cfg) (hm_monitoringProps cfg) (svc m) of
             (v, Inr (Some conn)) \<Rightarrow> (m\<lparr>svc := v, MonitoringConn := Some conn\<rparr>, True)
           | (v, _) \<Rightarrow> (m\<lparr>svc := v\<rparr>, False))
      | Some c \<Rightarrow> (m, reachable c (probe_timeout cfg) (svc m)))"

definition max_invalid_duration :: "monitor_settings \<Rightarrow> duration" where
  "max_invalid_duration cfg = failureDetectionIntervalNanos cfg * max 0 (failureDetectionCount cfg - 1)"

definition UpdateHostHealthStatus :: "monitor_settings \<Rightarrow> bool \<Rightarrow> time \<Rightarrow> time \<Rightarrow> ('sv, 'c, 'z) monitor \<Rightarrow> ('sv, 'c, 'z) monitor" where
  "UpdateHostHealthStatus cfg connIsValid checkStart checkEnd m =
     (if connIsValid then m\<lparr>FailureCount := 0, InvalidHostStartTime := None, HostUnhealthy := False\<rparr>
      else
       (let m1 = m\<lparr>FailureCount := FailureCount m + 1\<rparr>;
            invalidStart = (case InvalidHostStartTime m1 of None \<Rightarrow> checkStart | Some t \<Rightarrow> t);
            m2 = m1\<lparr>InvalidHostStartTime := Some invalidStart\<rparr>
        in if checkEnd - invalidStart \<ge> max_invalid_duration cfg then m2\<lparr>HostUnhealthy := True\<rparr> else m2))"

section \<open>A turn of the monitor\<close>

text \<open>One state taken from the queue: aborted, kept, or dropped.\<close>

definition watch_one ::
  "('sv, 'c) PluginServiceApi \<Rightarrow> nat \<Rightarrow> ('sv, 'c, 'z) monitor \<times> nat RWQueue \<Rightarrow> ('sv, 'c, 'z) monitor \<times> nat RWQueue" where
  "watch_one api i = (\<lambda>(m, tmp).
     case map_of (conn_states m) i of
       None \<Rightarrow> (m, tmp)
     | Some st \<Rightarrow>
         if HostUnhealthy m
         then (let m1 = m\<lparr>conn_states := mput i (SetInactive (SetHostUnhealthy True st)) (conn_states m)\<rparr>
               in (case connToAbortRef st of
                     None \<Rightarrow> m1
                   | Some c \<Rightarrow> m1\<lparr>svc := svc_Close api c (svc m1), abortedConnections := Suc (abortedConnections m1)\<rparr>, tmp))
         else if IsActive st then (m, Enqueue i tmp) else (m, tmp))"

definition probe ::
  "('sv, 'c) PluginServiceApi \<Rightarrow> ('c \<Rightarrow> duration \<Rightarrow> 'sv \<Rightarrow> bool) \<Rightarrow> monitor_settings \<Rightarrow> (nat \<Rightarrow> time) \<Rightarrow> ('sv, 'c, 'z) monitor
     \<Rightarrow> ('sv, 'c, 'z) monitor \<times> duration" where
  "probe api reachable cfg clock m =
     (let checkStart = clock (clock_reads m);
          (m1, connIsValid) = CheckConnectionStatus api reachable cfg (m\<lparr>clock_reads := Suc (clock_reads m)\<rparr>);
          checkEnd = clock (clock_reads m1);
          m2 = UpdateHostHealthStatus cfg connIsValid checkStart checkEnd (m1\<lparr>clock_reads := Suc (clock_reads m1)\<rparr>);
          m3 = (if HostUnhealthy m2 then m2\<lparr>svc := svc_SetAvailability api (AllAliases (hm_hostInfo cfg)) UNAVAILABLE (svc m2)\<rparr> else m2)
      in (m3, checkEnd - checkStart))"

definition delay :: "monitor_settings \<Rightarrow> duration \<Rightarrow> duration" where
  "delay cfg checked = max (failureDetectionIntervalNanos cfg - checked) EFM_ROUTINE_SLEEP_DURATION"

text \<open>A turn that no other goroutine interrupts; it answers how long the monitor sleeps.\<close>

definition Monitor_turn ::
  "('sv, 'c) PluginServiceApi \<Rightarrow> ('c \<Rightarrow> duration \<Rightarrow> 'sv \<Rightarrow> bool) \<Rightarrow> monitor_settings \<Rightarrow> (nat \<Rightarrow> time) \<Rightarrow> ('sv, 'c, 'z) monitor
     \<Rightarrow> ('sv, 'c, 'z) monitor \<times> duration" where
  "Monitor_turn api reachable cfg clock m =
     (let m1 = m\<lparr>lastActivityTimestampNano := clock (clock_reads m), clock_reads := Suc (clock_reads m)\<rparr>
      in if RWQueue_IsEmpty (ActiveStates m1) \<and> \<not> HostUnhealthy m1 then (m1, EFM_ROUTINE_SLEEP_DURATION)
         else (let (m2, checked) = probe api reachable cfg clock m1;
                   (m3, tmp) = fold (watch_one api) (q_items (ActiveStates m2)) (m2\<lparr>ActiveStates := NewRWQueue\<rparr>, NewRWQueue)
               in (m3\<lparr>ActiveStates := tmp\<rparr>, delay cfg checked)))"

definition reset :: "('sv, 'c) PluginServiceApi \<Rightarrow> ('sv, 'c, 'z) monitor \<Rightarrow> ('sv, 'c, 'z) monitor" where
  "reset api m =
     (close_monitoring api m)\<lparr>MonitoringConn := None, InvalidHostStartTime := None, FailureCount := 0, HostUnhealthy := False\<rparr>"

definition Monitor_ProcessEvent :: "('sv, 'c) PluginServiceApi \<Rightarrow> monitor_settings \<Rightarrow> 'k Event \<Rightarrow> ('sv, 'c, 'z) monitor \<Rightarrow> ('sv, 'c, 'z) monitor" where
  "Monitor_ProcessEvent api cfg event m =
     (case event of MonitorResetEvent _ endpoints \<Rightarrow> if Host (hm_hostInfo cfg) \<in> endpoints then reset api m else m | _ \<Rightarrow> m)"

section \<open>The steps of the goroutines\<close>

text \<open>Where the monitor's goroutine stands: between turns, emptying the queue into \<open>tmp\<close>, or about to put \<open>tmp\<close> in the
  place of the queue it found empty.\<close>

datatype phase = Between | Draining "nat RWQueue" | Swapping "nat RWQueue"

datatype 'c monitor_event =
    Probe | DequeueNext | FoundEmpty | Swap | Admit time | StartState time nat 'c | StopState nat | Collect nat

text \<open>An event that cannot happen in a phase leaves the machine as it is. A stopped monitor breaks off the emptying.\<close>

definition monitor_step ::
  "('sv, 'c) PluginServiceApi \<Rightarrow> ('c \<Rightarrow> duration \<Rightarrow> 'sv \<Rightarrow> bool) \<Rightarrow> monitor_settings \<Rightarrow> (nat \<Rightarrow> time) \<Rightarrow> 'c monitor_event
     \<Rightarrow> phase \<times> ('sv, 'c, 'z) monitor \<Rightarrow> phase \<times> ('sv, 'c, 'z) monitor" where
  "monitor_step api reachable cfg clock event = (\<lambda>(ph, m).
     case event of
       Probe \<Rightarrow>
         (case ph of
            Between \<Rightarrow>
              (let m1 = m\<lparr>lastActivityTimestampNano := clock (clock_reads m), clock_reads := Suc (clock_reads m)\<rparr>
               in if hm_Stopped m then (ph, m)
                  else if RWQueue_IsEmpty (ActiveStates m1) \<and> \<not> HostUnhealthy m1 then (ph, m1)
                  else (Draining NewRWQueue, fst (probe api reachable cfg clock m1)))
          | _ \<Rightarrow> (ph, m))
     | DequeueNext \<Rightarrow>
         (case ph of
            Draining tmp \<Rightarrow>
              (case Dequeue (ActiveStates m) of
                 (q, None) \<Rightarrow> (ph, m)
               | (q, Some i) \<Rightarrow>
                   if hm_Stopped m then (Swapping tmp, m\<lparr>ActiveStates := q\<rparr>)
                   else (let (m', tmp') = watch_one api i (m\<lparr>ActiveStates := q\<rparr>, tmp) in (Draining tmp', m')))
          | _ \<Rightarrow> (ph, m))
     | FoundEmpty \<Rightarrow>
         (case ph of Draining tmp \<Rightarrow> if RWQueue_IsEmpty (ActiveStates m) then (Swapping tmp, m) else (ph, m) | _ \<Rightarrow> (ph, m))
     | Swap \<Rightarrow> (case ph of Swapping tmp \<Rightarrow> (Between, m\<lparr>ActiveStates := tmp\<rparr>) | _ \<Rightarrow> (ph, m))
     | Admit t \<Rightarrow> (ph, if hm_Stopped m then m else newState_turn t m)
     | StartState t i c \<Rightarrow> (ph, StartMonitoring cfg t i (m\<lparr>conn_states := mput i (NewMonitorConnectionState c) (conn_states m)\<rparr>))
     | StopState i \<Rightarrow>
         (ph, case map_of (conn_states m) i of None \<Rightarrow> m | Some st \<Rightarrow> m\<lparr>conn_states := mput i (SetInactive st) (conn_states m)\<rparr>)
     | Collect i \<Rightarrow> (ph, m\<lparr>conn_states := filter (\<lambda>(j, _). j \<noteq> i) (conn_states m)\<rparr>))"

definition monitor_run ::
  "('sv, 'c) PluginServiceApi \<Rightarrow> ('c \<Rightarrow> duration \<Rightarrow> 'sv \<Rightarrow> bool) \<Rightarrow> monitor_settings \<Rightarrow> (nat \<Rightarrow> time) \<Rightarrow> 'c monitor_event list
     \<Rightarrow> phase \<times> ('sv, 'c, 'z) monitor \<Rightarrow> phase \<times> ('sv, 'c, 'z) monitor" where
  "monitor_run api reachable cfg clock events = fold (monitor_step api reachable cfg clock) events"

section \<open>The monitoring service and the plugin\<close>

definition HostMonitorType :: string where "HostMonitorType = ''HostMonitor''"

record HostMonitoringService =
  failureDetectionTimeMillis :: int
  failureDetectionIntervalMillis :: int
  ms_failureDetectionCount :: int
  monitorDisposalTimeMillis :: int
  monitorKey :: "(string \<times> string) option"

text \<open>Registering the type of the monitors is part of creating the service.\<close>

definition NewHostMonitoringServiceImpl ::
  "go_error option \<Rightarrow> props \<Rightarrow> (string, 'm, 'f) MonitorManager \<Rightarrow> (go_error + HostMonitoringService) \<times> (string, 'm, 'f) MonitorManager" where
  "NewHostMonitoringServiceImpl createCounter properties mm =
     (case createCounter of
        Some err \<Rightarrow> (Inl err, mm)
      | None \<Rightarrow>
          (case bindR (GetPositiveIntProperty (Some properties) FAILURE_DETECTION_TIME_MS) (\<lambda>t.
                bindR (GetPositiveIntProperty (Some properties) FAILURE_DETECTION_INTERVAL_MS) (\<lambda>i.
                bindR (GetPositiveIntProperty (Some properties) FAILURE_DETECTION_COUNT) (\<lambda>n.
                bindR (GetPositiveIntProperty (Some properties) MONITOR_DISPOSAL_TIME_MS) (\<lambda>d.
                  Inr \<lparr>failureDetectionTimeMillis = t, failureDetectionIntervalMillis = i, ms_failureDetectionCount = n,
                       monitorDisposalTimeMillis = d, monitorKey = None\<rparr>)))) of
             Inl err \<Rightarrow> (Inl err, mm)
           | Inr service \<Rightarrow>
               (Inr service, RegisterMonitorType HostMonitorType
                  \<lparr>ExpirationTimeout = monitorDisposalTimeMillis service * 1000000, InactiveTimeout = 180000000000, ErrorResponses = []\<rparr> '''' mm)))"

definition monitor_key :: "HostMonitoringService \<Rightarrow> HostInfo \<Rightarrow> string \<times> string" where
  "monitor_key service hostInfo =
     (let hostUrl = GetUrl (Some hostInfo)
      in (hostUrl, Itoa (failureDetectionTimeMillis service) @ '':'' @ Itoa (failureDetectionIntervalMillis service) @ '':'' @
                   Itoa (ms_failureDetectionCount service) @ '':'' @ hostUrl))"

text \<open>The monitor of a host, from the monitor service; \<open>fresh\<close> is the monitor a supplier makes.\<close>

definition getMonitor ::
  "time \<Rightarrow> 'f \<Rightarrow> 'm \<Rightarrow> HostInfo \<Rightarrow> HostMonitoringService \<Rightarrow> (string, 'm, 'f) MonitorManager
     \<Rightarrow> HostMonitoringService \<times> (string, 'm, 'f) MonitorManager \<times> (go_error + 'm) \<times> 'm monitor_effect list" where
  "getMonitor t supplier fresh hostInfo service mm =
     (let key = (case monitorKey service of
                   None \<Rightarrow> monitor_key service hostInfo
                 | Some (url, k) \<Rightarrow> if GetUrl (Some hostInfo) \<noteq> url then monitor_key service hostInfo else (url, k));
          (mm', res, effs) = RunIfAbsent t HostMonitorType (snd key) supplier (Inr fresh) mm
      in (service\<lparr>monitorKey := Some key\<rparr>, mm', res, effs))"

text \<open>The end of monitoring: a state the monitor found unhealthy and has not yet put out of action closes the connection
  that is current by then.\<close>

definition StopMonitoring ::
  "('sv, 'c) PluginServiceApi \<Rightarrow> nat \<Rightarrow> 'c \<Rightarrow> ('sv, 'c, 'z) monitor \<Rightarrow> ('sv, 'c, 'z) monitor" where
  "StopMonitoring api i connToAbort m =
     (case map_of (conn_states m) i of
        None \<Rightarrow> m
      | Some st \<Rightarrow>
          (let m1 = m\<lparr>conn_states := mput i (SetInactive st) (conn_states m)\<rparr>
           in if ShouldAbort st then m1\<lparr>svc := svc_Close api connToAbort (svc m1)\<rparr> else m1))"

definition CONN_CLOSE :: string where "CONN_CLOSE = ''Conn.Close''"

definition NETWORK_BOUND_METHODS :: "string list" where
  "NETWORK_BOUND_METHODS =
     [''Conn.Prepare'', ''Conn.PrepareContext'', ''Conn.QueryContext'', ''Conn.ExecContext'', ''Conn.Ping'', ''Conn.IsValid'',
      ''Conn.ResetSession'', ''Stmt.Exec'', ''Stmt.ExecContext'', ''Stmt.Query'', ''Stmt.QueryContext'', ''Tx.Commit'', ''Tx.Rollback'',
      ''Rows.Next'', ''Rows.HasNextResultSet'', ''Rows.NextResultSet'']"

record 'sv HostMonitorConnectionPlugin = "'sv plugin_frame" +
  monitoringHostInfo :: "HostInfo option"

type_synonym ('sv, 'z, 'a) efm_prog = "(('sv, 'z) HostMonitorConnectionPlugin_scheme, 'a) prog"

definition efm_Connect ::
  "('sv, 'c) PluginServiceApi \<Rightarrow> HostInfo \<Rightarrow> props \<Rightarrow> (props \<Rightarrow> ('sv, 'c option) prog) \<Rightarrow> ('sv, 'z, 'c option \<times> HostInfo) efm_prog" where
  "efm_Connect api hostInfo props connectFunc =
     bindP (callS (connectFunc props)) (\<lambda>conn.
     bindP (dnsS (IdentifyRdsUrlType (Host hostInfo))) (\<lambda>urlType.
       if IsRdsCluster urlType
       then (case conn of
               None \<Rightarrow> failP nil_dereference
             | Some c \<Rightarrow> bindP (callS (svc_FillAliases api c (ResetAliases hostInfo))) (\<lambda>host. returnP (conn, host)))
       else returnP (conn, hostInfo)))"

definition efm_NotifyConnectionChanged ::
  "HostChangeOptions set \<Rightarrow> ('sv, 'z) HostMonitorConnectionPlugin_scheme \<Rightarrow> ('sv, 'z) HostMonitorConnectionPlugin_scheme \<times> OldConnectionSuggestedAction" where
  "efm_NotifyConnectionChanged changes p =
     (if HOSTNAME \<in> changes \<or> HOST_CHANGED \<in> changes then p\<lparr>monitoringHostInfo := None\<rparr> else p, NO_OPINION)"

definition efm_error :: "string \<Rightarrow> go_error" where
  "efm_error message = NewGenericAwsWrapperError (''HostMonitoringConnectionPlugin.'' @ message)"

text \<open>An endpoint of a cluster is identified, so that the instance behind the connection is monitored.\<close>

definition instance_to_monitor :: "('sv, 'c) PluginServiceApi \<Rightarrow> HostInfo \<Rightarrow> ('sv, 'z, HostInfo option) efm_prog" where
  "instance_to_monitor api host =
     bindP (dnsS (IdentifyRdsUrlType (Host host))) (\<lambda>urlType.
       if \<not> IsRdsCluster urlType then returnP (Some host)
       else bindP (readS (svc_GetCurrentConnection api)) (\<lambda>conn.
         case conn of
           None \<Rightarrow> failP nil_dereference
         | Some c \<Rightarrow>
             bindP (attempt (callS (svc_IdentifyConnection api c))) (\<lambda>res.
               case res of Inl _ \<Rightarrow> failP (efm_error ''unableToIdentifyConnection'') | Inr identified \<Rightarrow> returnP identified)))"

definition getMonitoringHostInfo :: "('sv, 'c) PluginServiceApi \<Rightarrow> ('sv, 'z, HostInfo option) efm_prog" where
  "getMonitoringHostInfo api =
     bindP (getsP monitoringHostInfo) (\<lambda>known.
       if \<not> IsNil known then returnP known
       else bindP (attempt (callS (svc_GetCurrentHostInfo api))) (\<lambda>current.
         case current of
           Inl _ \<Rightarrow> failP (efm_error ''errorIdentifyingConnection'')
         | Inr host \<Rightarrow>
             bindP (if IsNil (Some host) then returnP ()
                    else bindP (instance_to_monitor api host) (\<lambda>h. modifyP (\<lambda>p. p\<lparr>monitoringHostInfo := h\<rparr>))) (\<lambda>_.
             bindP (getsP monitoringHostInfo) (\<lambda>h.
               if IsNil h then failP (efm_error ''unableToIdentifyConnection'') else returnP h))))"

text \<open>\<open>startMonitoring\<close> and \<open>stopMonitoring\<close> are those of the monitoring service, \<open>initMonitorService\<close> creates it once.\<close>

definition efm_Execute ::
  "('sv, 'c) PluginServiceApi \<Rightarrow> ('sv, 'z, unit) efm_prog \<Rightarrow> ('c option \<Rightarrow> HostInfo option \<Rightarrow> ('sv, 'z, nat option) efm_prog)
     \<Rightarrow> (nat \<Rightarrow> 'c option \<Rightarrow> ('sv, 'z) HostMonitorConnectionPlugin_scheme \<Rightarrow> ('sv, 'z) HostMonitorConnectionPlugin_scheme)
     \<Rightarrow> string \<Rightarrow> (('sv, 'z) HostMonitorConnectionPlugin_scheme, 'v exec_result) action
     \<Rightarrow> (('sv, 'z) HostMonitorConnectionPlugin_scheme, 'v exec_result) action" where
  "efm_Execute api initMonitorService startMonitoring stopMonitoring methodName executeFunc p =
     (if methodName \<notin> set NETWORK_BOUND_METHODS then executeFunc p
      else (case bindP initMonitorService (\<lambda>_. bindP (getMonitoringHostInfo api) (\<lambda>host.
                  bindP (readS (svc_GetCurrentConnection api)) (\<lambda>conn. startMonitoring conn host))) p of
              (p1, Inl err) \<Rightarrow> (p1, None, None, False, Some err)
            | (p1, Inr monitorState) \<Rightarrow>
                (let (p2, res) = executeFunc p1
                 in (case monitorState of None \<Rightarrow> p2 | Some i \<Rightarrow> stopMonitoring i (svc_GetCurrentConnection api (svc p2)) p2, res))))"

section \<open>When a host is dead\<close>

text \<open>The outcome, start and end of the probes, in the order of time.\<close>

fun ordered :: "(bool \<times> time \<times> time) list \<Rightarrow> bool" where
  "ordered [] = True"
| "ordered [(v, s, e)] \<longleftrightarrow> s \<le> e"
| "ordered ((v, s, e) # (v', s', e') # cs) \<longleftrightarrow> s \<le> e \<and> e \<le> s' \<and> ordered ((v', s', e') # cs)"

definition health_run :: "monitor_settings \<Rightarrow> (bool \<times> time \<times> time) list \<Rightarrow> ('sv, 'c, 'z) monitor \<Rightarrow> ('sv, 'c, 'z) monitor" where
  "health_run cfg checks m = fold (\<lambda>(v, s, e). UpdateHostHealthStatus cfg v s e) checks m"

text \<open>The failures since the last probe that succeeded, the last one first.\<close>

definition failing :: "(bool \<times> time \<times> time) list \<Rightarrow> (bool \<times> time \<times> time) list" where
  "failing checks = takeWhile (\<lambda>(v, _). \<not> v) (rev checks)"

lemma failing_snoc: "failing (checks @ [(v, s, e)]) = (if v then [] else (v, s, e) # failing checks)"
  by (simp add: failing_def)

lemma ordered_snoc: "ordered (checks @ [(v, s, e)]) \<Longrightarrow> ordered checks \<and> s \<le> e \<and> (\<forall>v' s' e'. (v', s', e') \<in> set checks \<longrightarrow> e' \<le> s)"
proof (induction checks rule: ordered.induct)
  case (3 v1 s1 e1 v2 s2 e2 cs)
  then have IH: "ordered ((v2, s2, e2) # cs)" "s \<le> e" "\<forall>v' s' e'. (v', s', e') \<in> set ((v2, s2, e2) # cs) \<longrightarrow> e' \<le> s" and o: "s1 \<le> e1" "e1 \<le> s2"
    by simp_all
  have "s2 \<le> e2" using IH(1) by (cases cs) auto
  moreover have "e2 \<le> s" using IH(3) by simp
  ultimately show ?case using IH o by (auto intro: order_trans)
qed auto

lemma failing_set: "set (failing checks) \<subseteq> set checks"
  using set_takeWhileD by (fastforce simp: failing_def)

lemma health_run_inv:
  assumes "ordered checks" "InvalidHostStartTime m = None" "\<not> HostUnhealthy m"
  shows "InvalidHostStartTime (health_run cfg checks m) = (if failing checks = [] then None else Some (fst (snd (last (failing checks))))) \<and>
    (HostUnhealthy (health_run cfg checks m) \<longleftrightarrow>
       failing checks \<noteq> [] \<and> snd (snd (hd (failing checks))) - fst (snd (last (failing checks))) \<ge> max_invalid_duration cfg)"
  using assms(1)
proof (induction checks rule: rev_induct)
  case Nil
  then show ?case using assms(2,3) by (simp add: health_run_def failing_def)
next
  case (snoc c checks)
  obtain v s e where c: "c = (v, s, e)" by (cases c)
  have o: "ordered checks" "s \<le> e" "\<And>v' s' e'. (v', s', e') \<in> set checks \<Longrightarrow> e' \<le> s"
    using ordered_snoc [of checks v s e] snoc.prems c by auto
  note IH = snoc.IH [OF o(1)]
  have run: "health_run cfg (checks @ [(x, s, e)]) m = UpdateHostHealthStatus cfg x s e (health_run cfg checks m)" for x
    by (simp add: health_run_def c)
  show ?case
  proof (cases "v \<or> failing checks = []")
    case True
    then show ?thesis using IH by (auto simp: run UpdateHostHealthStatus_def c failing_snoc Let_def)
  next
    case False
    then obtain v1 s1 e1 where hd: "hd (failing checks) = (v1, s1, e1)" by (metis prod_cases3)
    then have "(v1, s1, e1) \<in> set checks" using failing_set [of checks] hd_in_set [of "failing checks"] False by auto
    then have "e1 \<le> e" using o(2,3) by (meson order_trans)
    then show ?thesis using IH False hd by (auto simp: run UpdateHostHealthStatus_def c failing_snoc Let_def)
  qed
qed

text \<open>C9: A host is found unhealthy exactly when it has failed every probe since the last good one, at least one, and from the
  start of the first of them to the end of the last at least the detection interval times the failure count less one has
  passed. How many probes failed in that time does not matter, although \<open>docs\<close> describes a count of failures.\<close>
theorem HostUnhealthy_iff:
  assumes "ordered checks" "InvalidHostStartTime m = None" "\<not> HostUnhealthy m"
  shows "HostUnhealthy (health_run cfg checks m) \<longleftrightarrow>
    failing checks \<noteq> [] \<and> snd (snd (hd (failing checks))) - fst (snd (last (failing checks))) \<ge> max_invalid_duration cfg"
  using health_run_inv [OF assms] by blast

section \<open>A turn of an unhealthy host\<close>

lemma map_of_mput_eq: "map_of (mput k v m) j = (if j = k then Some v else map_of m j)"
  by (simp add: map_of_mput)

lemma watch_abort:
  assumes "HostUnhealthy m" "fold (watch_one api) is (m, tmp) = (m', tmp')"
  shows "tmp' = tmp \<and> HostUnhealthy m' \<and> (\<forall>j. state_active m' j \<longleftrightarrow> state_active m j \<and> j \<notin> set is) \<and>
    abortedConnections m' = abortedConnections m + card {i \<in> set is. state_active m i}"
  using assms
proof (induction "is" arbitrary: m)
  case Nil
  then show ?case by simp
next
  case (Cons i "is")
  let ?r = "watch_one api i (m, tmp)"
  let ?m1 = "fst ?r"
  have w: "?r = (?m1, tmp)" and h: "HostUnhealthy ?m1"
    and act: "state_active ?m1 j \<longleftrightarrow> state_active m j \<and> j \<noteq> i"
    and n: "abortedConnections ?m1 = abortedConnections m + (if state_active m i then 1 else 0)" for j
    using Cons.prems(1)
    by (auto simp: watch_one_def Let_def state_active_def map_of_mput_eq SetInactive_def SetHostUnhealthy_def IsActive_def split: option.splits)
  have rest: "fold (watch_one api) is (?m1, tmp) = (m', tmp')" using Cons.prems(2) w by (metis fold_simps(2))
  have s: "{j \<in> set (i # is). state_active m j} = (if state_active m i then {i} else {}) \<union> {j \<in> set is. state_active ?m1 j}"
    using act by auto
  have "i \<notin> {j \<in> set is. state_active ?m1 j}" using act by simp
  then have "card {j \<in> set (i # is). state_active m j} = (if state_active m i then 1 else 0) + card {j \<in> set is. state_active ?m1 j}"
    unfolding s by simp
  then show ?case using Cons.IH [OF h rest] act n by auto
qed

lemma watch_keep:
  assumes "\<not> HostUnhealthy m"
  shows "fold (watch_one api) is (m, tmp) = (m, tmp\<lparr>q_items := q_items tmp @ filter (state_active m) is\<rparr>)"
proof (induction "is" arbitrary: tmp)
  case (Cons i "is")
  then show ?case using assms by (auto simp: watch_one_def state_active_def Enqueue_def split: option.splits)
qed simp

lemma probe_keeps:
  assumes "probe api reachable cfg clock m = (m', d)"
  shows "ActiveStates m' = ActiveStates m \<and> NewStates m' = NewStates m \<and> conn_states m' = conn_states m \<and>
    abortedConnections m' = abortedConnections m \<and> hm_Stopped m' = hm_Stopped m"
  using assms
  by (auto simp: probe_def CheckConnectionStatus_def UpdateHostHealthStatus_def Let_def split: prod.splits option.splits sum.splits if_splits)

text \<open>A turn of the monitor that finds the host unhealthy aborts every connection it watches, each once, and watches none
  afterwards; a turn that finds it healthy goes on watching exactly those that are still in use.\<close>
theorem Monitor_turn_watches:
  assumes "\<not> (RWQueue_IsEmpty (ActiveStates m) \<and> \<not> HostUnhealthy m)" "Monitor_turn api reachable cfg clock m = (m', pause)"
    "probe api reachable cfg clock (m\<lparr>lastActivityTimestampNano := clock (clock_reads m), clock_reads := Suc (clock_reads m)\<rparr>) = (m1, checked)"
  shows "if HostUnhealthy m1
     then q_items (ActiveStates m') = [] \<and> (\<forall>i \<in> set (q_items (ActiveStates m)). \<not> state_active m' i) \<and>
          abortedConnections m' = abortedConnections m + card {i \<in> set (q_items (ActiveStates m)). state_active m i}
     else q_items (ActiveStates m') = filter (state_active m) (q_items (ActiveStates m)) \<and> abortedConnections m' = abortedConnections m"
proof -
  let ?m = "m\<lparr>lastActivityTimestampNano := clock (clock_reads m), clock_reads := Suc (clock_reads m)\<rparr>"
  obtain m3 tmp where f: "fold (watch_one api) (q_items (ActiveStates m1)) (m1\<lparr>ActiveStates := NewRWQueue\<rparr>, NewRWQueue) = (m3, tmp)" by fastforce
  have m': "m' = m3\<lparr>ActiveStates := tmp\<rparr>" using assms f by (auto simp: Monitor_turn_def)
  have kept: "ActiveStates m1 = ActiveStates m" "conn_states m1 = conn_states m" "abortedConnections m1 = abortedConnections m"
    using probe_keeps [OF assms(3)] by simp_all
  then have same: "state_active (m1\<lparr>ActiveStates := q\<rparr>) = state_active m" for q by (simp add: state_active_def fun_eq_iff)
  show ?thesis
  proof (cases "HostUnhealthy m1")
    case True
    then show ?thesis using watch_abort [OF _ f] kept same by (auto simp: m' NewRWQueue_def state_active_def)
  next
    case False
    then show ?thesis using watch_keep [of "m1\<lparr>ActiveStates := NewRWQueue\<rparr>" api "q_items (ActiveStates m1)" NewRWQueue] f kept same
      by (auto simp: m' NewRWQueue_def)
  qed
qed

section \<open>Interleavings\<close>

text \<open>The states that some queue still leads to.\<close>

definition watched :: "phase \<Rightarrow> ('sv, 'c, 'z) monitor \<Rightarrow> nat \<Rightarrow> bool" where
  "watched ph m i \<longleftrightarrow>
     (\<exists>t is. map_of (rw_cache (NewStates m)) t = Some is \<and> i \<in> set is) \<or> i \<in> set (q_items (ActiveStates m)) \<or>
     (case ph of Between \<Rightarrow> False | Draining tmp \<Rightarrow> i \<in> set (q_items tmp) | Swapping tmp \<Rightarrow> i \<in> set (q_items tmp))"

definition monitor_ok :: "phase \<times> ('sv, 'c, 'z) monitor \<Rightarrow> bool" where
  "monitor_ok = (\<lambda>(ph, m). (\<forall>i. state_active m i \<longrightarrow> watched ph m i) \<and> \<not> hm_Stopped m \<and>
     (case ph of Swapping _ \<Rightarrow> q_items (ActiveStates m) = [] | _ \<Rightarrow> True))"

text \<open>The two things that lose a state: admitting it while the queue is about to be replaced, and starting it at the very
  instant another has been started.\<close>

definition timely :: "monitor_settings \<Rightarrow> 'c monitor_event \<Rightarrow> phase \<times> ('sv, 'c, 'z) monitor \<Rightarrow> bool" where
  "timely cfg event = (\<lambda>(ph, m).
     case event of
       Admit t \<Rightarrow> (case ph of Swapping _ \<Rightarrow> False | _ \<Rightarrow> True)
     | StartState t i c \<Rightarrow> RWMap_Get (t + failureDetectionTimeNanos cfg) (NewStates m) = None
     | _ \<Rightarrow> True)"

fun timely_run ::
  "('sv, 'c) PluginServiceApi \<Rightarrow> ('c \<Rightarrow> duration \<Rightarrow> 'sv \<Rightarrow> bool) \<Rightarrow> monitor_settings \<Rightarrow> (nat \<Rightarrow> time) \<Rightarrow> 'c monitor_event list
     \<Rightarrow> phase \<times> ('sv, 'c, 'z) monitor \<Rightarrow> bool" where
  "timely_run api reachable cfg clock [] s \<longleftrightarrow> True"
| "timely_run api reachable cfg clock (e # es) s \<longleftrightarrow>
     timely cfg e s \<and> timely_run api reachable cfg clock es (monitor_step api reachable cfg clock e s)"

lemma map_of_filter_key: "map_of (filter (\<lambda>(k, _). P k) xs) k = (if P k then map_of xs k else None)"
  by (induction xs) auto

lemma admit_items: "set (q_items (foldl (\<lambda>q i. if P i then Enqueue i q else q) q is)) = set (q_items q) \<union> {i \<in> set is. P i}"
  by (induction "is" arbitrary: q) (auto simp: Enqueue_def)

lemma newState_watched:
  assumes "watched ph m i" "state_active m i"
  shows "watched ph (newState_turn t m) i"
proof -
  let ?due = "filter (\<lambda>(k, v). k < t) (rw_cache (NewStates m))"
  have new: "newState_turn t m = m\<lparr>NewStates := (NewStates m)\<lparr>rw_cache := filter (\<lambda>(k, v). \<not> k < t) (rw_cache (NewStates m))\<rparr>,
      ActiveStates := foldl (\<lambda>q i. if state_active m i then Enqueue i q else q) (ActiveStates m) (concat (map snd ?due))\<rparr>"
    by (simp add: newState_turn_def ProcessAndRemoveIf_def RWMap_RemoveIf_def Let_def)
  show ?thesis
  proof (cases "\<exists>u is. map_of (rw_cache (NewStates m)) u = Some is \<and> i \<in> set is")
    case True
    then obtain u "is" where u: "map_of (rw_cache (NewStates m)) u = Some is" "i \<in> set is" by blast
    show ?thesis
    proof (cases "u < t")
      case True
      then have "(u, is) \<in> set ?due" using map_of_SomeD [OF u(1)] by simp
      then have "i \<in> set (concat (map snd ?due))" using u(2) by force
      then show ?thesis using assms(2) by (simp add: new watched_def admit_items)
    next
      case False
      then have "map_of (filter (\<lambda>(k, v). \<not> k < t) (rw_cache (NewStates m))) u = Some is"
        using u(1) map_of_filter_key [of "\<lambda>k. \<not> k < t" "rw_cache (NewStates m)" u] by simp
      then show ?thesis using u(2) by (auto simp: new watched_def)
    qed
  next
    case False
    then show ?thesis using assms(1) by (auto simp: new watched_def admit_items)
  qed
qed

lemma newState_active [simp]: "state_active (newState_turn t m) i = state_active m i" "hm_Stopped (newState_turn t m) = hm_Stopped m"
  by (simp_all add: newState_turn_def ProcessAndRemoveIf_def RWMap_RemoveIf_def state_active_def Let_def)

lemma probe_active: "probe api reachable cfg clock m = (m', d) \<Longrightarrow> state_active m' i = state_active m i"
  using probe_keeps [of api reachable cfg clock m m' d] by (simp add: state_active_def)

lemma watch_one_step:
  assumes "watch_one api i (m, tmp) = (m', tmp')"
  shows "NewStates m' = NewStates m \<and> ActiveStates m' = ActiveStates m \<and> hm_Stopped m' = hm_Stopped m \<and> set (q_items tmp) \<subseteq> set (q_items tmp') \<and>
    (\<forall>j. state_active m' j \<longrightarrow> state_active m j \<and> (j = i \<longrightarrow> i \<in> set (q_items tmp')))"
  using assms
  by (auto simp: watch_one_def Let_def state_active_def map_of_mput_eq SetInactive_def SetHostUnhealthy_def IsActive_def Enqueue_def
      split: option.splits if_splits)

lemma monitor_step_ok:
  assumes "monitor_ok s" "timely cfg event s"
  shows "monitor_ok (monitor_step api reachable cfg clock event s)"
proof -
  obtain ph m where s: "s = (ph, m)" by (cases s)
  have inv: "\<And>i. state_active m i \<Longrightarrow> watched ph m i" and run: "\<not> hm_Stopped m"
    and swap: "case ph of Swapping _ \<Rightarrow> q_items (ActiveStates m) = [] | _ \<Rightarrow> True"
    using assms(1) by (auto simp: s monitor_ok_def)
  show ?thesis
  proof (cases event)
    case Probe
    obtain m1 d where p: "probe api reachable cfg clock (m\<lparr>lastActivityTimestampNano := clock (clock_reads m), clock_reads := Suc (clock_reads m)\<rparr>) = (m1, d)"
      by fastforce
    then show ?thesis using Probe inv run swap probe_keeps [OF p] probe_active [OF p]
      by (auto simp: s monitor_step_def monitor_ok_def watched_def state_active_def NewRWQueue_def Let_def split: phase.splits)
  next
    case DequeueNext
    show ?thesis
    proof (cases ph)
      case (Draining tmp)
      show ?thesis
      proof (cases "q_items (ActiveStates m)")
        case Nil
        then show ?thesis using DequeueNext Draining inv run by (simp add: s monitor_step_def monitor_ok_def Dequeue_def)
      next
        case (Cons i rest)
        obtain m' tmp' where w: "watch_one api i (m\<lparr>ActiveStates := ActiveStates m\<lparr>q_items := rest\<rparr>\<rparr>, tmp) = (m', tmp')" by fastforce
        have step: "monitor_step api reachable cfg clock event s = (Draining tmp', m')"
          using DequeueNext Draining Cons run w by (simp add: s monitor_step_def Dequeue_def)
        have "watched (Draining tmp') m' j" if "state_active m' j" for j
          using watch_one_step [OF w] inv [of j] that Cons Draining by (auto simp: watched_def state_active_def)
        then show ?thesis using watch_one_step [OF w] run by (simp add: step monitor_ok_def)
      qed
    qed (use DequeueNext inv run swap in \<open>simp_all add: s monitor_step_def monitor_ok_def\<close>)
  next
    case FoundEmpty
    have "watched (Swapping tmp) m = watched (Draining tmp) m" for tmp by (simp add: fun_eq_iff watched_def)
    then show ?thesis using FoundEmpty inv run swap
      by (cases ph) (simp_all add: s monitor_step_def monitor_ok_def RWQueue_IsEmpty_def)
  next
    case Swap
    then show ?thesis using inv run swap
      by (auto simp: s monitor_step_def monitor_ok_def watched_def state_active_def split: phase.splits)
  next
    case (Admit t)
    then show ?thesis using newState_watched [of ph m _ t] inv run assms(2)
      by (auto simp: s monitor_step_def monitor_ok_def timely_def split: phase.splits)
  next
    case (StartState t i c)
    have free: "map_of (rw_cache (NewStates m)) (t + failureDetectionTimeNanos cfg) = None"
      using assms(2) StartState by (simp add: s timely_def RWMap_Get_def)
    have "watched ph (StartMonitoring cfg t i (m\<lparr>conn_states := mput i (NewMonitorConnectionState c) (conn_states m)\<rparr>)) j"
      if "j = i \<or> watched ph m j" for j
    proof -
      define M' where "M' = (map_of (rw_cache (NewStates m)))(t + failureDetectionTimeNanos cfg \<mapsto> [i])"
      have new: "map_of (rw_cache (NewStates (StartMonitoring cfg t i (m\<lparr>conn_states := mput i (NewMonitorConnectionState c) (conn_states m)\<rparr>)))) = M'"
        by (simp add: StartMonitoring_def RWMap_Put_def Let_def M'_def)
      have "\<exists>u is. M' u = Some is \<and> j \<in> set is" if "map_of (rw_cache (NewStates m)) u = Some is" "j \<in> set is" for u "is"
      proof (intro exI conjI)
        show "M' u = Some is" using that free by (auto simp: M'_def)
      qed (fact that)
      moreover have "\<exists>u is. M' u = Some is \<and> i \<in> set is"
        by (intro exI [of _ "t + failureDetectionTimeNanos cfg"] exI [of _ "[i]"]) (simp add: M'_def)
      ultimately show ?thesis using that unfolding watched_def new by (auto simp: StartMonitoring_def)
    qed
    moreover have "state_active (StartMonitoring cfg t i (m\<lparr>conn_states := mput i (NewMonitorConnectionState c) (conn_states m)\<rparr>)) j \<Longrightarrow>
        j = i \<or> state_active m j" for j
      by (auto simp: state_active_def StartMonitoring_def map_of_mput_eq split: if_splits)
    ultimately show ?thesis using inv run swap StartState
      by (auto simp: s monitor_step_def monitor_ok_def StartMonitoring_def split: phase.splits)
  next
    case (StopState i)
    then show ?thesis using inv run swap
      by (auto simp: s monitor_step_def monitor_ok_def watched_def state_active_def map_of_mput_eq SetInactive_def IsActive_def
          split: phase.splits option.splits if_splits)
  next
    case (Collect i)
    have "state_active (m\<lparr>conn_states := filter (\<lambda>(j, _). j \<noteq> i) (conn_states m)\<rparr>) j \<Longrightarrow> state_active m j" for j
      using map_of_filter_key [of "\<lambda>j. j \<noteq> i" "conn_states m" j] by (auto simp: state_active_def split: if_splits)
    then show ?thesis using inv run swap Collect by (auto simp: s monitor_step_def monitor_ok_def watched_def split: phase.splits)
  qed
qed

text \<open>C10: The monitor loses sight of no connection whose method is running: whatever the order of its steps and those of the
  clients, every active state is in one of the queues, provided that the run is \<open>timely\<close>: no two clients start at the
  same instant, and no state is admitted between the moment the monitor finds the queue empty and the moment it
  replaces it. Without these, states are lost (\<open>state_lost_at_swap\<close>).\<close>
theorem monitor_run_watches:
  assumes "monitor_ok s" "timely_run api reachable cfg clock events s"
  shows "monitor_ok (monitor_run api reachable cfg clock events s)"
  using assms
proof (induction events arbitrary: s)
  case (Cons e es)
  then show ?case using monitor_step_ok [of s cfg e api reachable clock] by (simp add: monitor_run_def)
qed (simp add: monitor_run_def)

section \<open>Examples\<close>

definition probe_api :: "(nat, nat) PluginServiceApi" where
  "probe_api =
     \<lparr>svc_GetHosts = (\<lambda>s. (s, [])), svc_GetAllHosts = (\<lambda>_. []), svc_Connect = (\<lambda>_ _ s. (s, Inl (ErrorsNew ''down''))),
      svc_ForceConnect = (\<lambda>_ _ s. if s = 0 then (s, Inr (Some 1)) else (s, Inl (ErrorsNew ''down''))), svc_AcceptsStrategy = (\<lambda>_. True),
      svc_GetHostRole = (\<lambda>_ s. (s, READER)), svc_Close = (\<lambda>_ s. s), svc_IsClosed = (\<lambda>_ _. False),
      svc_SetCurrentConnection = (\<lambda>_ _ s. (s, Inr ())), svc_GetCurrentConnection = (\<lambda>s. Some s),
      svc_GetCurrentHostInfo = (\<lambda>s. (s, Inl (ErrorsNew ''none''))), svc_GetInitialConnectionHostInfo = (\<lambda>_. None),
      svc_SetInitialConnectionHostInfo = (\<lambda>_ s. s), svc_SetAvailability = (\<lambda>_ _ s. s), svc_RefreshHostList = (\<lambda>s. (s, Inr ())),
      svc_ForceRefreshHostList = (\<lambda>s. (s, Inr ())), svc_ForceRefreshHostListWithTimeout = (\<lambda>_ _ s. (s, True, None)),
      svc_GetUpdatedHostListWithTimeout = (\<lambda>_ _ s. (s, Inr [])), svc_GetHostInfoByStrategy = (\<lambda>_ _ _ s. (s, Inr None)),
      svc_IsInTransaction = (\<lambda>_. False), svc_SetInTransaction = (\<lambda>_ s. s), svc_Rollback = (\<lambda>_ s. s),
      svc_IsNetworkError = (\<lambda>_. True), svc_IsLoginError = (\<lambda>_. False),
      svc_FillAliases = (\<lambda>_ h s. (s, Inr h)), svc_IdentifyConnection = (\<lambda>_ s. (s, Inr None))\<rparr>"

definition probe_settings :: monitor_settings where
  "probe_settings = NewHostMonitorImpl
     \<lparr>Host = ''a'', HostId = ''a'', Port = 5, Availability = AVAILABLE, Role = READER, Aliases = Some {}, AllAliases = Some {}, Weight = 1, LastUpdateTime = 0\<rparr>
     NewRWMap 0 5 3"

definition new_monitor :: "nat \<Rightarrow> (nat, nat) HostMonitor" where
  "new_monitor s =
     \<lparr>svc = s, clock_reads = 0, dns_caches = fresh_state None, MonitoringConn = None, FailureCount = 0, InvalidHostStartTime = None,
      ActiveStates = NewRWQueue, NewStates = NewRWMap, hm_Stopped = False, HostUnhealthy = False, hm_state = MonitorStateRunning,
      lastActivityTimestampNano = 0, conn_states = [], abortedConnections = 0\<rparr>"

text \<open>A state admitted at the wrong moment is lost: the client is still using its connection, no queue leads to it any more,
  and the monitor has forgotten it for good.\<close>
theorem state_lost_at_swap:
  "case monitor_run probe_api (\<lambda>_ _ _. True) probe_settings int
      [StartState 0 1 7, Admit 1, Probe, DequeueNext, StartState 2 2 8, FoundEmpty, Admit 3, Swap] (Between, new_monitor 0) of
    (ph, m) \<Rightarrow> ph = Between \<and> state_active m 2 \<and> \<not> watched ph m 2"
proof -
  let ?r = "monitor_run probe_api (\<lambda>_ _ _. True) probe_settings int
      [StartState 0 1 7, Admit 1, Probe, DequeueNext, StartState 2 2 8, FoundEmpty, Admit 3, Swap] (Between, new_monitor 0)"
  have "fst ?r = Between" "state_active (snd ?r) 2" "rw_cache (NewStates (snd ?r)) = []" "q_items (ActiveStates (snd ?r)) = [1]" by code_simp+
  then show ?thesis by (cases ?r) (simp add: watched_def)
qed

text \<open>With an interval of 5 milliseconds and a count of 3, one probe that takes 10 milliseconds makes a host unhealthy, and
  four that fail within less do not.\<close>

lemma failures_not_counted:
  "failureDetectionCount probe_settings = 3 \<and>
   HostUnhealthy (health_run probe_settings [(False, 0, 10000000)] (new_monitor 0)) \<and>
   \<not> HostUnhealthy (health_run probe_settings [(False, 0, 1), (False, 2, 3), (False, 4, 5), (False, 6, 7)] (new_monitor 0))"
  by (simp add: health_run_def UpdateHostHealthStatus_def Let_def max_invalid_duration_def probe_settings_def NewHostMonitorImpl_def new_monitor_def)

lemma HostUnhealthy_iff_witness:
  "HostUnhealthy (health_run probe_settings [(True, 0, 1), (False, 10000000, 11000000), (False, 19000000, 20000000)] (new_monitor 0))"
proof -
  let ?cs = "[(True, 0, 1), (False, 10000000, 11000000), (False, 19000000, 20000000)] :: (bool \<times> time \<times> time) list"
  have "ordered ?cs" "InvalidHostStartTime (new_monitor 0) = None" "\<not> HostUnhealthy (new_monitor 0)"
    by (simp_all add: new_monitor_def)
  moreover have "failing ?cs = [(False, 19000000, 20000000), (False, 10000000, 11000000)]" by (simp add: failing_def)
  moreover have "max_invalid_duration probe_settings = 10000000"
    by (simp add: max_invalid_duration_def probe_settings_def NewHostMonitorImpl_def)
  ultimately show ?thesis using HostUnhealthy_iff [of ?cs "new_monitor 0" probe_settings] by simp
qed

lemma Monitor_turn_watches_witness:
  "let m = (new_monitor 1)\<lparr>ActiveStates := \<lparr>q_items = [1, 2]\<rparr>, HostUnhealthy := True, InvalidHostStartTime := Some 0,
             conn_states := [(1, NewMonitorConnectionState 7), (2, SetInactive (NewMonitorConnectionState 8))]\<rparr>
   in q_items (ActiveStates (fst (Monitor_turn probe_api (\<lambda>_ _ _. True) probe_settings int m))) = [] \<and>
      abortedConnections (fst (Monitor_turn probe_api (\<lambda>_ _ _. True) probe_settings int m)) = 1"
proof -
  let ?m = "(new_monitor 1)\<lparr>ActiveStates := \<lparr>q_items = [1, 2]\<rparr>, HostUnhealthy := True, InvalidHostStartTime := Some 0,
             conn_states := [(1, NewMonitorConnectionState 7), (2, SetInactive (NewMonitorConnectionState 8))]\<rparr>"
  let ?p = "probe probe_api (\<lambda>_ _ _. True) probe_settings int (?m\<lparr>lastActivityTimestampNano := int (clock_reads ?m), clock_reads := Suc (clock_reads ?m)\<rparr>)"
  obtain m' pause where t: "Monitor_turn probe_api (\<lambda>_ _ _. True) probe_settings int ?m = (m', pause)" by fastforce
  obtain m1 checked where p: "?p = (m1, checked)" by fastforce
  have "HostUnhealthy (fst ?p)" by code_simp
  then have h: "HostUnhealthy m1" using p by simp
  have set: "{i \<in> set (q_items (ActiveStates ?m)). state_active ?m i} = {1}"
    by (auto simp: state_active_def NewMonitorConnectionState_def SetInactive_def IsActive_def)
  have "\<not> (RWQueue_IsEmpty (ActiveStates ?m) \<and> \<not> HostUnhealthy ?m)" by simp
  from Monitor_turn_watches [OF this t p] h set show ?thesis
    unfolding Let_def t by (simp add: new_monitor_def)
qed

lemma monitor_run_watches_witness:
  "monitor_ok (monitor_run probe_api (\<lambda>_ _ _. True) probe_settings int [StartState 0 1 7, Admit 1, Probe, DequeueNext, StartState 2 2 8, FoundEmpty, Swap, Admit 3]
     (Between, new_monitor 0))"
proof -
  have "monitor_ok (Between, new_monitor 0)" by (simp add: monitor_ok_def new_monitor_def state_active_def NewRWQueue_def)
  moreover have "timely_run probe_api (\<lambda>_ _ _. True) probe_settings int [StartState 0 1 7, Admit 1, Probe, DequeueNext, StartState 2 2 8, FoundEmpty, Swap, Admit 3]
     (Between, new_monitor 0)" by code_simp
  ultimately show ?thesis by (rule monitor_run_watches)
qed

end
