(* ===== verification/Connection_Tracker.thy ===== *)
theory Connection_Tracker
  imports Service_Api
begin

text \<open>
  Tracking of opened connections: \<open>awssql/plugins/connection_tracker/opened_connection_tracker.go\<close> and the plugin
  \<open>awssql/plugins/aurora_connection_tracker.go\<close>. The queues of weak pointers are queues of references; \<open>weak_refs\<close> are
  those the garbage collector has not taken. The tracker makes a weak pointer to a variable of its own, which nothing
  else refers to, so the collector may take any of them at any time. The pruning goroutine is a step of its own.
\<close>

record ('sv, 'c) ConnectionTracker = "'sv plugin_frame" +
  openedConnections :: "(string, nat RWQueue) RWMap"
  weak_refs :: "(nat, 'c) gomap"
  next_ref :: nat
  currentWriter :: "HostInfo option"
  needUpdateCurrentWriter :: bool

type_synonym ('sv, 'c, 'z) tracker = "('sv, 'c, 'z) ConnectionTracker_scheme"
type_synonym ('sv, 'c, 'z, 'a) tracker_prog = "(('sv, 'c, 'z) ConnectionTracker_scheme, 'a) prog"

section \<open>The tracker\<close>

definition trackConnection :: "string \<Rightarrow> 'c \<Rightarrow> ('sv, 'c, 'z) tracker \<Rightarrow> ('sv, 'c, 'z) tracker" where
  "trackConnection hostAndPort conn t =
     (let (opened, connectionQueue) = RWMap_ComputeIfAbsent hostAndPort (\<lambda>_. NewRWQueue) (openedConnections t)
      in t\<lparr>openedConnections := fst (RWMap_Put hostAndPort (Enqueue (next_ref t) connectionQueue) opened),
           weak_refs := mput (next_ref t) conn (weak_refs t), next_ref := Suc (next_ref t)\<rparr>)"

text \<open>The greatest alias that is an instance endpoint; the order of the aliases does not matter.\<close>

primrec greatest_instance :: "string list \<Rightarrow> string \<Rightarrow> ('sv, 'c, 'z, string) tracker_prog" where
  "greatest_instance [] instanceEndpoint = returnP instanceEndpoint"
| "greatest_instance (alias # as) instanceEndpoint =
     bindP (dnsS (IsRdsInstance (RemovePort alias))) (\<lambda>isInstance.
       greatest_instance as (if isInstance \<and> instanceEndpoint < alias then alias else instanceEndpoint))"

definition PopulateOpenedConnectionQueue :: "HostInfo \<Rightarrow> 'c \<Rightarrow> ('sv, 'c, 'z, unit) tracker_prog" where
  "PopulateOpenedConnectionQueue hostInfo conn =
     bindP (dnsS (IsRdsInstance (Host hostInfo))) (\<lambda>isInstance.
     bindP (modifyP (\<lambda>t. if isInstance then trackConnection (GetHostAndPort (Some hostInfo)) conn t else t)) (\<lambda>_.
     bindP (greatest_instance (alias_list (AllAliases hostInfo)) '''') (\<lambda>instanceEndpoint.
       if instanceEndpoint = '''' then returnP () else modifyP (trackConnection instanceEndpoint conn))))"

text \<open>The connections that the references of the queue still lead to, in the order they were tracked, one for each
  reference: a connection that was tracked twice is there twice, and \<open>Close\<close> is called on it twice.\<close>

definition live_connections :: "('sv, 'c, 'z) tracker \<Rightarrow> nat RWQueue \<Rightarrow> 'c list" where
  "live_connections t queue = map the (filter (\<lambda>c. c \<noteq> None) (map (map_of (weak_refs t)) (q_items queue)))"

definition invalidateConnections :: "('sv, 'c) PluginServiceApi \<Rightarrow> string \<Rightarrow> nat RWQueue \<Rightarrow> ('sv, 'c, 'z) tracker \<Rightarrow> ('sv, 'c, 'z) tracker" where
  "invalidateConnections api key queue t =
     t\<lparr>svc := fold (svc_Close api) (live_connections t queue) (svc t),
       openedConnections := fst (RWMap_Put key NewRWQueue (openedConnections t))\<rparr>"

primrec first_instance :: "string list \<Rightarrow> ('sv, 'c, 'z, string) tracker_prog" where
  "first_instance [] = returnP ''''"
| "first_instance (host # hosts) =
     bindP (dnsS (IsRdsInstance (RemovePort host))) (\<lambda>isInstance. if isInstance then returnP host else first_instance hosts)"

definition InvalidateAllConnectionsMultipleHosts :: "('sv, 'c) PluginServiceApi \<Rightarrow> string list \<Rightarrow> ('sv, 'c, 'z, unit) tracker_prog" where
  "InvalidateAllConnectionsMultipleHosts api hosts =
     bindP (first_instance hosts) (\<lambda>instanceEndpoint.
       if instanceEndpoint = '''' then returnP ()
       else bindP (getsP (\<lambda>t. RWMap_Get instanceEndpoint (openedConnections t))) (\<lambda>found.
         case found of None \<Rightarrow> returnP () | Some queue \<Rightarrow> modifyP (invalidateConnections api instanceEndpoint queue)))"

text \<open>\<open>visit\<close> lists the aliases of a host in the order in which Go visits them.\<close>

definition InvalidateAllConnections :: "('sv, 'c) PluginServiceApi \<Rightarrow> (string set option \<Rightarrow> string list) \<Rightarrow> HostInfo \<Rightarrow> ('sv, 'c, 'z, unit) tracker_prog" where
  "InvalidateAllConnections api visit hostInfo =
     bindP (InvalidateAllConnectionsMultipleHosts api [GetHostAndPort (Some hostInfo)]) (\<lambda>_.
       InvalidateAllConnectionsMultipleHosts api (visit (AllAliases hostInfo)))"

definition pruneNullConnections :: "('sv, 'c, 'z) tracker \<Rightarrow> ('sv, 'c, 'z) tracker" where
  "pruneNullConnections t =
     t\<lparr>openedConnections := (openedConnections t)\<lparr>rw_cache :=
         map (\<lambda>(host, queue). (host, RWQueue_RemoveIf (\<lambda>r. map_of (weak_refs t) r = None) queue)) (rw_cache (openedConnections t))\<rparr>\<rparr>"

definition Tracker_ClearCache :: "('sv, 'c, 'z) tracker \<Rightarrow> ('sv, 'c, 'z) tracker" where
  "Tracker_ClearCache t = t\<lparr>openedConnections := fst (RWMap_Clear (openedConnections t))\<rparr>"

text \<open>The garbage collector takes a reference.\<close>

definition collect_ref :: "nat \<Rightarrow> ('sv, 'c, 'z) tracker \<Rightarrow> ('sv, 'c, 'z) tracker" where
  "collect_ref r t = t\<lparr>weak_refs := mdel r (weak_refs t)\<rparr>"

section \<open>The plugin\<close>

definition rememberWriter :: "('sv, 'c) PluginServiceApi \<Rightarrow> ('sv, 'c, 'z) tracker \<Rightarrow> ('sv, 'c, 'z) tracker" where
  "rememberWriter api t =
     (if currentWriter t = None \<or> needUpdateCurrentWriter t
      then t\<lparr>currentWriter := GetWriter (map Some (svc_GetAllHosts api (svc t))), needUpdateCurrentWriter := False\<rparr> else t)"

definition checkWriterChanged :: "('sv, 'c) PluginServiceApi \<Rightarrow> (string set option \<Rightarrow> string list) \<Rightarrow> ('sv, 'c, 'z, unit) tracker_prog" where
  "checkWriterChanged api visit =
     bindP (readS (\<lambda>v. GetWriter (map Some (svc_GetAllHosts api v)))) (\<lambda>hostInfoAfterFailover.
     bindP (getsP currentWriter) (\<lambda>writer.
       case (hostInfoAfterFailover, writer) of
         (None, _) \<Rightarrow> returnP ()
       | (Some new, None) \<Rightarrow> modifyP (\<lambda>t. t\<lparr>currentWriter := Some new, needUpdateCurrentWriter := False\<rparr>)
       | (Some new, Some old) \<Rightarrow>
           if GetHostAndPort (Some old) = GetHostAndPort (Some new) then returnP ()
           else bindP (InvalidateAllConnections api visit old) (\<lambda>_.
                modifyP (\<lambda>t. t\<lparr>currentWriter := Some new, needUpdateCurrentWriter := False\<rparr>))))"

definition tracker_Execute ::
  "('sv, 'c) PluginServiceApi \<Rightarrow> (string set option \<Rightarrow> string list) \<Rightarrow> (('sv, 'c, 'z) tracker, 'v exec_result) action \<Rightarrow> (('sv, 'c, 'z) tracker, 'v exec_result) action" where
  "tracker_Execute api visit executeFunc t =
     (let (t1, r1, r2, ok, wrappedErr) = executeFunc (rememberWriter api t)
      in (case wrappedErr of
            Some (AwsWrapperError msg ty) \<Rightarrow> (if IsFailoverErrorType ty then fst (checkWriterChanged api visit t1) else t1, r1, r2, ok, wrappedErr)
          | _ \<Rightarrow> (t1, r1, r2, ok, wrappedErr)))"

definition tracker_Connect ::
  "('sv, 'c) PluginServiceApi \<Rightarrow> HostInfo \<Rightarrow> props \<Rightarrow> (props \<Rightarrow> ('sv, 'c option) prog) \<Rightarrow> ('sv, 'c, 'z, 'c option) tracker_prog" where
  "tracker_Connect api hostInfo props connectFunc =
     bindP (callS (connectFunc props)) (\<lambda>conn.
       case conn of
         None \<Rightarrow> returnP None
       | Some c \<Rightarrow>
           bindP (dnsS (IdentifyRdsUrlType (Host hostInfo))) (\<lambda>rdsUrlType.
           bindP (if IsRdsCluster rdsUrlType \<or> rdsUrlType = OTHER \<or> rdsUrlType = IP_ADDRESS
                  then callS (svc_FillAliases api c (ResetAliases hostInfo)) else returnP hostInfo) (\<lambda>host.
           bindP (PopulateOpenedConnectionQueue host c) (\<lambda>_. returnP conn))))"

definition invalidate_changed :: "('sv, 'c) PluginServiceApi \<Rightarrow> string \<Rightarrow> HostChangeOptions set \<Rightarrow> ('sv, 'c, 'z, unit) tracker_prog" where
  "invalidate_changed api host changes =
     bindP (if PROMOTED_TO_READER \<in> changes then InvalidateAllConnectionsMultipleHosts api [host] else returnP ()) (\<lambda>_.
       if PROMOTED_TO_WRITER \<in> changes then InvalidateAllConnectionsMultipleHosts api [host] else returnP ())"

primrec invalidate_all_changed :: "('sv, 'c) PluginServiceApi \<Rightarrow> (string \<times> HostChangeOptions set) list \<Rightarrow> ('sv, 'c, 'z, unit) tracker_prog" where
  "invalidate_all_changed api [] = returnP ()"
| "invalidate_all_changed api (hc # rest) = bindP (invalidate_changed api (fst hc) (snd hc)) (\<lambda>_. invalidate_all_changed api rest)"

definition tracker_NotifyHostListChanged ::
  "('sv, 'c) PluginServiceApi \<Rightarrow> (string, HostChangeOptions set) gomap \<Rightarrow> ('sv, 'c, 'z, unit) tracker_prog" where
  "tracker_NotifyHostListChanged api changes =
     bindP (invalidate_all_changed api changes) (\<lambda>_. modifyP (\<lambda>t. t\<lparr>needUpdateCurrentWriter := True\<rparr>))"

section \<open>Properties\<close>

lemma IsRdsInstance_dns:
  assumes "computes f (IsRdsInstance host) b" "coherent (dns_caches t)" "prepareHostFunc (dns_caches t) = f"
  obtains d where "dnsS (IsRdsInstance host) t = (t\<lparr>dns_caches := d\<rparr>, Inr b)" "coherent d" "prepareHostFunc d = f"
  using assms unfolding computes_def dnsS_def by fastforce

lemma invalidate_host:
  assumes "computes f (IsRdsInstance (RemovePort key)) True" "coherent (dns_caches t)" "prepareHostFunc (dns_caches t) = f"
    "key \<noteq> ''''" "RWMap_Get key (openedConnections t) = Some queue"
  obtains d where "InvalidateAllConnectionsMultipleHosts api [key] t = (invalidateConnections api key queue (t\<lparr>dns_caches := d\<rparr>), Inr ())"
    "coherent d" "prepareHostFunc d = f"
proof -
  obtain d where d: "dnsS (IsRdsInstance (RemovePort key)) t = (t\<lparr>dns_caches := d\<rparr>, Inr True)" "coherent d" "prepareHostFunc d = f"
    by (rule IsRdsInstance_dns [OF assms(1-3)])
  have "first_instance [key] t = (t\<lparr>dns_caches := d\<rparr>, Inr key)" by (simp add: bindP_def d(1))
  then have "InvalidateAllConnectionsMultipleHosts api [key] t = (invalidateConnections api key queue (t\<lparr>dns_caches := d\<rparr>), Inr ())"
    using assms(4,5) by (simp add: InvalidateAllConnectionsMultipleHosts_def bindP_def)
  then show ?thesis using that d by blast
qed

lemma live_empty [simp]: "live_connections t NewRWQueue = []"
  by (simp add: live_connections_def NewRWQueue_def)

lemma RWMap_Get_Put: "RWMap_Get k (fst (RWMap_Put j v m)) = (if k = j then Some v else RWMap_Get k m)"
  by (simp add: RWMap_Get_def RWMap_Put_def Let_def)

lemma invalidated_fields:
  "svc (invalidateConnections api key queue t) = fold (svc_Close api) (live_connections t queue) (svc t)"
  "dns_caches (invalidateConnections api key queue t) = dns_caches t"
  "RWMap_Get k (openedConnections (invalidateConnections api key queue t)) = (if k = key then Some NewRWQueue else RWMap_Get k (openedConnections t))"
  by (simp_all add: invalidateConnections_def RWMap_Get_Put)

text \<open>C32: When an instance has been promoted or demoted, the queue of its connections is emptied: \<open>Close\<close> is called for each
  reference of it that the garbage collector has left, in the order they were tracked (so twice on a connection that
  was tracked twice under the same key, as its host and as its alias), and on no other connection; the queues of the
  other instances stay what they were.\<close>
theorem changed_role_closes_connections:
  assumes "computes f (IsRdsInstance (RemovePort key)) True" "coherent (dns_caches t)" "prepareHostFunc (dns_caches t) = f"
    "key \<noteq> ''''" "RWMap_Get key (openedConnections t) = Some queue" "PROMOTED_TO_READER \<in> changes \<or> PROMOTED_TO_WRITER \<in> changes"
  shows "\<exists>t'. tracker_NotifyHostListChanged api [(key, changes)] t = (t', Inr ()) \<and>
    svc t' = fold (svc_Close api) (live_connections t queue) (svc t) \<and>
    (\<forall>k. RWMap_Get k (openedConnections t') = (if k = key then Some NewRWQueue else RWMap_Get k (openedConnections t)))"
proof -
  have live: "live_connections (t\<lparr>dns_caches := d\<rparr>) queue = live_connections t queue" for d by (simp add: live_connections_def)
  obtain d where one: "InvalidateAllConnectionsMultipleHosts api [key] t = (invalidateConnections api key queue (t\<lparr>dns_caches := d\<rparr>), Inr ())"
    and d: "coherent d" "prepareHostFunc d = f" by (rule invalidate_host [OF assms(1-5)])
  let ?t1 = "invalidateConnections api key queue (t\<lparr>dns_caches := d\<rparr>)"
  obtain d2 where two: "InvalidateAllConnectionsMultipleHosts api [key] ?t1 = (invalidateConnections api key NewRWQueue (?t1\<lparr>dns_caches := d2\<rparr>), Inr ())"
    by (rule invalidate_host [OF assms(1), where t = ?t1 and queue = NewRWQueue and api = api]) (use d assms(4) in \<open>simp_all add: invalidated_fields\<close>)
  show ?thesis
    using assms(6) one two
    by (auto simp: tracker_NotifyHostListChanged_def invalidate_changed_def bindP_def invalidated_fields live)
qed

section \<open>Example\<close>

definition tracker_api :: "(nat list, nat) PluginServiceApi" where
  "tracker_api =
     \<lparr>svc_GetHosts = (\<lambda>s. (s, [])), svc_GetAllHosts = (\<lambda>_. []), svc_Connect = (\<lambda>_ _ s. (s, Inr None)),
      svc_ForceConnect = (\<lambda>_ _ s. (s, Inr None)), svc_AcceptsStrategy = (\<lambda>_. True),
      svc_GetHostRole = (\<lambda>_ s. (s, READER)), svc_Close = (\<lambda>c s. s @ [c]), svc_IsClosed = (\<lambda>c s. c \<in> set s),
      svc_SetCurrentConnection = (\<lambda>_ _ s. (s, Inr ())), svc_GetCurrentConnection = (\<lambda>s. None),
      svc_GetCurrentHostInfo = (\<lambda>s. (s, Inl (ErrorsNew ''none''))), svc_GetInitialConnectionHostInfo = (\<lambda>_. None),
      svc_SetInitialConnectionHostInfo = (\<lambda>_ s. s), svc_SetAvailability = (\<lambda>_ _ s. s), svc_RefreshHostList = (\<lambda>s. (s, Inr ())),
      svc_ForceRefreshHostList = (\<lambda>s. (s, Inr ())), svc_ForceRefreshHostListWithTimeout = (\<lambda>_ _ s. (s, True, None)),
      svc_GetUpdatedHostListWithTimeout = (\<lambda>_ _ s. (s, Inr [])), svc_GetHostInfoByStrategy = (\<lambda>_ _ _ s. (s, Inr None)),
      svc_IsInTransaction = (\<lambda>_. False), svc_SetInTransaction = (\<lambda>_ s. s), svc_Rollback = (\<lambda>_ s. s),
      svc_IsNetworkError = (\<lambda>_. True), svc_IsLoginError = (\<lambda>_. False),
      svc_FillAliases = (\<lambda>_ h s. (s, Inr h)), svc_IdentifyConnection = (\<lambda>_ s. (s, Inr None))\<rparr>"

definition empty_tracker :: "(nat list, nat) ConnectionTracker" where
  "empty_tracker = \<lparr>svc = [], clock_reads = 0, dns_caches = fresh_state None, openedConnections = NewRWMap, weak_refs = [], next_ref = 0,
     currentWriter = None, needUpdateCurrentWriter = False\<rparr>"

lemma computes_IsRdsInstance:
  assumes "host \<noteq> ''''" "dns_group_of (prepared f host) = ''''" "dns_pattern_of (prepared f (prepared f host)) \<noteq> None"
  shows "computes f (IsRdsInstance host) True"
  unfolding IsRdsInstance_def
proof (rule computes_bind [OF computes_prepared])
  have ne: "prepared f host \<noteq> ''''" by (rule prepared_nonempty [OF assms(1)])
  show "computes f (bindS (getDnsGroup (prepared f host)) (\<lambda>g. if g = '''' then IsRdsDns (prepared f host) else ret False)) True"
    by (rule computes_bind [where a = "dns_group_of (prepared f host)"])
       (use computes_getDnsGroup [OF ne, of f] computes_IsRdsDns [OF ne, of f] assms(2,3) in simp_all)
qed

lemma instance_endpoint: "computes None (IsRdsInstance (standard_endpoint ''db'' '''' ''abc1'' ''us-east-1'')) True"
proof (rule computes_IsRdsInstance)
  let ?h = "standard_endpoint ''db'' '''' ''abc1'' ''us-east-1''"
  have ok: "endpoint_ok ''db'' '''' ''abc1'' ''us-east-1''" by code_simp
  show "?h \<noteq> ''''" by (simp add: standard_endpoint_def)
  have p: "prepared None h = h" for h by (simp add: prepared_def)
  show "dns_group_of (prepared None ?h) = ''''" unfolding p by (rule endpoint_pattern(2) [OF ok])
  show "dns_pattern_of (prepared None (prepared None ?h)) \<noteq> None" unfolding p endpoint_pattern(1) [OF ok] by simp
qed

lemma instance_endpoint_port: "RemovePort (standard_endpoint ''db'' '''' ''abc1'' ''us-east-1'') = standard_endpoint ''db'' '''' ''abc1'' ''us-east-1''"
  by code_simp

text \<open>A connection tracked twice, as its host and as its alias, is closed twice.\<close>

lemma changed_role_closes_connections_witness:
  "\<exists>t'. tracker_NotifyHostListChanged tracker_api [(standard_endpoint ''db'' '''' ''abc1'' ''us-east-1'', {PROMOTED_TO_READER})]
    (trackConnection (standard_endpoint ''db'' '''' ''abc1'' ''us-east-1'') 7
      (trackConnection (standard_endpoint ''db'' '''' ''abc1'' ''us-east-1'') 7 empty_tracker)) = (t', Inr ()) \<and> svc t' = [7, 7]"
proof -
  let ?h = "standard_endpoint ''db'' '''' ''abc1'' ''us-east-1''"
  let ?t = "trackConnection ?h 7 (trackConnection ?h (7::nat) empty_tracker)"
  have c: "computes None (IsRdsInstance (RemovePort ?h)) True" by (simp only: instance_endpoint_port instance_endpoint)
  have f: "dns_caches ?t = fresh_state None" "svc ?t = []" by (simp_all add: trackConnection_def empty_tracker_def split: prod.splits)
  have d: "coherent (dns_caches ?t)" "prepareHostFunc (dns_caches ?t) = None" unfolding f by (rule fresh_coherent, simp add: fresh_state_def)
  have k: "?h \<noteq> ''''" by (simp add: standard_endpoint_def)
  obtain queue where q: "RWMap_Get ?h (openedConnections ?t) = Some queue"
    by (cases "RWMap_Get ?h (openedConnections ?t)") (auto simp: trackConnection_def RWMap_Get_Put Let_def split: prod.splits)
  have "map_option (live_connections ?t) (RWMap_Get ?h (openedConnections ?t)) = Some [7, 7]" by code_simp
  then have l: "live_connections ?t queue = [7, 7]" using q by simp
  have r: "PROMOTED_TO_READER \<in> {PROMOTED_TO_READER} \<or> PROMOTED_TO_WRITER \<in> {PROMOTED_TO_READER}" by simp
  from changed_role_closes_connections [OF c d k q r, of tracker_api] show ?thesis by (auto simp: l f tracker_api_def)
qed

end
