(* ===== verification/Machines.thy ===== *)
theory Machines
  imports Main
begin

text \<open>
  Machines of labelled steps: the interleavings of goroutines and callers. A component gives its step relation; a run is
  a list of labels. \<open>kept_by_steps\<close> is the contract of an invariant under the steps with certain labels, and what it
  gives for runs.
\<close>

inductive runs :: "('e \<Rightarrow> 's \<Rightarrow> 's \<Rightarrow> bool) \<Rightarrow> 'e list \<Rightarrow> 's \<Rightarrow> 's \<Rightarrow> bool" for step where
  runs_none: "runs step [] s s"
| runs_step: "step e s s' \<Longrightarrow> runs step es s' s'' \<Longrightarrow> runs step (e # es) s s''"

inductive_simps runs_Nil [simp]: "runs step [] s s'"
inductive_simps runs_Cons [simp]: "runs step (e # es) s s'"

lemma runs_append: "runs step (es @ fs) s s'' \<longleftrightarrow> (\<exists>s'. runs step es s s' \<and> runs step fs s' s'')"
  by (induction es arbitrary: s) auto

locale kept_by_steps =
  fixes step :: "'e \<Rightarrow> 's \<Rightarrow> 's \<Rightarrow> bool" and happens :: "'e \<Rightarrow> bool" and inv :: "'s \<Rightarrow> bool"
  assumes step_keeps: "step e s s' \<Longrightarrow> happens e \<Longrightarrow> inv s \<Longrightarrow> inv s'"
begin

lemma runs_keep: "runs step es s s' \<Longrightarrow> \<forall>e \<in> set es. happens e \<Longrightarrow> inv s \<Longrightarrow> inv s'"
  by (induction rule: runs.induct) (auto dest: step_keeps)

end

text \<open>A quantity that the steps leave alone while the invariant holds.\<close>

locale left_alone = kept_by_steps +
  fixes measured :: "'b \<Rightarrow> 'n"
  assumes step_leaves: "step e s s' \<Longrightarrow> happens e \<Longrightarrow> inv s \<Longrightarrow> measured s' = measured s"
begin

lemma runs_leave: "runs step es s s' \<Longrightarrow> \<forall>e \<in> set es. happens e \<Longrightarrow> inv s \<Longrightarrow> measured s' = measured s"
proof (induction rule: runs.induct)
  case (runs_step e s s' es s'')
  from runs_step.prems runs_step.hyps(1) have "inv s'" "measured s' = measured s" by (auto intro: step_keeps step_leaves)
  with runs_step.IH runs_step.prems show ?case by simp
qed simp

end

end
