(* ===== verification/Cluster_Monitor.thy ===== *)
theory Cluster_Monitor
  imports Complex_Main Service_Api Services Go_Loops Machines Topology
begin

text \<open>
  The topology monitor of a cluster: \<open>awssql/driver_infrastructure/cluster_topology_monitor.go\<close>. Its main goroutine
  queries the writer while it knows one and otherwise runs one goroutine per host until one of them finds the writer.
  Turns of the loops are functions of the shared state; \<open>topology_step\<close> is the machine of whole turns and whole requests, and
  \<open>Monitor_Steps\<close> the finer one in which requests fall between the writes of a turn. Connection containers are options,
  the stored topology is numbered so that a new one is told from an equal old one, and waiting for the goroutines is
  running them to their end. A send to an unbuffered channel that nobody is waiting on does nothing, so only the flags
  that go with the channels are kept.
\<close>

section \<open>State\<close>

record topology_settings =
  highRefreshRateNano :: duration
  refreshRateNano :: duration
  ct_monitoringProps :: props
  ct_initialHostInfo :: HostInfo
  ct_clusterInstanceTemplate :: "HostInfo option"
  ct_clusterId :: string

text \<open>The strategy by which the topology is queried.\<close>

record ('sv, 'c) topology_strategy =
  q_topology :: "'c \<Rightarrow> ('sv, HostInfo list) prog"
  q_isWriter :: "'c \<Rightarrow> ('sv, bool) prog"
  q_template :: "string \<Rightarrow> 'c \<Rightarrow> ('sv, HostInfo option) prog"
  q_instanceId :: "'c \<Rightarrow> 'sv \<Rightarrow> 'sv \<times> string \<times> string"
  q_createHost :: "string \<Rightarrow> string \<Rightarrow> HostInfo \<Rightarrow> HostInfo option \<Rightarrow> HostInfo"

record 'c HostMonitoringRoutine =
  hr_hostInfo :: HostInfo
  hr_writerHostInfo :: "HostInfo option"
  writerChanged :: bool
  connectionAttempts :: nat
  hr_conn :: "'c option"
  hr_updateTopology :: bool
  hr_running :: bool

record ('sv, 'c) ClusterTopologyMonitor = "'sv plugin_frame" +
  isVerifiedWriterConn :: bool
  highRefreshRateEndTimeInNanos :: int
  hostRoutines :: "(string, 'c HostMonitoringRoutine) gomap"
  ct_stop :: bool
  requestToUpdateTopology :: bool
  hostRoutinesStop :: bool
  ct_monitoringConn :: "'c option"
  hostRoutinesWriterConn :: "'c option"
  hostRoutinesReaderConn :: "'c option"
  hostRoutinesLatestTopology :: "HostInfo list"
  hostRoutinesWriterHostInfo :: "HostInfo option"
  ct_writerHostInfo :: "HostInfo option"
  ct_state :: MonitorState
  ct_lastActivity :: time
  readerTopologiesById :: "(string, HostInfo list) gomap"
  completedOneCycle :: "(string, bool) gomap"
  stableTopologiesStart :: time
  stored_topology :: "(nat \<times> HostInfo list) option"
  topologies_stored :: nat

type_synonym ('sv, 'c, 'z) tmon = "('sv, 'c, 'z) ClusterTopologyMonitor_scheme"

definition highRefreshPeriodAfterPanicNano :: duration where "highRefreshPeriodAfterPanicNano = 30000000000"
definition topologyUpdateWaitTime :: duration where "topologyUpdateWaitTime = 1000000000"
definition stableTopologiesDurationNano :: duration where "stableTopologiesDurationNano = 15000000000"
definition initialBackoffMs :: int where "initialBackoffMs = 100"
definition maxBackoffMs :: int where "maxBackoffMs = 10000"

text \<open>A monitor before it is started; \<open>p\<close> brings the state of the service.\<close>

definition NewClusterTopologyMonitorImpl :: "'sv plugin_frame \<Rightarrow> ('sv, 'c) ClusterTopologyMonitor" where
  "NewClusterTopologyMonitorImpl p =
     \<lparr>svc = svc p, clock_reads = clock_reads p, dns_caches = dns_caches p, isVerifiedWriterConn = False, highRefreshRateEndTimeInNanos = 0,
      hostRoutines = [], ct_stop = False, requestToUpdateTopology = False, hostRoutinesStop = False, ct_monitoringConn = None,
      hostRoutinesWriterConn = None, hostRoutinesReaderConn = None, hostRoutinesLatestTopology = [], hostRoutinesWriterHostInfo = None,
      ct_writerHostInfo = None, ct_state = MonitorStateStopped, ct_lastActivity = 0, readerTopologiesById = [], completedOneCycle = [],
      stableTopologiesStart = 0, stored_topology = None, topologies_stored = 0\<rparr>"

definition Topology_Start :: "time \<Rightarrow> ('sv, 'c, 'z) tmon \<Rightarrow> ('sv, 'c, 'z) tmon" where
  "Topology_Start t m =
     m\<lparr>ct_state := MonitorStateRunning, ct_monitoringConn := None, hostRoutinesWriterConn := None, hostRoutinesReaderConn := None,
       ct_lastActivity := t\<rparr>"

text \<open>The next reading of the clock.\<close>

definition tick :: "('sv, 'c, 'z) tmon \<Rightarrow> ('sv, 'c, 'z) tmon" where
  "tick m = m\<lparr>clock_reads := Suc (clock_reads m)\<rparr>"

section \<open>The stored topology\<close>

definition monitor_storedHosts :: "('sv, 'c, 'z) tmon \<Rightarrow> HostInfo list" where
  "monitor_storedHosts m = (case stored_topology m of None \<Rightarrow> [] | Some t \<Rightarrow> snd t)"

definition updateTopologyCache :: "HostInfo list \<Rightarrow> ('sv, 'c, 'z) tmon \<Rightarrow> ('sv, 'c, 'z) tmon" where
  "updateTopologyCache hosts m =
     m\<lparr>requestToUpdateTopology := False, stored_topology := Some (topologies_stored m, hosts), topologies_stored := Suc (topologies_stored m)\<rparr>"

definition closeConnection :: "('sv, 'c) PluginServiceApi \<Rightarrow> 'c option \<Rightarrow> ('sv, 'c, 'z) tmon \<Rightarrow> ('sv, 'c, 'z) tmon" where
  "closeConnection api conn m =
     (case conn of None \<Rightarrow> m | Some c \<Rightarrow> if svc_IsClosed api c (svc m) then m else m\<lparr>svc := svc_Close api c (svc m)\<rparr>)"

definition fetchTopologyAndUpdateCache ::
  "('sv, 'c) topology_strategy \<Rightarrow> 'c option \<Rightarrow> ('sv, 'c, 'z) tmon \<Rightarrow> ('sv, 'c, 'z) tmon \<times> HostInfo list" where
  "fetchTopologyAndUpdateCache strat conn m =
     (case conn of
        None \<Rightarrow> (m, [])
      | Some c \<Rightarrow>
          (case q_topology strat c (svc m) of
             (v, Inl _) \<Rightarrow> (m\<lparr>svc := v\<rparr>, [])
           | (v, Inr hosts) \<Rightarrow> (if hosts \<noteq> [] then updateTopologyCache hosts (m\<lparr>svc := v\<rparr>) else m\<lparr>svc := v\<rparr>, hosts)))"

text \<open>Copying a host that was built cannot fail, since its name is not empty.\<close>

definition updateHostsAvailability :: "HostInfo list \<Rightarrow> ('sv, 'c, 'z) tmon \<Rightarrow> HostInfo list" where
  "updateHostsAvailability hosts m =
     map (\<lambda>h. let availability = (if map_of (readerTopologiesById m) (HostId h) \<noteq> None then AVAILABLE else UNAVAILABLE)
              in (case Build (SetAvailability availability (CopyFrom (Some h) NewHostInfoBuilder)) of Inl _ \<Rightarrow> h | Inr copy \<Rightarrow> copy)) hosts"

section \<open>Opening a connection\<close>

definition strategy_template :: "('sv, 'c) topology_strategy \<Rightarrow> topology_settings \<Rightarrow> string \<Rightarrow> 'c \<Rightarrow> ('sv, 'c, 'z) tmon
    \<Rightarrow> ('sv, 'c, 'z) tmon \<times> HostInfo option" where
  "strategy_template strat cfg instanceId conn m =
     (case q_template strat instanceId conn (svc m) of
        (v, Inr (Some template)) \<Rightarrow> (m\<lparr>svc := v\<rparr>, Some template)
      | (v, _) \<Rightarrow> (m\<lparr>svc := v\<rparr>, ct_clusterInstanceTemplate cfg))"

text \<open>The host a connection that is the writer's leads to.\<close>

definition identify_writer ::
  "('sv, 'c) topology_strategy \<Rightarrow> topology_settings \<Rightarrow> 'c \<Rightarrow> ('sv, 'c, 'z) tmon \<Rightarrow> ('sv, 'c, 'z) tmon" where
  "identify_writer strat cfg conn m =
     (case dnsS (IsRdsInstance (Host (ct_initialHostInfo cfg))) m of
        (m1, Inr True) \<Rightarrow> m1\<lparr>ct_writerHostInfo := Some (ct_initialHostInfo cfg)\<rparr>
      | (m1, _) \<Rightarrow>
          (let (v, hostId, hostName) = q_instanceId strat conn (svc m1); m2 = m1\<lparr>svc := v\<rparr>
           in if hostId = '''' \<and> hostName = '''' then m2
              else (let (m3, template) = strategy_template strat cfg hostName conn m2
                    in m3\<lparr>ct_writerHostInfo := Some (q_createHost strat hostId hostName (ct_initialHostInfo cfg) template)\<rparr>)))"

text \<open>Opening a connection when nothing interferes; \<open>Monitor_Steps\<close> has the same in steps.\<close>

definition open_monitoring ::
  "('sv, 'c) PluginServiceApi \<Rightarrow> ('sv, 'c) topology_strategy \<Rightarrow> topology_settings \<Rightarrow> ('sv, 'c, 'z) tmon \<Rightarrow> ('sv, 'c, 'z) tmon \<times> bool" where
  "open_monitoring api strat cfg m =
     (case svc_ForceConnect api (ct_initialHostInfo cfg) (ct_monitoringProps cfg) (svc m) of
        (v, Inr (Some conn)) \<Rightarrow>
          (case q_isWriter strat conn v of
             (v', Inr True) \<Rightarrow>
               (identify_writer strat cfg conn (m\<lparr>svc := v', ct_monitoringConn := Some conn, isVerifiedWriterConn := True\<rparr>), True)
           | (v', _) \<Rightarrow> (m\<lparr>svc := v', ct_monitoringConn := Some conn\<rparr>, True))
      | (v, _) \<Rightarrow> (m\<lparr>svc := v\<rparr>, False))"

text \<open>A connection that gives no topology is dropped.\<close>

definition drop_monitoring :: "('sv, 'c) PluginServiceApi \<Rightarrow> ('sv, 'c, 'z) tmon \<Rightarrow> ('sv, 'c, 'z) tmon" where
  "drop_monitoring api m =
     (closeConnection api (ct_monitoringConn m) m)\<lparr>ct_monitoringConn := None, isVerifiedWriterConn := False, ct_writerHostInfo := None\<rparr>"

definition openAnyConnectionAndUpdateTopology ::
  "('sv, 'c) PluginServiceApi \<Rightarrow> ('sv, 'c) topology_strategy \<Rightarrow> topology_settings \<Rightarrow> ('sv, 'c, 'z) tmon \<Rightarrow> ('sv, 'c, 'z) tmon \<times> HostInfo list" where
  "openAnyConnectionAndUpdateTopology api strat cfg m =
     (let (m1, opened) = (if ct_monitoringConn m = None then open_monitoring api strat cfg m else (m, True))
      in if \<not> opened then (m1, [])
         else (let (m2, hosts) = fetchTopologyAndUpdateCache strat (ct_monitoringConn m1) m1
               in (if hosts = [] then drop_monitoring api m2 else m2, hosts)))"

section \<open>The goroutine of a host\<close>

definition new_routine :: "('sv, 'c, 'z) tmon \<Rightarrow> HostInfo \<Rightarrow> 'c HostMonitoringRoutine" where
  "new_routine m h =
     \<lparr>hr_hostInfo = h, hr_writerHostInfo = ct_writerHostInfo m, writerChanged = False, connectionAttempts = 0, hr_conn = None,
      hr_updateTopology = False, hr_running = True\<rparr>"

definition start_routine :: "HostInfo \<Rightarrow> ('sv, 'c, 'z) tmon \<Rightarrow> ('sv, 'c, 'z) tmon" where
  "start_routine h m = m\<lparr>hostRoutines := mput (Host h) (new_routine m h) (hostRoutines m)\<rparr>"

definition put_routine :: "'c HostMonitoringRoutine \<Rightarrow> ('sv, 'c, 'z) tmon \<Rightarrow> ('sv, 'c, 'z) tmon" where
  "put_routine r m = m\<lparr>hostRoutines := mput (Host (hr_hostInfo r)) r (hostRoutines m)\<rparr>"

text \<open>A cycle without a topology, and the end of the goroutine with what it defers.\<close>

definition cycle_done :: "'c HostMonitoringRoutine \<Rightarrow> ('sv, 'c, 'z) tmon \<Rightarrow> ('sv, 'c, 'z) tmon" where
  "cycle_done r m = m\<lparr>completedOneCycle := mput (HostId (hr_hostInfo r)) True (completedOneCycle m)\<rparr>"

definition no_topology :: "'c HostMonitoringRoutine \<Rightarrow> ('sv, 'c, 'z) tmon \<Rightarrow> ('sv, 'c, 'z) tmon" where
  "no_topology r m = (cycle_done r m)\<lparr>readerTopologiesById := mdel (HostId (hr_hostInfo r)) (readerTopologiesById m)\<rparr>"

definition end_routine :: "('sv, 'c) PluginServiceApi \<Rightarrow> 'c HostMonitoringRoutine \<Rightarrow> ('sv, 'c, 'z) tmon \<Rightarrow> ('sv, 'c, 'z) tmon" where
  "end_routine api r m = put_routine (r\<lparr>hr_running := False\<rparr>) (closeConnection api (hr_conn r) (no_topology r m))"

text \<open>The topology a reader sees; the writer is compared with the one known when the goroutine was started.\<close>

definition readerRoutineFetchTopology ::
  "('sv, 'c) topology_strategy \<Rightarrow> 'c HostMonitoringRoutine \<Rightarrow> ('sv, 'c, 'z) tmon \<Rightarrow> ('sv, 'c, 'z) tmon \<times> 'c HostMonitoringRoutine" where
  "readerRoutineFetchTopology strat r m =
     (case hr_conn r of
        None \<Rightarrow> (m, r)
      | Some c \<Rightarrow>
          (case q_topology strat c (svc m) of
             (v, Inl _) \<Rightarrow> (m\<lparr>svc := v\<rparr>, r)
           | (v, Inr hosts) \<Rightarrow>
               (if hosts = [] then (m\<lparr>svc := v\<rparr>, r)
                else (let m1 = m\<lparr>svc := v, hostRoutinesLatestTopology := hosts,
                             readerTopologiesById := mput (HostId (hr_hostInfo r)) hosts (readerTopologiesById m)\<rparr>;
                          update = (\<lambda>m. updateTopologyCache (updateHostsAvailability hosts m) m);
                          latestWriter = GetWriter (map Some hosts)
                      in if writerChanged r then (update m1, r)
                         else if \<not> IsNil latestWriter \<and> \<not> IsNil (hr_writerHostInfo r) \<and>
                                 GetHostAndPort latestWriter \<noteq> GetHostAndPort (hr_writerHostInfo r)
                         then (update m1, r\<lparr>writerChanged := True\<rparr>)
                         else (m1, r)))))"

text \<open>A connection attempt: the goroutine goes on with a connection or nil, or its turn is over.\<close>

definition routine_connect ::
  "('sv, 'c) PluginServiceApi \<Rightarrow> topology_settings \<Rightarrow> 'c HostMonitoringRoutine \<Rightarrow> ('sv, 'c, 'z) tmon
     \<Rightarrow> ('sv, 'c, 'z) tmon \<times> 'c HostMonitoringRoutine option" where
  "routine_connect api cfg r m =
     (case svc_ForceConnect api (hr_hostInfo r) (ct_monitoringProps cfg) (svc m) of
        (v, Inl err) \<Rightarrow>
          (let m1 = m\<lparr>svc := v\<rparr>
           in if svc_IsNetworkError api err then (no_topology r m1, None)
              else if svc_IsLoginError api err then (end_routine api r m1, None)
              else (put_routine (r\<lparr>connectionAttempts := Suc (connectionAttempts r)\<rparr>) (no_topology r m1), None))
      | (v, Inr conn) \<Rightarrow>
          (m\<lparr>svc := svc_SetAvailability api (AllAliases (hr_hostInfo r)) AVAILABLE v\<rparr>, Some (r\<lparr>hr_conn := conn, connectionAttempts := 0\<rparr>)))"

text \<open>Whether the connection is the writer's, asked twice; a connection that cannot tell is closed.\<close>

definition writer_check ::
  "('sv, 'c) PluginServiceApi \<Rightarrow> ('sv, 'c) topology_strategy \<Rightarrow> 'c \<Rightarrow> 'c HostMonitoringRoutine \<Rightarrow> ('sv, 'c, 'z) tmon
     \<Rightarrow> ('sv, 'c, 'z) tmon \<times> 'c HostMonitoringRoutine \<times> bool" where
  "writer_check api strat c r m =
     (case q_isWriter strat c (svc m) of
        (v, Inl _) \<Rightarrow> (no_topology r (closeConnection api (Some c) (m\<lparr>svc := v\<rparr>)), r\<lparr>hr_conn := None\<rparr>, False)
      | (v, Inr True) \<Rightarrow> (let (v', role) = svc_GetHostRole api (Some c) v in (m\<lparr>svc := v'\<rparr>, r, role = WRITER))
      | (v, Inr False) \<Rightarrow> (m\<lparr>svc := v\<rparr>, r, False))"

definition found_writer ::
  "('sv, 'c) PluginServiceApi \<Rightarrow> ('sv, 'c) topology_strategy \<Rightarrow> 'c \<Rightarrow> 'c HostMonitoringRoutine \<Rightarrow> ('sv, 'c, 'z) tmon \<Rightarrow> ('sv, 'c, 'z) tmon" where
  "found_writer api strat c r m =
     end_routine api (r\<lparr>hr_conn := None\<rparr>)
       (if hostRoutinesWriterConn m \<noteq> None then closeConnection api (Some c) m
        else (fst (fetchTopologyAndUpdateCache strat (Some c) (m\<lparr>hostRoutinesWriterConn := Some c\<rparr>)))
               \<lparr>hostRoutinesStop := True, hostRoutinesWriterHostInfo := Some ((hr_hostInfo r)\<lparr>Availability := AVAILABLE\<rparr>)\<rparr>)"

definition found_reader ::
  "('sv, 'c) topology_strategy \<Rightarrow> 'c HostMonitoringRoutine \<Rightarrow> ('sv, 'c, 'z) tmon \<Rightarrow> ('sv, 'c, 'z) tmon" where
  "found_reader strat r m =
     (if hostRoutinesWriterConn m \<noteq> None then put_routine r m
      else if hr_updateTopology r \<or> hostRoutinesReaderConn m \<noteq> None
      then (let (m1, r1) = readerRoutineFetchTopology strat r m in put_routine r1 m1)
      else (let (m1, r1) = readerRoutineFetchTopology strat (r\<lparr>hr_updateTopology := True\<rparr>) (m\<lparr>hostRoutinesReaderConn := hr_conn r\<rparr>)
            in put_routine r1 m1))"

text \<open>A turn of \<open>run\<close> with the routine that has this connection.\<close>

definition routine_probe ::
  "('sv, 'c) PluginServiceApi \<Rightarrow> ('sv, 'c) topology_strategy \<Rightarrow> 'c HostMonitoringRoutine \<Rightarrow> ('sv, 'c, 'z) tmon \<Rightarrow> ('sv, 'c, 'z) tmon" where
  "routine_probe api strat r m =
     (case hr_conn r of
        None \<Rightarrow> cycle_done r (put_routine r m)
      | Some c \<Rightarrow>
          (let (m1, r1, isWriter) = writer_check api strat c r m
           in if isWriter then found_writer api strat c r1 m1 else cycle_done r1 (found_reader strat r1 m1)))"

definition routine_turn ::
  "('sv, 'c) PluginServiceApi \<Rightarrow> ('sv, 'c) topology_strategy \<Rightarrow> topology_settings \<Rightarrow> 'c HostMonitoringRoutine \<Rightarrow> ('sv, 'c, 'z) tmon \<Rightarrow> ('sv, 'c, 'z) tmon" where
  "routine_turn api strat cfg r m =
     (if hostRoutinesStop m then end_routine api r m
      else if hr_conn r \<noteq> None then routine_probe api strat r m
      else (case routine_connect api cfg r m of
              (m1, None) \<Rightarrow> m1
            | (m1, Some r1) \<Rightarrow> routine_probe api strat r1 m1))"

section \<open>The main goroutine\<close>

definition isInPanicMode :: "('sv, 'c, 'z) tmon \<Rightarrow> bool" where
  "isInPanicMode m \<longleftrightarrow> ct_monitoringConn m = None \<or> \<not> isVerifiedWriterConn m"

text \<open>Stopping the goroutines of the hosts and waiting for them: each ends at its next test of the flag.\<close>

definition wait_routines :: "('sv, 'c) PluginServiceApi \<Rightarrow> ('sv, 'c, 'z) tmon \<Rightarrow> ('sv, 'c, 'z) tmon" where
  "wait_routines api m = fold (\<lambda>(_, r) m. if hr_running r then end_routine api r m else m) (hostRoutines m) m"

definition forget_routines :: "('sv, 'c, 'z) tmon \<Rightarrow> ('sv, 'c, 'z) tmon" where
  "forget_routines m = m\<lparr>hostRoutines := [], readerTopologiesById := [], completedOneCycle := [], stableTopologiesStart := 0\<rparr>"

definition stop_routines :: "('sv, 'c) PluginServiceApi \<Rightarrow> ('sv, 'c, 'z) tmon \<Rightarrow> ('sv, 'c, 'z) tmon" where
  "stop_routines api m = forget_routines (wait_routines api (m\<lparr>hostRoutinesStop := True\<rparr>))"

text \<open>Whether all readers that report agree now; \<open>sortSlice\<close> is the sort of the keys, \<open>visit\<close> the order in which Go
  visits the map.\<close>

definition readers_agree :: "(HostInfo list \<Rightarrow> HostInfo list) \<Rightarrow> ('sv, 'c, 'z) tmon \<Rightarrow> bool" where
  "readers_agree sortSlice m \<longleftrightarrow>
     monitor_storedHosts m \<noteq> [] \<and> list_all (\<lambda>h. map_of (completedOneCycle m) (HostId h) = Some True) (monitor_storedHosts m) \<and>
     readerTopologiesById m \<noteq> [] \<and>
     (let keys = map (\<lambda>(_, topology). Topology_Key sortSlice (NewTopology (map Some topology))) (readerTopologiesById m)
      in list_all (\<lambda>k. k = hd keys) keys)"

definition checkForStableReaderTopologies ::
  "(HostInfo list \<Rightarrow> HostInfo list) \<Rightarrow> ((string, HostInfo list) gomap \<Rightarrow> (string, HostInfo list) gomap) \<Rightarrow> (nat \<Rightarrow> time)
     \<Rightarrow> ('sv, 'c, 'z) tmon \<Rightarrow> ('sv, 'c, 'z) tmon" where
  "checkForStableReaderTopologies sortSlice visit clock m =
     (if \<not> readers_agree sortSlice m then m\<lparr>stableTopologiesStart := 0\<rparr>
      else (let t = clock (clock_reads m); m1 = tick m;
                m2 = (if stableTopologiesStart m1 = 0 then m1\<lparr>stableTopologiesStart := t\<rparr> else m1)
            in if t > stableTopologiesStart m2 + stableTopologiesDurationNano
               then (let m3 = m2\<lparr>stableTopologiesStart := 0\<rparr>
                     in updateTopologyCache (updateHostsAvailability (snd (hd (visit (readerTopologiesById m3)))) m3) m3)
               else m2))"

text \<open>Panic mode without goroutines: they are started on the hosts that are known or found over any connection.\<close>

definition start_routines ::
  "('sv, 'c) PluginServiceApi \<Rightarrow> ('sv, 'c) topology_strategy \<Rightarrow> topology_settings \<Rightarrow> ('sv, 'c, 'z) tmon \<Rightarrow> ('sv, 'c, 'z) tmon" where
  "start_routines api strat cfg m =
     (let m1 = m\<lparr>hostRoutinesStop := False, hostRoutinesWriterConn := None, hostRoutinesReaderConn := None, hostRoutinesLatestTopology := [],
                 hostRoutinesWriterHostInfo := None\<rparr>;
          (m2, hosts) = (if monitor_storedHosts m1 = [] then openAnyConnectionAndUpdateTopology api strat cfg m1
                         else (m1, monitor_storedHosts m1))
      in if isVerifiedWriterConn m2 then m2 else fold start_routine hosts m2)"

text \<open>The writer was found: the steps in which its connection becomes the monitoring connection.\<close>

definition pickup_steps :: "('sv, 'c) PluginServiceApi \<Rightarrow> (nat \<Rightarrow> time) \<Rightarrow> 'c \<Rightarrow> HostInfo \<Rightarrow> (('sv, 'c, 'z) tmon \<Rightarrow> ('sv, 'c, 'z) tmon) list" where
  "pickup_steps api clock c h =
     [\<lambda>m. closeConnection api (ct_monitoringConn m) m,
      \<lambda>m. m\<lparr>ct_monitoringConn := Some c\<rparr>,
      \<lambda>m. m\<lparr>ct_writerHostInfo := Some h\<rparr>,
      \<lambda>m. m\<lparr>isVerifiedWriterConn := True\<rparr>,
      \<lambda>m. tick (m\<lparr>highRefreshRateEndTimeInNanos := (clock (clock_reads m) + highRefreshPeriodAfterPanicNano) div 1000000000\<rparr>),
      stop_routines api]"

definition add_routines :: "('sv, 'c, 'z) tmon \<Rightarrow> ('sv, 'c, 'z) tmon" where
  "add_routines m =
     (if hostRoutinesStop m then m
      else fold (\<lambda>h m. if map_of (hostRoutines m) (Host h) = None then start_routine h m else m) (hostRoutinesLatestTopology m) m)"

text \<open>A turn of \<open>Monitor\<close>; it ends in a delay at the high rate, in one at the usual rate, or at once.\<close>

datatype after_turn = Delay_high | Delay_usual | Continue

definition panic_turn ::
  "(HostInfo list \<Rightarrow> HostInfo list) \<Rightarrow> ((string, HostInfo list) gomap \<Rightarrow> (string, HostInfo list) gomap) \<Rightarrow> (nat \<Rightarrow> time)
     \<Rightarrow> ('sv, 'c) PluginServiceApi \<Rightarrow> ('sv, 'c) topology_strategy \<Rightarrow> topology_settings \<Rightarrow> ('sv, 'c, 'z) tmon \<Rightarrow> ('sv, 'c, 'z) tmon \<times> after_turn" where
  "panic_turn sortSlice visit clock api strat cfg m =
     (let check = checkForStableReaderTopologies sortSlice visit clock
      in if hostRoutines m = [] then (check (start_routines api strat cfg m), Delay_high)
         else (case hostRoutinesWriterConn m of
                 None \<Rightarrow> (check (add_routines m), Delay_high)
               | Some c \<Rightarrow>
                   if IsNil (hostRoutinesWriterHostInfo m) then (check (add_routines m), Delay_high)
                   else (fold (\<lambda>step. step) (pickup_steps api clock c (the (hostRoutinesWriterHostInfo m))) m, Continue)))"

definition regular_turn ::
  "(nat \<Rightarrow> time) \<Rightarrow> ('sv, 'c) PluginServiceApi \<Rightarrow> ('sv, 'c) topology_strategy \<Rightarrow> ('sv, 'c, 'z) tmon \<Rightarrow> ('sv, 'c, 'z) tmon \<times> after_turn" where
  "regular_turn clock api strat m =
     (let m1 = (if hostRoutines m \<noteq> [] then stop_routines api m else m);
          (m2, hosts) = fetchTopologyAndUpdateCache strat (ct_monitoringConn m1) m1
      in if hosts = [] then (drop_monitoring api m2, Continue)
         else if highRefreshRateEndTimeInNanos m2 > 0
         then (if clock (clock_reads m2) div 1000000000 > highRefreshRateEndTimeInNanos m2
               then (tick m2)\<lparr>highRefreshRateEndTimeInNanos := 0\<rparr> else tick m2, Delay_usual)
         else (m2, Delay_usual))"

definition topology_turn ::
  "(HostInfo list \<Rightarrow> HostInfo list) \<Rightarrow> ((string, HostInfo list) gomap \<Rightarrow> (string, HostInfo list) gomap) \<Rightarrow> (nat \<Rightarrow> time)
     \<Rightarrow> ('sv, 'c) PluginServiceApi \<Rightarrow> ('sv, 'c) topology_strategy \<Rightarrow> topology_settings \<Rightarrow> ('sv, 'c, 'z) tmon \<Rightarrow> ('sv, 'c, 'z) tmon \<times> after_turn" where
  "topology_turn sortSlice visit clock api strat cfg m =
     (let m1 = (tick m)\<lparr>ct_lastActivity := clock (clock_reads m)\<rparr>
      in if isInPanicMode m1 then panic_turn sortSlice visit clock api strat cfg m1 else regular_turn clock api strat m1)"

text \<open>How long \<open>delay\<close> lasts at most. It looks at the flags every 50 milliseconds, after the first sleep.\<close>

definition delay_duration :: "topology_settings \<Rightarrow> (nat \<Rightarrow> time) \<Rightarrow> bool \<Rightarrow> ('sv, 'c, 'z) tmon \<Rightarrow> duration" where
  "delay_duration cfg clock useHighRefreshRate m =
     (if useHighRefreshRate \<or> (highRefreshRateEndTimeInNanos m > 0 \<and> clock (clock_reads m) div 1000000000 < highRefreshRateEndTimeInNanos m) \<or>
         requestToUpdateTopology m
      then highRefreshRateNano cfg else refreshRateNano cfg)"

definition Topology_Close :: "('sv, 'c) PluginServiceApi \<Rightarrow> ('sv, 'c, 'z) tmon \<Rightarrow> ('sv, 'c, 'z) tmon" where
  "Topology_Close api m =
     (let m1 = (wait_routines api m)\<lparr>hostRoutines := []\<rparr> in closeConnection api (ct_monitoringConn m1) m1)"

definition Topology_Stop :: "('sv, 'c) PluginServiceApi \<Rightarrow> ('sv, 'c, 'z) tmon \<Rightarrow> ('sv, 'c, 'z) tmon" where
  "Topology_Stop api m =
     (Topology_Close api (m\<lparr>ct_stop := True, hostRoutinesStop := True\<rparr>))\<lparr>ct_state := MonitorStateStopped\<rparr>"

section \<open>Requests from other goroutines\<close>

definition topology_reset :: "('sv, 'c) PluginServiceApi \<Rightarrow> ('sv, 'c, 'z) tmon \<Rightarrow> ('sv, 'c, 'z) tmon" where
  "topology_reset api m =
     (let m1 = (wait_routines api (m\<lparr>hostRoutinesStop := True\<rparr>))\<lparr>hostRoutines := []\<rparr>;
          m2 = closeConnection api (hostRoutinesReaderConn m1) (closeConnection api (hostRoutinesWriterConn m1) m1);
          m3 = forget_routines (m2\<lparr>hostRoutinesStop := False, hostRoutinesWriterConn := None, hostRoutinesReaderConn := None,
                 hostRoutinesLatestTopology := [], hostRoutinesWriterHostInfo := None\<rparr>)
      in (closeConnection api (ct_monitoringConn m3) m3)
           \<lparr>isVerifiedWriterConn := False, highRefreshRateEndTimeInNanos := 0, requestToUpdateTopology := True, ct_monitoringConn := None,
            ct_writerHostInfo := None, stored_topology := None\<rparr>)"

definition Topology_ProcessEvent :: "('sv, 'c) PluginServiceApi \<Rightarrow> topology_settings \<Rightarrow> 'k Event \<Rightarrow> ('sv, 'c, 'z) tmon \<Rightarrow> ('sv, 'c, 'z) tmon" where
  "Topology_ProcessEvent api cfg event m =
     (case event of MonitorResetEvent clusterId _ \<Rightarrow> if clusterId = ct_clusterId cfg then topology_reset api m else m | _ \<Rightarrow> m)"

text \<open>What \<open>ForceRefresh\<close> does before it waits.\<close>

definition verify_request :: "('sv, 'c) PluginServiceApi \<Rightarrow> ('sv, 'c, 'z) tmon \<Rightarrow> ('sv, 'c, 'z) tmon" where
  "verify_request api m =
     closeConnection api (ct_monitoringConn m) (m\<lparr>isVerifiedWriterConn := False, ct_monitoringConn := None\<rparr>)"

definition NewTimeoutError :: "string \<Rightarrow> go_error" where
  "NewTimeoutError message = AwsWrapperError message TimeoutErrorType"

text \<open>Waiting for a new topology. The other goroutines go on between two looks: \<open>env n\<close> is what they do to the state in
  the \<open>n\<close>-th wait, at most a second long. The answer is the topology, or \<open>None\<close> when the time is up.\<close>

definition wait_turn ::
  "(nat \<Rightarrow> ('sv, 'c, 'z) tmon \<Rightarrow> ('sv, 'c, 'z) tmon) \<Rightarrow> (nat \<Rightarrow> time) \<Rightarrow> bool \<Rightarrow> (nat \<times> HostInfo list) option \<Rightarrow> time \<Rightarrow> nat \<Rightarrow> ('sv, 'c, 'z) tmon
     \<Rightarrow> (('sv, 'c, 'z) tmon \<times> (nat + (nat \<times> HostInfo list) option)) option" where
  "wait_turn env clock verifyWriter current until n m =
     (if map_option fst (stored_topology m) \<noteq> map_option fst current \<and> (\<not> verifyWriter \<or> isVerifiedWriterConn m)
      then Some (m, Inr (stored_topology m))
      else if clock (clock_reads m) > until then Some (tick m, Inr (stored_topology m))
      else Some ((env n (tick m))\<lparr>clock_reads := clock_reads (tick m)\<rparr>, Inl (Suc n)))"

definition waitForTopologyUpdate ::
  "(nat \<Rightarrow> ('sv, 'c, 'z) tmon \<Rightarrow> ('sv, 'c, 'z) tmon) \<Rightarrow> (nat \<Rightarrow> time) \<Rightarrow> bool \<Rightarrow> int \<Rightarrow> ('sv, 'c, 'z) tmon
     \<Rightarrow> (('sv, 'c, 'z) tmon \<times> (go_error + HostInfo list)) option" where
  "waitForTopologyUpdate env clock verifyWriter timeoutMs m =
     (let current = stored_topology m; m1 = m\<lparr>requestToUpdateTopology := True\<rparr>
      in if timeoutMs = 0 then Some (m1, Inr (monitor_storedHosts m1))
         else (let until = clock (clock_reads m1) + timeoutMs * 1000000
               in map_option (\<lambda>(m2, latest).
                      (tick m2, if clock (clock_reads m2) > until then Inl (NewTimeoutError ''ClusterTopologyMonitorImpl.topologyNotUpdated'')
                                else Inr (case latest of None \<Rightarrow> [] | Some t \<Rightarrow> snd t)))
                    (loopP (wait_turn env clock verifyWriter current until) 0 (tick m1))))"

definition ForceRefresh ::
  "(nat \<Rightarrow> ('sv, 'c, 'z) tmon \<Rightarrow> ('sv, 'c, 'z) tmon) \<Rightarrow> (nat \<Rightarrow> time) \<Rightarrow> ('sv, 'c) PluginServiceApi \<Rightarrow> bool \<Rightarrow> int \<Rightarrow> ('sv, 'c, 'z) tmon
     \<Rightarrow> (('sv, 'c, 'z) tmon \<times> (go_error + HostInfo list)) option" where
  "ForceRefresh env clock api verifyTopology timeoutMs m =
     waitForTopologyUpdate env clock verifyTopology timeoutMs (if verifyTopology then verify_request api m else m)"

section \<open>Backing off\<close>

text \<open>\<open>r\<close> is the random number between 0 and 1; \<open>math.Round\<close> of a number that is not negative.\<close>

definition round_half_up :: "rat \<Rightarrow> int" where
  "round_half_up x = \<lfloor>x + 1 / 2\<rfloor>"

definition calculateBackoffWithJitter :: "nat \<Rightarrow> rat \<Rightarrow> duration" where
  "calculateBackoffWithJitter attempts r =
     (let backoff = min (initialBackoffMs * 2 ^ min attempts 6) maxBackoffMs
      in round_half_up (of_int backoff * (1 / 2 + r / 2)) * 1000000)"

section \<open>The machine\<close>

text \<open>The machine of whole turns; the code holds no lock during one, so what is said of it is said of runs in which no turn is
  interrupted. What may happen next: a turn of the main goroutine or of the goroutine of a host, a request from outside, the
  expiry of the stored topology, or anything the rest of the program does to the service.\<close>

datatype topology_event = MonitorTurn | RoutineTurn | VerifyRequest | UpdateRequest | ResetRequest | TopologyExpires | ServiceChanges

inductive topology_step ::
  "(HostInfo list \<Rightarrow> HostInfo list) \<Rightarrow> ((string, HostInfo list) gomap \<Rightarrow> (string, HostInfo list) gomap) \<Rightarrow> (nat \<Rightarrow> time)
     \<Rightarrow> ('sv, 'c) PluginServiceApi \<Rightarrow> ('sv, 'c) topology_strategy \<Rightarrow> topology_settings
     \<Rightarrow> topology_event \<Rightarrow> ('sv, 'c, 'z) tmon \<Rightarrow> ('sv, 'c, 'z) tmon \<Rightarrow> bool"
  for sortSlice visit clock api strat cfg where
  step_monitor: "\<not> ct_stop m \<Longrightarrow> topology_step sortSlice visit clock api strat cfg MonitorTurn m (fst (topology_turn sortSlice visit clock api strat cfg m))"
| step_routine: "map_of (hostRoutines m) host = Some r \<Longrightarrow> hr_running r \<Longrightarrow>
    topology_step sortSlice visit clock api strat cfg RoutineTurn m (routine_turn api strat cfg r m)"
| step_verify: "topology_step sortSlice visit clock api strat cfg VerifyRequest m (verify_request api m)"
| step_update: "topology_step sortSlice visit clock api strat cfg UpdateRequest m (m\<lparr>requestToUpdateTopology := True\<rparr>)"
| step_reset: "topology_step sortSlice visit clock api strat cfg ResetRequest m (topology_reset api m)"
| step_expire: "topology_step sortSlice visit clock api strat cfg TopologyExpires m (m\<lparr>stored_topology := None\<rparr>)"
| step_service: "topology_step sortSlice visit clock api strat cfg ServiceChanges m (m\<lparr>svc := v\<rparr>)"

inductive_cases topology_stepE: "topology_step sortSlice visit clock api strat cfg e m m'"

section \<open>What the helpers leave alone\<close>

text \<open>The flag and the two connections.\<close>

definition writer_view :: "('sv, 'c, 'z) tmon \<Rightarrow> bool \<times> 'c option \<times> 'c option" where
  "writer_view m = (isVerifiedWriterConn m, ct_monitoringConn m, hostRoutinesWriterConn m)"

lemma view_closeConnection [simp]: "writer_view (closeConnection api conn m) = writer_view m"
  by (simp add: writer_view_def closeConnection_def split: option.splits)

lemma view_updateTopologyCache [simp]: "writer_view (updateTopologyCache hosts m) = writer_view m"
  by (simp add: writer_view_def updateTopologyCache_def)

lemma view_fetch [simp]: "writer_view (fst (fetchTopologyAndUpdateCache strat conn m)) = writer_view m"
  by (simp add: fetchTopologyAndUpdateCache_def updateTopologyCache_def writer_view_def split: option.splits prod.splits sum.splits)

lemma view_put [simp]: "writer_view (put_routine r m) = writer_view m" "writer_view (no_topology r m) = writer_view m"
  "writer_view (cycle_done r m) = writer_view m" "writer_view (start_routine h m) = writer_view m" "writer_view (tick m) = writer_view m"
  "writer_view (forget_routines m) = writer_view m"
  by (simp_all add: writer_view_def put_routine_def no_topology_def cycle_done_def start_routine_def tick_def forget_routines_def)

lemma view_end [simp]: "writer_view (end_routine api r m) = writer_view m"
  by (simp add: end_routine_def)

lemma view_fold: "(\<And>x m. x \<in> set xs \<Longrightarrow> writer_view (f x m) = writer_view m) \<Longrightarrow> writer_view (fold f xs m) = writer_view m"
  by (induction xs arbitrary: m) simp_all

lemma view_wait [simp]: "writer_view (wait_routines api m) = writer_view m"
  unfolding wait_routines_def by (rule view_fold) (simp split: prod.splits)

lemma view_fields:
  "writer_view (m\<lparr>svc := v\<rparr>) = writer_view m" "writer_view (m\<lparr>clock_reads := n\<rparr>) = writer_view m" "writer_view (m\<lparr>dns_caches := d\<rparr>) = writer_view m"
  "writer_view (m\<lparr>hostRoutinesStop := b\<rparr>) = writer_view m" "writer_view (m\<lparr>hostRoutines := rs\<rparr>) = writer_view m"
  "writer_view (m\<lparr>ct_writerHostInfo := h\<rparr>) = writer_view m" "writer_view (m\<lparr>stableTopologiesStart := t\<rparr>) = writer_view m"
  "writer_view (m\<lparr>ct_lastActivity := t\<rparr>) = writer_view m" "writer_view (m\<lparr>highRefreshRateEndTimeInNanos := i\<rparr>) = writer_view m"
  "writer_view (m\<lparr>requestToUpdateTopology := b\<rparr>) = writer_view m" "writer_view (m\<lparr>stored_topology := st\<rparr>) = writer_view m"
  "writer_view (m\<lparr>hostRoutinesReaderConn := rc\<rparr>) = writer_view m" "writer_view (m\<lparr>hostRoutinesWriterHostInfo := h\<rparr>) = writer_view m"
  "writer_view (m\<lparr>hostRoutinesLatestTopology := hs\<rparr>) = writer_view m" "writer_view (m\<lparr>readerTopologiesById := tops\<rparr>) = writer_view m"
  by (simp_all add: writer_view_def)

lemma view_stop_routines [simp]: "writer_view (stop_routines api m) = writer_view m"
  by (simp add: stop_routines_def view_fields)

lemma view_check [simp]: "writer_view (checkForStableReaderTopologies sortSlice visit clock m) = writer_view m"
  by (simp add: checkForStableReaderTopologies_def Let_def view_fields)

lemma view_add_routines [simp]: "writer_view (add_routines m) = writer_view m"
  by (simp add: add_routines_def view_fold)

lemma view_template [simp]: "writer_view (fst (strategy_template strat cfg i c m)) = writer_view m"
  by (simp add: strategy_template_def view_fields split: prod.splits sum.splits option.splits)

lemma view_dns [simp]: "writer_view (fst (dnsS q m)) = writer_view m"
  by (simp add: dnsS_def view_fields split: prod.splits)

lemma view_identify [simp]: "writer_view (identify_writer strat cfg c m) = writer_view m"
proof -
  let ?d = "dnsS (IsRdsInstance (Host (ct_initialHostInfo cfg))) m"
  have d: "?d = (fst ?d, snd ?d)" by simp
  show ?thesis
    unfolding identify_writer_def by (subst d) (simp add: case_prod_beta Let_def view_fields split: sum.split bool.split)
qed

lemma kept_closeConnection [simp]: "hostRoutinesWriterConn (closeConnection api conn m) = hostRoutinesWriterConn m"
  by (simp add: closeConnection_def split: option.splits)

lemma view_fold_start [simp]: "writer_view (fold start_routine hosts m) = writer_view m"
  by (rule view_fold) simp

lemma view_fetch_reader [simp]: "writer_view (fst (readerRoutineFetchTopology strat r m)) = writer_view m"
  by (auto simp: readerRoutineFetchTopology_def Let_def view_fields split: option.splits prod.splits sum.splits)

lemma view_reader [simp]: "writer_view (found_reader strat r m) = writer_view m"
  by (simp add: found_reader_def case_prod_beta Let_def view_fields)

lemma view_connect: "routine_connect api cfg r m = (m1, res) \<Longrightarrow> writer_view m1 = writer_view m"
  by (auto simp: routine_connect_def Let_def view_fields split: prod.splits sum.splits if_splits)

section \<open>A verification requested while the writer is picked up\<close>

lemma stored_of_wait [simp]: "stored_topology (wait_routines api m) = stored_topology m"
proof -
  have "stored_topology (fold (\<lambda>(_, r) m. if hr_running r then end_routine api r m else m) rs m) = stored_topology m" for rs
    by (induction rs arbitrary: m)
      (simp_all add: end_routine_def put_routine_def no_topology_def cycle_done_def closeConnection_def split: option.splits prod.splits)
  then show ?thesis by (simp add: wait_routines_def)
qed

lemma stored_of_close [simp]: "stored_topology (closeConnection api conn m) = stored_topology m"
  by (simp add: closeConnection_def split: option.splits)

text \<open>Without a connection, with the flag still set and with hosts stored, a turn does nothing.\<close>

definition idle_in_panic :: "('sv, 'c, 'z) tmon \<Rightarrow> bool" where
  "idle_in_panic m \<longleftrightarrow> ct_monitoringConn m = None \<and> isVerifiedWriterConn m \<and> hostRoutines m = [] \<and> completedOneCycle m = [] \<and> monitor_storedHosts m \<noteq> []"

lemma idle_turn:
  assumes "idle_in_panic m"
  shows "idle_in_panic (fst (topology_turn sortSlice visit clock api strat cfg m)) \<and>
    svc (fst (topology_turn sortSlice visit clock api strat cfg m)) = svc m \<and>
    stored_topology (fst (topology_turn sortSlice visit clock api strat cfg m)) = stored_topology m"
proof -
  let ?m = "(tick m)\<lparr>ct_lastActivity := clock (clock_reads m)\<rparr>"
  let ?s = "?m\<lparr>hostRoutinesStop := False, hostRoutinesWriterConn := None, hostRoutinesReaderConn := None, hostRoutinesLatestTopology := [],
              hostRoutinesWriterHostInfo := None\<rparr>"
  have m: "hostRoutines ?m = []" "isInPanicMode ?m" using assms by (simp_all add: tick_def idle_in_panic_def isInPanicMode_def)
  have stored: "monitor_storedHosts ?s \<noteq> []" "isVerifiedWriterConn ?s"
    using assms by (simp_all add: tick_def idle_in_panic_def monitor_storedHosts_def)
  then have s: "start_routines api strat cfg ?m = ?s" by (simp add: start_routines_def Let_def)
  have "\<not> list_all (\<lambda>h. map_of (completedOneCycle ?s) (HostId h) = Some True) (monitor_storedHosts ?s)"
    using assms stored(1) by (cases "monitor_storedHosts ?s") (simp_all add: tick_def idle_in_panic_def)
  then have "checkForStableReaderTopologies sortSlice visit clock ?s = ?s\<lparr>stableTopologiesStart := 0\<rparr>"
    unfolding checkForStableReaderTopologies_def readers_agree_def by simp
  then have "fst (topology_turn sortSlice visit clock api strat cfg m) = ?s\<lparr>stableTopologiesStart := 0\<rparr>"
    using m s by (simp add: topology_turn_def panic_turn_def Let_def)
  then show ?thesis using assms by (simp add: idle_in_panic_def tick_def monitor_storedHosts_def)
qed

lemma idle_turns:
  "idle_in_panic m \<Longrightarrow>
     idle_in_panic (((\<lambda>m. fst (topology_turn sortSlice visit clock api strat cfg m)) ^^ n) m) \<and>
     svc (((\<lambda>m. fst (topology_turn sortSlice visit clock api strat cfg m)) ^^ n) m) = svc m"
proof (induction n)
  case (Suc n)
  then show ?case using idle_turn by (metis (no_types, lifting) comp_apply funpow.simps(2))
qed simp

text \<open>The steps of \<open>pickup_steps\<close> with a request for verification after the second.\<close>

definition interrupted_pickup :: "('sv, 'c) PluginServiceApi \<Rightarrow> (nat \<Rightarrow> time) \<Rightarrow> 'c \<Rightarrow> HostInfo \<Rightarrow> ('sv, 'c, 'z) tmon \<Rightarrow> ('sv, 'c, 'z) tmon" where
  "interrupted_pickup api clock c h m =
     fold (\<lambda>step. step) (drop 2 (pickup_steps api clock c h)) (verify_request api (fold (\<lambda>step. step) (take 2 (pickup_steps api clock c h)) m))"

lemma interrupted_idle:
  assumes "monitor_storedHosts m \<noteq> []"
  shows "idle_in_panic (interrupted_pickup api clock c h m)"
proof -
  define v where "v = verify_request api ((closeConnection api (ct_monitoringConn m) m)\<lparr>ct_monitoringConn := Some c\<rparr>)"
  define n where "n = tick (v\<lparr>ct_writerHostInfo := Some h, isVerifiedWriterConn := True,
    highRefreshRateEndTimeInNanos := (clock (clock_reads v) + highRefreshPeriodAfterPanicNano) div 1000000000\<rparr>)"
  have eq: "interrupted_pickup api clock c h m = stop_routines api n"
    by (simp add: interrupted_pickup_def pickup_steps_def numeral_2_eq_2 n_def v_def)
  have "ct_monitoringConn v = None"
    unfolding v_def verify_request_def by (simp add: closeConnection_def split: option.splits)
  then have "writer_view n = (True, None, hostRoutinesWriterConn n)" by (simp add: writer_view_def n_def tick_def)
  then have w: "writer_view (stop_routines api n) = (True, None, hostRoutinesWriterConn n)" by simp
  have "stored_topology (stop_routines api n) = stored_topology m"
    by (simp add: stop_routines_def forget_routines_def n_def v_def tick_def verify_request_def)
  then show ?thesis
    using w assms unfolding eq by (simp add: idle_in_panic_def writer_view_def monitor_storedHosts_def) (simp add: stop_routines_def forget_routines_def)
qed

text \<open>C33: When a verification is requested just after the connection of the writer that was found has been installed and before
  it is marked as verified, the mark comes to stand without a connection. The monitor is then in panic mode and does
  nothing: as long as a topology is stored it opens no connection, starts no goroutine and asks nothing, however many
  turns it makes.\<close>
theorem verification_during_pickup:
  assumes "monitor_storedHosts m \<noteq> []"
  shows "isInPanicMode (((\<lambda>m. fst (topology_turn sortSlice visit clock api strat cfg m)) ^^ n) (interrupted_pickup api clock c h m)) \<and>
    hostRoutines (((\<lambda>m. fst (topology_turn sortSlice visit clock api strat cfg m)) ^^ n) (interrupted_pickup api clock c h m)) = [] \<and>
    svc (((\<lambda>m. fst (topology_turn sortSlice visit clock api strat cfg m)) ^^ n) (interrupted_pickup api clock c h m)) =
      svc (interrupted_pickup api clock c h m)"
  using idle_turns [OF interrupted_idle [OF assms]] by (simp add: idle_in_panic_def isInPanicMode_def)

section \<open>When every host refuses the login\<close>

text \<open>The goroutines of all hosts have ended without finding the writer, and none has left a topology.\<close>

definition given_up :: "('sv, 'c, 'z) tmon \<Rightarrow> bool" where
  "given_up m \<longleftrightarrow>
     hostRoutines m \<noteq> [] \<and> list_all (\<lambda>(_, r). \<not> hr_running r) (hostRoutines m) \<and> \<not> isVerifiedWriterConn m \<and> hostRoutinesWriterConn m = None \<and>
     readerTopologiesById m = [] \<and> list_all (\<lambda>h. map_of (hostRoutines m) (Host h) \<noteq> None) (hostRoutinesLatestTopology m)"

lemma given_up_close [simp]:
  "given_up (closeConnection api conn m) = given_up m" "topologies_stored (closeConnection api conn m) = topologies_stored m"
  by (simp_all add: closeConnection_def given_up_def split: option.splits)

lemma add_routines_none: "list_all (\<lambda>h. map_of (hostRoutines m) (Host h) \<noteq> None) (hostRoutinesLatestTopology m) \<Longrightarrow> add_routines m = m"
proof -
  have "fold (\<lambda>h m. if map_of (hostRoutines m) (Host h) = None then start_routine h m else m) hs m = m"
    if "list_all (\<lambda>h. map_of (hostRoutines m) (Host h) \<noteq> None) hs" for hs
    using that by (induction hs) auto
  then show "list_all (\<lambda>h. map_of (hostRoutines m) (Host h) \<noteq> None) (hostRoutinesLatestTopology m) \<Longrightarrow> add_routines m = m"
    by (simp add: add_routines_def)
qed

lemma given_up_turn:
  assumes "given_up m"
  shows "given_up (fst (topology_turn sortSlice visit clock api strat cfg m)) \<and>
    topologies_stored (fst (topology_turn sortSlice visit clock api strat cfg m)) = topologies_stored m"
proof -
  let ?m = "(tick m)\<lparr>ct_lastActivity := clock (clock_reads m)\<rparr>"
  have g: "given_up ?m" using assms by (simp add: given_up_def tick_def)
  then have "add_routines ?m = ?m" by (intro add_routines_none) (simp add: given_up_def)
  moreover have "checkForStableReaderTopologies sortSlice visit clock ?m = ?m\<lparr>stableTopologiesStart := 0\<rparr>"
    using g by (simp add: checkForStableReaderTopologies_def readers_agree_def given_up_def)
  moreover have "isInPanicMode ?m" "hostRoutines ?m \<noteq> []" "hostRoutinesWriterConn ?m = None" using g by (simp_all add: given_up_def isInPanicMode_def)
  ultimately have "fst (topology_turn sortSlice visit clock api strat cfg m) = ?m\<lparr>stableTopologiesStart := 0\<rparr>"
    by (simp add: topology_turn_def panic_turn_def Let_def)
  then show ?thesis using g by (simp add: given_up_def tick_def)
qed

lemma given_up_step:
  "topology_step sortSlice visit clock api strat cfg e m m' \<Longrightarrow> e \<noteq> ResetRequest \<Longrightarrow> given_up m \<Longrightarrow>
     given_up m' \<and> topologies_stored m' = topologies_stored m"
proof (induction rule: topology_step.induct)
  case (step_monitor m)
  then show ?case by (simp add: given_up_turn)
next
  case (step_routine m host r)
  from map_of_SomeD [OF step_routine.hyps(1)] step_routine.prems(2) have "\<not> hr_running r" by (auto simp: given_up_def list_all_iff)
  with step_routine.hyps(2) show ?case by simp
qed (simp_all add: given_up_def verify_request_def, simp_all add: closeConnection_def split: option.splits)

interpretation without_login: left_alone "topology_step sortSlice visit clock api strat cfg" "\<lambda>e. e \<noteq> ResetRequest" given_up topologies_stored
  for sortSlice visit clock api strat cfg
  by unfold_locales (use given_up_step in blast)+

text \<open>C34: Once the goroutine of every host has ended because the login failed, the monitor never starts another one: whatever is
  asked of it, it stays in panic mode, stores no topology any more and so answers no forced refresh, until a reset.\<close>
theorem login_failures_are_final:
  assumes "given_up m" "runs (topology_step sortSlice visit clock api strat cfg) es m m'" "ResetRequest \<notin> set es"
  shows "isInPanicMode m' \<and> list_all (\<lambda>(_, r). \<not> hr_running r) (hostRoutines m') \<and> topologies_stored m' = topologies_stored m"
proof -
  from assms(3) have es: "\<forall>e \<in> set es. e \<noteq> ResetRequest" by blast
  from without_login.runs_keep [OF assms(2) es assms(1)] have "given_up m'" .
  moreover from without_login.runs_leave [OF assms(2) es assms(1)] have "topologies_stored m' = topologies_stored m" .
  ultimately show ?thesis by (simp add: given_up_def isInPanicMode_def)
qed

section \<open>Topologies on which the readers agree\<close>

text \<open>The states in which the checks were made, the last one first; in between anything may happen but to the start time.\<close>

fun checked :: "(('sv, 'c, 'z) tmon \<Rightarrow> ('sv, 'c, 'z) tmon) \<Rightarrow> ('sv, 'c, 'z) tmon list \<Rightarrow> bool" where
  "checked check [] \<longleftrightarrow> True"
| "checked check [m] \<longleftrightarrow> stableTopologiesStart m = 0"
| "checked check (m # m' # ms) \<longleftrightarrow> stableTopologiesStart m = stableTopologiesStart (check m') \<and> checked check (m' # ms)"

lemma stable_start:
  assumes "stableTopologiesStart (checkForStableReaderTopologies sortSlice visit clock m) \<noteq> 0"
  shows "readers_agree sortSlice m \<and> stableTopologiesStart (checkForStableReaderTopologies sortSlice visit clock m) =
    (if stableTopologiesStart m = 0 then clock (clock_reads m) else stableTopologiesStart m)"
  using assms by (auto simp: checkForStableReaderTopologies_def Let_def tick_def updateTopologyCache_def split: if_splits)

lemma stable_stored:
  assumes "topologies_stored (checkForStableReaderTopologies sortSlice visit clock m) \<noteq> topologies_stored m"
  shows "readers_agree sortSlice m \<and> stableTopologiesStart m \<noteq> 0 \<and> clock (clock_reads m) > stableTopologiesStart m + stableTopologiesDurationNano"
  using assms
  by (auto simp: checkForStableReaderTopologies_def Let_def tick_def updateTopologyCache_def stableTopologiesDurationNano_def split: if_splits)

lemma checked_streak:
  fixes ms :: "('sv, 'c, 'z) tmon list"
  assumes "checked (checkForStableReaderTopologies sortSlice visit clock) ms" "ms \<noteq> []" "stableTopologiesStart (hd ms) \<noteq> 0"
  shows "\<exists>k. 0 < k \<and> k < length ms \<and> stableTopologiesStart (hd ms) = clock (clock_reads (ms ! k)) \<and> (\<forall>j. 0 < j \<and> j \<le> k \<longrightarrow> readers_agree sortSlice (ms ! j))"
  using assms
proof (induction "checkForStableReaderTopologies sortSlice visit clock :: ('sv, 'c, 'z) tmon \<Rightarrow> ('sv, 'c, 'z) tmon" ms rule: checked.induct)
  case (3 m m' ms)
  let ?check = "checkForStableReaderTopologies sortSlice visit clock"
  have ne: "stableTopologiesStart (?check m') \<noteq> 0" using 3 by simp
  note start = stable_start [OF ne]
  show ?case
  proof (cases "stableTopologiesStart m' = 0")
    case True
    then show ?thesis using start 3 by (intro exI [of _ 1]) (auto simp: le_Suc_eq)
  next
    case False
    then obtain k where k: "0 < k" "k < length (m' # ms)" "stableTopologiesStart m' = clock (clock_reads ((m' # ms) ! k))"
      "\<forall>j. 0 < j \<and> j \<le> k \<longrightarrow> readers_agree sortSlice ((m' # ms) ! j)" using 3 by auto
    have "readers_agree sortSlice ((m # m' # ms) ! j)" if "0 < j" "j \<le> Suc k" for j
    proof (cases "j = 1")
      case False
      then show ?thesis using that k(4) [rule_format, of "j - 1"] by (cases j) auto
    qed (use start in simp)
    then show ?thesis using k start 3 False by (intro exI [of _ "Suc k"]) auto
  qed
qed simp_all

text \<open>During a writer outage a topology is taken from the readers only when at every check for more than fifteen seconds
  every known host had been tried and all readers that answered reported the same topology.\<close>
theorem stable_topology_agreed:
  assumes "checked (checkForStableReaderTopologies sortSlice visit clock) (m # ms)"
    "topologies_stored (checkForStableReaderTopologies sortSlice visit clock m) \<noteq> topologies_stored m"
  shows "\<exists>k < length (m # ms). (\<forall>j \<le> k. readers_agree sortSlice ((m # ms) ! j)) \<and>
    clock (clock_reads m) > clock (clock_reads ((m # ms) ! k)) + stableTopologiesDurationNano"
proof -
  note stored = stable_stored [OF assms(2)]
  from checked_streak [OF assms(1)] stored obtain k where k: "k < length (m # ms)" "stableTopologiesStart m = clock (clock_reads ((m # ms) ! k))"
    "\<forall>j. 0 < j \<and> j \<le> k \<longrightarrow> readers_agree sortSlice ((m # ms) ! j)" by auto
  then have "\<forall>j \<le> k. readers_agree sortSlice ((m # ms) ! j)" using stored by (metis gr0I nth_Cons_0)
  then show ?thesis using k stored by auto
qed

section \<open>What is stored only gets newer\<close>

definition store_view :: "('sv, 'c, 'z) tmon \<Rightarrow> (nat \<times> HostInfo list) option \<times> nat" where
  "store_view m = (stored_topology m, topologies_stored m)"

text \<open>\<open>m'\<close> may follow \<open>m\<close>: it stores the same topology, none, or one stored since.\<close>

definition later :: "('sv, 'c, 'z) tmon \<Rightarrow> ('sv, 'c, 'z) tmon \<Rightarrow> bool" where
  "later m m' \<longleftrightarrow>
     topologies_stored m \<le> topologies_stored m' \<and>
     (stored_topology m' = stored_topology m \<or> stored_topology m' = None \<or> (\<exists>k hosts. stored_topology m' = Some (k, hosts) \<and> topologies_stored m \<le> k))"

lemma later_same: "store_view m' = store_view m \<Longrightarrow> later m m'"
  by (simp add: later_def store_view_def)

lemma later_refl [simp]: "later m m"
  by (simp add: later_def)

lemma later_trans [trans]: "later m n \<Longrightarrow> later n k \<Longrightarrow> later m k"
  by (auto simp: later_def)

lemma later_view: "store_view m' = store_view n \<Longrightarrow> later m m' \<longleftrightarrow> later m n" "store_view m' = store_view n \<Longrightarrow> later m' m \<longleftrightarrow> later n m"
  by (simp_all add: later_def store_view_def)

lemma later_update [simp]: "later m (updateTopologyCache hosts m)"
  by (simp add: later_def updateTopologyCache_def)

lemma later_none: "later m (m\<lparr>stored_topology := None\<rparr>)"
  by (simp add: later_def)

lemma store_fields [simp]:
  "store_view (m\<lparr>svc := v\<rparr>) = store_view m" "store_view (m\<lparr>clock_reads := n\<rparr>) = store_view m" "store_view (m\<lparr>dns_caches := d\<rparr>) = store_view m"
  "store_view (m\<lparr>hostRoutinesStop := b\<rparr>) = store_view m" "store_view (m\<lparr>hostRoutines := rs\<rparr>) = store_view m"
  "store_view (m\<lparr>ct_writerHostInfo := h\<rparr>) = store_view m" "store_view (m\<lparr>stableTopologiesStart := t\<rparr>) = store_view m"
  "store_view (m\<lparr>ct_lastActivity := t\<rparr>) = store_view m" "store_view (m\<lparr>highRefreshRateEndTimeInNanos := i\<rparr>) = store_view m"
  "store_view (m\<lparr>requestToUpdateTopology := b\<rparr>) = store_view m" "store_view (m\<lparr>ct_monitoringConn := mc\<rparr>) = store_view m"
  "store_view (m\<lparr>hostRoutinesReaderConn := rc\<rparr>) = store_view m" "store_view (m\<lparr>hostRoutinesWriterHostInfo := h\<rparr>) = store_view m"
  "store_view (m\<lparr>hostRoutinesLatestTopology := hs\<rparr>) = store_view m" "store_view (m\<lparr>readerTopologiesById := tops\<rparr>) = store_view m"
  "store_view (m\<lparr>hostRoutinesWriterConn := wc\<rparr>) = store_view m" "store_view (m\<lparr>isVerifiedWriterConn := b\<rparr>) = store_view m"
  "store_view (m\<lparr>completedOneCycle := cs\<rparr>) = store_view m"
  by (simp_all add: store_view_def)

lemma store_helpers [simp]:
  "store_view (closeConnection api conn m) = store_view m" "store_view (tick m) = store_view m" "store_view (put_routine r m) = store_view m"
  "store_view (no_topology r m) = store_view m" "store_view (cycle_done r m) = store_view m" "store_view (start_routine h m) = store_view m"
  "store_view (forget_routines m) = store_view m" "store_view (end_routine api r m) = store_view m"
  by (simp_all add: closeConnection_def tick_def put_routine_def no_topology_def cycle_done_def start_routine_def forget_routines_def end_routine_def
      store_view_def split: option.splits)

lemma store_fold: "(\<And>x m. x \<in> set xs \<Longrightarrow> store_view (f x m) = store_view m) \<Longrightarrow> store_view (fold f xs m) = store_view m"
  by (induction xs arbitrary: m) simp_all

lemma store_wait [simp]: "store_view (wait_routines api m) = store_view m"
  unfolding wait_routines_def by (rule store_fold) (simp split: prod.splits)

lemma store_stop [simp]: "store_view (stop_routines api m) = store_view m"
  by (simp add: stop_routines_def)

lemma store_add [simp]: "store_view (add_routines m) = store_view m" "store_view (fold start_routine hosts m) = store_view m"
  by (simp_all add: add_routines_def store_fold)

lemma store_template [simp]: "store_view (fst (strategy_template strat cfg i c m)) = store_view m"
  by (simp add: strategy_template_def split: prod.splits sum.splits option.splits)

lemma store_dns [simp]: "store_view (fst (dnsS q m)) = store_view m"
  by (simp add: dnsS_def split: prod.splits)

lemma store_identify [simp]: "store_view (identify_writer strat cfg c m) = store_view m"
proof -
  let ?d = "dnsS (IsRdsInstance (Host (ct_initialHostInfo cfg))) m"
  have d: "?d = (fst ?d, snd ?d)" by simp
  show ?thesis
    unfolding identify_writer_def by (subst d) (simp add: case_prod_beta Let_def split: sum.split bool.split)
qed

lemma later_fetch: "later m (fst (fetchTopologyAndUpdateCache strat conn m))"
  by (auto simp: fetchTopologyAndUpdateCache_def later_same intro: later_trans [OF later_same later_update] split: option.splits prod.splits sum.splits)

lemma later_check: "later m (checkForStableReaderTopologies sortSlice visit clock m)"
  unfolding checkForStableReaderTopologies_def Let_def
  by (auto simp: later_same intro: later_trans [OF later_same later_update])

lemma later_fetch_reader: "later m (fst (readerRoutineFetchTopology strat r m))"
  unfolding readerRoutineFetchTopology_def Let_def
  by (auto simp: later_same intro: later_trans [OF later_same later_update] split: option.splits prod.splits sum.splits)

lemma later_put: "later m (put_routine r n) \<longleftrightarrow> later m n" "later m (end_routine api r n) \<longleftrightarrow> later m n" "later m (cycle_done r n) \<longleftrightarrow> later m n"
  by (rule later_view, simp)+

lemma later_found_reader: "later m (found_reader strat r m)"
proof -
  have "later m (fst (readerRoutineFetchTopology strat r' (m\<lparr>hostRoutinesReaderConn := rc\<rparr>)))" for r' rc
    by (rule later_trans [OF later_same later_fetch_reader]) simp
  then show ?thesis by (simp add: found_reader_def case_prod_beta Let_def later_put later_fetch_reader)
qed

lemma later_found_writer: "later m (found_writer api strat c r m)"
proof -
  let ?f = "fst (fetchTopologyAndUpdateCache strat (Some c) (m\<lparr>hostRoutinesWriterConn := Some c\<rparr>))"
  have "later m ?f" by (rule later_trans [OF later_same later_fetch]) simp
  moreover have "later ?f (?f\<lparr>hostRoutinesStop := True, hostRoutinesWriterHostInfo := h\<rparr>)" for h by (rule later_same) simp
  ultimately have "later m (?f\<lparr>hostRoutinesStop := True, hostRoutinesWriterHostInfo := h\<rparr>)" for h by (rule later_trans)
  then show ?thesis by (simp add: found_writer_def later_put later_same)
qed

lemma store_writer_check: "writer_check api strat c r m = (m1, r1, b) \<Longrightarrow> store_view m1 = store_view m"
  by (auto simp: writer_check_def split: prod.splits sum.splits bool.splits)

lemma later_probe: "later m (routine_probe api strat r m)"
proof (cases "hr_conn r")
  case (Some c)
  obtain m1 r1 b where w: "writer_check api strat c r m = (m1, r1, b)" by (metis prod_cases3)
  have "later m m1" using store_writer_check [OF w] by (rule later_same)
  from later_trans [OF this later_found_writer] later_trans [OF this later_found_reader] show ?thesis
    by (simp add: routine_probe_def Some w later_put)
qed (simp add: routine_probe_def later_same)

lemma store_connect: "routine_connect api cfg r m = (m1, res) \<Longrightarrow> store_view m1 = store_view m"
  by (auto simp: routine_connect_def Let_def split: prod.splits sum.splits if_splits)

lemma later_routine: "later m (routine_turn api strat cfg r m)"
proof -
  obtain m1 res where c: "routine_connect api cfg r m = (m1, res)" by fastforce
  have "later m m1" using store_connect [OF c] by (rule later_same)
  with later_trans [OF this later_probe] show ?thesis
    using later_probe by (auto simp: routine_turn_def c later_same split: option.splits)
qed

section \<open>Forced refreshes\<close>

lemma wait_returns:
  fixes m :: "('sv, 'c, 'z) tmon"
  assumes "\<And>n. N \<le> n \<Longrightarrow> until < clock n"
  shows "\<exists>r. loopP (wait_turn env clock verifyWriter current until) k m = Some r"
proof (rule loopP_returns [where I = "\<lambda>_ _. True" and measure_of = "\<lambda>_ m. N - clock_reads m"])
  fix a and s :: "('sv, 'c, 'z) tmon"
  have "clock_reads s < N" if "\<not> until < clock (clock_reads s)" using assms that by (meson not_le)
  then show "\<exists>s' r. wait_turn env clock verifyWriter current until a s = Some (s', r) \<and>
      (\<forall>a'. r = Inl a' \<longrightarrow> True \<and> N - clock_reads s' < N - clock_reads s)"
    by (auto simp: wait_turn_def tick_def)
qed simp

section \<open>Backing off\<close>

text \<open>However often a connection attempt has failed, the next one waits between 50 milliseconds and 6.4 seconds; the limit of
  ten seconds is never reached.\<close>
theorem backoff_bounds:
  assumes "0 \<le> r" "r < 1"
  shows "50000000 \<le> calculateBackoffWithJitter attempts r \<and> calculateBackoffWithJitter attempts r \<le> 6400000000 \<and>
    initialBackoffMs * 2 ^ min attempts 6 < maxBackoffMs"
proof -
  have p: "(1::int) \<le> 2 ^ min attempts 6" "(2::int) ^ min attempts 6 \<le> 2 ^ 6"
    by (simp, rule power_increasing) simp_all
  define b where "b = initialBackoffMs * 2 ^ min attempts 6"
  have b: "100 \<le> b" "b \<le> 6400" using p by (simp_all add: b_def initialBackoffMs_def)
  have "of_int b * (1 / 2 + r / 2) \<ge> (100::rat) * (1 / 2)" by (rule mult_mono) (use assms b in auto)
  then have low: "50 \<le> round_half_up (of_int b * (1 / 2 + r / 2))" by (simp add: round_half_up_def le_floor_iff)
  have "of_int b * (1 / 2 + r / 2) \<le> (6400::rat) * 1" by (rule mult_mono) (use assms b in auto)
  then have "of_int b * (1 / 2 + r / 2) + 1 / 2 < (6401::rat)" by simp
  then have high: "round_half_up (of_int b * (1 / 2 + r / 2)) \<le> 6400" unfolding round_half_up_def using floor_less_iff [of _ 6401] by fastforce
  have "min b maxBackoffMs = b" using b by (simp add: maxBackoffMs_def)
  then have "calculateBackoffWithJitter attempts r = round_half_up (of_int b * (1 / 2 + r / 2)) * 1000000"
    by (simp only: calculateBackoffWithJitter_def b_def [symmetric] Let_def)
  then show ?thesis using low high b by (simp add: b_def [symmetric] maxBackoffMs_def)
qed

lemma backoff_bounds_witness: "50000000 \<le> calculateBackoffWithJitter 9 (1 / 2) \<and> calculateBackoffWithJitter 9 (1 / 2) \<le> 6400000000"
  using backoff_bounds [of "1 / 2" 9] by simp

section \<open>Examples\<close>

text \<open>A cluster of one host to which connections are numbered; the service records what is closed. \<open>login\<close> tells whether the login
  succeeds.\<close>

definition cluster_api :: "bool \<Rightarrow> (nat list, nat) PluginServiceApi" where
  "cluster_api login =
     \<lparr>svc_GetHosts = (\<lambda>s. (s, [])), svc_GetAllHosts = (\<lambda>_. []), svc_Connect = (\<lambda>_ _ s. (s, Inr None)),
      svc_ForceConnect = (\<lambda>_ _ s. (s, if login then Inr (Some 1) else Inl (ErrorsNew ''login''))), svc_AcceptsStrategy = (\<lambda>_. True),
      svc_GetHostRole = (\<lambda>_ s. (s, WRITER)), svc_Close = (\<lambda>c s. s @ [c]), svc_IsClosed = (\<lambda>c s. c \<in> set s),
      svc_SetCurrentConnection = (\<lambda>_ _ s. (s, Inr ())), svc_GetCurrentConnection = (\<lambda>s. None),
      svc_GetCurrentHostInfo = (\<lambda>s. (s, Inl (ErrorsNew ''none''))), svc_GetInitialConnectionHostInfo = (\<lambda>_. None),
      svc_SetInitialConnectionHostInfo = (\<lambda>_ s. s), svc_SetAvailability = (\<lambda>_ _ s. s), svc_RefreshHostList = (\<lambda>s. (s, Inr ())),
      svc_ForceRefreshHostList = (\<lambda>s. (s, Inr ())), svc_ForceRefreshHostListWithTimeout = (\<lambda>_ _ s. (s, True, None)),
      svc_GetUpdatedHostListWithTimeout = (\<lambda>_ _ s. (s, Inr [])), svc_GetHostInfoByStrategy = (\<lambda>_ _ _ s. (s, Inr None)),
      svc_IsInTransaction = (\<lambda>_. False), svc_SetInTransaction = (\<lambda>_ s. s), svc_Rollback = (\<lambda>_ s. s),
      svc_IsNetworkError = (\<lambda>_. False), svc_IsLoginError = (\<lambda>_. True),
      svc_FillAliases = (\<lambda>_ h s. (s, Inr h)), svc_IdentifyConnection = (\<lambda>_ s. (s, Inr None))\<rparr>"

definition cluster_strategy :: "(nat list, nat) topology_strategy" where
  "cluster_strategy =
     \<lparr>q_topology = (\<lambda>_ s. (s, Inr [small_host ''a'' 5 WRITER])), q_isWriter = (\<lambda>_ s. (s, Inr True)), q_template = (\<lambda>_ _ s. (s, Inr None)),
      q_instanceId = (\<lambda>_ s. (s, ''a'', ''a'')), q_createHost = (\<lambda>_ _ h _. h)\<rparr>"

definition cluster_settings :: topology_settings where
  "cluster_settings = \<lparr>highRefreshRateNano = 1, refreshRateNano = 2, ct_monitoringProps = NewRWMap, ct_initialHostInfo = small_host ''a'' 5 WRITER,
     ct_clusterInstanceTemplate = None, ct_clusterId = ''c''\<rparr>"

definition new_cluster_monitor :: "(nat list, nat) ClusterTopologyMonitor" where
  "new_cluster_monitor = NewClusterTopologyMonitorImpl \<lparr>svc = [], clock_reads = 0, dns_caches = fresh_state None\<rparr>"

abbreviation cluster_turn :: "bool \<Rightarrow> (nat list, nat) ClusterTopologyMonitor \<Rightarrow> (nat list, nat) ClusterTopologyMonitor" where
  "cluster_turn login m \<equiv> fst (topology_turn (sort_key Host) (\<lambda>x. x) int (cluster_api login) cluster_strategy cluster_settings m)"

lemma verification_during_pickup_witness:
  "isInPanicMode ((cluster_turn True ^^ 3) (interrupted_pickup (cluster_api True) int 7 (small_host ''a'' 5 WRITER)
     (new_cluster_monitor\<lparr>stored_topology := Some (0, [small_host ''a'' 5 WRITER])\<rparr>)))"
proof -
  have "monitor_storedHosts (new_cluster_monitor\<lparr>stored_topology := Some (0, [small_host ''a'' 5 WRITER])\<rparr>) \<noteq> []"
    by (simp add: monitor_storedHosts_def)
  from verification_during_pickup [OF this, where sortSlice = "sort_key Host" and visit = "\<lambda>x. x" and clock = int and api = "cluster_api True" and strat = cluster_strategy
      and cfg = cluster_settings and n = 3 and c = 7 and h = "small_host ''a'' 5 WRITER"]
  show ?thesis by blast
qed

text \<open>The goroutine of the one host known meets a login error.\<close>

definition refused_monitor :: "(nat list, nat) ClusterTopologyMonitor" where
  "refused_monitor =
     (let m = cluster_turn False (new_cluster_monitor\<lparr>stored_topology := Some (0, [small_host ''a'' 5 WRITER]), topologies_stored := 1\<rparr>)
      in routine_turn (cluster_api False) cluster_strategy cluster_settings (snd (hd (hostRoutines m))) m)"

lemma login_failures_are_final_witness: "given_up refused_monitor \<and> isInPanicMode (verify_request (cluster_api False) refused_monitor)"
proof -
  have g: "given_up refused_monitor" by code_simp
  have "runs (topology_step (sort_key Host) (\<lambda>x. x) int (cluster_api False) cluster_strategy cluster_settings) [VerifyRequest] refused_monitor
      (verify_request (cluster_api False) refused_monitor)"
    by (simp add: step_verify)
  from login_failures_are_final [OF g this] g show ?thesis by simp
qed

text \<open>Two checks twenty seconds apart, with one reader.\<close>

definition agreeing_monitor :: "time \<Rightarrow> nat \<Rightarrow> (nat list, nat) ClusterTopologyMonitor" where
  "agreeing_monitor start reads =
     new_cluster_monitor\<lparr>clock_reads := reads, readerTopologiesById := [(''a'', [small_host ''a'' 5 READER])], completedOneCycle := [(''a'', True)],
       stableTopologiesStart := start, stored_topology := Some (0, [(small_host ''a'' 5 READER)\<lparr>HostId := ''a''\<rparr>]), topologies_stored := 1\<rparr>"

abbreviation check_readers :: "(nat list, nat) ClusterTopologyMonitor \<Rightarrow> (nat list, nat) ClusterTopologyMonitor" where
  "check_readers \<equiv> checkForStableReaderTopologies (sort_key Host) (\<lambda>x. x) (\<lambda>n. int (Suc n) * 20000000000)"

lemma stable_topology_agreed_witness:
  "\<exists>k < 2. readers_agree (sort_key Host) ([agreeing_monitor 20000000000 1, agreeing_monitor 0 0] ! k)"
proof -
  have c: "checked check_readers [agreeing_monitor 20000000000 1, agreeing_monitor 0 0]" by code_simp
  have s: "topologies_stored (check_readers (agreeing_monitor 20000000000 1)) \<noteq> topologies_stored (agreeing_monitor 20000000000 1)" by code_simp
  from stable_topology_agreed [OF c s] obtain k where "k < length [agreeing_monitor 20000000000 1, agreeing_monitor 0 0]"
    "\<forall>j \<le> k. readers_agree (sort_key Host) ([agreeing_monitor 20000000000 1, agreeing_monitor 0 0] ! j)" by blast
  then show ?thesis by (intro exI [of _ k]) (simp add: numeral_2_eq_2)
qed

end
