(* ===== verification/Bg_Status.thy ===== *)
theory Bg_Status
  imports Rds_Utils Topology Collections Wrapper_Properties
begin

text \<open>
  What the blue/green components share: the phases, roles and the status of a deployment of
  \<open>awssql/driver_infrastructure/bg_helpers.go\<close>, the routings of \<open>awssql/plugins/bg/base_routing.go\<close>,
  \<open>connect_routing.go\<close> and \<open>execute_routing.go\<close> as data, and the status a monitor reports
  (\<open>bg_interim_status.go\<close>, \<open>bg_info_helpers.go\<close>). Nil slices are empty lists: \<open>IsZero\<close> tells them apart only for a
  status that has neither an id nor a phase.
\<close>

section \<open>Phases, roles and interval rates\<close>

datatype BlueGreenIntervalRate = INVALID_RATE | BASELINE | INCREASED | HIGH

record BlueGreenPhase =
  phase_name :: string
  phase_value :: int
  isActiveSwitchoverOrCompleted :: bool

definition zero_phase :: BlueGreenPhase where
  "zero_phase = \<lparr>phase_name = '''', phase_value = 0, isActiveSwitchoverOrCompleted = False\<rparr>"

definition NOT_CREATED :: BlueGreenPhase where
  "NOT_CREATED = \<lparr>phase_name = ''NOT_CREATED'', phase_value = 0, isActiveSwitchoverOrCompleted = False\<rparr>"

definition CREATED :: BlueGreenPhase where
  "CREATED = \<lparr>phase_name = ''CREATED'', phase_value = 1, isActiveSwitchoverOrCompleted = False\<rparr>"

definition PREPARATION :: BlueGreenPhase where
  "PREPARATION = \<lparr>phase_name = ''PREPARATION'', phase_value = 2, isActiveSwitchoverOrCompleted = True\<rparr>"

definition IN_PROGRESS :: BlueGreenPhase where
  "IN_PROGRESS = \<lparr>phase_name = ''IN_PROGRESS'', phase_value = 3, isActiveSwitchoverOrCompleted = True\<rparr>"

definition POST :: BlueGreenPhase where
  "POST = \<lparr>phase_name = ''POST'', phase_value = 4, isActiveSwitchoverOrCompleted = True\<rparr>"

definition COMPLETED :: BlueGreenPhase where
  "COMPLETED = \<lparr>phase_name = ''COMPLETED'', phase_value = 5, isActiveSwitchoverOrCompleted = True\<rparr>"

lemmas phase_defs = zero_phase_def NOT_CREATED_def CREATED_def PREPARATION_def IN_PROGRESS_def POST_def COMPLETED_def

definition Phase_IsZero :: "BlueGreenPhase \<Rightarrow> bool" where
  "Phase_IsZero p \<longleftrightarrow> phase_name p = ''''"

definition Phase_Equals :: "BlueGreenPhase \<Rightarrow> BlueGreenPhase \<Rightarrow> bool" where
  "Phase_Equals b other \<longleftrightarrow> phase_name b = phase_name other \<and> phase_value b = phase_value other \<and>
     isActiveSwitchoverOrCompleted b = isActiveSwitchoverOrCompleted other"

definition blueGreenStatusMapping :: "(string, BlueGreenPhase) gomap" where
  "blueGreenStatusMapping =
     [(''AVAILABLE'', CREATED), (''SWITCHOVER_INITIATED'', PREPARATION), (''SWITCHOVER_IN_PROGRESS'', IN_PROGRESS),
      (''SWITCHOVER_IN_POST_PROCESSING'', POST), (''SWITCHOVER_COMPLETED'', COMPLETED)]"

definition ParsePhase :: "string \<Rightarrow> BlueGreenPhase" where
  "ParsePhase statusKey =
     (if statusKey = '''' then NOT_CREATED
      else (case map_of blueGreenStatusMapping (ToUpper statusKey) of None \<Rightarrow> zero_phase | Some phase \<Rightarrow> phase))"

record BlueGreenRole =
  role_name :: string
  role_value :: nat

definition zero_role :: BlueGreenRole where "zero_role = \<lparr>role_name = '''', role_value = 0\<rparr>"
definition SOURCE :: BlueGreenRole where "SOURCE = \<lparr>role_name = ''SOURCE'', role_value = 0\<rparr>"
definition TARGET :: BlueGreenRole where "TARGET = \<lparr>role_name = ''TARGET'', role_value = 1\<rparr>"

lemmas role_defs = zero_role_def SOURCE_def TARGET_def

definition blueGreenRoleMapping :: "(string, BlueGreenRole) gomap" where
  "blueGreenRoleMapping = [(''BLUE_GREEN_DEPLOYMENT_SOURCE'', SOURCE), (''BLUE_GREEN_DEPLOYMENT_TARGET'', TARGET)]"

definition ParseRole :: "string \<Rightarrow> BlueGreenRole" where
  "ParseRole roleKey = (case map_of blueGreenRoleMapping (ToUpper roleKey) of None \<Rightarrow> zero_role | Some role \<Rightarrow> role)"

definition Role_IsZero :: "BlueGreenRole \<Rightarrow> bool" where
  "Role_IsZero r \<longleftrightarrow> role_name r = '''' \<and> role_value r = 0"

definition known_phases :: "BlueGreenPhase list" where
  "known_phases = [NOT_CREATED, CREATED, PREPARATION, IN_PROGRESS, POST, COMPLETED]"

lemma ParsePhase_known: "ParsePhase s \<in> set (zero_phase # known_phases)"
  by (auto simp: ParsePhase_def known_phases_def blueGreenStatusMapping_def split: option.splits if_splits)

lemma ParseRole_known: "ParseRole s \<in> {zero_role, SOURCE, TARGET}"
  by (auto simp: ParseRole_def blueGreenRoleMapping_def split: option.splits if_splits)

section \<open>Routings\<close>

record BaseRouting =
  r_hostAndPort :: string
  r_role :: BlueGreenRole

definition NewBaseRouting :: "string \<Rightarrow> BlueGreenRole \<Rightarrow> BaseRouting" where
  "NewBaseRouting hostAndPort role = \<lparr>r_hostAndPort = ToLower hostAndPort, r_role = role\<rparr>"

definition Base_IsMatch :: "BaseRouting \<Rightarrow> HostInfo option \<Rightarrow> BlueGreenRole \<Rightarrow> bool" where
  "Base_IsMatch b hostInfo hostRole \<longleftrightarrow>
     (let hostAndPort = (if IsNil hostInfo then '''' else ToLower (GetHostAndPort hostInfo))
      in (r_hostAndPort b = '''' \<or> r_hostAndPort b = hostAndPort) \<and> (Role_IsZero (r_role b) \<or> r_role b = hostRole))"

text \<open>The connect routings. The closure that a substitution calls on success is the green host it registers; the hosts
  for the tokens may be nil.\<close>

datatype ConnectRouting =
    RejectConnectRouting BaseRouting
  | SubstituteConnectRouting "HostInfo option" "HostInfo option list" "string option" BaseRouting
  | SuspendConnectRouting string BaseRouting
  | SuspendUntilCorrespondingHostFoundConnectRouting string BaseRouting

definition NewRejectConnectRouting :: "string \<Rightarrow> BlueGreenRole \<Rightarrow> ConnectRouting" where
  "NewRejectConnectRouting hostAndPort role = RejectConnectRouting (NewBaseRouting hostAndPort role)"

definition NewSubstituteConnectRouting ::
  "string \<Rightarrow> BlueGreenRole \<Rightarrow> HostInfo option \<Rightarrow> HostInfo option list \<Rightarrow> string option \<Rightarrow> ConnectRouting" where
  "NewSubstituteConnectRouting hostAndPort role substituteHostInfo iamHosts iamSuccessfulConnectNotify =
     SubstituteConnectRouting substituteHostInfo iamHosts iamSuccessfulConnectNotify (NewBaseRouting hostAndPort role)"

definition NewSuspendConnectRouting :: "string \<Rightarrow> BlueGreenRole \<Rightarrow> string \<Rightarrow> ConnectRouting" where
  "NewSuspendConnectRouting hostAndPort role bgId = SuspendConnectRouting bgId (NewBaseRouting hostAndPort role)"

definition NewSuspendUntilCorrespondingHostFoundConnectRouting :: "string \<Rightarrow> BlueGreenRole \<Rightarrow> string \<Rightarrow> ConnectRouting" where
  "NewSuspendUntilCorrespondingHostFoundConnectRouting hostAndPort role bgId =
     SuspendUntilCorrespondingHostFoundConnectRouting bgId (NewBaseRouting hostAndPort role)"

primrec connect_base :: "ConnectRouting \<Rightarrow> BaseRouting" where
  "connect_base (RejectConnectRouting b) = b"
| "connect_base (SubstituteConnectRouting _ _ _ b) = b"
| "connect_base (SuspendConnectRouting _ b) = b"
| "connect_base (SuspendUntilCorrespondingHostFoundConnectRouting _ b) = b"

definition Connect_IsMatch :: "HostInfo option \<Rightarrow> BlueGreenRole \<Rightarrow> ConnectRouting \<Rightarrow> bool" where
  "Connect_IsMatch hostInfo hostRole r = Base_IsMatch (connect_base r) hostInfo hostRole"

datatype ExecuteRouting = SuspendExecuteRouting string (execute_base: BaseRouting)

definition NewSuspendExecuteRouting :: "string \<Rightarrow> BlueGreenRole \<Rightarrow> string \<Rightarrow> ExecuteRouting" where
  "NewSuspendExecuteRouting hostAndPort role bgId = SuspendExecuteRouting bgId (NewBaseRouting hostAndPort role)"

definition Execute_IsMatch :: "HostInfo option \<Rightarrow> BlueGreenRole \<Rightarrow> ExecuteRouting \<Rightarrow> bool" where
  "Execute_IsMatch hostInfo hostRole r = Base_IsMatch (execute_base r) hostInfo hostRole"

text \<open>A routing with no host and a role matches exactly the hosts of the role.\<close>

lemma Base_IsMatch_role: "\<not> Role_IsZero role \<Longrightarrow> Base_IsMatch (NewBaseRouting '''' role) hostInfo hostRole \<longleftrightarrow> role = hostRole"
  by (simp add: Base_IsMatch_def NewBaseRouting_def ToLower_def Let_def)

lemma Role_IsZero_simps [simp]: "\<not> Role_IsZero SOURCE" "\<not> Role_IsZero TARGET" "Role_IsZero zero_role" "SOURCE \<noteq> TARGET" "TARGET \<noteq> SOURCE"
  by (simp_all add: Role_IsZero_def role_defs)

section \<open>The status of a deployment\<close>

type_synonym host_pair = "HostInfo option \<times> HostInfo option"

record BlueGreenStatus =
  bgId :: string
  currentPhase :: BlueGreenPhase
  connectRoutings :: "ConnectRouting list"
  executeRoutings :: "ExecuteRouting list"
  st_roleByHost :: "(string, BlueGreenRole) RWMap option"
  st_correspondingHosts :: "(string, host_pair) RWMap option"

definition NewBgStatus ::
  "string \<Rightarrow> BlueGreenPhase \<Rightarrow> ConnectRouting list \<Rightarrow> ExecuteRouting list \<Rightarrow> (string, BlueGreenRole) RWMap option
     \<Rightarrow> (string, host_pair) RWMap option \<Rightarrow> BlueGreenStatus" where
  "NewBgStatus i phase connects executes roles pairs =
     \<lparr>bgId = i, currentPhase = phase, connectRoutings = connects, executeRoutings = executes, st_roleByHost = roles,
      st_correspondingHosts = pairs\<rparr>"

definition zero_status :: BlueGreenStatus where
  "zero_status = NewBgStatus '''' zero_phase [] [] None None"

definition GetCorrespondingHosts :: "BlueGreenStatus \<Rightarrow> (string, host_pair) gomap" where
  "GetCorrespondingHosts b = (case st_correspondingHosts b of None \<Rightarrow> [] | Some m \<Rightarrow> RWMap_GetAllEntries m)"

definition Status_GetRole :: "HostInfo option \<Rightarrow> BlueGreenStatus \<Rightarrow> BlueGreenRole option" where
  "Status_GetRole hostInfo b =
     (if IsNil hostInfo then None
      else (case st_roleByHost b of None \<Rightarrow> None | Some m \<Rightarrow> RWMap_Get (ToLower (GetHost hostInfo)) m))"

definition Status_IsZero :: "BlueGreenStatus \<Rightarrow> bool" where
  "Status_IsZero b \<longleftrightarrow> bgId b = '''' \<and> Phase_IsZero (currentPhase b) \<and> connectRoutings b = [] \<and> executeRoutings b = [] \<and>
     st_roleByHost b = None \<and> st_correspondingHosts b = None"

definition MatchIdPhaseAndLen :: "BlueGreenStatus \<Rightarrow> BlueGreenStatus \<Rightarrow> bool" where
  "MatchIdPhaseAndLen b other \<longleftrightarrow> bgId b = bgId other \<and> currentPhase b = currentPhase other \<and>
     length (connectRoutings b) = length (connectRoutings other) \<and> length (executeRoutings b) = length (executeRoutings other) \<and>
     RWMap_Size (st_roleByHost b) = RWMap_Size (st_roleByHost other) \<and>
     RWMap_Size (st_correspondingHosts b) = RWMap_Size (st_correspondingHosts other)"

record BlueGreenResult =
  res_Version :: string
  res_Endpoint :: string
  res_Port :: int
  res_Role :: string
  res_Status :: string

record StatusInfo =
  si_version :: string
  si_endpoint :: string
  si_port :: int
  si_phase :: BlueGreenPhase
  si_role :: BlueGreenRole

definition StatusInfo_IsZero :: "StatusInfo option \<Rightarrow> bool" where
  "StatusInfo_IsZero s = (case s of None \<Rightarrow> True | Some i \<Rightarrow> si_version i = '''' \<and> si_endpoint i = '''' \<and> si_port i = 0)"

record PhaseTimeInfo =
  Timestamp :: time
  pt_Phase :: BlueGreenPhase

section \<open>The status a monitor reports\<close>

record BlueGreenInterimStatus =
  is_phase :: BlueGreenPhase
  is_version :: string
  is_port :: int
  startTopology :: "HostInfo list"
  endTopology :: "HostInfo list"
  startIpAddressesByHostMap :: "(string, string) gomap"
  currentIpAddressesByHostMap :: "(string, string) gomap"
  is_hostNames :: "(string, bool) gomap"
  allStartTopologyIpChanged :: bool
  allStartTopologyEndpointsRemoved :: bool
  allTopologyChanged :: bool

definition zero_interim :: BlueGreenInterimStatus where
  "zero_interim = \<lparr>is_phase = zero_phase, is_version = '''', is_port = 0, startTopology = [], endTopology = [],
     startIpAddressesByHostMap = [], currentIpAddressesByHostMap = [], is_hostNames = [], allStartTopologyIpChanged = False,
     allStartTopologyEndpointsRemoved = False, allTopologyChanged = False\<rparr>"

definition Interim_IsZero :: "BlueGreenInterimStatus \<Rightarrow> bool" where
  "Interim_IsZero b \<longleftrightarrow> is_version b = '''' \<and> is_port b = 0 \<and> Phase_IsZero (is_phase b)"

definition getValueHash :: "64 word \<Rightarrow> string \<Rightarrow> 64 word" where
  "getValueHash currentHash val = currentHash * 31 + fnv_Write val fnv_New64a"

text \<open>\<open>sort.Strings\<close> and \<open>strings.Join\<close> of the parts.\<close>

definition joined :: "string list \<Rightarrow> string" where
  "joined parts = (case sort parts of [] \<Rightarrow> '''' | s # ss \<Rightarrow> s @ concat (map (\<lambda>t. '','' @ t) ss))"

definition getHostNamesString :: "BlueGreenInterimStatus \<Rightarrow> string" where
  "getHostNamesString b = joined (map fst (is_hostNames b))"

definition getTopologyString :: "HostInfo list \<Rightarrow> string" where
  "getTopologyString topology = joined (map (\<lambda>h. GetHostAndPort (Some h) @ role_string (Role h)) topology)"

definition getIpMapString :: "(string, string) gomap \<Rightarrow> string" where
  "getIpMapString ipMap = joined (map (\<lambda>(key, value). key @ value) ipMap)"

definition FormatBool :: "bool \<Rightarrow> string" where
  "FormatBool b = (if b then ''true'' else ''false'')"

definition GetCustomHashCode :: "BlueGreenInterimStatus \<Rightarrow> 64 word" where
  "GetCustomHashCode b =
     foldl getValueHash 1
       [phase_name (is_phase b), is_version b, Itoa (is_port b), FormatBool (allStartTopologyIpChanged b),
        FormatBool (allStartTopologyEndpointsRemoved b), FormatBool (allTopologyChanged b), getHostNamesString b,
        getTopologyString (startTopology b), getTopologyString (endTopology b), getIpMapString (startIpAddressesByHostMap b),
        getIpMapString (currentIpAddressesByHostMap b)]"

text \<open>The hash does not depend on the order in which the maps and topologies are visited.\<close>

lemma joined_mset: "mset xs = mset ys \<Longrightarrow> joined xs = joined ys"
  by (simp add: joined_def properties_for_sort [OF _ sorted_sort, of ys xs])

lemma joined_map_mset: "mset xs = mset ys \<Longrightarrow> joined (map f xs) = joined (map f ys)"
  by (rule joined_mset) simp

lemma GetCustomHashCode_order:
  assumes "mset names = mset (is_hostNames b)" "mset start = mset (startTopology b)" "mset current = mset (endTopology b)"
    "mset ips = mset (startIpAddressesByHostMap b)" "mset ips' = mset (currentIpAddressesByHostMap b)"
  shows "GetCustomHashCode (b\<lparr>is_hostNames := names, startTopology := start, endTopology := current,
           startIpAddressesByHostMap := ips, currentIpAddressesByHostMap := ips'\<rparr>) = GetCustomHashCode b"
  by (simp add: GetCustomHashCode_def getHostNamesString_def getTopologyString_def getIpMapString_def
      joined_map_mset [OF assms(1)] joined_map_mset [OF assms(2)] joined_map_mset [OF assms(3)] joined_map_mset [OF assms(4)]
      joined_map_mset [OF assms(5)])

end
