(* ===== verification/Bg_Provider.thy ===== *)
theory Bg_Provider
  imports Bg_Status Service_Api Services Machines
begin

text \<open>
  The provider of the blue/green status: \<open>awssql/plugins/bg/bg_status_provider.go\<close>. It takes the reports of the two
  monitors, decides the phase of the deployment and publishes the status that routes connections and methods. The lock
  keeps the updates of the two monitors apart; an update is a program here, run at one instant. The storage holds a pointer
  to the provider's \<open>summaryStatus\<close>, so what readers see is that field at the time they read it; the value stored is
  therefore just a mark. Readers take no lock: one that looks while an update is running may find the field between two of
  its assignments. What is said of the published status here is said of the moments when no update is running.
  What the provider may change of a monitor is the record \<open>monitor_control\<close>, which the monitors extend. The messages it
  logs are left out.
\<close>

section \<open>State\<close>

text \<open>The interval rate is an \<open>int32\<close> that atomics store.\<close>

record monitor_control =
  intervalRate :: int
  collectedIpAddresses :: bool
  collectedTopology :: bool
  useIpAddress :: bool
  bm_stop :: bool
  bm_startIpAddressesByHostMap :: "(string, string) RWMap"
  bm_startTopology :: "HostInfo list"
  bm_hostNames :: "(string, bool) RWMap"

fun rate_number :: "BlueGreenIntervalRate \<Rightarrow> int" where
  "rate_number INVALID_RATE = - 1"
| "rate_number BASELINE = 0"
| "rate_number INCREASED = 1"
| "rate_number HIGH = 2"

definition mapToBlueGreenIntervalRate :: "int \<Rightarrow> BlueGreenIntervalRate" where
  "mapToBlueGreenIntervalRate v =
     (if v = rate_number BASELINE then BASELINE else if v = rate_number INCREASED then INCREASED
      else if v = rate_number HIGH then HIGH else INVALID_RATE)"

definition SetIntervalRate :: "BlueGreenIntervalRate \<Rightarrow> 'z monitor_control_scheme \<Rightarrow> 'z monitor_control_scheme" where
  "SetIntervalRate rate m = m\<lparr>intervalRate := rate_number rate\<rparr>"

definition GetIntervalRate :: "'z monitor_control_scheme \<Rightarrow> BlueGreenIntervalRate" where
  "GetIntervalRate m = mapToBlueGreenIntervalRate (intervalRate m)"

definition ResetCollectedData :: "'z monitor_control_scheme \<Rightarrow> 'z monitor_control_scheme" where
  "ResetCollectedData m =
     m\<lparr>bm_startIpAddressesByHostMap := fst (RWMap_Clear (bm_startIpAddressesByHostMap m)), bm_startTopology := [],
       bm_hostNames := fst (RWMap_Clear (bm_hostNames m))\<rparr>"

definition BlueGreenStatusStorageType :: "(unit, unit) StorageTypeDescriptor" where
  "BlueGreenStatusStorageType =
     \<lparr>TypeKey = ''BlueGreenStatus'', TTL = 5 * 60 * 1000000000, RenewOnAccess = False, ShouldDispose = None, HasOnDispose = False,
      d_cast = Some, d_wrap = (\<lambda>u. u)\<rparr>"

record 'z BlueGreenStatusProvider =
  bgdId :: string
  statusCheckIntervalMap :: "(BlueGreenIntervalRate, int) gomap"
  switchoverDuration :: duration
  suspendNewBlueConnectionsWhenInProgress :: bool
  bg_storage :: "(string, unit) ExpiringStorage"
  bg_dns :: rds_state
  postStatusEndTime :: time
  latestStatusPhase :: BlueGreenPhase
  summaryStatus :: BlueGreenStatus
  rollback :: bool
  blueDnsUpdateCompleted :: bool
  greenDnsRemoved :: bool
  greenTopologyChanged :: bool
  allGreenHostsChangedName :: bool
  monitors :: "'z monitor_control_scheme option list"
  correspondingHosts :: "(string, host_pair) RWMap"
  roleByHost :: "(string, BlueGreenRole) RWMap"
  phaseTimeNano :: "(string, PhaseTimeInfo) RWMap"
  iamHostSuccessfulConnects :: "(string, string list) RWMap"
  hostIpAddresses :: "(string, string) RWMap"
  greenHostChangeNameTimes :: "(string, time) RWMap"
  interimStatuses :: "BlueGreenInterimStatus list"
  interimStatusHashes :: "64 word list"
  lastContextHash :: "64 word"

type_synonym 'z provider = "'z BlueGreenStatusProvider"
type_synonym ('z, 'a) provider_prog = "('z BlueGreenStatusProvider, 'a) prog"

definition GetMonitoringProperties :: "(string, string) RWMap \<Rightarrow> (string, string) RWMap" where
  "GetMonitoringProperties props =
     fold (\<lambda>(propKey, propValue) monitoringProps.
             if HasPrefix propKey BG_PROPERTY_PREFIX
             then fst (RWMap_Remove propKey (fst (RWMap_Put (drop (length BG_PROPERTY_PREFIX) propKey) propValue monitoringProps)))
             else monitoringProps)
       (RWMap_GetAllEntries props) (NewRWMapFromCopy (Some props))"

text \<open>\<open>newMonitor\<close> makes and starts a monitor of a role; it is called only when the dialect supports blue/green
  deployments.\<close>

definition NewBlueGreenStatusProvider ::
  "(BlueGreenRole \<Rightarrow> (string, string) RWMap \<Rightarrow> 'z monitor_control_scheme) \<Rightarrow> bool \<Rightarrow> (string, unit) ExpiringStorage \<Rightarrow> rds_state
     \<Rightarrow> (string, string) RWMap \<Rightarrow> string \<Rightarrow> 'z provider" where
  "NewBlueGreenStatusProvider newMonitor isBlueGreenDialect storageService dns props newId =
     (let val = (\<lambda>prop. GetVerifiedWrapperPropertyValue (Some props) prop);
          monitoringProps = GetMonitoringProperties props
      in \<lparr>bgdId = newId,
          statusCheckIntervalMap = [(BASELINE, as_int (val BG_INTERVAL_BASELINE_MS)), (INCREASED, as_int (val BG_INTERVAL_INCREASED_MS)),
                                    (HIGH, as_int (val BG_INTERVAL_HIGH_MS))],
          switchoverDuration = 1000000 * as_int (val BG_SWITCHOVER_TIMEOUT_MS),
          suspendNewBlueConnectionsWhenInProgress = as_bool (val BG_SUSPEND_NEW_BLUE_CONNECTIONS),
          bg_storage = storageService, bg_dns = dns, postStatusEndTime = 0, latestStatusPhase = NOT_CREATED,
          summaryStatus = zero_status, rollback = False, blueDnsUpdateCompleted = False, greenDnsRemoved = False,
          greenTopologyChanged = False, allGreenHostsChangedName = False,
          monitors = (if isBlueGreenDialect then [Some (newMonitor SOURCE monitoringProps), Some (newMonitor TARGET monitoringProps)]
                      else [None, None]),
          correspondingHosts = NewRWMap, roleByHost = NewRWMap, phaseTimeNano = NewRWMap, iamHostSuccessfulConnects = NewRWMap,
          hostIpAddresses = NewRWMap, greenHostChangeNameTimes = NewRWMap, interimStatuses = [zero_interim, zero_interim],
          interimStatusHashes = [0, 0], lastContextHash = 0\<rparr>)"

definition ClearMonitors :: "'z provider \<Rightarrow> 'z provider" where
  "ClearMonitors p = p\<lparr>monitors := map (map_option (\<lambda>m. m\<lparr>bm_stop := True\<rparr>)) (monitors p)\<rparr>"

definition interim_of :: "BlueGreenRole \<Rightarrow> 'z provider \<Rightarrow> BlueGreenInterimStatus" where
  "interim_of role p = interimStatuses p ! role_value role"

text \<open>The endpoint tests of \<open>utils\<close> keep caches.\<close>

definition dnsB :: "'a rds \<Rightarrow> ('z, 'a) provider_prog" where
  "dnsB m p = (case m (bg_dns p) of (r, d) \<Rightarrow> (p\<lparr>bg_dns := d\<rparr>, r))"

section \<open>Times of the phases, the timer\<close>

definition PutIfAbsentPhaseTime :: "time \<Rightarrow> string \<Rightarrow> BlueGreenPhase \<Rightarrow> 'z provider \<Rightarrow> 'z provider" where
  "PutIfAbsentPhaseTime t key phase p =
     p\<lparr>phaseTimeNano := RWMap_PutIfAbsent (if rollback p then key @ '' (rollback)'' else key) \<lparr>Timestamp = t, pt_Phase = phase\<rparr>
                          (phaseTimeNano p)\<rparr>"

definition StorePhaseTime :: "time \<Rightarrow> BlueGreenPhase \<Rightarrow> 'z provider \<Rightarrow> 'z provider" where
  "StorePhaseTime t phase p = (if Phase_IsZero phase then p else PutIfAbsentPhaseTime t (phase_name phase) phase p)"

definition StoreBlueDnsUpdateTime :: "time \<Rightarrow> 'z provider \<Rightarrow> 'z provider" where
  "StoreBlueDnsUpdateTime t = PutIfAbsentPhaseTime t ''Blue DNS updated'' zero_phase"

definition StoreGreenDnsRemoveTime :: "time \<Rightarrow> 'z provider \<Rightarrow> 'z provider" where
  "StoreGreenDnsRemoveTime t = PutIfAbsentPhaseTime t ''Green DNS removed'' zero_phase"

definition StoreGreenHostChangeNameTime :: "time \<Rightarrow> 'z provider \<Rightarrow> 'z provider" where
  "StoreGreenHostChangeNameTime t = PutIfAbsentPhaseTime t ''Green host certificates changed'' zero_phase"

definition StoreGreenTopologyChangeTime :: "time \<Rightarrow> 'z provider \<Rightarrow> 'z provider" where
  "StoreGreenTopologyChangeTime t = PutIfAbsentPhaseTime t ''Green topology changed'' zero_phase"

text \<open>The zero \<open>time.Time\<close> is the instant 0.\<close>

definition StartSwitchoverTimer :: "time \<Rightarrow> 'z provider \<Rightarrow> 'z provider" where
  "StartSwitchoverTimer t p =
     (if postStatusEndTime p = 0 then p\<lparr>postStatusEndTime := t + switchoverDuration p\<rparr> else p)"

definition IsSwitchoverTimerExpired :: "time \<Rightarrow> 'z provider \<Rightarrow> bool" where
  "IsSwitchoverTimerExpired t p \<longleftrightarrow> postStatusEndTime p \<noteq> 0 \<and> postStatusEndTime p < t"

section \<open>Tokens: which names the green hosts go by\<close>

definition IsAlreadySuccessfullyConnected :: "string \<Rightarrow> string \<Rightarrow> 'z provider \<Rightarrow> bool" where
  "IsAlreadySuccessfullyConnected connectHost iamHost p =
     (case RWMap_Get connectHost (iamHostSuccessfulConnects p) of None \<Rightarrow> False | Some names \<Rightarrow> iamHost \<in> set names)"

definition has_other_name :: "string \<times> string list \<Rightarrow> bool" where
  "has_other_name = (\<lambda>(key, val). case FilterSliceFindFirst val (\<lambda>s. s \<noteq> key) of None \<Rightarrow> False | Some s \<Rightarrow> s \<noteq> '''')"

definition note_iam_host :: "time \<Rightarrow> string \<Rightarrow> string \<Rightarrow> 'z provider \<Rightarrow> 'z provider" where
  "note_iam_host t connectHost iamHost p =
     (let p1 = (if connectHost \<noteq> '''' \<and> connectHost \<noteq> iamHost \<and> \<not> IsAlreadySuccessfullyConnected connectHost iamHost p
                then p\<lparr>greenHostChangeNameTimes := fst (RWMap_Put connectHost t (greenHostChangeNameTimes p))\<rparr> else p);
          names = (case RWMap_Get connectHost (iamHostSuccessfulConnects p1) of None \<Rightarrow> [iamHost] | Some names \<Rightarrow> names @ [iamHost])
      in p1\<lparr>iamHostSuccessfulConnects := fst (RWMap_Put connectHost names (iamHostSuccessfulConnects p1))\<rparr>)"

definition all_renamed :: "'z provider \<Rightarrow> bool" where
  "all_renamed p \<longleftrightarrow> list_all (\<lambda>(key, val). val = [] \<or> has_other_name (key, val)) (RWMap_GetAllEntries (iamHostSuccessfulConnects p))"

definition RegisterIamHost :: "time \<Rightarrow> string \<Rightarrow> string \<Rightarrow> 'z provider \<Rightarrow> 'z provider" where
  "RegisterIamHost t connectHost iamHost p =
     (let p1 = note_iam_host t connectHost iamHost p
      in if connectHost \<noteq> '''' \<and> connectHost \<noteq> iamHost \<and> all_renamed p1 \<and> \<not> allGreenHostsChangedName p1
         then StoreGreenHostChangeNameTime t (p1\<lparr>allGreenHostsChangedName := True\<rparr>) else p1)"

definition getContextHash :: "'z provider \<Rightarrow> 64 word" where
  "getContextHash p =
     getValueHash (getValueHash 1 (FormatBool (allGreenHostsChangedName p)))
       (Itoa (int (RWMap_Size (Some (iamHostSuccessfulConnects p)))))"

section \<open>Corresponding hosts\<close>

definition GetWriterHost :: "BlueGreenRole \<Rightarrow> 'z provider \<Rightarrow> HostInfo option" where
  "GetWriterHost role p =
     (if Interim_IsZero (interim_of role p) then None else GetWriter (map Some (startTopology (interim_of role p))))"

definition GetReaderHosts :: "BlueGreenRole \<Rightarrow> 'z provider \<Rightarrow> HostInfo list" where
  "GetReaderHosts role p =
     (if Interim_IsZero (interim_of role p) then [] else GetReaders (map Some (startTopology (interim_of role p))))"

definition put_pair :: "string \<Rightarrow> HostInfo option \<Rightarrow> HostInfo option \<Rightarrow> 'z provider \<Rightarrow> 'z provider" where
  "put_pair key blue green p = p\<lparr>correspondingHosts := fst (RWMap_Put key (blue, green) (correspondingHosts p))\<rparr>"

definition put_pair_if_absent :: "string \<Rightarrow> HostInfo option \<Rightarrow> HostInfo option \<Rightarrow> 'z provider \<Rightarrow> 'z provider" where
  "put_pair_if_absent key blue green p = p\<lparr>correspondingHosts := RWMap_PutIfAbsent key (blue, green) (correspondingHosts p)\<rparr>"

text \<open>The hosts of the two topologies: writer to writer, readers in turn to the readers, or to the writer.\<close>

definition pair_topologies :: "'z provider \<Rightarrow> 'z provider" where
  "pair_topologies p =
     (if startTopology (interim_of SOURCE p) \<noteq> [] \<and> startTopology (interim_of TARGET p) \<noteq> []
      then (let blueWriter = GetWriterHost SOURCE p; greenWriter = GetWriterHost TARGET p;
                blueReaders = GetReaderHosts SOURCE p; greenReaders = GetReaderHosts TARGET p;
                p1 = (if IsNil blueWriter then p else put_pair (GetHost blueWriter) blueWriter greenWriter p)
            in if greenReaders \<noteq> []
               then fold (\<lambda>(index, blue). put_pair (Host blue) (Some blue) (Some (greenReaders ! (index mod length greenReaders))))
                      (enumerate 0 blueReaders) p1
               else fold (\<lambda>blue. put_pair (Host blue) (Some blue) greenWriter) blueReaders p1)
      else p)"

text \<open>A host with only a name.\<close>

definition built :: "HostInfoBuilder \<Rightarrow> HostInfo option" where
  "built b = (case Build b of Inl _ \<Rightarrow> None | Inr h \<Rightarrow> Some h)"

definition named_host :: "string \<Rightarrow> HostInfo option" where
  "named_host host = built (SetHost host NewHostInfoBuilder)"

text \<open>\<open>FilterSetFindFirst\<close> with an endpoint test: the first name the map gives, or the empty string.\<close>

primrec find_name :: "(string \<Rightarrow> bool rds) \<Rightarrow> string list \<Rightarrow> ('z, string) provider_prog" where
  "find_name f [] = returnP ''''"
| "find_name f (s # ss) = bindP (dnsB (f s)) (\<lambda>b. if b then returnP s else find_name f ss)"

definition pair_clusters :: "(string \<Rightarrow> bool rds) \<Rightarrow> string list \<Rightarrow> string list \<Rightarrow> ('z, unit) provider_prog" where
  "pair_clusters f blueHosts greenHosts =
     bindP (find_name f blueHosts) (\<lambda>blue.
     bindP (find_name f greenHosts) (\<lambda>green.
       if blue \<noteq> '''' \<and> green \<noteq> '''' then modifyP (put_pair_if_absent blue (named_host blue) (named_host green)) else returnP ()))"

primrec pair_custom_green :: "string \<Rightarrow> string \<Rightarrow> string list \<Rightarrow> ('z, unit) provider_prog" where
  "pair_custom_green blue customClusterName [] = returnP ()"
| "pair_custom_green blue customClusterName (green # greens) =
     bindP (dnsB (IsRdsCustomClusterDns green)) (\<lambda>custom.
       if \<not> custom then pair_custom_green blue customClusterName greens
       else bindP (dnsB (bindS (GetRdsClusterId green) RemoveGreenInstancePrefix)) (\<lambda>name.
              if customClusterName = name then modifyP (put_pair_if_absent blue (named_host blue) (named_host green))
              else pair_custom_green blue customClusterName greens))"

primrec pair_custom :: "string list \<Rightarrow> string list \<Rightarrow> ('z, unit) provider_prog" where
  "pair_custom greenHosts [] = returnP ()"
| "pair_custom greenHosts (blue # blues) =
     bindP (dnsB (IsRdsCustomClusterDns blue)) (\<lambda>custom.
     bindP (if \<not> custom then returnP ()
            else bindP (dnsB (GetRdsClusterId blue)) (\<lambda>name.
                   if name = '''' then returnP () else pair_custom_green blue name greenHosts)) (\<lambda>_.
       pair_custom greenHosts blues))"

definition updateCorrespondingHosts :: "('z, unit) provider_prog" where
  "updateCorrespondingHosts =
     bindP (modifyP (\<lambda>p. pair_topologies (p\<lparr>correspondingHosts := fst (RWMap_Clear (correspondingHosts p))\<rparr>))) (\<lambda>_.
     bindP (getsP (\<lambda>p. (map fst (is_hostNames (interim_of SOURCE p)), map fst (is_hostNames (interim_of TARGET p))))) (\<lambda>(blueHosts, greenHosts).
       if blueHosts = [] \<or> greenHosts = [] then returnP ()
       else bindP (pair_clusters IsWriterClusterDns blueHosts greenHosts) (\<lambda>_.
            bindP (pair_clusters IsReaderClusterDns blueHosts greenHosts) (\<lambda>_. pair_custom greenHosts blueHosts))))"

section \<open>The status of each phase\<close>

definition status_with :: "BlueGreenPhase \<Rightarrow> ConnectRouting list \<Rightarrow> ExecuteRouting list \<Rightarrow> 'z provider \<Rightarrow> BlueGreenStatus" where
  "status_with phase connects executes p =
     NewBgStatus (bgdId p) phase connects executes (Some (roleByHost p)) (Some (correspondingHosts p))"

definition GetStatusOfCreated :: "'z provider \<Rightarrow> BlueGreenStatus" where
  "GetStatusOfCreated p = status_with CREATED [] [] p"

text \<open>A routing for the host, and one for the host with the port of its cluster once that is known.\<close>

definition for_host_and_port :: "(string \<Rightarrow> 'r) \<Rightarrow> string \<Rightarrow> BlueGreenRole \<Rightarrow> 'z provider \<Rightarrow> 'r list" where
  "for_host_and_port route host role p =
     (let interimStatus = interim_of role p
      in route host # (if Interim_IsZero interimStatus then [] else [route (GetHostAndPortOf host (is_port interimStatus))]))"

primrec substitute_blue :: "(string \<times> BlueGreenRole) list \<Rightarrow> 'z provider \<Rightarrow> go_error + ConnectRouting list" where
  "substitute_blue [] p = Inr []"
| "substitute_blue (e # es) p =
     (case RWMap_Get (fst e) (correspondingHosts p) of
        None \<Rightarrow> substitute_blue es p
      | Some (left, _) \<Rightarrow>
          if snd e \<noteq> SOURCE then substitute_blue es p
          else (case left of
                  None \<Rightarrow> Inl nil_dereference
                | Some blue \<Rightarrow>
                    (let blueIpHostInfo = (case RWMap_Get (Host blue) (hostIpAddresses p) of
                                             None \<Rightarrow> Some blue
                                           | Some ip \<Rightarrow> if ip \<noteq> '''' then built (SetHost ip (CopyFrom (Some blue) NewHostInfoBuilder)) else Some blue)
                     in bindR (substitute_blue es p) (\<lambda>rs.
                          Inr (for_host_and_port (\<lambda>h. NewSubstituteConnectRouting h (snd e) blueIpHostInfo [Some blue] None) (fst e) (snd e) p @ rs)))))"

definition AddSubstituteBlueWithIpAddressConnectRouting :: "'z provider \<Rightarrow> go_error + ConnectRouting list" where
  "AddSubstituteBlueWithIpAddressConnectRouting p = substitute_blue (RWMap_GetAllEntries (roleByHost p)) p"

definition blueHostInCorrespondingHosts :: "string \<Rightarrow> BlueGreenRole \<Rightarrow> 'z provider \<Rightarrow> bool" where
  "blueHostInCorrespondingHosts host role p \<longleftrightarrow>
     role = SOURCE \<and> host \<noteq> '''' \<and> host \<in> set (map fst (RWMap_GetAllEntries (correspondingHosts p)))"

text \<open>Where a connection to a blue host goes after the switchover: the green host, by its address if that is known, with
  the names under which a token may be accepted.\<close>

definition green_route :: "string \<Rightarrow> BlueGreenRole \<Rightarrow> HostInfo \<Rightarrow> ('z, ConnectRouting list) provider_prog" where
  "green_route host role green =
     bindP (getsP (\<lambda>p. case RWMap_Get (Host green) (hostIpAddresses p) of
              None \<Rightarrow> Some green
            | Some ip \<Rightarrow> if ip \<noteq> '''' then built (SetHost ip (CopyFrom (Some green) NewHostInfoBuilder)) else Some green)) (\<lambda>greenWithIp.
     bindP (dnsB (RemoveGreenInstancePrefix (Host green))) (\<lambda>blueName.
       case built (SetHost blueName (CopyFrom (Some green) NewHostInfoBuilder)) of
         None \<Rightarrow> failP nil_dereference
       | Some iamBlueHost \<Rightarrow>
           bindP (getsP (\<lambda>p. if IsAlreadySuccessfullyConnected (Host green) (Host iamBlueHost) p then [Some iamBlueHost]
                             else [Some green, Some iamBlueHost])) (\<lambda>iamHosts.
           bindP (dnsB (IsRdsInstance host)) (\<lambda>isInstance.
             getsP (for_host_and_port (\<lambda>h. NewSubstituteConnectRouting h role greenWithIp iamHosts (if isInstance then Some (Host green) else None))
                      host role)))))"

primrec post_routes :: "(string \<times> BlueGreenRole) list \<Rightarrow> ('z, ConnectRouting list) provider_prog" where
  "post_routes [] = returnP []"
| "post_routes (e # es) =
     bindP (getsP (\<lambda>p. (blueHostInCorrespondingHosts (fst e) (snd e) p,
                        Option.bind (RWMap_Get (fst e) (correspondingHosts p)) snd, bgdId p))) (\<lambda>(blue, green, id).
       if \<not> blue then post_routes es
       else bindP (if IsNil green
                   then getsP (for_host_and_port (\<lambda>h. NewSuspendUntilCorrespondingHostFoundConnectRouting h (snd e) id) (fst e) (snd e))
                   else green_route (fst e) (snd e) (the green)) (\<lambda>rs.
            bindP (post_routes es) (\<lambda>rs'. returnP (rs @ rs'))))"

definition CreatePostRouting :: "('z, ConnectRouting list) provider_prog" where
  "CreatePostRouting =
     bindP (getsP (\<lambda>p. (blueDnsUpdateCompleted p \<and> allGreenHostsChangedName p, RWMap_GetAllEntries (roleByHost p), greenDnsRemoved p)))
       (\<lambda>(done, roles, removed).
          if done then returnP []
          else bindP (post_routes roles) (\<lambda>rs.
                 returnP (if removed then rs else rs @ [NewRejectConnectRouting '''' TARGET])))"

text \<open>\<open>GetStatusOfPost\<close> and \<open>GetStatusOfCompleted\<close> call each other; at one instant the timer has expired for both or for
  neither, so the status of a switchover whose timer runs is reached in one call.\<close>

definition post_status :: "('z, BlueGreenStatus) provider_prog" where
  "post_status = bindP CreatePostRouting (\<lambda>connects. getsP (status_with POST connects []))"

definition GetStatusOfCompleted :: "time \<Rightarrow> ('z, BlueGreenStatus) provider_prog" where
  "GetStatusOfCompleted t p =
     (if IsSwitchoverTimerExpired t p
      then (p, Inr (if rollback p then GetStatusOfCreated p else status_with COMPLETED [] [] p))
      else if \<not> blueDnsUpdateCompleted p \<or> \<not> greenDnsRemoved p then post_status p
      else (p, Inr (NewBgStatus (bgdId p) COMPLETED [] [] (Some (roleByHost p)) (Some NewRWMap))))"

definition GetStatusOfPost :: "time \<Rightarrow> ('z, BlueGreenStatus) provider_prog" where
  "GetStatusOfPost t p =
     (if IsSwitchoverTimerExpired t p
      then (if rollback p then (p, Inr (GetStatusOfCreated p)) else GetStatusOfCompleted t p)
      else post_status p)"

definition GetStatusOfPreparation :: "time \<Rightarrow> ('z, BlueGreenStatus) provider_prog" where
  "GetStatusOfPreparation t p =
     (if IsSwitchoverTimerExpired t p
      then (if rollback p then (p, Inr (GetStatusOfCreated p)) else GetStatusOfCompleted t p)
      else (p, bindR (AddSubstituteBlueWithIpAddressConnectRouting p) (\<lambda>connects. Inr (status_with PREPARATION connects [] p))))"

definition getUniqueIpAddresses :: "'z provider \<Rightarrow> string list" where
  "getUniqueIpAddresses p = filter (\<lambda>ip. ip \<noteq> '''') (remdups (map snd (RWMap_GetAllEntries (hostIpAddresses p))))"

definition interimStatusHasIpAddress :: "BlueGreenInterimStatus \<Rightarrow> string \<Rightarrow> bool" where
  "interimStatusHasIpAddress interimStatus ip \<longleftrightarrow>
     \<not> Interim_IsZero interimStatus \<and> ip \<noteq> '''' \<and> ip \<in> set (map snd (startIpAddressesByHostMap interimStatus))"

text \<open>The routings for an address: those for a host that is known to have it, \<open>other\<close> for one that belongs to none.\<close>

definition address_routes :: "(string \<Rightarrow> 'r) \<Rightarrow> (string \<Rightarrow> 'r list) \<Rightarrow> 'z provider \<Rightarrow> string \<Rightarrow> 'r list" where
  "address_routes suspend other p ip =
     (let both = (\<lambda>interimStatus. [suspend ip, suspend (GetHostAndPortOf ip (is_port interimStatus))])
      in if suspendNewBlueConnectionsWhenInProgress p \<and> interimStatusHasIpAddress (interim_of SOURCE p) ip then both (interim_of SOURCE p)
         else if interimStatusHasIpAddress (interim_of TARGET p) ip then both (interim_of TARGET p)
         else other ip)"

definition in_progress_connects :: "'z provider \<Rightarrow> go_error + ConnectRouting list" where
  "in_progress_connects p =
     bindR (if suspendNewBlueConnectionsWhenInProgress p then Inr [NewSuspendConnectRouting '''' SOURCE (bgdId p)]
            else AddSubstituteBlueWithIpAddressConnectRouting p) (\<lambda>connects.
       Inr (connects @ [NewSuspendConnectRouting '''' TARGET (bgdId p)] @
            concat (map (address_routes (\<lambda>h. NewSuspendConnectRouting h zero_role (bgdId p)) (\<lambda>_. []) p) (getUniqueIpAddresses p))))"

definition in_progress_executes :: "'z provider \<Rightarrow> ExecuteRouting list" where
  "in_progress_executes p =
     [NewSuspendExecuteRouting '''' SOURCE (bgdId p), NewSuspendExecuteRouting '''' TARGET (bgdId p)] @
     (let suspend = (\<lambda>h. NewSuspendExecuteRouting h zero_role (bgdId p))
      in concat (map (address_routes suspend (\<lambda>ip. [suspend ip]) p) (getUniqueIpAddresses p)))"

definition GetStatusOfInProgress :: "time \<Rightarrow> ('z, BlueGreenStatus) provider_prog" where
  "GetStatusOfInProgress t p =
     (if IsSwitchoverTimerExpired t p
      then (if rollback p then (p, Inr (GetStatusOfCreated p)) else GetStatusOfCompleted t p)
      else (p, bindR (in_progress_connects p) (\<lambda>connects. Inr (status_with IN_PROGRESS connects (in_progress_executes p) p))))"

section \<open>An update\<close>

definition UpdatePhase :: "BlueGreenRole \<Rightarrow> BlueGreenInterimStatus \<Rightarrow> 'z provider \<Rightarrow> 'z provider" where
  "UpdatePhase role interimStatus p =
     (let roleStatus = interim_of role p;
          latestInterimPhase = (if Interim_IsZero roleStatus then NOT_CREATED else is_phase roleStatus)
      in if Interim_IsZero interimStatus \<or> Phase_IsZero (is_phase interimStatus) then p
         else
          (let p1 = (if \<not> Phase_IsZero latestInterimPhase \<and> phase_value (is_phase interimStatus) < phase_value latestInterimPhase
                     then p\<lparr>rollback := True\<rparr> else p);
               shouldUpdate = (if rollback p1 then phase_value (is_phase interimStatus) < phase_value (latestStatusPhase p1)
                               else phase_value (latestStatusPhase p1) \<le> phase_value (is_phase interimStatus))
           in if shouldUpdate then p1\<lparr>latestStatusPhase := is_phase interimStatus\<rparr> else p1))"

definition UpdateDnsFlags :: "time \<Rightarrow> BlueGreenRole \<Rightarrow> BlueGreenInterimStatus \<Rightarrow> 'z provider \<Rightarrow> 'z provider" where
  "UpdateDnsFlags t role interimStatus p =
     (let p1 = (if role = SOURCE \<and> \<not> blueDnsUpdateCompleted p \<and> allStartTopologyIpChanged interimStatus
                then StoreBlueDnsUpdateTime t (p\<lparr>blueDnsUpdateCompleted := True\<rparr>) else p);
          p2 = (if role = TARGET \<and> \<not> greenDnsRemoved p1 \<and> allStartTopologyEndpointsRemoved interimStatus
                then StoreGreenDnsRemoveTime t (p1\<lparr>greenDnsRemoved := True\<rparr>) else p1)
      in if role = TARGET \<and> \<not> greenTopologyChanged p2 \<and> allTopologyChanged interimStatus
         then StoreGreenTopologyChangeTime t (p2\<lparr>greenTopologyChanged := True\<rparr>) else p2)"

definition unknownPhase :: go_error where
  "unknownPhase = NewGenericAwsWrapperError ''BlueGreenDeployment.unknownPhase''"

definition UpdateSummaryStatus :: "time \<Rightarrow> BlueGreenRole \<Rightarrow> BlueGreenInterimStatus \<Rightarrow> ('z, unit) provider_prog" where
  "UpdateSummaryStatus t role interimStatus p =
     (let store = (\<lambda>m. bindP m (\<lambda>status. modifyP (\<lambda>p. p\<lparr>summaryStatus := status\<rparr>)));
          flagged = UpdateDnsFlags t role interimStatus
      in if latestStatusPhase p = NOT_CREATED
         then (p\<lparr>summaryStatus := NewBgStatus (bgdId p) NOT_CREATED [] [] None None\<rparr>, Inr ())
         else if latestStatusPhase p = CREATED then store (getsP GetStatusOfCreated) (flagged p)
         else if latestStatusPhase p = PREPARATION then store (GetStatusOfPreparation t) (flagged (StartSwitchoverTimer t p))
         else if latestStatusPhase p = IN_PROGRESS then store (GetStatusOfInProgress t) (flagged p)
         else if latestStatusPhase p = POST then store (GetStatusOfPost t) (flagged p)
         else if latestStatusPhase p = COMPLETED then store (GetStatusOfCompleted t) (flagged p)
         else (p, Inl unknownPhase))"

definition set_control :: "BlueGreenIntervalRate \<Rightarrow> bool \<Rightarrow> bool \<Rightarrow> bool \<Rightarrow> 'z monitor_control_scheme \<Rightarrow> 'z monitor_control_scheme" where
  "set_control rate ips topology useIp m =
     (SetIntervalRate rate m)\<lparr>collectedIpAddresses := ips, collectedTopology := topology, useIpAddress := useIp\<rparr>"

definition all_monitors :: "('z monitor_control_scheme \<Rightarrow> 'z monitor_control_scheme) \<Rightarrow> 'z provider \<Rightarrow> 'z provider" where
  "all_monitors f p = p\<lparr>monitors := map (map_option f) (monitors p)\<rparr>"

definition stop_monitor :: "BlueGreenRole \<Rightarrow> 'z provider \<Rightarrow> 'z provider" where
  "stop_monitor role p =
     p\<lparr>monitors := (monitors p)[role_value role := map_option (\<lambda>m. m\<lparr>bm_stop := True\<rparr>) (monitors p ! role_value role)]\<rparr>"

text \<open>A case without statements does not fall through to the next: nothing is set in the phases before \<open>POST\<close>.\<close>

definition UpdateMonitors :: "('z, unit) provider_prog" where
  "UpdateMonitors p =
     (let phase = currentPhase (summaryStatus p)
      in if phase = NOT_CREATED then (all_monitors (set_control BASELINE False False False) p, Inr ())
         else if phase = CREATED
         then (all_monitors (\<lambda>m. (if rollback p then ResetCollectedData else (\<lambda>m. m)) (set_control INCREASED True True False m)) p, Inr ())
         else if phase = PREPARATION then (p, Inr ())
         else if phase = IN_PROGRESS then (p, Inr ())
         else if phase = POST then (all_monitors (set_control HIGH False False True) p, Inr ())
         else if phase = COMPLETED
         then (let p1 = all_monitors (\<lambda>m. ResetCollectedData (set_control BASELINE False False False m)) p
               in (if rollback p1 then p1 else stop_monitor SOURCE p1, Inr ()))
         else (p, Inl unknownPhase))"

definition cacheKey :: "'z provider \<Rightarrow> string" where
  "cacheKey p = bgdId p @ ''::BlueGreenStatus''"

definition updateStatusCache :: "time \<Rightarrow> 'z provider \<Rightarrow> 'z provider" where
  "updateStatusCache t p =
     StorePhaseTime t (currentPhase (summaryStatus p))
       (p\<lparr>bg_storage := (if Status_IsZero (summaryStatus p) then fst (Descriptor_Remove BlueGreenStatusStorageType (cacheKey p) (bg_storage p))
                        else fst (Descriptor_Set t BlueGreenStatusStorageType (cacheKey p) () (bg_storage p)))\<rparr>)"

definition switchover_ended :: "'z provider \<Rightarrow> bool" where
  "switchover_ended p \<longleftrightarrow>
     ((\<not> rollback p \<and> currentPhase (summaryStatus p) = COMPLETED) \<or> (rollback p \<and> currentPhase (summaryStatus p) = CREATED)) \<and>
     list_ex (\<lambda>(_, info). \<not> Phase_IsZero (pt_Phase info) \<and> isActiveSwitchoverOrCompleted (pt_Phase info)) (RWMap_GetAllEntries (phaseTimeNano p))"

text \<open>The flag \<open>rollback\<close> has been reset when it is tested, so the monitor of the green cluster is stopped in any case.\<close>

definition ResetContextWhenCompleted :: "'z provider \<Rightarrow> 'z provider" where
  "ResetContextWhenCompleted p =
     (if switchover_ended p
      then (let p1 = p\<lparr>rollback := False, greenDnsRemoved := False, greenTopologyChanged := False, allGreenHostsChangedName := False,
                       postStatusEndTime := 0, lastContextHash := 0, interimStatusHashes := [0, 0],
                       interimStatuses := [zero_interim, zero_interim], latestStatusPhase := NOT_CREATED, summaryStatus := zero_status,
                       phaseTimeNano := fst (RWMap_Clear (phaseTimeNano p)), hostIpAddresses := fst (RWMap_Clear (hostIpAddresses p)),
                       correspondingHosts := fst (RWMap_Clear (correspondingHosts p)), roleByHost := fst (RWMap_Clear (roleByHost p)),
                       iamHostSuccessfulConnects := fst (RWMap_Clear (iamHostSuccessfulConnects p)),
                       greenHostChangeNameTimes := fst (RWMap_Clear (greenHostChangeNameTimes p))\<rparr>
            in if \<not> rollback p1 then stop_monitor TARGET p1 else p1)
      else p)"

text \<open>What a report says about hosts is taken over before the corresponding hosts are worked out.\<close>

definition take_report :: "BlueGreenRole \<Rightarrow> BlueGreenInterimStatus \<Rightarrow> 64 word \<Rightarrow> 64 word \<Rightarrow> 'z provider \<Rightarrow> 'z provider" where
  "take_report role interimStatus statusHash contextHash p =
     p\<lparr>interimStatuses := (interimStatuses p)[role_value role := interimStatus],
       interimStatusHashes := (interimStatusHashes p)[role_value role := statusHash], lastContextHash := contextHash,
       hostIpAddresses := fold (\<lambda>(key, val) m. fst (RWMap_Put key val m)) (startIpAddressesByHostMap interimStatus) (hostIpAddresses p),
       roleByHost := fold (\<lambda>(hostName, _) m. fst (RWMap_Put hostName role m)) (is_hostNames interimStatus) (roleByHost p)\<rparr>"

definition publish_update :: "time \<Rightarrow> ('z, unit) provider_prog" where
  "publish_update t =
     bindP (attempt UpdateMonitors) (\<lambda>err.
       case err of Inl _ \<Rightarrow> returnP () | Inr _ \<Rightarrow> modifyP (\<lambda>p. ResetContextWhenCompleted (updateStatusCache t p)))"

definition apply_report :: "time \<Rightarrow> BlueGreenRole \<Rightarrow> BlueGreenInterimStatus \<Rightarrow> ('z, unit) provider_prog" where
  "apply_report t role interimStatus =
     bindP updateCorrespondingHosts (\<lambda>_.
     bindP (attempt (UpdateSummaryStatus t role interimStatus)) (\<lambda>err.
       case err of Inl _ \<Rightarrow> returnP () | Inr _ \<Rightarrow> publish_update t))"

definition PrepareStatus :: "time \<Rightarrow> BlueGreenRole \<Rightarrow> BlueGreenInterimStatus \<Rightarrow> ('z, unit) provider_prog" where
  "PrepareStatus t role interimStatus p =
     (let statusHash = GetCustomHashCode interimStatus; contextHash = getContextHash p
      in if interimStatusHashes p ! role_value role = statusHash \<and> lastContextHash p = contextHash then (p, Inr ())
         else apply_report t role interimStatus (take_report role interimStatus statusHash contextHash (UpdatePhase role interimStatus p)))"

text \<open>What a reader of the storage gets while no update is running: the provider's status as it is now, if the entry is there
  and has not expired.\<close>

definition published_status :: "time \<Rightarrow> 'z provider \<Rightarrow> BlueGreenStatus option" where
  "published_status t p =
     map_option (\<lambda>_. summaryStatus p) (fst (snd (Descriptor_Get t BlueGreenStatusStorageType (cacheKey p) (bg_storage p))))"

section \<open>What the parts of an update leave alone\<close>

lemma keeps_dnsB: "(\<And>p d. P p \<Longrightarrow> P (p\<lparr>bg_dns := d\<rparr>)) \<Longrightarrow> keeps P (dnsB m)"
  by (auto simp: keeps_def dnsB_def split: prod.splits)

text \<open>A predicate that depends neither on the caches of \<open>utils\<close> nor on the corresponding hosts.\<close>

definition pairing_blind :: "('z provider \<Rightarrow> bool) \<Rightarrow> bool" where
  "pairing_blind P \<longleftrightarrow> (\<forall>p d c. P p \<longrightarrow> P (p\<lparr>bg_dns := d\<rparr>) \<and> P (p\<lparr>correspondingHosts := c\<rparr>))"

lemma pairing_blindD:
  assumes "pairing_blind P" "P p"
  shows "P (p\<lparr>bg_dns := d\<rparr>)" "P (p\<lparr>correspondingHosts := c\<rparr>)" "P (put_pair key blue green p)" "P (put_pair_if_absent key blue green p)"
  using assms unfolding pairing_blind_def put_pair_def put_pair_if_absent_def by blast+

lemma keeps_dns_blind: "pairing_blind P \<Longrightarrow> keeps P (dnsB m)"
  by (rule keeps_dnsB) (rule pairing_blindD)

lemma pair_topologies_keeps:
  assumes "pairing_blind P" "P p"
  shows "P (pair_topologies p)"
proof -
  note put = pairing_blindD(3) [OF assms(1)]
  have readers: "P (fold (\<lambda>(index, blue). put_pair (Host blue) (Some blue) (Some (green index))) xs q)" if "P q" for xs green q
    using that by (induction xs arbitrary: q) (auto intro: put)
  have writer: "P (fold (\<lambda>blue. put_pair (Host blue) (Some blue) green) xs q)" if "P q" for xs green q
    using that by (induction xs arbitrary: q) (auto intro: put)
  show ?thesis
    using assms by (simp add: pair_topologies_def Let_def readers writer pairing_blindD(3))
qed

lemma keeps_find_name: "pairing_blind P \<Longrightarrow> keeps P (find_name f ss)"
  by (induction ss) (auto intro!: keeps_dns_blind)

lemma keeps_pair_clusters: "pairing_blind P \<Longrightarrow> keeps P (pair_clusters f blues greens)"
  unfolding pair_clusters_def by (intro keeps_rules keeps_find_name keeps_modify) (auto intro: pairing_blindD)

lemma keeps_pair_custom_green: "pairing_blind P \<Longrightarrow> keeps P (pair_custom_green blue name greens)"
proof (induction greens)
  case (Cons green greens)
  show ?case
    unfolding pair_custom_green.simps
    by (intro keeps_rules keeps_modify keeps_dns_blind Cons) (auto intro: pairing_blindD(4) [OF Cons.prems])
qed (simp only: pair_custom_green.simps keeps_return)

lemma keeps_pair_custom: "pairing_blind P \<Longrightarrow> keeps P (pair_custom greens blues)"
proof (induction blues)
  case (Cons blue blues)
  show ?case
    unfolding pair_custom.simps by (intro keeps_rules keeps_dns_blind keeps_pair_custom_green Cons)
qed (simp only: pair_custom.simps keeps_return)

lemma keeps_updateCorrespondingHosts: "pairing_blind P \<Longrightarrow> keeps P updateCorrespondingHosts"
  unfolding updateCorrespondingHosts_def
  by (intro keeps_rules keeps_modify keeps_pair_clusters keeps_pair_custom)
    (auto intro: pair_topologies_keeps pairing_blindD)

lemma keeps_post_status: "pairing_blind P \<Longrightarrow> keeps P post_status"
proof -
  assume P: "pairing_blind P"
  have green: "keeps P (green_route host role green)" for host role green
    unfolding green_route_def by (intro keeps_rules keeps_dns_blind [OF P])
  have routes: "keeps P (post_routes es)" for es
  proof (induction es)
    case (Cons e es)
    show ?case unfolding post_routes.simps by (intro keeps_rules green Cons)
  qed (simp only: post_routes.simps keeps_return)
  show ?thesis
    unfolding post_status_def CreatePostRouting_def by (intro keeps_rules routes)
qed

text \<open>The status of a phase is worked out without touching anything but the caches.\<close>

lemma keeps_statuses:
  assumes "pairing_blind P"
  shows "keeps P (GetStatusOfCompleted t)" "keeps P (GetStatusOfPost t)" "keeps P (GetStatusOfPreparation t)" "keeps P (GetStatusOfInProgress t)"
proof -
  note post = keeps_post_status [OF assms, unfolded keeps_def, rule_format]
  show completed: "keeps P (GetStatusOfCompleted t)" by (simp add: keeps_def GetStatusOfCompleted_def post)
  note completed = completed [unfolded keeps_def, rule_format]
  show "keeps P (GetStatusOfPost t)" "keeps P (GetStatusOfPreparation t)" "keeps P (GetStatusOfInProgress t)"
    by (simp_all add: keeps_def GetStatusOfPost_def GetStatusOfPreparation_def GetStatusOfInProgress_def completed post)
qed

section \<open>The phase of an update\<close>

text \<open>What the phase of the deployment depends on.\<close>

definition progress :: "'z provider \<Rightarrow> BlueGreenPhase \<times> bool \<times> BlueGreenInterimStatus list" where
  "progress p = (latestStatusPhase p, rollback p, interimStatuses p)"

lemma progress_simps [simp]:
  "progress (PutIfAbsentPhaseTime t key phase p) = progress p" "progress (StorePhaseTime t phase p) = progress p"
  "progress (StartSwitchoverTimer t p) = progress p" "progress (UpdateDnsFlags t role st p) = progress p"
  "progress (p\<lparr>summaryStatus := s\<rparr>) = progress p" "progress (all_monitors f p) = progress p" "progress (stop_monitor role p) = progress p"
  "progress (updateStatusCache t p) = progress p"
  by (simp_all add: progress_def PutIfAbsentPhaseTime_def StorePhaseTime_def StartSwitchoverTimer_def UpdateDnsFlags_def Let_def
      StoreBlueDnsUpdateTime_def StoreGreenDnsRemoveTime_def StoreGreenTopologyChangeTime_def all_monitors_def stop_monitor_def updateStatusCache_def)

lemma progress_blind: "pairing_blind (\<lambda>p. progress p = v)"
  by (simp add: pairing_blind_def progress_def)

lemma UpdateSummaryStatus_progress: "progress (fst (UpdateSummaryStatus t role st p)) = progress p"
proof -
  have store: "progress (fst (bindP m (\<lambda>s. modifyP (\<lambda>p. p\<lparr>summaryStatus := s\<rparr>)) q)) = progress q"
    if "\<And>v. keeps (\<lambda>p. progress p = v) m" for m :: "('a, BlueGreenStatus) provider_prog" and q
    using keepsD [OF that [of "progress q"], of q] by (auto simp: bindP_def split: prod.splits sum.splits)
  show ?thesis
    by (simp add: UpdateSummaryStatus_def Let_def store keeps_statuses [OF progress_blind])
qed

lemma UpdateMonitors_progress: "progress (fst (UpdateMonitors p)) = progress p"
  by (simp add: UpdateMonitors_def Let_def)

lemma phase_simps [simp]:
  "NOT_CREATED \<noteq> CREATED" "NOT_CREATED \<noteq> PREPARATION" "NOT_CREATED \<noteq> IN_PROGRESS" "NOT_CREATED \<noteq> POST" "NOT_CREATED \<noteq> COMPLETED"
  "CREATED \<noteq> NOT_CREATED" "CREATED \<noteq> PREPARATION" "CREATED \<noteq> IN_PROGRESS" "CREATED \<noteq> POST" "CREATED \<noteq> COMPLETED"
  "PREPARATION \<noteq> NOT_CREATED" "PREPARATION \<noteq> CREATED" "PREPARATION \<noteq> IN_PROGRESS" "PREPARATION \<noteq> POST" "PREPARATION \<noteq> COMPLETED"
  "IN_PROGRESS \<noteq> NOT_CREATED" "IN_PROGRESS \<noteq> CREATED" "IN_PROGRESS \<noteq> PREPARATION" "IN_PROGRESS \<noteq> POST" "IN_PROGRESS \<noteq> COMPLETED"
  "POST \<noteq> NOT_CREATED" "POST \<noteq> CREATED" "POST \<noteq> PREPARATION" "POST \<noteq> IN_PROGRESS" "POST \<noteq> COMPLETED"
  "COMPLETED \<noteq> NOT_CREATED" "COMPLETED \<noteq> CREATED" "COMPLETED \<noteq> PREPARATION" "COMPLETED \<noteq> IN_PROGRESS" "COMPLETED \<noteq> POST"
  "zero_phase \<noteq> COMPLETED" "\<not> Phase_IsZero COMPLETED" "isActiveSwitchoverOrCompleted COMPLETED" "\<not> Phase_IsZero NOT_CREATED"
  "phase_name COMPLETED = ''COMPLETED''"
  by (simp_all add: phase_defs Phase_IsZero_def)

lemma known_phase_values:
  assumes "a \<in> set known_phases"
  shows "0 \<le> phase_value a" "phase_value a \<le> 5" "phase_value a = 5 \<longleftrightarrow> a = COMPLETED" "\<not> Phase_IsZero a"
  using assms by (auto simp: known_phases_def phase_defs Phase_IsZero_def)

lemma known_phase_nonzero: "a \<in> set (zero_phase # known_phases) \<Longrightarrow> \<not> Phase_IsZero a \<Longrightarrow> a \<in> set known_phases"
  by (auto simp: zero_phase_def Phase_IsZero_def)

lemma status_with_phase [simp]: "currentPhase (status_with phase connects executes p) = phase"
  by (simp add: status_with_def NewBgStatus_def)

lemma post_status_phase: "post_status p = (p', Inr s) \<Longrightarrow> currentPhase s = POST"
  by (auto simp: post_status_def bindP_Inr_iff)

text \<open>A status of completion, and what it takes.\<close>

definition dns_done :: "'z provider \<Rightarrow> bool" where
  "dns_done p \<longleftrightarrow> blueDnsUpdateCompleted p \<and> greenDnsRemoved p"

lemma GetStatusOfCompleted_phase:
  assumes "GetStatusOfCompleted t p = (p', Inr s)" "currentPhase s = COMPLETED"
  shows "if IsSwitchoverTimerExpired t p then \<not> rollback p else dns_done p"
  using assms by (auto simp: GetStatusOfCompleted_def GetStatusOfCreated_def dns_done_def dest: post_status_phase split: if_splits)

lemma early_phase_completed:
  assumes "m \<in> {GetStatusOfPreparation t, GetStatusOfInProgress t, GetStatusOfPost t}" "m p = (p', Inr s)" "currentPhase s = COMPLETED"
  shows "IsSwitchoverTimerExpired t p \<and> \<not> rollback p"
  using assms
  by (auto simp: GetStatusOfPreparation_def GetStatusOfInProgress_def GetStatusOfPost_def GetStatusOfCreated_def bindR_Inr_iff
      dest!: post_status_phase split: if_splits)

text \<open>What the decision about completion rests on, which working out the status does not change.\<close>

definition completion_view :: "'z provider \<Rightarrow> bool \<times> bool \<times> bool \<times> time" where
  "completion_view p = (rollback p, blueDnsUpdateCompleted p, greenDnsRemoved p, postStatusEndTime p)"

lemma completion_viewD:
  assumes "completion_view p' = completion_view p"
  shows "rollback p' = rollback p" "dns_done p' = dns_done p" "IsSwitchoverTimerExpired t p' = IsSwitchoverTimerExpired t p"
  using assms by (simp_all add: completion_view_def dns_done_def IsSwitchoverTimerExpired_def)

lemma completion_view_blind: "pairing_blind (\<lambda>p. completion_view p = v)"
  by (simp add: pairing_blind_def completion_view_def)

lemma UpdateDnsFlags_rollback [simp]: "rollback (UpdateDnsFlags t role st p) = rollback p" "rollback (StartSwitchoverTimer t p) = rollback p"
  by (simp_all add: UpdateDnsFlags_def StartSwitchoverTimer_def Let_def StoreBlueDnsUpdateTime_def StoreGreenDnsRemoveTime_def
      StoreGreenTopologyChangeTime_def PutIfAbsentPhaseTime_def)

lemma UpdateSummaryStatus_completed:
  assumes run: "UpdateSummaryStatus t role st p = (p', Inr ())" and phase: "currentPhase (summaryStatus p') = COMPLETED"
    and rolled: "rollback p \<Longrightarrow> latestStatusPhase p \<noteq> COMPLETED"
  shows "\<not> rollback p' \<and> (IsSwitchoverTimerExpired t p' \<or> dns_done p')"
proof -
  have stored: "\<not> rollback p' \<and> (IsSwitchoverTimerExpired t p' \<or> dns_done p')"
    if m: "bindP m (\<lambda>s. modifyP (\<lambda>p. p\<lparr>summaryStatus := s\<rparr>)) q = (p', Inr ())" and keep: "\<And>v. keeps (\<lambda>p. completion_view p = v) m"
      and ends: "\<And>p1 s. m q = (p1, Inr s) \<Longrightarrow> currentPhase s = COMPLETED \<Longrightarrow> \<not> rollback q \<and> (IsSwitchoverTimerExpired t q \<or> dns_done q)"
    for m :: "('a, BlueGreenStatus) provider_prog" and q
  proof -
    obtain p1 s where s: "m q = (p1, Inr s)" "p' = p1\<lparr>summaryStatus := s\<rparr>" using m by (auto simp: bindP_Inr_iff)
    have "completion_view p' = completion_view q" using keepsD [OF keep _ s(1), of "completion_view q"] s(2) by (simp add: completion_view_def)
    from completion_viewD [OF this] ends [OF s(1)] phase s(2) show ?thesis by simp
  qed
  note keep = keeps_statuses [OF completion_view_blind]
  have early: "\<not> rollback p' \<and> (IsSwitchoverTimerExpired t p' \<or> dns_done p')"
    if "bindP m (\<lambda>s. modifyP (\<lambda>p. p\<lparr>summaryStatus := s\<rparr>)) q = (p', Inr ())" "m \<in> {GetStatusOfPreparation t, GetStatusOfInProgress t, GetStatusOfPost t}"
    for m :: "('a, BlueGreenStatus) provider_prog" and q
    using stored [OF that(1)] early_phase_completed [OF that(2)] that(2) keep by blast
  consider "latestStatusPhase p = NOT_CREATED" | "latestStatusPhase p = CREATED" | "latestStatusPhase p = PREPARATION"
    | "latestStatusPhase p = IN_PROGRESS" | "latestStatusPhase p = POST" | "latestStatusPhase p = COMPLETED"
    using run by (auto simp: UpdateSummaryStatus_def Let_def split: if_splits)
  then show ?thesis
  proof cases
    case 6
    then have run': "bindP (GetStatusOfCompleted t) (\<lambda>s. modifyP (\<lambda>p. p\<lparr>summaryStatus := s\<rparr>)) (UpdateDnsFlags t role st p) = (p', Inr ())"
      using run by (simp add: UpdateSummaryStatus_def Let_def)
    have "\<not> rollback p" using rolled 6 by blast
    then show ?thesis
      using stored [OF run' keep(1)] GetStatusOfCompleted_phase [of t "UpdateDnsFlags t role st p"]
      by (metis UpdateDnsFlags_rollback(1))
  qed (use run phase early in \<open>auto simp: UpdateSummaryStatus_def Let_def NewBgStatus_def GetStatusOfCreated_def\<close>)
qed

section \<open>Completion is never seen\<close>

definition phases_ok :: "BlueGreenPhase \<times> bool \<times> BlueGreenInterimStatus list \<Rightarrow> bool" where
  "phases_ok = (\<lambda>(latest, rolled, interims).
     length interims = 2 \<and> latest \<in> set known_phases \<and> (\<forall>i \<in> set interims. is_phase i \<in> set (zero_phase # known_phases)) \<and>
     (\<not> rolled \<longrightarrow> (\<forall>i \<in> set interims. phase_value (is_phase i) \<le> phase_value latest)) \<and> (rolled \<longrightarrow> latest \<noteq> COMPLETED))"

definition times_ok :: "'z provider \<Rightarrow> bool" where
  "times_ok p \<longleftrightarrow> rw_inv (phaseTimeNano p) \<and> (\<forall>info. RWMap_Get ''COMPLETED'' (phaseTimeNano p) = Some info \<longrightarrow> pt_Phase info = COMPLETED)"

definition bg_inv :: "'z provider \<Rightarrow> bool" where
  "bg_inv p \<longleftrightarrow> phases_ok (progress p) \<and> times_ok p \<and> currentPhase (summaryStatus p) \<noteq> COMPLETED"

lemma take_report_progress:
  "progress (take_report role st h c p) = (latestStatusPhase p, rollback p, (interimStatuses p)[role_value role := st])"
  by (simp add: progress_def take_report_def)

lemma UpdatePhase_ok:
  assumes ok: "phases_ok (progress p)" and role: "role_value role < 2" and st: "is_phase st \<in> set (zero_phase # known_phases)"
  shows "phases_ok (progress (take_report role st h c (UpdatePhase role st p)))"
proof -
  let ?old = "interim_of role p"
  have two: "length (interimStatuses p) = 2" and latest: "latestStatusPhase p \<in> set known_phases"
    and all: "\<And>i. i \<in> set (interimStatuses p) \<Longrightarrow> is_phase i \<in> set (zero_phase # known_phases)"
    and below: "\<not> rollback p \<Longrightarrow> i \<in> set (interimStatuses p) \<Longrightarrow> phase_value (is_phase i) \<le> phase_value (latestStatusPhase p)"
    and rolled: "rollback p \<Longrightarrow> latestStatusPhase p \<noteq> COMPLETED" for i
    using ok by (auto simp: phases_ok_def progress_def)
  have old: "?old \<in> set (interimStatuses p)" using two role by (simp add: interim_of_def)
  have replaced: "set ((interimStatuses p)[role_value role := st]) \<subseteq> insert st (set (interimStatuses p))" by (rule set_update_subset_insert)
  show ?thesis
  proof (cases "Interim_IsZero st \<or> Phase_IsZero (is_phase st)")
    case True
    then have zero: "is_phase st = zero_phase" using st known_phase_values(4) by (auto simp: Interim_IsZero_def)
    have "UpdatePhase role st p = p" using True by (simp add: UpdatePhase_def Let_def)
    then show ?thesis
      using two latest all below rolled replaced zero known_phase_values(1) [OF latest]
      by (auto simp: take_report_progress phases_ok_def zero_phase_def)
  next
    case False
    then have known: "is_phase st \<in> set known_phases" using known_phase_nonzero [OF st] by blast
    note vals = known_phase_values [OF known] known_phase_values [OF latest]
    let ?earlier = "\<not> Interim_IsZero ?old \<and> \<not> Phase_IsZero (is_phase ?old) \<and> phase_value (is_phase st) < phase_value (is_phase ?old)"
    have eq: "UpdatePhase role st p =
        (let p1 = (if ?earlier then p\<lparr>rollback := True\<rparr> else p)
         in if (if rollback p1 then phase_value (is_phase st) < phase_value (latestStatusPhase p) else phase_value (latestStatusPhase p) \<le> phase_value (is_phase st))
            then p1\<lparr>latestStatusPhase := is_phase st\<rparr> else p1)"
      using False vals(1) by (auto simp: UpdatePhase_def Let_def NOT_CREATED_def)
    show ?thesis
    proof (cases "rollback p \<or> ?earlier")
      case True
      have "phase_value (is_phase ?old) \<le> phase_value (latestStatusPhase p)" if "\<not> rollback p" using below [OF that old] .
      then have "phase_value (is_phase st) < phase_value (latestStatusPhase p) \<or> rollback p" using True by auto
      then show ?thesis
        using True two latest all rolled replaced known vals
        by (auto simp: eq Let_def take_report_progress phases_ok_def)
    next
      case False
      then have "phase_value (is_phase i) \<le> max (phase_value (latestStatusPhase p)) (phase_value (is_phase st))"
        if "i \<in> set ((interimStatuses p)[role_value role := st])" for i
        using that replaced below by force
      then show ?thesis
        using False two latest all replaced known by (auto simp: eq Let_def take_report_progress phases_ok_def max_def split: if_splits)
    qed
  qed
qed

lemma PutIfAbsentPhaseTime_ok:
  assumes "times_ok p" "(if rollback p then key @ '' (rollback)'' else key) = ''COMPLETED'' \<Longrightarrow> phase = COMPLETED"
  shows "times_ok (PutIfAbsentPhaseTime t key phase p)"
  using assms by (auto simp: times_ok_def PutIfAbsentPhaseTime_def rw_inv_def RWMap_defs split: if_splits)

lemma UpdateDnsFlags_ok: "times_ok p \<Longrightarrow> times_ok (UpdateDnsFlags t role st p)"
proof -
  have other: "times_ok (PutIfAbsentPhaseTime t key phase q)"
    if "times_ok q" "key \<in> {''Blue DNS updated'', ''Green DNS removed'', ''Green topology changed''}" for q :: "'a provider" and key phase
    using that by (intro PutIfAbsentPhaseTime_ok) (auto split: if_splits)
  have flags: "times_ok (p\<lparr>blueDnsUpdateCompleted := b\<rparr>) = times_ok p" "times_ok (p\<lparr>greenDnsRemoved := b\<rparr>) = times_ok p"
    "times_ok (p\<lparr>greenTopologyChanged := b\<rparr>) = times_ok p" for p :: "'a provider" and b
    by (simp_all add: times_ok_def)
  assume "times_ok p"
  then show ?thesis
    by (simp add: UpdateDnsFlags_def Let_def StoreBlueDnsUpdateTime_def StoreGreenDnsRemoveTime_def StoreGreenTopologyChangeTime_def other flags)
qed

lemma times_blind: "pairing_blind times_ok"
  by (simp add: pairing_blind_def times_ok_def)

lemma UpdateSummaryStatus_times: "times_ok p \<Longrightarrow> times_ok (fst (UpdateSummaryStatus t role st p))"
proof -
  assume ok: "times_ok p"
  have store: "times_ok (fst (bindP m (\<lambda>s. modifyP (\<lambda>p. p\<lparr>summaryStatus := s\<rparr>)) q))"
    if "keeps times_ok m" "times_ok q" for m :: "('a, BlueGreenStatus) provider_prog" and q
    using keepsD [OF that] by (auto simp: bindP_def times_ok_def split: prod.splits sum.splits)
  have "times_ok (StartSwitchoverTimer t p)" using ok by (simp add: StartSwitchoverTimer_def times_ok_def)
  moreover have "times_ok (q\<lparr>summaryStatus := s\<rparr>) = times_ok q" for q :: "'a provider" and s by (simp add: times_ok_def)
  ultimately show ?thesis
    using ok by (simp add: UpdateSummaryStatus_def Let_def store keeps_statuses [OF times_blind] UpdateDnsFlags_ok)
qed

lemma UpdateMonitors_ok:
  assumes "UpdateMonitors p = (p', r)"
  shows "summaryStatus p' = summaryStatus p" "progress p' = progress p" "phaseTimeNano p' = phaseTimeNano p"
    "r = Inr () \<Longrightarrow> currentPhase (summaryStatus p) \<in> set known_phases"
    "\<not> is_panic e \<Longrightarrow> r = Inl e \<Longrightarrow> currentPhase (summaryStatus p) \<noteq> COMPLETED"
  using assms UpdateMonitors_progress [of p]
  by (auto simp: UpdateMonitors_def Let_def known_phases_def all_monitors_def stop_monitor_def split: if_splits)

lemma phase_of_name: "a \<in> set known_phases \<Longrightarrow> phase_name a = ''COMPLETED'' \<Longrightarrow> a = COMPLETED"
  by (auto simp: known_phases_def phase_defs)

lemma StorePhaseTime_ok: "times_ok p \<Longrightarrow> phase \<in> set known_phases \<Longrightarrow> times_ok (StorePhaseTime t phase p)"
  by (auto simp: StorePhaseTime_def intro!: PutIfAbsentPhaseTime_ok dest: phase_of_name split: if_splits)

text \<open>Storing the phase of a completed switchover is what makes the provider start over.\<close>

lemma completed_ends:
  assumes "times_ok p" "currentPhase (summaryStatus p) = COMPLETED" "\<not> rollback p"
  shows "switchover_ended (StorePhaseTime t COMPLETED p)"
proof -
  let ?q = "StorePhaseTime t COMPLETED p"
  have ok: "times_ok ?q" by (rule StorePhaseTime_ok [OF assms(1)]) (simp add: known_phases_def)
  have "RWMap_Get ''COMPLETED'' (phaseTimeNano ?q) \<noteq> None"
    using assms(3) by (simp add: StorePhaseTime_def PutIfAbsentPhaseTime_def RWMap_defs)
  then obtain info where info: "RWMap_Get ''COMPLETED'' (phaseTimeNano ?q) = Some info" by blast
  then have "map_of (RWMap_GetAllEntries (phaseTimeNano ?q)) ''COMPLETED'' = Some info"
    using ok RWMap_GetAllEntries_map_of [of "phaseTimeNano ?q"] by (simp add: times_ok_def RWMap_Get_def)
  from map_of_SomeD [OF this] ok info
  have "list_ex (\<lambda>(_, info). \<not> Phase_IsZero (pt_Phase info) \<and> isActiveSwitchoverOrCompleted (pt_Phase info)) (RWMap_GetAllEntries (phaseTimeNano ?q))"
    unfolding list_ex_iff by (intro bexI [of _ "(''COMPLETED'', info)"]) (simp_all add: times_ok_def)
  with assms(2,3) show ?thesis
    by (simp add: switchover_ended_def StorePhaseTime_def PutIfAbsentPhaseTime_def)
qed

lemma ResetContextWhenCompleted_inv:
  assumes "phases_ok (progress p)" "times_ok p" "currentPhase (summaryStatus p) = COMPLETED \<Longrightarrow> switchover_ended p"
  shows "bg_inv (ResetContextWhenCompleted p)"
proof (cases "switchover_ended p")
  case True
  then show ?thesis
    by (simp add: ResetContextWhenCompleted_def Let_def bg_inv_def phases_ok_def progress_def times_ok_def stop_monitor_def rw_inv_def RWMap_defs
        zero_status_def NewBgStatus_def zero_interim_def known_phases_def wf_map_def)
      (simp add: zero_phase_def NOT_CREATED_def)
next
  case False
  then show ?thesis using assms by (auto simp: ResetContextWhenCompleted_def bg_inv_def)
qed

lemma updateStatusCache_inv:
  assumes "phases_ok (progress p)" "times_ok p" "currentPhase (summaryStatus p) \<in> set known_phases"
    and "currentPhase (summaryStatus p) = COMPLETED \<Longrightarrow> \<not> rollback p"
  shows "bg_inv (ResetContextWhenCompleted (updateStatusCache t p))"
proof -
  define q where "q = p\<lparr>bg_storage := (if Status_IsZero (summaryStatus p) then fst (Descriptor_Remove BlueGreenStatusStorageType (cacheKey p) (bg_storage p))
    else fst (Descriptor_Set t BlueGreenStatusStorageType (cacheKey p) () (bg_storage p)))\<rparr>"
  have q: "updateStatusCache t p = StorePhaseTime t (currentPhase (summaryStatus q)) q" "times_ok q" "summaryStatus q = summaryStatus p" "rollback q = rollback p"
    using assms(2) by (simp_all add: updateStatusCache_def q_def times_ok_def)
  show ?thesis
  proof (rule ResetContextWhenCompleted_inv)
    show "phases_ok (progress (updateStatusCache t p))" using assms(1) by simp
    show "times_ok (updateStatusCache t p)" using StorePhaseTime_ok [OF q(2)] assms(3) by (simp add: q(1,3))
    assume "currentPhase (summaryStatus (updateStatusCache t p)) = COMPLETED"
    then have "currentPhase (summaryStatus q) = COMPLETED" by (simp add: q(1) StorePhaseTime_def PutIfAbsentPhaseTime_def split: if_splits)
    then show "switchover_ended (updateStatusCache t p)" using completed_ends [OF q(2)] assms(4) by (simp add: q)
  qed
qed

lemma UpdateSummaryStatus_error:
  assumes "UpdateSummaryStatus t role st p = (p', Inl e)"
  shows "summaryStatus p' = summaryStatus p"
proof -
  have blind: "pairing_blind (\<lambda>p :: 'a provider. summaryStatus p = v)" for v by (simp add: pairing_blind_def)
  have store: "summaryStatus p' = summaryStatus q"
    if "bindP m (\<lambda>s. modifyP (\<lambda>p. p\<lparr>summaryStatus := s\<rparr>)) q = (p', Inl e)" "\<And>v. keeps (\<lambda>p. summaryStatus p = v) m"
    for m :: "('a, BlueGreenStatus) provider_prog" and q
    using keepsD [OF that(2) [of "summaryStatus q"], of q] that(1) by (auto simp: bindP_def split: prod.splits sum.splits)
  have flags: "summaryStatus (UpdateDnsFlags t role st q) = summaryStatus q" "summaryStatus (StartSwitchoverTimer t q) = summaryStatus q" for q :: "'a provider"
    by (simp_all add: UpdateDnsFlags_def StartSwitchoverTimer_def Let_def StoreBlueDnsUpdateTime_def StoreGreenDnsRemoveTime_def
        StoreGreenTopologyChangeTime_def PutIfAbsentPhaseTime_def)
  show ?thesis
    using assms by (auto simp: UpdateSummaryStatus_def Let_def flags dest!: store [OF _ keeps_statuses(1) [OF blind]]
        store [OF _ keeps_statuses(2) [OF blind]] store [OF _ keeps_statuses(3) [OF blind]] store [OF _ keeps_statuses(4) [OF blind]] split: if_splits)
qed

lemma publish_update_inv:
  assumes ok: "phases_ok (progress p)" "times_ok p" and completed: "currentPhase (summaryStatus p) = COMPLETED \<Longrightarrow> \<not> rollback p"
    and run: "publish_update t p = (p', Inr ())"
  shows "bg_inv p'"
proof -
  obtain q r where "attempt UpdateMonitors p = (q, Inr r)"
    and rest: "(case r of Inl _ \<Rightarrow> returnP () | Inr _ \<Rightarrow> modifyP (\<lambda>p. ResetContextWhenCompleted (updateStatusCache t p))) q = (p', Inr ())"
    using run unfolding publish_update_def bindP_Inr_iff by blast
  then have q: "UpdateMonitors p = (q, r)" and quiet: "\<And>e. r = Inl e \<Longrightarrow> \<not> is_panic e" by (auto simp: attempt_Inr)
  note monitors = UpdateMonitors_ok [OF q]
  have times: "times_ok q" using ok(2) monitors(3) by (simp add: times_ok_def)
  have phases: "phases_ok (progress q)" "rollback q = rollback p" using ok(1) monitors(2) by (simp_all add: progress_def)
  show ?thesis
  proof (cases r)
    case (Inl e)
    then have "p' = q" using rest by simp
    then show ?thesis using monitors(1) monitors(5) [OF quiet Inl] Inl times phases by (simp add: bg_inv_def)
  next
    case (Inr u)
    then have "p' = ResetContextWhenCompleted (updateStatusCache t q)" using rest by simp
    then show ?thesis using updateStatusCache_inv [OF phases(1) times, of t] monitors(1,4) Inr completed phases(2) by simp
  qed
qed

lemma apply_report_inv:
  assumes ok: "phases_ok (progress p)" "times_ok p" "currentPhase (summaryStatus p) \<noteq> COMPLETED"
    and run: "apply_report t role st p = (p', Inr ())"
  shows "bg_inv p'"
proof -
  obtain p2 p3 r where p2: "updateCorrespondingHosts p = (p2, Inr ())" and "attempt (UpdateSummaryStatus t role st) p2 = (p3, Inr r)"
    and rest: "(case r of Inl _ \<Rightarrow> returnP () | Inr _ \<Rightarrow> publish_update t) p3 = (p', Inr ())"
    using run unfolding apply_report_def bindP_Inr_iff by (metis unit.exhaust)
  then have p3: "UpdateSummaryStatus t role st p2 = (p3, r)" by (simp add: attempt_Inr)
  let ?P = "\<lambda>q. progress q = progress p \<and> times_ok q \<and> summaryStatus q = summaryStatus p"
  have "pairing_blind ?P" by (simp add: pairing_blind_def progress_def times_ok_def)
  from keepsD [OF keeps_updateCorrespondingHosts [OF this] _ p2] have P2: "?P p2" using ok by blast
  have p3_ok: "phases_ok (progress p3)" "times_ok p3"
    using UpdateSummaryStatus_progress [of t role st p2] UpdateSummaryStatus_times [of p2 t role st] P2 p3 ok by simp_all
  show ?thesis
  proof (cases r)
    case (Inl e)
    then have "p' = p3" "summaryStatus p3 = summaryStatus p2" using rest p3 UpdateSummaryStatus_error [of t role st p2 p3 e] by simp_all
    then show ?thesis using P2 p3_ok ok(3) by (simp add: bg_inv_def)
  next
    case (Inr u)
    have "rollback p2 \<Longrightarrow> latestStatusPhase p2 \<noteq> COMPLETED" using P2 ok(1) by (auto simp: phases_ok_def progress_def)
    then have "currentPhase (summaryStatus p3) = COMPLETED \<Longrightarrow> \<not> rollback p3"
      using UpdateSummaryStatus_completed [of t role st p2 p3] p3 Inr by simp
    then show ?thesis using publish_update_inv [OF p3_ok] rest Inr by simp
  qed
qed

lemma PrepareStatus_inv:
  assumes inv: "bg_inv p" and role: "role_value role < 2" and st: "is_phase st \<in> set (zero_phase # known_phases)"
    and run: "PrepareStatus t role st p = (p', Inr ())"
  shows "bg_inv p'"
proof (cases "interimStatusHashes p ! role_value role = GetCustomHashCode st \<and> lastContextHash p = getContextHash p")
  case True
  then show ?thesis using run inv by (simp add: PrepareStatus_def)
next
  case False
  define p1 where "p1 = take_report role st (GetCustomHashCode st) (getContextHash p) (UpdatePhase role st p)"
  have "phases_ok (progress p)" using inv by (simp add: bg_inv_def)
  from UpdatePhase_ok [OF this role st] have "phases_ok (progress p1)" by (simp add: p1_def)
  moreover have "phaseTimeNano p1 = phaseTimeNano p" "summaryStatus p1 = summaryStatus p"
    by (simp_all add: p1_def take_report_def UpdatePhase_def Let_def)
  ultimately have ok: "phases_ok (progress p1)" "times_ok p1" "currentPhase (summaryStatus p1) \<noteq> COMPLETED"
    using inv by (simp_all add: bg_inv_def times_ok_def)
  have "PrepareStatus t role st p = apply_report t role st p1"
    unfolding PrepareStatus_def Let_def p1_def by (rule if_not_P [OF False])
  with run show ?thesis using apply_report_inv [OF ok] by simp
qed

text \<open>The provider as a machine: reports of the monitors, and connections opened with a token for one of the names of a
  green host. An update that panics takes the process with it.\<close>

datatype provider_event = Report time BlueGreenRole BlueGreenInterimStatus | TokenAccepted time string string

inductive provider_step :: "provider_event \<Rightarrow> 'z provider \<Rightarrow> 'z provider \<Rightarrow> bool" where
  step_report: "PrepareStatus t role st p = (p', Inr ()) \<Longrightarrow> provider_step (Report t role st) p p'"
| step_token: "provider_step (TokenAccepted t connectHost iamHost) p (RegisterIamHost t connectHost iamHost p)"

inductive_cases provider_stepE: "provider_step e p p'"

text \<open>The reports of a monitor: of one of the two roles, with a phase that \<open>ParsePhase\<close> returns.\<close>

fun from_monitor :: "provider_event \<Rightarrow> bool" where
  "from_monitor (Report _ role st) \<longleftrightarrow> (role = SOURCE \<or> role = TARGET) \<and> is_phase st \<in> set (zero_phase # known_phases)"
| "from_monitor (TokenAccepted _ _ _) \<longleftrightarrow> True"

lemma RegisterIamHost_inv:
  assumes "bg_inv p"
  shows "bg_inv (RegisterIamHost t connectHost iamHost p)"
proof -
  define q where "q = note_iam_host t connectHost iamHost p"
  have "progress q = progress p" "summaryStatus q = summaryStatus p" "phaseTimeNano q = phaseTimeNano p"
    by (simp_all add: q_def note_iam_host_def Let_def progress_def)
  then have q: "bg_inv q" "bg_inv (q\<lparr>allGreenHostsChangedName := True\<rparr>)" using assms by (simp_all add: bg_inv_def times_ok_def progress_def)
  then have "times_ok (StoreGreenHostChangeNameTime t (q\<lparr>allGreenHostsChangedName := True\<rparr>))"
    unfolding StoreGreenHostChangeNameTime_def by (intro PutIfAbsentPhaseTime_ok) (simp_all add: bg_inv_def split: if_splits)
  moreover have "summaryStatus (StoreGreenHostChangeNameTime t r) = summaryStatus r" "progress (StoreGreenHostChangeNameTime t r) = progress r" for r :: "'a provider"
    by (simp_all add: StoreGreenHostChangeNameTime_def PutIfAbsentPhaseTime_def progress_def)
  ultimately have "bg_inv (StoreGreenHostChangeNameTime t (q\<lparr>allGreenHostsChangedName := True\<rparr>))" using q(2) by (simp add: bg_inv_def)
  then show ?thesis using q(1) by (simp add: RegisterIamHost_def Let_def q_def)
qed

interpretation bg_provider: kept_by_steps provider_step from_monitor bg_inv
proof
  fix e and p p' :: "'a provider"
  assume "provider_step e p p'" "from_monitor e" "bg_inv p"
  then show "bg_inv p'"
  proof (cases rule: provider_step.cases)
    case (step_report t role st)
    then have "role_value role < 2" "is_phase st \<in> set (zero_phase # known_phases)" using \<open>from_monitor e\<close> by (auto simp: role_defs)
    from PrepareStatus_inv [OF \<open>bg_inv p\<close> this step_report(2)] show ?thesis .
  next
    case step_token
    then show ?thesis using RegisterIamHost_inv [OF \<open>bg_inv p\<close>] by simp
  qed
qed

lemma bg_inv_New: "bg_inv (NewBlueGreenStatusProvider newMonitor supported storageService dns props i)"
  by (simp add: NewBlueGreenStatusProvider_def Let_def bg_inv_def phases_ok_def progress_def times_ok_def zero_status_def NewBgStatus_def
      zero_interim_def known_phases_def)
    (simp add: zero_phase_def NOT_CREATED_def RWMap_Get_def NewRWMap_def)

text \<open>Whatever the monitors report and in whatever order, a reader of the storage never finds a completed switchover between two
  updates: the storage holds a pointer to the status of the provider, and the update that reaches completion goes on to
  reset that status. Only a look during that update can find it.\<close>

theorem completed_never_published:
  assumes "runs provider_step es (NewBlueGreenStatusProvider newMonitor supported storageService dns props i) p"
    and "\<forall>e \<in> set es. from_monitor e"
  shows "map_option currentPhase (published_status t p) \<noteq> Some COMPLETED"
proof -
  have "bg_inv p" by (rule bg_provider.runs_keep [OF assms bg_inv_New])
  then show ?thesis by (auto simp: bg_inv_def published_status_def)
qed

text \<open>A switchover that the monitor of the blue cluster reports as completed.\<close>

definition done_report :: BlueGreenInterimStatus where
  "done_report = zero_interim\<lparr>is_phase := COMPLETED, is_version := ''1.0'', is_port := 1, allStartTopologyIpChanged := True\<rparr>"

definition quiet_control :: monitor_control where
  "quiet_control = \<lparr>intervalRate = 0, collectedIpAddresses = False, collectedTopology = False, useIpAddress = False, bm_stop = False,
     bm_startIpAddressesByHostMap = NewRWMap, bm_startTopology = [], bm_hostNames = NewRWMap\<rparr>"

definition lab_storage :: "(string, unit) ExpiringStorage" where
  "lab_storage = Descriptor_Register BlueGreenStatusStorageType (NewExpiringStorage False)"

definition lab_provider :: "unit provider" where
  "lab_provider = NewBlueGreenStatusProvider (\<lambda>_ _. quiet_control) True lab_storage
     \<lparr>cachedDnsRegexp = [], cachedDnsPatterns = [], prepareHostFunc = None\<rparr> NewRWMap ''1''"

lemmas provider_eval =
  PrepareStatus_def apply_report_def take_report_def UpdatePhase_def interim_of_def Interim_IsZero_def Phase_IsZero_def phase_defs role_defs Let_def
  updateCorrespondingHosts_def pair_topologies_def UpdateSummaryStatus_def UpdateDnsFlags_def StoreBlueDnsUpdateTime_def StoreGreenDnsRemoveTime_def
  PutIfAbsentPhaseTime_def GetStatusOfCompleted_def IsSwitchoverTimerExpired_def post_status_def CreatePostRouting_def status_with_def NewBgStatus_def
  publish_update_def UpdateMonitors_def updateStatusCache_def StorePhaseTime_def ResetContextWhenCompleted_def switchover_ended_def attempt_def bindP_def
  RWMap_GetAllEntries_def NewRWMap_def RWMap_PutIfAbsent_def

lemma done_hash: "GetCustomHashCode done_report \<noteq> 0"
  by (simp add: GetCustomHashCode_def done_report_def zero_interim_def getValueHash_def fnv_Write_def fnv_New64a_def FormatBool_def COMPLETED_def
      getHostNamesString_def getTopologyString_def getIpMapString_def joined_def Itoa_def dec_digits.simps digit_char_def)

lemma done_fields:
  "is_phase done_report = COMPLETED" "is_version done_report = ''1.0''" "is_port done_report = 1" "startTopology done_report = []"
  "startIpAddressesByHostMap done_report = []" "is_hostNames done_report = []" "allStartTopologyIpChanged done_report"
  "\<not> allStartTopologyEndpointsRemoved done_report" "\<not> allTopologyChanged done_report"
  by (simp_all add: done_report_def zero_interim_def)

lemma lab_report: "PrepareStatus 5 SOURCE done_report lab_provider = (fst (PrepareStatus 5 SOURCE done_report lab_provider), Inr ())"
proof -
  have "snd (PrepareStatus 5 SOURCE done_report lab_provider) = Inr ()"
    by (simp add: provider_eval done_hash done_fields lab_provider_def NewBlueGreenStatusProvider_def zero_interim_def)
  then show ?thesis by (metis prod.collapse)
qed

lemma completed_never_published_witness:
  "map_option currentPhase (published_status 5 (fst (PrepareStatus 5 SOURCE done_report lab_provider))) \<noteq> Some COMPLETED"
proof -
  have run: "runs provider_step [Report 5 SOURCE done_report] lab_provider (fst (PrepareStatus 5 SOURCE done_report lab_provider))"
    using step_report [OF lab_report] by auto
  show ?thesis
    by (rule completed_never_published [OF run [unfolded lab_provider_def], folded lab_provider_def])
      (simp add: done_report_def zero_interim_def known_phases_def)
qed

section \<open>The order of the phases\<close>

lemma UpdatePhase_order:
  "if rollback (UpdatePhase role st p) then phase_value (latestStatusPhase (UpdatePhase role st p)) \<le> phase_value (latestStatusPhase p)
   else phase_value (latestStatusPhase p) \<le> phase_value (latestStatusPhase (UpdatePhase role st p))"
  by (simp add: UpdatePhase_def Let_def)

lemma publish_update_progress: "progress (fst (publish_update t p)) \<in> {progress p, (NOT_CREATED, False, [zero_interim, zero_interim])}"
proof -
  have reset: "progress (ResetContextWhenCompleted q) \<in> {progress q, (NOT_CREATED, False, [zero_interim, zero_interim])}" for q :: "'a provider"
    by (simp add: ResetContextWhenCompleted_def Let_def) (simp add: progress_def stop_monitor_def)
  obtain q r where q: "UpdateMonitors p = (q, r)" by fastforce
  then have "progress q = progress p" using UpdateMonitors_progress [of p] by simp
  then show ?thesis
    using q reset [of "updateStatusCache t q"]
    by (auto simp: publish_update_def bindP_def attempt_def split: sum.splits go_error.splits)
qed

lemma apply_report_progress: "progress (fst (apply_report t role st p)) \<in> {progress p, (NOT_CREATED, False, [zero_interim, zero_interim])}"
proof -
  have paired: "progress (fst (updateCorrespondingHosts p)) = progress p"
    by (rule keeps_updateCorrespondingHosts [OF progress_blind, unfolded keeps_def, rule_format]) simp
  show ?thesis
  proof (cases "updateCorrespondingHosts p")
    case (Pair p2 r2)
    show ?thesis
      using paired Pair UpdateSummaryStatus_progress [of t role st p2] publish_update_progress [of t "fst (UpdateSummaryStatus t role st p2)"]
      by (cases "UpdateSummaryStatus t role st p2")
        (auto simp: apply_report_def bindP_def attempt_def split: sum.splits go_error.splits)
  qed
qed

text \<open>C13: An update never moves the phase of the deployment back unless one of the monitors has reported an earlier phase
  than before, and then never forward, until the switchover or the rollback is over and the provider starts again.\<close>

theorem phase_order:
  "let p' = fst (PrepareStatus t role st p)
   in (latestStatusPhase p' = NOT_CREATED \<and> \<not> rollback p' \<and> interimStatuses p' = [zero_interim, zero_interim]) \<or>
    (if rollback p' then phase_value (latestStatusPhase p') \<le> phase_value (latestStatusPhase p)
     else phase_value (latestStatusPhase p) \<le> phase_value (latestStatusPhase p'))"
proof (cases "interimStatusHashes p ! role_value role = GetCustomHashCode st \<and> lastContextHash p = getContextHash p")
  case True
  then show ?thesis by (simp add: PrepareStatus_def)
next
  case False
  define p1 where "p1 = take_report role st (GetCustomHashCode st) (getContextHash p) (UpdatePhase role st p)"
  have "PrepareStatus t role st p = apply_report t role st p1"
    unfolding PrepareStatus_def Let_def p1_def by (rule if_not_P [OF False])
  then have "progress (fst (PrepareStatus t role st p)) \<in> {progress p1, (NOT_CREATED, False, [zero_interim, zero_interim])}" by (simp only: apply_report_progress)
  then show ?thesis
    using UpdatePhase_order [of role st p] by (auto simp: progress_def p1_def take_report_def Let_def)
qed

end
