(* ===== verification/Bg_Monitor.thy ===== *)
theory Bg_Monitor
  imports Bg_Provider Failover Sql_Dialects
begin

text \<open>
  The monitor of the blue or of the green cluster: \<open>awssql/plugins/bg/bg_status_monitor.go\<close>. A turn of its loop opens a
  connection if there is none, reads the status table, the topology and the addresses of the hosts, and reports what it
  found to the provider. The monitors live in the provider's list; a system is the provider with its monitors and the
  state of the services they call.
\<close>

section \<open>State and surroundings\<close>

record ('c, 'h) BlueGreenStatusMonitor = monitor_control +
  bm_role :: BlueGreenRole
  bm_bgId :: string
  bm_initialHostInfo :: "HostInfo option"
  bm_hostListProvider :: "'h option"
  bm_props :: props
  bm_intervals :: "(BlueGreenIntervalRate, int) gomap"
  bm_currentPhase :: BlueGreenPhase
  bm_version :: string
  bm_port :: int
  bm_allStartTopologyIpChanged :: bool
  bm_allStartTopologyEndpointsRemoved :: bool
  bm_allTopologyChanged :: bool
  bm_currentIpAddressesByHostMap :: "(string, string) RWMap"
  bm_currentTopology :: "HostInfo list option"
  bm_connection :: "'c option"
  bm_connectionHostInfo :: "HostInfo option"
  bm_connectedIpAddress :: string
  connectionHostInfoCorrect :: bool
  panicMode :: bool

text \<open>What the monitor calls: the plugin service, the queries of the dialect (\<open>None\<close> where the connection cannot be
  queried), the row parser, \<open>net.LookupIP\<close> (no address on an error) and the host list provider, which may return a nil
  slice.\<close>

record ('sv, 'c, 'h) bg_world =
  bw_api :: "('sv, 'c) PluginServiceApi"
  bw_IsBlueGreenStatusAvailable :: "'c \<Rightarrow> 'sv \<Rightarrow> 'sv \<times> bool"
  bw_QueryStatus :: "'c \<Rightarrow> 'sv \<Rightarrow> 'sv \<times> (go_error + driver_value list list) option"
  bw_ParseString :: "driver_value \<Rightarrow> string \<times> bool"
  bw_ParseInt64 :: "driver_value \<Rightarrow> int \<times> bool"
  bw_LookupIP :: "string \<Rightarrow> 'sv \<Rightarrow> 'sv \<times> string list"
  bw_CreateHostListProvider :: "props \<Rightarrow> ('sv, 'h) prog"
  bw_ForceRefresh :: "'h \<Rightarrow> ('sv, HostInfo list option) prog"
  bw_Release :: "'h \<Rightarrow> 'sv \<Rightarrow> 'sv"

record ('sv, 'c, 'h) monitor_run = "'sv plugin_frame" +
  mon :: "('c, 'h) BlueGreenStatusMonitor"

type_synonym ('sv, 'c, 'h, 'a) monitor_prog = "(('sv, 'c, 'h) monitor_run, 'a) prog"

definition setM :: "(('c, 'h) BlueGreenStatusMonitor \<Rightarrow> ('c, 'h) BlueGreenStatusMonitor) \<Rightarrow> ('sv, 'c, 'h, unit) monitor_prog" where
  "setM f = modifyP (\<lambda>s. s\<lparr>mon := f (mon s)\<rparr>)"

definition getM :: "(('c, 'h) BlueGreenStatusMonitor \<Rightarrow> 'a) \<Rightarrow> ('sv, 'c, 'h, 'a) monitor_prog" where
  "getM f = getsP (\<lambda>s. f (mon s))"

definition BG_CLUSTER_ID :: string where "BG_CLUSTER_ID = ''941d00a8-8238-4f7d-bf59-771bff783a8e''"
definition DEFAULT_CHECK_INTERVAL :: int where "DEFAULT_CHECK_INTERVAL = 5 * 60000"
definition latestKnownVersion :: string where "latestKnownVersion = ''1.0''"
definition knownVersions :: "string list" where "knownVersions = [latestKnownVersion]"

definition NewBlueGreenStatusMonitor ::
  "BlueGreenRole \<Rightarrow> string \<Rightarrow> HostInfo option \<Rightarrow> props \<Rightarrow> (BlueGreenIntervalRate, int) gomap \<Rightarrow> ('c, 'h) BlueGreenStatusMonitor" where
  "NewBlueGreenStatusMonitor role newId hostInfo props intervals =
     \<lparr>intervalRate = rate_number BASELINE, collectedIpAddresses = False, collectedTopology = False, useIpAddress = False, bm_stop = False,
      bm_startIpAddressesByHostMap = NewRWMap, bm_startTopology = [], bm_hostNames = NewRWMap, bm_role = role, bm_bgId = newId,
      bm_initialHostInfo = hostInfo, bm_hostListProvider = None, bm_props = props, bm_intervals = intervals, bm_currentPhase = NOT_CREATED,
      bm_version = ''1.0'', bm_port = - 1, bm_allStartTopologyIpChanged = False, bm_allStartTopologyEndpointsRemoved = False,
      bm_allTopologyChanged = False, bm_currentIpAddressesByHostMap = NewRWMap, bm_currentTopology = None, bm_connection = None,
      bm_connectionHostInfo = None, bm_connectedIpAddress = '''', connectionHostInfoCorrect = False, panicMode = True\<rparr>"

section \<open>Connecting\<close>

definition GetIpAddress :: "('sv, 'c, 'h) bg_world \<Rightarrow> string \<Rightarrow> ('sv, 'c, 'h, string) monitor_prog" where
  "GetIpAddress w host = bindP (askS (bw_LookupIP w host)) (\<lambda>ips. returnP (case ips of [] \<Rightarrow> '''' | ip # _ \<Rightarrow> ip))"

definition GetCurrentTopology :: "('c, 'h) BlueGreenStatusMonitor \<Rightarrow> HostInfo list" where
  "GetCurrentTopology m = (case bm_currentTopology m of None \<Rightarrow> [] | Some topology \<Rightarrow> topology)"

definition connection_usable :: "('sv, 'c, 'h) bg_world \<Rightarrow> ('sv, 'c, 'h) monitor_run \<Rightarrow> bool" where
  "connection_usable w s = (case bm_connection (mon s) of None \<Rightarrow> False | Some c \<Rightarrow> \<not> svc_IsClosed (bw_api w) c (svc s))"

definition Monitor_CloseConnection :: "('sv, 'c, 'h) bg_world \<Rightarrow> ('sv, 'c, 'h, unit) monitor_prog" where
  "Monitor_CloseConnection w =
     bindP (getsP (\<lambda>s. if connection_usable w s then bm_connection (mon s) else None)) (\<lambda>toClose.
     bindP (setM (\<lambda>m. m\<lparr>bm_connection := None\<rparr>)) (\<lambda>_.
       case toClose of None \<Rightarrow> returnP () | Some c \<Rightarrow> updS (svc_Close (bw_api w) c)))"

definition cant_open :: "('sv, 'c, 'h, unit) monitor_prog" where
  "cant_open = setM (\<lambda>m. m\<lparr>bm_connection := None, panicMode := True\<rparr>)"

text \<open>A connection is never nil when there is no error.\<close>

definition force_connect ::
  "('sv, 'c, 'h) bg_world \<Rightarrow> HostInfo \<Rightarrow> props \<Rightarrow> (('c, 'h) BlueGreenStatusMonitor \<Rightarrow> ('c, 'h) BlueGreenStatusMonitor) \<Rightarrow> ('sv, 'c, 'h, unit) monitor_prog" where
  "force_connect w host props opened =
     bindP (attempt (callS (svc_ForceConnect (bw_api w) host props))) (\<lambda>res.
       case res of
         Inl _ \<Rightarrow> cant_open
       | Inr conn \<Rightarrow> setM (\<lambda>m. opened (m\<lparr>bm_connection := conn, panicMode := False\<rparr>)))"

definition OpenConnection :: "('sv, 'c, 'h) bg_world \<Rightarrow> ('sv, 'c, 'h, unit) monitor_prog" where
  "OpenConnection w =
     bindP (getsP (connection_usable w)) (\<lambda>usable.
       if usable then returnP ()
       else
        bindP (setM (\<lambda>m. let m1 = m\<lparr>bm_connection := None, panicMode := True\<rparr>
                         in if bm_connectionHostInfo m1 = None
                            then m1\<lparr>bm_connectionHostInfo := bm_initialHostInfo m1, bm_connectedIpAddress := '''', connectionHostInfoCorrect := False\<rparr>
                            else m1)) (\<lambda>_.
        bindP (getM (\<lambda>m. m)) (\<lambda>m.
          if useIpAddress m \<and> bm_connectedIpAddress m \<noteq> ''''
          then (case built (SetHost (bm_connectedIpAddress m) (CopyFrom (bm_connectionHostInfo m) NewHostInfoBuilder)) of
                  None \<Rightarrow> cant_open
                | Some withIp \<Rightarrow>
                    (case bm_connectionHostInfo m of
                       None \<Rightarrow> failP nil_dereference
                     | Some h \<Rightarrow>
                         force_connect w withIp (fst (RWMap_Put (propName IAM_HOST) (Host h) (NewRWMapFromCopy (Some (bm_props m))))) (\<lambda>m. m)))
          else (case built (CopyFrom (bm_connectionHostInfo m) NewHostInfoBuilder) of
                  None \<Rightarrow> cant_open
                | Some host \<Rightarrow>
                    bindP (GetIpAddress w (GetHost (bm_connectionHostInfo m))) (\<lambda>ip.
                      force_connect w host (bm_props m) (\<lambda>m. m\<lparr>bm_connectedIpAddress := ip\<rparr>))))))"

section \<open>The status table\<close>

definition parse_status_row :: "('sv, 'c, 'h) bg_world \<Rightarrow> driver_value list \<Rightarrow> BlueGreenResult list" where
  "parse_status_row w row =
     (if length row > 4
      then (let (version, ok1) = bw_ParseString w (row ! 0); (endpoint, ok2) = bw_ParseString w (row ! 1);
                (port, ok3) = bw_ParseInt64 w (row ! 2); (role, ok4) = bw_ParseString w (row ! 3); (status, ok5) = bw_ParseString w (row ! 4)
            in if ok1 \<and> ok2 \<and> ok3 \<and> ok4 \<and> ok5
               then [\<lparr>res_Version = version, res_Endpoint = endpoint, res_Port = port, res_Role = role, res_Status = status\<rparr>] else [])
      else [])"

definition getBlueGreenStatus :: "('sv, 'c, 'h) bg_world \<Rightarrow> 'c \<Rightarrow> ('sv, 'c, 'h, BlueGreenResult list) monitor_prog" where
  "getBlueGreenStatus w conn =
     bindP (askS (bw_QueryStatus w conn)) (\<lambda>rows.
       case rows of
         None \<Rightarrow> returnP []
       | Some (Inl err) \<Rightarrow> failP err
       | Some (Inr rows) \<Rightarrow> returnP (concat (map (parse_status_row w) rows)))"

definition status_entries :: "BlueGreenRole \<Rightarrow> BlueGreenResult list \<Rightarrow> StatusInfo list" where
  "status_entries role results =
     map (\<lambda>r. \<lparr>si_version = (if res_Version r \<in> set knownVersions then res_Version r else latestKnownVersion), si_endpoint = res_Endpoint r,
               si_port = res_Port r, si_phase = ParsePhase (res_Status r), si_role = ParseRole (res_Role r)\<rparr>)
       (filter (\<lambda>r. role = ParseRole (res_Role r)) results)"

text \<open>\<open>FilterSliceFindFirst\<close> with an endpoint test and the test that the host is not an old one.\<close>

primrec find_endpoint :: "(string \<Rightarrow> bool rds) \<Rightarrow> StatusInfo list \<Rightarrow> ('sv, 'c, 'h, StatusInfo option) monitor_prog" where
  "find_endpoint f [] = returnP None"
| "find_endpoint f (s # ss) =
     bindP (dnsS (bindS (f (si_endpoint s)) (\<lambda>b. if b then IsNotOldInstance (si_endpoint s) else ret False))) (\<lambda>b.
       if b then returnP (Some s) else find_endpoint f ss)"

definition put_host_name :: "string \<Rightarrow> ('c, 'h) BlueGreenStatusMonitor \<Rightarrow> ('c, 'h) BlueGreenStatusMonitor" where
  "put_host_name host m = m\<lparr>bm_hostNames := fst (RWMap_Put host True (bm_hostNames m))\<rparr>"

primrec note_endpoints :: "StatusInfo list \<Rightarrow> ('sv, 'c, 'h, unit) monitor_prog" where
  "note_endpoints [] = returnP ()"
| "note_endpoints (s # ss) =
     bindP (dnsS (if si_endpoint s = '''' then ret False else IsNotOldInstance (si_endpoint s))) (\<lambda>b.
     bindP (if b then setM (put_host_name (ToLower (si_endpoint s))) else returnP ()) (\<lambda>_. note_endpoints ss))"

definition InitHostListProvider :: "('sv, 'c, 'h) bg_world \<Rightarrow> ('sv, 'c, 'h, unit) monitor_prog" where
  "InitHostListProvider w =
     bindP (getM (\<lambda>m. m)) (\<lambda>m.
       if bm_hostListProvider m \<noteq> None \<or> \<not> connectionHostInfoCorrect m then returnP ()
       else
        (let clusterId = bm_bgId m @ ''::BlueGreenRole [name: '' @ role_name (bm_role m) @ '', value: '' @ Itoa (int (role_value (bm_role m))) @ '']::'' @ BG_CLUSTER_ID;
             props1 = fst (RWMap_Put (propName CLUSTER_ID) clusterId (NewRWMapFromCopy (Some (bm_props m))));
             props2 = (if \<not> IsNil (bm_connectionHostInfo m)
                       then fst (RWMap_Put (propName HOST) (GetHost (bm_connectionHostInfo m))
                              (fst (RWMap_Put (propName PORT) (Itoa (Port (the (bm_connectionHostInfo m)))) props1)))
                       else props1)
         in bindP (attempt (callS (bw_CreateHostListProvider w props2))) (\<lambda>res.
              case res of Inl _ \<Rightarrow> returnP () | Inr hlp \<Rightarrow> setM (\<lambda>m. m\<lparr>bm_hostListProvider := Some hlp\<rparr>))))"

text \<open>Whether the endpoint the table names is the host the monitor is connected to.\<close>

definition check_connected_host :: "('sv, 'c, 'h) bg_world \<Rightarrow> StatusInfo \<Rightarrow> ('sv, 'c, 'h, unit) monitor_prog" where
  "check_connected_host w info =
     bindP (GetIpAddress w (si_endpoint info)) (\<lambda>ip.
     bindP (getM bm_connectedIpAddress) (\<lambda>connected.
     bindP (if connected \<noteq> '''' \<and> connected \<noteq> ip
            then bindP (setM (\<lambda>m. m\<lparr>bm_connectionHostInfo := built (SetPort (si_port info) (SetHost (si_endpoint info) NewHostInfoBuilder)),
                                    connectionHostInfoCorrect := True\<rparr>)) (\<lambda>_.
                 bindP (Monitor_CloseConnection w) (\<lambda>_. setM (\<lambda>m. m\<lparr>panicMode := True\<rparr>)))
            else setM (\<lambda>m. m\<lparr>connectionHostInfoCorrect := True, panicMode := False\<rparr>)) (\<lambda>_.
     bindP (getM bm_hostListProvider) (\<lambda>hlp. if hlp = None then InitHostListProvider w else returnP ()))))"

text \<open>The entry of the cluster or, failing that, of an instance; for a cluster the reader endpoint is a host as well.\<close>

definition find_info :: "StatusInfo list \<Rightarrow> ('sv, 'c, 'h, StatusInfo option) monitor_prog" where
  "find_info entries =
     bindP (find_endpoint IsWriterClusterDns entries) (\<lambda>cluster.
       if StatusInfo_IsZero cluster then find_endpoint IsRdsInstance entries
       else bindP (setM (put_host_name (ReplaceFirst (ToLower (si_endpoint (the cluster))) ''.cluster-'' ''.cluster-ro-''))) (\<lambda>_. returnP cluster))"

definition take_info :: "StatusInfo list \<Rightarrow> StatusInfo option \<Rightarrow> ('c, 'h) BlueGreenStatusMonitor \<Rightarrow> ('c, 'h) BlueGreenStatusMonitor" where
  "take_info entries info m =
     (if StatusInfo_IsZero info then (if entries = [] then m\<lparr>bm_currentPhase := zero_phase\<rparr> else m)
      else m\<lparr>bm_currentPhase := si_phase (the info), bm_version := si_version (the info), bm_port := si_port (the info)\<rparr>)"

definition use_info :: "('sv, 'c, 'h) bg_world \<Rightarrow> StatusInfo list \<Rightarrow> StatusInfo option \<Rightarrow> ('sv, 'c, 'h, unit) monitor_prog" where
  "use_info w entries info =
     bindP (setM (take_info entries info)) (\<lambda>_.
     bindP (getM (\<lambda>m. (collectedTopology m, connectionHostInfoCorrect m))) (\<lambda>(collect, correct).
     bindP (if collect then note_endpoints entries else returnP ()) (\<lambda>_.
       if \<not> correct \<and> \<not> StatusInfo_IsZero info then check_connected_host w (the info) else returnP ())))"

definition take_status :: "('sv, 'c, 'h) bg_world \<Rightarrow> BlueGreenResult list \<Rightarrow> ('sv, 'c, 'h, unit) monitor_prog" where
  "take_status w results =
     bindP (getM (\<lambda>m. status_entries (bm_role m) results)) (\<lambda>entries. bindP (find_info entries) (use_info w entries))"

definition errorFetchingSwitchoverMetadata :: string where
  "errorFetchingSwitchoverMetadata = ''BlueGreenDeployment.errorFetchingSwitchoverMetadata''"

text \<open>After an error of the query the results are empty and the turn goes on with them.\<close>

definition CollectStatus :: "('sv, 'c, 'h) bg_world \<Rightarrow> ('sv, 'c, 'h, unit) monitor_prog" where
  "CollectStatus w =
     bindP (getsP (\<lambda>s. if connection_usable w s then bm_connection (mon s) else None)) (\<lambda>usable.
       case usable of
         None \<Rightarrow> returnP ()
       | Some conn \<Rightarrow>
           bindP (askS (bw_IsBlueGreenStatusAvailable w conn)) (\<lambda>available.
           bindP (getsP (\<lambda>s. svc_IsClosed (bw_api w) conn (svc s))) (\<lambda>isClosed.
             if \<not> available
             then setM (\<lambda>m. if \<not> isClosed then m\<lparr>bm_currentPhase := NOT_CREATED\<rparr>
                            else m\<lparr>bm_connection := None, bm_currentPhase := zero_phase, panicMode := True\<rparr>)
             else
              bindP (attempt (getBlueGreenStatus w conn)) (\<lambda>res.
                case res of
                  Inr results \<Rightarrow> take_status w results
                | Inl err \<Rightarrow>
                    bindP (getsP (\<lambda>s. svc_IsClosed (bw_api w) conn (svc s))) (\<lambda>isClosed.
                      if \<not> isClosed \<and> Contains (error_text err) errorFetchingSwitchoverMetadata then setM (\<lambda>m. m\<lparr>bm_currentPhase := NOT_CREATED\<rparr>)
                      else bindP (Monitor_CloseConnection w) (\<lambda>_.
                           bindP (setM (\<lambda>m. m\<lparr>panicMode := True\<rparr>)) (\<lambda>_. take_status w [])))))))"

section \<open>Topology and addresses\<close>

definition CollectTopology :: "('sv, 'c, 'h) bg_world \<Rightarrow> ('sv, 'c, 'h, unit) monitor_prog" where
  "CollectTopology w =
     bindP (getsP (\<lambda>s. if connection_usable w s then bm_hostListProvider (mon s) else None)) (\<lambda>provider.
       case provider of
         None \<Rightarrow> returnP ()
       | Some hlp \<Rightarrow>
           bindP (callS (bw_ForceRefresh w hlp)) (\<lambda>topology.
             setM (\<lambda>m. case topology of
                 None \<Rightarrow> m\<lparr>bm_currentTopology := Some []\<rparr>
               | Some hosts' \<Rightarrow>
                   (let m1 = m\<lparr>bm_currentTopology := Some hosts'\<rparr>
                    in if collectedTopology m1 then fold put_host_name (map Host hosts') (m1\<lparr>bm_startTopology := hosts'\<rparr>) else m1))))"

primrec collect_addresses :: "('sv, 'c, 'h) bg_world \<Rightarrow> string list \<Rightarrow> ('sv, 'c, 'h, unit) monitor_prog" where
  "collect_addresses w [] = returnP ()"
| "collect_addresses w (host # hosts') =
     bindP (GetIpAddress w host) (\<lambda>ip.
     bindP (setM (\<lambda>m. m\<lparr>bm_currentIpAddressesByHostMap := RWMap_PutIfAbsent host ip (bm_currentIpAddressesByHostMap m)\<rparr>)) (\<lambda>_.
       collect_addresses w hosts'))"

definition CollectHostIpAddresses :: "('sv, 'c, 'h) bg_world \<Rightarrow> ('sv, 'c, 'h, unit) monitor_prog" where
  "CollectHostIpAddresses w =
     bindP (setM (\<lambda>m. m\<lparr>bm_currentIpAddressesByHostMap := fst (RWMap_Clear (bm_currentIpAddressesByHostMap m))\<rparr>)) (\<lambda>_.
     bindP (getM (\<lambda>m. map fst (RWMap_GetAllEntries (bm_hostNames m)))) (\<lambda>names.
       if names = [] then returnP ()
       else bindP (collect_addresses w names) (\<lambda>_.
              setM (\<lambda>m. if collectedIpAddresses m
                        then m\<lparr>bm_startIpAddressesByHostMap := fst (ReplaceCacheWithCopy (bm_currentIpAddressesByHostMap m) (bm_startIpAddressesByHostMap m))\<rparr>
                        else m))))"

definition start_and_current :: "('c, 'h) BlueGreenStatusMonitor \<Rightarrow> HostInfo \<Rightarrow> string option \<times> string option" where
  "start_and_current m h = (RWMap_Get (Host h) (bm_startIpAddressesByHostMap m), RWMap_Get (Host h) (bm_currentIpAddressesByHostMap m))"

definition all_addresses_changed :: "('c, 'h) BlueGreenStatusMonitor \<Rightarrow> bool" where
  "all_addresses_changed m \<longleftrightarrow> bm_startTopology m \<noteq> [] \<and>
     list_all (\<lambda>h. case start_and_current m h of (Some a, Some b) \<Rightarrow> a \<noteq> b | _ \<Rightarrow> False) (bm_startTopology m)"

definition all_endpoints_removed :: "('c, 'h) BlueGreenStatusMonitor \<Rightarrow> bool" where
  "all_endpoints_removed m \<longleftrightarrow> bm_startTopology m \<noteq> [] \<and>
     list_all (\<lambda>h. case start_and_current m h of (Some a, b) \<Rightarrow> a \<noteq> '''' \<and> (b = None \<or> b = Some '''') | _ \<Rightarrow> False) (bm_startTopology m)"

definition UpdateIpAddressFlags :: "('c, 'h) BlueGreenStatusMonitor \<Rightarrow> ('c, 'h) BlueGreenStatusMonitor" where
  "UpdateIpAddressFlags m =
     (if collectedTopology m
      then m\<lparr>bm_allStartTopologyIpChanged := False, bm_allStartTopologyEndpointsRemoved := False, bm_allTopologyChanged := False\<rparr>
      else
       (let m1 = (if \<not> collectedIpAddresses m then m\<lparr>bm_allStartTopologyIpChanged := all_addresses_changed m\<rparr> else m)
        in m1\<lparr>bm_allStartTopologyEndpointsRemoved := all_endpoints_removed m1,
              bm_allTopologyChanged := (GetCurrentTopology m1 \<noteq> [] \<and> bm_startTopology m1 \<noteq> [] \<and>
                                        HaveNoHostsInCommon (GetCurrentTopology m1) (bm_startTopology m1))\<rparr>))"

section \<open>The loop\<close>

text \<open>How long the monitor waits between two turns, in milliseconds. The wait ends early when the rate, the mode or the
  stop flag changes.\<close>

definition monitor_delay :: "('c, 'h) BlueGreenStatusMonitor \<Rightarrow> int" where
  "monitor_delay m =
     (case map_of (bm_intervals m) (if panicMode m then HIGH else GetIntervalRate m) of
        None \<Rightarrow> DEFAULT_CHECK_INTERVAL
      | Some delayMs \<Rightarrow> if delayMs = 0 then DEFAULT_CHECK_INTERVAL else delayMs)"

definition interim_report :: "('c, 'h) BlueGreenStatusMonitor \<Rightarrow> BlueGreenInterimStatus" where
  "interim_report m =
     \<lparr>is_phase = bm_currentPhase m, is_version = bm_version m, is_port = bm_port m, startTopology = bm_startTopology m,
      endTopology = GetCurrentTopology m, startIpAddressesByHostMap = RWMap_GetAllEntries (bm_startIpAddressesByHostMap m),
      currentIpAddressesByHostMap = RWMap_GetAllEntries (bm_currentIpAddressesByHostMap m), is_hostNames = RWMap_GetAllEntries (bm_hostNames m),
      allStartTopologyIpChanged = bm_allStartTopologyIpChanged m, allStartTopologyEndpointsRemoved = bm_allStartTopologyEndpointsRemoved m,
      allTopologyChanged = bm_allTopologyChanged m\<rparr>"

definition monitor_turn :: "('sv, 'c, 'h) bg_world \<Rightarrow> ('sv, 'c, 'h, unit) monitor_prog" where
  "monitor_turn w =
     bindP (OpenConnection w) (\<lambda>_.
     bindP (CollectStatus w) (\<lambda>_.
     bindP (attempt (CollectTopology w)) (\<lambda>_.
     bindP (CollectHostIpAddresses w) (\<lambda>_. setM UpdateIpAddressFlags))))"

text \<open>The deferred function at the end of the loop.\<close>

definition monitor_end :: "('sv, 'c, 'h) bg_world \<Rightarrow> ('sv, 'c, 'h, unit) monitor_prog" where
  "monitor_end w =
     bindP (Monitor_CloseConnection w) (\<lambda>_.
     bindP (getM bm_hostListProvider) (\<lambda>hlp.
     bindP (case hlp of None \<Rightarrow> returnP () | Some h \<Rightarrow> updS (bw_Release w h)) (\<lambda>_. setM (\<lambda>m. m\<lparr>bm_hostListProvider := None\<rparr>))))"

section \<open>The monitors and the provider\<close>

text \<open>A provider whose list holds the monitors, with the state of the services. In one step a monitor takes a turn and
  reports what it found, a stopped monitor cleans up after its loop, or a connection is opened with a token.\<close>

record ('sv, 'c, 'h) bg_system =
  sys_provider :: "('c, 'h, unit) BlueGreenStatusMonitor_ext BlueGreenStatusProvider"
  sys_svc :: 'sv

definition sys_monitor :: "BlueGreenRole \<Rightarrow> ('sv, 'c, 'h) bg_system \<Rightarrow> ('c, 'h) BlueGreenStatusMonitor option" where
  "sys_monitor role y = monitors (sys_provider y) ! role_value role"

definition run_of :: "('c, 'h) BlueGreenStatusMonitor \<Rightarrow> ('sv, 'c, 'h) bg_system \<Rightarrow> ('sv, 'c, 'h) monitor_run" where
  "run_of m y = \<lparr>svc = sys_svc y, clock_reads = 0, dns_caches = bg_dns (sys_provider y), mon = m\<rparr>"

definition put_run :: "BlueGreenRole \<Rightarrow> ('sv, 'c, 'h) monitor_run \<Rightarrow> ('sv, 'c, 'h) bg_system \<Rightarrow> ('sv, 'c, 'h) bg_system" where
  "put_run role s y =
     \<lparr>sys_provider = (sys_provider y)\<lparr>bg_dns := dns_caches s, monitors := (monitors (sys_provider y))[role_value role := Some (mon s)]\<rparr>,
      sys_svc = svc s\<rparr>"

datatype bg_event = BgTurn time BlueGreenRole | BgMonitorEnds BlueGreenRole | TokenUsed time string string

text \<open>A turn ends with the update of the provider, which is one step: its lock keeps the two monitors' updates apart, but not a
  reader of the published status, which may look in the middle of one.\<close>

inductive bg_step :: "('sv, 'c, 'h) bg_world \<Rightarrow> bg_event \<Rightarrow> ('sv, 'c, 'h) bg_system \<Rightarrow> ('sv, 'c, 'h) bg_system \<Rightarrow> bool" for w where
  step_turn: "role = SOURCE \<or> role = TARGET \<Longrightarrow> sys_monitor role y = Some m \<Longrightarrow> \<not> bm_stop m \<Longrightarrow> monitor_turn w (run_of m y) = (s, Inr ()) \<Longrightarrow>
    PrepareStatus t role (interim_report (mon s)) (sys_provider (put_run role s y)) = (p', Inr ()) \<Longrightarrow>
    bg_step w (BgTurn t role) y ((put_run role s y)\<lparr>sys_provider := p'\<rparr>)"
| step_end: "role = SOURCE \<or> role = TARGET \<Longrightarrow> sys_monitor role y = Some m \<Longrightarrow> bm_stop m \<Longrightarrow> monitor_end w (run_of m y) = (s, Inr ()) \<Longrightarrow>
    bg_step w (BgMonitorEnds role) y (put_run role s y)"
| step_token: "bg_step w (TokenUsed t connectHost iamHost) y (y\<lparr>sys_provider := RegisterIamHost t connectHost iamHost (sys_provider y)\<rparr>)"

section \<open>What the monitors report\<close>

definition phase_ok :: "('c, 'h) BlueGreenStatusMonitor \<Rightarrow> bool" where
  "phase_ok m \<longleftrightarrow> bm_currentPhase m \<in> set (zero_phase # known_phases)"

abbreviation run_ok :: "('sv, 'c, 'h) monitor_run \<Rightarrow> bool" where
  "run_ok s \<equiv> phase_ok (mon s)"

lemma keeps_calls_ok:
  "keeps run_ok (callS m)" "keeps run_ok (askS a)" "keeps run_ok (readS f)" "keeps run_ok (updS u)" "keeps run_ok (dnsS d)"
  by (rule keeps_calls keeps_dns; simp)+

lemma keeps_setM: "(\<And>m. phase_ok m \<Longrightarrow> phase_ok (f m)) \<Longrightarrow> keeps run_ok (setM f)"
  by (simp add: keeps_def setM_def)

lemma keeps_getM: "keeps run_ok (getM f)"
  by (simp add: getM_def)

lemmas keeps_steps = keeps_rules keeps_calls_ok keeps_getM

lemma phase_ok_other [simp]:
  "phase_ok (put_host_name h m) = phase_ok m" "phase_ok (m\<lparr>bm_connection := c, panicMode := b\<rparr>) = phase_ok m"
  "phase_ok (UpdateIpAddressFlags m) = phase_ok m"
  by (simp_all add: phase_ok_def put_host_name_def UpdateIpAddressFlags_def Let_def)

lemma keeps_bind_result:
  assumes "keeps P m" "\<And>s s' a. m s = (s', Inr a) \<Longrightarrow> R a" "\<And>a. R a \<Longrightarrow> keeps P (f a)"
  shows "keeps P (bindP m f)"
proof (rule keepsI)
  fix s
  assume "P s"
  then show "P (fst (bindP m f s))"
    by (cases rule: bindP_cases [of m s f]) (use assms in \<open>auto simp: keeps_def dest: keepsD [OF assms(1)]\<close>)
qed

lemma keeps_GetIpAddress: "keeps run_ok (GetIpAddress w host)"
  unfolding GetIpAddress_def by (intro keeps_steps)

lemma keeps_CloseConnection: "keeps run_ok (Monitor_CloseConnection w)"
  unfolding Monitor_CloseConnection_def by (intro keeps_steps keeps_setM) (simp add: phase_ok_def)

lemma keeps_cant_open: "keeps run_ok cant_open"
  unfolding cant_open_def by (rule keeps_setM) simp

lemma keeps_force_connect: "(\<And>m. phase_ok m \<Longrightarrow> phase_ok (opened m)) \<Longrightarrow> keeps run_ok (force_connect w host props opened)"
  unfolding force_connect_def by (intro keeps_steps keeps_setM keeps_cant_open) simp

lemma keeps_OpenConnection: "keeps run_ok (OpenConnection w)"
  unfolding OpenConnection_def
  by (intro keeps_steps keeps_setM keeps_force_connect keeps_GetIpAddress keeps_cant_open) (simp_all add: phase_ok_def Let_def)

lemma keeps_InitHostListProvider: "keeps run_ok (InitHostListProvider w)"
  unfolding InitHostListProvider_def Let_def by (intro keeps_steps keeps_setM) (simp add: phase_ok_def)

lemma keeps_check_connected_host: "keeps run_ok (check_connected_host w info)"
  unfolding check_connected_host_def
  by (intro keeps_steps keeps_setM keeps_GetIpAddress keeps_CloseConnection keeps_InitHostListProvider) (simp_all add: phase_ok_def)

lemma find_endpoint_result: "find_endpoint f ss s = (s', Inr a) \<Longrightarrow> a = None \<or> the a \<in> set ss"
  by (induction ss arbitrary: s) (auto simp: bindP_Inr_iff split: if_splits)

lemma keeps_find_endpoint: "keeps run_ok (find_endpoint f ss)"
proof (induction ss)
  case (Cons s ss)
  show ?case unfolding find_endpoint.simps by (intro keeps_steps Cons)
qed (simp only: find_endpoint.simps keeps_return)

lemma keeps_note_endpoints: "keeps run_ok (note_endpoints ss)"
proof (induction ss)
  case (Cons s ss)
  show ?case unfolding note_endpoints.simps by (intro keeps_steps keeps_setM Cons) simp
qed (simp only: note_endpoints.simps keeps_return)

lemma find_info_result: "find_info entries s = (s', Inr a) \<Longrightarrow> a = None \<or> the a \<in> set entries"
  by (auto simp: find_info_def bindP_Inr_iff dest: find_endpoint_result split: if_splits)

lemma keeps_find_info: "keeps run_ok (find_info entries)"
  unfolding find_info_def by (intro keeps_steps keeps_find_endpoint keeps_setM) simp

lemma status_entries_phase:
  assumes "e \<in> set (status_entries role results)"
  shows "si_phase e \<in> set (zero_phase # known_phases)"
proof -
  obtain r :: BlueGreenResult where "si_phase e = ParsePhase (res_Status r)" using assms by (auto simp: status_entries_def)
  then show ?thesis using ParsePhase_known [of "res_Status r"] by simp
qed

text \<open>A monitor only takes phases over from the table, which are known ones or none.\<close>

lemma keeps_use_info:
  assumes "info = None \<or> the info \<in> set (status_entries role results)"
  shows "keeps run_ok (use_info w entries info)"
proof -
  have "phase_ok (take_info entries info m)" if "phase_ok m" for m :: "('b, 'c) BlueGreenStatusMonitor"
    using that assms status_entries_phase [of "the info" role results] by (auto simp: take_info_def phase_ok_def StatusInfo_IsZero_def)
  then show ?thesis
    unfolding use_info_def by (intro keeps_steps keeps_setM keeps_note_endpoints keeps_check_connected_host)
qed

lemma keeps_take_status: "keeps run_ok (take_status w results)"
  unfolding take_status_def
proof (rule keeps_bind_result [OF keeps_getM])
  fix s s' entries
  assume "getM (\<lambda>m. status_entries (bm_role m) results) s = (s', Inr entries)"
  then show "\<exists>role. entries = status_entries role results" by (auto simp: getM_def)
next
  fix entries
  assume "\<exists>role. entries = status_entries role results"
  then obtain role where "entries = status_entries role results" by blast
  then show "keeps run_ok (bindP (find_info entries) (use_info w entries))"
    by (intro keeps_bind_result [OF keeps_find_info find_info_result]) (auto intro: keeps_use_info)
qed

lemma keeps_CollectStatus: "keeps run_ok (CollectStatus w)"
proof -
  have query: "keeps run_ok (getBlueGreenStatus w conn)" for conn
    unfolding getBlueGreenStatus_def by (intro keeps_steps)
  show ?thesis
    unfolding CollectStatus_def
    by (intro keeps_steps keeps_setM query keeps_take_status keeps_CloseConnection) (simp_all add: phase_ok_def known_phases_def)
qed

lemma keeps_monitor_turn: "keeps run_ok (monitor_turn w)"
proof -
  have names: "phase_ok (fold put_host_name hs m) = phase_ok m" for hs and m :: "('b, 'c) BlueGreenStatusMonitor"
    by (induction hs arbitrary: m) simp_all
  have topology: "keeps run_ok (CollectTopology w)"
    unfolding CollectTopology_def Let_def
    by (intro keeps_steps keeps_setM) (simp add: names split: option.splits, simp add: phase_ok_def)
  have addresses: "keeps run_ok (collect_addresses w hs)" for hs
  proof (induction hs)
    case (Cons h hs)
    show ?case unfolding collect_addresses.simps by (intro keeps_steps keeps_setM keeps_GetIpAddress Cons) (simp add: phase_ok_def)
  qed (simp only: collect_addresses.simps keeps_return)
  have ips: "keeps run_ok (CollectHostIpAddresses w)"
    unfolding CollectHostIpAddresses_def by (intro keeps_steps keeps_setM addresses) (simp_all add: phase_ok_def)
  show ?thesis
    unfolding monitor_turn_def by (intro keeps_steps keeps_setM keeps_OpenConnection keeps_CollectStatus topology ips) simp
qed

lemma keeps_monitor_end: "keeps run_ok (monitor_end w)"
  unfolding monitor_end_def by (intro keeps_steps keeps_setM keeps_CloseConnection) (simp add: phase_ok_def)

section \<open>The composed system\<close>

text \<open>A property of monitors that the provider's updates keep, whatever the monitors record beyond what it controls.\<close>

definition monitors_ok :: "('z monitor_control_scheme \<Rightarrow> bool) \<Rightarrow> 'z provider \<Rightarrow> bool" where
  "monitors_ok Q p \<longleftrightarrow> length (monitors p) = 2 \<and> (\<forall>m. Some m \<in> set (monitors p) \<longrightarrow> Q m)"

definition control_blind :: "('z monitor_control_scheme \<Rightarrow> bool) \<Rightarrow> bool" where
  "control_blind Q \<longleftrightarrow> (\<forall>m rate ips topology useIp. Q m \<longrightarrow>
     Q (set_control rate ips topology useIp m) \<and> Q (ResetCollectedData m) \<and> Q (m\<lparr>bm_stop := True\<rparr>))"

lemma monitors_ok_updates:
  assumes Q: "control_blind Q" and ok: "monitors_ok Q p"
  shows "(\<And>m. Q m \<Longrightarrow> Q (f m)) \<Longrightarrow> monitors_ok Q (all_monitors f p)" "role_value role < 2 \<Longrightarrow> monitors_ok Q (stop_monitor role p)"
proof -
  show "monitors_ok Q (all_monitors f p)" if "\<And>m. Q m \<Longrightarrow> Q (f m)"
  proof -
    have "Q m" if "Some m = map_option f x" "x \<in> set (monitors p)" for m x
      using that ok \<open>\<And>m. Q m \<Longrightarrow> Q (f m)\<close> by (cases x) (auto simp: monitors_ok_def)
    then show ?thesis using ok by (auto simp: monitors_ok_def all_monitors_def)
  qed
  assume role: "role_value role < 2"
  have "Q m" if m: "Some m \<in> set ((monitors p)[role_value role := map_option (\<lambda>m. m\<lparr>bm_stop := True\<rparr>) (monitors p ! role_value role)])" for m
  proof -
    consider "Some m = map_option (\<lambda>m. m\<lparr>bm_stop := True\<rparr>) (monitors p ! role_value role)" | "Some m \<in> set (monitors p)"
      using subsetD [OF set_update_subset_insert m] by blast
    then show ?thesis
    proof cases
      case 1
      then obtain m0 where "monitors p ! role_value role = Some m0" "m = m0\<lparr>bm_stop := True\<rparr>" by (cases "monitors p ! role_value role") auto
      moreover from this have "Q m0" using ok role nth_mem [of "role_value role" "monitors p"] by (auto simp: monitors_ok_def)
      ultimately show ?thesis using Q unfolding control_blind_def by blast
    qed (use ok in \<open>simp add: monitors_ok_def\<close>)
  qed
  with ok show "monitors_ok Q (stop_monitor role p)" by (simp add: monitors_ok_def stop_monitor_def)
qed

lemma UpdateMonitors_monitors: "control_blind Q \<Longrightarrow> monitors_ok Q p \<Longrightarrow> monitors_ok Q (fst (UpdateMonitors p))"
proof -
  assume Q: "control_blind Q" and ok: "monitors_ok Q p"
  have two: "role_value SOURCE < 2" by (simp add: SOURCE_def)
  note upd = monitors_ok_updates [OF Q]
  have set: "monitors_ok Q (all_monitors (set_control r a b c) p)"
    "monitors_ok Q (all_monitors (\<lambda>m. ResetCollectedData (set_control r a b c m)) p)" for r a b c
    using upd(1) [OF ok] Q by (simp_all add: control_blind_def)
  show ?thesis using ok set upd(2) [OF set(2) two] by (simp add: UpdateMonitors_def Let_def)
qed

lemma ResetContext_monitors: "control_blind Q \<Longrightarrow> monitors_ok Q p \<Longrightarrow> monitors_ok Q (ResetContextWhenCompleted p)"
proof -
  assume Q: "control_blind Q" and ok: "monitors_ok Q p"
  have two: "role_value TARGET < 2" by (simp add: TARGET_def)
  have "monitors_ok Q (stop_monitor TARGET q)" if "monitors q = monitors p" for q
  proof -
    have "monitors_ok Q q" using ok that by (simp add: monitors_ok_def)
    from monitors_ok_updates(2) [OF Q this two] show ?thesis .
  qed
  then show ?thesis using ok by (simp add: ResetContextWhenCompleted_def Let_def)
qed

lemma PrepareStatus_monitors:
  assumes Q: "control_blind Q" and ok: "monitors_ok Q p"
  shows "monitors_ok Q (fst (PrepareStatus t role st p))"
proof -
  let ?P = "monitors_ok Q"
  have blind: "pairing_blind ?P" by (simp add: pairing_blind_def monitors_ok_def)
  have times: "?P (StorePhaseTime t phase q) = ?P q" "?P (UpdateDnsFlags t role st q) = ?P q" "?P (StartSwitchoverTimer t q) = ?P q"
    "?P (q\<lparr>summaryStatus := s\<rparr>) = ?P q" "?P (q\<lparr>bg_storage := b\<rparr>) = ?P q" for phase s b q
    by (simp_all add: monitors_ok_def StorePhaseTime_def PutIfAbsentPhaseTime_def UpdateDnsFlags_def StartSwitchoverTimer_def Let_def
        StoreBlueDnsUpdateTime_def StoreGreenDnsRemoveTime_def StoreGreenTopologyChangeTime_def)
  have store: "?P (fst (bindP m (\<lambda>s. modifyP (\<lambda>p. p\<lparr>summaryStatus := s\<rparr>)) q))" if "keeps ?P m" "?P q" for m q
    using keepsD [OF that] by (auto simp: bindP_def times split: prod.splits sum.splits)
  have summary: "keeps ?P (UpdateSummaryStatus t role st)"
    by (rule keepsI) (simp add: UpdateSummaryStatus_def Let_def store keeps_statuses [OF blind] times)
  have monitors: "keeps ?P UpdateMonitors" by (rule keepsI) (rule UpdateMonitors_monitors [OF Q])
  have publish: "keeps ?P (publish_update t)"
    unfolding publish_update_def
    by (intro keeps_rules monitors keeps_modify ResetContext_monitors [OF Q]) (simp add: updateStatusCache_def times)
  have "keeps ?P (apply_report t role st)"
    unfolding apply_report_def
    by (intro keeps_rules keeps_updateCorrespondingHosts [OF blind] summary publish)
  moreover have "?P (take_report role st h c (UpdatePhase role st p))" for h c
    using ok by (simp add: monitors_ok_def take_report_def UpdatePhase_def Let_def)
  ultimately show ?thesis using ok by (simp add: PrepareStatus_def Let_def keeps_def)
qed

definition system_ok :: "('sv, 'c, 'h) bg_system \<Rightarrow> bool" where
  "system_ok y \<longleftrightarrow> bg_inv (sys_provider y) \<and> monitors_ok phase_ok (sys_provider y)"

lemma phase_ok_control: "control_blind phase_ok"
  by (simp add: control_blind_def phase_ok_def set_control_def SetIntervalRate_def ResetCollectedData_def)

lemma put_run_ok:
  assumes "system_ok y" "role_value role < 2" "phase_ok (mon s)"
  shows "system_ok (put_run role s y)"
proof -
  have "bg_inv (p\<lparr>bg_dns := d, monitors := ms\<rparr>) = bg_inv p" for d ms and p :: "('b, 'c, unit) BlueGreenStatusMonitor_ext provider"
    by (simp add: bg_inv_def progress_def times_ok_def)
  moreover have "phase_ok m" if "Some m \<in> set ((monitors (sys_provider y))[role_value role := Some (mon s)])" for m
    using that assms set_update_subset_insert [of "monitors (sys_provider y)" "role_value role" "Some (mon s)"]
    by (auto simp: system_ok_def monitors_ok_def)
  ultimately show ?thesis using assms by (simp add: put_run_def system_ok_def monitors_ok_def)
qed

lemma interim_report_phase: "is_phase (interim_report m) = bm_currentPhase m"
  by (simp add: interim_report_def)

lemma RegisterIamHost_monitors: "monitors (RegisterIamHost t connectHost iamHost p) = monitors p"
  by (simp add: RegisterIamHost_def note_iam_host_def Let_def StoreGreenHostChangeNameTime_def PutIfAbsentPhaseTime_def)

lemma role_value_two: "role = SOURCE \<or> role = TARGET \<Longrightarrow> role_value role < 2"
  by (auto simp: role_defs)

lemma sys_monitor_ok:
  assumes "system_ok y" "role_value role < 2" "sys_monitor role y = Some m"
  shows "run_ok (run_of m y)"
  using assms nth_mem [of "role_value role" "monitors (sys_provider y)"] by (simp add: system_ok_def monitors_ok_def sys_monitor_def run_of_def)

interpretation bg_system: kept_by_steps "bg_step w" "\<lambda>_. True" system_ok for w
proof
  fix e y y'
  assume "bg_step w e y y'" "system_ok y"
  then show "system_ok y'"
  proof cases
    case (step_turn role m s t p')
    note two = role_value_two [OF step_turn(3)]
    have ok: "run_ok s" using keepsD [OF keeps_monitor_turn sys_monitor_ok [OF \<open>system_ok y\<close> two step_turn(4)], of w] step_turn(6) by simp
    note sys = put_run_ok [OF \<open>system_ok y\<close> two ok]
    have "is_phase (interim_report (mon s)) \<in> set (zero_phase # known_phases)" using ok by (simp add: interim_report_phase phase_ok_def)
    then have "bg_inv p'" using PrepareStatus_inv [OF _ two _ step_turn(7)] sys by (simp add: system_ok_def)
    moreover have "monitors_ok phase_ok p'"
      using PrepareStatus_monitors [OF phase_ok_control, of "sys_provider (put_run role s y)" t role "interim_report (mon s)"] sys step_turn(7)
      by (simp add: system_ok_def)
    ultimately show ?thesis using step_turn(2) by (simp add: system_ok_def)
  next
    case (step_end role m s)
    note two = role_value_two [OF step_end(3)]
    have "run_ok s" using keepsD [OF keeps_monitor_end sys_monitor_ok [OF \<open>system_ok y\<close> two step_end(4)], of w] step_end(6) by simp
    then show ?thesis using put_run_ok [OF \<open>system_ok y\<close> two] step_end(2) by simp
  next
    case (step_token t connectHost iamHost)
    then show ?thesis using \<open>system_ok y\<close> by (simp add: system_ok_def monitors_ok_def RegisterIamHost_monitors RegisterIamHost_inv)
  qed
qed

text \<open>The system as the provider's constructor leaves it: both monitors wait for their first turn.\<close>

definition new_system ::
  "bool \<Rightarrow> (string, unit) ExpiringStorage \<Rightarrow> rds_state \<Rightarrow> HostInfo option \<Rightarrow> (BlueGreenIntervalRate, int) gomap \<Rightarrow> props \<Rightarrow> string \<Rightarrow> 'sv
     \<Rightarrow> ('sv, 'c, 'h) bg_system" where
  "new_system supported storageService dns currentHost intervals props newId sv =
     \<lparr>sys_provider = NewBlueGreenStatusProvider (\<lambda>role ps. NewBlueGreenStatusMonitor role newId currentHost ps intervals)
        supported storageService dns props newId, sys_svc = sv\<rparr>"

lemma new_system_ok: "system_ok (new_system supported storageService dns currentHost intervals props newId sv)"
  by (simp add: system_ok_def new_system_def bg_inv_New)
    (simp add: monitors_ok_def NewBlueGreenStatusProvider_def NewBlueGreenStatusMonitor_def phase_ok_def known_phases_def Let_def)

lemma unfinished_update_unpublished:
  assumes "map_option currentPhase (published_status now_t p) \<noteq> Some COMPLETED"
  shows "map_option currentPhase (published_status now_t (fst (updateCorrespondingHosts (take_report role st h c (UpdatePhase role st p))))) \<noteq> Some COMPLETED"
proof -
  let ?P = "\<lambda>p. map_option currentPhase (published_status now_t p) \<noteq> Some COMPLETED"
  have blind: "pairing_blind ?P" by (simp add: pairing_blind_def published_status_def cacheKey_def)
  have "?P (take_report role st h c (UpdatePhase role st p))"
    using assms by (simp add: take_report_def UpdatePhase_def Let_def published_status_def cacheKey_def)
  then show ?thesis by (rule keepsD [OF keeps_updateCorrespondingHosts [OF blind] _ prod.collapse [symmetric]])
qed

text \<open>C11: However the turns of the two monitors, their ends and the connections with tokens follow each other, and whatever
  the status table, the name servers and the host list answer: a reader of the storage does not find a completed switchover
  between two updates of the provider, nor during one as long as the report is taken in and the corresponding hosts are worked
  out. The phase is in the shared summary only from \<open>UpdateSummaryStatus\<close> to the reset at the end of the update that
  reaches it.\<close>

theorem system_never_completed:
  assumes "runs (bg_step w) es (new_system supported storageService dns currentHost intervals props newId sv) y"
  shows "map_option currentPhase (published_status t (sys_provider y)) \<noteq> Some COMPLETED \<and>
    map_option currentPhase (published_status t
      (fst (updateCorrespondingHosts (take_report role st h c (UpdatePhase role st (sys_provider y)))))) \<noteq> Some COMPLETED"
proof -
  have "system_ok y" by (rule bg_system.runs_keep [OF assms _ new_system_ok]) simp
  then have "map_option currentPhase (published_status t (sys_provider y)) \<noteq> Some COMPLETED"
    by (auto simp: system_ok_def bg_inv_def published_status_def)
  then show ?thesis using unfinished_update_unpublished by blast
qed

text \<open>A cluster without the status table: the monitor connects and finds no deployment.\<close>

definition bare_world :: "(nat, nat, nat) bg_world" where
  "bare_world = \<lparr>bw_api = lab_api, bw_IsBlueGreenStatusAvailable = (\<lambda>_ s. (s, False)), bw_QueryStatus = (\<lambda>_ s. (s, None)),
     bw_ParseString = (\<lambda>_. ('''', False)), bw_ParseInt64 = (\<lambda>_. (0, False)), bw_LookupIP = (\<lambda>_ s. (s, [''10.0.0.1''])),
     bw_CreateHostListProvider = (\<lambda>_. returnP 0), bw_ForceRefresh = (\<lambda>_. returnP None), bw_Release = (\<lambda>_ s. s)\<rparr>"

definition bare_system :: "(nat, nat, nat) bg_system" where
  "bare_system = new_system True lab_storage \<lparr>cachedDnsRegexp = [], cachedDnsPatterns = [], prepareHostFunc = None\<rparr>
     (Some (small_host ''a'' 5 WRITER)) [] NewRWMap ''1'' 0"

definition bare_monitor :: "(nat, nat) BlueGreenStatusMonitor" where
  "bare_monitor = NewBlueGreenStatusMonitor SOURCE ''1'' (Some (small_host ''a'' 5 WRITER)) (GetMonitoringProperties NewRWMap) []"

definition bare_turn :: "(nat, nat, nat) monitor_run" where
  "bare_turn = (run_of bare_monitor bare_system)\<lparr>mon := bare_monitor\<lparr>bm_connection := Some 1, panicMode := False,
     bm_connectionHostInfo := Some (small_host ''a'' 5 WRITER), bm_connectedIpAddress := ''10.0.0.1''\<rparr>\<rparr>"

lemma bare_monitor_turn: "monitor_turn bare_world (run_of bare_monitor bare_system) = (bare_turn, Inr ())"
  by (simp add: monitor_turn_def OpenConnection_def connection_usable_def setM_def getM_def bindP_def attempt_def run_of_def bare_monitor_def
      NewBlueGreenStatusMonitor_def bare_world_def force_connect_def GetIpAddress_def built_def small_host_def CopyFrom_def Build_def checkHostIsSet_def askS_def callS_def NewRWMap_def RWMap_defs RWMap_GetAllEntries_def all_addresses_changed_def all_endpoints_removed_def GetCurrentTopology_def lab_api_def
      CollectStatus_def CollectTopology_def CollectHostIpAddresses_def UpdateIpAddressFlags_def Let_def bare_turn_def)

lemma bare_report:
  "snd (PrepareStatus 5 SOURCE (interim_report (mon bare_turn)) (sys_provider (put_run SOURCE bare_turn bare_system))) = Inr ()"
  by (simp add: provider_eval interim_report_def bare_turn_def bare_monitor_def NewBlueGreenStatusMonitor_def put_run_def bare_system_def new_system_def
      NewBlueGreenStatusProvider_def zero_interim_def GetCurrentTopology_def)

lemma system_never_completed_witness:
  "map_option currentPhase (published_status 5 (fst (PrepareStatus 5 SOURCE (interim_report (mon bare_turn)) (sys_provider (put_run SOURCE bare_turn bare_system)))))
     \<noteq> Some COMPLETED"
proof -
  let ?y = "put_run SOURCE bare_turn bare_system"
  let ?p = "fst (PrepareStatus 5 SOURCE (interim_report (mon bare_turn)) (sys_provider ?y))"
  have monitor: "sys_monitor SOURCE bare_system = Some bare_monitor" "\<not> bm_stop bare_monitor"
    by (simp_all add: sys_monitor_def bare_system_def new_system_def NewBlueGreenStatusProvider_def Let_def role_defs bare_monitor_def NewBlueGreenStatusMonitor_def)
  have "PrepareStatus 5 SOURCE (interim_report (mon bare_turn)) (sys_provider ?y) = (?p, Inr ())" using bare_report by (metis prod.collapse)
  from step_turn [OF disjI1 [OF refl] monitor bare_monitor_turn this]
  have run: "runs (bg_step bare_world) [BgTurn 5 SOURCE] bare_system (?y\<lparr>sys_provider := ?p\<rparr>)" by auto
  show ?thesis using system_never_completed [OF run [unfolded bare_system_def], of 5] by (simp add: bare_system_def del: map_option_eq_Some)
qed

end
