(* ===== verification/Bg_Plugin.thy ===== *)
theory Bg_Plugin
  imports Bg_Provider Failover Go_Loops Host_Monitoring
begin

text \<open>
  Routing connections and methods during a switchover: the routings of \<open>awssql/plugins/bg/base_routing.go\<close>,
  \<open>connect_routing.go\<close> and \<open>execute_routing.go\<close> and the plugin \<open>bg_plugin.go\<close>. The status is published by another
  goroutine: \<open>bs_status n\<close> is what the \<open>n\<close>-th reading of the storage leads to, as \<open>bs_clock\<close> gives the readings of the
  clock. The storage holds a pointer to the summary the provider keeps changing; where the code keeps the pointer and looks
  through it later, \<open>bs_live n\<close> is what it then finds. Sleeping leaves the state alone. A call that waits may not return, which is \<open>None\<close>. Telemetry contexts and
  messages are left out.
\<close>

section \<open>State and surroundings\<close>

text \<open>\<open>svc_Connect\<close> of \<open>bs_api\<close> skips this plugin, \<open>bs_ConnectAll\<close> does not; \<open>bs_Register\<close> is \<open>RegisterIamHost\<close> of the
  provider that made a routing, \<open>bs_supplier\<close> makes a provider.\<close>

record ('sv, 'c, 'p) bg_surroundings =
  bs_api :: "('sv, 'c) PluginServiceApi"
  bs_clock :: "nat \<Rightarrow> time"
  bs_status :: "nat \<Rightarrow> BlueGreenStatus option"
  bs_live :: "nat \<Rightarrow> BlueGreenStatus"
  bs_ConnectAll :: "HostInfo \<Rightarrow> props \<Rightarrow> ('sv, 'c option) prog"
  bs_IsIamInUse :: bool
  bs_Register :: "string \<Rightarrow> string \<Rightarrow> 'sv \<Rightarrow> 'sv"
  bs_supplier :: "'sv \<Rightarrow> 'sv \<times> 'p"

text \<open>\<open>bg_providers\<close> is the package's map of providers, which are never nil.\<close>

record ('sv, 'p) BlueGreenPlugin = "'sv plugin_frame" +
  pl_bgId :: string
  pl_props :: props
  bgStatus :: "BlueGreenStatus option"
  isIamInUse :: bool
  pl_startTime :: int
  pl_endTime :: int
  status_reads :: nat
  bg_providers :: "(string, 'p) RWMap"

type_synonym ('sv, 'p, 'z) bg_plugin = "('sv, 'p, 'z) BlueGreenPlugin_scheme"

definition NewBlueGreenPlugin ::
  "'sv \<Rightarrow> rds_state \<Rightarrow> (string, 'p) RWMap \<Rightarrow> props \<Rightarrow> go_error + ('sv, 'p) BlueGreenPlugin" where
  "NewBlueGreenPlugin sv dns allProviders props =
     (let newId = as_string (GetVerifiedWrapperPropertyValue (Some props) BGD_ID)
      in if newId = '''' then Inl (NewGenericAwsWrapperError ''BlueGreenDeployment.bgIdRequired'')
         else Inr \<lparr>svc = sv, clock_reads = 0, dns_caches = dns, pl_bgId = newId, pl_props = props, bgStatus = None, isIamInUse = False,
                   pl_startTime = 0, pl_endTime = 0, status_reads = 0, bg_providers = allProviders\<rparr>)"

definition bgSubscribedMethods :: "string list" where
  "bgSubscribedMethods = NETWORK_BOUND_METHODS @ [CONNECT_METHOD]"

definition read_status :: "('sv, 'c, 'p) bg_surroundings \<Rightarrow> ('sv, 'p, 'z) bg_plugin \<Rightarrow> ('sv, 'p, 'z) bg_plugin \<times> BlueGreenStatus option" where
  "read_status env p = (p\<lparr>status_reads := Suc (status_reads p)\<rparr>, bs_status env (status_reads p))"

text \<open>A look through a pointer that is not nil.\<close>

definition live_status :: "('sv, 'c, 'p) bg_surroundings \<Rightarrow> ('sv, 'p, 'z) bg_plugin \<Rightarrow> ('sv, 'p, 'z) bg_plugin \<times> BlueGreenStatus" where
  "live_status env p = (p\<lparr>status_reads := Suc (status_reads p)\<rparr>, bs_live env (status_reads p))"

definition tick_clock :: "('sv, 'p, 'z) bg_plugin \<Rightarrow> ('sv, 'p, 'z) bg_plugin" where
  "tick_clock p = p\<lparr>clock_reads := Suc (clock_reads p)\<rparr>"

definition time_now :: "('sv, 'c, 'p) bg_surroundings \<Rightarrow> ('sv, 'p, 'z) bg_plugin \<Rightarrow> time" where
  "time_now env p = bs_clock env (clock_reads p)"

section \<open>Waiting\<close>

definition SLEEP_TIME_DURATION :: duration where "SLEEP_TIME_DURATION = 100 * 1000000"

text \<open>A delay ends early when the status is no longer the one it was started with.\<close>

definition delay_turn ::
  "('sv, 'c, 'p) bg_surroundings \<Rightarrow> BlueGreenStatus \<Rightarrow> time \<Rightarrow> BlueGreenStatus option \<Rightarrow> ('sv, 'p, 'z) bg_plugin
     \<Rightarrow> (('sv, 'p, 'z) bg_plugin \<times> (BlueGreenStatus option + unit)) option" where
  "delay_turn env st until status p =
     (case status of
        None \<Rightarrow> Some (p, Inr ())
      | Some s \<Rightarrow>
          if \<not> MatchIdPhaseAndLen st s then Some (p, Inr ())
          else if time_now env p < until then (let (p', s') = read_status env (tick_clock p) in Some (p', Inl s'))
          else Some (tick_clock p, Inr ()))"

definition Delay :: "('sv, 'c, 'p) bg_surroundings \<Rightarrow> duration \<Rightarrow> BlueGreenStatus \<Rightarrow> ('sv, 'p, 'z) bg_plugin \<Rightarrow> (('sv, 'p, 'z) bg_plugin \<times> unit) option" where
  "Delay env delayNanos st p =
     (let until = time_now env p + delayNanos; p1 = tick_clock p
      in if Status_IsZero st then Some (p1, ())
         else (let (p2, status) = read_status env p1 in loopP (delay_turn env st until) status p2))"

definition in_progress :: "BlueGreenStatus option \<Rightarrow> bool" where
  "in_progress status = (case status of None \<Rightarrow> False | Some s \<Rightarrow> currentPhase s = IN_PROGRESS)"

text \<open>The loop of the two suspending routings: the pointer is read before the loop, and every turn looks through it, once for the phase
  and once for the copy the delay compares with. \<open>known\<close>: it is not nil.\<close>

definition hold_turn ::
  "('sv, 'c, 'p) bg_surroundings \<Rightarrow> bool \<Rightarrow> time \<Rightarrow> unit \<Rightarrow> ('sv, 'p, 'z) bg_plugin
     \<Rightarrow> (('sv, 'p, 'z) bg_plugin \<times> (unit + unit)) option" where
  "hold_turn env known until _ p =
     (let p1 = tick_clock p
      in if time_now env p < until \<and> known
         then (let (p2, live) = live_status env p1
               in if currentPhase live = IN_PROGRESS
                  then (let (p3, copy) = live_status env p2
                        in Option.bind (Delay env SLEEP_TIME_DURATION copy p3) (\<lambda>(p4, _). Some (p4, Inl ())))
                  else Some (p2, Inr ()))
         else Some (p1, Inr ()))"

definition connect_timeout :: "props \<Rightarrow> duration" where
  "connect_timeout props = 1000000 * as_int (GetVerifiedWrapperPropertyValue (Some props) BG_CONNECT_TIMEOUT_MS)"

text \<open>Waiting and the status found afterwards.\<close>

definition hold_until ::
  "('sv, 'c, 'p) bg_surroundings \<Rightarrow> props \<Rightarrow> ('sv, 'p, 'z) bg_plugin \<Rightarrow> (('sv, 'p, 'z) bg_plugin \<times> BlueGreenStatus option) option" where
  "hold_until env props p =
     (let (p1, status) = read_status env p; until = time_now env p1 + connect_timeout props
      in Option.bind (loopP (hold_turn env (status \<noteq> None) until) () (tick_clock p1)) (\<lambda>(p2, _). Some (read_status env p2)))"

section \<open>Connect routings\<close>

definition iam_props :: "HostInfo \<Rightarrow> props \<Rightarrow> props" where
  "iam_props iamHost props =
     (let rerouteProps = fst (RWMap_Put (propName IAM_HOST) (Host iamHost) (NewRWMapFromCopy (Some props)))
      in if IsPortSpecified (Some iamHost) then fst (RWMap_Put (propName IAM_DEFAULT_PORT) (Itoa (Port iamHost)) rerouteProps) else rerouteProps)"

definition rerouted_host :: "HostInfo option \<Rightarrow> HostInfo \<Rightarrow> HostInfo option" where
  "rerouted_host substitute iamHost =
     (if GetHost substitute = ''''
      then built (SetAvailability AVAILABLE (SetHostId (HostId iamHost) (SetHost (Host iamHost) NewHostInfoBuilder)))
      else (case AddAlias (built (SetAvailability AVAILABLE (SetHostId (HostId iamHost) (CopyFrom substitute NewHostInfoBuilder)))) (Host iamHost) of
              Inl _ \<Rightarrow> None | Inr h \<Rightarrow> h))"

primrec try_iam_hosts ::
  "('sv, 'c, 'p) bg_surroundings \<Rightarrow> HostInfo option \<Rightarrow> string option \<Rightarrow> props \<Rightarrow> HostInfo option list
     \<Rightarrow> (('sv, 'p, 'z) BlueGreenPlugin_scheme, 'c option) prog" where
  "try_iam_hosts env substitute notify props [] =
     failP (NewGenericAwsWrapperError ''BlueGreenDeployment.inProgressCantOpenConnection'')"
| "try_iam_hosts env substitute notify props (h # hs) =
     (case h of
        None \<Rightarrow> try_iam_hosts env substitute notify props hs
      | Some iamHost \<Rightarrow>
          (case rerouted_host substitute iamHost of
             None \<Rightarrow> failP nil_dereference
           | Some rerouted \<Rightarrow>
               bindP (attempt (callS (bs_ConnectAll env rerouted (iam_props iamHost props)))) (\<lambda>res.
                 case res of
                   Inl _ \<Rightarrow> try_iam_hosts env substitute notify props hs
                 | Inr conn \<Rightarrow>
                     bindP (case notify of None \<Rightarrow> returnP () | Some green \<Rightarrow> updS (bs_Register env green (Host iamHost))) (\<lambda>_. returnP conn))))"

text \<open>The provider makes no substitution without a host.\<close>

definition Substitute_Apply ::
  "('sv, 'c, 'p) bg_surroundings \<Rightarrow> HostInfo option \<Rightarrow> HostInfo option list \<Rightarrow> string option \<Rightarrow> props
     \<Rightarrow> (('sv, 'p, 'z) BlueGreenPlugin_scheme, 'c option) prog" where
  "Substitute_Apply env substitute iamHosts notify props =
     (if IsIP (GetHost substitute) \<or> \<not> bs_IsIamInUse env
      then (case substitute of None \<Rightarrow> failP nil_dereference | Some h \<Rightarrow> callS (svc_Connect (bs_api env) h props))
      else if iamHosts = [] then failP (NewGenericAwsWrapperError ''BlueGreenDeployment.requireIamHost'')
      else try_iam_hosts env substitute notify props iamHosts)"

definition Suspend_Apply ::
  "('sv, 'c, 'p) bg_surroundings \<Rightarrow> props \<Rightarrow> ('sv, 'p, 'z) bg_plugin \<Rightarrow> (('sv, 'p, 'z) bg_plugin \<times> (go_error + 'c option)) option" where
  "Suspend_Apply env props p =
     map_option (\<lambda>(p', status). (p', Inl (NewGenericAwsWrapperError
         (if in_progress status then ''BlueGreenDeployment.inProgressTryConnectLater''
          else ''BlueGreenDeployment.switchoverCompleteContinueWithConnect''))))
       (hold_until env props p)"

definition found_pair :: "string \<Rightarrow> BlueGreenStatus option \<Rightarrow> host_pair option \<Rightarrow> host_pair option" where
  "found_pair host status pair = (case status of None \<Rightarrow> pair | Some s \<Rightarrow> map_of (GetCorrespondingHosts s) host)"

definition until_found_turn ::
  "('sv, 'c, 'p) bg_surroundings \<Rightarrow> string \<Rightarrow> time \<Rightarrow> bool \<times> host_pair option \<Rightarrow> ('sv, 'p, 'z) bg_plugin
     \<Rightarrow> (('sv, 'p, 'z) bg_plugin \<times> ((bool \<times> host_pair option) + bool)) option" where
  "until_found_turn env host until = (\<lambda>(known, pair) p.
     let p1 = tick_clock p
     in if time_now env p < until \<and> known
        then (let (p2, live) = live_status env p1
              in if currentPhase live \<noteq> COMPLETED \<and> IsNil (GetRight None pair)
                 then (let (p3, copy) = live_status env p2
                       in Option.bind (Delay env SLEEP_TIME_DURATION copy p3) (\<lambda>(p4, _).
                            let (p5, status) = read_status env p4 in Some (p5, Inl (status \<noteq> None, found_pair host status pair))))
                 else Some (p2, Inr known))
        else Some (p1, Inr known))"

definition SuspendUntilFound_Apply ::
  "('sv, 'c, 'p) bg_surroundings \<Rightarrow> HostInfo \<Rightarrow> props \<Rightarrow> ('sv, 'p, 'z) bg_plugin \<Rightarrow> (('sv, 'p, 'z) bg_plugin \<times> (go_error + 'c option)) option" where
  "SuspendUntilFound_Apply env hostInfo props p =
     (let completed = Inl (NewGenericAwsWrapperError ''BlueGreenDeployment.completedContinueWithConnect'');
          (p1, status) = read_status env p; pair = found_pair (Host hostInfo) status None; until = time_now env p1 + connect_timeout props
      in map_option (\<lambda>(p2, known).
           if \<not> known then (p2, completed)
           else (let (p3, live) = live_status env p2
                 in if currentPhase live = COMPLETED then (p3, completed)
                    else (tick_clock p3, if until < time_now env p3
                          then Inl (NewGenericAwsWrapperError ''BlueGreenDeployment.correspondingHostNotFoundTryConnectLater'') else Inr None)))
         (loopP (until_found_turn env (Host hostInfo) until) (status \<noteq> None, pair) (tick_clock p1)))"

primrec Connect_Apply ::
  "('sv, 'c, 'p) bg_surroundings \<Rightarrow> HostInfo \<Rightarrow> props \<Rightarrow> ConnectRouting \<Rightarrow> ('sv, 'p, 'z) bg_plugin
     \<Rightarrow> (('sv, 'p, 'z) bg_plugin \<times> (go_error + 'c option)) option" where
  "Connect_Apply env hostInfo props (RejectConnectRouting b) = (\<lambda>p. Some (p, Inl (NewGenericAwsWrapperError ''BlueGreenDeployment.inProgressCantConnect'')))"
| "Connect_Apply env hostInfo props (SubstituteConnectRouting h iamHosts notify b) = (\<lambda>p. Some (Substitute_Apply env h iamHosts notify props p))"
| "Connect_Apply env hostInfo props (SuspendConnectRouting i b) = Suspend_Apply env props"
| "Connect_Apply env hostInfo props (SuspendUntilCorrespondingHostFoundConnectRouting i b) = SuspendUntilFound_Apply env hostInfo props"

text \<open>\<open>RoutingResultHolder\<close>: the only result a routing sets is an error; the empty holder is \<open>None\<close>.\<close>

definition Execute_Apply ::
  "('sv, 'c, 'p) bg_surroundings \<Rightarrow> props \<Rightarrow> ExecuteRouting \<Rightarrow> ('sv, 'p, 'z) bg_plugin \<Rightarrow> (('sv, 'p, 'z) bg_plugin \<times> go_error option) option" where
  "Execute_Apply env props routing p =
     map_option (\<lambda>(p', status).
         (p', if in_progress status then Some (NewGenericAwsWrapperError ''BlueGreenDeployment.inProgressTryMethodLater'') else None))
       (hold_until env props p)"

section \<open>The plugin\<close>

definition resetRoutingTimeNano :: "('sv, 'p, 'z) bg_plugin \<Rightarrow> ('sv, 'p, 'z) bg_plugin" where
  "resetRoutingTimeNano p = p\<lparr>pl_startTime := 0, pl_endTime := 0\<rparr>"

text \<open>Times of the clock are nanoseconds; \<open>Unix()\<close> counts seconds.\<close>

definition seconds :: "time \<Rightarrow> int" where
  "seconds t = t div 1000000000"

definition mark_end :: "('sv, 'c, 'p) bg_surroundings \<Rightarrow> ('sv, 'p, 'z) bg_plugin \<Rightarrow> ('sv, 'p, 'z) bg_plugin" where
  "mark_end env p =
     (if 0 < pl_startTime p
      then (let p1 = tick_clock p in if pl_endTime p = 0 then p1\<lparr>pl_endTime := seconds (time_now env p)\<rparr> else p1)
      else p)"

definition initProvider :: "('sv, 'c, 'p) bg_surroundings \<Rightarrow> ('sv, 'p, 'z) bg_plugin \<Rightarrow> ('sv, 'p, 'z) bg_plugin" where
  "initProvider env p =
     (if RWMap_Get (pl_bgId p) (bg_providers p) = None
      then (let (v, provider) = bs_supplier env (svc p)
            in p\<lparr>svc := v, bg_providers := fst (RWMap_Put (pl_bgId p) provider (bg_providers p))\<rparr>)
      else p)"

definition regularOpenConnection ::
  "('sv, 'c, 'p) bg_surroundings \<Rightarrow> (props \<Rightarrow> ('sv, 'c option) prog) \<Rightarrow> bool \<Rightarrow> props \<Rightarrow> ('sv, 'p, 'z) bg_plugin
     \<Rightarrow> ('sv, 'p, 'z) bg_plugin \<times> (go_error + 'c option)" where
  "regularOpenConnection env connectFunc isInitialConnection props p =
     (let (p1, res) = callS (connectFunc props) p in (if isInitialConnection then initProvider env p1 else p1, res))"

text \<open>How the loop over the routings ends: with a connection, with the status gone, or with no routing left.\<close>

datatype 'c route_end = Routed 'c | StatusGone | NoRouting

definition matching_routes :: "HostInfo \<Rightarrow> BlueGreenRole \<Rightarrow> BlueGreenStatus \<Rightarrow> ConnectRouting list" where
  "matching_routes hostInfo hostRole st = FilterSlice (connectRoutings st) (Connect_IsMatch (Some hostInfo) hostRole)"

definition connect_turn ::
  "('sv, 'c, 'p) bg_surroundings \<Rightarrow> HostInfo \<Rightarrow> BlueGreenRole \<Rightarrow> props \<Rightarrow> ConnectRouting \<Rightarrow> ('sv, 'p, 'z) bg_plugin
     \<Rightarrow> (('sv, 'p, 'z) bg_plugin \<times> (ConnectRouting + go_error + 'c route_end)) option" where
  "connect_turn env hostInfo hostRole props routing p =
     Option.bind (Connect_Apply env hostInfo props routing p) (\<lambda>(p1, res).
       case res of
         Inl (Panic e) \<Rightarrow> Some (p1, Inr (Inl (Panic e)))
       | Inr (Some conn) \<Rightarrow> Some (p1, Inr (Inr (Routed conn)))
       | _ \<Rightarrow>
           (let (p2, status) = read_status env p1; p3 = p2\<lparr>bgStatus := status\<rparr>
            in (case status of
                  None \<Rightarrow> Some (p3, Inr (Inr StatusGone))
                | Some st \<Rightarrow>
                    (case matching_routes hostInfo hostRole st of
                       [] \<Rightarrow> Some (p3, Inr (Inr NoRouting))
                     | next # _ \<Rightarrow> Some (p3, Inl next)))))"

definition Bg_Connect ::
  "('sv, 'c, 'p) bg_surroundings \<Rightarrow> HostInfo \<Rightarrow> props \<Rightarrow> bool \<Rightarrow> (props \<Rightarrow> ('sv, 'c option) prog) \<Rightarrow> ('sv, 'p, 'z) bg_plugin
     \<Rightarrow> (('sv, 'p, 'z) bg_plugin \<times> (go_error + 'c option)) option" where
  "Bg_Connect env hostInfo props isInitialConnection connectFunc p =
     (let regular = (\<lambda>p. regularOpenConnection env connectFunc isInitialConnection (pl_props p) p);
          (p1, status) = read_status env (resetRoutingTimeNano p);
          p2 = p1\<lparr>bgStatus := status\<rparr>
      in map_option (\<lambda>(p', res). (mark_end env p', res))
        (case status of
           None \<Rightarrow> Some (regular p2)
         | Some st \<Rightarrow>
            (let p3 = (if isInitialConnection then p2\<lparr>isIamInUse := bs_IsIamInUse env\<rparr> else p2)
             in (case Status_GetRole (Some hostInfo) st of
                   None \<Rightarrow> Some (regular p3)
                 | Some hostRole \<Rightarrow>
                    if Role_IsZero hostRole then Some (regular p3)
                    else (case matching_routes hostInfo hostRole st of
                            [] \<Rightarrow> Some (regular p3)
                          | routing # _ \<Rightarrow>
                             Option.bind (loopP (connect_turn env hostInfo hostRole props) routing
                                            ((tick_clock p3)\<lparr>pl_startTime := time_now env p3\<rparr>)) (\<lambda>(p4, result).
                               case result of
                                 Inl err \<Rightarrow> Some (p4, Inl err)
                               | Inr StatusGone \<Rightarrow> Some (regular ((tick_clock p4)\<lparr>pl_endTime := seconds (time_now env p4)\<rparr>))
                               | Inr ending \<Rightarrow>
                                   (let (p5, res) = (case ending of Routed conn \<Rightarrow> (p4, Inr (Some conn)) | _ \<Rightarrow> callS (connectFunc props) p4)
                                    in Some (if isInitialConnection then initProvider env p5 else p5, res))))))))"

datatype held_end = Timed_out go_error | Held_status_gone | No_hold

definition matching_holds :: "HostInfo \<Rightarrow> BlueGreenRole \<Rightarrow> BlueGreenStatus \<Rightarrow> ExecuteRouting list" where
  "matching_holds hostInfo hostRole st = FilterSlice (executeRoutings st) (Execute_IsMatch (Some hostInfo) hostRole)"

definition execute_turn ::
  "('sv, 'c, 'p) bg_surroundings \<Rightarrow> HostInfo \<Rightarrow> BlueGreenRole \<Rightarrow> ExecuteRouting \<Rightarrow> ('sv, 'p, 'z) bg_plugin
     \<Rightarrow> (('sv, 'p, 'z) bg_plugin \<times> (ExecuteRouting + held_end)) option" where
  "execute_turn env hostInfo hostRole routing p =
     Option.bind (Execute_Apply env (pl_props p) routing p) (\<lambda>(p1, res).
       case res of
         Some err \<Rightarrow> Some (p1, Inr (Timed_out err))
       | None \<Rightarrow>
           (let (p2, status) = read_status env p1; p3 = p2\<lparr>bgStatus := status\<rparr>
            in (case status of
                  None \<Rightarrow> Some (p3, Inr Held_status_gone)
                | Some st \<Rightarrow>
                    (case matching_holds hostInfo hostRole st of
                       [] \<Rightarrow> Some (p3, Inr No_hold)
                     | next # _ \<Rightarrow> Some (p3, Inl next)))))"

text \<open>The method runs on the state of the service; \<open>'v\<close> is what it returns.\<close>

definition Bg_Execute ::
  "('sv, 'c, 'p) bg_surroundings \<Rightarrow> string \<Rightarrow> ('sv, 'v) prog \<Rightarrow> ('sv, 'p, 'z) bg_plugin \<Rightarrow> (('sv, 'p, 'z) bg_plugin \<times> (go_error + 'v)) option" where
  "Bg_Execute env methodName executeFunc p =
     (let p1 = initProvider env (resetRoutingTimeNano p)
      in map_option (\<lambda>(p', res). (mark_end env p', res))
        (if methodName \<in> set CLOSING_METHODS then Some (callS executeFunc p1)
         else
          (let (p2, status) = read_status env p1; p3 = p2\<lparr>bgStatus := status\<rparr>
           in (case status of
                 None \<Rightarrow> Some (callS executeFunc p3)
               | Some st \<Rightarrow>
                  (case callS (svc_GetCurrentHostInfo (bs_api env)) p3 of
                     (p4, Inl (Panic e)) \<Rightarrow> Some (p4, Inl (Panic e))
                   | (p4, Inl _) \<Rightarrow> Some (callS executeFunc p4)
                   | (p4, Inr hostInfo) \<Rightarrow>
                      (case Status_GetRole (Some hostInfo) st of
                         None \<Rightarrow> Some (callS executeFunc p4)
                       | Some hostRole \<Rightarrow>
                          if Role_IsZero hostRole then Some (callS executeFunc p4)
                          else (case matching_holds hostInfo hostRole st of
                                  [] \<Rightarrow> Some (callS executeFunc p4)
                                | routing # _ \<Rightarrow>
                                   Option.bind (loopP (execute_turn env hostInfo hostRole) routing
                                                  ((tick_clock p4)\<lparr>pl_startTime := time_now env p4\<rparr>)) (\<lambda>(p5, ending).
                                     let p6 = (tick_clock p5)\<lparr>pl_endTime := time_now env p5\<rparr>
                                     in Some (case ending of Timed_out err \<Rightarrow> (p6, Inl err) | _ \<Rightarrow> callS executeFunc p6)))))))))"

text \<open>The time a call was held: for a call to \<open>Connect\<close> the end is in seconds and the start in nanoseconds.\<close>

definition GetHoldTimeNano :: "('sv, 'c, 'p) bg_surroundings \<Rightarrow> ('sv, 'p, 'z) bg_plugin \<Rightarrow> duration" where
  "GetHoldTimeNano env p =
     (if pl_startTime p = 0 then 0
      else if pl_endTime p = 0 then seconds (time_now env p) - pl_startTime p
      else pl_endTime p - pl_startTime p)"

section \<open>Waiting comes to an end\<close>

text \<open>What waiting does: the clock and the status are read, nothing else.\<close>

definition waited :: "('sv, 'p, 'z) bg_plugin \<Rightarrow> ('sv, 'p, 'z) bg_plugin \<Rightarrow> bool" where
  "waited p p' \<longleftrightarrow> (\<exists>c s. p' = p\<lparr>clock_reads := c, status_reads := s\<rparr> \<and> clock_reads p \<le> c)"

lemma waited_refl [simp]: "waited p p"
  unfolding waited_def by (rule exI [of _ "clock_reads p"], rule exI [of _ "status_reads p"]) simp

lemma waited_trans: "waited p q \<Longrightarrow> waited q r \<Longrightarrow> waited p r"
proof -
  assume "waited p q" "waited q r"
  then obtain c s c' s' where "q = p\<lparr>clock_reads := c, status_reads := s\<rparr>" "clock_reads p \<le> c"
    and "r = q\<lparr>clock_reads := c', status_reads := s'\<rparr>" "clock_reads q \<le> c'" unfolding waited_def by blast
  then have "r = p\<lparr>clock_reads := c', status_reads := s'\<rparr>" "clock_reads p \<le> c'" by simp_all
  then show "waited p r" unfolding waited_def by blast
qed

lemma waited_steps [simp]: "waited p (tick_clock p)" "waited p (p\<lparr>clock_reads := Suc (clock_reads p), status_reads := s\<rparr>)" "waited p (p\<lparr>status_reads := s\<rparr>)"
proof -
  have same: "p\<lparr>clock_reads := clock_reads p\<rparr> = p" "p\<lparr>status_reads := status_reads p\<rparr> = p" by simp_all
  show "waited p (tick_clock p)"
    unfolding waited_def tick_clock_def by (rule exI [of _ "Suc (clock_reads p)"], rule exI [of _ "status_reads p"]) simp
  show "waited p (p\<lparr>clock_reads := Suc (clock_reads p), status_reads := s\<rparr>)" unfolding waited_def by fastforce
  show "waited p (p\<lparr>status_reads := s\<rparr>)"
    unfolding waited_def by (rule exI [of _ "clock_reads p"], rule exI [of _ s]) simp
qed

lemma tick_fields [simp]:
  "clock_reads (tick_clock p) = Suc (clock_reads p)" "status_reads (tick_clock p) = status_reads p" "svc (tick_clock p) = svc p"
  "pl_props (tick_clock p) = pl_props p"
  by (simp_all add: tick_clock_def)

lemma tick_read: "tick_clock (p\<lparr>status_reads := n\<rparr>) = p\<lparr>clock_reads := Suc (clock_reads p), status_reads := n\<rparr>"
  by (cases p) (simp add: tick_clock_def)

lemma waited_fields:
  assumes "waited p p'"
  shows "svc p' = svc p" "pl_props p' = pl_props p" "clock_reads p \<le> clock_reads p'" "pl_startTime p' = pl_startTime p" "bg_providers p' = bg_providers p"
  using assms by (auto simp: waited_def)

lemma delay_turn_step:
  obtains p' r where "delay_turn env st until status p = Some (p', r)" "waited p p'"
    "\<And>s. r = Inl s \<Longrightarrow> time_now env p < until \<and> clock_reads p' = Suc (clock_reads p)"
proof (cases "status \<noteq> None \<and> MatchIdPhaseAndLen st (the status) \<and> time_now env p < until")
  case True
  then show ?thesis
    using that [of "p\<lparr>clock_reads := Suc (clock_reads p), status_reads := Suc (status_reads p)\<rparr>" "Inl (bs_status env (status_reads p))"]
    by (auto simp: delay_turn_def read_status_def tick_clock_def)
next
  case False
  then have "delay_turn env st until status p \<in> {Some (p, Inr ()), Some (tick_clock p, Inr ())}"
    by (cases status) (auto simp: delay_turn_def)
  then show ?thesis using that [of p "Inr ()"] that [of "tick_clock p" "Inr ()"] by auto
qed

lemma Delay_returns:
  assumes "advancing (bs_clock env)"
  obtains p' where "Delay env d st p = Some (p', ())" "waited p p'" "clock_reads p < clock_reads p'"
proof (cases "Status_IsZero st")
  case True
  then show ?thesis using that [of "tick_clock p"] by (simp add: Delay_def)
next
  case False
  let ?until = "time_now env p + d"
  let ?p2 = "p\<lparr>clock_reads := Suc (clock_reads p), status_reads := Suc (status_reads p)\<rparr>"
  have start: "Delay env d st p = loopP (delay_turn env st ?until) (bs_status env (status_reads p)) ?p2"
    using False by (simp add: Delay_def read_status_def tick_clock_def)
  obtain N where N: "\<And>n. N \<le> n \<Longrightarrow> ?until \<le> bs_clock env n" using assms unfolding advancing_def by meson
  have "\<exists>r. loopP (delay_turn env st ?until) (bs_status env (status_reads p)) ?p2 = Some r"
  proof (rule loopP_returns [where I = "\<lambda>_ _. True" and measure_of = "\<lambda>_ q. N - clock_reads q"])
    fix status and q :: "('a, 'c, 'd) bg_plugin"
    obtain q' r where turn: "delay_turn env st ?until status q = Some (q', r)"
      and more: "\<And>s. r = Inl s \<Longrightarrow> time_now env q < ?until \<and> clock_reads q' = Suc (clock_reads q)"
      by (rule delay_turn_step [of env st ?until status q]) blast
    have "N - clock_reads q' < N - clock_reads q" if "r = Inl s" for s
      using more [OF that] N [of "clock_reads q"] by (fastforce simp: time_now_def not_less [symmetric])
    with turn show "\<exists>q' r. delay_turn env st ?until status q = Some (q', r) \<and>
        (\<forall>s. r = Inl s \<longrightarrow> True \<and> N - clock_reads q' < N - clock_reads q)" by blast
  qed simp
  then obtain p' where p': "loopP (delay_turn env st ?until) (bs_status env (status_reads p)) ?p2 = Some (p', ())" by auto
  have end_of_loop: "waited ?p2 p'"
  proof (rule loopP_inv [where I = "\<lambda>_ q. waited ?p2 q" and Q = "\<lambda>_ q. waited ?p2 q", OF _ _ p'])
    fix status q q' s
    assume "waited ?p2 q" "delay_turn env st ?until status q = Some (q', Inl s)"
    then show "waited ?p2 q'" using delay_turn_step [of env st ?until status q] waited_trans by (metis fst_conv option.inject)
  next
    fix status q q' s
    assume "waited ?p2 q" "delay_turn env st ?until status q = Some (q', Inr s)"
    then show "waited ?p2 q'" using delay_turn_step [of env st ?until status q] waited_trans by (metis fst_conv option.inject)
  qed simp
  then have "waited p p'" by (rule waited_trans [OF waited_steps(2)])
  then show ?thesis using that [of p'] start p' waited_fields(3) [OF end_of_loop] by simp
qed

lemma hold_turn_step:
  assumes "advancing (bs_clock env)"
  obtains p' r where "hold_turn env known until u p = Some (p', r)" "waited p p'" "clock_reads p < clock_reads p'"
    "\<And>v. r = Inl v \<Longrightarrow> time_now env p < until"
    "\<And>v. r = Inr v \<Longrightarrow> known \<Longrightarrow> \<forall>n. currentPhase (bs_live env n) = IN_PROGRESS \<Longrightarrow> until \<le> bs_clock env (clock_reads p' - 1)"
proof -
  let ?p1 = "p\<lparr>clock_reads := Suc (clock_reads p), status_reads := Suc (status_reads p)\<rparr>"
  let ?p2 = "p\<lparr>clock_reads := Suc (clock_reads p), status_reads := Suc (Suc (status_reads p))\<rparr>"
  consider (over) "\<not> (time_now env p < until \<and> known)" | (ended) "time_now env p < until \<and> known" "currentPhase (bs_live env (status_reads p)) \<noteq> IN_PROGRESS"
    | (held) "time_now env p < until \<and> known" "currentPhase (bs_live env (status_reads p)) = IN_PROGRESS" by blast
  then show ?thesis
  proof cases
    case over
    then show ?thesis using that [of "tick_clock p" "Inr ()"] by (auto simp: hold_turn_def time_now_def)
  next
    case ended
    then show ?thesis using that [of ?p1 "Inr ()"] by (auto simp: hold_turn_def live_status_def tick_clock_def)
  next
    case held
    obtain p' where d: "Delay env SLEEP_TIME_DURATION (bs_live env (Suc (status_reads p))) ?p2 = Some (p', ())" "waited ?p2 p'"
      by (rule Delay_returns [OF assms])
    moreover have "clock_reads p < clock_reads p'" using waited_fields(3) [OF d(2)] by simp
    moreover have "waited p p'" by (rule waited_trans [OF waited_steps(2) d(2)])
    moreover have "hold_turn env known until u p = Some (p', Inl ())" using held d(1) by (simp add: hold_turn_def live_status_def tick_clock_def)
    ultimately show ?thesis using that [of p' "Inl ()"] held by simp
  qed
qed

text \<open>A suspended call returns and does nothing but read the clock and the status. If there was a status and it says at every look
  that the switchover is in progress, the whole timeout passes.\<close>

lemma hold_until_returns:
  assumes "advancing (bs_clock env)"
  obtains p' n where "hold_until env props p = Some (p', bs_status env n)" "waited p p'"
    "bs_status env (status_reads p) \<noteq> None \<Longrightarrow> \<forall>n. currentPhase (bs_live env n) = IN_PROGRESS \<Longrightarrow>
       clock_reads p < clock_reads p' - 1 \<and> time_now env p + connect_timeout props \<le> bs_clock env (clock_reads p' - 1)"
proof -
  let ?known = "bs_status env (status_reads p) \<noteq> None"
  let ?until = "time_now env p + connect_timeout props"
  let ?p1 = "p\<lparr>clock_reads := Suc (clock_reads p), status_reads := Suc (status_reads p)\<rparr>"
  let ?loop = "loopP (hold_turn env ?known ?until) () ?p1"
  obtain N where N: "\<And>n. N \<le> n \<Longrightarrow> ?until \<le> bs_clock env n" using assms unfolding advancing_def by meson
  have "\<exists>r. ?loop = Some r"
  proof (rule loopP_returns [where I = "\<lambda>_ _. True" and measure_of = "\<lambda>_ q. N - clock_reads q"])
    fix u and q :: "('a, 'c, 'd) bg_plugin"
    obtain q' r where turn: "hold_turn env ?known ?until u q = Some (q', r)" "clock_reads q < clock_reads q'"
      and more: "\<And>v. r = Inl v \<Longrightarrow> time_now env q < ?until"
      by (rule hold_turn_step [OF assms, of ?known ?until u q]) blast
    have "N - clock_reads q' < N - clock_reads q" if "r = Inl v" for v
      using more [OF that] N [of "clock_reads q"] turn(2) by (fastforce simp: time_now_def not_less [symmetric])
    with turn show "\<exists>q' r. hold_turn env ?known ?until u q = Some (q', r) \<and>
        (\<forall>v. r = Inl v \<longrightarrow> True \<and> N - clock_reads q' < N - clock_reads q)" by blast
  qed simp
  then obtain p2 where p2: "?loop = Some (p2, ())" by auto
  let ?Q = "\<lambda>q. waited ?p1 q \<and> clock_reads ?p1 < clock_reads q \<and>
    (?known \<longrightarrow> (\<forall>n. currentPhase (bs_live env n) = IN_PROGRESS) \<longrightarrow> ?until \<le> bs_clock env (clock_reads q - 1))"
  have "?Q p2"
  proof (rule loopP_inv [where I = "\<lambda>_ q. waited ?p1 q" and Q = "\<lambda>_ q. ?Q q", OF _ _ p2])
    fix u q q' v
    assume "waited ?p1 q" "hold_turn env ?known ?until u q = Some (q', Inl v)"
    then show "waited ?p1 q'" using hold_turn_step [OF assms, of ?known ?until u q] waited_trans by (metis fst_conv option.inject)
  next
    fix u q q' v
    assume q: "waited ?p1 q" "hold_turn env ?known ?until u q = Some (q', Inr v)"
    obtain q'' r where "hold_turn env ?known ?until u q = Some (q'', r)" "waited q q''" "clock_reads q < clock_reads q''"
      "\<And>v. r = Inr v \<Longrightarrow> ?known \<Longrightarrow> \<forall>n. currentPhase (bs_live env n) = IN_PROGRESS \<Longrightarrow> ?until \<le> bs_clock env (clock_reads q'' - 1)"
      by (rule hold_turn_step [OF assms, of ?known ?until u q]) blast
    with q waited_trans [OF q(1)] waited_fields(3) [OF q(1)] show "?Q q'" by fastforce
  qed simp
  moreover have "waited p ?p1" by simp
  ultimately have "waited p (p2\<lparr>status_reads := Suc (status_reads p2)\<rparr>)" using waited_trans waited_steps(3) by blast
  moreover have "hold_until env props p = Some (p2\<lparr>status_reads := Suc (status_reads p2)\<rparr>, bs_status env (status_reads p2))"
    using p2 by (simp add: hold_until_def read_status_def tick_read time_now_def)
  ultimately show ?thesis using that \<open>?Q p2\<close> by fastforce
qed

section \<open>While a switchover is in progress\<close>

lemma GetStatusOfInProgress_status:
  assumes "GetStatusOfInProgress t prov = (prov', Inr st)" "\<not> IsSwitchoverTimerExpired t prov"
  obtains cs where "in_progress_connects prov = Inr cs" "st = status_with IN_PROGRESS cs (in_progress_executes prov) prov"
  using assms by (auto simp: GetStatusOfInProgress_def bindR_Inr_iff)

text \<open>Every method on a host of the deployment has a routing that holds it.\<close>

lemma methods_have_hold:
  assumes "hostRole = SOURCE \<or> hostRole = TARGET"
  obtains r rs where "matching_holds h hostRole (status_with phase cs (in_progress_executes prov) prov) = r # rs"
  using assms that
  by (auto simp: matching_holds_def status_with_def NewBgStatus_def in_progress_executes_def FilterSlice_def Execute_IsMatch_def
      NewSuspendExecuteRouting_def Base_IsMatch_role)

lemma substitute_blue_role: "substitute_blue es p = Inr rs \<Longrightarrow> r \<in> set rs \<Longrightarrow> r_role (connect_base r) = SOURCE"
  by (induction es arbitrary: rs)
    (auto simp: bindR_Inr_iff for_host_and_port_def NewSubstituteConnectRouting_def NewBaseRouting_def Let_def split: option.splits if_splits)

text \<open>So has every connection to a green host, and to a blue one if that is asked for.\<close>

lemma connects_have_hold:
  assumes cs: "in_progress_connects prov = Inr cs"
    and role: "hostRole = TARGET \<or> hostRole = SOURCE \<and> suspendNewBlueConnectionsWhenInProgress prov"
  obtains i b rs where "matching_routes h hostRole (status_with phase cs es prov) = SuspendConnectRouting i b # rs"
proof -
  have match: "Connect_IsMatch (Some h) r (NewSuspendConnectRouting '''' r' i) \<longleftrightarrow> r' = r" if "r' = SOURCE \<or> r' = TARGET" for r r' i
    using that by (auto simp: Connect_IsMatch_def NewSuspendConnectRouting_def Base_IsMatch_role)
  note routes = matching_routes_def status_with_def NewBgStatus_def FilterSlice_def
  show thesis
  proof (cases "suspendNewBlueConnectionsWhenInProgress prov")
    case True
    then obtain rest where "cs = NewSuspendConnectRouting '''' SOURCE (bgdId prov) # NewSuspendConnectRouting '''' TARGET (bgdId prov) # rest"
      using cs by (auto simp: in_progress_connects_def bindR_Inr_iff)
    then show thesis using that role match by (auto simp: routes NewSuspendConnectRouting_def)
  next
    case False
    then obtain subs rest where subs: "AddSubstituteBlueWithIpAddressConnectRouting prov = Inr subs"
      and eq: "cs = subs @ NewSuspendConnectRouting '''' TARGET (bgdId prov) # rest"
      using cs by (auto simp: in_progress_connects_def bindR_Inr_iff)
    have "filter (Connect_IsMatch (Some h) TARGET) subs = []"
      using substitute_blue_role [OF subs [unfolded AddSubstituteBlueWithIpAddressConnectRouting_def]]
      by (auto simp: filter_empty_conv Connect_IsMatch_def Base_IsMatch_def Let_def)
    then show thesis using that role match False eq by (auto simp: routes NewSuspendConnectRouting_def)
  qed
qed

lemma mark_end_svc [simp]: "svc (mark_end env p) = svc p"
  by (simp add: mark_end_def Let_def)

lemma held_method:
  assumes clock: "advancing (bs_clock env)" and held: "\<And>n. in_progress (bs_status env n)" and live: "\<forall>n. currentPhase (bs_live env n) = IN_PROGRESS"
  obtains p' where "execute_turn env h hostRole routing p =
      Some (p', Inr (Timed_out (NewGenericAwsWrapperError ''BlueGreenDeployment.inProgressTryMethodLater'')))" "waited p p'"
    "clock_reads p < clock_reads p' - 1" "bs_clock env (clock_reads p) + connect_timeout (pl_props p) \<le> bs_clock env (clock_reads p' - 1)"
proof -
  have known: "bs_status env (status_reads p) \<noteq> None" using held [of "status_reads p"] by (auto simp: in_progress_def split: option.splits)
  obtain p' n where "hold_until env (pl_props p) p = Some (p', bs_status env n)" "waited p p'"
    "clock_reads p < clock_reads p' - 1 \<and> time_now env p + connect_timeout (pl_props p) \<le> bs_clock env (clock_reads p' - 1)"
    using hold_until_returns [OF clock, of "pl_props p" p] known live by blast
  then show thesis using that [of p'] held [of n] by (simp add: execute_turn_def Execute_Apply_def time_now_def)
qed

text \<open>C12: While the status of a switchover in progress is published, and says so at every look, no method but one that closes something
  is run on a connection to a host of the deployment: the call is held for the whole timeout, so that two of the times it
  reads are that far apart, it ends with an error, and the services are as they were.\<close>

theorem in_progress_methods_held:
  assumes clock: "advancing (bs_clock env)"
    and status: "GetStatusOfInProgress t prov = (prov', Inr st)" "\<not> IsSwitchoverTimerExpired t prov" "\<forall>n. bs_status env n = Some st"
      "\<forall>n. currentPhase (bs_live env n) = IN_PROGRESS"
    and open_method: "methodName \<notin> set CLOSING_METHODS"
    and current: "svc_GetCurrentHostInfo (bs_api env) (svc (initProvider env (resetRoutingTimeNano p))) = (v, Inr host)"
    and role: "Status_GetRole (Some host) st = Some hostRole" "hostRole = SOURCE \<or> hostRole = TARGET"
  shows "\<exists>p' start k. Bg_Execute env methodName executeFunc p =
           Some (p', Inl (NewGenericAwsWrapperError ''BlueGreenDeployment.inProgressTryMethodLater'')) \<and> svc p' = v \<and>
           clock_reads p \<le> start \<and> start < k \<and> k < clock_reads p' \<and> bs_clock env start + connect_timeout (pl_props p) \<le> bs_clock env k"
proof -
  obtain cs where st: "st = status_with IN_PROGRESS cs (in_progress_executes prov) prov"
    by (rule GetStatusOfInProgress_status [OF status(1,2)])
  then have held: "\<And>n. in_progress (bs_status env n)" using status(3) by (simp add: in_progress_def)
  obtain r rs where r: "matching_holds host hostRole st = r # rs" using methods_have_hold [OF role(2)] unfolding st by blast
  define p1 where "p1 = initProvider env (resetRoutingTimeNano p)"
  define p4 where "p4 = p1\<lparr>status_reads := Suc (status_reads p1), bgStatus := Some st, svc := v\<rparr>"
  let ?p5 = "(tick_clock p4)\<lparr>pl_startTime := time_now env p4\<rparr>"
  have p1: "clock_reads p1 = clock_reads p" "pl_props p1 = pl_props p"
    by (simp_all add: p1_def initProvider_def resetRoutingTimeNano_def split: prod.splits)
  obtain p6 where turn: "execute_turn env host hostRole r ?p5 =
      Some (p6, Inr (Timed_out (NewGenericAwsWrapperError ''BlueGreenDeployment.inProgressTryMethodLater'')))"
    and same: "waited ?p5 p6" and time: "clock_reads ?p5 < clock_reads p6 - 1"
      "bs_clock env (clock_reads ?p5) + connect_timeout (pl_props ?p5) \<le> bs_clock env (clock_reads p6 - 1)"
    by (rule held_method [OF clock held status(4)])
  let ?p7 = "mark_end env ((tick_clock p6)\<lparr>pl_endTime := time_now env p6\<rparr>)"
  have "\<not> Role_IsZero hostRole" using role(2) by auto
  then have run: "Bg_Execute env methodName executeFunc p =
      Some (?p7, Inl (NewGenericAwsWrapperError ''BlueGreenDeployment.inProgressTryMethodLater''))"
    using open_method status(3) current role(1) r loopP_turn(2) [of "execute_turn env host hostRole", OF turn]
    by (simp add: Bg_Execute_def p1_def [symmetric] read_status_def callS_def p4_def)
  have "svc ?p7 = v" using waited_fields(1) [OF same] by (simp add: p4_def)
  moreover have "clock_reads p6 - 1 < clock_reads ?p7" using time(1) by (auto simp: mark_end_def Let_def)
  moreover have "clock_reads p \<le> clock_reads ?p5" by (simp add: p4_def p1)
  moreover have "pl_props ?p5 = pl_props p" by (simp add: p4_def p1)
  ultimately show ?thesis using run time by (intro exI [of _ ?p7] exI [of _ "clock_reads ?p5"] exI [of _ "clock_reads p6 - 1"]) simp
qed

lemma suspend_never_routes:
  assumes "advancing (bs_clock env)" "\<And>n. bs_status env n = Some st" "matching_routes h hostRole st = SuspendConnectRouting i b # rs"
  obtains p' where "connect_turn env h hostRole props (SuspendConnectRouting j c) p = Some (p', Inl (SuspendConnectRouting i b))"
proof -
  obtain p' n where "hold_until env props p = Some (p', bs_status env n)" by (rule hold_until_returns [OF assms(1)])
  then show thesis
    using that assms(2,3) by (simp add: connect_turn_def Suspend_Apply_def read_status_def NewGenericAwsWrapperError_def)
qed

lemma suspend_hangs:
  assumes "advancing (bs_clock env)" "\<And>n. bs_status env n = Some st" "matching_routes h hostRole st = SuspendConnectRouting i b # rs"
  shows "loopP (connect_turn env h hostRole props) (SuspendConnectRouting i b) q = None"
proof (rule ccontr)
  assume "loopP (connect_turn env h hostRole props) (SuspendConnectRouting i b) q \<noteq> None"
  then obtain q' r where run: "loopP (connect_turn env h hostRole props) (SuspendConnectRouting i b) q = Some (q', r)" by auto
  show False
  proof (rule loopP_inv [where I = "\<lambda>routing _. routing = SuspendConnectRouting i b" and Q = "\<lambda>_ _. False", OF _ _ run])
    fix routing q q' r'
    assume "routing = SuspendConnectRouting i b" "connect_turn env h hostRole props routing q = Some (q', Inl r')"
    then show "r' = SuspendConnectRouting i b"
      using suspend_never_routes [OF assms, of props i b q] by (metis old.sum.inject(1) option.inject prod.inject)
  next
    fix routing q q' r'
    assume "routing = SuspendConnectRouting i b" "connect_turn env h hostRole props routing q = Some (q', Inr r')"
    then show False using suspend_never_routes [OF assms, of props i b q] by (metis option.inject prod.inject sum.distinct(1))
  qed simp
qed

text \<open>C35: The timeout does not bound a suspended connection. As long as every read of the stored status finds the same
  switchover in progress, \<open>Connect\<close> to a green host, or to a blue host if new blue connections are to be suspended
  (\<open>bgSuspendNewBlueConnections\<close>, off by default), does not return: the routing gives up after the timeout, the plugin
  drops the error, finds the same status and applies the routing again.\<close>

theorem suspended_connect_never_times_out:
  assumes clock: "advancing (bs_clock env)"
    and status: "GetStatusOfInProgress t prov = (prov', Inr st)" "\<not> IsSwitchoverTimerExpired t prov" "\<forall>n. bs_status env n = Some st"
    and role: "Status_GetRole (Some host) st = Some hostRole"
      "hostRole = TARGET \<or> hostRole = SOURCE \<and> suspendNewBlueConnectionsWhenInProgress prov"
  shows "Bg_Connect env host props isInitialConnection connectFunc p = None"
proof -
  obtain cs where cs: "in_progress_connects prov = Inr cs" and st: "st = status_with IN_PROGRESS cs (in_progress_executes prov) prov"
    by (rule GetStatusOfInProgress_status [OF status(1,2)])
  obtain i b rs where first: "matching_routes host hostRole st = SuspendConnectRouting i b # rs"
    using connects_have_hold [OF cs role(2)] unfolding st by blast
  have same: "\<And>n. bs_status env n = Some st" using status(3) by blast
  have "\<not> Role_IsZero hostRole" using role(2) by auto
  then show ?thesis
    using same role(1) first by (simp add: Bg_Connect_def read_status_def Let_def suspend_hangs [OF clock same first])
qed

section \<open>Examples\<close>

text \<open>A provider in the middle of a switchover, with one green host.\<close>

definition switching_provider :: "unit provider" where
  "switching_provider = lab_provider\<lparr>latestStatusPhase := IN_PROGRESS, suspendNewBlueConnectionsWhenInProgress := False, roleByHost := NewRWMapFromMap [(''a'', TARGET)]\<rparr>"

definition switching_status :: BlueGreenStatus where
  "switching_status = status_with IN_PROGRESS [NewSuspendConnectRouting '''' TARGET ''1''] (in_progress_executes switching_provider) switching_provider"

lemma switching:
  "GetStatusOfInProgress 1 switching_provider = (switching_provider, Inr switching_status)" "\<not> IsSwitchoverTimerExpired 1 switching_provider"
  by (simp_all add: GetStatusOfInProgress_def IsSwitchoverTimerExpired_def switching_provider_def switching_status_def lab_provider_def
      NewBlueGreenStatusProvider_def Let_def in_progress_connects_def AddSubstituteBlueWithIpAddressConnectRouting_def RWMap_GetAllEntries_def
      NewRWMapFromMap_def NewRWMap_def mput_def RWMap_Get_def getUniqueIpAddresses_def)

definition lab_env :: "(nat, nat, unit) bg_surroundings" where
  "lab_env = \<lparr>bs_api = lab_api, bs_clock = int, bs_status = (\<lambda>_. Some switching_status), bs_live = (\<lambda>_. switching_status), bs_ConnectAll = (\<lambda>_ _ s. (s, Inr (Some 1))),
     bs_IsIamInUse = False, bs_Register = (\<lambda>_ _ s. s), bs_supplier = (\<lambda>s. (s, ()))\<rparr>"

definition lab_bg_plugin :: "(nat, unit) BlueGreenPlugin" where
  "lab_bg_plugin = \<lparr>svc = 7, clock_reads = 0, dns_caches = fresh_state None, pl_bgId = ''1'', pl_props = NewRWMap, bgStatus = None, isIamInUse = False,
     pl_startTime = 0, pl_endTime = 0, status_reads = 0, bg_providers = NewRWMap\<rparr>"

lemma lab_env_simps [simp]:
  "bs_api lab_env = lab_api" "bs_clock lab_env = int" "bs_status lab_env n = Some switching_status"
  "bs_live lab_env n = switching_status"
  by (simp_all add: lab_env_def)

lemma switching_role: "Status_GetRole (Some (small_host ''a'' 5 WRITER)) switching_status = Some TARGET"
proof -
  have "ToLower ''a'' = ''a''" by code_simp
  then show ?thesis
    by (simp add: Status_GetRole_def IsNil_def small_host_def switching_status_def status_with_def NewBgStatus_def switching_provider_def GetHost_def
        NewRWMapFromMap_def RWMap_Get_def)
qed

lemma in_progress_methods_held_witness:
  "\<exists>p' start k. Bg_Execute lab_env ''Conn.QueryContext'' (\<lambda>s. (s + 1, Inr ())) lab_bg_plugin =
     Some (p', Inl (NewGenericAwsWrapperError ''BlueGreenDeployment.inProgressTryMethodLater'')) \<and> svc p' = 7 \<and>
     start < k \<and> k < clock_reads p' \<and> int start + connect_timeout NewRWMap \<le> int k"
proof -
  have "advancing (bs_clock lab_env)" using advancing_int by simp
  moreover have "\<forall>n. bs_status lab_env n = Some switching_status" by simp
  moreover have "\<forall>n. currentPhase (bs_live lab_env n) = IN_PROGRESS" by (simp add: switching_status_def)
  moreover have "''Conn.QueryContext'' \<notin> set CLOSING_METHODS" by (simp add: CLOSING_METHODS_def)
  moreover have "svc_GetCurrentHostInfo (bs_api lab_env) (svc (initProvider lab_env (resetRoutingTimeNano lab_bg_plugin))) = (7, Inr (small_host ''a'' 5 WRITER))"
    by (simp add: lab_api_def initProvider_def resetRoutingTimeNano_def lab_bg_plugin_def NewRWMap_def RWMap_Get_def) (simp add: lab_env_def)
  moreover have "pl_props lab_bg_plugin = NewRWMap" by (simp add: lab_bg_plugin_def)
  ultimately show ?thesis
    using in_progress_methods_held [of lab_env 1 switching_provider switching_provider switching_status "''Conn.QueryContext''" lab_bg_plugin 7
        "small_host ''a'' 5 WRITER" TARGET "\<lambda>s. (s + 1, Inr ())"] switching switching_role by auto
qed

lemma suspended_connect_never_times_out_witness:
  "Bg_Connect lab_env (small_host ''a'' 5 WRITER) NewRWMap False (\<lambda>_ s. (s, Inr (Some 1))) lab_bg_plugin = None"
  by (rule suspended_connect_never_times_out [OF _ switching _ switching_role]) (simp_all add: advancing_int)

end
