(* ===== verification/Initial_Connection.thy ===== *)
theory Initial_Connection
  imports Gdb_Failover Plugin_Manager
begin

text \<open>
  The first connection to a cluster endpoint: \<open>awssql/plugins/aurora_initial_connection_strategy_plugin.go\<close>. The plugin
  connects to an instance of the role the endpoint stands for and checks the role of what it got, until a deadline; then
  it gives up and connects to the endpoint as it is. A turn of its loops is a program; sleeping between two turns leaves
  the state alone. A connect function that returns no error returns a connection; messages are left out.
\<close>

section \<open>State\<close>

definition verifiedOpenedConnectionTypeFromString :: "string \<Rightarrow> HostRole" where
  "verifiedOpenedConnectionTypeFromString s =
     (if ToLower (TrimSpace s) = role_string WRITER then WRITER
      else if ToLower (TrimSpace s) = role_string READER then READER
      else UNKNOWN)"

record initial_settings =
  verifyOpenConnectionType :: HostRole
  retryDelayMs :: int
  retryTimeoutMs :: int

text \<open>\<open>hasHostListService\<close>: the host list provider service has been set by \<open>InitHostProvider\<close>.\<close>

record 'sv InitialConnectionPlugin = "'sv plugin_frame" +
  hasHostListService :: bool

type_synonym ('sv, 'z, 'a) initial_prog = "(('sv, 'z) InitialConnectionPlugin_scheme, 'a) prog"

definition NewAuroraInitialConnectionStrategyPlugin :: "props \<Rightarrow> go_error + initial_settings" where
  "NewAuroraInitialConnectionStrategyPlugin props =
     bindR (GetPositiveIntProperty (Some props) INITIAL_CONNECTION_RETRY_INTERVAL_MS) (\<lambda>delay.
     bindR (GetPositiveIntProperty (Some props) INITIAL_CONNECTION_RETRY_TIMEOUT_MS) (\<lambda>timeout.
       Inr \<lparr>verifyOpenConnectionType =
              verifiedOpenedConnectionTypeFromString (as_string (GetVerifiedWrapperPropertyValue (Some props) VERIFY_INITIAL_CONNECTION_TYPE)),
            retryDelayMs = delay, retryTimeoutMs = timeout\<rparr>))"

definition initial_subscribed :: "string list" where
  "initial_subscribed = [CONNECT_METHOD, INIT_HOST_PROVIDER_METHOD]"

definition initial_InitHostProvider :: "('sv, unit) prog \<Rightarrow> ('sv, 'z, unit) initial_prog" where
  "initial_InitHostProvider initHostProviderFunc =
     bindP (modifyP (\<lambda>p. p\<lparr>hasHostListService := True\<rparr>)) (\<lambda>_. callS initHostProviderFunc)"

section \<open>Candidates\<close>

definition handleErrorAndShouldRetry ::
  "('sv, 'c) PluginServiceApi \<Rightarrow> 'c option \<Rightarrow> HostInfo option \<Rightarrow> go_error \<Rightarrow> ('sv, 'z, bool) initial_prog" where
  "handleErrorAndShouldRetry api candidateConn candidate err =
     bindP (case candidateConn of None \<Rightarrow> returnP () | Some c \<Rightarrow> updS (svc_Close api c)) (\<lambda>_.
       if svc_IsLoginError api err then returnP False
       else bindP (case candidate of None \<Rightarrow> returnP () | Some h \<Rightarrow> updS (svc_SetAvailability api (GetAllAliases (Some h)) UNAVAILABLE)) (\<lambda>_.
              returnP True))"

text \<open>How a turn ends other than by an error.\<close>

datatype 'c verified = Try_again | Verified "'c option"

text \<open>A call whose error is handled: the loop goes on or the error is returned.\<close>

definition guarded ::
  "('sv, 'c) PluginServiceApi \<Rightarrow> 'c option \<Rightarrow> HostInfo option \<Rightarrow> ('sv, 'z, 'a) initial_prog \<Rightarrow> ('a \<Rightarrow> ('sv, 'z, 'c verified) initial_prog)
     \<Rightarrow> ('sv, 'z, 'c verified) initial_prog" where
  "guarded api conn candidate m k =
     bindP (attempt m) (\<lambda>res.
       case res of
         Inl err \<Rightarrow> bindP (handleErrorAndShouldRetry api conn candidate err) (\<lambda>retry. if retry then returnP Try_again else failP err)
       | Inr a \<Rightarrow> k a)"

definition hasNoReaders :: "('sv, 'c) PluginServiceApi \<Rightarrow> 'sv \<Rightarrow> bool" where
  "hasNoReaders api s \<longleftrightarrow> svc_GetAllHosts api s \<noteq> [] \<and> list_all (\<lambda>h. Role h = WRITER) (svc_GetAllHosts api s)"

text \<open>A host that comes with an error of the selection is nil, and so is the error.\<close>

definition getReader :: "('sv, 'c) PluginServiceApi \<Rightarrow> props \<Rightarrow> string \<Rightarrow> ('sv, 'z, HostInfo option) initial_prog" where
  "getReader api props awsRegion =
     (let strategy = as_string (GetVerifiedWrapperPropertyValue (Some props) READER_INITIAL_CONN_HOST_SELECTOR_STRATEGY)
      in if svc_AcceptsStrategy api strategy
         then bindP (askS (svc_GetHosts api)) (\<lambda>all.
              bindP (if awsRegion \<noteq> '''' then filterP (\<lambda>h. bindP (dnsS (GetRdsRegion (Host h))) (\<lambda>region. returnP (EqualFold awsRegion region))) all
                     else returnP all) (\<lambda>candidates.
              bindP (attempt (callS (svc_GetHostInfoByStrategy api READER strategy candidates))) (\<lambda>res.
                case res of Inl _ \<Rightarrow> returnP None | Inr host \<Rightarrow> returnP host)))
         else failP (NewUnsupportedStrategyError ''AuroraInitialConnectionStrategyPlugin.unsupportedStrategy''))"

definition finish_verified :: "('sv, 'c) PluginServiceApi \<Rightarrow> bool \<Rightarrow> 'c option \<Rightarrow> HostInfo \<Rightarrow> ('sv, 'z, 'c verified) initial_prog" where
  "finish_verified api isInitialConnection conn host =
     bindP (if isInitialConnection
            then bindP (getsP hasHostListService) (\<lambda>set. if set then updS (svc_SetInitialConnectionHostInfo api host) else failP nil_dereference)
            else returnP ()) (\<lambda>_. returnP (Verified conn))"

definition close_and_retry :: "('sv, 'c) PluginServiceApi \<Rightarrow> 'c option \<Rightarrow> ('sv, 'z, 'c verified) initial_prog" where
  "close_and_retry api conn = bindP (closeS api conn) (\<lambda>_. returnP Try_again)"

definition is_cluster :: "HostInfo option \<Rightarrow> ('sv, 'z, bool) initial_prog" where
  "is_cluster candidate = (case candidate of None \<Rightarrow> returnP True | Some h \<Rightarrow> dnsS (IsRdsClusterDns (Host h)))"

section \<open>Verified connections\<close>

text \<open>Without a candidate the endpoint is connected to and asked which instance it is.\<close>

definition identify_endpoint ::
  "('sv, 'c) PluginServiceApi \<Rightarrow> HostInfo option \<Rightarrow> props \<Rightarrow> (props \<Rightarrow> ('sv, 'c) prog) \<Rightarrow> ('c \<Rightarrow> HostInfo option \<Rightarrow> ('sv, 'z, 'c verified) initial_prog)
     \<Rightarrow> ('sv, 'z, 'c verified) initial_prog" where
  "identify_endpoint api candidate props connectFunc k =
     guarded api None candidate (callS (connectFunc props)) (\<lambda>conn.
     guarded api (Some conn) candidate (callS (svc_ForceRefreshHostList api)) (\<lambda>_.
     guarded api (Some conn) None (callS (svc_IdentifyConnection api conn)) (k conn)))"

definition writer_attempt ::
  "('sv, 'c) PluginServiceApi \<Rightarrow> props \<Rightarrow> bool \<Rightarrow> (props \<Rightarrow> ('sv, 'c) prog) \<Rightarrow> ('sv, 'z, 'c verified) initial_prog" where
  "writer_attempt api props isInitialConnection connectFunc =
     bindP (readS (\<lambda>s. GetWriter (map Some (svc_GetAllHosts api s)))) (\<lambda>candidate.
     bindP (is_cluster candidate) (\<lambda>outdated.
       if outdated
       then identify_endpoint api candidate props connectFunc (\<lambda>conn identified.
              case identified of
                None \<Rightarrow> close_and_retry api (Some conn)
              | Some h \<Rightarrow> if Role h \<noteq> WRITER then close_and_retry api (Some conn) else finish_verified api isInitialConnection (Some conn) h)
       else guarded api None candidate (callS (svc_Connect api (the candidate) props)) (\<lambda>conn.
            bindP (askS (svc_GetHostRole api conn)) (\<lambda>role.
              if role \<noteq> WRITER
              then guarded api conn candidate (callS (svc_ForceRefreshHostList api)) (\<lambda>_. close_and_retry api conn)
              else finish_verified api isInitialConnection conn (the candidate)))))"

definition reader_attempt ::
  "('sv, 'c) PluginServiceApi \<Rightarrow> string \<Rightarrow> props \<Rightarrow> bool \<Rightarrow> (props \<Rightarrow> ('sv, 'c) prog) \<Rightarrow> ('sv, 'z, 'c verified) initial_prog" where
  "reader_attempt api awsRegion props isInitialConnection connectFunc =
     guarded api None None (getReader api props awsRegion) (\<lambda>candidate.
     bindP (is_cluster candidate) (\<lambda>outdated.
       if outdated
       then identify_endpoint api candidate props connectFunc (\<lambda>conn identified.
              case identified of
                None \<Rightarrow> close_and_retry api (Some conn)
              | Some h \<Rightarrow>
                  if Role h \<noteq> READER
                  then bindP (readS (hasNoReaders api)) (\<lambda>none.
                         if none then finish_verified api isInitialConnection (Some conn) h else close_and_retry api (Some conn))
                  else finish_verified api isInitialConnection (Some conn) h)
       else guarded api None candidate (callS (svc_Connect api (the candidate) props)) (\<lambda>conn.
            bindP (askS (svc_GetHostRole api conn)) (\<lambda>role.
              if role \<noteq> READER
              then guarded api conn candidate (callS (svc_ForceRefreshHostList api)) (\<lambda>_.
                   bindP (readS (hasNoReaders api)) (\<lambda>none.
                     if none then finish_verified api isInitialConnection conn (the candidate) else close_and_retry api conn))
              else finish_verified api isInitialConnection conn (the candidate)))))"

definition verified_turn ::
  "(nat \<Rightarrow> time) \<Rightarrow> time \<Rightarrow> ('sv, 'z, 'c verified) initial_prog \<Rightarrow> unit \<Rightarrow> ('sv, 'z) InitialConnectionPlugin_scheme
     \<Rightarrow> (('sv, 'z) InitialConnectionPlugin_scheme \<times> (unit + (go_error + 'c option))) option" where
  "verified_turn clock until att _ p =
     (let p1 = p\<lparr>clock_reads := Suc (clock_reads p)\<rparr>
      in if clock (clock_reads p) < until
         then (case att p1 of
                 (p2, Inl err) \<Rightarrow> Some (p2, Inr (Inl err))
               | (p2, Inr Try_again) \<Rightarrow> Some (p2, Inl ())
               | (p2, Inr (Verified conn)) \<Rightarrow> Some (p2, Inr (Inr conn)))
         else Some (p1, Inr (Inr None)))"

definition until_verified ::
  "(nat \<Rightarrow> time) \<Rightarrow> initial_settings \<Rightarrow> ('sv, 'z, 'c verified) initial_prog \<Rightarrow> ('sv, 'z) InitialConnectionPlugin_scheme
     \<Rightarrow> (('sv, 'z) InitialConnectionPlugin_scheme \<times> (go_error + 'c option)) option" where
  "until_verified clock cfg att p =
     loopP (verified_turn clock (clock (clock_reads p) + 1000000 * retryTimeoutMs cfg) att) () (p\<lparr>clock_reads := Suc (clock_reads p)\<rparr>)"

definition getVerifiedWriterConnection ::
  "(nat \<Rightarrow> time) \<Rightarrow> ('sv, 'c) PluginServiceApi \<Rightarrow> initial_settings \<Rightarrow> props \<Rightarrow> bool \<Rightarrow> (props \<Rightarrow> ('sv, 'c) prog)
     \<Rightarrow> ('sv, 'z) InitialConnectionPlugin_scheme \<Rightarrow> (('sv, 'z) InitialConnectionPlugin_scheme \<times> (go_error + 'c option)) option" where
  "getVerifiedWriterConnection clock api cfg props isInitialConnection connectFunc =
     until_verified clock cfg (writer_attempt api props isInitialConnection connectFunc)"

text \<open>The region is asked for before the clock is read, which makes no difference: it only fills the caches.\<close>

definition getVerifiedReaderConnection ::
  "(nat \<Rightarrow> time) \<Rightarrow> ('sv, 'c) PluginServiceApi \<Rightarrow> initial_settings \<Rightarrow> RdsUrlType \<Rightarrow> HostInfo \<Rightarrow> props \<Rightarrow> bool \<Rightarrow> (props \<Rightarrow> ('sv, 'c) prog)
     \<Rightarrow> ('sv, 'z) InitialConnectionPlugin_scheme \<Rightarrow> (('sv, 'z) InitialConnectionPlugin_scheme \<times> (go_error + 'c option)) option" where
  "getVerifiedReaderConnection clock api cfg urlType host props isInitialConnection connectFunc p =
     (case (if urlType = RDS_READER_CLUSTER then dnsS (GetRdsRegion (Host host)) else returnP '''') p of
        (p1, Inl err) \<Rightarrow> Some (p1, Inl err)
      | (p1, Inr awsRegion) \<Rightarrow> until_verified clock cfg (reader_attempt api awsRegion props isInitialConnection connectFunc) p1)"

text \<open>Nothing verified in time: connect as usual.\<close>

definition or_connect ::
  "(props \<Rightarrow> ('sv, 'c) prog) \<Rightarrow> props \<Rightarrow> (('sv, 'z) InitialConnectionPlugin_scheme \<times> (go_error + 'c option)) option
     \<Rightarrow> (('sv, 'z) InitialConnectionPlugin_scheme \<times> (go_error + 'c)) option" where
  "or_connect connectFunc props res =
     map_option (\<lambda>(p, r). case r of Inl err \<Rightarrow> (p, Inl err) | Inr None \<Rightarrow> callS (connectFunc props) p | Inr (Some conn) \<Rightarrow> (p, Inr conn)) res"

definition initial_Connect ::
  "(nat \<Rightarrow> time) \<Rightarrow> ('sv, 'c) PluginServiceApi \<Rightarrow> initial_settings \<Rightarrow> HostInfo \<Rightarrow> props \<Rightarrow> bool \<Rightarrow> (props \<Rightarrow> ('sv, 'c) prog)
     \<Rightarrow> ('sv, 'z) InitialConnectionPlugin_scheme \<Rightarrow> (('sv, 'z) InitialConnectionPlugin_scheme \<times> (go_error + 'c)) option" where
  "initial_Connect clock api cfg host props isInitialConnection connectFunc p =
     (case dnsS (IdentifyRdsUrlType (Host host)) p of
        (p1, Inl err) \<Rightarrow> Some (p1, Inl err)
      | (p1, Inr urlType) \<Rightarrow>
          if \<not> IsRdsCluster urlType then Some (callS (connectFunc props) p1)
          else if urlType = RDS_WRITER_CLUSTER \<or> urlType = RDS_GLOBAL_WRITER_CLUSTER \<or> isInitialConnection \<and> verifyOpenConnectionType cfg = WRITER
          then or_connect connectFunc props (getVerifiedWriterConnection clock api cfg props isInitialConnection connectFunc p1)
          else if urlType = RDS_READER_CLUSTER \<or> isInitialConnection \<and> verifyOpenConnectionType cfg = READER
          then or_connect connectFunc props (getVerifiedReaderConnection clock api cfg urlType host props isInitialConnection connectFunc p1)
          else Some (callS (connectFunc props) p1))"

section \<open>The loops return\<close>

lemma clock_guarded:
  assumes "keeps (\<lambda>q. clock_reads q = n) m" "\<And>a. keeps (\<lambda>q. clock_reads q = n) (k a)"
  shows "keeps (\<lambda>q. clock_reads q = n) (guarded api conn candidate m k)"
  unfolding guarded_def handleErrorAndShouldRetry_def
  by (intro keeps_rules keeps_calls assms) simp_all

lemma clock_steps:
  "keeps (\<lambda>q. clock_reads q = n) (is_cluster candidate)" "keeps (\<lambda>q. clock_reads q = n) (close_and_retry api conn)"
  "keeps (\<lambda>q. clock_reads q = n) (finish_verified api isInitialConnection conn host)"
  "keeps (\<lambda>q. clock_reads q = n) (getReader api props awsRegion)"
proof -
  have region: "keeps (\<lambda>q. clock_reads q = n) (filterP (\<lambda>h. bindP (dnsS (GetRdsRegion (Host h))) (\<lambda>region. returnP (EqualFold awsRegion region))) hs)" for hs
  proof (induction hs)
    case (Cons h hs)
    show ?case unfolding filterP.simps by (intro keeps_rules keeps_dns Cons) simp
  qed (simp only: filterP.simps keeps_return)
  show "keeps (\<lambda>q. clock_reads q = n) (is_cluster candidate)"
    unfolding is_cluster_def by (intro keeps_rules keeps_dns) simp
  show "keeps (\<lambda>q. clock_reads q = n) (close_and_retry api conn)"
    unfolding close_and_retry_def by (intro keeps_rules keeps_calls) simp
  show "keeps (\<lambda>q. clock_reads q = n) (finish_verified api isInitialConnection conn host)"
    unfolding finish_verified_def by (intro keeps_rules keeps_calls) simp
  show "keeps (\<lambda>q. clock_reads q = n) (getReader api props awsRegion)"
    unfolding getReader_def Let_def by (intro keeps_rules keeps_calls region) simp_all
qed

lemma clock_identify:
  "(\<And>c h. keeps (\<lambda>q. clock_reads q = n) (k c h)) \<Longrightarrow> keeps (\<lambda>q. clock_reads q = n) (identify_endpoint api candidate props connectFunc k)"
  unfolding identify_endpoint_def by (intro clock_guarded keeps_calls) simp_all

lemma clock_attempts:
  "keeps (\<lambda>q. clock_reads q = n) (writer_attempt api props isInitialConnection connectFunc)"
  "keeps (\<lambda>q. clock_reads q = n) (reader_attempt api awsRegion props isInitialConnection connectFunc)"
  unfolding writer_attempt_def reader_attempt_def
  by (intro keeps_rules keeps_calls clock_guarded clock_steps clock_identify; simp)+

lemma until_verified_returns:
  fixes p :: "('sv, 'z) InitialConnectionPlugin_scheme"
  assumes "advancing clock" and att: "\<And>n. keeps (\<lambda>q :: ('sv, 'z) InitialConnectionPlugin_scheme. clock_reads q = n) att"
  shows "until_verified clock cfg att p \<noteq> None"
proof -
  let ?until = "clock (clock_reads p) + 1000000 * retryTimeoutMs cfg"
  obtain N where N: "\<And>n. N \<le> n \<Longrightarrow> ?until \<le> clock n" using assms(1) unfolding advancing_def by meson
  have "\<exists>r. until_verified clock cfg att p = Some r"
    unfolding until_verified_def
  proof (rule loopP_returns [where I = "\<lambda>_ _. True" and measure_of = "\<lambda>_ q. N - clock_reads q"])
    fix u and q :: "('sv, 'z) InitialConnectionPlugin_scheme"
    have more: "clock (clock_reads q) < ?until \<Longrightarrow> clock_reads q < N" using N [of "clock_reads q"] by linarith
    obtain q2 r where run: "att (q\<lparr>clock_reads := Suc (clock_reads q)\<rparr>) = (q2, r)" by fastforce
    have "clock_reads q2 = Suc (clock_reads q)" using keepsD [OF att [of "Suc (clock_reads q)"] _ run] by simp
    with more run show "\<exists>q' r. verified_turn clock ?until att u q = Some (q', r) \<and> (\<forall>a'. r = Inl a' \<longrightarrow> True \<and> N - clock_reads q' < N - clock_reads q)"
      by (cases r) (auto simp: verified_turn_def Let_def split: verified.splits)
  qed simp
  then show ?thesis by blast
qed

lemma initial_returns:
  assumes "advancing clock"
  shows "getVerifiedWriterConnection clock api cfg props isInitialConnection connectFunc p \<noteq> None"
    "getVerifiedReaderConnection clock api cfg urlType host props isInitialConnection connectFunc p \<noteq> None"
proof -
  note attempts = until_verified_returns [OF assms clock_attempts(1)] until_verified_returns [OF assms clock_attempts(2)]
  show "getVerifiedWriterConnection clock api cfg props isInitialConnection connectFunc p \<noteq> None"
    unfolding getVerifiedWriterConnection_def by (rule attempts(1))
  show "getVerifiedReaderConnection clock api cfg urlType host props isInitialConnection connectFunc p \<noteq> None"
    unfolding getVerifiedReaderConnection_def using attempts(2) by (auto split: prod.split sum.split)
qed

section \<open>What the loops verify\<close>

text \<open>The service has just said of a connection that it leads to an instance of a role: by the role query or by its
  identity; \<open>s\<close> is the service after the answer.\<close>

definition said_role :: "('sv, 'c) PluginServiceApi \<Rightarrow> HostRole \<Rightarrow> 'c \<Rightarrow> 'sv \<Rightarrow> bool" where
  "said_role api role conn s \<longleftrightarrow>
     (\<exists>before. svc_GetHostRole api (Some conn) before = (s, role)) \<or> (\<exists>before h. svc_IdentifyConnection api conn before = (s, Inr (Some h)) \<and> Role h = role)"

text \<open>Since then the service has at most recorded the host of the initial connection.\<close>

definition just :: "('sv, 'c) PluginServiceApi \<Rightarrow> ('sv \<Rightarrow> bool) \<Rightarrow> 'sv \<Rightarrow> bool" where
  "just api P s \<longleftrightarrow> P s \<or> (\<exists>s0 h. P s0 \<and> s = svc_SetInitialConnectionHostInfo api h s0)"

text \<open>From a state \<open>q\<close>, a turn answers good connections only.\<close>

definition yields ::
  "('sv, 'z) InitialConnectionPlugin_scheme \<Rightarrow> ('sv, 'z, 'c verified) initial_prog \<Rightarrow> ('c \<Rightarrow> 'sv \<Rightarrow> bool) \<Rightarrow> bool" where
  "yields q m good \<longleftrightarrow> (\<forall>q' conn. m q = (q', Inr (Verified (Some conn))) \<longrightarrow> good conn (svc q'))"

lemma yields_bind: "(\<And>q' a. m q = (q', Inr a) \<Longrightarrow> yields q' (k a) good) \<Longrightarrow> yields q (bindP m k) good"
  unfolding yields_def by (auto simp: bindP_Inr_iff)

lemma yields_if: "(b \<Longrightarrow> yields q m good) \<Longrightarrow> (\<not> b \<Longrightarrow> yields q n good) \<Longrightarrow> yields q (if b then m else n) good"
  by simp

lemma yields_guarded:
  assumes "\<And>q' a. m q = (q', Inr a) \<Longrightarrow> yields q' (k a) good"
  shows "yields q (guarded api conn candidate m k) good"
  unfolding guarded_def
proof (rule yields_bind)
  fix q' r
  assume r: "attempt m q = (q', Inr r)"
  show "yields q' (case r of Inl err \<Rightarrow> bindP (handleErrorAndShouldRetry api conn candidate err) (\<lambda>retry. if retry then returnP Try_again else failP err)
          | Inr a \<Rightarrow> k a) good"
  proof (cases r)
    case (Inl err)
    then show ?thesis by (auto simp: yields_def bindP_Inr_iff split: if_splits)
  next
    case (Inr a)
    then have "m q = (q', Inr a)" using r by (auto simp: attempt_def split: prod.splits sum.splits go_error.splits)
    from assms [OF this] show ?thesis by (simp add: Inr)
  qed
qed

lemma yields_finish: "(\<And>c. conn = Some c \<Longrightarrow> P c (svc q)) \<Longrightarrow> yields q (finish_verified api isInitialConnection conn host) (\<lambda>c. just api (P c))"
  by (auto simp: yields_def finish_verified_def just_def bindP_Inr_iff updS_def split: if_splits)

lemma yields_close: "yields q (close_and_retry api conn) good"
  by (auto simp: yields_def close_and_retry_def bindP_Inr_iff)

lemma yields_identify:
  assumes "\<And>q' c h. (\<And>i. h = Some i \<Longrightarrow> said_role api (Role i) c (svc q')) \<Longrightarrow> yields q' (k c h) good"
  shows "yields q (identify_endpoint api candidate props connectFunc k) good"
  unfolding identify_endpoint_def
proof (intro yields_guarded)
  fix q2 q3 :: "('a, 'b) InitialConnectionPlugin_scheme" and c h
  assume "callS (svc_IdentifyConnection api c) q2 = (q3, Inr h)"
  then have "svc_IdentifyConnection api c (svc q2) = (svc q3, Inr h)" by (auto simp: callS_def split: prod.splits)
  then show "yields q3 (k c h) good" by (intro assms) (auto simp: said_role_def)
qed

lemma role_answer: "askS (svc_GetHostRole api (Some conn)) q = (q', Inr role) \<Longrightarrow> said_role api role conn (svc q')"
  by (auto simp: askS_def said_role_def split: prod.splits)

lemma writer_attempt_verified: "yields q (writer_attempt api props isInitialConnection connectFunc) (\<lambda>c. just api (said_role api WRITER c))"
  unfolding writer_attempt_def
proof (rule yields_bind, rule yields_bind, rule yields_if)
  fix candidate :: "HostInfo option" and q'
  show "yields q' (identify_endpoint api candidate props connectFunc (\<lambda>conn identified.
       case identified of None \<Rightarrow> close_and_retry api (Some conn)
       | Some h \<Rightarrow> if Role h \<noteq> WRITER then close_and_retry api (Some conn) else finish_verified api isInitialConnection (Some conn) h))
     (\<lambda>c. just api (said_role api WRITER c))"
    by (rule yields_identify) (auto intro!: yields_close yields_finish split: option.splits)
  show "yields q' (guarded api None candidate (callS (svc_Connect api (the candidate) props)) (\<lambda>conn.
      bindP (askS (svc_GetHostRole api conn)) (\<lambda>role.
        if role \<noteq> WRITER then guarded api conn candidate (callS (svc_ForceRefreshHostList api)) (\<lambda>_. close_and_retry api conn)
        else finish_verified api isInitialConnection conn (the candidate)))) (\<lambda>c. just api (said_role api WRITER c))"
    by (intro yields_guarded yields_bind yields_if yields_close yields_finish) (auto dest: role_answer)
qed

text \<open>A cluster without readers: its reader endpoint leads to the writer. The service has just said of the connection that
  it does not lead to a reader, and after at most a forced refresh every host of the topology is a writer.\<close>

definition said_no_reader :: "('sv, 'c) PluginServiceApi \<Rightarrow> 'c \<Rightarrow> 'sv \<Rightarrow> bool" where
  "said_no_reader api conn s \<longleftrightarrow>
     (\<exists>role before. role \<noteq> READER \<and> said_role api role conn before \<and> (s = before \<or> svc_ForceRefreshHostList api before = (s, Inr ())))"

definition said_reads :: "('sv, 'c) PluginServiceApi \<Rightarrow> 'c \<Rightarrow> 'sv \<Rightarrow> bool" where
  "said_reads api conn s \<longleftrightarrow> said_role api READER conn s \<or> hasNoReaders api s \<and> said_no_reader api conn s"

lemma yields_no_readers:
  assumes "\<And>c. conn = Some c \<Longrightarrow> said_no_reader api c (svc q)"
  shows "yields q (bindP (readS (hasNoReaders api)) (\<lambda>none. if none then finish_verified api isInitialConnection conn host else close_and_retry api conn))
     (\<lambda>c. just api (said_reads api c))"
  by (intro yields_bind yields_if yields_close yields_finish) (use assms in \<open>auto simp: readS_def said_reads_def\<close>)

lemma said_no_reader_now: "said_role api role c s \<Longrightarrow> role \<noteq> READER \<Longrightarrow> said_no_reader api c s"
  by (auto simp: said_no_reader_def)

lemma said_no_reader_refreshed:
  "said_role api role c (svc q) \<Longrightarrow> role \<noteq> READER \<Longrightarrow> callS (svc_ForceRefreshHostList api) q = (q', Inr u) \<Longrightarrow> said_no_reader api c (svc q')"
  by (auto simp: said_no_reader_def callS_def split: prod.splits) blast

lemma reader_attempt_verified: "yields q (reader_attempt api awsRegion props isInitialConnection connectFunc) (\<lambda>c. just api (said_reads api c))"
  unfolding reader_attempt_def
proof (rule yields_guarded, rule yields_bind, rule yields_if)
  fix candidate :: "HostInfo option" and q'
  show "yields q' (identify_endpoint api candidate props connectFunc (\<lambda>conn identified.
       case identified of None \<Rightarrow> close_and_retry api (Some conn)
       | Some h \<Rightarrow>
           if Role h \<noteq> READER
           then bindP (readS (hasNoReaders api)) (\<lambda>none.
                  if none then finish_verified api isInitialConnection (Some conn) h else close_and_retry api (Some conn))
           else finish_verified api isInitialConnection (Some conn) h)) (\<lambda>c. just api (said_reads api c))"
    by (rule yields_identify) (auto simp: said_reads_def intro!: yields_close yields_finish yields_no_readers intro: said_no_reader_now split: option.splits)
  show "yields q' (guarded api None candidate (callS (svc_Connect api (the candidate) props)) (\<lambda>conn.
      bindP (askS (svc_GetHostRole api conn)) (\<lambda>role.
        if role \<noteq> READER
        then guarded api conn candidate (callS (svc_ForceRefreshHostList api)) (\<lambda>_.
             bindP (readS (hasNoReaders api)) (\<lambda>none.
               if none then finish_verified api isInitialConnection conn (the candidate) else close_and_retry api conn))
        else finish_verified api isInitialConnection conn (the candidate)))) (\<lambda>c. just api (said_reads api c))"
    by (intro yields_guarded yields_bind yields_if yields_no_readers yields_finish)
      (auto simp: said_reads_def dest: role_answer intro: said_no_reader_refreshed [OF role_answer])
qed

lemma until_verified_good:
  assumes att: "\<And>q. yields q att good" and run: "until_verified clock cfg att p = Some (p', r)"
  shows "\<forall>conn. r = Inr (Some conn) \<longrightarrow> good conn (svc p')"
  using run unfolding until_verified_def
proof (rule loopP_inv [where I = "\<lambda>_ _. True" and Q = "\<lambda>r q. \<forall>conn. r = Inr (Some conn) \<longrightarrow> good conn (svc q)", rotated 2])
  fix u q q' r'
  assume turn: "verified_turn clock (clock (clock_reads p) + 1000000 * retryTimeoutMs cfg) att u q = Some (q', Inr r')"
  have "good conn (svc q2)" if "att (q\<lparr>clock_reads := Suc (clock_reads q)\<rparr>) = (q2, Inr (Verified (Some conn)))" for conn q2
    using att that unfolding yields_def by blast
  then show "\<forall>conn. r' = Inr (Some conn) \<longrightarrow> good conn (svc q')"
    using turn by (auto simp: verified_turn_def Let_def split: if_splits prod.splits sum.splits verified.splits)
qed simp_all

section \<open>When the loops leave\<close>

text \<open>The loop reads the clock for its deadline at \<open>clock_reads p\<close> and then once before each attempt. Every reading but the
  last was before the deadline; at the last one, the loop began the attempt it leaves with, or, with nothing verified,
  saw that the deadline had come.\<close>

definition deadline :: "(nat \<Rightarrow> time) \<Rightarrow> initial_settings \<Rightarrow> ('sv, 'z) InitialConnectionPlugin_scheme \<Rightarrow> time" where
  "deadline clock cfg p = clock (clock_reads p) + 1000000 * retryTimeoutMs cfg"

definition attempts_in_time ::
  "(nat \<Rightarrow> time) \<Rightarrow> initial_settings \<Rightarrow> ('sv, 'z) InitialConnectionPlugin_scheme \<Rightarrow> nat \<Rightarrow> bool" where
  "attempts_in_time clock cfg p n \<longleftrightarrow> clock_reads p < n \<and> (\<forall>i. clock_reads p < i \<and> i < n \<longrightarrow> clock i < deadline clock cfg p)"

lemma attempts_in_time_first: "attempts_in_time clock cfg p (Suc (clock_reads p))"
  by (auto simp: attempts_in_time_def)

lemma attempts_in_time_next: "attempts_in_time clock cfg p n \<Longrightarrow> clock n < deadline clock cfg p \<Longrightarrow> attempts_in_time clock cfg p (Suc n)"
  by (auto simp: attempts_in_time_def less_Suc_eq)

lemma until_verified_timed:
  fixes p p' :: "('sv, 'z) InitialConnectionPlugin_scheme"
  assumes att: "\<And>n. keeps (\<lambda>q :: ('sv, 'z) InitialConnectionPlugin_scheme. clock_reads q = n) att"
    and run: "until_verified clock cfg att p = Some (p', r)"
  shows "\<exists>n. clock_reads p' = Suc n \<and> attempts_in_time clock cfg p n \<and> (deadline clock cfg p \<le> clock n \<longrightarrow> r = Inr None)"
  using run unfolding until_verified_def deadline_def [symmetric]
proof (rule loopP_inv [where I = "\<lambda>_ q. attempts_in_time clock cfg p (clock_reads q)"
      and Q = "\<lambda>r q. \<exists>n. clock_reads q = Suc n \<and> attempts_in_time clock cfg p n \<and> (deadline clock cfg p \<le> clock n \<longrightarrow> r = Inr None)", rotated 2])
  have reads: "clock_reads q2 = Suc (clock_reads q)" if "att (q\<lparr>clock_reads := Suc (clock_reads q)\<rparr>) = (q2, x)" for q q2 :: "('sv, 'z) InitialConnectionPlugin_scheme" and x
    using keepsD [OF att [of "Suc (clock_reads q)"] _ that] by simp
  fix u u' and q q' :: "('sv, 'z) InitialConnectionPlugin_scheme" and r'
  assume I: "attempts_in_time clock cfg p (clock_reads q)"
  show "attempts_in_time clock cfg p (clock_reads q')" if "verified_turn clock (deadline clock cfg p) att u q = Some (q', Inl u')"
    using that I by (auto simp: verified_turn_def Let_def reads intro: attempts_in_time_next split: if_splits prod.splits sum.splits verified.splits)
  show "\<exists>n. clock_reads q' = Suc n \<and> attempts_in_time clock cfg p n \<and> (deadline clock cfg p \<le> clock n \<longrightarrow> r' = Inr None)"
    if "verified_turn clock (deadline clock cfg p) att u q = Some (q', Inr r')"
    using that I by (auto simp: verified_turn_def Let_def reads split: if_splits prod.splits sum.splits verified.splits)
qed (simp add: attempts_in_time_first)

lemma verified_loop:
  fixes p :: "('sv, 'z) InitialConnectionPlugin_scheme"
  assumes "advancing clock" "\<And>n. keeps (\<lambda>q :: ('sv, 'z) InitialConnectionPlugin_scheme. clock_reads q = n) att" "\<And>q. yields q att good"
  obtains p' r n where "until_verified clock cfg att p = Some (p', r)" "\<And>conn. r = Inr (Some conn) \<Longrightarrow> good conn (svc p')"
    "clock_reads p' = Suc n" "attempts_in_time clock cfg p n" "deadline clock cfg p \<le> clock n \<Longrightarrow> r = Inr None"
proof -
  obtain p' r where run: "until_verified clock cfg att p = Some (p', r)" using until_verified_returns [OF assms(1,2), of cfg p] by auto
  from until_verified_timed [OF assms(2) run] until_verified_good [OF assms(3) run] that run show thesis by blast
qed

text \<open>C36: Both loops return, and they begin no attempt after the deadline: the clock is read before each attempt, and every
  reading but the last was before \<open>deadline\<close>; if the last one was not, the loop answers nothing. A connection they answer
  has been verified: the last the service has said, by the role query or by the identity of the instance, is that it
  leads to a writer, or, for the reader loop, that it leads to a reader, or that it does not while every host of the
  topology is a writer. The clock is only assumed to advance; an attempt that has begun in time may outlast the
  deadline.\<close>

theorem initial_connection_verified:
  assumes "advancing clock"
  shows "(\<exists>p' r n. getVerifiedWriterConnection clock api cfg props isInitialConnection connectFunc p = Some (p', r) \<and>
            (\<forall>conn. r = Inr (Some conn) \<longrightarrow> just api (said_role api WRITER conn) (svc p')) \<and>
            clock_reads p' = Suc n \<and> attempts_in_time clock cfg p n \<and> (deadline clock cfg p \<le> clock n \<longrightarrow> r = Inr None)) \<and>
         (\<forall>p1 region. (if urlType = RDS_READER_CLUSTER then dnsS (GetRdsRegion (Host host)) else returnP '''') p = (p1, Inr region) \<longrightarrow>
            (\<exists>p' r n. getVerifiedReaderConnection clock api cfg urlType host props isInitialConnection connectFunc p = Some (p', r) \<and>
              (\<forall>conn. r = Inr (Some conn) \<longrightarrow>
                 just api (\<lambda>s. said_role api READER conn s \<or> hasNoReaders api s \<and> said_no_reader api conn s) (svc p')) \<and>
              clock_reads p' = Suc n \<and> attempts_in_time clock cfg p n \<and> (deadline clock cfg p \<le> clock n \<longrightarrow> r = Inr None)))"
proof (intro conjI allI impI)
  obtain p' r n where "until_verified clock cfg (writer_attempt api props isInitialConnection connectFunc) p = Some (p', r)"
    "\<And>conn. r = Inr (Some conn) \<Longrightarrow> just api (said_role api WRITER conn) (svc p')"
    "clock_reads p' = Suc n" "attempts_in_time clock cfg p n" "deadline clock cfg p \<le> clock n \<Longrightarrow> r = Inr None"
    by (rule verified_loop [where p = p and cfg = cfg and att = "writer_attempt api props isInitialConnection connectFunc", OF assms clock_attempts(1) writer_attempt_verified]) blast
  then show "\<exists>p' r n. getVerifiedWriterConnection clock api cfg props isInitialConnection connectFunc p = Some (p', r) \<and>
            (\<forall>conn. r = Inr (Some conn) \<longrightarrow> just api (said_role api WRITER conn) (svc p')) \<and>
            clock_reads p' = Suc n \<and> attempts_in_time clock cfg p n \<and> (deadline clock cfg p \<le> clock n \<longrightarrow> r = Inr None)"
    unfolding getVerifiedWriterConnection_def by blast
next
  fix p1 region
  assume url: "(if urlType = RDS_READER_CLUSTER then dnsS (GetRdsRegion (Host host)) else returnP '''') p = (p1, Inr region)"
  then have "clock_reads p1 = clock_reads p" by (auto simp: dnsS_def split: if_splits prod.splits)
  then have same: "attempts_in_time clock cfg p1 = attempts_in_time clock cfg p" "deadline clock cfg p1 = deadline clock cfg p"
    by (simp_all add: attempts_in_time_def deadline_def fun_eq_iff)
  obtain p' r n where "until_verified clock cfg (reader_attempt api region props isInitialConnection connectFunc) p1 = Some (p', r)"
    "\<And>conn. r = Inr (Some conn) \<Longrightarrow> just api (said_reads api conn) (svc p')"
    "clock_reads p' = Suc n" "attempts_in_time clock cfg p1 n" "deadline clock cfg p1 \<le> clock n \<Longrightarrow> r = Inr None"
    by (rule verified_loop [where p = p1 and cfg = cfg and att = "reader_attempt api region props isInitialConnection connectFunc", OF assms clock_attempts(2) reader_attempt_verified]) blast
  then show "\<exists>p' r n. getVerifiedReaderConnection clock api cfg urlType host props isInitialConnection connectFunc p = Some (p', r) \<and>
              (\<forall>conn. r = Inr (Some conn) \<longrightarrow>
                 just api (\<lambda>s. said_role api READER conn s \<or> hasNoReaders api s \<and> said_no_reader api conn s) (svc p')) \<and>
              clock_reads p' = Suc n \<and> attempts_in_time clock cfg p n \<and> (deadline clock cfg p \<le> clock n \<longrightarrow> r = Inr None)"
    unfolding said_reads_def [symmetric] getVerifiedReaderConnection_def url same by auto
qed

section \<open>A strategy that is not supported\<close>

definition reader_strategy :: "props \<Rightarrow> string" where
  "reader_strategy props = as_string (GetVerifiedWrapperPropertyValue (Some props) READER_INITIAL_CONN_HOST_SELECTOR_STRATEGY)"

abbreviation unsupported :: go_error where
  "unsupported \<equiv> NewUnsupportedStrategyError ''AuroraInitialConnectionStrategyPlugin.unsupportedStrategy''"

lemma unsupported_attempt:
  assumes "\<not> svc_AcceptsStrategy api (reader_strategy props)" "\<not> svc_IsLoginError api unsupported"
  shows "reader_attempt api awsRegion props isInitialConnection connectFunc q = (q, Inr Try_again)"
proof -
  have "getReader api props awsRegion q = failP unsupported q"
    unfolding getReader_def Let_def by (rule fun_cong [OF if_not_P [OF assms(1) [unfolded reader_strategy_def]]])
  then have caught: "attempt (getReader api props awsRegion) q = (q, Inr (Inl unsupported))"
    by (simp add: attempt_def NewUnsupportedStrategyError_def)
  show ?thesis
    unfolding reader_attempt_def guarded_def bindP_run(1) [of "attempt (getReader api props awsRegion)" q, OF caught]
    by (simp add: handleErrorAndShouldRetry_def assms(2) bindP_def)
qed

lemma until_given_up:
  fixes p :: "('sv, 'z) InitialConnectionPlugin_scheme"
  assumes "advancing clock" and att: "\<And>q :: ('sv, 'z) InitialConnectionPlugin_scheme. att q = (q, Inr Try_again)"
  shows "\<exists>n. until_verified clock cfg att p = Some (p\<lparr>clock_reads := Suc n\<rparr>, Inr None) \<and> attempts_in_time clock cfg p n \<and> deadline clock cfg p \<le> clock n"
proof -
  have "keeps (\<lambda>q :: ('sv, 'z) InitialConnectionPlugin_scheme. clock_reads q = n) att" for n by (rule keepsI) (simp add: att)
  from until_verified_returns [OF assms(1) this, of cfg p] obtain p' r where run: "until_verified clock cfg att p = Some (p', r)"
    by (cases "until_verified clock cfg att p") auto
  let ?turn = "verified_turn clock (deadline clock cfg p) att"
  have turn: "?turn u q = (if clock (clock_reads q) < deadline clock cfg p then Some (q\<lparr>clock_reads := Suc (clock_reads q)\<rparr>, Inl ())
      else Some (q\<lparr>clock_reads := Suc (clock_reads q)\<rparr>, Inr (Inr None)))" for u q
    by (simp add: verified_turn_def Let_def att)
  let ?I = "\<lambda>n q. q = p\<lparr>clock_reads := n\<rparr> \<and> attempts_in_time clock cfg p n"
  have "\<exists>n. p' = p\<lparr>clock_reads := Suc n\<rparr> \<and> attempts_in_time clock cfg p n \<and> deadline clock cfg p \<le> clock n \<and> r = Inr None"
  proof (rule loopP_inv [where I = "\<lambda>_ q. \<exists>n. ?I n q"
        and Q = "\<lambda>r q. \<exists>n. q = p\<lparr>clock_reads := Suc n\<rparr> \<and> attempts_in_time clock cfg p n \<and> deadline clock cfg p \<le> clock n \<and> r = Inr None",
        OF _ _ run [unfolded until_verified_def deadline_def [symmetric]]])
    fix u u' b and q q' :: "('sv, 'z) InitialConnectionPlugin_scheme"
    assume "\<exists>n. ?I n q"
    then obtain n where q: "q = p\<lparr>clock_reads := n\<rparr>" and n: "attempts_in_time clock cfg p n" by blast
    show "\<exists>n. ?I n q'" if "?turn u q = Some (q', Inl u')"
      using that attempts_in_time_next [OF n] by (intro exI [of _ "Suc n"]) (simp add: turn q split: if_splits)
    show "\<exists>n. q' = p\<lparr>clock_reads := Suc n\<rparr> \<and> attempts_in_time clock cfg p n \<and> deadline clock cfg p \<le> clock n \<and> b = Inr None"
      if "?turn u q = Some (q', Inr b)"
      using that n by (intro exI [of _ n]) (simp add: turn q split: if_splits)
  qed (use attempts_in_time_first in blast)
  with run show ?thesis by blast
qed

text \<open>C37: A strategy that the service does not accept is no error for a connection to a reader endpoint that is not to be
  verified as a writer (and unless the service takes the error for a login error): the plugin tries again as long as
  the clock, read before each attempt, is before the deadline, and at the first reading that is not, it connects to
  the endpoint without verifying anything.\<close>

theorem unsupported_strategy_ignored:
  assumes "advancing clock" "\<not> svc_AcceptsStrategy api (reader_strategy props)" "\<not> svc_IsLoginError api unsupported"
    and url: "dnsS (IdentifyRdsUrlType (Host host)) p = (p1, Inr RDS_READER_CLUSTER)" "dnsS (GetRdsRegion (Host host)) p1 = (p2, Inr region)"
    and role: "\<not> (isInitialConnection \<and> verifyOpenConnectionType cfg = WRITER)"
  shows "\<exists>n. clock_reads p < n \<and> (\<forall>i. clock_reads p < i \<and> i < n \<longrightarrow> clock i < deadline clock cfg p) \<and> deadline clock cfg p \<le> clock n \<and>
    initial_Connect clock api cfg host props isInitialConnection connectFunc p = Some (callS (connectFunc props) (p2\<lparr>clock_reads := Suc n\<rparr>))"
proof -
  obtain n where n: "until_verified clock cfg (reader_attempt api region props isInitialConnection connectFunc) p2 = Some (p2\<lparr>clock_reads := Suc n\<rparr>, Inr None)"
    "attempts_in_time clock cfg p2 n" "deadline clock cfg p2 \<le> clock n"
    using until_given_up [OF assms(1) unsupported_attempt [OF assms(2,3)]] by fast
  have "clock_reads p2 = clock_reads p" using url by (auto simp: dnsS_def split: prod.splits)
  then have "attempts_in_time clock cfg p n" "deadline clock cfg p \<le> clock n" using n(2,3) by (simp_all add: attempts_in_time_def deadline_def)
  moreover have "getVerifiedReaderConnection clock api cfg RDS_READER_CLUSTER host props isInitialConnection connectFunc p1 = Some (p2\<lparr>clock_reads := Suc n\<rparr>, Inr None)"
    using url(2) n(1) by (simp add: getVerifiedReaderConnection_def)
  then have "initial_Connect clock api cfg host props isInitialConnection connectFunc p = Some (callS (connectFunc props) (p2\<lparr>clock_reads := Suc n\<rparr>))"
    using url(1) role by (auto simp: initial_Connect_def or_connect_def RDS_READER_CLUSTER_def RDS_WRITER_CLUSTER_def RDS_GLOBAL_WRITER_CLUSTER_def)
  ultimately show ?thesis by (auto simp: attempts_in_time_def)
qed

section \<open>Examples\<close>

definition reader_endpoint :: HostInfo where
  "reader_endpoint = small_host ''db.cluster-ro-xyz.us-east-2.rds.amazonaws.com'' 5 READER"

definition lab_initial :: "initial_settings" where
  "lab_initial = \<lparr>verifyOpenConnectionType = UNKNOWN, retryDelayMs = 1, retryTimeoutMs = 1\<rparr>"

definition lab_initial_plugin :: "nat InitialConnectionPlugin" where
  "lab_initial_plugin = \<lparr>svc = 0, clock_reads = 0, dns_caches = fresh_state None, hasHostListService = True\<rparr>"

lemma initial_connection_verified_witness:
  "\<exists>p'. getVerifiedWriterConnection int lab_api lab_initial NewRWMap True (\<lambda>_ s. (s, Inr 9)) lab_initial_plugin = Some (p', Inr (Some 1)) \<and>
     just lab_api (said_role lab_api WRITER 1) (svc p')"
proof -
  have "map_option snd (getVerifiedWriterConnection int lab_api lab_initial NewRWMap True (\<lambda>_ s. (s, Inr 9)) lab_initial_plugin) = Some (Inr (Some 1))"
    by code_simp
  then obtain p' where "getVerifiedWriterConnection int lab_api lab_initial NewRWMap True (\<lambda>_ s. (s, Inr 9)) lab_initial_plugin = Some (p', Inr (Some 1))"
    by auto
  then show ?thesis
    using initial_connection_verified [OF advancing_int, of lab_api lab_initial NewRWMap True "\<lambda>_ s. (s, Inr 9)" lab_initial_plugin OTHER reader_endpoint]
    by auto
qed

lemma reader_endpoint_type:
  "map_sum id id (fst (IdentifyRdsUrlType (Host reader_endpoint) (fresh_state None))) = Inr RDS_READER_CLUSTER"
  by code_simp

lemma reader_endpoint_region:
  "fst (GetRdsRegion (Host reader_endpoint) (snd (IdentifyRdsUrlType (Host reader_endpoint) (fresh_state None)))) = Inr ''us-east-2''"
  by code_simp

lemma unsupported_strategy_ignored_witness:
  "\<exists>n p2. initial_Connect int (lab_api\<lparr>svc_AcceptsStrategy := (\<lambda>_. False)\<rparr>) lab_initial reader_endpoint NewRWMap True (\<lambda>_ s. (s + 1, Inr 3)) lab_initial_plugin =
     Some (p2\<lparr>svc := 1, clock_reads := n\<rparr>, Inr 3)"
proof -
  let ?p1 = "lab_initial_plugin\<lparr>dns_caches := snd (IdentifyRdsUrlType (Host reader_endpoint) (fresh_state None))\<rparr>"
  let ?p2 = "?p1\<lparr>dns_caches := snd (GetRdsRegion (Host reader_endpoint) (dns_caches ?p1))\<rparr>"
  have "dnsS (IdentifyRdsUrlType (Host reader_endpoint)) lab_initial_plugin = (?p1, Inr RDS_READER_CLUSTER)"
    using reader_endpoint_type by (simp add: dnsS_def lab_initial_plugin_def sum.map_id case_prod_beta)
  moreover have "dnsS (GetRdsRegion (Host reader_endpoint)) ?p1 = (?p2, Inr ''us-east-2'')"
    using reader_endpoint_region by (simp add: dnsS_def case_prod_beta)
  ultimately obtain n where n: "initial_Connect int (lab_api\<lparr>svc_AcceptsStrategy := (\<lambda>_. False)\<rparr>) lab_initial reader_endpoint NewRWMap True (\<lambda>_ s. (s + 1, Inr 3)) lab_initial_plugin =
      Some (callS (\<lambda>s. (s + 1, Inr 3)) (?p2\<lparr>clock_reads := Suc n\<rparr>))"
    using unsupported_strategy_ignored [OF advancing_int, of "lab_api\<lparr>svc_AcceptsStrategy := (\<lambda>_. False)\<rparr>" NewRWMap reader_endpoint lab_initial_plugin ?p1 ?p2
        "''us-east-2''" True lab_initial "\<lambda>_ s. (s + 1, Inr 3)"]
    by (auto simp: lab_api_def lab_initial_def)
  from n show ?thesis by (auto simp: callS_def lab_initial_plugin_def intro!: exI [of _ "Suc n"] exI [of _ ?p2])
qed

end
