(* ===== verification/Monitor_Steps.thy ===== *)
theory Monitor_Steps
  imports Cluster_Monitor
begin

text \<open>
  The topology monitor at the grain of its writes. The main goroutine of
  \<open>awssql/driver_infrastructure/cluster_topology_monitor.go\<close> holds no lock, so a request to verify the writer, or a reset, may come
  between any two of its steps; \<open>main_at\<close> is where it stands. A request empties the connection and then clears the flag, and
  between the two it is pending. \<open>grain_step\<close> is the machine, \<open>uninterrupted_turn\<close> says that its steps done in a row are the turns
  of \<open>Cluster_Monitor\<close>, and the last two sections say what can go wrong and what cannot.
\<close>

section \<open>Where the main goroutine stands\<close>

text \<open>\<open>Drop_conn\<close> and \<open>Drop_flag\<close> are the end of \<open>openAnyConnectionAndUpdateTopology\<close> and the same lines in the regular mode;
  the argument tells whether it is the first.\<close>

datatype 'c monitor_point =
  Turn_begins | Connect_any | Install 'c | Ask 'c | Mark 'c | Identify 'c | Fetch_any | Drop_conn bool | Drop_flag bool
| Start_hosts "HostInfo list" | Check_readers | Pick nat 'c HostInfo | Regular_fetch

definition turn_begins :: "(nat \<Rightarrow> time) \<Rightarrow> ('sv, 'c) PluginServiceApi \<Rightarrow> ('sv, 'c, 'z) tmon \<Rightarrow> ('sv, 'c, 'z) tmon \<times> 'c monitor_point" where
  "turn_begins clock api m =
     (let m1 = (tick m)\<lparr>ct_lastActivity := clock (clock_reads m)\<rparr>
      in if isInPanicMode m1
         then (if hostRoutines m1 = []
               then (let m2 = m1\<lparr>hostRoutinesStop := False, hostRoutinesWriterConn := None, hostRoutinesReaderConn := None,
                                 hostRoutinesLatestTopology := [], hostRoutinesWriterHostInfo := None\<rparr>
                     in (m2, if monitor_storedHosts m2 \<noteq> [] then Start_hosts (monitor_storedHosts m2)
                             else if ct_monitoringConn m2 = None then Connect_any else Fetch_any))
               else (case hostRoutinesWriterConn m1 of
                       None \<Rightarrow> (add_routines m1, Check_readers)
                     | Some c \<Rightarrow> if IsNil (hostRoutinesWriterHostInfo m1) then (add_routines m1, Check_readers)
                                 else (m1, Pick 0 c (the (hostRoutinesWriterHostInfo m1)))))
         else (if hostRoutines m1 \<noteq> [] then stop_routines api m1 else m1, Regular_fetch))"

definition regular_fetch ::
  "(nat \<Rightarrow> time) \<Rightarrow> ('sv, 'c) topology_strategy \<Rightarrow> ('sv, 'c, 'z) tmon \<Rightarrow> ('sv, 'c, 'z) tmon \<times> 'c monitor_point" where
  "regular_fetch clock strat m =
     (let (m1, hosts) = fetchTopologyAndUpdateCache strat (ct_monitoringConn m) m
      in if hosts = [] then (m1, Drop_conn False)
         else if highRefreshRateEndTimeInNanos m1 > 0
         then (if clock (clock_reads m1) div 1000000000 > highRefreshRateEndTimeInNanos m1
               then (tick m1)\<lparr>highRefreshRateEndTimeInNanos := 0\<rparr> else tick m1, Turn_begins)
         else (m1, Turn_begins))"

text \<open>One step: the new state, where the goroutine stands then, and the connections on which the query for the writer was
  answered with yes.\<close>

definition main_goes ::
  "(HostInfo list \<Rightarrow> HostInfo list) \<Rightarrow> ((string, HostInfo list) gomap \<Rightarrow> (string, HostInfo list) gomap) \<Rightarrow> (nat \<Rightarrow> time)
     \<Rightarrow> ('sv, 'c) PluginServiceApi \<Rightarrow> ('sv, 'c) topology_strategy \<Rightarrow> topology_settings \<Rightarrow> 'c monitor_point \<Rightarrow> ('sv, 'c, 'z) tmon
     \<Rightarrow> ('sv, 'c, 'z) tmon \<times> 'c monitor_point \<times> 'c list" where
  "main_goes sortSlice visit clock api strat cfg point m =
     (case point of
        Turn_begins \<Rightarrow> (let (m1, p) = turn_begins clock api m in (m1, p, []))
      | Connect_any \<Rightarrow>
          (case svc_ForceConnect api (ct_initialHostInfo cfg) (ct_monitoringProps cfg) (svc m) of
             (v, Inr (Some conn)) \<Rightarrow> (m\<lparr>svc := v\<rparr>, Install conn, [])
           | (v, _) \<Rightarrow> (m\<lparr>svc := v\<rparr>, Check_readers, []))
      | Install conn \<Rightarrow>
          (if ct_monitoringConn m = None then (m\<lparr>ct_monitoringConn := Some conn\<rparr>, Ask conn, [])
           else (closeConnection api (Some conn) m, Fetch_any, []))
      | Ask conn \<Rightarrow>
          (case q_isWriter strat conn (svc m) of
             (v, Inr True) \<Rightarrow> (m\<lparr>svc := v\<rparr>, Mark conn, [conn])
           | (v, _) \<Rightarrow> (m\<lparr>svc := v\<rparr>, Fetch_any, []))
      | Mark conn \<Rightarrow> (m\<lparr>isVerifiedWriterConn := True\<rparr>, Identify conn, [])
      | Identify conn \<Rightarrow> (identify_writer strat cfg conn m, Fetch_any, [])
      | Fetch_any \<Rightarrow>
          (let (m1, hosts) = fetchTopologyAndUpdateCache strat (ct_monitoringConn m) m
           in (m1, if hosts = [] then Drop_conn True else Start_hosts hosts, []))
      | Drop_conn panic \<Rightarrow> ((closeConnection api (ct_monitoringConn m) m)\<lparr>ct_monitoringConn := None\<rparr>, Drop_flag panic, [])
      | Drop_flag panic \<Rightarrow>
          (m\<lparr>isVerifiedWriterConn := False, ct_writerHostInfo := None\<rparr>, if panic then Start_hosts [] else Turn_begins, [])
      | Start_hosts hosts \<Rightarrow> (if isVerifiedWriterConn m then m else fold start_routine hosts m, Check_readers, [])
      | Check_readers \<Rightarrow> (checkForStableReaderTopologies sortSlice visit clock m, Turn_begins, [])
      | Pick k c h \<Rightarrow> ((pickup_steps api clock c h ! k) m, if k < 5 then Pick (Suc k) c h else Turn_begins, [])
      | Regular_fetch \<Rightarrow> (let (m1, p) = regular_fetch clock strat m in (m1, p, [])))"

text \<open>What the goroutine of a host is answered in its turn.\<close>

definition routine_answers ::
  "('sv, 'c) PluginServiceApi \<Rightarrow> ('sv, 'c) topology_strategy \<Rightarrow> topology_settings \<Rightarrow> 'c HostMonitoringRoutine \<Rightarrow> ('sv, 'c, 'z) tmon \<Rightarrow> 'c list" where
  "routine_answers api strat cfg r m =
     (let asked = (\<lambda>conn m. case conn of None \<Rightarrow> [] | Some c \<Rightarrow> if snd (q_isWriter strat c (svc m)) = Inr True then [c] else [])
      in if hostRoutinesStop m then []
         else if hr_conn r \<noteq> None then asked (hr_conn r) m
         else (case routine_connect api cfg r m of (m1, None) \<Rightarrow> [] | (m1, Some r1) \<Rightarrow> asked (hr_conn r1) m1))"

section \<open>The machine\<close>

text \<open>A request that has emptied the connection and not yet cleared the flag; the first one then closes the connection.\<close>

datatype 'c pending_request = Verifying "'c option" | Resetting

record ('sv, 'c) monitor_machine =
  shared :: "('sv, 'c) ClusterTopologyMonitor"
  main_at :: "'c monitor_point"
  pending :: "'c pending_request list"
  answered_yes :: "'c list"

definition machine_starts :: "'sv plugin_frame \<Rightarrow> ('sv, 'c) monitor_machine" where
  "machine_starts p = \<lparr>shared = NewClusterTopologyMonitorImpl p, main_at = Turn_begins, pending = [], answered_yes = []\<rparr>"

text \<open>The two halves of \<open>reset\<close>, the first up to the emptied connection.\<close>

definition reset_begins :: "('sv, 'c) PluginServiceApi \<Rightarrow> ('sv, 'c, 'z) tmon \<Rightarrow> ('sv, 'c, 'z) tmon" where
  "reset_begins api m =
     (let m1 = (wait_routines api (m\<lparr>hostRoutinesStop := True\<rparr>))\<lparr>hostRoutines := []\<rparr>;
          m2 = closeConnection api (hostRoutinesReaderConn m1) (closeConnection api (hostRoutinesWriterConn m1) m1);
          m3 = forget_routines (m2\<lparr>hostRoutinesStop := False, hostRoutinesWriterConn := None, hostRoutinesReaderConn := None,
                 hostRoutinesLatestTopology := [], hostRoutinesWriterHostInfo := None\<rparr>)
      in (closeConnection api (ct_monitoringConn m3) m3)\<lparr>ct_monitoringConn := None\<rparr>)"

definition request_ends :: "('sv, 'c) PluginServiceApi \<Rightarrow> 'c pending_request \<Rightarrow> ('sv, 'c, 'z) tmon \<Rightarrow> ('sv, 'c, 'z) tmon" where
  "request_ends api q m =
     (case q of
        Verifying conn \<Rightarrow> closeConnection api conn (m\<lparr>isVerifiedWriterConn := False\<rparr>)
      | Resetting \<Rightarrow>
          m\<lparr>isVerifiedWriterConn := False, highRefreshRateEndTimeInNanos := 0, requestToUpdateTopology := True, ct_writerHostInfo := None,
            stored_topology := None\<rparr>)"

datatype grain_event = MainStep | RoutineStep | RequestBegins | RequestEnds | UpdateRequested | TopologyGone | ServiceMoves

inductive grain_step ::
  "(HostInfo list \<Rightarrow> HostInfo list) \<Rightarrow> ((string, HostInfo list) gomap \<Rightarrow> (string, HostInfo list) gomap) \<Rightarrow> (nat \<Rightarrow> time)
     \<Rightarrow> ('sv, 'c) PluginServiceApi \<Rightarrow> ('sv, 'c) topology_strategy \<Rightarrow> topology_settings
     \<Rightarrow> grain_event \<Rightarrow> ('sv, 'c) monitor_machine \<Rightarrow> ('sv, 'c) monitor_machine \<Rightarrow> bool"
  for sortSlice visit clock api strat cfg where
  main_step: "main_at s = Turn_begins \<longrightarrow> \<not> ct_stop (shared s) \<Longrightarrow>
    main_goes sortSlice visit clock api strat cfg (main_at s) (shared s) = (m, p, yes) \<Longrightarrow>
    grain_step sortSlice visit clock api strat cfg MainStep s (s\<lparr>shared := m, main_at := p, answered_yes := yes @ answered_yes s\<rparr>)"
| host_step: "map_of (hostRoutines (shared s)) host = Some r \<Longrightarrow> hr_running r \<Longrightarrow>
    grain_step sortSlice visit clock api strat cfg RoutineStep s
      (s\<lparr>shared := routine_turn api strat cfg r (shared s), answered_yes := routine_answers api strat cfg r (shared s) @ answered_yes s\<rparr>)"
| verify_begins: "grain_step sortSlice visit clock api strat cfg RequestBegins s
    (s\<lparr>shared := (shared s)\<lparr>ct_monitoringConn := None\<rparr>, pending := Verifying (ct_monitoringConn (shared s)) # pending s\<rparr>)"
| reset_begin: "grain_step sortSlice visit clock api strat cfg RequestBegins s
    (s\<lparr>shared := reset_begins api (shared s), pending := Resetting # pending s\<rparr>)"
| request_end: "q \<in> set (pending s) \<Longrightarrow> grain_step sortSlice visit clock api strat cfg RequestEnds s
    (s\<lparr>shared := request_ends api q (shared s), pending := remove1 q (pending s)\<rparr>)"
| update_step: "grain_step sortSlice visit clock api strat cfg UpdateRequested s (s\<lparr>shared := (shared s)\<lparr>requestToUpdateTopology := True\<rparr>\<rparr>)"
| expire_step: "grain_step sortSlice visit clock api strat cfg TopologyGone s (s\<lparr>shared := (shared s)\<lparr>stored_topology := None\<rparr>\<rparr>)"
| service_step: "grain_step sortSlice visit clock api strat cfg ServiceMoves s (s\<lparr>shared := (shared s)\<lparr>svc := v\<rparr>\<rparr>)"

text \<open>A pending request while a connection is being installed and marked, or while the connection of the writer that was found
  is installed and not yet marked.\<close>

definition disturbed :: "('sv, 'c) monitor_machine \<Rightarrow> bool" where
  "disturbed s \<longleftrightarrow> pending s \<noteq> [] \<and>
     (case main_at s of Install _ \<Rightarrow> True | Ask _ \<Rightarrow> True | Mark _ \<Rightarrow> True | Pick k _ _ \<Rightarrow> k = 2 \<or> k = 3 | _ \<Rightarrow> False)"

definition undisturbed :: "('e \<Rightarrow> ('sv, 'c) monitor_machine \<Rightarrow> ('sv, 'c) monitor_machine \<Rightarrow> bool)
    \<Rightarrow> 'e \<Rightarrow> ('sv, 'c) monitor_machine \<Rightarrow> ('sv, 'c) monitor_machine \<Rightarrow> bool" where
  "undisturbed step e s s' \<longleftrightarrow> step e s s' \<and> \<not> disturbed s"

section \<open>The steps in a row are the turns\<close>

fun main_goes_on ::
  "(HostInfo list \<Rightarrow> HostInfo list) \<Rightarrow> ((string, HostInfo list) gomap \<Rightarrow> (string, HostInfo list) gomap) \<Rightarrow> (nat \<Rightarrow> time)
     \<Rightarrow> ('sv, 'c) PluginServiceApi \<Rightarrow> ('sv, 'c) topology_strategy \<Rightarrow> topology_settings \<Rightarrow> nat \<Rightarrow> 'c monitor_point \<Rightarrow> ('sv, 'c, 'z) tmon
     \<Rightarrow> ('sv, 'c, 'z) tmon" where
  "main_goes_on sortSlice visit clock api strat cfg 0 p m = m"
| "main_goes_on sortSlice visit clock api strat cfg (Suc n) p m =
     (let (m1, p1, _) = main_goes sortSlice visit clock api strat cfg p m
      in if p1 = Turn_begins then m1 else main_goes_on sortSlice visit clock api strat cfg n p1 m1)"

text \<open>Fifteen steps are enough for any turn.\<close>

lemma check_go: "main_goes_on sortSlice visit clock api strat cfg (Suc n) Check_readers m = checkForStableReaderTopologies sortSlice visit clock m"
  by (simp add: main_goes_def)

lemma start_go: "main_goes_on sortSlice visit clock api strat cfg (Suc (Suc n)) (Start_hosts hosts) m =
    checkForStableReaderTopologies sortSlice visit clock (if isVerifiedWriterConn m then m else fold start_routine hosts m)"
  by (simp add: main_goes_def)

lemma drop_go: "main_goes_on sortSlice visit clock api strat cfg (Suc (Suc (Suc (Suc n)))) (Drop_conn True) m =
    checkForStableReaderTopologies sortSlice visit clock (drop_monitoring api m)"
  by (simp add: main_goes_def drop_monitoring_def)

lemma drop_go_regular: "main_goes_on sortSlice visit clock api strat cfg (Suc (Suc n)) (Drop_conn False) m = drop_monitoring api m"
  by (simp add: main_goes_def drop_monitoring_def)

text \<open>What becomes of the hosts that were found over any connection.\<close>

definition hosts_found ::
  "(HostInfo list \<Rightarrow> HostInfo list) \<Rightarrow> ((string, HostInfo list) gomap \<Rightarrow> (string, HostInfo list) gomap) \<Rightarrow> (nat \<Rightarrow> time)
     \<Rightarrow> ('sv, 'c) PluginServiceApi \<Rightarrow> ('sv, 'c, 'z) tmon \<times> HostInfo list \<Rightarrow> ('sv, 'c, 'z) tmon" where
  "hosts_found sortSlice visit clock api found =
     (let m = (if snd found = [] then drop_monitoring api (fst found) else fst found)
      in checkForStableReaderTopologies sortSlice visit clock (if isVerifiedWriterConn m then m else fold start_routine (snd found) m))"

lemma go: "main_goes sortSlice visit clock api strat cfg p m = (m1, p1, yes) \<Longrightarrow> p1 \<noteq> Turn_begins \<Longrightarrow>
    main_goes_on sortSlice visit clock api strat cfg (Suc n) p m = main_goes_on sortSlice visit clock api strat cfg n p1 m1"
  by simp

lemma drop_unmarks [simp]: "isVerifiedWriterConn (drop_monitoring api m) = False"
  by (simp add: drop_monitoring_def)

lemma fetch_go: "main_goes_on sortSlice visit clock api strat cfg (Suc (Suc (Suc (Suc (Suc n))))) Fetch_any m =
    hosts_found sortSlice visit clock api (fetchTopologyAndUpdateCache strat (ct_monitoringConn m) m)"
proof -
  obtain m1 hosts where f: "fetchTopologyAndUpdateCache strat (ct_monitoringConn m) m = (m1, hosts)" by fastforce
  then have s: "main_goes sortSlice visit clock api strat cfg Fetch_any m = (m1, if hosts = [] then Drop_conn True else Start_hosts hosts, [])"
    by (simp add: main_goes_def)
  show ?thesis
    by (subst go [OF s]) (simp_all add: drop_go start_go hosts_found_def f Let_def del: main_goes_on.simps)
qed

text \<open>The connection that is opened first, when there is none.\<close>

lemma connect_go:
  assumes "ct_monitoringConn m = None"
  shows "main_goes_on sortSlice visit clock api strat cfg (10 + n) Connect_any m =
    checkForStableReaderTopologies sortSlice visit clock
      (let (m1, hosts) = openAnyConnectionAndUpdateTopology api strat cfg m in if isVerifiedWriterConn m1 then m1 else fold start_routine hosts m1)"
proof -
  let ?go = "main_goes_on sortSlice visit clock api strat cfg"
  obtain v r where f: "svc_ForceConnect api (ct_initialHostInfo cfg) (ct_monitoringProps cfg) (svc m) = (v, r)" by fastforce
  show ?thesis
  proof (cases "\<exists>c. r = Inr (Some c)")
    case False
    then have "main_goes sortSlice visit clock api strat cfg Connect_any m = (m\<lparr>svc := v\<rparr>, Check_readers, [])"
      "open_monitoring api strat cfg m = (m\<lparr>svc := v\<rparr>, False)"
      using f by (auto simp: main_goes_def open_monitoring_def split: sum.splits option.splits)
    then show ?thesis
      using assms by (simp add: numeral_eq_Suc go check_go openAnyConnectionAndUpdateTopology_def Let_def del: main_goes_on.simps)
  next
    case True
    then obtain c where c: "r = Inr (Some c)" by blast
    obtain v' a where q: "q_isWriter strat c v = (v', a)" by fastforce
    let ?m = "m\<lparr>svc := v, ct_monitoringConn := Some c\<rparr>"
    let ?opened = "if a = Inr True then identify_writer strat cfg c (m\<lparr>svc := v', ct_monitoringConn := Some c, isVerifiedWriterConn := True\<rparr>)
                   else m\<lparr>svc := v', ct_monitoringConn := Some c\<rparr>"
    have o: "open_monitoring api strat cfg m = (?opened, True)"
      using f c q by (auto simp: open_monitoring_def split: sum.splits bool.splits)
    have s1: "main_goes sortSlice visit clock api strat cfg Connect_any m = (m\<lparr>svc := v\<rparr>, Install c, [])"
      using f c by (simp add: main_goes_def)
    have s2: "main_goes sortSlice visit clock api strat cfg (Install c) (m\<lparr>svc := v\<rparr>) = (?m, Ask c, [])"
      using assms by (simp add: main_goes_def)
    have "?go (8 + n) (Ask c) ?m = hosts_found sortSlice visit clock api (fetchTopologyAndUpdateCache strat (ct_monitoringConn ?opened) ?opened)"
    proof (cases "a = Inr True")
      case True
      let ?yes = "m\<lparr>svc := v', ct_monitoringConn := Some c\<rparr>"
      have s3: "main_goes sortSlice visit clock api strat cfg (Ask c) ?m = (?yes, Mark c, [c])"
        using q True by (simp add: main_goes_def)
      have s4: "main_goes sortSlice visit clock api strat cfg (Mark c) ?yes = (?yes\<lparr>isVerifiedWriterConn := True\<rparr>, Identify c, [])"
        by (simp add: main_goes_def)
      have s5: "main_goes sortSlice visit clock api strat cfg (Identify c) (?yes\<lparr>isVerifiedWriterConn := True\<rparr>) = (?opened, Fetch_any, [])"
        using True by (simp add: main_goes_def)
      show ?thesis using True by (simp add: numeral_eq_Suc go [OF s3] go [OF s4] go [OF s5] fetch_go del: main_goes_on.simps)
    next
      case False
      then have "main_goes sortSlice visit clock api strat cfg (Ask c) ?m = (m\<lparr>svc := v', ct_monitoringConn := Some c\<rparr>, Fetch_any, [])"
        using q by (auto simp: main_goes_def split: sum.splits bool.splits)
      then show ?thesis using False by (simp add: numeral_eq_Suc go fetch_go del: main_goes_on.simps)
    qed
    then show ?thesis
      using s1 s2 o assms
      by (simp add: numeral_eq_Suc go openAnyConnectionAndUpdateTopology_def hosts_found_def case_prod_beta Let_def del: main_goes_on.simps)
  qed
qed

lemma pick_go:
  "main_goes_on sortSlice visit clock api strat cfg (6 + n) (Pick 0 c h) m = fold (\<lambda>step. step) (pickup_steps api clock c h) m"
proof -
  have s: "main_goes sortSlice visit clock api strat cfg (Pick k c h) m =
      ((pickup_steps api clock c h ! k) m, if k < 5 then Pick (Suc k) c h else Turn_begins, [])" for k and m :: "('a, 'b, 'c) tmon"
    by (simp add: main_goes_def)
  show ?thesis by (simp add: numeral_eq_Suc s pickup_steps_def)
qed

lemma regular_go: "main_goes_on sortSlice visit clock api strat cfg (Suc (Suc (Suc n))) Regular_fetch m =
    (let (m1, hosts) = fetchTopologyAndUpdateCache strat (ct_monitoringConn m) m
     in if hosts = [] then drop_monitoring api m1 else fst (regular_fetch clock strat m))"
proof -
  obtain m1 hosts where f: "fetchTopologyAndUpdateCache strat (ct_monitoringConn m) m = (m1, hosts)" by fastforce
  show ?thesis
  proof (cases "hosts = []")
    case True
    then have "main_goes sortSlice visit clock api strat cfg Regular_fetch m = (m1, Drop_conn False, [])"
      by (simp add: main_goes_def regular_fetch_def f)
    then show ?thesis using True by (simp add: go drop_go_regular f del: main_goes_on.simps)
  qed (simp add: main_goes_def regular_fetch_def f)
qed

text \<open>The machine's steps of a turn that nothing interrupts are the turn of \<open>Cluster_Monitor\<close>.\<close>

theorem uninterrupted_turn:
  "main_goes_on sortSlice visit clock api strat cfg 15 Turn_begins m = fst (topology_turn sortSlice visit clock api strat cfg m)"
proof -
  define n where "n = (tick m)\<lparr>ct_lastActivity := clock (clock_reads m)\<rparr>"
  let ?s = "n\<lparr>hostRoutinesStop := False, hostRoutinesWriterConn := None, hostRoutinesReaderConn := None, hostRoutinesLatestTopology := [],
              hostRoutinesWriterHostInfo := None\<rparr>"
  let ?go = "main_goes_on sortSlice visit clock api strat cfg"
  obtain m1 p where b: "turn_begins clock api m = (m1, p)" by fastforce
  then have b': "(if isInPanicMode n
         then (if hostRoutines n = []
               then (?s, if monitor_storedHosts ?s \<noteq> [] then Start_hosts (monitor_storedHosts ?s)
                         else if ct_monitoringConn ?s = None then Connect_any else Fetch_any)
               else (case hostRoutinesWriterConn n of
                       None \<Rightarrow> (add_routines n, Check_readers)
                     | Some c \<Rightarrow> if IsNil (hostRoutinesWriterHostInfo n) then (add_routines n, Check_readers)
                                 else (n, Pick 0 c (the (hostRoutinesWriterHostInfo n)))))
         else (if hostRoutines n \<noteq> [] then stop_routines api n else n, Regular_fetch)) = (m1, p)"
    unfolding turn_begins_def Let_def n_def .
  have turn: "topology_turn sortSlice visit clock api strat cfg m =
      (if isInPanicMode n then panic_turn sortSlice visit clock api strat cfg n else regular_turn clock api strat n)"
    unfolding topology_turn_def Let_def n_def ..
  from b have s: "main_goes sortSlice visit clock api strat cfg Turn_begins m = (m1, p, [])" by (simp add: main_goes_def)
  have p: "p \<noteq> Turn_begins" using b by (auto simp: turn_begins_def Let_def split: if_splits option.splits)
  have "?go 15 Turn_begins m = ?go (Suc 14) Turn_begins m" by simp
  also have "\<dots> = ?go 14 p m1" using go [OF s p] .
  finally have g: "?go 15 Turn_begins m = ?go 14 p m1" .
  consider (regular) "\<not> isInPanicMode n" | (start) "isInPanicMode n" "hostRoutines n = []" | (running) "isInPanicMode n" "hostRoutines n \<noteq> []"
    by blast
  then show ?thesis
  proof cases
    case regular
    then have "m1 = (if hostRoutines n \<noteq> [] then stop_routines api n else n)" "p = Regular_fetch"
      using b' by simp_all
    moreover have "?go 14 Regular_fetch m1 = (let (m2, hosts) = fetchTopologyAndUpdateCache strat (ct_monitoringConn m1) m1
        in if hosts = [] then drop_monitoring api m2 else fst (regular_fetch clock strat m1))"
      using regular_go [of sortSlice visit clock api strat cfg 11 m1] by (simp add: numeral_eq_Suc del: main_goes_on.simps)
    ultimately show ?thesis using regular g
      by (simp add: turn regular_turn_def regular_fetch_def Let_def case_prod_beta del: main_goes_on.simps)
  next
    case start
    then have m1: "m1 = ?s" and p: "p = (if monitor_storedHosts ?s \<noteq> [] then Start_hosts (monitor_storedHosts ?s)
        else if ct_monitoringConn ?s = None then Connect_any else Fetch_any)"
      using b' by (force simp only: if_True prod.inject simp_thms)+
    have "?go 14 p ?s = checkForStableReaderTopologies sortSlice visit clock (start_routines api strat cfg n)"
    proof (cases "monitor_storedHosts ?s \<noteq> []")
      case True
      then show ?thesis
        using p start_go [of sortSlice visit clock api strat cfg 12 _ ?s]
        by (simp add: start_routines_def Let_def del: main_goes_on.simps)
    next
      case False
      then have sr: "start_routines api strat cfg n = (let (m2, hosts) = openAnyConnectionAndUpdateTopology api strat cfg ?s
          in if isVerifiedWriterConn m2 then m2 else fold start_routine hosts m2)" by (simp add: start_routines_def Let_def)
      show ?thesis
      proof (cases "ct_monitoringConn ?s = None")
        case True
        then show ?thesis using False p connect_go [of ?s sortSlice visit clock api strat cfg 4] sr by (simp del: main_goes_on.simps)
      next
        case conn: False
        obtain m2 hosts where f: "fetchTopologyAndUpdateCache strat (ct_monitoringConn ?s) ?s = (m2, hosts)" by fastforce
        with conn have "openAnyConnectionAndUpdateTopology api strat cfg ?s = (if hosts = [] then drop_monitoring api m2 else m2, hosts)"
          by (simp only: openAnyConnectionAndUpdateTopology_def if_False Let_def prod.case not_True_eq_False)
        then have "start_routines api strat cfg n = (let m = (if hosts = [] then drop_monitoring api m2 else m2)
            in if isVerifiedWriterConn m then m else fold start_routine hosts m)" unfolding sr by simp
        moreover have "p = Fetch_any" using False conn p by (simp only: if_False)
        moreover have "?go 14 Fetch_any ?s = hosts_found sortSlice visit clock api (m2, hosts)"
          using fetch_go [of sortSlice visit clock api strat cfg 9 ?s] unfolding f by (simp add: numeral_eq_Suc del: main_goes_on.simps)
        ultimately show ?thesis by (simp only: hosts_found_def Let_def fst_conv snd_conv)
      qed
    qed
    then show ?thesis using g m1 start by (simp add: turn panic_turn_def Let_def del: main_goes_on.simps)
  next
    case running
    show ?thesis
    proof (cases "hostRoutinesWriterConn n = None \<or> IsNil (hostRoutinesWriterHostInfo n)")
      case True
      then have "m1 = add_routines n" "p = Check_readers"
        using b' running by (auto split: option.splits)
      moreover have "?go 14 Check_readers m1 = checkForStableReaderTopologies sortSlice visit clock m1"
        using check_go [of sortSlice visit clock api strat cfg 13 m1] by (simp add: numeral_eq_Suc del: main_goes_on.simps)
      ultimately show ?thesis using g running True
        by (auto simp: turn panic_turn_def Let_def simp del: main_goes_on.simps split: option.splits)
    next
      case False
      then obtain c where c: "hostRoutinesWriterConn n = Some c" by auto
      then have "m1 = n" "p = Pick 0 c (the (hostRoutinesWriterHostInfo n))" using b' running False by auto
      then show ?thesis using g running False c pick_go [of sortSlice visit clock api strat cfg 8 c _ n]
        by (simp add: turn panic_turn_def Let_def del: main_goes_on.simps)
    qed
  qed
qed

section \<open>A verified connection is the writer's\<close>

text \<open>What a marked connection is, and what holds at the points at which one is installed or dropped. \<open>calm\<close>: no request is
  pending.\<close>

definition point_ok :: "bool \<Rightarrow> 'c list \<Rightarrow> 'c monitor_point \<Rightarrow> bool \<Rightarrow> 'c option \<Rightarrow> bool" where
  "point_ok calm yes p marked conn =
     (case p of
        Ask c \<Rightarrow> calm \<longrightarrow> conn = Some c \<and> \<not> marked
      | Mark c \<Rightarrow> calm \<longrightarrow> conn = Some c \<and> c \<in> set yes
      | Pick k c _ \<Rightarrow> c \<in> set yes \<and> (k = 2 \<or> k = 3 \<longrightarrow> calm \<longrightarrow> conn = Some c)
      | Drop_flag _ \<Rightarrow> conn = None
      | _ \<Rightarrow> True)"

definition mark_ok :: "bool \<Rightarrow> 'c list \<Rightarrow> 'c monitor_point \<Rightarrow> bool \<times> 'c option \<times> 'c option \<Rightarrow> bool" where
  "mark_ok calm yes p view =
     (case view of (marked, conn, found) \<Rightarrow>
        (marked \<longrightarrow> (case conn of Some c \<Rightarrow> c \<in> set yes | None \<Rightarrow> \<not> calm \<or> (\<exists>panic. p = Drop_flag panic))) \<and>
        (\<forall>c. found = Some c \<longrightarrow> c \<in> set yes) \<and> point_ok calm yes p marked conn)"

definition machine_ok :: "('sv, 'c) monitor_machine \<Rightarrow> bool" where
  "machine_ok s \<longleftrightarrow> mark_ok (pending s = []) (answered_yes s) (main_at s) (writer_view (shared s))"

lemma mark_ok_more: "mark_ok calm yes p view \<Longrightarrow> mark_ok calm (more_yes @ yes) p view"
  by (auto simp: mark_ok_def point_ok_def split: monitor_point.splits option.splits)

lemma turn_begins_view:
  assumes "turn_begins clock api m = (m', p)" "writer_view m = (marked, conn, found)"
  shows "writer_view m' \<in> {(marked, conn, found), (marked, conn, None)} \<and>
    (p \<in> {Connect_any, Fetch_any, Check_readers, Regular_fetch} \<or> p \<in> range Start_hosts \<or> (\<exists>c h. p = Pick 0 c h \<and> found = Some c))"
proof -
  define n where "n = (tick m)\<lparr>ct_lastActivity := clock (clock_reads m)\<rparr>"
  have n: "writer_view n = (marked, conn, found)" using assms(2) by (simp add: n_def view_fields)
  have a: "writer_view (add_routines n) = (marked, conn, found)" "writer_view (stop_routines api n) = (marked, conn, found)"
    "writer_view (n\<lparr>hostRoutinesStop := False, hostRoutinesWriterConn := None, hostRoutinesReaderConn := None,
              hostRoutinesLatestTopology := [], hostRoutinesWriterHostInfo := None\<rparr>) = (marked, conn, None)"
    "hostRoutinesWriterConn n = found"
    using n by (simp_all add: writer_view_def [of n]) (simp add: writer_view_def)
  show ?thesis
    using assms(1) a n unfolding turn_begins_def Let_def n_def [symmetric] by (auto split: if_splits option.splits)
qed

lemma turn_begins_ok:
  assumes "mark_ok calm yes Turn_begins (writer_view m)" "turn_begins clock api m = (m', p)"
  shows "mark_ok calm yes p (writer_view m')"
proof -
  obtain marked conn found where v: "writer_view m = (marked, conn, found)" by (metis prod_cases3)
  show ?thesis
    using assms(1) turn_begins_view [OF assms(2) v] v by (auto simp: mark_ok_def point_ok_def split: option.splits)
qed

lemma regular_fetch_view: "regular_fetch clock strat m = (m', p) \<Longrightarrow> writer_view m' = writer_view m \<and> p \<in> {Drop_conn False, Turn_begins}"
proof -
  obtain m1 hosts where f: "fetchTopologyAndUpdateCache strat (ct_monitoringConn m) m = (m1, hosts)" by fastforce
  then have "writer_view m1 = writer_view m" using view_fetch [of strat "ct_monitoringConn m" m] by simp
  then show "regular_fetch clock strat m = (m', p) \<Longrightarrow> writer_view m' = writer_view m \<and> p \<in> {Drop_conn False, Turn_begins}"
    by (auto simp: regular_fetch_def f view_fields split: if_splits)
qed

lemma view_parts: "isVerifiedWriterConn m = fst (writer_view m)" "ct_monitoringConn m = fst (snd (writer_view m))"
  "hostRoutinesWriterConn m = snd (snd (writer_view m))"
  by (simp_all add: writer_view_def)

lemma close_parts: "isVerifiedWriterConn (closeConnection api conn m) = isVerifiedWriterConn m"
  "ct_monitoringConn (closeConnection api conn m) = ct_monitoringConn m"
  by (simp_all add: view_parts)

text \<open>A step of the main goroutine that no pending request disturbs.\<close>

lemma main_goes_ok:
  assumes ok: "mark_ok calm yes p (writer_view m)" and go: "main_goes sortSlice visit clock api strat cfg p m = (m', p', yes')"
    and calm: "calm \<or> \<not> (case p of Install _ \<Rightarrow> True | Ask _ \<Rightarrow> True | Mark _ \<Rightarrow> True | Pick k _ _ \<Rightarrow> k = 2 \<or> k = 3 | _ \<Rightarrow> False)"
    and k: "\<And>k c h. p = Pick k c h \<Longrightarrow> k \<le> 5"
  shows "mark_ok calm (yes' @ yes) p' (writer_view m')"
proof (cases p)
  case Turn_begins
  then show ?thesis using turn_begins_ok ok go by (fastforce simp: main_goes_def split: prod.splits)
next
  case Connect_any
  then show ?thesis using ok go by (auto simp: main_goes_def mark_ok_def point_ok_def writer_view_def split: prod.splits sum.splits option.splits)
next
  case (Install c)
  then show ?thesis using ok go calm
    by (auto simp: main_goes_def mark_ok_def point_ok_def writer_view_def close_parts split: if_splits option.splits)
next
  case (Ask c)
  then show ?thesis using ok go calm
    by (auto simp: main_goes_def mark_ok_def point_ok_def writer_view_def split: prod.splits sum.splits bool.splits option.splits)
next
  case (Mark c)
  then show ?thesis using ok go calm by (auto simp: main_goes_def mark_ok_def point_ok_def writer_view_def split: option.splits)
next
  case (Identify c)
  then show ?thesis using ok go by (auto simp: main_goes_def mark_ok_def point_ok_def split: option.splits)
next
  case Fetch_any
  obtain m1 hosts where f: "fetchTopologyAndUpdateCache strat (ct_monitoringConn m) m = (m1, hosts)" by fastforce
  then have "writer_view m1 = writer_view m" using view_fetch [of strat "ct_monitoringConn m" m] by simp
  moreover have "m' = m1" "p' = (if hosts = [] then Drop_conn True else Start_hosts hosts)" "yes' = []"
    using Fetch_any go f by (auto simp: main_goes_def)
  ultimately show ?thesis using Fetch_any ok by (auto simp: mark_ok_def point_ok_def split: option.splits)
next
  case (Drop_conn panic)
  then show ?thesis using ok go by (auto simp: main_goes_def mark_ok_def point_ok_def writer_view_def split: option.splits)
next
  case (Drop_flag panic)
  then show ?thesis using ok go by (auto simp: main_goes_def mark_ok_def point_ok_def writer_view_def split: if_splits option.splits)
next
  case (Start_hosts hosts)
  then show ?thesis using ok go by (auto simp: main_goes_def mark_ok_def point_ok_def split: if_splits option.splits)
next
  case Check_readers
  then show ?thesis using ok go by (auto simp: main_goes_def mark_ok_def point_ok_def split: option.splits)
next
  case (Pick k c h)
  obtain marked conn found where v: "writer_view m = (marked, conn, found)" by (metis prod_cases3)
  from Pick have "k \<le> 5" using k by blast
  then consider "k = 0" | "k = 1" | "k = 2" | "k = 3" | "k = 4" | "k = 5" by linarith
  then have "writer_view m' = (if k = 3 then True else marked, if k = 1 then Some c else conn, found)"
    using Pick go v by cases (auto simp: main_goes_def pickup_steps_def numeral_eq_Suc view_fields, auto simp: writer_view_def)
  moreover have "p' = (if k < 5 then Pick (Suc k) c h else Turn_begins)" "yes' = []" using Pick go by (auto simp: main_goes_def)
  ultimately show ?thesis using Pick ok calm v
    by (auto simp: mark_ok_def point_ok_def split: option.splits if_splits)
next
  case Regular_fetch
  then show ?thesis using ok go regular_fetch_view [of clock strat m]
    by (auto simp: main_goes_def mark_ok_def point_ok_def split: prod.splits option.splits)
qed

text \<open>The pickup has six steps.\<close>

definition pickup_ends :: "('sv, 'c) monitor_machine \<Rightarrow> bool" where
  "pickup_ends s \<longleftrightarrow> (case main_at s of Pick k _ _ \<Rightarrow> k \<le> 5 | _ \<Rightarrow> True)"

lemma pickup_ends_goes:
  assumes "main_goes sortSlice visit clock api strat cfg p m = (m', Pick k c h, yes)"
  shows "k \<le> 5"
proof (cases p)
  case Turn_begins
  obtain marked conn found where v: "writer_view m = (marked, conn, found)" by (metis prod_cases3)
  from Turn_begins assms have "turn_begins clock api m = (m', Pick k c h)" by (auto simp: main_goes_def split: prod.splits)
  from turn_begins_view [OF this v] show ?thesis by auto
next
  case Regular_fetch
  with assms have "regular_fetch clock strat m = (m', Pick k c h)" by (auto simp: main_goes_def split: prod.splits)
  from regular_fetch_view [OF this] show ?thesis by auto
qed (use assms in \<open>auto simp: main_goes_def split: prod.splits sum.splits option.splits bool.splits if_splits\<close>)

text \<open>The goroutine of a host offers only a connection on which it was answered.\<close>

lemma view_writer_check:
  "writer_check api strat c r m = (m1, r1, b) \<Longrightarrow> writer_view m1 = writer_view m \<and> (b \<longrightarrow> snd (q_isWriter strat c (svc m)) = Inr True)"
  by (auto simp: writer_check_def view_fields split: prod.splits sum.splits bool.splits)

lemma view_found_writer: "writer_view (found_writer api strat c r m) \<in>
    {writer_view m, (isVerifiedWriterConn m, ct_monitoringConn m, Some c)}"
proof -
  define f where "f = fst (fetchTopologyAndUpdateCache strat (Some c) (m\<lparr>hostRoutinesWriterConn := Some c\<rparr>))"
  have "writer_view f = writer_view (m\<lparr>hostRoutinesWriterConn := Some c\<rparr>)" unfolding f_def by (rule view_fetch)
  then have "writer_view (f\<lparr>hostRoutinesStop := True, hostRoutinesWriterHostInfo := h\<rparr>) = (isVerifiedWriterConn m, ct_monitoringConn m, Some c)" for h
    by (simp add: writer_view_def)
  then show ?thesis by (simp add: found_writer_def f_def [symmetric])
qed

lemma view_probe: "writer_view (routine_probe api strat r m) = writer_view m \<or>
    (\<exists>c. hr_conn r = Some c \<and> snd (q_isWriter strat c (svc m)) = Inr True \<and>
       writer_view (routine_probe api strat r m) = (isVerifiedWriterConn m, ct_monitoringConn m, Some c))"
proof (cases "hr_conn r")
  case (Some c)
  obtain m1 r1 b where w: "writer_check api strat c r m = (m1, r1, b)" by (metis prod_cases3)
  note v = view_writer_check [OF w]
  then have "isVerifiedWriterConn m1 = isVerifiedWriterConn m" "ct_monitoringConn m1 = ct_monitoringConn m" by (simp_all add: view_parts)
  then show ?thesis using v view_found_writer [of api strat c r1 m1] by (auto simp: routine_probe_def Some w)
qed (simp add: routine_probe_def)

lemma routine_ok:
  assumes ok: "mark_ok calm yes p (writer_view m)"
  shows "mark_ok calm (routine_answers api strat cfg r m @ yes) p (writer_view (routine_turn api strat cfg r m))"
proof -
  have probe: "mark_ok calm ((case hr_conn r1 of None \<Rightarrow> [] | Some c \<Rightarrow> if snd (q_isWriter strat c (svc m1)) = Inr True then [c] else []) @ yes) p
      (writer_view (routine_probe api strat r1 m1))" if "writer_view m1 = writer_view m" for m1 r1
    using view_probe [of api strat r1 m1] mark_ok_more [OF ok] that ok
    by (auto simp: view_parts mark_ok_def point_ok_def split: option.splits monitor_point.splits)
  obtain m1 res where c: "routine_connect api cfg r m = (m1, res)" by fastforce
  from view_connect [OF c] have v: "writer_view m1 = writer_view m" .
  show ?thesis
    using ok probe [of m r] probe [OF v] v c by (auto simp: routine_turn_def routine_answers_def Let_def split: option.splits)
qed

lemma step_ok:
  assumes "grain_step sortSlice visit clock api strat cfg e s s'" "\<not> disturbed s" "pickup_ends s" "machine_ok s"
  shows "pickup_ends s' \<and> machine_ok s'"
  using assms
proof (induction rule: grain_step.induct)
  case (main_step s m p yes)
  have ok: "mark_ok (pending s = []) (answered_yes s) (main_at s) (writer_view (shared s))"
    and k: "\<And>k c h. main_at s = Pick k c h \<Longrightarrow> k \<le> 5"
    using main_step.prems by (auto simp: machine_ok_def pickup_ends_def)
  have d: "pending s = [] \<or> \<not> (case main_at s of Install _ \<Rightarrow> True | Ask _ \<Rightarrow> True | Mark _ \<Rightarrow> True | Pick k _ _ \<Rightarrow> k = 2 \<or> k = 3 | _ \<Rightarrow> False)"
    using main_step.prems(1) by (simp add: disturbed_def)
  from main_goes_ok [OF ok main_step.hyps(2) d k] have "mark_ok (pending s = []) (yes @ answered_yes s) p (writer_view m)" .
  moreover have "k \<le> 5" if "p = Pick k c h" for k c h using pickup_ends_goes [OF main_step.hyps(2) [unfolded that]] .
  ultimately show ?case by (auto simp: machine_ok_def pickup_ends_def split: monitor_point.splits)
next
  case (host_step s host r)
  then show ?case using routine_ok by (simp add: machine_ok_def pickup_ends_def)
next
  case (verify_begins s)
  then show ?case by (auto simp: machine_ok_def pickup_ends_def mark_ok_def point_ok_def writer_view_def split: monitor_point.splits option.splits)
next
  case (reset_begin s)
  have "writer_view (reset_begins api (shared s)) = (isVerifiedWriterConn (shared s), None, None)"
    using view_wait [of api "(shared s)\<lparr>hostRoutinesStop := True\<rparr>"]
    by (simp add: reset_begins_def Let_def writer_view_def forget_routines_def close_parts)
  then show ?case using reset_begin.prems
   by (auto simp: machine_ok_def pickup_ends_def mark_ok_def point_ok_def writer_view_def split: monitor_point.splits option.splits)
next
  case (request_end q s)
  have "writer_view (request_ends api q (shared s)) = (False, ct_monitoringConn (shared s), hostRoutinesWriterConn (shared s))"
    by (simp add: request_ends_def split: pending_request.splits) (simp add: writer_view_def)
  moreover have "pending s \<noteq> []" using request_end.hyps by auto
  ultimately show ?case using request_end.prems
    by (auto simp: machine_ok_def pickup_ends_def disturbed_def mark_ok_def point_ok_def writer_view_def split: monitor_point.splits option.splits)
qed (auto simp: machine_ok_def pickup_ends_def view_fields)

interpretation steps: kept_by_steps "undisturbed (grain_step sortSlice visit clock api strat cfg)" "\<lambda>_. True" "\<lambda>s. pickup_ends s \<and> machine_ok s"
  for sortSlice visit clock api strat cfg
  by unfold_locales (use step_ok in \<open>unfold undisturbed_def, blast\<close>)

text \<open>C1: As long as no request to verify the writer and no reset is under way while the monitor installs and marks a connection, it is
  out of panic mode only with a connection on which the query for the writer has answered yes in this run: a verified
  connection is never missing and never one that was not asked. Everything else may interleave: the turns of the
  goroutines of the hosts, the steps of the main goroutine, requests and resets elsewhere, the expiry of the stored topology.\<close>
theorem verified_connection_is_writer:
  assumes "runs (undisturbed (grain_step sortSlice visit clock api strat cfg)) es (machine_starts p) s" "\<not> isInPanicMode (shared s)"
  shows "\<exists>c. ct_monitoringConn (shared s) = Some c \<and> c \<in> set (answered_yes s)"
proof -
  have "pickup_ends (machine_starts p) \<and> machine_ok (machine_starts p)"
    by (simp add: machine_starts_def pickup_ends_def machine_ok_def mark_ok_def point_ok_def writer_view_def NewClusterTopologyMonitorImpl_def)
  from steps.runs_keep [OF assms(1) _ this] have "machine_ok s" by simp
  then show ?thesis using assms(2) by (auto simp: isInPanicMode_def machine_ok_def mark_ok_def writer_view_def)
qed

section \<open>A verification during the pickup that outlives the stored topology\<close>

lemma interrupted_mark:
  "writer_view (interrupted_pickup api clock c h m) = (True, None, hostRoutinesWriterConn (interrupted_pickup api clock c h m)) \<and>
   hostRoutines (interrupted_pickup api clock c h m) = []"
proof -
  define v where "v = verify_request api ((closeConnection api (ct_monitoringConn m) m)\<lparr>ct_monitoringConn := Some c\<rparr>)"
  define n where "n = tick (v\<lparr>ct_writerHostInfo := Some h, isVerifiedWriterConn := True,
    highRefreshRateEndTimeInNanos := (clock (clock_reads v) + highRefreshPeriodAfterPanicNano) div 1000000000\<rparr>)"
  have eq: "interrupted_pickup api clock c h m = stop_routines api n"
    by (simp add: interrupted_pickup_def pickup_steps_def numeral_2_eq_2 n_def v_def)
  have "ct_monitoringConn v = None" unfolding v_def verify_request_def by (simp add: close_parts)
  then have "writer_view n = (True, None, hostRoutinesWriterConn n)" by (simp add: writer_view_def n_def tick_def)
  then have "writer_view (stop_routines api n) = (True, None, hostRoutinesWriterConn n)" by simp
  then show ?thesis unfolding eq by (simp add: writer_view_def) (simp add: stop_routines_def forget_routines_def)
qed

text \<open>C40: When a verification is requested between the two steps of a pickup and the stored topology has expired, the next turn of the
  monitor opens any connection and, as the mark was left standing, trusts it: it leaves panic mode with a connection on which
  the query for the writer has just answered no.\<close>
theorem stale_mark_trusts_reader:
  assumes m: "m = (interrupted_pickup api clock c h m0)\<lparr>stored_topology := None\<rparr>"
    and connect: "svc_ForceConnect api (ct_initialHostInfo cfg) (ct_monitoringProps cfg) (svc m) = (v1, Inr (Some reader))"
    and no: "q_isWriter strat reader v1 = (v2, Inr False)" and topology: "q_topology strat reader v2 = (v3, Inr hosts)" "hosts \<noteq> []"
  shows "\<not> isInPanicMode (fst (topology_turn sortSlice visit clock api strat cfg m)) \<and>
    ct_monitoringConn (fst (topology_turn sortSlice visit clock api strat cfg m)) = Some reader"
proof -
  define n where "n = (tick m)\<lparr>ct_lastActivity := clock (clock_reads m)\<rparr>"
  let ?s = "n\<lparr>hostRoutinesStop := False, hostRoutinesWriterConn := None, hostRoutinesReaderConn := None, hostRoutinesLatestTopology := [],
              hostRoutinesWriterHostInfo := None\<rparr>"
  note i = interrupted_mark [of api clock c h m0]
  have n: "isVerifiedWriterConn n" "ct_monitoringConn n = None" "hostRoutines n = []" "stored_topology n = None" "svc n = svc m"
    using i by (auto simp: n_def m tick_def writer_view_def)
  have "open_monitoring api strat cfg ?s = (?s\<lparr>svc := v2, ct_monitoringConn := Some reader\<rparr>, True)"
    using connect no n by (simp add: open_monitoring_def)
  then have "openAnyConnectionAndUpdateTopology api strat cfg ?s =
      (updateTopologyCache hosts (?s\<lparr>ct_monitoringConn := Some reader, svc := v3\<rparr>), hosts)"
    using topology n by (simp add: openAnyConnectionAndUpdateTopology_def fetchTopologyAndUpdateCache_def)
  moreover have "monitor_storedHosts ?s = []" using n by (simp add: monitor_storedHosts_def)
  ultimately have "start_routines api strat cfg n = updateTopologyCache hosts (?s\<lparr>ct_monitoringConn := Some reader, svc := v3\<rparr>)"
    using n by (simp add: start_routines_def Let_def updateTopologyCache_def)
  then have "writer_view (start_routines api strat cfg n) = (True, Some reader, None)" using n by (simp add: writer_view_def updateTopologyCache_def)
  moreover have "isInPanicMode n" using n by (simp add: isInPanicMode_def)
  then have "fst (topology_turn sortSlice visit clock api strat cfg m) =
      checkForStableReaderTopologies sortSlice visit clock (start_routines api strat cfg n)"
    using n by (simp add: topology_turn_def panic_turn_def Let_def n_def [symmetric])
  ultimately have "writer_view (fst (topology_turn sortSlice visit clock api strat cfg m)) = (True, Some reader, None)" by simp
  then show ?thesis by (simp add: isInPanicMode_def writer_view_def)
qed

section \<open>Forced refreshes\<close>

lemma later_begins: "turn_begins clock api m = (m', p) \<Longrightarrow> later m m'"
proof -
  have a: "later m (add_routines ((tick m)\<lparr>ct_lastActivity := t\<rparr>))" "later m (stop_routines api ((tick m)\<lparr>ct_lastActivity := t\<rparr>))"
    "later m ((tick m)\<lparr>ct_lastActivity := t\<rparr>)"
    "later m ((tick m)\<lparr>ct_lastActivity := t, hostRoutinesStop := False, hostRoutinesWriterConn := None, hostRoutinesReaderConn := None,
              hostRoutinesLatestTopology := [], hostRoutinesWriterHostInfo := None\<rparr>)" for t
    by (rule later_same, simp)+
  show "turn_begins clock api m = (m', p) \<Longrightarrow> later m m'"
    unfolding turn_begins_def Let_def using a by (auto split: if_splits option.splits)
qed

lemma later_regular: "regular_fetch clock strat m = (m', p) \<Longrightarrow> later m m'"
proof -
  obtain m1 hosts where f: "fetchTopologyAndUpdateCache strat (ct_monitoringConn m) m = (m1, hosts)" by fastforce
  then have f1: "later m m1" using later_fetch [of m strat "ct_monitoringConn m"] by simp
  have "later m (tick m1)" "later m ((tick m1)\<lparr>highRefreshRateEndTimeInNanos := 0\<rparr>)" by (rule later_trans [OF f1 later_same], simp)+
  then show "regular_fetch clock strat m = (m', p) \<Longrightarrow> later m m'" using f1 by (auto simp: regular_fetch_def f split: if_splits)
qed

lemma store_pickup: "k \<le> 5 \<Longrightarrow> store_view ((pickup_steps api clock c h ! k) m) = store_view m"
proof -
  assume "k \<le> 5"
  then consider "k = 0" | "k = 1" | "k = 2" | "k = 3" | "k = 4" | "k = 5" by linarith
  then show ?thesis by cases (simp_all add: pickup_steps_def numeral_eq_Suc)
qed

lemma later_goes:
  assumes go: "main_goes sortSlice visit clock api strat cfg p m = (m', p', yes)" and k: "\<And>k c h. p = Pick k c h \<Longrightarrow> k \<le> 5"
  shows "later m m'"
proof (cases p)
  case Turn_begins
  then show ?thesis using go later_begins by (fastforce simp: main_goes_def split: prod.splits)
next
  case Fetch_any
  then show ?thesis using go later_fetch [of m strat "ct_monitoringConn m"] by (auto simp: main_goes_def split: prod.splits)
next
  case Check_readers
  then show ?thesis using go later_check by (auto simp: main_goes_def)
next
  case (Pick k c h)
  then show ?thesis using go k by (auto simp: main_goes_def intro: later_same [OF store_pickup])
next
  case Regular_fetch
  then show ?thesis using go later_regular by (fastforce simp: main_goes_def split: prod.splits)
qed (use go in \<open>auto simp: main_goes_def intro!: later_same split: prod.splits sum.splits option.splits bool.splits if_splits\<close>)

lemma later_request: "later m (request_ends api q m)"
  by (auto simp: request_ends_def later_same intro: later_trans [OF _ later_none] split: pending_request.splits)

lemma later_step:
  assumes "grain_step sortSlice visit clock api strat cfg e s s'" "pickup_ends s"
  shows "pickup_ends s' \<and> later (shared s) (shared s')"
  using assms
proof (induction rule: grain_step.induct)
  case (main_step s m p yes)
  have k: "\<And>k c h. main_at s = Pick k c h \<Longrightarrow> k \<le> 5" using main_step.prems by (auto simp: pickup_ends_def)
  have "later (shared s) m" by (rule later_goes [OF main_step.hyps(2) k])
  moreover have "k \<le> 5" if "p = Pick k c h" for k c h using pickup_ends_goes [OF main_step.hyps(2) [unfolded that]] .
  ultimately show ?case by (auto simp: pickup_ends_def split: monitor_point.splits)
next
  case (host_step s host r)
  then show ?case using later_routine by (simp add: pickup_ends_def)
next
  case (reset_begin s)
  have "store_view (reset_begins api (shared s)) = store_view (shared s)" by (simp add: reset_begins_def Let_def)
  then show ?case using reset_begin.prems by (simp add: pickup_ends_def later_same)
next
  case (request_end q s)
  then show ?case using later_request by (simp add: pickup_ends_def)
qed (auto simp: pickup_ends_def later_same later_none)

lemma later_runs:
  "runs (grain_step sortSlice visit clock api strat cfg) es s s' \<Longrightarrow> pickup_ends s \<Longrightarrow> later (shared s) (shared s')"
  by (induction rule: runs.induct) (use later_step later_trans in \<open>auto, blast\<close>)

text \<open>The other goroutines during a wait: from some point of the main goroutine, some steps of the machine.\<close>

definition goes_on ::
  "(grain_event \<Rightarrow> ('sv, 'c) monitor_machine \<Rightarrow> ('sv, 'c) monitor_machine \<Rightarrow> bool) \<Rightarrow> ('sv, 'c) ClusterTopologyMonitor \<Rightarrow> ('sv, 'c) ClusterTopologyMonitor \<Rightarrow> bool" where
  "goes_on step m m' \<longleftrightarrow> (\<exists>es s s'. runs step es s s' \<and> pickup_ends s \<and> shared s = m \<and> shared s' = m')"

lemma later_goes_on: "goes_on (grain_step sortSlice visit clock api strat cfg) m m' \<Longrightarrow> later m m'"
  by (auto simp: goes_on_def dest: later_runs)

text \<open>C3: A forced refresh with a timeout returns once the clock has passed it, whatever steps the other goroutines make meanwhile. When it
  answers hosts, they are those of a topology stored after it was called, and if the writer was to be verified, it was; the
  one exception is that the topology that was stored has been removed or has expired and none is stored, and then it answers
  no hosts and no error.\<close>
theorem waitForTopologyUpdate_new:
  fixes m :: "('sv, 'c) ClusterTopologyMonitor"
  assumes "mono clock" "timeoutMs \<noteq> 0" "\<And>n. N \<le> n \<Longrightarrow> clock (clock_reads m) + timeoutMs * 1000000 < clock n"
    "\<And>n m. goes_on (grain_step sortSlice visit clock api strat cfg) m (env n m)"
  shows "\<exists>m' r. waitForTopologyUpdate env clock verifyWriter timeoutMs m = Some (m', r) \<and>
    (\<forall>hosts. r = Inr hosts \<longrightarrow> (verifyWriter \<longrightarrow> isVerifiedWriterConn m') \<and>
       ((\<exists>k \<ge> topologies_stored m. stored_topology m' = Some (k, hosts)) \<or> (stored_topology m \<noteq> None \<and> stored_topology m' = None \<and> hosts = [])))"
proof -
  let ?until = "clock (clock_reads m) + timeoutMs * 1000000"
  let ?turn = "wait_turn env clock verifyWriter (stored_topology m) ?until"
  let ?m = "tick (m\<lparr>requestToUpdateTopology := True\<rparr>)"
  define Q where "Q latest m' \<longleftrightarrow> latest = stored_topology m' \<and> later m m' \<and>
    (?until < clock (clock_reads m') \<or> map_option fst (stored_topology m') \<noteq> map_option fst (stored_topology m) \<and> (verifyWriter \<longrightarrow> isVerifiedWriterConn m'))"
    for latest and m' :: "('sv, 'c) ClusterTopologyMonitor"
  obtain m2 latest where loop: "loopP ?turn 0 ?m = Some (m2, latest)" using wait_returns [OF assms(3)] by fastforce
  have env: "later m (env n m)" for n m by (rule later_goes_on [OF assms(4)])
  have l: "later m (m'\<lparr>clock_reads := n\<rparr>) \<longleftrightarrow> later m m'" "later m (tick m') \<longleftrightarrow> later m m'" for m' n
    by (rule later_view, simp)+
  have "Q latest m2"
  proof (rule loopP_inv [where I = "\<lambda>_. later m", OF _ _ loop])
    show "later m ?m" by (rule later_same) simp
    fix a s s' b
    assume s: "later m s" "?turn a s = Some (s', Inr b)"
    then show "Q b s'"
      using monoD [OF assms(1), of "clock_reads s" "Suc (clock_reads s)"] l
      by (auto simp: wait_turn_def Q_def split: if_splits) (auto simp: tick_def)
  next
    fix a s s' a'
    assume "later m s" "?turn a s = Some (s', Inl a')"
    then show "later m s'" using later_trans [OF _ env [of "tick s" a], of m] l by (auto simp: wait_turn_def split: if_splits)
  qed
  moreover have "waitForTopologyUpdate env clock verifyWriter timeoutMs m =
      Some (tick m2, if clock (clock_reads m2) > ?until then Inl (NewTimeoutError ''ClusterTopologyMonitorImpl.topologyNotUpdated'')
                     else Inr (case latest of None \<Rightarrow> [] | Some t \<Rightarrow> snd t))"
    using assms(2) loop by (simp add: waitForTopologyUpdate_def Let_def)
  ultimately show ?thesis by (auto simp: Q_def later_def tick_def split: option.splits)
qed

section \<open>Examples\<close>

text \<open>The first five steps of the main goroutine open a connection to the writer and mark it.\<close>

definition marked_monitor :: "(nat list, nat) ClusterTopologyMonitor" where
  "marked_monitor =
     (tick new_cluster_monitor)\<lparr>ct_lastActivity := 0, hostRoutinesStop := False, hostRoutinesWriterConn := None, hostRoutinesReaderConn := None,
       hostRoutinesLatestTopology := [], hostRoutinesWriterHostInfo := None, svc := [], ct_monitoringConn := Some 1, isVerifiedWriterConn := True\<rparr>"

lemma marked_monitor_runs:
  "runs (undisturbed (grain_step (sort_key Host) (\<lambda>x. x) int (cluster_api True) cluster_strategy cluster_settings)) (replicate 5 MainStep)
     (machine_starts \<lparr>svc = [], clock_reads = 0, dns_caches = fresh_state None\<rparr>)
     \<lparr>shared = marked_monitor, main_at = Identify 1, pending = [], answered_yes = [1]\<rparr>"
proof -
  let ?go = "main_goes (sort_key Host) (\<lambda>x. x) int (cluster_api True) cluster_strategy cluster_settings"
  let ?step = "undisturbed (grain_step (sort_key Host) (\<lambda>x. x) int (cluster_api True) cluster_strategy cluster_settings)"
  let ?m = "(tick new_cluster_monitor)\<lparr>ct_lastActivity := 0, hostRoutinesStop := False, hostRoutinesWriterConn := None, hostRoutinesReaderConn := None,
       hostRoutinesLatestTopology := [], hostRoutinesWriterHostInfo := None\<rparr>"
  let ?s = "\<lambda>m p yes. \<lparr>shared = m, main_at = p, pending = [], answered_yes = yes\<rparr>"
  have step: "?step MainStep (?s m p yes) (?s m' p' (yes' @ yes))" if "?go p m = (m', p', yes')" "\<not> ct_stop m" for p m m' p' yes yes'
    using main_step [where s = "?s m p yes" and m = m' and p = p' and yes = yes'] that by (simp add: undisturbed_def disturbed_def)
  note start = new_cluster_monitor_def NewClusterTopologyMonitorImpl_def tick_def
  have "?go Turn_begins new_cluster_monitor = (?m, Connect_any, [])"
    by (simp add: main_goes_def turn_begins_def Let_def isInPanicMode_def monitor_storedHosts_def start)
  then have 1: "?step MainStep (?s new_cluster_monitor Turn_begins []) (?s ?m Connect_any [])" using step by (fastforce simp: start)
  have "?go Connect_any ?m = (?m\<lparr>svc := []\<rparr>, Install 1, [])" by (simp add: main_goes_def cluster_api_def start)
  then have 2: "?step MainStep (?s ?m Connect_any []) (?s (?m\<lparr>svc := []\<rparr>) (Install 1) [])" using step by (fastforce simp: start)
  have "?go (Install 1) (?m\<lparr>svc := []\<rparr>) = (?m\<lparr>svc := [], ct_monitoringConn := Some 1\<rparr>, Ask 1, [])" by (simp add: main_goes_def start)
  then have 3: "?step MainStep (?s (?m\<lparr>svc := []\<rparr>) (Install 1) []) (?s (?m\<lparr>svc := [], ct_monitoringConn := Some 1\<rparr>) (Ask 1) [])"
    using step by (fastforce simp: start)
  have "?go (Ask 1) (?m\<lparr>svc := [], ct_monitoringConn := Some 1\<rparr>) = (?m\<lparr>svc := [], ct_monitoringConn := Some 1\<rparr>, Mark 1, [1])"
    by (simp add: main_goes_def cluster_strategy_def start)
  then have 4: "?step MainStep (?s (?m\<lparr>svc := [], ct_monitoringConn := Some 1\<rparr>) (Ask 1) []) (?s (?m\<lparr>svc := [], ct_monitoringConn := Some 1\<rparr>) (Mark 1) [1])"
    using step by (fastforce simp: start)
  have "?go (Mark 1) (?m\<lparr>svc := [], ct_monitoringConn := Some 1\<rparr>) = (marked_monitor, Identify 1, [])"
    by (simp add: main_goes_def marked_monitor_def)
  then have 5: "?step MainStep (?s (?m\<lparr>svc := [], ct_monitoringConn := Some 1\<rparr>) (Mark 1) [1]) (?s marked_monitor (Identify 1) [1])"
    using step by (fastforce simp: start)
  have "machine_starts \<lparr>svc = [], clock_reads = 0, dns_caches = fresh_state None\<rparr> = ?s new_cluster_monitor Turn_begins []"
    by (simp add: machine_starts_def new_cluster_monitor_def)
  then show ?thesis using 1 2 3 4 5 by (simp add: numeral_eq_Suc) blast
qed

lemma verified_connection_is_writer_witness: "ct_monitoringConn marked_monitor = Some 1 \<and> \<not> isInPanicMode marked_monitor"
proof -
  have "\<not> isInPanicMode marked_monitor" by (simp add: isInPanicMode_def marked_monitor_def)
  with verified_connection_is_writer [OF marked_monitor_runs] show ?thesis by simp
qed

text \<open>A cluster whose one connection leads to a reader.\<close>

lemma stale_mark_trusts_reader_witness:
  "ct_monitoringConn (fst (topology_turn (sort_key Host) (\<lambda>x. x) int (cluster_api True) (cluster_strategy\<lparr>q_isWriter := \<lambda>_ s. (s, Inr False)\<rparr>) cluster_settings
     ((interrupted_pickup (cluster_api True) int 7 (small_host ''a'' 5 WRITER) new_cluster_monitor)\<lparr>stored_topology := None\<rparr>))) = Some 1"
proof -
  let ?m = "(interrupted_pickup (cluster_api True) int 7 (small_host ''a'' 5 WRITER) new_cluster_monitor)\<lparr>stored_topology := None\<rparr>"
  have "svc_ForceConnect (cluster_api True) (ct_initialHostInfo cluster_settings) (ct_monitoringProps cluster_settings) (svc ?m) = (svc ?m, Inr (Some 1))"
    by (simp add: cluster_api_def)
  from stale_mark_trusts_reader [OF refl this, where strat = "cluster_strategy\<lparr>q_isWriter := \<lambda>_ s. (s, Inr False)\<rparr>"]
  show ?thesis by (simp add: cluster_strategy_def)
qed

text \<open>In every wait the stored topology expires.\<close>

lemma waitForTopologyUpdate_new_witness:
  "\<exists>m'. waitForTopologyUpdate (\<lambda>_ m. m\<lparr>stored_topology := None\<rparr>) (\<lambda>n. int n) False 5 new_cluster_monitor = Some m'"
proof -
  have "clock_reads new_cluster_monitor = 0" by (simp add: new_cluster_monitor_def NewClusterTopologyMonitorImpl_def)
  then have c: "int (clock_reads new_cluster_monitor) + 5 * 1000000 < int n" if "6000000 \<le> n" for n using that by simp
  let ?step = "grain_step (sort_key Host) (\<lambda>x. x) int (cluster_api True) cluster_strategy cluster_settings"
  have "goes_on ?step m (m\<lparr>stored_topology := None\<rparr>)" for m
  proof -
    let ?s = "\<lparr>shared = m, main_at = Turn_begins, pending = [], answered_yes = []\<rparr>"
    have "runs ?step [TopologyGone] ?s (?s\<lparr>shared := m\<lparr>stored_topology := None\<rparr>\<rparr>)"
      using expire_step [of "sort_key Host" "\<lambda>x. x" int "cluster_api True" cluster_strategy cluster_settings ?s] by simp
    then show ?thesis unfolding goes_on_def by (intro exI [of _ "[TopologyGone]"] exI [of _ ?s] exI) (auto simp: pickup_ends_def)
  qed
  from waitForTopologyUpdate_new [where clock = int and timeoutMs = 5 and m = new_cluster_monitor and N = 6000000, OF _ _ c this]
  show ?thesis by (fastforce simp: mono_def)
qed

end
