(* ===== verification/Limitless.thy ===== *)
theory Limitless
  imports Failover Go_Loops Host_Selectors
begin

text \<open>
  Aurora Limitless: \<open>awssql/plugins/limitless\<close>. A shard group is reached through transaction routers, which a monitor
  reads from the database with their loads; the plugin connects to one of them. The routers are shared by pointer between
  the storage and the connection attempts that mark them as unavailable, so they live in a heap and lists of routers are
  lists of positions in it. Sleeping leaves the state alone; messages are left out, and so is the lock that lets one
  connection at a time fetch the routers.
\<close>

section \<open>State and surroundings\<close>

text \<open>A value of a row; \<open>'f\<close> are floating-point numbers.\<close>

datatype 'f router_value = RString string | RFloat 'f | ROther

text \<open>What the plugin calls beside the plugin service: the cluster id of the host list provider, the dialect, the query
  for the routers with its timeout (\<open>None\<close> where the connection cannot be queried or the rows are nil), \<open>math.Floor\<close> of ten
  times a load, the weights of the weighted random selector if there is one, the monitor service.\<close>

record ('sv, 'c, 'f) limitless_world =
  lw_api :: "('sv, 'c) PluginServiceApi"
  lw_clock :: "nat \<Rightarrow> time"
  lw_GetClusterId :: "('sv, string) prog"
  lw_IsDialectLimitless :: "'sv \<Rightarrow> bool"
  lw_Query :: "'c \<Rightarrow> int \<Rightarrow> 'sv \<Rightarrow> 'sv \<times> (go_error + 'f router_value list list option) option"
  lw_tenths :: "'f \<Rightarrow> int"
  lw_SetHostWeights :: "(string, int) gomap \<Rightarrow> 'sv \<Rightarrow> 'sv"
  lw_RegisterMonitorType :: "duration \<Rightarrow> 'sv \<Rightarrow> 'sv"
  lw_RunIfAbsent :: "string \<Rightarrow> HostInfo \<Rightarrow> props \<Rightarrow> int \<Rightarrow> ('sv, unit) prog"

record 'sv router_frame = "'sv plugin_frame" +
  router_heap :: "HostInfo list"
  router_storage :: "(string, nat list) ExpiringStorage"

record 'c LimitlessConnectionContext =
  ctx_Host :: HostInfo
  ctx_Props :: props
  ctx_connection :: "'c option"
  ctx_LimitlessRouters :: "nat list"

record ('sv, 'c) limitless_state = "'sv router_frame" +
  lm_ctx :: "'c LimitlessConnectionContext"
  hasRouterService :: bool

type_synonym ('sv, 'z, 'a) router_prog = "(('sv, 'z) router_frame_scheme, 'a) prog"
type_synonym ('sv, 'c, 'z, 'a) limitless_prog = "(('sv, 'c, 'z) limitless_state_scheme, 'a) prog"

definition LimitlessRoutersStorageType :: "duration \<Rightarrow> (nat list, nat list) StorageTypeDescriptor" where
  "LimitlessRoutersStorageType ttl =
     \<lparr>TypeKey = ''LimitlessRouters'', TTL = ttl, RenewOnAccess = True, ShouldDispose = None, HasOnDispose = False, d_cast = Some, d_wrap = (\<lambda>r. r)\<rparr>"

text \<open>The default lifetime; it plays no role after the registration.\<close>

abbreviation routers_type :: "(nat list, nat list) StorageTypeDescriptor" where
  "routers_type \<equiv> LimitlessRoutersStorageType (10 * 60 * 1000000000)"

definition NewConnectionContext :: "HostInfo \<Rightarrow> props \<Rightarrow> 'c option \<Rightarrow> nat list \<Rightarrow> 'c LimitlessConnectionContext" where
  "NewConnectionContext hostInfo props conn routers =
     \<lparr>ctx_Host = hostInfo, ctx_Props = props, ctx_connection = conn, ctx_LimitlessRouters = routers\<rparr>"

definition SetConnection :: "('sv, 'c, 'f) limitless_world \<Rightarrow> 'c option \<Rightarrow> ('sv, 'c, 'z, unit) limitless_prog" where
  "SetConnection w conn =
     bindP (getsP (\<lambda>p. ctx_connection (lm_ctx p))) (\<lambda>old.
     bindP (case old of None \<Rightarrow> returnP () | Some c \<Rightarrow> if conn \<noteq> Some c then updS (svc_Close (lw_api w) c) else returnP ()) (\<lambda>_.
       modifyP (\<lambda>p. p\<lparr>lm_ctx := (lm_ctx p)\<lparr>ctx_connection := conn\<rparr>\<rparr>)))"

definition set_routers :: "nat list \<Rightarrow> ('sv, 'c, 'z, unit) limitless_prog" where
  "set_routers rs = modifyP (\<lambda>p. p\<lparr>lm_ctx := (lm_ctx p)\<lparr>ctx_LimitlessRouters := rs\<rparr>\<rparr>)"

definition routers_of :: "('sv, 'c, 'z) limitless_state_scheme \<Rightarrow> HostInfo list" where
  "routers_of p = map ((!) (router_heap p)) (ctx_LimitlessRouters (lm_ctx p))"

section \<open>Reading the routers\<close>

definition mapLimitlessRouterLoadToHostInfoWeight :: "('f \<Rightarrow> int) \<Rightarrow> 'f \<Rightarrow> int" where
  "mapLimitlessRouterLoadToHostInfoWeight tenths routerLoad =
     (let weight = 10 - tenths routerLoad in if weight < 1 \<or> weight > 10 then 1 else weight)"

definition map_router_row :: "('f \<Rightarrow> int) \<Rightarrow> int \<Rightarrow> time \<Rightarrow> 'f router_value list \<Rightarrow> HostInfo list" where
  "map_router_row tenths port t row =
     (case (row ! 0, row ! 1) of
        (RString hostName, RFloat load) \<Rightarrow>
          if hostName = '''' then []
          else (case Build (SetLastUpdateTime t (SetHostId hostName (SetAvailability AVAILABLE (SetRole WRITER
                       (SetWeight (mapLimitlessRouterLoadToHostInfoWeight tenths load) (SetPort port (SetHost hostName NewHostInfoBuilder))))))) of
                  Inl _ \<Rightarrow> [] | Inr host \<Rightarrow> [host])
      | _ \<Rightarrow> [])"

text \<open>The loop ends at the first row that is too short; all rows of a result have the same length.\<close>

definition mapLimitlessQueryRowsToHostInfoList :: "('f \<Rightarrow> int) \<Rightarrow> int \<Rightarrow> time \<Rightarrow> 'f router_value list list option \<Rightarrow> HostInfo list" where
  "mapLimitlessQueryRowsToHostInfoList tenths port t rows =
     (case rows of None \<Rightarrow> [] | Some rs \<Rightarrow> concat (map (map_router_row tenths port t) (takeWhile (\<lambda>row. 1 < length row) rs)))"

text \<open>The routers of one query are stamped with one reading of the clock.\<close>

definition QueryForLimitlessRouters ::
  "('sv, 'c, 'f) limitless_world \<Rightarrow> 'c option \<Rightarrow> int \<Rightarrow> props \<Rightarrow> ('sv, 'z, HostInfo list) router_prog" where
  "QueryForLimitlessRouters w conn hostPortToMap props =
     bindP (readS (lw_IsDialectLimitless w)) (\<lambda>isLimitless.
       if \<not> isLimitless then failP (ErrorsNew ''LimitlessQueryHelperImpl.invalidDatabaseDialect'')
       else
        bindP (case conn of
                 None \<Rightarrow> failP (NewGenericAwsWrapperError ''Conn.doesNotImplementRequiredInterface'')
               | Some c \<Rightarrow>
                   bindP (liftP (GetPositiveIntProperty (Some props) LIMITLESS_ROUTER_QUERY_TIMEOUT_MS)) (\<lambda>timeoutMs.
                   bindP (askS (lw_Query w c timeoutMs)) (\<lambda>res.
                     case res of
                       None \<Rightarrow> failP (NewGenericAwsWrapperError ''Conn.doesNotImplementRequiredInterface'')
                     | Some (Inl err) \<Rightarrow> failP err
                     | Some (Inr rows) \<Rightarrow> returnP rows))) (\<lambda>rows.
        bindP (nowS (lw_clock w)) (\<lambda>t. returnP (mapLimitlessQueryRowsToHostInfoList (lw_tenths w) hostPortToMap t rows))))"

definition getLimitlessRouters :: "('sv, 'c, 'f) limitless_world \<Rightarrow> string \<Rightarrow> ('sv, 'z, nat list) router_prog" where
  "getLimitlessRouters w routerCacheKey =
     bindP (nowS (lw_clock w)) (\<lambda>t.
     bindP (getsP (\<lambda>p. Descriptor_Get t routers_type routerCacheKey (router_storage p))) (\<lambda>(st, routers, _).
     bindP (modifyP (\<lambda>p. p\<lparr>router_storage := st\<rparr>)) (\<lambda>_. returnP (case routers of None \<Rightarrow> [] | Some rs \<Rightarrow> rs))))"

definition host_weights :: "HostInfo list \<Rightarrow> (string, int) gomap" where
  "host_weights routers = fold (\<lambda>r m. mput (Host r) (Weight r) m) routers []"

text \<open>New routers are put on the heap and into the storage.\<close>

definition store_routers :: "('sv, 'c, 'f) limitless_world \<Rightarrow> string \<Rightarrow> HostInfo list \<Rightarrow> ('sv, 'z, nat list) router_prog" where
  "store_routers w routerCacheKey routers =
     bindP (getsP (\<lambda>p. [length (router_heap p) ..< length (router_heap p) + length routers])) (\<lambda>refs.
     bindP (nowS (lw_clock w)) (\<lambda>t.
     bindP (modifyP (\<lambda>p. p\<lparr>router_heap := router_heap p @ routers,
                            router_storage := fst (Descriptor_Set t routers_type routerCacheKey refs (router_storage p))\<rparr>)) (\<lambda>_.
     bindP (updS (lw_SetHostWeights w (host_weights routers))) (\<lambda>_. returnP refs))))"

definition synchronousGetLimitlessRouter ::
  "('sv, 'c, 'f) limitless_world \<Rightarrow> ('sv, 'c option) prog \<Rightarrow> ('sv, 'c, 'z, unit) limitless_prog" where
  "synchronousGetLimitlessRouter w connect =
     bindP (callS (lw_GetClusterId w)) (\<lambda>routerCacheKey.
     bindP (getLimitlessRouters w routerCacheKey) (\<lambda>cached.
       if cached \<noteq> [] then set_routers cached
       else
        bindP (getsP (\<lambda>p. ctx_connection (lm_ctx p))) (\<lambda>conn.
        bindP (if conn = None then bindP (callS connect) (SetConnection w) else returnP ()) (\<lambda>_.
        bindP (getsP lm_ctx) (\<lambda>ctx.
        bindP (QueryForLimitlessRouters w (ctx_connection ctx) (Port (ctx_Host ctx)) (ctx_Props ctx)) (\<lambda>routers.
          if routers = [] then failP (ErrorsNew ''LimitlessRouterServiceImpl.fetchedEmptyRouterList'')
          else bindP (store_routers w routerCacheKey routers) set_routers))))))"

text \<open>An error of the property counts as no retries.\<close>

definition max_retries :: "props \<Rightarrow> AwsWrapperProperty \<Rightarrow> int" where
  "max_retries props prop = (case GetPositiveIntProperty (Some props) prop of Inl _ \<Rightarrow> 0 | Inr n \<Rightarrow> n)"

primrec get_routers_tries :: "('sv, 'c, 'f) limitless_world \<Rightarrow> ('sv, 'c option) prog \<Rightarrow> nat \<Rightarrow> ('sv, 'c, 'z, unit) limitless_prog" where
  "get_routers_tries w connect 0 = failP (ErrorsNew ''LimitlessRouterServiceImpl.noRoutersAvailable'')"
| "get_routers_tries w connect (Suc n) =
     bindP (attempt (synchronousGetLimitlessRouter w connect)) (\<lambda>_.
     bindP (getsP (\<lambda>p. ctx_LimitlessRouters (lm_ctx p))) (\<lambda>rs. if rs \<noteq> [] then returnP () else get_routers_tries w connect n))"

definition synchronousGetLimitlessRoutersWithRetry ::
  "('sv, 'c, 'f) limitless_world \<Rightarrow> ('sv, 'c option) prog \<Rightarrow> ('sv, 'c, 'z, unit) limitless_prog" where
  "synchronousGetLimitlessRoutersWithRetry w connect =
     bindP (getsP (\<lambda>p. ctx_Props (lm_ctx p))) (\<lambda>props.
       get_routers_tries w connect (nat (max_retries props LIMITLESS_GET_ROUTER_MAX_RETRIES + 1)))"

section \<open>Connecting\<close>

text \<open>Marks the router that a selection answered.\<close>

definition mark_unavailable :: "HostInfo \<Rightarrow> ('sv, 'c, 'z, unit) limitless_prog" where
  "mark_unavailable host =
     modifyP (\<lambda>p. case find (\<lambda>r. router_heap p ! r = host) (ctx_LimitlessRouters (lm_ctx p)) of
        None \<Rightarrow> p
      | Some r \<Rightarrow> p\<lparr>router_heap := (router_heap p)[r := (router_heap p ! r)\<lparr>Availability := UNAVAILABLE\<rparr>]\<rparr>)"

datatype established = Connected | Again

definition none_available :: "('sv, 'c, 'z) limitless_state_scheme \<Rightarrow> bool" where
  "none_available p \<longleftrightarrow> list_all (\<lambda>h. Availability h \<noteq> AVAILABLE) (routers_of p)"

text \<open>Connecting to a router that has been selected.\<close>

definition connect_router :: "('sv, 'c, 'f) limitless_world \<Rightarrow> HostInfo \<Rightarrow> ('sv, 'c, 'z, established) limitless_prog" where
  "connect_router w router =
     bindP (getsP (\<lambda>p. ctx_Props (lm_ctx p))) (\<lambda>props.
     bindP (attempt (callS (svc_Connect (lw_api w) router props))) (\<lambda>res.
       case res of
         Inr (Some conn) \<Rightarrow> bindP (SetConnection w (Some conn)) (\<lambda>_. returnP Connected)
       | Inr None \<Rightarrow> bindP (mark_unavailable router) (\<lambda>_. returnP Again)
       | Inl err \<Rightarrow> bindP (mark_unavailable router) (\<lambda>_. if svc_IsLoginError (lw_api w) err then failP err else returnP Again)))"

definition select_router :: "('sv, 'c, 'f) limitless_world \<Rightarrow> string \<Rightarrow> ('sv, 'c, 'z, established) limitless_prog" where
  "select_router w strategy =
     bindP (getsP routers_of) (\<lambda>routers.
     bindP (attempt (callS (svc_GetHostInfoByStrategy (lw_api w) WRITER strategy routers))) (\<lambda>res.
       case res of Inr (Some router) \<Rightarrow> connect_router w router | _ \<Rightarrow> returnP Again))"

definition connect_without_router :: "('sv, 'c, 'f) limitless_world \<Rightarrow> ('sv, 'c option) prog \<Rightarrow> ('sv, 'c, 'z, established) limitless_prog" where
  "connect_without_router w connect =
     bindP (getsP (\<lambda>p. ctx_connection (lm_ctx p))) (\<lambda>conn.
       if conn \<noteq> None then returnP Connected
       else bindP (attempt (callS connect)) (\<lambda>res.
              case res of
                Inr (Some c) \<Rightarrow> bindP (SetConnection w (Some c)) (\<lambda>_. returnP Connected)
              | Inr None \<Rightarrow> failP (ErrorsNew ''LimitlessRouterServiceImpl.unableToConnectNoRoutersAvailable'')
              | Inl err \<Rightarrow> failP (if svc_IsLoginError (lw_api w) err then err
                                 else ErrorsNew ''LimitlessRouterServiceImpl.unableToConnectNoRoutersAvailable'')))"

definition retry_attempt :: "('sv, 'c, 'f) limitless_world \<Rightarrow> ('sv, 'c option) prog \<Rightarrow> ('sv, 'c, 'z, established) limitless_prog" where
  "retry_attempt w connect =
     bindP (getsP none_available) (\<lambda>none.
     bindP (if none then bindP (synchronousGetLimitlessRoutersWithRetry w connect) (\<lambda>_. getsP none_available) else returnP False) (\<lambda>still.
       if still then connect_without_router w connect else select_router w SELECTOR_HIGHEST_WEIGHT))"

text \<open>The counter of the loop is never increased.\<close>

definition retry_turn ::
  "('sv, 'c, 'f) limitless_world \<Rightarrow> ('sv, 'c option) prog \<Rightarrow> unit \<Rightarrow> ('sv, 'c, 'z) limitless_state_scheme
     \<Rightarrow> (('sv, 'c, 'z) limitless_state_scheme \<times> (unit + (go_error + unit))) option" where
  "retry_turn w connect _ p =
     (case retry_attempt w connect p of
        (p', Inl err) \<Rightarrow> Some (p', Inr (Inl err))
      | (p', Inr Again) \<Rightarrow> Some (p', Inl ())
      | (p', Inr Connected) \<Rightarrow> Some (p', Inr (Inr ())))"

definition retryConnectWithLeastLoadedRouters ::
  "('sv, 'c, 'f) limitless_world \<Rightarrow> ('sv, 'c option) prog \<Rightarrow> ('sv, 'c, 'z) limitless_state_scheme
     \<Rightarrow> (('sv, 'c, 'z) limitless_state_scheme \<times> (go_error + unit)) option" where
  "retryConnectWithLeastLoadedRouters w connect p =
     (if 0 < max_retries (ctx_Props (lm_ctx p)) LIMITLESS_MAX_CONN_RETRIES then loopP (retry_turn w connect) () p
      else Some (p, Inl (ErrorsNew ''LimitlessRouterServiceImpl.maxConnectRetriesExceeded'')))"

text \<open>The host of the connection is itself a router.\<close>

definition connect_to_host :: "('sv, 'c, 'f) limitless_world \<Rightarrow> ('sv, 'c option) prog \<Rightarrow> ('sv, 'c, 'z, established) limitless_prog" where
  "connect_to_host w connect =
     bindP (getsP (\<lambda>p. ctx_connection (lm_ctx p))) (\<lambda>conn.
       if conn \<noteq> None then returnP Connected
       else bindP (attempt (callS connect)) (\<lambda>res.
              case res of
                Inr (Some c) \<Rightarrow> bindP (SetConnection w (Some c)) (\<lambda>_. returnP Connected)
              | Inr None \<Rightarrow> returnP Again
              | Inl err \<Rightarrow> if svc_IsLoginError (lw_api w) err then failP err else returnP Again))"

definition connect_by_routers :: "('sv, 'c, 'f) limitless_world \<Rightarrow> ('sv, 'c option) prog \<Rightarrow> ('sv, 'c, 'z, established) limitless_prog" where
  "connect_by_routers w connect =
     bindP (getsP (\<lambda>p. list_ex (\<lambda>r. Equals r (ctx_Host (lm_ctx p))) (routers_of p))) (\<lambda>isRouter.
       if isRouter then connect_to_host w connect else select_router w SELECTOR_WEIGHTED_RANDOM)"

definition establish_start :: "('sv, 'c, 'f) limitless_world \<Rightarrow> ('sv, 'c option) prog \<Rightarrow> ('sv, 'c, 'z, established) limitless_prog" where
  "establish_start w connect =
     bindP (callS (lw_GetClusterId w)) (\<lambda>clusterId.
     bindP (bindP (getLimitlessRouters w clusterId) set_routers) (\<lambda>_.
     bindP (getsP lm_ctx) (\<lambda>ctx.
       if ctx_LimitlessRouters ctx \<noteq> [] then connect_by_routers w connect
       else if as_bool (GetVerifiedWrapperPropertyValue (Some (ctx_Props ctx)) LIMITLESS_WAIT_FOR_ROUTER_INFO)
       then bindP (synchronousGetLimitlessRoutersWithRetry w connect) (\<lambda>_. connect_by_routers w connect)
       else bindP (if ctx_connection ctx = None then bindP (callS connect) (SetConnection w) else returnP ()) (\<lambda>_. returnP Connected))))"

definition EstablishConnection ::
  "('sv, 'c, 'f) limitless_world \<Rightarrow> ('sv, 'c option) prog \<Rightarrow> ('sv, 'c, 'z) limitless_state_scheme
     \<Rightarrow> (('sv, 'c, 'z) limitless_state_scheme \<times> (go_error + unit)) option" where
  "EstablishConnection w connect p =
     (case establish_start w connect p of
        (p', Inl err) \<Rightarrow> Some (p', Inl err)
      | (p', Inr Connected) \<Rightarrow> Some (p', Inr ())
      | (p', Inr Again) \<Rightarrow> retryConnectWithLeastLoadedRouters w connect p')"

section \<open>The plugin\<close>

definition NewLimitlessPlugin :: "props \<Rightarrow> (rds_state \<Rightarrow> (go_error + unit) \<times> rds_state)" where
  "NewLimitlessPlugin props =
     (if as_bool (GetVerifiedWrapperPropertyValue (Some props) LIMITLESS_USE_SHARD_GROUP_URL)
      then bindS (IsLimitlessDbShardGroupDns (as_string (GetVerifiedWrapperPropertyValue (Some props) HOST))) (\<lambda>isShardGroupUrl.
             if isShardGroupUrl then ret () else (\<lambda>d. (Inl (NewGenericAwsWrapperError ''LimitlessPlugin.expectedShardGroupUrl''), d)))
      else ret ())"

definition NewLimitlessRouterServiceImpl :: "('sv, 'c, 'f) limitless_world \<Rightarrow> props \<Rightarrow> ('sv, 'c, 'z, unit) limitless_prog" where
  "NewLimitlessRouterServiceImpl w props =
     (let ttl = 1000000 * GetExpirationValue (Some props) LIMITLESS_MONITORING_DISPOSAL_TIME_MS
      in bindP (modifyP (\<lambda>p. p\<lparr>router_storage := Descriptor_Register (LimitlessRoutersStorageType ttl) (router_storage p), hasRouterService := True\<rparr>)) (\<lambda>_.
           updS (lw_RegisterMonitorType w ttl)))"

definition limitless_StartMonitoring :: "('sv, 'c, 'f) limitless_world \<Rightarrow> HostInfo \<Rightarrow> props \<Rightarrow> int \<Rightarrow> ('sv, 'c, 'z, unit) limitless_prog" where
  "limitless_StartMonitoring w hostInfo props intervalMs =
     bindP (callS (lw_GetClusterId w)) (\<lambda>cacheKey. callS (lw_RunIfAbsent w cacheKey hostInfo props intervalMs))"

text \<open>Up to the context: the dialect is looked at again after connecting.\<close>

definition limitless_prepare ::
  "('sv, 'c, 'f) limitless_world \<Rightarrow> props \<Rightarrow> HostInfo \<Rightarrow> props \<Rightarrow> bool \<Rightarrow> ('sv, 'c option) prog \<Rightarrow> ('sv, 'c, 'z, unit) limitless_prog" where
  "limitless_prepare w pluginProps hostInfo props isInitialConnection connect =
     bindP (readS (lw_IsDialectLimitless w)) (\<lambda>isLimitless.
     bindP (if isLimitless then returnP None
            else bindP (callS connect) (\<lambda>conn.
                 bindP (readS (lw_IsDialectLimitless w)) (\<lambda>refreshed.
                   if refreshed then returnP conn else failP (ErrorsNew ''LimitlessPlugin.unsupportedDialectOrDatabase'')))) (\<lambda>conn.
     bindP (bindP (getsP hasRouterService) (\<lambda>has. if has then returnP () else NewLimitlessRouterServiceImpl w pluginProps)) (\<lambda>_.
     bindP (if isInitialConnection then limitless_StartMonitoring w hostInfo props (GetRefreshRateValue (Some props) LIMITLESS_MONITORING_INTERVAL_MS) else returnP ()) (\<lambda>_.
       modifyP (\<lambda>p. p\<lparr>lm_ctx := NewConnectionContext hostInfo props conn []\<rparr>)))))"

text \<open>\<open>connectFunc\<close> is called with the properties of the call before the context is made, with those of the plugin
  afterwards.\<close>

definition limitless_Connect ::
  "('sv, 'c, 'f) limitless_world \<Rightarrow> props \<Rightarrow> HostInfo \<Rightarrow> props \<Rightarrow> bool \<Rightarrow> (props \<Rightarrow> ('sv, 'c option) prog) \<Rightarrow> ('sv, 'c, 'z) limitless_state_scheme
     \<Rightarrow> (('sv, 'c, 'z) limitless_state_scheme \<times> (go_error + 'c)) option" where
  "limitless_Connect w pluginProps hostInfo props isInitialConnection connectFunc p =
     (case limitless_prepare w pluginProps hostInfo props isInitialConnection (connectFunc props) p of
        (p1, Inl err) \<Rightarrow> Some (p1, Inl err)
      | (p1, Inr _) \<Rightarrow>
          map_option (\<lambda>(p2, res).
              (p2, case res of
                     Inl err \<Rightarrow> Inl err
                   | Inr _ \<Rightarrow> (case ctx_connection (lm_ctx p2) of None \<Rightarrow> Inl (ErrorsNew ''LimitlessPlugin.failedToConnectToHost'') | Some c \<Rightarrow> Inr c)))
            (EstablishConnection w (connectFunc pluginProps) p1))"

section \<open>The monitor\<close>

record ('sv, 'c) LimitlessRouterMonitor = "'sv router_frame" +
  rm_monitoringConn :: "'c option"
  rm_stop :: bool
  rm_state :: MonitorState
  rm_lastActivityTimestampNano :: time

type_synonym ('sv, 'c, 'z, 'a) router_monitor_prog = "(('sv, 'c, 'z) LimitlessRouterMonitor_scheme, 'a) prog"

definition LIMITLESS_MONITOR_PREFIX :: string where "LIMITLESS_MONITOR_PREFIX = ''limitless-router-monitor-''"

definition limitless_monitoring_props :: "props \<Rightarrow> props" where
  "limitless_monitoring_props props =
     Property_Set LIMITLESS_WAIT_FOR_ROUTER_INFO ''false''
       (fold (\<lambda>(k, v) m. if HasPrefix k LIMITLESS_MONITOR_PREFIX
                         then fst (RWMap_Remove k (fst (RWMap_Put (drop (length LIMITLESS_MONITOR_PREFIX) k) v m))) else m)
          (RWMap_GetAllEntries props) (NewRWMapFromMap (RWMap_GetAllEntries props)))"

definition RouterMonitor_Start :: "('sv, 'c, 'f) limitless_world \<Rightarrow> ('sv, 'c, 'z, unit) router_monitor_prog" where
  "RouterMonitor_Start w =
     bindP (nowS (lw_clock w)) (\<lambda>t. modifyP (\<lambda>m. m\<lparr>rm_state := MonitorStateRunning, rm_lastActivityTimestampNano := t\<rparr>))"

definition RouterMonitor_Close :: "('sv, 'c, 'f) limitless_world \<Rightarrow> ('sv, 'c, 'z, unit) router_monitor_prog" where
  "RouterMonitor_Close w =
     bindP (getsP rm_monitoringConn) (\<lambda>conn.
       case conn of
         None \<Rightarrow> returnP ()
       | Some c \<Rightarrow> bindP (updS (svc_Close (lw_api w) c)) (\<lambda>_. modifyP (\<lambda>m. m\<lparr>rm_monitoringConn := None\<rparr>)))"

text \<open>What the deferred function does when the loop is left, and \<open>Stop\<close>, which waits for it.\<close>

definition RouterMonitor_end :: "('sv, 'c, 'f) limitless_world \<Rightarrow> ('sv, 'c, 'z, unit) router_monitor_prog" where
  "RouterMonitor_end w = bindP (modifyP (\<lambda>m. m\<lparr>rm_stop := True\<rparr>)) (\<lambda>_. RouterMonitor_Close w)"

definition RouterMonitor_Stop :: "('sv, 'c, 'f) limitless_world \<Rightarrow> ('sv, 'c, 'z, unit) router_monitor_prog" where
  "RouterMonitor_Stop w =
     bindP (RouterMonitor_end w) (\<lambda>_. bindP (RouterMonitor_Close w) (\<lambda>_. modifyP (\<lambda>m. m\<lparr>rm_state := MonitorStateStopped\<rparr>)))"

definition RouterMonitor_openConnection :: "('sv, 'c, 'f) limitless_world \<Rightarrow> HostInfo \<Rightarrow> props \<Rightarrow> ('sv, 'c, 'z, unit) router_monitor_prog" where
  "RouterMonitor_openConnection w hostInfo props =
     bindP (getsP rm_monitoringConn) (\<lambda>conn.
       if conn = None
       then bindP (callS (svc_ForceConnect (lw_api w) hostInfo props)) (\<lambda>newConn. modifyP (\<lambda>m. m\<lparr>rm_monitoringConn := newConn\<rparr>))
       else returnP ())"

text \<open>A turn of the loop; the answer tells whether the loop goes on.\<close>

definition RouterMonitor_turn ::
  "('sv, 'c, 'f) limitless_world \<Rightarrow> string \<Rightarrow> HostInfo \<Rightarrow> props \<Rightarrow> ('sv, 'c, 'z, bool) router_monitor_prog" where
  "RouterMonitor_turn w limitlessRouterCacheKey hostInfo props =
     bindP (bindP (nowS (lw_clock w)) (\<lambda>t. modifyP (\<lambda>m. m\<lparr>rm_lastActivityTimestampNano := t\<rparr>))) (\<lambda>_.
     bindP (attempt (RouterMonitor_openConnection w hostInfo props)) (\<lambda>opened.
     bindP (getsP rm_monitoringConn) (\<lambda>conn.
       if isl opened \<or> conn = None then returnP True
       else
        bindP (attempt (QueryForLimitlessRouters w conn (Port hostInfo) props)) (\<lambda>res.
          case res of
            Inl _ \<Rightarrow> returnP False
          | Inr routers \<Rightarrow>
              if routers = [] then returnP False
              else bindP (store_routers w limitlessRouterCacheKey routers) (\<lambda>_. returnP True)))))"

section \<open>The routers of a query\<close>

lemma weight_bounds: "1 \<le> mapLimitlessRouterLoadToHostInfoWeight tenths load" "mapLimitlessRouterLoadToHostInfoWeight tenths load \<le> 10"
  by (simp_all add: mapLimitlessRouterLoadToHostInfoWeight_def Let_def)

lemma map_router_row_router:
  assumes "h \<in> set (map_router_row tenths port t row)"
  shows "1 \<le> Weight h \<and> Weight h \<le> 10 \<and> Role h = WRITER \<and> Availability h = AVAILABLE \<and> Port h = port"
  using assms weight_bounds [of tenths]
  by (auto simp: map_router_row_def builder_defs Let_def split: router_value.splits if_splits sum.splits)

lemma router_of_query:
  assumes "h \<in> set (mapLimitlessQueryRowsToHostInfoList tenths port t rows)"
  shows "1 \<le> Weight h \<and> Weight h \<le> 10 \<and> Role h = WRITER \<and> Availability h = AVAILABLE \<and> Port h = port"
  using assms map_router_row_router [of h tenths port t] by (auto simp: mapLimitlessQueryRowsToHostInfoList_def split: option.splits)

lemma default_weight_is_no_router:
  assumes "HOST_DEFAULT_WEIGHT \<le> Weight host"
  shows "\<not> list_ex (\<lambda>r. Equals r host) (mapLimitlessQueryRowsToHostInfoList tenths port t rows)"
  using assms router_of_query [of _ tenths port t rows] by (fastforce simp: list_ex_iff Equals_def HOST_DEFAULT_WEIGHT_def)

section \<open>The retry loop\<close>

text \<open>The routers of the connection are on the heap and are writers, as a query makes them.\<close>

definition routers_ok :: "('sv, 'c, 'z) limitless_state_scheme \<Rightarrow> bool" where
  "routers_ok p \<longleftrightarrow> list_all (\<lambda>r. r < length (router_heap p) \<and> Role (router_heap p ! r) = WRITER) (ctx_LimitlessRouters (lm_ctx p))"

definition available_routers :: "('sv, 'c, 'z) limitless_state_scheme \<Rightarrow> nat" where
  "available_routers p = length (filter (\<lambda>h. Availability h = AVAILABLE) (routers_of p))"

lemma none_available_iff: "none_available p \<longleftrightarrow> available_routers p = 0"
  by (auto simp: none_available_def available_routers_def list_all_iff filter_empty_conv)

lemma router_frame_svc [simp]:
  "routers_of (p\<lparr>svc := v\<rparr>) = routers_of p" "routers_ok (p\<lparr>svc := v\<rparr>) = routers_ok p" "none_available (p\<lparr>svc := v\<rparr>) = none_available p"
  "available_routers (p\<lparr>svc := v\<rparr>) = available_routers p"
  by (simp_all add: routers_of_def routers_ok_def none_available_def available_routers_def)

lemma filter_fewer:
  assumes "\<And>x. x \<in> set xs \<Longrightarrow> Q x \<Longrightarrow> P x" "y \<in> set xs" "P y" "\<not> Q y"
  shows "length (filter Q xs) < length (filter P xs)"
proof -
  have "length (filter Q xs) = length (filter Q (filter P xs))" using assms(1) by (simp add: filter_filter) (metis (mono_tags, lifting) filter_cong)
  also have "\<dots> < length (filter P xs)" by (rule length_filter_less) (use assms(2-4) in auto)
  finally show ?thesis .
qed

lemma mark_unavailable_fewer:
  assumes ok: "routers_ok p" and h: "h \<in> set (routers_of p)" "Availability h = AVAILABLE" and run: "mark_unavailable h p = (p', r)"
  shows "routers_ok p' \<and> available_routers p' < available_routers p \<and> r = Inr ()"
proof -
  let ?refs = "ctx_LimitlessRouters (lm_ctx p)" and ?heap = "router_heap p"
  obtain i where found: "find (\<lambda>r. ?heap ! r = h) ?refs = Some i"
    using h(1) by (cases "find (\<lambda>r. ?heap ! r = h) ?refs") (auto simp: routers_of_def find_None_iff)
  then have i: "i \<in> set ?refs" "?heap ! i = h" by (auto simp: find_Some_iff)
  then have range: "i < length ?heap" using ok by (simp add: routers_ok_def list_all_iff)
  let ?new = "?heap[i := h\<lparr>Availability := UNAVAILABLE\<rparr>]"
  have p': "p' = p\<lparr>router_heap := ?new\<rparr>" "r = Inr ()" using run found i by (auto simp: mark_unavailable_def modifyP_def)
  have same: "?new ! j = (if j = i then h\<lparr>Availability := UNAVAILABLE\<rparr> else ?heap ! j)" for j using range by (simp add: nth_list_update)
  have "routers_ok p'" using ok i range p'(1) by (auto simp: routers_ok_def list_all_iff nth_list_update)
  moreover have "length (filter (\<lambda>j. Availability (?new ! j) = AVAILABLE) ?refs) < length (filter (\<lambda>j. Availability (?heap ! j) = AVAILABLE) ?refs)"
    by (rule filter_fewer [of ?refs _ _ i]) (use i h(2) same in \<open>auto split: if_splits\<close>)
  then have "available_routers p' < available_routers p" by (simp add: p'(1) available_routers_def routers_of_def filter_map comp_def)
  ultimately show ?thesis using p' by simp
qed

text \<open>How the service answers the strategy of the loop, if it is right: like the highest weight selector.\<close>

definition selects_highest :: "('sv, 'c, 'f) limitless_world \<Rightarrow> bool" where
  "selects_highest w \<longleftrightarrow>
     (\<forall>routers s. \<exists>s'. svc_GetHostInfoByStrategy (lw_api w) WRITER SELECTOR_HIGHEST_WEIGHT routers s = (s', map_sum id Some (HighestWeight_GetHost routers WRITER)))"

lemma select_router_turn:
  assumes sel: "selects_highest w" and ok: "routers_ok p" and some: "\<not> none_available p"
    and run: "select_router w SELECTOR_HIGHEST_WEIGHT p = (p', Inr Again)"
  shows "routers_ok p' \<and> available_routers p' < available_routers p"
proof -
  have roles: "Role h = WRITER" if "h \<in> set (routers_of p)" for h using ok that by (auto simp: routers_ok_def routers_of_def list_all_iff)
  obtain h0 where "h0 \<in> set (routers_of p)" "Availability h0 = AVAILABLE" using some by (auto simp: none_available_def list_all_iff)
  then obtain h where h: "HighestWeight_GetHost (routers_of p) WRITER = Inr h"
    using highest.answers_iff [of "routers_of p" WRITER] roles by (auto simp: is_eligible_def)
  then have mem: "h \<in> set (routers_of p)" "Availability h = AVAILABLE"
    using highest.answer_sound [of "routers_of p" WRITER h] by (auto simp: is_eligible_def)
  obtain s' where "svc_GetHostInfoByStrategy (lw_api w) WRITER SELECTOR_HIGHEST_WEIGHT (routers_of p) (svc p) = (s', Inr (Some h))"
    using sel h unfolding selects_highest_def by (metis map_sum.simps(2))
  then have "connect_router w h (p\<lparr>svc := s'\<rparr>) = (p', Inr Again)"
    using run by (simp add: select_router_def bindP_def getsP_def attempt_def callS_def)
  then obtain p1 where "mark_unavailable h p1 = (p', Inr ())" "\<exists>v. p1 = p\<lparr>svc := v\<rparr>"
    by (auto simp: connect_router_def bindP_Inr_iff attempt_def callS_def getsP_def split: prod.splits sum.splits option.splits go_error.splits if_splits)
  then show ?thesis using mark_unavailable_fewer [of p1 h p' "Inr ()"] ok mem by auto
qed

text \<open>A selection whose connection fails leaves the storage, the clock and the list of routers alone.\<close>

lemma select_router_frame:
  assumes "select_router w strategy p = (p', Inr Again)"
  shows "clock_reads p' = clock_reads p \<and> router_storage p' = router_storage p \<and> ctx_LimitlessRouters (lm_ctx p') = ctx_LimitlessRouters (lm_ctx p)"
proof -
  let ?same = "\<lambda>q. clock_reads q = clock_reads p \<and> router_storage q = router_storage p \<and> ctx_LimitlessRouters (lm_ctx q) = ctx_LimitlessRouters (lm_ctx p)"
  have mark: "keeps ?same (mark_unavailable h)" for h
    unfolding mark_unavailable_def by (rule keeps_modify) (auto split: option.splits)
  have set: "keeps ?same (SetConnection w conn)" for conn
    unfolding SetConnection_def by (intro keeps_rules keeps_calls keeps_modify) simp_all
  have "keeps ?same (connect_router w router)" for router
    unfolding connect_router_def by (intro keeps_rules keeps_calls mark set) simp_all
  then have "keeps ?same (select_router w strategy)"
    unfolding select_router_def by (intro keeps_rules keeps_calls) simp_all
  from keepsD [OF this _ assms] show ?thesis by simp
qed

text \<open>The storage answers the routers that the connection has: it got them there, and no others have been stored since. They
  are read under the cluster id, which does not change, at the next reading of the clock.\<close>

definition own_routers_stored :: "('sv, 'c, 'f) limitless_world \<Rightarrow> string \<Rightarrow> ('sv, 'c, 'z) limitless_state_scheme \<Rightarrow> bool" where
  "own_routers_stored w clusterId p \<longleftrightarrow>
     ctx_LimitlessRouters (lm_ctx p) \<noteq> [] \<and>
     fst (snd (Descriptor_Get (lw_clock w (clock_reads p)) routers_type clusterId (router_storage p))) = Some (ctx_LimitlessRouters (lm_ctx p))"

definition steady_cluster :: "('sv, 'c, 'f) limitless_world \<Rightarrow> string \<Rightarrow> bool" where
  "steady_cluster w clusterId \<longleftrightarrow> (\<forall>s. \<exists>s'. lw_GetClusterId w s = (s', Inr clusterId))"

text \<open>Fetching the routers then finds the same ones, in one try.\<close>

lemma fetch_own_routers:
  assumes "steady_cluster w clusterId" "own_routers_stored w clusterId p" "synchronousGetLimitlessRoutersWithRetry w connect p = (p', Inr ())"
  shows "routers_of p' = routers_of p"
proof -
  let ?rs = "ctx_LimitlessRouters (lm_ctx p)"
  obtain n where run: "get_routers_tries w connect n p = (p', Inr ())"
    using assms(3) by (auto simp: synchronousGetLimitlessRoutersWithRetry_def)
  then obtain m where n: "n = Suc m" by (cases n) auto
  obtain s' where id: "lw_GetClusterId w (svc p) = (s', Inr clusterId)" using assms(1) unfolding steady_cluster_def by blast
  obtain st ev where got: "Descriptor_Get (lw_clock w (clock_reads p)) routers_type clusterId (router_storage p) = (st, Some ?rs, ev)"
    and some: "?rs \<noteq> []"
    using assms(2) unfolding own_routers_stored_def by (metis fst_conv prod.collapse snd_conv)
  let ?p = "p\<lparr>svc := s', clock_reads := Suc (clock_reads p), router_storage := st\<rparr>"
  have "getLimitlessRouters w clusterId (p\<lparr>svc := s'\<rparr>) = (?p, Inr ?rs)"
    using got by (simp add: getLimitlessRouters_def bindP_def nowS_def)
  then have "synchronousGetLimitlessRouter w connect p = (?p, Inr ())"
    using some by (simp add: synchronousGetLimitlessRouter_def bindP_def callS_def id set_routers_def)
  then have "p' = ?p"
    using run some unfolding n by (simp add: bindP_run(1) [OF attempt_run(1)])
  then show ?thesis by (simp add: routers_of_def)
qed

lemma without_router_ends:
  assumes "connect_without_router w connect q = (q', Inr res)"
  shows "res = Connected"
proof (cases "ctx_connection (lm_ctx q)")
  case None
  then obtain q1 r where "(case r of Inr (Some c) \<Rightarrow> bindP (SetConnection w (Some c)) (\<lambda>_. returnP Connected)
      | Inr None \<Rightarrow> failP (ErrorsNew ''LimitlessRouterServiceImpl.unableToConnectNoRoutersAvailable'')
      | Inl err \<Rightarrow> failP (if svc_IsLoginError (lw_api w) err then err
                         else ErrorsNew ''LimitlessRouterServiceImpl.unableToConnectNoRoutersAvailable'')) q1 = (q', Inr res)"
    using assms by (auto simp: connect_without_router_def bindP_Inr_iff getsP_def)
  then show ?thesis by (cases r) (auto simp: bindP_Inr_iff split: option.splits)
qed (use assms in \<open>auto simp: connect_without_router_def bindP_Inr_iff getsP_def\<close>)

text \<open>A turn that goes on has selected a router, whose connection failed: it has used that router up, and has neither read
  the clock nor touched the storage.\<close>

definition retry_state :: "('sv, 'c, 'f) limitless_world \<Rightarrow> string \<Rightarrow> ('sv, 'c, 'z) limitless_state_scheme \<Rightarrow> bool" where
  "retry_state w clusterId p \<longleftrightarrow> routers_ok p \<and> own_routers_stored w clusterId p"

lemma retry_attempt_again:
  assumes "selects_highest w" "steady_cluster w clusterId" "retry_state w clusterId p"
    and run: "retry_attempt w connect p = (p', Inr Again)"
  shows "retry_state w clusterId p' \<and> available_routers p' < available_routers p"
proof (cases "none_available p")
  case True
  then obtain p1 still where fetched: "synchronousGetLimitlessRoutersWithRetry w connect p = (p1, Inr ())" and still: "still = none_available p1"
    and last: "(if still then connect_without_router w connect else select_router w SELECTOR_HIGHEST_WEIGHT) p1 = (p', Inr Again)"
    using run by (auto simp: retry_attempt_def bindP_Inr_iff getsP_def)
  have "none_available p1" using fetch_own_routers [OF assms(2) _ fetched] assms(3) True by (simp add: none_available_def retry_state_def)
  then show ?thesis using last still without_router_ends [of w connect p1 p' Again] by simp
next
  case False
  then have "select_router w SELECTOR_HIGHEST_WEIGHT p = (p', Inr Again)" using run by (auto simp: retry_attempt_def bindP_Inr_iff getsP_def)
  with select_router_turn [OF assms(1) _ False] select_router_frame [of w SELECTOR_HIGHEST_WEIGHT p p'] assms(3) show ?thesis
    by (simp add: retry_state_def own_routers_stored_def)
qed

text \<open>C38: When the service selects routers like the highest weight selector, and the storage has no other routers than those
  the connection was given (the cluster id is known and the stored routers have not expired), the retry loop returns:
  every turn that goes on has used up a router, and when all are used up, the fetch finds the same ones in the storage
  and the loop ends without a router.\<close>

theorem retry_returns:
  fixes p :: "('sv, 'c, 'z) limitless_state_scheme"
  assumes "selects_highest w" "steady_cluster w clusterId" "own_routers_stored w clusterId p" "routers_ok p"
  shows "\<exists>p' r. retryConnectWithLeastLoadedRouters w connect p = Some (p', r)"
proof -
  have "\<exists>r. loopP (retry_turn w connect) () p = Some r"
  proof (rule loopP_returns [where I = "\<lambda>_. retry_state w clusterId" and measure_of = "\<lambda>_. available_routers"])
    fix u and q :: "('sv, 'c, 'z) limitless_state_scheme"
    assume ok: "retry_state w clusterId q"
    obtain q' r where turn: "retry_attempt w connect q = (q', r)" by fastforce
    then show "\<exists>q' r. retry_turn w connect u q = Some (q', r) \<and> (\<forall>a'. r = Inl a' \<longrightarrow> retry_state w clusterId q' \<and> available_routers q' < available_routers q)"
      using retry_attempt_again [OF assms(1,2) ok, of connect q'] by (auto simp: retry_turn_def split: sum.splits established.splits)
  qed (use assms(3,4) in \<open>simp add: retry_state_def\<close>)
  then show ?thesis by (auto simp: retryConnectWithLeastLoadedRouters_def)
qed

text \<open>C39: When a router is available and the service does not select one, with or without an error, the retry loop does not
  return, however few retries are allowed: its counter stays at zero.\<close>

theorem retry_never_gives_up:
  fixes p :: "('sv, 'c, 'z) limitless_state_scheme"
  assumes retries: "0 < max_retries (ctx_Props (lm_ctx p)) LIMITLESS_MAX_CONN_RETRIES" and some: "\<not> none_available p"
    and refuses: "\<And>routers s. \<exists>s' r. svc_GetHostInfoByStrategy (lw_api w) WRITER SELECTOR_HIGHEST_WEIGHT routers s = (s', r) \<and>
                    (r = Inr None \<or> (\<exists>err. r = Inl err \<and> \<not> is_panic err))"
  shows "retryConnectWithLeastLoadedRouters w connect p = None"
proof (rule ccontr)
  assume "retryConnectWithLeastLoadedRouters w connect p \<noteq> None"
  then obtain p' r where run: "loopP (retry_turn w connect) () p = Some (p', r)"
    using retries by (auto simp: retryConnectWithLeastLoadedRouters_def)
  have turn: "\<exists>v. retry_turn w connect u q = Some (q\<lparr>svc := v\<rparr>, Inl ())" if "\<not> none_available q" for u and q :: "('sv, 'c, 'z) limitless_state_scheme"
  proof -
    obtain s' x where "svc_GetHostInfoByStrategy (lw_api w) WRITER SELECTOR_HIGHEST_WEIGHT (routers_of q) (svc q) = (s', x)"
      and "x = Inr None \<or> (\<exists>err. x = Inl err \<and> \<not> is_panic err)" using refuses by blast
    then have "attempt (callS (svc_GetHostInfoByStrategy (lw_api w) WRITER SELECTOR_HIGHEST_WEIGHT (routers_of q))) q = (q\<lparr>svc := s'\<rparr>, Inr x)"
      and "\<forall>h. x \<noteq> Inr (Some h)"
      by (auto simp: attempt_Inr callS_def)
    then have "select_router w SELECTOR_HIGHEST_WEIGHT q = (q\<lparr>svc := s'\<rparr>, Inr Again)"
      by (auto simp: select_router_def bindP_def getsP_def returnP_def split: sum.splits option.splits)
    then show ?thesis using that by (auto simp: retry_turn_def retry_attempt_def bindP_def getsP_def returnP_def)
  qed
  have False
  proof (rule loopP_inv [where I = "\<lambda>_ q. \<not> none_available q" and Q = "\<lambda>_ _. False", OF _ _ run])
    fix u and q q' :: "('sv, 'c, 'z) limitless_state_scheme" and u' r'
    assume q: "\<not> none_available q"
    show "\<not> none_available q'" if "retry_turn w connect u q = Some (q', Inl u')" using turn [OF q, of u] that q by auto
    show False if "retry_turn w connect u q = Some (q', Inr r')" using turn [OF q, of u] that by auto
  qed (rule some)
  then show False .
qed

section \<open>Examples\<close>

definition lab_router :: HostInfo where "lab_router = small_host ''a'' 5 WRITER"

text \<open>A database whose routers refuse connections.\<close>

definition lab_limitless :: "(nat, nat, unit) limitless_world" where
  "lab_limitless =
     \<lparr>lw_api = lab_api\<lparr>svc_GetHostInfoByStrategy := (\<lambda>role _ routers s. (s, map_sum id Some (HighestWeight_GetHost routers role))),
                      svc_Connect := (\<lambda>_ _ s. (s, Inl (ErrorsNew ''refused'')))\<rparr>,
      lw_clock = int, lw_GetClusterId = (\<lambda>s. (s, Inr ''cluster'')), lw_IsDialectLimitless = (\<lambda>_. True),
      lw_Query = (\<lambda>_ _ s. (s, None)), lw_tenths = (\<lambda>_. 5), lw_SetHostWeights = (\<lambda>_ s. s), lw_RegisterMonitorType = (\<lambda>_ s. s),
      lw_RunIfAbsent = (\<lambda>_ _ _ _ s. (s, Inr ()))\<rparr>"

text \<open>The router of the connection is stored at the start.\<close>

definition lab_connection :: "(nat, nat) limitless_state" where
  "lab_connection =
     \<lparr>svc = 0, clock_reads = 1, dns_caches = fresh_state None, router_heap = [lab_router],
      router_storage = fst (Descriptor_Set 0 routers_type ''cluster'' [0] (Descriptor_Register routers_type (NewExpiringStorage False))),
      lm_ctx = NewConnectionContext lab_router NewRWMap None [0], hasRouterService = True\<rparr>"

lemma retry_returns_witness:
  "selects_highest lab_limitless \<and> steady_cluster lab_limitless ''cluster'' \<and> own_routers_stored lab_limitless ''cluster'' lab_connection \<and> routers_ok lab_connection \<and>
   (\<exists>p' r. retryConnectWithLeastLoadedRouters lab_limitless (\<lambda>s. (s, Inr (Some 3))) lab_connection = Some (p', r))"
proof -
  have sel: "selects_highest lab_limitless" by (auto simp: selects_highest_def lab_limitless_def)
  have id: "steady_cluster lab_limitless ''cluster''" by (simp add: steady_cluster_def lab_limitless_def)
  have stored: "own_routers_stored lab_limitless ''cluster'' lab_connection" by code_simp
  have ok: "routers_ok lab_connection"
    by (simp add: routers_ok_def lab_connection_def NewConnectionContext_def lab_router_def small_host_def)
  from retry_returns [OF sel id stored ok] sel id stored ok show ?thesis by blast
qed

lemma retry_never_gives_up_witness:
  "max_retries NewRWMap LIMITLESS_MAX_CONN_RETRIES = 5 \<and>
   retryConnectWithLeastLoadedRouters (lab_limitless\<lparr>lw_api := lab_api\<lparr>svc_GetHostInfoByStrategy := (\<lambda>_ _ _ s. (s, Inl (ErrorsNew ''no selector'')))\<rparr>\<rparr>)
     (\<lambda>s. (s, Inr (Some 3))) lab_connection = None"
proof
  show retries: "max_retries NewRWMap LIMITLESS_MAX_CONN_RETRIES = 5" by code_simp
  have "\<not> none_available lab_connection"
    by (simp add: none_available_def routers_of_def lab_connection_def NewConnectionContext_def lab_router_def small_host_def)
  then show "retryConnectWithLeastLoadedRouters (lab_limitless\<lparr>lw_api := lab_api\<lparr>svc_GetHostInfoByStrategy := (\<lambda>_ _ _ s. (s, Inl (ErrorsNew ''no selector'')))\<rparr>\<rparr>)
     (\<lambda>s. (s, Inr (Some 3))) lab_connection = None"
    using retries by (intro retry_never_gives_up) (simp_all add: lab_connection_def NewConnectionContext_def is_panic_def)
qed

end
