(* ===== verification/Spec2Isabelle.thy ===== *)
theory Spec2Isabelle
  imports Host_Info Expiring_Caches Collections Services Sql_Dialects Session_State Rds_Utils
    Plugin_Manager Wrapper_Properties Dsn_Parser Driver_Dialects Dialect_Manager Topology Plugin_Service Host_Selectors Connection_Providers Topology_Utils
    Rds_Host_List Failover Gdb_Failover Regions Rw_Splitting Host_Monitoring Connection_Tracker Cluster_Monitor
    Bg_Monitor Bg_Plugin Initial_Connection Monitor_Steps Limitless
begin

text \<open>
  Verification of the AWS Advanced Go Wrapper, a driver for Go's \<open>database/sql\<close> that wraps the drivers of PostgreSQL
  (pgx) and MySQL and adds failover, failure monitoring, read/write splitting, blue/green switchover and more to them.

  \<^bold>\<open>The program.\<close> A connection object of \<open>database/sql\<close> hands every call to a plugin manager
  (\<open>awssql/plugin_helpers/plugin_manager.go\<close>), which runs it through the plugins subscribed to the method, each of which
  may act before and after the rest of the pipeline. The plugins work on a plugin service (\<open>plugin_service.go\<close>): the
  current connection and host, the host list, the dialect, the session state. Host lists come from the data source name
  or from the database, which a topology monitor queries in the background; monitors, storage and events are services
  shared by all connections (\<open>awssql/services\<close>). The rest are the tables and parsers these parts use: endpoints, hosts,
  connection properties, data source names, dialects, caches.

  \<^bold>\<open>How Go is modelled.\<close>
  \<^item> A struct is a record, an enumeration a datatype, a method a function that takes the receiver last and returns it
    updated. A pointer that may be nil is an option; a call on a nil pointer is the error \<open>nil_dereference\<close>.
  \<^item> An error is a value of \<open>go_error\<close>; a run-time panic is one of its constructors and is not caught. A message is
    its key in \<open>awssql/resources/en.json\<close>.
  \<^item> A method that changes state and may fail is a \<open>prog\<close> of \<open>Go_Effects\<close>: what was done before an error stays done.
  \<^item> A Go map is an association list with distinct keys, in the order in which the map would be visited; what depends
    on that order, on an unstable sort, on random numbers or on a clock takes these as parameters.
  \<^item> Times and durations are integers (nanoseconds); integers whose overflow matters are wrapped or are words.
  \<^item> Loops are structural recursion; \<open>fun\<close> with a measure where a string is consumed; \<open>star_iter\<close> of \<open>Go_Regexp\<close> is
    bounded by the length of what is left, which is enough since every turn consumes; the replacement of a pattern takes
    one unit of fuel more than the text is long. A loop that waits for a deadline or an event is \<open>loopP\<close> of \<open>Go_Loops\<close>, a
    partial function into options; that such a loop returns is proved from a clock that passes every time (\<open>advancing\<close>),
    that it does not return is the value \<open>None\<close>.
  \<^item> Concurrent goroutines are machines of labelled steps (\<open>Machines\<close>): a step is what a goroutine does between two
    accesses other goroutines can see, or, where the theory says so, a whole turn of its loop. Locks and channels are left
    out where they only make a step atomic.
  \<^item> Code that is not in the repository (drivers, AWS services, the name server) and what is called through an
    interface are parameters, usually fields of a record such as \<open>PluginServiceApi\<close>.

  \<^bold>\<open>The prelude.\<close> \<open>Go_Base\<close> (errors, strings, numbers, slices, maps), \<open>Go_Regexp\<close> (Go's \<open>regexp\<close>), \<open>Go_Effects\<close>
  (programs, what they keep and ensure), \<open>Go_Loops\<close> (loops against a deadline), \<open>Machines\<close> (runs, invariants).

  \<^bold>\<open>The components\<close>, with the code they model and what is shown of it.

  \<^item> \<open>Host_Info\<close>: \<open>awssql/host_info_util\<close>. Hosts, their builder, comparison of host lists.
  \<^item> \<open>Expiring_Caches\<close>: \<open>awssql/utils/cache_map.go\<close>, \<open>expiration_cache.go\<close>, \<open>sliding_expiration_cache.go\<close>. A value is
    returned until it expires and not after; nothing is lost or disposed of twice.
  \<^item> \<open>Collections\<close>: \<open>awssql/utils/rw_map.go\<close>, \<open>rw_queue.go\<close>, \<open>pair.go\<close>. The map acts as a mathematical map, the queue in
    the order of arrival.
  \<^item> \<open>Services\<close>: \<open>awssql/services/storage.go\<close>, \<open>events.go\<close>, \<open>monitor.go\<close> with the descriptors of
    \<open>awssql/driver_infrastructure\<close>. Every monitor started is managed, was stopped or was handed on; reading data keeps
    its monitor alive.
  \<^item> \<open>Sql_Dialects\<close>: \<open>awssql/utils/sql_method_utils.go\<close> and the session statements of the database dialects. What a dialect
    writes to set a piece of session state it recognises again.
  \<^item> \<open>Session_State\<close>: \<open>awssql/driver_infrastructure/session_state*.go\<close>. Carrying the session over to another connection.
  \<^item> \<open>Rds_Utils\<close>: \<open>awssql/utils/rds_utils.go\<close>, \<open>rds_url_type.go\<close>. The patterns of endpoints; the caches do not change the
    answers, and the parts of a standard endpoint are found.
  \<^item> \<open>Plugin_Manager\<close>: \<open>plugin_manager.go\<close>. Whatever was called before, a call runs the subscribed plugins nested in order.
  \<^item> \<open>Wrapper_Properties\<close>, \<open>Dsn_Parser\<close>, \<open>Driver_Dialects\<close>: \<open>awssql/property_util\<close>, \<open>pgx-driver\<close>, \<open>mysql-driver\<close>. The table
    of properties and the types of their values; reading data source names and writing them for the driver, which reads
    the same properties back.
  \<^item> \<open>Dialect_Manager\<close>, \<open>Topology_Utils\<close>: \<open>dialect_manager.go\<close>, \<open>topology_utils.go\<close> and the topology part of the dialects.
    A topology read from the database has each host once and its newest writer first, as the only one.
  \<^item> \<open>Topology\<close>: \<open>topology.go\<close>, \<open>allowed_and_blocked_hosts.go\<close>. The key of a topology says what it compares.
  \<^item> \<open>Plugin_Service\<close>: \<open>plugin_service.go\<close>, \<open>partial_plugin_service.go\<close>. Switching the connection, refreshing the host
    list, the permissions of a custom endpoint.
  \<^item> \<open>Host_Selectors\<close>, \<open>Connection_Providers\<close>: the strategies that choose a host and the providers that connect.
  \<^item> \<open>Rds_Host_List\<close>: the host list providers of clusters and of global databases.
  \<^item> \<open>Cluster_Monitor\<close>, \<open>Monitor_Steps\<close>: \<open>cluster_topology_monitor.go\<close>. The first has the operations and whole turns of the
    monitor and of the goroutines of the hosts; the second cuts the main goroutine at every write that another goroutine
    may come between and is the machine of these steps, which done in a row are the turns. Out of panic mode the monitor has
    a connection on which the writer query said yes, as long as no request to verify and no reset overlaps the installation of
    one; what happens when one does is shown too. A forced refresh returns by its timeout, and hosts it answers are those of
    a topology stored since.
  \<^item> \<open>Service_Api\<close>: the plugin service as plugins see it, as a record, with the modelled service as its instance.
  \<^item> \<open>Failover\<close>, \<open>Gdb_Failover\<close>: \<open>awssql/plugins/failover_plugin.go\<close>, \<open>stale_dns_helper.go\<close>, \<open>gdb_failover_plugin.go\<close>.
    Failover returns, answers connections of the role and region its mode allows, a successful writer failover on the
    modelled service leaves it connected to the host that the refreshed topology calls the writer, and a transaction that was
    open at a failover is reported by every later one.
  \<^item> \<open>Initial_Connection\<close>: \<open>aurora_initial_connection_strategy_plugin.go\<close>. A first connection that is called verified leads
    to an instance of the role of its endpoint, and the loops that look for one begin no attempt after their
    deadline.
  \<^item> \<open>Regions\<close>, \<open>Rw_Splitting\<close>: \<open>awssql/region_util\<close>, \<open>awssql/plugins/read_write_splitting\<close>. Leaving read-only mode makes
    the cached writer connection current again without opening or closing one.
  \<^item> \<open>Host_Monitoring\<close>: \<open>awssql/plugins/efm\<close>. A host is unhealthy exactly when probes have failed for long enough; no
    connection in use drops out of the watch while admissions keep away from the monitor's swap.
  \<^item> \<open>Connection_Tracker\<close>: \<open>awssql/plugins/connection_tracker\<close>, \<open>aurora_connection_tracker.go\<close>. A promotion or demotion
    closes the tracked connections of the instance.
  \<^item> \<open>Bg_Status\<close>, \<open>Bg_Provider\<close>, \<open>Bg_Monitor\<close>, \<open>Bg_Plugin\<close>: \<open>awssql/plugins/bg\<close> and \<open>bg_helpers.go\<close>. The status of a
    switchover, the provider that publishes it, the monitors that feed it, the composed system of both, and the plugin that
    routes connections and methods: methods are held while the switchover is in progress, the phase moves in one
    direction, and no reader sees the completed phase between two updates of the provider.
  \<^item> \<open>Limitless\<close>: \<open>awssql/plugins/limitless\<close>. Transaction routers, their weights and the
    attempts to connect to them: the retry loop returns when failing routers are used up, and does not when none is selected.

  \<^bold>\<open>Interfaces.\<close> The contracts between components are locales, interpreted on the model's definitions: \<open>keyed_store\<close>
  (\<open>RWMap\<close>), \<open>fifo_queue\<close> (\<open>RWQueue\<close>), \<open>expiring_store\<close> (both caches and the storage service), \<open>session_setting\<close> (the five
  statements of a dialect), \<open>host_selection\<close> (the four selectors), \<open>switching_service\<close> (the plugin service under the
  read/write splitting plugin), \<open>kept_by_steps\<close> with its extension \<open>left_alone\<close> (invariants of the topology monitor, at both
  grains, of the blue/green provider and of its system).

  \<^bold>\<open>Simplifications.\<close> Host infos are values: that several lists share a pointer is modelled only where the code relies on
  it. Telemetry contexts and log messages are left out. Floating-point numbers are parsed by parameters. The status a
  blue/green provider stores is a pointer to its own summary: a routing that waits reads the phase through it every time, and
  finds whatever it then says (\<open>bs_live\<close>). An update of the provider is one step; what a reader finds that looks during it is
  stated for its first part only. The turn of a goroutine of a host is one step too. Weak pointers are references into a map
  from which the garbage collector may take.

  \<^bold>\<open>Not modelled.\<close> Telemetry (\<open>awssql/utils/telemetry\<close>, \<open>otlp\<close>, \<open>xray\<close>) and message texts do not feed back into the
  behaviour. The driver objects (\<open>awssql/driver\<close>) pass calls on to the plugin manager; \<open>awssql/services/factory.go\<close> and
  \<open>container.go\<close> wire the services together. The authentication plugins (\<open>iam\<close>, \<open>okta\<close>, \<open>federated-auth\<close>,
  \<open>aws-secrets-manager\<close>, \<open>auth-helpers\<close>) and the monitor of custom endpoints consist of requests to AWS services and
  identity providers through third-party clients; the internal pool rests on channels and timers of the runtime. The simulators, timing plugins, tests, mocks and examples are
  not part of the behaviour. The query helpers of \<open>awssql/utils/utils.go\<close> run on a
  driver connection and are parameters of the components that use them.
\<close>

end
